(* ===== verification/Prelude.thy ===== *)
theory Prelude
  imports Main "HOL-Library.AList"
begin

text \<open>
  Shared vocabulary of the development: results with errors as values, actions that read
  and change an outside world and may fail, the string predicates that the TypeScript code
  writes as regular expressions, and decimal and hexadecimal numerals.

  A JavaScript \<^verbatim>\<open>throw\<close> is the left summand of \<open>'e + 'a\<close>. An \<^verbatim>\<open>await\<close> on code outside
  the program is an action of type \<open>'w \<Rightarrow> ('e + 'a) \<times> 'w\<close>: it reads the world, may change
  it and may fail. A \<^verbatim>\<open>bigint\<close> is an \<open>int\<close>.
\<close>

named_theorems result_simps \<open>rewriting results of sequenced computations\<close>
named_theorems eff_oks \<open>what a normal result tells about the parts of an action\<close>
named_theorems eff_elims \<open>what a successful or failed action tells about its parts\<close>

section \<open>Results\<close>

type_synonym ('e, 'a) result = "'e + 'a"

fun bindR :: "('e, 'a) result \<Rightarrow> ('a \<Rightarrow> ('e, 'b) result) \<Rightarrow> ('e, 'b) result" where
  "bindR (Inl e) f = Inl e"
| "bindR (Inr a) f = f a"

definition assertR :: "bool \<Rightarrow> 'e \<Rightarrow> ('e, unit) result" where
  "assertR c e = (if c then Inr () else Inl e)"

fun mapR :: "('a \<Rightarrow> ('e, 'b) result) \<Rightarrow> 'a list \<Rightarrow> ('e, 'b list) result" where
  "mapR f [] = Inr []"
| "mapR f (x # xs) = bindR (f x) (\<lambda>y. bindR (mapR f xs) (\<lambda>ys. Inr (y # ys)))"

lemma bindR_eq_Inr [result_simps]:
  "bindR m f = Inr b \<longleftrightarrow> (\<exists>a. m = Inr a \<and> f a = Inr b)"
  by (cases m) auto

lemma bindR_eq_Inl [result_simps]:
  "bindR m f = Inl e \<longleftrightarrow> m = Inl e \<or> (\<exists>a. m = Inr a \<and> f a = Inl e)"
  by (cases m) auto

lemma assertR_eq_Inr [result_simps]: "assertR c e = Inr u \<longleftrightarrow> c"
  by (simp add: assertR_def)

lemma assertR_eq_Inl [result_simps]: "assertR c e = Inl e' \<longleftrightarrow> \<not> c \<and> e' = e"
  by (auto simp: assertR_def)

lemma assertR_simps [simp]: "assertR True e = Inr ()" "assertR False e = Inl e"
  by (simp_all add: assertR_def)

lemma mapR_Inr_iff: "mapR f xs = Inr ys \<longleftrightarrow> list_all2 (\<lambda>x y. f x = Inr y) xs ys"
  by (induction xs arbitrary: ys) (auto simp: result_simps list_all2_Cons1)

lemma mapR_length: "mapR f xs = Inr ys \<Longrightarrow> length ys = length xs"
  by (simp add: mapR_Inr_iff list_all2_lengthD)

lemma mapR_nth: "mapR f xs = Inr ys \<Longrightarrow> i < length xs \<Longrightarrow> f (xs ! i) = Inr (ys ! i)"
  by (auto simp: mapR_Inr_iff dest: list_all2_nthD)

section \<open>Actions on a world\<close>

type_synonym ('w, 'e, 'a) eff = "'w \<Rightarrow> ('e + 'a) \<times> 'w"

definition okE :: "'a \<Rightarrow> ('w, 'e, 'a) eff" where
  "okE a = (\<lambda>w. (Inr a, w))"

definition throwE :: "'e \<Rightarrow> ('w, 'e, 'a) eff" where
  "throwE e = (\<lambda>w. (Inl e, w))"

definition bindE :: "('w, 'e, 'a) eff \<Rightarrow> ('a \<Rightarrow> ('w, 'e, 'b) eff) \<Rightarrow> ('w, 'e, 'b) eff" where
  "bindE m f = (\<lambda>w. case m w of (Inl e, w') \<Rightarrow> (Inl e, w') | (Inr a, w') \<Rightarrow> f a w')"

definition assertE :: "bool \<Rightarrow> 'e \<Rightarrow> ('w, 'e, unit) eff" where
  "assertE c e = (if c then okE () else throwE e)"

text \<open>\<^verbatim>\<open>try { m } catch (e) { h(e) }\<close>: the effects of \<open>m\<close> before it failed stay.\<close>

definition catchE :: "('w, 'e, 'a) eff \<Rightarrow> ('e \<Rightarrow> ('w, 'e, 'a) eff) \<Rightarrow> ('w, 'e, 'a) eff" where
  "catchE m h = (\<lambda>w. case m w of (Inl e, w') \<Rightarrow> h e w' | (Inr a, w') \<Rightarrow> (Inr a, w'))"

definition liftR :: "('e, 'a) result \<Rightarrow> ('w, 'e, 'a) eff" where
  "liftR r = (\<lambda>w. (r, w))"

definition getE :: "('w \<Rightarrow> 'a) \<Rightarrow> ('w, 'e, 'a) eff" where
  "getE f = (\<lambda>w. (Inr (f w), w))"

definition modifyE :: "('w \<Rightarrow> 'w) \<Rightarrow> ('w, 'e, unit) eff" where
  "modifyE f = (\<lambda>w. (Inr (), f w))"

lemma okE_eq [eff_elims]: "okE a w = (r, w') \<longleftrightarrow> r = Inr a \<and> w' = w"
  by (auto simp: okE_def)

lemma throwE_eq [eff_elims]: "throwE e w = (r, w') \<longleftrightarrow> r = Inl e \<and> w' = w"
  by (auto simp: throwE_def)

lemma getE_eq [eff_elims]: "getE f w = (r, w') \<longleftrightarrow> r = Inr (f w) \<and> w' = w"
  by (auto simp: getE_def)

lemma liftR_eq [eff_elims]: "liftR x w = (r, w') \<longleftrightarrow> r = x \<and> w' = w"
  by (auto simp: liftR_def)

lemma modifyE_eq [eff_elims]: "modifyE f w = (r, w') \<longleftrightarrow> r = Inr () \<and> w' = f w"
  by (auto simp: modifyE_def)

lemma assertE_eq [eff_elims]:
  "assertE c e w = (r, w') \<longleftrightarrow> r = (if c then Inr () else Inl e) \<and> w' = w"
  by (auto simp: assertE_def okE_def throwE_def)

lemma bindE_eq [eff_elims]:
  "bindE m f w = (r, w') \<longleftrightarrow>
     (\<exists>e. m w = (Inl e, w') \<and> r = Inl e) \<or> (\<exists>a w1. m w = (Inr a, w1) \<and> f a w1 = (r, w'))"
  by (auto simp: bindE_def split: prod.splits sum.splits)

lemma catchE_eq [eff_elims]:
  "catchE m h w = (r, w') \<longleftrightarrow>
     (\<exists>e w1. m w = (Inl e, w1) \<and> h e w1 = (r, w')) \<or> (\<exists>a. m w = (Inr a, w') \<and> r = Inr a)"
  by (auto simp: catchE_def split: prod.splits sum.splits)

text \<open>The runs of an action that end normally, for forward reasoning from a result.\<close>

lemma eff_ok [eff_oks]:
  "okE a w = (Inr b, w') \<longleftrightarrow> b = a \<and> w' = w"
  "throwE e w = (Inr b, w') \<longleftrightarrow> False"
  "getE f w = (Inr b, w') \<longleftrightarrow> b = f w \<and> w' = w"
  "liftR x w = (Inr b, w') \<longleftrightarrow> x = Inr b \<and> w' = w"
  "modifyE g w = (Inr u, w') \<longleftrightarrow> w' = g w"
  "assertE c e w = (Inr u, w') \<longleftrightarrow> c \<and> w' = w"
  by (auto simp: eff_elims)

lemma bindE_okE:
  assumes "bindE m f w = (Inr b, w')"
  obtains a w1 where "m w = (Inr a, w1)" "f a w1 = (Inr b, w')"
  using assms by (auto simp: eff_elims)

text \<open>Evaluation of an action on a world.\<close>

lemma eff_run:
  "okE a w = (Inr a, w)" "throwE e w = (Inl e, w)" "getE g w = (Inr (g w), w)" "liftR x w = (x, w)"
  "modifyE h w = (Inr (), h w)" "assertE c e w = (if c then (Inr (), w) else (Inl e, w))"
  "bindE m f w = (case m w of (Inl e, w') \<Rightarrow> (Inl e, w') | (Inr a, w') \<Rightarrow> f a w')"
  "catchE m k w = (case m w of (Inl e, w') \<Rightarrow> k e w' | (Inr a, w') \<Rightarrow> (Inr a, w'))"
  by (simp_all add: okE_def throwE_def getE_def liftR_def modifyE_def assertE_def bindE_def catchE_def)

text \<open>Case analysis on a run; \<open>eff_pure\<close> evaluates the steps that cannot fail unnoticed.\<close>

lemma bindE_E:
  assumes "bindE m f w = (r, w')"
  obtains e where "m w = (Inl e, w')" "r = Inl e" | a w1 where "m w = (Inr a, w1)" "f a w1 = (r, w')"
  using assms by (auto simp: eff_elims)

lemmas eff_pure = okE_eq throwE_eq getE_eq liftR_eq modifyE_eq assertE_eq

lemmas eff_defs = okE_def throwE_def bindE_def assertE_def catchE_def liftR_def getE_def modifyE_def

text \<open>
  An action keeps a property of the world if the property holds after it whenever it held
  before, whatever the action returns; keeping is closed under the sequencing operations.
\<close>

definition keeps :: "('w \<Rightarrow> 'w \<Rightarrow> bool) \<Rightarrow> ('w, 'e, 'a) eff \<Rightarrow> bool" where
  "keeps R m \<longleftrightarrow> (\<forall>w r w'. m w = (r, w') \<longrightarrow> R w w')"

definition preorder_on_worlds :: "('w \<Rightarrow> 'w \<Rightarrow> bool) \<Rightarrow> bool" where
  "preorder_on_worlds R \<longleftrightarrow> reflp R \<and> transp R"

lemma keepsD: "keeps R m \<Longrightarrow> m w = (r, w') \<Longrightarrow> R w w'"
  by (simp add: keeps_def)

lemma keeps_pure [intro!]:
  assumes "preorder_on_worlds R"
  shows "keeps R (okE a)" "keeps R (throwE e)" "keeps R (getE f)" "keeps R (liftR x)"
    "keeps R (assertE c e)"
  using assms by (auto simp: keeps_def eff_elims preorder_on_worlds_def reflp_def)

lemma keeps_bindE [intro!]:
  assumes "preorder_on_worlds R" "keeps R m" "\<And>a. keeps R (f a)"
  shows "keeps R (bindE m f)"
  using assms by (fastforce simp: keeps_def eff_elims preorder_on_worlds_def dest: transpD)

lemma keeps_catchE [intro!]:
  assumes "preorder_on_worlds R" "keeps R m" "\<And>e. keeps R (h e)"
  shows "keeps R (catchE m h)"
  using assms by (fastforce simp: keeps_def eff_elims preorder_on_worlds_def dest: transpD)

section \<open>Association lists as JavaScript maps\<close>

lemma map_of_update [simp]: "map_of (AList.update k v al) = (map_of al)(k \<mapsto> v)"
  by (rule update_conv')

lemma map_of_SomeD_ran: "map_of al k = Some v \<Longrightarrow> v \<in> set (map snd al)"
  by (force dest: map_of_SomeD)

lemma find_SomeD: "List.find P xs = Some x \<Longrightarrow> x \<in> set xs \<and> P x"
  by (auto simp: find_Some_iff)

section \<open>Characters and tokens\<close>

definition is_digit :: "char \<Rightarrow> bool" where
  "is_digit c \<longleftrightarrow> 48 \<le> (of_char c :: nat) \<and> (of_char c :: nat) \<le> 57"

definition is_lower_hex :: "char \<Rightarrow> bool" where
  "is_lower_hex c \<longleftrightarrow> is_digit c \<or> (97 \<le> (of_char c :: nat) \<and> (of_char c :: nat) \<le> 102)"

definition is_alnum :: "char \<Rightarrow> bool" where
  "is_alnum c \<longleftrightarrow> is_digit c \<or> (65 \<le> (of_char c :: nat) \<and> (of_char c :: nat) \<le> 90)
     \<or> (97 \<le> (of_char c :: nat) \<and> (of_char c :: nat) \<le> 122)"

text \<open>The character class \<^verbatim>\<open>[A-Za-z0-9._:/@+-]\<close> of request identifiers and signed tokens.\<close>

definition is_token_char :: "char \<Rightarrow> bool" where
  "is_token_char c \<longleftrightarrow> is_alnum c \<or> c \<in> set ''._:/@+-''"

text \<open>\<^verbatim>\<open>/^[A-Za-z0-9._:/@+-]{1,128}$/\<close>\<close>

definition is_token :: "string \<Rightarrow> bool" where
  "is_token s \<longleftrightarrow> s \<noteq> [] \<and> length s \<le> 128 \<and> list_all is_token_char s"

text \<open>\<^verbatim>\<open>/^0x[0-9a-f]{64}$/\<close>\<close>

definition is_hex64 :: "string \<Rightarrow> bool" where
  "is_hex64 s \<longleftrightarrow> length s = 64 \<and> list_all is_lower_hex s"

definition is_object_id :: "string \<Rightarrow> bool" where
  "is_object_id s \<longleftrightarrow> take 2 s = ''0x'' \<and> is_hex64 (drop 2 s)"

section \<open>Decimal numerals\<close>

definition digit_val :: "char \<Rightarrow> nat" where
  "digit_val c = of_char c - 48"

definition digit_char :: "nat \<Rightarrow> char" where
  "digit_char d = char_of (d + 48)"

text \<open>\<^verbatim>\<open>BigInt(s)\<close> on a string of decimal digits.\<close>

definition dec_value :: "string \<Rightarrow> int" where
  "dec_value s = int (foldl (\<lambda>a c. a * 10 + digit_val c) 0 s)"

fun dec_digits :: "nat \<Rightarrow> string" where
  "dec_digits n = (if n < 10 then [digit_char n] else dec_digits (n div 10) @ [digit_char (n mod 10)])"

declare dec_digits.simps [simp del]

text \<open>\<^verbatim>\<open>value.toString()\<close> of a bigint.\<close>

definition dec_string :: "int \<Rightarrow> string" where
  "dec_string i = (if i < 0 then CHR ''-'' # dec_digits (nat (- i)) else dec_digits (nat i))"

text \<open>\<^verbatim>\<open>/^(0|[1-9][0-9]*)$/\<close>\<close>

definition is_decimal :: "string \<Rightarrow> bool" where
  "is_decimal s \<longleftrightarrow> s = ''0'' \<or> (s \<noteq> [] \<and> list_all is_digit s \<and> hd s \<noteq> CHR ''0'')"

lemma digit_char_val [simp]: "d < 10 \<Longrightarrow> digit_val (digit_char d) = d"
  by (simp add: digit_val_def digit_char_def)

lemma digit_char_eq_zero [simp]: "d < 10 \<Longrightarrow> digit_char d = CHR ''0'' \<longleftrightarrow> d = 0"
proof -
  assume d: "d < 10"
  have z: "digit_char 0 = CHR ''0''" by code_simp
  show ?thesis
  proof
    assume "digit_char d = CHR ''0''"
    then have "digit_val (digit_char d) = digit_val (digit_char 0)" by (simp add: z)
    with d show "d = 0" by simp
  qed (simp add: z)
qed

lemma is_digit_digit_char [simp]: "d < 10 \<Longrightarrow> is_digit (digit_char d)"
  by (simp add: is_digit_def digit_char_def)

lemma dec_value_snoc: "dec_value (s @ [c]) = dec_value s * 10 + int (digit_val c)"
  by (simp add: dec_value_def)

lemma dec_value_nonneg [simp]: "0 \<le> dec_value s"
  by (simp add: dec_value_def)

lemma dec_digits_nonempty [simp]: "dec_digits n \<noteq> []"
  by (subst dec_digits.simps) simp

lemma dec_value_dec_digits: "dec_value (dec_digits n) = int n"
proof (induction n rule: dec_digits.induct)
  case (1 n)
  show ?case
  proof (cases "n < 10")
    case True
    then show ?thesis by (subst dec_digits.simps) (simp add: dec_value_def)
  next
    case False
    with 1 have "dec_value (dec_digits (n div 10)) = int (n div 10)" by simp
    moreover have "int (n div 10) * 10 + int (n mod 10) = int n" by presburger
    ultimately show ?thesis
      using False by (subst dec_digits.simps) (simp add: dec_value_snoc)
  qed
qed

text \<open>Both conversions compute on integers, so that large amounts evaluate.\<close>

definition int_digits :: "int \<Rightarrow> string" where
  "int_digits i = dec_digits (nat i)"

lemma int_digits_code [code]:
  "int_digits i = (if i < 10 then [digit_char (nat i)] else int_digits (i div 10) @ [digit_char (nat (i mod 10))])"
proof (cases "i < 10")
  case True
  then show ?thesis by (simp add: int_digits_def dec_digits.simps [of "nat i"] nat_less_iff)
next
  case False
  then show ?thesis
    by (simp add: int_digits_def dec_digits.simps [of "nat i"] nat_div_distrib nat_mod_distrib nat_less_iff)
qed

lemma dec_string_code [code]: "dec_string i = (if i < 0 then CHR ''-'' # int_digits (- i) else int_digits i)"
  by (simp add: dec_string_def int_digits_def)

lemma int_foldl_digits: "int (foldl (\<lambda>a c. a * 10 + digit_val c) n s) = foldl (\<lambda>a c. a * 10 + int (digit_val c)) (int n) s"
  by (induction s arbitrary: n) simp_all

lemma dec_value_code [code]: "dec_value s = foldl (\<lambda>a c. a * 10 + int (digit_val c)) 0 s"
  by (simp add: dec_value_def int_foldl_digits)

lemma dec_value_dec_string [simp]: "0 \<le> i \<Longrightarrow> dec_value (dec_string i) = i"
  by (simp add: dec_string_def dec_value_dec_digits)

lemma dec_digits_hd: "0 < n \<Longrightarrow> hd (dec_digits n) \<noteq> CHR ''0'' \<and> list_all is_digit (dec_digits n)"
proof (induction n rule: dec_digits.induct)
  case (1 n)
  show ?case
  proof (cases "n < 10")
    case True
    then have "dec_digits n = [digit_char n]" by (subst dec_digits.simps) simp
    with True 1 show ?thesis by simp
  next
    case False
    with 1 have "hd (dec_digits (n div 10)) \<noteq> CHR ''0'' \<and> list_all is_digit (dec_digits (n div 10))" by simp
    moreover from False have "dec_digits n = dec_digits (n div 10) @ [digit_char (n mod 10)]"
      by (subst dec_digits.simps) simp
    ultimately show ?thesis by (simp add: hd_append)
  qed
qed

lemma is_decimal_dec_string [simp]: "0 \<le> i \<Longrightarrow> is_decimal (dec_string i)"
proof (cases "i = 0")
  case True
  then show ?thesis
    by (simp add: is_decimal_def dec_string_def dec_digits.simps)
next
  case False
  moreover assume "0 \<le> i"
  ultimately show ?thesis
    using dec_digits_hd [of "nat i"] by (simp add: is_decimal_def dec_string_def)
qed

lemma dec_string_inj: "0 \<le> i \<Longrightarrow> 0 \<le> j \<Longrightarrow> dec_string i = dec_string j \<longleftrightarrow> i = j"
  by (metis dec_value_dec_string)

end
