(* ===== verification/Gateway.thy ===== *)
theory Gateway
  imports Prelude
begin

text \<open>
  The gateway that hosts report to, \<^verbatim>\<open>runtime/fractalmind-envd/gateway/src\<close>: the registry of
  connected hosts and the table of pending commands of \<^verbatim>\<open>SentinelManager\<close>
  (\<^verbatim>\<open>sentinel-manager.ts\<close>), and the answers of the HTTP routes (\<^verbatim>\<open>routes.ts\<close>).

  A JavaScript \<^verbatim>\<open>Map\<close> is an association list in insertion order. A WebSocket is its index in
  \<open>gw_conns\<close>; the variables \<^verbatim>\<open>tempId\<close> and \<^verbatim>\<open>sentinelId\<close> captured by its handlers are the fields
  \<open>c_temp\<close> and \<open>c_id\<close>. Random identifiers and times are arguments.
\<close>

section \<open>Data\<close>

record agent_info =
  ai_id :: string
  ai_session :: string
  ai_status :: string
  ai_started_at :: "string option"

record system_info =
  si_os :: string
  si_arch :: string
  si_num_cpu :: int

record sentinel_info =
  s_id :: string
  s_hostId :: "string option"
  s_hostname :: "string option"
  s_version :: "string option"
  s_ws :: nat
  s_connectedAt :: int
  s_lastHeartbeat :: "int option"
  s_agents :: "agent_info list"
  s_system :: "system_info option"
  s_uptimeSeconds :: int

record command_request =
  cr_command :: string
  cr_agent_id :: "string option"
  cr_args :: "string option"
  cr_request_id :: string

text \<open>
  Messages of a host. \<open>WInvalid\<close> is data that is not JSON or whose handling throws (such as a
  null payload): the handler logs it and drops it.
\<close>

datatype ws_message =
    WRegister "string option" "string option" "string option"
  | WHeartbeat "agent_info list option" "system_info option" "int option"
  | WCommandResult string string
  | WAlert string string
  | WPong
  | WUnknown string
  | WInvalid

record connection =
  c_temp :: string
  c_id :: string
  c_open :: bool

text \<open>How the promise of a command settles.\<close>

datatype command_reply = Resolved string | TimedOut

record gateway =
  gw_sentinels :: "(string \<times> sentinel_info) list"
  gw_conns :: "connection list"
  gw_pending :: "(string \<times> nat) list"
  gw_replies :: "(nat \<times> command_reply) list"
  gw_sent :: "(nat \<times> command_request) list"

definition empty_gateway :: gateway where
  "empty_gateway = \<lparr>gw_sentinels = [], gw_conns = [], gw_pending = [], gw_replies = [], gw_sent = []\<rparr>"

section \<open>Operations of the manager\<close>

definition getSentinels :: "gateway \<Rightarrow> sentinel_info list" where
  "getSentinels g = map snd (gw_sentinels g)"

definition getSentinel :: "gateway \<Rightarrow> string \<Rightarrow> sentinel_info option" where
  "getSentinel g i = map_of (gw_sentinels g) i"

definition findByHostname :: "gateway \<Rightarrow> string \<Rightarrow> sentinel_info option" where
  "findByHostname g hostname = List.find (\<lambda>s. s_hostname s = Some hostname) (getSentinels g)"

text \<open>\<^verbatim>\<open>a || b || c\<close> on strings: the empty string and \<^verbatim>\<open>undefined\<close> are skipped.\<close>

fun or_else :: "string option \<Rightarrow> string \<Rightarrow> string" where
  "or_else None d = d"
| "or_else (Some s) d = (if s = [] then d else s)"

definition handleMessage :: "int \<Rightarrow> string \<Rightarrow> nat \<Rightarrow> ws_message \<Rightarrow> gateway \<Rightarrow> gateway" where
  "handleMessage now sentinelId ws msg g =
    (case msg of
       WRegister host_id hostname version \<Rightarrow>
         (let i = or_else host_id (or_else hostname sentinelId) in
          g\<lparr>gw_sentinels := AList.update i
              \<lparr>s_id = i, s_hostId = host_id, s_hostname = hostname, s_version = version, s_ws = ws,
               s_connectedAt = now, s_lastHeartbeat = None, s_agents = [], s_system = None,
               s_uptimeSeconds = 0\<rparr> (gw_sentinels g)\<rparr>)
     | WHeartbeat agents system uptime \<Rightarrow>
         (case map_of (gw_sentinels g) sentinelId of
            None \<Rightarrow> g
          | Some s \<Rightarrow> g\<lparr>gw_sentinels := AList.update sentinelId
              (s\<lparr>s_lastHeartbeat := Some now, s_agents := (case agents of None \<Rightarrow> [] | Some a \<Rightarrow> a),
                 s_system := system, s_uptimeSeconds := (case uptime of None \<Rightarrow> 0 | Some u \<Rightarrow> u)\<rparr>)
              (gw_sentinels g)\<rparr>)
     | WCommandResult request_id result \<Rightarrow>
         (case map_of (gw_pending g) request_id of
            None \<Rightarrow> g
          | Some caller \<Rightarrow> g\<lparr>gw_replies := gw_replies g @ [(caller, Resolved result)],
                               gw_pending := AList.delete request_id (gw_pending g)\<rparr>)
     | _ \<Rightarrow> g)"

text \<open>The handlers that \<^verbatim>\<open>handleConnection\<close> installs.\<close>

definition handleConnection :: "string \<Rightarrow> gateway \<Rightarrow> gateway" where
  "handleConnection tempId g = g\<lparr>gw_conns := gw_conns g @ [\<lparr>c_temp = tempId, c_id = tempId, c_open = True\<rparr>]\<rparr>"

definition on_message :: "int \<Rightarrow> nat \<Rightarrow> ws_message \<Rightarrow> gateway \<Rightarrow> gateway" where
  "on_message now ws msg g =
    (let c = gw_conns g ! ws;
         g' = handleMessage now (c_id c) ws msg g in
     case msg of
       WRegister host_id hostname version \<Rightarrow>
         (let newId = or_else host_id (or_else hostname (c_temp c)) in
          if newId \<noteq> c_id c
          then g'\<lparr>gw_sentinels := AList.delete (c_id c) (gw_sentinels g'),
                  gw_conns := (gw_conns g')[ws := c\<lparr>c_id := newId\<rparr>]\<rparr>
          else g')
     | _ \<Rightarrow> g')"

definition on_close :: "nat \<Rightarrow> gateway \<Rightarrow> gateway" where
  "on_close ws g = g\<lparr>gw_sentinels := AList.delete (c_id (gw_conns g ! ws)) (gw_sentinels g),
     gw_conns := (gw_conns g)[ws := (gw_conns g ! ws)\<lparr>c_open := False\<rparr>]\<rparr>"

datatype command_error = SentinelNotFound | SentinelNotConnected

text \<open>\<open>caller\<close> is the promise returned; \<open>requestId\<close> the fresh identifier.\<close>

definition sendCommand :: "string \<Rightarrow> nat \<Rightarrow> string \<Rightarrow> string \<Rightarrow> string option \<Rightarrow> string option
    \<Rightarrow> gateway \<Rightarrow> (command_error, gateway) result" where
  "sendCommand requestId caller sentinelId command agentId args g =
    (case map_of (gw_sentinels g) sentinelId of
       None \<Rightarrow> Inl SentinelNotFound
     | Some s \<Rightarrow>
         bindR (assertR (c_open (gw_conns g ! s_ws s)) SentinelNotConnected) (\<lambda>_.
         Inr (g\<lparr>gw_pending := AList.update requestId caller (gw_pending g),
                gw_sent := gw_sent g @ [(s_ws s, \<lparr>cr_command = command, cr_agent_id = agentId, cr_args = args,
                                                 cr_request_id = requestId\<rparr>)]\<rparr>)))"

text \<open>The timer of a command; it is cleared when the command is answered.\<close>

definition on_timeout :: "string \<Rightarrow> gateway \<Rightarrow> gateway" where
  "on_timeout requestId g =
    (case map_of (gw_pending g) requestId of
       None \<Rightarrow> g
     | Some caller \<Rightarrow> g\<lparr>gw_pending := AList.delete requestId (gw_pending g),
                          gw_replies := gw_replies g @ [(caller, TimedOut)]\<rparr>)"

section \<open>The routes\<close>

datatype command_answer = Http404 | Http400 | Http500 command_error | Waiting gateway

definition route_sentinel :: "gateway \<Rightarrow> string \<Rightarrow> sentinel_info option" where
  "route_sentinel g i = (case getSentinel g i of Some s \<Rightarrow> Some s | None \<Rightarrow> findByHostname g i)"

record sentinel_row =
  row_id :: string
  row_host_id :: "string option"
  row_hostname :: "string option"
  row_version :: "string option"
  row_connected_at :: int
  row_last_heartbeat :: "int option"
  row_agent_count :: nat
  row_uptime_seconds :: int
  row_system :: "system_info option"

definition route_list :: "gateway \<Rightarrow> sentinel_row list \<times> nat" where
  "route_list g =
    (let sentinels = map (\<lambda>s. \<lparr>row_id = s_id s, row_host_id = s_hostId s, row_hostname = s_hostname s,
            row_version = s_version s, row_connected_at = s_connectedAt s, row_last_heartbeat = s_lastHeartbeat s,
            row_agent_count = length (s_agents s), row_uptime_seconds = s_uptimeSeconds s,
            row_system = s_system s\<rparr>) (getSentinels g) in
     (sentinels, length sentinels))"

definition route_agents :: "gateway \<Rightarrow> string \<Rightarrow> (agent_info list \<times> nat) option" where
  "route_agents g i = map_option (\<lambda>s. (s_agents s, length (s_agents s))) (route_sentinel g i)"

definition route_command :: "string \<Rightarrow> nat \<Rightarrow> string \<Rightarrow> string option \<Rightarrow> string option \<Rightarrow> string option
    \<Rightarrow> gateway \<Rightarrow> command_answer" where
  "route_command requestId caller i command agent_id args g =
    (case route_sentinel g i of
       None \<Rightarrow> Http404
     | Some s \<Rightarrow>
         (if command = None \<or> command = Some [] then Http400
          else case sendCommand requestId caller (s_id s) (the command) agent_id args g of
                 Inl e \<Rightarrow> Http500 e
               | Inr g' \<Rightarrow> Waiting g'))"

definition route_health :: "gateway \<Rightarrow> nat \<times> nat" where
  "route_health g = (length (getSentinels g), sum_list (map (\<lambda>s. length (s_agents s)) (getSentinels g)))"

section \<open>Runs\<close>

text \<open>
  The events of a gateway. Only an open connection delivers messages and closes; a command
  carries an identifier that no pending command has and a caller that never called before.
\<close>

inductive gw_step :: "gateway \<Rightarrow> gateway \<Rightarrow> bool" where
  connect: "gw_step g (handleConnection t g)"
| message: "ws < length (gw_conns g) \<Longrightarrow> c_open (gw_conns g ! ws) \<Longrightarrow> gw_step g (on_message now ws msg g)"
| close: "ws < length (gw_conns g) \<Longrightarrow> c_open (gw_conns g ! ws) \<Longrightarrow> gw_step g (on_close ws g)"
| command: "rid \<notin> fst ` set (gw_pending g) \<Longrightarrow> caller \<notin> snd ` set (gw_pending g) \<union> fst ` set (gw_replies g)
    \<Longrightarrow> route_command rid caller i cmd agent args g = Waiting g' \<Longrightarrow> gw_step g g'"
| timeout: "gw_step g (on_timeout rid g)"

inductive gw_reachable :: "gateway \<Rightarrow> bool" where
  start: "gw_reachable empty_gateway"
| step: "gw_reachable g \<Longrightarrow> gw_step g g' \<Longrightarrow> gw_reachable g'"

text \<open>
  The registry: one row per key, stored under its own id, belonging to a connection that was
  made. The commands: one row per identifier, and each caller is either waiting once or
  answered once.
\<close>

definition registry_ok :: "gateway \<Rightarrow> bool" where
  "registry_ok g \<longleftrightarrow> distinct (map fst (gw_sentinels g))
     \<and> (\<forall>k s. map_of (gw_sentinels g) k = Some s \<longrightarrow> s_id s = k \<and> s_ws s < length (gw_conns g))"

definition commands_ok :: "gateway \<Rightarrow> bool" where
  "commands_ok g \<longleftrightarrow> distinct (map fst (gw_pending g))
     \<and> distinct (map snd (gw_pending g) @ map fst (gw_replies g))"

lemma registry_update:
  assumes "registry_ok g" "s_id s = k" "s_ws s < length (gw_conns g)"
  shows "registry_ok (g\<lparr>gw_sentinels := AList.update k s (gw_sentinels g)\<rparr>)"
  using assms by (simp add: registry_ok_def distinct_update)

lemma registry_delete:
  assumes "registry_ok g" "length (gw_conns g) \<le> length cs"
  shows "registry_ok (g\<lparr>gw_sentinels := AList.delete k (gw_sentinels g), gw_conns := cs\<rparr>)"
  using assms by (force simp: registry_ok_def distinct_delete delete_conv')

lemma handleMessage_registry:
  assumes "registry_ok g" "ws < length (gw_conns g)"
  shows "registry_ok (handleMessage now i ws msg g)"
proof (cases msg)
  case (WRegister h n v)
  then show ?thesis using assms by (auto simp: handleMessage_def Let_def intro!: registry_update)
next
  case (WHeartbeat a sys u)
  then show ?thesis
    using assms by (auto simp: handleMessage_def intro!: registry_update split: option.split) (auto simp: registry_ok_def)
qed (use assms in \<open>auto simp: handleMessage_def registry_ok_def split: option.split\<close>)

lemma handleMessage_conns [simp]: "gw_conns (handleMessage now i ws msg g) = gw_conns g"
  by (simp add: handleMessage_def Let_def split: ws_message.split option.split)

lemma on_message_registry:
  assumes "registry_ok g" "ws < length (gw_conns g)"
  shows "registry_ok (on_message now ws msg g)"
  using handleMessage_registry [OF assms]
  by (auto simp: on_message_def Let_def split: ws_message.split intro!: registry_delete)

lemma update_fresh: "k \<notin> fst ` set xs \<Longrightarrow> AList.update k v xs = xs @ [(k, v)]"
  by (induction xs) auto

lemma delete_value:
  assumes "distinct (map snd xs)" "map_of xs k = Some v"
  shows "v \<notin> snd ` set (AList.delete k xs)"
proof
  assume "v \<in> snd ` set (AList.delete k xs)"
  then obtain k' where "(k', v) \<in> set xs" "k' \<noteq> k" by (auto simp: AList.delete_eq)
  moreover have "(k, v) \<in> set xs" "inj_on snd (set xs)" using assms by (auto simp: distinct_map map_of_SomeD)
  ultimately show False using inj_onD [of snd "set xs" "(k', v)" "(k, v)"] by simp
qed

lemma distinct_snd_delete: "distinct (map snd xs) \<Longrightarrow> distinct (map snd (AList.delete k xs))"
  by (simp add: AList.delete_eq distinct_map_filter)

lemma commands_settle:
  assumes "commands_ok g" "map_of (gw_pending g) rid = Some caller"
  shows "commands_ok (g\<lparr>gw_replies := gw_replies g @ [(caller, r)], gw_pending := AList.delete rid (gw_pending g)\<rparr>)"
proof -
  have "caller \<in> snd ` set (gw_pending g)" using map_of_SomeD [OF assms(2)] by force
  then have "caller \<notin> fst ` set (gw_replies g)" using assms(1) by (auto simp: commands_ok_def)
  moreover have "snd ` set (AList.delete rid (gw_pending g)) \<subseteq> snd ` set (gw_pending g)"
    by (auto simp: AList.delete_eq)
  moreover have "snd ` set (gw_pending g) \<inter> fst ` set (gw_replies g) = {}"
    using assms(1) by (simp add: commands_ok_def)
  ultimately have "snd ` set (AList.delete rid (gw_pending g)) \<inter> fst ` set (gw_replies g) = {}" by blast
  then show ?thesis
    using assms delete_value [of "gw_pending g" rid caller] \<open>caller \<notin> fst ` set (gw_replies g)\<close>
    by (simp add: commands_ok_def distinct_delete distinct_snd_delete)
qed

lemma handleMessage_commands: "commands_ok g \<Longrightarrow> commands_ok (handleMessage now i ws msg g)"
  by (auto simp: handleMessage_def Let_def commands_settle split: ws_message.split option.split)
    (simp_all add: commands_ok_def)

lemma commands_ok_cong:
  "gw_pending g' = gw_pending g \<Longrightarrow> gw_replies g' = gw_replies g \<Longrightarrow> commands_ok g' = commands_ok g"
  by (simp add: commands_ok_def)

lemma on_message_commands: "commands_ok g \<Longrightarrow> commands_ok (on_message now ws msg g)"
  using handleMessage_commands [of g now "c_id (gw_conns g ! ws)" ws msg]
  by (auto simp: on_message_def Let_def commands_ok_def split: ws_message.split)

lemma on_timeout_commands: "commands_ok g \<Longrightarrow> commands_ok (on_timeout rid g)"
  using commands_settle [of g rid _ TimedOut]
  by (auto simp: on_timeout_def commands_ok_def split: option.split)

lemma route_command_cases:
  assumes "route_command rid caller i cmd agent args g = Waiting g'"
  obtains s s' where "route_sentinel g i = Some s" "map_of (gw_sentinels g) (s_id s) = Some s'"
    "c_open (gw_conns g ! s_ws s')"
    "g' = g\<lparr>gw_pending := AList.update rid caller (gw_pending g), gw_sent := gw_sent g @ [(s_ws s',
      \<lparr>cr_command = the cmd, cr_agent_id = agent, cr_args = args, cr_request_id = rid\<rparr>)]\<rparr>"
  using assms
  by (auto simp: route_command_def sendCommand_def result_simps split: option.split_asm if_split_asm sum.split_asm)

lemma gw_step_ok: "gw_step g g' \<Longrightarrow> registry_ok g \<and> commands_ok g \<Longrightarrow> registry_ok g' \<and> commands_ok g'"
proof (induction rule: gw_step.induct)
  case (connect g t)
  then have "registry_ok (handleConnection t g)" by (force simp: handleConnection_def registry_ok_def)
  then show ?case using connect by (simp add: handleConnection_def commands_ok_def)
next
  case (message ws g now msg)
  then show ?case by (simp add: on_message_registry on_message_commands)
next
  case (close ws g)
  then show ?case by (simp add: on_close_def registry_delete) (simp add: commands_ok_def)
next
  case (command rid g caller i cmd agent args g')
  from command.hyps(3) command.prems command.hyps(1,2) show ?case
    by (elim route_command_cases) (simp add: registry_ok_def commands_ok_def update_fresh)
next
  case (timeout g rid)
  then have "registry_ok (on_timeout rid g)" by (auto simp: on_timeout_def registry_ok_def split: option.split)
  then show ?case using timeout by (simp add: on_timeout_commands)
qed

lemma gw_reachable_ok: "gw_reachable g \<Longrightarrow> registry_ok g \<and> commands_ok g"
proof (induction rule: gw_reachable.induct)
  case start
  show ?case by (simp add: empty_gateway_def registry_ok_def commands_ok_def)
next
  case (step g g')
  then show ?case using gw_step_ok by blast
qed

section \<open>Properties\<close>

text \<open>
  C8. Every command is answered at most once: in every reachable state no caller has two answers, a
  caller that is still waiting has none, and no two pending commands share an identifier.
\<close>

theorem command_answered_once:
  assumes "gw_reachable g"
  shows "distinct (map fst (gw_replies g)) \<and> distinct (map fst (gw_pending g))
    \<and> fst ` set (gw_replies g) \<inter> snd ` set (gw_pending g) = {}"
  using gw_reachable_ok [OF assms] by (simp add: commands_ok_def Int_commute)

text \<open>A host connects and registers, is sent a command, answers it, and the timer fires too late.\<close>

definition gw_sample :: gateway where
  "gw_sample = on_message 1 0 (WRegister (Some ''h1'') (Some ''mac'') (Some ''1'')) (handleConnection ''temp-1'' empty_gateway)"

definition gw_sample_waiting :: gateway where
  "gw_sample_waiting = (case route_command ''r1'' 0 ''mac'' (Some ''status'') None None gw_sample of Waiting g \<Rightarrow> g | _ \<Rightarrow> gw_sample)"

definition gw_sample_done :: gateway where
  "gw_sample_done = on_timeout ''r1'' (on_message 2 0 (WCommandResult ''r1'' ''ok'') gw_sample_waiting)"

lemma gw_sample_reachable: "gw_reachable gw_sample"
  unfolding gw_sample_def
  by (rule gw_reachable.step [OF gw_reachable.step [OF gw_reachable.start gw_step.connect] gw_step.message])
    (simp_all add: handleConnection_def empty_gateway_def)

lemma gw_sample_waiting_reachable: "gw_reachable gw_sample_waiting"
proof -
  have "route_command ''r1'' 0 ''mac'' (Some ''status'') None None gw_sample = Waiting gw_sample_waiting"
    "gw_pending gw_sample = []" "gw_replies gw_sample = []" by code_simp+
  then show ?thesis
    using gw_reachable.step [OF gw_sample_reachable gw_step.command [of "''r1''" gw_sample 0]] by simp
qed

lemma gw_sample_done_reachable: "gw_reachable gw_sample_done"
proof -
  have "length (gw_conns gw_sample_waiting) = 1" "c_open (gw_conns gw_sample_waiting ! 0)" by code_simp+
  then have "gw_reachable (on_message 2 0 (WCommandResult ''r1'' ''ok'') gw_sample_waiting)"
    using gw_reachable.step [OF gw_sample_waiting_reachable gw_step.message] by simp
  then show ?thesis unfolding gw_sample_done_def by (rule gw_reachable.step) (rule gw_step.timeout)
qed

theorem command_answered_once_witness:
  "gw_replies gw_sample_done = [(0, Resolved ''ok'')] \<and> distinct (map fst (gw_replies gw_sample_done))"
proof -
  have "gw_replies gw_sample_done = [(0, Resolved ''ok'')]" by code_simp
  moreover have "distinct (map fst (gw_replies gw_sample_done))"
    using command_answered_once [OF gw_sample_done_reachable] by (rule conjunct1)
  ultimately show ?thesis by simp
qed

text \<open>
  Commands reach the registered host: in every reachable state, a command accepted for an id or
  a hostname is sent exactly once, over the open connection registered for the host found, under the
  request identifier its caller waits for; a host that is not registered or not connected is an error
  and nothing is sent.
\<close>

theorem command_reaches_host:
  assumes "gw_reachable g"
  shows "case route_command rid caller i cmd agent args g of
      Waiting g' \<Rightarrow> (\<exists>s. route_sentinel g i = Some s \<and> c_open (gw_conns g ! s_ws s)
        \<and> gw_sent g' = gw_sent g @ [(s_ws s, \<lparr>cr_command = the cmd, cr_agent_id = agent, cr_args = args, cr_request_id = rid\<rparr>)]
        \<and> map_of (gw_pending g') rid = Some caller \<and> gw_sentinels g' = gw_sentinels g)
    | Http404 \<Rightarrow> route_sentinel g i = None
    | Http400 \<Rightarrow> cmd = None \<or> cmd = Some []
    | Http500 e \<Rightarrow> e = SentinelNotConnected \<and> (\<exists>s. route_sentinel g i = Some s \<and> \<not> c_open (gw_conns g ! s_ws s))"
proof -
  have reg: "map_of (gw_sentinels g) (s_id s) = Some s" if "route_sentinel g i = Some s" for s
  proof -
    have ok: "registry_ok g" using gw_reachable_ok [OF assms] by simp
    have "\<exists>k. map_of (gw_sentinels g) k = Some s"
    proof (cases "getSentinel g i")
      case None
      then have "findByHostname g i = Some s" using that by (simp add: route_sentinel_def)
      then have "s \<in> set (map snd (gw_sentinels g))"
        unfolding findByHostname_def getSentinels_def by (blast dest: find_SomeD)
      then show ?thesis using ok by (auto simp: registry_ok_def intro: map_of_is_SomeI)
    qed (use that in \<open>auto simp: route_sentinel_def getSentinel_def\<close>)
    then show ?thesis using ok by (auto simp: registry_ok_def)
  qed
  show ?thesis
    by (auto simp: route_command_def sendCommand_def assertR_def reg split: option.split command_answer.split)
qed

theorem command_reaches_host_witness:
  "map fst (gw_sent gw_sample_waiting) = [0] \<and> (\<exists>s. route_sentinel gw_sample ''mac'' = Some s \<and> s_ws s = 0)"
proof -
  have "route_command ''r1'' 0 ''mac'' (Some ''status'') None None gw_sample = Waiting gw_sample_waiting"
    "map fst (gw_sent gw_sample_waiting) = [0]" "gw_sent gw_sample = []" by code_simp+
  with command_reaches_host [OF gw_sample_reachable, where rid = "''r1''" and caller = 0 and i = "''mac''"
      and cmd = "Some ''status''" and agent = None and args = None]
  show ?thesis by auto
qed

text \<open>
  C9. A stale connection unregisters a live host: when a host has reconnected under the same id, and
  the old connection closes afterwards, the registration made over the new, still open connection is
  removed, and heartbeats over it do not bring it back.
\<close>

theorem stale_close_unregisters_live_host:
  assumes "gw_conns g ! old = c1" "gw_conns g ! new = c2" "old \<noteq> new" "new < length (gw_conns g)"
    and "c_id c1 = i" "c_id c2 = i" "c_open c2" "getSentinel g i = Some s" "s_ws s = new"
  shows "c_open (gw_conns (on_close old g) ! new) \<and> c_id (gw_conns (on_close old g) ! new) = i
    \<and> getSentinel (on_close old g) i = None
    \<and> on_message now new (WHeartbeat a sys u) (on_close old g) = on_close old g"
  using assms by (simp add: on_close_def getSentinel_def delete_conv' on_message_def handleMessage_def)

definition gw_reconnected :: gateway where
  "gw_reconnected = on_message 2 1 (WRegister (Some ''h1'') (Some ''mac'') (Some ''1'')) (handleConnection ''temp-2'' gw_sample)"

theorem stale_close_unregisters_live_host_witness:
  "getSentinel gw_reconnected ''h1'' \<noteq> None \<and> c_open (gw_conns (on_close 0 gw_reconnected) ! 1)
   \<and> getSentinel (on_close 0 gw_reconnected) ''h1'' = None"
proof -
  obtain s where s: "getSentinel gw_reconnected ''h1'' = Some s" "s_ws s = 1"
  proof -
    have "(case getSentinel gw_reconnected ''h1'' of None \<Rightarrow> False | Some s \<Rightarrow> s_ws s = 1)" by code_simp
    then show thesis using that by (auto split: option.split_asm)
  qed
  have "c_id (gw_conns gw_reconnected ! 0) = ''h1''" "c_id (gw_conns gw_reconnected ! 1) = ''h1''"
    "c_open (gw_conns gw_reconnected ! 1)" "1 < length (gw_conns gw_reconnected)" by code_simp+
  with stale_close_unregisters_live_host [OF refl refl _ this(4) this(1,2,3) s] s show ?thesis by simp
qed

text \<open>
  A host that registers again without a host id and a hostname is stored under the id it has, and
  then unregistered, because the connection falls back to its temporary id.
\<close>

lemma anonymous_register_unregisters:
  assumes "c_id (gw_conns g ! ws) = i" "c_temp (gw_conns g ! ws) \<noteq> i"
  shows "getSentinel (on_message now ws (WRegister None None v) g) i = None"
  using assms by (simp add: on_message_def handleMessage_def Let_def getSentinel_def delete_conv')

end
