(* ===== verification/Json_Text.thy ===== *)
theory Json_Text
  imports Prelude
begin

text \<open>
  The text that \<^verbatim>\<open>JSON.stringify\<close> produces for the values the program serializes: strings with
  the escapes of the ECMAScript standard, integers, booleans, null, arrays, and objects whose
  members keep their insertion order. Signatures, request namespaces and state pins are
  computed from this text, so the development relies on it being unambiguous:
  \<open>stringify_inj\<close>.
\<close>

datatype json =
    JNull
  | JBool bool
  | JNumber int
  | JString string
  | JArray "json list"
  | JObject "(string \<times> json) list"

definition hex_digit :: "nat \<Rightarrow> char" where
  "hex_digit n = (if n < 10 then char_of (48 + n) else char_of (87 + n))"

definition json_escape :: "char \<Rightarrow> string" where
  "json_escape c =
    (let n = (of_char c :: nat) in
     if n = 34 then [char_of (92::nat), c]
     else if n = 92 then [c, c]
     else if n = 8 then [char_of (92::nat), CHR ''b'']
     else if n = 9 then [char_of (92::nat), CHR ''t'']
     else if n = 10 then [char_of (92::nat), CHR ''n'']
     else if n = 12 then [char_of (92::nat), CHR ''f'']
     else if n = 13 then [char_of (92::nat), CHR ''r'']
     else if n < 32 then [char_of (92::nat), CHR ''u'', CHR ''0'', CHR ''0'', hex_digit (n div 16), hex_digit (n mod 16)]
     else [c])"

definition quote_char :: char where
  "quote_char = char_of (34::nat)"

definition json_quote :: "string \<Rightarrow> string" where
  "json_quote s = quote_char # concat (map json_escape s) @ [quote_char]"

fun stringify :: "json \<Rightarrow> string"
  and stringify_elems :: "json list \<Rightarrow> string"
  and stringify_members :: "(string \<times> json) list \<Rightarrow> string" where
  "stringify JNull = ''null''"
| "stringify (JBool b) = (if b then ''true'' else ''false'')"
| "stringify (JNumber i) = dec_string i"
| "stringify (JString s) = json_quote s"
| "stringify (JArray xs) = CHR ''['' # stringify_elems xs @ '']''"
| "stringify (JObject ms) = CHR ''{'' # stringify_members ms @ ''}''"
| "stringify_elems [] = []"
| "stringify_elems (x # xs) = stringify x @ (if xs = [] then [] else CHR '','' # stringify_elems xs)"
| "stringify_members [] = []"
| "stringify_members ((k, v) # ms) =
     json_quote k @ CHR '':'' # stringify v @ (if ms = [] then [] else CHR '','' # stringify_members ms)"

section \<open>Quoted strings can be read back\<close>

text \<open>
  \<open>scan_quoted\<close> splits the text after an opening quote into the escaped body up to the closing
  quote and the rest: a backslash takes the next character with it.
\<close>

fun scan_quoted :: "string \<Rightarrow> (string \<times> string) option" where
  "scan_quoted [] = None"
| "scan_quoted (c # cs) =
    (if c = quote_char then Some ([], cs)
     else if of_char c = (92::nat) then
       (case cs of [] \<Rightarrow> None
        | d # ds \<Rightarrow> map_option (\<lambda>(b, r). (c # d # b, r)) (scan_quoted ds))
     else map_option (\<lambda>(b, r). (c # b, r)) (scan_quoted cs))"

lemma scan_plain: "of_char c \<noteq> (34::nat) \<Longrightarrow> of_char c \<noteq> (92::nat) \<Longrightarrow>
  scan_quoted (c # cs) = map_option (\<lambda>(b, r). (c # b, r)) (scan_quoted cs)"
  by (auto simp: quote_char_def)

lemma of_char_hex_digit: "n < 16 \<Longrightarrow> (of_char (hex_digit n) :: nat) = (if n < 10 then 48 + n else 87 + n)"
  by (simp add: hex_digit_def)

lemma quote_neq_backslash: "char_of (92::nat) \<noteq> quote_char"
  unfolding quote_char_def by code_simp

lemma scan_backslash: "scan_quoted (char_of (92::nat) # d # ds) = map_option (\<lambda>(b, r). (char_of (92::nat) # d # b, r)) (scan_quoted ds)"
  using quote_neq_backslash by simp

lemma scan_escape: "scan_quoted (json_escape c @ cs) = map_option (\<lambda>(b, r). (json_escape c @ b, r)) (scan_quoted cs)"
proof -
  let ?n = "of_char c :: nat"
  have c: "c = char_of ?n" by simp
  have mo: "map_option (\<lambda>(b, r). (x @ b, r)) (map_option (\<lambda>(b, r). (y @ b, r)) z)
      = map_option (\<lambda>(b, r). (x @ y @ b, r)) z" for x y :: string and z :: "(string \<times> string) option"
    by (cases z) auto
  consider "?n = 34" | "?n = 92" | "?n \<in> {8, 9, 10, 12, 13}" | "?n < 32" "?n \<notin> {8, 9, 10, 12, 13}" | "32 \<le> ?n" "?n \<noteq> 34" "?n \<noteq> 92"
    by fastforce
  then show ?thesis
  proof cases
    case 2
    with c have "c = char_of (92::nat)" by metis
    then show ?thesis by (simp add: json_escape_def Let_def scan_backslash del: scan_quoted.simps)
  next
    case 4
    have d: "?n div 16 < 16" "?n mod 16 < 16" using 4 by simp_all
    have h: "of_char (hex_digit k) \<noteq> (34::nat) \<and> of_char (hex_digit k) \<noteq> (92::nat)" if "k < 16" for k
      using that by (auto simp: of_char_hex_digit)
    have z: "of_char (CHR ''0'') = (48::nat)" by simp
    show ?thesis
      using 4 h [OF d(1)] h [OF d(2)]
      by (cases "scan_quoted cs") (simp_all add: json_escape_def Let_def scan_backslash scan_plain
          split: prod.splits del: scan_quoted.simps)
  next
    case 5
    then show ?thesis by (simp add: json_escape_def Let_def scan_plain del: scan_quoted.simps)
  qed (auto simp: json_escape_def Let_def scan_backslash simp del: scan_quoted.simps)
qed

lemma scan_escaped: "scan_quoted (concat (map json_escape s) @ quote_char # r) = Some (concat (map json_escape s), r)"
  by (induction s) (simp_all add: scan_escape)

lemma json_quote_split:
  assumes "json_quote s @ r = json_quote s' @ r'"
  shows "concat (map json_escape s) = concat (map json_escape s') \<and> r = r'"
proof -
  from assms have "concat (map json_escape s) @ quote_char # r = concat (map json_escape s') @ quote_char # r'"
    by (simp add: json_quote_def)
  then show ?thesis by (metis scan_escaped option.inject prod.inject)
qed

definition hex_val :: "char \<Rightarrow> nat" where
  "hex_val c = (if (of_char c :: nat) < 58 then of_char c - 48 else of_char c - 87)"

definition unescape_char :: "char \<Rightarrow> char" where
  "unescape_char d =
    (if d = CHR ''b'' then char_of (8::nat) else if d = CHR ''t'' then char_of (9::nat)
     else if d = CHR ''n'' then char_of (10::nat) else if d = CHR ''f'' then char_of (12::nat)
     else if d = CHR ''r'' then char_of (13::nat) else d)"

fun unescape :: "string \<Rightarrow> string" where
  "unescape [] = []"
| "unescape (c # cs) =
    (if of_char c = (92::nat) then
       (case cs of [] \<Rightarrow> []
        | d # ds \<Rightarrow> if d = CHR ''u'' then
             char_of (16 * hex_val (ds ! 2) + hex_val (ds ! 3)) # unescape (drop 4 ds)
           else unescape_char d # unescape ds)
     else c # unescape cs)"

lemma hex_val_digit [simp]: "n < 16 \<Longrightarrow> hex_val (hex_digit n) = n"
  by (simp add: hex_val_def of_char_hex_digit)

lemma unescape_char_escape: "char_of n = c \<Longrightarrow> n \<in> {8, 9, 10, 12, 13::nat} \<Longrightarrow> unescape (json_escape c @ cs) = c # unescape cs"
  by (auto simp: json_escape_def Let_def unescape_char_def)

lemma unescape_escape: "unescape (json_escape c @ cs) = c # unescape cs"
proof -
  let ?n = "of_char c :: nat"
  have c: "c = char_of ?n" by simp
  consider "?n = 34" | "?n = 92" | "?n \<in> {8, 9, 10, 12, 13}" | "?n < 32" "?n \<notin> {8, 9, 10, 12, 13}" | "32 \<le> ?n" "?n \<noteq> 34" "?n \<noteq> 92"
    by fastforce
  then show ?thesis
  proof cases
    case 1
    then have "c = char_of (34::nat)" using c by metis
    moreover have "char_of (34::nat) \<notin> set ''ubtnfr''" by code_simp
    ultimately show ?thesis by (auto simp: json_escape_def Let_def unescape_char_def)
  next
    case 2
    then have "c = char_of (92::nat)" using c by metis
    moreover have "char_of (92::nat) \<notin> set ''ubtnfr''" by code_simp
    ultimately show ?thesis by (auto simp: json_escape_def Let_def unescape_char_def)
  next
    case 3
    then show ?thesis using c unescape_char_escape by metis
  next
    case 4
    then show ?thesis by (simp add: json_escape_def Let_def)
  next
    case 5
    then show ?thesis by (simp add: json_escape_def Let_def)
  qed
qed

lemma unescape_concat: "unescape (concat (map json_escape s)) = s"
  by (induction s) (simp_all add: unescape_escape)

lemma json_quote_prefix:
  assumes "json_quote s @ r = json_quote s' @ r'"
  shows "s = s' \<and> r = r'"
  using json_quote_split [OF assms] by (metis unescape_concat)

lemma json_quote_inj: "json_quote s = json_quote s' \<longleftrightarrow> s = s'"
  using json_quote_prefix [of s "[]" s' "[]"] by auto

section \<open>Unambiguous text\<close>

text \<open>A number is read up to the next delimiter.\<close>

definition delimited :: "string \<Rightarrow> bool" where
  "delimited r \<longleftrightarrow> r = [] \<or> hd r \<in> set '',]}''"

definition num_char :: "char \<Rightarrow> bool" where
  "num_char c \<longleftrightarrow> is_digit c \<or> c = CHR ''-''"

lemma dec_digits_all: "list_all is_digit (dec_digits n)"
  using dec_digits_hd [of n] by (cases "n = 0") (auto simp: dec_digits.simps [of 0])

lemma dec_string_num: "list_all num_char (dec_string i)"
  using dec_digits_all by (auto simp: dec_string_def num_char_def list_all_iff)

lemma delimited_not_num: "delimited r \<Longrightarrow> takeWhile num_char r = []"
  by (cases r) (auto simp: delimited_def num_char_def is_digit_def)

lemma digits_no_minus: "dec_digits n \<noteq> CHR ''-'' # xs"
proof
  assume "dec_digits n = CHR ''-'' # xs"
  with dec_digits_all [of n] have "is_digit (CHR ''-'')" by simp
  then show False by (simp add: is_digit_def)
qed

lemma dec_digits_inj: "dec_digits m = dec_digits n \<Longrightarrow> m = n"
  by (metis dec_value_dec_digits of_nat_eq_iff)

lemma dec_string_inj_int: "dec_string i = dec_string j \<Longrightarrow> i = j"
  by (auto simp: dec_string_def digits_no_minus digits_no_minus [symmetric] dest!: dec_digits_inj split: if_splits)

lemma number_prefix:
  assumes "dec_string i @ r = dec_string j @ r'" "delimited r" "delimited r'"
  shows "i = j \<and> r = r'"
proof -
  have tw: "takeWhile num_char (dec_string k @ q) = dec_string k" if "delimited q" for k q
    using dec_string_num [of k] delimited_not_num [OF that] by (simp add: list_all_iff takeWhile_append2)
  from assms tw have "dec_string i = dec_string j" by metis
  with assms(1) show ?thesis by (auto dest: dec_string_inj_int)
qed

lemma dec_string_head: "\<exists>c cs. dec_string i = c # cs \<and> num_char c"
  using dec_string_num [of i] by (cases "dec_string i") (auto simp: dec_string_def split: if_splits)

text \<open>The first character of a value's text tells its kind.\<close>

fun kind_char :: "json \<Rightarrow> char \<Rightarrow> bool" where
  "kind_char JNull c = (c = CHR ''n'')"
| "kind_char (JBool b) c = (c = (if b then CHR ''t'' else CHR ''f''))"
| "kind_char (JNumber i) c = num_char c"
| "kind_char (JString x) c = (c = quote_char)"
| "kind_char (JArray xs) c = (c = CHR ''['')"
| "kind_char (JObject ms) c = (c = CHR ''{'')"

lemma stringify_head: "\<exists>c cs. stringify v = c # cs \<and> kind_char v c"
  using dec_string_head by (cases v) (auto simp: json_quote_def)

lemma quote_char_facts: "quote_char \<notin> set ''ntf[{}],:-''" "\<not> num_char quote_char"
  unfolding quote_char_def num_char_def is_digit_def by (code_simp, simp add: char_of_eq_iff)

lemma kind_char_distinct:
  assumes "kind_char v c" "kind_char v' c"
  shows "(v = JNull \<longleftrightarrow> v' = JNull) \<and> ((\<exists>b. v = JBool b) \<longleftrightarrow> (\<exists>b. v' = JBool b))
    \<and> ((\<exists>i. v = JNumber i) \<longleftrightarrow> (\<exists>i. v' = JNumber i)) \<and> ((\<exists>x. v = JString x) \<longleftrightarrow> (\<exists>x. v' = JString x))
    \<and> ((\<exists>x. v = JArray x) \<longleftrightarrow> (\<exists>x. v' = JArray x)) \<and> ((\<exists>x. v = JObject x) \<longleftrightarrow> (\<exists>x. v' = JObject x))"
  using assms quote_char_facts
  by (cases v; cases v') (auto simp: num_char_def is_digit_def split: if_splits)

lemma same_kind:
  assumes "stringify v @ r = stringify v' @ r'"
  shows "\<exists>c. kind_char v c \<and> kind_char v' c"
  using assms stringify_head [of v] stringify_head [of v'] by auto

lemma same_kinds:
  "stringify JNull @ r = stringify v' @ r' \<Longrightarrow> v' = JNull"
  "stringify (JBool b) @ r = stringify v' @ r' \<Longrightarrow> \<exists>b'. v' = JBool b'"
  "stringify (JNumber i) @ r = stringify v' @ r' \<Longrightarrow> \<exists>j. v' = JNumber j"
  "stringify (JString x) @ r = stringify v' @ r' \<Longrightarrow> \<exists>y. v' = JString y"
  "stringify (JArray xs) @ r = stringify v' @ r' \<Longrightarrow> \<exists>ys. v' = JArray ys"
  "stringify (JObject ms) @ r = stringify v' @ r' \<Longrightarrow> \<exists>ns. v' = JObject ns"
  by (drule same_kind, elim exE conjE, drule (1) kind_char_distinct, simp)+

lemma elems_not_closing: "stringify v @ r \<noteq> CHR '']'' # r'"
  using stringify_head [of v] quote_char_facts
  by (cases v) (auto simp: num_char_def is_digit_def json_quote_def split: if_splits)

lemma members_not_closing: "json_quote k @ r \<noteq> CHR ''}'' # r'"
  using quote_char_facts by (auto simp: json_quote_def)

lemma stringify_unambiguous:
  shows "\<And>v' r r'. stringify v @ r = stringify v' @ r' \<Longrightarrow> delimited r \<Longrightarrow> delimited r' \<Longrightarrow> v = v' \<and> r = r'"
    and "\<And>ys r r'. stringify_elems xs @ CHR '']'' # r = stringify_elems ys @ CHR '']'' # r' \<Longrightarrow> xs = ys \<and> r = r'"
    and "\<And>ns r r'. stringify_members ms @ CHR ''}'' # r = stringify_members ns @ CHR ''}'' # r' \<Longrightarrow> ms = ns \<and> r = r'"
proof (induction v and xs and ms rule: stringify_stringify_elems_stringify_members.induct)
  case 1
  then have "v' = JNull" by (blast dest: same_kinds)
  with "1.prems" show ?case by simp
next
  case (2 b)
  then obtain b' where "v' = JBool b'" by (blast dest: same_kinds)
  with "2.prems" show ?case by (auto split: if_splits)
next
  case (3 i)
  then obtain j where "v' = JNumber j" by (blast dest: same_kinds)
  with "3.prems" show ?case by (auto dest: number_prefix)
next
  case (4 x)
  then obtain y where "v' = JString y" by (blast dest: same_kinds)
  with "4.prems" show ?case by (auto dest: json_quote_prefix)
next
  case (5 xs)
  then obtain ys where v': "v' = JArray ys" by (blast dest: same_kinds)
  with "5.prems" have "stringify_elems xs @ CHR '']'' # r = stringify_elems ys @ CHR '']'' # r'" by simp
  with v' "5.IH" show ?case by blast
next
  case (6 ms)
  then obtain ns where v': "v' = JObject ns" by (blast dest: same_kinds)
  with "6.prems" have "stringify_members ms @ CHR ''}'' # r = stringify_members ns @ CHR ''}'' # r'" by simp
  with v' "6.IH" show ?case by blast
next
  case 7
  then show ?case by (cases ys) (auto simp: elems_not_closing elems_not_closing [symmetric])
next
  case (8 x xs)
  obtain y ys' where ys: "ys = y # ys'"
    using "8.prems" by (cases ys) (auto simp: elems_not_closing)
  let ?tl = "\<lambda>zs r. (if zs = [] then [] else CHR '','' # stringify_elems zs) @ CHR '']'' # r"
  have "stringify x @ ?tl xs r = stringify y @ ?tl ys' r'" using "8.prems" ys by simp
  from "8.IH"(1) [OF this] have xy: "x = y" "?tl xs r = ?tl ys' r'" by (simp_all add: delimited_def)
  then show ?case
    using "8.IH"(2) [of r ys' r'] ys by (cases "xs = []"; cases "ys' = []") auto
next
  case 9
  then show ?case by (cases ns) (auto simp: members_not_closing members_not_closing [symmetric])
next
  case (10 k v ms)
  obtain k' v' ns' where ns: "ns = (k', v') # ns'"
    using "10.prems" by (cases ns) (auto simp: members_not_closing)
  let ?tl = "\<lambda>zs r. (if zs = [] then [] else CHR '','' # stringify_members zs) @ CHR ''}'' # r"
  have "json_quote k @ CHR '':'' # stringify v @ ?tl ms r = json_quote k' @ CHR '':'' # stringify v' @ ?tl ns' r'"
    using "10.prems" ns by simp
  then have "k = k'" "stringify v @ ?tl ms r = stringify v' @ ?tl ns' r'"
    using json_quote_prefix by blast+
  moreover from "10.IH"(1) [OF this(2)] have "v = v'" "?tl ms r = ?tl ns' r'" by (simp_all add: delimited_def)
  ultimately show ?case
    using "10.IH"(2) [of r ns' r'] ns by (cases "ms = []"; cases "ns' = []") auto
qed

lemma stringify_inj: "stringify v = stringify v' \<longleftrightarrow> v = v'"
  using stringify_unambiguous(1) [of v "[]" v' "[]"] by (auto simp: delimited_def)

end
