(* ===== verification/Json_Parse.thy ===== *)
theory Json_Parse
  imports Json_Text
begin

text \<open>
  \<^verbatim>\<open>JSON.parse\<close> on the values of \<open>json\<close>: white space, all escapes, and integers. Strings are over
  8-bit characters, so an escape beyond \<^verbatim>\<open>\u00ff\<close> is not read; nor is a number with a fraction or an
  exponent. The text of every value is read back as that value: \<open>json_parse_stringify\<close>.
\<close>

definition is_ws :: "char \<Rightarrow> bool" where
  "is_ws c \<longleftrightarrow> (of_char c :: nat) \<in> {9, 10, 13, 32}"

definition skip_ws :: "string \<Rightarrow> string" where
  "skip_ws = dropWhile is_ws"

definition is_hex :: "char \<Rightarrow> bool" where
  "is_hex c \<longleftrightarrow> (let n = (of_char c :: nat) in 48 \<le> n \<and> n \<le> 57 \<or> 65 \<le> n \<and> n \<le> 70 \<or> 97 \<le> n \<and> n \<le> 102)"

definition hex_any :: "char \<Rightarrow> nat" where
  "hex_any c = (let n = (of_char c :: nat) in if n < 58 then n - 48 else if n < 71 then n - 55 else n - 87)"

definition push_char :: "char \<Rightarrow> (string \<times> string) option \<Rightarrow> (string \<times> string) option" where
  "push_char c = map_option (\<lambda>(b, r). (c # b, r))"

definition simple_escape :: "char \<Rightarrow> bool" where
  "simple_escape d \<longleftrightarrow> (of_char d :: nat) \<in> {34, 92, 47, 98, 102, 110, 114, 116}"

text \<open>The rest of a string after its opening quote.\<close>

fun read_string :: "string \<Rightarrow> (string \<times> string) option" where
  "read_string [] = None"
| "read_string (c # cs) =
    (if c = quote_char then Some ([], cs)
     else if of_char c < (32::nat) then None
     else if of_char c = (92::nat) then
       (case cs of [] \<Rightarrow> None
        | d # ds \<Rightarrow>
            if d = CHR ''u'' then
              if 4 \<le> length ds \<and> list_all is_hex (take 4 ds) \<and> hex_any (ds ! 0) = 0 \<and> hex_any (ds ! 1) = 0
              then push_char (char_of (16 * hex_any (ds ! 2) + hex_any (ds ! 3))) (read_string (drop 4 ds))
              else None
            else if simple_escape d then push_char (unescape_char d) (read_string ds) else None)
     else push_char c (read_string cs))"

definition parse_number :: "string \<Rightarrow> (json \<times> string) option" where
  "parse_number t =
    (let l = takeWhile num_char t; r = dropWhile num_char t; neg = (l \<noteq> [] \<and> hd l = CHR ''-'');
         ds = (if neg then tl l else l) in
     if is_decimal ds \<and> (r = [] \<or> hd r \<notin> set ''.eE'')
     then Some (JNumber (if neg then - dec_value ds else dec_value ds), r) else None)"

fun parse_value :: "nat \<Rightarrow> string \<Rightarrow> (json \<times> string) option"
  and parse_elems :: "nat \<Rightarrow> string \<Rightarrow> (json list \<times> string) option"
  and parse_members :: "nat \<Rightarrow> string \<Rightarrow> ((string \<times> json) list \<times> string) option" where
  "parse_value 0 s = None"
| "parse_value (Suc n) s =
    (let t = skip_ws s in
     case t of [] \<Rightarrow> None
     | c # r \<Rightarrow>
         if c = quote_char then map_option (\<lambda>(b, q). (JString b, q)) (read_string r)
         else if c = CHR ''['' then
           (case skip_ws r of [] \<Rightarrow> None
            | d # q \<Rightarrow> if d = CHR '']'' then Some (JArray [], q)
                else map_option (\<lambda>(vs, q). (JArray vs, q)) (parse_elems n (d # q)))
         else if c = CHR ''{'' then
           (case skip_ws r of [] \<Rightarrow> None
            | d # q \<Rightarrow> if d = CHR ''}'' then Some (JObject [], q)
                else map_option (\<lambda>(ms, q). (JObject ms, q)) (parse_members n (d # q)))
         else if take 4 t = ''null'' then Some (JNull, drop 4 t)
         else if take 4 t = ''true'' then Some (JBool True, drop 4 t)
         else if take 5 t = ''false'' then Some (JBool False, drop 5 t)
         else parse_number t)"
| "parse_elems 0 s = None"
| "parse_elems (Suc n) s =
    (case parse_value n s of None \<Rightarrow> None
     | Some (v, r) \<Rightarrow>
         (case skip_ws r of [] \<Rightarrow> None
          | c # q \<Rightarrow> if c = CHR '']'' then Some ([v], q)
              else if c = CHR '','' then map_option (\<lambda>(vs, q). (v # vs, q)) (parse_elems n q)
              else None))"
| "parse_members 0 s = None"
| "parse_members (Suc n) s =
    (case skip_ws s of [] \<Rightarrow> None
     | c # r \<Rightarrow>
         if c \<noteq> quote_char then None
         else case read_string r of None \<Rightarrow> None
         | Some (k, r1) \<Rightarrow>
             (case skip_ws r1 of [] \<Rightarrow> None
              | d # r2 \<Rightarrow>
                  if d \<noteq> CHR '':'' then None
                  else case parse_value n r2 of None \<Rightarrow> None
                  | Some (v, r3) \<Rightarrow>
                      (case skip_ws r3 of [] \<Rightarrow> None
                       | e # q \<Rightarrow> if e = CHR ''}'' then Some ([(k, v)], q)
                           else if e = CHR '','' then map_option (\<lambda>(ms, q). ((k, v) # ms, q)) (parse_members n q)
                           else None)))"

definition json_parse :: "string \<Rightarrow> json option" where
  "json_parse s =
    (case parse_value (Suc (length s)) s of
       Some (v, r) \<Rightarrow> if skip_ws r = [] then Some v else None
     | None \<Rightarrow> None)"

text \<open>Member access: the last of equal keys counts.\<close>

definition json_field :: "json \<Rightarrow> string \<Rightarrow> json option" where
  "json_field v k = (case v of JObject ms \<Rightarrow> map_of (rev ms) k | _ \<Rightarrow> None)"

section \<open>Reading back\<close>

lemma hex_any_digit [simp]: "n < 16 \<Longrightarrow> hex_any (hex_digit n) = n \<and> is_hex (hex_digit n)"
  by (auto simp: hex_any_def is_hex_def of_char_hex_digit Let_def)

lemma read_string_backslash:
  "simple_escape d \<Longrightarrow> d \<noteq> CHR ''u'' \<Longrightarrow> read_string (char_of (92::nat) # d # ds) = push_char (unescape_char d) (read_string ds)"
  using quote_neq_backslash by simp

lemma read_string_simple_escape:
  "char_of n = c \<Longrightarrow> n \<in> {8, 9, 10, 12, 13::nat} \<Longrightarrow> read_string (json_escape c @ cs) = push_char c (read_string cs)"
  by (auto simp: json_escape_def Let_def read_string_backslash unescape_char_def simple_escape_def simp del: read_string.simps)

lemma read_string_escape: "read_string (json_escape c @ cs) = push_char c (read_string cs)"
proof -
  let ?n = "of_char c :: nat"
  have c: "c = char_of ?n" by simp
  have q: "char_of (92::nat) \<noteq> quote_char" by (rule quote_neq_backslash)
  consider "?n = 34" | "?n = 92" | "?n \<in> {8, 9, 10, 12, 13}" | "?n < 32" "?n \<notin> {8, 9, 10, 12, 13}" | "32 \<le> ?n" "?n \<noteq> 34" "?n \<noteq> 92"
    by fastforce
  then show ?thesis
  proof cases
    case 1
    then have "c = char_of (34::nat)" using c by metis
    moreover have "char_of (34::nat) \<notin> set ''ubtnfr''" by code_simp
    ultimately show ?thesis using q by (auto simp: json_escape_def Let_def unescape_char_def simple_escape_def)
  next
    case 2
    then have "c = char_of (92::nat)" using c by metis
    moreover have "char_of (92::nat) \<notin> set ''ubtnfr''" by code_simp
    ultimately show ?thesis using q by (auto simp: json_escape_def Let_def unescape_char_def simple_escape_def)
  next
    case 3
    then show ?thesis using c read_string_simple_escape by metis
  next
    case 4
    moreover have "?n div 16 < 16" "?n mod 16 < 16" using 4 by simp_all
    moreover have "hex_any (CHR ''0'') = 0" "is_hex (CHR ''0'')" by (simp_all add: hex_any_def is_hex_def)
    ultimately show ?thesis using q by (simp add: json_escape_def Let_def)
  next
    case 5
    then have "c \<noteq> quote_char" by (auto simp: quote_char_def)
    with 5 show ?thesis by (simp add: json_escape_def Let_def)
  qed
qed

lemma read_string_quoted: "read_string (concat (map json_escape s) @ quote_char # r) = Some (s, r)"
  by (induction s) (simp_all add: read_string_escape push_char_def)

lemma num_split:
  assumes "delimited r"
  shows "takeWhile num_char (dec_string i @ r) = dec_string i" "dropWhile num_char (dec_string i @ r) = r"
proof -
  have all: "\<forall>c \<in> set (dec_string i). num_char c" using dec_string_num [of i] by (simp add: list_all_iff)
  have "dropWhile num_char r = r" using delimited_not_num [OF assms] by (cases r) (auto split: if_split_asm)
  then show "takeWhile num_char (dec_string i @ r) = dec_string i" "dropWhile num_char (dec_string i @ r) = r"
    using all delimited_not_num [OF assms] by (simp_all add: takeWhile_append2 dropWhile_append2)
qed

lemma dec_digits_decimal: "is_decimal (dec_digits n)"
  using is_decimal_dec_string [of "int n"] by (simp add: dec_string_def del: is_decimal_dec_string)

lemma parse_number_dec:
  assumes "delimited r"
  shows "parse_number (dec_string i @ r) = Some (JNumber i, r)"
proof -
  have rest: "r = [] \<or> hd r \<notin> set ''.eE''" using assms by (auto simp: delimited_def)
  show ?thesis
  proof (cases "i < 0")
    case True
    then show ?thesis
      using rest unfolding parse_number_def num_split [OF assms] Let_def
      by (simp add: dec_string_def dec_digits_decimal dec_value_dec_digits)
  next
    case False
    have "hd (dec_digits (nat i)) \<noteq> CHR ''-''" using digits_no_minus [of "nat i"] by (metis list.collapse dec_digits_nonempty)
    with False show ?thesis
      using rest unfolding parse_number_def num_split [OF assms] Let_def
      by (simp add: dec_string_def dec_digits_decimal dec_value_dec_digits)
  qed
qed

lemma not_ws: "c \<in> set '',]}:[{ntf-'' \<or> is_digit c \<or> c = quote_char \<Longrightarrow> \<not> is_ws c"
  by (auto simp: is_ws_def is_digit_def quote_char_def)

lemma kind_not_ws: "kind_char v c \<Longrightarrow> \<not> is_ws c"
  by (cases v) (auto intro!: not_ws simp: num_char_def split: if_split_asm)

lemma skip_ws_head [simp]: "\<not> is_ws c \<Longrightarrow> skip_ws (c # cs) = c # cs"
  by (simp add: skip_ws_def)

lemma skip_ws_stringify: "skip_ws (stringify v @ r) = stringify v @ r"
  using stringify_head [of v] kind_not_ws by (auto simp: skip_ws_def)

lemma num_head_facts:
  assumes "num_char c"
  shows "c \<noteq> quote_char" "c \<noteq> CHR ''[''" "c \<noteq> CHR ''{''" "c \<noteq> CHR ''n''" "c \<noteq> CHR ''t''" "c \<noteq> CHR ''f''"
  using assms quote_char_facts by (auto simp: num_char_def is_digit_def)

lemma bracket_not_quote: "CHR ''['' \<noteq> quote_char" "CHR ''{'' \<noteq> quote_char" "CHR ''n'' \<noteq> quote_char"
  "CHR ''t'' \<noteq> quote_char" "CHR ''f'' \<noteq> quote_char"
  using quote_char_facts(1) by auto

lemma stringify_nonempty: "0 < length (stringify v)"
  using stringify_head [of v] by auto

lemma parse_stringify:
  "length (stringify v) \<le> n \<Longrightarrow> delimited r \<Longrightarrow> parse_value n (stringify v @ r) = Some (v, r)"
  "xs \<noteq> [] \<Longrightarrow> length (stringify_elems xs) < n \<Longrightarrow> parse_elems n (stringify_elems xs @ CHR '']'' # r) = Some (xs, r)"
  "ms \<noteq> [] \<Longrightarrow> length (stringify_members ms) < n \<Longrightarrow> parse_members n (stringify_members ms @ CHR ''}'' # r) = Some (ms, r)"
proof (induction v and xs and ms arbitrary: n r and n r and n r rule: stringify_stringify_elems_stringify_members.induct)
  case 1
  then obtain m where "n = Suc m" by (cases n) auto
  then show ?case using quote_char_facts by (auto simp: Let_def not_ws)
next
  case (2 b)
  then obtain m where "n = Suc m" by (cases n) (auto split: if_split_asm)
  then show ?case using quote_char_facts by (auto simp: Let_def not_ws)
next
  case (3 i)
  obtain c cs where c: "dec_string i = c # cs" "num_char c" using dec_string_head by blast
  then obtain m where m: "n = Suc m" using 3 by (cases n) auto
  have "parse_number (c # cs @ r) = Some (JNumber i, r)" using parse_number_dec [OF 3(2), of i] c by simp
  moreover have "\<not> is_ws c" using c(2) by (auto simp: num_char_def intro!: not_ws)
  ultimately show ?case using num_head_facts [OF c(2)] by (simp add: m c(1) Let_def)
next
  case (4 s)
  then obtain m where "n = Suc m" by (cases n) (auto simp: json_quote_def)
  then show ?case by (simp add: json_quote_def Let_def not_ws read_string_quoted)
next
  case (5 xs)
  then obtain m where m: "n = Suc m" by (cases n) auto
  show ?case
  proof (cases xs)
    case Nil
    then show ?thesis using m bracket_not_quote by (simp add: Let_def not_ws)
  next
    case (Cons x ys)
    obtain c cs where c: "stringify x = c # cs" "kind_char x c" using stringify_head by blast
    have "parse_elems m (stringify_elems xs @ CHR '']'' # r) = Some (xs, r)"
      using 5 m Cons by simp
    moreover have "c \<noteq> CHR '']''" using c(2) quote_char_facts by (cases x) (auto simp: num_char_def is_digit_def split: if_split_asm)
    moreover have "\<not> is_ws c" using c(2) by (rule kind_not_ws)
    ultimately show ?thesis using m Cons c bracket_not_quote by (simp add: Let_def not_ws)
  qed
next
  case (6 ms)
  then obtain m where m: "n = Suc m" by (cases n) auto
  show ?case
  proof (cases ms)
    case Nil
    then show ?thesis using m bracket_not_quote by (simp add: Let_def not_ws)
  next
    case (Cons kv ys)
    obtain k v where kv: "kv = (k, v)" by fastforce
    have "parse_members m (stringify_members ms @ CHR ''}'' # r) = Some (ms, r)"
      using 6 m Cons by simp
    then show ?thesis using m Cons kv bracket_not_quote quote_char_facts by (simp add: Let_def not_ws json_quote_def)
  qed
next
  case 7
  then show ?case by simp
next
  case (8 x xs)
  then obtain m where m: "n = Suc m" by (cases n) auto
  show ?case
  proof (cases "xs = []")
    case True
    then have "parse_value m (stringify x @ CHR '']'' # r) = Some (x, CHR '']'' # r)"
      using 8 m by (simp add: delimited_def)
    then show ?thesis using m True by (simp add: not_ws)
  next
    case False
    then have "parse_value m (stringify x @ CHR '','' # stringify_elems xs @ CHR '']'' # r)
        = Some (x, CHR '','' # stringify_elems xs @ CHR '']'' # r)"
      using 8 m by (simp add: delimited_def)
    moreover have "parse_elems m (stringify_elems xs @ CHR '']'' # r) = Some (xs, r)"
      using 8 m False stringify_nonempty [of x] by simp
    ultimately show ?thesis using m False by (simp add: not_ws)
  qed
next
  case 9
  then show ?case by simp
next
  case (10 k v ms)
  then obtain m where m: "n = Suc m" by (cases n) auto
  let ?k = "concat (map json_escape k)"
  show ?case
  proof (cases "ms = []")
    case True
    then have "parse_value m (stringify v @ CHR ''}'' # r) = Some (v, CHR ''}'' # r)"
      using 10 m by (simp add: delimited_def)
    then show ?thesis using m True by (simp add: not_ws json_quote_def read_string_quoted)
  next
    case False
    then have "parse_value m (stringify v @ CHR '','' # stringify_members ms @ CHR ''}'' # r)
        = Some (v, CHR '','' # stringify_members ms @ CHR ''}'' # r)"
      using 10 m by (simp add: delimited_def)
    moreover have "parse_members m (stringify_members ms @ CHR ''}'' # r) = Some (ms, r)"
      using 10 m False stringify_nonempty [of v] by simp
    ultimately show ?thesis using m False by (simp add: not_ws json_quote_def read_string_quoted)
  qed
qed

lemma json_parse_stringify: "json_parse (stringify v) = Some v"
  using parse_stringify(1) [of v "Suc (length (stringify v))" "[]"]
  by (simp add: json_parse_def delimited_def skip_ws_def)

end
