(* ===== verification/Transaction_Journal.thy ===== *)
theory Transaction_Journal
  imports Prelude
begin

text \<open>
  The technical journal of self-paid transactions, from
  \<^verbatim>\<open>sdk/src/transaction-manager.ts\<close> (entries, gas conflicts, gas cost, the in-memory journal)
  and \<^verbatim>\<open>sdk/src/browser-transaction-journal.ts\<close> (the IndexedDB journal).

  The interface \<^verbatim>\<open>TransactionJournal\<close> is the locale \<open>transaction_journal\<close>: a journal refines
  the abstract journal \<open>spec_get\<close>, \<open>spec_claim\<close>, \<open>spec_replace\<close> over a map from
  (namespace, request) to entries, and a failing operation leaves that map unchanged. Both
  implementations are interpreted.
\<close>

section \<open>Entries\<close>

record gas_reference =
  gr_objectId :: string
  gr_version :: string
  gr_digest :: string

record gas_cost_summary =
  computationCost :: string
  storageCost :: string
  storageRebate :: string
  nonRefundableStorageFee :: string

datatype journal_status = Pending | Confirmed | Failed

record journal_entry =
  je_format :: nat
  je_namespace :: string
  je_requestId :: string
  je_revision :: int
  je_digest :: string
  je_sender :: string
  je_gasBudget :: string
  je_maxSuiSpend :: string
  je_estimatedGas :: string
  je_gasReferences :: "gas_reference list"
  je_addressGas :: bool
  je_createdAtMs :: int
  je_status :: journal_status
  je_gasUsed :: "gas_cost_summary option"
  je_actualGas :: "string option"
  je_failure :: "string option"

text \<open>
  The map key \<^verbatim>\<open>JSON.stringify([namespace, requestId])\<close>: the JSON text of a pair of strings
  determines the pair, so the pair itself is the key.
\<close>

type_synonym journal_key = "string \<times> string"

definition entry_key :: "journal_entry \<Rightarrow> journal_key" where
  "entry_key e = (je_namespace e, je_requestId e)"

definition pendingGasConflict :: "journal_entry \<Rightarrow> journal_entry \<Rightarrow> bool" where
  "pendingGasConflict a b =
    (if je_namespace a \<noteq> je_namespace b \<or> je_status a \<noteq> Pending \<or> je_status b \<noteq> Pending then False
     else je_addressGas a \<and> je_addressGas b
       \<or> (\<exists>ref \<in> set (je_gasReferences a). \<exists>other \<in> set (je_gasReferences b).
            gr_objectId other = gr_objectId ref))"

lemma pendingGasConflict_sym: "pendingGasConflict a b \<Longrightarrow> pendingGasConflict b a"
  by (simp add: pendingGasConflict_def split: if_splits) metis

lemma pendingGasConflict_pending:
  "pendingGasConflict a b \<Longrightarrow> je_status a = Pending \<and> je_status b = Pending \<and> je_namespace a = je_namespace b"
  by (simp add: pendingGasConflict_def split: if_splits)

section \<open>Unsigned 64-bit inputs and gas cost\<close>

datatype sdk_error = NotSafeInteger | NotDecimal | OutsideU64

definition MAX_U64 :: int where
  "MAX_U64 = 18446744073709551615"

text \<open>
  \<^verbatim>\<open>toBigInt\<close> takes a bigint, a number or a decimal string. A number is given by its integer
  value, or \<open>None\<close> when it is not integral (fractions, NaN, infinities).
\<close>

datatype u64_input = UBigInt int | UNumber "int option" | UString string

definition max_safe_integer :: int where
  "max_safe_integer = 9007199254740991"

definition is_safe_integer :: "int option \<Rightarrow> bool" where
  "is_safe_integer x = (case x of None \<Rightarrow> False | Some i \<Rightarrow> \<bar>i\<bar> \<le> max_safe_integer)"

definition in_u64 :: "int \<Rightarrow> bool" where
  "in_u64 i \<longleftrightarrow> 0 \<le> i \<and> i \<le> MAX_U64"

fun toBigInt :: "u64_input \<Rightarrow> (sdk_error, int) result" where
  "toBigInt (UNumber n) =
     bindR (assertR (is_safe_integer n) NotSafeInteger)
       (\<lambda>_. if in_u64 (the n) then Inr (the n) else Inl OutsideU64)"
| "toBigInt (UString s) =
     bindR (assertR (is_decimal s) NotDecimal)
       (\<lambda>_. if in_u64 (dec_value s) then Inr (dec_value s) else Inl OutsideU64)"
| "toBigInt (UBigInt i) = (if in_u64 i then Inr i else Inl OutsideU64)"

lemma toBigInt_u64: "toBigInt u = Inr i \<Longrightarrow> in_u64 i"
  by (cases u) (auto simp: result_simps split: if_splits)

lemma toBigInt_dec_string: "in_u64 i \<Longrightarrow> toBigInt (UString (dec_string i)) = Inr i"
  by (simp add: in_u64_def)

text \<open>
  \<^verbatim>\<open>gasCost\<close>: computation plus storage minus rebate, which may be negative; the
  non-refundable fee is only checked to be a u64. The result is the bigint itself; the code
  keeps its decimal text.
\<close>

definition gasCost :: "gas_cost_summary \<Rightarrow> (sdk_error, int) result" where
  "gasCost s =
     bindR (toBigInt (UString (computationCost s))) (\<lambda>computation.
     bindR (toBigInt (UString (storageCost s))) (\<lambda>storage.
     bindR (toBigInt (UString (storageRebate s))) (\<lambda>rebate.
     bindR (toBigInt (UString (nonRefundableStorageFee s))) (\<lambda>_.
       Inr (computation + storage - rebate)))))"

lemma gasCost_bounds: "gasCost s = Inr c \<Longrightarrow> - MAX_U64 \<le> c \<and> c \<le> 2 * MAX_U64"
  by (auto simp: gasCost_def bindR_eq_Inr in_u64_def dest!: toBigInt_u64 simp del: toBigInt.simps)

section \<open>The abstract journal\<close>

type_synonym journal_map = "journal_key \<rightharpoonup> journal_entry"

definition spec_claim :: "journal_map \<Rightarrow> journal_entry \<Rightarrow> bool \<times> journal_map" where
  "spec_claim m e =
    (if m (entry_key e) \<noteq> None \<or> (\<exists>row \<in> ran m. pendingGasConflict row e) then (False, m)
     else (True, m(entry_key e \<mapsto> e)))"

definition spec_replace :: "journal_map \<Rightarrow> journal_entry \<Rightarrow> int \<Rightarrow> bool \<times> journal_map" where
  "spec_replace m e expected =
    (case m (entry_key e) of
       None \<Rightarrow> (False, m)
     | Some current \<Rightarrow>
         if je_revision current \<noteq> expected \<or> je_digest current \<noteq> je_digest e
              \<or> je_status current \<noteq> Pending
         then (False, m) else (True, m(entry_key e \<mapsto> e)))"

text \<open>Every row is stored under its own key.\<close>

definition keyed :: "journal_map \<Rightarrow> bool" where
  "keyed m \<longleftrightarrow> (\<forall>k e. m k = Some e \<longrightarrow> entry_key e = k)"

lemma keyed_upd [intro]: "keyed m \<Longrightarrow> keyed (m(entry_key e \<mapsto> e))"
  by (simp add: keyed_def)

text \<open>Two different pending requests never reserve the same gas.\<close>

definition gas_exclusive :: "journal_map \<Rightarrow> bool" where
  "gas_exclusive m \<longleftrightarrow>
    (\<forall>k1 k2 e1 e2. m k1 = Some e1 \<longrightarrow> m k2 = Some e2 \<longrightarrow> k1 \<noteq> k2 \<longrightarrow> \<not> pendingGasConflict e1 e2)"

text \<open>
  What a journal may become: no request is forgotten, its digest never changes, and an entry
  that is no longer pending never changes.
\<close>

definition journal_extends :: "journal_map \<Rightarrow> journal_map \<Rightarrow> bool" where
  "journal_extends m m' \<longleftrightarrow>
    (\<forall>k e. m k = Some e \<longrightarrow>
      (\<exists>e'. m' k = Some e' \<and> je_digest e' = je_digest e \<and> (je_status e \<noteq> Pending \<longrightarrow> e' = e)))"

lemma journal_extends_refl [simp]: "journal_extends m m"
  by (simp add: journal_extends_def)

lemma journal_extends_trans: "journal_extends a b \<Longrightarrow> journal_extends b c \<Longrightarrow> journal_extends a c"
  by (fastforce simp: journal_extends_def)

lemma spec_claim_extends: "journal_extends m (snd (spec_claim m e))"
  by (auto simp: spec_claim_def journal_extends_def)

lemma spec_replace_extends: "journal_extends m (snd (spec_replace m e n))"
  by (auto simp: spec_replace_def journal_extends_def split: option.splits)

lemma spec_claim_keyed: "keyed m \<Longrightarrow> keyed (snd (spec_claim m e))"
  by (auto simp: spec_claim_def)

lemma spec_replace_keyed: "keyed m \<Longrightarrow> keyed (snd (spec_replace m e n))"
  by (auto simp: spec_replace_def split: option.splits)

lemma spec_claim_exclusive: "gas_exclusive m \<Longrightarrow> gas_exclusive (snd (spec_claim m e))"
proof (cases "fst (spec_claim m e)")
  case True
  assume excl: "gas_exclusive m"
  from True have free: "\<And>k row. m k = Some row \<Longrightarrow> \<not> pendingGasConflict row e \<and> \<not> pendingGasConflict e row"
    and upd: "snd (spec_claim m e) = m(entry_key e \<mapsto> e)"
    by (auto simp: spec_claim_def ran_def dest: pendingGasConflict_sym split: if_splits)
  show ?thesis
    unfolding upd gas_exclusive_def
  proof (intro allI impI)
    fix k1 k2 e1 e2
    assume "(m(entry_key e \<mapsto> e)) k1 = Some e1" "(m(entry_key e \<mapsto> e)) k2 = Some e2" "k1 \<noteq> k2"
    then show "\<not> pendingGasConflict e1 e2"
      using excl free unfolding gas_exclusive_def by (metis fun_upd_apply option.inject)
  qed
qed (auto simp: spec_claim_def split: if_splits)

lemma gas_exclusive_upd:
  assumes excl: "gas_exclusive m" and settled: "je_status e \<noteq> Pending"
  shows "gas_exclusive (m(k \<mapsto> e))"
  unfolding gas_exclusive_def
proof (intro allI impI)
  fix k1 k2 e1 e2
  assume "(m(k \<mapsto> e)) k1 = Some e1" "(m(k \<mapsto> e)) k2 = Some e2" "k1 \<noteq> k2"
  moreover have "\<not> pendingGasConflict e x" "\<not> pendingGasConflict x e" for x
    using settled by (auto dest: pendingGasConflict_pending)
  ultimately show "\<not> pendingGasConflict e1 e2"
    using excl unfolding gas_exclusive_def by (metis fun_upd_apply option.inject)
qed

lemma spec_replace_exclusive:
  "gas_exclusive m \<Longrightarrow> je_status e \<noteq> Pending \<Longrightarrow> gas_exclusive (snd (spec_replace m e n))"
  using gas_exclusive_upd [of m e] by (auto simp: spec_replace_def split: option.splits)

lemma spec_claim_snd: "snd (spec_claim m e) = (if fst (spec_claim m e) then m(entry_key e \<mapsto> e) else m)"
  by (simp add: spec_claim_def)

lemma spec_replace_snd:
  "snd (spec_replace m e n) = (if fst (spec_replace m e n) then m(entry_key e \<mapsto> e) else m)"
  by (auto simp: spec_replace_def split: option.splits)

lemma spec_claim_True:
  "spec_claim m e = (True, m') \<longleftrightarrow>
     m (entry_key e) = None \<and> (\<forall>row \<in> ran m. \<not> pendingGasConflict row e) \<and> m' = m(entry_key e \<mapsto> e)"
  by (auto simp: spec_claim_def)

section \<open>The interface\<close>

locale transaction_journal =
  fixes jget :: "string \<Rightarrow> string \<Rightarrow> ('s, 'x, journal_entry option) eff"
    and jclaim :: "journal_entry \<Rightarrow> ('s, 'x, bool) eff"
    and jreplace :: "journal_entry \<Rightarrow> int \<Rightarrow> ('s, 'x, bool) eff"
    and jmap :: "'s \<Rightarrow> journal_map"
    and jinv :: "'s \<Rightarrow> bool"
  assumes get_inv: "jinv s \<Longrightarrow> jget ns rid s = (g, s') \<Longrightarrow> jinv s' \<and> jmap s' = jmap s"
    and get_value: "jinv s \<Longrightarrow> jget ns rid s = (Inr v, s') \<Longrightarrow> v = jmap s (ns, rid)"
    and claim_inv: "jinv s \<Longrightarrow> jclaim e s = (r, s') \<Longrightarrow> jinv s'"
    and claim_spec: "jinv s \<Longrightarrow> jclaim e s = (Inr b, s') \<Longrightarrow> (b, jmap s') = spec_claim (jmap s) e"
    and claim_fail: "jinv s \<Longrightarrow> jclaim e s = (Inl x, s') \<Longrightarrow> jmap s' = jmap s"
    and replace_inv: "jinv s \<Longrightarrow> jreplace e n s = (r, s') \<Longrightarrow> jinv s'"
    and replace_spec: "jinv s \<Longrightarrow> jreplace e n s = (Inr b, s') \<Longrightarrow> (b, jmap s') = spec_replace (jmap s) e n"
    and replace_fail: "jinv s \<Longrightarrow> jreplace e n s = (Inl x, s') \<Longrightarrow> jmap s' = jmap s"
    and inv_keyed: "jinv s \<Longrightarrow> keyed (jmap s)"
begin

lemma claim_won:
  assumes "jinv s" "jclaim e s = (Inr True, s')"
  shows "jmap s (entry_key e) = None" "jmap s' = (jmap s)(entry_key e \<mapsto> e)"
    "\<And>row. row \<in> ran (jmap s) \<Longrightarrow> \<not> pendingGasConflict row e"
  using claim_spec [OF assms] spec_claim_True [of "jmap s" e "jmap s'"] by auto

lemma claim_lost:
  assumes "jinv s" "jclaim e s = (r, s')" "r \<noteq> Inr True"
  shows "jmap s' = jmap s"
proof (cases r)
  case (Inl x)
  with assms claim_fail show ?thesis by blast
next
  case (Inr b)
  with assms claim_spec [of s e False s'] show ?thesis
    by (auto simp: spec_claim_def split: if_splits)
qed

lemma claim_extends: "jinv s \<Longrightarrow> jclaim e s = (r, s') \<Longrightarrow> journal_extends (jmap s) (jmap s')"
  using spec_claim_extends [of "jmap s" e] claim_spec [of s e _ s'] claim_fail [of s e _ s']
  by (cases r) (metis snd_conv journal_extends_refl)+

lemma replace_extends: "jinv s \<Longrightarrow> jreplace e n s = (r, s') \<Longrightarrow> journal_extends (jmap s) (jmap s')"
  using spec_replace_extends [of "jmap s" e n] replace_spec [of s e n _ s'] replace_fail [of s e n _ s']
  by (cases r) (metis snd_conv journal_extends_refl)+

lemma claim_exclusive:
  "jinv s \<Longrightarrow> jclaim e s = (r, s') \<Longrightarrow> gas_exclusive (jmap s) \<Longrightarrow> gas_exclusive (jmap s')"
  using spec_claim_exclusive [of "jmap s" e] claim_spec [of s e _ s'] claim_fail [of s e _ s']
  by (cases r) (metis snd_conv)+

lemma replace_exclusive:
  "jinv s \<Longrightarrow> jreplace e n s = (r, s') \<Longrightarrow> je_status e \<noteq> Pending \<Longrightarrow> gas_exclusive (jmap s)
    \<Longrightarrow> gas_exclusive (jmap s')"
  using spec_replace_exclusive [of "jmap s" e n] replace_spec [of s e n _ s'] replace_fail [of s e n _ s']
  by (cases r) (metis snd_conv)+

text \<open>What the operations of one journal can do to its map, in any order.\<close>

lemma replace_dom:
  assumes "jinv s" "jreplace e n s = (r, s')"
  shows "dom (jmap s') = dom (jmap s)"
proof (cases r)
  case (Inl x)
  with assms replace_fail show ?thesis by metis
next
  case (Inr b)
  with assms have "(b, jmap s') = spec_replace (jmap s) e n" by (blast dest: replace_spec)
  then show ?thesis by (auto simp: spec_replace_def split: option.splits if_splits)
qed

end

section \<open>The in-memory journal\<close>

type_synonym memory_journal = "(journal_key \<times> journal_entry) list"

definition mem_get :: "string \<Rightarrow> string \<Rightarrow> (memory_journal, 'x, journal_entry option) eff" where
  "mem_get namespace requestId = getE (\<lambda>entries. map_of entries (namespace, requestId))"

definition mem_claim :: "journal_entry \<Rightarrow> (memory_journal, 'x, bool) eff" where
  "mem_claim e = (\<lambda>entries.
    (let key = entry_key e in
     if map_of entries key \<noteq> None \<or> (\<exists>row \<in> set (map snd entries). pendingGasConflict row e)
     then (Inr False, entries)
     else (Inr True, AList.update key e entries)))"

definition mem_replace :: "journal_entry \<Rightarrow> int \<Rightarrow> (memory_journal, 'x, bool) eff" where
  "mem_replace e expectedRevision = (\<lambda>entries.
    (let key = entry_key e in
     case map_of entries key of
       None \<Rightarrow> (Inr False, entries)
     | Some current \<Rightarrow>
         if je_revision current \<noteq> expectedRevision \<or> je_digest current \<noteq> je_digest e
              \<or> je_status current \<noteq> Pending
         then (Inr False, entries)
         else (Inr True, AList.update key e entries)))"

definition mem_inv :: "memory_journal \<Rightarrow> bool" where
  "mem_inv entries \<longleftrightarrow> distinct (map fst entries) \<and> keyed (map_of entries)"

lemma ran_map_of_mem: "mem_inv entries \<Longrightarrow> ran (map_of entries) = set (map snd entries)"
  by (simp add: mem_inv_def ran_distinct)

lemma mem_inv_update [intro]: "mem_inv s \<Longrightarrow> mem_inv (AList.update (entry_key e) e s)"
  by (auto simp: mem_inv_def distinct_update)

lemma mem_claim_spec:
  assumes inv: "mem_inv s" and run: "mem_claim e s = (r, s')"
  shows "mem_inv s'" "r = Inr (fst (spec_claim (map_of s) e)) \<and> map_of s' = snd (spec_claim (map_of s) e)"
proof -
  consider "fst (spec_claim (map_of s) e)" "r = Inr True" "s' = AList.update (entry_key e) e s"
    | "\<not> fst (spec_claim (map_of s) e)" "r = Inr False" "s' = s"
    using run by (force simp: mem_claim_def spec_claim_def Let_def ran_map_of_mem [OF inv] split: if_splits)
  note outcome = this
  from outcome show "mem_inv s'" by cases (simp_all add: mem_inv_update inv)
  from outcome show "r = Inr (fst (spec_claim (map_of s) e)) \<and> map_of s' = snd (spec_claim (map_of s) e)"
    by cases (simp_all add: spec_claim_snd)
qed

lemma mem_replace_spec:
  assumes inv: "mem_inv s" and run: "mem_replace e n s = (r, s')"
  shows "mem_inv s'" "r = Inr (fst (spec_replace (map_of s) e n)) \<and> map_of s' = snd (spec_replace (map_of s) e n)"
proof -
  consider "fst (spec_replace (map_of s) e n)" "r = Inr True" "s' = AList.update (entry_key e) e s"
    | "\<not> fst (spec_replace (map_of s) e n)" "r = Inr False" "s' = s"
    using run by (force simp: mem_replace_def spec_replace_def Let_def split: if_splits option.splits)
  note outcome = this
  from outcome show "mem_inv s'" by cases (simp_all add: mem_inv_update inv)
  from outcome show "r = Inr (fst (spec_replace (map_of s) e n)) \<and> map_of s' = snd (spec_replace (map_of s) e n)"
    by cases (simp_all add: spec_replace_snd)
qed

interpretation memory: transaction_journal mem_get mem_claim mem_replace map_of mem_inv
proof
  fix s s' :: memory_journal and ns rid g v
  assume "mem_inv s"
  then show "mem_get ns rid s = (g, s') \<Longrightarrow> mem_inv s' \<and> map_of s' = map_of s"
    and "mem_get ns rid s = (Inr v, s') \<Longrightarrow> v = map_of s (ns, rid)"
    by (simp_all add: mem_get_def eff_elims)
next
  fix s s' :: memory_journal and e r b x
  assume inv: "mem_inv s"
  show "mem_claim e s = (r, s') \<Longrightarrow> mem_inv s'" by (rule mem_claim_spec(1) [OF inv])
  show "mem_claim e s = (Inr b, s') \<Longrightarrow> (b, map_of s') = spec_claim (map_of s) e"
    using mem_claim_spec(2) [OF inv, of e "Inr b" s'] by (simp add: prod_eq_iff)
  show "mem_claim e s = (Inl x, s') \<Longrightarrow> map_of s' = map_of s"
    using mem_claim_spec(2) [OF inv, of e "Inl x" s'] by simp
next
  fix s s' :: memory_journal and e n r b x
  assume inv: "mem_inv s"
  show "mem_replace e n s = (r, s') \<Longrightarrow> mem_inv s'" by (rule mem_replace_spec(1) [OF inv])
  show "mem_replace e n s = (Inr b, s') \<Longrightarrow> (b, map_of s') = spec_replace (map_of s) e n"
    using mem_replace_spec(2) [OF inv, of e n "Inr b" s'] by (simp add: prod_eq_iff)
  show "mem_replace e n s = (Inl x, s') \<Longrightarrow> map_of s' = map_of s"
    using mem_replace_spec(2) [OF inv, of e n "Inl x" s'] by simp
next
  show "mem_inv s \<Longrightarrow> keyed (map_of s)" for s by (simp add: mem_inv_def)
qed

section \<open>The IndexedDB journal\<close>

text \<open>
  A browser object store: rows with a unique key and an index on the namespace. Requests of
  one transaction may fail at any point, and a transaction that fails is rolled back; which
  requests fail is the stream \<open>idb_faults\<close> (a request fails when its bit is set, and
  succeeds once the stream is exhausted).
\<close>

record idb_row =
  row_key :: journal_key
  row_namespace :: string
  row_entry :: journal_entry

record idb_state =
  idb_rows :: "idb_row list"
  idb_faults :: "bool list"

definition idb_request :: "(idb_state, unit, unit) eff" where
  "idb_request = (\<lambda>s. case idb_faults s of
     [] \<Rightarrow> (Inr (), s)
   | f # fs \<Rightarrow> (if f then Inl () else Inr (), s\<lparr>idb_faults := fs\<rparr>))"

definition idb_find :: "journal_key \<Rightarrow> idb_row list \<Rightarrow> idb_row option" where
  "idb_find k rows = List.find (\<lambda>row. row_key row = k) rows"

definition idb_put :: "idb_row \<Rightarrow> idb_row list \<Rightarrow> idb_row list" where
  "idb_put row rows = filter (\<lambda>r. row_key r \<noteq> row_key row) rows @ [row]"

text \<open>
  \<^verbatim>\<open>get\<close>: opening the database, the read and the completion of its transaction may fail.
\<close>

definition idb_get :: "string \<Rightarrow> string \<Rightarrow> (idb_state, unit, journal_entry option) eff" where
  "idb_get namespace requestId =
     bindE idb_request (\<lambda>_.
     bindE idb_request (\<lambda>_.
     bindE (getE (\<lambda>s. idb_find (namespace, requestId) (idb_rows s))) (\<lambda>row.
     bindE idb_request (\<lambda>_. okE (map_option row_entry row)))))"

text \<open>
  A read-write transaction: its writes reach the store only if its completion succeeds.
\<close>

definition idb_commit :: "(idb_row list \<Rightarrow> idb_row list) \<Rightarrow> (idb_state, unit, unit) eff" where
  "idb_commit change =
     bindE idb_request (\<lambda>_. modifyE (\<lambda>s. s\<lparr>idb_rows := change (idb_rows s)\<rparr>))"

definition idb_scan :: "journal_entry \<Rightarrow> idb_row list \<Rightarrow> bool" where
  "idb_scan e rows \<longleftrightarrow> (\<exists>row \<in> set rows. je_requestId (row_entry row) = je_requestId e
     \<or> pendingGasConflict (row_entry row) e)"

definition idb_claim :: "journal_entry \<Rightarrow> (idb_state, unit, bool) eff" where
  "idb_claim e =
     bindE idb_request (\<lambda>_.
     bindE idb_request (\<lambda>_.
     bindE (getE (\<lambda>s. filter (\<lambda>row. row_namespace row = je_namespace e) (idb_rows s))) (\<lambda>rows.
     if idb_scan e rows
     then bindE (idb_commit (\<lambda>rows. rows)) (\<lambda>_. okE False)
     else bindE idb_request (\<lambda>_.
          bindE (getE (\<lambda>s. idb_find (entry_key e) (idb_rows s))) (\<lambda>existing.
          bindE (assertE (existing = None) ()) (\<lambda>_.
          bindE (idb_commit (\<lambda>rows. rows @
                   [\<lparr>row_key = entry_key e, row_namespace = je_namespace e, row_entry = e\<rparr>]))
            (\<lambda>_. okE True)))))))"

definition idb_replace :: "journal_entry \<Rightarrow> int \<Rightarrow> (idb_state, unit, bool) eff" where
  "idb_replace e expectedRevision =
     bindE idb_request (\<lambda>_.
     bindE idb_request (\<lambda>_.
     bindE (getE (\<lambda>s. idb_find (entry_key e) (idb_rows s))) (\<lambda>current.
     if (case current of None \<Rightarrow> True
         | Some row \<Rightarrow> je_revision (row_entry row) \<noteq> expectedRevision
             \<or> je_digest (row_entry row) \<noteq> je_digest e \<or> je_status (row_entry row) \<noteq> Pending)
     then bindE (idb_commit (\<lambda>rows. rows)) (\<lambda>_. okE False)
     else bindE idb_request (\<lambda>_.
          bindE (idb_commit (idb_put
                   \<lparr>row_key = entry_key e, row_namespace = je_namespace e, row_entry = e\<rparr>))
            (\<lambda>_. okE True)))))"

definition idb_map :: "idb_state \<Rightarrow> journal_map" where
  "idb_map s = (\<lambda>k. map_option row_entry (idb_find k (idb_rows s)))"

definition idb_inv :: "idb_state \<Rightarrow> bool" where
  "idb_inv s \<longleftrightarrow> distinct (map row_key (idb_rows s)) \<and>
     (\<forall>row \<in> set (idb_rows s). row_key row = entry_key (row_entry row)
        \<and> row_namespace row = je_namespace (row_entry row))"

text \<open>Everything but the fault stream is what the operations are about.\<close>

lemma idb_request_rows: "idb_request s = (r, s') \<Longrightarrow> idb_rows s' = idb_rows s"
  by (auto simp: idb_request_def split: list.splits if_splits)

lemma idb_map_rows: "idb_rows s' = idb_rows s \<Longrightarrow> idb_map s' = idb_map s"
  by (simp add: idb_map_def)

lemma idb_inv_rows: "idb_rows s' = idb_rows s \<Longrightarrow> idb_inv s' = idb_inv s"
  by (simp add: idb_inv_def)

lemma idb_find_distinct:
  assumes "distinct (map row_key rows)"
  shows "idb_find k rows = Some row \<longleftrightarrow> row \<in> set rows \<and> row_key row = k"
  using assms unfolding idb_find_def
  by (induction rows) (auto simp: image_iff)

lemma idb_find_None: "idb_find k rows = None \<longleftrightarrow> (\<forall>row \<in> set rows. row_key row \<noteq> k)"
  by (auto simp: idb_find_def find_None_iff)

lemma idb_find_append: "idb_find k (xs @ ys) = (case idb_find k xs of None \<Rightarrow> idb_find k ys | Some r \<Rightarrow> Some r)"
  by (induction xs) (auto simp: idb_find_def)

lemma idb_find_filter:
  "idb_find k (filter (\<lambda>r. row_key r \<noteq> k') rows) = (if k = k' then None else idb_find k rows)"
  by (induction rows) (auto simp: idb_find_def)

lemma idb_find_put: "idb_find k (idb_put row rows) = (if k = row_key row then Some row else idb_find k rows)"
  unfolding idb_put_def idb_find_append idb_find_filter
  by (auto simp: idb_find_def split: option.splits)

lemma idb_map_append:
  assumes "idb_find (row_key row) (idb_rows s) = None"
  shows "idb_map (s\<lparr>idb_rows := idb_rows s @ [row]\<rparr>) = (idb_map s)(row_key row \<mapsto> row_entry row)"
proof
  fix k
  have "idb_find k [row] = (if k = row_key row then Some row else None)" by (simp add: idb_find_def)
  with assms show "idb_map (s\<lparr>idb_rows := idb_rows s @ [row]\<rparr>) k = ((idb_map s)(row_key row \<mapsto> row_entry row)) k"
    by (auto simp: idb_map_def idb_find_append split: option.splits)
qed

lemma idb_map_put:
  "idb_map (s\<lparr>idb_rows := idb_put row (idb_rows s)\<rparr>) = (idb_map s)(row_key row \<mapsto> row_entry row)"
  by (auto simp: idb_map_def idb_find_put fun_eq_iff)

lemma idb_inv_append:
  assumes "idb_inv s" "idb_find (entry_key e) (idb_rows s) = None"
  shows "idb_inv (s\<lparr>idb_rows := idb_rows s @
    [\<lparr>row_key = entry_key e, row_namespace = je_namespace e, row_entry = e\<rparr>]\<rparr>)"
  using assms by (auto simp: idb_inv_def idb_find_None)

lemma idb_inv_put:
  assumes "idb_inv s"
  shows "idb_inv (s\<lparr>idb_rows := idb_put
    \<lparr>row_key = entry_key e, row_namespace = je_namespace e, row_entry = e\<rparr> (idb_rows s)\<rparr>)"
  using assms by (auto simp: idb_inv_def idb_put_def distinct_map_filter)

text \<open>
  Looking only at the rows of one namespace loses nothing: a gas conflict and an equal
  request key both need an equal namespace.
\<close>

lemma idb_claim_scan:
  assumes "idb_inv s"
  shows "idb_scan e (filter (\<lambda>row. row_namespace row = je_namespace e) (idb_rows s))
    \<longleftrightarrow> \<not> fst (spec_claim (idb_map s) e)"
proof -
  have row: "idb_map s k = Some x \<longleftrightarrow> (\<exists>row \<in> set (idb_rows s). row_key row = k \<and> row_entry row = x)" for k x
    using assms idb_find_distinct [of "idb_rows s" k] by (auto simp: idb_map_def idb_inv_def)
  have key: "entry_key (row_entry row) = row_key row \<and> row_namespace row = je_namespace (row_entry row)"
    if "row \<in> set (idb_rows s)" for row
    using assms that by (auto simp: idb_inv_def)
  show ?thesis (is "?scan \<longleftrightarrow> ?taken")
  proof
    assume ?scan
    then obtain r where r: "r \<in> set (idb_rows s)" "row_namespace r = je_namespace e"
      and c: "je_requestId (row_entry r) = je_requestId e \<or> pendingGasConflict (row_entry r) e" by (auto simp: idb_scan_def)
    from r(1) have some: "idb_map s (row_key r) = Some (row_entry r)" using row by blast
    from c show ?taken
    proof
      assume "je_requestId (row_entry r) = je_requestId e"
      with key [OF r(1)] r(2) have "row_key r = entry_key e" by (simp add: entry_key_def)
      with some show ?taken by (simp add: spec_claim_def)
    next
      assume "pendingGasConflict (row_entry r) e"
      moreover from some have "row_entry r \<in> ran (idb_map s)" by (rule ranI)
      ultimately show ?taken by (auto simp: spec_claim_def)
    qed
  next
    assume ?taken
    then consider x where "idb_map s (entry_key e) = Some x"
      | k x where "idb_map s k = Some x" "pendingGasConflict x e"
      by (auto simp: spec_claim_def ran_def split: if_splits)
    then show ?scan
    proof cases
      case 1
      then obtain r where r: "r \<in> set (idb_rows s)" "row_key r = entry_key e" using row by blast
      with key [OF r(1)] show ?thesis by (auto simp: entry_key_def idb_scan_def)
    next
      case 2
      then obtain r where r: "r \<in> set (idb_rows s)" "row_entry r = x" using row by blast
      with key [OF r(1)] 2 pendingGasConflict_pending [OF 2(2)] show ?thesis
        by (auto simp: idb_scan_def)
    qed
  qed
qed

text \<open>A commit either changes the rows as asked or fails and leaves them.\<close>

lemma idb_commit_cases:
  assumes "idb_commit change s = (r, s')"
  obtains (failed) "r = Inl ()" "idb_rows s' = idb_rows s"
    | (committed) "r = Inr ()" "idb_rows s' = change (idb_rows s)"
  using assms by (auto simp: idb_commit_def eff_elims dest!: idb_request_rows)

lemma idb_claim_cases:
  assumes inv: "idb_inv s" and run: "idb_claim e s = (r, s')"
  obtains (failed) "r = Inl ()" "idb_rows s' = idb_rows s"
    | (taken) "r = Inr False" "idb_rows s' = idb_rows s" "\<not> fst (spec_claim (idb_map s) e)"
    | (won) "r = Inr True" "fst (spec_claim (idb_map s) e)" "idb_find (entry_key e) (idb_rows s) = None"
        "idb_rows s' = idb_rows s @
          [\<lparr>row_key = entry_key e, row_namespace = je_namespace e, row_entry = e\<rparr>]"
  using run unfolding idb_claim_def
  by (auto simp: eff_elims idb_claim_scan [OF inv] dest!: idb_request_rows
      elim!: idb_commit_cases split: if_splits)

lemma idb_replace_cases:
  assumes inv: "idb_inv s" and run: "idb_replace e n s = (r, s')"
  obtains (failed) "r = Inl ()" "idb_rows s' = idb_rows s"
    | (stale) "r = Inr False" "idb_rows s' = idb_rows s" "\<not> fst (spec_replace (idb_map s) e n)"
    | (won) "r = Inr True" "fst (spec_replace (idb_map s) e n)"
        "idb_rows s' = idb_put
          \<lparr>row_key = entry_key e, row_namespace = je_namespace e, row_entry = e\<rparr> (idb_rows s)"
proof -
  let ?stale = "\<lambda>current. case current of None \<Rightarrow> True
         | Some row \<Rightarrow> je_revision (row_entry row) \<noteq> n
             \<or> je_digest (row_entry row) \<noteq> je_digest e \<or> je_status (row_entry row) \<noteq> Pending"
  have scan: "?stale (idb_find (entry_key e) (idb_rows s)) \<longleftrightarrow> \<not> fst (spec_replace (idb_map s) e n)"
    by (auto simp: spec_replace_def idb_map_def split: option.splits)
  show thesis
    using run that unfolding idb_replace_def
    by (auto simp: eff_elims scan dest!: idb_request_rows elim!: idb_commit_cases
        split del: option.splits split: if_splits)
qed

lemma idb_claim_spec:
  assumes inv: "idb_inv s" and run: "idb_claim e s = (r, s')"
  shows "idb_inv s' \<and> (r = Inl () \<and> idb_map s' = idb_map s
    \<or> r = Inr (fst (spec_claim (idb_map s) e)) \<and> idb_map s' = snd (spec_claim (idb_map s) e))"
  using inv run
proof (cases rule: idb_claim_cases)
  case failed
  then show ?thesis using inv by (simp add: idb_inv_rows [of s' s] idb_map_rows [of s' s])
next
  case taken
  then show ?thesis using inv by (simp add: idb_inv_rows [of s' s] idb_map_rows [of s' s] spec_claim_snd)
next
  case won
  let ?row = "\<lparr>row_key = entry_key e, row_namespace = je_namespace e, row_entry = e\<rparr>"
  let ?s = "s\<lparr>idb_rows := idb_rows s @ [?row]\<rparr>"
  have "idb_rows s' = idb_rows ?s" using won(4) by simp
  then have "idb_inv s' = idb_inv ?s" "idb_map s' = idb_map ?s"
    by (rule idb_inv_rows, rule idb_map_rows)
  then show ?thesis
    using won(1,2) idb_inv_append [OF inv won(3)] idb_map_append [of ?row s] won(3) by (simp add: spec_claim_snd)
qed

lemma idb_replace_spec:
  assumes inv: "idb_inv s" and run: "idb_replace e n s = (r, s')"
  shows "idb_inv s' \<and> (r = Inl () \<and> idb_map s' = idb_map s
    \<or> r = Inr (fst (spec_replace (idb_map s) e n)) \<and> idb_map s' = snd (spec_replace (idb_map s) e n))"
  using inv run
proof (cases rule: idb_replace_cases)
  case failed
  then show ?thesis using inv by (simp add: idb_inv_rows [of s' s] idb_map_rows [of s' s])
next
  case stale
  then show ?thesis using inv by (simp add: idb_inv_rows [of s' s] idb_map_rows [of s' s] spec_replace_snd)
next
  case won
  let ?row = "\<lparr>row_key = entry_key e, row_namespace = je_namespace e, row_entry = e\<rparr>"
  let ?s = "s\<lparr>idb_rows := idb_put ?row (idb_rows s)\<rparr>"
  have "idb_rows s' = idb_rows ?s" using won(3) by simp
  then have "idb_inv s' = idb_inv ?s" "idb_map s' = idb_map ?s"
    by (rule idb_inv_rows, rule idb_map_rows)
  then show ?thesis
    using won(1,2) idb_inv_put [OF inv, of e] idb_map_put [of ?row s] by (simp add: spec_replace_snd)
qed

interpretation indexed_db: transaction_journal idb_get idb_claim idb_replace idb_map idb_inv
proof
  fix s s' :: idb_state and ns rid g v
  assume "idb_inv s"
  then show "idb_get ns rid s = (g, s') \<Longrightarrow> idb_inv s' \<and> idb_map s' = idb_map s"
    by (auto simp: idb_get_def eff_elims idb_map_def idb_inv_def dest!: idb_request_rows)
  show "idb_get ns rid s = (Inr v, s') \<Longrightarrow> v = idb_map s (ns, rid)"
    by (auto simp: idb_get_def eff_elims idb_map_def dest!: idb_request_rows)
next
  fix s s' :: idb_state and e r b x
  assume inv: "idb_inv s"
  show "idb_claim e s = (r, s') \<Longrightarrow> idb_inv s'" using idb_claim_spec [OF inv] by blast
  show "idb_claim e s = (Inr b, s') \<Longrightarrow> (b, idb_map s') = spec_claim (idb_map s) e"
    using idb_claim_spec [OF inv, of e "Inr b" s'] by (simp add: prod_eq_iff)
  show "idb_claim e s = (Inl x, s') \<Longrightarrow> idb_map s' = idb_map s"
    using idb_claim_spec [OF inv, of e "Inl x" s'] by simp
next
  fix s s' :: idb_state and e n r b x
  assume inv: "idb_inv s"
  show "idb_replace e n s = (r, s') \<Longrightarrow> idb_inv s'" using idb_replace_spec [OF inv] by blast
  show "idb_replace e n s = (Inr b, s') \<Longrightarrow> (b, idb_map s') = spec_replace (idb_map s) e n"
    using idb_replace_spec [OF inv, of e n "Inr b" s'] by (simp add: prod_eq_iff)
  show "idb_replace e n s = (Inl x, s') \<Longrightarrow> idb_map s' = idb_map s"
    using idb_replace_spec [OF inv, of e n "Inl x" s'] by simp
next
  fix s :: idb_state
  assume "idb_inv s"
  then show "keyed (idb_map s)"
    by (auto simp: keyed_def idb_map_def idb_inv_def idb_find_distinct)
qed

end
