(* ===== verification/Transaction_Manager.thy ===== *)
theory Transaction_Manager
  imports Transaction_Journal Json_Text
begin

text \<open>
  The self-paying transaction manager, \<^verbatim>\<open>SelfPayTransactionManager\<close> of
  \<^verbatim>\<open>sdk/src/transaction-manager.ts\<close>: preparing a quote, selecting gas coins, and the submit path
  (check, sign, claim the journal, broadcast, confirm).

  The Sui client, the signer and the clock are not part of the repository: they are the
  fields of \<open>client_env\<close>, actions on an arbitrary outside state \<open>'r\<close>. The journal is any
  \<open>journal_ops\<close> over an arbitrary state \<open>'s\<close>. The world also logs every call of
  \<^verbatim>\<open>executeTransaction\<close> with the request it was made for (\<open>w_sent\<close>); no definition reads it.
\<close>

section \<open>Data\<close>

datatype preflight_code =
    Invalid_request | Needs_funds | Gas_unavailable | Rpc_unavailable | Simulation_failed
  | Value_limit_exceeded | Already_recorded | Stale_quote | Signature_not_obtained
  | Journal_unavailable | Gas_reserved

text \<open>\<open>OtherError\<close> is any error that is not a \<^verbatim>\<open>TransactionPreflightError\<close>; \<open>OutOfFuel\<close> is not an
  error of the code but a page loop cut off by the model.\<close>

datatype tm_error = Preflight preflight_code | OtherError | OutOfFuel

record sui_balance =
  b_coinType :: string
  b_balance :: string
  b_addressBalance :: string

datatype tx_input = UnresolvedObject string | ImmOrOwnedObject string | Receiving string
  | SharedObject string | PureInput

record tx_data =
  td_sender :: "string option"
  td_gasOwner :: "string option"
  td_gasBudget :: "int option"
  td_gasPrice :: "string option"
  td_gasPayment :: "gas_reference list option"
  td_inputs :: "tx_input list"
  td_commands :: string

record tx_effects =
  ef_transactionDigest :: string
  ef_success :: bool
  ef_gasUsed :: gas_cost_summary

record balance_change =
  bc_address :: string
  bc_coinType :: string
  bc_amount :: int

record signed_data =
  sd_sender :: string
  sd_gasOwner :: string
  sd_gasBudget :: string

record tx_result =
  tr_digest :: string
  tr_success :: bool
  tr_error :: "string option"
  tr_effects :: "tx_effects option"
  tr_balanceChanges :: "balance_change list option"
  tr_transaction :: "signed_data option"

record chain_object =
  co_objectId :: string
  co_type :: "string option"
  co_content :: "string option"
  co_addressOwner :: "string option"
  co_version :: string
  co_digest :: string

record coin_page =
  cp_objects :: "string list"
  cp_cursor :: "string option"
  cp_hasNextPage :: bool

record 'r client_env =
  cl_network :: string
  cl_address :: string
  cl_quoteTtlMs :: int
  cl_now :: "'r \<Rightarrow> int \<times> 'r"
  cl_getChainIdentifier :: "('r, unit, string) eff"
  cl_getBalance :: "string \<Rightarrow> ('r, unit, sui_balance) eff"
  cl_getReferenceGasPrice :: "('r, unit, string) eff"
  cl_buildKind :: "tx_data \<Rightarrow> ('r, unit, tx_data) eff"
  cl_build :: "tx_data \<Rightarrow> ('r, unit, string) eff"
  cl_simulate :: "string \<Rightarrow> ('r, unit, tx_result) eff"
  cl_listCoins :: "string \<Rightarrow> string option \<Rightarrow> ('r, unit, coin_page) eff"
  cl_getObject :: "string \<Rightarrow> ('r, unit, chain_object) eff"
  cl_sign :: "string \<Rightarrow> ('r, unit, string \<times> string) eff"
  cl_execute :: "string \<Rightarrow> string \<Rightarrow> ('r, unit, tx_result) eff"
  cl_getTransaction :: "string \<Rightarrow> ('r, unit, tx_result) eff"
  cl_assertBeforeBroadcast :: "'r \<Rightarrow> bool"
  cl_verifySignature :: "string \<Rightarrow> string \<Rightarrow> string \<Rightarrow> bool"
  cl_toBase64 :: "string \<Rightarrow> string"
  cl_digestOf :: "string \<Rightarrow> string"
  cl_normalizeAddress :: "string \<Rightarrow> string"
  cl_normalizeStructTag :: "string \<Rightarrow> string"
  cl_isValidDigest :: "string \<Rightarrow> bool"
  cl_parseCoin :: "string \<Rightarrow> (string \<times> int) option"

record ('s, 'x) journal_ops =
  jo_get :: "string \<Rightarrow> string \<Rightarrow> ('s, 'x, journal_entry option) eff"
  jo_claim :: "journal_entry \<Rightarrow> ('s, 'x, bool) eff"
  jo_replace :: "journal_entry \<Rightarrow> int \<Rightarrow> ('s, 'x, bool) eff"

text \<open>
  A quote is a frozen object compared by identity: \<open>q_handle\<close> is its identity. \<open>w_prepared\<close> is
  the weak map from quotes to what was prepared for them.
\<close>

record fee_quote =
  q_handle :: nat
  q_requestId :: string
  q_namespace :: string
  q_digest :: string
  q_sender :: string
  q_balance :: string
  q_requiredBalance :: int
  q_gasBudget :: int
  q_maxSuiSpend :: int
  q_estimatedGas :: int
  q_simulatedSuiSpend :: int
  q_expiresAtMs :: int

record prepared =
  p_quote :: fee_quote
  p_bytes :: string
  p_entry :: journal_entry
  p_used :: bool

datatype outcome_status = OConfirmed | OFailed | OUnknown

record tx_outcome =
  oc_status :: outcome_status
  oc_digest :: string
  oc_requestId :: string
  oc_reason :: "string option"
  oc_gasUsed :: "gas_cost_summary option"
  oc_actualGas :: "int option"
  oc_journalSynced :: bool
  oc_transaction :: "tx_result option"

record ('s, 'r) mworld =
  w_journal :: 's
  w_rpc :: 'r
  w_prepared :: "prepared list"
  w_sent :: "(journal_key \<times> string) list"

section \<open>Lifting the outside actions\<close>

definition rpcE :: "('r, unit, 'a) eff \<Rightarrow> (('s, 'r) mworld, tm_error, 'a) eff" where
  "rpcE m = (\<lambda>w. case m (w_rpc w) of
     (Inl _, r) \<Rightarrow> (Inl OtherError, w\<lparr>w_rpc := r\<rparr>)
   | (Inr a, r) \<Rightarrow> (Inr a, w\<lparr>w_rpc := r\<rparr>))"

definition journalE :: "('s, 'x, 'a) eff \<Rightarrow> (('s, 'r) mworld, tm_error, 'a) eff" where
  "journalE m = (\<lambda>w. case m (w_journal w) of
     (Inl _, s) \<Rightarrow> (Inl OtherError, w\<lparr>w_journal := s\<rparr>)
   | (Inr a, s) \<Rightarrow> (Inr a, w\<lparr>w_journal := s\<rparr>))"

definition sdkE :: "(sdk_error, 'a) result \<Rightarrow> ('w, tm_error, 'a) eff" where
  "sdkE r = (case r of Inl _ \<Rightarrow> throwE OtherError | Inr a \<Rightarrow> okE a)"

definition nowE :: "'r client_env \<Rightarrow> (('s, 'r) mworld, tm_error, int) eff" where
  "nowE env = rpcE (\<lambda>r. case cl_now env r of (t, r') \<Rightarrow> (Inr t, r'))"

text \<open>\<^verbatim>\<open>catch (cause) { if (cause instanceof TransactionPreflightError) throw cause; throw code }\<close>\<close>

definition wrapOther :: "preflight_code \<Rightarrow> (('s, 'r) mworld, tm_error, 'a) eff \<Rightarrow> (('s, 'r) mworld, tm_error, 'a) eff" where
  "wrapOther code m = catchE m (\<lambda>e. throwE (if e = OtherError then Preflight code else e))"

text \<open>\<^verbatim>\<open>catch (cause) { throw code }\<close>; a loop that does not end is not caught.\<close>

definition wrapAll :: "preflight_code \<Rightarrow> (('s, 'r) mworld, tm_error, 'a) eff \<Rightarrow> (('s, 'r) mworld, tm_error, 'a) eff" where
  "wrapAll code m = catchE m (\<lambda>e. throwE (if e = OutOfFuel then e else Preflight code))"

definition SUI_type :: "'r client_env \<Rightarrow> string" where
  "SUI_type env = cl_normalizeStructTag env ''0x2::sui::SUI''"

definition COIN_type :: "'r client_env \<Rightarrow> string" where
  "COIN_type env = cl_normalizeStructTag env ''0x2::coin::Coin<0x2::sui::SUI>''"

section \<open>The constructor, the namespace and journal reads\<close>

definition new_manager_ok :: "int option \<Rightarrow> string option \<Rightarrow> string \<Rightarrow> (tm_error, unit) result" where
  "new_manager_ok quoteTtlMs clientNetwork network =
     bindR (assertR (is_safe_integer quoteTtlMs \<and> 1 \<le> the quoteTtlMs \<and> the quoteTtlMs \<le> 120000)
              (Preflight Invalid_request)) (\<lambda>_.
     assertR (clientNetwork = None \<or> clientNetwork = Some [] \<or> clientNetwork = Some network)
       (Preflight Invalid_request))"

definition namespaceM :: "'r client_env \<Rightarrow> (('s, 'r) mworld, tm_error, string) eff" where
  "namespaceM env =
     bindE (wrapAll Rpc_unavailable (rpcE (cl_getChainIdentifier env))) (\<lambda>chainIdentifier.
     bindE (assertE (chainIdentifier \<noteq> []) (Preflight Rpc_unavailable)) (\<lambda>_.
     okE (stringify (JArray [JString (cl_network env), JString chainIdentifier,
                             JString (cl_address env)]))))"

definition valid_entry :: "'r client_env \<Rightarrow> string \<Rightarrow> string \<Rightarrow> journal_entry \<Rightarrow> bool" where
  "valid_entry env namespace requestId e \<longleftrightarrow>
     je_format e = 1 \<and> je_namespace e = namespace \<and> je_requestId e = requestId
     \<and> je_sender e = cl_address env \<and> cl_isValidDigest env (je_digest e)
     \<and> is_safe_integer (Some (je_revision e)) \<and> 1 \<le> je_revision e"

definition journalM :: "'r client_env \<Rightarrow> ('s, 'x) journal_ops \<Rightarrow> string \<Rightarrow> string
    \<Rightarrow> (('s, 'r) mworld, tm_error, journal_entry option) eff" where
  "journalM env J namespace requestId =
     wrapAll Journal_unavailable
       (bindE (journalE (jo_get J namespace requestId)) (\<lambda>entry.
        case entry of
          None \<Rightarrow> okE None
        | Some e \<Rightarrow> bindE (assertE (valid_entry env namespace requestId e) OtherError) (\<lambda>_. okE entry)))"

section \<open>Selecting gas coins\<close>

definition valid_gas_coin :: "'r client_env \<Rightarrow> string \<Rightarrow> string \<Rightarrow> chain_object \<Rightarrow> bool" where
  "valid_gas_coin env owner cid ob \<longleftrightarrow>
     co_objectId ob = cid
     \<and> (case co_type ob of None \<Rightarrow> False | Some t \<Rightarrow> t \<noteq> [] \<and> cl_normalizeStructTag env t = COIN_type env)
     \<and> co_content ob \<noteq> None \<and> co_addressOwner ob = Some owner"

text \<open>Reading one coin: its provenance is checked; the result is its reference and balance.\<close>

definition gas_coin :: "'r client_env \<Rightarrow> string \<Rightarrow> string \<Rightarrow> (('s, 'r) mworld, tm_error, gas_reference \<times> int) eff" where
  "gas_coin env owner cid =
     bindE (rpcE (cl_getObject env cid)) (\<lambda>ob.
     bindE (assertE (valid_gas_coin env owner cid ob) OtherError) (\<lambda>_.
     case cl_parseCoin env (the (co_content ob)) of
       None \<Rightarrow> throwE OtherError
     | Some (uid, balance) \<Rightarrow>
         bindE (assertE (uid = cid) OtherError) (\<lambda>_.
         okE (\<lparr>gr_objectId = cid, gr_version = co_version ob, gr_digest = co_digest ob\<rparr>, balance))))"

text \<open>
  One page of coins: \<open>Inl\<close> is the early return once the total suffices, \<open>Inr\<close> the visited ids,
  references and total after the page.
\<close>

type_synonym gas_acc = "string list \<times> gas_reference list \<times> int"

fun gas_page :: "'r client_env \<Rightarrow> string \<Rightarrow> int \<Rightarrow> string list \<Rightarrow> string list \<Rightarrow> gas_acc
    \<Rightarrow> (('s, 'r) mworld, tm_error, gas_reference list + gas_acc) eff" where
  "gas_page env owner required excluded [] acc = okE (Inr acc)"
| "gas_page env owner required excluded (coin # coins) (visited, refs, tot) =
    (let cid = cl_normalizeAddress env coin in
     if cid \<in> set visited then throwE OtherError
     else if cid \<in> set excluded
     then gas_page env owner required excluded coins (cid # visited, refs, tot)
     else bindE (gas_coin env owner cid) (\<lambda>(ref, balance).
       if balance = 0
       then gas_page env owner required excluded coins (cid # visited, refs, tot)
       else if required \<le> tot + balance then okE (Inl (refs @ [ref]))
       else if 256 \<le> length (refs @ [ref]) then throwE (Preflight Gas_unavailable)
       else gas_page env owner required excluded coins (cid # visited, refs @ [ref], tot + balance)))"

fun gas_pages :: "nat \<Rightarrow> 'r client_env \<Rightarrow> string \<Rightarrow> int \<Rightarrow> string list \<Rightarrow> string option \<Rightarrow> gas_acc
    \<Rightarrow> (('s, 'r) mworld, tm_error, gas_reference list) eff" where
  "gas_pages 0 env owner required excluded cursor acc = throwE OutOfFuel"
| "gas_pages (Suc fuel) env owner required excluded cursor acc =
    bindE (rpcE (cl_listCoins env owner cursor)) (\<lambda>page.
    bindE (gas_page env owner required excluded (cp_objects page) acc) (\<lambda>res.
    case res of
      Inl refs \<Rightarrow> okE refs
    | Inr acc' \<Rightarrow>
        bindE (assertE (\<not> (cp_hasNextPage page
                 \<and> (cp_cursor page = None \<or> cp_cursor page = Some [] \<or> cp_cursor page = cursor)))
                 OtherError) (\<lambda>_.
        if cp_hasNextPage page
        then gas_pages fuel env owner required excluded (cp_cursor page) acc'
        else throwE (Preflight Gas_unavailable))))"

definition gasCoins :: "nat \<Rightarrow> 'r client_env \<Rightarrow> string \<Rightarrow> int \<Rightarrow> string list
    \<Rightarrow> (('s, 'r) mworld, tm_error, gas_reference list) eff" where
  "gasCoins fuel env owner required excluded = gas_pages fuel env owner required excluded None ([], [], 0)"

section \<open>Preparing a quote\<close>

record prepare_input =
  pi_requestId :: string
  pi_transaction :: tx_data
  pi_gasBudget :: u64_input
  pi_maxSuiSpend :: "u64_input option"

fun input_object_ids :: "'r client_env \<Rightarrow> tx_input \<Rightarrow> string list" where
  "input_object_ids env (UnresolvedObject i) = [cl_normalizeAddress env i]"
| "input_object_ids env (ImmOrOwnedObject i) = [i]"
| "input_object_ids env (Receiving i) = [i]"
| "input_object_ids env (SharedObject i) = [i]"
| "input_object_ids env PureInput = []"

definition pays_itself :: "'r client_env \<Rightarrow> tx_data \<Rightarrow> bool" where
  "pays_itself env tx \<longleftrightarrow>
     (case td_sender tx of None \<Rightarrow> True | Some a \<Rightarrow> a = [] \<or> cl_normalizeAddress env a = cl_address env)
     \<and> (case td_gasOwner tx of None \<Rightarrow> True | Some a \<Rightarrow> a = [] \<or> cl_normalizeAddress env a = cl_address env)"

text \<open>
  Funding: the balance must cover gas budget plus the approved spend; the gas is paid from
  the address balance if it suffices, else from selected coins.
\<close>

definition fund :: "nat \<Rightarrow> 'r client_env \<Rightarrow> tx_data \<Rightarrow> int
    \<Rightarrow> (('s, 'r) mworld, tm_error, sui_balance \<times> tx_data \<times> gas_reference list \<times> bool) eff" where
  "fund fuel env tx required =
     wrapOther Rpc_unavailable
       (bindE (rpcE (cl_getBalance env (cl_address env))) (\<lambda>balance.
        bindE (assertE (cl_normalizeStructTag env (b_coinType balance) = SUI_type env) OtherError) (\<lambda>_.
        bindE (sdkE (toBigInt (UString (b_balance balance)))) (\<lambda>available.
        bindE (assertE (required \<le> available) (Preflight Needs_funds)) (\<lambda>_.
        bindE (rpcE (cl_getReferenceGasPrice env)) (\<lambda>price.
        bindE (rpcE (cl_buildKind env (tx\<lparr>td_gasPrice := Some price\<rparr>))) (\<lambda>built.
        bindE (sdkE (toBigInt (UString (b_addressBalance balance)))) (\<lambda>addressBalance.
        if required \<le> addressBalance
        then okE (balance, built\<lparr>td_gasPayment := Some []\<rparr>, [], True)
        else
          bindE (gasCoins fuel env (cl_address env) required
                   (concat (map (input_object_ids env) (td_inputs built)))) (\<lambda>references.
          okE (balance, built\<lparr>td_gasPayment := Some references\<rparr>, references, False))))))))))"

definition sui_debit :: "'r client_env \<Rightarrow> balance_change list \<Rightarrow> int" where
  "sui_debit env changes = - sum_list (map bc_amount (filter (\<lambda>c.
     cl_normalizeAddress env (bc_address c) = cl_address env
     \<and> cl_normalizeStructTag env (bc_coinType c) = SUI_type env) changes))"

text \<open>The checks on the simulation: estimated gas and what the transaction would spend beyond gas.\<close>

definition check_simulation :: "'r client_env \<Rightarrow> tx_result \<Rightarrow> int \<Rightarrow> (tm_error, int \<times> int) result" where
  "check_simulation env simulation maxSuiSpend =
    (case tr_effects simulation of
       None \<Rightarrow> Inl (Preflight Simulation_failed)
     | Some effects \<Rightarrow>
         bindR (assertR (tr_success simulation = ef_success effects) (Preflight Simulation_failed)) (\<lambda>_.
         bindR (assertR (tr_success simulation) (Preflight Simulation_failed)) (\<lambda>_.
         bindR (case gasCost (ef_gasUsed effects) of Inl _ \<Rightarrow> Inl OtherError | Inr g \<Rightarrow> Inr g) (\<lambda>estimatedGas.
         case tr_balanceChanges simulation of
           None \<Rightarrow> Inl (Preflight Simulation_failed)
         | Some changes \<Rightarrow>
             (let simulatedSpend = sui_debit env changes - estimatedGas in
              if maxSuiSpend < simulatedSpend then Inl (Preflight Value_limit_exceeded)
              else Inr (estimatedGas, simulatedSpend))))))"

text \<open>The pending entry and the quote; what was prepared is kept under the quote.\<close>

definition issue_quote :: "'r client_env \<Rightarrow> string \<Rightarrow> string \<Rightarrow> int \<Rightarrow> int \<Rightarrow> string \<Rightarrow> gas_reference list \<Rightarrow> bool
    \<Rightarrow> string \<Rightarrow> int \<Rightarrow> int \<Rightarrow> (('s, 'r) mworld, tm_error, fee_quote) eff" where
  "issue_quote env namespace requestId gasBudget maxSuiSpend balance references addressGas bytes estimatedGas simulatedSpend =
     bindE (nowE env) (\<lambda>created.
     bindE (nowE env) (\<lambda>now.
     bindE (getE (\<lambda>w. length (w_prepared w))) (\<lambda>handle.
     let digest = cl_digestOf env bytes;
         sender = cl_address env;
         entry = \<lparr>je_format = 1, je_namespace = namespace, je_requestId = requestId,
                   je_revision = 1, je_digest = digest, je_sender = sender,
                   je_gasBudget = dec_string gasBudget, je_maxSuiSpend = dec_string maxSuiSpend,
                   je_estimatedGas = dec_string estimatedGas, je_gasReferences = references,
                   je_addressGas = addressGas, je_createdAtMs = created, je_status = Pending,
                   je_gasUsed = None, je_actualGas = None, je_failure = None\<rparr>;
         quote = \<lparr>q_handle = handle, q_requestId = requestId, q_namespace = namespace,
                   q_digest = digest, q_sender = sender, q_balance = balance,
                   q_requiredBalance = gasBudget + maxSuiSpend, q_gasBudget = gasBudget,
                   q_maxSuiSpend = maxSuiSpend, q_estimatedGas = estimatedGas,
                   q_simulatedSuiSpend = (if simulatedSpend > 0 then simulatedSpend else 0),
                   q_expiresAtMs = now + cl_quoteTtlMs env\<rparr> in
     bindE (modifyE (\<lambda>w. w\<lparr>w_prepared := w_prepared w @
              [\<lparr>p_quote = quote, p_bytes = bytes, p_entry = entry, p_used = False\<rparr>]\<rparr>)) (\<lambda>_.
     okE quote))))"

definition prepare :: "nat \<Rightarrow> 'r client_env \<Rightarrow> ('s, 'x) journal_ops \<Rightarrow> prepare_input
    \<Rightarrow> (('s, 'r) mworld, tm_error, fee_quote) eff" where
  "prepare fuel env J input =
     bindE (assertE (is_token (pi_requestId input)) (Preflight Invalid_request)) (\<lambda>_.
     bindE (sdkE (toBigInt (pi_gasBudget input))) (\<lambda>gasBudget.
     bindE (sdkE (toBigInt (case pi_maxSuiSpend input of None \<Rightarrow> UNumber (Some 0) | Some u \<Rightarrow> u))) (\<lambda>maxSuiSpend.
     bindE (assertE (gasBudget \<noteq> 0) (Preflight Invalid_request)) (\<lambda>_.
     bindE (namespaceM env) (\<lambda>namespace.
     bindE (journalM env J namespace (pi_requestId input)) (\<lambda>recorded.
     bindE (assertE (recorded = None) (Preflight Already_recorded)) (\<lambda>_.
     bindE (assertE (pays_itself env (pi_transaction input)) (Preflight Invalid_request)) (\<lambda>_.
     bindE (fund fuel env
              ((pi_transaction input)\<lparr>td_sender := Some (cl_address env), td_gasOwner := Some (cl_address env),
                 td_gasBudget := Some gasBudget\<rparr>) (gasBudget + maxSuiSpend)) (\<lambda>(balance, funded, references, addressGas).
     bindE (wrapAll Rpc_unavailable
              (bindE (rpcE (cl_build env funded)) (\<lambda>bytes.
               bindE (rpcE (cl_simulate env bytes)) (\<lambda>simulation. okE (bytes, simulation))))) (\<lambda>(bytes, simulation).
     bindE (liftR (check_simulation env simulation maxSuiSpend)) (\<lambda>(estimatedGas, simulatedSpend).
     issue_quote env namespace (pi_requestId input) gasBudget maxSuiSpend (b_balance balance) references addressGas
       bytes estimatedGas simulatedSpend)))))))))))"

section \<open>Confirming a receipt and asking for the original transaction\<close>

definition receipt_matches :: "journal_entry \<Rightarrow> tx_result \<Rightarrow> bool" where
  "receipt_matches e data \<longleftrightarrow>
     tr_digest data = je_digest e
     \<and> (case tr_effects data of None \<Rightarrow> False
        | Some ef \<Rightarrow> ef_transactionDigest ef = je_digest e \<and> tr_success data = ef_success ef)
     \<and> (case tr_transaction data of None \<Rightarrow> False
        | Some t \<Rightarrow> sd_sender t = je_sender e \<and> sd_gasOwner t = je_sender e \<and> sd_gasBudget t = je_gasBudget e)"

text \<open>
  \<^verbatim>\<open>BigInt\<close> on the decimal text of a journal field. The fields are only ever written as decimal text, by \<^verbatim>\<open>String\<close> of a bigint; of the other
  texts that \<^verbatim>\<open>BigInt\<close> accepts, the empty and the hexadecimal ones, this definition makes an error.
\<close>

definition bigint_text :: "string \<Rightarrow> (sdk_error, int) result" where
  "bigint_text s = (if s \<noteq> [] \<and> list_all is_digit s then Inr (dec_value s) else Inl NotDecimal)"

definition settled_entry :: "journal_entry \<Rightarrow> tx_result \<Rightarrow> gas_cost_summary \<Rightarrow> int \<Rightarrow> journal_entry" where
  "settled_entry e data gasUsed actualGas = e\<lparr>je_revision := je_revision e + 1,
     je_status := (if tr_success data then Confirmed else Failed),
     je_gasUsed := Some gasUsed, je_actualGas := Some (dec_string actualGas),
     je_failure := (if tr_success data then je_failure e else
       (case tr_error data of None \<Rightarrow> je_failure e | Some [] \<Rightarrow> je_failure e | Some f \<Rightarrow> Some f))\<rparr>"

definition sync_journal :: "'r client_env \<Rightarrow> ('s, 'x) journal_ops \<Rightarrow> journal_entry \<Rightarrow> journal_entry \<Rightarrow> int
    \<Rightarrow> (('s, 'r) mworld, tm_error, bool) eff" where
  "sync_journal env J e next actualGas =
     catchE
       (bindE (journalE (jo_replace J next (je_revision e))) (\<lambda>synced.
        if synced then okE True
        else bindE (journalM env J (je_namespace e) (je_requestId e)) (\<lambda>current.
             okE (case current of None \<Rightarrow> False
                  | Some c \<Rightarrow> je_digest c = je_digest e \<and> je_status c = je_status next
                      \<and> je_actualGas c = Some (dec_string actualGas)))))
       (\<lambda>_. okE False)"

definition confirm :: "'r client_env \<Rightarrow> ('s, 'x) journal_ops \<Rightarrow> journal_entry \<Rightarrow> tx_result
    \<Rightarrow> (('s, 'r) mworld, tm_error, tx_outcome) eff" where
  "confirm env J e data =
     bindE (assertE (receipt_matches e data) OtherError) (\<lambda>_.
     let gasUsed = ef_gasUsed (the (tr_effects data)) in
     bindE (sdkE (gasCost gasUsed)) (\<lambda>actualGas.
     bindE (sdkE (bigint_text (je_gasBudget e))) (\<lambda>budget.
     bindE (assertE (actualGas \<le> budget) OtherError) (\<lambda>_.
     bindE (sync_journal env J e (settled_entry e data gasUsed actualGas) actualGas) (\<lambda>synced.
     okE \<lparr>oc_status = (if tr_success data then OConfirmed else OFailed), oc_digest = je_digest e,
          oc_requestId = je_requestId e,
          oc_reason = (if tr_success data then None else tr_error data),
          oc_gasUsed = Some gasUsed, oc_actualGas = Some actualGas,
          oc_journalSynced = synced, oc_transaction = Some data\<rparr>)))))"

definition unknown_outcome :: "journal_entry \<Rightarrow> tx_outcome" where
  "unknown_outcome e = \<lparr>oc_status = OUnknown, oc_digest = je_digest e, oc_requestId = je_requestId e,
     oc_reason = Some ''original_transaction_not_confirmed'', oc_gasUsed = None, oc_actualGas = None,
     oc_journalSynced = True, oc_transaction = None\<rparr>"

definition queryEntry :: "'r client_env \<Rightarrow> ('s, 'x) journal_ops \<Rightarrow> journal_entry
    \<Rightarrow> (('s, 'r) mworld, tm_error, tx_outcome) eff" where
  "queryEntry env J e =
     catchE (bindE (rpcE (cl_getTransaction env (je_digest e))) (\<lambda>data. confirm env J e data))
       (\<lambda>_. okE (unknown_outcome e))"

definition query :: "'r client_env \<Rightarrow> ('s, 'x) journal_ops \<Rightarrow> string
    \<Rightarrow> (('s, 'r) mworld, tm_error, tx_outcome option) eff" where
  "query env J requestId =
     bindE (namespaceM env) (\<lambda>namespace.
     bindE (journalM env J namespace requestId) (\<lambda>entry.
     case entry of
       None \<Rightarrow> okE None
     | Some e \<Rightarrow> bindE (queryEntry env J e) (\<lambda>outcome. okE (Some outcome))))"

section \<open>Submitting a quote\<close>

text \<open>
  \<^verbatim>\<open>broadcast\<close> in the three stretches that its journal accesses cut it into: everything up to
  a verified signature (\<open>broadcast_sign\<close>), the claim of the request (\<open>broadcast_claim\<close>), and
  the broadcast with its confirmation (\<open>broadcast_execute\<close>).
\<close>

definition lookup_prepared :: "fee_quote \<Rightarrow> ('s, 'r) mworld \<Rightarrow> prepared option" where
  "lookup_prepared q w = List.find (\<lambda>p. p_quote p = q) (w_prepared w)"

fun recheck_coins :: "'r client_env \<Rightarrow> string \<Rightarrow> gas_reference list \<Rightarrow> (('s, 'r) mworld, tm_error, unit) eff" where
  "recheck_coins env sender [] = okE ()"
| "recheck_coins env sender (ref # refs) =
     bindE (rpcE (cl_getObject env (gr_objectId ref))) (\<lambda>ob.
     bindE (assertE (co_version ob = gr_version ref \<and> co_digest ob = gr_digest ref
              \<and> co_addressOwner ob = Some sender) (Preflight Stale_quote)) (\<lambda>_.
     recheck_coins env sender refs))"

definition recheck_funds :: "'r client_env \<Rightarrow> fee_quote \<Rightarrow> prepared \<Rightarrow> (('s, 'r) mworld, tm_error, unit) eff" where
  "recheck_funds env q p =
     wrapOther Rpc_unavailable
       (bindE (rpcE (cl_getBalance env (q_sender q))) (\<lambda>balance.
        bindE (sdkE (toBigInt (UString (b_balance balance)))) (\<lambda>available.
        bindE (if available < q_requiredBalance q then okE True
               else if je_addressGas (p_entry p)
               then bindE (sdkE (toBigInt (UString (b_addressBalance balance)))) (\<lambda>a.
                      okE (a < q_requiredBalance q))
               else okE False) (\<lambda>short.
        bindE (assertE (\<not> short) (Preflight Needs_funds)) (\<lambda>_.
        recheck_coins env (q_sender q) (je_gasReferences (p_entry p)))))))"

definition assertBeforeBroadcast :: "'r client_env \<Rightarrow> (('s, 'r) mworld, tm_error, unit) eff" where
  "assertBeforeBroadcast env =
     bindE (getE (\<lambda>w. cl_assertBeforeBroadcast env (w_rpc w))) (\<lambda>ok. assertE ok OtherError)"

definition sign_prepared :: "'r client_env \<Rightarrow> fee_quote \<Rightarrow> prepared \<Rightarrow> (('s, 'r) mworld, tm_error, string) eff" where
  "sign_prepared env q p =
     wrapAll Signature_not_obtained
       (bindE (rpcE (cl_sign env (p_bytes p))) (\<lambda>(bytes, signature).
        bindE (assertE (bytes = cl_toBase64 env (p_bytes p)) OtherError) (\<lambda>_.
        bindE (assertE (cl_verifySignature env (p_bytes p) signature (q_sender q)) OtherError) (\<lambda>_.
        bindE (assertBeforeBroadcast env) (\<lambda>_. okE signature)))))"

text \<open>A request that is not recorded: the quote must be unused and fresh, the funds still there.\<close>

definition sign_fresh :: "'r client_env \<Rightarrow> fee_quote \<Rightarrow> prepared \<Rightarrow> (('s, 'r) mworld, tm_error, prepared \<times> string) eff" where
  "sign_fresh env q p =
     bindE (nowE env) (\<lambda>now.
     bindE (getE (\<lambda>w. case lookup_prepared q w of None \<Rightarrow> p_used p | Some p' \<Rightarrow> p_used p')) (\<lambda>used.
     bindE (assertE (\<not> used \<and> now < q_expiresAtMs q) (Preflight Stale_quote)) (\<lambda>_.
     bindE (recheck_funds env q p) (\<lambda>_.
     bindE (sign_prepared env q p) (\<lambda>signature.
     okE (p, signature))))))"

text \<open>\<open>Inl\<close>: the request is already recorded and its original transaction was queried.\<close>

definition broadcast_sign :: "'r client_env \<Rightarrow> ('s, 'x) journal_ops \<Rightarrow> fee_quote
    \<Rightarrow> (('s, 'r) mworld, tm_error, tx_outcome + (prepared \<times> string)) eff" where
  "broadcast_sign env J q =
     bindE (getE (lookup_prepared q)) (\<lambda>found.
     case found of
       None \<Rightarrow> throwE (Preflight Invalid_request)
     | Some p \<Rightarrow>
         bindE (namespaceM env) (\<lambda>namespace.
         bindE (assertE (namespace = q_namespace q) (Preflight Invalid_request)) (\<lambda>_.
         bindE (journalM env J (q_namespace q) (q_requestId q)) (\<lambda>prior.
         case prior of
           Some e \<Rightarrow> bindE (queryEntry env J e) (\<lambda>outcome. okE (Inl outcome))
         | None \<Rightarrow> bindE (sign_fresh env q p) (\<lambda>signed. okE (Inr signed))))))"

definition mark_used :: "fee_quote \<Rightarrow> ('s, 'r) mworld \<Rightarrow> ('s, 'r) mworld" where
  "mark_used q w = w\<lparr>w_prepared := map (\<lambda>p. if p_quote p = q then p\<lparr>p_used := True\<rparr> else p) (w_prepared w)\<rparr>"

text \<open>\<open>Inl\<close>: another submission recorded this request first.\<close>

definition broadcast_claim :: "'r client_env \<Rightarrow> ('s, 'x) journal_ops \<Rightarrow> fee_quote \<Rightarrow> prepared
    \<Rightarrow> (('s, 'r) mworld, tm_error, tx_outcome + unit) eff" where
  "broadcast_claim env J q p =
     wrapOther Journal_unavailable
       (bindE (journalE (jo_claim J (p_entry p))) (\<lambda>claimed.
        if claimed then bindE (modifyE (mark_used q)) (\<lambda>_. okE (Inr ()))
        else bindE (journalM env J (q_namespace q) (q_requestId q)) (\<lambda>recorded.
             case recorded of
               Some e \<Rightarrow> bindE (queryEntry env J e) (\<lambda>outcome. okE (Inl outcome))
             | None \<Rightarrow> throwE (Preflight Gas_reserved))))"

definition executeE :: "'r client_env \<Rightarrow> prepared \<Rightarrow> string \<Rightarrow> (('s, 'r) mworld, tm_error, tx_result) eff" where
  "executeE env p signature =
     bindE (modifyE (\<lambda>w. w\<lparr>w_sent := (entry_key (p_entry p), je_digest (p_entry p)) # w_sent w\<rparr>)) (\<lambda>_.
     rpcE (cl_execute env (p_bytes p) signature))"

definition broadcast_execute :: "'r client_env \<Rightarrow> ('s, 'x) journal_ops \<Rightarrow> prepared \<Rightarrow> string
    \<Rightarrow> (('s, 'r) mworld, tm_error, tx_outcome) eff" where
  "broadcast_execute env J p signature =
     catchE (bindE (assertBeforeBroadcast env) (\<lambda>_.
             bindE (executeE env p signature) (\<lambda>data.
             confirm env J (p_entry p) data)))
       (\<lambda>_. queryEntry env J (p_entry p))"

definition broadcast :: "'r client_env \<Rightarrow> ('s, 'x) journal_ops \<Rightarrow> fee_quote
    \<Rightarrow> (('s, 'r) mworld, tm_error, tx_outcome) eff" where
  "broadcast env J q =
     bindE (broadcast_sign env J q) (\<lambda>signed.
     case signed of
       Inl outcome \<Rightarrow> okE outcome
     | Inr (p, signature) \<Rightarrow>
         bindE (broadcast_claim env J q p) (\<lambda>claimed.
         case claimed of
           Inl outcome \<Rightarrow> okE outcome
         | Inr _ \<Rightarrow> broadcast_execute env J p signature))"

section \<open>What the parts leave alone\<close>

text \<open>
  Outside actions change only the outside state; journal actions only the journal. Every
  part of the manager other than \<open>executeE\<close> leaves the log of broadcasts alone.
\<close>

definition same_sent :: "('s, 'r) mworld \<Rightarrow> ('s, 'r) mworld \<Rightarrow> bool" where
  "same_sent w w' \<longleftrightarrow> w_sent w' = w_sent w"

definition same_state :: "('s, 'r) mworld \<Rightarrow> ('s, 'r) mworld \<Rightarrow> bool" where
  "same_state w w' \<longleftrightarrow> w_sent w' = w_sent w \<and> w_journal w' = w_journal w \<and> w_prepared w' = w_prepared w"

definition same_but_journal :: "('s, 'r) mworld \<Rightarrow> ('s, 'r) mworld \<Rightarrow> bool" where
  "same_but_journal w w' \<longleftrightarrow> w_sent w' = w_sent w \<and> w_prepared w' = w_prepared w"

lemma world_preorders [simp]:
  "preorder_on_worlds same_sent" "preorder_on_worlds same_state" "preorder_on_worlds same_but_journal"
  by (auto simp: preorder_on_worlds_def same_sent_def same_state_def same_but_journal_def intro!: reflpI transpI)

lemma keeps_weaken: "keeps R m \<Longrightarrow> (\<And>w w'. R w w' \<Longrightarrow> R' w w') \<Longrightarrow> keeps R' m"
  by (auto simp: keeps_def)

lemma keeps_rpcE: "keeps same_state (rpcE m)"
  by (auto simp: keeps_def rpcE_def same_state_def split: prod.splits sum.splits)

lemma keeps_journalE: "keeps same_but_journal (journalE m)"
  by (auto simp: keeps_def journalE_def same_but_journal_def split: prod.splits sum.splits)

lemma journalE_Inr:
  "journalE m w = (Inr a, w') \<longleftrightarrow> m (w_journal w) = (Inr a, w_journal w') \<and> w' = w\<lparr>w_journal := w_journal w'\<rparr>"
  by (auto simp: journalE_def split: prod.splits sum.splits)

lemma sent_rpcE: "rpcE m w = (r, w') \<Longrightarrow> w_sent w' = w_sent w"
  by (drule keepsD [OF keeps_rpcE]) (simp add: same_state_def)

lemma keeps_if [intro!]: "keeps R m \<Longrightarrow> keeps R m' \<Longrightarrow> keeps R (if c then m else m')"
  by simp

lemma keeps_case_option [intro!]:
  "keeps R m \<Longrightarrow> (\<And>x. keeps R (f x)) \<Longrightarrow> keeps R (case opt of None \<Rightarrow> m | Some x \<Rightarrow> f x)"
  by (cases opt) auto

lemma keeps_case_sum [intro!]:
  "(\<And>x. keeps R (f x)) \<Longrightarrow> (\<And>x. keeps R (g x)) \<Longrightarrow> keeps R (case z of Inl x \<Rightarrow> f x | Inr y \<Rightarrow> g y)"
  by (cases z) auto

lemma keeps_case_prod [intro!]: "(\<And>x y. keeps R (f x y)) \<Longrightarrow> keeps R (case z of (x, y) \<Rightarrow> f x y)"
  by (cases z) auto

lemma keeps_Let [intro!]: "(\<And>x. keeps R (f x)) \<Longrightarrow> keeps R (let x = z in f x)"
  by (simp add: Let_def)

lemma keeps_wrap [intro!]:
  assumes "preorder_on_worlds R" "keeps R m"
  shows "keeps R (wrapOther c m)" "keeps R (wrapAll c m)"
  using assms by (auto simp: wrapOther_def wrapAll_def)

lemma keeps_sdkE [intro!]: "preorder_on_worlds R \<Longrightarrow> keeps R (sdkE r)"
  by (auto simp: sdkE_def)

lemma keeps_nowE: "keeps same_state (nowE env)"
  unfolding nowE_def by (rule keeps_rpcE)

lemma keeps_namespaceM: "keeps same_state (namespaceM env)"
  by (auto simp: namespaceM_def intro!: keeps_rpcE)

lemma keeps_gas_coin: "keeps same_state (gas_coin env owner cid)"
  unfolding gas_coin_def by (auto intro!: keeps_rpcE)

lemma keeps_gas_page: "keeps same_state (gas_page env owner required excluded coins acc)"
proof (induction coins arbitrary: acc)
  case (Cons coin coins)
  then show ?case by (cases acc) (auto intro!: keeps_gas_coin)
qed auto

lemma keeps_gas_pages: "keeps same_state (gas_pages fuel env owner required excluded cursor acc)"
  by (induction fuel arbitrary: cursor acc) (auto intro!: keeps_rpcE keeps_gas_page)

lemma keeps_fund: "keeps same_state (fund fuel env tx required)"
  unfolding fund_def gasCoins_def by (auto intro!: keeps_rpcE keeps_gas_pages)

lemma keeps_recheck_coins: "keeps same_state (recheck_coins env sender refs)"
  by (induction refs) (auto intro!: keeps_rpcE)

lemma keeps_recheck_funds: "keeps same_state (recheck_funds env q p)"
  unfolding recheck_funds_def by (auto intro!: keeps_rpcE keeps_recheck_coins)

lemma keeps_sign_prepared: "keeps same_state (sign_prepared env q p)"
  unfolding sign_prepared_def assertBeforeBroadcast_def by (auto intro!: keeps_rpcE)

lemma keeps_sign_fresh: "keeps same_state (sign_fresh env q p)"
  unfolding sign_fresh_def by (auto intro!: keeps_nowE keeps_recheck_funds keeps_sign_prepared)

lemma same_state_journal: "same_state w w' \<Longrightarrow> same_but_journal w w'"
  by (simp add: same_state_def same_but_journal_def)

lemma same_but_journal_sent: "same_but_journal w w' \<Longrightarrow> same_sent w w'"
  by (simp add: same_but_journal_def same_sent_def)

lemma same_state_sent: "same_state w w' \<Longrightarrow> same_sent w w'"
  by (simp add: same_state_def same_sent_def)

lemma keeps_journalM: "keeps same_but_journal (journalM env J ns rid)"
  unfolding journalM_def by (auto intro!: keeps_journalE)

lemma keeps_sync_journal: "keeps same_but_journal (sync_journal env J e nxt g)"
  unfolding sync_journal_def by (auto intro!: keeps_journalE keeps_journalM)

lemma keeps_confirm: "keeps same_but_journal (confirm env J e data)"
  unfolding confirm_def by (auto intro!: keeps_sync_journal)

lemma keeps_queryEntry: "keeps same_but_journal (queryEntry env J e)"
  unfolding queryEntry_def
  by (auto intro!: keeps_confirm keeps_weaken [OF keeps_rpcE same_state_journal])

lemma sent_confirm: "confirm env J e data w = (r, w') \<Longrightarrow> w_sent w' = w_sent w"
  by (drule keepsD [OF keeps_confirm]) (simp add: same_but_journal_def)

lemma sent_queryEntry: "queryEntry env J e w = (r, w') \<Longrightarrow> w_sent w' = w_sent w"
  by (drule keepsD [OF keeps_queryEntry]) (simp add: same_but_journal_def)

lemma keeps_broadcast_sign: "keeps same_but_journal (broadcast_sign env J q)"
  unfolding broadcast_sign_def
  by (auto intro!: keeps_queryEntry keeps_journalM
      keeps_weaken [OF keeps_namespaceM same_state_journal]
      keeps_weaken [OF keeps_sign_fresh same_state_journal])

lemma keeps_mark_used: "keeps same_sent (modifyE (mark_used q))"
  by (simp add: keeps_def eff_elims same_sent_def mark_used_def)

lemma keeps_broadcast_claim: "keeps same_sent (broadcast_claim env J q p)"
  unfolding broadcast_claim_def
  by (auto intro!: keeps_mark_used keeps_weaken [OF keeps_queryEntry same_but_journal_sent]
      keeps_weaken [OF keeps_journalM same_but_journal_sent]
      keeps_weaken [OF keeps_journalE same_but_journal_sent])

lemma keeps_prepare: "keeps same_sent (prepare fuel env J input)"
  unfolding prepare_def issue_quote_def
  by (auto simp: keeps_def [of _ "modifyE _"] eff_elims same_sent_def
      intro!: keeps_weaken [OF keeps_journalM same_but_journal_sent]
      keeps_weaken [OF keeps_namespaceM same_state_sent] keeps_weaken [OF keeps_fund same_state_sent]
      keeps_weaken [OF keeps_rpcE same_state_sent] keeps_weaken [OF keeps_nowE same_state_sent])

lemma keeps_query: "keeps same_sent (query env J rid)"
  unfolding query_def
  by (auto intro!: keeps_weaken [OF keeps_journalM same_but_journal_sent]
      keeps_weaken [OF keeps_namespaceM same_state_sent] keeps_weaken [OF keeps_queryEntry same_but_journal_sent])

lemma broadcast_execute_sent:
  assumes "broadcast_execute env J p sg w = (r, w')"
  shows "w_sent w' = w_sent w \<or> w_sent w' = (entry_key (p_entry p), je_digest (p_entry p)) # w_sent w"
  using assms
  by (auto simp: broadcast_execute_def executeE_def assertBeforeBroadcast_def eff_elims
      dest!: sent_confirm sent_queryEntry sent_rpcE split: if_splits)

section \<open>What a result of the submit path tells\<close>

lemma wrap_ok [eff_oks]: "wrapAll c m w = (Inr b, w') \<longleftrightarrow> m w = (Inr b, w')"
  "wrapOther c m w = (Inr b, w') \<longleftrightarrow> m w = (Inr b, w')"
  by (auto simp: wrapAll_def wrapOther_def eff_elims)

lemma sdkE_ok [eff_oks]: "sdkE r w = (Inr b, w') \<longleftrightarrow> r = Inr b \<and> w' = w"
  by (auto simp: sdkE_def eff_elims split: sum.splits)

lemma sent_broadcast_sign: "broadcast_sign env J q w = (r, w') \<Longrightarrow> w_sent w' = w_sent w"
  by (drule keepsD [OF keeps_broadcast_sign]) (simp add: same_but_journal_def)

lemma sent_broadcast_claim: "broadcast_claim env J q p w = (r, w') \<Longrightarrow> w_sent w' = w_sent w"
  by (drule keepsD [OF keeps_broadcast_claim]) (simp add: same_sent_def)

lemma queryEntry_returns: "queryEntry env J e w = (r, w') \<Longrightarrow> \<exists>oc. r = Inr oc"
  by (auto simp: queryEntry_def eff_elims)

lemma broadcast_execute_returns: "broadcast_execute env J p sg w = (r, w') \<Longrightarrow> \<exists>oc. r = Inr oc"
  by (auto simp: broadcast_execute_def eff_elims dest: queryEntry_returns)

lemma broadcast_cases:
  assumes "broadcast env J q w = (r, w')"
  obtains (sign_failed) x where "broadcast_sign env J q w = (Inl x, w')" "r = Inl x"
    | (recorded) oc where "broadcast_sign env J q w = (Inr (Inl oc), w')" "r = Inr oc"
    | (claim_failed) p sg w1 x where "broadcast_sign env J q w = (Inr (Inr (p, sg)), w1)"
        "broadcast_claim env J q p w1 = (Inl x, w')" "r = Inl x"
    | (lost) p sg w1 oc where "broadcast_sign env J q w = (Inr (Inr (p, sg)), w1)"
        "broadcast_claim env J q p w1 = (Inr (Inl oc), w')" "r = Inr oc"
    | (executed) p sg w1 w2 where "broadcast_sign env J q w = (Inr (Inr (p, sg)), w1)"
        "broadcast_claim env J q p w1 = (Inr (Inr ()), w2)" "broadcast_execute env J p sg w2 = (r, w')"
proof -
  obtain a w1 where sign: "broadcast_sign env J q w = (a, w1)" by fastforce
  show thesis
  proof (cases a)
    case (Inl x)
    then show thesis using assms sign sign_failed by (simp add: broadcast_def bindE_def)
  next
    case (Inr b)
    show thesis
    proof (cases b)
      case (Inl oc)
      then show thesis using assms sign Inr recorded by (simp add: broadcast_def bindE_def okE_def)
    next
      case b: (Inr c)
      obtain p sg where c: "c = (p, sg)" by fastforce
      obtain d w2 where claim: "broadcast_claim env J q p w1 = (d, w2)" by fastforce
      show thesis
        using assms sign Inr b c claim claim_failed lost executed
        by (auto simp: broadcast_def bindE_def okE_def split: sum.split_asm)
    qed
  qed
qed

definition proven_outcome :: "journal_entry \<Rightarrow> tx_outcome \<Rightarrow> bool" where
  "proven_outcome e oc \<longleftrightarrow> oc_digest oc = je_digest e \<and> oc_requestId oc = je_requestId e
     \<and> (case oc_transaction oc of
          None \<Rightarrow> oc_status oc = OUnknown \<and> oc_actualGas oc = None
        | Some data \<Rightarrow> receipt_matches e data
            \<and> oc_status oc = (if tr_success data then OConfirmed else OFailed)
            \<and> (\<exists>g. oc_actualGas oc = Some g \<and> gasCost (ef_gasUsed (the (tr_effects data))) = Inr g
                 \<and> g \<le> dec_value (je_gasBudget e)))"

lemma confirm_outcome:
  assumes "confirm env J e data w = (Inr oc, w')"
  shows "proven_outcome e oc"
  using assms by (auto simp: proven_outcome_def confirm_def eff_elims sdkE_def Let_def bigint_text_def split: sum.splits if_splits)

lemma queryEntry_outcome: "queryEntry env J e w = (Inr oc, w') \<Longrightarrow> proven_outcome e oc"
  by (auto simp: queryEntry_def eff_elims dest: confirm_outcome)
    (simp_all add: proven_outcome_def unknown_outcome_def)

lemma journalM_valid:
  "journalM env J ns rid w = (Inr (Some e), w') \<Longrightarrow> valid_entry env ns rid e"
  by (auto simp: journalM_def wrapAll_def eff_elims split: option.split_asm if_split_asm)

lemma lookup_preparedD: "lookup_prepared q w = Some p \<Longrightarrow> p \<in> set (w_prepared w) \<and> p_quote p = q"
  unfolding lookup_prepared_def by (drule find_SomeD) simp

lemma broadcast_sign_outcome:
  assumes "broadcast_sign env J q w = (Inr (Inl oc), w')"
  shows "\<exists>e. valid_entry env (q_namespace q) (q_requestId q) e \<and> proven_outcome e oc"
  using assms by (auto simp: broadcast_sign_def eff_elims dest!: journalM_valid queryEntry_outcome split: option.split_asm)

lemma broadcast_claim_outcome:
  assumes "broadcast_claim env J q p w = (Inr (Inl oc), w')"
  shows "\<exists>e. valid_entry env (q_namespace q) (q_requestId q) e \<and> proven_outcome e oc"
  using assms by (auto simp: broadcast_claim_def wrapOther_def eff_elims dest!: journalM_valid queryEntry_outcome split: option.split_asm if_split_asm)

lemma broadcast_execute_outcome:
  assumes "broadcast_execute env J p sg w = (Inr oc, w')"
  shows "proven_outcome (p_entry p) oc"
  using assms by (auto simp: broadcast_execute_def eff_elims dest!: queryEntry_outcome confirm_outcome)

lemma sign_prepared_verified:
  "sign_prepared env q p w = (Inr sg, w') \<Longrightarrow> cl_verifySignature env (p_bytes p) sg (q_sender q)"
  by (auto simp: sign_prepared_def wrapAll_def eff_elims split: prod.split_asm if_split_asm)

lemma sign_fresh_checked:
  assumes "sign_fresh env q p w = (Inr (p', sg), w')" "lookup_prepared q w = Some p"
  shows "p' = p \<and> \<not> p_used p \<and> cl_verifySignature env (p_bytes p) sg (q_sender q)"
proof -
  have same: "nowE env w = (r, w1) \<Longrightarrow> lookup_prepared q w1 = lookup_prepared q w" for r w1
    by (drule keepsD [OF keeps_nowE]) (simp add: same_state_def lookup_prepared_def)
  show ?thesis using assms
    by (auto simp: sign_fresh_def eff_oks dest!: sign_prepared_verified dest: same elim!: bindE_okE)
qed

lemma prepared_namespaceM: "namespaceM env w = (r, w') \<Longrightarrow> w_prepared w' = w_prepared w"
  by (drule keepsD [OF keeps_namespaceM]) (simp add: same_state_def)

lemma prepared_journalM: "journalM env J ns rid w = (r, w') \<Longrightarrow> w_prepared w' = w_prepared w"
  by (drule keepsD [OF keeps_journalM]) (simp add: same_but_journal_def)

lemma broadcast_sign_checked:
  assumes "broadcast_sign env J q w = (Inr (Inr (p, sg)), w')"
  shows "p \<in> set (w_prepared w) \<and> p_quote p = q \<and> \<not> p_used p
    \<and> cl_verifySignature env (p_bytes p) sg (q_sender q)"
proof (cases "lookup_prepared q w")
  case None
  then show ?thesis using assms by (simp add: broadcast_sign_def bindE_def getE_def throwE_def)
next
  case (Some x)
  obtain w1 where "sign_fresh env q x w1 = (Inr (p, sg), w')" "w_prepared w1 = w_prepared w"
    using assms Some
    by (auto simp: broadcast_sign_def eff_oks elim!: bindE_okE dest!: prepared_namespaceM prepared_journalM split: option.split_asm)
  then have "p = x \<and> \<not> p_used x \<and> cl_verifySignature env (p_bytes x) sg (q_sender q)"
    using sign_fresh_checked [of env q x w1 p sg w'] Some by (simp add: lookup_prepared_def)
  then show ?thesis using lookup_preparedD [OF Some] by simp
qed

section \<open>The manager over any journal that keeps its contract\<close>

context transaction_journal
begin

definition ops :: "('s, 'x) journal_ops" where
  "ops = \<lparr>jo_get = jget, jo_claim = jclaim, jo_replace = jreplace\<rparr>"

lemma ops_sel [simp]: "jo_get ops = jget" "jo_claim ops = jclaim" "jo_replace ops = jreplace"
  by (simp_all add: ops_def)

text \<open>
  What any part of the manager may do to the journal: keep its invariant, forget nothing,
  and keep the gas of pending requests apart.
\<close>

definition journal_grows :: "('s, 'r) mworld \<Rightarrow> ('s, 'r) mworld \<Rightarrow> bool" where
  "journal_grows w w' \<longleftrightarrow>
    (jinv (w_journal w) \<longrightarrow> jinv (w_journal w')
       \<and> journal_extends (jmap (w_journal w)) (jmap (w_journal w'))
       \<and> (gas_exclusive (jmap (w_journal w)) \<longrightarrow> gas_exclusive (jmap (w_journal w'))))"

lemma journal_grows_preorder [simp]: "preorder_on_worlds journal_grows"
  by (auto simp: preorder_on_worlds_def journal_grows_def intro!: reflpI transpI elim: journal_extends_trans)

lemma same_state_grows: "same_state w w' \<Longrightarrow> journal_grows w w'"
  by (simp add: same_state_def journal_grows_def)

lemma grows_rpcE [intro!]: "keeps journal_grows (rpcE m)"
  by (rule keeps_weaken [OF keeps_rpcE same_state_grows])

lemma grows_nowE [intro!]: "keeps journal_grows (nowE env)"
  by (rule keeps_weaken [OF keeps_nowE same_state_grows])

lemma journalE_run:
  "journalE m w = (r, w') \<longleftrightarrow> (\<exists>x. m (w_journal w) = (x, w_journal w') \<and> w' = w\<lparr>w_journal := w_journal w'\<rparr>
     \<and> r = (case x of Inl _ \<Rightarrow> Inl OtherError | Inr a \<Rightarrow> Inr a))"
  by (auto simp: journalE_def split: prod.splits sum.splits)

lemma grows_get [intro!]: "keeps journal_grows (journalE (jget ns rid))"
  by (auto simp: keeps_def journalE_run journal_grows_def dest: get_inv)

lemma grows_claim [intro!]: "keeps journal_grows (journalE (jclaim e))"
  by (auto simp: keeps_def journalE_run journal_grows_def dest: claim_inv claim_extends claim_exclusive)

lemma grows_replace [intro!]:
  "je_status e \<noteq> Pending \<Longrightarrow> keeps journal_grows (journalE (jreplace e n))"
  by (auto simp: keeps_def journalE_run journal_grows_def dest: replace_inv replace_extends replace_exclusive)

lemma grows_namespaceM [intro!]: "keeps journal_grows (namespaceM env)"
  by (rule keeps_weaken [OF keeps_namespaceM same_state_grows])

lemma grows_fund [intro!]: "keeps journal_grows (fund fuel env tx required)"
  by (rule keeps_weaken [OF keeps_fund same_state_grows])

lemma grows_sign_fresh [intro!]: "keeps journal_grows (sign_fresh env q p)"
  by (rule keeps_weaken [OF keeps_sign_fresh same_state_grows])

lemma grows_journalM [intro!]: "keeps journal_grows (journalM env ops ns rid)"
  by (auto simp: journalM_def)

lemma settled_not_pending [simp]: "je_status (settled_entry e data u g) \<noteq> Pending"
  by (simp add: settled_entry_def)

lemma grows_confirm [intro!]: "keeps journal_grows (confirm env ops e data)"
  by (auto simp: confirm_def sync_journal_def)

lemma grows_queryEntry [intro!]: "keeps journal_grows (queryEntry env ops e)"
  by (auto simp: queryEntry_def)

lemma grows_query: "keeps journal_grows (query env ops rid)"
  by (auto simp: query_def)

lemma grows_modify [intro!]: "(\<And>w. w_journal (f w) = w_journal w) \<Longrightarrow> keeps journal_grows (modifyE f)"
  by (simp add: keeps_def eff_elims journal_grows_def)

lemma grows_prepare: "keeps journal_grows (prepare fuel env ops input)"
  by (auto simp: prepare_def issue_quote_def)

lemma grows_broadcast_sign [intro!]: "keeps journal_grows (broadcast_sign env ops q)"
  by (auto simp: broadcast_sign_def)

lemma grows_broadcast_claim [intro!]: "keeps journal_grows (broadcast_claim env ops q p)"
  by (auto simp: broadcast_claim_def mark_used_def)

lemma grows_broadcast_execute [intro!]: "keeps journal_grows (broadcast_execute env ops p sg)"
  by (auto simp: broadcast_execute_def executeE_def assertBeforeBroadcast_def)

lemma grows_broadcast: "keeps journal_grows (broadcast env ops q)"
  by (auto simp: broadcast_def)

text \<open>Winning the claim: the request was not recorded, and now its entry is.\<close>

lemma broadcast_claim_won:
  assumes run: "broadcast_claim env ops q p w = (Inr (Inr ()), w')" and inv: "jinv (w_journal w)"
  shows "jmap (w_journal w) (entry_key (p_entry p)) = None"
    "jmap (w_journal w') = (jmap (w_journal w))(entry_key (p_entry p) \<mapsto> p_entry p)"
proof -
  from run obtain s where claim: "jclaim (p_entry p) (w_journal w) = (Inr True, s)" and "w_journal w' = s"
    by (auto simp: broadcast_claim_def wrapOther_def eff_elims journalE_Inr mark_used_def
        split: if_splits option.splits)
  with claim_won(1,2) [OF inv claim] show "jmap (w_journal w) (entry_key (p_entry p)) = None"
    "jmap (w_journal w') = (jmap (w_journal w))(entry_key (p_entry p) \<mapsto> p_entry p)"
    by simp_all
qed

end

end
