(* ===== verification/Direct_Unresolved.thy ===== *)
theory Direct_Unresolved
  imports Json_Parse Transaction_Manager
begin

text \<open>
  The device-local list of direct-message requests whose outcome is not known,
  \<^verbatim>\<open>apps/fractalmind-app/src/direct-unresolved.ts\<close>: a JSON text under one key of the browser's
  \<^verbatim>\<open>localStorage\<close>. The storage is \<open>ls_items\<close>; a write fails when the next bit of \<open>ls_faults\<close> is set
  (a full or disabled storage). Nothing else runs between the reads and writes of one call.
\<close>

record unresolved =
  u_requestId :: string
  u_digest :: string

record local_storage =
  ls_items :: "string \<rightharpoonup> string"
  ls_faults :: "bool list"

datatype unresolved_error = Journal_invalid | Storage_failed | Query_failed

definition getItem :: "string \<Rightarrow> local_storage \<Rightarrow> string option" where
  "getItem k s = ls_items s k"

definition setItem :: "string \<Rightarrow> string \<Rightarrow> (local_storage, unresolved_error, unit) eff" where
  "setItem k v = (\<lambda>s. case ls_faults s of
     True # fs \<Rightarrow> (Inl Storage_failed, s\<lparr>ls_faults := fs\<rparr>)
   | False # fs \<Rightarrow> (Inr (), s\<lparr>ls_items := (ls_items s)(k \<mapsto> v), ls_faults := fs\<rparr>)
   | [] \<Rightarrow> (Inr (), s\<lparr>ls_items := (ls_items s)(k \<mapsto> v)\<rparr>))"

definition strip_prefix :: "string \<Rightarrow> string \<Rightarrow> string option" where
  "strip_prefix p s = (if take (length p) s = p then Some (drop (length p) s) else None)"

text \<open>
  \<^verbatim>\<open>/^direct-(?:message:[A-Za-z0-9-]+|run:0x[0-9a-f]{64}|decision:0x[0-9a-f]{64}:(?:true|false))$/\<close>
\<close>

definition tracked :: "string \<Rightarrow> bool" where
  "tracked i \<longleftrightarrow>
     (case strip_prefix ''direct-message:'' i of Some m \<Rightarrow> m \<noteq> [] \<and> list_all (\<lambda>c. is_alnum c \<or> c = CHR ''-'') m | None \<Rightarrow> False)
     \<or> (case strip_prefix ''direct-run:'' i of Some m \<Rightarrow> is_object_id m | None \<Rightarrow> False)
     \<or> (case strip_prefix ''direct-decision:'' i of
          Some m \<Rightarrow> is_object_id (take 66 m) \<and> drop 66 m \<in> {'':true'', '':false''} | None \<Rightarrow> False)"

text \<open>One row of the stored list; \<open>None\<close> when the row is not valid.\<close>

definition read_row :: "json \<Rightarrow> unresolved option" where
  "read_row row =
    (case (json_field row ''requestId'', json_field row ''digest'') of
       (Some (JString i), Some (JString d)) \<Rightarrow>
         if length i > 128 \<or> \<not> tracked i \<or> d = [] \<or> length d > 128
           \<or> (case row of JObject ms \<Rightarrow> list_ex (\<lambda>(k, _). k \<notin> {''requestId'', ''digest''}) ms | _ \<Rightarrow> True)
         then None else Some \<lparr>u_requestId = i, u_digest = d\<rparr>
     | _ \<Rightarrow> None)"

fun read_rows :: "string list \<Rightarrow> json list \<Rightarrow> unresolved list option" where
  "read_rows ids [] = Some []"
| "read_rows ids (row # rows) =
    (case read_row row of None \<Rightarrow> None
     | Some r \<Rightarrow> if u_requestId r \<in> set ids then None
         else map_option (\<lambda>rs. r # rs) (read_rows (u_requestId r # ids) rows))"

definition read_list :: "string \<Rightarrow> unresolved list option" where
  "read_list raw =
    (case json_parse raw of None \<Rightarrow> None
     | Some v \<Rightarrow>
         (case (json_field v ''format'', json_field v ''requests'') of
            (Some (JNumber f), Some (JArray rows)) \<Rightarrow>
              if f \<noteq> 1 \<or> length rows > 64 then None else read_rows [] rows
          | _ \<Rightarrow> None))"

definition listU :: "string \<Rightarrow> (local_storage, unresolved_error, unresolved list) eff" where
  "listU key =
     bindE (getE (getItem key)) (\<lambda>raw.
     case raw of None \<Rightarrow> okE []
     | Some t \<Rightarrow> (case read_list t of None \<Rightarrow> throwE Journal_invalid | Some rows \<Rightarrow> okE rows))"

definition row_json :: "unresolved \<Rightarrow> json" where
  "row_json r = JObject [(''requestId'', JString (u_requestId r)), (''digest'', JString (u_digest r))]"

definition list_json :: "unresolved list \<Rightarrow> json" where
  "list_json rows = JObject [(''format'', JNumber 1), (''requests'', JArray (map row_json rows))]"

definition writeU :: "string \<Rightarrow> unresolved list \<Rightarrow> (local_storage, unresolved_error, unresolved list) eff" where
  "writeU key rows =
     bindE (assertE (length rows \<le> 64) Journal_invalid) (\<lambda>_.
     bindE (setItem key (stringify (list_json rows))) (\<lambda>_.
     bindE (getE (getItem key)) (\<lambda>raw.
     bindE (assertE (raw = Some (stringify (list_json rows))) Journal_invalid) (\<lambda>_.
     okE rows))))"

definition find_request :: "string \<Rightarrow> unresolved list \<Rightarrow> unresolved option" where
  "find_request i rows = List.find (\<lambda>r. u_requestId r = i) rows"

definition resolveU :: "string \<Rightarrow> unresolved \<Rightarrow> (local_storage, unresolved_error, unresolved list) eff" where
  "resolveU key original =
     bindE (listU key) (\<lambda>rows.
     case find_request (u_requestId original) rows of
       None \<Rightarrow> okE rows
     | Some current \<Rightarrow>
         bindE (assertE (u_digest current = u_digest original) Journal_invalid) (\<lambda>_.
         writeU key (filter (\<lambda>r. u_requestId r \<noteq> u_requestId original) rows)))"

definition recordU :: "string \<Rightarrow> tx_outcome \<Rightarrow> (local_storage, unresolved_error, unresolved list) eff" where
  "recordU key outcome =
     bindE (listU key) (\<lambda>rows.
     if \<not> tracked (oc_requestId outcome) then okE rows
     else let original = find_request (oc_requestId outcome) rows in
     bindE (assertE (case original of None \<Rightarrow> True | Some r \<Rightarrow> u_digest r = oc_digest outcome) Journal_invalid) (\<lambda>_.
     if oc_status outcome \<noteq> OUnknown
     then (case original of Some r \<Rightarrow> resolveU key r | None \<Rightarrow> okE rows)
     else case original of Some r \<Rightarrow> okE rows
     | None \<Rightarrow> writeU key (rows @ [\<lparr>u_requestId = oc_requestId outcome, u_digest = oc_digest outcome\<rparr>])))"

text \<open>
  \<^verbatim>\<open>refresh\<close>: every listed request is queried first; the answers are recorded only when all queries
  returned. Other windows may change the storage while a query is awaited, so \<open>ask\<close> acts on
  the storage too.
\<close>

type_synonym query_action = "string \<Rightarrow> (local_storage, unresolved_error, tx_outcome option) eff"

fun query_all :: "query_action \<Rightarrow> unresolved list \<Rightarrow> (local_storage, unresolved_error, tx_outcome list) eff" where
  "query_all ask [] = okE []"
| "query_all ask (row # rows) =
     bindE (ask (u_requestId row)) (\<lambda>outcome.
     bindE (assertE (case outcome of None \<Rightarrow> True
              | Some oc \<Rightarrow> oc_requestId oc = u_requestId row \<and> oc_digest oc = u_digest row) Journal_invalid) (\<lambda>_.
     bindE (query_all ask rows) (\<lambda>outcomes.
     okE ((case outcome of None \<Rightarrow> [] | Some oc \<Rightarrow> [oc]) @ outcomes))))"

fun record_all :: "string \<Rightarrow> tx_outcome list \<Rightarrow> (local_storage, unresolved_error, unit) eff" where
  "record_all key [] = okE ()"
| "record_all key (oc # ocs) = bindE (recordU key oc) (\<lambda>_. record_all key ocs)"

definition refreshU :: "string \<Rightarrow> query_action \<Rightarrow> (local_storage, unresolved_error, unresolved list) eff" where
  "refreshU key ask =
     bindE (listU key) (\<lambda>rows.
     bindE (query_all ask rows) (\<lambda>outcomes.
     bindE (record_all key outcomes) (\<lambda>_.
     listU key)))"

definition hasUnresolvedDecision :: "unresolved list \<Rightarrow> string \<Rightarrow> bool" where
  "hasUnresolvedDecision rows messageId \<longleftrightarrow>
     list_ex (\<lambda>r. u_requestId r = ''direct-decision:'' @ messageId @ '':true''
                \<or> u_requestId r = ''direct-decision:'' @ messageId @ '':false'') rows"

section \<open>The stored list\<close>

definition row_ok :: "unresolved \<Rightarrow> bool" where
  "row_ok r \<longleftrightarrow> length (u_requestId r) \<le> 128 \<and> tracked (u_requestId r) \<and> u_digest r \<noteq> [] \<and> length (u_digest r) \<le> 128"

definition rows_ok :: "unresolved list \<Rightarrow> bool" where
  "rows_ok rows \<longleftrightarrow> length rows \<le> 64 \<and> list_all row_ok rows \<and> distinct (map u_requestId rows)"

lemma read_row_json: "row_ok r \<Longrightarrow> read_row (row_json r) = Some r"
  by (simp add: read_row_def row_json_def json_field_def row_ok_def)

lemma read_row_ok: "read_row j = Some r \<Longrightarrow> row_ok r"
  by (auto simp: read_row_def row_ok_def split: option.split_asm json.split_asm if_split_asm)

lemma read_rows_json:
  "list_all row_ok rows \<Longrightarrow> distinct (map u_requestId rows) \<Longrightarrow> set (map u_requestId rows) \<inter> set ids = {}
    \<Longrightarrow> read_rows ids (map row_json rows) = Some rows"
  by (induction rows arbitrary: ids) (auto simp: read_row_json)

lemma read_rows_ok:
  "read_rows ids js = Some rows \<Longrightarrow> list_all row_ok rows \<and> distinct (map u_requestId rows)
    \<and> set (map u_requestId rows) \<inter> set ids = {} \<and> length rows = length js"
proof (induction js arbitrary: ids rows)
  case (Cons j js)
  from Cons.prems obtain r rs where r: "read_row j = Some r" "u_requestId r \<notin> set ids"
    and rs: "read_rows (u_requestId r # ids) js = Some rs" "rows = r # rs"
    by (auto split: option.split_asm if_split_asm)
  from Cons.IH [OF rs(1)] r rs(2) read_row_ok [OF r(1)] show ?case by auto
qed simp

lemma read_list_json: "rows_ok rows \<Longrightarrow> read_list (stringify (list_json rows)) = Some rows"
  unfolding read_list_def json_parse_stringify
  by (simp add: list_json_def json_field_def rows_ok_def read_rows_json)

lemma read_list_ok: "read_list raw = Some rows \<Longrightarrow> rows_ok rows"
  by (auto simp: read_list_def rows_ok_def dest!: read_rows_ok split: option.split_asm json.split_asm if_split_asm)

lemma listU_eq: "listU key s = ((case ls_items s key of None \<Rightarrow> Inr [] | Some t \<Rightarrow>
    (case read_list t of None \<Rightarrow> Inl Journal_invalid | Some rows \<Rightarrow> Inr rows)), s)"
  by (simp add: listU_def getItem_def eff_defs split: option.split)

lemma listU_ok: "listU key s = (Inr rows, s') \<Longrightarrow> rows_ok rows \<and> s' = s"
  by (auto simp: listU_eq rows_ok_def [of "[]"] dest: read_list_ok split: option.split_asm)

lemma writeU_ok:
  assumes "writeU key rows s = (Inr r, s')" "rows_ok rows"
  shows "r = rows" "listU key s' = (Inr rows, s')" "\<And>k. k \<noteq> key \<Longrightarrow> ls_items s' k = ls_items s k"
  using assms
  by (auto simp: writeU_def setItem_def getItem_def eff_oks listU_eq read_list_json elim!: bindE_okE
      split: list.split_asm bool.split_asm)

lemma writeU_failed: "writeU key rows s = (Inl e, s') \<Longrightarrow> ls_items s' = ls_items s"
  by (auto simp: writeU_def setItem_def getItem_def eff_pure elim!: bindE_E split: list.split_asm bool.split_asm if_split_asm)


text \<open>What recording an outcome does to the list.\<close>

definition recorded_rows :: "tx_outcome \<Rightarrow> unresolved list \<Rightarrow> unresolved list" where
  "recorded_rows oc rows =
    (if \<not> tracked (oc_requestId oc) then rows
     else if oc_status oc \<noteq> OUnknown then filter (\<lambda>r. u_requestId r \<noteq> oc_requestId oc) rows
     else if find_request (oc_requestId oc) rows \<noteq> None then rows
     else rows @ [\<lparr>u_requestId = oc_requestId oc, u_digest = oc_digest oc\<rparr>])"

lemma find_request_None: "find_request i rows = None \<longleftrightarrow> (\<forall>r \<in> set rows. u_requestId r \<noteq> i)"
  by (auto simp: find_request_def find_None_iff)

lemma find_request_Some: "find_request i rows = Some r \<Longrightarrow> r \<in> set rows \<and> u_requestId r = i"
  unfolding find_request_def by (rule find_SomeD)

lemma filter_absent: "find_request i rows = None \<Longrightarrow> filter (\<lambda>r. u_requestId r \<noteq> i) rows = rows"
  by (simp add: find_request_None filter_id_conv)

lemma rows_ok_filter: "rows_ok rows \<Longrightarrow> rows_ok (filter P rows)"
  by (auto simp: rows_ok_def list_all_iff distinct_map_filter intro: order_trans [OF length_filter_le])

lemma resolveU_ok:
  assumes "resolveU key u s = (Inr rows', s')" "listU key s = (Inr rows, s)"
  shows "rows' = filter (\<lambda>r. u_requestId r \<noteq> u_requestId u) rows" "listU key s' = (Inr rows', s')"
  using assms listU_ok [OF assms(2)] writeU_ok [of key "filter (\<lambda>r. u_requestId r \<noteq> u_requestId u) rows" s rows' s']
  by (auto simp: resolveU_def eff_oks filter_absent rows_ok_filter elim!: bindE_okE split: option.split_asm)

lemma recordU_ok:
  assumes run: "recordU key oc s = (Inr rows', s')" and rows: "listU key s = (Inr rows, s)"
    and sizes: "length (oc_requestId oc) \<le> 128" "oc_digest oc \<noteq> []" "length (oc_digest oc) \<le> 128"
  shows "rows' = recorded_rows oc rows" "listU key s' = (Inr rows', s')"
proof -
  let ?new = "\<lparr>u_requestId = oc_requestId oc, u_digest = oc_digest oc\<rparr>"
  have ok: "rows_ok rows" using listU_ok [OF rows] by simp
  have new: "rows_ok (rows @ [?new])" if "tracked (oc_requestId oc)" "find_request (oc_requestId oc) rows = None" "length rows < 64"
    using ok sizes that by (auto simp: rows_ok_def row_ok_def find_request_None)
  have len: "length rows < 64" if "writeU key (rows @ [?new]) s = (Inr rows', s')"
    using that by (auto simp: writeU_def eff_oks elim!: bindE_okE)
  have *: "rows' = recorded_rows oc rows \<and> listU key s' = (Inr rows', s')"
  proof (cases "find_request (oc_requestId oc) rows")
    case None
    then show ?thesis
      using run rows new len writeU_ok [of key "rows @ [?new]" s rows' s']
      by (auto simp: recordU_def recorded_rows_def Let_def eff_oks filter_absent elim!: bindE_okE split: if_split_asm)
  next
    case (Some r)
    then show ?thesis
      using run rows find_request_Some [OF Some] resolveU_ok [of key r s rows' s' rows]
      by (auto simp: recordU_def recorded_rows_def Let_def eff_oks elim!: bindE_okE split: if_split_asm)
  qed
  then show "rows' = recorded_rows oc rows" "listU key s' = (Inr rows', s')" by simp_all
qed

lemma resolveU_failed: "resolveU key u s = (Inl e, s') \<Longrightarrow> ls_items s' = ls_items s"
  by (auto simp: resolveU_def listU_eq eff_pure elim!: bindE_E dest!: writeU_failed split: option.split_asm if_split_asm)

lemma recordU_failed: "recordU key oc s = (Inl e, s') \<Longrightarrow> ls_items s' = ls_items s"
  by (auto simp: recordU_def listU_eq Let_def eff_pure elim!: bindE_E dest!: writeU_failed resolveU_failed
      split: option.split_asm if_split_asm)

section \<open>Properties\<close>

text \<open>
  The stored list of unresolved requests is exactly what was recorded: after an outcome is
  recorded, reading the list back gives the old rows with the request added when its outcome is
  unknown, removed when it is confirmed or failed, and unchanged otherwise.
\<close>

theorem record_roundtrip:
  assumes "recordU key oc s = (Inr rows', s')" "listU key s = (Inr rows, s)"
    and "length (oc_requestId oc) \<le> 128" "oc_digest oc \<noteq> []" "length (oc_digest oc) \<le> 128"
  shows "rows' = recorded_rows oc rows \<and> fst (listU key s') = Inr rows'"
  using recordU_ok [OF assms] by simp

definition sample_outcome :: "outcome_status \<Rightarrow> tx_outcome" where
  "sample_outcome st = \<lparr>oc_status = st, oc_digest = ''D'', oc_requestId = ''direct-message:a-1'', oc_reason = None,
     oc_gasUsed = None, oc_actualGas = None, oc_journalSynced = True, oc_transaction = None\<rparr>"

definition sample_storage :: local_storage where
  "sample_storage = \<lparr>ls_items = (\<lambda>_. None), ls_faults = []\<rparr>"

lemma sample_list: "listU ''k'' sample_storage = (Inr [], sample_storage)"
  by (simp add: listU_eq sample_storage_def)

lemma sample_record:
  "fst (recordU ''k'' (sample_outcome OUnknown) sample_storage)
     = Inr [\<lparr>u_requestId = ''direct-message:a-1'', u_digest = ''D''\<rparr>]"
  by code_simp

theorem record_roundtrip_witness:
  "fst (listU ''k'' (snd (recordU ''k'' (sample_outcome OUnknown) sample_storage)))
     = Inr [\<lparr>u_requestId = ''direct-message:a-1'', u_digest = ''D''\<rparr>]"
proof -
  let ?run = "recordU ''k'' (sample_outcome OUnknown) sample_storage"
  have "?run = (Inr [\<lparr>u_requestId = ''direct-message:a-1'', u_digest = ''D''\<rparr>], snd ?run)"
    using sample_record by (simp add: prod_eq_iff)
  from record_roundtrip [OF this sample_list] show ?thesis by (simp add: sample_outcome_def)
qed

text \<open>
  An unresolved request is never dropped by a timeout: whatever outcome is recorded, and whether
  or not the storage fails, a listed request is still listed afterwards unless the outcome was
  confirmed or failed for this very request and digest.
\<close>

theorem unresolved_kept:
  assumes "listU key s = (Inr rows, s)" "r \<in> set rows" "recordU key oc s = (res, s')"
    and "length (oc_requestId oc) \<le> 128" "oc_digest oc \<noteq> []" "length (oc_digest oc) \<le> 128"
    and "\<not> (oc_status oc \<noteq> OUnknown \<and> oc_requestId oc = u_requestId r \<and> oc_digest oc = u_digest r)"
  shows "\<exists>rows'. fst (listU key s') = Inr rows' \<and> r \<in> set rows'"
proof (cases res)
  case (Inl e)
  then have "ls_items s' = ls_items s" using assms(3) recordU_failed by blast
  then show ?thesis using assms(1,2) by (simp add: listU_eq)
next
  case (Inr rows')
  then have eq: "rows' = recorded_rows oc rows" "listU key s' = (Inr rows', s')"
    using recordU_ok [OF _ assms(1) assms(4-6)] assms(3) by blast+
  have "r \<in> set rows'"
  proof (cases "oc_status oc \<noteq> OUnknown \<and> oc_requestId oc = u_requestId r")
    case True
    have "distinct (map u_requestId rows)" using listU_ok [OF assms(1)] by (simp add: rows_ok_def)
    then have "find_request (u_requestId r) rows = Some r"
      using assms(2) by (induction rows) (auto simp: find_request_def image_iff)
    then have "u_digest r = oc_digest oc \<or> \<not> tracked (oc_requestId oc)"
      using assms(1,3) Inr True by (auto simp: recordU_def Let_def eff_oks elim!: bindE_okE split: if_split_asm)
    then show ?thesis using True assms(2,7) eq by (auto simp: recorded_rows_def)
  qed (use assms(2) eq in \<open>auto simp: recorded_rows_def\<close>)
  then show ?thesis using eq by simp
qed

definition sample_listed :: local_storage where
  "sample_listed = snd (recordU ''k'' (sample_outcome OUnknown) sample_storage)"

theorem unresolved_kept_witness:
  "\<exists>rows'. fst (listU ''k'' (snd (recordU ''k'' (sample_outcome OUnknown) sample_listed))) = Inr rows'
     \<and> \<lparr>u_requestId = ''direct-message:a-1'', u_digest = ''D''\<rparr> \<in> set rows'"
proof -
  let ?rows = "[\<lparr>u_requestId = ''direct-message:a-1'', u_digest = ''D''\<rparr>]"
  have "recordU ''k'' (sample_outcome OUnknown) sample_storage = (Inr ?rows, sample_listed)"
    using sample_record by (simp add: prod_eq_iff sample_listed_def)
  from recordU_ok(2) [OF this sample_list] have "listU ''k'' sample_listed = (Inr ?rows, sample_listed)"
    by (simp add: sample_outcome_def)
  from unresolved_kept [OF this list.set_intros(1) prod.collapse [symmetric]] show ?thesis
    by (simp add: sample_outcome_def)
qed

end
