(* ===== verification/Direct_Conversation.thy ===== *)
theory Direct_Conversation
  imports Direct_Unresolved
begin

text \<open>
  When a direct conversation may go on, \<^verbatim>\<open>apps/fractalmind-app/src/direct-conversation-state.ts\<close>:
  what is current, fresh and approved for a freshly read description and a selected message, and
  when an unresolved request no longer blocks a new message.

  The u64 fields arrive as canonical decimal texts; they are the integers they denote, so text
  equality and \<^verbatim>\<open>BigInt\<close> comparison are equality and comparison of integers.
\<close>

section \<open>Data\<close>

record permission =
  pm_id :: string
  pm_org_id :: string
  pm_version :: int
  pm_revoked :: bool
  pm_managed_agent :: string
  pm_managed_version :: int
  pm_membership_id :: string
  pm_membership_version :: int
  pm_human_generation :: int
  pm_host_address :: string
  pm_workspace_hash :: "int list"
  pm_expires_at_ms :: int

record managed_agent =
  ma_id :: string
  ma_version :: int
  ma_revoked :: bool
  ma_control_confirmed :: bool
  ma_runtime :: string
  ma_instance_id :: string
  ma_membership_id :: string
  ma_host_address :: string
  ma_workspace_hash :: "int list"

record membership =
  mb_id :: string
  mb_version :: int
  mb_revoked :: bool
  mb_host_address :: string
  mb_expires_at_ms :: int

record description =
  de_permission :: "permission option"
  de_managed :: managed_agent
  de_member :: membership
  de_binding_revoked :: bool
  de_humanGeneration :: int
  de_authorityExpiresAtMs :: int

record direct_message =
  dm_id :: string
  dm_org_id :: string
  dm_permission_id :: string
  dm_permission_version :: int
  dm_managed_agent :: string
  dm_managed_version :: int
  dm_membership_id :: string
  dm_human_generation :: int
  dm_writer_device :: string
  dm_grant_id :: string
  dm_action :: string
  dm_budget_amount :: int
  dm_boundary_hash :: "int list"
  dm_expires_at_ms :: int

record direct_approval =
  ap_message_id :: string
  ap_org_id :: string
  ap_permission_id :: string
  ap_permission_version :: int
  ap_managed_agent :: string
  ap_managed_version :: int
  ap_human_generation :: int
  ap_action :: string
  ap_budget_amount :: int
  ap_boundary_hash :: "int list"
  ap_state :: int
  ap_workspace_revision :: int
  ap_expires_at_ms :: int

record run_view =
  rn_id :: string
  rn_state :: int
  rn_result_record :: "string option"
  rn_result_hash :: "int list"
  rn_managed_agent :: string
  rn_org_id :: string
  rn_membership_id :: string
  rn_host_address :: string
  rn_agent_id :: string
  rn_action :: string
  rn_scope :: string
  rn_delegate :: string
  rn_grant_id :: string
  rn_budget_amount :: int
  rn_capability_id :: string
  rn_command_id :: string

record run_response =
  rs_execution_id :: string
  rs_execution_state :: string
  rs_command_id :: string
  rs_ok :: bool
  rs_requires_confirmation :: bool

record run_result =
  rr_run :: run_view
  rr_recordId :: "string option"
  rr_response :: "run_response option"

record direct_claim =
  cm_settled :: bool
  cm_message_id :: string
  cm_capability_id :: string
  cm_permission_version :: int
  cm_reserved :: int

record message_view =
  mv_message :: direct_message
  mv_approval :: "direct_approval option"
  mv_result :: "run_result option"
  mv_claim :: "direct_claim option"
  mv_readPermission :: "(string \<times> int) option"
  mv_workspace_complete :: bool
  mv_workspace_revision :: int

section \<open>Current, fresh, approved\<close>

text \<open>\<^verbatim>\<open>Math.max(0, Math.ceil((expires - now) / 1000))\<close>\<close>

definition directMessageRemainingSeconds :: "int \<Rightarrow> int \<Rightarrow> int" where
  "directMessageRemainingSeconds expiresAtMs nowMs = max 0 (- ((nowMs - expiresAtMs) div 1000))"

definition sameBytes :: "int list \<Rightarrow> int list \<Rightarrow> bool" where
  "sameBytes a b \<longleftrightarrow> length a = length b \<and> list_all (\<lambda>i. a ! i = b ! i) [0..<length a]"

text \<open>\<^verbatim>\<open>/^native-[0-9a-f]{64}$/\<close>\<close>

definition native_instance :: "string \<Rightarrow> bool" where
  "native_instance s \<longleftrightarrow> (case strip_prefix ''native-'' s of None \<Rightarrow> False | Some h \<Rightarrow> is_hex64 h)"

definition is_current :: "description option \<Rightarrow> int \<Rightarrow> bool" where
  "is_current d now =
    (case d of None \<Rightarrow> False
     | Some d \<Rightarrow>
         (case de_permission d of None \<Rightarrow> False
          | Some p \<Rightarrow>
              (let managed = de_managed d; member = de_member d in
               \<not> pm_revoked p \<and> \<not> ma_revoked managed \<and> ma_control_confirmed managed
               \<and> \<not> mb_revoked member \<and> \<not> de_binding_revoked d
               \<and> ma_runtime managed = ''bounded-process-v1'' \<and> native_instance (ma_instance_id managed)
               \<and> pm_managed_agent p = ma_id managed \<and> pm_managed_version p = ma_version managed
               \<and> pm_membership_id p = mb_id member \<and> ma_membership_id managed = mb_id member
               \<and> pm_membership_version p = mb_version member
               \<and> pm_human_generation p = de_humanGeneration d
               \<and> pm_host_address p = ma_host_address managed \<and> mb_host_address member = ma_host_address managed
               \<and> sameBytes (pm_workspace_hash p) (ma_workspace_hash managed)
               \<and> now < pm_expires_at_ms p \<and> now < mb_expires_at_ms member
               \<and> now < de_authorityExpiresAtMs d)))"

definition is_fresh :: "description option \<Rightarrow> message_view option \<Rightarrow> int \<Rightarrow> bool" where
  "is_fresh d selected now \<longleftrightarrow> is_current d now \<and>
    (case (d, selected) of
       (Some d, Some v) \<Rightarrow>
         (case de_permission d of None \<Rightarrow> False
          | Some p \<Rightarrow>
              (let m = mv_message v in
               dm_permission_id m = pm_id p \<and> dm_permission_version m = pm_version p
               \<and> dm_managed_agent m = ma_id (de_managed d) \<and> dm_managed_version m = ma_version (de_managed d)
               \<and> dm_membership_id m = mb_id (de_member d) \<and> dm_human_generation m = de_humanGeneration d
               \<and> now < dm_expires_at_ms m))
     | _ \<Rightarrow> False)"

definition is_approvalFresh :: "description option \<Rightarrow> message_view option \<Rightarrow> int \<Rightarrow> bool" where
  "is_approvalFresh d selected now \<longleftrightarrow> is_fresh d selected now \<and>
    (case (d, selected) of
       (Some d, Some v) \<Rightarrow>
         (case (de_permission d, mv_approval v) of
            (Some p, Some a) \<Rightarrow>
              ap_message_id a = dm_id (mv_message v) \<and> ap_permission_id a = pm_id p
              \<and> ap_permission_version a = pm_version p \<and> ap_managed_version a = ma_version (de_managed d)
              \<and> ap_human_generation a = de_humanGeneration d \<and> now < ap_expires_at_ms a
          | _ \<Rightarrow> False)
     | _ \<Rightarrow> False)"

definition is_approvalWorkspaceFresh :: "description option \<Rightarrow> message_view option \<Rightarrow> int \<Rightarrow> bool" where
  "is_approvalWorkspaceFresh d selected now \<longleftrightarrow> is_approvalFresh d selected now \<and>
    (case selected of None \<Rightarrow> False
     | Some v \<Rightarrow>
         (case mv_approval v of None \<Rightarrow> False
          | Some a \<Rightarrow> dm_action (mv_message v) \<noteq> ''file.write''
              \<or> mv_workspace_complete v \<and> mv_workspace_revision v = ap_workspace_revision a))"

record conversation_state =
  cs_current :: bool
  cs_fresh :: bool
  cs_approvalFresh :: bool
  cs_approvalWorkspaceFresh :: bool

definition directConversationState :: "description option \<Rightarrow> message_view option \<Rightarrow> int \<Rightarrow> conversation_state" where
  "directConversationState d selected now =
    \<lparr>cs_current = is_current d now, cs_fresh = is_fresh d selected now,
     cs_approvalFresh = is_approvalFresh d selected now,
     cs_approvalWorkspaceFresh = is_approvalWorkspaceFresh d selected now\<rparr>"

section \<open>Composing after an unresolved request\<close>

definition is_unknown :: "tx_outcome option \<Rightarrow> bool" where
  "is_unknown receipt \<longleftrightarrow> (case receipt of None \<Rightarrow> False | Some oc \<Rightarrow> oc_status oc = OUnknown)"

text \<open>\<^verbatim>\<open>/^[1-9][0-9]*$/\<close>\<close>

definition positive_decimal :: "string \<Rightarrow> bool" where
  "positive_decimal s \<longleftrightarrow> s \<noteq> [] \<and> list_all is_digit s \<and> hd s \<noteq> CHR ''0''"

definition canComposeAfterPermissionReceipt :: "description option \<Rightarrow> tx_outcome option \<Rightarrow> int \<Rightarrow> bool" where
  "canComposeAfterPermissionReceipt d receipt now =
    (case (d, receipt) of
       (Some desc, Some oc) \<Rightarrow>
         (case de_permission desc of None \<Rightarrow> False
          | Some p \<Rightarrow>
              if oc_status oc \<noteq> OUnknown \<or> \<not> cs_current (directConversationState d None now) then False
              else case strip_prefix (''direct-permission:'' @ ma_id (de_managed desc) @ '':'') (oc_requestId oc) of
                None \<Rightarrow> False
              | Some revision \<Rightarrow>
                  if revision \<noteq> ''create'' \<and> \<not> positive_decimal revision then False
                  else (if revision = ''create'' then 0 else dec_value revision) < pm_version p)
     | _ \<Rightarrow> False)"

definition settled_run_matches :: "description \<Rightarrow> permission \<Rightarrow> message_view \<Rightarrow> bool" where
  "settled_run_matches d p v =
    (let m = mv_message v in
     if dm_permission_id m \<noteq> pm_id p \<or> dm_permission_version m \<noteq> pm_version p
        \<or> dm_managed_agent m \<noteq> ma_id (de_managed d) \<or> dm_managed_version m \<noteq> ma_version (de_managed d)
        \<or> dm_membership_id m \<noteq> mb_id (de_member d) \<or> dm_human_generation m \<noteq> de_humanGeneration d
     then False
     else case (mv_result v, mv_claim v) of
       (Some result, Some claim) \<Rightarrow>
         (case (rr_response result, rr_recordId result) of
            (Some response, Some recordId) \<Rightarrow>
              (let run = rr_run result in
               recordId \<noteq> [] \<and> rn_state run = 2 \<and> rn_result_record run = Some recordId
               \<and> length (rn_result_hash run) = 32
               \<and> rn_managed_agent run = dm_managed_agent m \<and> rn_org_id run = dm_org_id m
               \<and> rn_membership_id run = dm_membership_id m \<and> rn_host_address run = ma_host_address (de_managed d)
               \<and> rn_agent_id run = ma_instance_id (de_managed d)
               \<and> rn_action run = ''direct.message'' \<and> rn_scope run = ''direct''
               \<and> rn_delegate run = dm_writer_device m \<and> rn_grant_id run = dm_grant_id m
               \<and> rn_budget_amount run = dm_budget_amount m
               \<and> cm_settled claim \<and> cm_message_id claim = dm_id m \<and> cm_capability_id claim = rn_capability_id run
               \<and> cm_permission_version claim = dm_permission_version m \<and> cm_reserved claim = dm_budget_amount m
               \<and> rs_execution_id response = rn_id run \<and> rs_execution_state response = ''succeeded''
               \<and> rs_command_id response = rn_command_id run \<and> rs_ok response
               \<and> \<not> rs_requires_confirmation response)
          | _ \<Rightarrow> False)
     | _ \<Rightarrow> False)"

definition canComposeAfterSettledRun :: "description option \<Rightarrow> message_view option \<Rightarrow> tx_outcome option \<Rightarrow> int \<Rightarrow> bool" where
  "canComposeAfterSettledRun d selected receipt now =
    (case (selected, receipt) of
       (Some v, Some oc) \<Rightarrow>
         if oc_status oc \<noteq> OUnknown \<or> oc_requestId oc \<noteq> ''direct-run:'' @ dm_id (mv_message v)
            \<or> \<not> cs_current (directConversationState d None now)
         then False
         else (case d of None \<Rightarrow> False
               | Some d \<Rightarrow> (case de_permission d of None \<Rightarrow> False | Some p \<Rightarrow> settled_run_matches d p v))
     | _ \<Rightarrow> False)"

definition superseded_matches :: "description \<Rightarrow> permission \<Rightarrow> message_view \<Rightarrow> direct_approval \<Rightarrow> bool" where
  "superseded_matches d p v a =
    (let m = mv_message v in
     mv_result v = None \<and> mv_claim v = None
     \<and> mv_readPermission v = Some (pm_id p, pm_version p)
     \<and> dm_permission_id m = pm_id p \<and> dm_org_id m = pm_org_id p
     \<and> dm_permission_version m < pm_version p
     \<and> dm_managed_agent m = ma_id (de_managed d) \<and> dm_managed_version m = ma_version (de_managed d)
     \<and> dm_membership_id m = mb_id (de_member d) \<and> dm_human_generation m = de_humanGeneration d
     \<and> ap_permission_id a = dm_permission_id m \<and> ap_permission_version a = dm_permission_version m
     \<and> ap_message_id a = dm_id m \<and> ap_org_id a = dm_org_id m
     \<and> ap_managed_agent a = dm_managed_agent m \<and> ap_managed_version a = dm_managed_version m
     \<and> ap_human_generation a = dm_human_generation m \<and> ap_action a = dm_action m
     \<and> ap_budget_amount a = dm_budget_amount m \<and> sameBytes (ap_boundary_hash a) (dm_boundary_hash m)
     \<and> ap_state a \<in> {0, 1, 2})"

definition canComposeAfterSupersededDecision :: "description option \<Rightarrow> message_view option \<Rightarrow> tx_outcome option \<Rightarrow> int \<Rightarrow> bool" where
  "canComposeAfterSupersededDecision d selected receipt now =
    (case (selected, receipt) of
       (Some v, Some oc) \<Rightarrow>
         (case mv_approval v of None \<Rightarrow> False
          | Some a \<Rightarrow>
              if oc_status oc \<noteq> OUnknown
                 \<or> oc_requestId oc \<notin> {''direct-decision:'' @ dm_id (mv_message v) @ '':true'',
                                       ''direct-decision:'' @ dm_id (mv_message v) @ '':false''}
                 \<or> \<not> cs_current (directConversationState d None now)
              then False
              else (case d of None \<Rightarrow> False
                    | Some d \<Rightarrow> (case de_permission d of None \<Rightarrow> False | Some p \<Rightarrow> superseded_matches d p v a)))
     | _ \<Rightarrow> False)"

definition canComposeAfterResolvedOriginal :: "description option \<Rightarrow> message_view option \<Rightarrow> tx_outcome option \<Rightarrow> int \<Rightarrow> bool" where
  "canComposeAfterResolvedOriginal d selected receipt now \<longleftrightarrow>
     canComposeAfterSettledRun d selected receipt now \<or> canComposeAfterSupersededDecision d selected receipt now"

section \<open>Lemmas\<close>

lemma sameBytes_eq: "sameBytes a b \<longleftrightarrow> a = b"
  by (auto simp: sameBytes_def list_all_iff intro: nth_equalityI)

lemma is_current_antimono: "is_current d now \<Longrightarrow> now' \<le> now \<Longrightarrow> is_current d now'"
  by (auto simp: is_current_def Let_def split: option.split_asm)

section \<open>Properties\<close>

text \<open>
  The conversation states are ordered and only ever expire: an approval usable for the workspace
  is a fresh approval, which belongs to a fresh message, which belongs to current authority; and with
  the same facts, what holds at a time held at every earlier time.
\<close>

theorem conversation_states_ordered:
  "(cs_approvalWorkspaceFresh (directConversationState d v now) \<longrightarrow> cs_approvalFresh (directConversationState d v now))
   \<and> (cs_approvalFresh (directConversationState d v now) \<longrightarrow> cs_fresh (directConversationState d v now))
   \<and> (cs_fresh (directConversationState d v now) \<longrightarrow> cs_current (directConversationState d v now))
   \<and> (earlier \<le> now \<and> cs_approvalWorkspaceFresh (directConversationState d v now)
        \<longrightarrow> cs_approvalWorkspaceFresh (directConversationState d v earlier))
   \<and> (earlier \<le> now \<and> cs_fresh (directConversationState d v now) \<longrightarrow> cs_fresh (directConversationState d v earlier))"
  using is_current_antimono [of d now earlier]
  by (auto simp: directConversationState_def is_fresh_def is_approvalFresh_def is_approvalWorkspaceFresh_def Let_def
      split: option.splits)

definition sample_description :: description where
  "sample_description = \<lparr>de_permission = Some \<lparr>pm_id = ''p'', pm_org_id = ''o'', pm_version = 3, pm_revoked = False,
       pm_managed_agent = ''m'', pm_managed_version = 1, pm_membership_id = ''b'', pm_membership_version = 1,
       pm_human_generation = 1, pm_host_address = ''h'', pm_workspace_hash = [7], pm_expires_at_ms = 100\<rparr>,
     de_managed = \<lparr>ma_id = ''m'', ma_version = 1, ma_revoked = False, ma_control_confirmed = True,
       ma_runtime = ''bounded-process-v1'', ma_instance_id = ''native-'' @ replicate 64 (CHR ''a''),
       ma_membership_id = ''b'', ma_host_address = ''h'', ma_workspace_hash = [7]\<rparr>,
     de_member = \<lparr>mb_id = ''b'', mb_version = 1, mb_revoked = False, mb_host_address = ''h'', mb_expires_at_ms = 100\<rparr>,
     de_binding_revoked = False, de_humanGeneration = 1, de_authorityExpiresAtMs = 100\<rparr>"

definition sample_message :: direct_message where
  "sample_message = \<lparr>dm_id = ''x'', dm_org_id = ''o'', dm_permission_id = ''p'', dm_permission_version = 3,
     dm_managed_agent = ''m'', dm_managed_version = 1, dm_membership_id = ''b'', dm_human_generation = 1,
     dm_writer_device = ''w'', dm_grant_id = ''g'', dm_action = ''file.read'', dm_budget_amount = 5,
     dm_boundary_hash = [1], dm_expires_at_ms = 90\<rparr>"

definition sample_approval :: direct_approval where
  "sample_approval = \<lparr>ap_message_id = ''x'', ap_org_id = ''o'', ap_permission_id = ''p'', ap_permission_version = 3,
     ap_managed_agent = ''m'', ap_managed_version = 1, ap_human_generation = 1, ap_action = ''file.read'',
     ap_budget_amount = 5, ap_boundary_hash = [1], ap_state = 0, ap_workspace_revision = 0, ap_expires_at_ms = 80\<rparr>"

definition sample_view :: message_view where
  "sample_view = \<lparr>mv_message = sample_message, mv_approval = Some sample_approval, mv_result = None, mv_claim = None,
     mv_readPermission = Some (''p'', 3), mv_workspace_complete = True, mv_workspace_revision = 0\<rparr>"

theorem conversation_states_ordered_witness:
  "cs_approvalWorkspaceFresh (directConversationState (Some sample_description) (Some sample_view) 70)
   \<and> cs_current (directConversationState (Some sample_description) (Some sample_view) 70)
   \<and> cs_approvalWorkspaceFresh (directConversationState (Some sample_description) (Some sample_view) 10)
   \<and> \<not> cs_approvalFresh (directConversationState (Some sample_description) (Some sample_view) 80)"
proof -
  have "cs_approvalWorkspaceFresh (directConversationState (Some sample_description) (Some sample_view) 70)" 
    "\<not> cs_approvalFresh (directConversationState (Some sample_description) (Some sample_view) 80)" by code_simp+
  then show ?thesis using conversation_states_ordered [of "Some sample_description" "Some sample_view" 70 10] by simp
qed

lemma strip_prefix_Some: "strip_prefix p s = Some r \<longleftrightarrow> s = p @ r"
  unfolding strip_prefix_def by (auto simp: append_eq_conv_conj) (metis append_take_drop_id)

lemma permission_receiptD:
  assumes "canComposeAfterPermissionReceipt d r now"
  shows "is_current d now" "\<exists>oc x. r = Some oc \<and> oc_status oc = OUnknown \<and> oc_requestId oc = ''direct-permission:'' @ x"
  using assms
  by (auto simp: canComposeAfterPermissionReceipt_def directConversationState_def strip_prefix_Some
      split: option.split_asm if_split_asm)

lemma settled_runD:
  assumes "canComposeAfterSettledRun d v r now"
  shows "is_current d now"
    "\<exists>oc m. r = Some oc \<and> v = Some m \<and> oc_status oc = OUnknown \<and> oc_requestId oc = ''direct-run:'' @ dm_id (mv_message m)"
    "\<exists>m desc p. v = Some m \<and> d = Some desc \<and> de_permission desc = Some p \<and> settled_run_matches desc p m"
  using assms
  by (auto simp: canComposeAfterSettledRun_def directConversationState_def split: option.split_asm if_split_asm)

lemma settled_run_matchesD:
  "settled_run_matches d p m \<Longrightarrow> dm_permission_version (mv_message m) = pm_version p
    \<and> (\<exists>result. mv_result m = Some result \<and> rn_state (rr_run result) = 2)"
  by (auto simp: settled_run_matches_def Let_def split: option.split_asm if_split_asm)

lemma supersededD:
  assumes "canComposeAfterSupersededDecision d v r now"
  shows "is_current d now"
    "\<exists>oc x. r = Some oc \<and> oc_status oc = OUnknown \<and> oc_requestId oc = ''direct-decision:'' @ x"
    "\<exists>m desc p a. v = Some m \<and> d = Some desc \<and> de_permission desc = Some p \<and> superseded_matches desc p m a"
  using assms
  by (auto simp: canComposeAfterSupersededDecision_def directConversationState_def split: option.split_asm if_split_asm)

lemma superseded_matchesD:
  "superseded_matches d p m a \<Longrightarrow> dm_permission_version (mv_message m) < pm_version p \<and> mv_result m = None"
  by (simp add: superseded_matches_def Let_def)

text \<open>Current authority, spelled out: a permission for exactly this Agent, Host and Human generation, nothing of it revoked or expired.\<close>

definition authority_holds :: "description \<Rightarrow> permission \<Rightarrow> int \<Rightarrow> bool" where
  "authority_holds d p now \<longleftrightarrow> de_permission d = Some p
     \<and> \<not> pm_revoked p \<and> \<not> ma_revoked (de_managed d) \<and> \<not> mb_revoked (de_member d) \<and> \<not> de_binding_revoked d \<and> ma_control_confirmed (de_managed d)
     \<and> (pm_managed_agent p, pm_managed_version p) = (ma_id (de_managed d), ma_version (de_managed d))
     \<and> (pm_membership_id p, pm_membership_version p) = (mb_id (de_member d), mb_version (de_member d)) \<and> ma_membership_id (de_managed d) = mb_id (de_member d)
     \<and> pm_human_generation p = de_humanGeneration d \<and> pm_host_address p = ma_host_address (de_managed d) \<and> mb_host_address (de_member d) = ma_host_address (de_managed d)
     \<and> pm_workspace_hash p = ma_workspace_hash (de_managed d)
     \<and> now < pm_expires_at_ms p \<and> now < mb_expires_at_ms (de_member d) \<and> now < de_authorityExpiresAtMs d"

lemma is_current_holds: "is_current (Some desc) now \<Longrightarrow> \<exists>p. authority_holds desc p now"
  by (auto simp: is_current_def authority_holds_def Let_def sameBytes_eq split: option.split_asm)

lemma permission_receipt_version:
  assumes "canComposeAfterPermissionReceipt (Some desc) r now" "de_permission desc = Some p"
  shows "\<exists>oc revision. r = Some oc \<and> oc_requestId oc = ''direct-permission:'' @ ma_id (de_managed desc) @ '':'' @ revision
    \<and> (revision = ''create'' \<and> 0 < pm_version p \<or> positive_decimal revision \<and> dec_value revision < pm_version p)"
  using assms by (auto simp: canComposeAfterPermissionReceipt_def strip_prefix_Some split: option.split_asm if_split_asm)

lemma settled_run_original:
  "settled_run_matches d p m \<Longrightarrow> \<exists>result claim response recordId. mv_result m = Some result \<and> mv_claim m = Some claim
    \<and> rr_response result = Some response \<and> rr_recordId result = Some recordId
    \<and> (dm_permission_id (mv_message m), dm_permission_version (mv_message m)) = (pm_id p, pm_version p)
    \<and> rn_state (rr_run result) = 2 \<and> rn_result_record (rr_run result) = Some recordId \<and> rs_execution_id response = rn_id (rr_run result)
    \<and> rs_execution_state response = ''succeeded'' \<and> rs_ok response
    \<and> cm_settled claim \<and> cm_message_id claim = dm_id (mv_message m) \<and> cm_permission_version claim = pm_version p \<and> cm_reserved claim = dm_budget_amount (mv_message m)"
proof -
  assume m: "settled_run_matches d p m"
  then obtain result claim response recordId where found: "mv_result m = Some result" "mv_claim m = Some claim" "rr_response result = Some response" "rr_recordId result = Some recordId"
    by (cases "mv_result m"; cases "mv_claim m"; cases "rr_response (the (mv_result m))"; cases "rr_recordId (the (mv_result m))")
      (auto simp: settled_run_matches_def Let_def split: if_split_asm)
  show ?thesis
    using m by (intro exI [of _ result] exI [of _ claim] exI [of _ response] exI [of _ recordId]) (simp add: settled_run_matches_def Let_def found split: if_split_asm)
qed

lemma superseded_original:
  "superseded_matches d p m a \<Longrightarrow> mv_result m = None \<and> mv_claim m = None \<and> mv_readPermission m = Some (pm_id p, pm_version p)
    \<and> dm_permission_id (mv_message m) = pm_id p \<and> dm_permission_version (mv_message m) < pm_version p
    \<and> (ap_message_id a, ap_permission_id a, ap_permission_version a) = (dm_id (mv_message m), pm_id p, dm_permission_version (mv_message m))"
  by (simp add: superseded_matches_def Let_def)

lemma superseded_approval:
  assumes "canComposeAfterSupersededDecision d v r now"
  shows "\<exists>oc m desc p a. r = Some oc \<and> v = Some m \<and> d = Some desc \<and> de_permission desc = Some p \<and> mv_approval m = Some a \<and> superseded_matches desc p m a
    \<and> oc_requestId oc \<in> {''direct-decision:'' @ dm_id (mv_message m) @ '':true'', ''direct-decision:'' @ dm_id (mv_message m) @ '':false''}"
  using assms by (auto simp: canComposeAfterSupersededDecision_def split: option.split_asm if_split_asm)

text \<open>
  C10. An unresolved request unblocks the composer only under current authority and by exactly one of three ways, each with its own request and
  permission version: for a permission request, the current permission is strictly newer than the version the request was made on (newer than none, for a
  creation); for a Run, the message is under exactly the current permission version and its Run succeeded, with a result and a settled claim for
  this message and version; for a decision that never led to a Run, the message and its approval are of one version, the permission is the same and
  strictly newer, and that the Run is missing was read under the current version.
\<close>

theorem compose_after_unresolved:
  assumes "canComposeAfterPermissionReceipt (Some desc) r now \<or> canComposeAfterResolvedOriginal (Some desc) v r now"
  shows "\<exists>oc p. r = Some oc \<and> oc_status oc = OUnknown \<and> authority_holds desc p now
    \<and> \<not> (canComposeAfterPermissionReceipt (Some desc) r now \<and> canComposeAfterResolvedOriginal (Some desc) v r now)
    \<and> \<not> (canComposeAfterSettledRun (Some desc) v r now \<and> canComposeAfterSupersededDecision (Some desc) v r now)
    \<and> (canComposeAfterPermissionReceipt (Some desc) r now \<longrightarrow>
         (\<exists>revision. oc_requestId oc = ''direct-permission:'' @ ma_id (de_managed desc) @ '':'' @ revision
            \<and> (revision = ''create'' \<and> 0 < pm_version p \<or> positive_decimal revision \<and> dec_value revision < pm_version p)))
    \<and> (canComposeAfterSettledRun (Some desc) v r now \<longrightarrow>
         (\<exists>m result claim response recordId. v = Some m \<and> oc_requestId oc = ''direct-run:'' @ dm_id (mv_message m)
            \<and> mv_result m = Some result \<and> mv_claim m = Some claim \<and> rr_response result = Some response \<and> rr_recordId result = Some recordId
            \<and> (dm_permission_id (mv_message m), dm_permission_version (mv_message m)) = (pm_id p, pm_version p)
            \<and> rn_state (rr_run result) = 2 \<and> rn_result_record (rr_run result) = Some recordId \<and> rs_execution_id response = rn_id (rr_run result)
            \<and> rs_execution_state response = ''succeeded'' \<and> rs_ok response \<and> cm_settled claim \<and> cm_message_id claim = dm_id (mv_message m)
            \<and> cm_permission_version claim = pm_version p \<and> cm_reserved claim = dm_budget_amount (mv_message m)))
    \<and> (canComposeAfterSupersededDecision (Some desc) v r now \<longrightarrow>
         (\<exists>m a. v = Some m \<and> mv_approval m = Some a \<and> mv_result m = None \<and> mv_claim m = None
            \<and> oc_requestId oc \<in> {''direct-decision:'' @ dm_id (mv_message m) @ '':true'', ''direct-decision:'' @ dm_id (mv_message m) @ '':false''}
            \<and> mv_readPermission m = Some (pm_id p, pm_version p)
            \<and> dm_permission_id (mv_message m) = pm_id p \<and> dm_permission_version (mv_message m) < pm_version p
            \<and> (ap_message_id a, ap_permission_id a, ap_permission_version a) = (dm_id (mv_message m), pm_id p, dm_permission_version (mv_message m))))"
proof -
  let ?d = "Some desc"
  have "is_current ?d now" using assms unfolding canComposeAfterResolvedOriginal_def
    by (blast dest: permission_receiptD(1) settled_runD(1) supersededD(1))
  then obtain p where p: "authority_holds desc p now" using is_current_holds by blast
  then have perm: "de_permission desc = Some p" by (simp add: authority_holds_def)
  obtain oc where oc: "r = Some oc" "oc_status oc = OUnknown"
    using assms unfolding canComposeAfterResolvedOriginal_def by (blast dest: permission_receiptD(2) settled_runD(2) supersededD(2))
  have "\<not> (canComposeAfterPermissionReceipt ?d r now \<and> canComposeAfterResolvedOriginal ?d v r now)"
    by (auto simp: canComposeAfterResolvedOriginal_def dest!: permission_receiptD(2) settled_runD(2) supersededD(2))
  moreover have "\<not> (canComposeAfterSettledRun ?d v r now \<and> canComposeAfterSupersededDecision ?d v r now)"
    by (auto dest!: settled_runD(2) supersededD(2))
  moreover note permission_receipt_version [OF _ perm, of r now] settled_runD(2,3) [of ?d v r now] superseded_approval [of ?d v r now]
    settled_run_original [of desc p] superseded_original [of desc p]
  ultimately show ?thesis using oc p perm by (intro exI [of _ oc] exI [of _ p]) fastforce
qed

definition superseded_view :: message_view where
  "superseded_view = sample_view\<lparr>mv_message := sample_message\<lparr>dm_permission_version := 2\<rparr>,
     mv_approval := Some (sample_approval\<lparr>ap_permission_version := 2\<rparr>)\<rparr>"

definition superseded_receipt :: tx_outcome where
  "superseded_receipt = (sample_outcome OUnknown)\<lparr>oc_requestId := ''direct-decision:x:true''\<rparr>"

theorem compose_after_unresolved_witness:
  "canComposeAfterSupersededDecision (Some sample_description) (Some superseded_view) (Some superseded_receipt) 70
   \<and> \<not> canComposeAfterSettledRun (Some sample_description) (Some superseded_view) (Some superseded_receipt) 70"
proof -
  have can: "canComposeAfterSupersededDecision (Some sample_description) (Some superseded_view) (Some superseded_receipt) 70"
    by code_simp
  then have "canComposeAfterPermissionReceipt (Some sample_description) (Some superseded_receipt) 70
    \<or> canComposeAfterResolvedOriginal (Some sample_description) (Some superseded_view) (Some superseded_receipt) 70"
    by (simp add: canComposeAfterResolvedOriginal_def)
  from compose_after_unresolved [OF this] can show ?thesis by blast
qed

end
