(* ===== verification/Canonical_Json.thy ===== *)
theory Canonical_Json
  imports Json_Parse "HOL-Library.List_Lexorder" "HOL-Library.Char_ord"
begin

text \<open>
  \<^verbatim>\<open>canonical\<close> of \<^verbatim>\<open>apps/fractalmind-app/src/handover-plan.ts\<close>: the JSON text with the members of every
  object sorted by key. Reviewed facts are pinned by this text. Keys are compared by character
  code; keys that look like array indices do not occur in the pinned objects.
\<close>

fun sort_members :: "json \<Rightarrow> json" where
  "sort_members (JObject ms) = JObject (sort_key fst (map (\<lambda>(k, v). (k, sort_members v)) ms))"
| "sort_members (JArray xs) = JArray (map sort_members xs)"
| "sort_members v = v"

definition canonical :: "json \<Rightarrow> string" where
  "canonical v = stringify (sort_members v)"

lemma canonical_eq: "canonical v = canonical v' \<longleftrightarrow> sort_members v = sort_members v'"
  by (simp add: canonical_def stringify_inj)

text \<open>The text of a u64 and of a byte vector, as they occur in chain facts.\<close>

definition ju64 :: "int \<Rightarrow> json" where
  "ju64 i = JString (dec_string i)"

definition jbytes :: "int list \<Rightarrow> json" where
  "jbytes bs = JArray (map JNumber bs)"

definition jopt :: "('a \<Rightarrow> json) \<Rightarrow> 'a option \<Rightarrow> json" where
  "jopt f x = (case x of None \<Rightarrow> JNull | Some a \<Rightarrow> f a)"

lemma dec_string_eq [simp]: "dec_string i = dec_string j \<longleftrightarrow> i = j"
  using dec_string_inj_int by blast

lemma sort_atoms [simp]:
  "sort_members (ju64 i) = ju64 i" "sort_members (jbytes bs) = jbytes bs"
  "ju64 i = ju64 j \<longleftrightarrow> i = j" "jbytes bs = jbytes cs \<longleftrightarrow> bs = cs"
  by (simp_all add: ju64_def jbytes_def o_def inj_map_eq_map inj_def)

lemma sort_jopt [simp]: "(\<And>a. sort_members (f a) = f a) \<Longrightarrow> sort_members (jopt f x) = jopt f x"
  by (cases x) (simp_all add: jopt_def)

lemma jopt_eq [simp]: "(\<And>a. f a \<noteq> JNull) \<Longrightarrow> (\<And>a b. f a = f b \<longleftrightarrow> a = b) \<Longrightarrow> jopt f x = jopt f y \<longleftrightarrow> x = y"
  by (cases x; cases y) (auto simp: jopt_def, metis+)

text \<open>Equal canonical texts of objects without repeated keys have canonically equal members.\<close>

lemma map_of_sort_key:
  assumes "distinct (map fst xs)"
  shows "map_of (sort_key fst xs) = map_of xs"
proof
  fix k
  have "distinct (map fst (sort_key fst xs))"
    using assms distinct_card [of "map fst (sort_key fst xs)"]
    by (metis card_distinct distinct_card length_map length_sort set_map set_sort)
  then have "map_of (sort_key fst xs) k = Some v \<longleftrightarrow> map_of xs k = Some v" for v
    using assms by simp
  then show "map_of (sort_key fst xs) k = map_of xs k" by (metis not_None_eq)
qed

lemma map_of_map_snd: "map_of (map (\<lambda>(k, v). (k, f v)) xs) k = map_option f (map_of xs k)"
  by (induction xs) auto

lemma canonical_member:
  assumes "canonical (JObject ms) = canonical (JObject ms')" "distinct (map fst ms)" "distinct (map fst ms')"
  shows "map_option sort_members (map_of ms k) = map_option sort_members (map_of ms' k)"
proof -
  have fst: "map fst (map (\<lambda>(k, v). (k, sort_members v)) xs) = map fst xs" for xs :: "(string \<times> json) list"
    by (induction xs) auto
  from assms(1) have "sort_key fst (map (\<lambda>(k, v). (k, sort_members v)) ms) = sort_key fst (map (\<lambda>(k, v). (k, sort_members v)) ms')"
    by (simp add: canonical_eq)
  then have "map_of (map (\<lambda>(k, v). (k, sort_members v)) ms) = map_of (map (\<lambda>(k, v). (k, sort_members v)) ms')"
    using map_of_sort_key [of "map (\<lambda>(k, v). (k, sort_members v)) ms"]
      map_of_sort_key [of "map (\<lambda>(k, v). (k, sort_members v)) ms'"] assms(2,3) fst by metis
  then show ?thesis by (metis map_of_map_snd)
qed

end
