(* ===== verification/Okr_Autonomy.thy ===== *)
theory Okr_Autonomy
  imports Canonical_Json Transaction_Manager
begin

text \<open>
  The autonomy session of one objective, \<^verbatim>\<open>NativeOkrAutonomy\<close> of
  \<^verbatim>\<open>apps/fractalmind-app/src/okr-autonomy.ts\<close>, with its delivery journal
  \<^verbatim>\<open>okr-delivery-journal.ts\<close>: an explicit, memory-only session, fixed to a reviewed agreement, that
  may spend gas up to a limit and releases each prepared run at most once.

  Chain reads, the device verifier, the runner and the control request are parameters
  (\<open>autonomy_env\<close>), actions on an arbitrary outside state. While one of them is awaited the user may
  call \<^verbatim>\<open>stop\<close>: \<open>ae_interrupt\<close> decides it, so every interleaving of \<^verbatim>\<open>stop\<close> with the awaits of an
  operation is a run of the model. The world keeps two logs that no operation reads: the fees
  authorized (with the epoch of their session) and the runs released.
\<close>

section \<open>Data\<close>

datatype autonomy_error =
    Invalid_input | Confirmation_required | State_changed | Session_expired | Gas_limit
  | Original_run_needs_review | Delivery_unavailable | Outside string

fun error_text :: "autonomy_error \<Rightarrow> string" where
  "error_text Invalid_input = ''invalid_input''"
| "error_text Confirmation_required = ''confirmation_required''"
| "error_text State_changed = ''state_changed''"
| "error_text Session_expired = ''session_expired''"
| "error_text Gas_limit = ''gas_limit''"
| "error_text Original_run_needs_review = ''original_run_needs_review''"
| "error_text Delivery_unavailable = ''journal_unavailable''"
| "error_text (Outside s) = s"

record okr_facts =
  ok_id :: string
  ok_org_id :: string
  ok_owner_human :: string
  ok_state :: int
  ok_version :: int
  ok_spec_record :: string
  ok_spec_revision :: int
  ok_agreement_record :: "string option"
  ok_agreement_version :: int
  ok_managed_agent :: "string option"
  ok_managed_version :: int
  ok_membership_id :: "string option"
  ok_membership_version :: int
  ok_workspace_hash :: "int list"
  ok_boundary_hash :: "int list"
  ok_budget_asset :: string
  ok_budget_limit :: int
  ok_deadline_ms :: int
  ok_expires_at_ms :: int
  ok_next_kr :: int
  ok_rest :: json

record authority =
  au_actions :: "string list"
  au_encryptedKeys :: bool
  au_contextPin :: "string option"
  au_humanId :: string
  au_clockMs :: int
  au_expiresAtMs :: int
  au_chainIdentifier :: string

record member_facts =
  me_id :: string
  me_org_id :: string
  me_version :: int
  me_revoked :: bool
  me_expires_at_ms :: int
  me_host_address :: string
  me_coordinator_binding :: string
  me_rest :: json

record managed_facts =
  mg_id :: string
  mg_org_id :: string
  mg_version :: int
  mg_revoked :: bool
  mg_control_confirmed :: bool
  mg_runtime :: string
  mg_membership_id :: string
  mg_host_address :: string
  mg_workspace_hash :: "int list"
  mg_rest :: json

record binding_facts =
  bi_id :: string
  bi_org_id :: string
  bi_revoked :: bool
  bi_rest :: json

type_synonym assignment = "member_facts \<times> managed_facts \<times> binding_facts"

datatype runner_status = Idle | Paused | Awaiting_approval | Queued | Running | Awaiting_confirmation
  | Awaiting_verification | Awaiting_acceptance | Achieved | Blocked

record runner_state =
  ru_status :: runner_status
  ru_reason :: "string option"
  ru_okrId :: string
  ru_krIndex :: "int option"
  ru_executionId :: "string option"
  ru_transactionDigest :: "string option"

record step_input =
  si_capabilityId :: string
  si_createIfMissing :: bool
  si_prepareOnly :: bool
  si_releaseQueued :: bool
  si_expected :: "(string \<times> int \<times> int) option"

record autonomy_state =
  as_active :: bool
  as_runner :: runner_state
  as_observedAtMs :: int
  as_gasCommitted :: int
  as_gasLimit :: int
  as_expiresAtMs :: "int option"

record session =
  se_pin :: string
  se_expiresAtMs :: int
  se_gasLimit :: int
  se_gasCommitted :: int
  se_charged :: "string list"

record autonomy_review =
  rv_handle :: nat
  rv_okr :: okr_facts
  rv_policy :: json
  rv_plan :: json
  rv_budget :: json
  rv_assignment :: assignment
  rv_authorityExpiresAtMs :: int
  rv_pin :: string

record start_input =
  in_reviewed :: bool
  in_gasLimit :: string
  in_expiresAtMs :: string

text \<open>The fields of a fee quote that the session looks at; amounts are decimal texts.\<close>

record autonomy_quote =
  aq_requestId :: string
  aq_sender :: string
  aq_maxSuiSpend :: string
  aq_gasBudget :: string
  aq_expiresAtMs :: int

record delivery_state =
  dj_keys :: "string list"
  dj_closed :: bool
  dj_faults :: "bool list"

record 'r autonomy_env =
  ae_grantId :: string
  ae_organizationId :: string
  ae_okrId :: string
  ae_device :: string
  ae_network :: string
  ae_profile :: json
  ae_now :: "'r \<Rightarrow> int \<times> 'r"
  ae_active :: "'r \<Rightarrow> bool"
  ae_interrupt :: "'r \<Rightarrow> string option \<times> 'r"
  ae_verifyOrganization :: "('r, string, authority) eff"
  ae_describe :: "('r, string, okr_facts \<times> json \<times> json) eff"
  ae_getBudget :: "('r, string, json) eff"
  ae_getOkr :: "('r, string, okr_facts) eff"
  ae_getPolicy :: "('r, string, json) eff"
  ae_getMembership :: "string \<Rightarrow> ('r, string, member_facts) eff"
  ae_getManagedAgent :: "string \<Rightarrow> ('r, string, managed_facts) eff"
  ae_getCoordinatorBinding :: "string \<Rightarrow> ('r, string, binding_facts) eff"
  ae_step_begin :: "step_input \<Rightarrow> ('r, string, autonomy_quote list) eff"
  ae_step_end :: "step_input \<Rightarrow> bool list \<Rightarrow> bool \<Rightarrow> ('r, string, runner_state \<times> tx_outcome option) eff"
  ae_control_prepare :: "okr_facts \<Rightarrow> json \<Rightarrow> ('r, string, autonomy_quote + tx_outcome) eff"
  ae_control_submit :: "autonomy_quote \<Rightarrow> ('r, string, tx_outcome) eff"
  ae_control_confirmed :: "tx_outcome \<Rightarrow> ('r, string, string) eff"
  ae_onQuote :: "autonomy_quote \<Rightarrow> ('r, string, unit) eff"
  ae_onSubmission :: "tx_outcome \<Rightarrow> ('r, string, unit) eff"

record 'r aworld =
  aw_rpc :: 'r
  aw_delivery :: delivery_state
  aw_reviews :: "(nat \<times> string) list"
  aw_session :: "session option"
  aw_activeRequest :: "string option"
  aw_feeFailure :: "string option"
  aw_epoch :: int
  aw_observed :: "autonomy_state option"
  aw_fees :: "(int \<times> string \<times> int) list"
  aw_limits :: "(int \<times> int) list"
  aw_released :: "string list"

type_synonym ('r, 'a) auto = "('r aworld, autonomy_error, 'a) eff"

section \<open>Time, stop and awaits\<close>

definition nowA :: "'r autonomy_env \<Rightarrow> ('r, int) auto" where
  "nowA env = (\<lambda>w. case ae_now env (aw_rpc w) of (t, r) \<Rightarrow> (Inr t, w\<lparr>aw_rpc := r\<rparr>))"

definition stop :: "'r autonomy_env \<Rightarrow> string \<Rightarrow> ('r, autonomy_state option) auto" where
  "stop env reason =
     bindE (nowA env) (\<lambda>now.
     bindE (modifyE (\<lambda>w. w\<lparr>
       aw_epoch := aw_epoch w + 1,
       aw_observed := map_option (\<lambda>st. st\<lparr>
           as_gasCommitted := (case aw_session w of Some s \<Rightarrow> se_gasCommitted s | None \<Rightarrow> as_gasCommitted st),
           as_active := False,
           as_runner := (as_runner st)\<lparr>ru_status := Paused, ru_reason := Some reason\<rparr>,
           as_observedAtMs := now\<rparr>) (aw_observed w),
       aw_session := None\<rparr>)) (\<lambda>_.
     getE aw_observed))"

text \<open>Awaiting an outside action; the user may stop the session meanwhile.\<close>

definition awaitA :: "'r autonomy_env \<Rightarrow> ('r, string, 'a) eff \<Rightarrow> ('r, 'a) auto" where
  "awaitA env m = (\<lambda>w.
     (case m (aw_rpc w) of (x, r) \<Rightarrow>
      case ae_interrupt env r of (stopped, r') \<Rightarrow>
        let w1 = w\<lparr>aw_rpc := r'\<rparr>;
            w2 = (case stopped of None \<Rightarrow> w1 | Some reason \<Rightarrow> snd (stop env reason w1)) in
        ((case x of Inl e \<Rightarrow> Inl (Outside e) | Inr a \<Rightarrow> Inr a), w2)))"

definition assertActive :: "'r autonomy_env \<Rightarrow> ('r, unit) auto" where
  "assertActive env = bindE (getE (\<lambda>w. ae_active env (aw_rpc w))) (\<lambda>ok. assertE ok (Outside ''inactive''))"

definition assertSession :: "'r autonomy_env \<Rightarrow> ('r, unit) auto" where
  "assertSession env =
     bindE (assertActive env) (\<lambda>_.
     bindE (getE aw_session) (\<lambda>s.
     case s of None \<Rightarrow> throwE State_changed
     | Some s \<Rightarrow> bindE (nowA env) (\<lambda>now. assertE (now < se_expiresAtMs s) Session_expired)))"

section \<open>The constructor, positive amounts and the pin\<close>

definition new_autonomy_ok :: "string \<Rightarrow> string \<Rightarrow> string \<Rightarrow> (autonomy_error, unit) result" where
  "new_autonomy_ok grantId organizationId okrId =
     assertR (list_all is_object_id [grantId, organizationId, okrId]) Invalid_input"

text \<open>\<^verbatim>\<open>/^[1-9][0-9]{0,19}$/\<close> and at most the largest u64.\<close>

definition positive :: "string \<Rightarrow> bool" where
  "positive v \<longleftrightarrow> v \<noteq> [] \<and> length v \<le> 20 \<and> list_all is_digit v \<and> hd v \<noteq> CHR ''0'' \<and> dec_value v \<le> MAX_U64"

definition member_json :: "member_facts \<Rightarrow> json" where
  "member_json m = JObject [(''id'', JString (me_id m)), (''org_id'', JString (me_org_id m)), (''version'', ju64 (me_version m)),
     (''revoked'', JBool (me_revoked m)), (''expires_at_ms'', ju64 (me_expires_at_ms m)),
     (''host_address'', JString (me_host_address m)), (''coordinator_binding'', JString (me_coordinator_binding m)),
     (''rest'', me_rest m)]"

definition managed_json :: "managed_facts \<Rightarrow> json" where
  "managed_json m = JObject [(''id'', JString (mg_id m)), (''org_id'', JString (mg_org_id m)), (''version'', ju64 (mg_version m)),
     (''revoked'', JBool (mg_revoked m)), (''control_confirmed'', JBool (mg_control_confirmed m)),
     (''runtime'', JString (mg_runtime m)), (''membership_id'', JString (mg_membership_id m)),
     (''host_address'', JString (mg_host_address m)), (''workspace_hash'', jbytes (mg_workspace_hash m)), (''rest'', mg_rest m)]"

definition binding_json :: "binding_facts \<Rightarrow> json" where
  "binding_json b = JObject [(''id'', JString (bi_id b)), (''org_id'', JString (bi_org_id b)), (''revoked'', JBool (bi_revoked b)),
     (''rest'', bi_rest b)]"

fun assignment_json :: "assignment \<Rightarrow> json" where
  "assignment_json (m, g, b) =
     JObject [(''member'', member_json m), (''managed'', managed_json g), (''binding'', binding_json b)]"

definition okr_json :: "okr_facts \<Rightarrow> json" where
  "okr_json okr = JObject [(''id'', JString (ok_id okr)), (''org_id'', JString (ok_org_id okr)), (''owner_human'', JString (ok_owner_human okr)),
     (''state'', JNumber (ok_state okr)), (''version'', ju64 (ok_version okr)), (''spec_record'', JString (ok_spec_record okr)),
     (''spec_revision'', ju64 (ok_spec_revision okr)), (''agreement_record'', jopt JString (ok_agreement_record okr)),
     (''agreement_version'', ju64 (ok_agreement_version okr)), (''managed_agent'', jopt JString (ok_managed_agent okr)),
     (''managed_version'', ju64 (ok_managed_version okr)), (''membership_id'', jopt JString (ok_membership_id okr)),
     (''membership_version'', ju64 (ok_membership_version okr)), (''workspace_hash'', jbytes (ok_workspace_hash okr)),
     (''boundary_hash'', jbytes (ok_boundary_hash okr)), (''budget_asset'', JString (ok_budget_asset okr)),
     (''budget_limit'', ju64 (ok_budget_limit okr)), (''deadline_ms'', ju64 (ok_deadline_ms okr)),
     (''expires_at_ms'', ju64 (ok_expires_at_ms okr)), (''next_kr'', ju64 (ok_next_kr okr)), (''rest'', ok_rest okr)]"

definition pin :: "'r autonomy_env \<Rightarrow> authority \<Rightarrow> okr_facts \<Rightarrow> json \<Rightarrow> assignment \<Rightarrow> string" where
  "pin env a okr policy asg = canonical (JArray [
     jopt JString (au_contextPin a), ae_profile env, JString (ok_id okr), JString (ok_org_id okr), JString (ok_owner_human okr),
     JString (ok_spec_record okr), ju64 (ok_spec_revision okr), jopt JString (ok_agreement_record okr),
     ju64 (ok_agreement_version okr), jopt JString (ok_managed_agent okr), ju64 (ok_managed_version okr),
     jopt JString (ok_membership_id okr), ju64 (ok_membership_version okr), jbytes (ok_workspace_hash okr),
     jbytes (ok_boundary_hash okr), JString (ok_budget_asset okr), ju64 (ok_budget_limit okr), ju64 (ok_deadline_ms okr),
     ju64 (ok_expires_at_ms okr), policy, assignment_json asg])"

definition review_json :: "autonomy_review \<Rightarrow> json" where
  "review_json v = JObject [(''okr'', okr_json (rv_okr v)), (''policy'', rv_policy v), (''plan'', rv_plan v),
     (''budget'', rv_budget v), (''assignment'', assignment_json (rv_assignment v)),
     (''authorityExpiresAtMs'', ju64 (rv_authorityExpiresAtMs v)), (''pin'', JString (rv_pin v))]"

section \<open>Authority, assignment and review\<close>

definition authorityA :: "'r autonomy_env \<Rightarrow> ('r, authority) auto" where
  "authorityA env =
     bindE (assertActive env) (\<lambda>_.
     bindE (awaitA env (ae_verifyOrganization env)) (\<lambda>a.
     bindE (assertE ({''read'', ''operate'', ''approve''} \<subseteq> set (au_actions a) \<and> au_encryptedKeys a
              \<and> au_contextPin a \<noteq> None \<and> au_contextPin a \<noteq> Some []) State_changed) (\<lambda>_.
     bindE (assertActive env) (\<lambda>_. okE a))))"

definition assignment_ok :: "'r autonomy_env \<Rightarrow> okr_facts \<Rightarrow> int \<Rightarrow> assignment \<Rightarrow> bool" where
  "assignment_ok env okr clockMs asg =
    (case asg of (member, managed, binding) \<Rightarrow>
       me_org_id member = ae_organizationId env \<and> Some (me_id member) = ok_membership_id okr
       \<and> me_version member = ok_membership_version okr \<and> \<not> me_revoked member \<and> clockMs < me_expires_at_ms member
       \<and> mg_org_id managed = ae_organizationId env \<and> Some (mg_id managed) = ok_managed_agent okr
       \<and> mg_version managed = ok_managed_version okr \<and> \<not> mg_revoked managed \<and> mg_control_confirmed managed
       \<and> mg_runtime managed = ''bounded-process-v1'' \<and> mg_membership_id managed = me_id member
       \<and> mg_host_address managed = me_host_address member
       \<and> canonical (jbytes (mg_workspace_hash managed)) = canonical (jbytes (ok_workspace_hash okr))
       \<and> bi_id binding = me_coordinator_binding member \<and> bi_org_id binding = ae_organizationId env
       \<and> \<not> bi_revoked binding)"

definition assignmentA :: "'r autonomy_env \<Rightarrow> okr_facts \<Rightarrow> int \<Rightarrow> ('r, assignment) auto" where
  "assignmentA env okr clockMs =
    (case (ok_membership_id okr, ok_managed_agent okr) of
       (Some membership, Some agent) \<Rightarrow>
         bindE (assertE (membership \<noteq> [] \<and> agent \<noteq> []) State_changed) (\<lambda>_.
         bindE (awaitA env (ae_getMembership env membership)) (\<lambda>member.
         bindE (awaitA env (ae_getManagedAgent env agent)) (\<lambda>managed.
         bindE (awaitA env (ae_getCoordinatorBinding env (me_coordinator_binding member))) (\<lambda>binding.
         bindE (assertE (assignment_ok env okr clockMs (member, managed, binding)) State_changed) (\<lambda>_.
         okE (member, managed, binding))))))
     | _ \<Rightarrow> throwE State_changed)"

definition review :: "'r autonomy_env \<Rightarrow> ('r, autonomy_review) auto" where
  "review env =
     bindE (authorityA env) (\<lambda>a.
     bindE (awaitA env (ae_describe env)) (\<lambda>(okr, policy, plan).
     bindE (assertE (ok_state okr = 1 \<and> ok_owner_human okr = au_humanId a \<and> au_clockMs a < ok_expires_at_ms okr)
              State_changed) (\<lambda>_.
     bindE (awaitA env (ae_getBudget env)) (\<lambda>budget.
     bindE (assignmentA env okr (au_clockMs a)) (\<lambda>asg.
     bindE (awaitA env (ae_getOkr env)) (\<lambda>again.
     bindE (assertE (canonical (okr_json again) = canonical (okr_json okr)) State_changed) (\<lambda>_.
     bindE (getE (\<lambda>w. length (aw_reviews w))) (\<lambda>handle.
     let v = \<lparr>rv_handle = handle, rv_okr = okr, rv_policy = policy, rv_plan = plan, rv_budget = budget,
              rv_assignment = asg, rv_authorityExpiresAtMs = au_expiresAtMs a, rv_pin = pin env a okr policy asg\<rparr> in
     bindE (modifyE (\<lambda>w. w\<lparr>aw_reviews := aw_reviews w @ [(handle, canonical (review_json v))]\<rparr>)) (\<lambda>_.
     okE v)))))))))"

section \<open>Starting a session\<close>

text \<open>
  Operations run one at a time: \<^verbatim>\<open>start\<close> refuses to run beside another start or a heartbeat, and a second
  heartbeat joins the first.
\<close>

definition open_session :: "'r autonomy_env \<Rightarrow> autonomy_review \<Rightarrow> autonomy_review \<Rightarrow> start_input \<Rightarrow> int \<Rightarrow> 'r aworld \<Rightarrow> 'r aworld" where
  "open_session env view fresh inp now w = w\<lparr>
     aw_epoch := aw_epoch w + 1,
     aw_session := Some \<lparr>se_pin = rv_pin fresh, se_expiresAtMs = dec_value (in_expiresAtMs inp),
       se_gasLimit = dec_value (in_gasLimit inp), se_gasCommitted = 0, se_charged = []\<rparr>,
     aw_limits := (aw_epoch w + 1, dec_value (in_gasLimit inp)) # aw_limits w,
     aw_feeFailure := None,
     aw_observed := Some \<lparr>as_active = True,
       as_runner = \<lparr>ru_status = Idle, ru_reason = None, ru_okrId = ae_okrId env,
         ru_krIndex = Some (ok_next_kr (rv_okr view)), ru_executionId = None, ru_transactionDigest = None\<rparr>,
       as_observedAtMs = now, as_gasCommitted = 0, as_gasLimit = dec_value (in_gasLimit inp),
       as_expiresAtMs = Some (dec_value (in_expiresAtMs inp))\<rparr>\<rparr>"

definition startA :: "'r autonomy_env \<Rightarrow> autonomy_review \<Rightarrow> start_input \<Rightarrow> ('r, autonomy_state option) auto" where
  "startA env view inp =
     bindE (getE aw_session) (\<lambda>running.
     bindE (assertE (running = None) State_changed) (\<lambda>_.
     bindE (assertE (in_reviewed inp) Confirmation_required) (\<lambda>_.
     bindE (assertE (positive (in_gasLimit inp) \<and> positive (in_expiresAtMs inp)) Invalid_input) (\<lambda>_.
     bindE (getE (\<lambda>w. map_of (aw_reviews w) (rv_handle view))) (\<lambda>saved.
     bindE (assertE (saved = Some (canonical (review_json view))) State_changed) (\<lambda>_.
     bindE (getE aw_epoch) (\<lambda>epoch.
     bindE (review env) (\<lambda>fresh.
     bindE (getE aw_epoch) (\<lambda>epoch'.
     bindE (assertE (epoch = epoch' \<and> saved = Some (canonical (review_json fresh))) State_changed) (\<lambda>_.
     let expiry = dec_value (in_expiresAtMs inp) in
     bindE (nowA env) (\<lambda>now1.
     bindE (nowA env) (\<lambda>now2.
     bindE (assertE (now1 < expiry \<and> expiry \<le> now2 + 3600000 \<and> expiry \<le> rv_authorityExpiresAtMs fresh
              \<and> expiry \<le> ok_expires_at_ms (rv_okr fresh)) Invalid_input) (\<lambda>_.
     bindE (nowA env) (\<lambda>now3.
     bindE (modifyE (open_session env view fresh inp now3)) (\<lambda>_.
     getE aw_observed)))))))))))))))"

section \<open>Current facts and fees\<close>

definition current :: "'r autonomy_env \<Rightarrow> ('r, okr_facts \<times> authority \<times> json option) auto" where
  "current env =
     bindE (assertSession env) (\<lambda>_.
     bindE (authorityA env) (\<lambda>a.
     bindE (awaitA env (ae_getOkr env)) (\<lambda>okr.
     bindE (assertE (ok_org_id okr = ae_organizationId env \<and> ok_owner_human okr = au_humanId a) State_changed) (\<lambda>_.
     if ok_state okr \<noteq> 1 then okE (okr, a, None)
     else
     bindE (awaitA env (ae_getPolicy env)) (\<lambda>policy.
     bindE (assignmentA env okr (au_clockMs a)) (\<lambda>asg.
     bindE (assertSession env) (\<lambda>_.
     bindE (getE aw_session) (\<lambda>s.
     bindE (assertE (map_option se_pin s = Some (pin env a okr policy asg) \<and> au_clockMs a < ok_expires_at_ms okr)
              State_changed) (\<lambda>_.
     okE (okr, a, Some policy))))))))))"

definition ticket_name :: "string \<Rightarrow> int \<Rightarrow> int \<Rightarrow> string" where
  "ticket_name okrId agreement kr = ''runner-'' @ drop 2 okrId @ ''-'' @ dec_string agreement @ ''-'' @ dec_string kr"

definition control_name :: "string \<Rightarrow> int \<Rightarrow> int \<Rightarrow> string" where
  "control_name okrId agreement kr = ''okr-control:'' @ okrId @ '':'' @ dec_string agreement @ '':'' @ dec_string kr"

definition charge :: "autonomy_quote \<Rightarrow> 'r aworld \<Rightarrow> 'r aworld" where
  "charge q w = w\<lparr>
     aw_session := map_option (\<lambda>s. s\<lparr>se_charged := aq_requestId q # se_charged s,
       se_gasCommitted := se_gasCommitted s + dec_value (aq_gasBudget q)\<rparr>) (aw_session w),
     aw_fees := (aw_epoch w, aq_requestId q, dec_value (aq_gasBudget q)) # aw_fees w\<rparr>"

text \<open>What is checked of the quote before anything is awaited.\<close>

definition quote_ok :: "'r autonomy_env \<Rightarrow> string option \<Rightarrow> int \<Rightarrow> autonomy_quote \<Rightarrow> bool" where
  "quote_ok env activeRequest now q \<longleftrightarrow> activeRequest = Some (aq_requestId q) \<and> aq_sender q = ae_device env
     \<and> aq_maxSuiSpend q = ''0'' \<and> positive (aq_gasBudget q) \<and> now < aq_expiresAtMs q"

definition checkFee :: "'r autonomy_env \<Rightarrow> autonomy_quote \<Rightarrow> ('r, int) auto" where
  "checkFee env q =
     bindE (assertSession env) (\<lambda>_.
     bindE (getE aw_activeRequest) (\<lambda>activeRequest.
     bindE (nowA env) (\<lambda>now.
     bindE (assertE (quote_ok env activeRequest now q) Invalid_input) (\<lambda>_.
     bindE (getE aw_session) (\<lambda>session.
     case session of None \<Rightarrow> throwE State_changed
     | Some s \<Rightarrow>
         bindE (assertE (aq_requestId q \<notin> set (se_charged s)) State_changed) (\<lambda>_.
         bindE (assertE (se_gasCommitted s + dec_value (aq_gasBudget q) \<le> se_gasLimit s) Gas_limit) (\<lambda>_.
         getE aw_epoch)))))))"

text \<open>What is checked again after the user saw the quote.\<close>

definition confirmFee :: "'r autonomy_env \<Rightarrow> autonomy_quote \<Rightarrow> int \<Rightarrow> ('r, unit) auto" where
  "confirmFee env q epoch =
     bindE (awaitA env (ae_onQuote env q)) (\<lambda>_.
     bindE (current env) (\<lambda>(okr, a, policy).
     bindE (getE aw_epoch) (\<lambda>epoch'.
     bindE (assertE (ok_state okr = 1 \<and> policy \<noteq> None
              \<and> aq_requestId q \<in> {control_name (ae_okrId env) (ok_agreement_version okr) (ok_next_kr okr),
                                  ticket_name (ae_okrId env) (ok_agreement_version okr) (ok_next_kr okr)}) State_changed) (\<lambda>_.
     assertE (epoch = epoch') State_changed))))"

definition authorizeFee :: "'r autonomy_env \<Rightarrow> autonomy_quote \<Rightarrow> ('r, bool) auto" where
  "authorizeFee env q =
     bindE (checkFee env q) (\<lambda>epoch.
     bindE (confirmFee env q epoch) (\<lambda>_.
     bindE (modifyE (charge q)) (\<lambda>_.
     okE True)))"

section \<open>The runner\<close>

text \<open>The fee callback given to the runner notes why a fee was refused.\<close>

definition feeCallback :: "'r autonomy_env \<Rightarrow> autonomy_quote \<Rightarrow> ('r, bool) auto" where
  "feeCallback env q =
     catchE (authorizeFee env q) (\<lambda>e.
       bindE (modifyE (\<lambda>w. w\<lparr>aw_feeFailure := Some (case e of Outside _ \<Rightarrow> ''fee_confirmation_failed'' | _ \<Rightarrow> error_text e)\<rparr>))
         (\<lambda>_. okE False))"

fun feeCallbacks :: "'r autonomy_env \<Rightarrow> autonomy_quote list \<Rightarrow> ('r, bool list) auto" where
  "feeCallbacks env [] = okE []"
| "feeCallbacks env (q # qs) = bindE (feeCallback env q) (\<lambda>b. bindE (feeCallbacks env qs) (\<lambda>bs. okE (b # bs)))"

text \<open>The lifetime check given to the runner.\<close>

definition runnerGuard :: "'r autonomy_env \<Rightarrow> ('r, bool) auto" where
  "runnerGuard env =
     catchE (bindE (assertActive env) (\<lambda>_.
             bindE (getE aw_activeRequest) (\<lambda>active.
             bindE (case active of None \<Rightarrow> okE () | Some _ \<Rightarrow> assertSession env) (\<lambda>_.
             okE True)))) (\<lambda>_. okE False)"

text \<open>
  One \<^verbatim>\<open>runner.step\<close>: the runner may ask for any number of fees, then checks the lifetime and goes on.
  The second component is the submission it made, if it made one.
\<close>

definition runnerStep :: "'r autonomy_env \<Rightarrow> step_input \<Rightarrow> ('r, runner_state \<times> tx_outcome option) auto" where
  "runnerStep env inp =
     bindE (awaitA env (ae_step_begin env inp)) (\<lambda>quotes.
     bindE (feeCallbacks env quotes) (\<lambda>answers.
     bindE (runnerGuard env) (\<lambda>alive.
     awaitA env (ae_step_end env inp answers alive))))"

section \<open>The delivery journal\<close>

definition delivery_claim :: "string \<Rightarrow> (delivery_state, unit, bool) eff" where
  "delivery_claim key = (\<lambda>d.
     if key = [] \<or> 2048 < length key \<or> dj_closed d then (Inl (), d)
     else case dj_faults d of
       True # fs \<Rightarrow> (Inl (), d\<lparr>dj_faults := fs\<rparr>)
     | False # fs \<Rightarrow> (if key \<in> set (dj_keys d) then (Inr False, d\<lparr>dj_faults := fs\<rparr>)
                     else (Inr True, d\<lparr>dj_keys := key # dj_keys d, dj_faults := fs\<rparr>))
     | [] \<Rightarrow> (if key \<in> set (dj_keys d) then (Inr False, d) else (Inr True, d\<lparr>dj_keys := key # dj_keys d\<rparr>)))"

definition okrDeliveryKey :: "string \<Rightarrow> string \<Rightarrow> string \<Rightarrow> string \<Rightarrow> string option" where
  "okrDeliveryKey network chain device runId =
    (if network = [] \<or> chain = [] \<or> \<not> is_object_id device \<or> \<not> is_object_id runId then None
     else Some (stringify (JArray [JString network, JString chain, JString device, JString runId])))"

definition claimDelivery :: "'r autonomy_env \<Rightarrow> string option \<Rightarrow> ('r, bool) auto" where
  "claimDelivery env key = (\<lambda>w.
     case key of None \<Rightarrow> (Inl Delivery_unavailable, w)
     | Some k \<Rightarrow>
         (case delivery_claim k (aw_delivery w) of (x, d) \<Rightarrow>
          case awaitA env (okE ()) (w\<lparr>aw_delivery := d\<rparr>) of (_, w') \<Rightarrow>
            ((case x of Inl _ \<Rightarrow> Inl Delivery_unavailable | Inr b \<Rightarrow> Inr b), w')))"

section \<open>Advancing\<close>

definition display :: "'r autonomy_env \<Rightarrow> runner_state \<Rightarrow> int \<Rightarrow> bool \<Rightarrow> ('r, autonomy_state) auto" where
  "display env runner epoch finish =
     bindE (assertSession env) (\<lambda>_.
     bindE (getE aw_epoch) (\<lambda>epoch'.
     bindE (assertE (epoch = epoch') State_changed) (\<lambda>_.
     bindE (getE aw_session) (\<lambda>session.
     bindE (nowA env) (\<lambda>now.
     case session of None \<Rightarrow> throwE State_changed
     | Some s \<Rightarrow>
         (let shown = \<lparr>as_active = \<not> finish, as_runner = runner, as_observedAtMs = now, as_gasCommitted = se_gasCommitted s,
                      as_gasLimit = se_gasLimit s, as_expiresAtMs = Some (se_expiresAtMs s)\<rparr> in
          bindE (modifyE (\<lambda>w. w\<lparr>aw_observed := Some shown\<rparr>)) (\<lambda>_.
          bindE (if finish then modifyE (\<lambda>w. w\<lparr>aw_session := None, aw_epoch := aw_epoch w + 1\<rparr>) else okE ()) (\<lambda>_.
          okE shown))))))))"

definition ends_session :: "runner_status \<Rightarrow> bool" where
  "ends_session st \<longleftrightarrow> st \<in> {Paused, Blocked, Awaiting_approval, Awaiting_confirmation, Awaiting_acceptance, Achieved}"

text \<open>The control request: \<open>Inl\<close> when its original outcome is already known.\<close>

definition controlReceipt :: "'r autonomy_env \<Rightarrow> okr_facts \<Rightarrow> json \<Rightarrow> ('r, tx_outcome) auto" where
  "controlReceipt env okr policy =
     bindE (modifyE (\<lambda>w. w\<lparr>aw_activeRequest := Some (control_name (ae_okrId env) (ok_agreement_version okr) (ok_next_kr okr))\<rparr>)) (\<lambda>_.
     bindE (awaitA env (ae_control_prepare env okr policy)) (\<lambda>quote.
     bindE (assertSession env) (\<lambda>_.
     case quote of Inr receipt \<Rightarrow> okE receipt
     | Inl q \<Rightarrow>
         bindE (authorizeFee env q) (\<lambda>_.
         bindE (awaitA env (ae_control_submit env q)) (\<lambda>receipt.
         bindE (awaitA env (ae_onSubmission env receipt)) (\<lambda>_.
         okE receipt))))))"

definition prepared_run_ok :: "string option \<Rightarrow> runner_state \<Rightarrow> tx_outcome option \<Rightarrow> bool" where
  "prepared_run_ok activeRequest prepared submission =
    (case (ru_executionId prepared, submission) of
       (Some e, Some sub) \<Rightarrow> e \<noteq> [] \<and> oc_status sub = OConfirmed \<and> Some (oc_digest sub) = ru_transactionDigest prepared
         \<and> Some (oc_requestId sub) = activeRequest
     | _ \<Rightarrow> False)"

text \<open>Claiming the delivery of the run that this session has just prepared.\<close>

definition claimRun :: "'r autonomy_env \<Rightarrow> okr_facts \<Rightarrow> string \<Rightarrow> ('r, string option) auto" where
  "claimRun env okr executionId =
     bindE (current env) (\<lambda>(latest, a, policy).
     bindE (assertE (ok_state latest = 1 \<and> ok_agreement_version latest = ok_agreement_version okr
              \<and> ok_next_kr latest = ok_next_kr okr) State_changed) (\<lambda>_.
     let key = okrDeliveryKey (ae_network env) (au_chainIdentifier a) (ae_device env) executionId in
     bindE (claimDelivery env key) (\<lambda>claimed.
     bindE (assertSession env) (\<lambda>_.
     bindE (assertE claimed Original_run_needs_review) (\<lambda>_.
     bindE (current env) (\<lambda>_.
     okE key))))))"

definition releaseRun :: "'r autonomy_env \<Rightarrow> okr_facts \<Rightarrow> string \<Rightarrow> string \<Rightarrow> int \<Rightarrow> ('r, autonomy_state) auto" where
  "releaseRun env okr capabilityId executionId epoch =
     bindE (claimRun env okr executionId) (\<lambda>key.
     bindE (modifyE (\<lambda>w. w\<lparr>aw_released := the key # aw_released w\<rparr>)) (\<lambda>_.
     bindE (runnerStep env \<lparr>si_capabilityId = capabilityId, si_createIfMissing = False, si_prepareOnly = False,
              si_releaseQueued = True, si_expected = Some (executionId, ok_agreement_version okr, ok_next_kr okr)\<rparr>) (\<lambda>(sent, _).
     display env sent epoch (ends_session (ru_status sent)))))"

definition prepareRun :: "'r autonomy_env \<Rightarrow> okr_facts \<Rightarrow> tx_outcome \<Rightarrow> int \<Rightarrow> ('r, autonomy_state) auto" where
  "prepareRun env okr receipt epoch =
     bindE (awaitA env (ae_control_confirmed env receipt)) (\<lambda>capabilityId.
     let name = ticket_name (ae_okrId env) (ok_agreement_version okr) (ok_next_kr okr) in
     bindE (modifyE (\<lambda>w. w\<lparr>aw_activeRequest := Some name\<rparr>)) (\<lambda>_.
     bindE (runnerStep env \<lparr>si_capabilityId = capabilityId, si_createIfMissing = True, si_prepareOnly = True,
              si_releaseQueued = False, si_expected = None\<rparr>) (\<lambda>(prepared, submission).
     bindE (case submission of None \<Rightarrow> okE () | Some sub \<Rightarrow> awaitA env (ae_onSubmission env sub)) (\<lambda>_.
     bindE (assertSession env) (\<lambda>_.
     bindE (getE aw_feeFailure) (\<lambda>feeFailure.
     if ru_status prepared \<noteq> Queued
     then display env (case feeFailure of None \<Rightarrow> prepared | Some f \<Rightarrow> prepared\<lparr>ru_reason := Some f\<rparr>) epoch True
     else
     bindE (getE aw_activeRequest) (\<lambda>activeRequest.
     bindE (assertE (prepared_run_ok activeRequest prepared submission) Original_run_needs_review) (\<lambda>_.
     releaseRun env okr capabilityId (the (ru_executionId prepared)) epoch))))))))"

definition advanceActive :: "'r autonomy_env \<Rightarrow> okr_facts \<Rightarrow> json option \<Rightarrow> int \<Rightarrow> ('r, autonomy_state) auto" where
  "advanceActive env okr policy epoch =
     bindE (runnerStep env \<lparr>si_capabilityId = ''0x'' @ replicate 64 (CHR ''0''), si_createIfMissing = False,
              si_prepareOnly = False, si_releaseQueued = False, si_expected = None\<rparr>) (\<lambda>(original, _).
     bindE (assertSession env) (\<lambda>_.
     if ru_status original = Queued
     then display env (original\<lparr>ru_status := Paused, ru_reason := Some ''original_run_needs_explicit_review''\<rparr>) epoch True
     else if ru_status original \<noteq> Idle then display env original epoch (ends_session (ru_status original))
     else case policy of None \<Rightarrow> throwE State_changed
     | Some pol \<Rightarrow>
         bindE (controlReceipt env okr pol) (\<lambda>receipt.
         if oc_status receipt \<noteq> OConfirmed
         then display env \<lparr>ru_status = (if oc_status receipt = OFailed then Blocked else Awaiting_confirmation),
                ru_reason = Some ''original_control_request_not_confirmed'', ru_okrId = ae_okrId env,
                ru_krIndex = Some (ok_next_kr okr), ru_executionId = None,
                ru_transactionDigest = Some (oc_digest receipt)\<rparr> epoch True
         else prepareRun env okr receipt epoch)))"

definition advance :: "'r autonomy_env \<Rightarrow> int \<Rightarrow> ('r, autonomy_state) auto" where
  "advance env epoch =
     bindE (getE aw_session) (\<lambda>session.
     bindE (getE aw_observed) (\<lambda>observed.
     case (session, observed) of
       (None, Some st) \<Rightarrow> okE st
     | _ \<Rightarrow>
         bindE (current env) (\<lambda>(okr, a, policy).
         if ok_state okr \<noteq> 1
         then display env \<lparr>ru_status = (if ok_state okr = 3 then Achieved else Paused),
                ru_reason = Some ''objective_not_active'', ru_okrId = ok_id okr, ru_krIndex = Some (ok_next_kr okr),
                ru_executionId = None, ru_transactionDigest = None\<rparr> epoch True
         else advanceActive env okr policy epoch)))"

definition heartbeat :: "'r autonomy_env \<Rightarrow> ('r, autonomy_state) auto" where
  "heartbeat env = (\<lambda>w.
     case bindE (getE aw_epoch) (\<lambda>epoch.
       catchE (advance env epoch) (\<lambda>e.
         bindE (getE aw_observed) (\<lambda>observed.
         if (case observed of None \<Rightarrow> False | Some st \<Rightarrow> \<not> as_active st) then okE (the observed)
         else bindE (stop env (error_text e)) (\<lambda>shown.
              case shown of None \<Rightarrow> throwE e | Some st \<Rightarrow> okE st)))) w of
       (r, w') \<Rightarrow> (r, w'\<lparr>aw_activeRequest := None\<rparr>))"

section \<open>Runs\<close>

inductive auto_step :: "'r autonomy_env \<Rightarrow> 'r aworld \<Rightarrow> 'r aworld \<Rightarrow> bool" for env where
  outside: "auto_step env w (w\<lparr>aw_rpc := r\<rparr>)"
| reviewed: "review env w = (x, w') \<Longrightarrow> auto_step env w w'"
| started: "startA env view inp w = (y, w') \<Longrightarrow> auto_step env w w'"
| stopped: "stop env reason w = (z, w') \<Longrightarrow> auto_step env w w'"
| beat: "heartbeat env w = (h, w') \<Longrightarrow> auto_step env w w'"

definition new_autonomy :: "'r \<Rightarrow> delivery_state \<Rightarrow> 'r aworld" where
  "new_autonomy r d = \<lparr>aw_rpc = r, aw_delivery = d, aw_reviews = [], aw_session = None, aw_activeRequest = None,
     aw_feeFailure = None, aw_epoch = 0, aw_observed = None, aw_fees = [], aw_limits = [], aw_released = []\<rparr>"

inductive auto_reachable :: "'r autonomy_env \<Rightarrow> 'r aworld \<Rightarrow> 'r aworld \<Rightarrow> bool" for env w0 where
  start: "auto_reachable env w0 w0"
| step: "auto_reachable env w0 w \<Longrightarrow> auto_step env w w' \<Longrightarrow> auto_reachable env w0 w'"

section \<open>What the parts leave alone\<close>

text \<open>
  Most parts either leave session, fees and deliveries alone or end the session, which is then a
  new epoch.
\<close>

definition quiet :: "'r aworld \<Rightarrow> 'r aworld \<Rightarrow> bool" where
  "quiet w w' \<longleftrightarrow> aw_epoch w \<le> aw_epoch w' \<and> aw_fees w' = aw_fees w \<and> aw_limits w' = aw_limits w
     \<and> aw_delivery w' = aw_delivery w \<and> aw_released w' = aw_released w
     \<and> aw_session w' = (if aw_epoch w' = aw_epoch w then aw_session w else None)"

lemma quiet_preorder [simp]: "preorder_on_worlds quiet"
  by (auto simp: preorder_on_worlds_def quiet_def intro!: reflpI transpI split: if_split_asm)

lemma quiet_modify [intro!]:
  assumes "\<And>w. aw_epoch (f w) = aw_epoch w" "\<And>w. aw_fees (f w) = aw_fees w" "\<And>w. aw_limits (f w) = aw_limits w"
    "\<And>w. aw_delivery (f w) = aw_delivery w" "\<And>w. aw_released (f w) = aw_released w" "\<And>w. aw_session (f w) = aw_session w"
  shows "keeps quiet (modifyE f)"
  using assms by (simp add: keeps_def eff_elims quiet_def)

lemma quiet_nowA [intro!]: "keeps quiet (nowA env)"
  by (auto simp: keeps_def nowA_def quiet_def split: prod.splits)

lemma quiet_stop [intro!]: "keeps quiet (stop env reason)"
  unfolding stop_def by (intro keeps_bindE quiet_preorder quiet_nowA keeps_pure) (simp add: keeps_def eff_elims quiet_def)

lemma quiet_awaitA [intro!]: "keeps quiet (awaitA env m)"
proof -
  have "quiet w (snd (stop env reason (w\<lparr>aw_rpc := r\<rparr>)))" for w :: "'a aworld" and reason r
  proof -
    obtain x w' where run: "stop env reason (w\<lparr>aw_rpc := r\<rparr>) = (x, w')" by fastforce
    from keepsD [OF quiet_stop run] show ?thesis by (simp add: run quiet_def)
  qed
  then show ?thesis
    by (auto simp: keeps_def awaitA_def Let_def quiet_def [of _ "_\<lparr>aw_rpc := _\<rparr>"] split: prod.splits option.splits)
qed

lemma keeps_case_option' [intro!]:
  "keeps R m \<Longrightarrow> (\<And>x. keeps R (f x)) \<Longrightarrow> keeps R (case opt of None \<Rightarrow> m | Some x \<Rightarrow> f x)"
  by (cases opt) auto

lemma quiet_assertActive [intro!]: "keeps quiet (assertActive env)"
  unfolding assertActive_def by auto

lemma quiet_assertSession [intro!]: "keeps quiet (assertSession env)"
  unfolding assertSession_def by auto

lemma quiet_authorityA [intro!]: "keeps quiet (authorityA env)"
  unfolding authorityA_def by auto

lemma quiet_assignmentA [intro!]: "keeps quiet (assignmentA env okr t)"
  unfolding assignmentA_def by (auto split: option.split)

lemma quiet_review [intro!]: "keeps quiet (review env)"
  unfolding review_def by auto

lemma quiet_current [intro!]: "keeps quiet (current env)"
  unfolding current_def by auto

lemma quiet_checkFee [intro!]: "keeps quiet (checkFee env q)"
  unfolding checkFee_def by auto

lemma quiet_confirmFee [intro!]: "keeps quiet (confirmFee env q e)"
  unfolding confirmFee_def by auto

lemma quiet_runnerGuard [intro!]: "keeps quiet (runnerGuard env)"
  unfolding runnerGuard_def by auto

lemma quiet_end: "keeps quiet (modifyE (\<lambda>w. w\<lparr>aw_session := None, aw_epoch := aw_epoch w + 1\<rparr>))"
  by (simp add: keeps_def eff_elims quiet_def)

lemma quiet_display [intro!]: "keeps quiet (display env st e fin)"
  unfolding display_def by (auto intro!: quiet_end)


section \<open>The gas invariant\<close>

definition fee_sum :: "int \<Rightarrow> (int \<times> string \<times> int) list \<Rightarrow> int" where
  "fee_sum e fees = sum_list (map (\<lambda>(_, _, b). b) (filter (\<lambda>(e', _, _). e' = e) fees))"

definition fee_ids :: "int \<Rightarrow> (int \<times> string \<times> int) list \<Rightarrow> string set" where
  "fee_ids e fees = {i. \<exists>b. (e, i, b) \<in> set fees}"

definition gas_inv :: "'r aworld \<Rightarrow> bool" where
  "gas_inv w \<longleftrightarrow>
     (\<forall>f \<in> set (aw_fees w). fst f \<le> aw_epoch w) \<and> (\<forall>l \<in> set (aw_limits w). fst l \<le> aw_epoch w)
     \<and> (\<forall>l \<in> set (aw_limits w). fee_sum (fst l) (aw_fees w) \<le> snd l)
     \<and> distinct (map (\<lambda>(e, i, _). (e, i)) (aw_fees w)) \<and> distinct (map fst (aw_limits w))
     \<and> fst ` set (aw_fees w) \<subseteq> fst ` set (aw_limits w)
     \<and> (case aw_session w of None \<Rightarrow> True
        | Some s \<Rightarrow> (aw_epoch w, se_gasLimit s) \<in> set (aw_limits w)
            \<and> se_gasCommitted s = fee_sum (aw_epoch w) (aw_fees w)
            \<and> set (se_charged s) = fee_ids (aw_epoch w) (aw_fees w))"

definition keeps_gas :: "'r aworld \<Rightarrow> 'r aworld \<Rightarrow> bool" where
  "keeps_gas w w' \<longleftrightarrow> (gas_inv w \<longrightarrow> gas_inv w')"

lemma keeps_gas_preorder [simp]: "preorder_on_worlds keeps_gas"
  by (auto simp: preorder_on_worlds_def keeps_gas_def intro!: reflpI transpI)

lemma quiet_gas: "quiet w w' \<Longrightarrow> keeps_gas w w'"
  unfolding keeps_gas_def gas_inv_def quiet_def
  by (auto split: option.splits if_split_asm intro: order_trans)

lemma fee_sum_Cons: "fee_sum e ((e', i, b) # fees) = (if e' = e then b else 0) + fee_sum e fees"
  by (simp add: fee_sum_def)

lemma fee_ids_Cons: "fee_ids e ((e', i, b) # fees) = (if e' = e then {i} else {}) \<union> fee_ids e fees"
  by (auto simp: fee_ids_def)

lemma charge_gas:
  assumes inv: "gas_inv w" and s: "aw_session w = Some s" and new: "aq_requestId q \<notin> set (se_charged s)"
    and limit: "se_gasCommitted s + dec_value (aq_gasBudget q) \<le> se_gasLimit s"
  shows "gas_inv (charge q w)"
proof -
  let ?e = "aw_epoch w" and ?i = "aq_requestId q" and ?b = "dec_value (aq_gasBudget q)"
  have lim: "(?e, se_gasLimit s) \<in> set (aw_limits w)" "se_gasCommitted s = fee_sum ?e (aw_fees w)"
    "set (se_charged s) = fee_ids ?e (aw_fees w)" using inv s by (auto simp: gas_inv_def)
  have "snd l = se_gasLimit s" if "l \<in> set (aw_limits w)" "fst l = ?e" for l
  proof -
    have "distinct (map fst (aw_limits w))" using inv by (simp add: gas_inv_def)
    then show ?thesis using that lim(1) by (cases l) (auto dest: eq_key_imp_eq_value)
  qed
  then have sums: "fee_sum (fst l) ((?e, ?i, ?b) # aw_fees w) \<le> snd l" if "l \<in> set (aw_limits w)" for l
    using that inv limit lim(2) by (auto simp: fee_sum_Cons gas_inv_def)
  have "(?e, ?i) \<notin> set (map (\<lambda>(e, i, _). (e, i)) (aw_fees w))"
    using new lim(3) by (auto simp: fee_ids_def)
  moreover have "?e \<in> fst ` set (aw_limits w)" using lim(1) by force
  ultimately show ?thesis
    using inv s sums lim unfolding gas_inv_def
    by (auto simp: charge_def fee_sum_Cons fee_ids_Cons)
qed

lemma checkFee_ok:
  assumes "checkFee env q w = (Inr e, w')"
  shows "e = aw_epoch w' \<and> (\<exists>s. aw_session w' = Some s \<and> aq_requestId q \<notin> set (se_charged s)
    \<and> se_gasCommitted s + dec_value (aq_gasBudget q) \<le> se_gasLimit s) \<and> positive (aq_gasBudget q) \<and> aq_maxSuiSpend q = ''0''"
  using assms by (auto simp: checkFee_def quote_ok_def eff_oks elim!: bindE_okE split: option.split_asm)

lemma confirmFee_ok:
  assumes "confirmFee env q e w = (Inr (), w')"
  shows "aw_epoch w' = e"
  using assms by (auto simp: confirmFee_def eff_oks elim!: bindE_okE)

text \<open>A fee is authorized for the session that was checked: if it was stopped meanwhile the epoch differs.\<close>

lemma authorizeFee_cases:
  assumes "authorizeFee env q w = (r, w')"
  obtains (refused) "quiet w w'"
    | (charged) w1 s where "quiet w w1" "aw_session w1 = Some s" "aq_requestId q \<notin> set (se_charged s)"
        "se_gasCommitted s + dec_value (aq_gasBudget q) \<le> se_gasLimit s" "w' = charge q w1"
        "aq_maxSuiSpend q = ''0''" "positive (aq_gasBudget q)"
proof -
  obtain c w1 where check: "checkFee env q w = (c, w1)" by fastforce
  have q1: "quiet w w1" using keepsD [OF quiet_checkFee check] .
  show thesis
  proof (cases c)
    case (Inl e)
    then show thesis using assms check q1 refused by (simp add: authorizeFee_def bindE_def)
  next
    case (Inr e)
    obtain d w2 where confirm: "confirmFee env q e w1 = (d, w2)" by fastforce
    have q2: "quiet w1 w2" using keepsD [OF quiet_confirmFee confirm] .
    have q: "quiet w w2" using q1 q2 quiet_preorder unfolding preorder_on_worlds_def by (blast dest: transpD)
    show thesis
    proof (cases d)
      case (Inl x)
      then show thesis using assms check Inr confirm q refused by (simp add: authorizeFee_def bindE_def)
    next
      case u: (Inr u)
      then have "aw_epoch w2 = e" using confirm confirmFee_ok by fastforce
      then have "aw_session w2 = aw_session w1" using q2 checkFee_ok [of env q w e w1] check Inr by (simp add: quiet_def)
      then show thesis
        using assms check Inr confirm u q charged checkFee_ok [of env q w e w1]
        by (auto simp: authorizeFee_def bindE_def modifyE_def okE_def)
    qed
  qed
qed

lemma gas_authorizeFee [intro!]: "keeps keeps_gas (authorizeFee env q)"
proof (unfold keeps_def, intro allI impI)
  fix w r w'
  assume "authorizeFee env q w = (r, w')"
  then show "keeps_gas w w'"
  proof (cases rule: authorizeFee_cases)
    case refused
    then show ?thesis by (rule quiet_gas)
  next
    case (charged w1 s)
    then show ?thesis using quiet_gas [OF charged(1)] charge_gas unfolding keeps_gas_def by blast
  qed
qed

lemma gas_inv_cong:
  "aw_epoch w' = aw_epoch w \<Longrightarrow> aw_fees w' = aw_fees w \<Longrightarrow> aw_limits w' = aw_limits w \<Longrightarrow> aw_session w' = aw_session w
    \<Longrightarrow> gas_inv w' = gas_inv w"
  by (simp add: gas_inv_def split: option.split)

lemmas gas_quiets [intro!] = keeps_weaken [OF quiet_nowA quiet_gas] keeps_weaken [OF quiet_stop quiet_gas]
  keeps_weaken [OF quiet_awaitA quiet_gas] keeps_weaken [OF quiet_assertActive quiet_gas]
  keeps_weaken [OF quiet_assertSession quiet_gas] keeps_weaken [OF quiet_authorityA quiet_gas]
  keeps_weaken [OF quiet_assignmentA quiet_gas] keeps_weaken [OF quiet_review quiet_gas]
  keeps_weaken [OF quiet_current quiet_gas] keeps_weaken [OF quiet_runnerGuard quiet_gas]
  keeps_weaken [OF quiet_display quiet_gas]

lemma gas_modify:
  assumes "\<And>w. aw_epoch (f w) = aw_epoch w" "\<And>w. aw_fees (f w) = aw_fees w" "\<And>w. aw_limits (f w) = aw_limits w"
    "\<And>w. aw_session (f w) = aw_session w"
  shows "keeps keeps_gas (modifyE f)"
  using assms gas_inv_cong by (fastforce simp: keeps_def eff_elims keeps_gas_def)

lemma gas_feeCallbacks [intro!]: "keeps keeps_gas (feeCallbacks env qs)"
  by (induction qs) (auto simp: feeCallback_def intro!: gas_modify)

lemma gas_runnerStep [intro!]: "keeps keeps_gas (runnerStep env inp)"
  unfolding runnerStep_def by auto

lemma gas_controlReceipt [intro!]: "keeps keeps_gas (controlReceipt env okr policy)"
  unfolding controlReceipt_def by (auto intro!: gas_modify)

lemma gas_claimDelivery [intro!]: "keeps keeps_gas (claimDelivery env key)"
proof (unfold keeps_def, intro allI impI)
  fix w r w'
  assume run: "claimDelivery env key w = (r, w')"
  show "keeps_gas w w'"
  proof (cases key)
    case None
    then show ?thesis using run by (simp add: claimDelivery_def keeps_gas_def)
  next
    case (Some k)
    obtain x d where d: "delivery_claim k (aw_delivery w) = (x, d)" by fastforce
    obtain y w1 where a: "awaitA env (okE ()) (w\<lparr>aw_delivery := d\<rparr>) = (y, w1)" by fastforce
    have "keeps_gas (w\<lparr>aw_delivery := d\<rparr>) w1" using quiet_gas [OF keepsD [OF quiet_awaitA a]] .
    moreover have "w' = w1" using run Some d a by (simp add: claimDelivery_def)
    moreover have "gas_inv (w\<lparr>aw_delivery := d\<rparr>) = gas_inv w" by (rule gas_inv_cong) simp_all
    ultimately show ?thesis by (simp add: keeps_gas_def)
  qed
qed

lemma gas_claimRun [intro!]: "keeps keeps_gas (claimRun env okr e)"
  unfolding claimRun_def by auto

lemma gas_releaseRun [intro!]: "keeps keeps_gas (releaseRun env okr c e n)"
  unfolding releaseRun_def by (auto intro!: gas_modify)

lemma gas_prepareRun [intro!]: "keeps keeps_gas (prepareRun env okr receipt n)"
  unfolding prepareRun_def by (auto intro!: gas_modify)

lemma gas_advance [intro!]: "keeps keeps_gas (advance env n)"
  unfolding advance_def advanceActive_def by (auto split: option.split)

lemma gas_heartbeat: "heartbeat env w = (r, w') \<Longrightarrow> keeps_gas w w'"
proof -
  let ?body = "bindE (getE aw_epoch) (\<lambda>epoch. catchE (advance env epoch) (\<lambda>e. bindE (getE aw_observed) (\<lambda>observed.
         if (case observed of None \<Rightarrow> False | Some st \<Rightarrow> \<not> as_active st) then okE (the observed)
         else bindE (stop env (error_text e)) (\<lambda>shown. case shown of None \<Rightarrow> throwE e | Some st \<Rightarrow> okE st))))"
  assume "heartbeat env w = (r, w')"
  then obtain w1 where run: "?body w = (r, w1)" and w': "w' = w1\<lparr>aw_activeRequest := None\<rparr>"
    by (auto simp: heartbeat_def split: prod.split_asm)
  have k: "keeps keeps_gas ?body" by auto
  have "gas_inv (w1\<lparr>aw_activeRequest := None\<rparr>) = gas_inv w1" by (rule gas_inv_cong) simp_all
  then show ?thesis using keepsD [OF k run] by (simp add: w' keeps_gas_def)
qed

lemma open_session_gas:
  assumes "gas_inv w" "positive (in_gasLimit inp)"
  shows "gas_inv (open_session env view fresh inp now w)"
proof -
  have none: "fee_sum (aw_epoch w + 1) (aw_fees w) = 0" "fee_ids (aw_epoch w + 1) (aw_fees w) = {}"
  proof -
    have "filter (\<lambda>(e', _, _). e' = aw_epoch w + 1) (aw_fees w) = []"
      using assms(1) by (fastforce simp: gas_inv_def filter_empty_conv)
    then show "fee_sum (aw_epoch w + 1) (aw_fees w) = 0" by (simp add: fee_sum_def)
    show "fee_ids (aw_epoch w + 1) (aw_fees w) = {}" using assms(1) by (fastforce simp: gas_inv_def fee_ids_def)
  qed
  have new: "aw_epoch w + 1 \<notin> fst ` set (aw_limits w)" using assms(1) by (force simp: gas_inv_def)
  have old: "x \<le> aw_epoch w \<Longrightarrow> x \<le> aw_epoch w + 1" for x by simp
  have "0 \<le> dec_value (in_gasLimit inp)" by simp
  with none new assms(1) show ?thesis
    unfolding gas_inv_def open_session_def by (simp add: subset_insertI2 old)
qed

lemma gas_startA: "startA env view inp w = (r, w') \<Longrightarrow> keeps_gas w w'"
proof -
  assume run: "startA env view inp w = (r, w')"
  show ?thesis
  proof (cases "positive (in_gasLimit inp)")
    case True
    have "keeps keeps_gas (modifyE (open_session env view fresh inp now))" for fresh now
      unfolding keeps_def keeps_gas_def by (auto simp: modifyE_eq intro: open_session_gas True)
    note opened = this
    have "keeps keeps_gas (startA env view inp)" unfolding startA_def by (auto intro!: opened)
    then show ?thesis using run by (rule keepsD)
  next
    case False
    then have "w' = w" using run by (auto simp: startA_def eff_pure elim!: bindE_E split: if_split_asm)
    then show ?thesis by (simp add: keeps_gas_def)
  qed
qed

lemma auto_step_gas: "auto_step env w w' \<Longrightarrow> keeps_gas w w'"
proof (induction rule: auto_step.induct)
  case (outside w r)
  have "gas_inv (w\<lparr>aw_rpc := r\<rparr>) = gas_inv w" by (rule gas_inv_cong) simp_all
  then show ?case by (simp add: keeps_gas_def)
qed (auto dest: gas_startA gas_heartbeat keepsD [OF quiet_review, THEN quiet_gas] keepsD [OF quiet_stop, THEN quiet_gas])

lemma auto_reachable_gas: "auto_reachable env (new_autonomy r d) w \<Longrightarrow> gas_inv w"
proof (induction rule: auto_reachable.induct)
  case start
  show ?case by (simp add: gas_inv_def new_autonomy_def)
next
  case (step w w')
  then show ?case using auto_step_gas unfolding keeps_gas_def by blast
qed

section \<open>The delivery invariant\<close>

text \<open>Every released run was claimed in the delivery journal, and no claim was released twice.\<close>

definition delivery_inv :: "'r aworld \<Rightarrow> bool" where
  "delivery_inv w \<longleftrightarrow> distinct (aw_released w) \<and> set (aw_released w) \<subseteq> set (dj_keys (aw_delivery w))"

definition same_delivery :: "'r aworld \<Rightarrow> 'r aworld \<Rightarrow> bool" where
  "same_delivery w w' \<longleftrightarrow> aw_delivery w' = aw_delivery w \<and> aw_released w' = aw_released w"

definition keeps_delivery :: "'r aworld \<Rightarrow> 'r aworld \<Rightarrow> bool" where
  "keeps_delivery w w' \<longleftrightarrow> (delivery_inv w \<longrightarrow> delivery_inv w')"

lemma delivery_preorders [simp]: "preorder_on_worlds same_delivery" "preorder_on_worlds keeps_delivery"
  by (auto simp: preorder_on_worlds_def same_delivery_def keeps_delivery_def intro!: reflpI transpI)

lemma quiet_same_delivery: "quiet w w' \<Longrightarrow> same_delivery w w'"
  by (simp add: quiet_def same_delivery_def)

lemma same_delivery_keeps: "same_delivery w w' \<Longrightarrow> keeps_delivery w w'"
  by (simp add: same_delivery_def keeps_delivery_def delivery_inv_def)

lemmas same_delivery_quiets [intro!] = keeps_weaken [OF quiet_nowA quiet_same_delivery] keeps_weaken [OF quiet_stop quiet_same_delivery]
  keeps_weaken [OF quiet_awaitA quiet_same_delivery] keeps_weaken [OF quiet_assertActive quiet_same_delivery]
  keeps_weaken [OF quiet_assertSession quiet_same_delivery] keeps_weaken [OF quiet_review quiet_same_delivery]
  keeps_weaken [OF quiet_current quiet_same_delivery] keeps_weaken [OF quiet_runnerGuard quiet_same_delivery]
  keeps_weaken [OF quiet_display quiet_same_delivery]

lemma same_delivery_modify [intro!]:
  assumes "\<And>w. aw_delivery (f w) = aw_delivery w" "\<And>w. aw_released (f w) = aw_released w"
  shows "keeps same_delivery (modifyE f)"
  using assms by (simp add: keeps_def eff_elims same_delivery_def)

lemma same_delivery_authorizeFee [intro!]: "keeps same_delivery (authorizeFee env q)"
proof (unfold keeps_def, intro allI impI)
  fix w r w'
  assume "authorizeFee env q w = (r, w')"
  then show "same_delivery w w'"
    by (cases rule: authorizeFee_cases) (auto simp: same_delivery_def quiet_def charge_def)
qed

lemma same_delivery_feeCallbacks [intro!]: "keeps same_delivery (feeCallbacks env qs)"
  by (induction qs) (auto simp: feeCallback_def)

lemma same_delivery_runnerStep [intro!]: "keeps same_delivery (runnerStep env inp)"
  unfolding runnerStep_def by auto

lemma same_delivery_controlReceipt [intro!]: "keeps same_delivery (controlReceipt env okr policy)"
  unfolding controlReceipt_def by auto

lemma delivery_claim_keys:
  assumes "delivery_claim k d = (x, d')"
  shows "set (dj_keys d) \<subseteq> set (dj_keys d')" "x = Inr True \<Longrightarrow> k \<notin> set (dj_keys d) \<and> k \<in> set (dj_keys d')"
  using assms by (auto simp: delivery_claim_def split: if_split_asm list.split_asm bool.split_asm)

lemma claimDelivery_keys:
  assumes "claimDelivery env key w = (r, w')"
  shows "set (dj_keys (aw_delivery w)) \<subseteq> set (dj_keys (aw_delivery w'))" "aw_released w' = aw_released w"
    "r = Inr True \<Longrightarrow> \<exists>k. key = Some k \<and> k \<notin> set (dj_keys (aw_delivery w)) \<and> k \<in> set (dj_keys (aw_delivery w'))"
proof -
  have "set (dj_keys (aw_delivery w)) \<subseteq> set (dj_keys (aw_delivery w')) \<and> aw_released w' = aw_released w
    \<and> (r = Inr True \<longrightarrow> (\<exists>k. key = Some k \<and> k \<notin> set (dj_keys (aw_delivery w)) \<and> k \<in> set (dj_keys (aw_delivery w'))))"
  proof (cases key)
    case None
    then show ?thesis using assms by (auto simp: claimDelivery_def)
  next
    case (Some k)
    obtain x d where d: "delivery_claim k (aw_delivery w) = (x, d)" by fastforce
    obtain y w1 where a: "awaitA env (okE ()) (w\<lparr>aw_delivery := d\<rparr>) = (y, w1)" by fastforce
    have w1: "aw_delivery w1 = d" "aw_released w1 = aw_released w"
      using keepsD [OF quiet_awaitA a] by (auto simp: quiet_def)
    have "w' = w1" "r = Inr True \<longrightarrow> x = Inr True"
      using assms Some d a by (auto simp: claimDelivery_def split: sum.split_asm)
    then show ?thesis using w1 delivery_claim_keys [OF d] Some by auto
  qed
  then show "set (dj_keys (aw_delivery w)) \<subseteq> set (dj_keys (aw_delivery w'))" "aw_released w' = aw_released w"
    "r = Inr True \<Longrightarrow> \<exists>k. key = Some k \<and> k \<notin> set (dj_keys (aw_delivery w)) \<and> k \<in> set (dj_keys (aw_delivery w'))"
    by blast+
qed

lemma delivery_claimDelivery [intro!]: "keeps keeps_delivery (claimDelivery env key)"
  unfolding keeps_def keeps_delivery_def delivery_inv_def
  using claimDelivery_keys(1,2) by (metis (no_types, lifting) order_trans)

lemma claimRun_keys:
  assumes run: "claimRun env okr e w = (r, w')" and inv: "delivery_inv w"
  shows "delivery_inv w'" "r = Inr key \<Longrightarrow> the key \<in> set (dj_keys (aw_delivery w')) \<and> the key \<notin> set (aw_released w')"
proof -
  have quiet: "keeps keeps_delivery (current env)" "keeps keeps_delivery (assertSession env)"
    using keeps_weaken [OF quiet_current] keeps_weaken [OF quiet_assertSession] same_delivery_keeps quiet_same_delivery by blast+
  then have "keeps keeps_delivery (claimRun env okr e)" unfolding claimRun_def by auto
  from keepsD [OF this run] inv show "delivery_inv w'" by (simp add: keeps_delivery_def)
  have same: "current env v = (x, v') \<Longrightarrow> aw_delivery v' = aw_delivery v \<and> aw_released v' = aw_released v"
    "assertSession env v = (y, v') \<Longrightarrow> aw_delivery v' = aw_delivery v \<and> aw_released v' = aw_released v" for v v' x y
    by (auto simp: quiet_def dest!: keepsD [OF quiet_current] keepsD [OF quiet_assertSession])
  assume "r = Inr key"
  then obtain v v' c where claim: "claimDelivery env key v = (Inr True, v')"
    and v: "aw_delivery v = aw_delivery w" "aw_released v = aw_released w"
    and v': "aw_delivery w' = aw_delivery v'" "aw_released w' = aw_released v'"
    using run by (auto simp: claimRun_def Let_def eff_oks elim!: bindE_okE dest!: same)
  show "the key \<in> set (dj_keys (aw_delivery w')) \<and> the key \<notin> set (aw_released w')"
    using claimDelivery_keys(2,3) [OF claim] v v' inv by (auto simp: delivery_inv_def)
qed

lemma delivery_releaseRun [intro!]: "keeps keeps_delivery (releaseRun env okr c e n)"
proof (unfold keeps_def, intro allI impI)
  fix w r w'
  assume run: "releaseRun env okr c e n w = (r, w')"
  let ?tail = "\<lambda>_::unit. bindE (runnerStep env \<lparr>si_capabilityId = c, si_createIfMissing = False, si_prepareOnly = False,
              si_releaseQueued = True, si_expected = Some (e, ok_agreement_version okr, ok_next_kr okr)\<rparr>) (\<lambda>(sent, _).
     display env sent n (ends_session (ru_status sent)))"
  have tail: "keeps same_delivery (?tail u)" for u by auto
  obtain x w1 where claim: "claimRun env okr e w = (x, w1)" by fastforce
  show "keeps_delivery w w'"
  proof (cases x)
    case (Inl err)
    then have "w' = w1" using run claim by (auto simp: releaseRun_def bindE_def)
    then show ?thesis using claimRun_keys(1) [OF claim] by (simp add: keeps_delivery_def)
  next
    case (Inr key)
    then have "?tail () (w1\<lparr>aw_released := the key # aw_released w1\<rparr>) = (r, w')"
      using run claim by (simp add: releaseRun_def bindE_def modifyE_def)
    from keepsD [OF tail this] show ?thesis
      using claimRun_keys [OF claim] Inr by (auto simp: keeps_delivery_def same_delivery_def delivery_inv_def)
  qed
qed

lemma delivery_same [intro]: "keeps same_delivery m \<Longrightarrow> keeps keeps_delivery m"
  using keeps_weaken same_delivery_keeps by blast

lemmas delivery_sames [intro!] = delivery_same [OF same_delivery_runnerStep] delivery_same [OF same_delivery_controlReceipt]
  delivery_same [OF same_delivery_modify] delivery_same [OF keeps_weaken [OF quiet_current quiet_same_delivery]]
  delivery_same [OF keeps_weaken [OF quiet_display quiet_same_delivery]] delivery_same [OF keeps_weaken [OF quiet_awaitA quiet_same_delivery]]
  delivery_same [OF keeps_weaken [OF quiet_assertSession quiet_same_delivery]] delivery_same [OF keeps_weaken [OF quiet_stop quiet_same_delivery]]
  delivery_same [OF keeps_weaken [OF quiet_review quiet_same_delivery]] delivery_same [OF keeps_weaken [OF quiet_nowA quiet_same_delivery]]

lemma delivery_prepareRun [intro!]: "keeps keeps_delivery (prepareRun env okr receipt n)"
  unfolding prepareRun_def by auto

lemma delivery_advance [intro!]: "keeps keeps_delivery (advance env n)"
  unfolding advance_def advanceActive_def by (auto split: option.split)

lemma delivery_heartbeat: "heartbeat env w = (r, w') \<Longrightarrow> keeps_delivery w w'"
proof -
  let ?body = "bindE (getE aw_epoch) (\<lambda>epoch. catchE (advance env epoch) (\<lambda>e. bindE (getE aw_observed) (\<lambda>observed.
         if (case observed of None \<Rightarrow> False | Some st \<Rightarrow> \<not> as_active st) then okE (the observed)
         else bindE (stop env (error_text e)) (\<lambda>shown. case shown of None \<Rightarrow> throwE e | Some st \<Rightarrow> okE st))))"
  assume "heartbeat env w = (r, w')"
  then obtain w1 where run: "?body w = (r, w1)" and w': "w' = w1\<lparr>aw_activeRequest := None\<rparr>"
    by (auto simp: heartbeat_def split: prod.split_asm)
  have k: "keeps keeps_delivery ?body" by auto
  show ?thesis using keepsD [OF k run] by (simp add: w' keeps_delivery_def delivery_inv_def)
qed

lemma delivery_startA [intro!]: "keeps keeps_delivery (startA env view inp)"
  unfolding startA_def by (auto simp: open_session_def)

lemma auto_reachable_delivery: "auto_reachable env (new_autonomy r d) w \<Longrightarrow> delivery_inv w"
proof (induction rule: auto_reachable.induct)
  case start
  show ?case by (simp add: delivery_inv_def new_autonomy_def)
next
  case (step w w')
  from step.hyps(2) have "keeps_delivery w w'"
  proof cases
    case (outside r)
    then show ?thesis by (simp add: keeps_delivery_def delivery_inv_def)
  qed (auto dest: delivery_heartbeat keepsD [OF delivery_startA] keepsD [OF quiet_review] keepsD [OF quiet_stop]
      intro: same_delivery_keeps quiet_same_delivery)
  then show ?case using step.IH by (simp add: keeps_delivery_def)
qed

lemma positive_value: "positive v \<Longrightarrow> 0 < dec_value v"
proof -
  have grows: "a \<le> foldl (\<lambda>a c. a * 10 + digit_val c) a cs" for a cs
  proof (induction cs arbitrary: a)
    case (Cons c cs)
    have "a \<le> a * 10 + digit_val c" by simp
    also have "\<dots> \<le> foldl (\<lambda>a c. a * 10 + digit_val c) (a * 10 + digit_val c) cs" by (rule Cons.IH)
    finally show ?case by simp
  qed simp
  assume "positive v"
  then obtain c cs where v: "v = c # cs" "is_digit c" "c \<noteq> CHR ''0''" by (cases v) (auto simp: positive_def)
  have "0 < digit_val c"
  proof (rule ccontr)
    assume "\<not> 0 < digit_val c"
    then have "(of_char c :: nat) = 48" using v(2) by (auto simp: digit_val_def is_digit_def)
    then have "c = char_of (48 :: nat)" by (metis char_of_char)
    moreover have "char_of (48 :: nat) = CHR ''0''" by code_simp
    ultimately show False using v(3) by simp
  qed
  then show ?thesis using grows [of "digit_val c" cs] by (simp add: v dec_value_def)
qed

text \<open>Reviews with equal canonical text agree on what a session is fixed to.\<close>

lemma okr_canonical:
  assumes "canonical (okr_json a) = canonical (okr_json b)"
  shows "ok_expires_at_ms a = ok_expires_at_ms b" "ok_agreement_version a = ok_agreement_version b" "ok_id a = ok_id b"
proof -
  note member = canonical_member [OF assms [unfolded okr_json_def]]
  show "ok_expires_at_ms a = ok_expires_at_ms b" using member [of "''expires_at_ms''"] by simp
  show "ok_agreement_version a = ok_agreement_version b" using member [of "''agreement_version''"] by simp
  show "ok_id a = ok_id b" using member [of "''id''"] by simp
qed

lemma review_canonical:
  assumes "canonical (review_json a) = canonical (review_json b)"
  shows "rv_pin a = rv_pin b" "rv_authorityExpiresAtMs a = rv_authorityExpiresAtMs b"
    "ok_expires_at_ms (rv_okr a) = ok_expires_at_ms (rv_okr b)"
proof -
  note member = canonical_member [OF assms [unfolded review_json_def]]
  show "rv_pin a = rv_pin b" using member [of "''pin''"] by simp
  show "rv_authorityExpiresAtMs a = rv_authorityExpiresAtMs b" using member [of "''authorityExpiresAtMs''"] by simp
  have "canonical (okr_json (rv_okr a)) = canonical (okr_json (rv_okr b))" using member [of "''okr''"] by (simp add: canonical_eq)
  then show "ok_expires_at_ms (rv_okr a) = ok_expires_at_ms (rv_okr b)" by (rule okr_canonical)
qed

end
