(* ===== verification/Autonomy_Guarantees.thy ===== *)
theory Autonomy_Guarantees
  imports Okr_Autonomy
begin

text \<open>
  The guarantees of an autonomy session, after a concrete session on which their hypotheses hold:
  the gas limit, the single release of every prepared run, the exactness of an authorized fee and
  the conditions under which a session starts.
\<close>

section \<open>A concrete session\<close>

text \<open>
  An objective with one measured result: the runner is idle at first, the control request and the
  ticket each need a fee of 40, the ticket is queued under one execution and then delivered.
\<close>

definition sample_okrId :: string where
  "sample_okrId = ''0x'' @ replicate 64 (CHR ''a'')"

definition sample_runId :: string where
  "sample_runId = ''0x'' @ replicate 64 (CHR ''b'')"

definition sample_device :: string where
  "sample_device = ''0x'' @ replicate 64 (CHR ''d'')"

definition sample_okr :: okr_facts where
  "sample_okr = \<lparr>ok_id = sample_okrId, ok_org_id = ''org'', ok_owner_human = ''hum'', ok_state = 1, ok_version = 4,
     ok_spec_record = ''sp'', ok_spec_revision = 1, ok_agreement_record = Some ''ag'', ok_agreement_version = 2,
     ok_managed_agent = Some ''ma'', ok_managed_version = 1, ok_membership_id = Some ''me'', ok_membership_version = 1,
     ok_workspace_hash = [1], ok_boundary_hash = [2], ok_budget_asset = ''TOOL_CALLS'', ok_budget_limit = 9,
     ok_deadline_ms = 900, ok_expires_at_ms = 800, ok_next_kr = 0, ok_rest = JNull\<rparr>"

definition sample_fee :: "string \<Rightarrow> autonomy_quote" where
  "sample_fee i = \<lparr>aq_requestId = i, aq_sender = sample_device, aq_maxSuiSpend = ''0'', aq_gasBudget = ''40'', aq_expiresAtMs = 500\<rparr>"

definition sample_receipt :: "string \<Rightarrow> tx_outcome" where
  "sample_receipt i = \<lparr>oc_status = OConfirmed, oc_digest = ''D'', oc_requestId = i, oc_reason = None,
     oc_gasUsed = None, oc_actualGas = None, oc_journalSynced = True, oc_transaction = None\<rparr>"

definition sample_runner :: "runner_status \<Rightarrow> runner_state" where
  "sample_runner st = \<lparr>ru_status = st, ru_reason = None, ru_okrId = sample_okrId, ru_krIndex = Some 0,
     ru_executionId = Some sample_runId, ru_transactionDigest = Some ''D''\<rparr>"

definition sample_autonomy :: "unit autonomy_env" where
  "sample_autonomy = \<lparr>ae_grantId = ''g'', ae_organizationId = ''org'', ae_okrId = sample_okrId, ae_device = sample_device,
     ae_network = ''localnet'', ae_profile = JNull, ae_now = (\<lambda>r. (100, r)), ae_active = (\<lambda>_. True), ae_interrupt = (\<lambda>r. (None, r)),
     ae_verifyOrganization = okE \<lparr>au_actions = [''read'', ''operate'', ''approve''], au_encryptedKeys = True, au_contextPin = Some ''pin'',
       au_humanId = ''hum'', au_clockMs = 100, au_expiresAtMs = 700, au_chainIdentifier = ''C''\<rparr>,
     ae_describe = okE (sample_okr, JString ''pol'', JNull), ae_getBudget = okE JNull, ae_getOkr = okE sample_okr,
     ae_getPolicy = okE (JString ''pol''),
     ae_getMembership = (\<lambda>i. okE \<lparr>me_id = i, me_org_id = ''org'', me_version = 1, me_revoked = False, me_expires_at_ms = 600,
       me_host_address = ''h'', me_coordinator_binding = ''bi'', me_rest = JNull\<rparr>),
     ae_getManagedAgent = (\<lambda>i. okE \<lparr>mg_id = i, mg_org_id = ''org'', mg_version = 1, mg_revoked = False, mg_control_confirmed = True,
       mg_runtime = ''bounded-process-v1'', mg_membership_id = ''me'', mg_host_address = ''h'', mg_workspace_hash = [1], mg_rest = JNull\<rparr>),
     ae_getCoordinatorBinding = (\<lambda>i. okE \<lparr>bi_id = i, bi_org_id = ''org'', bi_revoked = False, bi_rest = JNull\<rparr>),
     ae_step_begin = (\<lambda>i. okE (if si_createIfMissing i then [sample_fee (ticket_name sample_okrId 2 0)] else [])),
     ae_step_end = (\<lambda>i answers alive. okE
       (if si_createIfMissing i then (sample_runner Queued, Some (sample_receipt (ticket_name sample_okrId 2 0)))
        else (sample_runner (if si_releaseQueued i then Running else Idle), None))),
     ae_control_prepare = (\<lambda>_ _. okE (Inl (sample_fee (control_name sample_okrId 2 0)))),
     ae_control_submit = (\<lambda>q. okE (sample_receipt (aq_requestId q))), ae_control_confirmed = (\<lambda>_. okE ''cap''),
     ae_onQuote = (\<lambda>_. okE ()), ae_onSubmission = (\<lambda>_. okE ())\<rparr>"

definition sample_autonomy_world :: "unit aworld" where
  "sample_autonomy_world = new_autonomy () \<lparr>dj_keys = [], dj_closed = False, dj_faults = []\<rparr>"

definition sample_start :: start_input where
  "sample_start = \<lparr>in_reviewed = True, in_gasLimit = ''100'', in_expiresAtMs = ''550''\<rparr>"

definition sample_assignment :: assignment where
  "sample_assignment =
    (\<lparr>me_id = ''me'', me_org_id = ''org'', me_version = 1, me_revoked = False, me_expires_at_ms = 600,
      me_host_address = ''h'', me_coordinator_binding = ''bi'', me_rest = JNull\<rparr>,
     \<lparr>mg_id = ''ma'', mg_org_id = ''org'', mg_version = 1, mg_revoked = False, mg_control_confirmed = True,
      mg_runtime = ''bounded-process-v1'', mg_membership_id = ''me'', mg_host_address = ''h'', mg_workspace_hash = [1], mg_rest = JNull\<rparr>,
     \<lparr>bi_id = ''bi'', bi_org_id = ''org'', bi_revoked = False, bi_rest = JNull\<rparr>)"

definition sample_authority :: authority where
  "sample_authority = \<lparr>au_actions = [''read'', ''operate'', ''approve''], au_encryptedKeys = True, au_contextPin = Some ''pin'',
       au_humanId = ''hum'', au_clockMs = 100, au_expiresAtMs = 700, au_chainIdentifier = ''C''\<rparr>"

definition sample_review :: autonomy_review where
  "sample_review = \<lparr>rv_handle = 0, rv_okr = sample_okr, rv_policy = JString ''pol'', rv_plan = JNull, rv_budget = JNull,
     rv_assignment = sample_assignment, rv_authorityExpiresAtMs = 700,
     rv_pin = pin sample_autonomy sample_authority sample_okr (JString ''pol'') sample_assignment\<rparr>"

definition sample_reviewed :: "unit aworld" where
  "sample_reviewed = sample_autonomy_world\<lparr>aw_reviews := [(0, canonical (review_json sample_review))]\<rparr>"

text \<open>In this environment every outside action succeeds at time 100 and nobody stops the session.\<close>

lemma sample_now [simp]: "nowA sample_autonomy w = (Inr 100, w)"
  by (simp add: nowA_def sample_autonomy_def)

lemma sample_await [simp]: "awaitA sample_autonomy (okE a) w = (Inr a, w)"
  by (simp add: awaitA_def okE_def sample_autonomy_def)

lemma sample_active [simp]: "assertActive sample_autonomy w = (Inr (), w)"
  by (simp add: assertActive_def eff_run sample_autonomy_def)

lemma sample_reads [simp]:
  "ae_verifyOrganization sample_autonomy = okE sample_authority" "ae_describe sample_autonomy = okE (sample_okr, JString ''pol'', JNull)"
  "ae_getBudget sample_autonomy = okE JNull" "ae_getOkr sample_autonomy = okE sample_okr" "ae_getPolicy sample_autonomy = okE (JString ''pol'')"
  "ae_getMembership sample_autonomy ''me'' = okE (fst sample_assignment)"
  "ae_getManagedAgent sample_autonomy ''ma'' = okE (fst (snd sample_assignment))"
  "ae_getCoordinatorBinding sample_autonomy ''bi'' = okE (snd (snd sample_assignment))"
  "ae_organizationId sample_autonomy = ''org''" "ae_okrId sample_autonomy = sample_okrId" "ae_device sample_autonomy = sample_device"
  "ae_network sample_autonomy = ''localnet''"
  by (simp_all add: sample_autonomy_def sample_authority_def sample_assignment_def)

lemma sample_okr_sel [simp]:
  "ok_membership_id sample_okr = Some ''me''" "ok_managed_agent sample_okr = Some ''ma''" "ok_state sample_okr = 1"
  "ok_owner_human sample_okr = ''hum''" "ok_org_id sample_okr = ''org''" "ok_expires_at_ms sample_okr = 800"
  "ok_agreement_version sample_okr = 2" "ok_next_kr sample_okr = 0"
  by (simp_all add: sample_okr_def)

lemma sample_authority_sel [simp]:
  "au_humanId sample_authority = ''hum''" "au_clockMs sample_authority = 100" "au_expiresAtMs sample_authority = 700"
  "au_chainIdentifier sample_authority = ''C''"
  by (simp_all add: sample_authority_def)

lemma sample_authorityA [simp]: "authorityA sample_autonomy w = (Inr sample_authority, w)"
  by (simp add: authorityA_def eff_run) (simp add: sample_authority_def)

lemma sample_assignmentA [simp]: "assignmentA sample_autonomy sample_okr 100 w = (Inr sample_assignment, w)"
  by (simp add: assignmentA_def eff_run assignment_ok_def) (simp add: sample_assignment_def eff_run sample_okr_def)

lemma sample_review_run: "review sample_autonomy w = (Inr (sample_review\<lparr>rv_handle := length (aw_reviews w)\<rparr>),
    w\<lparr>aw_reviews := aw_reviews w @ [(length (aw_reviews w), canonical (review_json sample_review))]\<rparr>)"
  by (simp add: review_def eff_run sample_review_def Let_def review_json_def)

definition sample_started :: "unit aworld" where
  "sample_started = open_session sample_autonomy sample_review sample_review sample_start 100
     (sample_reviewed\<lparr>aw_reviews := aw_reviews sample_reviewed @ [(1, canonical (review_json sample_review))]\<rparr>)"

lemma sample_numbers: "positive ''100''" "positive ''550''" "positive ''40''" "dec_value ''100'' = 100" "dec_value ''550'' = 550"
  "dec_value ''40'' = 40" "is_object_id sample_device" "is_object_id sample_runId"
  by code_simp+

lemma sample_start_run:
  "startA sample_autonomy sample_review sample_start sample_reviewed = (Inr (aw_observed sample_started), sample_started)"
  by (simp add: startA_def eff_run sample_review_run Let_def sample_start_def sample_numbers sample_started_def open_session_def
      sample_reviewed_def sample_review_def sample_autonomy_world_def new_autonomy_def review_json_def)

definition sample_session :: "string list \<Rightarrow> session" where
  "sample_session charged = \<lparr>se_pin = rv_pin sample_review, se_expiresAtMs = 550, se_gasLimit = 100,
     se_gasCommitted = 40 * int (length charged), se_charged = charged\<rparr>"

lemma sample_assertSession: "aw_session w = Some (sample_session cs) \<Longrightarrow> assertSession sample_autonomy w = (Inr (), w)"
  by (simp add: assertSession_def eff_run sample_session_def)

lemma sample_current:
  "aw_session w = Some (sample_session cs) \<Longrightarrow> current sample_autonomy w = (Inr (sample_okr, sample_authority, Some (JString ''pol'')), w)"
  by (simp add: current_def eff_run sample_assertSession) (simp add: sample_session_def sample_review_def)

lemma sample_names: "control_name sample_okrId 2 0 \<noteq> ticket_name sample_okrId 2 0"
  by (simp add: control_name_def ticket_name_def)

lemma sample_authorize:
  assumes "aw_session w = Some (sample_session cs)" "aw_activeRequest w = Some i" "length cs \<le> 1" "i \<notin> set cs"
    "i \<in> {control_name sample_okrId 2 0, ticket_name sample_okrId 2 0}"
  shows "authorizeFee sample_autonomy (sample_fee i) w = (Inr True, w\<lparr>aw_session := Some (sample_session (i # cs)),
    aw_fees := (aw_epoch w, i, 40) # aw_fees w\<rparr>)"
proof -
  have "ae_onQuote sample_autonomy q = okE ()" for q by (simp add: sample_autonomy_def)
  then show ?thesis
    using assms
    by (auto simp: authorizeFee_def checkFee_def confirmFee_def eff_run sample_assertSession sample_current quote_ok_def sample_fee_def
        sample_numbers charge_def) (simp_all add: sample_session_def)
qed

lemma sample_steps [simp]:
  "ae_step_begin sample_autonomy i = okE (if si_createIfMissing i then [sample_fee (ticket_name sample_okrId 2 0)] else [])"
  "ae_step_end sample_autonomy i answers alive = okE
     (if si_createIfMissing i then (sample_runner Queued, Some (sample_receipt (ticket_name sample_okrId 2 0)))
      else (sample_runner (if si_releaseQueued i then Running else Idle), None))"
  "ae_control_prepare sample_autonomy okr pol = okE (Inl (sample_fee (control_name sample_okrId 2 0)))"
  "ae_control_submit sample_autonomy q = okE (sample_receipt (aq_requestId q))"
  "ae_control_confirmed sample_autonomy oc = okE ''cap''" "ae_onSubmission sample_autonomy oc = okE ()"
  by (simp_all add: sample_autonomy_def)

lemma sample_guard: "aw_session w = Some (sample_session cs) \<Longrightarrow> runnerGuard sample_autonomy w = (Inr True, w)"
  by (simp add: runnerGuard_def eff_run sample_assertSession split: option.split)

lemma sample_step_quiet:
  assumes "aw_session w = Some (sample_session cs)" "\<not> si_createIfMissing i"
  shows "runnerStep sample_autonomy i w = (Inr (sample_runner (if si_releaseQueued i then Running else Idle), None), w)"
  using assms by (simp add: runnerStep_def eff_run sample_guard [OF assms(1)])

lemma sample_step_create:
  assumes "aw_session w = Some (sample_session [control_name sample_okrId 2 0])" "si_createIfMissing i"
    "aw_activeRequest w = Some (ticket_name sample_okrId 2 0)"
  shows "runnerStep sample_autonomy i w = (Inr (sample_runner Queued, Some (sample_receipt (ticket_name sample_okrId 2 0))),
    w\<lparr>aw_session := Some (sample_session [ticket_name sample_okrId 2 0, control_name sample_okrId 2 0]),
      aw_fees := (aw_epoch w, ticket_name sample_okrId 2 0, 40) # aw_fees w\<rparr>)"
  using assms sample_names
  by (simp add: runnerStep_def eff_run feeCallback_def sample_authorize sample_guard)

lemma sample_control:
  assumes "aw_session w = Some (sample_session [])"
  shows "controlReceipt sample_autonomy sample_okr pol w = (Inr (sample_receipt (control_name sample_okrId 2 0)),
    w\<lparr>aw_activeRequest := Some (control_name sample_okrId 2 0), aw_session := Some (sample_session [control_name sample_okrId 2 0]),
      aw_fees := (aw_epoch w, control_name sample_okrId 2 0, 40) # aw_fees w\<rparr>)"
  using assms by (simp add: controlReceipt_def eff_run sample_assertSession sample_authorize) (simp add: sample_fee_def)

definition sample_key :: string where
  "sample_key = the (okrDeliveryKey ''localnet'' ''C'' sample_device sample_runId)"

lemma sample_key_ok: "okrDeliveryKey ''localnet'' ''C'' sample_device sample_runId = Some sample_key"
  "sample_key \<noteq> []" "length sample_key \<le> 2048"
  by code_simp+

lemma sample_display:
  assumes "aw_session w = Some (sample_session cs)"
  shows "\<exists>st. display sample_autonomy ru (aw_epoch w) False w = (Inr st, w\<lparr>aw_observed := Some st\<rparr>)"
  using assms by (simp add: display_def eff_run sample_assertSession Let_def)

lemma sample_claim:
  assumes "aw_session w = Some (sample_session cs)" "aw_delivery w = \<lparr>dj_keys = [], dj_closed = False, dj_faults = []\<rparr>"
  shows "claimRun sample_autonomy sample_okr sample_runId w =
    (Inr (Some sample_key), w\<lparr>aw_delivery := \<lparr>dj_keys = [sample_key], dj_closed = False, dj_faults = []\<rparr>\<rparr>)"
  using assms sample_key_ok
  by (simp add: claimRun_def eff_run sample_current Let_def claimDelivery_def delivery_claim_def sample_assertSession)

lemma sample_release:
  assumes "aw_session w = Some (sample_session cs)" "aw_delivery w = \<lparr>dj_keys = [], dj_closed = False, dj_faults = []\<rparr>"
  shows "\<exists>st. releaseRun sample_autonomy sample_okr cap sample_runId (aw_epoch w) w =
    (Inr st, w\<lparr>aw_delivery := \<lparr>dj_keys = [sample_key], dj_closed = False, dj_faults = []\<rparr>,
       aw_released := sample_key # aw_released w, aw_observed := Some st\<rparr>)"
proof -
  let ?w = "w\<lparr>aw_delivery := \<lparr>dj_keys = [sample_key], dj_closed = False, dj_faults = []\<rparr>, aw_released := sample_key # aw_released w\<rparr>"
  have "aw_session ?w = Some (sample_session cs)" using assms(1) by simp
  from sample_display [OF this, of "sample_runner Running"] obtain st where
    "display sample_autonomy (sample_runner Running) (aw_epoch w) False ?w = (Inr st, ?w\<lparr>aw_observed := Some st\<rparr>)" by auto
  moreover have "ru_status (sample_runner Running) = Running" by (simp add: sample_runner_def)
  ultimately show ?thesis
    using assms by (simp add: releaseRun_def eff_run sample_claim sample_step_quiet ends_session_def)
qed

lemma sample_prepare:
  assumes "aw_session w = Some (sample_session [control_name sample_okrId 2 0])"
    "aw_delivery w = \<lparr>dj_keys = [], dj_closed = False, dj_faults = []\<rparr>" "aw_feeFailure w = None"
  shows "\<exists>st. prepareRun sample_autonomy sample_okr oc (aw_epoch w) w =
    (Inr st, w\<lparr>aw_activeRequest := Some (ticket_name sample_okrId 2 0),
       aw_session := Some (sample_session [ticket_name sample_okrId 2 0, control_name sample_okrId 2 0]),
       aw_fees := (aw_epoch w, ticket_name sample_okrId 2 0, 40) # aw_fees w,
       aw_delivery := \<lparr>dj_keys = [sample_key], dj_closed = False, dj_faults = []\<rparr>,
       aw_released := sample_key # aw_released w, aw_observed := Some st\<rparr>)"
proof -
  let ?w = "w\<lparr>aw_activeRequest := Some (ticket_name sample_okrId 2 0),
       aw_session := Some (sample_session [ticket_name sample_okrId 2 0, control_name sample_okrId 2 0]),
       aw_fees := (aw_epoch w, ticket_name sample_okrId 2 0, 40) # aw_fees w\<rparr>"
  have runner: "ru_status (sample_runner Queued) = Queued" "ru_executionId (sample_runner Queued) = Some sample_runId"
    by (simp_all add: sample_runner_def)
  have ok: "prepared_run_ok (Some (ticket_name sample_okrId 2 0)) (sample_runner Queued) (Some (sample_receipt (ticket_name sample_okrId 2 0)))"
    by (simp add: prepared_run_ok_def sample_runner_def sample_receipt_def sample_runId_def)
  from assms(2) obtain st where "releaseRun sample_autonomy sample_okr ''cap'' sample_runId (aw_epoch w) ?w =
    (Inr st, ?w\<lparr>aw_delivery := \<lparr>dj_keys = [sample_key], dj_closed = False, dj_faults = []\<rparr>,
       aw_released := sample_key # aw_released w, aw_observed := Some st\<rparr>)"
    using sample_release [of ?w "[ticket_name sample_okrId 2 0, control_name sample_okrId 2 0]" "''cap''"] by auto
  then show ?thesis
    using assms runner ok
    by (simp add: prepareRun_def eff_run Let_def sample_step_create sample_assertSession)
qed

lemma sample_advance:
  assumes "aw_session w = Some (sample_session [])"
    "aw_delivery w = \<lparr>dj_keys = [], dj_closed = False, dj_faults = []\<rparr>" "aw_feeFailure w = None"
  shows "\<exists>st. advanceActive sample_autonomy sample_okr (Some pol) (aw_epoch w) w =
    (Inr st, w\<lparr>aw_activeRequest := Some (ticket_name sample_okrId 2 0),
       aw_session := Some (sample_session [ticket_name sample_okrId 2 0, control_name sample_okrId 2 0]),
       aw_fees := (aw_epoch w, ticket_name sample_okrId 2 0, 40) # (aw_epoch w, control_name sample_okrId 2 0, 40) # aw_fees w,
       aw_delivery := \<lparr>dj_keys = [sample_key], dj_closed = False, dj_faults = []\<rparr>,
       aw_released := sample_key # aw_released w, aw_observed := Some st\<rparr>)"
proof -
  let ?w = "w\<lparr>aw_activeRequest := Some (control_name sample_okrId 2 0), aw_session := Some (sample_session [control_name sample_okrId 2 0]),
      aw_fees := (aw_epoch w, control_name sample_okrId 2 0, 40) # aw_fees w\<rparr>"
  have idle: "ru_status (sample_runner Idle) = Idle" "oc_status (sample_receipt i) = OConfirmed" for i
    by (simp_all add: sample_runner_def sample_receipt_def)
  from assms(2,3) obtain st where "prepareRun sample_autonomy sample_okr (sample_receipt (control_name sample_okrId 2 0)) (aw_epoch w) ?w =
    (Inr st, ?w\<lparr>aw_activeRequest := Some (ticket_name sample_okrId 2 0),
       aw_session := Some (sample_session [ticket_name sample_okrId 2 0, control_name sample_okrId 2 0]),
       aw_fees := (aw_epoch w, ticket_name sample_okrId 2 0, 40) # aw_fees ?w,
       aw_delivery := \<lparr>dj_keys = [sample_key], dj_closed = False, dj_faults = []\<rparr>,
       aw_released := sample_key # aw_released w, aw_observed := Some st\<rparr>)"
    using sample_prepare [of ?w "sample_receipt (control_name sample_okrId 2 0)"] by auto
  then show ?thesis
    using assms idle
    by (simp add: advanceActive_def eff_run sample_step_quiet sample_assertSession sample_control)
qed

definition sample_beat :: "unit aworld" where
  "sample_beat = snd (heartbeat sample_autonomy sample_started)"

lemma sample_started_sel:
  "aw_session sample_started = Some (sample_session [])" "aw_epoch sample_started = 1" "aw_fees sample_started = []"
  "aw_delivery sample_started = \<lparr>dj_keys = [], dj_closed = False, dj_faults = []\<rparr>" "aw_feeFailure sample_started = None"
  "aw_released sample_started = []" "aw_limits sample_started = [(1, 100)]"
  by (simp_all add: sample_started_def open_session_def sample_session_def sample_start_def sample_numbers sample_reviewed_def
      sample_autonomy_world_def new_autonomy_def)

lemma sample_beat_run:
  "aw_fees sample_beat = [(1, ticket_name sample_okrId 2 0, 40), (1, control_name sample_okrId 2 0, 40)]
   \<and> aw_released sample_beat = [sample_key] \<and> aw_limits sample_beat = [(1, 100)]"
proof -
  obtain st where "advanceActive sample_autonomy sample_okr (Some (JString ''pol'')) 1 sample_started =
    (Inr st, sample_started\<lparr>aw_activeRequest := Some (ticket_name sample_okrId 2 0),
       aw_session := Some (sample_session [ticket_name sample_okrId 2 0, control_name sample_okrId 2 0]),
       aw_fees := [(1, ticket_name sample_okrId 2 0, 40), (1, control_name sample_okrId 2 0, 40)],
       aw_delivery := \<lparr>dj_keys = [sample_key], dj_closed = False, dj_faults = []\<rparr>,
       aw_released := [sample_key], aw_observed := Some st\<rparr>)"
    using sample_advance [of sample_started "JString ''pol''"] by (auto simp: sample_started_sel)
  then show ?thesis
    by (simp add: sample_beat_def heartbeat_def advance_def eff_run sample_started_sel sample_current [of sample_started "[]"])
qed

lemma sample_beat_reachable:
  "auto_reachable sample_autonomy (new_autonomy () \<lparr>dj_keys = [], dj_closed = False, dj_faults = []\<rparr>) sample_beat"
proof -
  let ?w0 = "new_autonomy () \<lparr>dj_keys = [], dj_closed = False, dj_faults = []\<rparr>"
  have "review sample_autonomy ?w0 = (Inr sample_review, sample_reviewed)"
    by (simp add: sample_review_run sample_reviewed_def sample_autonomy_world_def new_autonomy_def sample_review_def)
  then have "auto_reachable sample_autonomy ?w0 sample_reviewed"
    by (blast intro: auto_reachable.intros auto_step.reviewed)
  then have "auto_reachable sample_autonomy ?w0 sample_started"
    by (blast intro: auto_reachable.step auto_step.started sample_start_run)
  moreover have "auto_step sample_autonomy sample_started sample_beat"
    unfolding sample_beat_def by (rule auto_step.beat [of _ _ "fst (heartbeat sample_autonomy sample_started)"]) simp
  ultimately show ?thesis by (rule auto_reachable.step)
qed

section \<open>Properties\<close>

text \<open>
  C11. A session never commits more gas than its limit: in every state reachable by reviews, starts,
  heartbeats and stops, with a stop possible at every await, the fees authorized in one session sum
  to at most the limit it was started with, no request is charged twice in a session, and every fee
  belongs to a session that was started.
\<close>

theorem session_gas_limit:
  assumes "auto_reachable env (new_autonomy r d) w"
  shows "list_all (\<lambda>(e, limit). fee_sum e (aw_fees w) \<le> limit) (aw_limits w)
    \<and> distinct (map (\<lambda>(e, i, _). (e, i)) (aw_fees w)) \<and> fst ` set (aw_fees w) \<subseteq> fst ` set (aw_limits w)"
  using auto_reachable_gas [OF assms] by (simp add: gas_inv_def list_all_iff case_prod_beta)

theorem session_gas_limit_witness:
  "aw_limits sample_beat = [(1, 100)] \<and> fee_sum 1 (aw_fees sample_beat) \<le> 100 \<and> length (aw_fees sample_beat) = 2"
  using session_gas_limit [OF sample_beat_reachable] sample_beat_run by simp

text \<open>
  C12. Each prepared run is released at most once: in every reachable state the released runs are
  pairwise different claims of the delivery journal, whatever sessions released them.
\<close>

theorem run_released_once:
  assumes "auto_reachable env (new_autonomy r d) w"
  shows "distinct (aw_released w) \<and> set (aw_released w) \<subseteq> set (dj_keys (aw_delivery w))"
  using auto_reachable_delivery [OF assms] by (simp add: delivery_inv_def)

theorem run_released_once_witness:
  "aw_released sample_beat = [sample_key] \<and> sample_key \<in> set (dj_keys (aw_delivery sample_beat))"
  using run_released_once [OF sample_beat_reachable] sample_beat_run by simp

text \<open>
  An authorized fee is the fee that was checked: if a fee is authorized, the session that was open
  when the request came is still open, nothing else of it changed, its committed gas grew by exactly
  the gas budget and is within the limit, the request was not charged before, and the quote spends no
  SUI beyond gas.
\<close>

theorem authorized_fee_exact:
  assumes "authorizeFee env q w = (Inr ok, w')"
  shows "\<exists>s. aw_session w = Some s \<and> aw_epoch w' = aw_epoch w \<and> aq_requestId q \<notin> set (se_charged s)
    \<and> aw_session w' = Some (s\<lparr>se_charged := aq_requestId q # se_charged s,
         se_gasCommitted := se_gasCommitted s + dec_value (aq_gasBudget q)\<rparr>)
    \<and> se_gasCommitted s + dec_value (aq_gasBudget q) \<le> se_gasLimit s
    \<and> aq_maxSuiSpend q = ''0'' \<and> 0 < dec_value (aq_gasBudget q)"
proof -
  from assms obtain e w1 w2 where check: "checkFee env q w = (Inr e, w1)"
    and confirm: "confirmFee env q e w1 = (Inr (), w2)" and w': "w' = charge q w2"
    by (auto simp: authorizeFee_def eff_oks elim!: bindE_okE)
  from checkFee_ok [OF check] obtain s where s: "aw_session w1 = Some s" and e: "e = aw_epoch w1"
    and ok: "aq_requestId q \<notin> set (se_charged s)" "se_gasCommitted s + dec_value (aq_gasBudget q) \<le> se_gasLimit s"
      "positive (aq_gasBudget q)" "aq_maxSuiSpend q = ''0''" by blast
  have "aw_session w = Some s" "aw_epoch w1 = aw_epoch w"
    using keepsD [OF quiet_checkFee check] s by (auto simp: quiet_def split: if_split_asm)
  moreover have "aw_epoch w2 = aw_epoch w1" using confirmFee_ok [OF confirm] e by simp
  moreover have "aw_session w2 = Some s"
    using keepsD [OF quiet_confirmFee confirm] s \<open>aw_epoch w2 = aw_epoch w1\<close> by (simp add: quiet_def)
  ultimately show ?thesis using ok positive_value [OF ok(3)] by (simp add: w' charge_def)
qed

theorem authorized_fee_exact_witness:
  "\<exists>s w'. authorizeFee sample_autonomy (sample_fee (control_name sample_okrId 2 0))
       (sample_started\<lparr>aw_activeRequest := Some (control_name sample_okrId 2 0)\<rparr>) = (Inr True, w')
     \<and> aw_session sample_started = Some s
     \<and> se_gasCommitted s + dec_value (aq_gasBudget (sample_fee (control_name sample_okrId 2 0))) \<le> se_gasLimit s"
proof -
  let ?w = "sample_started\<lparr>aw_activeRequest := Some (control_name sample_okrId 2 0)\<rparr>"
  obtain w' where run: "authorizeFee sample_autonomy (sample_fee (control_name sample_okrId 2 0)) ?w = (Inr True, w')"
    using sample_authorize [of ?w "[]" "control_name sample_okrId 2 0"] by (auto simp: sample_started_sel)
  from authorized_fee_exact [OF run] run show ?thesis by auto
qed

text \<open>
  A session is fixed to what was reviewed: it starts only when none is open, the review was
  confirmed and re-reading gave the same facts; it is pinned to the reviewed pin, nothing is
  committed yet, and it ends within the hour, with the authority and with the objective.
\<close>

theorem session_starts_as_reviewed:
  assumes "startA env view inp w = (Inr st, w')"
  shows "aw_session w = None \<and> in_reviewed inp
    \<and> aw_session w' = Some \<lparr>se_pin = rv_pin view, se_expiresAtMs = dec_value (in_expiresAtMs inp),
        se_gasLimit = dec_value (in_gasLimit inp), se_gasCommitted = 0, se_charged = []\<rparr>
    \<and> 0 < dec_value (in_gasLimit inp)
    \<and> dec_value (in_expiresAtMs inp) \<le> rv_authorityExpiresAtMs view
    \<and> dec_value (in_expiresAtMs inp) \<le> ok_expires_at_ms (rv_okr view)
    \<and> (\<exists>now now' r r' r''. ae_now env r = (now, r') \<and> ae_now env r' = (now', r'')
         \<and> now < dec_value (in_expiresAtMs inp) \<and> dec_value (in_expiresAtMs inp) \<le> now' + 3600000)"
proof -
  have nowE: "nowA env v = (Inr t, v') \<longleftrightarrow> ae_now env (aw_rpc v) = (t, aw_rpc v') \<and> v' = v\<lparr>aw_rpc := aw_rpc v'\<rparr>" for v v' t
    by (auto simp: nowA_def split: prod.splits)
  from assms obtain fresh w1 w2 w3 w4 n1 n2 n3 where
      pre: "aw_session w = None" "in_reviewed inp" "positive (in_gasLimit inp)"
    and same: "canonical (review_json view) = canonical (review_json fresh)"
    and t1: "nowA env w1 = (Inr n1, w2)" and t2: "nowA env w2 = (Inr n2, w3)"
    and bounds: "n1 < dec_value (in_expiresAtMs inp)" "dec_value (in_expiresAtMs inp) \<le> n2 + 3600000"
      "dec_value (in_expiresAtMs inp) \<le> rv_authorityExpiresAtMs fresh" "dec_value (in_expiresAtMs inp) \<le> ok_expires_at_ms (rv_okr fresh)"
    and w': "w' = open_session env view fresh inp n3 w4"
    by (auto simp: startA_def Let_def eff_oks elim!: bindE_okE)
  have fresh: "rv_pin fresh = rv_pin view" "rv_authorityExpiresAtMs fresh = rv_authorityExpiresAtMs view"
    "ok_expires_at_ms (rv_okr fresh) = ok_expires_at_ms (rv_okr view)"
    using review_canonical [OF same] by simp_all
  have "\<exists>now now' r r' r''. ae_now env r = (now, r') \<and> ae_now env r' = (now', r'')
         \<and> now < dec_value (in_expiresAtMs inp) \<and> dec_value (in_expiresAtMs inp) \<le> now' + 3600000"
    using t1 t2 bounds(1,2) unfolding nowE by metis
  then show ?thesis using pre bounds fresh positive_value by (simp add: w' open_session_def)
qed

theorem session_starts_as_reviewed_witness:
  "\<exists>w' st. startA sample_autonomy sample_review sample_start sample_reviewed = (Inr st, w')
     \<and> map_option se_gasLimit (aw_session w') = Some (dec_value ''100'')"
  using session_starts_as_reviewed [OF sample_start_run] sample_start_run by (auto simp: sample_start_def)

end
