(* ===== verification/Js_Text.thy ===== *)
theory Js_Text
  imports Prelude
begin

text \<open>
  The string operations of JavaScript that the app uses. A \<open>string\<close> is the UTF-8 text of a
  JavaScript string, so its length is \<^verbatim>\<open>new TextEncoder().encode(s).length\<close>.
\<close>

section \<open>White space\<close>

text \<open>The UTF-8 texts of the characters that \<^verbatim>\<open>trim\<close> removes.\<close>

definition js_spaces :: "string list" where
  "js_spaces = map (map char_of) ([[9], [10], [11], [12], [13], [32], [194, 160], [225, 154, 128]]
     @ map (\<lambda>n. [226, 128, n]) ([128 ..< 139] @ [168, 169, 175]) @ [[226, 129, 159], [227, 128, 128], [239, 187, 191]] :: nat list list)"

function strip :: "string list \<Rightarrow> string \<Rightarrow> string" where
  "strip ws s = (case List.find (\<lambda>w. w \<noteq> [] \<and> take (length w) s = w) ws of
     None \<Rightarrow> s | Some w \<Rightarrow> strip ws (drop (length w) s))"
  by pat_completeness auto
termination
proof (relation "measure (length \<circ> snd)")
  fix ws s w
  assume "List.find (\<lambda>w. w \<noteq> [] \<and> take (length w) s = w) ws = Some w"
  then have w: "w \<noteq> []" "take (length w) s = w" by (auto dest: find_SomeD)
  then have "s \<noteq> []" by (metis take_Nil)
  with w show "((ws, drop (length w) s), (ws, s)) \<in> measure (length \<circ> snd)" by simp
qed simp

declare strip.simps [simp del]

definition trimStart :: "string \<Rightarrow> string" where
  "trimStart = strip js_spaces"

definition trimEnd :: "string \<Rightarrow> string" where
  "trimEnd s = rev (strip (map rev js_spaces) (rev s))"

definition trim :: "string \<Rightarrow> string" where
  "trim s = trimEnd (trimStart s)"

text \<open>A text is stripped when no word is a prefix of it.\<close>

definition stripped :: "string list \<Rightarrow> string \<Rightarrow> bool" where
  "stripped ws s \<longleftrightarrow> (\<forall>w \<in> set ws. w = [] \<or> take (length w) s \<noteq> w)"

lemma strip_stripped: "stripped ws (strip ws s)"
proof (induction ws s rule: strip.induct)
  case (1 ws s)
  then show ?case
    by (subst strip.simps) (auto simp: stripped_def find_None_iff split: option.split)
qed

lemma strip_id: "stripped ws s \<Longrightarrow> strip ws s = s"
  by (subst strip.simps) (auto simp: stripped_def split: option.split dest: find_SomeD)

lemma strip_suffix: "\<exists>p. s = p @ strip ws s"
proof (induction ws s rule: strip.induct)
  case (1 ws s)
  show ?case
  proof (cases "List.find (\<lambda>w. w \<noteq> [] \<and> take (length w) s = w) ws")
    case None
    then show ?thesis by (subst strip.simps) simp
  next
    case (Some w)
    with 1 obtain p where "drop (length w) s = p @ strip ws (drop (length w) s)" by blast
    moreover have "strip ws s = strip ws (drop (length w) s)" using Some by (subst strip.simps) simp
    ultimately have "s = (take (length w) s @ p) @ strip ws s" by (metis append.assoc append_take_drop_id)
    then show ?thesis by blast
  qed
qed

lemma stripped_prefix: "stripped ws (a @ b) \<Longrightarrow> stripped ws a"
  unfolding stripped_def
proof (intro ballI)
  fix w
  assume all: "\<forall>w \<in> set ws. w = [] \<or> take (length w) (a @ b) \<noteq> w" and w: "w \<in> set ws"
  show "w = [] \<or> take (length w) a \<noteq> w"
  proof (cases "take (length w) a = w")
    case True
    then have "length w \<le> length a" by (metis length_take min.cobounded1)
    with True have "take (length w) (a @ b) = w" by simp
    with all w show ?thesis by blast
  qed simp
qed

lemma trimEnd_prefix: "\<exists>p. s = trimEnd s @ p"
proof -
  obtain p where "rev s = p @ strip (map rev js_spaces) (rev s)" using strip_suffix by blast
  then have "s = rev (strip (map rev js_spaces) (rev s)) @ rev p" by (metis rev_append rev_rev_ident)
  then show ?thesis by (auto simp: trimEnd_def)
qed

lemma trim_trim [simp]: "trim (trim s) = trim s"
proof -
  obtain p where "trimStart s = trim s @ p" using trimEnd_prefix by (auto simp: trim_def)
  moreover have "stripped js_spaces (trimStart s)" by (simp add: trimStart_def strip_stripped)
  ultimately have "stripped js_spaces (trim s)" by (metis stripped_prefix)
  then have "trimStart (trim s) = trim s" by (simp add: trimStart_def strip_id)
  moreover have "trimEnd (trim s) = trim s"
    by (simp add: trim_def trimEnd_def strip_id strip_stripped)
  ultimately show ?thesis by (simp add: trim_def)
qed

lemma trim_length: "length (trim s) \<le> length s"
proof -
  obtain p q where "s = p @ trimStart s" "trimStart s = trim s @ q"
    using strip_suffix trimEnd_prefix by (metis trimStart_def trim_def)
  then show ?thesis by (metis length_append le_add1 le_add2 le_trans)
qed

section \<open>Searching and replacing\<close>

definition startsWith :: "string \<Rightarrow> string \<Rightarrow> bool" where
  "startsWith s p \<longleftrightarrow> take (length p) s = p"

definition replaceChar :: "char \<Rightarrow> char \<Rightarrow> string \<Rightarrow> string" where
  "replaceChar a b s = map (\<lambda>c. if c = a then b else c) s"

fun split_at :: "char \<Rightarrow> string \<Rightarrow> string list" where
  "split_at d [] = [[]]"
| "split_at d (c # cs) =
    (if c = d then [] # split_at d cs
     else case split_at d cs of [] \<Rightarrow> [[c]] | x # xs \<Rightarrow> (c # x) # xs)"

definition padStart :: "nat \<Rightarrow> char \<Rightarrow> string \<Rightarrow> string" where
  "padStart n c s = replicate (n - length s) c @ s"

definition padEnd :: "nat \<Rightarrow> char \<Rightarrow> string \<Rightarrow> string" where
  "padEnd n c s = s @ replicate (n - length s) c"

lemma split_at_nonempty [simp]: "split_at d s \<noteq> []"
  by (induction s) (auto split: list.split)

lemma split_at_plain: "d \<notin> set s \<Longrightarrow> split_at d s = [s]"
  by (induction s) auto

lemma split_at_append: "d \<notin> set a \<Longrightarrow> split_at d (a @ d # b) = a # split_at d b"
  by (induction a) auto

lemma replaceChar_idem: "a \<noteq> b \<Longrightarrow> replaceChar a b (replaceChar a b s) = replaceChar a b s"
  by (simp add: replaceChar_def)

lemma length_replaceChar [simp]: "length (replaceChar a b s) = length s"
  by (simp add: replaceChar_def)

lemma replaceChar_id: "a \<notin> set s \<Longrightarrow> replaceChar a b s = s"
  by (induction s) (auto simp: replaceChar_def)

section \<open>Decimal texts\<close>

lemma digit_char_digit_val: "is_digit c \<Longrightarrow> digit_char (digit_val c) = c"
  by (simp add: is_digit_def digit_char_def digit_val_def)

lemma digit_val_less: "is_digit c \<Longrightarrow> digit_val c < 10"
  unfolding is_digit_def digit_val_def by linarith

lemma dec_value_Nil [simp]: "dec_value [] = 0"
  by (simp add: dec_value_def)

lemma dec_value_append: "dec_value (a @ b) = dec_value a * 10 ^ length b + dec_value b"
proof (induction b rule: rev_induct)
  case (snoc c b)
  have "dec_value (a @ b @ [c]) = dec_value (a @ b) * 10 + int (digit_val c)"
    using dec_value_snoc [of "a @ b"] by simp
  with snoc show ?case by (simp add: dec_value_snoc distrib_right)
qed simp

lemma dec_value_zeros [simp]: "dec_value (replicate n (CHR ''0'') @ s) = dec_value s"
  by (induction n) (simp_all add: dec_value_def digit_val_def)

lemma dec_digits_value:
  assumes "list_all is_digit s" "s \<noteq> []" "hd s \<noteq> CHR ''0''"
  shows "dec_digits (nat (dec_value s)) = s \<and> 0 < dec_value s"
  using assms
proof (induction s rule: rev_induct)
  case (snoc c s)
  have c: "is_digit c" "digit_val c < 10" using snoc.prems(1) by (simp_all add: digit_val_less)
  show ?case
  proof (cases "s = []")
    case True
    have "digit_val c \<noteq> 0"
    proof
      assume "digit_val c = 0"
      then have "c = digit_char 0" using digit_char_digit_val [OF c(1)] by simp
      moreover have "digit_char 0 = CHR ''0''" by code_simp
      ultimately show False using snoc.prems(3) True by simp
    qed
    then show ?thesis using True c by (subst dec_digits.simps) (simp add: dec_value_def digit_char_digit_val)
  next
    case False
    then have IH: "dec_digits (nat (dec_value s)) = s" "0 < dec_value s" using snoc by simp_all
    define v where "v = nat (dec_value s)"
    have n: "nat (dec_value (s @ [c])) = v * 10 + digit_val c" using IH(2) by (simp add: dec_value_snoc v_def nat_add_distrib nat_mult_distrib)
    have v: "0 < v" using IH(2) by (simp add: v_def)
    then have "dec_digits (v * 10 + digit_val c) = dec_digits v @ [digit_char (digit_val c)]"
      using c(2) by (subst dec_digits.simps) simp
    then show ?thesis using n IH c by (simp add: v_def digit_char_digit_val dec_value_snoc)
  qed
qed simp

lemma dec_string_decimal: "is_decimal s \<Longrightarrow> dec_string (dec_value s) = s"
proof -
  assume s: "is_decimal s"
  show ?thesis
  proof (cases "s = ''0''")
    case True
    then show ?thesis by (simp, code_simp)
  next
    case False
    with s have "dec_digits (nat (dec_value s)) = s \<and> 0 < dec_value s" by (intro dec_digits_value) (auto simp: is_decimal_def)
    then show ?thesis by (simp add: dec_string_def)
  qed
qed

end
