(* ===== verification/Navigation.thy ===== *)
theory Navigation
  imports Js_Text "HOL-Library.List_Lexorder" "HOL-Library.Char_ord"
begin

text \<open>
  What the app shows of an objective and of its hosts, as a function of chain facts:
  \<^verbatim>\<open>navigation\<close>, \<^verbatim>\<open>memberStatus\<close> and \<^verbatim>\<open>clockNow\<close> of \<^verbatim>\<open>apps/fractalmind-app/src/domain.ts\<close> with the
  progress arithmetic of \<^verbatim>\<open>sdk/src/okr.ts\<close>, and \<^verbatim>\<open>fleetRows\<close> and \<^verbatim>\<open>age\<close> of \<^verbatim>\<open>host-fleet.ts\<close>.

  A progress is \<^verbatim>\<open>Number(k) / 1000000\<close> for an integer \<open>k\<close> between 0 and 1000000; the model keeps \<open>k\<close>.
  The map from \<open>k\<close> to the float is injective and \<^verbatim>\<open>Math.round(p * 1000000)\<close> gives \<open>k\<close> back.
  A u64 text is an \<open>int\<close>.
\<close>

section \<open>Progress\<close>

datatype progress_error = Baseline_is_target | Invalid_progress_or_weight

record metric =
  m_baseline :: int
  m_target :: int
  m_weight :: int
  m_max_age_ms :: int
  m_current :: "int option"
  m_sampled_at_ms :: int
  m_run_id :: "string option"
  m_verified :: bool

definition metricProgress :: "metric \<Rightarrow> int \<Rightarrow> (progress_error, int option) result" where
  "metricProgress m now =
    (if m_baseline m = m_target m then Inl Baseline_is_target
     else case m_current m of
       None \<Rightarrow> Inr None
     | Some current \<Rightarrow>
         if now < m_sampled_at_ms m \<or> m_max_age_ms m < now - m_sampled_at_ms m then Inr None
         else let up = m_baseline m < m_target m;
                  numerator = (if up then current - m_baseline m else m_baseline m - current);
                  denominator = (if up then m_target m - m_baseline m else m_baseline m - m_target m) in
              Inr (Some (if numerator \<le> 0 then 0 else if denominator \<le> numerator then 1000000
                         else numerator * 1000000 div denominator)))"

fun weigh :: "(int \<times> int) list \<Rightarrow> int \<Rightarrow> int \<Rightarrow> (progress_error, int) result" where
  "weigh [] tot acc = Inr (acc div tot)"
| "weigh ((progress, weight) # ms) tot acc =
    (if weight \<le> 0 \<or> progress < 0 \<or> 1000000 < progress then Inl Invalid_progress_or_weight
     else weigh ms (tot + weight) (acc + progress * weight))"

definition weightedProgress :: "(int option \<times> int) list \<Rightarrow> (progress_error, int option) result" where
  "weightedProgress ms =
    (if ms = [] \<or> (\<exists>m \<in> set ms. fst m = None) then Inr None
     else bindR (weigh (map (\<lambda>(p, w). (the p, w)) ms) 0 0) (\<lambda>k. Inr (Some k)))"

section \<open>Chain facts\<close>

record membership_row =
  mr_id :: string
  mr_revoked :: bool
  mr_expires_at_ms :: int
  mr_version :: int
  mr_host_address :: string
  mr_coordinator_binding :: string
  mr_name :: "string option"

record agent_row =
  ar_id :: string
  ar_revoked :: bool
  ar_version :: int
  ar_membership_id :: string
  ar_host_address :: string

record binding_row =
  br_id :: string
  br_revoked :: bool

record run =
  run_id :: string
  run_state :: int
  run_updated_at_ms :: int
  run_expires_at_ms :: int
  run_stop_requested :: bool

record execution =
  ex_run :: run
  ex_settled :: bool
  ex_agreement_version :: int
  ex_kr_index :: int

record okr =
  okr_id :: string
  okr_state :: int
  okr_agreement_version :: int
  okr_metrics :: "metric list"
  okr_next_kr :: nat
  okr_managed_agent :: "string option"
  okr_managed_version :: int
  okr_membership_id :: "string option"
  okr_membership_version :: int
  okr_budget_limit :: int
  okr_expires_at_ms :: int
  okr_acceptance_record :: "string option"
  okr_accepted_by_human :: "string option"

record budget_row =
  bu_spent :: int
  bu_reserved :: int

text \<open>A section that could not be read has no value and a failure.\<close>

record 'a read_section =
  rs_value :: "'a option"
  rs_failure :: bool

record okr_snapshot =
  os_okr :: okr
  os_budget :: "budget_row read_section"
  os_executions :: "execution list read_section"

record host_record =
  hr_address :: string
  hr_current :: "membership_row read_section"
  hr_history :: "membership_row list"

record organization_snapshot =
  sn_active :: bool
  sn_clockMs :: int
  sn_loadedAtMs :: int
  sn_okrs :: "okr_snapshot list read_section"
  sn_memberships :: "membership_row list read_section"
  sn_agents :: "agent_row list read_section"
  sn_bindings :: "binding_row list read_section"
  sn_hosts :: "host_record list read_section"

definition clockNow :: "organization_snapshot \<Rightarrow> int \<Rightarrow> int" where
  "clockNow snapshot wallMs = sn_clockMs snapshot + max 0 (wallMs - sn_loadedAtMs snapshot)"

datatype member_status = Revoked | Expired_member | Valid

definition memberStatus :: "membership_row \<Rightarrow> int \<Rightarrow> member_status" where
  "memberStatus member now =
    (if mr_revoked member then Revoked else if mr_expires_at_ms member \<le> now then Expired_member else Valid)"

section \<open>Navigation\<close>

datatype condition = C_achieved | C_archived | C_draft | C_paused | C_unknown | C_expired | C_permission | C_budget
  | C_queued | C_running | C_stopped | C_failed | C_measurement | C_verification | C_acceptance | C_ready

datatype boundary = B_unknown | B_invalid | B_valid

record navigation_view =
  nv_condition :: condition
  nv_reason :: string
  nv_verifiedCheckpoints :: nat
  nv_currentKr :: nat
  nv_metricProgress :: "int option list"
  nv_progress :: "int option"
  nv_latest :: "execution option"
  nv_boundary :: boundary

definition nth_opt :: "'a list \<Rightarrow> nat \<Rightarrow> 'a option" where
  "nth_opt xs i = (if i < length xs then Some (xs ! i) else None)"

definition truthy :: "string option \<Rightarrow> bool" where
  "truthy s \<longleftrightarrow> s \<noteq> None \<and> s \<noteq> Some []"

definition authority_valid :: "okr \<Rightarrow> organization_snapshot \<Rightarrow> int \<Rightarrow> membership_row list \<Rightarrow> agent_row list \<Rightarrow> binding_row list \<Rightarrow> bool" where
  "authority_valid okr snapshot now members agents bindings \<longleftrightarrow>
     now < okr_expires_at_ms okr \<and>
     (case (List.find (\<lambda>m. Some (mr_id m) = okr_membership_id okr) members,
            List.find (\<lambda>a. Some (ar_id a) = okr_managed_agent okr) agents) of
        (Some member, Some agent) \<Rightarrow>
          (case List.find (\<lambda>b. br_id b = mr_coordinator_binding member) bindings of
             None \<Rightarrow> False
           | Some binding \<Rightarrow>
               memberStatus member now = Valid \<and> \<not> ar_revoked agent \<and> \<not> br_revoked binding \<and> sn_active snapshot
               \<and> mr_version member = okr_membership_version okr \<and> ar_version agent = okr_managed_version okr
               \<and> ar_membership_id agent = mr_id member \<and> ar_host_address agent = mr_host_address member)
      | _ \<Rightarrow> False)"

definition boundary_of :: "okr \<Rightarrow> organization_snapshot \<Rightarrow> int \<Rightarrow> boundary" where
  "boundary_of okr snapshot now =
    (case (rs_value (sn_memberships snapshot), rs_value (sn_agents snapshot), rs_value (sn_bindings snapshot)) of
       (Some members, Some agents, Some bindings) \<Rightarrow>
         if authority_valid okr snapshot now members agents bindings then B_valid else B_invalid
     | _ \<Rightarrow> if okr_expires_at_ms okr \<le> now then B_invalid else B_unknown)"

definition authority_readable :: "organization_snapshot \<Rightarrow> bool" where
  "authority_readable snapshot \<longleftrightarrow> rs_value (sn_memberships snapshot) \<noteq> None
     \<and> rs_value (sn_agents snapshot) \<noteq> None \<and> rs_value (sn_bindings snapshot) \<noteq> None"

text \<open>\<open>[...matching].sort\<close>: newest first, then by id.\<close>

definition run_before :: "execution \<Rightarrow> execution \<Rightarrow> bool" where
  "run_before a b \<longleftrightarrow> run_updated_at_ms (ex_run b) < run_updated_at_ms (ex_run a)
     \<or> (run_updated_at_ms (ex_run a) = run_updated_at_ms (ex_run b) \<and> run_id (ex_run a) \<le> run_id (ex_run b))"

fun insert_run :: "execution \<Rightarrow> execution list \<Rightarrow> execution list" where
  "insert_run x [] = [x]"
| "insert_run x (y # ys) = (if run_before x y then x # y # ys else y # insert_run x ys)"

definition sort_runs :: "execution list \<Rightarrow> execution list" where
  "sort_runs xs = foldr insert_run xs []"

definition outcome_unknown :: "execution \<Rightarrow> bool" where
  "outcome_unknown row \<longleftrightarrow> run_state (ex_run row) = 4 \<and> \<not> ex_settled row"

definition matching_runs :: "okr \<Rightarrow> execution list \<Rightarrow> execution list" where
  "matching_runs okr rows = filter (\<lambda>row. ex_agreement_version row = okr_agreement_version okr
     \<and> ex_kr_index row = int (okr_next_kr okr)) rows"

definition latest_run :: "execution list \<Rightarrow> execution option" where
  "latest_run matching =
    (case filter (\<lambda>row. \<not> ex_settled row) matching of
       u # _ \<Rightarrow> Some u
     | [] \<Rightarrow> (case sort_runs matching of [] \<Rightarrow> None | x # _ \<Rightarrow> Some x))"

text \<open>The part of \<^verbatim>\<open>navigation\<close> after the latest run is known.\<close>

definition run_condition :: "okr \<Rightarrow> int option list \<Rightarrow> nat \<Rightarrow> budget_row \<Rightarrow> execution option \<Rightarrow> int \<Rightarrow> condition \<times> string" where
  "run_condition okr vals verified budget latest now =
    (let st = map_option (\<lambda>e. run_state (ex_run e)) latest;
         current = okr_next_kr okr;
         value = nth_opt vals current;
         metric = nth_opt (okr_metrics okr) current in
     if st = Some 4 then (C_unknown, ''execution_outcome_unknown'')
     else if st = Some 1 then
       (C_running, if run_stop_requested (ex_run (the latest)) then ''stop_requested_not_confirmed'' else ''chain_running'')
     else if st = Some 0 then
       (if run_expires_at_ms (ex_run (the latest)) \<le> now then (C_expired, ''queued_command_expired'')
        else (C_queued, ''prepared_not_started''))
     else if st = Some 5 then (C_stopped, ''host_or_chain_cancelled'')
     else if st = Some 3 then (C_failed, ''execution_failed'')
     else if verified = length (okr_metrics okr) then (C_acceptance, ''separate_human_acceptance'')
     else if value = Some (Some 1000000) \<and> \<not> (case metric of None \<Rightarrow> False | Some m \<Rightarrow> m_verified m)
     then (C_verification, ''measurement_not_verification'')
     else if st = Some 2 \<and> (case metric of None \<Rightarrow> True
               | Some m \<Rightarrow> \<not> truthy (m_run_id m) \<or> m_run_id m \<noteq> Some (run_id (ex_run (the latest))))
     then (C_measurement, ''result_without_current_measurement'')
     else if st = Some 2 \<and> value = Some None then (C_unknown, ''measurement_stale'')
     else if okr_budget_limit okr \<le> bu_spent budget + bu_reserved budget then (C_budget, ''no_unreserved_budget'')
     else (C_ready, ''no_current_execution''))"

definition settled_view :: "navigation_view \<Rightarrow> condition \<times> string \<Rightarrow> navigation_view" where
  "settled_view base cr = base\<lparr>nv_condition := fst cr, nv_reason := snd cr\<rparr>"

text \<open>The part of \<^verbatim>\<open>navigation\<close> once the objective is neither finished nor held by an unknown outcome.\<close>

definition navigate_active :: "okr_snapshot \<Rightarrow> organization_snapshot \<Rightarrow> int \<Rightarrow> navigation_view \<Rightarrow> navigation_view" where
  "navigate_active focus snapshot now base =
    (let okr = os_okr focus in
     if okr_state okr = 0 then settled_view base (C_draft, ''not_approved'')
     else if okr_state okr = 2 then settled_view base (C_paused, ''chain_paused'')
     else if okr_expires_at_ms okr \<le> now then (settled_view base (C_expired, ''agreement_expired''))\<lparr>nv_boundary := B_invalid\<rparr>
     else if \<not> authority_readable snapshot then settled_view base (C_unknown, ''authority_not_readable'')
     else if nv_boundary base = B_invalid then settled_view base (C_permission, ''authority_invalid'')
     else case (rs_value (os_executions focus), rs_value (os_budget focus)) of
       (Some executions, Some budget) \<Rightarrow>
         (let valid = base\<lparr>nv_boundary := B_valid\<rparr>;
              matching = matching_runs okr executions in
          if 1 < length (filter (\<lambda>row. \<not> ex_settled row) matching)
          then settled_view valid (C_unknown, ''multiple_unsettled_runs'')
          else (let latest = latest_run matching in
                settled_view (valid\<lparr>nv_latest := latest\<rparr>)
                  (run_condition okr (nv_metricProgress base) (nv_verifiedCheckpoints base) budget latest now)))
     | _ \<Rightarrow> settled_view (base\<lparr>nv_boundary := B_valid\<rparr>) (C_unknown, ''run_or_budget_not_readable''))"

definition navigation_base :: "okr_snapshot \<Rightarrow> organization_snapshot \<Rightarrow> int \<Rightarrow> (progress_error, navigation_view) result" where
  "navigation_base focus snapshot now =
    (let okr = os_okr focus in
     bindR (mapR (\<lambda>m. metricProgress m now) (okr_metrics okr)) (\<lambda>vals.
     bindR (weightedProgress (zip vals (map m_weight (okr_metrics okr)))) (\<lambda>progress.
     Inr \<lparr>nv_condition = C_unknown, nv_reason = ''missing_facts'',
       nv_verifiedCheckpoints = length (takeWhile m_verified (okr_metrics okr)), nv_currentKr = okr_next_kr okr,
       nv_metricProgress = vals, nv_progress = progress, nv_latest = None,
       nv_boundary = boundary_of okr snapshot now\<rparr>)))"

definition navigation :: "okr_snapshot \<Rightarrow> organization_snapshot \<Rightarrow> int \<Rightarrow> bool \<Rightarrow> (progress_error, navigation_view) result" where
  "navigation focus snapshot now reachable =
     bindR (navigation_base focus snapshot now) (\<lambda>base.
     let okr = os_okr focus;
         unresolved = (case rs_value (os_executions focus) of None \<Rightarrow> [] | Some rows \<Rightarrow> filter outcome_unknown rows) in
     Inr (if \<not> reachable then settled_view base (C_unknown, ''rpc_unavailable'')
      else if okr_state okr = 3 \<and> truthy (okr_acceptance_record okr) \<and> truthy (okr_accepted_by_human okr)
      then settled_view base (C_achieved, ''human_accepted'')
      else if okr_state okr = 4 then settled_view base (C_archived, ''archived'')
      else if unresolved \<noteq> [] then (settled_view base (C_unknown, ''execution_outcome_unknown''))
        \<lparr>nv_latest := (if length unresolved = 1 then Some (hd unresolved) else None)\<rparr>
      else navigate_active focus snapshot now base))"

section \<open>Progress is exact\<close>

text \<open>The metric has a fresh sample that is at or beyond the target, seen from the baseline.\<close>

definition reached :: "int \<Rightarrow> metric \<Rightarrow> bool" where
  "reached now m \<longleftrightarrow>
    (case m_current m of None \<Rightarrow> False
     | Some c \<Rightarrow> m_sampled_at_ms m \<le> now \<and> now - m_sampled_at_ms m \<le> m_max_age_ms m
         \<and> (if m_baseline m < m_target m then m_target m \<le> c else c \<le> m_target m))"

lemma int_le_div_iff: "0 < (d :: int) \<Longrightarrow> k \<le> a div d \<longleftrightarrow> k * d \<le> a"
proof
  assume d: "0 < d" and "k \<le> a div d"
  then have "k * d \<le> a div d * d" by (simp add: mult_right_mono)
  also have "\<dots> \<le> a" using d by (metis pos_mod_sign div_mult_mod_eq le_add_same_cancel1)
  finally show "k * d \<le> a" .
next
  assume "0 < d" "k * d \<le> a"
  then show "k \<le> a div d" using zdiv_mono1 [of "k * d" a d] by simp
qed

lemma scaled_ratio:
  assumes "0 < n" "n < (d :: int)"
  shows "0 \<le> n * 1000000 div d" "n * 1000000 div d < 1000000"
proof -
  from assms have "\<not> 1000000 \<le> n * 1000000 div d" by (subst int_le_div_iff) linarith+
  then show "n * 1000000 div d < 1000000" by simp
  from assms show "0 \<le> n * 1000000 div d" by (simp add: pos_imp_zdiv_nonneg_iff)
qed

lemma metricProgress_Some:
  assumes "metricProgress m now = Inr (Some k)"
  shows "0 \<le> k \<and> k \<le> 1000000 \<and> (k = 1000000 \<longleftrightarrow> reached now m)"
proof -
  from assms obtain c where c: "m_current m = Some c" "m_baseline m \<noteq> m_target m"
    "m_sampled_at_ms m \<le> now" "now - m_sampled_at_ms m \<le> m_max_age_ms m"
    by (auto simp: metricProgress_def split: if_split_asm option.splits)
  define n d where "n = (if m_baseline m < m_target m then c - m_baseline m else m_baseline m - c)"
    and "d = (if m_baseline m < m_target m then m_target m - m_baseline m else m_baseline m - m_target m)"
  have "metricProgress m now = Inr (Some (if n \<le> 0 then 0 else if d \<le> n then 1000000 else n * 1000000 div d))"
    unfolding metricProgress_def n_def d_def using c by (simp only: option.case Let_def if_False if_True not_less not_le) auto
  with assms have k: "k = (if n \<le> 0 then 0 else if d \<le> n then 1000000 else n * 1000000 div d)" by simp
  have d: "0 < d" using c(2) by (auto simp: d_def)
  have "reached now m \<longleftrightarrow> d \<le> n" using c by (auto simp: reached_def n_def d_def)
  moreover have "0 \<le> k \<and> k \<le> 1000000 \<and> (k = 1000000 \<longleftrightarrow> d \<le> n)"
    using k d scaled_ratio [of n d] by (cases "n \<le> 0"; cases "d \<le> n") auto
  ultimately show ?thesis by simp
qed

lemma metricProgress_None: "metricProgress m now = Inr None \<Longrightarrow> \<not> reached now m"
  by (auto simp: metricProgress_def reached_def Let_def split: if_split_asm option.splits)

lemma weigh_bounds:
  assumes "weigh ms tot acc = Inr k" "0 \<le> tot" "0 < tot \<or> ms \<noteq> []" "0 \<le> acc" "acc \<le> 1000000 * tot"
  shows "0 \<le> k \<and> k \<le> 1000000 \<and> (k = 1000000 \<longleftrightarrow> acc = 1000000 * tot \<and> list_all (\<lambda>m. fst m = 1000000) ms)"
  using assms
proof (induction ms arbitrary: tot acc)
  case Nil
  then have k: "k = acc div tot" "0 < tot" by simp_all
  have "k = 1000000 \<longleftrightarrow> acc = 1000000 * tot"
  proof
    assume "k = 1000000"
    then have "1000000 * tot \<le> acc" using k int_le_div_iff [of tot 1000000 acc] by simp
    with Nil show "acc = 1000000 * tot" by simp
  qed (use k in simp)
  moreover have "k \<le> 1000000" using zdiv_mono1 [OF Nil(5) k(2)] k by simp
  ultimately show ?case using k Nil by (simp add: pos_imp_zdiv_nonneg_iff)
next
  case (Cons m ms)
  obtain p w where m: "m = (p, w)" by fastforce
  with Cons.prems have pw: "0 < w" "0 \<le> p" "p \<le> 1000000" and run: "weigh ms (tot + w) (acc + p * w) = Inr k"
    by (auto split: if_split_asm)
  have prod: "0 \<le> p * w" "p * w \<le> 1000000 * w" using pw by (simp_all add: mult_right_mono)
  have "0 \<le> k \<and> k \<le> 1000000 \<and> (k = 1000000 \<longleftrightarrow> acc + p * w = 1000000 * (tot + w) \<and> list_all (\<lambda>m. fst m = 1000000) ms)"
  proof (rule Cons.IH [OF run])
    show "acc + p * w \<le> 1000000 * (tot + w)" using Cons.prems(5) prod(2) by (simp add: distrib_left)
  qed (use Cons.prems(2,4) pw(1) prod(1) in simp_all)
  moreover have "acc + p * w = 1000000 * (tot + w) \<longleftrightarrow> acc = 1000000 * tot \<and> p = 1000000"
  proof
    assume "acc + p * w = 1000000 * (tot + w)"
    then have eq: "acc + p * w = 1000000 * tot + 1000000 * w" by (simp only: distrib_left)
    have "acc = 1000000 * tot" using eq Cons.prems(5) prod by linarith
    moreover have "p * w = 1000000 * w" using eq Cons.prems(5) prod by linarith
    ultimately have "acc = 1000000 * tot" "p * w = 1000000 * w" by blast+
    then show "acc = 1000000 * tot \<and> p = 1000000" using pw by simp
  qed (simp add: distrib_left)
  ultimately show ?case by (auto simp: m)
qed

lemma weightedProgress_Some:
  assumes "weightedProgress ms = Inr (Some p)"
  shows "0 \<le> p \<and> p \<le> 1000000 \<and> ms \<noteq> [] \<and> (p = 1000000 \<longleftrightarrow> list_all (\<lambda>m. fst m = Some 1000000) ms)"
proof -
  from assms have ms: "ms \<noteq> []" "list_all (\<lambda>m. fst m \<noteq> None) ms" and run: "weigh (map (\<lambda>(p, w). (the p, w)) ms) 0 0 = Inr p"
    by (auto simp: weightedProgress_def result_simps list_all_iff split: if_split_asm)
  have "list_all (\<lambda>m. fst m = 1000000) (map (\<lambda>(p, w). (the p, w)) ms) \<longleftrightarrow> list_all (\<lambda>m. fst m = Some 1000000) ms"
    using ms(2) by (fastforce simp: list_all_iff)
  with weigh_bounds [OF run] ms(1) show ?thesis by simp
qed

lemma list_all2_all: "list_all2 R xs ys \<Longrightarrow> (\<And>x y. R x y \<Longrightarrow> P y \<longleftrightarrow> Q x) \<Longrightarrow> list_all P ys \<longleftrightarrow> list_all Q xs"
  by (induction rule: list_all2_induct) auto

lemma list_all_zip_fst: "length xs = length ys \<Longrightarrow> list_all (\<lambda>m. P (fst m)) (zip xs ys) \<longleftrightarrow> list_all P xs"
  by (induction rule: list_induct2) auto

lemma metricProgress_reached: "metricProgress m now = Inr v \<Longrightarrow> v = Some 1000000 \<longleftrightarrow> reached now m"
  using metricProgress_Some metricProgress_None by (cases v) auto

lemma navigation_base_progress:
  assumes "navigation_base focus snapshot now = Inr v" "nv_progress v = Some p"
  shows "0 \<le> p \<and> p \<le> 1000000 \<and> okr_metrics (os_okr focus) \<noteq> []
    \<and> (p = 1000000 \<longleftrightarrow> list_all (reached now) (okr_metrics (os_okr focus)))"
proof -
  let ?ms = "okr_metrics (os_okr focus)"
  from assms obtain vals where vals: "mapR (\<lambda>m. metricProgress m now) ?ms = Inr vals"
    and weighted: "weightedProgress (zip vals (map m_weight ?ms)) = Inr (Some p)"
    by (auto simp: navigation_base_def Let_def result_simps)
  from vals have all2: "list_all2 (\<lambda>m v. metricProgress m now = Inr v) ?ms vals" by (simp add: mapR_Inr_iff)
  then have len: "length vals = length ?ms" by (simp add: list_all2_lengthD)
  then have "list_all (\<lambda>m. fst m = Some 1000000) (zip vals (map m_weight ?ms)) \<longleftrightarrow> list_all (\<lambda>v. v = Some 1000000) vals"
    using list_all_zip_fst [of vals "map m_weight ?ms" "\<lambda>v. v = Some 1000000"] by simp
  also have "\<dots> \<longleftrightarrow> list_all (reached now) ?ms" by (rule list_all2_all [OF all2]) (rule metricProgress_reached)
  finally show ?thesis using weightedProgress_Some [OF weighted] len by auto
qed

lemma navigation_progress_base:
  assumes "navigation focus snapshot now reachable = Inr v"
  obtains base where "navigation_base focus snapshot now = Inr base" "nv_progress v = nv_progress base"
proof -
  from assms obtain base where base: "navigation_base focus snapshot now = Inr base"
    by (auto simp: navigation_def result_simps)
  have "nv_progress (navigate_active focus snapshot now base) = nv_progress base"
    by (simp add: navigate_active_def settled_view_def Let_def split: option.split)
  with assms base have "nv_progress v = nv_progress base"
    by (auto simp: navigation_def settled_view_def Let_def)
  with base that show thesis by blast
qed

section \<open>What a shown condition rests on\<close>

lemma set_insert_run: "set (insert_run x xs) = insert x (set xs)"
  by (induction xs) auto

lemma set_sort_runs: "set (sort_runs xs) = set xs"
  by (induction xs) (simp_all add: sort_runs_def set_insert_run)

definition newest_first :: "execution list \<Rightarrow> bool" where
  "newest_first = sorted_wrt (\<lambda>a b. run_updated_at_ms (ex_run b) \<le> run_updated_at_ms (ex_run a))"

lemma insert_run_newest: "newest_first xs \<Longrightarrow> newest_first (insert_run x xs)"
proof (induction xs)
  case (Cons y ys)
  then show ?case by (cases "run_before x y") (auto simp: newest_first_def set_insert_run run_before_def)
qed (simp add: newest_first_def)

lemma sort_runs_newest: "newest_first (sort_runs xs)"
  by (induction xs) (simp_all add: sort_runs_def insert_run_newest, simp add: newest_first_def)

lemma latest_run_newest:
  assumes "latest_run rows = Some e" "row \<in> set rows"
  shows "e \<in> set rows \<and> (\<not> ex_settled e \<or> run_updated_at_ms (ex_run row) \<le> run_updated_at_ms (ex_run e))"
proof (cases "filter (\<lambda>row. \<not> ex_settled row) rows")
  case Nil
  with assms(1) obtain rest where "sort_runs rows = e # rest"
    by (auto simp: latest_run_def split: list.splits)
  then show ?thesis using assms(2) sort_runs_newest [of rows] set_sort_runs [of rows] by (auto simp: newest_first_def)
next
  case (Cons u us)
  then have "u \<in> set (filter (\<lambda>row. \<not> ex_settled row) rows)" by simp
  moreover have "e = u" using assms(1) Cons by (simp add: latest_run_def)
  ultimately show ?thesis by simp
qed

lemma latest_run_shown:
  "list_all (\<lambda>row. case latest_run rows of None \<Rightarrow> False
     | Some e \<Rightarrow> \<not> ex_settled e \<or> run_updated_at_ms (ex_run row) \<le> run_updated_at_ms (ex_run e)) rows"
proof (cases "latest_run rows")
  case None
  then have "sort_runs rows = []" by (auto simp: latest_run_def split: list.splits)
  then show ?thesis using set_sort_runs [of rows] by simp
next
  case (Some e)
  then show ?thesis using latest_run_newest [OF Some] by (auto simp: list_all_iff)
qed

definition actionable :: "condition set" where
  "actionable = {C_ready, C_queued, C_running, C_stopped, C_failed, C_measurement, C_verification, C_acceptance, C_budget}"

lemma navigate_active_actionable:
  assumes "nv_condition (navigate_active focus snapshot now base) \<in> actionable"
  shows "okr_state (os_okr focus) \<notin> {0, 2} \<and> now < okr_expires_at_ms (os_okr focus) \<and> authority_readable snapshot
    \<and> nv_boundary base \<noteq> B_invalid
    \<and> (\<exists>rows budget. rs_value (os_executions focus) = Some rows \<and> rs_value (os_budget focus) = Some budget
        \<and> length (filter (\<lambda>row. \<not> ex_settled row) (matching_runs (os_okr focus) rows)) \<le> 1
        \<and> nv_latest (navigate_active focus snapshot now base) = latest_run (matching_runs (os_okr focus) rows)
        \<and> nv_boundary (navigate_active focus snapshot now base) = B_valid
        \<and> nv_condition (navigate_active focus snapshot now base) =
            fst (run_condition (os_okr focus) (nv_metricProgress base) (nv_verifiedCheckpoints base) budget
              (latest_run (matching_runs (os_okr focus) rows)) now))"
  using assms
  by (auto simp: navigate_active_def settled_view_def actionable_def Let_def not_less not_le split: if_split_asm option.splits)

lemma navigation_actionable_active:
  assumes "navigation focus snapshot now reachable = Inr v" "nv_condition v \<in> actionable"
  obtains base where "navigation_base focus snapshot now = Inr base" "v = navigate_active focus snapshot now base" "reachable"
    "\<And>rows. rs_value (os_executions focus) = Some rows \<Longrightarrow> list_all (\<lambda>row. \<not> outcome_unknown row) rows"
proof -
  from assms(1) obtain base where base: "navigation_base focus snapshot now = Inr base"
    by (auto simp: navigation_def result_simps)
  with assms have "v = navigate_active focus snapshot now base" "reachable"
    "\<And>rows. rs_value (os_executions focus) = Some rows \<Longrightarrow> filter outcome_unknown rows = []"
    by (auto simp: navigation_def settled_view_def actionable_def Let_def split: if_split_asm option.splits)
  with base that show thesis by (simp add: filter_empty_conv list_all_iff)
qed

lemma run_condition_ready:
  assumes "fst (run_condition okr vals verified budget latest now) = C_ready"
  shows "bu_spent budget + bu_reserved budget < okr_budget_limit okr \<and> verified \<noteq> length (okr_metrics okr)
    \<and> (case latest of None \<Rightarrow> True | Some e \<Rightarrow> run_state (ex_run e) \<notin> {0, 1, 3, 4, 5})"
  using assms by (auto simp: run_condition_def Let_def split: if_split_asm option.split)

lemma run_condition_acceptance:
  "fst (run_condition okr vals verified budget latest now) = C_acceptance \<Longrightarrow> verified = length (okr_metrics okr)"
  by (auto simp: run_condition_def Let_def split: if_split_asm)

lemma takeWhile_all: "length (takeWhile P xs) = length xs \<Longrightarrow> list_all P xs"
  by (induction xs) (auto split: if_split_asm)

section \<open>Properties\<close>

text \<open>
  Shown progress is exact at its ends: the progress of an objective lies between 0 and 1, exists
  only for an objective with key results, and is 1 exactly when every key result has a sample that is
  fresh at that time and at or beyond its target, in the direction from baseline to target. Rounding
  never shows an unfinished objective as complete.
\<close>

theorem navigation_progress_exact:
  assumes "navigation focus snapshot now reachable = Inr v" "nv_progress v = Some p"
  shows "0 \<le> p \<and> p \<le> 1000000 \<and> okr_metrics (os_okr focus) \<noteq> []
    \<and> (p = 1000000 \<longleftrightarrow> list_all (reached now) (okr_metrics (os_okr focus)))"
  using navigation_progress_base [OF assms(1)] navigation_base_progress assms(2) by metis

definition sample_metric :: "int \<Rightarrow> bool \<Rightarrow> metric" where
  "sample_metric c ok = \<lparr>m_baseline = 10, m_target = 3, m_weight = 2, m_max_age_ms = 50, m_current = Some c, m_sampled_at_ms = 80,
     m_run_id = Some ''r'', m_verified = ok\<rparr>"

definition sample_objective :: "metric list \<Rightarrow> okr" where
  "sample_objective ms = \<lparr>okr_id = ''o'', okr_state = 1, okr_agreement_version = 4, okr_metrics = ms, okr_next_kr = 0,
     okr_managed_agent = Some ''a'', okr_managed_version = 1, okr_membership_id = Some ''m'', okr_membership_version = 2,
     okr_budget_limit = 9, okr_expires_at_ms = 500, okr_acceptance_record = None, okr_accepted_by_human = None\<rparr>"

definition sample_snapshot :: organization_snapshot where
  "sample_snapshot = \<lparr>sn_active = True, sn_clockMs = 90, sn_loadedAtMs = 0, sn_okrs = \<lparr>rs_value = None, rs_failure = True\<rparr>,
     sn_memberships = \<lparr>rs_value = Some [\<lparr>mr_id = ''m'', mr_revoked = False, mr_expires_at_ms = 400, mr_version = 2,
       mr_host_address = ''h'', mr_coordinator_binding = ''b'', mr_name = None\<rparr>], rs_failure = False\<rparr>,
     sn_agents = \<lparr>rs_value = Some [\<lparr>ar_id = ''a'', ar_revoked = False, ar_version = 1, ar_membership_id = ''m'',
       ar_host_address = ''h''\<rparr>], rs_failure = False\<rparr>,
     sn_bindings = \<lparr>rs_value = Some [\<lparr>br_id = ''b'', br_revoked = False\<rparr>], rs_failure = False\<rparr>,
     sn_hosts = \<lparr>rs_value = None, rs_failure = True\<rparr>\<rparr>"

definition sample_focus :: "metric list \<Rightarrow> execution list \<Rightarrow> okr_snapshot" where
  "sample_focus ms rows = \<lparr>os_okr = sample_objective ms, os_budget = \<lparr>rs_value = Some \<lparr>bu_spent = 1, bu_reserved = 2\<rparr>, rs_failure = False\<rparr>,
     os_executions = \<lparr>rs_value = Some rows, rs_failure = False\<rparr>\<rparr>"

definition sample_execution :: "int \<Rightarrow> bool \<Rightarrow> int \<Rightarrow> execution" where
  "sample_execution st settled updated = \<lparr>ex_run = \<lparr>run_id = ''r'', run_state = st, run_updated_at_ms = updated,
     run_expires_at_ms = 300, run_stop_requested = False\<rparr>, ex_settled = settled, ex_agreement_version = 4, ex_kr_index = 0\<rparr>"

theorem navigation_progress_exact_witness:
  "\<exists>v w. navigation (sample_focus [sample_metric 3 True, sample_metric 1 True] []) sample_snapshot 100 True = Inr v
     \<and> nv_progress v = Some 1000000 \<and> list_all (reached 100) [sample_metric 3 True, sample_metric 1 True]
     \<and> navigation (sample_focus [sample_metric 3 True, sample_metric 4 True] []) sample_snapshot 100 True = Inr w
     \<and> nv_progress w = Some 928571 \<and> \<not> list_all (reached 100) [sample_metric 3 True, sample_metric 4 True]"
proof -
  let ?f = "sample_focus [sample_metric 3 True, sample_metric 1 True] []"
  let ?g = "sample_focus [sample_metric 3 True, sample_metric 4 True] []"
  have "case navigation ?f sample_snapshot 100 True of Inl _ \<Rightarrow> False | Inr v \<Rightarrow> nv_progress v = Some 1000000" by code_simp
  then obtain v where v: "navigation ?f sample_snapshot 100 True = Inr v" "nv_progress v = Some 1000000"
    by (auto split: sum.splits)
  have "case navigation ?g sample_snapshot 100 True of Inl _ \<Rightarrow> False | Inr v \<Rightarrow> nv_progress v = Some 928571" by code_simp
  then obtain w where w: "navigation ?g sample_snapshot 100 True = Inr w" "nv_progress w = Some 928571"
    by (auto split: sum.splits)
  show ?thesis
    using v w navigation_progress_exact [OF v] navigation_progress_exact [OF w] by (auto simp: sample_focus_def sample_objective_def)
qed

text \<open>
  What the app shows as workable rests on current facts: a condition that names a step of work
  (from ready and queued to verification and acceptance) is shown only when the chain is reachable, the
  agreement has not expired, the membership, agent and binding of the agreement were read and are valid
  in the agreed versions, no execution has an unknown outcome, and at most one run of the current key
  result is unsettled. The run shown is then the unsettled one or the newest; ready means that budget is
  left and no run is in progress, acceptance that every key result is verified.
\<close>

theorem navigation_rests_on_facts:
  assumes "navigation focus snapshot now reachable = Inr v" "nv_condition v \<in> actionable"
  shows "reachable \<and> nv_boundary v = B_valid \<and> boundary_of (os_okr focus) snapshot now = B_valid
    \<and> now < okr_expires_at_ms (os_okr focus)
    \<and> (\<exists>rows budget. rs_value (os_executions focus) = Some rows \<and> rs_value (os_budget focus) = Some budget
        \<and> list_all (\<lambda>row. \<not> outcome_unknown row) rows
        \<and> length (filter (\<lambda>row. \<not> ex_settled row) (matching_runs (os_okr focus) rows)) \<le> 1
        \<and> nv_latest v = latest_run (matching_runs (os_okr focus) rows)
        \<and> list_all (\<lambda>row. case nv_latest v of None \<Rightarrow> False
             | Some e \<Rightarrow> \<not> ex_settled e \<or> run_updated_at_ms (ex_run row) \<le> run_updated_at_ms (ex_run e))
             (matching_runs (os_okr focus) rows)
        \<and> (nv_condition v = C_ready \<longrightarrow> bu_spent budget + bu_reserved budget < okr_budget_limit (os_okr focus)
             \<and> (case nv_latest v of None \<Rightarrow> True | Some e \<Rightarrow> run_state (ex_run e) \<notin> {0, 1, 3, 4, 5}))
        \<and> (nv_condition v = C_acceptance \<longrightarrow> list_all m_verified (okr_metrics (os_okr focus))))"
proof -
  obtain base where base: "navigation_base focus snapshot now = Inr base" and v: "v = navigate_active focus snapshot now base"
    and reach: reachable and known: "\<And>rows. rs_value (os_executions focus) = Some rows \<Longrightarrow> list_all (\<lambda>row. \<not> outcome_unknown row) rows"
    using navigation_actionable_active [OF assms] by blast
  note active = navigate_active_actionable [OF assms(2) [unfolded v], folded v]
  from active obtain rows budget where rows: "rs_value (os_executions focus) = Some rows" "rs_value (os_budget focus) = Some budget"
      "length (filter (\<lambda>row. \<not> ex_settled row) (matching_runs (os_okr focus) rows)) \<le> 1"
      "nv_latest v = latest_run (matching_runs (os_okr focus) rows)" "nv_boundary v = B_valid"
    and cond: "nv_condition v = fst (run_condition (os_okr focus) (nv_metricProgress base) (nv_verifiedCheckpoints base) budget (nv_latest v) now)"
    by auto
  from base have facts: "nv_boundary base = boundary_of (os_okr focus) snapshot now"
    "nv_verifiedCheckpoints base = length (takeWhile m_verified (okr_metrics (os_okr focus)))"
    by (auto simp: navigation_base_def Let_def result_simps)
  have valid: "boundary_of (os_okr focus) snapshot now = B_valid"
    using active facts(1) by (auto simp: boundary_of_def authority_readable_def split: option.splits if_split_asm)
  have newest: "list_all (\<lambda>row. case nv_latest v of None \<Rightarrow> False
      | Some e \<Rightarrow> \<not> ex_settled e \<or> run_updated_at_ms (ex_run row) \<le> run_updated_at_ms (ex_run e)) (matching_runs (os_okr focus) rows)"
    using latest_run_shown [of "matching_runs (os_okr focus) rows"] rows(4) by simp
  have "nv_condition v = C_ready \<Longrightarrow> bu_spent budget + bu_reserved budget < okr_budget_limit (os_okr focus)
      \<and> (case nv_latest v of None \<Rightarrow> True | Some e \<Rightarrow> run_state (ex_run e) \<notin> {0, 1, 3, 4, 5})"
    using run_condition_ready cond by metis
  moreover have "nv_condition v = C_acceptance \<Longrightarrow> list_all m_verified (okr_metrics (os_okr focus))"
    using run_condition_acceptance cond facts(2) takeWhile_all by metis
  ultimately show ?thesis using active reach valid rows known newest by blast
qed

theorem navigation_rests_on_facts_witness:
  "\<exists>v. navigation (sample_focus [sample_metric 4 False] [sample_execution 2 True 70, sample_execution 0 False 60]) sample_snapshot 100 True = Inr v
     \<and> nv_condition v = C_queued \<and> nv_latest v = Some (sample_execution 0 False 60) \<and> nv_boundary v = B_valid"
proof -
  let ?f = "sample_focus [sample_metric 4 False] [sample_execution 2 True 70, sample_execution 0 False 60]"
  have "case navigation ?f sample_snapshot 100 True of Inl _ \<Rightarrow> False
      | Inr v \<Rightarrow> nv_condition v = C_queued \<and> nv_latest v = Some (sample_execution 0 False 60)" by code_simp
  then obtain v where v: "navigation ?f sample_snapshot 100 True = Inr v" "nv_condition v = C_queued" "nv_latest v = Some (sample_execution 0 False 60)"
    by (auto split: sum.splits)
  have "nv_condition v \<in> actionable" using v(2) by (simp add: actionable_def)
  from navigation_rests_on_facts [OF v(1) this] v show ?thesis by blast
qed

end
