(* ===== verification/Host_Fleet.thy ===== *)
theory Host_Fleet
  imports Navigation
begin

text \<open>
  The hosts page, \<^verbatim>\<open>fleetRows\<close> and \<^verbatim>\<open>age\<close> of \<^verbatim>\<open>apps/fractalmind-app/src/host-fleet.ts\<close>: one row per host
  address, with what is known about its membership and whether it is running. The texts of \<^verbatim>\<open>age\<close>
  are values of \<open>age_text\<close>; the signed observation keeps the fields the rows read.
\<close>

datatype observation_state = Verified | Observation_unknown | Observation_expired

record host_observation =
  ho_address :: string
  ho_state :: observation_state
  ho_heartbeatMs :: "int option"
  ho_system :: "(string \<times> string \<times> int) option"

datatype binding_read =
    Read_ok int "host_observation list" "(int \<times> string) option"
  | Read_failed int string

datatype service_state = Not_installed | Stopped | Starting | Service_running | Service_unknown | Unsupported

record local_service =
  ls_address :: string
  ls_service :: service_state
  ls_listening :: bool

definition READ_VALID_MS :: int where
  "READ_VALID_MS = 90000"

datatype fleet_membership = M_valid | M_revoked | M_expired | M_none | M_unknown

datatype live_state = L_online | L_no_heartbeat | L_stopped | L_checking | L_unknown

datatype live_source = S_heartbeat | S_local

record fleet_row =
  fr_address :: string
  fr_name :: "string option"
  fr_member :: "membership_row option"
  fr_history :: "membership_row list"
  fr_local :: bool
  fr_membership :: fleet_membership
  fr_live :: live_state
  fr_liveSource :: "live_source option"
  fr_heartbeatMs :: "int option"
  fr_system :: "(string \<times> string \<times> int) option"
  fr_observation :: "host_observation option"
  fr_binding :: "binding_row option"
  fr_agents :: "agent_row list"
  fr_okrs :: "okr_snapshot list"
  fr_attention :: bool

definition fleet_status :: "membership_row option \<Rightarrow> bool \<Rightarrow> int \<Rightarrow> fleet_membership" where
  "fleet_status member failure clockMs =
    (if failure then M_unknown
     else case member of None \<Rightarrow> M_none
     | Some m \<Rightarrow> (case memberStatus m clockMs of Revoked \<Rightarrow> M_revoked | Expired_member \<Rightarrow> M_expired | Valid \<Rightarrow> M_valid))"

text \<open>The observation of this address in a successful read.\<close>

fun read_observation :: "binding_read option \<Rightarrow> string \<Rightarrow> host_observation option" where
  "read_observation (Some (Read_ok at rows err)) address = List.find (\<lambda>r. ho_address r = address) rows"
| "read_observation _ address = None"

fun read_recent :: "binding_read option \<Rightarrow> int \<Rightarrow> bool" where
  "read_recent (Some (Read_ok at rows err)) nowMs = (nowMs - at < READ_VALID_MS)"
| "read_recent _ nowMs = False"

definition is_fresh_read :: "binding_read option \<Rightarrow> string \<Rightarrow> int \<Rightarrow> bool" where
  "is_fresh_read read address nowMs \<longleftrightarrow> read_recent read nowMs
     \<and> map_option ho_state (read_observation read address) = Some Verified"

definition liveness :: "fleet_membership \<Rightarrow> local_service option \<Rightarrow> binding_read option \<Rightarrow> string \<Rightarrow> int \<Rightarrow> bool
    \<Rightarrow> live_state \<times> live_source option" where
  "liveness membership here read address nowMs checking =
    (let service = (case here of None \<Rightarrow> None | Some l \<Rightarrow> if ls_address l = address then Some l else None) in
     if membership = M_revoked \<or> membership = M_expired then (L_unknown, None)
     else if (case service of None \<Rightarrow> False | Some l \<Rightarrow> ls_service l = Stopped \<or> ls_service l = Not_installed) then (L_stopped, Some S_local)
     else if is_fresh_read read address nowMs then (L_online, Some S_heartbeat)
     else if (case service of None \<Rightarrow> False | Some l \<Rightarrow> ls_service l = Service_running \<and> ls_listening l) then (L_online, Some S_local)
     else if read_recent read nowMs then (L_no_heartbeat, None)
     else if checking \<or> (case service of None \<Rightarrow> False | Some l \<Rightarrow> ls_service l = Starting) then (L_checking, None)
     else (L_unknown, None))"

definition trimmed_name :: "membership_row option \<Rightarrow> string option" where
  "trimmed_name m = (case m of None \<Rightarrow> None | Some r \<Rightarrow>
     (case mr_name r of None \<Rightarrow> None | Some n \<Rightarrow> if trim n = [] then None else Some (trim n)))"

definition last_opt :: "'a list \<Rightarrow> 'a option" where
  "last_opt xs = (if xs = [] then None else Some (last xs))"

definition listed :: "'a list read_section \<Rightarrow> 'a list" where
  "listed s = (case rs_value s of None \<Rightarrow> [] | Some xs \<Rightarrow> xs)"

definition fleet_row_of :: "organization_snapshot \<Rightarrow> (string \<times> binding_read) list \<Rightarrow> local_service option \<Rightarrow> int \<Rightarrow> int
    \<Rightarrow> bool \<Rightarrow> host_record \<Rightarrow> fleet_row" where
  "fleet_row_of snapshot reads here nowMs clockMs checking host =
    (let member = rs_value (hr_current host);
         membership = fleet_status member (rs_failure (hr_current host)) clockMs;
         binding = (case member of None \<Rightarrow> None
           | Some m \<Rightarrow> List.find (\<lambda>b. br_id b = mr_coordinator_binding m) (listed (sn_bindings snapshot)));
         read = (case member of None \<Rightarrow> None | Some m \<Rightarrow> map_of reads (mr_coordinator_binding m));
         observation = read_observation read (hr_address host);
         live = liveness membership here read (hr_address host) nowMs checking;
         memberIds = map mr_id (hr_history host) @ (case member of None \<Rightarrow> [] | Some m \<Rightarrow> [mr_id m]);
         expiring = (membership = M_valid \<and> (case member of None \<Rightarrow> False | Some m \<Rightarrow> mr_expires_at_ms m - clockMs < 3 * 86400000)) in
     \<lparr>fr_address = hr_address host,
      fr_name = (case trimmed_name member of Some n \<Rightarrow> Some n | None \<Rightarrow> trimmed_name (last_opt (hr_history host))),
      fr_member = member, fr_history = hr_history host,
      fr_local = (map_option ls_address here = Some (hr_address host)),
      fr_membership = membership, fr_live = fst live, fr_liveSource = snd live,
      fr_heartbeatMs = (case observation of None \<Rightarrow> None | Some r \<Rightarrow> ho_heartbeatMs r),
      fr_system = (case observation of None \<Rightarrow> None | Some r \<Rightarrow> ho_system r),
      fr_observation = observation, fr_binding = binding,
      fr_agents = filter (\<lambda>a. ar_host_address a = hr_address host \<and> \<not> ar_revoked a) (listed (sn_agents snapshot)),
      fr_okrs = filter (\<lambda>row. okr_state (os_okr row) = 1 \<and>
          (case okr_membership_id (os_okr row) of None \<Rightarrow> False | Some m \<Rightarrow> m \<in> set memberIds)) (listed (sn_okrs snapshot)),
      fr_attention = (membership \<noteq> M_valid \<or> fst live = L_no_heartbeat \<or> fst live = L_stopped \<or> expiring)\<rparr>)"

text \<open>\<^verbatim>\<open>local\<close> may be only an address: its service state is then unknown.\<close>

datatype local_argument = No_local | Local_address string | Local_service local_service

fun local_here :: "local_argument \<Rightarrow> local_service option" where
  "local_here No_local = None"
| "local_here (Local_address a) = Some \<lparr>ls_address = a, ls_service = Service_unknown, ls_listening = False\<rparr>"
| "local_here (Local_service l) = Some l"

definition fleetRows :: "organization_snapshot \<Rightarrow> (string \<times> binding_read) list \<Rightarrow> local_argument \<Rightarrow> int \<Rightarrow> int \<Rightarrow> bool \<Rightarrow> fleet_row list" where
  "fleetRows snapshot reads local nowMs clockMs checking =
     map (fleet_row_of snapshot reads (local_here local) nowMs clockMs checking) (listed (sn_hosts snapshot))"

text \<open>\<^verbatim>\<open>Math.round(a / b)\<close> of whole numbers.\<close>

definition round_div :: "int \<Rightarrow> int \<Rightarrow> int" where
  "round_div a b = (2 * a + b) div (2 * b)"

datatype age_text = Age_none | Just_now | Minutes_ago int | Hours_ago int | Days_ago int

definition age :: "int option \<Rightarrow> int \<Rightarrow> age_text" where
  "age ms nowMs =
    (case ms of None \<Rightarrow> Age_none
     | Some t \<Rightarrow>
        (let s = max 0 (round_div (nowMs - t) 1000) in
         if s < 30 then Just_now
         else if s < 3600 then Minutes_ago (max 1 (round_div s 60))
         else if s < 86400 then Hours_ago (round_div s 3600)
         else Days_ago (round_div s 86400)))"

section \<open>Properties\<close>

lemma liveness_online:
  assumes "liveness membership here read address nowMs checking = (L_online, src)"
  shows "membership \<notin> {M_revoked, M_expired}
    \<and> (src = Some S_heartbeat \<and> is_fresh_read read address nowMs
       \<or> src = Some S_local \<and> (\<exists>l. here = Some l \<and> ls_address l = address \<and> ls_service l = Service_running \<and> ls_listening l))"
  using assms by (auto simp: liveness_def Let_def split: if_split_asm option.splits)

lemma is_fresh_readD:
  assumes "is_fresh_read read address nowMs"
  obtains at rows err r where "read = Some (Read_ok at rows err)" "nowMs - at < READ_VALID_MS" "r \<in> set rows"
    "ho_address r = address" "ho_state r = Verified"
  using assms by (cases "(read, address)" rule: read_observation.cases) (auto simp: is_fresh_read_def dest: find_SomeD)

text \<open>
  A host is shown online only on evidence: the rows are one per host, in order; a row says online
  only when its membership is not revoked or expired and either the read of the member's own
  coordinator is less than 90 seconds old and holds a verified observation of exactly this address, or
  this computer's own service is running and listening at this address, and the row says which of the
  two it was. A row that needs no attention has a valid membership that lasts at least three more days.
\<close>

theorem fleet_online_on_evidence:
  assumes "i < length (fleetRows snapshot reads local nowMs clockMs checking)"
    and "row = fleetRows snapshot reads local nowMs clockMs checking ! i"
  shows "fr_address row = hr_address (listed (sn_hosts snapshot) ! i)
    \<and> (fr_live row = L_online \<longrightarrow> fr_membership row \<notin> {M_revoked, M_expired} \<and>
        (fr_liveSource row = Some S_heartbeat
           \<and> (\<exists>m at rows err r. fr_member row = Some m \<and> map_of reads (mr_coordinator_binding m) = Some (Read_ok at rows err)
                \<and> nowMs - at < 90000 \<and> r \<in> set rows \<and> ho_address r = fr_address row \<and> ho_state r = Verified)
         \<or> fr_liveSource row = Some S_local
           \<and> (\<exists>l. local_here local = Some l \<and> ls_address l = fr_address row \<and> ls_service l = Service_running \<and> ls_listening l)))
    \<and> (\<not> fr_attention row \<longrightarrow> (\<exists>m. fr_member row = Some m \<and> \<not> mr_revoked m \<and> clockMs + 259200000 \<le> mr_expires_at_ms m))"
proof -
  let ?host = "listed (sn_hosts snapshot) ! i"
  let ?read = "case rs_value (hr_current ?host) of None \<Rightarrow> None | Some m \<Rightarrow> map_of reads (mr_coordinator_binding m)"
  have row: "row = fleet_row_of snapshot reads (local_here local) nowMs clockMs checking ?host"
    using assms by (simp add: fleetRows_def)
  have parts: "fr_address row = hr_address ?host" "fr_member row = rs_value (hr_current ?host)"
    "liveness (fr_membership row) (local_here local) ?read (hr_address ?host) nowMs checking = (fr_live row, fr_liveSource row)"
    by (simp_all add: row fleet_row_of_def Let_def)
  have fresh: "\<exists>m at rows err r. fr_member row = Some m \<and> map_of reads (mr_coordinator_binding m) = Some (Read_ok at rows err)
      \<and> nowMs - at < 90000 \<and> r \<in> set rows \<and> ho_address r = fr_address row \<and> ho_state r = Verified"
    if "is_fresh_read ?read (hr_address ?host) nowMs"
  proof -
    from that obtain at rows err r where "?read = Some (Read_ok at rows err)" "nowMs - at < 90000" "r \<in> set rows"
      "ho_address r = hr_address ?host" "ho_state r = Verified"
      by (auto elim!: is_fresh_readD simp: READ_VALID_MS_def)
    then show ?thesis by (cases "rs_value (hr_current ?host)") (auto simp: parts)
  qed
  have "fr_membership row \<notin> {M_revoked, M_expired} \<and>
      (fr_liveSource row = Some S_heartbeat \<and> is_fresh_read ?read (hr_address ?host) nowMs
       \<or> fr_liveSource row = Some S_local
         \<and> (\<exists>l. local_here local = Some l \<and> ls_address l = fr_address row \<and> ls_service l = Service_running \<and> ls_listening l))"
    if online: "fr_live row = L_online"
    using liveness_online [OF parts(3) [unfolded online]] by (simp add: parts(1))
  moreover have "\<not> fr_attention row \<Longrightarrow> \<exists>m. fr_member row = Some m \<and> \<not> mr_revoked m \<and> clockMs + 259200000 \<le> mr_expires_at_ms m"
    by (auto simp: row fleet_row_of_def Let_def fleet_status_def memberStatus_def split: option.splits if_split_asm)
  ultimately show ?thesis using fresh parts(1) by blast
qed

definition sample_member :: membership_row where
  "sample_member = \<lparr>mr_id = ''m'', mr_revoked = False, mr_expires_at_ms = 400000000, mr_version = 2,
     mr_host_address = ''h'', mr_coordinator_binding = ''b'', mr_name = None\<rparr>"

definition sample_fleet :: organization_snapshot where
  "sample_fleet = sample_snapshot\<lparr>sn_hosts := \<lparr>rs_value = Some [\<lparr>hr_address = ''h'',
     hr_current = \<lparr>rs_value = Some sample_member, rs_failure = False\<rparr>, hr_history = []\<rparr>], rs_failure = False\<rparr>\<rparr>"

definition sample_reads :: "(string \<times> binding_read) list" where
  "sample_reads = [(''b'', Read_ok 1000 [\<lparr>ho_address = ''h'', ho_state = Verified, ho_heartbeatMs = Some 900, ho_system = None\<rparr>] None)]"

theorem fleet_online_on_evidence_witness:
  "\<exists>row. fleetRows sample_fleet sample_reads No_local 50000 5000 False = [row]
     \<and> fr_live row = L_online \<and> fr_liveSource row = Some S_heartbeat \<and> \<not> fr_attention row
     \<and> (\<exists>m. fr_member row = Some m \<and> \<not> mr_revoked m \<and> 259205000 \<le> mr_expires_at_ms m)"
proof -
  let ?rows = "fleetRows sample_fleet sample_reads No_local 50000 5000 False"
  have rows: "length ?rows = 1 \<and> fr_live (?rows ! 0) = L_online
      \<and> fr_liveSource (?rows ! 0) = Some S_heartbeat \<and> \<not> fr_attention (?rows ! 0)" by code_simp
  then have "0 < length ?rows" by linarith
  from fleet_online_on_evidence [OF this refl] rows show ?thesis
    by (auto simp: length_Suc_conv)
qed

end
