(* ===== verification/Execution_Boundary.thy ===== *)
theory Execution_Boundary
  imports Canonical_Json Js_Text Transaction_Journal
begin

text \<open>
  The tool boundary of an execution and its hash (\<^verbatim>\<open>sdk/src/execution-boundary.ts\<close>), the plan of file goals
  (\<^verbatim>\<open>parseNativeFileOkrPlan\<close> of \<^verbatim>\<open>sdk/src/okr-runner.ts\<close>) and the hash of a direct request
  (\<^verbatim>\<open>directRequestHash\<close> of \<^verbatim>\<open>sdk/src/direct-agent.ts\<close>).

  SHA-256 and the BCS serializer are packages outside the repository: they are the fields of
  \<open>hash_env\<close>. A text is its UTF-8 bytes, so the code's checks that a text survives encoding hold of every
  value of the model. A value read from JSON is a \<open>json\<close>; its objects have no repeated keys.
\<close>

record hash_env =
  sha256 :: "string \<Rightarrow> string"
  bcs_boundary :: "(string \<times> string list) list \<Rightarrow> string"
  bcs_request :: "string \<times> string \<times> string \<times> string \<times> int \<Rightarrow> string"

section \<open>Reading JSON values\<close>

fun the_string :: "json \<Rightarrow> string option" where
  "the_string (JString s) = Some s"
| "the_string _ = None"

fun the_array :: "json \<Rightarrow> json list option" where
  "the_array (JArray xs) = Some xs"
| "the_array _ = None"

fun the_object :: "json \<Rightarrow> (string \<times> json) list option" where
  "the_object (JObject ms) = Some ms"
| "the_object _ = None"

fun all_some :: "'a option list \<Rightarrow> 'a list option" where
  "all_some [] = Some []"
| "all_some (x # xs) = (case x of None \<Rightarrow> None | Some a \<Rightarrow> map_option (\<lambda>as. a # as) (all_some xs))"

definition map_some :: "('a \<Rightarrow> 'b option) \<Rightarrow> 'a list \<Rightarrow> 'b list option" where
  "map_some f xs = all_some (map f xs)"

lemma map_some_iff: "map_some f xs = Some ys \<longleftrightarrow> list_all2 (\<lambda>x y. f x = Some y) xs ys"
  by (induction xs arbitrary: ys) (auto simp: map_some_def list_all2_Cons1 split: option.split)

lemma map_some_length: "map_some f xs = Some ys \<Longrightarrow> length ys = length xs"
  by (simp add: map_some_iff list_all2_lengthD)

lemma map_some_set: "map_some f xs = Some ys \<Longrightarrow> y \<in> set ys \<Longrightarrow> \<exists>x \<in> set xs. f x = Some y"
  unfolding map_some_iff by (induction rule: list_all2_induct) auto

lemma map_some_dom: "map_some f xs = Some ys \<Longrightarrow> x \<in> set xs \<Longrightarrow> \<exists>y \<in> set ys. f x = Some y"
  unfolding map_some_iff by (induction rule: list_all2_induct) auto

lemma map_some_id: "(\<And>x. x \<in> set xs \<Longrightarrow> f (g x) = Some x) \<Longrightarrow> map_some f (map g xs) = Some xs"
  by (simp add: map_some_iff list_all2_conv_all_nth)

section \<open>The boundary\<close>

definition boundary_actions :: "string list" where
  "boundary_actions = [''file.read'', ''file.write'', ''file.list'']"

text \<open>One row: distinct, non-empty directories of at most 1024 bytes, in byte order.\<close>

definition boundary_row :: "string \<times> json \<Rightarrow> (string \<times> string list) option" where
  "boundary_row = (\<lambda>(action, directories).
     if action \<notin> set boundary_actions then None
     else case the_array directories of None \<Rightarrow> None
     | Some ds \<Rightarrow>
         if ds = [] \<or> 16 < length ds \<or> \<not> distinct ds then None
         else case map_some the_string ds of None \<Rightarrow> None
         | Some dirs \<Rightarrow> if list_all (\<lambda>d. d \<noteq> [] \<and> length d \<le> 1024) dirs then Some (action, sort dirs) else None)"

definition boundary_rows :: "(string \<times> json) list \<Rightarrow> (string \<times> string list) list option" where
  "boundary_rows paths =
    (if paths = [] \<or> 3 < length paths then None
     else map_option (sort_key fst) (map_some boundary_row paths))"

definition executionBoundaryHash :: "hash_env \<Rightarrow> (string \<times> json) list \<Rightarrow> string option" where
  "executionBoundaryHash H paths = map_option
     (\<lambda>rows. sha256 H (''fractalmind.execution-boundary.v1'' @ bcs_boundary H rows)) (boundary_rows paths)"

section \<open>Portable paths\<close>

definition lower :: "string \<Rightarrow> string" where
  "lower = map (\<lambda>c. if 65 \<le> (of_char c :: nat) \<and> (of_char c :: nat) \<le> 90 then char_of (of_char c + 32 :: nat) else c)"

definition device_names :: "string list" where
  "device_names = [''con'', ''prn'', ''aux'', ''nul'', ''conin$'', ''conout$'']
     @ concat (map (\<lambda>p. map (\<lambda>d. p @ [digit_char d]) [1 ..< 10] @ map (\<lambda>n. p @ [char_of (194 :: nat), char_of n]) [185, 178, 179 :: nat]) [''com'', ''lpt''])"

text \<open>One path segment; the regular expressions with \<^verbatim>\<open>i\<close> compare the ASCII lower case.\<close>

definition portable_part :: "string \<Rightarrow> bool" where
  "portable_part part \<longleftrightarrow> part \<noteq> [] \<and> part \<noteq> ''.'' \<and> part \<noteq> ''..''
     \<and> lower part \<notin> {''.git'', ''.claude'', ''.codex'', ''.agents''}
     \<and> \<not> startsWith (lower part) ''.fractalmind-write-''
     \<and> last part \<noteq> CHR ''.'' \<and> last part \<noteq> CHR '' '' \<and> CHR ''~'' \<notin> set part
     \<and> lower (takeWhile (\<lambda>c. c \<noteq> CHR ''.'') part) \<notin> set device_names"

definition forbidden_char :: "char \<Rightarrow> bool" where
  "forbidden_char c \<longleftrightarrow> c = char_of (92 :: nat) \<or> c = CHR '':'' \<or> c = char_of (0 :: nat)"

definition portablePath :: "string \<Rightarrow> bool \<Rightarrow> bool" where
  "portablePath name directory \<longleftrightarrow>
     name \<noteq> [] \<and> length name \<le> 1024 \<and> list_all (\<lambda>c. \<not> forbidden_char c) name
     \<and> (directory \<and> name = ''.'' \<or> list_all portable_part (split_at (CHR ''/'') name))"

section \<open>The plan\<close>

record file_goal =
  fg_path :: string
  fg_content :: string

record kr_plan =
  kp_files :: "file_goal list"
  kp_maxCalls :: string

record okr_plan =
  op_paths :: "(string \<times> string list) list"
  op_krs :: "kr_plan list"

definition file_json :: "file_goal \<Rightarrow> json" where
  "file_json f = JObject [(''path'', JString (fg_path f)), (''content'', JString (fg_content f))]"

definition parse_file :: "json \<Rightarrow> file_goal option" where
  "parse_file v =
    (case the_object v of None \<Rightarrow> None
     | Some ms \<Rightarrow>
        if \<not> list_all (\<lambda>m. fst m \<in> {''path'', ''content''}) ms then None
        else case (map_of ms ''path'', map_of ms ''content'') of
          (Some (JString path), Some (JString content)) \<Rightarrow>
            if portablePath path False \<and> length content \<le> 16384 then Some \<lparr>fg_path = path, fg_content = content\<rparr> else None
        | _ \<Rightarrow> None)"

text \<open>\<^verbatim>\<open>/^[1-9][0-9]*$/\<close>\<close>

definition positive_text :: "string \<Rightarrow> bool" where
  "positive_text s \<longleftrightarrow> s \<noteq> [] \<and> list_all is_digit s \<and> hd s \<noteq> CHR ''0''"

definition task_text :: "file_goal list \<Rightarrow> string" where
  "task_text files = stringify (JObject [(''kind'', JString ''ensure_text_files''), (''files'', JArray (map file_json files))])"

definition parse_kr :: "json \<Rightarrow> kr_plan option" where
  "parse_kr v =
    (case the_object v of None \<Rightarrow> None
     | Some ms \<Rightarrow>
        if \<not> list_all (\<lambda>m. fst m \<in> {''files'', ''maxCalls''}) ms then None
        else case (map_of ms ''maxCalls'', map_of ms ''files'') of
          (Some (JString calls), Some (JArray raw)) \<Rightarrow>
            if \<not> positive_text calls \<or> 1000 < dec_value calls \<or> raw = [] \<or> 3 < length raw then None
            else (case map_some parse_file raw of None \<Rightarrow> None
                  | Some files \<Rightarrow>
                      if distinct (map fg_path files) \<and> length (task_text files) \<le> 16384
                      then Some \<lparr>kp_files = files, kp_maxCalls = calls\<rparr> else None)
        | _ \<Rightarrow> None)"

definition parse_paths :: "(string \<times> json) list \<Rightarrow> (string \<times> string list) list option" where
  "parse_paths paths = map_some (\<lambda>(action, ds). case the_array ds of None \<Rightarrow> None
     | Some xs \<Rightarrow> map_option (\<lambda>dirs. (action, dirs)) (map_some the_string xs)) paths"

definition parseNativeFileOkrPlan :: "hash_env \<Rightarrow> json \<Rightarrow> okr_plan option" where
  "parseNativeFileOkrPlan H v =
    (case the_object v of None \<Rightarrow> None
     | Some ms \<Rightarrow>
        if map_of ms ''format'' \<noteq> Some (JNumber 1) \<or> \<not> list_all (\<lambda>m. fst m \<in> {''format'', ''paths'', ''krs''}) ms then None
        else case (map_of ms ''krs'', map_of ms ''paths'') of
          (Some (JArray raw), Some (JObject paths)) \<Rightarrow>
            if raw = [] \<or> 3 < length raw \<or> executionBoundaryHash H paths = None then None
            else (case parse_paths paths of None \<Rightarrow> None
                  | Some dirs \<Rightarrow>
                     if \<not> list_all (\<lambda>(_, ds). list_all (\<lambda>d. portablePath d True) ds) dirs then None
                     else map_option (\<lambda>krs. \<lparr>op_paths = dirs, op_krs = krs\<rparr>) (map_some parse_kr raw))
        | _ \<Rightarrow> None)"

section \<open>Direct requests\<close>

definition direct_actions :: "string list" where
  "direct_actions = [''ask'', ''status'', ''file.read'', ''file.write'']"

definition field :: "json \<Rightarrow> string \<Rightarrow> json option" where
  "field v k = (case the_object v of None \<Rightarrow> None | Some ms \<Rightarrow> map_of ms k)"

text \<open>The optional task: \<open>None\<close> when it is neither absent, null nor a text.\<close>

definition request_task :: "json \<Rightarrow> string option" where
  "request_task request = (case field request ''task'' of
     None \<Rightarrow> Some [] | Some JNull \<Rightarrow> Some [] | Some (JString s) \<Rightarrow> Some s | Some _ \<Rightarrow> None)"

definition directRequestHash :: "hash_env \<Rightarrow> json \<Rightarrow> string \<Rightarrow> string option" where
  "directRequestHash H request action =
    (case (field request ''message'', request_task request, field request ''bounds'') of
       (Some (JString message), Some task, Some bounds) \<Rightarrow>
         (case (field bounds ''max_calls'', field bounds ''paths'') of
            (Some (JString calls), Some (JObject paths)) \<Rightarrow>
              if action \<notin> set direct_actions \<or> message = [] \<or> 4096 < length message \<or> 16384 < length task then None
              else (case (toBigInt (UString calls), executionBoundaryHash H paths) of
                      (Inr n, Some boundary) \<Rightarrow>
                        if 1000 < n \<or> (action \<in> {''ask'', ''status''}) \<noteq> (n = 0) \<or> (action \<in> {''ask'', ''status''} \<and> task \<noteq> []) then None
                        else Some (sha256 H (''fractalmind.direct-request.v1'' @ bcs_request H (action, message, task, boundary, n)))
                    | _ \<Rightarrow> None)
          | _ \<Rightarrow> None)
     | _ \<Rightarrow> None)"

section \<open>What the boundary hash binds\<close>

text \<open>The directories that a boundary allows for an action.\<close>

definition allowed :: "(string \<times> json) list \<Rightarrow> string \<Rightarrow> string set" where
  "allowed paths action = {d. \<exists>ds. map_of paths action = Some (JArray ds) \<and> JString d \<in> set ds}"

lemma the_string_iff: "the_string v = Some s \<longleftrightarrow> v = JString s"
  by (cases v) auto

lemma the_array_iff: "the_array v = Some s \<longleftrightarrow> v = JArray s"
  by (cases v) auto

lemma the_object_iff: "the_object v = Some s \<longleftrightarrow> v = JObject s"
  by (cases v) auto

lemma map_some_string: "map_some the_string ds = Some dirs \<longleftrightarrow> ds = map JString dirs"
  by (auto simp: map_some_iff the_string_iff list_all2_conv_all_nth intro: nth_equalityI)

lemma boundary_row_Some:
  assumes "boundary_row (a, v) = Some r"
  obtains dirs where "v = JArray (map JString dirs)" "dirs \<noteq> []" "distinct dirs" "r = (a, sorted_list_of_set (set dirs))"
proof -
  from assms obtain dirs where dirs: "v = JArray (map JString dirs)" "dirs \<noteq> []" "distinct (map JString dirs)" "r = (a, sort dirs)"
    by (auto simp: boundary_row_def the_array_iff map_some_string split: if_split_asm option.splits)
  moreover from dirs(3) have "distinct dirs" by (simp add: distinct_map)
  ultimately show thesis using that by (simp add: sorted_list_of_set_sort_remdups distinct_remdups_id)
qed

lemma boundary_rows_fst: "map_some boundary_row paths = Some rows \<Longrightarrow> map fst rows = map fst paths"
  unfolding map_some_iff by (induction rule: list_all2_induct) (auto elim!: boundary_row_Some)

lemma boundary_rows_member:
  assumes "map_some boundary_row paths = Some rows" "distinct (map fst paths)"
  shows "(a, ds) \<in> set rows \<longleftrightarrow> a \<in> fst ` set paths \<and> ds = sorted_list_of_set (allowed paths a)"
  using assms unfolding map_some_iff
proof (induction rule: list_all2_induct)
  case (Cons x xs y ys)
  obtain b v where x: "x = (b, v)" by fastforce
  with Cons obtain dirs where dirs: "v = JArray (map JString dirs)" "y = (b, sorted_list_of_set (set dirs))"
    by (auto elim: boundary_row_Some)
  have b: "allowed ((b, v) # xs) b = set dirs" by (auto simp: allowed_def dirs(1))
  have other: "allowed ((b, v) # xs) a = allowed xs a" if "a \<noteq> b" using that by (simp add: allowed_def)
  show ?case using Cons x dirs b other by (cases "a = b") auto
qed simp

lemma boundary_rows_allowed:
  assumes "boundary_rows paths = Some rows" "distinct (map fst paths)"
  shows "sorted (map fst rows)" "distinct (map fst rows)"
    "(a, ds) \<in> set rows \<longleftrightarrow> allowed paths a \<noteq> {} \<and> ds = sorted_list_of_set (allowed paths a)"
proof -
  from assms(1) obtain rs where rs: "map_some boundary_row paths = Some rs" "rows = sort_key fst rs"
    by (auto simp: boundary_rows_def split: if_split_asm)
  show "sorted (map fst rows)" by (simp add: rs(2))
  have "distinct (map fst rs)" using boundary_rows_fst [OF rs(1)] assms(2) by simp
  then show "distinct (map fst rows)" by (simp add: rs(2) distinct_map)
  have "allowed paths a \<noteq> {}" if "a \<in> fst ` set paths"
  proof -
    from that obtain v where v: "(a, v) \<in> set paths" by force
    with rs(1) obtain y where "boundary_row (a, v) = Some y" by (meson map_some_dom)
    then obtain dirs where "v = JArray (map JString dirs)" "dirs \<noteq> []" by (auto elim: boundary_row_Some)
    moreover have "map_of paths a = Some v" using v assms(2) by simp
    ultimately show ?thesis by (cases dirs) (auto simp: allowed_def)
  qed
  moreover have "a \<in> fst ` set paths" if "allowed paths a \<noteq> {}"
    using that by (auto simp: allowed_def dest!: map_of_SomeD) force
  ultimately show "(a, ds) \<in> set rows \<longleftrightarrow> allowed paths a \<noteq> {} \<and> ds = sorted_list_of_set (allowed paths a)"
    using boundary_rows_member [OF rs(1) assms(2)] by (auto simp: rs(2))
qed

lemma allowed_finite: "finite (allowed paths a)"
proof (cases "map_of paths a")
  case (Some v)
  have "allowed paths a \<subseteq> (\<lambda>v. the (the_string v)) ` (case v of JArray ds \<Rightarrow> set ds | _ \<Rightarrow> {})"
    using Some by (force simp: allowed_def)
  then show ?thesis by (rule finite_subset) (simp split: json.split)
qed (simp add: allowed_def)

lemma boundary_rows_eq:
  assumes "boundary_rows p = Some rp" "boundary_rows q = Some rq" "distinct (map fst p)" "distinct (map fst q)"
  shows "rp = rq \<longleftrightarrow> (\<forall>a. allowed p a = allowed q a)"
proof
  assume eq: "rp = rq"
  show "\<forall>a. allowed p a = allowed q a"
  proof
    fix a
    have "allowed p a \<noteq> {} \<and> ds = sorted_list_of_set (allowed p a) \<longleftrightarrow> allowed q a \<noteq> {} \<and> ds = sorted_list_of_set (allowed q a)" for ds
      using boundary_rows_allowed(3) [OF assms(1,3)] boundary_rows_allowed(3) [OF assms(2,4)] eq by simp
    then have "allowed p a = {} \<and> allowed q a = {} \<or> sorted_list_of_set (allowed p a) = sorted_list_of_set (allowed q a)" by blast
    then show "allowed p a = allowed q a" by (metis allowed_finite set_sorted_list_of_set)
  qed
next
  assume eq: "\<forall>a. allowed p a = allowed q a"
  have "set rp = set rq"
    using boundary_rows_allowed(3) [OF assms(1,3)] boundary_rows_allowed(3) [OF assms(2,4)] eq by auto
  moreover have "inj_on fst (set rp \<union> set rq)"
    using boundary_rows_allowed(2) [OF assms(1,3)] \<open>set rp = set rq\<close> by (simp add: distinct_map)
  ultimately show "rp = rq"
    using boundary_rows_allowed(1,2) [OF assms(1,3)] boundary_rows_allowed(1,2) [OF assms(2,4)]
    by (intro map_sorted_distinct_set_unique)
qed

text \<open>Two different inputs with the same SHA-256 value.\<close>

definition collision :: "hash_env \<Rightarrow> bool" where
  "collision H \<longleftrightarrow> (\<exists>a b. a \<noteq> b \<and> sha256 H a = sha256 H b)"

lemma sha256_eq: "sha256 H a = sha256 H b \<Longrightarrow> a = b \<or> collision H"
  by (auto simp: collision_def)

section \<open>Properties\<close>

text \<open>
  The boundary hash binds the boundary and nothing else: for boundaries that are accepted, allowing
  the same directories for the same actions, in whatever order, gives the same hash, and the same hash
  means the same directories for every action, unless SHA-256 collides. The serializer is assumed to be
  injective, as BCS is.
\<close>

theorem boundary_hash_binds:
  assumes "inj (bcs_boundary H)" "executionBoundaryHash H p = Some x" "executionBoundaryHash H q = Some y"
    and "distinct (map fst p)" "distinct (map fst q)"
  shows "(allowed p = allowed q \<longrightarrow> x = y) \<and> (x = y \<longrightarrow> allowed p = allowed q \<or> collision H)"
proof -
  from assms(2,3) obtain rp rq where rows: "boundary_rows p = Some rp" "boundary_rows q = Some rq"
    and x: "x = sha256 H (''fractalmind.execution-boundary.v1'' @ bcs_boundary H rp)"
    and y: "y = sha256 H (''fractalmind.execution-boundary.v1'' @ bcs_boundary H rq)"
    by (auto simp: executionBoundaryHash_def)
  note eq = boundary_rows_eq [OF rows assms(4,5)]
  have "rp = rq \<or> collision H" if "x = y"
    using sha256_eq [of H "''fractalmind.execution-boundary.v1'' @ bcs_boundary H rp" "''fractalmind.execution-boundary.v1'' @ bcs_boundary H rq"]
      that assms(1) by (auto simp: x y dest: injD)
  then show ?thesis using eq x y by (auto simp: fun_eq_iff)
qed

text \<open>A serializer that is injective, for concrete inputs: the JSON text of the rows.\<close>

definition json_row :: "string \<times> string list \<Rightarrow> json" where
  "json_row r = JArray [JString (fst r), JArray (map JString (snd r))]"

definition sample_hash :: hash_env where
  "sample_hash = \<lparr>sha256 = (\<lambda>s. s), bcs_boundary = (\<lambda>rows. stringify (JArray (map json_row rows))), bcs_request = (\<lambda>_. [])\<rparr>"

lemma sample_hash_inj: "inj (bcs_boundary sample_hash)"
proof (rule injI)
  fix a b
  assume "bcs_boundary sample_hash a = bcs_boundary sample_hash b"
  then have "map json_row a = map json_row b"
    using stringify_inj [of "JArray (map json_row a)" "JArray (map json_row b)"] by (simp add: sample_hash_def)
  moreover have "inj json_row"
    by (rule injI) (auto simp: json_row_def prod_eq_iff inj_map_eq_map inj_def)
  ultimately show "a = b" by (simp add: inj_map_eq_map)
qed

definition sample_paths :: "string list \<Rightarrow> (string \<times> json) list" where
  "sample_paths ds = [(''file.write'', JArray [JString ''out'']), (''file.read'', JArray (map JString ds))]"

theorem boundary_hash_binds_witness:
  "\<exists>x. executionBoundaryHash sample_hash (sample_paths [''src'', ''doc'']) = Some x
     \<and> executionBoundaryHash sample_hash (rev (sample_paths [''doc'', ''src''])) = Some x
     \<and> allowed (sample_paths [''src'', ''doc'']) = allowed (rev (sample_paths [''doc'', ''src'']))"
proof -
  let ?p = "sample_paths [''src'', ''doc'']" and ?q = "rev (sample_paths [''doc'', ''src''])"
  obtain x where p: "executionBoundaryHash sample_hash ?p = Some x"
    and q: "executionBoundaryHash sample_hash ?q = Some x"
  proof -
    have "executionBoundaryHash sample_hash ?p \<noteq> None \<and> executionBoundaryHash sample_hash ?p = executionBoundaryHash sample_hash ?q"
      by code_simp
    then show thesis using that by (metis not_None_eq)
  qed
  have "distinct (map fst ?p)" "distinct (map fst ?q)" by (simp_all add: sample_paths_def)
  from boundary_hash_binds [OF sample_hash_inj p q this] have "allowed ?p = allowed ?q \<or> collision sample_hash" by blast
  then show ?thesis using p q by (auto simp: collision_def sample_hash_def)
qed

end
