(* ===== verification/Message_Source.thy ===== *)
theory Message_Source
  imports Execution_Boundary
begin

text \<open>
  The message an objective was drafted from, \<^verbatim>\<open>apps/fractalmind-app/src/message-okr-source.ts\<close>: a snapshot
  is accepted only if it is complete, its request hash is the hash of its own request, and nothing is in
  it that the normal form does not have. Reading and verifying it asks the conversation controller,
  whose reads are the fields of \<open>source_env\<close>.
\<close>

datatype source_error = Invalid_source | Source_changed | Source_outside

definition sfield :: "json \<Rightarrow> string \<Rightarrow> string option" where
  "sfield v k = (case field v k of Some (JString s) \<Rightarrow> Some s | _ \<Rightarrow> None)"

definition nfield :: "json \<Rightarrow> string \<Rightarrow> int option" where
  "nfield v k = (case field v k of Some (JNumber n) \<Rightarrow> Some n | _ \<Rightarrow> None)"

definition holds :: "('a \<Rightarrow> bool) \<Rightarrow> 'a option \<Rightarrow> bool" where
  "holds P x = (case x of None \<Rightarrow> False | Some a \<Rightarrow> P a)"

text \<open>\<^verbatim>\<open>/^[1-9][0-9]{0,19}$/\<close> and at most the largest u64.\<close>

definition positive_u64 :: "string \<Rightarrow> bool" where
  "positive_u64 s \<longleftrightarrow> positive_text s \<and> length s \<le> 20 \<and> dec_value s \<le> 18446744073709551615"

definition bytesToHex :: "string \<Rightarrow> string" where
  "bytesToHex bs = concat (map (\<lambda>b. [hex_digit (of_char b div 16), hex_digit (of_char b mod 16)]) bs)"

definition source_texts :: "string list" where
  "source_texts = [''schema'', ''network'', ''chainIdentifier'', ''organizationId'', ''managedAgentId'', ''managedVersion'', ''membershipId'',
     ''messageId'', ''messageRecordId'', ''permissionId'', ''permissionVersion'', ''authorHumanId'', ''authorDevice'', ''createdAtMs'',
     ''action'', ''requestHash'']"

definition source_fields_ok :: "json \<Rightarrow> bool" where
  "source_fields_ok v \<longleftrightarrow>
     sfield v ''schema'' = Some ''fractalmind.okr-message-source.v1''
     \<and> holds (\<lambda>s. s \<in> {''mainnet'', ''testnet'', ''devnet'', ''localnet''}) (sfield v ''network'')
     \<and> holds (\<lambda>s. 4 \<le> length s \<and> length s \<le> 100 \<and> list_all is_alnum s) (sfield v ''chainIdentifier'')
     \<and> list_all (\<lambda>k. holds is_object_id (sfield v k)) [''organizationId'', ''managedAgentId'', ''membershipId'', ''messageId'',
          ''messageRecordId'', ''permissionId'', ''authorHumanId'', ''authorDevice'']
     \<and> list_all (\<lambda>k. holds positive_u64 (sfield v k)) [''managedVersion'', ''permissionVersion'', ''createdAtMs'']
     \<and> holds (\<lambda>s. s \<in> set direct_actions) (sfield v ''action'')"

definition source_hash_ok :: "hash_env \<Rightarrow> json \<Rightarrow> bool" where
  "source_hash_ok H v \<longleftrightarrow>
    (case (field v ''request'', sfield v ''action'', sfield v ''requestHash'') of
       (Some request, Some action, Some hash) \<Rightarrow> map_option bytesToHex (directRequestHash H request action) = Some hash
     | _ \<Rightarrow> False)"

definition reply_ok :: "json \<Rightarrow> json \<Rightarrow> bool" where
  "reply_ok v reply \<longleftrightarrow>
     sfield v ''action'' = Some ''ask'' \<and> holds is_object_id (sfield reply ''runId'') \<and> holds is_object_id (sfield reply ''recordId'')
     \<and> field reply ''verified'' = Some (JBool False)
     \<and> holds (\<lambda>s. s \<noteq> []) (sfield reply ''text'') \<and> holds (\<lambda>s. s \<noteq> []) (sfield reply ''model'')
     \<and> holds (\<lambda>n. is_safe_integer (Some n) \<and> 0 \<le> n) (nfield reply ''inputTokens'')
     \<and> holds (\<lambda>n. is_safe_integer (Some n) \<and> 0 \<le> n) (nfield reply ''outputTokens'')"

definition pick :: "json \<Rightarrow> string \<Rightarrow> string \<times> json" where
  "pick v k = (k, the (field v k))"

definition normal_request :: "json \<Rightarrow> json" where
  "normal_request r = JObject ([pick r ''message''] @ (case field r ''task'' of None \<Rightarrow> [] | Some t \<Rightarrow> [(''task'', t)]) @ [pick r ''bounds''])"

definition normal_reply :: "json \<Rightarrow> json" where
  "normal_reply r = JObject (map (pick r) [''runId'', ''recordId''] @ [(''verified'', JBool False)]
     @ map (pick r) [''text'', ''model'', ''inputTokens'', ''outputTokens''])"

definition normal_source :: "json \<Rightarrow> json" where
  "normal_source v = JObject (map (pick v) source_texts @ [(''request'', normal_request (the (field v ''request'')))]
     @ (case field v ''reply'' of None \<Rightarrow> [] | Some r \<Rightarrow> [(''reply'', normal_reply r)]))"

definition normalizeMessageOkrSource :: "hash_env \<Rightarrow> json \<Rightarrow> (source_error, json) result" where
  "normalizeMessageOkrSource H v =
    (if source_fields_ok v \<and> source_hash_ok H v
        \<and> (case field v ''reply'' of None \<Rightarrow> True | Some r \<Rightarrow> reply_ok v r)
        \<and> canonical (normal_source v) = canonical v \<and> length (stringify (normal_source v)) \<le> 32768
     then Inr (normal_source v) else Inl Invalid_source)"

section \<open>Reading and verifying\<close>

record source_message =
  sm_org_id :: string
  sm_managed_agent :: string
  sm_managed_version :: string
  sm_membership_id :: string
  sm_id :: string
  sm_encrypted_record :: string
  sm_permission_id :: string
  sm_permission_version :: string
  sm_human_id :: string
  sm_writer_device :: string
  sm_created_at_ms :: string
  sm_action :: string
  sm_request_hash :: string

text \<open>The reply found in a successful run, with the run and the record it was read from.\<close>

record source_view =
  sv_message :: source_message
  sv_request :: json
  sv_run_state :: "int option"
  sv_response_ok :: bool
  sv_recordId :: "string option"
  sv_runId :: string
  sv_modelReply :: "(string \<times> string \<times> int \<times> int) option"

record 'r source_env =
  so_network :: string
  so_organizationId :: string
  so_managedAgentId :: string
  so_checkNetwork :: "('r, source_error, string) eff"
  so_message :: "string \<Rightarrow> ('r, source_error, source_view) eff"

definition view_reply :: "source_view \<Rightarrow> (string \<times> json) list" where
  "view_reply view =
    (if sm_action (sv_message view) = ''ask'' \<and> sv_run_state view = Some 2 \<and> sv_response_ok view
        \<and> sv_recordId view \<noteq> None \<and> sv_recordId view \<noteq> Some []
     then (case sv_modelReply view of None \<Rightarrow> []
           | Some (txt, model, inputTokens, outputTokens) \<Rightarrow>
               [(''reply'', JObject [(''runId'', JString (sv_runId view)), (''recordId'', JString (the (sv_recordId view))),
                  (''verified'', JBool False), (''text'', JString txt), (''model'', JString model),
                  (''inputTokens'', JNumber inputTokens), (''outputTokens'', JNumber outputTokens)])])
     else [])"

definition view_source :: "'r source_env \<Rightarrow> string \<Rightarrow> source_view \<Rightarrow> json" where
  "view_source env chainIdentifier view =
    (let m = sv_message view in
     JObject ([(''schema'', JString ''fractalmind.okr-message-source.v1''), (''network'', JString (so_network env)),
       (''chainIdentifier'', JString chainIdentifier), (''organizationId'', JString (sm_org_id m)),
       (''managedAgentId'', JString (sm_managed_agent m)), (''managedVersion'', JString (sm_managed_version m)),
       (''membershipId'', JString (sm_membership_id m)), (''messageId'', JString (sm_id m)),
       (''messageRecordId'', JString (sm_encrypted_record m)), (''permissionId'', JString (sm_permission_id m)),
       (''permissionVersion'', JString (sm_permission_version m)), (''authorHumanId'', JString (sm_human_id m)),
       (''authorDevice'', JString (sm_writer_device m)), (''createdAtMs'', JString (sm_created_at_ms m)),
       (''action'', JString (sm_action m)), (''requestHash'', JString (bytesToHex (sm_request_hash m))),
       (''request'', sv_request view)] @ view_reply view))"

definition readMessageOkrSource :: "hash_env \<Rightarrow> 'r source_env \<Rightarrow> string \<Rightarrow> ('r, source_error, json) eff" where
  "readMessageOkrSource H env messageId =
     bindE (so_checkNetwork env) (\<lambda>chainIdentifier.
     bindE (so_message env messageId) (\<lambda>view.
     bindE (so_checkNetwork env) (\<lambda>again.
     bindE (assertE (again = chainIdentifier) Source_changed) (\<lambda>_.
     liftR (normalizeMessageOkrSource H (view_source env chainIdentifier view))))))"

definition without_reply :: "json \<Rightarrow> json" where
  "without_reply v = (case the_object v of None \<Rightarrow> v | Some ms \<Rightarrow> JObject (filter (\<lambda>m. fst m \<noteq> ''reply'') ms))"

definition verifyMessageOkrSource :: "hash_env \<Rightarrow> 'r source_env \<Rightarrow> json \<Rightarrow> ('r, source_error, unit) eff" where
  "verifyMessageOkrSource H env raw =
     bindE (liftR (normalizeMessageOkrSource H raw)) (\<lambda>expected.
     bindE (assertE (sfield expected ''organizationId'' = Some (so_organizationId env)
              \<and> sfield expected ''managedAgentId'' = Some (so_managedAgentId env)
              \<and> sfield expected ''network'' = Some (so_network env)) Invalid_source) (\<lambda>_.
     bindE (readMessageOkrSource H env (the (sfield expected ''messageId''))) (\<lambda>current.
     let shown = (if field expected ''reply'' = None then without_reply current else current) in
     assertE (canonical shown = canonical expected) Source_changed)))"

section \<open>Normal forms are stable\<close>

lemma field_JObject [simp]: "field (JObject ms) k = map_of ms k"
  by (simp add: field_def)

lemma map_of_pick: "map_of (map (pick v) ks @ ms) k = (if k \<in> set ks then Some (the (field v k)) else map_of ms k)"
  by (induction ks) (auto simp: pick_def)

lemma source_texts_other: "''request'' \<notin> set source_texts" "''reply'' \<notin> set source_texts"
  by code_simp+

lemma source_texts_action: "''action'' \<in> set source_texts" "''requestHash'' \<in> set source_texts"
  by code_simp+

lemma normal_source_text: "k \<in> set source_texts \<Longrightarrow> field v k \<noteq> None \<Longrightarrow> field (normal_source v) k = field v k"
  by (simp only: normal_source_def field_JObject map_of_pick if_True) (simp add: option.expand)

lemma normal_source_request: "field (normal_source v) ''request'' = Some (normal_request (the (field v ''request'')))"
  by (simp only: normal_source_def field_JObject map_of_pick source_texts_other if_False) simp

lemma normal_source_reply: "field (normal_source v) ''reply'' = map_option normal_reply (field v ''reply'')"
  by (simp only: normal_source_def field_JObject map_of_pick source_texts_other if_False) (simp split: option.split)

lemma holds_iff: "holds P x \<longleftrightarrow> x \<noteq> None \<and> P (the x)"
  by (cases x) (simp_all add: holds_def)

lemma source_hash_present: "source_hash_ok H v \<Longrightarrow> sfield v ''requestHash'' \<noteq> None"
  by (auto simp: source_hash_ok_def split: option.splits)

lemma source_texts_present:
  assumes "source_fields_ok v" "source_hash_ok H v" "k \<in> set source_texts"
  shows "field v k \<noteq> None"
proof -
  have "list_all (\<lambda>k. sfield v k \<noteq> None) source_texts"
    using assms(1) source_hash_present [OF assms(2)]
    unfolding source_fields_ok_def source_texts_def holds_iff list.pred_inject by (simp del: not_None_eq)
  then have "sfield v k \<noteq> None" using assms(3) by (auto simp only: list_all_iff)
  then show ?thesis by (auto simp: sfield_def split: option.splits)
qed

lemma normal_request_fields:
  assumes "field r ''message'' \<noteq> None" "field r ''bounds'' \<noteq> None"
  shows "field (normal_request r) ''message'' = field r ''message''" "field (normal_request r) ''task'' = field r ''task''"
    "field (normal_request r) ''bounds'' = field r ''bounds''"
  using assms by (auto simp: normal_request_def pick_def split: option.split)

lemma normal_request_idem: "normal_request (normal_request r) = normal_request r"
  by (auto simp: normal_request_def pick_def split: option.split)

lemma normal_reply_idem: "normal_reply (normal_reply r) = normal_reply r"
  by (simp add: normal_reply_def pick_def)

lemma directRequestHash_normal:
  assumes "directRequestHash H r a \<noteq> None"
  shows "directRequestHash H (normal_request r) a = directRequestHash H r a"
proof -
  have "field r ''message'' = None \<Longrightarrow> directRequestHash H r a = None" by (simp add: directRequestHash_def)
  moreover have "field r ''bounds'' = None \<Longrightarrow> directRequestHash H r a = None"
    by (simp add: directRequestHash_def split: option.split json.split)
  ultimately have "field r ''message'' \<noteq> None" "field r ''bounds'' \<noteq> None" using assms by blast+
  from normal_request_fields [OF this] show ?thesis by (simp add: directRequestHash_def request_task_def)
qed

lemma reply_ok_normal:
  assumes "reply_ok v r" "sfield w ''action'' = sfield v ''action''"
  shows "reply_ok w (normal_reply r)"
proof -
  have "field r k \<noteq> None" if "k \<in> {''runId'', ''recordId'', ''text'', ''model'', ''inputTokens'', ''outputTokens''}" for k
    using that assms(1) by (auto simp: reply_ok_def holds_def sfield_def nfield_def split: option.splits)
  then have same: "field (normal_reply r) k = field r k"
    if "k \<in> {''runId'', ''recordId'', ''text'', ''model'', ''inputTokens'', ''outputTokens''}" for k
    using that by (auto simp: normal_reply_def pick_def)
  have "field (normal_reply r) ''verified'' = Some (JBool False)" by (simp add: normal_reply_def pick_def)
  with assms show ?thesis by (simp add: reply_ok_def sfield_def nfield_def same)
qed

lemma normalize_source_idem:
  assumes "normalizeMessageOkrSource H v = Inr n"
  shows "normalizeMessageOkrSource H n = Inr n"
proof -
  from assms have ok: "source_fields_ok v" "source_hash_ok H v" "case field v ''reply'' of None \<Rightarrow> True | Some r \<Rightarrow> reply_ok v r"
      "length (stringify (normal_source v)) \<le> 32768" and n: "n = normal_source v"
    by (auto simp: normalizeMessageOkrSource_def split: if_split_asm)
  have texts: "field n k = field v k" if "k \<in> set source_texts" for k
    using that normal_source_text source_texts_present [OF ok(1,2)] n by blast
  then have stexts: "sfield n k = sfield v k" if "k \<in> set source_texts" for k
    using that by (simp add: sfield_def)
  then have "list_all (\<lambda>k. sfield n k = sfield v k) source_texts" by (simp only: list_all_iff) blast
  then have fields: "source_fields_ok n"
    using ok(1) unfolding source_fields_ok_def source_texts_def list.pred_inject by simp
  obtain r a hash where r: "field v ''request'' = Some r" "sfield v ''action'' = Some a" "sfield v ''requestHash'' = Some hash"
    "map_option bytesToHex (directRequestHash H r a) = Some hash"
    using ok(2) by (auto simp: source_hash_ok_def split: option.splits)
  have request: "field n ''request'' = Some (normal_request r)" using normal_source_request [of v] r(1) n by simp
  have hash: "source_hash_ok H n"
    using r request stexts [OF source_texts_action(1)] stexts [OF source_texts_action(2)] directRequestHash_normal [of H r a]
    by (auto simp: source_hash_ok_def)
  have reply: "field n ''reply'' = map_option normal_reply (field v ''reply'')" using normal_source_reply n by simp
  have rep: "case field n ''reply'' of None \<Rightarrow> True | Some r \<Rightarrow> reply_ok n r"
    using ok(3) reply reply_ok_normal stexts [OF source_texts_action(1)] by (auto split: option.splits)
  have picks: "map (pick n) source_texts = map (pick v) source_texts" using texts by (simp add: pick_def)
  have "normal_source n = JObject (map (pick v) source_texts @ [(''request'', normal_request r)]
      @ (case field v ''reply'' of None \<Rightarrow> [] | Some x \<Rightarrow> [(''reply'', normal_reply x)]))"
    unfolding normal_source_def picks request reply
    by (simp add: normal_request_idem normal_reply_idem split: option.split)
  then have "normal_source n = n" by (simp add: n normal_source_def [of v] r(1))
  then show ?thesis using fields hash rep ok(4) unfolding normalizeMessageOkrSource_def by (simp add: n [symmetric])
qed

end
