(* ===== verification/Okr_Spec.thy ===== *)
theory Okr_Spec
  imports Message_Source
begin

text \<open>
  The specification of an objective: normalizing a draft (\<^verbatim>\<open>normalizeDraft\<close> of
  \<^verbatim>\<open>apps/fractalmind-app/src/okr-draft.ts\<close>), reading a stored specification back
  (\<^verbatim>\<open>parseOkrSpecification\<close> of \<^verbatim>\<open>handover-plan.ts\<close>) and checking a plan against it
  (\<^verbatim>\<open>validateHandoverPlan\<close>). A field that may be missing or of any type is a \<open>json option\<close>.
\<close>

section \<open>Data\<close>

datatype draft_error = Draft_invalid_input | Draft_type_error | Draft_source source_error

record draft_kr =
  dk_title :: "json option"
  dk_unit :: "json option"
  dk_precision :: "json option"
  dk_baseline :: "json option"
  dk_target :: "json option"
  dk_weight :: "json option"
  dk_maxAgeMinutes :: "json option"
  dk_verificationRule :: "json option"

record draft_input =
  di_objective :: "json option"
  di_successCriteria :: "json option"
  di_priority :: "json option"
  di_deadlineMs :: "json option"
  di_krs :: "draft_kr list option"
  di_allowedPaths :: "json option"
  di_prohibitedActions :: "json option"
  di_maxCalls :: "json option"
  di_source :: "json option"

record spec_kr =
  sk_title :: string
  sk_unit :: string
  sk_precision :: nat
  sk_scale :: string
  sk_baseline :: string
  sk_target :: string
  sk_weight :: string
  sk_maxAgeMs :: string
  sk_verificationRule :: string

record okr_spec =
  sp_source :: "json option"
  sp_objective :: string
  sp_successCriteria :: string
  sp_priority :: nat
  sp_deadlineMs :: string
  sp_krs :: "spec_kr list"
  sp_allowedPaths :: "string list"
  sp_prohibitedActions :: "string list"
  sp_budgetLimit :: string

section \<open>Fields\<close>

definition max_u64 :: int where
  "max_u64 = 18446744073709551615"

definition integer :: "json option \<Rightarrow> int \<Rightarrow> int \<Rightarrow> (draft_error, int) result" where
  "integer v maximum minimum =
    (case v of
       Some (JString s) \<Rightarrow>
         if \<not> is_decimal s \<or> 20 < length s \<or> dec_value s < minimum \<or> maximum < dec_value s then Inl Draft_invalid_input
         else Inr (dec_value s)
     | _ \<Rightarrow> Inl Draft_invalid_input)"

definition textR :: "json option \<Rightarrow> nat \<Rightarrow> (draft_error, string) result" where
  "textR v limit =
    (case v of
       Some (JString s) \<Rightarrow> if trim s = [] \<or> limit < length (trim s) then Inl Draft_invalid_input else Inr (trim s)
     | _ \<Rightarrow> Inl Draft_invalid_input)"

text \<open>\<^verbatim>\<open>/^(0|[1-9][0-9]*)(\.[0-9]+)?$/\<close>\<close>

definition metric_text :: "string \<Rightarrow> bool" where
  "metric_text s \<longleftrightarrow>
    (case split_at (CHR ''.'') s of
       [whole] \<Rightarrow> is_decimal whole
     | [whole, fraction] \<Rightarrow> is_decimal whole \<and> fraction \<noteq> [] \<and> list_all is_digit fraction
     | _ \<Rightarrow> False)"

fun precision_of :: "json option \<Rightarrow> nat option" where
  "precision_of (Some (JNumber n)) = (if 0 \<le> n \<and> n \<le> 6 then Some (nat n) else None)"
| "precision_of _ = None"

definition scaledMetric :: "json option \<Rightarrow> json option \<Rightarrow> (draft_error, string) result" where
  "scaledMetric value precision =
    (case (precision_of precision, value) of
       (Some p, Some (JString s)) \<Rightarrow>
         if 28 < length s \<or> \<not> metric_text s then Inl Draft_invalid_input
         else (let parts = split_at (CHR ''.'') s;
                   whole = hd parts;
                   fraction = (if tl parts = [] then [] else hd (tl parts)) in
               if p < length fraction then Inl Draft_invalid_input
               else let padded = padEnd p (CHR ''0'') fraction;
                        n = dec_value whole * 10 ^ p + dec_value (if padded = [] then ''0'' else padded) in
                    if max_u64 < n then Inl Draft_invalid_input else Inr (dec_string n))
     | _ \<Rightarrow> Inl Draft_invalid_input)"

definition bad_path :: "string \<Rightarrow> bool" where
  "bad_path p \<longleftrightarrow> startsWith p ''/'' \<or> CHR '':'' \<in> set p \<or> char_of (0 :: nat) \<in> set p
     \<or> list_ex (\<lambda>s. s = ''..'' \<or> s = []) (split_at (CHR ''/'') p)"

section \<open>Normalizing a draft\<close>

definition draft_paths :: "json option \<Rightarrow> (draft_error, string list) result" where
  "draft_paths v =
    (case v of
       Some (JArray xs) \<Rightarrow>
         bindR (mapR (\<lambda>x. bindR (textR (Some x) 256) (\<lambda>t. Inr (replaceChar (char_of (92 :: nat)) (CHR ''/'') t))) xs) (\<lambda>paths.
         if paths = [] \<or> 16 < length paths \<or> \<not> distinct paths \<or> list_ex bad_path paths then Inl Draft_invalid_input else Inr paths)
     | None \<Rightarrow> Inl Draft_invalid_input
     | Some JNull \<Rightarrow> Inl Draft_invalid_input
     | _ \<Rightarrow> Inl Draft_type_error)"

definition draft_actions :: "json option \<Rightarrow> (draft_error, json list) result" where
  "draft_actions v =
    (case v of
       Some (JArray xs) \<Rightarrow> if xs = [] \<or> 16 < length xs then Inl Draft_invalid_input else Inr xs
     | _ \<Rightarrow> Inl Draft_invalid_input)"

definition normalize_kr :: "draft_kr \<Rightarrow> (draft_error, spec_kr) result" where
  "normalize_kr kr =
     bindR (scaledMetric (dk_baseline kr) (dk_precision kr)) (\<lambda>baseline.
     bindR (scaledMetric (dk_target kr) (dk_precision kr)) (\<lambda>target.
     bindR (assertR (baseline \<noteq> target) Draft_invalid_input) (\<lambda>_.
     bindR (textR (dk_title kr) 256) (\<lambda>title.
     bindR (textR (dk_unit kr) 64) (\<lambda>unit.
     bindR (integer (dk_weight kr) 1000000 1) (\<lambda>weight.
     bindR (integer (dk_maxAgeMinutes kr) 43200 1) (\<lambda>minutes.
     bindR (textR (dk_verificationRule kr) 2048) (\<lambda>rule.
     let p = the (precision_of (dk_precision kr)) in
     Inr \<lparr>sk_title = title, sk_unit = unit, sk_precision = p, sk_scale = dec_string (10 ^ p), sk_baseline = baseline,
          sk_target = target, sk_weight = dec_string weight, sk_maxAgeMs = dec_string (minutes * 60000), sk_verificationRule = rule\<rparr>))))))))"

definition draft_head_ok :: "draft_input \<Rightarrow> bool" where
  "draft_head_ok d \<longleftrightarrow>
    (case (di_krs d, di_priority d) of
       (Some krs, Some (JNumber n)) \<Rightarrow> 1 \<le> length krs \<and> length krs \<le> 3 \<and> 0 \<le> n \<and> n \<le> 2
     | _ \<Rightarrow> False)"

definition normalize_source :: "hash_env \<Rightarrow> json option \<Rightarrow> (draft_error, json option) result" where
  "normalize_source H v =
    (case v of None \<Rightarrow> Inr None
     | Some s \<Rightarrow> (case normalizeMessageOkrSource H s of Inl e \<Rightarrow> Inl (Draft_source e) | Inr n \<Rightarrow> Inr (Some n)))"

definition normalizeDraft :: "hash_env \<Rightarrow> draft_input \<Rightarrow> (draft_error, okr_spec) result" where
  "normalizeDraft H d =
     bindR (assertR (draft_head_ok d) Draft_invalid_input) (\<lambda>_.
     bindR (draft_paths (di_allowedPaths d)) (\<lambda>paths.
     bindR (draft_actions (di_prohibitedActions d)) (\<lambda>actions.
     bindR (mapR normalize_kr (the (di_krs d))) (\<lambda>krs.
     bindR (normalize_source H (di_source d)) (\<lambda>source.
     bindR (textR (di_objective d) 512) (\<lambda>objective.
     bindR (textR (di_successCriteria d) 4096) (\<lambda>successCriteria.
     bindR (integer (di_deadlineMs d) max_u64 1) (\<lambda>deadline.
     bindR (mapR (\<lambda>a. textR (Some a) 512) actions) (\<lambda>prohibited.
     bindR (integer (di_maxCalls d) max_u64 1) (\<lambda>limit.
     Inr \<lparr>sp_source = source, sp_objective = objective, sp_successCriteria = successCriteria,
          sp_priority = (case di_priority d of Some (JNumber n) \<Rightarrow> nat n | _ \<Rightarrow> 0), sp_deadlineMs = dec_string deadline,
          sp_krs = krs, sp_allowedPaths = paths, sp_prohibitedActions = prohibited, sp_budgetLimit = dec_string limit\<rparr>))))))))))"

definition spec_kr_json :: "spec_kr \<Rightarrow> json" where
  "spec_kr_json k = JObject [(''title'', JString (sk_title k)), (''unit'', JString (sk_unit k)), (''precision'', JNumber (int (sk_precision k))),
     (''scale'', JString (sk_scale k)), (''baseline'', JString (sk_baseline k)), (''target'', JString (sk_target k)),
     (''weight'', JString (sk_weight k)), (''maxAgeMs'', JString (sk_maxAgeMs k)), (''verificationRule'', JString (sk_verificationRule k))]"

definition spec_json :: "okr_spec \<Rightarrow> json" where
  "spec_json s = JObject ([(''schema'', JString ''fractalmind.okr-spec.v1'')]
     @ (case sp_source s of None \<Rightarrow> [] | Some v \<Rightarrow> [(''source'', v)])
     @ [(''objective'', JString (sp_objective s)), (''successCriteria'', JString (sp_successCriteria s)),
        (''priority'', JNumber (int (sp_priority s))), (''deadlineMs'', JString (sp_deadlineMs s)),
        (''krs'', JArray (map spec_kr_json (sp_krs s))),
        (''constraints'', JObject [(''allowedPaths'', JArray (map JString (sp_allowedPaths s))),
           (''prohibitedActions'', JArray (map JString (sp_prohibitedActions s))),
           (''budget'', JObject [(''asset'', JString ''TOOL_CALLS''), (''limit'', JString (sp_budgetLimit s))])])])"

section \<open>Reading a specification back\<close>

definition decimal :: "json option \<Rightarrow> json option \<Rightarrow> (unit, string) result" where
  "decimal value precision =
    (case (precision_of precision, value) of
       (Some p, Some (JString s)) \<Rightarrow>
         if \<not> is_decimal s \<or> 20 < length s \<or> max_u64 < dec_value s then Inl ()
         else if p = 0 then Inr s
         else (let padded = padStart (p + 1) (CHR ''0'') s in
               Inr (take (length padded - p) padded @ ''.'' @ drop (length padded - p) padded))
     | _ \<Rightarrow> Inl ())"

definition parse_spec_kr :: "json \<Rightarrow> (unit, draft_kr) result" where
  "parse_spec_kr v =
     bindR (assertR (the_object v \<noteq> None) ()) (\<lambda>_.
     case sfield v ''maxAgeMs'' of
       None \<Rightarrow> Inl ()
     | Some age \<Rightarrow>
         if \<not> positive_text age \<or> 20 < length age \<or> dec_value age mod 60000 \<noteq> 0 then Inl ()
         else bindR (decimal (field v ''baseline'') (field v ''precision'')) (\<lambda>baseline.
              bindR (decimal (field v ''target'') (field v ''precision'')) (\<lambda>target.
              Inr \<lparr>dk_title = field v ''title'', dk_unit = field v ''unit'', dk_precision = field v ''precision'',
                   dk_baseline = Some (JString baseline), dk_target = Some (JString target), dk_weight = field v ''weight'',
                   dk_maxAgeMinutes = Some (JString (dec_string (dec_value age div 60000))),
                   dk_verificationRule = field v ''verificationRule''\<rparr>)))"

text \<open>Every failure is \<^verbatim>\<open>invalid_spec\<close>.\<close>

definition parseOkrSpecification :: "hash_env \<Rightarrow> json \<Rightarrow> okr_spec option" where
  "parseOkrSpecification H v =
    (case (field v ''constraints'', field v ''krs'') of
       (Some constraints, Some (JArray raw)) \<Rightarrow>
         if the_object constraints = None \<or> sfield v ''schema'' \<noteq> Some ''fractalmind.okr-spec.v1'' then None
         else (case field constraints ''budget'' of None \<Rightarrow> None
          | Some budget \<Rightarrow>
             if sfield budget ''asset'' \<noteq> Some ''TOOL_CALLS'' then None
             else (case mapR parse_spec_kr raw of Inl _ \<Rightarrow> None
              | Inr krs \<Rightarrow>
                 (case normalizeDraft H \<lparr>di_objective = field v ''objective'', di_successCriteria = field v ''successCriteria'',
                      di_priority = field v ''priority'', di_deadlineMs = field v ''deadlineMs'', di_krs = Some krs,
                      di_allowedPaths = field constraints ''allowedPaths'', di_prohibitedActions = field constraints ''prohibitedActions'',
                      di_maxCalls = field budget ''limit'', di_source = field v ''source''\<rparr> of
                    Inl _ \<Rightarrow> None
                  | Inr spec \<Rightarrow> if canonical (spec_json spec) = canonical v then Some spec else None)))
     | _ \<Rightarrow> None)"

section \<open>Checking a plan\<close>

datatype plan_error = Plan_invalid_spec | Plan_invalid_plan | Plan_mismatch | Unsupported_constraint

record proposal =
  pr_paths :: "(string \<times> json) list"
  pr_budget_asset :: string
  pr_budget_limit :: int
  pr_max_calls :: int

definition within :: "string \<Rightarrow> string \<Rightarrow> bool" where
  "within path directory \<longleftrightarrow> directory = ''.'' \<or> path = directory \<or> startsWith path (directory @ ''/'')"

text \<open>The prose constraints that the file profile enforces by itself; the Chinese ones as UTF-8.\<close>

definition utf8 :: "nat list \<Rightarrow> string" where
  "utf8 = map char_of"

definition excluded :: "string list" where
  "excluded = [''network.*'', ''shell.*'', ''process.*'', ''file.delete'', ''external network'', ''no shell'', ''write outside project'',
     utf8 [231, 166, 129, 230, 173, 162, 229, 164, 150, 233, 131, 168, 231, 189, 145, 231, 187, 156],
     utf8 [231, 166, 129, 230, 173, 162, 230, 137, 167, 232, 161, 140, 32] @ ''shell'',
     utf8 [231, 166, 129, 230, 173, 162, 229, 134, 153, 229, 133, 165, 233, 161, 185, 231, 155, 174, 229, 164, 150]]"

definition file_units :: "string list" where
  "file_units = [''files'', utf8 [230, 150, 135, 228, 187, 182]]"

fun check_actions :: "okr_plan \<Rightarrow> string list \<Rightarrow> (plan_error, unit) result" where
  "check_actions plan [] = Inr ()"
| "check_actions plan (a # as) =
    (if a \<in> set boundary_actions then (if a \<in> fst ` set (op_paths plan) then Inl Plan_mismatch else check_actions plan as)
     else if a \<notin> set excluded then Inl Unsupported_constraint else check_actions plan as)"

definition kr_matches :: "okr_plan \<Rightarrow> proposal \<Rightarrow> kr_plan \<Rightarrow> spec_kr \<Rightarrow> bool" where
  "kr_matches plan proposal kr metric \<longleftrightarrow>
     sk_unit metric \<in> set file_units \<and> sk_precision metric = 0 \<and> sk_scale metric = ''1'' \<and> sk_baseline metric = ''0''
     \<and> sk_target metric = dec_string (int (length (kp_files kr))) \<and> dec_value (kp_maxCalls kr) \<le> pr_max_calls proposal
     \<and> list_all (\<lambda>f. list_all (\<lambda>a. case map_of (op_paths plan) a of None \<Rightarrow> False
          | Some ds \<Rightarrow> list_ex (\<lambda>d. within (fg_path f) d) ds) [''file.read'', ''file.write'']) (kp_files kr)"

fun check_krs :: "okr_plan \<Rightarrow> proposal \<Rightarrow> kr_plan list \<Rightarrow> spec_kr list \<Rightarrow> int \<Rightarrow> (plan_error, int) result" where
  "check_krs plan proposal (kr # krs) (m # ms) tot =
    (if kr_matches plan proposal kr m then check_krs plan proposal krs ms (tot + dec_value (kp_maxCalls kr)) else Inl Plan_mismatch)"
| "check_krs plan proposal _ _ tot = Inr tot"

definition plan_fits :: "hash_env \<Rightarrow> okr_spec \<Rightarrow> okr_plan \<Rightarrow> (string \<times> json) list \<Rightarrow> proposal \<Rightarrow> bool" where
  "plan_fits H spec plan planPaths proposal \<longleftrightarrow>
     executionBoundaryHash H planPaths = executionBoundaryHash H (pr_paths proposal)
     \<and> pr_budget_asset proposal = ''TOOL_CALLS'' \<and> pr_budget_limit proposal \<le> dec_value (sp_budgetLimit spec)
     \<and> length (op_krs plan) = length (sp_krs spec)
     \<and> list_all (\<lambda>p. p = ''.'' \<or> ''.'' \<notin> set (split_at (CHR ''/'') p)) (sp_allowedPaths spec)"

definition paths_json :: "okr_plan \<Rightarrow> (string \<times> json) list" where
  "paths_json plan = map (\<lambda>(a, ds). (a, JArray (map JString ds))) (op_paths plan)"

definition validateHandoverPlan :: "hash_env \<Rightarrow> json \<Rightarrow> json \<Rightarrow> proposal \<Rightarrow> (plan_error, okr_spec \<times> okr_plan) result" where
  "validateHandoverPlan H rawSpec rawPlan proposal =
    (case parseOkrSpecification H rawSpec of None \<Rightarrow> Inl Plan_invalid_spec
     | Some spec \<Rightarrow>
        (case parseNativeFileOkrPlan H rawPlan of None \<Rightarrow> Inl Plan_invalid_plan
         | Some plan \<Rightarrow>
            bindR (case executionBoundaryHash H (pr_paths proposal) of None \<Rightarrow> Inl Plan_invalid_plan | Some _ \<Rightarrow> Inr ()) (\<lambda>_.
            bindR (assertR (plan_fits H spec plan (paths_json plan) proposal) Plan_mismatch) (\<lambda>_.
            bindR (check_actions plan (sp_prohibitedActions spec)) (\<lambda>_.
            bindR (assertR (list_all (\<lambda>(_, ds). list_all (\<lambda>p. list_ex (within p) (sp_allowedPaths spec)) ds) (op_paths plan)) Plan_mismatch) (\<lambda>_.
            bindR (check_krs plan proposal (op_krs plan) (sp_krs spec) 0) (\<lambda>tot.
            bindR (assertR (tot \<le> pr_budget_limit proposal) Plan_mismatch) (\<lambda>_.
            Inr (spec, plan)))))))))"

section \<open>Numerals\<close>

lemma dec_digits_length: "n < 10 ^ k \<Longrightarrow> 0 < k \<Longrightarrow> length (dec_digits n) \<le> k"
proof (induction n arbitrary: k rule: dec_digits.induct)
  case (1 n)
  show ?case
  proof (cases "n < 10")
    case True
    then show ?thesis using 1 by (subst dec_digits.simps) simp
  next
    case False
    then obtain j where k: "k = Suc j" "0 < j" using 1 by (cases k; cases "k - 1") auto
    then have "n div 10 < 10 ^ j" using 1(2) by (simp add: less_mult_imp_div_less mult.commute)
    then have "length (dec_digits (n div 10)) \<le> j" using 1(1) False k by simp
    then show ?thesis using False k by (subst dec_digits.simps) simp
  qed
qed

lemma dec_string_length: "0 \<le> i \<Longrightarrow> i < 10 ^ k \<Longrightarrow> 0 < k \<Longrightarrow> length (dec_string i) \<le> k"
  using dec_digits_length [of "nat i" k] by (simp add: dec_string_def nat_less_iff)

lemma u64_length: "0 \<le> i \<Longrightarrow> i \<le> max_u64 \<Longrightarrow> length (dec_string i) \<le> 20"
  by (rule dec_string_length) (simp_all add: max_u64_def)

lemma positive_text_string: "0 < i \<Longrightarrow> positive_text (dec_string i)"
  using dec_digits_hd [of "nat i"] by (simp add: positive_text_def dec_string_def)

section \<open>Fixed-point texts\<close>

lemma digits_no_dot: "list_all is_digit s \<Longrightarrow> CHR ''.'' \<notin> set s"
  by (auto simp: list_all_iff is_digit_def)

lemma decimal_digits: "is_decimal s \<Longrightarrow> list_all is_digit s \<and> s \<noteq> []"
  by (auto simp: is_decimal_def is_digit_def)

text \<open>The pieces of the padded numeral.\<close>

lemma padded_parts:
  assumes "is_decimal s" "0 < p"
  defines "t \<equiv> padStart (p + 1) (CHR ''0'') s"
  shows "list_all is_digit t" "p < length t" "is_decimal (take (length t - p) t)" "dec_value t = dec_value s"
    "length t \<le> max (length s) (p + 1)"
proof -
  have zero: "is_digit (CHR ''0'')" by code_simp
  show digits: "list_all is_digit t"
    using decimal_digits [OF assms(1)] zero by (auto simp: t_def padStart_def list_all_iff)
  show len: "p < length t" "length t \<le> max (length s) (p + 1)" by (auto simp: t_def padStart_def)
  show "dec_value t = dec_value s" by (simp add: t_def padStart_def)
  show "is_decimal (take (length t - p) t)"
  proof (cases "p + 1 \<le> length s")
    case True
    then have t: "t = s" by (simp add: t_def padStart_def)
    have "s \<noteq> ''0''" using True assms(2) by auto
    with assms(1) have "s \<noteq> []" "list_all is_digit s" "hd s \<noteq> CHR ''0''" by (auto simp: is_decimal_def)
    moreover have "take (length s - p) s \<noteq> []" using True by auto
    ultimately show ?thesis unfolding t is_decimal_def
      using True by (auto simp: list_all_iff hd_take dest: in_set_takeD)
  next
    case False
    then have "length t - p = 1" "hd t = CHR ''0''" "t \<noteq> []" using decimal_digits [OF assms(1)] by (auto simp: t_def padStart_def)
    then have "take (length t - p) t = ''0''" by (cases t) auto
    then show ?thesis by (simp add: is_decimal_def)
  qed
qed

lemma scaledMetric_decimal:
  assumes "precision_of prec = Some p" "is_decimal s" "length s \<le> 20" "dec_value s \<le> max_u64"
  shows "\<exists>t. decimal (Some (JString s)) prec = Inr t \<and> scaledMetric (Some (JString t)) prec = Inr s"
proof (cases "p = 0")
  case True
  have "split_at (CHR ''.'') s = [s]" using decimal_digits [OF assms(2)] digits_no_dot split_at_plain by blast
  moreover have "dec_value ''0'' = 0" by code_simp
  ultimately show ?thesis
    using assms True by (simp add: decimal_def scaledMetric_def metric_text_def Let_def padEnd_def dec_string_decimal)
next
  case False
  define t where "t = padStart (p + 1) (CHR ''0'') s"
  define a b where "a = take (length t - p) t" and "b = drop (length t - p) t"
  have parts: "list_all is_digit t" "p < length t" "is_decimal a" "dec_value t = dec_value s" "length t \<le> max (length s) (p + 1)"
    using padded_parts [OF assms(2), of p] False by (simp_all add: t_def a_def)
  have p6: "p \<le> 6" using assms(1) by (cases prec rule: precision_of.cases) (auto split: if_split_asm)
  have t: "t = a @ b" by (simp add: a_def b_def)
  have digits: "list_all is_digit a" "list_all is_digit b" using parts(1) by (simp_all add: t)
  have lb: "length b = p" using parts(2) by (simp add: b_def)
  then have "b \<noteq> []" using False by auto
  have split: "split_at (CHR ''.'') (a @ ''.'' @ b) = [a, b]"
    using digits digits_no_dot split_at_append [of "CHR ''.''" a b] split_at_plain by simp
  have "length (a @ ''.'' @ b) \<le> 28" using parts(5) assms(3) p6 t by (simp add: max_def split: if_split_asm)
  moreover have "dec_value a * 10 ^ p + dec_value b = dec_value s" using parts(4) lb by (simp add: t dec_value_append)
  moreover have "decimal (Some (JString s)) prec = Inr (a @ ''.'' @ b)"
    using assms False by (simp add: decimal_def Let_def t_def a_def b_def)
  ultimately show ?thesis
    using assms parts(3) digits(2) \<open>b \<noteq> []\<close> lb split
    by (simp add: scaledMetric_def metric_text_def Let_def padEnd_def dec_string_decimal)
qed

lemma scaledMetric_Inr:
  assumes "scaledMetric v prec = Inr b"
  shows "is_decimal b" "length b \<le> 20" "dec_value b \<le> max_u64" "precision_of prec \<noteq> None"
proof -
  from assms obtain n where "b = dec_string n" "0 \<le> n" "n \<le> max_u64" "precision_of prec \<noteq> None"
    by (auto simp: scaledMetric_def Let_def split: option.splits json.splits if_split_asm)
  then show "is_decimal b" "length b \<le> 20" "dec_value b \<le> max_u64" "precision_of prec \<noteq> None" by (simp_all add: u64_length)
qed

section \<open>Normal fields are stable\<close>

lemma textR_idem: "textR v n = Inr t \<Longrightarrow> textR (Some (JString t)) n = Inr t"
  by (auto simp: textR_def split: option.splits json.splits if_split_asm)

lemma integer_idem: "integer v mx mn = Inr n \<Longrightarrow> integer (Some (JString (dec_string n))) mx mn = Inr n"
  by (auto simp: integer_def dec_string_decimal split: option.splits json.splits if_split_asm)

lemma integer_Inr: "integer v mx mn = Inr n \<Longrightarrow> mn \<le> n \<and> n \<le> mx"
  by (auto simp: integer_def split: option.splits json.splits if_split_asm)

lemma spaces_no_slash: "list_all (\<lambda>w. CHR ''/'' \<notin> set w) js_spaces"
  by code_simp

lemma stripped_replace:
  assumes "stripped ws s" "list_all (\<lambda>w. b \<notin> set w) ws"
  shows "stripped ws (replaceChar a b s)"
  unfolding stripped_def
proof (intro ballI)
  fix w
  assume w: "w \<in> set ws"
  with assms(2) have b: "b \<notin> set w" by (auto simp: list_all_iff)
  show "w = [] \<or> take (length w) (replaceChar a b s) \<noteq> w"
  proof (cases "take (length w) (replaceChar a b s) = w")
    case True
    then have map: "map (\<lambda>c. if c = a then b else c) (take (length w) s) = w" by (simp add: replaceChar_def take_map)
    have "a \<notin> set (take (length w) s)"
    proof
      assume "a \<in> set (take (length w) s)"
      then have "b \<in> set (map (\<lambda>c. if c = a then b else c) (take (length w) s))" by force
      with map b show False by simp
    qed
    then have "map (\<lambda>c. if c = a then b else c) (take (length w) s) = take (length w) s" by (intro map_idI) auto
    with map have "take (length w) s = w" by simp
    with assms(1) w show ?thesis by (auto simp: stripped_def)
  qed simp
qed

lemma trim_stripped: "trim s = s \<longleftrightarrow> stripped js_spaces s \<and> stripped (map rev js_spaces) (rev s)"
proof
  assume "trim s = s"
  then have s: "trimEnd (trimStart s) = s" by (simp add: trim_def)
  obtain p q where "s = p @ trimStart s" "trimStart s = trimEnd (trimStart s) @ q"
    using strip_suffix trimEnd_prefix by (metis trimStart_def)
  then have "trimStart s = s" using s by (metis append_Nil append_eq_append_conv length_append le_add2 le_antisym le_add1)
  moreover from this s have "trimEnd s = s" by simp
  ultimately show "stripped js_spaces s \<and> stripped (map rev js_spaces) (rev s)"
    using strip_stripped by (metis trimStart_def trimEnd_def rev_rev_ident)
next
  assume "stripped js_spaces s \<and> stripped (map rev js_spaces) (rev s)"
  then show "trim s = s" by (simp add: trim_def trimStart_def trimEnd_def strip_id)
qed

lemma trim_replace: "trim s = s \<Longrightarrow> trim (replaceChar a (CHR ''/'') s) = replaceChar a (CHR ''/'') s"
proof -
  assume "trim s = s"
  then have s: "stripped js_spaces s" "stripped (map rev js_spaces) (rev s)" by (simp_all add: trim_stripped)
  have "list_all (\<lambda>w. CHR ''/'' \<notin> set w) (map rev js_spaces)" using spaces_no_slash by (simp add: list.pred_map o_def)
  with s have "stripped js_spaces (replaceChar a (CHR ''/'') s)" "stripped (map rev js_spaces) (replaceChar a (CHR ''/'') (rev s))"
    by (simp_all add: stripped_replace spaces_no_slash)
  then show ?thesis by (simp add: trim_stripped replaceChar_def rev_map)
qed

definition norm_path :: "json \<Rightarrow> (draft_error, string) result" where
  "norm_path x = bindR (textR (Some x) 256) (\<lambda>t. Inr (replaceChar (char_of (92 :: nat)) (CHR ''/'') t))"

lemma norm_path_idem:
  assumes "norm_path x = Inr p"
  shows "norm_path (JString p) = Inr p"
proof -
  from assms obtain t where t: "trim t = t" "t \<noteq> []" "length t \<le> 256" "p = replaceChar (char_of (92 :: nat)) (CHR ''/'') t"
    by (cases x) (auto simp: norm_path_def textR_def not_less split: if_split_asm intro: that [of "trim _"])
  have ne: "char_of (92 :: nat) \<noteq> CHR ''/''" by code_simp
  have "trim p = p" unfolding t(4) by (rule trim_replace [OF t(1)])
  moreover have "p \<noteq> []" "length p \<le> 256" using t by (auto simp: replaceChar_def)
  moreover have "replaceChar (char_of (92 :: nat)) (CHR ''/'') p = p" using ne by (simp add: t(4) replaceChar_idem)
  ultimately show ?thesis by (simp add: norm_path_def textR_def)
qed

lemma mapR_id: "(\<And>x. x \<in> set xs \<Longrightarrow> f (g x) = Inr x) \<Longrightarrow> mapR f (map g xs) = Inr xs"
  by (induction xs) simp_all

lemma mapR_set: "mapR f xs = Inr ys \<Longrightarrow> y \<in> set ys \<Longrightarrow> \<exists>x \<in> set xs. f x = Inr y"
  unfolding mapR_Inr_iff by (induction rule: list_all2_induct) auto

section \<open>Reading back\<close>

lemma spec_kr_fields:
  "field (spec_kr_json k) ''title'' = Some (JString (sk_title k))" "field (spec_kr_json k) ''unit'' = Some (JString (sk_unit k))"
  "field (spec_kr_json k) ''precision'' = Some (JNumber (int (sk_precision k)))"
  "field (spec_kr_json k) ''baseline'' = Some (JString (sk_baseline k))" "field (spec_kr_json k) ''target'' = Some (JString (sk_target k))"
  "field (spec_kr_json k) ''weight'' = Some (JString (sk_weight k))"
  "field (spec_kr_json k) ''verificationRule'' = Some (JString (sk_verificationRule k))"
  "sfield (spec_kr_json k) ''maxAgeMs'' = Some (sk_maxAgeMs k)" "the_object (spec_kr_json k) \<noteq> None"
  by (simp_all add: spec_kr_json_def sfield_def)

lemma normalize_kr_Inr:
  assumes "normalize_kr kr = Inr k"
  obtains p w n where "precision_of (dk_precision kr) = Some p" "sk_precision k = p" "sk_scale k = dec_string (10 ^ p)"
    "scaledMetric (dk_baseline kr) (dk_precision kr) = Inr (sk_baseline k)" "scaledMetric (dk_target kr) (dk_precision kr) = Inr (sk_target k)"
    "sk_baseline k \<noteq> sk_target k" "textR (dk_title kr) 256 = Inr (sk_title k)" "textR (dk_unit kr) 64 = Inr (sk_unit k)"
    "textR (dk_verificationRule kr) 2048 = Inr (sk_verificationRule k)"
    "integer (dk_weight kr) 1000000 1 = Inr w" "sk_weight k = dec_string w"
    "integer (dk_maxAgeMinutes kr) 43200 1 = Inr n" "sk_maxAgeMs k = dec_string (n * 60000)"
proof -
  from assms have "precision_of (dk_precision kr) \<noteq> None"
    by (auto simp: normalize_kr_def result_simps dest: scaledMetric_Inr(4))
  then obtain p where "precision_of (dk_precision kr) = Some p" by blast
  with assms that show thesis by (auto simp: normalize_kr_def result_simps Let_def)
qed

lemma precision_of_int: "precision_of v = Some p \<Longrightarrow> precision_of (Some (JNumber (int p))) = Some p"
  by (cases v rule: precision_of.cases) (auto split: if_split_asm)

lemma metric_roundtrip:
  assumes "scaledMetric v prec = Inr b" "precision_of prec = Some p"
  shows "\<exists>t. decimal (Some (JString b)) (Some (JNumber (int p))) = Inr t \<and> scaledMetric (Some (JString t)) (Some (JNumber (int p))) = Inr b"
  using scaledMetric_decimal [OF precision_of_int [OF assms(2)]] scaledMetric_Inr [OF assms(1)] by blast

lemma spec_kr_roundtrip:
  assumes "normalize_kr kr = Inr k"
  shows "\<exists>kr'. parse_spec_kr (spec_kr_json k) = Inr kr' \<and> normalize_kr kr' = Inr k"
proof -
  from normalize_kr_Inr [OF assms] obtain p w n where
      p: "precision_of (dk_precision kr) = Some p" "sk_precision k = p" "sk_scale k = dec_string (10 ^ p)"
    and metrics: "scaledMetric (dk_baseline kr) (dk_precision kr) = Inr (sk_baseline k)"
      "scaledMetric (dk_target kr) (dk_precision kr) = Inr (sk_target k)" "sk_baseline k \<noteq> sk_target k"
    and texts: "textR (dk_title kr) 256 = Inr (sk_title k)" "textR (dk_unit kr) 64 = Inr (sk_unit k)"
      "textR (dk_verificationRule kr) 2048 = Inr (sk_verificationRule k)"
    and w: "integer (dk_weight kr) 1000000 1 = Inr w" "sk_weight k = dec_string w"
    and n: "integer (dk_maxAgeMinutes kr) 43200 1 = Inr n" "sk_maxAgeMs k = dec_string (n * 60000)" .
  obtain b t where bt: "decimal (Some (JString (sk_baseline k))) (Some (JNumber (int p))) = Inr b"
      "scaledMetric (Some (JString b)) (Some (JNumber (int p))) = Inr (sk_baseline k)"
      "decimal (Some (JString (sk_target k))) (Some (JNumber (int p))) = Inr t"
      "scaledMetric (Some (JString t)) (Some (JNumber (int p))) = Inr (sk_target k)"
    using metric_roundtrip [OF metrics(1) p(1)] metric_roundtrip [OF metrics(2) p(1)] by blast
  have n1: "1 \<le> n" "n \<le> 43200" using integer_Inr [OF n(1)] by simp_all
  have age: "positive_text (sk_maxAgeMs k)" "length (sk_maxAgeMs k) \<le> 20" "dec_value (sk_maxAgeMs k) = n * 60000"
    using n1 dec_string_length [of "n * 60000" 20] by (simp_all add: n(2) positive_text_string)
  let ?kr = "\<lparr>dk_title = Some (JString (sk_title k)), dk_unit = Some (JString (sk_unit k)), dk_precision = Some (JNumber (int p)),
    dk_baseline = Some (JString b), dk_target = Some (JString t), dk_weight = Some (JString (sk_weight k)),
    dk_maxAgeMinutes = Some (JString (dec_string n)), dk_verificationRule = Some (JString (sk_verificationRule k))\<rparr>"
  have "parse_spec_kr (spec_kr_json k) = Inr ?kr"
    using bt age p(2) by (simp add: parse_spec_kr_def spec_kr_fields)
  moreover have "normalize_kr ?kr = Inr k"
    using bt metrics(3) p w n textR_idem [OF texts(1)] textR_idem [OF texts(2)] textR_idem [OF texts(3)]
      integer_idem [OF w(1)] integer_idem [OF n(1)] precision_of_int [OF p(1)]
    by (simp add: normalize_kr_def Let_def)
  ultimately show ?thesis by blast
qed

lemma spec_krs_roundtrip:
  assumes "mapR normalize_kr krs = Inr ks"
  shows "\<exists>krs'. mapR parse_spec_kr (map spec_kr_json ks) = Inr krs' \<and> mapR normalize_kr krs' = Inr ks"
  using assms
proof (induction krs arbitrary: ks)
  case (Cons kr krs)
  then obtain k ks' where k: "normalize_kr kr = Inr k" "mapR normalize_kr krs = Inr ks'" "ks = k # ks'"
    by (auto simp: result_simps)
  from spec_kr_roundtrip [OF k(1)] Cons.IH [OF k(2)] show ?case by (auto simp: k(3))
qed simp

lemma draft_paths_idem:
  assumes "draft_paths v = Inr paths"
  shows "draft_paths (Some (JArray (map JString paths))) = Inr paths"
proof -
  from assms obtain xs where xs: "mapR norm_path xs = Inr paths"
      "\<not> (paths = [] \<or> 16 < length paths \<or> \<not> distinct paths \<or> list_ex bad_path paths)"
    unfolding norm_path_def [abs_def] by (auto simp: draft_paths_def result_simps split: option.splits json.splits if_split_asm)
  then have "mapR norm_path (map JString paths) = Inr paths"
    using mapR_set [OF xs(1)] norm_path_idem by (intro mapR_id) blast
  with xs(2) show ?thesis unfolding norm_path_def [abs_def] by (simp add: draft_paths_def)
qed

lemma texts_idem: "mapR (\<lambda>a. textR (Some a) n) xs = Inr ts \<Longrightarrow> mapR (\<lambda>a. textR (Some a) n) (map JString ts) = Inr ts"
  using mapR_set [of "\<lambda>a. textR (Some a) n" xs ts] textR_idem by (intro mapR_id) blast

lemma normalize_source_stable: "normalize_source H v = Inr s \<Longrightarrow> normalize_source H s = Inr s"
  using normalize_source_idem by (auto simp: normalize_source_def split: option.splits sum.splits)

lemma spec_fields:
  "field (spec_json s) ''constraints'' = Some (JObject [(''allowedPaths'', JArray (map JString (sp_allowedPaths s))),
     (''prohibitedActions'', JArray (map JString (sp_prohibitedActions s))),
     (''budget'', JObject [(''asset'', JString ''TOOL_CALLS''), (''limit'', JString (sp_budgetLimit s))])])"
  "field (spec_json s) ''krs'' = Some (JArray (map spec_kr_json (sp_krs s)))"
  "sfield (spec_json s) ''schema'' = Some ''fractalmind.okr-spec.v1''"
  "field (spec_json s) ''objective'' = Some (JString (sp_objective s))"
  "field (spec_json s) ''successCriteria'' = Some (JString (sp_successCriteria s))"
  "field (spec_json s) ''priority'' = Some (JNumber (int (sp_priority s)))"
  "field (spec_json s) ''deadlineMs'' = Some (JString (sp_deadlineMs s))"
  "field (spec_json s) ''source'' = sp_source s"
  by (simp_all add: spec_json_def sfield_def split: option.split)

lemma normalizeDraft_Inr:
  assumes "normalizeDraft H d = Inr s"
  obtains krs actions deadline limit where "di_krs d = Some krs" "1 \<le> length krs" "length krs \<le> 3" "sp_priority s \<le> 2"
    "draft_paths (di_allowedPaths d) = Inr (sp_allowedPaths s)" "actions \<noteq> []" "length actions \<le> 16"
    "mapR (\<lambda>a. textR (Some a) 512) actions = Inr (sp_prohibitedActions s)"
    "mapR normalize_kr krs = Inr (sp_krs s)" "normalize_source H (di_source d) = Inr (sp_source s)"
    "textR (di_objective d) 512 = Inr (sp_objective s)" "textR (di_successCriteria d) 4096 = Inr (sp_successCriteria s)"
    "integer (di_deadlineMs d) max_u64 1 = Inr deadline" "sp_deadlineMs s = dec_string deadline"
    "integer (di_maxCalls d) max_u64 1 = Inr limit" "sp_budgetLimit s = dec_string limit"
proof -
  from assms have "draft_head_ok d" by (auto simp: normalizeDraft_def result_simps)
  then obtain krs m where head: "di_krs d = Some krs" "di_priority d = Some (JNumber m)" "1 \<le> length krs" "length krs \<le> 3" "0 \<le> m" "m \<le> 2"
    by (auto simp: draft_head_ok_def split: option.splits json.splits)
  from assms obtain actions where actions: "draft_actions (di_prohibitedActions d) = Inr actions"
    "mapR (\<lambda>a. textR (Some a) 512) actions = Inr (sp_prohibitedActions s)"
    by (auto simp: normalizeDraft_def result_simps)
  then have "actions \<noteq> []" "length actions \<le> 16"
    by (auto simp: draft_actions_def split: option.splits json.splits if_split_asm)
  with assms head actions(2) show thesis
    by (auto simp: normalizeDraft_def result_simps intro!: that)
qed

lemma draft_again:
  assumes "normalizeDraft H d = Inr s" "mapR normalize_kr krs' = Inr (sp_krs s)"
  shows "normalizeDraft H \<lparr>di_objective = Some (JString (sp_objective s)), di_successCriteria = Some (JString (sp_successCriteria s)),
      di_priority = Some (JNumber (int (sp_priority s))), di_deadlineMs = Some (JString (sp_deadlineMs s)), di_krs = Some krs',
      di_allowedPaths = Some (JArray (map JString (sp_allowedPaths s))),
      di_prohibitedActions = Some (JArray (map JString (sp_prohibitedActions s))),
      di_maxCalls = Some (JString (sp_budgetLimit s)), di_source = sp_source s\<rparr> = Inr s"
proof -
  from normalizeDraft_Inr [OF assms(1)] obtain krs actions deadline limit where
      "di_krs d = Some krs" and krs: "1 \<le> length krs" "length krs \<le> 3" and prio: "sp_priority s \<le> 2"
    and paths: "draft_paths (di_allowedPaths d) = Inr (sp_allowedPaths s)"
    and actions: "actions \<noteq> []" "length actions \<le> 16" "mapR (\<lambda>a. textR (Some a) 512) actions = Inr (sp_prohibitedActions s)"
    and norm: "mapR normalize_kr krs = Inr (sp_krs s)"
    and source: "normalize_source H (di_source d) = Inr (sp_source s)"
    and texts: "textR (di_objective d) 512 = Inr (sp_objective s)" "textR (di_successCriteria d) 4096 = Inr (sp_successCriteria s)"
    and deadline: "integer (di_deadlineMs d) max_u64 1 = Inr deadline" "sp_deadlineMs s = dec_string deadline"
    and limit: "integer (di_maxCalls d) max_u64 1 = Inr limit" "sp_budgetLimit s = dec_string limit" .
  have len: "length krs' = length krs" using mapR_length [OF assms(2)] mapR_length [OF norm] by simp
  have prohibited: "length (sp_prohibitedActions s) = length actions" using mapR_length [OF actions(3)] by simp
  then have acts: "draft_actions (Some (JArray (map JString (sp_prohibitedActions s)))) = Inr (map JString (sp_prohibitedActions s))"
    using actions(1,2) by (auto simp: draft_actions_def)
  show ?thesis
    unfolding normalizeDraft_def
    using krs(1,2) len prio acts draft_paths_idem [OF paths] texts_idem [OF actions(3)] assms(2) normalize_source_stable [OF source]
      textR_idem [OF texts(1)] textR_idem [OF texts(2)] integer_idem [OF deadline(1)] integer_idem [OF limit(1)] deadline(2) limit(2)
    by (simp add: draft_head_ok_def)
qed

lemma parse_spec_json:
  assumes "normalizeDraft H d = Inr s"
  shows "parseOkrSpecification H (spec_json s) = Some s"
proof -
  obtain krs where "mapR normalize_kr krs = Inr (sp_krs s)" using normalizeDraft_Inr [OF assms] by metis
  from spec_krs_roundtrip [OF this] obtain krs' where
    krs': "mapR parse_spec_kr (map spec_kr_json (sp_krs s)) = Inr krs'" "mapR normalize_kr krs' = Inr (sp_krs s)" by blast
  show ?thesis
    unfolding parseOkrSpecification_def spec_fields
    using krs'(1) draft_again [OF assms krs'(2)] by (simp add: sfield_def)
qed

section \<open>What a validated plan respects\<close>

lemma check_actions_Inr:
  "check_actions plan as = Inr u \<Longrightarrow> a \<in> set as \<Longrightarrow> a \<in> set boundary_actions \<and> a \<notin> fst ` set (op_paths plan) \<or> a \<in> set excluded"
  by (induction as) (auto split: if_split_asm)

lemma check_krs_Inr:
  assumes "check_krs plan proposal krs ms tot = Inr tot'" "length krs = length ms"
  shows "list_all2 (kr_matches plan proposal) krs ms \<and> tot' = tot + sum_list (map (\<lambda>k. dec_value (kp_maxCalls k)) krs)"
  using assms
proof (induction krs arbitrary: ms tot)
  case (Cons k krs)
  then obtain m ms' where "ms = m # ms'" by (cases ms) auto
  with Cons.prems have "kr_matches plan proposal k m" "check_krs plan proposal krs ms' (tot + dec_value (kp_maxCalls k)) = Inr tot'"
    "length krs = length ms'" by (auto split: if_split_asm)
  with Cons.IH [of ms' "tot + dec_value (kp_maxCalls k)"] \<open>ms = m # ms'\<close> show ?case by simp
qed simp

section \<open>Plain texts\<close>

text \<open>A text that begins and ends with a printable ASCII character is its own trimmed form.\<close>

definition plain_char :: "char \<Rightarrow> bool" where
  "plain_char c \<longleftrightarrow> 33 \<le> (of_char c :: nat) \<and> (of_char c :: nat) \<le> 126"

lemma js_spaces_ends: "list_all (\<lambda>w. w \<noteq> [] \<and> \<not> plain_char (hd w) \<and> \<not> plain_char (last w)) js_spaces"
  by code_simp

lemma stripped_plain:
  assumes "plain_char (hd s)" "s \<noteq> []" "list_all (\<lambda>w. w \<noteq> [] \<and> \<not> plain_char (hd w)) ws"
  shows "stripped ws s"
  unfolding stripped_def
proof (intro ballI)
  fix w
  assume "w \<in> set ws"
  then have "w \<noteq> []" "\<not> plain_char (hd w)" using assms(3) by (auto simp: list_all_iff)
  then show "w = [] \<or> take (length w) s \<noteq> w" using assms(1,2) by (metis hd_take length_greater_0_conv)
qed

lemma trim_plain: "plain_char (hd s) \<Longrightarrow> plain_char (last s) \<Longrightarrow> s \<noteq> [] \<Longrightarrow> trim s = s"
  using js_spaces_ends stripped_plain [of s js_spaces] stripped_plain [of "rev s" "map rev js_spaces"]
  by (simp add: trim_stripped hd_rev list_all_iff)

lemma textR_plain:
  assumes "plain_char (hd s)" "plain_char (last s)" "s \<noteq> []" "length s \<le> n"
  shows "textR (Some (JString s)) n = Inr s"
  using assms trim_plain [of s] by (simp add: textR_def)

section \<open>Properties\<close>

text \<open>
  A specification survives storage: if a draft is accepted, the JSON text of its specification parses
  to a value that the reader of specifications accepts, and it reads back exactly the same specification;
  trimmed texts, scaled metrics, sampling ages in minutes and the message source are all fixed points.
\<close>

theorem specification_roundtrip:
  assumes "normalizeDraft H d = Inr s"
  shows "\<exists>v. json_parse (stringify (spec_json s)) = Some v \<and> parseOkrSpecification H v = Some s"
  using parse_spec_json [OF assms] json_parse_stringify by blast

definition sample_draft :: draft_input where
  "sample_draft = \<lparr>di_objective = Some (JString ''Write it''), di_successCriteria = Some (JString ''done''),
     di_priority = Some (JNumber 1), di_deadlineMs = Some (JString ''900''),
     di_krs = Some [\<lparr>dk_title = Some (JString ''File''), dk_unit = Some (JString ''files''), dk_precision = Some (JNumber 0),
       dk_baseline = Some (JString ''0''), dk_target = Some (JString ''1''), dk_weight = Some (JString ''1''),
       dk_maxAgeMinutes = Some (JString ''60''), dk_verificationRule = Some (JString ''exists'')\<rparr>],
     di_allowedPaths = Some (JArray [JString ''src'']), di_prohibitedActions = Some (JArray [JString ''file.list'', JString ''shell.*'']),
     di_maxCalls = Some (JString ''20''), di_source = None\<rparr>"

definition sample_spec :: okr_spec where
  "sample_spec = \<lparr>sp_source = None, sp_objective = ''Write it'', sp_successCriteria = ''done'', sp_priority = 1, sp_deadlineMs = ''900'',
     sp_krs = [\<lparr>sk_title = ''File'', sk_unit = ''files'', sk_precision = 0, sk_scale = ''1'', sk_baseline = ''0'', sk_target = ''1'',
       sk_weight = ''1'', sk_maxAgeMs = ''3600000'', sk_verificationRule = ''exists''\<rparr>],
     sp_allowedPaths = [''src''], sp_prohibitedActions = [''file.list'', ''shell.*''], sp_budgetLimit = ''20''\<rparr>"

lemma sample_texts:
  "textR (Some (JString ''Write it'')) 512 = Inr ''Write it''" "textR (Some (JString ''done'')) 4096 = Inr ''done''"
  "textR (Some (JString ''File'')) 256 = Inr ''File''" "textR (Some (JString ''files'')) 64 = Inr ''files''"
  "textR (Some (JString ''exists'')) 2048 = Inr ''exists''" "textR (Some (JString ''src'')) 256 = Inr ''src''"
  "textR (Some (JString ''file.list'')) 512 = Inr ''file.list''" "textR (Some (JString ''shell.*'')) 512 = Inr ''shell.*''"
  by (rule textR_plain; code_simp)+

lemma sample_values:
  "integer (Some (JString ''900'')) max_u64 1 = Inr 900" "integer (Some (JString ''20'')) max_u64 1 = Inr 20"
  "integer (Some (JString ''1'')) 1000000 1 = Inr 1" "integer (Some (JString ''60'')) 43200 1 = Inr 60"
  "dec_string 900 = ''900''" "dec_string 20 = ''20''" "dec_string 1 = ''1''"
  "scaledMetric (Some (JString ''0'')) (Some (JNumber 0)) = Inr ''0''" "scaledMetric (Some (JString ''1'')) (Some (JNumber 0)) = Inr ''1''"
  "bad_path ''src'' = False" "replaceChar (char_of (92 :: nat)) (CHR ''/'') ''src'' = ''src''"
  by code_simp+

lemma sample_age: "dec_string 3600000 = ''3600000''"
proof -
  have "dec_value ''3600000'' = 3600000" by (simp add: dec_value_def digit_val_def)
  moreover have "is_decimal ''3600000''" by code_simp
  ultimately show ?thesis using dec_string_decimal by metis
qed

lemma sample_draft_normal: "normalizeDraft H sample_draft = Inr sample_spec"
  by (simp add: normalizeDraft_def sample_draft_def sample_spec_def draft_head_ok_def draft_paths_def draft_actions_def normalize_kr_def
      normalize_source_def sample_texts sample_values sample_age Let_def)

theorem specification_roundtrip_witness:
  "\<exists>v. json_parse (stringify (spec_json sample_spec)) = Some v \<and> parseOkrSpecification sample_hash v = Some sample_spec"
  by (rule specification_roundtrip [OF sample_draft_normal])

text \<open>
  A validated handover plan stays inside what the specification allows and the proposal pays for:
  every directory of the plan lies within an allowed path; every file of every key result lies within a
  directory granted for reading and one granted for writing; no prohibited file action is granted and every
  other prohibition is one that the file profile enforces; each key result needs at most the calls allowed
  at once, all together at most the budget of the proposal, which is at most the budget of the
  specification; and the plan's boundary has the hash of the proposal's.
\<close>

theorem handover_plan_within:
  assumes "validateHandoverPlan H rawSpec rawPlan proposal = Inr (spec, plan)"
  shows "parseOkrSpecification H rawSpec = Some spec \<and> parseNativeFileOkrPlan H rawPlan = Some plan
    \<and> executionBoundaryHash H (paths_json plan) = executionBoundaryHash H (pr_paths proposal)
    \<and> list_all (\<lambda>(a, ds). a \<notin> set (sp_prohibitedActions spec) \<or> a \<in> set excluded) (op_paths plan)
    \<and> list_all (\<lambda>(a, ds). list_all (\<lambda>p. list_ex (within p) (sp_allowedPaths spec)) ds) (op_paths plan)
    \<and> list_all (\<lambda>a. a \<in> set boundary_actions \<or> a \<in> set excluded) (sp_prohibitedActions spec)
    \<and> list_all (\<lambda>k. dec_value (kp_maxCalls k) \<le> pr_max_calls proposal
         \<and> list_all (\<lambda>f. list_all (\<lambda>a. case map_of (op_paths plan) a of None \<Rightarrow> False
              | Some ds \<Rightarrow> list_ex (within (fg_path f)) ds) [''file.read'', ''file.write'']) (kp_files k)) (op_krs plan)
    \<and> sum_list (map (\<lambda>k. dec_value (kp_maxCalls k)) (op_krs plan)) \<le> pr_budget_limit proposal
    \<and> pr_budget_limit proposal \<le> dec_value (sp_budgetLimit spec) \<and> length (op_krs plan) = length (sp_krs spec)"
proof -
  from assms have parsed: "parseOkrSpecification H rawSpec = Some spec" "parseNativeFileOkrPlan H rawPlan = Some plan"
    by (auto simp: validateHandoverPlan_def result_simps split: option.splits)
  with assms obtain tot where fits: "plan_fits H spec plan (paths_json plan) proposal"
    and actions: "check_actions plan (sp_prohibitedActions spec) = Inr ()"
    and dirs: "list_all (\<lambda>(_, ds). list_all (\<lambda>p. list_ex (within p) (sp_allowedPaths spec)) ds) (op_paths plan)"
    and krs: "check_krs plan proposal (op_krs plan) (sp_krs spec) 0 = Inr tot" and tot: "tot \<le> pr_budget_limit proposal"
    by (auto simp: validateHandoverPlan_def result_simps)
  have len: "length (op_krs plan) = length (sp_krs spec)" using fits by (simp add: plan_fits_def)
  note matches = check_krs_Inr [OF krs len]
  have "list_all (\<lambda>k. dec_value (kp_maxCalls k) \<le> pr_max_calls proposal
         \<and> list_all (\<lambda>f. list_all (\<lambda>a. case map_of (op_paths plan) a of None \<Rightarrow> False
              | Some ds \<Rightarrow> list_ex (within (fg_path f)) ds) [''file.read'', ''file.write'']) (kp_files k)) (op_krs plan)"
    using matches [THEN conjunct1] by (induction rule: list_all2_induct) (simp_all add: kr_matches_def)
  moreover have "list_all (\<lambda>(a, ds). a \<notin> set (sp_prohibitedActions spec) \<or> a \<in> set excluded) (op_paths plan)"
    using check_actions_Inr [OF actions] by (force simp: list_all_iff)
  moreover have "list_all (\<lambda>a. a \<in> set boundary_actions \<or> a \<in> set excluded) (sp_prohibitedActions spec)"
    using check_actions_Inr [OF actions] by (auto simp: list_all_iff)
  ultimately show ?thesis using parsed fits dirs matches tot len by (simp add: plan_fits_def case_prod_beta)
qed

definition sample_plan :: json where
  "sample_plan = JObject [(''format'', JNumber 1), (''paths'', JObject [(''file.read'', JArray [JString ''src'']), (''file.write'', JArray [JString ''src''])]),
     (''krs'', JArray [JObject [(''files'', JArray [JObject [(''path'', JString ''src/a.txt''), (''content'', JString ''hello'')]]), (''maxCalls'', JString ''5'')]])]"

definition sample_proposal :: proposal where
  "sample_proposal = \<lparr>pr_paths = [(''file.write'', JArray [JString ''src'']), (''file.read'', JArray [JString ''src''])],
     pr_budget_asset = ''TOOL_CALLS'', pr_budget_limit = 10, pr_max_calls = 6\<rparr>"

definition sample_plan_value :: okr_plan where
  "sample_plan_value = \<lparr>op_paths = [(''file.read'', [''src'']), (''file.write'', [''src''])],
     op_krs = [\<lparr>kp_files = [\<lparr>fg_path = ''src/a.txt'', fg_content = ''hello''\<rparr>], kp_maxCalls = ''5''\<rparr>]\<rparr>"

lemma sample_plan_parts:
  "parseNativeFileOkrPlan sample_hash sample_plan = Some sample_plan_value"
  "executionBoundaryHash sample_hash (pr_paths sample_proposal) \<noteq> None"
  "plan_fits sample_hash sample_spec sample_plan_value (paths_json sample_plan_value) sample_proposal"
  "check_actions sample_plan_value (sp_prohibitedActions sample_spec) = Inr ()"
  "list_all (\<lambda>(_, ds). list_all (\<lambda>p. list_ex (within p) (sp_allowedPaths sample_spec)) ds) (op_paths sample_plan_value)"
  "check_krs sample_plan_value sample_proposal (op_krs sample_plan_value) (sp_krs sample_spec) 0 = Inr 5"
  "5 \<le> pr_budget_limit sample_proposal"
  by code_simp+

theorem handover_plan_within_witness:
  "validateHandoverPlan sample_hash (spec_json sample_spec) sample_plan sample_proposal = Inr (sample_spec, sample_plan_value)
   \<and> sum_list (map (\<lambda>k. dec_value (kp_maxCalls k)) (op_krs sample_plan_value)) \<le> 10 \<and> 10 \<le> dec_value (sp_budgetLimit sample_spec)"
proof -
  have run: "validateHandoverPlan sample_hash (spec_json sample_spec) sample_plan sample_proposal = Inr (sample_spec, sample_plan_value)"
    using sample_plan_parts parse_spec_json [OF sample_draft_normal, of sample_hash] by (auto simp: validateHandoverPlan_def)
  from handover_plan_within [OF run] run show ?thesis by (simp add: sample_proposal_def)
qed

end
