(* ===== verification/Submission_System.thy ===== *)
theory Submission_System
  imports Transaction_Manager
begin

text \<open>
  Several windows of one device, each with its own \<^verbatim>\<open>SelfPayTransactionManager\<close>, sharing one
  journal: \<^verbatim>\<open>submit\<close> with its in-flight table, and the interleavings of concurrent submissions.

  A submission runs in the three stretches of \<open>broadcast\<close>; between two stretches any other
  window may prepare, query, sign, claim or broadcast, and the outside world may change in any
  way. The journal contract is all that keeps the submissions apart.
\<close>

datatype task =
    Started nat fee_quote
  | Signed nat fee_quote prepared string
  | Claimed nat fee_quote prepared string
  | Finished nat fee_quote

record ('s, 'r) system =
  sys_journal :: 's
  sys_rpc :: 'r
  sys_sent :: "(journal_key \<times> string) list"
  sys_windows :: "prepared list list"
  sys_tasks :: "task list"

text \<open>The manager of window \<open>i\<close> sees its own prepared quotes and everything that is shared.\<close>

definition view :: "('s, 'r) system \<Rightarrow> nat \<Rightarrow> ('s, 'r) mworld" where
  "view S i = \<lparr>w_journal = sys_journal S, w_rpc = sys_rpc S, w_prepared = sys_windows S ! i,
     w_sent = sys_sent S\<rparr>"

definition store :: "('s, 'r) system \<Rightarrow> nat \<Rightarrow> ('s, 'r) mworld \<Rightarrow> ('s, 'r) system" where
  "store S i w = S\<lparr>sys_journal := w_journal w, sys_rpc := w_rpc w, sys_sent := w_sent w,
     sys_windows := (sys_windows S)[i := w_prepared w]\<rparr>"

definition quote_key :: "fee_quote \<Rightarrow> journal_key" where
  "quote_key q = (q_namespace q, q_requestId q)"

text \<open>The keys in the \<^verbatim>\<open>flights\<close> table of a window are those of its unfinished tasks.\<close>

fun in_flight :: "nat \<Rightarrow> journal_key \<Rightarrow> task \<Rightarrow> bool" where
  "in_flight i k (Started j q) = (i = j \<and> quote_key q = k)"
| "in_flight i k (Signed j q p sg) = (i = j \<and> quote_key q = k)"
| "in_flight i k (Claimed j q p sg) = (i = j \<and> quote_key q = k)"
| "in_flight i k (Finished j q) = False"

text \<open>\<^verbatim>\<open>submit\<close>: join the flight of this request if there is one, else start \<^verbatim>\<open>broadcast\<close>.\<close>

definition submit :: "nat \<Rightarrow> fee_quote \<Rightarrow> ('s, 'r) system \<Rightarrow> ('s, 'r) system" where
  "submit i q S =
    (if \<exists>t \<in> set (sys_tasks S). in_flight i (quote_key q) t then S
     else S\<lparr>sys_tasks := sys_tasks S @ [Started i q]\<rparr>)"

text \<open>One stretch of task \<open>n\<close>.\<close>

definition advance_task :: "'r client_env \<Rightarrow> ('s, 'x) journal_ops \<Rightarrow> nat \<Rightarrow> ('s, 'r) system \<Rightarrow> ('s, 'r) system" where
  "advance_task env J n S =
    (if n < length (sys_tasks S) then
      (case sys_tasks S ! n of
         Started i q \<Rightarrow>
           (case broadcast_sign env J q (view S i) of
              (Inr (Inr (p, sg)), w) \<Rightarrow> (store S i w)\<lparr>sys_tasks := (sys_tasks S)[n := Signed i q p sg]\<rparr>
            | (_, w) \<Rightarrow> (store S i w)\<lparr>sys_tasks := (sys_tasks S)[n := Finished i q]\<rparr>)
       | Signed i q p sg \<Rightarrow>
           (case broadcast_claim env J q p (view S i) of
              (Inr (Inr _), w) \<Rightarrow> (store S i w)\<lparr>sys_tasks := (sys_tasks S)[n := Claimed i q p sg]\<rparr>
            | (_, w) \<Rightarrow> (store S i w)\<lparr>sys_tasks := (sys_tasks S)[n := Finished i q]\<rparr>)
       | Claimed i q p sg \<Rightarrow>
           (case broadcast_execute env J p sg (view S i) of
              (_, w) \<Rightarrow> (store S i w)\<lparr>sys_tasks := (sys_tasks S)[n := Finished i q]\<rparr>)
       | Finished i q \<Rightarrow> S)
     else S)"

inductive sys_step :: "'r client_env \<Rightarrow> ('s, 'x) journal_ops \<Rightarrow> ('s, 'r) system \<Rightarrow> ('s, 'r) system \<Rightarrow> bool"
  for env J where
  outside: "sys_step env J S (S\<lparr>sys_rpc := r\<rparr>)"
| open_window: "sys_step env J S (S\<lparr>sys_windows := sys_windows S @ [[]]\<rparr>)"
| prepare_quote: "i < length (sys_windows S) \<Longrightarrow> prepare fuel env J input (view S i) = (x, w)
    \<Longrightarrow> sys_step env J S (store S i w)"
| query_request: "i < length (sys_windows S) \<Longrightarrow> query env J rid (view S i) = (y, w)
    \<Longrightarrow> sys_step env J S (store S i w)"
| submit_quote: "i < length (sys_windows S) \<Longrightarrow> sys_step env J S (submit i q S)"
| advance: "sys_step env J S (advance_task env J n S)"

definition initial_system :: "'s \<Rightarrow> 'r \<Rightarrow> ('s, 'r) system" where
  "initial_system j r = \<lparr>sys_journal = j, sys_rpc = r, sys_sent = [], sys_windows = [], sys_tasks = []\<rparr>"

inductive reachable_system :: "'r client_env \<Rightarrow> ('s, 'x) journal_ops \<Rightarrow> ('s, 'r) system \<Rightarrow> ('s, 'r) system \<Rightarrow> bool"
  for env J S0 where
  start: "reachable_system env J S0 S0"
| step: "reachable_system env J S0 S \<Longrightarrow> sys_step env J S S' \<Longrightarrow> reachable_system env J S0 S'"

section \<open>At most one broadcast per request\<close>

fun claimed_entry :: "task \<Rightarrow> journal_entry option" where
  "claimed_entry (Claimed i q p sg) = Some (p_entry p)"
| "claimed_entry _ = None"

definition claimed_keys :: "task list \<Rightarrow> journal_key list" where
  "claimed_keys ts = map entry_key (List.map_filter claimed_entry ts)"

text \<open>
  The keys already broadcast and the keys claimed but not yet broadcast are all different,
  and each is recorded in the journal under the digest that was or will be broadcast.
\<close>

definition recorded :: "journal_map \<Rightarrow> journal_key \<Rightarrow> string \<Rightarrow> bool" where
  "recorded m k d \<longleftrightarrow> (\<exists>e. m k = Some e \<and> je_digest e = d)"

definition once_only :: "journal_map \<Rightarrow> (journal_key \<times> string) list \<Rightarrow> task list \<Rightarrow> bool" where
  "once_only m sent ts \<longleftrightarrow>
     distinct (map fst sent @ claimed_keys ts)
     \<and> (\<forall>(k, d) \<in> set sent. recorded m k d)
     \<and> (\<forall>t \<in> set ts. \<forall>e. claimed_entry t = Some e \<longrightarrow> recorded m (entry_key e) (je_digest e))"

text \<open>No key recorded in \<open>m0\<close>, the journal at the start, is claimed or sent.\<close>

definition fresh_only :: "journal_map \<Rightarrow> journal_map \<Rightarrow> (journal_key \<times> string) list \<Rightarrow> task list \<Rightarrow> bool" where
  "fresh_only m0 m sent ts \<longleftrightarrow> journal_extends m0 m
     \<and> (\<forall>k \<in> fst ` set sent. m0 k = None) \<and> (\<forall>t \<in> set ts. \<forall>e. claimed_entry t = Some e \<longrightarrow> m0 (entry_key e) = None)"

lemma fresh_only_extends: "fresh_only m0 m sent ts \<Longrightarrow> journal_extends m m' \<Longrightarrow> fresh_only m0 m' sent ts"
  by (auto simp: fresh_only_def elim: journal_extends_trans)

lemma fresh_only_task:
  assumes "fresh_only m0 m sent ts" "\<And>e. claimed_entry t = Some e \<Longrightarrow> m0 (entry_key e) = None"
  shows "fresh_only m0 m sent (ts[n := t])"
  using assms set_update_subset_insert [of ts n t] by (auto simp: fresh_only_def)

lemma fresh_only_claim:
  assumes "fresh_only m0 m sent ts" "m (entry_key e) = None" "claimed_entry t = Some e"
  shows "fresh_only m0 (m(entry_key e \<mapsto> e)) sent (ts[n := t])"
proof -
  have ext: "journal_extends m0 m" using assms(1) by (simp add: fresh_only_def)
  then have "m0 (entry_key e) = None"
    using assms(2) unfolding journal_extends_def by (metis not_Some_eq)
  moreover have "journal_extends m (m(entry_key e \<mapsto> e))"
    using assms(2) by (auto simp: journal_extends_def)
  ultimately show ?thesis
    using fresh_only_task [OF fresh_only_extends [OF assms(1)], of _ t n] assms(3) by auto
qed

lemma fresh_only_send:
  assumes "fresh_only m0 m sent ts" "n < length ts" "claimed_entry (ts ! n) = Some e"
  shows "fresh_only m0 m ((entry_key e, d) # sent) ts"
  using assms by (auto simp: fresh_only_def)

lemma recorded_extends: "recorded m k d \<Longrightarrow> journal_extends m m' \<Longrightarrow> recorded m' k d"
  unfolding recorded_def journal_extends_def by metis

lemma once_only_extends: "once_only m sent ts \<Longrightarrow> journal_extends m m' \<Longrightarrow> once_only m' sent ts"
  unfolding once_only_def using recorded_extends by fast

lemma claimed_keys_append [simp]: "claimed_keys (xs @ ys) = claimed_keys xs @ claimed_keys ys"
  by (simp add: claimed_keys_def List.map_filter_def)

lemma claimed_keys_Cons:
  "claimed_keys (t # ts) = (case claimed_entry t of None \<Rightarrow> [] | Some e \<Rightarrow> [entry_key e]) @ claimed_keys ts"
  by (simp add: claimed_keys_def List.map_filter_def split: option.splits)

lemma claimed_keys_Nil [simp]: "claimed_keys [] = []"
  by (simp add: claimed_keys_def List.map_filter_def)

lemma claimed_keys_in: "k \<in> set (claimed_keys ts) \<longleftrightarrow> (\<exists>t \<in> set ts. \<exists>e. claimed_entry t = Some e \<and> entry_key e = k)"
  by (induction ts) (auto simp: claimed_keys_Cons split: option.splits dest: sym)

lemma task_split:
  assumes "n < length ts"
  obtains pre post where "ts = pre @ ts ! n # post" "ts[n := t] = pre @ t # post"
  using assms id_take_nth_drop upd_conv_take_nth_drop by metis

text \<open>Replacing a task that holds no claim by one that holds none changes nothing.\<close>

lemma once_only_unclaimed:
  assumes "once_only m sent ts" "n < length ts" "claimed_entry t = None"
  shows "once_only m sent (ts[n := t])"
proof -
  obtain pre post where ts: "ts = pre @ ts ! n # post" "ts[n := t] = pre @ t # post"
    using assms(2) by (rule task_split)
  let ?u = "ts ! n"
  have "distinct (map fst sent @ claimed_keys (pre @ ?u # post))"
    using assms(1) ts(1) by (metis once_only_def)
  then have "distinct (map fst sent @ claimed_keys (pre @ t # post))"
    using assms(3) by (auto simp: claimed_keys_Cons split: option.splits)
  moreover have "\<forall>x \<in> set (pre @ t # post). \<forall>e. claimed_entry x = Some e \<longrightarrow> recorded m (entry_key e) (je_digest e)"
    using assms(1,3) ts(1) by (metis (no_types, lifting) once_only_def Un_iff list.set_intros(2) option.distinct(1) set_ConsD set_append)
  ultimately show ?thesis using assms(1) unfolding once_only_def ts(2) by blast
qed

text \<open>A won claim adds a key that was recorded nowhere before.\<close>

lemma once_only_claim:
  assumes "once_only m sent ts" "n < length ts" "claimed_entry (ts ! n) = None"
    and t: "claimed_entry t = Some e" and free: "m (entry_key e) = None"
  shows "once_only (m(entry_key e \<mapsto> e)) sent (ts[n := t])"
proof -
  obtain pre post where ts: "ts = pre @ ts ! n # post" "ts[n := t] = pre @ t # post"
    using assms(2) by (rule task_split)
  let ?u = "ts ! n"
  have old: "distinct (map fst sent @ claimed_keys pre @ claimed_keys post)"
    using assms(1,3) ts(1) by (metis append_Nil claimed_keys_Cons claimed_keys_append once_only_def option.case(1))
  have rec: "recorded m k d \<Longrightarrow> k \<noteq> entry_key e" for k d using free by (auto simp: recorded_def)
  have tasks: "claimed_entry x = Some f \<Longrightarrow> recorded m (entry_key f) (je_digest f)" if "x \<in> set pre \<union> set post" for x f
  proof -
    have "x \<in> set ts" using that by (subst ts(1)) auto
    then show "claimed_entry x = Some f \<Longrightarrow> recorded m (entry_key f) (je_digest f)"
      using assms(1) by (auto simp: once_only_def)
  qed
  have sent: "recorded m k d" if "(k, d) \<in> set sent" for k d
    using assms(1) that by (auto simp: once_only_def)
  have keep: "recorded m k d \<Longrightarrow> recorded (m(entry_key e \<mapsto> e)) k d" for k d
    using free by (auto simp: recorded_def)
  have "entry_key e \<notin> fst ` set sent" using sent rec by force
  moreover have "entry_key e \<notin> set (claimed_keys pre) \<union> set (claimed_keys post)"
    unfolding Un_iff claimed_keys_in using tasks rec by blast
  ultimately have "distinct (map fst sent @ claimed_keys (pre @ t # post))"
    using old t by (auto simp: claimed_keys_Cons)
  moreover have "\<forall>x \<in> set (pre @ t # post). \<forall>f. claimed_entry x = Some f \<longrightarrow> recorded (m(entry_key e \<mapsto> e)) (entry_key f) (je_digest f)"
    using tasks keep t by (auto simp: recorded_def)
  ultimately show ?thesis
    using sent keep unfolding once_only_def ts(2) by blast
qed

text \<open>Broadcasting moves a key from the claimed ones to the sent ones.\<close>

lemma once_only_send:
  assumes inv: "once_only m sent ts" and n: "n < length ts"
    and u: "claimed_entry (ts ! n) = Some e" and t: "claimed_entry t = None"
  shows "once_only m ((entry_key e, je_digest e) # sent) (ts[n := t])"
proof -
  obtain pre post where ts: "ts = pre @ ts ! n # post" "ts[n := t] = pre @ t # post"
    using n by (rule task_split)
  have "distinct (map fst sent @ claimed_keys (pre @ ts ! n # post))"
    using inv ts(1) by (metis once_only_def)
  then have "distinct (map fst ((entry_key e, je_digest e) # sent) @ claimed_keys (ts[n := t]))"
    using u t unfolding ts(2) by (auto simp: claimed_keys_Cons)
  moreover have "recorded m (entry_key e) (je_digest e)"
    using inv u n by (auto simp: once_only_def)
  moreover have "once_only m sent (ts[n := t])" using inv n t by (rule once_only_unclaimed)
  ultimately show ?thesis by (auto simp: once_only_def)
qed

context transaction_journal
begin

definition sys_inv :: "journal_map \<Rightarrow> ('s, 'r) system \<Rightarrow> bool" where
  "sys_inv m0 S \<longleftrightarrow> jinv (sys_journal S) \<and> gas_exclusive (jmap (sys_journal S))
     \<and> once_only (jmap (sys_journal S)) (sys_sent S) (sys_tasks S)
     \<and> fresh_only m0 (jmap (sys_journal S)) (sys_sent S) (sys_tasks S)"

text \<open>A stretch that broadcasts nothing and only grows the journal keeps the invariant.\<close>

lemma sys_inv_quiet:
  assumes "sys_inv m0 S" "journal_grows (view S i) w" "w_sent w = sys_sent S"
  shows "sys_inv m0 (store S i w)"
  using assms once_only_extends [of "jmap (sys_journal S)" "sys_sent S" "sys_tasks S" "jmap (w_journal w)"]
    fresh_only_extends [of m0 "jmap (sys_journal S)" "sys_sent S" "sys_tasks S" "jmap (w_journal w)"]
  by (auto simp: sys_inv_def store_def view_def journal_grows_def)

lemma sys_inv_finish:
  assumes "sys_inv m0 S" "n < length (sys_tasks S)" "claimed_entry t = None"
  shows "sys_inv m0 (S\<lparr>sys_tasks := (sys_tasks S)[n := t]\<rparr>)"
  using assms once_only_unclaimed fresh_only_task [where t = t] by (auto simp: sys_inv_def)

lemma store_tasks: "(store S i w)\<lparr>sys_tasks := ts\<rparr> = store (S\<lparr>sys_tasks := ts\<rparr>) i w"
  by (simp add: store_def)

lemma store_sel [simp]: "sys_tasks (store S i w) = sys_tasks S" "sys_sent (store S i w) = w_sent w"
  "sys_journal (store S i w) = w_journal w"
  by (simp_all add: store_def)

lemma view_sel [simp]: "w_sent (view S i) = sys_sent S" "w_journal (view S i) = sys_journal S"
  by (simp_all add: view_def)

lemma sys_inv_quiet_task:
  assumes inv: "sys_inv m0 S" and n: "n < length (sys_tasks S)" and t: "claimed_entry t = None"
    and grows: "keeps journal_grows m" and quiet: "keeps same_sent m" and run: "m (view S i) = (r, w)"
  shows "sys_inv m0 ((store S i w)\<lparr>sys_tasks := (sys_tasks S)[n := t]\<rparr>)"
proof -
  have "sys_inv m0 (store S i w)"
    using sys_inv_quiet [OF inv keepsD [OF grows run]] keepsD [OF quiet run] by (simp add: same_sent_def)
  then show ?thesis using sys_inv_finish [of m0 "store S i w" n t] n t by simp
qed

lemma sys_inv_claim:
  assumes inv: "sys_inv m0 S" and n: "n < length (sys_tasks S)" and u: "claimed_entry (sys_tasks S ! n) = None"
    and run: "broadcast_claim env ops q p (view S i) = (Inr (Inr ()), w)"
  shows "sys_inv m0 ((store S i w)\<lparr>sys_tasks := (sys_tasks S)[n := Claimed i q p sg]\<rparr>)"
proof -
  have jinv: "jinv (w_journal (view S i))" using inv by (simp add: sys_inv_def)
  note won = broadcast_claim_won [OF run jinv]
  have "w_sent w = sys_sent S" using keepsD [OF keeps_broadcast_claim run] by (simp add: same_sent_def)
  moreover have "jinv (w_journal w) \<and> gas_exclusive (jmap (w_journal w))"
    using keepsD [OF grows_broadcast_claim run] inv by (simp add: journal_grows_def sys_inv_def)
  moreover have "once_only (jmap (w_journal w)) (sys_sent S) ((sys_tasks S)[n := Claimed i q p sg])"
    using once_only_claim [of "jmap (sys_journal S)" "sys_sent S" "sys_tasks S" n "Claimed i q p sg" "p_entry p"]
      inv n u won by (simp add: sys_inv_def)
  moreover have "fresh_only m0 (jmap (w_journal w)) (sys_sent S) ((sys_tasks S)[n := Claimed i q p sg])"
    using fresh_only_claim [of m0 "jmap (sys_journal S)" "sys_sent S" "sys_tasks S" "p_entry p" "Claimed i q p sg" n]
      inv won by (simp add: sys_inv_def)
  ultimately show ?thesis by (simp add: sys_inv_def)
qed

lemma sys_inv_execute:
  assumes inv: "sys_inv m0 S" and n: "n < length (sys_tasks S)" and u: "sys_tasks S ! n = Claimed i q p sg"
    and run: "broadcast_execute env ops p sg (view S i) = (r, w)"
  shows "sys_inv m0 ((store S i w)\<lparr>sys_tasks := (sys_tasks S)[n := Finished i q]\<rparr>)"
proof -
  let ?m = "jmap (sys_journal S)" and ?e = "p_entry p"
  from keepsD [OF grows_broadcast_execute run] inv
  have j: "jinv (w_journal w)" "gas_exclusive (jmap (w_journal w))" "journal_extends ?m (jmap (w_journal w))"
    by (auto simp: journal_grows_def sys_inv_def)
  from broadcast_execute_sent [OF run]
  have "once_only ?m (w_sent w) ((sys_tasks S)[n := Finished i q])"
    using once_only_send [of ?m "sys_sent S" "sys_tasks S" n ?e "Finished i q"]
      once_only_unclaimed [of ?m "sys_sent S" "sys_tasks S" n "Finished i q"] inv n u
    by (auto simp: sys_inv_def)
  moreover have "fresh_only m0 ?m (w_sent w) ((sys_tasks S)[n := Finished i q])"
    using broadcast_execute_sent [OF run] inv n u
      fresh_only_task [of m0 ?m "sys_sent S" "sys_tasks S" "Finished i q" n]
      fresh_only_task [OF fresh_only_send, of m0 ?m "sys_sent S" "sys_tasks S" n ?e "Finished i q" "je_digest ?e" n]
    by (auto simp: sys_inv_def)
  ultimately show ?thesis using j once_only_extends fresh_only_extends by (auto simp: sys_inv_def)
qed

lemma sys_inv_advance:
  assumes inv: "sys_inv m0 S"
  shows "sys_inv m0 (advance_task env ops n S)"
proof (cases "n < length (sys_tasks S)")
  case n: True
  show ?thesis
  proof (cases "sys_tasks S ! n")
    case (Started i q)
    obtain r w where run: "broadcast_sign env ops q (view S i) = (r, w)" by fastforce
    have "sys_inv m0 ((store S i w)\<lparr>sys_tasks := (sys_tasks S)[n := t]\<rparr>)" if "claimed_entry t = None" for t
      using inv n that grows_broadcast_sign keeps_weaken [OF keeps_broadcast_sign same_but_journal_sent] run
      by (rule sys_inv_quiet_task)
    then show ?thesis
      using n Started run by (auto simp: advance_task_def split: sum.splits prod.splits)
  next
    case (Signed i q p sg)
    obtain r w where run: "broadcast_claim env ops q p (view S i) = (r, w)" by fastforce
    have "sys_inv m0 ((store S i w)\<lparr>sys_tasks := (sys_tasks S)[n := Finished i q]\<rparr>)"
      by (rule sys_inv_quiet_task [OF inv n _ grows_broadcast_claim keeps_broadcast_claim run]) simp
    then show ?thesis
      using n Signed run sys_inv_claim [OF inv n, of env q p i w sg]
      by (auto simp: advance_task_def split: sum.splits prod.splits)
  next
    case (Claimed i q p sg)
    obtain r w where run: "broadcast_execute env ops p sg (view S i) = (r, w)" by fastforce
    with sys_inv_execute [OF inv n Claimed run] n Claimed show ?thesis by (simp add: advance_task_def)
  qed (use n inv in \<open>simp add: advance_task_def\<close>)
qed (use inv in \<open>simp add: advance_task_def\<close>)

lemma sys_inv_step: "sys_step env ops S S' \<Longrightarrow> sys_inv m0 S \<Longrightarrow> sys_inv m0 S'"
proof (induction rule: sys_step.induct)
  case (prepare_quote i S fuel input x w)
  then show ?case
    using sys_inv_quiet keepsD [OF grows_prepare] keepsD [OF keeps_prepare] by (fastforce simp: same_sent_def)
next
  case (query_request i S rid y w)
  then show ?case
    using sys_inv_quiet keepsD [OF grows_query] keepsD [OF keeps_query] by (fastforce simp: same_sent_def)
next
  case (submit_quote i S q)
  then show ?case
    by (auto simp: submit_def sys_inv_def once_only_def fresh_only_def claimed_keys_Cons)
next
  case (advance S n)
  then show ?case by (blast intro: sys_inv_advance)
qed (simp_all add: sys_inv_def)

lemma reachable_sys_inv:
  assumes "reachable_system env ops (initial_system j r) S" "jinv j" "gas_exclusive (jmap j)"
  shows "sys_inv (jmap j) S"
  using assms(1)
proof (induction rule: reachable_system.induct)
  case start
  show ?case
    using assms(2,3) by (simp add: sys_inv_def initial_system_def once_only_def fresh_only_def)
next
  case (step S S')
  then show ?case using sys_inv_step by blast
qed

lemma at_most_once:
  assumes "reachable_system env ops (initial_system j r) S" "jinv j" "gas_exclusive (jmap j)"
  shows "distinct (map fst (sys_sent S))"
    and "(k, d) \<in> set (sys_sent S) \<Longrightarrow> jmap j k = None \<and> recorded (jmap (sys_journal S)) k d"
    and "gas_exclusive (jmap (sys_journal S))" "journal_extends (jmap j) (jmap (sys_journal S))"
  using reachable_sys_inv [OF assms]
  by (auto simp: sys_inv_def once_only_def fresh_only_def image_iff)

end

section \<open>The journals of the SDK\<close>

definition memory_ops :: "(memory_journal, unit) journal_ops" where
  "memory_ops = \<lparr>jo_get = mem_get, jo_claim = mem_claim, jo_replace = mem_replace\<rparr>"

definition indexed_db_ops :: "(idb_state, unit) journal_ops" where
  "indexed_db_ops = \<lparr>jo_get = idb_get, jo_claim = idb_claim, jo_replace = idb_replace\<rparr>"

lemma memory_ops_eq: "memory.ops = memory_ops"
  by (simp add: memory.ops_def memory_ops_def)

lemma indexed_db_ops_eq: "indexed_db.ops = indexed_db_ops"
  by (simp add: indexed_db.ops_def indexed_db_ops_def)

section \<open>Running a schedule\<close>

text \<open>A schedule of steps as an executable function, for concrete runs.\<close>

datatype sys_event = EOpen | EPrepare nat prepare_input | ESubmit nat nat | EAdvance nat

fun exec_event :: "'r client_env \<Rightarrow> ('s, 'x) journal_ops \<Rightarrow> ('s, 'r) system \<Rightarrow> sys_event \<Rightarrow> ('s, 'r) system" where
  "exec_event env J S EOpen = S\<lparr>sys_windows := sys_windows S @ [[]]\<rparr>"
| "exec_event env J S (EPrepare i input) =
    (if i < length (sys_windows S) then store S i (snd (prepare 1 env J input (view S i))) else S)"
| "exec_event env J S (ESubmit i k) =
    (if i < length (sys_windows S) \<and> k < length (sys_windows S ! i)
     then submit i (p_quote (sys_windows S ! i ! k)) S else S)"
| "exec_event env J S (EAdvance n) = advance_task env J n S"

lemma exec_event_reachable:
  "reachable_system env J S0 S \<Longrightarrow> reachable_system env J S0 (exec_event env J S ev)"
  by (cases ev) (auto intro!: reachable_system.step [where S = S] intro: sys_step.intros simp: prod_eq_iff)

lemma exec_schedule_reachable: "reachable_system env J S0 S \<Longrightarrow> reachable_system env J S0 (foldl (exec_event env J) S evs)"
  by (induction evs arbitrary: S) (auto intro: exec_event_reachable)

text \<open>A small outside world: one address with enough balance, a simulation that succeeds, and a
  chain that confirms what is executed.\<close>

definition sample_gas :: gas_cost_summary where
  "sample_gas = \<lparr>computationCost = ''2'', storageCost = ''3'', storageRebate = ''1'', nonRefundableStorageFee = ''0''\<rparr>"

definition sample_result :: tx_result where
  "sample_result = \<lparr>tr_digest = ''D'', tr_success = True, tr_error = None,
     tr_effects = Some \<lparr>ef_transactionDigest = ''D'', ef_success = True, ef_gasUsed = sample_gas\<rparr>,
     tr_balanceChanges = Some [\<lparr>bc_address = ''A'', bc_coinType = ''0x2::sui::SUI'', bc_amount = - 4\<rparr>],
     tr_transaction = Some \<lparr>sd_sender = ''A'', sd_gasOwner = ''A'', sd_gasBudget = ''9''\<rparr>\<rparr>"

definition sample_env :: "unit client_env" where
  "sample_env = \<lparr>cl_network = ''localnet'', cl_address = ''A'', cl_quoteTtlMs = 60000, cl_now = (\<lambda>r. (5, r)),
     cl_getChainIdentifier = okE ''C'',
     cl_getBalance = (\<lambda>_. okE \<lparr>b_coinType = ''0x2::sui::SUI'', b_balance = ''20'', b_addressBalance = ''20''\<rparr>),
     cl_getReferenceGasPrice = okE ''1'', cl_buildKind = okE, cl_build = (\<lambda>_. okE ''TX''),
     cl_simulate = (\<lambda>_. okE sample_result),
     cl_listCoins = (\<lambda>_ _. throwE ()), cl_getObject = (\<lambda>_. throwE ()),
     cl_sign = (\<lambda>b. okE (b, ''SIG'')), cl_execute = (\<lambda>_ _. okE sample_result),
     cl_getTransaction = (\<lambda>_. okE sample_result), cl_assertBeforeBroadcast = (\<lambda>_. True),
     cl_verifySignature = (\<lambda>_ _ _. True), cl_toBase64 = (\<lambda>b. b), cl_digestOf = (\<lambda>_. ''D''),
     cl_normalizeAddress = (\<lambda>a. a), cl_normalizeStructTag = (\<lambda>t. t), cl_isValidDigest = (\<lambda>_. True),
     cl_parseCoin = (\<lambda>_. None)\<rparr>"

definition sample_input :: prepare_input where
  "sample_input = \<lparr>pi_requestId = ''r1'',
     pi_transaction = \<lparr>td_sender = None, td_gasOwner = None, td_gasBudget = None, td_gasPrice = None,
       td_gasPayment = None, td_inputs = [], td_commands = ''c''\<rparr>,
     pi_gasBudget = UNumber (Some 9), pi_maxSuiSpend = None\<rparr>"

text \<open>Two windows prepare and submit the same request and run in lock step.\<close>

definition race_schedule :: "sys_event list" where
  "race_schedule = [EOpen, EOpen, EPrepare 0 sample_input, EPrepare 1 sample_input, ESubmit 0 0, ESubmit 1 0,
     EAdvance 0, EAdvance 1, EAdvance 0, EAdvance 1, EAdvance 0, EAdvance 1]"

definition race_result :: "(idb_state, unit) system" where
  "race_result = foldl (exec_event sample_env indexed_db_ops)
     (initial_system \<lparr>idb_rows = [], idb_faults = []\<rparr> ()) race_schedule"

end
