(* ===== verification/Manager_Guarantees.thy ===== *)
theory Manager_Guarantees
  imports Submission_System
begin

text \<open>
  What the transaction manager guarantees: the soundness and termination of gas selection, what a
  quote promises, what an outcome proves, and, for all interleavings of several windows over one
  IndexedDB journal, that a request is broadcast at most once and that pending requests never
  share gas.
\<close>

section \<open>Gas selection\<close>

lemma rpcE_Inr: "rpcE m w = (Inr a, w') \<longleftrightarrow> m (w_rpc w) = (Inr a, w_rpc w') \<and> w' = w\<lparr>w_rpc := w_rpc w'\<rparr>"
  by (auto simp: rpcE_def split: prod.splits sum.splits)

text \<open>The coin \<open>ref\<close> was read from the chain as an owned SUI coin with this balance, in the version that \<open>ref\<close> names.\<close>

definition coin_balance :: "'r client_env \<Rightarrow> string \<Rightarrow> gas_reference \<Rightarrow> int \<Rightarrow> bool" where
  "coin_balance env owner ref bal \<longleftrightarrow> bal \<noteq> 0 \<and> (\<exists>r r' ob content type. cl_getObject env (gr_objectId ref) r = (Inr ob, r')
     \<and> co_objectId ob = gr_objectId ref \<and> co_addressOwner ob = Some owner
     \<and> co_type ob = Some type \<and> cl_normalizeStructTag env type = cl_normalizeStructTag env ''0x2::coin::Coin<0x2::sui::SUI>''
     \<and> co_content ob = Some content \<and> cl_parseCoin env content = Some (gr_objectId ref, bal)
     \<and> gr_version ref = co_version ob \<and> gr_digest ref = co_digest ob)"

definition gas_selection :: "'r client_env \<Rightarrow> string \<Rightarrow> string list \<Rightarrow> gas_reference list \<Rightarrow> int \<Rightarrow> bool" where
  "gas_selection env owner excluded refs tot \<longleftrightarrow> distinct (map gr_objectId refs)
     \<and> (\<forall>ref \<in> set refs. gr_objectId ref \<notin> set excluded)
     \<and> (\<exists>bals. list_all2 (coin_balance env owner) refs bals \<and> tot = sum_list bals)"

fun acc_ok :: "'r client_env \<Rightarrow> string \<Rightarrow> string list \<Rightarrow> gas_acc \<Rightarrow> bool" where
  "acc_ok env owner excluded (visited, refs, tot) \<longleftrightarrow> gas_selection env owner excluded refs tot
     \<and> gr_objectId ` set refs \<subseteq> set visited \<and> length refs < 256"

definition enough_gas :: "'r client_env \<Rightarrow> string \<Rightarrow> int \<Rightarrow> string list \<Rightarrow> gas_reference list \<Rightarrow> bool" where
  "enough_gas env owner required excluded refs \<longleftrightarrow> length refs \<le> 256
     \<and> (\<exists>tot. gas_selection env owner excluded refs tot \<and> required \<le> tot)"

lemma gas_selection_Nil [simp]: "gas_selection env owner excluded [] 0"
  by (simp add: gas_selection_def)

lemma gas_selection_snoc:
  assumes "gas_selection env owner excluded refs tot" "coin_balance env owner ref bal"
    "gr_objectId ref \<notin> gr_objectId ` set refs" "gr_objectId ref \<notin> set excluded"
  shows "gas_selection env owner excluded (refs @ [ref]) (tot + bal)"
proof -
  from assms(1) obtain bals where bals: "list_all2 (coin_balance env owner) refs bals" "tot = sum_list bals"
    by (auto simp: gas_selection_def)
  then have "list_all2 (coin_balance env owner) (refs @ [ref]) (bals @ [bal])"
    using assms(2) by (simp add: list_all2_appendI)
  moreover have "tot + bal = sum_list (bals @ [bal])" using bals(2) by simp
  ultimately show ?thesis using assms unfolding gas_selection_def by auto
qed

lemma gas_coin_ok:
  assumes "gas_coin env owner cid w = (Inr (ref, bal), w')"
  shows "gr_objectId ref = cid" "bal \<noteq> 0 \<Longrightarrow> coin_balance env owner ref bal"
proof -
  from assms obtain ob w1 content where ob: "cl_getObject env cid (w_rpc w) = (Inr ob, w1)" "valid_gas_coin env owner cid ob"
      "co_content ob = Some content" "cl_parseCoin env content = Some (cid, bal)" "ref = \<lparr>gr_objectId = cid, gr_version = co_version ob, gr_digest = co_digest ob\<rparr>"
    by (auto simp: gas_coin_def rpcE_Inr valid_gas_coin_def eff_oks elim!: bindE_okE split: option.split_asm)
  show "gr_objectId ref = cid" using ob by simp
  show "bal \<noteq> 0 \<Longrightarrow> coin_balance env owner ref bal"
    using ob unfolding coin_balance_def valid_gas_coin_def COIN_type_def by (auto split: option.split_asm) blast
qed

lemma gas_page_ok:
  assumes "gas_page env owner required excluded coins acc w = (Inr res, w')" "acc_ok env owner excluded acc"
  shows "case res of Inl refs \<Rightarrow> enough_gas env owner required excluded refs | Inr acc' \<Rightarrow> acc_ok env owner excluded acc'"
  using assms
proof (induction coins arbitrary: acc w)
  case Nil
  then show ?case by (auto simp: eff_oks)
next
  case (Cons coin coins)
  obtain visited refs tot where acc: "acc = (visited, refs, tot)" by (cases acc)
  let ?cid = "cl_normalizeAddress env coin"
  note run = Cons.prems(1) [unfolded acc gas_page.simps Let_def]
  note ok = Cons.prems(2) [unfolded acc acc_ok.simps]
  have skip: "acc_ok env owner excluded (?cid # visited, refs, tot)" using ok by auto
  show ?case
  proof (cases "?cid \<in> set visited \<or> ?cid \<in> set excluded")
    case True
    then show ?thesis using run Cons.IH [OF _ skip] by (auto simp: eff_oks split: if_split_asm)
  next
    case False
    with run have "bindE (gas_coin env owner ?cid) (\<lambda>(ref, balance).
       if balance = 0 then gas_page env owner required excluded coins (?cid # visited, refs, tot)
       else if required \<le> tot + balance then okE (Inl (refs @ [ref]))
       else if 256 \<le> length (refs @ [ref]) then throwE (Preflight Gas_unavailable)
       else gas_page env owner required excluded coins (?cid # visited, refs @ [ref], tot + balance)) w = (Inr res, w')"
      by simp
    then obtain ref bal w1 where coin: "gas_coin env owner ?cid w = (Inr (ref, bal), w1)"
      and rest: "(if bal = 0 then gas_page env owner required excluded coins (?cid # visited, refs, tot)
       else if required \<le> tot + bal then okE (Inl (refs @ [ref]))
       else if 256 \<le> length (refs @ [ref]) then throwE (Preflight Gas_unavailable)
       else gas_page env owner required excluded coins (?cid # visited, refs @ [ref], tot + bal)) w1 = (Inr res, w')"
      by (auto elim!: bindE_okE)
    have sel: "gas_selection env owner excluded (refs @ [ref]) (tot + bal)" if "bal \<noteq> 0"
      using gas_coin_ok [OF coin] that ok False by (auto intro!: gas_selection_snoc)
    have more: "acc_ok env owner excluded (?cid # visited, refs @ [ref], tot + bal)"
      if "bal \<noteq> 0" "length (refs @ [ref]) < 256"
      using sel gas_coin_ok [OF coin] that ok by auto
    show ?thesis
      using rest sel ok Cons.IH [OF _ skip] Cons.IH [OF _ more]
      by (auto simp: eff_oks enough_gas_def split: if_split_asm)
  qed
qed

lemma gas_pages_ok:
  "gas_pages fuel env owner required excluded cursor acc w = (Inr refs, w') \<Longrightarrow> acc_ok env owner excluded acc
    \<Longrightarrow> enough_gas env owner required excluded refs"
proof (induction fuel arbitrary: cursor acc w)
  case (Suc fuel)
  show ?case using Suc.prems(1)
    by (auto simp: eff_oks elim!: bindE_okE split: sum.split_asm if_split_asm
        dest!: gas_page_ok [OF _ Suc.prems(2)] Suc.IH)
qed (simp add: eff_oks)

lemma gasCoins_enough: "gasCoins fuel env owner required excluded w = (Inr refs, w') \<Longrightarrow> enough_gas env owner required excluded refs"
  unfolding gasCoins_def by (erule gas_pages_ok) simp

text \<open>More fuel changes nothing once the loop has ended.\<close>

lemma gas_pages_more_fuel:
  "gas_pages fuel env owner required excluded cursor acc w = (r, w') \<Longrightarrow> r \<noteq> Inl OutOfFuel
    \<Longrightarrow> gas_pages (fuel + k) env owner required excluded cursor acc w = (r, w')"
proof (induction fuel arbitrary: cursor acc w)
  case (Suc fuel)
  then show ?case 
    by (auto simp: bindE_def throwE_def split: sum.split prod.split if_split sum.split_asm prod.split_asm)
qed (auto simp: eff_elims)


text \<open>A listing of coins ends if some rank of its cursors decreases from page to page.\<close>

definition pages_end :: "'r client_env \<Rightarrow> string \<Rightarrow> (string option \<Rightarrow> nat) \<Rightarrow> bool" where
  "pages_end env owner rank \<longleftrightarrow> (\<forall>cursor r page r'. cl_listCoins env owner cursor r = (Inr page, r')
     \<longrightarrow> cp_hasNextPage page \<longrightarrow> rank (cp_cursor page) < rank cursor)"

lemma not_out_of_fuel:
  "rpcE m w = (r, w') \<Longrightarrow> r \<noteq> Inl OutOfFuel"
  "gas_coin env owner cid w = (r2, w') \<Longrightarrow> r2 \<noteq> Inl OutOfFuel"
  by (auto simp: gas_coin_def rpcE_def eff_elims split: prod.splits sum.splits option.splits if_splits)

lemma gas_page_fuel: "gas_page env owner required excluded coins acc w = (r, w') \<Longrightarrow> r \<noteq> Inl OutOfFuel"
proof (induction coins arbitrary: acc w)
  case (Cons coin coins)
  then show ?case
    by (cases acc) (auto simp: Let_def eff_elims dest: not_out_of_fuel split: if_split_asm)
qed (auto simp: eff_elims)

lemma gas_pages_end:
  assumes "pages_end env owner rank"
  shows "rank cursor < fuel \<Longrightarrow> gas_pages fuel env owner required excluded cursor acc w = (r, w') \<Longrightarrow> r \<noteq> Inl OutOfFuel"
proof (induction fuel arbitrary: cursor acc w)
  case (Suc fuel)
  have lt: "rpcE (cl_listCoins env owner cursor) w = (Inr page, w1) \<Longrightarrow> cp_hasNextPage page
      \<Longrightarrow> rank (cp_cursor page) < fuel" for page w1
    using assms Suc.prems(1) by (fastforce simp: pages_end_def rpcE_def split: prod.split_asm sum.split_asm)
  show ?case using Suc.prems(2) 
    by (auto simp: eff_pure elim!: bindE_E dest: not_out_of_fuel gas_page_fuel Suc.IH [OF lt] split: if_split_asm sum.split_asm)
qed simp


section \<open>Prepare\<close>

text \<open>
  How the gas was read and chosen between two states of the outside world: the balance of the device's address covers what is required; with the price read
  the transaction kind is built; the address balance pays if it covers what is required, and otherwise coins do that the selection found, none of
  which the built transaction uses.
\<close>

definition funded_by :: "nat \<Rightarrow> 'r client_env \<Rightarrow> tx_data \<Rightarrow> int \<Rightarrow> ('s, 'r) mworld \<Rightarrow> string \<Rightarrow> gas_reference list \<Rightarrow> bool \<Rightarrow> tx_data \<Rightarrow> ('s, 'r) mworld \<Rightarrow> bool" where
  "funded_by fuel env tx required w balance refs addressGas funded w' \<longleftrightarrow>
     (\<exists>b price built (w1 :: ('s, 'r) mworld) (w2 :: ('s, 'r) mworld) (w3 :: ('s, 'r) mworld). cl_getBalance env (cl_address env) (w_rpc w) = (Inr b, w_rpc w1) \<and> b_balance b = balance
        \<and> cl_normalizeStructTag env (b_coinType b) = cl_normalizeStructTag env ''0x2::sui::SUI''
        \<and> is_decimal balance \<and> required \<le> dec_value balance \<and> is_decimal (b_addressBalance b)
        \<and> cl_getReferenceGasPrice env (w_rpc w1) = (Inr price, w_rpc w2)
        \<and> cl_buildKind env (tx\<lparr>td_gasPrice := Some price\<rparr>) (w_rpc w2) = (Inr built, w_rpc w3) \<and> funded = built\<lparr>td_gasPayment := Some refs\<rparr>
        \<and> (addressGas \<longleftrightarrow> required \<le> dec_value (b_addressBalance b)) \<and> (addressGas \<longrightarrow> refs = [] \<and> w' = w3)
        \<and> (\<not> addressGas \<longrightarrow> enough_gas env (cl_address env) required (concat (map (input_object_ids env) (td_inputs built))) refs
             \<and> gasCoins fuel env (cl_address env) required (concat (map (input_object_ids env) (td_inputs built))) w3 = (Inr refs, w')))"

lemma toBigInt_string:
  "toBigInt (UString s) = Inr i \<longleftrightarrow> is_decimal s \<and> in_u64 (dec_value s) \<and> i = dec_value s"
  by (auto simp: result_simps)

lemma fund_ok:
  assumes "fund fuel env tx required w = (Inr (balance, funded, refs, addressGas), w')"
  shows "funded_by fuel env tx required w (b_balance balance) refs addressGas funded w'"
proof -
  let ?I = "\<lambda>built. concat (map (input_object_ids env) (td_inputs built))"
  let ?pay = "\<lambda>built. if required \<le> dec_value (b_addressBalance balance) then okE (balance, built\<lparr>td_gasPayment := Some []\<rparr>, [], True)
        else bindE (gasCoins fuel env (cl_address env) required (?I built)) (\<lambda>references.
          okE (balance, built\<lparr>td_gasPayment := Some references\<rparr>, references, False))"
  from assms have "\<exists>w1 w2 w3 price built. rpcE (cl_getBalance env (cl_address env)) w = (Inr balance, w1) \<and> cl_normalizeStructTag env (b_coinType balance) = SUI_type env
      \<and> is_decimal (b_balance balance) \<and> required \<le> dec_value (b_balance balance) \<and> rpcE (cl_getReferenceGasPrice env) w1 = (Inr price, w2)
      \<and> rpcE (cl_buildKind env (tx\<lparr>td_gasPrice := Some price\<rparr>)) w2 = (Inr built, w3) \<and> is_decimal (b_addressBalance balance)
      \<and> ?pay built w3 = (Inr (balance, funded, refs, addressGas), w')"
    unfolding fund_def
    by (auto simp: eff_oks toBigInt_string simp del: toBigInt.simps elim!: bindE_okE split: if_split_asm) (blast | simp add: eff_run)+
  then obtain w1 w2 w3 price built where
    rpc: "rpcE (cl_getBalance env (cl_address env)) w = (Inr balance, w1)" "rpcE (cl_getReferenceGasPrice env) w1 = (Inr price, w2)"
      "rpcE (cl_buildKind env (tx\<lparr>td_gasPrice := Some price\<rparr>)) w2 = (Inr built, w3)"
    and facts: "cl_normalizeStructTag env (b_coinType balance) = SUI_type env" "is_decimal (b_balance balance)" "required \<le> dec_value (b_balance balance)"
      "is_decimal (b_addressBalance balance)"
    and rest: "?pay built w3 = (Inr (balance, funded, refs, addressGas), w')" by (elim exE conjE) (rule that)
  have reads: "cl_getBalance env (cl_address env) (w_rpc w) = (Inr balance, w_rpc w1)" "cl_getReferenceGasPrice env (w_rpc w1) = (Inr price, w_rpc w2)"
      "cl_buildKind env (tx\<lparr>td_gasPrice := Some price\<rparr>) (w_rpc w2) = (Inr built, w_rpc w3)"
      "cl_normalizeStructTag env (b_coinType balance) = cl_normalizeStructTag env ''0x2::sui::SUI''"
    using rpc facts(1) by (simp_all add: rpcE_Inr SUI_type_def)
  have paid: "funded = built\<lparr>td_gasPayment := Some refs\<rparr> \<and> (addressGas \<longleftrightarrow> required \<le> dec_value (b_addressBalance balance)) \<and> (addressGas \<longrightarrow> refs = [] \<and> w' = w3)
      \<and> (\<not> addressGas \<longrightarrow> gasCoins fuel env (cl_address env) required (?I built) w3 = (Inr refs, w'))"
  proof (cases "required \<le> dec_value (b_addressBalance balance)")
    case False
    then have "bindE (gasCoins fuel env (cl_address env) required (?I built)) (\<lambda>references.
          okE (balance, built\<lparr>td_gasPayment := Some references\<rparr>, references, False)) w3 = (Inr (balance, funded, refs, addressGas), w')"
      using rest by (simp only: if_False)
    then show ?thesis using False by (auto simp: eff_oks elim!: bindE_okE)
  qed (use rest in \<open>auto simp: eff_oks\<close>)
  have enough: "\<not> addressGas \<longrightarrow> enough_gas env (cl_address env) required (?I built) refs" using paid gasCoins_enough by blast
  show ?thesis unfolding funded_by_def
    by (rule exI [of _ balance], rule exI [of _ price], rule exI [of _ built], rule exI [of _ w1], rule exI [of _ w2], rule exI [of _ w3]) (use reads facts paid enough in simp)
qed

lemma check_simulation_ok:
  assumes "check_simulation env sim m = Inr (g, s)"
  shows "s \<le> m" "tr_success sim" "\<exists>c. tr_balanceChanges sim = Some c \<and> s = sui_debit env c - g"
   "\<exists>ef. tr_effects sim = Some ef \<and> gasCost (ef_gasUsed ef) = Inr g"
  using assms by (auto simp: check_simulation_def result_simps Let_def split: option.split_asm if_split_asm sum.split_asm)

text \<open>What a quote promises, and what is kept for its submission.\<close>

definition quote_sound :: "'r client_env \<Rightarrow> prepare_input \<Rightarrow> prepared \<Rightarrow> bool" where
  "quote_sound env input p \<longleftrightarrow>
     (let q = p_quote p; e = p_entry p in
      \<not> p_used p \<and> is_token (q_requestId q) \<and> q_requestId q = pi_requestId input
      \<and> entry_key e = (q_namespace q, q_requestId q) \<and> je_status e = Pending \<and> je_revision e = 1
      \<and> je_digest e = q_digest q \<and> q_digest q = cl_digestOf env (p_bytes p)
      \<and> je_sender e = cl_address env \<and> q_sender q = cl_address env
      \<and> toBigInt (pi_gasBudget input) = Inr (q_gasBudget q)
      \<and> toBigInt (case pi_maxSuiSpend input of None \<Rightarrow> UNumber (Some 0) | Some u \<Rightarrow> u) = Inr (q_maxSuiSpend q)
      \<and> je_gasBudget e = dec_string (q_gasBudget q) \<and> 0 < q_gasBudget q \<and> in_u64 (q_gasBudget q)
      \<and> in_u64 (q_maxSuiSpend q) \<and> q_requiredBalance q = q_gasBudget q + q_maxSuiSpend q
      \<and> q_requiredBalance q \<le> dec_value (q_balance q)
      \<and> 0 \<le> q_simulatedSuiSpend q \<and> q_simulatedSuiSpend q \<le> q_maxSuiSpend q)"

text \<open>
  What a quote rests on, read in this order from the state in which it was asked for: the chain that its namespace names, a journal without the request,
  the funds for the transaction of the input with the device as sender and gas owner and the asked gas budget, the bytes built from it, and a
  successful simulation of these very bytes, whose gas is the estimate and whose own further debit of SUI is the simulated spend.
\<close>

definition quote_read :: "nat \<Rightarrow> 'r client_env \<Rightarrow> ('s, 'x) journal_ops \<Rightarrow> prepare_input \<Rightarrow> ('s, 'r) mworld \<Rightarrow> prepared \<Rightarrow> bool" where
  "quote_read fuel env J input w p \<longleftrightarrow>
     (let q = p_quote p; e = p_entry p in
      \<exists>chain simulation ef changes funded j (w1 :: ('s, 'r) mworld) (w2 :: ('s, 'r) mworld) r3 r4.
        cl_getChainIdentifier env (w_rpc w) = (Inr chain, w_rpc w1)
        \<and> q_namespace q = stringify (JArray [JString (cl_network env), JString chain, JString (cl_address env)])
        \<and> jo_get J (q_namespace q) (pi_requestId input) (w_journal w) = (Inr None, j)
        \<and> funded_by fuel env ((pi_transaction input)\<lparr>td_sender := Some (cl_address env), td_gasOwner := Some (cl_address env), td_gasBudget := Some (q_gasBudget q)\<rparr>)
            (q_requiredBalance q) w1 (q_balance q) (je_gasReferences e) (je_addressGas e) funded w2
        \<and> cl_build env funded (w_rpc w2) = (Inr (p_bytes p), r3) \<and> cl_simulate env (p_bytes p) r3 = (Inr simulation, r4)
        \<and> tr_success simulation \<and> tr_effects simulation = Some ef \<and> ef_success ef \<and> gasCost (ef_gasUsed ef) = Inr (q_estimatedGas q)
        \<and> tr_balanceChanges simulation = Some changes
        \<and> q_simulatedSuiSpend q = max 0 (- sum_list (map bc_amount (filter (\<lambda>c. cl_normalizeAddress env (bc_address c) = cl_address env
              \<and> cl_normalizeStructTag env (bc_coinType c) = cl_normalizeStructTag env ''0x2::sui::SUI'') changes)) - q_estimatedGas q))"

lemma prepared_step:
  "namespaceM env w = (r1, w') \<Longrightarrow> w_prepared w' = w_prepared w"
  "journalM env J ns rid w = (r2, w') \<Longrightarrow> w_prepared w' = w_prepared w"
  "rpcE m w = (r3, w') \<Longrightarrow> w_prepared w' = w_prepared w"
  "nowE env w = (r4, w') \<Longrightarrow> w_prepared w' = w_prepared w"
  "fund fuel env tx required w = (r5, w') \<Longrightarrow> w_prepared w' = w_prepared w"
  by (auto simp: same_state_def same_but_journal_def dest: keepsD [OF keeps_namespaceM] keepsD [OF keeps_journalM]
    keepsD [OF keeps_rpcE] keepsD [OF keeps_nowE] keepsD [OF keeps_fund])

lemma issue_quote_ok:
  assumes "issue_quote env ns rid gasBudget maxSuiSpend bal refs addressGas bytes g s w = (Inr q, w')"
  shows "\<exists>p. w_prepared w' = w_prepared w @ [p] \<and> p_quote p = q \<and> \<not> p_used p
    \<and> q_requestId q = rid \<and> entry_key (p_entry p) = (q_namespace q, rid) \<and> je_status (p_entry p) = Pending
    \<and> je_revision (p_entry p) = 1 \<and> je_digest (p_entry p) = q_digest q \<and> q_digest q = cl_digestOf env (p_bytes p)
    \<and> je_sender (p_entry p) = cl_address env \<and> q_sender q = cl_address env
    \<and> je_gasBudget (p_entry p) = dec_string gasBudget \<and> q_gasBudget q = gasBudget \<and> q_maxSuiSpend q = maxSuiSpend
    \<and> q_requiredBalance q = gasBudget + maxSuiSpend \<and> q_balance q = bal
    \<and> q_simulatedSuiSpend q = max s 0 \<and> q_estimatedGas q = g \<and> q_namespace q = ns \<and> p_bytes p = bytes \<and> je_gasReferences (p_entry p) = refs \<and> je_addressGas (p_entry p) = addressGas"
  using assms
  by (auto simp: issue_quote_def Let_def eff_oks prepared_step entry_key_def elim!: bindE_okE)

lemma check_simulation_facts:
  assumes "check_simulation env sim m = Inr (g, s)"
  shows "\<exists>ef changes. s \<le> m \<and> tr_success sim \<and> tr_effects sim = Some ef \<and> ef_success ef \<and> gasCost (ef_gasUsed ef) = Inr g \<and> tr_balanceChanges sim = Some changes
    \<and> s = - sum_list (map bc_amount (filter (\<lambda>c. cl_normalizeAddress env (bc_address c) = cl_address env
         \<and> cl_normalizeStructTag env (bc_coinType c) = cl_normalizeStructTag env ''0x2::sui::SUI'') changes)) - g"
  using assms by (auto simp: check_simulation_def sui_debit_def SUI_type_def result_simps Let_def split: option.split_asm if_split_asm sum.split_asm)

lemma namespaceM_read:
  "namespaceM env w = (Inr ns, w') \<Longrightarrow> \<exists>chain. cl_getChainIdentifier env (w_rpc w) = (Inr chain, w_rpc w') \<and> w_journal w' = w_journal w
    \<and> ns = stringify (JArray [JString (cl_network env), JString chain, JString (cl_address env)])"
  by (auto simp: namespaceM_def rpcE_Inr eff_oks simp del: stringify.simps elim!: bindE_okE) (metis mworld.select_convs mworld.surjective mworld.update_convs)+

lemma journalM_read: "journalM env J ns rid w = (Inr None, w') \<Longrightarrow> jo_get J ns rid (w_journal w) = (Inr None, w_journal w') \<and> w_rpc w' = w_rpc w"
  by (auto simp: journalM_def journalE_def eff_oks elim!: bindE_okE split: option.split_asm prod.split_asm sum.split_asm)

lemma prepare_ok:
  assumes "prepare fuel env J input w = (Inr q, w')"
  shows "\<exists>p. w_prepared w' = w_prepared w @ [p] \<and> p_quote p = q \<and> quote_sound env input p \<and> quote_read fuel env J input w p"
proof -
  from assms obtain b m ns bal funded refs a bytes sim g s w1 w2 w3 w4 w5 where
    token: "is_token (pi_requestId input)" and amounts: "toBigInt (pi_gasBudget input) = Inr b" "b \<noteq> 0"
      "toBigInt (case pi_maxSuiSpend input of None \<Rightarrow> UNumber (Some 0) | Some u \<Rightarrow> u) = Inr m"
    and ns: "namespaceM env w = (Inr ns, w1)" and journal: "journalM env J ns (pi_requestId input) w1 = (Inr None, w2)"
    and fund: "fund fuel env ((pi_transaction input)\<lparr>td_sender := Some (cl_address env), td_gasOwner := Some (cl_address env), td_gasBudget := Some b\<rparr>) (b + m) w2
      = (Inr (bal, funded, refs, a), w3)"
    and build: "rpcE (cl_build env funded) w3 = (Inr bytes, w4)" "rpcE (cl_simulate env bytes) w4 = (Inr sim, w5)"
    and sim: "check_simulation env sim m = Inr (g, s)"
    and issue: "issue_quote env ns (pi_requestId input) b m (b_balance bal) refs a bytes g s w5 = (Inr q, w')"
    unfolding prepare_def by (fastforce simp: eff_oks simp del: toBigInt.simps elim!: bindE_okE)
  from issue_quote_ok [OF issue] obtain p where p: "w_prepared w' = w_prepared w5 @ [p]" "p_quote p = q" "\<not> p_used p"
      "q_requestId q = pi_requestId input" "entry_key (p_entry p) = (q_namespace q, pi_requestId input)" "je_status (p_entry p) = Pending"
      "je_revision (p_entry p) = 1" "je_digest (p_entry p) = q_digest q" "q_digest q = cl_digestOf env (p_bytes p)"
      "je_sender (p_entry p) = cl_address env" "q_sender q = cl_address env" "je_gasBudget (p_entry p) = dec_string b" "q_gasBudget q = b" "q_maxSuiSpend q = m"
      "q_requiredBalance q = b + m" "q_balance q = b_balance bal" "q_simulatedSuiSpend q = max s 0" "q_estimatedGas q = g" "q_namespace q = ns"
      "p_bytes p = bytes" "je_gasReferences (p_entry p) = refs" "je_addressGas (p_entry p) = a" by blast
  have kept: "w_prepared w5 = w_prepared w"
    using prepared_step(1) [OF ns] prepared_step(2) [OF journal] prepared_step(5) [OF fund] prepared_step(3) [OF build(1)] prepared_step(3) [OF build(2)] by simp
  from check_simulation_facts [OF sim] obtain ef changes where simulated: "s \<le> m" "tr_success sim" "tr_effects sim = Some ef" "ef_success ef"
      "gasCost (ef_gasUsed ef) = Inr g" "tr_balanceChanges sim = Some changes"
      "s = - sum_list (map bc_amount (filter (\<lambda>c. cl_normalizeAddress env (bc_address c) = cl_address env
         \<and> cl_normalizeStructTag env (bc_coinType c) = cl_normalizeStructTag env ''0x2::sui::SUI'') changes)) - g" by blast
  note funded = fund_ok [OF fund]
  have bounds: "in_u64 b" "in_u64 m" using amounts by (auto dest: toBigInt_u64 simp del: toBigInt.simps)
  have covered: "b + m \<le> dec_value (b_balance bal)" using funded by (auto simp: funded_by_def)
  have "quote_sound env input p"
    using p token amounts bounds covered simulated(1) by (auto simp: quote_sound_def Let_def in_u64_def simp del: toBigInt.simps)
  moreover have "quote_read fuel env J input w p"
  proof -
    obtain chain where chain: "cl_getChainIdentifier env (w_rpc w) = (Inr chain, w_rpc w2)" "w_journal w1 = w_journal w"
        "ns = stringify (JArray [JString (cl_network env), JString chain, JString (cl_address env)])"
      using namespaceM_read [OF ns] journalM_read [OF journal] by auto
    show ?thesis
      unfolding quote_read_def Let_def
      by (rule exI [of _ chain], rule exI [of _ sim], rule exI [of _ ef], rule exI [of _ changes], rule exI [of _ funded], rule exI [of _ "w_journal w2"],
          rule exI [of _ w2], rule exI [of _ w3], rule exI [of _ "w_rpc w4"], rule exI [of _ "w_rpc w5"])
        (use chain journalM_read [OF journal] funded build simulated p in \<open>simp add: rpcE_Inr max.commute del: stringify.simps\<close>)
  qed
  ultimately show ?thesis using p(1,2) kept by auto
qed

lemma idb_no_faults:
  assumes "idb_inv s" "idb_faults s = []"
  shows "fst (idb_claim e s) \<noteq> Inl ()" "fst (idb_replace e n s) \<noteq> Inl ()"
proof -
  have "idb_find (entry_key e) (idb_rows s) = None" if "fst (spec_claim (idb_map s) e)"
    using that by (auto simp: spec_claim_def idb_map_def split: if_split_asm)
  then show "fst (idb_claim e s) \<noteq> Inl ()"
    using assms(2) idb_claim_scan [OF assms(1), of e]
    by (auto simp: idb_claim_def idb_request_def idb_commit_def eff_defs)
  show "fst (idb_replace e n s) \<noteq> Inl ()"
    using assms(2) by (simp add: idb_replace_def idb_request_def idb_commit_def eff_defs split: option.split)
qed

section \<open>Guarantees\<close>

text \<open>
  C1. At most one broadcast per request: however the submissions of several windows over one
  IndexedDB journal interleave, whatever the outside world does and whichever database requests
  fail, no request key is ever given to \<^verbatim>\<open>executeTransaction\<close> twice; every broadcast is of a request
  that the journal did not hold at the start, and its digest is recorded in the journal.
\<close>

theorem at_most_once_broadcast:
  assumes "reachable_system env indexed_db_ops (initial_system j r) S"
    and "idb_inv j" "gas_exclusive (idb_map j)"
  shows "distinct (map fst (sys_sent S))
    \<and> (\<forall>(k, d) \<in> set (sys_sent S). idb_map j k = None \<and> recorded (idb_map (sys_journal S)) k d)"
  using indexed_db.at_most_once(1,2) [unfolded indexed_db_ops_eq, OF assms] by blast

lemma empty_journal: "idb_inv \<lparr>idb_rows = [], idb_faults = fs\<rparr>" "gas_exclusive (idb_map \<lparr>idb_rows = [], idb_faults = fs\<rparr>)"
  by (simp_all add: idb_inv_def gas_exclusive_def idb_map_def idb_find_def)

lemma race_reachable: "reachable_system sample_env indexed_db_ops
    (initial_system \<lparr>idb_rows = [], idb_faults = []\<rparr> ()) race_result"
  unfolding race_result_def by (rule exec_schedule_reachable) (rule reachable_system.start)

theorem at_most_once_broadcast_witness:
  "length (sys_sent race_result) = 1 \<and> distinct (map fst (sys_sent race_result))"
proof -
  have "length (sys_sent race_result) = 1" by code_simp
  moreover have "distinct (map fst (sys_sent race_result))"
    using at_most_once_broadcast [OF race_reachable empty_journal] by (rule conjunct1)
  ultimately show ?thesis by simp
qed

text \<open>
  Two pending requests of an account may not both pay from the address balance, and no coin may pay for both. This says so of a whole
  journal, without the check that a claim makes.
\<close>

definition gas_disjoint :: "journal_map \<Rightarrow> bool" where
  "gas_disjoint m \<longleftrightarrow> (\<forall>k1 k2 e1 e2. m k1 = Some e1 \<longrightarrow> m k2 = Some e2 \<longrightarrow> k1 \<noteq> k2
     \<longrightarrow> je_namespace e1 = je_namespace e2 \<longrightarrow> je_status e1 = Pending \<longrightarrow> je_status e2 = Pending
     \<longrightarrow> \<not> (je_addressGas e1 \<and> je_addressGas e2)
       \<and> gr_objectId ` set (je_gasReferences e1) \<inter> gr_objectId ` set (je_gasReferences e2) = {})"

lemma gas_exclusive_disjoint: "gas_exclusive m \<longleftrightarrow> gas_disjoint m"
proof -
  have "pendingGasConflict a b \<longleftrightarrow> je_namespace a = je_namespace b \<and> je_status a = Pending \<and> je_status b = Pending
      \<and> (je_addressGas a \<and> je_addressGas b \<or> gr_objectId ` set (je_gasReferences a) \<inter> gr_objectId ` set (je_gasReferences b) \<noteq> {})" for a b
  proof -
    have "gr_objectId ` A \<inter> gr_objectId ` B \<noteq> {} \<longleftrightarrow> (\<exists>ref \<in> A. \<exists>other \<in> B. gr_objectId other = gr_objectId ref)" for A B :: "gas_reference set"
      unfolding disjoint_iff image_iff by blast
    then show ?thesis by (auto simp: pendingGasConflict_def)
  qed
  note conflict = this
  show ?thesis unfolding gas_exclusive_def gas_disjoint_def by (intro iff_allI) (auto simp: conflict)
qed

text \<open>
  C2. Pending requests never share gas, and the journal only grows: over the same interleavings,
  no two recorded pending requests of an account both reserve the address balance, and no coin is reserved by two of them; no record is
  ever lost, its digest never changes, and a settled record never changes at all.
\<close>

theorem pending_gas_never_shared:
  assumes "reachable_system env indexed_db_ops (initial_system j r) S"
    and "idb_inv j" "gas_disjoint (idb_map j)"
  shows "gas_disjoint (idb_map (sys_journal S)) \<and> journal_extends (idb_map j) (idb_map (sys_journal S))"
  using indexed_db.at_most_once(3,4) [unfolded indexed_db_ops_eq gas_exclusive_disjoint, OF assms] by (rule conjI)

theorem pending_gas_never_shared_witness:
  "gas_disjoint (idb_map (sys_journal race_result)) \<and> length (idb_rows (sys_journal race_result)) = 1"
proof -
  have "length (idb_rows (sys_journal race_result)) = 1" by code_simp
  then show ?thesis using pending_gas_never_shared [OF race_reachable empty_journal [unfolded gas_exclusive_disjoint]] by simp
qed

text \<open>
  C3. An exception means that nothing was broadcast: whatever error a submission ends with, it
  called \<^verbatim>\<open>executeTransaction\<close> for nothing. Once it has broadcast, a submission always returns an
  outcome.
\<close>

theorem broadcast_failure_sends_nothing:
  assumes "broadcast env J q w = (Inl err, w')"
  shows "w_sent w' = w_sent w"
  using assms
proof (cases rule: broadcast_cases)
qed (auto dest!: sent_broadcast_sign sent_broadcast_claim broadcast_execute_returns)

definition sample_world :: "(idb_state, unit) mworld" where
  "sample_world = \<lparr>w_journal = \<lparr>idb_rows = [], idb_faults = []\<rparr>, w_rpc = (), w_prepared = [], w_sent = []\<rparr>"

definition sample_prepared_world :: "(idb_state, unit) mworld" where
  "sample_prepared_world = snd (prepare 1 sample_env indexed_db_ops sample_input sample_world)"

definition sample_quote :: fee_quote where
  "sample_quote = p_quote (hd (w_prepared sample_prepared_world))"

text \<open>The third database request of this run fails: it is the claim of the journal.\<close>

definition faulty_world :: "(idb_state, unit) mworld" where
  "faulty_world = sample_prepared_world\<lparr>w_journal := \<lparr>idb_rows = [], idb_faults = [False, False, False, True]\<rparr>\<rparr>"

theorem broadcast_failure_sends_nothing_witness:
  "fst (broadcast sample_env indexed_db_ops sample_quote faulty_world) = Inl (Preflight Journal_unavailable)
   \<and> w_sent (snd (broadcast sample_env indexed_db_ops sample_quote faulty_world)) = []"
proof -
  have fail: "fst (broadcast sample_env indexed_db_ops sample_quote faulty_world) = Inl (Preflight Journal_unavailable)"
    by code_simp
  then have "broadcast sample_env indexed_db_ops sample_quote faulty_world
      = (Inl (Preflight Journal_unavailable), snd (broadcast sample_env indexed_db_ops sample_quote faulty_world))"
    by (simp add: prod_eq_iff)
  from broadcast_failure_sends_nothing [OF this]
  have "w_sent (snd (broadcast sample_env indexed_db_ops sample_quote faulty_world)) = w_sent faulty_world" .
  moreover have "w_sent faulty_world = []" by code_simp
  ultimately show ?thesis using fail by simp
qed

text \<open>
  C4. Only verified, fresh quotes are broadcast: a submission broadcasts at most once, and then the
  quote was prepared by this manager and unused, the signature over the prepared bytes verified for
  the sender, and what is recorded as sent is the prepared request and digest.
\<close>

theorem broadcast_sends_only_verified:
  assumes "broadcast env J q w = (r, w')"
  shows "w_sent w' = w_sent w
    \<or> (\<exists>p \<in> set (w_prepared w). \<exists>sg. p_quote p = q \<and> \<not> p_used p
         \<and> cl_verifySignature env (p_bytes p) sg (q_sender q)
         \<and> w_sent w' = (entry_key (p_entry p), je_digest (p_entry p)) # w_sent w)"
  using assms
proof (cases rule: broadcast_cases)
  case (executed p sg w1 w2)
  then show ?thesis
    using broadcast_sign_checked [OF executed(1)] broadcast_execute_sent [OF executed(3)]
      sent_broadcast_sign [OF executed(1)] sent_broadcast_claim [OF executed(2)] by auto
qed (auto dest!: sent_broadcast_sign sent_broadcast_claim)

theorem broadcast_sends_only_verified_witness:
  "w_sent (snd (broadcast sample_env indexed_db_ops sample_quote sample_prepared_world)) \<noteq> []
   \<and> (\<exists>p \<in> set (w_prepared sample_prepared_world). \<exists>sg. p_quote p = sample_quote
        \<and> cl_verifySignature sample_env (p_bytes p) sg (q_sender sample_quote))"
proof -
  let ?run = "broadcast sample_env indexed_db_ops sample_quote sample_prepared_world"
  have sent: "w_sent (snd ?run) \<noteq> []" and none: "w_sent sample_prepared_world = []" by code_simp+
  have "?run = (fst ?run, snd ?run)" by simp
  from broadcast_sends_only_verified [OF this] sent none show ?thesis by auto
qed



text \<open>
  C6. What a quote promises: a prepared quote has the asked well-formed request id, gas budget and spending limit, a positive budget and both u64; the
  balance that was read for it covers their sum; the gas is the device's own address balance exactly if that, as read, covers the sum, and otherwise
  distinct coins read as the device's, none of them an input of the built transaction, that cover it; the bytes were built from the asked transaction
  with this budget and payment and simulated with success, the further spend simulated is within the limit, and the pending entry kept has the
  digest of these bytes. Nothing was recorded for the request before, and preparing broadcasts nothing.
\<close>

theorem prepare_quote_sound:
  assumes "prepare fuel env J input w = (Inr q, w')"
  shows "(\<exists>p. w_prepared w' = w_prepared w @ [p] \<and> p_quote p = q \<and> quote_sound env input p \<and> quote_read fuel env J input w p)
    \<and> w_sent w' = w_sent w"
  using prepare_ok [OF assms] keepsD [OF keeps_prepare assms] by (simp add: same_sent_def)

theorem prepare_quote_sound_witness:
  "(\<exists>p. w_prepared sample_prepared_world = [p] \<and> quote_sound sample_env sample_input p \<and> quote_read 1 sample_env indexed_db_ops sample_input sample_world p)
   \<and> q_requiredBalance sample_quote = 9"
proof -
  let ?run = "prepare 1 sample_env indexed_db_ops sample_input sample_world"
  have "(case fst ?run of Inl _ \<Rightarrow> False | Inr q \<Rightarrow> True)" by code_simp
  then obtain q where "?run = (Inr q, sample_prepared_world)"
    by (auto simp: sample_prepared_world_def prod_eq_iff split: sum.split_asm)
  from prepare_quote_sound [OF this]
  have "\<exists>p. w_prepared sample_prepared_world = w_prepared sample_world @ [p] \<and> quote_sound sample_env sample_input p
      \<and> quote_read 1 sample_env indexed_db_ops sample_input sample_world p" by blast
  moreover have "q_requiredBalance sample_quote = 9" by code_simp
  ultimately show ?thesis by (simp add: sample_world_def)
qed

text \<open>
  Gas selection is sound: the coins selected are at most 256, all different, none of them an
  input of the transaction, each attested by an owned SUI coin object of the address with a non-zero
  balance, and together they cover what is required.
\<close>

theorem gasCoins_sound:
  assumes "gasCoins fuel env owner required excluded w = (Inr refs, w')"
  shows "enough_gas env owner required excluded refs"
  using assms by (rule gasCoins_enough)

text \<open>A listing of three coins on two pages; the first is an input of the transaction.\<close>

definition coin_env :: "unit client_env" where
  "coin_env = sample_env\<lparr>
     cl_listCoins := (\<lambda>_ cursor. case cursor of
        None \<Rightarrow> okE \<lparr>cp_objects = [''c1'', ''c2''], cp_cursor = Some ''n'', cp_hasNextPage = True\<rparr>
      | Some _ \<Rightarrow> okE \<lparr>cp_objects = [''c3''], cp_cursor = None, cp_hasNextPage = False\<rparr>),
     cl_getObject := (\<lambda>i. okE \<lparr>co_objectId = i, co_type = Some ''0x2::coin::Coin<0x2::sui::SUI>'', co_content = Some i,
        co_addressOwner = Some ''A'', co_version = ''1'', co_digest = ''g''\<rparr>),
     cl_parseCoin := (\<lambda>i. Some (i, 5))\<rparr>"

theorem gasCoins_sound_witness:
  "\<exists>refs. fst (gasCoins 2 coin_env ''A'' 9 [''c1''] sample_world) = Inr refs \<and> map gr_objectId refs = [''c2'', ''c3'']
     \<and> enough_gas coin_env ''A'' 9 [''c1''] refs"
proof -
  let ?run = "gasCoins 2 coin_env ''A'' 9 [''c1''] sample_world"
  have "(case fst ?run of Inl _ \<Rightarrow> False | Inr refs \<Rightarrow> map gr_objectId refs = [''c2'', ''c3''])" by code_simp
  then obtain refs where refs: "fst ?run = Inr refs" "map gr_objectId refs = [''c2'', ''c3'']" by (auto split: sum.split_asm)
  then have "?run = (Inr refs, snd ?run)" by (simp add: prod_eq_iff)
  then have "enough_gas coin_env ''A'' 9 [''c1''] refs" by (rule gasCoins_sound)
  with refs show ?thesis by (intro exI [of _ refs] conjI)
qed

text \<open>
  Gas selection ends: if the listing of coins is finite, in that some rank of its cursors
  decreases from page to page, then the loop over the pages ends within as many pages, whatever the
  client answers.
\<close>

theorem gasCoins_ends:
  assumes "pages_end env owner rank" "rank None < fuel"
  shows "fst (gasCoins fuel env owner required excluded w) \<noteq> Inl OutOfFuel"
proof -
  obtain r w' where run: "gas_pages fuel env owner required excluded None ([], [], 0) w = (r, w')" by fastforce
  from gas_pages_end [OF assms run] show ?thesis by (simp add: gasCoins_def run)
qed

theorem gasCoins_ends_witness:
  "pages_end coin_env ''A'' (case_option 1 (\<lambda>_. 0))
   \<and> fst (gasCoins 2 coin_env ''A'' 9 [''c1''] sample_world) \<noteq> Inl OutOfFuel"
proof -
  have ends: "pages_end coin_env ''A'' (case_option 1 (\<lambda>_. 0))"
    by (auto simp: pages_end_def coin_env_def okE_def split: option.splits)
  have "case_option 1 (\<lambda>_. 0) (None :: string option) < (2 :: nat)" by simp
  from ends gasCoins_ends [OF ends this] show ?thesis by blast
qed

text \<open>
  C7. The IndexedDB journal is the in-memory journal: as long as no database request fails, a claim
  and a replacement give the same answer and the same records in both, from equal records.
\<close>

theorem indexed_db_matches_memory:
  assumes "idb_inv s" "idb_faults s = []" "mem_inv m" "map_of m = idb_map s"
  shows "(case mem_claim e m of (r, m') \<Rightarrow> fst (idb_claim e s) = r \<and> idb_map (snd (idb_claim e s)) = map_of m')
    \<and> (case mem_replace e n m of (r, m') \<Rightarrow> fst (idb_replace e n s) = r \<and> idb_map (snd (idb_replace e n s)) = map_of m')"
proof
  obtain r m' where mem: "mem_claim e m = (r :: (unit, bool) result, m')" by fastforce
  obtain b s' where idb: "idb_claim e s = (b, s')" by fastforce
  have "b \<noteq> Inl ()" using idb_no_faults(1) [OF assms(1,2), of e] idb by simp
  then show "case mem_claim e m of (r, m') \<Rightarrow> fst (idb_claim e s) = r \<and> idb_map (snd (idb_claim e s)) = map_of m'"
    using idb_claim_spec [OF assms(1) idb] mem_claim_spec(2) [OF assms(3) mem] by (simp add: mem idb assms(4))
next
  obtain r m' where mem: "mem_replace e n m = (r :: (unit, bool) result, m')" by fastforce
  obtain b s' where idb: "idb_replace e n s = (b, s')" by fastforce
  have "b \<noteq> Inl ()" using idb_no_faults(2) [OF assms(1,2), of e n] idb by simp
  then show "case mem_replace e n m of (r, m') \<Rightarrow> fst (idb_replace e n s) = r \<and> idb_map (snd (idb_replace e n s)) = map_of m'"
    using idb_replace_spec [OF assms(1) idb] mem_replace_spec(2) [OF assms(3) mem] by (simp add: mem idb assms(4))
qed

definition sample_entry :: journal_entry where
  "sample_entry = p_entry (hd (w_prepared sample_prepared_world))"

theorem indexed_db_matches_memory_witness:
  "fst (idb_claim sample_entry \<lparr>idb_rows = [], idb_faults = []\<rparr>) = Inr True
   \<and> fst (mem_claim sample_entry [] :: (unit, bool) result \<times> memory_journal) = Inr True"
proof -
  let ?s = "\<lparr>idb_rows = [], idb_faults = []\<rparr>"
  have "fst (idb_claim sample_entry ?s) = Inr True" by code_simp
  moreover have "mem_inv []" "map_of [] = idb_map ?s"
    by (simp_all add: mem_inv_def keyed_def idb_map_def idb_find_def fun_eq_iff)
  ultimately show ?thesis
    using indexed_db_matches_memory [of ?s "[]" sample_entry 1] empty_journal(1) by (simp add: case_prod_beta)
qed

text \<open>
  The gas cost of a summary of u64 texts lies between minus one and two times the largest u64,
  a net rebate being negative; a text that is not a u64 in any field, the non-refundable fee included,
  is an error.
\<close>

theorem gasCost_characterised:
  "gasCost s = Inr c \<longleftrightarrow>
     list_all (\<lambda>t. is_decimal t \<and> dec_value t \<le> MAX_U64)
       [computationCost s, storageCost s, storageRebate s, nonRefundableStorageFee s]
     \<and> c = dec_value (computationCost s) + dec_value (storageCost s) - dec_value (storageRebate s)"
  using dec_value_nonneg by (auto simp: gasCost_def bindR_eq_Inr toBigInt_string in_u64_def simp del: toBigInt.simps)

text \<open>
  Every value accepted as a u64 input is in range, and the decimal text of every u64 is accepted
  and read back as the same value.
\<close>

theorem toBigInt_roundtrip:
  "(toBigInt u = Inr i \<longrightarrow> 0 \<le> i \<and> i < 2 ^ 64)
   \<and> (0 \<le> i \<and> i < 2 ^ 64 \<longrightarrow> toBigInt (UString (dec_string i)) = Inr i \<and> toBigInt (UBigInt i) = Inr i)"
  using toBigInt_u64 [of u i] toBigInt_dec_string [of i] by (auto simp: in_u64_def MAX_U64_def)

theorem toBigInt_roundtrip_witness:
  "toBigInt (UString (dec_string 42)) = Inr 42 \<and> toBigInt (UBigInt 42) = Inr 42"
  using toBigInt_roundtrip [of _ 42] by simp

text \<open>
  The journal namespace identifies the account: managers with equal namespaces are on the same
  network and chain and have the same address, so their requests cannot be confused.
\<close>

theorem namespace_injective:
  assumes "namespaceM env w = (Inr ns, w1)" "namespaceM env' v = (Inr ns, v1)"
  shows "cl_network env = cl_network env' \<and> cl_address env = cl_address env'
    \<and> (\<exists>chain r r'. cl_getChainIdentifier env (w_rpc w) = (Inr chain, r)
         \<and> cl_getChainIdentifier env' (w_rpc v) = (Inr chain, r'))"
  using assms
  by (auto simp: namespaceM_def rpcE_def eff_oks stringify_inj simp del: stringify.simps elim!: bindE_okE split: prod.split_asm sum.split_asm)

theorem namespace_injective_witness:
  "fst (namespaceM sample_env sample_world) = fst (namespaceM coin_env sample_world)
   \<and> cl_address sample_env = cl_address coin_env"
proof -
  have "namespaceM sample_env sample_world = namespaceM coin_env sample_world" "\<exists>ns. fst (namespaceM coin_env sample_world) = Inr ns"
    by (simp_all add: namespaceM_def coin_env_def sample_env_def wrapAll_def rpcE_def eff_defs)
  then obtain ns w1 where "namespaceM sample_env sample_world = (Inr ns, w1)" "namespaceM coin_env sample_world = (Inr ns, w1)"
    by (metis prod.collapse)
  from namespace_injective [OF this] this show ?thesis by simp
qed

end
