(* ===== verification/Transaction_History.thy ===== *)
theory Transaction_History
  imports Manager_Guarantees
begin

text \<open>
  Asking for the original transaction of a device that may be revoked or lost,
  \<^verbatim>\<open>queryDeviceTransactionHistory\<close> of \<^verbatim>\<open>apps/fractalmind-app/src/transaction-history.ts\<close>. The code says of
  itself that it mirrors \<^verbatim>\<open>queryEntry\<close> and \<^verbatim>\<open>confirm\<close> of the transaction manager and has to be kept in
  sync with them; the equivalence below is that promise.

  The human snapshot and the Sui client are parameters (\<open>history_env\<close>). A failed lookup says whether the
  node reported this digest as not found.
\<close>

section \<open>Data\<close>

datatype history_error = History_invalid_input | History_invalid_source | History_journal_unavailable | History_outside

datatype lookup_failure = Not_found string | Lookup_failed

record device_grant =
  dg_id :: string
  dg_human_id :: string
  dg_device :: string
  dg_org_scope :: "string option"

record human_snapshot =
  hs_grants :: "device_grant list option"
  hs_human_grants :: "string list"
  hs_chainIdentifier :: string

record 'r history_env =
  hv_network :: string
  hv_humanId :: string
  hv_human :: "('r, unit, human_snapshot) eff"
  hv_getTransaction :: "string \<Rightarrow> ('r, lookup_failure, tx_result) eff"
  hv_isValidDigest :: "string \<Rightarrow> bool"

record device_history =
  dh_sender :: string
  dh_outcome :: tx_outcome
  dh_historicalTerminal :: "(outcome_status \<times> string) option"

text \<open>\<^verbatim>\<open>[0-9a-f]{8}-[0-9a-f]{4}-[0-9a-f]{4}-[0-9a-f]{4}-[0-9a-f]{12}\<close>\<close>

definition is_uuid :: "string \<Rightarrow> bool" where
  "is_uuid s \<longleftrightarrow> length s = 36
     \<and> list_all (\<lambda>i. s ! i = CHR ''-'') [8, 13, 18, 23]
     \<and> list_all (\<lambda>i. i \<in> {8, 13, 18, 23} \<or> is_lower_hex (s ! i)) [0 ..< 36]"

definition is_history_request :: "string \<Rightarrow> bool" where
  "is_history_request s \<longleftrightarrow> list_ex (\<lambda>p. take (length p) s = p \<and> is_uuid (drop (length p) s))
     [''agent-import:'', ''agent-rebind:'', ''host:'']"

section \<open>The query\<close>

definition unique_grant :: "human_snapshot \<Rightarrow> string \<Rightarrow> device_grant option" where
  "unique_grant snapshot grantId =
    (case hs_grants snapshot of None \<Rightarrow> None
     | Some gs \<Rightarrow> (case filter (\<lambda>g. dg_id g = grantId) gs of [g] \<Rightarrow> Some g | _ \<Rightarrow> None))"

definition grant_ok :: "'r history_env \<Rightarrow> string \<Rightarrow> human_snapshot \<Rightarrow> device_grant \<Rightarrow> bool" where
  "grant_ok h organizationId snapshot grant \<longleftrightarrow>
     dg_id grant \<in> set (hs_human_grants snapshot) \<and> dg_human_id grant = hv_humanId h \<and> is_object_id (dg_device grant)
     \<and> (dg_org_scope grant = None \<or> dg_org_scope grant = Some organizationId)"

definition history_entry_ok :: "'r history_env \<Rightarrow> string \<Rightarrow> string \<Rightarrow> string \<Rightarrow> journal_entry \<Rightarrow> bool" where
  "history_entry_ok h namespace requestId sender e \<longleftrightarrow>
     je_format e = 1 \<and> je_namespace e = namespace \<and> je_requestId e = requestId \<and> je_sender e = sender
     \<and> hv_isValidDigest h (je_digest e) \<and> is_safe_integer (Some (je_revision e)) \<and> 1 \<le> je_revision e"

type_synonym ('s, 'r, 'a) hist = "(('s, 'r) mworld, history_error, 'a) eff"

definition hrpcE :: "('r, 'e, 'a) eff \<Rightarrow> (('s, 'r) mworld, 'e, 'a) eff" where
  "hrpcE m = (\<lambda>w. case m (w_rpc w) of (x, r) \<Rightarrow> (x, w\<lparr>w_rpc := r\<rparr>))"

definition readEntry :: "'r history_env \<Rightarrow> ('s, 'x) journal_ops \<Rightarrow> string \<Rightarrow> string \<Rightarrow> string \<Rightarrow> ('s, 'r, journal_entry option) hist" where
  "readEntry h J namespace requestId sender = (\<lambda>w.
     case jo_get J namespace requestId (w_journal w) of
       (Inl _, s) \<Rightarrow> (Inl History_journal_unavailable, w\<lparr>w_journal := s\<rparr>)
     | (Inr None, s) \<Rightarrow> (Inr None, w\<lparr>w_journal := s\<rparr>)
     | (Inr (Some e), s) \<Rightarrow>
         (if history_entry_ok h namespace requestId sender e then Inr (Some e) else Inl History_journal_unavailable, w\<lparr>w_journal := s\<rparr>))"

definition history_receipt_ok :: "journal_entry \<Rightarrow> tx_result \<Rightarrow> bool" where
  "history_receipt_ok e data \<longleftrightarrow>
     tr_digest data = je_digest e
     \<and> map_option ef_transactionDigest (tr_effects data) = Some (je_digest e)
     \<and> map_option ef_success (tr_effects data) = Some (tr_success data)
     \<and> map_option sd_sender (tr_transaction data) = Some (je_sender e)
     \<and> map_option sd_gasOwner (tr_transaction data) = Some (je_sender e)
     \<and> map_option sd_gasBudget (tr_transaction data) = Some (je_gasBudget e)"

definition history_next :: "journal_entry \<Rightarrow> tx_result \<Rightarrow> gas_cost_summary \<Rightarrow> int \<Rightarrow> journal_entry" where
  "history_next e data gasUsed actualGas =
    (let failure = (if tr_success data then None else tr_error data);
         base = e\<lparr>je_revision := je_revision e + 1, je_status := (if tr_success data then Confirmed else Failed),
                  je_gasUsed := Some gasUsed, je_actualGas := Some (dec_string actualGas)\<rparr> in
     case failure of None \<Rightarrow> base | Some f \<Rightarrow> if f = [] then base else base\<lparr>je_failure := Some f\<rparr>)"

text \<open>The inner \<^verbatim>\<open>try\<close>: a failing journal leaves the chain result known and unsynced.\<close>

definition history_sync :: "'r history_env \<Rightarrow> ('s, 'x) journal_ops \<Rightarrow> journal_entry \<Rightarrow> journal_entry \<Rightarrow> int \<Rightarrow> ('s, 'r) mworld \<Rightarrow> bool \<times> ('s, 'r) mworld" where
  "history_sync h J e nxt actualGas w =
    (case jo_replace J nxt (je_revision e) (w_journal w) of
       (Inl _, s) \<Rightarrow> (False, w\<lparr>w_journal := s\<rparr>)
     | (Inr True, s) \<Rightarrow> (True, w\<lparr>w_journal := s\<rparr>)
     | (Inr False, s) \<Rightarrow>
         (case readEntry h J (je_namespace e) (je_requestId e) (je_sender e) (w\<lparr>w_journal := s\<rparr>) of
            (Inr (Some c), w') \<Rightarrow> (je_digest c = je_digest e \<and> je_status c = je_status nxt \<and> je_actualGas c = Some (dec_string actualGas), w')
          | (_, w') \<Rightarrow> (False, w')))"

text \<open>The receipt checks; \<open>None\<close> when one of them throws.\<close>

definition receipt_gas :: "journal_entry \<Rightarrow> tx_result \<Rightarrow> int option" where
  "receipt_gas e data =
    (if \<not> history_receipt_ok e data then None
     else case (gasCost (ef_gasUsed (the (tr_effects data))), bigint_text (je_gasBudget e)) of
       (Inr actualGas, Inr budget) \<Rightarrow> if budget < actualGas then None else Some actualGas
     | _ \<Rightarrow> None)"

definition history_unknown :: "journal_entry \<Rightarrow> string \<Rightarrow> tx_outcome" where
  "history_unknown e requestId = \<lparr>oc_status = OUnknown, oc_digest = je_digest e, oc_requestId = requestId,
     oc_reason = Some ''original_transaction_not_confirmed'', oc_gasUsed = None, oc_actualGas = None,
     oc_journalSynced = True, oc_transaction = None\<rparr>"

definition terminal_proof :: "journal_entry \<Rightarrow> journal_entry \<Rightarrow> (outcome_status \<times> string) option" where
  "terminal_proof e c =
    (case (je_gasUsed c, je_actualGas c) of
       (Some used, Some actual) \<Rightarrow>
         if je_digest c = je_digest e \<and> je_status c = je_status e \<and> 2 \<le> je_revision c
            \<and> (case gasCost used of Inl _ \<Rightarrow> False | Inr g \<Rightarrow> actual = dec_string g)
            \<and> je_gasBudget c \<noteq> [] \<and> list_all is_digit (je_gasBudget c) \<and> dec_value actual \<le> dec_value (je_gasBudget c)
         then Some (if je_status c = Confirmed then OConfirmed else OFailed, actual) else None
     | _ \<Rightarrow> None)"

definition historical_terminal :: "'r history_env \<Rightarrow> ('s, 'x) journal_ops \<Rightarrow> journal_entry \<Rightarrow> lookup_failure \<Rightarrow> ('s, 'r) mworld
    \<Rightarrow> (outcome_status \<times> string) option \<times> ('s, 'r) mworld" where
  "historical_terminal h J e failure w =
    (if failure = Not_found (je_digest e) \<and> je_status e \<noteq> Pending
     then (case readEntry h J (je_namespace e) (je_requestId e) (je_sender e) w of
             (Inr (Some c), w') \<Rightarrow> (terminal_proof e c, w')
           | (_, w') \<Rightarrow> (None, w'))
     else (None, w))"

definition history_outcome :: "'r history_env \<Rightarrow> ('s, 'x) journal_ops \<Rightarrow> journal_entry \<Rightarrow> ('s, 'r) mworld \<Rightarrow> device_history \<times> ('s, 'r) mworld" where
  "history_outcome h J e w =
    (case hrpcE (hv_getTransaction h (je_digest e)) w of
       (Inl failure, w1) \<Rightarrow>
         (case historical_terminal h J e failure w1 of
            (t, w2) \<Rightarrow> (\<lparr>dh_sender = je_sender e, dh_outcome = history_unknown e (je_requestId e), dh_historicalTerminal = t\<rparr>, w2))
     | (Inr data, w1) \<Rightarrow>
         (case receipt_gas e data of
            None \<Rightarrow> (\<lparr>dh_sender = je_sender e, dh_outcome = history_unknown e (je_requestId e), dh_historicalTerminal = None\<rparr>, w1)
          | Some actualGas \<Rightarrow>
              (let gasUsed = ef_gasUsed (the (tr_effects data)) in
               case history_sync h J e (history_next e data gasUsed actualGas) actualGas w1 of
                 (synced, w2) \<Rightarrow>
                   (\<lparr>dh_sender = je_sender e,
                     dh_outcome = \<lparr>oc_status = (if tr_success data then OConfirmed else OFailed), oc_digest = je_digest e,
                       oc_requestId = je_requestId e, oc_reason = (if tr_success data then None else tr_error data),
                       oc_gasUsed = Some gasUsed, oc_actualGas = Some actualGas, oc_journalSynced = synced, oc_transaction = Some data\<rparr>,
                     dh_historicalTerminal = None\<rparr>, w2))))"

definition queryDeviceTransactionHistory :: "'r history_env \<Rightarrow> ('s, 'x) journal_ops \<Rightarrow> string \<Rightarrow> string \<Rightarrow> string
    \<Rightarrow> ('s, 'r, device_history option) hist" where
  "queryDeviceTransactionHistory h J organizationId grantId requestId =
     bindE (assertE (is_object_id organizationId \<and> is_object_id grantId \<and> is_history_request requestId) History_invalid_input) (\<lambda>_.
     bindE (\<lambda>w. case hrpcE (hv_human h) w of (Inl _, w') \<Rightarrow> (Inl History_outside, w') | (Inr s, w') \<Rightarrow> (Inr s, w')) (\<lambda>snapshot.
     case unique_grant snapshot grantId of
       None \<Rightarrow> throwE History_invalid_source
     | Some grant \<Rightarrow>
         bindE (assertE (grant_ok h organizationId snapshot grant) History_invalid_source) (\<lambda>_.
         let sender = dg_device grant;
             namespace = stringify (JArray [JString (hv_network h), JString (hs_chainIdentifier snapshot), JString sender]) in
         bindE (readEntry h J namespace requestId sender) (\<lambda>entry.
         case entry of
           None \<Rightarrow> okE None
         | Some e \<Rightarrow> (\<lambda>w. case history_outcome h J e w of (d, w') \<Rightarrow> (Inr (Some d), w'))))))"

section \<open>Agreement with the manager\<close>

text \<open>The manager of the device that sent the entry, on the same client.\<close>

definition manager_of :: "'r history_env \<Rightarrow> 'r client_env \<Rightarrow> string \<Rightarrow> string \<Rightarrow> 'r client_env" where
  "manager_of h env chain sender = env\<lparr>cl_network := hv_network h, cl_address := sender, cl_getChainIdentifier := okE chain, cl_isValidDigest := hv_isValidDigest h,
     cl_getTransaction := (\<lambda>d r. case hv_getTransaction h d r of (Inl _, r') \<Rightarrow> (Inl (), r') | (Inr x, r') \<Rightarrow> (Inr x, r'))\<rparr>"

lemma history_entry_valid: "history_entry_ok h ns rid sender e \<longleftrightarrow> valid_entry (manager_of h env chain sender) ns rid e"
  by (auto simp: history_entry_ok_def valid_entry_def manager_of_def)

lemma readEntry_journalM:
  "journalM (manager_of h env chain sender) J ns rid w =
    (case readEntry h J ns rid sender w of (Inl _, w') \<Rightarrow> (Inl (Preflight Journal_unavailable), w') | (Inr v, w') \<Rightarrow> (Inr v, w'))"
  by (simp add: journalM_def readEntry_def wrapAll_def journalE_def eff_run history_entry_valid [of h ns rid sender _ env chain]
      split: prod.split sum.split option.split)

lemma history_receipt_matches: "history_receipt_ok e data \<longleftrightarrow> receipt_matches e data"
  by (auto simp: history_receipt_ok_def receipt_matches_def split: option.splits)

lemma history_next_settled: "history_next e data g a = settled_entry e data g a"
  by (auto simp: history_next_def settled_entry_def Let_def split: option.split list.split)

lemma history_sync_journal:
  assumes "je_sender e = sender"
  shows "sync_journal (manager_of h env chain sender) J e nxt a w = (case history_sync h J e nxt a w of (b, w') \<Rightarrow> (Inr b, w'))"
  using assms
  by (simp add: sync_journal_def history_sync_def journalE_def eff_run readEntry_journalM
      split: prod.split sum.split bool.split option.split)

lemma history_confirm:
  assumes "je_sender e = sender"
  shows "confirm (manager_of h env chain sender) J e data w =
    (case receipt_gas e data of None \<Rightarrow> (Inl OtherError, w)
     | Some a \<Rightarrow>
        (let g = ef_gasUsed (the (tr_effects data)) in
         case history_sync h J e (history_next e data g a) a w of
           (synced, w') \<Rightarrow> (Inr \<lparr>oc_status = (if tr_success data then OConfirmed else OFailed), oc_digest = je_digest e,
             oc_requestId = je_requestId e, oc_reason = (if tr_success data then None else tr_error data),
             oc_gasUsed = Some g, oc_actualGas = Some a, oc_journalSynced = synced, oc_transaction = Some data\<rparr>, w')))"
  by (auto simp: confirm_def receipt_gas_def eff_run history_receipt_matches history_next_settled history_sync_journal [OF assms] sdkE_def
      Let_def not_less split: sum.split prod.split)

text \<open>Only the search for a historical terminal reads the journal once more than the manager does.\<close>

lemma historical_terminal_world:
  "historical_terminal h J e f w = (t, w') \<Longrightarrow>
     w' = w \<or> w' = w\<lparr>w_journal := snd (jo_get J (je_namespace e) (je_requestId e) (w_journal w))\<rparr>"
  by (auto simp: historical_terminal_def readEntry_def split: if_split_asm prod.splits sum.splits option.splits)

lemma history_outcome_query:
  assumes "history_outcome h J e w = (d, w')" "je_sender e = sender"
  shows "\<exists>w1. queryEntry (manager_of h env chain sender) J e w = (Inr (dh_outcome d), w1)
    \<and> (w' = w1 \<or> w' = w1\<lparr>w_journal := snd (jo_get J (je_namespace e) (je_requestId e) (w_journal w1))\<rparr>)
    \<and> dh_sender d = sender"
proof (cases "hv_getTransaction h (je_digest e) (w_rpc w)")
  case (Pair x r)
  let ?w1 = "w\<lparr>w_rpc := r\<rparr>"
  have unknown: "history_unknown e (je_requestId e) = unknown_outcome e" by (simp add: history_unknown_def unknown_outcome_def)
  show ?thesis
  proof (cases x)
    case (Inl f)
    then have "queryEntry (manager_of h env chain sender) J e w = (Inr (unknown_outcome e), ?w1)"
      using Pair by (simp add: queryEntry_def eff_run rpcE_def manager_of_def)
    moreover obtain t where "historical_terminal h J e f ?w1 = (t, w')" "d = \<lparr>dh_sender = je_sender e, dh_outcome = unknown_outcome e, dh_historicalTerminal = t\<rparr>"
      using assms(1) Inl Pair by (auto simp: history_outcome_def hrpcE_def unknown split: prod.splits)
    ultimately show ?thesis using historical_terminal_world assms(2) by fastforce
  next
    case (Inr data)
    then have rpc: "rpcE (cl_getTransaction (manager_of h env chain sender) (je_digest e)) w = (Inr data, ?w1)"
      using Pair by (simp add: rpcE_def manager_of_def)
    show ?thesis
      using assms Pair Inr
      by (auto simp: history_outcome_def queryEntry_def eff_run rpc history_confirm [OF assms(2)] hrpcE_def unknown Let_def
          split: option.splits prod.splits)
  qed
qed

lemma history_run:
  assumes "queryDeviceTransactionHistory h J organizationId grantId requestId w = (Inr (Some d), w')"
  obtains snapshot grant e r w2 where "hv_human h (w_rpc w) = (Inr snapshot, r)"
    "unique_grant snapshot grantId = Some grant" "grant_ok h organizationId snapshot grant"
    "readEntry h J (stringify (JArray [JString (hv_network h), JString (hs_chainIdentifier snapshot), JString (dg_device grant)]))
       requestId (dg_device grant) (w\<lparr>w_rpc := r\<rparr>) = (Inr (Some e), w2)"
    "history_outcome h J e w2 = (d, w')"
  using assms
  by (auto simp: queryDeviceTransactionHistory_def hrpcE_def Let_def eff_oks simp del: stringify.simps
      elim!: bindE_okE split: prod.splits sum.splits option.splits)

lemma readEntry_valid: "readEntry h J ns rid sender w = (Inr (Some e), w') \<Longrightarrow> history_entry_ok h ns rid sender e"
  by (auto simp: readEntry_def split: prod.splits sum.splits option.splits if_split_asm)

lemma history_terminal_unknown: "history_outcome h J e w = (d, w') \<Longrightarrow> dh_historicalTerminal d \<noteq> None \<Longrightarrow> oc_status (dh_outcome d) = OUnknown"
  by (auto simp: history_outcome_def history_unknown_def Let_def split: prod.splits sum.splits option.splits)

section \<open>Properties\<close>

text \<open>
  C13. The history query and the transaction manager agree: when the history of a request is returned, the
  device is the one of the single grant with that id, listed by the human and in scope of the
  organization, and the manager of that device, asked for the same request on the same state, gives
  exactly the same outcome and leaves the same world, except that the history may have read the journal
  once more. A historical terminal state is only reported beside an unknown outcome.
\<close>

theorem history_agrees_with_manager:
  assumes "queryDeviceTransactionHistory h J organizationId grantId requestId w = (Inr (Some d), w')"
  shows "\<exists>snapshot grant w1. hv_human h (w_rpc w) = (Inr snapshot, w_rpc w1) \<and> w1 = w\<lparr>w_rpc := w_rpc w1\<rparr>
    \<and> unique_grant snapshot grantId = Some grant \<and> grant_ok h organizationId snapshot grant \<and> dh_sender d = dg_device grant
    \<and> (hs_chainIdentifier snapshot \<noteq> [] \<longrightarrow>
        (\<exists>w3 ns. query (manager_of h env (hs_chainIdentifier snapshot) (dg_device grant)) J requestId w1 = (Inr (Some (dh_outcome d)), w3)
           \<and> (w' = w3 \<or> w' = w3\<lparr>w_journal := snd (jo_get J ns requestId (w_journal w3))\<rparr>)))
    \<and> (dh_historicalTerminal d \<noteq> None \<longrightarrow> oc_status (dh_outcome d) = OUnknown)"
proof -
  from history_run [OF assms] obtain snapshot grant e r w2 where
      human: "hv_human h (w_rpc w) = (Inr snapshot, r)"
    and grant: "unique_grant snapshot grantId = Some grant" "grant_ok h organizationId snapshot grant"
    and read: "readEntry h J (stringify (JArray [JString (hv_network h), JString (hs_chainIdentifier snapshot), JString (dg_device grant)]))
       requestId (dg_device grant) (w\<lparr>w_rpc := r\<rparr>) = (Inr (Some e), w2)"
    and outcome: "history_outcome h J e w2 = (d, w')" .
  let ?w1 = "w\<lparr>w_rpc := r\<rparr>"
  let ?env = "manager_of h env (hs_chainIdentifier snapshot) (dg_device grant)"
  let ?ns = "stringify (JArray [JString (hv_network h), JString (hs_chainIdentifier snapshot), JString (dg_device grant)])"
  have e: "je_sender e = dg_device grant" "je_requestId e = requestId" using readEntry_valid [OF read] by (simp_all add: history_entry_ok_def)
  from history_outcome_query [OF outcome e(1)] obtain w3 where w3: "queryEntry ?env J e w2 = (Inr (dh_outcome d), w3)"
      "w' = w3 \<or> w' = w3\<lparr>w_journal := snd (jo_get J (je_namespace e) requestId (w_journal w3))\<rparr>" "dh_sender d = dg_device grant"
    using e(2) by blast
  have "query ?env J requestId ?w1 = (Inr (Some (dh_outcome d)), w3)" if "hs_chainIdentifier snapshot \<noteq> []"
  proof -
    have "namespaceM ?env ?w1 = (Inr ?ns, ?w1)"
      using that by (simp add: namespaceM_def wrapAll_def rpcE_def eff_run manager_of_def)
    moreover have "journalM ?env J ?ns requestId ?w1 = (Inr (Some e), w2)" by (simp only: readEntry_journalM read) simp
    ultimately show ?thesis using w3(1) by (simp add: query_def eff_run del: stringify.simps)
  qed
  then show ?thesis
    using human grant w3 history_terminal_unknown [OF outcome] by (intro exI [of _ snapshot] exI [of _ grant] exI [of _ ?w1]) auto
qed

definition sample_history :: "unit history_env" where
  "sample_history = \<lparr>hv_network = ''testnet'', hv_humanId = ''H'',
     hv_human = okE \<lparr>hs_grants = Some [\<lparr>dg_id = ''0x'' @ replicate 64 (CHR ''1''), dg_human_id = ''H'',
         dg_device = ''0x'' @ replicate 64 (CHR ''2''), dg_org_scope = None\<rparr>],
       hs_human_grants = [''0x'' @ replicate 64 (CHR ''1'')], hs_chainIdentifier = ''C''\<rparr>,
     hv_getTransaction = (\<lambda>d. throwE (Not_found d)), hv_isValidDigest = (\<lambda>_. True)\<rparr>"

definition history_request :: string where
  "history_request = ''host:00000000-0000-0000-0000-000000000000''"

definition history_namespace :: string where
  "history_namespace = stringify (JArray [JString ''testnet'', JString ''C'', JString (''0x'' @ replicate 64 (CHR ''2''))])"

definition history_entry :: journal_entry where
  "history_entry = sample_entry\<lparr>je_namespace := history_namespace, je_requestId := history_request, je_revision := 2,
     je_sender := ''0x'' @ replicate 64 (CHR ''2''), je_status := Confirmed, je_gasBudget := ''50'',
     je_gasUsed := Some \<lparr>computationCost = ''30'', storageCost = ''5'', storageRebate = ''5'', nonRefundableStorageFee = ''0''\<rparr>,
     je_actualGas := Some ''30''\<rparr>"

definition history_world :: "(memory_journal, unit) mworld" where
  "history_world = \<lparr>w_journal = [((history_namespace, history_request), history_entry)], w_rpc = (), w_prepared = [], w_sent = []\<rparr>"

theorem history_agrees_with_manager_witness:
  "\<exists>d w'. queryDeviceTransactionHistory sample_history memory_ops (''0x'' @ replicate 64 (CHR ''9'')) (''0x'' @ replicate 64 (CHR ''1''))
       history_request history_world = (Inr (Some d), w')
     \<and> dh_historicalTerminal d = Some (OConfirmed, ''30'') \<and> oc_status (dh_outcome d) = OUnknown"
proof -
  let ?run = "queryDeviceTransactionHistory sample_history memory_ops (''0x'' @ replicate 64 (CHR ''9'')) (''0x'' @ replicate 64 (CHR ''1''))
       history_request history_world"
  have "case fst ?run of Inr (Some d) \<Rightarrow> dh_historicalTerminal d = Some (OConfirmed, ''30'') | _ \<Rightarrow> False" by code_simp
  then obtain d w' where run: "?run = (Inr (Some d), w')" "dh_historicalTerminal d = Some (OConfirmed, ''30'')"
    by (cases ?run) (auto split: sum.splits option.splits)
  from history_agrees_with_manager [OF run(1)] run show ?thesis by auto
qed

end
