(* ===== verification/Guarded_Flow.thy ===== *)
theory Guarded_Flow
  imports Transaction_History
begin

text \<open>
  What the app's transaction flows have in common: a quote is prepared for one logical step, the flow
  remembers under the quote what has to hold when it is sent, and the signer given to the transaction
  manager runs that guard before and after the device signs. \<^verbatim>\<open>OkrDraftCreation\<close> and
  \<^verbatim>\<open>NativeHostHealth\<close> are such flows; their submissions are instances of \<open>guarded_submit\<close>.

  A flow runs one submission at a time: its \<^verbatim>\<open>signingGuard\<close> is set just before the manager's submit and
  cleared after it, so the client that the manager sees is \<open>guarded_client\<close>.
\<close>

datatype 'e flow_error = Flow 'e | Manager tm_error

record ('s, 'r, 'p) flow_world =
  fw_manager :: "('s, 'r) mworld"
  fw_plans :: "(fee_quote \<times> 'p) list"

type_synonym ('s, 'r, 'p, 'e, 'a) flow = "(('s, 'r, 'p) flow_world, 'e flow_error, 'a) eff"

text \<open>An action of the manager and an action of the outside world, inside a flow.\<close>

definition managerE :: "(('s, 'r) mworld, tm_error, 'a) eff \<Rightarrow> ('s, 'r, 'p, 'e, 'a) flow" where
  "managerE m = (\<lambda>w. case m (fw_manager w) of (x, v) \<Rightarrow>
     ((case x of Inl e \<Rightarrow> Inl (Manager e) | Inr a \<Rightarrow> Inr a), w\<lparr>fw_manager := v\<rparr>))"

definition outsideE :: "('r, 'e, 'a) eff \<Rightarrow> ('s, 'r, 'p, 'e, 'a) flow" where
  "outsideE m = (\<lambda>w. case m (w_rpc (fw_manager w)) of (x, r) \<Rightarrow>
     ((case x of Inl e \<Rightarrow> Inl (Flow e) | Inr a \<Rightarrow> Inr a), w\<lparr>fw_manager := (fw_manager w)\<lparr>w_rpc := r\<rparr>\<rparr>))"

definition remember :: "fee_quote \<Rightarrow> 'p \<Rightarrow> ('s, 'r, 'p, 'e, unit) flow" where
  "remember q p = modifyE (\<lambda>w. w\<lparr>fw_plans := (q, p) # fw_plans w\<rparr>)"

section \<open>The guarded signer\<close>

definition quietE :: "('r, 'e, 'a) eff \<Rightarrow> ('r, unit, 'a) eff" where
  "quietE m = (\<lambda>r. case m r of (Inl _, r') \<Rightarrow> (Inl (), r') | (Inr a, r') \<Rightarrow> (Inr a, r'))"

definition guarded_sign :: "('r, 'e, unit) eff \<Rightarrow> (string \<Rightarrow> ('r, unit, string \<times> string) eff) \<Rightarrow> string \<Rightarrow> ('r, unit, string \<times> string) eff" where
  "guarded_sign guard sign bytes =
     bindE (quietE guard) (\<lambda>_.
     bindE (sign bytes) (\<lambda>signed.
     bindE (quietE guard) (\<lambda>_.
     okE signed)))"

definition guarded_client :: "'r client_env \<Rightarrow> ('r, 'e, unit) eff \<Rightarrow> 'r client_env" where
  "guarded_client env guard = env\<lparr>cl_sign := guarded_sign guard (cl_sign env)\<rparr>"

definition guarded_submit :: "'r client_env \<Rightarrow> ('s, 'x) journal_ops \<Rightarrow> ('p \<Rightarrow> ('r, 'e, unit) eff) \<Rightarrow> 'e \<Rightarrow> fee_quote
    \<Rightarrow> ('s, 'r, 'p, 'e, tx_outcome) flow" where
  "guarded_submit env J guard invalid q =
     bindE (getE (\<lambda>w. map_of (fw_plans w) q)) (\<lambda>found.
     case found of
       None \<Rightarrow> throwE (Flow invalid)
     | Some plan \<Rightarrow>
         bindE (outsideE (guard plan)) (\<lambda>_.
         managerE (broadcast (guarded_client env (guard plan)) J q)))"

section \<open>What a broadcast by a flow rests on\<close>

lemma wrapAll_Inr: "wrapAll c m w = (Inr a, w') \<longleftrightarrow> m w = (Inr a, w')"
  by (auto simp: wrapAll_def eff_elims)

text \<open>A signature that the manager goes on with was made by the client's signer over the prepared bytes.\<close>

lemma sign_prepared_signed:
  assumes "sign_prepared env q p w = (Inr sg, w')"
  shows "\<exists>b r r'. cl_sign env (p_bytes p) r = (Inr (b, sg), r')"
  using assms by (auto simp: sign_prepared_def wrapAll_Inr rpcE_Inr eff_oks elim!: bindE_okE) blast

lemma broadcast_sign_signed:
  assumes "broadcast_sign env J q w = (Inr (Inr (p, sg)), w')"
  shows "\<exists>b r r'. cl_sign env (p_bytes p) r = (Inr (b, sg), r')"
  using assms
  by (auto simp: broadcast_sign_def sign_fresh_def eff_oks dest!: sign_prepared_signed elim!: bindE_okE split: option.splits) blast+

lemma quietE_Inr: "quietE m r = (Inr a, r') \<longleftrightarrow> m r = (Inr a, r')"
  by (auto simp: quietE_def split: prod.splits sum.splits)

lemma guarded_sign_ok:
  assumes "guarded_sign guard sign bytes r = (Inr s, r')"
  shows "\<exists>r1 r2. guard r = (Inr (), r1) \<and> sign bytes r1 = (Inr s, r2) \<and> guard r2 = (Inr (), r')"
  using assms by (auto simp: guarded_sign_def quietE_Inr eff_oks elim!: bindE_okE)

lemma outsideE_Inr:
  "outsideE m w = (Inr a, w') \<longleftrightarrow>
     (\<exists>r. m (w_rpc (fw_manager w)) = (Inr a, r) \<and> w' = w\<lparr>fw_manager := (fw_manager w)\<lparr>w_rpc := r\<rparr>\<rparr>)"
  by (auto simp: outsideE_def split: prod.splits sum.splits)

lemma managerE_Inr: "managerE m w = (Inr a, w') \<longleftrightarrow> (\<exists>v. m (fw_manager w) = (Inr a, v) \<and> w' = w\<lparr>fw_manager := v\<rparr>)"
  by (auto simp: managerE_def split: prod.splits sum.splits)

text \<open>
  The promise of a flow: at most one broadcast, only for a remembered quote, and only if its guard held
  before the submission, again right before the device signed and again right after it.
\<close>

definition guarded_run :: "('r, 'e, unit) eff \<Rightarrow> 'r client_env \<Rightarrow> string \<Rightarrow> bool" where
  "guarded_run guard env bytes \<longleftrightarrow> (\<exists>r r1 r2 r3 s. guard r = (Inr (), r1) \<and> cl_sign env bytes r1 = (Inr s, r2) \<and> guard r2 = (Inr (), r3))"

lemma guarded_broadcast_sent:
  assumes "broadcast (guarded_client env guard) J q w = (y, v)" "w_sent v \<noteq> w_sent w"
  shows "\<exists>p. p \<in> set (w_prepared w) \<and> p_quote p = q \<and> \<not> p_used p \<and> guarded_run guard env (p_bytes p) \<and> w_sent v = (entry_key (p_entry p), je_digest (p_entry p)) # w_sent w"
  using assms(1)
proof (cases rule: broadcast_cases)
  case (executed p sg w1 w2)
  from broadcast_sign_signed [OF executed(1)] obtain b a a' where
    "guarded_sign guard (cl_sign env) (p_bytes p) a = (Inr (b, sg), a')" by (auto simp: guarded_client_def)
  note signed = guarded_sign_ok [OF this]
  have "w_sent v = (entry_key (p_entry p), je_digest (p_entry p)) # w_sent w"
    using assms(2) broadcast_execute_sent [OF executed(3)] sent_broadcast_sign [OF executed(1)] sent_broadcast_claim [OF executed(2)] by auto
  then show ?thesis using signed broadcast_sign_checked [OF executed(1)] unfolding guarded_run_def by blast
qed (use assms(2) in \<open>auto dest!: sent_broadcast_sign sent_broadcast_claim\<close>)

lemma guarded_submit_sent:
  assumes "guarded_submit env J guard invalid q w = (r, w')" "w_sent (fw_manager w') \<noteq> w_sent (fw_manager w)"
  shows "\<exists>plan p r1. map_of (fw_plans w) q = Some plan \<and> guard plan (w_rpc (fw_manager w)) = (Inr (), r1)
    \<and> p \<in> set (w_prepared (fw_manager w)) \<and> p_quote p = q \<and> \<not> p_used p \<and> guarded_run (guard plan) env (p_bytes p)
    \<and> w_sent (fw_manager w') = (entry_key (p_entry p), je_digest (p_entry p)) # w_sent (fw_manager w)"
proof (cases "map_of (fw_plans w) q")
  case None
  then show ?thesis using assms by (simp add: guarded_submit_def eff_run)
next
  case (Some plan)
  obtain x r1 where first: "guard plan (w_rpc (fw_manager w)) = (x, r1)" by fastforce
  let ?w1 = "w\<lparr>fw_manager := (fw_manager w)\<lparr>w_rpc := r1\<rparr>\<rparr>"
  show ?thesis
  proof (cases x)
    case (Inl e)
    then show ?thesis using assms Some first by (auto simp: guarded_submit_def eff_run outsideE_def)
  next
    case (Inr u)
    obtain y v where run: "broadcast (guarded_client env (guard plan)) J q (fw_manager ?w1) = (y, v)" by fastforce
    have w': "w' = ?w1\<lparr>fw_manager := v\<rparr>"
      using assms(1) Some first Inr run by (auto simp: guarded_submit_def eff_run outsideE_def managerE_def)
    have "w_sent v \<noteq> w_sent (fw_manager ?w1)" using assms(2) w' by simp
    from guarded_broadcast_sent [OF run this] show ?thesis
      using Some first Inr w' by auto
  qed
qed

section \<open>What the parts of a flow leave alone\<close>

lemma prepare_sent: "prepare fuel env J i w = (x, w') \<Longrightarrow> w_sent w' = w_sent w"
  by (drule keepsD [OF keeps_prepare]) (simp add: same_sent_def)

lemma query_sent: "query env J i w = (x, w') \<Longrightarrow> w_sent w' = w_sent w"
proof -
  have "keeps same_but_journal (query env J i)" unfolding query_def
    by (auto intro!: keeps_queryEntry keeps_journalM keeps_weaken [OF keeps_namespaceM same_state_journal])
  then show "query env J i w = (x, w') \<Longrightarrow> w_sent w' = w_sent w" by (auto dest: keepsD simp: same_but_journal_def)
qed

definition unsent :: "('s, 'r, 'p) flow_world \<Rightarrow> ('s, 'r, 'p) flow_world \<Rightarrow> bool" where
  "unsent w w' \<longleftrightarrow> w_sent (fw_manager w') = w_sent (fw_manager w) \<and> fw_plans w' = fw_plans w"

lemma unsent_preorder [simp]: "preorder_on_worlds unsent"
  by (auto simp: preorder_on_worlds_def unsent_def intro!: reflpI transpI)

lemma unsent_parts [intro!]:
  "keeps unsent (outsideE m)" "keeps unsent (managerE (prepare fuel env J i))" "keeps unsent (managerE (query env J k))"
  by (auto simp: keeps_def unsent_def outsideE_def managerE_def dest: prepare_sent query_sent split: prod.splits)

lemma prepared_requestId:
  assumes "prepare fuel env J i w = (Inr q, w')"
  shows "q_requestId q = pi_requestId i"
  using assms by (auto simp: prepare_def issue_quote_def Let_def eff_oks elim!: bindE_okE)

section \<open>Submissions that first ask for an earlier outcome\<close>

text \<open>
  Several flows answer a repeated submission with the outcome of the first: they refuse a quote that is not their own, ask the journal and the chain for
  the request, and only when nothing is known go on to \<open>guarded_submit\<close>.
\<close>

definition resumed_submit :: "'r client_env \<Rightarrow> ('s, 'x) journal_ops \<Rightarrow> ('p \<Rightarrow> ('r, 'e, unit) eff) \<Rightarrow> 'e \<Rightarrow> ('s, 'r, 'p, 'e, tx_outcome option) flow
    \<Rightarrow> fee_quote \<Rightarrow> ('s, 'r, 'p, 'e, tx_outcome) flow" where
  "resumed_submit env J guard invalid ask q =
     bindE (getE (\<lambda>w. map_of (fw_plans w) q)) (\<lambda>known.
     bindE (assertE (known \<noteq> None) (Flow invalid)) (\<lambda>_.
     bindE ask (\<lambda>prior.
     case prior of Some c \<Rightarrow> okE c | None \<Rightarrow> guarded_submit env J guard invalid q)))"

text \<open>What such a question leaves alone: the plans, the prepared transactions and what was sent.\<close>

definition unsubmitted :: "('s, 'r, 'p) flow_world \<Rightarrow> ('s, 'r, 'p) flow_world \<Rightarrow> bool" where
  "unsubmitted w w' \<longleftrightarrow> fw_plans w' = fw_plans w \<and> same_but_journal (fw_manager w) (fw_manager w')"

lemma unsubmitted_preorder [simp]: "preorder_on_worlds unsubmitted"
  by (auto simp: preorder_on_worlds_def unsubmitted_def same_but_journal_def intro!: reflpI transpI)

lemma unsubmitted_refl [simp]: "unsubmitted w w"
  by (simp add: unsubmitted_def same_but_journal_def)

lemma keeps_query_journal: "keeps same_but_journal (query env J i)"
  unfolding query_def by (auto intro!: keeps_queryEntry keeps_journalM keeps_weaken [OF keeps_namespaceM same_state_journal])

lemma unsubmitted_parts [intro!]: "keeps unsubmitted (outsideE m)" "keeps unsubmitted (managerE (query env J i))"
  using keepsD [OF keeps_query_journal]
  by (fastforce simp: keeps_def unsubmitted_def outsideE_def managerE_def same_but_journal_def split: prod.splits)+

lemma unsubmitted_asked [intro!]: "keeps unsubmitted (bindE (outsideE m) (\<lambda>_. managerE (query env J i)))"
  by (auto intro!: keeps_bindE unsubmitted_preorder)

lemma resumed_submit_guarded:
  assumes "keeps unsubmitted ask" "resumed_submit env J guard invalid ask q w = (x, w')" "w_sent (fw_manager w') \<noteq> w_sent (fw_manager w)"
  shows "\<exists>w0. ask w = (Inr None, w0) \<and> unsubmitted w w0 \<and> guarded_submit env J guard invalid q w0 = (x, w')"
proof -
  obtain y w0 where y: "ask w = (y, w0)" by fastforce
  from keepsD [OF assms(1) y] have same: "unsubmitted w w0" .
  have "y = Inr None"
  proof (rule ccontr)
    assume "y \<noteq> Inr None"
    then have "w_sent (fw_manager w') = w_sent (fw_manager w0) \<or> w' = w"
      using assms(2) y by (auto simp: resumed_submit_def eff_run split: if_split_asm sum.split_asm option.split_asm)
    then show False using assms(3) same by (auto simp: unsubmitted_def same_but_journal_def)
  qed
  then show ?thesis using assms y same by (auto simp: resumed_submit_def eff_run split: if_split_asm)
qed

lemma resumed_submit_law:
  assumes "keeps unsubmitted ask" "resumed_submit env J guard invalid ask q w = (x, w')" "w_sent (fw_manager w') \<noteq> w_sent (fw_manager w)"
  shows "\<exists>w0 r1 w1. unsubmitted w w0 \<and> guarded_submit env J guard invalid q w0 = (r1, w1) \<and> w_sent (fw_manager w1) = w_sent (fw_manager w')"
  using resumed_submit_guarded [OF assms] by blast

section \<open>Sealed records\<close>

text \<open>What the device returns for a record has to be the canonical base64 text of at most 64 KiB that start with the envelope's mark.\<close>

definition sealed_text :: "(string \<Rightarrow> string option) \<Rightarrow> (string \<Rightarrow> string) \<Rightarrow> string option \<Rightarrow> string option" where
  "sealed_text from64 to64 result =
    (case result of None \<Rightarrow> None
     | Some s \<Rightarrow>
        if 87384 < length s then None
        else (case from64 s of None \<Rightarrow> None
              | Some body \<Rightarrow> if 32 \<le> length body \<and> length body \<le> 65536 \<and> to64 body = s \<and> take 4 body = ''FME1'' then Some body else None))"

section \<open>The interface of a flow\<close>

text \<open>
  A flow whose submission broadcasts only through \<open>guarded_submit\<close>. Its client needs no more: the
  guard of the remembered plan held around every signature that led to a broadcast.
\<close>

locale submission_flow =
  fixes submitF :: "fee_quote \<Rightarrow> ('s, 'r, 'p, 'e, tx_outcome) flow"
    and env :: "'r client_env"
    and J :: "('s, 'x) journal_ops"
    and guard :: "'p \<Rightarrow> ('r, 'e, unit) eff"
    and invalid :: 'e
  assumes submits_guarded: "submitF q w = (r, w') \<Longrightarrow> w_sent (fw_manager w') \<noteq> w_sent (fw_manager w) \<Longrightarrow>
      \<exists>w0 r1 w1. unsubmitted w w0 \<and> guarded_submit env J guard invalid q w0 = (r1, w1) \<and> w_sent (fw_manager w1) = w_sent (fw_manager w')"
begin

lemma sent_under_guard:
  assumes "submitF q w = (r, w')" "w_sent (fw_manager w') \<noteq> w_sent (fw_manager w)"
  shows "\<exists>plan p. map_of (fw_plans w) q = Some plan \<and> p \<in> set (w_prepared (fw_manager w)) \<and> p_quote p = q \<and> \<not> p_used p
    \<and> guarded_run (guard plan) env (p_bytes p)
    \<and> w_sent (fw_manager w') = (entry_key (p_entry p), je_digest (p_entry p)) # w_sent (fw_manager w)"
proof -
  from submits_guarded [OF assms] obtain w0 r1 w1 where same: "unsubmitted w w0" and run: "guarded_submit env J guard invalid q w0 = (r1, w1)"
    and sent: "w_sent (fw_manager w1) = w_sent (fw_manager w')" by blast
  from guarded_submit_sent [OF run] assms(2) sent same show ?thesis by (auto simp: unsubmitted_def same_but_journal_def)
qed

lemma unknown_quote_not_sent:
  assumes "submitF q w = (r, w')" "map_of (fw_plans w) q = None"
  shows "w_sent (fw_manager w') = w_sent (fw_manager w)"
  using sent_under_guard [OF assms(1)] assms(2) by fastforce

end

section \<open>A sample account\<close>

text \<open>The sample account with enough balance for the gas budget of a flow.\<close>

definition flow_result :: tx_result where
  "flow_result = sample_result\<lparr>tr_transaction := Some \<lparr>sd_sender = ''A'', sd_gasOwner = ''A'', sd_gasBudget = ''200000000''\<rparr>\<rparr>"

definition flow_client :: "unit client_env" where
  "flow_client = sample_env\<lparr>
     cl_getBalance := (\<lambda>_. okE \<lparr>b_coinType = ''0x2::sui::SUI'', b_balance = ''200000009'', b_addressBalance = ''200000009''\<rparr>),
     cl_simulate := (\<lambda>_. okE flow_result), cl_execute := (\<lambda>_ _. okE flow_result), cl_getTransaction := (\<lambda>_. okE flow_result)\<rparr>"

lemma unit_world [simp]: "(w :: ('s, unit) mworld)\<lparr>w_rpc := u\<rparr> = w"
  by (cases w) simp

end
