(* ===== verification/Okr_Draft_Flow.thy ===== *)
theory Okr_Draft_Flow
  imports Okr_Spec Guarded_Flow
begin

text \<open>
  Creating a draft objective, \<^verbatim>\<open>OkrDraftCreation\<close> of \<^verbatim>\<open>apps/fractalmind-app/src/okr-draft.ts\<close>: preparing the
  encrypted specification and its transaction, and submitting it under a guard. The transaction manager
  is the one of \<^verbatim>\<open>sdk/src/transaction-manager.ts\<close> as modelled; chain reads, the device verifier, the
  device's encryption and the transaction builder are fields of \<open>draft_env\<close>.
\<close>

datatype draft_failure =
    Invalid_draft draft_error | Deadline_expired | Already_exists | Authority_changed | Invalid_ciphertext | Invalid_quote
  | Draft_inactive | Draft_outside | Draft_pages

datatype list_failure = Missing_index | List_failed

record draft_authority =
  dt_authorityPin :: "string option"
  dt_clockMs :: int

record okr_page =
  opg_logicalIds :: "string list"
  opg_cursor :: "string option"
  opg_hasNextPage :: bool

record draft_plan =
  dp_pin :: string
  dp_deadline :: string
  dp_source :: "json option"

record 'r draft_env =
  dr_client :: "'r client_env"
  dr_hash :: hash_env
  dr_organizationId :: string
  dr_logicalId :: string
  dr_active :: "'r \<Rightarrow> bool"
  dr_checkNetwork :: "('r, draft_failure, unit) eff"
  dr_verifyOrganization :: "('r, draft_failure, draft_authority) eff"
  dr_source :: "string \<Rightarrow> 'r source_env"
  dr_listOkrs :: "string option \<Rightarrow> ('r, list_failure, okr_page) eff"
  dr_listCurrent :: "('r, list_failure, string) eff"
  dr_encrypt :: "string \<Rightarrow> string \<Rightarrow> ('r, draft_failure, string option) eff"
  dr_fromBase64 :: "string \<Rightarrow> string option"
  dr_toBase64 :: "string \<Rightarrow> string"
  dr_createDraft :: "okr_spec \<Rightarrow> string \<Rightarrow> string \<Rightarrow> tx_data option"

type_synonym ('s, 'r, 'a) draft = "('s, 'r, draft_plan, draft_failure, 'a) flow"

definition new_draft_ok :: "string \<Rightarrow> string \<Rightarrow> (draft_failure, unit) result" where
  "new_draft_ok organizationId logicalId = assertR (is_object_id organizationId \<and> is_uuid logicalId) (Invalid_draft Draft_invalid_input)"

definition draft_requestId :: "'r draft_env \<Rightarrow> string" where
  "draft_requestId D = ''okr-draft:'' @ dr_organizationId D @ '':'' @ dr_logicalId D"

definition draftActive :: "'r draft_env \<Rightarrow> ('r, draft_failure, unit) eff" where
  "draftActive D = bindE (getE (dr_active D)) (\<lambda>ok. assertE ok Draft_inactive)"

definition queryDraft :: "'r draft_env \<Rightarrow> ('s, 'x) journal_ops \<Rightarrow> ('s, 'r, tx_outcome option) draft" where
  "queryDraft D J =
     bindE (outsideE (draftActive D)) (\<lambda>_.
     bindE (outsideE (dr_checkNetwork D)) (\<lambda>_.
     managerE (query (dr_client D) J (draft_requestId D))))"

text \<open>The snapshot of the message is verified by a controller for the agent that it names.\<close>

definition verifySource :: "'r draft_env \<Rightarrow> json option \<Rightarrow> ('r, draft_failure, unit) eff" where
  "verifySource D source =
     bindE (draftActive D) (\<lambda>_.
     bindE (case source of None \<Rightarrow> okE ()
            | Some s \<Rightarrow> (\<lambda>r. case verifyMessageOkrSource (dr_hash D) (dr_source D (the (sfield s ''managedAgentId''))) s r of
                (Inl e, r') \<Rightarrow> (Inl (Invalid_draft (Draft_source e)), r') | (Inr u, r') \<Rightarrow> (Inr u, r'))) (\<lambda>_.
     draftActive D))"

text \<open>One page of objectives; a missing index on the first page is an empty directory.\<close>

definition okr_page_at :: "'r draft_env \<Rightarrow> string option \<Rightarrow> ('r, draft_failure, okr_page) eff" where
  "okr_page_at D cursor = (\<lambda>r. case dr_listOkrs D cursor r of
     (Inr page, r') \<Rightarrow> (Inr page, r')
   | (Inl e, r') \<Rightarrow>
       if cursor = None \<and> e = Missing_index then (Inr \<lparr>opg_logicalIds = [], opg_cursor = None, opg_hasNextPage = False\<rparr>, r')
       else (Inl Draft_outside, r'))"

fun existsFrom :: "nat \<Rightarrow> 'r draft_env \<Rightarrow> string option \<Rightarrow> string list \<Rightarrow> nat \<Rightarrow> ('r, draft_failure, bool) eff" where
  "existsFrom 0 D cursor seen count = throwE Draft_pages"
| "existsFrom (Suc fuel) D cursor seen count =
     bindE (okr_page_at D cursor) (\<lambda>page.
     if dr_logicalId D \<in> set (opg_logicalIds page) then okE True
     else if \<not> opg_hasNextPage page then okE False
     else let count' = count + length (opg_logicalIds page) in
       case opg_cursor page of
         None \<Rightarrow> throwE (Invalid_draft Draft_invalid_input)
       | Some c \<Rightarrow>
           if c = [] \<or> c \<in> set seen \<or> 1000 < count' then throwE (Invalid_draft Draft_invalid_input)
           else existsFrom fuel D (Some c) (c # seen) count')"

definition existsD :: "nat \<Rightarrow> 'r draft_env \<Rightarrow> ('r, draft_failure, bool) eff" where
  "existsD fuel D = existsFrom fuel D None [] 0"

definition keyVersionD :: "'r draft_env \<Rightarrow> ('r, draft_failure, string) eff" where
  "keyVersionD D = (\<lambda>r. case dr_listCurrent D r of
     (Inr v, r') \<Rightarrow> (Inr v, r')
   | (Inl e, r') \<Rightarrow> (if e = Missing_index then Inr ''1'' else Inl Draft_outside, r'))"

text \<open>What the device returned must be the canonical base64 text of a sealed body.\<close>

definition sealed_body :: "'r draft_env \<Rightarrow> string option \<Rightarrow> (draft_failure, string) result" where
  "sealed_body D res =
    (case res of None \<Rightarrow> Inl Invalid_ciphertext
     | Some s \<Rightarrow>
        if 87384 < length s then Inl Invalid_ciphertext
        else (case dr_fromBase64 D s of None \<Rightarrow> Inl Invalid_ciphertext
              | Some body \<Rightarrow>
                  if length body < 32 \<or> 65536 < length body \<or> dr_toBase64 D body \<noteq> s \<or> take 4 body \<noteq> ''FME1''
                  then Inl Invalid_ciphertext else Inr body))"

text \<open>The authority, deadline and uniqueness checks before anything is encrypted.\<close>

definition checkDraft :: "nat \<Rightarrow> 'r draft_env \<Rightarrow> okr_spec \<Rightarrow> ('r, draft_failure, draft_authority) eff" where
  "checkDraft fuel D spec =
     bindE (dr_verifyOrganization D) (\<lambda>before.
     bindE (assertE (dt_clockMs before < dec_value (sp_deadlineMs spec)) Deadline_expired) (\<lambda>_.
     bindE (existsD fuel D) (\<lambda>there.
     bindE (assertE (\<not> there) Already_exists) (\<lambda>_.
     bindE (verifySource D (sp_source spec)) (\<lambda>_.
     okE before)))))"

text \<open>The sealed body and the authority pin that was the same before and after sealing.\<close>

definition sealDraft :: "'r draft_env \<Rightarrow> okr_spec \<Rightarrow> draft_authority \<Rightarrow> ('r, draft_failure, string \<times> string \<times> string) eff" where
  "sealDraft D spec before =
     bindE (keyVersionD D) (\<lambda>keyVersion.
     bindE (dr_encrypt D keyVersion (stringify (spec_json spec))) (\<lambda>res.
     bindE (liftR (sealed_body D res)) (\<lambda>body.
     bindE (dr_verifyOrganization D) (\<lambda>after.
     bindE (assertE (dt_authorityPin before = dt_authorityPin after \<and> dt_authorityPin after \<noteq> None \<and> dt_authorityPin after \<noteq> Some []) Authority_changed) (\<lambda>_.
     bindE (verifySource D (sp_source spec)) (\<lambda>_.
     okE (keyVersion, body, the (dt_authorityPin after))))))))"

text \<open>A fresh request: everything after the query for an earlier outcome.\<close>

definition quoteDraft :: "nat \<Rightarrow> nat \<Rightarrow> 'r draft_env \<Rightarrow> ('s, 'x) journal_ops \<Rightarrow> draft_input \<Rightarrow> ('s, 'r, fee_quote) draft" where
  "quoteDraft fuel pages D J input =
     bindE (outsideE (liftR (case normalizeDraft (dr_hash D) input of Inl e \<Rightarrow> Inl (Invalid_draft e) | Inr s \<Rightarrow> Inr s))) (\<lambda>spec.
     bindE (outsideE (checkDraft pages D spec)) (\<lambda>before.
     bindE (outsideE (sealDraft D spec before)) (\<lambda>(keyVersion, body, pin).
     bindE (outsideE (liftR (case dr_createDraft D spec keyVersion body of None \<Rightarrow> Inl Draft_outside | Some tx \<Rightarrow> Inr tx))) (\<lambda>tx.
     bindE (managerE (prepare fuel (dr_client D) J \<lparr>pi_requestId = draft_requestId D, pi_transaction = tx,
              pi_gasBudget = UBigInt 200000000, pi_maxSuiSpend = None\<rparr>)) (\<lambda>quote.
     bindE (outsideE (verifySource D (sp_source spec))) (\<lambda>_.
     bindE (remember quote \<lparr>dp_pin = pin, dp_deadline = sp_deadlineMs spec, dp_source = sp_source spec\<rparr>) (\<lambda>_.
     okE quote)))))))"

definition prepareDraft :: "nat \<Rightarrow> nat \<Rightarrow> 'r draft_env \<Rightarrow> ('s, 'x) journal_ops \<Rightarrow> draft_input \<Rightarrow> ('s, 'r, fee_quote + tx_outcome) draft" where
  "prepareDraft fuel pages D J input =
     bindE (queryDraft D J) (\<lambda>prior.
     case prior of Some outcome \<Rightarrow> okE (Inr outcome)
     | None \<Rightarrow> bindE (quoteDraft fuel pages D J input) (\<lambda>quote. okE (Inl quote)))"

definition draftGuard :: "'r draft_env \<Rightarrow> draft_plan \<Rightarrow> ('r, draft_failure, unit) eff" where
  "draftGuard D plan =
     bindE (draftActive D) (\<lambda>_.
     bindE (dr_verifyOrganization D) (\<lambda>current.
     bindE (assertE (dt_authorityPin current = Some (dp_pin plan)) Authority_changed) (\<lambda>_.
     bindE (assertE (dt_clockMs current < dec_value (dp_deadline plan)) Deadline_expired) (\<lambda>_.
     verifySource D (dp_source plan)))))"

definition submitDraft :: "'r draft_env \<Rightarrow> ('s, 'x) journal_ops \<Rightarrow> fee_quote \<Rightarrow> ('s, 'r, tx_outcome) draft" where
  "submitDraft D J q =
    (if q_requestId q \<noteq> draft_requestId D then throwE (Flow Invalid_quote)
     else guarded_submit (dr_client D) J (draftGuard D) Invalid_quote q)"

section \<open>The flow keeps its contract\<close>

interpretation draft: submission_flow "submitDraft D J" "dr_client D" J "draftGuard D" Invalid_quote for D J
  by unfold_locales (use unsubmitted_refl in \<open>fastforce simp: submitDraft_def eff_run split: if_split_asm\<close>)

text \<open>The authority read from this state is the planned one and the deadline has not passed.\<close>

definition authority_held :: "'r draft_env \<Rightarrow> draft_plan \<Rightarrow> 'r \<Rightarrow> bool" where
  "authority_held D plan r \<longleftrightarrow> (\<exists>a r'. dr_verifyOrganization D r = (Inr a, r') \<and> dt_authorityPin a = Some (dp_pin plan)
     \<and> dt_clockMs a < dec_value (dp_deadline plan))"

lemma draftActive_same: "draftActive D r = (x, r') \<Longrightarrow> r' = r"
  by (auto simp: draftActive_def eff_pure elim!: bindE_E)

lemma draftGuard_ok: "draftGuard D plan r = (Inr (), r') \<Longrightarrow> authority_held D plan r"
  unfolding draftGuard_def authority_held_def
  by (auto simp: eff_oks dest!: draftActive_same elim!: bindE_okE)

lemma submitDraft_request:
  "submitDraft D J q w = (r, w') \<Longrightarrow> w_sent (fw_manager w') \<noteq> w_sent (fw_manager w) \<Longrightarrow> q_requestId q = draft_requestId D"
  by (auto simp: submitDraft_def eff_run split: if_split_asm)

section \<open>Preparing\<close>

lemma queryDraft_same [intro!]: "keeps unsent (queryDraft D J)"
  unfolding queryDraft_def by auto

lemma checkDraft_ok:
  assumes "checkDraft fuel D spec r = (Inr before, r')"
  shows "dt_clockMs before < dec_value (sp_deadlineMs spec) \<and> (\<exists>r1 r2. existsD fuel D r1 = (Inr False, r2))"
  using assms by (auto simp: checkDraft_def eff_oks elim!: bindE_okE) blast

lemma sealed_body_ok:
  "sealed_body D res = Inr body \<Longrightarrow> 32 \<le> length body \<and> length body \<le> 65536 \<and> take 4 body = ''FME1'' \<and> res = Some (dr_toBase64 D body)"
  by (auto simp: sealed_body_def split: option.splits if_split_asm)

lemma sealDraft_ok:
  assumes "sealDraft D spec before r = (Inr (kv, body, pin), r')"
  shows "dt_authorityPin before = Some pin \<and> pin \<noteq> [] \<and> 32 \<le> length body \<and> length body \<le> 65536 \<and> take 4 body = ''FME1''
    \<and> (\<exists>r1 r2. dr_encrypt D kv (stringify (spec_json spec)) r1 = (Inr (Some (dr_toBase64 D body)), r2))"
  using assms by (auto simp: sealDraft_def eff_oks elim!: bindE_okE dest!: sealed_body_ok) blast+

lemma outside_pure: "outsideE (liftR x) w = (Inr a, w') \<longleftrightarrow> x = Inr a \<and> w' = w"
  by (auto simp: outsideE_def liftR_def split: sum.splits)

lemma quoteDraft_quote:
  assumes "quoteDraft fuel pages D J input w1 = (Inr q, w')"
  obtains spec before kv body pin tx w2 w3 v w5 where "normalizeDraft (dr_hash D) input = Inr spec"
    "outsideE (checkDraft pages D spec) w1 = (Inr before, w2)" "outsideE (sealDraft D spec before) w2 = (Inr (kv, body, pin), w3)"
    "dr_createDraft D spec kv body = Some tx"
    "prepare fuel (dr_client D) J \<lparr>pi_requestId = draft_requestId D, pi_transaction = tx, pi_gasBudget = UBigInt 200000000, pi_maxSuiSpend = None\<rparr> (fw_manager w3) = (Inr q, v)"
    "outsideE (verifySource D (sp_source spec)) (w3\<lparr>fw_manager := v\<rparr>) = (Inr (), w5)"
    "w' = w5\<lparr>fw_plans := (q, \<lparr>dp_pin = pin, dp_deadline = sp_deadlineMs spec, dp_source = sp_source spec\<rparr>) # fw_plans w5\<rparr>"
  using assms unfolding quoteDraft_def
  by (auto simp: remember_def outside_pure managerE_Inr eff_oks elim!: bindE_okE split: sum.splits option.splits)

lemma prepareDraft_quote:
  assumes "prepareDraft fuel pages D J input w = (Inr (Inl q), w')"
  obtains w1 where "queryDraft D J w = (Inr None, w1)" "quoteDraft fuel pages D J input w1 = (Inr q, w')"
  using assms by (auto simp: prepareDraft_def eff_oks elim!: bindE_okE split: option.splits)

section \<open>A sample draft\<close>

text \<open>An empty directory and a device that seals.\<close>

definition sample_authority :: draft_authority where
  "sample_authority = \<lparr>dt_authorityPin = Some ''pin'', dt_clockMs = 5\<rparr>"

definition sample_sealed :: string where
  "sample_sealed = ''FME1'' @ replicate 28 (CHR ''x'')"

definition sample_source_env :: "unit source_env" where
  "sample_source_env = \<lparr>so_network = ''localnet'', so_organizationId = [], so_managedAgentId = [],
     so_checkNetwork = okE ''localnet'', so_message = (\<lambda>_. throwE Invalid_source)\<rparr>"

definition sample_draft_env :: "unit draft_env" where
  "sample_draft_env = \<lparr>dr_client = flow_client, dr_hash = sample_hash, dr_organizationId = ''0x'' @ replicate 64 (CHR ''0''),
     dr_logicalId = ''00000000-0000-4000-8000-000000000000'', dr_active = (\<lambda>_. True), dr_checkNetwork = okE (),
     dr_verifyOrganization = okE sample_authority, dr_source = (\<lambda>_. sample_source_env),
     dr_listOkrs = (\<lambda>_. okE \<lparr>opg_logicalIds = [], opg_cursor = None, opg_hasNextPage = False\<rparr>), dr_listCurrent = okE ''1'',
     dr_encrypt = (\<lambda>_ _. okE (Some sample_sealed)), dr_fromBase64 = Some, dr_toBase64 = (\<lambda>b. b),
     dr_createDraft = (\<lambda>_ _ _. Some (pi_transaction sample_input))\<rparr>"

definition sample_flow_input :: prepare_input where
  "sample_flow_input = \<lparr>pi_requestId = draft_requestId sample_draft_env, pi_transaction = pi_transaction sample_input,
     pi_gasBudget = UBigInt 200000000, pi_maxSuiSpend = None\<rparr>"

definition sample_flow_world :: "(idb_state, unit) mworld" where
  "sample_flow_world = snd (prepare 1 flow_client indexed_db_ops sample_flow_input sample_world)"

definition sample_flow_quote :: fee_quote where
  "sample_flow_quote = p_quote (hd (w_prepared sample_flow_world))"

definition draft_start :: "(idb_state, unit, draft_plan) flow_world" where
  "draft_start = \<lparr>fw_manager = sample_world, fw_plans = []\<rparr>"

definition draft_ready :: "(idb_state, unit, draft_plan) flow_world" where
  "draft_ready = \<lparr>fw_manager = sample_flow_world,
     fw_plans = [(sample_flow_quote, \<lparr>dp_pin = ''pin'', dp_deadline = ''900'', dp_source = None\<rparr>)]\<rparr>"

lemma sample_flow_prepared: "prepare 1 flow_client indexed_db_ops sample_flow_input sample_world = (Inr sample_flow_quote, sample_flow_world)"
proof -
  have "fst (prepare 1 flow_client indexed_db_ops sample_flow_input sample_world) = Inr sample_flow_quote" by code_simp
  then show ?thesis by (simp add: sample_flow_world_def prod_eq_iff)
qed

lemma draft_checked: "checkDraft 1 sample_draft_env sample_spec r = (Inr sample_authority, r)"
  by (simp add: checkDraft_def existsD_def okr_page_at_def verifySource_def draftActive_def sample_draft_env_def sample_spec_def
      sample_authority_def dec_value_def digit_val_def eff_run)

lemma sample_sealed_ok: "length sample_sealed = 32" "take 4 sample_sealed = ''FME1''"
  by (simp_all add: sample_sealed_def)

lemma draft_sealed: "sealDraft sample_draft_env sample_spec sample_authority r = (Inr (''1'', sample_sealed, ''pin''), r)"
  by (simp add: sealDraft_def sealed_body_def keyVersionD_def verifySource_def draftActive_def sample_draft_env_def sample_spec_def
      sample_authority_def sample_sealed_ok eff_run del: stringify.simps)

lemma draft_not_queried: "queryDraft sample_draft_env indexed_db_ops draft_start = (Inr None, draft_start)"
proof -
  have "fst (queryDraft sample_draft_env indexed_db_ops draft_start) = Inr None"
    "snd (queryDraft sample_draft_env indexed_db_ops draft_start) = draft_start" by code_simp+
  then show ?thesis by (simp add: prod_eq_iff)
qed

lemma draft_prepared: "prepareDraft 1 1 sample_draft_env indexed_db_ops sample_draft draft_start = (Inr (Inl sample_flow_quote), draft_ready)"
proof -
  have spec: "normalizeDraft (dr_hash sample_draft_env) sample_draft = Inr sample_spec" by (rule sample_draft_normal)
  have tx: "dr_createDraft sample_draft_env sample_spec ''1'' sample_sealed = Some (pi_transaction sample_input)"
    and client: "dr_client sample_draft_env = flow_client" by (simp_all add: sample_draft_env_def)
  have source: "verifySource sample_draft_env None r = (Inr (), r)" for r
    by (simp add: verifySource_def draftActive_def sample_draft_env_def eff_run)
  have fields: "sp_deadlineMs sample_spec = ''900''" "sp_source sample_spec = None" by (simp_all add: sample_spec_def)
  have "quoteDraft 1 1 sample_draft_env indexed_db_ops sample_draft draft_start = (Inr sample_flow_quote, draft_ready)"
    using sample_flow_prepared
    by (simp add: quoteDraft_def outsideE_def managerE_def remember_def eff_run spec tx client source draft_checked draft_sealed
        sample_flow_input_def draft_start_def draft_ready_def fields del: One_nat_def)
  then show ?thesis by (simp add: prepareDraft_def draft_not_queried eff_run del: One_nat_def)
qed

section \<open>Properties\<close>

text \<open>
  What a prepared draft rests on: if preparing returns a quote, the input is a valid specification whose
  deadline lies after the chain's clock, the directory of objectives was read to its end without meeting
  the logical id, exactly this specification was sealed by the device into a body of the expected format,
  the authority was the same before and after sealing, and the quote is for this draft's request and is
  remembered with that authority and deadline. Preparing broadcasts nothing.
\<close>

theorem draft_prepared_soundly:
  assumes "prepareDraft fuel pages D J input w = (Inr (Inl q), w')"
  shows "\<exists>spec (before :: draft_authority) pin body kv. normalizeDraft (dr_hash D) input = Inr spec
    \<and> dt_clockMs before < dec_value (sp_deadlineMs spec) \<and> dt_authorityPin before = Some pin \<and> pin \<noteq> []
    \<and> (\<exists>r r'. existsD pages D r = (Inr False, r'))
    \<and> (\<exists>r r'. dr_encrypt D kv (stringify (spec_json spec)) r = (Inr (Some (dr_toBase64 D body)), r'))
    \<and> 32 \<le> length body \<and> length body \<le> 65536 \<and> take 4 body = ''FME1''
    \<and> q_requestId q = draft_requestId D
    \<and> fw_plans w' = (q, \<lparr>dp_pin = pin, dp_deadline = sp_deadlineMs spec, dp_source = sp_source spec\<rparr>) # fw_plans w
    \<and> w_sent (fw_manager w') = w_sent (fw_manager w)"
proof -
  from prepareDraft_quote [OF assms] obtain w1 where query: "queryDraft D J w = (Inr None, w1)"
    and quote: "quoteDraft fuel pages D J input w1 = (Inr q, w')" .
  from quoteDraft_quote [OF quote] obtain spec before kv body pin tx w2 w3 v w5 where
      spec: "normalizeDraft (dr_hash D) input = Inr spec" and check: "outsideE (checkDraft pages D spec) w1 = (Inr before, w2)"
    and seal: "outsideE (sealDraft D spec before) w2 = (Inr (kv, body, pin), w3)" and "dr_createDraft D spec kv body = Some tx"
    and prep: "prepare fuel (dr_client D) J \<lparr>pi_requestId = draft_requestId D, pi_transaction = tx, pi_gasBudget = UBigInt 200000000, pi_maxSuiSpend = None\<rparr> (fw_manager w3) = (Inr q, v)"
    and source: "outsideE (verifySource D (sp_source spec)) (w3\<lparr>fw_manager := v\<rparr>) = (Inr (), w5)"
    and w': "w' = w5\<lparr>fw_plans := (q, \<lparr>dp_pin = pin, dp_deadline = sp_deadlineMs spec, dp_source = sp_source spec\<rparr>) # fw_plans w5\<rparr>" .
  have "unsent w w1" "unsent w1 w2" "unsent w2 w3" "unsent w3 (w3\<lparr>fw_manager := v\<rparr>)" "unsent (w3\<lparr>fw_manager := v\<rparr>) w5"
    using keepsD [OF queryDraft_same query] keepsD [OF unsent_parts(1) check] keepsD [OF unsent_parts(1) seal]
      prepare_sent [OF prep] keepsD [OF unsent_parts(1) source] by (simp_all add: unsent_def)
  then have same: "unsent w w5" by (simp add: unsent_def)
  have "q_requestId q = draft_requestId D" using prepared_requestId [OF prep] by simp
  moreover obtain r r' where "checkDraft pages D spec r = (Inr before, r')" using check by (auto simp: outsideE_Inr)
  moreover obtain s s' where "sealDraft D spec before s = (Inr (kv, body, pin), s')" using seal by (auto simp: outsideE_Inr)
  ultimately have facts: "q_requestId q = draft_requestId D" "dt_clockMs before < dec_value (sp_deadlineMs spec)"
      "\<exists>r r'. existsD pages D r = (Inr False, r')" "dt_authorityPin before = Some pin" "pin \<noteq> []"
      "32 \<le> length body" "length body \<le> 65536" "take 4 body = ''FME1''"
      "\<exists>r r'. dr_encrypt D kv (stringify (spec_json spec)) r = (Inr (Some (dr_toBase64 D body)), r')"
    using checkDraft_ok sealDraft_ok by meson+
  have "fw_plans w' = (q, \<lparr>dp_pin = pin, dp_deadline = sp_deadlineMs spec, dp_source = sp_source spec\<rparr>) # fw_plans w"
    "w_sent (fw_manager w') = w_sent (fw_manager w)"
    using same w' by (simp_all add: unsent_def)
  with facts spec show ?thesis
    by - (rule exI [of _ spec], rule exI [of _ before], rule exI [of _ pin], rule exI [of _ body], rule exI [of _ kv], intro conjI, assumption+)
qed

theorem draft_prepared_soundly_witness:
  "normalizeDraft sample_hash sample_draft = Inr sample_spec \<and> q_requestId sample_flow_quote = draft_requestId sample_draft_env
   \<and> fw_plans draft_ready \<noteq> [] \<and> w_sent (fw_manager draft_ready) = []"
proof -
  have "normalizeDraft sample_hash sample_draft = Inr sample_spec" "fw_plans draft_ready \<noteq> []" "w_sent (fw_manager draft_start) = []"
    by (simp_all add: sample_draft_normal draft_ready_def draft_start_def sample_world_def)
  then show ?thesis using draft_prepared_soundly [OF draft_prepared] by auto
qed

text \<open>
  C14. A draft is broadcast only under the reviewed authority and before its deadline: if submitting a
  quote broadcasts anything, the quote is one that this flow prepared for its own request and did not use
  before, exactly its prepared transaction is sent, once, and the device signed it between two reads of
  the chain in which the authority was the one the quote was prepared under and the deadline had not
  passed.
\<close>

theorem draft_sent_under_authority:
  assumes "submitDraft D J q w = (r, w')" "w_sent (fw_manager w') \<noteq> w_sent (fw_manager w)"
  shows "\<exists>plan p. map_of (fw_plans w) q = Some plan \<and> q_requestId q = draft_requestId D
    \<and> p \<in> set (w_prepared (fw_manager w)) \<and> p_quote p = q \<and> \<not> p_used p
    \<and> w_sent (fw_manager w') = (entry_key (p_entry p), je_digest (p_entry p)) # w_sent (fw_manager w)
    \<and> (\<exists>r0 r1 r2 s. authority_held D plan r0 \<and> draftGuard D plan r0 = (Inr (), r1)
        \<and> cl_sign (dr_client D) (p_bytes p) r1 = (Inr s, r2) \<and> authority_held D plan r2)"
proof -
  from draft.sent_under_guard [OF assms] obtain plan p where plan: "map_of (fw_plans w) q = Some plan"
      "p \<in> set (w_prepared (fw_manager w))" "p_quote p = q" "\<not> p_used p" "guarded_run (draftGuard D plan) (dr_client D) (p_bytes p)"
      "w_sent (fw_manager w') = (entry_key (p_entry p), je_digest (p_entry p)) # w_sent (fw_manager w)" by blast
  from plan(5) obtain r0 r1 r2 r3 s where "draftGuard D plan r0 = (Inr (), r1)" "cl_sign (dr_client D) (p_bytes p) r1 = (Inr s, r2)"
      "draftGuard D plan r2 = (Inr (), r3)" by (auto simp: guarded_run_def)
  then have "\<exists>r0 r1 r2 s. authority_held D plan r0 \<and> draftGuard D plan r0 = (Inr (), r1)
      \<and> cl_sign (dr_client D) (p_bytes p) r1 = (Inr s, r2) \<and> authority_held D plan r2"
    using draftGuard_ok [of D plan r0 r1] draftGuard_ok [of D plan r2 r3]
    by (intro exI [of _ r0] exI [of _ r1] exI [of _ r2] exI [of _ s]) simp
  with plan(1-4,6) submitDraft_request [OF assms] show ?thesis
    by - (rule exI [of _ plan], rule exI [of _ p], intro conjI, assumption+)
qed

theorem draft_sent_under_authority_witness:
  "w_sent (fw_manager (snd (submitDraft sample_draft_env indexed_db_ops sample_flow_quote draft_ready))) \<noteq> []
   \<and> (\<exists>plan. map_of (fw_plans draft_ready) sample_flow_quote = Some plan \<and> authority_held sample_draft_env plan ())"
proof -
  let ?run = "submitDraft sample_draft_env indexed_db_ops sample_flow_quote draft_ready"
  have sent: "w_sent (fw_manager (snd ?run)) \<noteq> []" and none: "w_sent (fw_manager draft_ready) = []" by code_simp+
  then have grown: "w_sent (fw_manager (snd ?run)) \<noteq> w_sent (fw_manager draft_ready)" by simp
  have run: "?run = (fst ?run, snd ?run)" by simp
  from draft_sent_under_authority [OF run grown] obtain plan r0 where
    "map_of (fw_plans draft_ready) sample_flow_quote = Some plan" "authority_held sample_draft_env plan r0" by auto
  then show ?thesis using sent by (cases r0) auto
qed

section \<open>The search for an existing objective\<close>

lemma existsFrom_ends:
  assumes "\<forall>cursor r page r'. dr_listOkrs D cursor r = (Inr page, r') \<longrightarrow> opg_hasNextPage page \<longrightarrow> opg_logicalIds page \<noteq> []"
    and "count \<le> 1000" "1002 \<le> fuel + count"
  shows "fst (existsFrom fuel D cursor seen count r) \<noteq> Inl Draft_pages"
  using assms(2,3)
proof (induction fuel arbitrary: cursor seen count r)
  case (Suc fuel)
  have no_pages: "fst (okr_page_at D cursor r) \<noteq> Inl Draft_pages"
    by (auto simp: okr_page_at_def split: prod.splits sum.splits if_split_asm)
  have nonempty: "opg_logicalIds page \<noteq> []" if "okr_page_at D cursor r = (Inr page, r')" "opg_hasNextPage page" for page r'
    using that assms(1) by (auto simp: okr_page_at_def split: prod.splits sum.splits if_split_asm)
  have next_page: "fst (existsFrom fuel D (Some c) (c # seen) (count + length (opg_logicalIds page)) r') \<noteq> Inl Draft_pages"
    if "okr_page_at D cursor r = (Inr page, r')" "opg_hasNextPage page" "\<not> 1000 < count + length (opg_logicalIds page)" for page r' c
  proof (intro Suc.IH)
    have "0 < length (opg_logicalIds page)" using nonempty [OF that(1,2)] by simp
    then show "1002 \<le> fuel + (count + length (opg_logicalIds page))" using Suc.prems(2) by linarith
  qed (use that(3) in simp)
  show ?case
  proof (cases "okr_page_at D cursor r")
    case (Pair x r')
    show ?thesis using Pair no_pages next_page by (cases x) (auto simp: eff_run Let_def split: option.split)
  qed
qed simp

text \<open>
  Looking for an existing objective ends: if every page that has a next page holds at least one
  objective, reading at most 1002 pages decides whether the logical id exists or fails for a reason of its
  own; the model's bound on pages is never what stops it.
\<close>

theorem draft_search_ends:
  assumes "\<forall>cursor r page r'. dr_listOkrs D cursor r = (Inr page, r') \<longrightarrow> opg_hasNextPage page \<longrightarrow> opg_logicalIds page \<noteq> []"
    and "1002 \<le> fuel"
  shows "fst (existsD fuel D r) \<noteq> Inl Draft_pages"
  using existsFrom_ends [OF assms(1), of 0 fuel] assms(2) by (simp add: existsD_def)

theorem draft_search_ends_witness: "fst (existsD 1002 sample_draft_env ()) \<noteq> Inl Draft_pages"
  by (rule draft_search_ends) (simp_all add: sample_draft_env_def eff_run)

end
