(* ===== verification/Node_Command.thy ===== *)
theory Node_Command
  imports Message_Source
begin

text \<open>
  Signed node commands, \<^verbatim>\<open>sdk/src/node-command.ts\<close> and the verification in \<^verbatim>\<open>sdk/src/node-execution.ts\<close>: the
  canonical text that a device signs, signing, the wire command read back from that text, its intent hash
  and the check of a received command. Texts and their UTF-8 bytes are the same \<open>string\<close>; the signer, SHA-256
  and Ed25519 are parameters, and timestamps are integers.
\<close>

datatype command_error =
    Not_ed25519 | Unsafe_timestamp | Bad_ttl | Bad_payload | Not_token | Expires_first | Bad_u64 sdk_error | Zero_amount
  | Signer_failed | Bad_signature_length | Bad_version | Bad_signature | Wrong_signature | Payload_modified

record command_target =
  ct_organizationId :: string
  ct_nodeId :: string
  ct_agentId :: "string option"

record capability_reference =
  cr_id :: string
  cr_revocationVersion :: u64_input

record command_budget =
  cb_asset :: string
  cb_amount :: u64_input

record signing_input =
  si_version :: string
  si_commandId :: string
  si_signer :: string
  si_target :: command_target
  si_action :: string
  si_scope :: string
  si_capability :: capability_reference
  si_nonce :: string
  si_issuedAtMs :: int
  si_expiresAtMs :: int
  si_idempotencyKey :: string
  si_budget :: "command_budget option"
  si_payloadHash :: string

record sign_command_input =
  ni_target :: command_target
  ni_action :: string
  ni_scope :: string
  ni_capability :: capability_reference
  ni_payload :: "json option"
  ni_commandId :: "string option"
  ni_nonce :: "string option"
  ni_idempotencyKey :: "string option"
  ni_issuedAtMs :: "int option"
  ni_expiresAtMs :: "int option"
  ni_budget :: "command_budget option"

text \<open>The wire format; amounts and versions are decimal texts.\<close>

record signed_command =
  sc_version :: string
  sc_command_id :: string
  sc_signer :: string
  sc_organization_id :: string
  sc_node_id :: string
  sc_agent_id :: "string option"
  sc_action :: string
  sc_scope :: string
  sc_capability_id :: string
  sc_revocation_version :: string
  sc_nonce :: string
  sc_issued_at_ms :: int
  sc_expires_at_ms :: int
  sc_idempotency_key :: string
  sc_budget :: "(string \<times> string) option"
  sc_payload :: json
  sc_payload_hash :: string
  sc_signature :: string

record 'r command_signer =
  cs_publicBytes :: string
  cs_address :: string
  cs_sign :: "string \<Rightarrow> ('r, unit, string) eff"
  cs_randomUUID :: "'r \<Rightarrow> string \<times> 'r"
  cs_now :: "'r \<Rightarrow> int \<times> 'r"

record key_env =
  ke_address :: "string \<Rightarrow> string"
  ke_verify :: "string \<Rightarrow> string \<Rightarrow> string \<Rightarrow> bool"

section \<open>The canonical text\<close>

definition NODE_COMMAND_SIGNATURE_DOMAIN :: string where
  "NODE_COMMAND_SIGNATURE_DOMAIN = ''fractalmind.node-command.v1''"

definition safe_timestamp :: "int \<Rightarrow> bool" where
  "safe_timestamp t \<longleftrightarrow> is_safe_integer (Some t) \<and> 0 \<le> t"

text \<open>\<^verbatim>\<open>/^[A-Za-z0-9._:/@+\-]+$/\<close>\<close>

definition signing_token :: "string \<Rightarrow> bool" where
  "signing_token s \<longleftrightarrow> s \<noteq> [] \<and> list_all is_token_char s"

definition u64_text :: "u64_input \<Rightarrow> (command_error, string) result" where
  "u64_text v = (case toBigInt v of Inl e \<Rightarrow> Inl (Bad_u64 e) | Inr i \<Rightarrow> Inr (dec_string i))"

definition positiveU64Decimal :: "u64_input \<Rightarrow> (command_error, string) result" where
  "positiveU64Decimal v = (case toBigInt v of Inl e \<Rightarrow> Inl (Bad_u64 e) | Inr i \<Rightarrow> if i = 0 then Inl Zero_amount else Inr (dec_string i))"

definition capabilityReferenceWire :: "capability_reference \<Rightarrow> (command_error, json) result" where
  "capabilityReferenceWire c = bindR (u64_text (cr_revocationVersion c)) (\<lambda>v.
     Inr (JObject [(''id'', JString (cr_id c)), (''revocation_version'', JString v)]))"

definition target_wire :: "command_target \<Rightarrow> json" where
  "target_wire t = JObject ([(''organization_id'', JString (ct_organizationId t)), (''node_id'', JString (ct_nodeId t))]
     @ (case ct_agentId t of None \<Rightarrow> [] | Some a \<Rightarrow> if a = [] then [] else [(''agent_id'', JString a)]))"

definition budget_wire :: "command_budget option \<Rightarrow> (command_error, (string \<times> json) list) result" where
  "budget_wire b = (case b of None \<Rightarrow> Inr []
     | Some b \<Rightarrow> bindR (positiveU64Decimal (cb_amount b)) (\<lambda>a.
         Inr [(''budget'', JObject [(''asset'', JString (cb_asset b)), (''amount'', JString a)])]))"

definition envelope :: "signing_input \<Rightarrow> (string \<times> json) list \<Rightarrow> json \<Rightarrow> json" where
  "envelope i budget capability = JObject ([(''domain'', JString NODE_COMMAND_SIGNATURE_DOMAIN), (''version'', JString (si_version i)),
     (''command_id'', JString (si_commandId i)), (''signer'', JString (si_signer i)), (''target'', target_wire (si_target i)),
     (''action'', JString (si_action i)), (''scope'', JString (si_scope i)), (''capability'', capability),
     (''nonce'', JString (si_nonce i)), (''issued_at_ms'', JNumber (si_issuedAtMs i)), (''expires_at_ms'', JNumber (si_expiresAtMs i)),
     (''idempotency_key'', JString (si_idempotencyKey i))] @ budget @ [(''payload_hash'', JString (si_payloadHash i))])"

definition canonicalNodeCommandSigningBytes :: "signing_input \<Rightarrow> (command_error, string) result" where
  "canonicalNodeCommandSigningBytes i =
     bindR (assertR (safe_timestamp (si_issuedAtMs i)) Unsafe_timestamp) (\<lambda>_.
     bindR (assertR (safe_timestamp (si_expiresAtMs i)) Unsafe_timestamp) (\<lambda>_.
     bindR (assertR (si_issuedAtMs i < si_expiresAtMs i) Expires_first) (\<lambda>_.
     bindR (budget_wire (si_budget i)) (\<lambda>budget.
     bindR (capabilityReferenceWire (si_capability i)) (\<lambda>capability.
     Inr (stringify (envelope i budget capability)))))))"

section \<open>Signing\<close>

text \<open>The fields of a signed command as they are read from the parsed canonical text.\<close>

definition read_wire :: "json \<Rightarrow> json \<Rightarrow> string \<Rightarrow> signed_command option" where
  "read_wire v payload signature =
    (case (field v ''target'', field v ''capability'', nfield v ''issued_at_ms'', nfield v ''expires_at_ms'') of
       (Some t, Some c, Some issued, Some expires) \<Rightarrow>
         Some \<lparr>sc_version = the (sfield v ''version''), sc_command_id = the (sfield v ''command_id''), sc_signer = the (sfield v ''signer''),
           sc_organization_id = the (sfield t ''organization_id''), sc_node_id = the (sfield t ''node_id''), sc_agent_id = sfield t ''agent_id'',
           sc_action = the (sfield v ''action''), sc_scope = the (sfield v ''scope''), sc_capability_id = the (sfield c ''id''),
           sc_revocation_version = the (sfield c ''revocation_version''), sc_nonce = the (sfield v ''nonce''),
           sc_issued_at_ms = issued, sc_expires_at_ms = expires, sc_idempotency_key = the (sfield v ''idempotency_key''),
           sc_budget = (case field v ''budget'' of None \<Rightarrow> None | Some b \<Rightarrow> Some (the (sfield b ''asset''), the (sfield b ''amount''))),
           sc_payload = payload, sc_payload_hash = the (sfield v ''payload_hash''), sc_signature = signature\<rparr>
     | _ \<Rightarrow> None)"

definition payload_object :: "string \<Rightarrow> (command_error, json) result" where
  "payload_object text = (case json_parse text of Some (JObject ms) \<Rightarrow> Inr (JObject ms) | _ \<Rightarrow> Inl Bad_payload)"

definition uuidE :: "'r command_signer \<Rightarrow> string option \<Rightarrow> ('r, command_error, string) eff" where
  "uuidE S given = (case given of Some s \<Rightarrow> okE s | None \<Rightarrow> (\<lambda>r. case cs_randomUUID S r of (s, r') \<Rightarrow> (Inr s, r')))"

definition issuedE :: "'r command_signer \<Rightarrow> int option \<Rightarrow> ('r, command_error, int) eff" where
  "issuedE S given = (case given of Some t \<Rightarrow> okE t | None \<Rightarrow> (\<lambda>r. case cs_now S r of (t, r') \<Rightarrow> (Inr t, r')))"

definition signing_tokens :: "sign_command_input \<Rightarrow> signing_input \<Rightarrow> string list" where
  "signing_tokens input s = [si_commandId s, si_signer s, ct_organizationId (ni_target input), ct_nodeId (ni_target input),
     ni_action input, ni_scope input, cr_id (ni_capability input), si_nonce s, si_idempotencyKey s]
   @ (case ct_agentId (ni_target input) of None \<Rightarrow> [] | Some a \<Rightarrow> if a = [] then [] else [a])
   @ (case ni_budget input of None \<Rightarrow> [] | Some b \<Rightarrow> [cb_asset b])"

definition signature_text :: "string \<Rightarrow> string \<Rightarrow> string" where
  "signature_text publicBytes signature = ''ed25519:'' @ bytesToHex publicBytes @ '':'' @ bytesToHex signature"

definition expires_of :: "sign_command_input \<Rightarrow> int \<Rightarrow> int" where
  "expires_of input issuedAtMs = (case ni_expiresAtMs input of Some t \<Rightarrow> t | None \<Rightarrow> issuedAtMs + 60000)"

definition signing_of :: "string \<Rightarrow> sign_command_input \<Rightarrow> int \<Rightarrow> string \<Rightarrow> string \<Rightarrow> string \<Rightarrow> signing_input" where
  "signing_of address input issuedAtMs payloadHash commandId nonce =
     \<lparr>si_version = ''1'', si_commandId = commandId, si_signer = address, si_target = ni_target input,
      si_action = ni_action input, si_scope = ni_scope input, si_capability = ni_capability input, si_nonce = nonce,
      si_issuedAtMs = issuedAtMs, si_expiresAtMs = expires_of input issuedAtMs,
      si_idempotencyKey = (case ni_idempotencyKey input of Some k \<Rightarrow> k | None \<Rightarrow> commandId),
      si_budget = ni_budget input, si_payloadHash = payloadHash\<rparr>"

definition signNodeCommand :: "hash_env \<Rightarrow> 'r command_signer \<Rightarrow> sign_command_input \<Rightarrow> ('r, command_error, signed_command) eff" where
  "signNodeCommand H S input =
     bindE (assertE (length (cs_publicBytes S) = 32) Not_ed25519) (\<lambda>_.
     bindE (issuedE S (ni_issuedAtMs input)) (\<lambda>issuedAtMs.
     let expiresAtMs = expires_of input issuedAtMs in
     bindE (assertE (safe_timestamp issuedAtMs \<and> safe_timestamp expiresAtMs) Unsafe_timestamp) (\<lambda>_.
     bindE (assertE (0 < issuedAtMs \<and> issuedAtMs < expiresAtMs \<and> expiresAtMs - issuedAtMs \<le> 300000) Bad_ttl) (\<lambda>_.
     let payloadText = stringify (case ni_payload input of Some p \<Rightarrow> p | None \<Rightarrow> JObject []) in
     bindE (liftR (payload_object payloadText)) (\<lambda>payload.
     bindE (uuidE S (ni_commandId input)) (\<lambda>commandId.
     bindE (uuidE S (ni_nonce input)) (\<lambda>nonce.
     let signing = signing_of (cs_address S) input issuedAtMs (bytesToHex (sha256 H payloadText)) commandId nonce in
     bindE (assertE (list_all signing_token (signing_tokens input signing)) Not_token) (\<lambda>_.
     bindE (liftR (canonicalNodeCommandSigningBytes signing)) (\<lambda>bytes.
     bindE (\<lambda>r. case cs_sign S bytes r of (Inl _, r') \<Rightarrow> (Inl Signer_failed, r') | (Inr s, r') \<Rightarrow> (Inr s, r')) (\<lambda>signature.
     bindE (assertE (length signature = 64) Bad_signature_length) (\<lambda>_.
     case json_parse bytes of None \<Rightarrow> throwE Bad_payload
     | Some v \<Rightarrow> (case read_wire v payload (signature_text (cs_publicBytes S) signature) of
         None \<Rightarrow> throwE Bad_payload | Some c \<Rightarrow> okE c))))))))))))"

section \<open>Received commands\<close>

text \<open>\<^verbatim>\<open>toBigInt\<close> of the texts of a received command, then the canonical text again.\<close>

definition wire_u64 :: "string \<Rightarrow> (command_error, u64_input) result" where
  "wire_u64 s = (case toBigInt (UString s) of Inl e \<Rightarrow> Inl (Bad_u64 e) | Inr i \<Rightarrow> Inr (UBigInt i))"

definition nodeCommandSigningBytes :: "signed_command \<Rightarrow> (command_error, string) result" where
  "nodeCommandSigningBytes c =
     bindR (wire_u64 (sc_revocation_version c)) (\<lambda>revocationVersion.
     bindR (case sc_budget c of None \<Rightarrow> Inr None
            | Some (asset, amount) \<Rightarrow> bindR (wire_u64 amount) (\<lambda>a. Inr (Some \<lparr>cb_asset = asset, cb_amount = a\<rparr>))) (\<lambda>budget.
     canonicalNodeCommandSigningBytes \<lparr>si_version = sc_version c, si_commandId = sc_command_id c, si_signer = sc_signer c,
       si_target = \<lparr>ct_organizationId = sc_organization_id c, ct_nodeId = sc_node_id c,
                    ct_agentId = Some (case sc_agent_id c of None \<Rightarrow> [] | Some a \<Rightarrow> a)\<rparr>,
       si_action = sc_action c, si_scope = sc_scope c,
       si_capability = \<lparr>cr_id = sc_capability_id c, cr_revocationVersion = revocationVersion\<rparr>,
       si_nonce = sc_nonce c, si_issuedAtMs = sc_issued_at_ms c, si_expiresAtMs = sc_expires_at_ms c,
       si_idempotencyKey = sc_idempotency_key c, si_budget = budget, si_payloadHash = sc_payload_hash c\<rparr>))"

definition nodeCommandIntentHash :: "hash_env \<Rightarrow> signed_command \<Rightarrow> (command_error, string) result" where
  "nodeCommandIntentHash H c = bindR (nodeCommandSigningBytes c) (\<lambda>b. Inr (sha256 H b))"

fun hexToBytes :: "string \<Rightarrow> string" where
  "hexToBytes (a # b # s) = char_of (16 * hex_any a + hex_any b) # hexToBytes s"
| "hexToBytes _ = []"

text \<open>\<^verbatim>\<open>/^ed25519:([0-9a-f]{64}):([0-9a-f]{128})$/\<close>\<close>

definition match_signature :: "string \<Rightarrow> (string \<times> string) option" where
  "match_signature s =
    (let rest = drop 8 s; key = take 64 rest; sig = drop 65 rest in
     if take 8 s = ''ed25519:'' \<and> length rest = 193 \<and> list_all is_lower_hex key \<and> rest ! 64 = CHR '':'' \<and> list_all is_lower_hex sig
     then Some (key, sig) else None)"

definition verifySignedNodeCommand :: "hash_env \<Rightarrow> key_env \<Rightarrow> signed_command \<Rightarrow> (command_error, unit) result" where
  "verifySignedNodeCommand H K c =
     bindR (assertR (sc_version c = ''1'') Bad_version) (\<lambda>_.
     case match_signature (sc_signature c) of None \<Rightarrow> Inl Bad_signature
     | Some (key, sig) \<Rightarrow>
         bindR (assertR (ke_address K (hexToBytes key) = sc_signer c) Wrong_signature) (\<lambda>_.
         bindR (nodeCommandSigningBytes c) (\<lambda>bytes.
         bindR (assertR (ke_verify K (hexToBytes key) bytes (hexToBytes sig)) Wrong_signature) (\<lambda>_.
         assertR (bytesToHex (sha256 H (stringify (sc_payload c))) = sc_payload_hash c) Payload_modified))))"

section \<open>Hexadecimal texts\<close>

lemma high_nibble [simp]: "(of_char b :: nat) div 16 < 16"
  by (rule less_mult_imp_div_less) simp

lemma hexToBytes_bytesToHex [simp]: "hexToBytes (bytesToHex bs) = bs"
  by (induction bs) (simp_all add: bytesToHex_def)

lemma length_bytesToHex [simp]: "length (bytesToHex bs) = 2 * length bs"
  by (induction bs) (simp_all add: bytesToHex_def)

lemma is_lower_hex_digit: "n < 16 \<Longrightarrow> is_lower_hex (hex_digit n)"
  by (auto simp: is_lower_hex_def is_digit_def of_char_hex_digit)

lemma lower_hex_bytesToHex [simp]: "list_all is_lower_hex (bytesToHex bs)"
  by (induction bs) (simp_all add: bytesToHex_def is_lower_hex_digit)

lemma match_signature_text:
  "length publicBytes = 32 \<Longrightarrow> length sig = 64 \<Longrightarrow> match_signature (signature_text publicBytes sig) = Some (bytesToHex publicBytes, bytesToHex sig)"
  by (simp add: match_signature_def signature_text_def Let_def nth_append)

section \<open>The canonical text and its fields\<close>

text \<open>What the texts of a canonical envelope are: the revocation version and the optional budget.\<close>

definition budget_fields :: "(string \<times> string) option \<Rightarrow> (string \<times> json) list" where
  "budget_fields b = (case b of None \<Rightarrow> []
     | Some (asset, amount) \<Rightarrow> [(''budget'', JObject [(''asset'', JString asset), (''amount'', JString amount)])])"

definition capability_json :: "string \<Rightarrow> string \<Rightarrow> json" where
  "capability_json cap version = JObject [(''id'', JString cap), (''revocation_version'', JString version)]"

definition agent_of :: "string option \<Rightarrow> string option" where
  "agent_of a = (if a = Some [] then None else a)"

definition wire_of :: "signing_input \<Rightarrow> string \<Rightarrow> (string \<times> string) option \<Rightarrow> json \<Rightarrow> string \<Rightarrow> signed_command" where
  "wire_of i version budget payload signature = \<lparr>sc_version = si_version i, sc_command_id = si_commandId i, sc_signer = si_signer i,
     sc_organization_id = ct_organizationId (si_target i), sc_node_id = ct_nodeId (si_target i), sc_agent_id = agent_of (ct_agentId (si_target i)),
     sc_action = si_action i, sc_scope = si_scope i, sc_capability_id = cr_id (si_capability i), sc_revocation_version = version,
     sc_nonce = si_nonce i, sc_issued_at_ms = si_issuedAtMs i, sc_expires_at_ms = si_expiresAtMs i,
     sc_idempotency_key = si_idempotencyKey i, sc_budget = budget, sc_payload = payload, sc_payload_hash = si_payloadHash i,
     sc_signature = signature\<rparr>"

lemma read_wire_envelope:
  "read_wire (envelope i (budget_fields b) (capability_json (cr_id (si_capability i)) v)) payload signature = Some (wire_of i v b payload signature)"
  by (simp add: read_wire_def envelope_def wire_of_def field_def sfield_def nfield_def budget_fields_def capability_json_def
      target_wire_def agent_of_def split: option.split) auto

definition budget_texts :: "command_budget option \<Rightarrow> (string \<times> string) option \<Rightarrow> bool" where
  "budget_texts b t \<longleftrightarrow> (case b of None \<Rightarrow> t = None
     | Some b \<Rightarrow> (\<exists>n. toBigInt (cb_amount b) = Inr n \<and> n \<noteq> 0 \<and> t = Some (cb_asset b, dec_string n)))"

lemma budget_wire_Inr: "budget_wire b = Inr l \<longleftrightarrow> (\<exists>t. budget_texts b t \<and> l = budget_fields t)"
  by (auto simp: budget_wire_def budget_texts_def budget_fields_def positiveU64Decimal_def result_simps split: option.splits sum.splits)

lemma capability_Inr:
  "capabilityReferenceWire c = Inr j \<longleftrightarrow> (\<exists>n. toBigInt (cr_revocationVersion c) = Inr n \<and> j = capability_json (cr_id c) (dec_string n))"
  by (auto simp: capabilityReferenceWire_def u64_text_def capability_json_def result_simps split: sum.splits)

definition timely :: "signing_input \<Rightarrow> bool" where
  "timely i \<longleftrightarrow> safe_timestamp (si_issuedAtMs i) \<and> safe_timestamp (si_expiresAtMs i) \<and> si_issuedAtMs i < si_expiresAtMs i"

lemma canonical_Inr:
  "canonicalNodeCommandSigningBytes i = Inr bytes \<longleftrightarrow> timely i \<and> (\<exists>n t. toBigInt (cr_revocationVersion (si_capability i)) = Inr n
     \<and> budget_texts (si_budget i) t
     \<and> bytes = stringify (envelope i (budget_fields t) (capability_json (cr_id (si_capability i)) (dec_string n))))"
  by (auto simp: canonicalNodeCommandSigningBytes_def timely_def budget_wire_Inr capability_Inr result_simps simp del: stringify.simps)

lemma wire_u64_text: "wire_u64 s = Inr u \<longleftrightarrow> (\<exists>n. toBigInt (UString s) = Inr n \<and> u = UBigInt n)"
  by (auto simp: wire_u64_def split: sum.splits)

lemma toBigInt_in_u64: "toBigInt u = Inr n \<Longrightarrow> wire_u64 (dec_string n) = Inr (UBigInt n) \<and> toBigInt (UBigInt n) = Inr n"
  using toBigInt_u64 [of u n] toBigInt_dec_string [of n] by (simp add: wire_u64_def)

text \<open>The fields read back give the very bytes that were signed.\<close>

lemma wire_signing_bytes:
  assumes "timely i" "toBigInt (cr_revocationVersion (si_capability i)) = Inr n" "budget_texts (si_budget i) t"
  shows "nodeCommandSigningBytes (wire_of i (dec_string n) t payload signature)
    = Inr (stringify (envelope i (budget_fields t) (capability_json (cr_id (si_capability i)) (dec_string n))))"
proof -
  have agent: "target_wire (si_target i) = target_wire \<lparr>ct_organizationId = ct_organizationId (si_target i), ct_nodeId = ct_nodeId (si_target i),
      ct_agentId = Some (case agent_of (ct_agentId (si_target i)) of None \<Rightarrow> [] | Some a \<Rightarrow> a)\<rparr>"
    by (auto simp: target_wire_def agent_of_def split: option.split)
  have budget: "\<exists>b. (case t of None \<Rightarrow> Inr None | Some (asset, amount) \<Rightarrow> bindR (wire_u64 amount) (\<lambda>a. Inr (Some \<lparr>cb_asset = asset, cb_amount = a\<rparr>))) = Inr b
      \<and> budget_texts b t"
    using assms(3) toBigInt_in_u64 by (auto simp: budget_texts_def split: option.splits)
  then obtain b where b: "(case t of None \<Rightarrow> Inr None | Some (asset, amount) \<Rightarrow> bindR (wire_u64 amount) (\<lambda>a. Inr (Some \<lparr>cb_asset = asset, cb_amount = a\<rparr>))) = Inr b"
      "budget_texts b t" by blast
  show ?thesis
    unfolding nodeCommandSigningBytes_def
    using assms(1) toBigInt_in_u64 [OF assms(2)] b agent
    by (simp add: wire_of_def canonical_Inr timely_def envelope_def del: stringify.simps)
      (intro exI [of _ n] exI [of _ t], simp)
qed

lemma payload_object_text: "payload_object (stringify p) = Inr q \<Longrightarrow> q = p"
  by (auto simp: payload_object_def json_parse_stringify simp del: stringify.simps split: json.splits)

lemma signNodeCommand_steps:
  assumes "signNodeCommand H S input r = (Inr c, r')"
  obtains issued payload commandId nonce bytes sig v r1 r2 where
    "0 < issued" "issued < expires_of input issued" "expires_of input issued - issued \<le> 300000"
    "canonicalNodeCommandSigningBytes (signing_of (cs_address S) input issued (bytesToHex (sha256 H (stringify payload))) commandId nonce) = Inr bytes"
    "cs_sign S bytes r1 = (Inr sig, r2)" "length sig = 64" "length (cs_publicBytes S) = 32"
    "json_parse bytes = Some v" "read_wire v payload (signature_text (cs_publicBytes S) sig) = Some c"
  using assms unfolding signNodeCommand_def Let_def
  by (auto simp: eff_oks simp del: stringify.simps elim!: bindE_okE dest!: payload_object_text split: prod.split_asm sum.split_asm option.split_asm)

lemma signNodeCommand_signed:
  assumes "signNodeCommand H S input r = (Inr c, r')"
  obtains i bytes sig r1 r2 where "nodeCommandSigningBytes c = Inr bytes" "cs_sign S bytes r1 = (Inr sig, r2)"
    "length sig = 64" "length (cs_publicBytes S) = 32" "sc_signature c = signature_text (cs_publicBytes S) sig"
    "i = signing_of (cs_address S) input (sc_issued_at_ms c) (bytesToHex (sha256 H (stringify (sc_payload c)))) (sc_command_id c) (sc_nonce c)"
    "c = wire_of i (sc_revocation_version c) (sc_budget c) (sc_payload c) (sc_signature c)"
    "0 < sc_issued_at_ms c" "sc_issued_at_ms c < sc_expires_at_ms c" "sc_expires_at_ms c - sc_issued_at_ms c \<le> 300000"
proof -
  from signNodeCommand_steps [OF assms] obtain issued payload commandId nonce bytes sig v r1 r2 where
    time: "0 < issued" "issued < expires_of input issued" "expires_of input issued - issued \<le> 300000"
    and canonical: "canonicalNodeCommandSigningBytes (signing_of (cs_address S) input issued (bytesToHex (sha256 H (stringify payload))) commandId nonce) = Inr bytes"
    and sig: "cs_sign S bytes r1 = (Inr sig, r2)" "length sig = 64" "length (cs_publicBytes S) = 32"
    and wire: "json_parse bytes = Some v" "read_wire v payload (signature_text (cs_publicBytes S) sig) = Some c" .
  let ?i = "signing_of (cs_address S) input issued (bytesToHex (sha256 H (stringify payload))) commandId nonce"
  from canonical obtain n t where i: "timely ?i" "toBigInt (cr_revocationVersion (si_capability ?i)) = Inr n" "budget_texts (si_budget ?i) t"
    and bytes: "bytes = stringify (envelope ?i (budget_fields t) (capability_json (cr_id (si_capability ?i)) (dec_string n)))"
    unfolding canonical_Inr by blast
  from wire(1) bytes have "v = envelope ?i (budget_fields t) (capability_json (cr_id (si_capability ?i)) (dec_string n))"
    by (simp add: json_parse_stringify del: stringify.simps)
  with wire(2) have c: "c = wire_of ?i (dec_string n) t payload (signature_text (cs_publicBytes S) sig)"
    by (simp add: read_wire_envelope)
  show thesis
  proof (rule that [of bytes r1 sig r2 ?i])
    show "nodeCommandSigningBytes c = Inr bytes" using wire_signing_bytes [OF i] bytes c by simp
  qed (use sig time c in \<open>simp_all add: wire_of_def signing_of_def\<close>)
qed

lemma decimal_text: "toBigInt (UString s) = Inr n \<Longrightarrow> dec_string n = s"
  by (auto simp: result_simps dec_string_decimal split: if_split_asm)

lemma received_envelope:
  assumes "nodeCommandSigningBytes c = Inr b"
  shows "\<exists>i. b = stringify (envelope i (budget_fields (sc_budget c)) (capability_json (cr_id (si_capability i)) (sc_revocation_version c)))
    \<and> wire_of i (sc_revocation_version c) (sc_budget c) (sc_payload c) (sc_signature c) = c\<lparr>sc_agent_id := agent_of (sc_agent_id c)\<rparr>"
proof -
  obtain n where n: "toBigInt (UString (sc_revocation_version c)) = Inr n" using assms
    by (auto simp: nodeCommandSigningBytes_def result_simps wire_u64_text)
  have budget: "\<exists>bud. (case sc_budget c of None \<Rightarrow> Inr None
            | Some (asset, amount) \<Rightarrow> bindR (wire_u64 amount) (\<lambda>a. Inr (Some \<lparr>cb_asset = asset, cb_amount = a\<rparr>))) = Inr bud"
    using assms by (auto simp: nodeCommandSigningBytes_def result_simps)
  then obtain bud where bud: "(case sc_budget c of None \<Rightarrow> Inr None
            | Some (asset, amount) \<Rightarrow> bindR (wire_u64 amount) (\<lambda>a. Inr (Some \<lparr>cb_asset = asset, cb_amount = a\<rparr>))) = Inr bud" by blast
  let ?i = "\<lparr>si_version = sc_version c, si_commandId = sc_command_id c, si_signer = sc_signer c,
       si_target = \<lparr>ct_organizationId = sc_organization_id c, ct_nodeId = sc_node_id c,
                    ct_agentId = Some (case sc_agent_id c of None \<Rightarrow> [] | Some a \<Rightarrow> a)\<rparr>,
       si_action = sc_action c, si_scope = sc_scope c, si_capability = \<lparr>cr_id = sc_capability_id c, cr_revocationVersion = UBigInt n\<rparr>,
       si_nonce = sc_nonce c, si_issuedAtMs = sc_issued_at_ms c, si_expiresAtMs = sc_expires_at_ms c,
       si_idempotencyKey = sc_idempotency_key c, si_budget = bud, si_payloadHash = sc_payload_hash c\<rparr>"
  have "canonicalNodeCommandSigningBytes ?i = Inr b" using assms bud n by (simp add: nodeCommandSigningBytes_def wire_u64_def)
  then obtain t where t: "budget_texts bud t" "b = stringify (envelope ?i (budget_fields t) (capability_json (sc_capability_id c) (dec_string n)))"
    using toBigInt_in_u64 [OF n] by (auto simp: canonical_Inr simp del: stringify.simps)
  have "t = sc_budget c" using t(1) bud
    by (auto simp: budget_texts_def wire_u64_text result_simps decimal_text split: option.splits if_split_asm)
  then show ?thesis using t(2) decimal_text [OF n]
    by (intro exI [of _ ?i]) (auto simp: wire_of_def agent_of_def simp del: stringify.simps split: option.split)
qed

lemma envelope_inj:
  assumes "envelope i (budget_fields t) (capability_json (cr_id (si_capability i)) v) = envelope j (budget_fields u) (capability_json (cr_id (si_capability j)) w)"
  shows "wire_of i v t p s = wire_of j w u p s"
  using arg_cong [OF assms, of "\<lambda>x. read_wire x p s"] by (simp add: read_wire_envelope)

lemma signed_verified:
  assumes "nodeCommandSigningBytes c = Inr bytes" "length sig = 64" "length key = 32" "sc_signature c = signature_text key sig"
    "sc_version c = ''1''" "sc_payload_hash c = bytesToHex (sha256 H (stringify (sc_payload c)))"
    "ke_address K key = sc_signer c" "ke_verify K key bytes sig"
  shows "verifySignedNodeCommand H K c = Inr ()"
  using assms by (auto simp: verifySignedNodeCommand_def match_signature_text)

lemma signed_accepts:
  assumes "signNodeCommand H S input r = (Inr c, r')" "ke_address K (cs_publicBytes S) = cs_address S"
    and "\<forall>bytes r1 sig r2. cs_sign S bytes r1 = (Inr sig, r2) \<longrightarrow> ke_verify K (cs_publicBytes S) bytes sig"
  shows "verifySignedNodeCommand H K c = Inr ()"
proof -
  from signNodeCommand_signed [OF assms(1)] obtain i bytes sig r1 r2 where
    bytes: "nodeCommandSigningBytes c = Inr bytes" and sign: "cs_sign S bytes r1 = (Inr sig, r2)"
    and len: "length sig = 64" "length (cs_publicBytes S) = 32" and sg: "sc_signature c = signature_text (cs_publicBytes S) sig"
    and i: "i = signing_of (cs_address S) input (sc_issued_at_ms c) (bytesToHex (sha256 H (stringify (sc_payload c)))) (sc_command_id c) (sc_nonce c)"
    and c: "c = wire_of i (sc_revocation_version c) (sc_budget c) (sc_payload c) (sc_signature c)" .
  have fields: "sc_version c = ''1''" "sc_payload_hash c = bytesToHex (sha256 H (stringify (sc_payload c)))" "sc_signer c = cs_address S"
    using arg_cong [OF c, of sc_version] arg_cong [OF c, of sc_signer] arg_cong [OF c, of sc_payload_hash]
    by (simp_all add: wire_of_def i signing_of_def)
  have "ke_verify K (cs_publicBytes S) bytes sig" using assms(3) sign by blast
  then show ?thesis
    using signed_verified [OF bytes len sg fields(1,2)] fields(3) assms(2) by simp
qed

section \<open>What signing returns\<close>

definition payload_of :: "sign_command_input \<Rightarrow> json" where
  "payload_of input = (case ni_payload input of Some p \<Rightarrow> p | None \<Rightarrow> JObject [])"

lemma signNodeCommand_wire:
  assumes "signNodeCommand H S input r = (Inr c, r')"
  obtains issued commandId nonce sig n t i where
    "i = signing_of (cs_address S) input issued (bytesToHex (sha256 H (stringify (payload_of input)))) commandId nonce"
    "c = wire_of i (dec_string n) t (payload_of input) (signature_text (cs_publicBytes S) sig)"
    "timely i" "0 < issued" "si_expiresAtMs i - issued \<le> 300000" "budget_texts (ni_budget input) t"
    "toBigInt (cr_revocationVersion (ni_capability input)) = Inr n" "list_all signing_token (signing_tokens input i)"
proof -
  from assms obtain issued payload commandId nonce bytes sig v r1 r2 where
    time: "0 < issued" "expires_of input issued - issued \<le> 300000" and payload: "payload = payload_of input"
    and tokens: "list_all signing_token (signing_tokens input (signing_of (cs_address S) input issued (bytesToHex (sha256 H (stringify payload))) commandId nonce))"
    and canonical: "canonicalNodeCommandSigningBytes (signing_of (cs_address S) input issued (bytesToHex (sha256 H (stringify payload))) commandId nonce) = Inr bytes"
    and wire: "json_parse bytes = Some v" "read_wire v payload (signature_text (cs_publicBytes S) sig) = Some c"
    unfolding signNodeCommand_def Let_def
    by (auto simp: eff_oks payload_of_def simp del: stringify.simps elim!: bindE_okE dest!: payload_object_text split: prod.split_asm sum.split_asm option.split_asm)
  let ?i = "signing_of (cs_address S) input issued (bytesToHex (sha256 H (stringify payload))) commandId nonce"
  from canonical obtain n t where i: "timely ?i" "toBigInt (cr_revocationVersion (si_capability ?i)) = Inr n" "budget_texts (si_budget ?i) t"
    and bytes: "bytes = stringify (envelope ?i (budget_fields t) (capability_json (cr_id (si_capability ?i)) (dec_string n)))"
    unfolding canonical_Inr by blast
  from wire(1) bytes have "v = envelope ?i (budget_fields t) (capability_json (cr_id (si_capability ?i)) (dec_string n))"
    by (simp add: json_parse_stringify del: stringify.simps)
  with wire(2) have c: "c = wire_of ?i (dec_string n) t payload (signature_text (cs_publicBytes S) sig)"
    by (simp add: read_wire_envelope)
  show thesis
    by (rule that [OF _ c [unfolded payload] i(1) [unfolded payload]]) (use time i tokens payload in \<open>simp_all add: signing_of_def del: stringify.simps\<close>)
qed

definition u64_decimal :: "string \<Rightarrow> bool" where
  "u64_decimal s \<longleftrightarrow> is_decimal s \<and> in_u64 (dec_value s)"

text \<open>The type of the wire fields of a command.\<close>

definition wf_command :: "signed_command \<Rightarrow> bool" where
  "wf_command c \<longleftrightarrow> sc_version c = ''1''
     \<and> list_all signing_token [sc_command_id c, sc_signer c, sc_organization_id c, sc_node_id c, sc_action c, sc_scope c, sc_capability_id c,
          sc_nonce c, sc_idempotency_key c]
     \<and> (case sc_agent_id c of None \<Rightarrow> True | Some a \<Rightarrow> signing_token a)
     \<and> (case sc_budget c of None \<Rightarrow> True | Some (asset, amount) \<Rightarrow> signing_token asset \<and> u64_decimal amount \<and> 0 < dec_value amount)
     \<and> u64_decimal (sc_revocation_version c)
     \<and> safe_timestamp (sc_issued_at_ms c) \<and> safe_timestamp (sc_expires_at_ms c) \<and> 0 < sc_issued_at_ms c
     \<and> sc_issued_at_ms c < sc_expires_at_ms c \<and> sc_expires_at_ms c \<le> sc_issued_at_ms c + 300000"

lemma u64_decimal_dec_string: "toBigInt u = Inr n \<Longrightarrow> u64_decimal (dec_string n)"
  using toBigInt_u64 [of u n] by (simp add: u64_decimal_def in_u64_def)

lemma agent_token:
  "list_all signing_token (case a of None \<Rightarrow> [] | Some a \<Rightarrow> if a = [] then [] else [a])
    \<longleftrightarrow> (case agent_of a of None \<Rightarrow> True | Some a \<Rightarrow> signing_token a)"
  by (auto simp: agent_of_def split: option.split)

lemma budget_token:
  assumes "budget_texts b t" "list_all signing_token (case b of None \<Rightarrow> [] | Some b \<Rightarrow> [cb_asset b])"
  shows "case t of None \<Rightarrow> True | Some (asset, amount) \<Rightarrow> signing_token asset \<and> u64_decimal amount \<and> 0 < dec_value amount"
proof (cases b)
  case (Some a)
  with assms obtain n where n: "toBigInt (cb_amount a) = Inr n" "n \<noteq> 0" "t = Some (cb_asset a, dec_string n)"
    by (auto simp: budget_texts_def)
  moreover have "0 \<le> n" using toBigInt_u64 [OF n(1)] by (simp add: in_u64_def)
  ultimately show ?thesis using assms(2) Some u64_decimal_dec_string [OF n(1)] by simp
qed (use assms in \<open>simp add: budget_texts_def\<close>)

text \<open>Signing succeeds on texts of the alphabet, safe times and a payload object.\<close>

lemma signNodeCommand_runs:
  assumes key: "length (cs_publicBytes S) = 32" "length sig = 64" "\<And>b r. cs_sign S b r = (Inr sig, r)"
    and fields: "\<And>r. issuedE S (ni_issuedAtMs input) r = (Inr t, r)" "\<And>r. uuidE S (ni_commandId input) r = (Inr commandId, r)"
      "\<And>r. uuidE S (ni_nonce input) r = (Inr nonce, r)" "\<exists>ms. payload_of input = JObject ms"
    and i: "i = signing_of (cs_address S) input t (bytesToHex (sha256 H (stringify (payload_of input)))) commandId nonce"
    and time: "safe_timestamp t" "safe_timestamp (expires_of input t)" "0 < t" "t < expires_of input t" "expires_of input t - t \<le> 300000"
    and wire: "toBigInt (cr_revocationVersion (ni_capability input)) = Inr n" "budget_texts (ni_budget input) b"
    and tokens: "list_all signing_token (signing_tokens input i)"
  shows "signNodeCommand H S input r = (Inr (wire_of i (dec_string n) b (payload_of input) (signature_text (cs_publicBytes S) sig)), r)"
proof -
  have "timely i" using time by (simp add: timely_def i signing_of_def)
  moreover have "toBigInt (cr_revocationVersion (si_capability i)) = Inr n" "budget_texts (si_budget i) b" using wire by (simp_all add: i signing_of_def)
  ultimately have canonical: "canonicalNodeCommandSigningBytes i
      = Inr (stringify (envelope i (budget_fields b) (capability_json (cr_id (si_capability i)) (dec_string n))))"
    unfolding canonical_Inr by blast
  have read: "payload_object (stringify (payload_of input)) = Inr (payload_of input)"
    using fields(4) by (auto simp: payload_object_def json_parse_stringify simp del: stringify.simps)
  show ?thesis
    unfolding signNodeCommand_def Let_def
    using key fields(1,2,3) time tokens canonical read
    by (simp add: eff_run payload_of_def [symmetric] i [symmetric] json_parse_stringify read_wire_envelope del: stringify.simps)
qed

section \<open>Properties\<close>

text \<open>A value that the caller gave, or else one that the device made.\<close>

definition given_or_made :: "('r \<Rightarrow> 'a \<times> 'r) \<Rightarrow> 'a option \<Rightarrow> 'a \<Rightarrow> bool" where
  "given_or_made source given x \<longleftrightarrow> (case given of Some a \<Rightarrow> x = a | None \<Rightarrow> \<exists>r. fst (source r) = x)"

lemma made_by: "uuidE S g r = (Inr x, r') \<Longrightarrow> given_or_made (cs_randomUUID S) g x" "issuedE S h r = (Inr t, r') \<Longrightarrow> given_or_made (cs_now S) h t"
  by (auto simp: uuidE_def issuedE_def given_or_made_def eff_oks split: option.split_asm prod.split_asm) (metis fst_conv)+

lemma signNodeCommand_made:
  assumes "signNodeCommand H S input r = (Inr c, r')"
  shows "given_or_made (cs_randomUUID S) (ni_commandId input) (sc_command_id c) \<and> given_or_made (cs_randomUUID S) (ni_nonce input) (sc_nonce c)
    \<and> given_or_made (cs_now S) (ni_issuedAtMs input) (sc_issued_at_ms c)"
proof -
  from assms obtain issued payload commandId nonce bytes sig v where
    made: "given_or_made (cs_now S) (ni_issuedAtMs input) issued" "given_or_made (cs_randomUUID S) (ni_commandId input) commandId"
      "given_or_made (cs_randomUUID S) (ni_nonce input) nonce"
    and canonical: "canonicalNodeCommandSigningBytes (signing_of (cs_address S) input issued (bytesToHex (sha256 H (stringify payload))) commandId nonce) = Inr bytes"
    and wire: "json_parse bytes = Some v" "read_wire v payload (signature_text (cs_publicBytes S) sig) = Some c"
    unfolding signNodeCommand_def Let_def
    by (auto simp: eff_oks payload_of_def simp del: stringify.simps elim!: bindE_okE dest!: payload_object_text made_by
        split: prod.split_asm sum.split_asm option.split_asm)
  let ?i = "signing_of (cs_address S) input issued (bytesToHex (sha256 H (stringify payload))) commandId nonce"
  from canonical obtain n t where "bytes = stringify (envelope ?i (budget_fields t) (capability_json (cr_id (si_capability ?i)) (dec_string n)))"
    unfolding canonical_Inr by blast
  with wire(1) have "v = envelope ?i (budget_fields t) (capability_json (cr_id (si_capability ?i)) (dec_string n))"
    by (simp add: json_parse_stringify del: stringify.simps)
  with wire(2) have c: "c = wire_of ?i (dec_string n) t payload (signature_text (cs_publicBytes S) sig)"
    by (simp add: read_wire_envelope)
  show ?thesis using made by (simp add: c wire_of_def signing_of_def)
qed

text \<open>
  C15. A command is sent as it was asked for and signed: whatever a device signs verifies at the receiver, whose canonical text, built again from the wire
  fields, is the text that was signed by the device. The command carries the action, scope, organization, node, Agent (none for an empty id),
  capability with its revocation version, budget and payload that were asked for, the given or newly made command id and nonce, the given idempotency
  key or else the command id, the given or current time of issue and the given or default expiry, which is at most five minutes later; its signer is the
  device and its payload hash is the hash of its payload. (The receiver's key functions accept what this signer signs.)
\<close>

theorem signed_command_verifies:
  assumes "signNodeCommand H S input r = (Inr c, r')" "ke_address K (cs_publicBytes S) = cs_address S"
    and "\<forall>bytes r1 sig r2. cs_sign S bytes r1 = (Inr sig, r2) \<longrightarrow> ke_verify K (cs_publicBytes S) bytes sig"
  shows "verifySignedNodeCommand H K c = Inr ()
    \<and> (\<exists>bytes r1 sig r2. cs_sign S bytes r1 = (Inr sig, r2) \<and> nodeCommandSigningBytes c = Inr bytes \<and> sc_signature c = signature_text (cs_publicBytes S) sig)
    \<and> sc_version c = ''1'' \<and> sc_signer c = cs_address S
    \<and> sc_action c = ni_action input \<and> sc_scope c = ni_scope input \<and> sc_capability_id c = cr_id (ni_capability input)
    \<and> sc_organization_id c = ct_organizationId (ni_target input) \<and> sc_node_id c = ct_nodeId (ni_target input)
    \<and> sc_agent_id c = (case ct_agentId (ni_target input) of None \<Rightarrow> None | Some a \<Rightarrow> if a = [] then None else Some a)
    \<and> (\<exists>n. toBigInt (cr_revocationVersion (ni_capability input)) = Inr n \<and> sc_revocation_version c = dec_string n)
    \<and> (case ni_budget input of None \<Rightarrow> sc_budget c = None
       | Some b \<Rightarrow> \<exists>n. toBigInt (cb_amount b) = Inr n \<and> 0 < n \<and> sc_budget c = Some (cb_asset b, dec_string n))
    \<and> sc_payload c = (case ni_payload input of Some p \<Rightarrow> p | None \<Rightarrow> JObject [])
    \<and> sc_payload_hash c = bytesToHex (sha256 H (stringify (sc_payload c)))
    \<and> given_or_made (cs_randomUUID S) (ni_commandId input) (sc_command_id c) \<and> given_or_made (cs_randomUUID S) (ni_nonce input) (sc_nonce c)
    \<and> sc_idempotency_key c = (case ni_idempotencyKey input of Some k \<Rightarrow> k | None \<Rightarrow> sc_command_id c)
    \<and> given_or_made (cs_now S) (ni_issuedAtMs input) (sc_issued_at_ms c)
    \<and> sc_expires_at_ms c = (case ni_expiresAtMs input of Some t \<Rightarrow> t | None \<Rightarrow> sc_issued_at_ms c + 60000)
    \<and> 0 < sc_issued_at_ms c \<and> sc_issued_at_ms c < sc_expires_at_ms c \<and> sc_expires_at_ms c \<le> sc_issued_at_ms c + 300000"
proof -
  have "verifySignedNodeCommand H K c = Inr ()" by (rule signed_accepts [OF assms])
  moreover have "\<exists>bytes r1 sig r2. cs_sign S bytes r1 = (Inr sig, r2) \<and> nodeCommandSigningBytes c = Inr bytes \<and> sc_signature c = signature_text (cs_publicBytes S) sig"
    by (rule signNodeCommand_signed [OF assms(1)]) blast
  moreover note signNodeCommand_made [OF assms(1)]
  moreover obtain issued commandId nonce sig n t i where
    i: "i = signing_of (cs_address S) input issued (bytesToHex (sha256 H (stringify (payload_of input)))) commandId nonce"
    and c: "c = wire_of i (dec_string n) t (payload_of input) (signature_text (cs_publicBytes S) sig)"
    and time: "timely i" "0 < issued" "si_expiresAtMs i - issued \<le> 300000" and budget: "budget_texts (ni_budget input) t"
    and rev: "toBigInt (cr_revocationVersion (ni_capability input)) = Inr n"
    by (rule signNodeCommand_wire [OF assms(1)])
  moreover have "case ni_budget input of None \<Rightarrow> t = None | Some b \<Rightarrow> \<exists>n. toBigInt (cb_amount b) = Inr n \<and> 0 < n \<and> t = Some (cb_asset b, dec_string n)"
    using budget by (force simp: budget_texts_def in_u64_def dest: toBigInt_u64 split: option.split_asm simp del: toBigInt.simps)
  moreover have "agent_of (ct_agentId (ni_target input)) = (case ct_agentId (ni_target input) of None \<Rightarrow> None | Some a \<Rightarrow> if a = [] then None else Some a)"
    by (simp add: agent_of_def split: option.split)
  moreover have "sc_budget c = t" "sc_command_id c = commandId" "sc_issued_at_ms c = issued" by (simp_all add: c i wire_of_def signing_of_def)
  ultimately show ?thesis
    by (simp add: wire_of_def signing_of_def timely_def payload_of_def expires_of_def cong: option.case_cong del: stringify.simps toBigInt.simps)
qed

text \<open>
  An intent hash stands for one command: two commands that both verify and have the same intent hash
  agree in every field, payload included, except for the text of the signature (and an empty agent id
  counts as none), unless SHA-256 collides.
\<close>

theorem command_intent_binds:
  assumes "verifySignedNodeCommand H K c = Inr ()" "verifySignedNodeCommand H K c' = Inr ()"
    and "nodeCommandIntentHash H c = nodeCommandIntentHash H c'"
  shows "collision H \<or> c\<lparr>sc_agent_id := agent_of (sc_agent_id c), sc_signature := s\<rparr> = c'\<lparr>sc_agent_id := agent_of (sc_agent_id c'), sc_signature := s\<rparr>"
proof -
  have parts: "\<exists>b. nodeCommandSigningBytes d = Inr b" "bytesToHex (sha256 H (stringify (sc_payload d))) = sc_payload_hash d"
    if "verifySignedNodeCommand H K d = Inr ()" for d
    using that by (auto simp: verifySignedNodeCommand_def result_simps split: option.split_asm)
  obtain b b' where b: "nodeCommandSigningBytes c = Inr b" "nodeCommandSigningBytes c' = Inr b'" using parts(1) assms(1,2) by blast
  show ?thesis
  proof (cases "collision H")
    case False
    with assms(3) b sha256_eq [of H b b'] have "b' = b" by (simp add: nodeCommandIntentHash_def)
    with received_envelope [OF b(1)] received_envelope [OF b(2)] obtain i j where
      same: "envelope i (budget_fields (sc_budget c)) (capability_json (cr_id (si_capability i)) (sc_revocation_version c))
        = envelope j (budget_fields (sc_budget c')) (capability_json (cr_id (si_capability j)) (sc_revocation_version c'))"
      and wires: "wire_of i (sc_revocation_version c) (sc_budget c) (sc_payload c) (sc_signature c) = c\<lparr>sc_agent_id := agent_of (sc_agent_id c)\<rparr>"
        "wire_of j (sc_revocation_version c') (sc_budget c') (sc_payload c') (sc_signature c') = c'\<lparr>sc_agent_id := agent_of (sc_agent_id c')\<rparr>"
      by (auto simp: stringify_inj simp del: stringify.simps)
    define d d' where "d = c\<lparr>sc_agent_id := agent_of (sc_agent_id c)\<rparr>" and "d' = c'\<lparr>sc_agent_id := agent_of (sc_agent_id c')\<rparr>"
    have w: "d\<lparr>sc_payload := p, sc_signature := s\<rparr> = d'\<lparr>sc_payload := p, sc_signature := s\<rparr>" for p s
      using envelope_inj [OF same, of p s] arg_cong [OF wires(1), of "\<lambda>x. x\<lparr>sc_payload := p, sc_signature := s\<rparr>"]
        arg_cong [OF wires(2), of "\<lambda>x. x\<lparr>sc_payload := p, sc_signature := s\<rparr>"] by (simp add: wire_of_def d_def d'_def)
    have "sc_payload_hash c = sc_payload_hash c'" using arg_cong [OF w [of "[]" JNull], of sc_payload_hash] by (simp add: d_def d'_def)
    then have "sha256 H (stringify (sc_payload c)) = sha256 H (stringify (sc_payload c'))"
      using parts(2) [OF assms(1)] parts(2) [OF assms(2)] by (metis hexToBytes_bytesToHex)
    with False sha256_eq have "sc_payload c = sc_payload c'" by (metis stringify_inj)
    then have "d\<lparr>sc_payload := sc_payload c\<rparr> = d" "d'\<lparr>sc_payload := sc_payload c\<rparr> = d'" by (simp_all add: d_def d'_def)
    then have "d\<lparr>sc_signature := s\<rparr> = d'\<lparr>sc_signature := s\<rparr>" using w [of s "sc_payload c"] by simp
    then show ?thesis by (simp add: d_def d'_def)
  qed simp
qed

text \<open>
  C16. Every command that signing returns is well typed on the wire, whatever texts, numbers and times it was asked
  with: every identifier is a token of the signing alphabet, the budget amount and the revocation version are
  decimal texts of 64-bit numbers without a leading zero, the amount is positive, both times are safe integers, and the life of
  the command is positive and at most five minutes.
\<close>

theorem signed_command_well_formed:
  assumes "signNodeCommand H S input r = (Inr c, r')"
  shows "wf_command c"
  using assms
proof (rule signNodeCommand_wire)
  fix issued commandId nonce sig n t i
  assume i: "i = signing_of (cs_address S) input issued (bytesToHex (sha256 H (stringify (payload_of input)))) commandId nonce"
    and c: "c = wire_of i (dec_string n) t (payload_of input) (signature_text (cs_publicBytes S) sig)"
    and time: "timely i" "0 < issued" "si_expiresAtMs i - issued \<le> 300000" and budget: "budget_texts (ni_budget input) t"
    and rev: "toBigInt (cr_revocationVersion (ni_capability input)) = Inr n" and tokens: "list_all signing_token (signing_tokens input i)"
  from tokens have parts: "list_all signing_token (case ct_agentId (ni_target input) of None \<Rightarrow> [] | Some a \<Rightarrow> if a = [] then [] else [a])"
    "list_all signing_token (case ni_budget input of None \<Rightarrow> [] | Some b \<Rightarrow> [cb_asset b])"
    "list_all signing_token [si_commandId i, si_signer i, ct_organizationId (ni_target input), ct_nodeId (ni_target input),
       ni_action input, ni_scope input, cr_id (ni_capability input), si_nonce i, si_idempotencyKey i]"
    by (simp_all add: signing_tokens_def)
  show "wf_command c"
    using parts(3) parts(1) [unfolded agent_token] budget_token [OF budget parts(2)] u64_decimal_dec_string [OF rev] time
    unfolding wf_command_def c i by (simp add: wire_of_def signing_of_def timely_def del: stringify.simps)
qed

section \<open>A sample command\<close>

text \<open>A device whose signature is its key and the length of what it signs, enough for these commands.\<close>

definition sample_key :: string where
  "sample_key = replicate 32 (CHR ''k'')"

definition sample_signer :: "unit command_signer" where
  "sample_signer = \<lparr>cs_publicBytes = sample_key, cs_address = ''device'', cs_sign = (\<lambda>b. okE (sample_key @ sample_key)),
     cs_randomUUID = (\<lambda>r. (''uuid'', r)), cs_now = (\<lambda>r. (1000, r))\<rparr>"

definition sample_keys :: key_env where
  "sample_keys = \<lparr>ke_address = (\<lambda>k. if k = sample_key then ''device'' else []), ke_verify = (\<lambda>k b s. s = k @ k)\<rparr>"

definition sample_command_input :: sign_command_input where
  "sample_command_input = \<lparr>ni_target = \<lparr>ct_organizationId = ''org'', ct_nodeId = ''node'', ct_agentId = Some []\<rparr>, ni_action = ''health'',
     ni_scope = ''observation'', ni_capability = \<lparr>cr_id = ''cap'', cr_revocationVersion = UBigInt 3\<rparr>, ni_payload = Some (JObject []),
     ni_commandId = None, ni_nonce = None, ni_idempotencyKey = None, ni_issuedAtMs = None, ni_expiresAtMs = None, ni_budget = None\<rparr>"

definition sample_command :: signed_command where
  "sample_command = \<lparr>sc_version = ''1'', sc_command_id = ''uuid'', sc_signer = ''device'', sc_organization_id = ''org'', sc_node_id = ''node'',
     sc_agent_id = None, sc_action = ''health'', sc_scope = ''observation'', sc_capability_id = ''cap'', sc_revocation_version = ''3'',
     sc_nonce = ''uuid'', sc_issued_at_ms = 1000, sc_expires_at_ms = 61000, sc_idempotency_key = ''uuid'', sc_budget = None,
     sc_payload = JObject [], sc_payload_hash = bytesToHex (stringify (JObject [])), sc_signature = signature_text sample_key (sample_key @ sample_key)\<rparr>"

lemma sample_command_signed: "signNodeCommand sample_hash sample_signer sample_command_input () = (Inr sample_command, ())"
proof -
  let ?i = "signing_of (cs_address sample_signer) sample_command_input 1000
    (bytesToHex (sha256 sample_hash (stringify (payload_of sample_command_input)))) ''uuid'' ''uuid''"
  let ?c = "wire_of ?i (dec_string 3) None (payload_of sample_command_input) (signature_text (cs_publicBytes sample_signer) (sample_key @ sample_key))"
  have three: "dec_string 3 = ''3''" by code_simp
  have "?c = sample_command"
    by (simp add: three wire_of_def signing_of_def sample_command_def sample_command_input_def sample_signer_def sample_hash_def payload_of_def
        agent_of_def expires_of_def del: stringify.simps)
  moreover have "signNodeCommand sample_hash sample_signer sample_command_input () = (Inr ?c, ())"
  proof (rule signNodeCommand_runs)
    show "list_all signing_token (signing_tokens sample_command_input ?i)"
      by (simp add: signing_tokens_def signing_of_def sample_command_input_def sample_signer_def signing_token_def is_token_char_def is_alnum_def is_digit_def)
  qed (rule refl | simp add: sample_signer_def sample_key_def sample_command_input_def issuedE_def uuidE_def eff_run payload_of_def expires_of_def
        safe_timestamp_def is_safe_integer_def max_safe_integer_def in_u64_def MAX_U64_def budget_texts_def del: stringify.simps)+
  ultimately show ?thesis by simp
qed

lemma sample_keys_accept: "ke_address sample_keys (cs_publicBytes sample_signer) = cs_address sample_signer"
  "\<forall>bytes r1 sig r2. cs_sign sample_signer bytes r1 = (Inr sig, r2) \<longrightarrow> ke_verify sample_keys (cs_publicBytes sample_signer) bytes sig"
  by (simp_all add: sample_keys_def sample_signer_def eff_run)

theorem signed_command_verifies_witness:
  "verifySignedNodeCommand sample_hash sample_keys sample_command = Inr () \<and> sc_action sample_command = ''health''"
  using signed_command_verifies [OF sample_command_signed sample_keys_accept] by (simp add: sample_command_input_def)

text \<open>The same command with an explicitly empty agent id is received as the same intent.\<close>

lemma sample_command_received: "verifySignedNodeCommand sample_hash sample_keys sample_command = Inr ()"
proof -
  obtain bytes where bytes: "nodeCommandSigningBytes sample_command = Inr bytes"
    by (rule signNodeCommand_signed [OF sample_command_signed])
  have "length sample_key = 32" by (simp add: sample_key_def)
  then show ?thesis
    by (intro signed_verified [OF bytes, of "sample_key @ sample_key" sample_key])
      (simp_all add: sample_command_def sample_keys_def sample_hash_def del: stringify.simps)
qed

lemma empty_agent_same:
  "nodeCommandSigningBytes (sample_command\<lparr>sc_agent_id := Some []\<rparr>) = nodeCommandSigningBytes sample_command"
  by (simp add: nodeCommandSigningBytes_def sample_command_def del: stringify.simps)

theorem command_intent_binds_witness:
  "sample_command\<lparr>sc_agent_id := Some []\<rparr> \<noteq> sample_command
   \<and> sample_command\<lparr>sc_agent_id := None, sc_signature := []\<rparr> = sample_command\<lparr>sc_agent_id := agent_of (Some []), sc_signature := []\<rparr>"
proof -
  let ?c = "sample_command\<lparr>sc_agent_id := Some []\<rparr>"
  have "sc_agent_id ?c \<noteq> sc_agent_id sample_command" by (simp add: sample_command_def)
  then have differ: "?c \<noteq> sample_command" by metis
  have received: "verifySignedNodeCommand sample_hash sample_keys ?c = Inr ()"
    using sample_command_received unfolding verifySignedNodeCommand_def empty_agent_same signed_command.select_convs signed_command.surjective
    by (simp cong: option.case_cong add: case_prod_beta)
  have "nodeCommandIntentHash sample_hash sample_command = nodeCommandIntentHash sample_hash ?c"
    by (simp add: nodeCommandIntentHash_def empty_agent_same)
  from command_intent_binds [OF sample_command_received received this, of "[]"]
  show ?thesis using differ by (simp add: collision_def sample_hash_def sample_command_def agent_of_def)
qed

theorem signed_command_well_formed_witness:
  "wf_command sample_command \<and> sc_revocation_version sample_command = ''3''"
  using signed_command_well_formed [OF sample_command_signed] by (simp add: sample_command_def del: stringify.simps)

end
