(* ===== verification/Transaction_Visibility.thy ===== *)
theory Transaction_Visibility
  imports Manager_Guarantees
begin

text \<open>
  Waiting until the outputs of a confirmed transaction can be read, \<^verbatim>\<open>awaitTransactionVisible\<close> of
  \<^verbatim>\<open>apps/fractalmind-app/src/transaction-visibility.ts\<close>. The chain's reads, the pause between two attempts and
  the changed objects of a receipt are fields of \<open>visibility_env\<close>; object versions are the decimal
  texts of the chain.
\<close>

datatype visibility_error = Invalid_receipt | Visibility_outside

datatype object_failure = Object_not_found string | Object_failed

record changed_object =
  co_objectId :: string
  co_outputState :: string
  co_idOperation :: string
  co_outputVersion :: "string option"

record seen_object =
  so_objectId :: string
  so_version :: string

record 'r visibility_env =
  ve_changedObjects :: "tx_result \<Rightarrow> changed_object list"
  ve_getObject :: "string \<Rightarrow> ('r, object_failure, seen_object) eff"
  ve_checkNetwork :: "('r, visibility_error, unit) eff"
  ve_pause :: "'r \<Rightarrow> 'r"

definition written_version :: "changed_object \<Rightarrow> string" where
  "written_version c = (case co_outputVersion c of None \<Rightarrow> [] | Some v \<Rightarrow> v)"

definition object_writes :: "changed_object list \<Rightarrow> changed_object list" where
  "object_writes cs = filter (\<lambda>c. co_outputState c = ''ObjectWrite'' \<and> written_version c \<noteq> []) cs"

text \<open>One written object: not found or an older version means not yet, any other failure is thrown.\<close>

definition write_ready :: "'r visibility_env \<Rightarrow> changed_object \<Rightarrow> ('r, visibility_error, bool) eff" where
  "write_ready V c = (\<lambda>r. case ve_getObject V (co_objectId c) r of
     (Inl (Object_not_found i), r') \<Rightarrow> (if i = co_objectId c then Inr False else Inl Visibility_outside, r')
   | (Inl Object_failed, r') \<Rightarrow> (Inl Visibility_outside, r')
   | (Inr seen, r') \<Rightarrow>
       (if so_objectId seen \<noteq> co_objectId c then Inl Invalid_receipt
        else (case (bigint_text (so_version seen), bigint_text (written_version c)) of
                (Inr have, Inr want) \<Rightarrow> Inr (want \<le> have)
              | _ \<Rightarrow> Inl Visibility_outside), r'))"

fun writes_ready :: "'r visibility_env \<Rightarrow> bool \<Rightarrow> changed_object list \<Rightarrow> ('r, visibility_error, bool) eff" where
  "writes_ready V ready [] = okE ready"
| "writes_ready V ready (c # cs) = bindE (write_ready V c) (\<lambda>ok. writes_ready V (ready \<and> ok) cs)"

fun poll_writes :: "'r visibility_env \<Rightarrow> changed_object list \<Rightarrow> nat \<Rightarrow> ('r, visibility_error, bool) eff" where
  "poll_writes V writes 0 = okE False"
| "poll_writes V writes (Suc n) =
     bindE (writes_ready V True writes) (\<lambda>ready.
     if ready then bindE (ve_checkNetwork V) (\<lambda>_. okE True)
     else if 0 < n then bindE (modifyE (ve_pause V)) (\<lambda>_. poll_writes V writes n)
     else okE False)"

definition awaitTransactionVisible :: "'r visibility_env \<Rightarrow> tx_outcome \<Rightarrow> int \<Rightarrow> ('r, visibility_error, bool) eff" where
  "awaitTransactionVisible V outcome attempts =
    (if oc_status outcome \<noteq> OConfirmed then okE False
     else case oc_transaction outcome of None \<Rightarrow> throwE Invalid_receipt
     | Some tx \<Rightarrow>
        if tr_effects tx = None \<or> attempts < 1 \<or> 40 < attempts then throwE Invalid_receipt
        else let writes = object_writes (ve_changedObjects V tx) in
          bindE (assertE (writes \<noteq> []) Invalid_receipt) (\<lambda>_.
          bindE (ve_checkNetwork V) (\<lambda>_.
          poll_writes V writes (nat attempts))))"

section \<open>What a visible transaction means\<close>

text \<open>The object was read with at least the version that the transaction wrote.\<close>

definition seen_written :: "'r visibility_env \<Rightarrow> changed_object \<Rightarrow> bool" where
  "seen_written V c \<longleftrightarrow> (\<exists>r r' seen have want. ve_getObject V (co_objectId c) r = (Inr seen, r') \<and> so_objectId seen = co_objectId c
     \<and> bigint_text (so_version seen) = Inr have \<and> bigint_text (written_version c) = Inr want \<and> want \<le> have)"

lemma write_ready_True: "write_ready V c r = (Inr True, r') \<Longrightarrow> seen_written V c"
  unfolding write_ready_def seen_written_def
  by (auto split: prod.split_asm sum.split_asm object_failure.split_asm if_split_asm)

lemma writes_ready_True: "writes_ready V ready cs r = (Inr True, r') \<Longrightarrow> ready \<and> (\<forall>c \<in> set cs. seen_written V c)"
proof (induction cs arbitrary: ready r)
  case (Cons c cs)
  from Cons.prems obtain ok r1 where "write_ready V c r = (Inr ok, r1)" "writes_ready V (ready \<and> ok) cs r1 = (Inr True, r')"
    by (auto elim!: bindE_okE)
  with Cons.IH write_ready_True show ?case by fastforce
qed (simp add: eff_oks)

lemma poll_writes_True: "poll_writes V writes n r = (Inr True, r') \<Longrightarrow> \<forall>c \<in> set writes. seen_written V c"
proof (induction n arbitrary: r)
  case (Suc n)
  then show ?case by (auto simp: eff_oks elim!: bindE_okE dest!: writes_ready_True split: if_split_asm)
qed (simp add: eff_oks)

text \<open>
  A chain that catches up: \<open>ver c t\<close> is the version of a written object that it shows at the time \<open>t\<close>, none while the object is not found; only a pause
  passes time, by one.
\<close>

definition chain_shows :: "'r visibility_env \<Rightarrow> changed_object list \<Rightarrow> ('r \<Rightarrow> nat) \<Rightarrow> (changed_object \<Rightarrow> nat \<Rightarrow> int option) \<Rightarrow> bool" where
  "chain_shows V writes time ver \<longleftrightarrow>
     (\<forall>c \<in> set writes. \<forall>t v. ver c t = Some v \<longrightarrow> 0 \<le> v)
     \<and> (\<forall>c \<in> set writes. \<forall>r. \<exists>r'. time r' = time r \<and> ve_getObject V (co_objectId c) r =
          (case ver c (time r) of None \<Rightarrow> Inl (Object_not_found (co_objectId c)) | Some v \<Rightarrow> Inr \<lparr>so_objectId = co_objectId c, so_version = dec_string v\<rparr>, r'))
     \<and> (\<forall>r. \<exists>r'. ve_checkNetwork V r = (Inr (), r') \<and> time r' = time r) \<and> (\<forall>r. time (ve_pause V r) = Suc (time r))"

text \<open>At the time \<open>t\<close> every written object is there with at least its written version \<open>want c\<close>.\<close>

definition all_shown :: "changed_object list \<Rightarrow> (changed_object \<Rightarrow> int) \<Rightarrow> (changed_object \<Rightarrow> nat \<Rightarrow> int option) \<Rightarrow> nat \<Rightarrow> bool" where
  "all_shown writes want ver t \<longleftrightarrow> (\<forall>c \<in> set writes. \<exists>v. ver c t = Some v \<and> want c \<le> v)"

lemma bigint_dec_string: "0 \<le> v \<Longrightarrow> bigint_text (dec_string v) = Inr v"
  by (simp add: bigint_text_def) (simp add: dec_string_def dec_digits_all dec_digits_nonempty)

lemma chain_showsD:
  assumes "chain_shows V writes time ver"
  shows "c \<in> set writes \<Longrightarrow> ver c t = Some v \<Longrightarrow> 0 \<le> v"
    "c \<in> set writes \<Longrightarrow> \<exists>r'. time r' = time r \<and> ve_getObject V (co_objectId c) r =
          (case ver c (time r) of None \<Rightarrow> Inl (Object_not_found (co_objectId c)) | Some v \<Rightarrow> Inr \<lparr>so_objectId = co_objectId c, so_version = dec_string v\<rparr>, r')"
    "\<exists>r'. ve_checkNetwork V r = (Inr (), r') \<and> time r' = time r" "time (ve_pause V r) = Suc (time r)"
  using assms unfolding chain_shows_def by blast+

lemma write_ready_shown:
  assumes "chain_shows V writes time ver" "c \<in> set writes" "co_outputVersion c = Some (dec_string (want c))" "0 \<le> want c"
  shows "\<exists>r'. write_ready V c r = (Inr (\<exists>v. ver c (time r) = Some v \<and> want c \<le> v), r') \<and> time r' = time r"
proof -
  obtain r' where r': "time r' = time r" "ve_getObject V (co_objectId c) r =
      (case ver c (time r) of None \<Rightarrow> Inl (Object_not_found (co_objectId c)) | Some v \<Rightarrow> Inr \<lparr>so_objectId = co_objectId c, so_version = dec_string v\<rparr>, r')"
    using chain_showsD(2) [OF assms(1,2)] by blast
  have "written_version c = dec_string (want c)" using assms(3) by (simp add: written_version_def)
  then show ?thesis
    using r' chain_showsD(1) [OF assms(1,2), of "time r"] assms(4) by (cases "ver c (time r)") (auto simp: write_ready_def bigint_dec_string)
qed

lemma writes_ready_shown:
  assumes "chain_shows V writes time ver" "\<forall>c \<in> set writes. co_outputVersion c = Some (dec_string (want c)) \<and> 0 \<le> want c" "set cs \<subseteq> set writes"
  shows "\<exists>r'. writes_ready V ready cs r = (Inr (ready \<and> all_shown cs want ver (time r)), r') \<and> time r' = time r"
  using assms(3)
proof (induction cs arbitrary: ready r)
  case (Cons c cs)
  then have c: "c \<in> set writes" "set cs \<subseteq> set writes" by auto
  obtain r1 where r1: "write_ready V c r = (Inr (\<exists>v. ver c (time r) = Some v \<and> want c \<le> v), r1)" "time r1 = time r"
    using write_ready_shown [OF assms(1) c(1), of want] assms(2) c(1) by blast
  show ?case using Cons.IH [OF c(2), of "ready \<and> (\<exists>v. ver c (time r) = Some v \<and> want c \<le> v)" r1] r1
    by (auto simp: eff_run all_shown_def)
qed (simp add: eff_run all_shown_def)

lemma poll_writes_shown:
  assumes "chain_shows V writes time ver" "\<forall>c \<in> set writes. co_outputVersion c = Some (dec_string (want c)) \<and> 0 \<le> want c"
  shows "\<exists>r'. poll_writes V writes n r = (Inr (\<exists>k < n. all_shown writes want ver (time r + k)), r')"
proof (induction n arbitrary: r)
  case (Suc n)
  obtain r1 where r1: "writes_ready V True writes r = (Inr (all_shown writes want ver (time r)), r1)" "time r1 = time r"
    using writes_ready_shown [OF assms, of writes True r] by auto
  obtain r2 where net: "ve_checkNetwork V r1 = (Inr (), r2)" using chain_showsD(3) [OF assms(1)] by blast
  have next_time: "time (ve_pause V r1) = Suc (time r)" using chain_showsD(4) [OF assms(1), of r1] r1(2) by simp
  have later: "(\<exists>k < Suc n. P k) \<longleftrightarrow> P 0 \<or> (\<exists>k < n. P (Suc k))" for P :: "nat \<Rightarrow> bool" by (metis Suc_less_eq Zero_neq_Suc not0_implies_Suc zero_less_Suc)
  show ?case
    using r1 net next_time Suc.IH [of "ve_pause V r1"] by (cases "all_shown writes want ver (time r)"; cases "0 < n") (auto simp: eff_run later)
qed (simp add: eff_run)

text \<open>A transaction is reported visible only for what was read.\<close>

lemma visible_was_read:
  assumes "awaitTransactionVisible V outcome attempts r = (Inr True, r')"
  shows "oc_status outcome = OConfirmed \<and> (\<exists>tx. oc_transaction outcome = Some tx \<and> object_writes (ve_changedObjects V tx) \<noteq> []
     \<and> (\<forall>c \<in> set (object_writes (ve_changedObjects V tx)). seen_written V c))"
  using assms
  by (auto simp: awaitTransactionVisible_def Let_def eff_oks elim!: bindE_okE dest: poll_writes_True split: if_split_asm option.split_asm)

section \<open>Properties\<close>

text \<open>
  C18. Waiting reports a confirmed transaction visible exactly when it becomes visible in time: on a chain that, from pause to pause, shows each written
  object with some version, the answer is whether, at one of as many times as there are attempts, all written objects are found with at least the
  versions that the transaction wrote. In particular a transaction that becomes visible in time is reported so.
\<close>

theorem visible_in_time:
  assumes "oc_status outcome = OConfirmed" "oc_transaction outcome = Some tx" "tr_effects tx \<noteq> None" "1 \<le> attempts" "attempts \<le> 40"
    and "writes = filter (\<lambda>c. co_outputState c = ''ObjectWrite'' \<and> co_outputVersion c \<notin> {None, Some []}) (ve_changedObjects V tx)" "writes \<noteq> []"
    and "\<forall>c \<in> set writes. co_outputVersion c = Some (dec_string (want c)) \<and> 0 \<le> want c" "chain_shows V writes time ver"
  shows "\<exists>r'. awaitTransactionVisible V outcome attempts r
      = (Inr (\<exists>k < nat attempts. \<forall>c \<in> set writes. \<exists>v. ver c (time r + k) = Some v \<and> want c \<le> v), r')"
proof -
  have writes: "object_writes (ve_changedObjects V tx) = writes"
    unfolding object_writes_def assms(6) by (rule filter_cong) (auto simp: written_version_def split: option.split)
  obtain r1 where "ve_checkNetwork V r = (Inr (), r1)" "time r1 = time r" using chain_showsD(3) [OF assms(9)] by blast
  then show ?thesis using assms(1-5,7) writes poll_writes_shown [OF assms(9,8), of "nat attempts" r1]
    by (simp add: awaitTransactionVisible_def eff_run Let_def all_shown_def)
qed

text \<open>This chain shows version seven after two pauses and version six before, so that three attempts are enough and two are not.\<close>

definition sample_visibility :: "nat visibility_env" where
  "sample_visibility = \<lparr>ve_changedObjects = (\<lambda>_. [\<lparr>co_objectId = ''o'', co_outputState = ''ObjectWrite'', co_idOperation = ''Created'',
       co_outputVersion = Some ''7''\<rparr>]),
     ve_getObject = (\<lambda>i r. (Inr \<lparr>so_objectId = i, so_version = (if r < 2 then ''6'' else ''7'')\<rparr>, r)),
     ve_checkNetwork = okE (), ve_pause = Suc\<rparr>"

definition sample_confirmed :: tx_outcome where
  "sample_confirmed = \<lparr>oc_status = OConfirmed, oc_digest = ''D'', oc_requestId = ''r1'', oc_reason = None, oc_gasUsed = None, oc_actualGas = None,
     oc_journalSynced = True, oc_transaction = Some sample_result\<rparr>"

theorem visible_in_time_witness:
  "fst (awaitTransactionVisible sample_visibility sample_confirmed 3 0) = Inr True \<and> fst (awaitTransactionVisible sample_visibility sample_confirmed 2 0) = Inr False"
proof -
  let ?w = "[\<lparr>co_objectId = ''o'', co_outputState = ''ObjectWrite'', co_idOperation = ''Created'', co_outputVersion = Some ''7''\<rparr>]"
  have texts: "dec_string 7 = ''7''" "dec_string 6 = ''6''" by code_simp+
  have catches_up: "chain_shows sample_visibility ?w id (\<lambda>c t. Some (if t < 2 then 6 else 7))"
    by (simp add: chain_shows_def sample_visibility_def texts eff_run)
  have waits: "\<exists>r'. awaitTransactionVisible sample_visibility sample_confirmed n 0
      = (Inr (\<exists>k < nat n. \<forall>c \<in> set ?w. \<exists>v. Some (if id 0 + k < 2 then 6 else 7 :: int) = Some v \<and> 7 \<le> v), r')" if "1 \<le> n" "n \<le> 40" for n
    by (rule visible_in_time [where tx = sample_result and want = "\<lambda>_. 7" and time = id and ver = "\<lambda>c t. Some (if t < 2 then 6 else 7)"])
      (use that catches_up in \<open>simp_all add: sample_confirmed_def sample_result_def sample_visibility_def texts\<close>)
  have "\<exists>k < 3. \<not> k < (2 :: nat)" by (rule exI [of _ 2]) simp
  then show ?thesis using waits [of 3] waits [of 2] by (auto split: if_split_asm)
qed

end
