(* ===== verification/Host_Health.thy ===== *)
theory Host_Health
  imports Guarded_Flow Node_Command Transaction_Visibility Okr_Autonomy
begin

text \<open>
  Host health checks, \<^verbatim>\<open>NativeHostHealth\<close> of \<^verbatim>\<open>apps/fractalmind-app/src/host-health.ts\<close>: a capability for one
  observation, a signed node-wide command with its prepared Run, one delivery, and the probes of the
  result. Transactions go through the modelled manager and \<^verbatim>\<open>awaitTransactionVisible\<close>, commands through
  \<^verbatim>\<open>signNodeCommand\<close>; chain reads, the preparation of result keys and the Coordinator are fields of
  \<open>health_env\<close>.
\<close>

datatype health_error =
    Health_invalid_input | Health_invalid_source | Health_state_changed | Health_invalid_quote | Sync_pending
  | Delivery_unknown | Health_invalid_result | Health_command command_error | Health_visibility visibility_error | Health_outside

section \<open>Probe results\<close>

record host_probe =
  pr_name :: string
  pr_ok :: bool
  pr_exitCode :: int
  pr_stdout :: string
  pr_stderr :: string
  pr_truncated :: bool
  pr_durationMs :: int

datatype host_health_result = Health_pending | Health_finished bool "host_probe list" "string option"

definition bfield :: "json \<Rightarrow> string \<Rightarrow> bool option" where
  "bfield v k = (case field v k of Some (JBool b) \<Rightarrow> Some b | _ \<Rightarrow> None)"

definition safe_field :: "json \<Rightarrow> string \<Rightarrow> int option" where
  "safe_field v k = (case nfield v k of Some n \<Rightarrow> if is_safe_integer (Some n) then Some n else None | None \<Rightarrow> None)"

definition parse_probe :: "json \<Rightarrow> host_probe option" where
  "parse_probe p =
    (case (sfield p ''name'', bfield p ''ok'', safe_field p ''exit_code'', sfield p ''stdout'', sfield p ''stderr'',
           bfield p ''truncated'', safe_field p ''duration_ms'') of
       (Some name, Some ok, Some exit, Some out, Some err, Some truncated, Some duration) \<Rightarrow>
         Some \<lparr>pr_name = name, pr_ok = ok, pr_exitCode = exit, pr_stdout = out, pr_stderr = err, pr_truncated = truncated, pr_durationMs = duration\<rparr>
     | _ \<Rightarrow> None)"

fun parse_probes :: "json list \<Rightarrow> host_probe list option" where
  "parse_probes [] = Some []"
| "parse_probes (p # ps) = (case parse_probe p of None \<Rightarrow> None | Some x \<Rightarrow> map_option (Cons x) (parse_probes ps))"

definition parseHostProbes :: "json option \<Rightarrow> host_probe list option" where
  "parseHostProbes result =
    (case result of None \<Rightarrow> None
     | Some v \<Rightarrow> if sfield v ''source'' \<noteq> Some ''host-health-probes'' then None
         else (case field v ''probes'' of Some (JArray ps) \<Rightarrow> parse_probes ps | _ \<Rightarrow> None))"

section \<open>The controller\<close>

definition CAPABILITY_TTL_MS :: int where
  "CAPABILITY_TTL_MS = 600000"

definition COMMAND_TTL_MS :: int where
  "COMMAND_TTL_MS = 240000"

record host_authority =
  ha_authorityPin :: "string option"
  ha_humanId :: string

record host_directory =
  hd_memberships :: "member_facts list"
  hd_bindings :: "binding_facts list"
  hd_clockMs :: int

record host_source =
  hs_authority :: host_authority
  hs_clockMs :: int
  hs_member :: member_facts
  hs_binding :: binding_facts
  hs_pin :: string

record capability_request =
  cq_organizationId :: string
  cq_humanId :: string
  cq_grantId :: string
  cq_membershipId :: string
  cq_bindingId :: string
  cq_actions :: "string list"
  cq_scope :: string
  cq_maxUses :: int
  cq_expiresAtMs :: int

record health_capability =
  hc_objectId :: string
  hc_revoked :: bool
  hc_parentId :: "string option"
  hc_orgId :: string
  hc_nodeId :: string
  hc_agentId :: string
  hc_delegate :: string
  hc_scope :: string
  hc_actions :: "string list"
  hc_maxUses :: int
  hc_usesClaimed :: int
  hc_maxBudget :: int
  hc_budgetAsset :: string
  hc_expiresAtMs :: int
  hc_revocationVersion :: int

record health_run =
  hr_org_id :: string
  hr_capability_id :: string
  hr_action :: string
  hr_intent_hash :: string

text \<open>What a quote was prepared under; \<open>hp_current\<close> names the prepared result key of a command.\<close>

record health_plan =
  hp_pin :: string
  hp_current :: "string option"
  hp_command :: "signed_command option"

record 'r health_env =
  he_client :: "'r client_env"
  he_grantId :: string
  he_organizationId :: string
  he_membershipId :: string
  he_deviceAddress :: string
  he_now :: "'r \<Rightarrow> int \<times> 'r"
  he_verifyOrganization :: "('r, health_error, host_authority) eff"
  he_hostDirectory :: "('r, health_error, host_directory) eff"
  he_issueCapability :: "capability_request \<Rightarrow> tx_data option"
  he_visibility :: "'r visibility_env"
  he_objectType :: "tx_result \<Rightarrow> string \<Rightarrow> string option"
  he_capabilityType :: "('r, health_error, string) eff"
  he_executionType :: "('r, health_error, string) eff"
  he_getCapability :: "string \<Rightarrow> ('r, health_error, health_capability) eff"
  he_hash :: hash_env
  he_signer :: "'r command_signer"
  he_prepareResult :: "signed_command \<Rightarrow> string \<Rightarrow> string \<Rightarrow> ('r, health_error, tx_data \<times> string) eff"
  he_assertCurrent :: "string \<Rightarrow> ('r, health_error, unit) eff"
  he_getExecution :: "string \<Rightarrow> ('r, health_error, health_run) eff"
  he_prepareCommand :: "string \<Rightarrow> signed_command \<Rightarrow> ('r, health_error, string) eff"
  he_sendRequest :: "string \<Rightarrow> ('r, health_error, json) eff"
  he_readResult :: "string \<Rightarrow> ('r, health_error, json option) eff"

type_synonym ('s, 'r, 'a) health = "('s, 'r, health_plan, health_error, 'a) flow"

definition new_health_ok :: "string \<Rightarrow> string \<Rightarrow> string \<Rightarrow> (health_error, unit) result" where
  "new_health_ok grantId organizationId membershipId =
     assertR (list_all is_object_id [grantId, organizationId, membershipId]) Health_invalid_input"

definition healthNow :: "'r health_env \<Rightarrow> ('r, health_error, int) eff" where
  "healthNow E = (\<lambda>r. case he_now E r of (t, r') \<Rightarrow> (Inr t, r'))"

text \<open>The live membership and its binding, and their pin.\<close>

definition health_pin :: "host_authority \<Rightarrow> member_facts \<Rightarrow> binding_facts \<Rightarrow> string" where
  "health_pin a m b = stringify (JArray [jopt JString (ha_authorityPin a), member_json m, binding_json b])"

definition healthSource :: "'r health_env \<Rightarrow> ('r, health_error, host_source) eff" where
  "healthSource E =
     bindE (he_verifyOrganization E) (\<lambda>authority.
     bindE (he_hostDirectory E) (\<lambda>directory.
     case find (\<lambda>m. me_id m = he_membershipId E \<and> \<not> me_revoked m \<and> hd_clockMs directory < me_expires_at_ms m) (hd_memberships directory) of
       None \<Rightarrow> throwE Health_invalid_source
     | Some member \<Rightarrow>
         (case find (\<lambda>b. bi_id b = me_coordinator_binding member \<and> \<not> bi_revoked b) (hd_bindings directory) of
            None \<Rightarrow> throwE Health_invalid_source
          | Some binding \<Rightarrow> okE \<lparr>hs_authority = authority, hs_clockMs = hd_clockMs directory, hs_member = member, hs_binding = binding,
                                hs_pin = health_pin authority member binding\<rparr>)))"

text \<open>The guard of a plan: the prepared result key is current and the source still has the planned pin.\<close>

definition healthGuard :: "'r health_env \<Rightarrow> health_plan \<Rightarrow> ('r, health_error, unit) eff" where
  "healthGuard E plan =
     bindE (case hp_current plan of None \<Rightarrow> okE () | Some k \<Rightarrow> he_assertCurrent E k) (\<lambda>_.
     bindE (healthSource E) (\<lambda>s.
     assertE (hs_pin s = hp_pin plan) Health_state_changed))"

definition quote_under :: "nat \<Rightarrow> 'r health_env \<Rightarrow> ('s, 'x) journal_ops \<Rightarrow> string \<Rightarrow> tx_data \<Rightarrow> health_plan \<Rightarrow> ('s, 'r, fee_quote) health" where
  "quote_under fuel E J requestId tx plan =
     bindE (managerE (prepare fuel (he_client E) J \<lparr>pi_requestId = requestId, pi_transaction = tx,
              pi_gasBudget = UBigInt 200000000, pi_maxSuiSpend = None\<rparr>)) (\<lambda>quote.
     bindE (outsideE (healthGuard E plan)) (\<lambda>_.
     bindE (remember quote plan) (\<lambda>_.
     okE quote)))"

definition capability_request_of :: "'r health_env \<Rightarrow> host_source \<Rightarrow> int \<Rightarrow> capability_request" where
  "capability_request_of E before now =
    (let expires = max now (hs_clockMs before) + CAPABILITY_TTL_MS; ceiling = me_expires_at_ms (hs_member before) in
     \<lparr>cq_organizationId = he_organizationId E, cq_humanId = ha_humanId (hs_authority before), cq_grantId = he_grantId E,
      cq_membershipId = me_id (hs_member before), cq_bindingId = bi_id (hs_binding before), cq_actions = [''health''],
      cq_scope = ''observation'', cq_maxUses = 1, cq_expiresAtMs = (if expires < ceiling then expires else ceiling)\<rparr>)"

definition quoteCapability :: "nat \<Rightarrow> 'r health_env \<Rightarrow> ('s, 'x) journal_ops \<Rightarrow> string \<Rightarrow> ('s, 'r, fee_quote) health" where
  "quoteCapability fuel E J requestId =
     bindE (outsideE (healthSource E)) (\<lambda>before.
     bindE (outsideE (healthNow E)) (\<lambda>now.
     case he_issueCapability E (capability_request_of E before now) of
       None \<Rightarrow> throwE (Flow Health_outside)
     | Some tx \<Rightarrow> quote_under fuel E J requestId tx \<lparr>hp_pin = hs_pin before, hp_current = None, hp_command = None\<rparr>))"

definition visibleE :: "'r health_env \<Rightarrow> tx_outcome \<Rightarrow> ('r, health_error, bool) eff" where
  "visibleE E outcome = (\<lambda>r. case awaitTransactionVisible (he_visibility E) outcome 40 r of
     (Inl e, r') \<Rightarrow> (Inl (Health_visibility e), r') | (Inr v, r') \<Rightarrow> (Inr v, r'))"

definition submitHealth :: "'r health_env \<Rightarrow> ('s, 'x) journal_ops \<Rightarrow> fee_quote \<Rightarrow> ('s, 'r, tx_outcome) health" where
  "submitHealth E J q =
     bindE (guarded_submit (he_client E) J (healthGuard E) Health_invalid_quote q) (\<lambda>outcome.
     if oc_status outcome = OConfirmed
     then bindE (outsideE (visibleE E outcome)) (\<lambda>visible.
          if visible then okE outcome else throwE (Flow Sync_pending))
     else okE outcome)"

text \<open>The one object of a type that a confirmed transaction created.\<close>

definition createdH :: "'r health_env \<Rightarrow> tx_outcome \<Rightarrow> string \<Rightarrow> (health_error, string) result" where
  "createdH E outcome type =
    (case oc_transaction outcome of None \<Rightarrow> Inl Health_invalid_source
     | Some tx \<Rightarrow>
        (case tr_effects tx of None \<Rightarrow> Inl Health_invalid_source
         | Some _ \<Rightarrow>
            (case filter (\<lambda>c. co_outputState c = ''ObjectWrite'' \<and> co_idOperation c = ''Created''
                             \<and> he_objectType E tx (co_objectId c) = Some type) (ve_changedObjects (he_visibility E) tx) of
               [c] \<Rightarrow> if oc_status outcome = OConfirmed \<and> tr_digest tx = oc_digest outcome \<and> is_object_id (co_objectId c)
                      then Inr (co_objectId c) else Inl Health_invalid_source
             | _ \<Rightarrow> Inl Health_invalid_source)))"

definition capability_exact :: "'r health_env \<Rightarrow> host_source \<Rightarrow> string \<Rightarrow> health_capability \<Rightarrow> bool" where
  "capability_exact E s capabilityId cap \<longleftrightarrow>
     hc_objectId cap = capabilityId \<and> \<not> hc_revoked cap \<and> (hc_parentId cap = None \<or> hc_parentId cap = Some []) \<and> hc_orgId cap = he_organizationId E
     \<and> hc_nodeId cap = me_host_address (hs_member s) \<and> hc_agentId cap = [] \<and> hc_delegate cap = he_deviceAddress E
     \<and> hc_scope cap = ''observation'' \<and> stringify (JArray (map JString (hc_actions cap))) = stringify (JArray [JString ''health''])
     \<and> hc_maxUses cap = 1 \<and> hc_usesClaimed cap = 0 \<and> hc_maxBudget cap = 0 \<and> hc_budgetAsset cap = [] \<and> hs_clockMs s < hc_expiresAtMs cap"

definition capabilityH :: "'r health_env \<Rightarrow> tx_outcome \<Rightarrow> ('r, health_error, capability_reference) eff" where
  "capabilityH E outcome =
     bindE (he_capabilityType E) (\<lambda>type.
     bindE (liftR (createdH E outcome type)) (\<lambda>capabilityId.
     bindE (healthSource E) (\<lambda>s.
     bindE (he_getCapability E capabilityId) (\<lambda>cap.
     bindE (assertE (capability_exact E s capabilityId cap) Health_invalid_source) (\<lambda>_.
     okE \<lparr>cr_id = capabilityId, cr_revocationVersion = UBigInt (hc_revocationVersion cap)\<rparr>)))))"

definition command_input :: "'r health_env \<Rightarrow> host_source \<Rightarrow> capability_reference \<Rightarrow> int \<Rightarrow> sign_command_input" where
  "command_input E before capability now =
     \<lparr>ni_target = \<lparr>ct_organizationId = he_organizationId E, ct_nodeId = me_host_address (hs_member before), ct_agentId = Some []\<rparr>,
      ni_action = ''health'', ni_scope = ''observation'', ni_capability = capability, ni_payload = Some (JObject []),
      ni_commandId = None, ni_nonce = None, ni_idempotencyKey = None, ni_issuedAtMs = Some now, ni_expiresAtMs = Some (now + COMMAND_TTL_MS),
      ni_budget = None\<rparr>"

definition signH :: "'r health_env \<Rightarrow> sign_command_input \<Rightarrow> ('r, health_error, signed_command) eff" where
  "signH E input = (\<lambda>r. case signNodeCommand (he_hash E) (he_signer E) input r of
     (Inl e, r') \<Rightarrow> (Inl (Health_command e), r') | (Inr c, r') \<Rightarrow> (Inr c, r'))"

definition quoteCommand :: "nat \<Rightarrow> 'r health_env \<Rightarrow> ('s, 'x) journal_ops \<Rightarrow> capability_reference \<Rightarrow> string
    \<Rightarrow> ('s, 'r, fee_quote \<times> signed_command) health" where
  "quoteCommand fuel E J capability requestId =
     bindE (outsideE (healthSource E)) (\<lambda>before.
     bindE (outsideE (healthNow E)) (\<lambda>clock.
     bindE (outsideE (signH E (command_input E before capability (max clock (hs_clockMs before))))) (\<lambda>command.
     bindE (outsideE (he_prepareResult E command (me_id (hs_member before)) (bi_id (hs_binding before)))) (\<lambda>(tx, handle).
     bindE (quote_under fuel E J requestId tx \<lparr>hp_pin = hs_pin before, hp_current = Some handle, hp_command = Some command\<rparr>) (\<lambda>quote.
     okE (quote, command))))))"

definition runH :: "'r health_env \<Rightarrow> tx_outcome \<Rightarrow> signed_command \<Rightarrow> ('r, health_error, string) eff" where
  "runH E outcome command =
     bindE (he_executionType E) (\<lambda>type.
     bindE (liftR (createdH E outcome type)) (\<lambda>runId.
     bindE (he_getExecution E runId) (\<lambda>run.
     bindE (assertE (hr_org_id run = he_organizationId E \<and> hr_capability_id run = sc_capability_id command \<and> hr_action run = ''health'')
              Health_invalid_source) (\<lambda>_.
     bindE (liftR (case nodeCommandIntentHash (he_hash E) command of Inl e \<Rightarrow> Inl (Health_command e) | Inr h \<Rightarrow> Inr h)) (\<lambda>intent.
     bindE (assertE (bytesToHex (hr_intent_hash run) = bytesToHex intent) Health_invalid_source) (\<lambda>_.
     okE runId))))))"

definition resultH :: "'r health_env \<Rightarrow> string \<Rightarrow> ('r, health_error, host_health_result) eff" where
  "resultH E runId =
     bindE (he_readResult E runId) (\<lambda>response.
     case response of None \<Rightarrow> okE Health_pending
     | Some v \<Rightarrow>
         (case (parseHostProbes (field v ''result''), bfield v ''ok'') of
            (Some probes, Some ok) \<Rightarrow>
              okE (Health_finished ok probes
                (if ok then None else (case field v ''error'' of None \<Rightarrow> None | Some e \<Rightarrow> sfield e ''message'')))
          | _ \<Rightarrow> throwE Health_invalid_result))"

section \<open>Delivery\<close>

text \<open>
  The object's delivered set beside the flow's world, and a record of the requests that were sent. Between
  the first check of the set and the delivery the code waits for the chain and the Coordinator, so a call
  is two steps.
\<close>

record ('s, 'r) health_world =
  hw_flow :: "('s, 'r, health_plan) flow_world"
  hw_delivered :: "string list"
  hw_sends :: "string list"

definition flowH :: "('s, 'r, 'a) health \<Rightarrow> (('s, 'r) health_world, health_error flow_error, 'a) eff" where
  "flowH m = (\<lambda>w. case m (hw_flow w) of (x, f) \<Rightarrow> (x, w\<lparr>hw_flow := f\<rparr>))"

definition sendStart :: "'r health_env \<Rightarrow> signed_command \<Rightarrow> (('s, 'r) health_world, health_error flow_error, unit) eff" where
  "sendStart E command = bindE (getE hw_delivered) (\<lambda>d. assertE (sc_command_id command \<notin> set d) (Flow Delivery_unknown))"

definition sendFinish :: "'r health_env \<Rightarrow> signed_command \<Rightarrow> (('s, 'r) health_world, health_error flow_error, json) eff" where
  "sendFinish E command =
     bindE (flowH (outsideE (healthSource E))) (\<lambda>s.
     bindE (flowH (outsideE (he_prepareCommand E (bi_id (hs_binding s)) command))) (\<lambda>request.
     bindE (modifyE (\<lambda>w. w\<lparr>hw_delivered := sc_command_id command # hw_delivered w, hw_sends := sc_command_id command # hw_sends w\<rparr>)) (\<lambda>_.
     flowH (outsideE (he_sendRequest E request)))))"

definition sendH :: "'r health_env \<Rightarrow> signed_command \<Rightarrow> (('s, 'r) health_world, health_error flow_error, json) eff" where
  "sendH E command = bindE (sendStart E command) (\<lambda>_. sendFinish E command)"

text \<open>The operations of the controller, one after the other.\<close>

datatype health_op =
    Op_quoteCapability string | Op_submit fee_quote | Op_capability tx_outcome | Op_quoteCommand capability_reference string
  | Op_run tx_outcome signed_command | Op_send signed_command | Op_result string

fun health_step :: "nat \<Rightarrow> 'r health_env \<Rightarrow> ('s, 'x) journal_ops \<Rightarrow> ('s, 'r) health_world \<Rightarrow> health_op \<Rightarrow> ('s, 'r) health_world" where
  "health_step fuel E J w (Op_quoteCapability i) = snd (flowH (quoteCapability fuel E J i) w)"
| "health_step fuel E J w (Op_submit q) = snd (flowH (submitHealth E J q) w)"
| "health_step fuel E J w (Op_capability c) = snd (flowH (outsideE (capabilityH E c)) w)"
| "health_step fuel E J w (Op_quoteCommand c i) = snd (flowH (quoteCommand fuel E J c i) w)"
| "health_step fuel E J w (Op_run c d) = snd (flowH (outsideE (runH E c d)) w)"
| "health_step fuel E J w (Op_send d) = snd (sendH E d w)"
| "health_step fuel E J w (Op_result i) = snd (flowH (outsideE (resultH E i)) w)"

section \<open>The flow keeps its contract\<close>

lemma outsideE_unsent: "outsideE m w = (x, w') \<Longrightarrow> w_sent (fw_manager w') = w_sent (fw_manager w)"
  by (auto simp: outsideE_def split: prod.split_asm)

lemma submitHealth_guarded:
  assumes "submitHealth E J q w = (r, w')"
  shows "\<exists>r1 w1. guarded_submit (he_client E) J (healthGuard E) Health_invalid_quote q w = (r1, w1) \<and> w_sent (fw_manager w1) = w_sent (fw_manager w')"
  using assms unfolding submitHealth_def
  by (auto simp: eff_pure dest!: outsideE_unsent elim!: bindE_E split: if_split_asm)

interpretation health: submission_flow "submitHealth E J" "he_client E" J "healthGuard E" Health_invalid_quote for E J
  by unfold_locales (use submitHealth_guarded unsubmitted_refl in blast)

text \<open>The world after a source read in which the planned membership and binding are live and unchanged.\<close>

definition source_held :: "'r health_env \<Rightarrow> health_plan \<Rightarrow> 'r \<Rightarrow> bool" where
  "source_held E plan r' \<longleftrightarrow> (\<exists>s r. healthSource E r = (Inr s, r') \<and> hs_pin s = hp_pin plan
     \<and> me_id (hs_member s) = he_membershipId E \<and> \<not> me_revoked (hs_member s) \<and> hs_clockMs s < me_expires_at_ms (hs_member s)
     \<and> bi_id (hs_binding s) = me_coordinator_binding (hs_member s) \<and> \<not> bi_revoked (hs_binding s))"

lemma healthSource_live:
  assumes "healthSource E r = (Inr s, r')"
  shows "me_id (hs_member s) = he_membershipId E \<and> \<not> me_revoked (hs_member s) \<and> hs_clockMs s < me_expires_at_ms (hs_member s)
     \<and> bi_id (hs_binding s) = me_coordinator_binding (hs_member s) \<and> \<not> bi_revoked (hs_binding s)"
  using assms unfolding healthSource_def
  by (auto simp: eff_oks find_Some_iff elim!: bindE_okE split: option.split_asm)

lemma healthGuard_ok:
  assumes "healthGuard E plan r = (Inr (), r')"
  shows "source_held E plan r'"
proof -
  from assms obtain r1 s where s: "healthSource E r1 = (Inr s, r')" "hs_pin s = hp_pin plan"
    by (auto simp: healthGuard_def eff_oks elim!: bindE_okE)
  then show ?thesis using healthSource_live [OF s(1)] unfolding source_held_def by blast
qed

text \<open>The pin stands for the authority pin, the membership and the binding.\<close>

lemma health_pin_inj:
  "health_pin a m b = health_pin a' m' b' \<longleftrightarrow> ha_authorityPin a = ha_authorityPin a' \<and> member_json m = member_json m' \<and> binding_json b = binding_json b'"
  by (auto simp: health_pin_def stringify_inj jopt_def simp del: stringify.simps split: option.splits)

section \<open>Deliveries\<close>

definition same_delivery :: "('s, 'r) health_world \<Rightarrow> ('s, 'r) health_world \<Rightarrow> bool" where
  "same_delivery w w' \<longleftrightarrow> hw_delivered w' = hw_delivered w \<and> hw_sends w' = hw_sends w"

lemma flowH_delivery: "flowH m w = (x, w') \<Longrightarrow> same_delivery w w'"
  by (auto simp: flowH_def same_delivery_def split: prod.split_asm)

lemma flowH_snd [simp]: "hw_delivered (snd (flowH m w)) = hw_delivered w" "hw_sends (snd (flowH m w)) = hw_sends w"
  by (simp_all add: flowH_def split: prod.split)

lemma sendFinish_delivery:
  assumes "sendFinish E c w = (x, w')"
  shows "same_delivery w w' \<or> hw_delivered w' = sc_command_id c # hw_delivered w \<and> hw_sends w' = sc_command_id c # hw_sends w"
  using assms unfolding sendFinish_def
  by (auto simp: eff_pure same_delivery_def dest!: flowH_delivery elim!: bindE_E)

definition delivered_once :: "('s, 'r) health_world \<Rightarrow> bool" where
  "delivered_once w \<longleftrightarrow> distinct (hw_sends w) \<and> set (hw_sends w) \<subseteq> set (hw_delivered w)"

lemma sendH_once:
  assumes "delivered_once w"
  shows "delivered_once (snd (sendH E c w))"
proof (cases "sc_command_id c \<in> set (hw_delivered w)")
  case True
  then show ?thesis using assms by (simp add: sendH_def sendStart_def eff_run)
next
  case False
  obtain x w' where run: "sendFinish E c w = (x, w')" by fastforce
  with False have "snd (sendH E c w) = w'" by (simp add: sendH_def sendStart_def eff_run split: sum.split)
  with sendFinish_delivery [OF run] False assms show ?thesis by (auto simp: delivered_once_def same_delivery_def)
qed

lemma health_step_once: "delivered_once w \<Longrightarrow> delivered_once (health_step fuel E J w op)"
  by (cases op) (simp_all add: sendH_once, simp_all add: delivered_once_def)

text \<open>Calls that overlap can both pass the first check: the set is not looked at again before delivering.\<close>

lemma overlapping_delivery:
  assumes "sc_command_id c \<notin> set (hw_delivered w)" "sendFinish E c w = (Inr x, w1)" "sendFinish E c w1 = (Inr y, w2)"
  shows "sendStart E c w = (Inr (), w) \<and> hw_sends w2 = sc_command_id c # sc_command_id c # hw_sends w"
proof -
  have sent: "hw_sends w' = sc_command_id c # hw_sends v" if "sendFinish E c v = (Inr z, w')" for v w' :: "('a, 'b) health_world" and z
    using that unfolding sendFinish_def by (auto simp: eff_oks same_delivery_def dest!: flowH_delivery elim!: bindE_okE)
  show ?thesis using assms sent [OF assms(2)] sent [OF assms(3)] by (simp add: sendStart_def eff_run)
qed

section \<open>Properties\<close>

text \<open>
  A health transaction is broadcast only while its host is what was reviewed: if submitting a quote
  broadcasts anything, the quote was prepared by this controller and not used before, exactly its prepared
  transaction is sent, once, and the device signed it between two reads in which the planned membership was
  neither revoked nor expired, its Coordinator binding was not revoked, and authority, membership and binding
  were those of the plan.
\<close>

theorem health_sent_for_planned_host:
  assumes "submitHealth E J q w = (r, w')" "w_sent (fw_manager w') \<noteq> w_sent (fw_manager w)"
  shows "\<exists>plan p. map_of (fw_plans w) q = Some plan \<and> p \<in> set (w_prepared (fw_manager w)) \<and> p_quote p = q \<and> \<not> p_used p
    \<and> w_sent (fw_manager w') = (entry_key (p_entry p), je_digest (p_entry p)) # w_sent (fw_manager w)
    \<and> (\<exists>r1 r2 r3 s. source_held E plan r1 \<and> cl_sign (he_client E) (p_bytes p) r1 = (Inr s, r2)
        \<and> healthGuard E plan r2 = (Inr (), r3) \<and> source_held E plan r3)"
proof -
  from health.sent_under_guard [OF assms] obtain plan p where plan: "map_of (fw_plans w) q = Some plan"
      "p \<in> set (w_prepared (fw_manager w))" "p_quote p = q" "\<not> p_used p" "guarded_run (healthGuard E plan) (he_client E) (p_bytes p)"
      "w_sent (fw_manager w') = (entry_key (p_entry p), je_digest (p_entry p)) # w_sent (fw_manager w)" by blast
  from plan(5) obtain r0 r1 r2 r3 s where "healthGuard E plan r0 = (Inr (), r1)" "cl_sign (he_client E) (p_bytes p) r1 = (Inr s, r2)"
      "healthGuard E plan r2 = (Inr (), r3)" by (auto simp: guarded_run_def)
  then have "source_held E plan r1 \<and> cl_sign (he_client E) (p_bytes p) r1 = (Inr s, r2) \<and> healthGuard E plan r2 = (Inr (), r3) \<and> source_held E plan r3"
    by (simp add: healthGuard_ok)
  with plan show ?thesis by (intro exI [of _ plan] exI [of _ p]) blast
qed

text \<open>
  C17. One delivery per command: whatever sequence of operations is run on a new controller, with whatever
  results, no command id is handed to the Coordinator twice; a delivery whose outcome is unknown is never
  repeated. (Calls run one after the other; \<open>overlapping_delivery\<close> shows that overlapping calls are not
  covered.)
\<close>

theorem one_delivery_per_command:
  assumes "hw_delivered w = []" "hw_sends w = []"
  shows "distinct (hw_sends (foldl (health_step fuel E J) w ops))"
proof -
  have "delivered_once (foldl (health_step fuel E J) w ops)" if "delivered_once w" for w
    using that by (induction ops arbitrary: w) (simp_all add: health_step_once)
  moreover have "delivered_once w" using assms by (simp add: delivered_once_def)
  ultimately show ?thesis by (simp add: delivered_once_def)
qed

section \<open>A sample check\<close>

lemma only_element: "set xs = {x} \<Longrightarrow> distinct xs \<Longrightarrow> xs = [x]"
  by (cases xs; cases "tl xs") auto

definition sample_member :: member_facts where
  "sample_member = \<lparr>me_id = ''m'', me_org_id = ''org'', me_version = 1, me_revoked = False, me_expires_at_ms = 100, me_host_address = ''node'',
     me_coordinator_binding = ''b'', me_rest = JNull\<rparr>"

definition sample_binding :: binding_facts where
  "sample_binding = \<lparr>bi_id = ''b'', bi_org_id = ''org'', bi_revoked = False, bi_rest = JNull\<rparr>"

definition unit_visibility :: "unit visibility_env" where
  "unit_visibility = \<lparr>ve_changedObjects = (\<lambda>_. [\<lparr>co_objectId = ''o'', co_outputState = ''ObjectWrite'', co_idOperation = ''Created'',
       co_outputVersion = Some ''7''\<rparr>]),
     ve_getObject = (\<lambda>i. okE \<lparr>so_objectId = i, so_version = ''7''\<rparr>), ve_checkNetwork = okE (), ve_pause = id\<rparr>"

definition sample_health :: "unit health_env" where
  "sample_health = \<lparr>he_client = flow_client, he_grantId = ''g'', he_organizationId = ''org'', he_membershipId = ''m'', he_deviceAddress = ''device'',
     he_now = (\<lambda>r. (5, r)), he_verifyOrganization = okE \<lparr>ha_authorityPin = Some ''pin'', ha_humanId = ''h''\<rparr>,
     he_hostDirectory = okE \<lparr>hd_memberships = [sample_member], hd_bindings = [sample_binding], hd_clockMs = 5\<rparr>,
     he_issueCapability = (\<lambda>_. Some (pi_transaction sample_input)), he_visibility = unit_visibility,
     he_objectType = (\<lambda>_ _. None), he_capabilityType = okE ''cap'', he_executionType = okE ''run'',
     he_getCapability = (\<lambda>_. throwE Health_outside), he_hash = sample_hash, he_signer = sample_signer,
     he_prepareResult = (\<lambda>_ _ _. okE (pi_transaction sample_input, ''k'')), he_assertCurrent = (\<lambda>_. okE ()),
     he_getExecution = (\<lambda>_. throwE Health_outside), he_prepareCommand = (\<lambda>_ _. okE ''request''),
     he_sendRequest = (\<lambda>_. throwE Health_outside), he_readResult = (\<lambda>_. okE None)\<rparr>"

definition health_start :: "(idb_state, unit, health_plan) flow_world" where
  "health_start = \<lparr>fw_manager = sample_world, fw_plans = []\<rparr>"

definition health_ready :: "(idb_state, unit, health_plan) flow_world" where
  "health_ready = snd (quoteCapability 1 sample_health indexed_db_ops ''r1'' health_start)"

definition health_quote :: fee_quote where
  "health_quote = fst (hd (fw_plans health_ready))"

theorem health_sent_for_planned_host_witness:
  "w_sent (fw_manager (snd (submitHealth sample_health indexed_db_ops health_quote health_ready))) \<noteq> []
   \<and> (\<exists>plan. map_of (fw_plans health_ready) health_quote = Some plan \<and> source_held sample_health plan ())"
proof -
  let ?run = "submitHealth sample_health indexed_db_ops health_quote health_ready"
  have sent: "w_sent (fw_manager (snd ?run)) \<noteq> []" and none: "w_sent (fw_manager health_ready) = []" by code_simp+
  then have grown: "w_sent (fw_manager (snd ?run)) \<noteq> w_sent (fw_manager health_ready)" by simp
  have run: "?run = (fst ?run, snd ?run)" by simp
  from health_sent_for_planned_host [OF run grown] obtain plan r0 where
    "map_of (fw_plans health_ready) health_quote = Some plan" "source_held sample_health plan r0" by auto
  then show ?thesis using sent by (cases r0) auto
qed

text \<open>The Coordinator of this sample never answers; the second attempt to send is refused.\<close>

theorem one_delivery_per_command_witness:
  "hw_sends (foldl (health_step 1 sample_health indexed_db_ops) \<lparr>hw_flow = health_start, hw_delivered = [], hw_sends = []\<rparr>
     [Op_send sample_command, Op_send sample_command]) = [''uuid'']"
proof -
  let ?w = "\<lparr>hw_flow = health_start, hw_delivered = [], hw_sends = []\<rparr>" and ?ops = "[Op_send sample_command, Op_send sample_command]"
  let ?run = "foldl (health_step 1 sample_health indexed_db_ops) ?w ?ops"
  have command: "sc_command_id sample_command = ''uuid''" by (simp add: sample_command_def)
  have "set (hw_sends ?run) = {''uuid''}"
    by (simp add: sendH_def sendStart_def sendFinish_def eff_run flowH_def outsideE_def healthSource_def sample_health_def sample_member_def
        sample_binding_def command)
  moreover have "distinct (hw_sends ?run)" by (rule one_delivery_per_command) simp_all
  ultimately show ?thesis by (rule only_element)
qed

end
