(* ===== verification/Direct_Approval.thy ===== *)
theory Direct_Approval
  imports Canonical_Json "HOL-Library.Product_Lexorder"
begin

text \<open>
  The queue of direct approvals, \<^verbatim>\<open>apps/fractalmind-app/src/direct-approval-queue.ts\<close>: reading the approvals of
  every managed agent with their messages and Runs, and the label of a row. Chain reads are fields of
  \<open>approval_env\<close>; u64 fields are integers, \<open>rest\<close> fields hold the members that the code only compares as
  part of a whole object.
\<close>

datatype queue_error = Invalid_approval_source | Approval_read_failed

record approval_agent =
  ag_id :: string
  ag_org_id :: string
  ag_host_address :: string
  ag_instance_id :: string
  ag_membership_id :: string
  ag_version :: int
  ag_revoked :: bool
  ag_control_confirmed :: bool

record standing_permission =
  sp_id :: string
  sp_org_id :: string
  sp_managed_agent :: string
  sp_managed_version :: int
  sp_membership_id :: string
  sp_version :: int
  sp_revoked :: bool
  sp_expires_at_ms :: int
  sp_rest :: json

record direct_message =
  dm_id :: string
  dm_org_id :: string
  dm_managed_agent :: string
  dm_managed_version :: int
  dm_permission_id :: string
  dm_permission_version :: int
  dm_membership_id :: string
  dm_writer_device :: string
  dm_human_id :: string
  dm_grant_id :: string
  dm_action :: string
  dm_budget_amount :: int
  dm_boundary_hash :: "int list"
  dm_created_at_ms :: int
  dm_expires_at_ms :: int

record direct_approval =
  da_id :: string
  da_org_id :: string
  da_managed_agent :: string
  da_managed_version :: int
  da_permission_id :: string
  da_permission_version :: int
  da_message_id :: string
  da_action :: string
  da_budget_amount :: int
  da_boundary_hash :: "int list"
  da_expires_at_ms :: int
  da_state :: int
  da_rest :: json

record command_run =
  cx_id :: string
  cx_org_id :: string
  cx_managed_agent :: "string option"
  cx_host_address :: string
  cx_node_id :: string
  cx_agent_id :: string
  cx_membership_id :: string
  cx_delegate :: string
  cx_human_id :: string
  cx_grant_id :: string
  cx_capability_id :: string
  cx_action :: string
  cx_scope :: string
  cx_budget_amount :: int
  cx_budget_asset :: string
  cx_state :: int
  cx_result_record :: "string option"
  cx_result_hash :: "int list"
  cx_rest :: json

record direct_claim =
  dc_message_id :: string
  dc_capability_id :: string
  dc_approval_id :: "string option"
  dc_permission_version :: int

text \<open>The Run of a row: not read, read, or unavailable.\<close>

datatype run_read = Run_value "command_run option" | Run_unavailable

record approval_row =
  aw_managed :: approval_agent
  aw_permission :: standing_permission
  aw_message :: direct_message
  aw_approval :: direct_approval
  aw_executionId :: "string option"
  aw_run :: run_read

record approval_queue =
  aq_rows :: "approval_row list"
  aq_unavailableAgents :: "string list"
  aq_loadedAtMs :: int

record 'r approval_env =
  av_checkNetwork :: "('r, queue_error, unit) eff"
  av_findPermission :: "string \<Rightarrow> string \<Rightarrow> ('r, queue_error, standing_permission option) eff"
  av_listMessages :: "string \<Rightarrow> ('r, queue_error, direct_message list) eff"
  av_getMessageLinks :: "string \<Rightarrow> ('r, queue_error, direct_approval option \<times> string option) eff"
  av_getApproval :: "string \<Rightarrow> ('r, queue_error, direct_approval) eff"
  av_getExecution :: "string \<Rightarrow> ('r, queue_error, command_run) eff"
  av_getClaim :: "string \<Rightarrow> string \<Rightarrow> ('r, queue_error, direct_claim) eff"
  av_now :: "'r \<Rightarrow> int \<times> 'r"

section \<open>Pins\<close>

definition permission_json :: "standing_permission \<Rightarrow> json" where
  "permission_json p = JObject [(''id'', JString (sp_id p)), (''org_id'', JString (sp_org_id p)), (''managed_agent'', JString (sp_managed_agent p)),
     (''managed_version'', ju64 (sp_managed_version p)), (''membership_id'', JString (sp_membership_id p)), (''version'', ju64 (sp_version p)),
     (''revoked'', JBool (sp_revoked p)), (''expires_at_ms'', ju64 (sp_expires_at_ms p)), (''rest'', sp_rest p)]"

definition approval_json :: "direct_approval \<Rightarrow> json" where
  "approval_json a = JObject [(''id'', JString (da_id a)), (''org_id'', JString (da_org_id a)), (''permission_id'', JString (da_permission_id a)),
     (''permission_version'', ju64 (da_permission_version a)), (''message_id'', JString (da_message_id a)),
     (''managed_agent'', JString (da_managed_agent a)), (''managed_version'', ju64 (da_managed_version a)), (''action'', JString (da_action a)),
     (''boundary_hash'', jbytes (da_boundary_hash a)), (''budget_amount'', ju64 (da_budget_amount a)),
     (''expires_at_ms'', ju64 (da_expires_at_ms a)), (''state'', JNumber (da_state a)), (''rest'', da_rest a)]"

definition run_json :: "command_run \<Rightarrow> json" where
  "run_json x = JObject [(''id'', JString (cx_id x)), (''org_id'', JString (cx_org_id x)), (''managed_agent'', jopt JString (cx_managed_agent x)),
     (''host_address'', JString (cx_host_address x)), (''node_id'', JString (cx_node_id x)), (''agent_id'', JString (cx_agent_id x)),
     (''membership_id'', JString (cx_membership_id x)), (''delegate'', JString (cx_delegate x)), (''human_id'', JString (cx_human_id x)),
     (''grant_id'', JString (cx_grant_id x)), (''capability_id'', JString (cx_capability_id x)), (''action'', JString (cx_action x)),
     (''scope'', JString (cx_scope x)), (''budget_amount'', ju64 (cx_budget_amount x)), (''budget_asset'', JString (cx_budget_asset x)),
     (''state'', JNumber (cx_state x)), (''result_record'', jopt JString (cx_result_record x)), (''result_hash'', jbytes (cx_result_hash x)),
     (''rest'', cx_rest x)]"

definition pinned :: "json \<Rightarrow> json \<Rightarrow> bool" where
  "pinned a b \<longleftrightarrow> stringify a = stringify b"

section \<open>Reading the queue\<close>

definition approval_matches :: "string \<Rightarrow> approval_agent \<Rightarrow> standing_permission \<Rightarrow> direct_message \<Rightarrow> direct_approval \<Rightarrow> bool" where
  "approval_matches org managed permission message approval \<longleftrightarrow>
     da_org_id approval = org \<and> da_managed_agent approval = ag_id managed \<and> da_permission_id approval = sp_id permission
     \<and> da_message_id approval = dm_id message \<and> da_permission_version approval = dm_permission_version message
     \<and> da_managed_version approval = dm_managed_version message \<and> da_action approval = dm_action message
     \<and> da_budget_amount approval = dm_budget_amount message
     \<and> pinned (jbytes (da_boundary_hash approval)) (jbytes (dm_boundary_hash message))"

definition no_record :: "string option \<Rightarrow> bool" where
  "no_record r \<longleftrightarrow> r = None \<or> r = Some []"

definition run_matches :: "string \<Rightarrow> approval_agent \<Rightarrow> direct_message \<Rightarrow> direct_approval \<Rightarrow> string \<Rightarrow> command_run \<Rightarrow> direct_claim \<Rightarrow> bool" where
  "run_matches org managed message approval executionId value claim \<longleftrightarrow>
     cx_id value = executionId \<and> cx_org_id value = org \<and> cx_managed_agent value = Some (ag_id managed)
     \<and> cx_host_address value = ag_host_address managed \<and> cx_node_id value = ag_host_address managed \<and> cx_agent_id value = ag_instance_id managed
     \<and> cx_membership_id value = dm_membership_id message \<and> cx_delegate value = dm_writer_device message
     \<and> cx_human_id value = dm_human_id message \<and> cx_grant_id value = dm_grant_id message
     \<and> cx_action value = ''direct.message'' \<and> cx_scope value = ''direct'' \<and> cx_budget_amount value = dm_budget_amount message
     \<and> cx_budget_asset value = (if dm_budget_amount message = 0 then [] else ''TOOL_CALLS'')
     \<and> 0 \<le> cx_state value \<and> cx_state value \<le> 5
     \<and> \<not> (cx_state value \<in> {2, 3, 4} \<and> no_record (cx_result_record value))
     \<and> \<not> (cx_result_record value \<noteq> None \<and> (cx_state value < 2 \<or> length (cx_result_hash value) \<noteq> 32))
     \<and> dc_message_id claim = dm_id message \<and> dc_capability_id claim = cx_capability_id value \<and> dc_approval_id claim = Some (da_id approval)
     \<and> dc_permission_version claim = dm_permission_version message"

definition read_run :: "'r approval_env \<Rightarrow> string \<Rightarrow> approval_agent \<Rightarrow> standing_permission \<Rightarrow> direct_message \<Rightarrow> direct_approval \<Rightarrow> string
    \<Rightarrow> ('r, queue_error, run_read) eff" where
  "read_run E org managed permission message approval executionId =
     catchE
       (bindE (av_getExecution E executionId) (\<lambda>value.
        bindE (av_getClaim E (sp_id permission) executionId) (\<lambda>claim.
        bindE (assertE (run_matches org managed message approval executionId value claim) Invalid_approval_source) (\<lambda>_.
        bindE (av_getExecution E executionId) (\<lambda>again.
        bindE (assertE (pinned (run_json value) (run_json again)) Invalid_approval_source) (\<lambda>_.
        okE (Run_value (Some value))))))))
       (\<lambda>_. okE Run_unavailable)"

text \<open>One message: no row without an approval.\<close>

definition read_message :: "'r approval_env \<Rightarrow> string \<Rightarrow> approval_agent \<Rightarrow> standing_permission \<Rightarrow> direct_message
    \<Rightarrow> ('r, queue_error, approval_row option) eff" where
  "read_message E org managed permission message =
     bindE (assertE (dm_org_id message = org \<and> dm_managed_agent message = ag_id managed \<and> dm_permission_id message = sp_id permission)
              Invalid_approval_source) (\<lambda>_.
     bindE (av_getMessageLinks E (dm_id message)) (\<lambda>(linked, executionId).
     case linked of None \<Rightarrow> okE None
     | Some approval \<Rightarrow>
         bindE (assertE (approval_matches org managed permission message approval) Invalid_approval_source) (\<lambda>_.
         bindE (case executionId of None \<Rightarrow> okE (Run_value None)
                | Some i \<Rightarrow> if i = [] then okE (Run_value None) else read_run E org managed permission message approval i) (\<lambda>run.
         bindE (av_getApproval E (da_id approval)) (\<lambda>again.
         bindE (assertE (pinned (approval_json approval) (approval_json again)) Invalid_approval_source) (\<lambda>_.
         okE (Some \<lparr>aw_managed = managed, aw_permission = permission, aw_message = message, aw_approval = approval,
                    aw_executionId = executionId, aw_run = run\<rparr>)))))))"

fun read_messages :: "'r approval_env \<Rightarrow> string \<Rightarrow> approval_agent \<Rightarrow> standing_permission \<Rightarrow> direct_message list
    \<Rightarrow> ('r, queue_error, approval_row list) eff" where
  "read_messages E org managed permission [] = okE []"
| "read_messages E org managed permission (m # ms) =
     bindE (read_message E org managed permission m) (\<lambda>row.
     bindE (read_messages E org managed permission ms) (\<lambda>rows.
     okE (case row of None \<Rightarrow> rows | Some r \<Rightarrow> r # rows)))"

text \<open>One agent: its rows, or \<open>None\<close> when it could not be read as a whole.\<close>

definition read_agent :: "'r approval_env \<Rightarrow> string \<Rightarrow> approval_agent \<Rightarrow> ('r, queue_error, approval_row list option) eff" where
  "read_agent E org managed =
     catchE
       (bindE (av_findPermission E org (ag_id managed)) (\<lambda>found.
        case found of None \<Rightarrow> okE (Some [])
        | Some permission \<Rightarrow>
            bindE (assertE (sp_org_id permission = org \<and> sp_managed_agent permission = ag_id managed) Invalid_approval_source) (\<lambda>_.
            bindE (av_listMessages E (sp_id permission)) (\<lambda>messages.
            bindE (read_messages E org managed permission messages) (\<lambda>current.
            bindE (av_findPermission E org (ag_id managed)) (\<lambda>again.
            bindE (assertE (pinned (permission_json permission) (jopt permission_json again)) Invalid_approval_source) (\<lambda>_.
            okE (Some current))))))))
       (\<lambda>_. okE None)"

fun read_agents :: "'r approval_env \<Rightarrow> string \<Rightarrow> string list \<Rightarrow> approval_agent list
    \<Rightarrow> ('r, queue_error, approval_row list \<times> string list) eff" where
  "read_agents E org seen [] = okE ([], [])"
| "read_agents E org seen (managed # agents) =
     bindE (assertE (ag_org_id managed = org \<and> ag_id managed \<notin> set seen) Invalid_approval_source) (\<lambda>_.
     bindE (read_agent E org managed) (\<lambda>current.
     bindE (read_agents E org (ag_id managed # seen) agents) (\<lambda>(rows, unavailable).
     okE (case current of None \<Rightarrow> (rows, ag_id managed # unavailable) | Some c \<Rightarrow> (c @ rows, unavailable)))))"

text \<open>Newest first, then by id; \<^verbatim>\<open>localeCompare\<close> on object ids is the order of their lower-case hexadecimal texts.\<close>

definition queue_key :: "approval_row \<Rightarrow> int \<times> string" where
  "queue_key row = (- dm_created_at_ms (aw_message row), dm_id (aw_message row))"

definition readDirectApprovalQueue :: "'r approval_env \<Rightarrow> string \<Rightarrow> approval_agent list \<Rightarrow> ('r, queue_error, approval_queue) eff" where
  "readDirectApprovalQueue E org agents =
     bindE (av_checkNetwork E) (\<lambda>_.
     bindE (read_agents E org [] agents) (\<lambda>(rows, unavailable).
     bindE (av_checkNetwork E) (\<lambda>_.
     bindE (\<lambda>r. case av_now E r of (t, r') \<Rightarrow> (Inr t, r')) (\<lambda>now.
     okE \<lparr>aq_rows = sort_key queue_key rows, aq_unavailableAgents = unavailable, aq_loadedAtMs = now\<rparr>))))"

section \<open>Labels\<close>

datatype approval_status = Rejected | Consumed | Reconcile | Superseded | Expired | Pending_approval | Approved

definition directApprovalStatus :: "approval_row \<Rightarrow> int \<Rightarrow> approval_status" where
  "directApprovalStatus row now =
    (if da_state (aw_approval row) = 2 then Rejected
     else if da_state (aw_approval row) = 3 then Consumed
     else if \<not> no_record (aw_executionId row) \<or> aw_run row = Run_unavailable then Reconcile
     else if sp_revoked (aw_permission row) \<or> ag_revoked (aw_managed row) \<or> \<not> ag_control_confirmed (aw_managed row)
        \<or> sp_version (aw_permission row) \<noteq> dm_permission_version (aw_message row)
        \<or> ag_version (aw_managed row) \<noteq> dm_managed_version (aw_message row)
        \<or> sp_managed_version (aw_permission row) \<noteq> ag_version (aw_managed row)
        \<or> sp_membership_id (aw_permission row) \<noteq> ag_membership_id (aw_managed row) then Superseded
     else if list_ex (\<lambda>ms. ms \<le> now) [sp_expires_at_ms (aw_permission row), dm_expires_at_ms (aw_message row), da_expires_at_ms (aw_approval row)]
     then Expired
     else if da_state (aw_approval row) = 0 then Pending_approval else Approved)"

definition directApprovalNeedsAttention :: "approval_row \<Rightarrow> int \<Rightarrow> bool" where
  "directApprovalNeedsAttention row now \<longleftrightarrow>
     directApprovalStatus row now \<in> {Pending_approval, Approved, Reconcile} \<or> aw_run row = Run_unavailable
     \<or> (case aw_run row of Run_value (Some run) \<Rightarrow> cx_state run \<in> {0, 1, 3, 4} | _ \<Rightarrow> False)"

section \<open>What a row rests on\<close>

lemma pinned_iff: "pinned a b \<longleftrightarrow> a = b"
  by (simp add: pinned_def stringify_inj)

definition run_sound :: "'r approval_env \<Rightarrow> string \<Rightarrow> approval_row \<Rightarrow> bool" where
  "run_sound E org row \<longleftrightarrow> (case aw_run row of
     Run_value (Some value) \<Rightarrow> (\<exists>i claim. aw_executionId row = Some i \<and> i \<noteq> []
        \<and> run_matches org (aw_managed row) (aw_message row) (aw_approval row) i value claim)
   | Run_value None \<Rightarrow> no_record (aw_executionId row)
   | Run_unavailable \<Rightarrow> \<not> no_record (aw_executionId row))"

definition row_sound :: "'r approval_env \<Rightarrow> string \<Rightarrow> approval_row \<Rightarrow> bool" where
  "row_sound E org row \<longleftrightarrow>
     sp_org_id (aw_permission row) = org \<and> sp_managed_agent (aw_permission row) = ag_id (aw_managed row)
     \<and> dm_org_id (aw_message row) = org \<and> dm_managed_agent (aw_message row) = ag_id (aw_managed row)
     \<and> dm_permission_id (aw_message row) = sp_id (aw_permission row)
     \<and> approval_matches org (aw_managed row) (aw_permission row) (aw_message row) (aw_approval row) \<and> run_sound E org row
     \<and> (\<exists>r r' again. av_getApproval E (da_id (aw_approval row)) r = (Inr again, r') \<and> approval_json again = approval_json (aw_approval row))
     \<and> (\<exists>r r' again. av_findPermission E org (ag_id (aw_managed row)) r = (Inr (Some again), r')
          \<and> permission_json again = permission_json (aw_permission row))"

lemma catchE_okE:
  assumes "catchE m k r = (Inr x, r')"
  obtains "m r = (Inr x, r')" | e r1 where "m r = (Inl e, r1)" "k e r1 = (Inr x, r')"
  using assms by (auto simp: eff_elims)

lemma read_run_value:
  assumes "read_run E org managed permission message approval i r = (Inr x, r')"
  shows "x = Run_unavailable \<or> (\<exists>value claim. x = Run_value (Some value) \<and> run_matches org managed message approval i value claim)"
  using assms unfolding read_run_def
  by (auto simp: eff_oks elim!: catchE_okE bindE_okE)

lemma read_message_row:
  assumes "read_message E org managed permission message r = (Inr (Some row), r')"
  shows "aw_managed row = managed \<and> aw_permission row = permission \<and> aw_message row = message \<and> dm_org_id message = org
    \<and> dm_managed_agent message = ag_id managed \<and> dm_permission_id message = sp_id permission
    \<and> approval_matches org managed permission message (aw_approval row) \<and> run_sound E org row
    \<and> (\<exists>r r' again. av_getApproval E (da_id (aw_approval row)) r = (Inr again, r') \<and> approval_json again = approval_json (aw_approval row))"
  using assms unfolding read_message_def run_sound_def
  by (auto simp: eff_oks pinned_iff no_record_def elim!: bindE_okE dest!: read_run_value split: option.splits if_split_asm) metis+

lemma read_messages_rows:
  assumes "read_messages E org managed permission ms r = (Inr rows, r')" "row \<in> set rows"
  shows "\<exists>m r1 r2. read_message E org managed permission m r1 = (Inr (Some row), r2)"
  using assms
proof (induction ms arbitrary: r rows)
  case (Cons m ms)
  then show ?case by (auto simp: eff_oks elim!: bindE_okE split: option.splits) blast+
qed (simp add: eff_oks)

lemma read_agent_rows:
  assumes "read_agent E org managed r = (Inr (Some rows), r')" "row \<in> set rows"
  shows "aw_managed row = managed \<and> row_sound E org row"
proof -
  from assms obtain permission ms r1 r2 r3 r4 again where permission: "sp_org_id permission = org" "sp_managed_agent permission = ag_id managed"
      and messages: "read_messages E org managed permission ms r1 = (Inr rows, r2)" and again: "av_findPermission E org (ag_id managed) r3 = (Inr again, r4)"
      "permission_json permission = jopt permission_json again"
    unfolding read_agent_def by (auto simp: eff_oks pinned_iff elim!: catchE_okE bindE_okE split: option.splits)
  then obtain p' where p': "again = Some p'" by (cases again) (simp_all add: permission_json_def jopt_def)
  from read_messages_rows [OF messages assms(2)] obtain m r5 r6 where "read_message E org managed permission m r5 = (Inr (Some row), r6)" by blast
  from read_message_row [OF this] show ?thesis
    using permission again p' unfolding row_sound_def by (auto simp: jopt_def)
qed

lemma read_agents_rows:
  assumes "read_agents E org seen agents r = (Inr (rows, unavailable), r')"
  shows "(\<forall>row \<in> set rows. aw_managed row \<in> set agents \<and> row_sound E org row \<and> ag_id (aw_managed row) \<notin> set unavailable)
    \<and> set unavailable \<subseteq> ag_id ` set agents \<and> distinct (map ag_id agents) \<and> (\<forall>a \<in> set agents. ag_org_id a = org \<and> ag_id a \<notin> set seen)"
  using assms
proof (induction agents arbitrary: seen r rows unavailable r')
  case (Cons managed agents)
  from Cons.prems obtain current rows1 un1 r1 r2 where head: "ag_org_id managed = org" "ag_id managed \<notin> set seen"
    and current: "read_agent E org managed r = (Inr current, r1)"
    and rest: "read_agents E org (ag_id managed # seen) agents r1 = (Inr (rows1, un1), r2)"
    and result: "(rows, unavailable) = (case current of None \<Rightarrow> (rows1, ag_id managed # un1) | Some c \<Rightarrow> (c @ rows1, un1))"
    by (auto simp: eff_oks elim!: bindE_okE)
  have IH: "\<forall>row \<in> set rows1. aw_managed row \<in> set agents \<and> row_sound E org row \<and> ag_id (aw_managed row) \<notin> set un1"
    "set un1 \<subseteq> ag_id ` set agents" "distinct (map ag_id agents)" "\<forall>a \<in> set agents. ag_org_id a = org \<and> ag_id a \<noteq> ag_id managed \<and> ag_id a \<notin> set seen"
    using Cons.IH [OF rest] by auto
  have fresh: "ag_id managed \<notin> ag_id ` set agents" using IH(4) by auto
  show ?case
  proof (cases current)
    case None
    then show ?thesis using result IH head fresh by auto
  next
    case (Some c)
    have "aw_managed row = managed \<and> row_sound E org row" if "row \<in> set c" for row
      using read_agent_rows [OF current [unfolded Some] that] .
    then show ?thesis using result Some IH head fresh by auto
  qed
qed (simp add: eff_oks)

lemma status_waiting:
  assumes "directApprovalStatus row now \<in> {Pending_approval, Approved}"
  shows "da_state (aw_approval row) \<notin> {2, 3}" "no_record (aw_executionId row)" "aw_run row \<noteq> Run_unavailable"
    "sp_version (aw_permission row) = dm_permission_version (aw_message row)" "ag_version (aw_managed row) = dm_managed_version (aw_message row)"
    "\<not> sp_revoked (aw_permission row)" "\<not> ag_revoked (aw_managed row)" "ag_control_confirmed (aw_managed row)"
    "now < sp_expires_at_ms (aw_permission row)" "now < dm_expires_at_ms (aw_message row)" "now < da_expires_at_ms (aw_approval row)"
    "da_state (aw_approval row) = 0 \<longleftrightarrow> directApprovalStatus row now = Pending_approval"
  using assms by (simp_all add: directApprovalStatus_def not_le split: if_split_asm)

lemma run_absent: "run_sound E org row \<Longrightarrow> no_record (aw_executionId row) \<Longrightarrow> aw_run row = Run_value None"
  by (auto simp: run_sound_def no_record_def split: run_read.split_asm option.split_asm)

section \<open>Properties\<close>

text \<open>
  The queue holds only rows that were read whole: if reading returns, the agents are distinct and of the
  organization; every row belongs to a listed agent that is not reported unavailable; its permission,
  message and approval name each other, the approval has the action, budget, boundary and versions of its
  message; a Run shown in it is the one claimed for that message and approval, on that agent, with a result
  exactly when it is finished; approval and permission were read a second time unchanged; and rows come
  newest first.
\<close>

theorem approval_queue_sound:
  assumes "readDirectApprovalQueue E org agents r = (Inr q, r')"
  shows "(\<forall>row \<in> set (aq_rows q). aw_managed row \<in> set agents \<and> row_sound E org row \<and> ag_id (aw_managed row) \<notin> set (aq_unavailableAgents q))
    \<and> set (aq_unavailableAgents q) \<subseteq> ag_id ` set agents \<and> distinct (map ag_id agents) \<and> (\<forall>a \<in> set agents. ag_org_id a = org)
    \<and> sorted (map queue_key (aq_rows q))"
proof -
  from assms obtain rows unavailable r1 r2 where read: "read_agents E org [] agents r1 = (Inr (rows, unavailable), r2)"
    and q: "aq_rows q = sort_key queue_key rows" "aq_unavailableAgents q = unavailable"
    unfolding readDirectApprovalQueue_def by (auto simp: eff_oks elim!: bindE_okE)
  from read_agents_rows [OF read] q show ?thesis by auto
qed

text \<open>
  A row shown as waiting for a decision is still decidable: a row of a read queue labelled pending or
  approved has an approval that is neither rejected nor consumed and for which no Run exists, made for the
  current version of a permission and of an agent that are not revoked, and neither permission, message nor
  approval has expired.
\<close>

theorem pending_row_is_current:
  assumes "readDirectApprovalQueue E org agents r = (Inr q, r')" "row \<in> set (aq_rows q)"
    and "directApprovalStatus row now \<in> {Pending_approval, Approved}"
  shows "da_state (aw_approval row) \<notin> {2, 3} \<and> aw_run row = Run_value None
    \<and> da_permission_version (aw_approval row) = sp_version (aw_permission row) \<and> da_managed_version (aw_approval row) = ag_version (aw_managed row)
    \<and> \<not> sp_revoked (aw_permission row) \<and> \<not> ag_revoked (aw_managed row) \<and> ag_control_confirmed (aw_managed row)
    \<and> now < sp_expires_at_ms (aw_permission row) \<and> now < dm_expires_at_ms (aw_message row) \<and> now < da_expires_at_ms (aw_approval row)
    \<and> (da_state (aw_approval row) = 0 \<longleftrightarrow> directApprovalStatus row now = Pending_approval)"
proof -
  from assms(1) obtain rows unavailable r1 r2 where read: "read_agents E org [] agents r1 = (Inr (rows, unavailable), r2)" and row: "row \<in> set rows"
    using assms(2) unfolding readDirectApprovalQueue_def by (auto simp: eff_oks elim!: bindE_okE)
  have "row_sound E org row" using read_agents_rows [OF read] row by blast
  then have "run_sound E org row" "approval_matches org (aw_managed row) (aw_permission row) (aw_message row) (aw_approval row)"
    by (simp_all add: row_sound_def)
  then have "aw_run row = Run_value None" and matches: "da_permission_version (aw_approval row) = dm_permission_version (aw_message row)"
      "da_managed_version (aw_approval row) = dm_managed_version (aw_message row)"
    using run_absent [OF \<open>run_sound E org row\<close> status_waiting(2) [OF assms(3)]] by (simp_all only: approval_matches_def)
  with status_waiting [OF assms(3)] show ?thesis by simp
qed

section \<open>A sample queue\<close>

definition sample_agent :: approval_agent where
  "sample_agent = \<lparr>ag_id = ''a'', ag_org_id = ''org'', ag_host_address = ''h'', ag_instance_id = ''i'', ag_membership_id = ''m'', ag_version = 1,
     ag_revoked = False, ag_control_confirmed = True\<rparr>"

definition sample_permission :: standing_permission where
  "sample_permission = \<lparr>sp_id = ''p'', sp_org_id = ''org'', sp_managed_agent = ''a'', sp_managed_version = 1, sp_membership_id = ''m'',
     sp_version = 2, sp_revoked = False, sp_expires_at_ms = 90, sp_rest = JNull\<rparr>"

definition sample_message :: direct_message where
  "sample_message = \<lparr>dm_id = ''x'', dm_org_id = ''org'', dm_managed_agent = ''a'', dm_managed_version = 1, dm_permission_id = ''p'',
     dm_permission_version = 2, dm_membership_id = ''m'', dm_writer_device = ''d'', dm_human_id = ''u'', dm_grant_id = ''g'', dm_action = ''file.write'',
     dm_budget_amount = 1, dm_boundary_hash = [7], dm_created_at_ms = 3, dm_expires_at_ms = 80\<rparr>"

definition sample_approval :: direct_approval where
  "sample_approval = \<lparr>da_id = ''y'', da_org_id = ''org'', da_managed_agent = ''a'', da_managed_version = 1, da_permission_id = ''p'',
     da_permission_version = 2, da_message_id = ''x'', da_action = ''file.write'', da_budget_amount = 1, da_boundary_hash = [7],
     da_expires_at_ms = 70, da_state = 0, da_rest = JNull\<rparr>"

definition sample_approvals :: "unit approval_env" where
  "sample_approvals = \<lparr>av_checkNetwork = okE (), av_findPermission = (\<lambda>_ _. okE (Some sample_permission)), av_listMessages = (\<lambda>_. okE [sample_message]),
     av_getMessageLinks = (\<lambda>_. okE (Some sample_approval, None)), av_getApproval = (\<lambda>_. okE sample_approval),
     av_getExecution = (\<lambda>_. throwE Approval_read_failed), av_getClaim = (\<lambda>_ _. throwE Approval_read_failed), av_now = (\<lambda>r. (5, r))\<rparr>"

definition sample_row :: approval_row where
  "sample_row = \<lparr>aw_managed = sample_agent, aw_permission = sample_permission, aw_message = sample_message, aw_approval = sample_approval,
     aw_executionId = None, aw_run = Run_value None\<rparr>"

lemma sample_queue_read: "readDirectApprovalQueue sample_approvals ''org'' [sample_agent] ()
  = (Inr \<lparr>aq_rows = [sample_row], aq_unavailableAgents = [], aq_loadedAtMs = 5\<rparr>, ())"
  by (simp add: readDirectApprovalQueue_def read_agent_def read_message_def approval_matches_def pinned_def jopt_def sample_approvals_def sample_agent_def
      sample_permission_def sample_message_def sample_approval_def sample_row_def eff_run del: stringify.simps)

theorem approval_queue_sound_witness: "row_sound sample_approvals ''org'' sample_row \<and> aw_managed sample_row \<in> {sample_agent}"
  using approval_queue_sound [OF sample_queue_read] by simp

theorem pending_row_is_current_witness:
  "directApprovalStatus sample_row 6 = Pending_approval \<and> da_permission_version (aw_approval sample_row) = sp_version (aw_permission sample_row)"
proof -
  have status: "directApprovalStatus sample_row 6 = Pending_approval"
    by (simp add: directApprovalStatus_def sample_row_def sample_agent_def sample_permission_def sample_message_def sample_approval_def no_record_def)
  from pending_row_is_current [OF sample_queue_read, of sample_row 6] status show ?thesis by simp
qed

end
