(* ===== verification/Okr_Runner.thy ===== *)
theory Okr_Runner
  imports Node_Command Okr_Autonomy
begin

text \<open>
  The OKR runner, \<^verbatim>\<open>NativeFileOkrRunner\<close> of \<^verbatim>\<open>sdk/src/okr-runner.ts\<close>: one step reads the objective, and if its
  current key result has no ticket yet prepares one (a signed command saved with its Run in one transaction),
  then follows the Run and releases the command to the host. Chain reads, the crypto provider, the
  submission and the delivery are fields of \<open>runner_env\<close>. The world keeps the object's
  \<^verbatim>\<open>unknownSubmissions\<close> and two logs that no operation reads: what was submitted and what was delivered.
\<close>

section \<open>Data\<close>

datatype runner_failure =
    Runner_outside | Organization_mismatch | Directory_changed | Missing_record_index | Cross_organization | Bad_plan | Bad_ticket
  | No_assignment | Not_atomic | Run_differs | Plan_review_changed | Runner_command command_error | Runner_pages

record runner_metric =
  mt_baseline :: int
  mt_target :: int
  mt_weight :: int
  mt_current :: "int option"
  mt_run_id :: "string option"
  mt_evidence_id :: "string option"
  mt_sampled_at_ms :: int
  mt_max_age_ms :: int

record runner_okr =
  rk_id :: string
  rk_org_id :: string
  rk_logical_id :: string
  rk_state :: int
  rk_version :: int
  rk_agreement_version :: int
  rk_agreement_record :: "string option"
  rk_spec_record :: string
  rk_spec_revision :: int
  rk_priority :: int
  rk_deadline_ms :: int
  rk_next_kr :: int
  rk_metrics :: "runner_metric list"
  rk_managed_agent :: "string option"
  rk_managed_version :: int
  rk_membership_id :: "string option"
  rk_membership_version :: int
  rk_workspace_hash :: "int list"
  rk_boundary_hash :: "int list"
  rk_budget_asset :: string
  rk_budget_limit :: int
  rk_expires_at_ms :: int
  rk_rest :: json

record runner_managed = managed_facts +
  rm_instance_id :: string

record runner_capability =
  rc_objectId :: string
  rc_type :: string
  rc_delegate :: string
  rc_revoked :: bool
  rc_orgId :: string
  rc_agentId :: string
  rc_nodeId :: string
  rc_scope :: string
  rc_actions :: "string list"
  rc_maxUses :: int
  rc_usesClaimed :: int
  rc_usesDelegated :: int
  rc_budgetAsset :: string
  rc_maxBudget :: int
  rc_budgetClaimed :: int
  rc_budgetDelegated :: int
  rc_expiresAtMs :: int
  rc_revocationVersion :: int

record authority_binding =
  ab_human_id :: string
  ab_device_grant :: string
  ab_membership_id :: string
  ab_membership_version :: int
  ab_managed_agent :: "string option"
  ab_managed_agent_version :: int

record capability_contract =
  cc_contract_id :: string
  cc_agreement_version :: int
  cc_boundary_hash :: "int list"

record okr_budget =
  bu_spent :: int
  bu_reserved :: int

record handover_policy =
  py_agreement_version :: int
  py_managed_version :: int
  py_max_calls :: int
  py_nonce :: "int list"
  py_proposal_hash :: "int list"
  py_approval_id :: string

record runner_run =
  xr_id :: string
  xr_org_id :: string
  xr_capability_id :: string
  xr_intent_hash :: "int list"
  xr_command_id :: string
  xr_delegate :: string
  xr_node_id :: string
  xr_agent_id :: string
  xr_managed_agent :: "string option"
  xr_membership_id :: "string option"
  xr_action :: string
  xr_scope :: string
  xr_nonce :: string
  xr_idempotency_key :: string
  xr_budget_asset :: string
  xr_budget_amount :: int
  xr_issued_at_ms :: int
  xr_expires_at_ms :: int
  xr_state :: int

record product_record =
  pc_organization_id :: string
  pc_kind :: int
  pc_logical_id :: string
  pc_revision :: int
  pc_key_version :: string

record ticket =
  tk_okrId :: string
  tk_specRecordId :: string
  tk_agreementRecordId :: string
  tk_command :: signed_command

record ticket_directory =
  td_keyVersion :: string
  td_ticketId :: "string option"

record record_page =
  rp_keyVersion :: string
  rp_rows :: "(int \<times> string \<times> string) list"
  rp_cursor :: "string option"

datatype submission_status = Sub_confirmed | Sub_rejected | Sub_unknown

record submission =
  sb_status :: submission_status
  sb_digest :: "string option"
  sb_reason :: "string option"

record runner_input =
  sx_okrId :: string
  sx_capabilityId :: string
  sx_createIfMissing :: bool
  sx_releaseQueued :: bool
  sx_prepareOnly :: bool
  sx_expectedExecutionId :: "string option"
  sx_expectedAgreementVersion :: "string option"
  sx_expectedKrIndex :: "string option"
  sx_scheduledKrIndex :: "string option"

record runner_report =
  rr_status :: runner_status
  rr_reason :: "string option"
  rr_okrId :: string
  rr_krIndex :: int
  rr_executionId :: "string option"
  rr_ticketRecordId :: "string option"
  rr_transactionDigest :: "string option"

record ('r, 't) runner_env =
  rn_organizationId :: string
  rn_humanId :: string
  rn_grantId :: string
  rn_typesPackageId :: string
  rn_normalize :: "string \<Rightarrow> string"
  rn_hash :: hash_env
  rn_keys :: key_env
  rn_signer :: "'r command_signer"
  rn_now :: "'r \<Rightarrow> int \<times> 'r"
  rn_dateNow :: "'r \<Rightarrow> int \<times> 'r"
  rn_pause :: "'r \<Rightarrow> 'r"
  rn_querySubmission :: "(string \<Rightarrow> ('r, unit, submission option) eff) option"
  rn_discoverTicket :: "(string \<Rightarrow> ('r, unit, ticket_directory) eff) option"
  rn_submit :: "'t \<Rightarrow> string \<Rightarrow> ('r, unit, submission) eff"
  rn_deliver :: "signed_command \<Rightarrow> ('r, unit, unit) eff"
  rn_getOkr :: "string \<Rightarrow> ('r, unit, runner_okr) eff"
  rn_listCurrent :: "string option \<Rightarrow> ('r, unit, record_page) eff"
  rn_getRecord :: "string \<Rightarrow> ('r, unit, product_record) eff"
  rn_decryptRecord :: "string \<Rightarrow> product_record \<Rightarrow> ('r, unit, string) eff"
  rn_listExecutions :: "string \<Rightarrow> string option \<Rightarrow> ('r, unit, runner_run list \<times> string option) eff"
  rn_getManagedAgent :: "string \<Rightarrow> ('r, unit, runner_managed) eff"
  rn_getMembership :: "string \<Rightarrow> ('r, unit, member_facts) eff"
  rn_getCapability :: "string \<Rightarrow> ('r, unit, runner_capability) eff"
  rn_getAuthorityBinding :: "string \<Rightarrow> ('r, unit, authority_binding) eff"
  rn_getContract :: "string \<Rightarrow> ('r, unit, capability_contract) eff"
  rn_getBudget :: "string \<Rightarrow> ('r, unit, okr_budget) eff"
  rn_getPolicy :: "string \<Rightarrow> ('r, unit, handover_policy) eff"
  rn_encrypt :: "string \<Rightarrow> string \<Rightarrow> string \<Rightarrow> ('r, unit, string) eff"
  rn_saveTicket :: "string \<Rightarrow> string \<Rightarrow> string \<Rightarrow> ('r, unit, 't) eff"
  rn_prepareCommand :: "signed_command \<Rightarrow> string \<Rightarrow> string \<Rightarrow> string \<Rightarrow> string \<Rightarrow> bool \<Rightarrow> 't \<Rightarrow> ('r, unit, 't) eff"

text \<open>\<open>rw_unknown\<close> maps a ticket name to the digest of its submission and whether it was confirmed.\<close>

record 'r rworld =
  rw_out :: 'r
  rw_unknown :: "(string \<times> string option \<times> bool) list"
  rw_submits :: "(string \<times> submission_status) list"
  rw_deliveries :: "signed_command list"

type_synonym ('r, 'a) runner = "('r rworld, runner_failure, 'a) eff"

section \<open>Awaits and early returns\<close>

definition awaitR :: "('r, unit, 'a) eff \<Rightarrow> ('r, 'a) runner" where
  "awaitR m = (\<lambda>w. case m (rw_out w) of (x, r) \<Rightarrow>
     ((case x of Inl _ \<Rightarrow> Inl Runner_outside | Inr a \<Rightarrow> Inr a), w\<lparr>rw_out := r\<rparr>))"

definition nowR :: "('r, 't) runner_env \<Rightarrow> ('r, int) runner" where
  "nowR E = (\<lambda>w. case rn_now E (rw_out w) of (t, r) \<Rightarrow> (Inr t, w\<lparr>rw_out := r\<rparr>))"

definition dateNowR :: "('r, 't) runner_env \<Rightarrow> ('r, int) runner" where
  "dateNowR E = (\<lambda>w. case rn_dateNow E (rw_out w) of (t, r) \<Rightarrow> (Inr t, w\<lparr>rw_out := r\<rparr>))"

text \<open>Continue, or return at once.\<close>

definition elseE :: "('w, 'e, 'x + 'a) eff \<Rightarrow> ('a \<Rightarrow> ('w, 'e, 'x + 'b) eff) \<Rightarrow> ('w, 'e, 'x + 'b) eff" where
  "elseE m f = bindE m (\<lambda>x. case x of Inl done \<Rightarrow> okE (Inl done) | Inr a \<Rightarrow> f a)"

definition whenE :: "bool \<Rightarrow> 'x \<Rightarrow> ('w, 'e, 'x + unit) eff" where
  "whenE c x = okE (if c then Inl x else Inr ())"

definition present :: "string option \<Rightarrow> bool" where
  "present x \<longleftrightarrow> x \<noteq> None \<and> x \<noteq> Some []"

definition bytes_hex :: "int list \<Rightarrow> string" where
  "bytes_hex bs = bytesToHex (map (\<lambda>b. char_of (nat b)) bs)"

section \<open>Reports and the lifecycle\<close>

definition report :: "runner_okr \<Rightarrow> runner_status \<Rightarrow> string option \<Rightarrow> runner_report" where
  "report okr status reason = \<lparr>rr_status = status, rr_reason = reason, rr_okrId = rk_id okr, rr_krIndex = rk_next_kr okr,
     rr_executionId = None, rr_ticketRecordId = None, rr_transactionDigest = None\<rparr>"

definition at_index :: "'a list \<Rightarrow> int \<Rightarrow> 'a option" where
  "at_index xs i = (if 0 \<le> i \<and> nat i < length xs then Some (xs ! nat i) else None)"

definition lifecycle :: "('r, 't) runner_env \<Rightarrow> runner_okr \<Rightarrow> ('r, runner_report option) runner" where
  "lifecycle E okr =
    (if rk_state okr = 3 then okE (Some (report okr Achieved None))
     else if rk_state okr \<noteq> 1 then okE (Some (report okr Paused (Some ''objective_not_active'')))
     else bindE (nowR E) (\<lambda>now.
       if rk_expires_at_ms okr \<le> now then okE (Some (report okr Paused (Some ''agreement_expired'')))
       else if rk_next_kr okr = int (length (rk_metrics okr)) then okE (Some (report okr Awaiting_acceptance None))
       else case at_index (rk_metrics okr) (rk_next_kr okr) of
         None \<Rightarrow> throwE Runner_outside
       | Some metric \<Rightarrow>
           (case mt_current metric of
              None \<Rightarrow> okE None
            | Some measured \<Rightarrow>
                if present (mt_run_id metric) \<and> present (mt_evidence_id metric)
                then bindE (nowR E) (\<lambda>now.
                  let fresh = mt_sampled_at_ms metric \<le> now \<and> now - mt_sampled_at_ms metric \<le> mt_max_age_ms metric;
                      reason = (if \<not> fresh then Some ''measurement_stale_or_future''
                                else if measured < mt_target metric then Some ''measurement_below_target'' else None) in
                  okE (Some ((report okr Awaiting_verification reason)\<lparr>rr_executionId := mt_run_id metric\<rparr>)))
                else okE None)))"

section \<open>Ticket directory\<close>

definition ticket_row :: "string \<Rightarrow> (int \<times> string \<times> string) \<Rightarrow> bool" where
  "ticket_row logicalId = (\<lambda>(kind, logical, _). kind = 5 \<and> logical = logicalId)"

text \<open>The rows of a page: at most one ticket over all pages.\<close>

definition page_ticket :: "string \<Rightarrow> string option \<Rightarrow> (int \<times> string \<times> string) list \<Rightarrow> (runner_failure, string option) result" where
  "page_ticket logicalId ticketId rows =
    (case filter (ticket_row logicalId) rows of
       [] \<Rightarrow> Inr ticketId
     | [(_, _, i)] \<Rightarrow> if ticketId = None then Inr (Some i) else Inl Directory_changed
     | _ \<Rightarrow> Inl Directory_changed)"

fun directory_pages :: "nat \<Rightarrow> ('r, 't) runner_env \<Rightarrow> string \<Rightarrow> string option \<Rightarrow> string list \<Rightarrow> string option \<Rightarrow> string option
    \<Rightarrow> ('r, ticket_directory) runner" where
  "directory_pages 0 E logicalId cursor seen keyVersion ticketId = throwE Runner_pages"
| "directory_pages (Suc fuel) E logicalId cursor seen keyVersion ticketId =
     bindE (awaitR (rn_listCurrent E cursor)) (\<lambda>page.
     bindE (assertE (\<not> present keyVersion \<or> keyVersion = Some (rp_keyVersion page)) Directory_changed) (\<lambda>_.
     bindE (liftR (page_ticket logicalId ticketId (rp_rows page))) (\<lambda>found.
     if \<not> present (rp_cursor page)
     then (if rp_keyVersion page = [] then throwE Missing_record_index
           else okE \<lparr>td_keyVersion = rp_keyVersion page, td_ticketId = found\<rparr>)
     else bindE (assertE (the (rp_cursor page) \<notin> set seen) Directory_changed) (\<lambda>_.
          directory_pages fuel E logicalId (rp_cursor page) (the (rp_cursor page) # seen) (Some (rp_keyVersion page)) found))))"

definition directoryR :: "nat \<Rightarrow> ('r, 't) runner_env \<Rightarrow> string \<Rightarrow> ('r, ticket_directory) runner" where
  "directoryR fuel E logicalId = (case rn_discoverTicket E of
     Some discover \<Rightarrow> awaitR (discover logicalId)
   | None \<Rightarrow> directory_pages fuel E logicalId None [] None None)"

text \<open>Waiting at most five seconds for a chain fact.\<close>

fun confirm_wait :: "nat \<Rightarrow> ('r, 't) runner_env \<Rightarrow> int \<Rightarrow> ('r, 'a) runner \<Rightarrow> ('a \<Rightarrow> bool) \<Rightarrow> 'a \<Rightarrow> ('r, 'a) runner" where
  "confirm_wait 0 E deadline read ok value = throwE Runner_pages"
| "confirm_wait (Suc fuel) E deadline read ok value =
    (if ok value then okE value
     else bindE (dateNowR E) (\<lambda>now.
       if now < deadline
       then bindE (modifyE (\<lambda>w. w\<lparr>rw_out := rn_pause E (rw_out w)\<rparr>)) (\<lambda>_.
            bindE read (\<lambda>value'. confirm_wait fuel E deadline read ok value'))
       else okE value))"

definition confirmRead :: "nat \<Rightarrow> ('r, 't) runner_env \<Rightarrow> ('r, 'a) runner \<Rightarrow> ('a \<Rightarrow> bool) \<Rightarrow> ('r, 'a) runner" where
  "confirmRead fuel E read ok =
     bindE (dateNowR E) (\<lambda>start.
     bindE read (\<lambda>value.
     confirm_wait fuel E (start + 5000) read ok value))"

section \<open>Records, the plan and the ticket\<close>

definition decryptR :: "('r, 't) runner_env \<Rightarrow> string \<Rightarrow> ('r, product_record \<times> string) runner" where
  "decryptR E recordId =
     bindE (awaitR (rn_getRecord E recordId)) (\<lambda>metadata.
     bindE (assertE (pc_organization_id metadata = rn_organizationId E) Cross_organization) (\<lambda>_.
     bindE (awaitR (rn_decryptRecord E recordId metadata)) (\<lambda>plaintext.
     okE (metadata, plaintext))))"

definition paths_json :: "(string \<times> string list) list \<Rightarrow> json" where
  "paths_json ps = JObject (map (\<lambda>(a, ds). (a, JArray (map JString ds))) ps)"

definition plan_hash :: "hash_env \<Rightarrow> okr_plan \<Rightarrow> string option" where
  "plan_hash H p = (case paths_json (op_paths p) of JObject ms \<Rightarrow> executionBoundaryHash H ms | _ \<Rightarrow> None)"

definition plan_measures :: "okr_plan \<Rightarrow> runner_metric list \<Rightarrow> bool" where
  "plan_measures p metrics \<longleftrightarrow> list_all2 (\<lambda>kr m. mt_baseline m = 0 \<and> mt_target m = int (length (kp_files kr))) (op_krs p) metrics"

definition planR :: "('r, 't) runner_env \<Rightarrow> runner_okr \<Rightarrow> ('r, okr_plan) runner" where
  "planR E okr =
    (if \<not> present (rk_agreement_record okr) then throwE Bad_plan
     else bindE (decryptR E (the (rk_agreement_record okr))) (\<lambda>(rec, plaintext).
       bindE (assertE (pc_kind rec = 2 \<and> pc_logical_id rec = ''okr-'' @ rk_logical_id okr @ ''-agreement'') Bad_plan) (\<lambda>_.
       case json_parse plaintext of None \<Rightarrow> throwE Bad_plan
       | Some v \<Rightarrow>
           (case field v ''nativeFilePlan'' of None \<Rightarrow> throwE Bad_plan
            | Some raw \<Rightarrow>
               (case parseNativeFileOkrPlan (rn_hash E) raw of None \<Rightarrow> throwE Bad_plan
                | Some plan \<Rightarrow>
                    bindE (assertE (length (op_krs plan) = length (rk_metrics okr)
                        \<and> map_option bytesToHex (plan_hash (rn_hash E) plan) = Some (bytes_hex (rk_boundary_hash okr))
                        \<and> rk_budget_asset okr = ''TOOL_CALLS'') Bad_plan) (\<lambda>_.
                    bindE (assertE (plan_measures plan (rk_metrics okr)) Bad_plan) (\<lambda>_.
                    okE plan)))))))"

definition describeR :: "('r, 't) runner_env \<Rightarrow> string \<Rightarrow> ('r, runner_okr \<times> okr_plan) runner" where
  "describeR E okrId =
     bindE (awaitR (rn_getOkr E (rn_normalize E okrId))) (\<lambda>okr.
     bindE (assertE (rk_org_id okr = rn_organizationId E) Organization_mismatch) (\<lambda>_.
     bindE (planR E okr) (\<lambda>plan.
     bindE (awaitR (rn_getOkr E (rk_id okr))) (\<lambda>again.
     bindE (assertE (again = okr) Plan_review_changed) (\<lambda>_.
     okE (okr, plan))))))"

text \<open>A signed command as JSON, and read back from a ticket; a field of another type makes the ticket unreadable.\<close>

definition command_json :: "signed_command \<Rightarrow> json" where
  "command_json c = JObject ([(''version'', JString (sc_version c)), (''command_id'', JString (sc_command_id c)), (''signer'', JString (sc_signer c)),
     (''target'', JObject ([(''organization_id'', JString (sc_organization_id c)), (''node_id'', JString (sc_node_id c))]
        @ (case sc_agent_id c of None \<Rightarrow> [] | Some a \<Rightarrow> [(''agent_id'', JString a)]))),
     (''action'', JString (sc_action c)), (''scope'', JString (sc_scope c)),
     (''capability'', JObject [(''id'', JString (sc_capability_id c)), (''revocation_version'', JString (sc_revocation_version c))]),
     (''nonce'', JString (sc_nonce c)), (''issued_at_ms'', JNumber (sc_issued_at_ms c)), (''expires_at_ms'', JNumber (sc_expires_at_ms c)),
     (''idempotency_key'', JString (sc_idempotency_key c))]
   @ (case sc_budget c of None \<Rightarrow> [] | Some (asset, amount) \<Rightarrow> [(''budget'', JObject [(''asset'', JString asset), (''amount'', JString amount)])])
   @ [(''payload_hash'', JString (sc_payload_hash c)), (''payload'', sc_payload c), (''signature'', JString (sc_signature c))])"

definition texts_present :: "json \<Rightarrow> string list \<Rightarrow> bool" where
  "texts_present v ks \<longleftrightarrow> list_all (\<lambda>k. sfield v k \<noteq> None) ks"

definition read_command :: "json \<Rightarrow> signed_command option" where
  "read_command v =
    (if texts_present v [''version'', ''command_id'', ''signer'', ''action'', ''scope'', ''nonce'', ''idempotency_key'', ''payload_hash'', ''signature'']
        \<and> holds (\<lambda>t. texts_present t [''organization_id'', ''node_id'']) (field v ''target'')
        \<and> holds (\<lambda>t. texts_present t [''id'', ''revocation_version'']) (field v ''capability'')
        \<and> (case field v ''budget'' of None \<Rightarrow> True | Some b \<Rightarrow> texts_present b [''asset'', ''amount''])
     then (case field v ''payload'' of None \<Rightarrow> None | Some p \<Rightarrow> read_wire v p (the (sfield v ''signature'')))
     else None)"

definition TICKET_SCHEMA :: string where
  "TICKET_SCHEMA = ''fractalmind.okr-command-ticket.v1''"

definition ticket_json :: "ticket \<Rightarrow> json" where
  "ticket_json t = JObject [(''schema'', JString TICKET_SCHEMA), (''okrId'', JString (tk_okrId t)), (''specRecordId'', JString (tk_specRecordId t)),
     (''agreementRecordId'', JString (tk_agreementRecordId t)), (''command'', command_json (tk_command t))]"

definition read_ticket :: "string \<Rightarrow> ticket option" where
  "read_ticket plaintext =
    (case json_parse plaintext of None \<Rightarrow> None
     | Some v \<Rightarrow>
        if sfield v ''schema'' \<noteq> Some TICKET_SCHEMA then None
        else (case (sfield v ''okrId'', sfield v ''specRecordId'', sfield v ''agreementRecordId'', field v ''command'') of
                (Some okrId, Some spec, Some agreement, Some c) \<Rightarrow>
                  map_option (\<lambda>c. \<lparr>tk_okrId = okrId, tk_specRecordId = spec, tk_agreementRecordId = agreement, tk_command = c\<rparr>) (read_command c)
              | _ \<Rightarrow> None))"

definition bounds_json :: "okr_plan \<Rightarrow> kr_plan \<Rightarrow> json" where
  "bounds_json plan kr = JObject [(''paths'', paths_json (op_paths plan)), (''max_calls'', JString (kp_maxCalls kr))]"

definition measurement_json :: json where
  "measurement_json = JObject [(''kind'', JString ''verified_text_file_count'')]"

definition json_is :: "json option \<Rightarrow> json \<Rightarrow> bool" where
  "json_is v w \<longleftrightarrow> (case v of None \<Rightarrow> False | Some v \<Rightarrow> stringify v = stringify w)"

text \<open>The command carries exactly the approved work of the current key result.\<close>

definition ticket_matches :: "runner_okr \<Rightarrow> okr_plan \<Rightarrow> kr_plan \<Rightarrow> signed_command \<Rightarrow> bool" where
  "ticket_matches okr plan kr c \<longleftrightarrow>
     sc_action c = ''assign'' \<and> sc_scope c = ''control'' \<and> sc_organization_id c = rk_org_id okr
     \<and> sc_budget c = Some (''TOOL_CALLS'', kp_maxCalls kr)
     \<and> (case field (sc_payload c) ''okr'' of None \<Rightarrow> False
        | Some context \<Rightarrow> sfield context ''id'' = Some (rk_id okr)
            \<and> sfield context ''agreement_version'' = Some (dec_string (rk_agreement_version okr))
            \<and> sfield context ''kr_index'' = Some (dec_string (rk_next_kr okr)))
     \<and> sfield (sc_payload c) ''task'' = Some (task_text (kp_files kr))
     \<and> json_is (field (sc_payload c) ''bounds'') (bounds_json plan kr) \<and> json_is (field (sc_payload c) ''measurement'') measurement_json"

definition ticketR :: "('r, 't) runner_env \<Rightarrow> string \<Rightarrow> string \<Rightarrow> runner_okr \<Rightarrow> okr_plan \<Rightarrow> ('r, signed_command) runner" where
  "ticketR E recordId name okr plan =
     bindE (decryptR E recordId) (\<lambda>(rec, plaintext).
     bindE (assertE (pc_kind rec = 5 \<and> pc_logical_id rec = name \<and> pc_revision rec = 1) Bad_ticket) (\<lambda>_.
     case read_ticket plaintext of None \<Rightarrow> throwE Bad_ticket
     | Some t \<Rightarrow>
         bindE (assertE (tk_okrId t = rk_id okr \<and> tk_specRecordId t = rk_spec_record okr \<and> Some (tk_agreementRecordId t) = rk_agreement_record okr)
                  Bad_ticket) (\<lambda>_.
         bindE (liftR (case verifySignedNodeCommand (rn_hash E) (rn_keys E) (tk_command t) of Inl e \<Rightarrow> Inl (Runner_command e) | Inr u \<Rightarrow> Inr u)) (\<lambda>_.
         case at_index (op_krs plan) (rk_next_kr okr) of None \<Rightarrow> throwE Runner_outside
         | Some kr \<Rightarrow> bindE (assertE (ticket_matches okr plan kr (tk_command t)) Bad_ticket) (\<lambda>_. okE (tk_command t))))))"

section \<open>Runs\<close>

fun execution_pages :: "nat \<Rightarrow> ('r, 't) runner_env \<Rightarrow> string \<Rightarrow> string option \<Rightarrow> string list \<Rightarrow> ('r, runner_run list) runner" where
  "execution_pages 0 E okrId cursor seen = throwE Runner_pages"
| "execution_pages (Suc fuel) E okrId cursor seen =
     bindE (awaitR (rn_listExecutions E okrId cursor)) (\<lambda>(runs, following).
     if \<not> present following then okE runs
     else bindE (assertE (the following \<notin> set seen) Directory_changed) (\<lambda>_.
          bindE (execution_pages fuel E okrId following (the following # seen)) (\<lambda>rest. okE (runs @ rest))))"

definition intentR :: "('r, 't) runner_env \<Rightarrow> signed_command \<Rightarrow> ('r, string) runner" where
  "intentR E c = liftR (case nodeCommandIntentHash (rn_hash E) c of Inl e \<Rightarrow> Inl (Runner_command e) | Inr h \<Rightarrow> Inr (bytesToHex h))"

definition readRun :: "nat \<Rightarrow> ('r, 't) runner_env \<Rightarrow> runner_okr \<Rightarrow> string \<Rightarrow> signed_command \<Rightarrow> ('r, runner_run option) runner" where
  "readRun fuel E okr fingerprint c =
     bindE (execution_pages fuel E (rk_id okr) None []) (\<lambda>runs.
     okE (find (\<lambda>run. bytes_hex (xr_intent_hash run) = fingerprint \<and> xr_capability_id run = sc_capability_id c) runs))"

definition run_matches_ticket :: "runner_okr \<Rightarrow> signed_command \<Rightarrow> runner_run \<Rightarrow> bool" where
  "run_matches_ticket okr c run \<longleftrightarrow>
     xr_command_id run = sc_command_id c \<and> xr_delegate run = sc_signer c \<and> xr_node_id run = sc_node_id c
     \<and> Some (xr_agent_id run) = sc_agent_id c \<and> sc_budget c = Some (xr_budget_asset run, dec_string (xr_budget_amount run))
     \<and> xr_org_id run = rk_org_id okr \<and> xr_action run = sc_action c \<and> xr_scope run = sc_scope c \<and> xr_nonce run = sc_nonce c
     \<and> xr_idempotency_key run = sc_idempotency_key c \<and> xr_issued_at_ms run = sc_issued_at_ms c \<and> xr_expires_at_ms run = sc_expires_at_ms c"

section \<open>One step: what is there already\<close>

text \<open>\<^verbatim>\<open>/^[0-2]$/\<close>\<close>

definition kr_digit :: "string \<Rightarrow> bool" where
  "kr_digit s \<longleftrightarrow> s = ''0'' \<or> s = ''1'' \<or> s = ''2''"

definition invalid_schedule :: "runner_input \<Rightarrow> runner_okr \<Rightarrow> bool" where
  "invalid_schedule input okr \<longleftrightarrow> (case sx_scheduledKrIndex input of None \<Rightarrow> False
     | Some s \<Rightarrow> \<not> sx_prepareOnly input \<or> sx_releaseQueued input \<or> \<not> kr_digit s \<or> dec_value s < rk_next_kr okr
         \<or> int (length (rk_metrics okr)) \<le> dec_value s)"

definition context_changed :: "runner_input \<Rightarrow> runner_okr \<Rightarrow> bool" where
  "context_changed input okr \<longleftrightarrow>
     (sx_expectedAgreementVersion input \<noteq> None \<and> sx_expectedAgreementVersion input \<noteq> Some (dec_string (rk_agreement_version okr)))
     \<or> (sx_expectedKrIndex input \<noteq> None \<and> sx_expectedKrIndex input \<noteq> Some (dec_string (rk_next_kr okr)))"

definition scheduled_okr :: "runner_input \<Rightarrow> runner_okr \<Rightarrow> runner_okr" where
  "scheduled_okr input okr = (case sx_scheduledKrIndex input of None \<Rightarrow> okr | Some s \<Rightarrow> okr\<lparr>rk_next_kr := dec_value s\<rparr>)"

text \<open>The objective as it stands, or why nothing is to be done.\<close>

definition entryR :: "('r, 't) runner_env \<Rightarrow> runner_input \<Rightarrow> ('r, runner_report + runner_okr \<times> int) runner" where
  "entryR E input =
     bindE (awaitR (rn_getOkr E (sx_okrId input))) (\<lambda>okr.
     bindE (assertE (rk_org_id okr = rn_organizationId E) Organization_mismatch) (\<lambda>_.
     elseE (whenE (invalid_schedule input okr) (report okr Paused (Some ''invalid_scheduled_preparation''))) (\<lambda>_.
     elseE (whenE (context_changed input okr) (report okr Paused (Some ''reviewed_execution_context_changed''))) (\<lambda>_.
     let shown = scheduled_okr input okr in
     bindE (lifecycle E shown) (\<lambda>done.
     case done of Some r \<Rightarrow> okE (Inl r) | None \<Rightarrow> okE (Inr (shown, rk_next_kr okr)))))))"

definition original_report :: "runner_okr \<Rightarrow> submission \<Rightarrow> runner_report" where
  "original_report okr prior = (report okr (if sb_status prior = Sub_rejected then Blocked else Awaiting_confirmation)
      (Some (if sb_status prior = Sub_confirmed then ''ticket_index_not_visible''
             else case sb_reason prior of Some r \<Rightarrow> r
                  | None \<Rightarrow> if sb_status prior = Sub_rejected then ''ticket_transaction_rejected'' else ''ticket_transaction_unknown'')))
    \<lparr>rr_transactionDigest := sb_digest prior\<rparr>"

definition priorR :: "('r, 't) runner_env \<Rightarrow> runner_okr \<Rightarrow> string \<Rightarrow> ('r, runner_report + submission option) runner" where
  "priorR E okr name = (case rn_querySubmission E of None \<Rightarrow> okE (Inr None)
     | Some ask \<Rightarrow> catchE (bindE (awaitR (ask name)) (\<lambda>prior. okE (Inr prior)))
         (\<lambda>_. okE (Inl (report okr Awaiting_confirmation (Some ''pending_query_failed'')))))"

definition lookupR :: "nat \<Rightarrow> ('r, 't) runner_env \<Rightarrow> runner_okr \<Rightarrow> string \<Rightarrow> submission option \<Rightarrow> ('r, runner_report + ticket_directory) runner" where
  "lookupR fuel E okr name prior =
     catchE (bindE (directoryR fuel E name) (\<lambda>d. okE (Inr d)))
       (\<lambda>e. case prior of Some p \<Rightarrow> okE (Inl (original_report okr p)) | None \<Rightarrow> throwE e)"

definition unknown_report :: "runner_okr \<Rightarrow> string option \<times> bool \<Rightarrow> runner_report" where
  "unknown_report okr u = (report okr Awaiting_confirmation
      (Some (if snd u then ''ticket_index_not_visible'' else ''ticket_transaction_unknown'')))\<lparr>rr_transactionDigest := fst u\<rparr>"

text \<open>Without a ticket: an earlier or unknown submission is reported, never repeated.\<close>

definition absentR :: "runner_input \<Rightarrow> runner_okr \<Rightarrow> string \<Rightarrow> submission option \<Rightarrow> ('r, runner_report + unit) runner" where
  "absentR input okr name prior =
     bindE (getE (\<lambda>w. map_of (rw_unknown w) name)) (\<lambda>unknown.
     case (prior, unknown) of
       (Some p, _) \<Rightarrow> okE (Inl (original_report okr p))
     | (None, Some u) \<Rightarrow> okE (Inl (unknown_report okr u))
     | (None, None) \<Rightarrow>
         if sx_expectedExecutionId input \<noteq> None then okE (Inl (report okr Paused (Some ''reviewed_execution_not_found'')))
         else if \<not> sx_createIfMissing input then okE (Inl (report okr Idle (Some ''no_confirmed_ticket'')))
         else okE (Inr ()))"

section \<open>One step: a new ticket\<close>

definition assignment_matches :: "runner_okr \<Rightarrow> runner_managed \<Rightarrow> member_facts \<Rightarrow> bool" where
  "assignment_matches okr managed member \<longleftrightarrow>
     mg_org_id managed = rk_org_id okr \<and> Some (mg_id managed) = rk_managed_agent okr \<and> Some (mg_membership_id managed) = rk_membership_id okr
     \<and> mg_version managed = rk_managed_version okr \<and> Some (me_id member) = rk_membership_id okr \<and> me_org_id member = rk_org_id okr
     \<and> me_version member = rk_membership_version okr \<and> \<not> mg_revoked managed \<and> mg_control_confirmed managed \<and> \<not> me_revoked member"

definition capability_matches :: "('r, 't) runner_env \<Rightarrow> runner_okr \<Rightarrow> runner_managed \<Rightarrow> member_facts \<Rightarrow> runner_capability \<Rightarrow> bool" where
  "capability_matches E okr managed member cap \<longleftrightarrow>
     rc_type cap = rn_typesPackageId E @ ''::remote_authority::RemoteCapability'' \<and> rc_delegate cap = cs_address (rn_signer E)
     \<and> \<not> rc_revoked cap \<and> rc_orgId cap = rk_org_id okr \<and> rc_agentId cap = rm_instance_id managed \<and> rc_nodeId cap = me_host_address member
     \<and> rc_scope cap = ''control'' \<and> rc_actions cap = [''assign'']"

definition contract_matches :: "runner_okr \<Rightarrow> capability_contract \<Rightarrow> bool" where
  "contract_matches okr c \<longleftrightarrow> cc_contract_id c = rk_id okr \<and> cc_agreement_version c = rk_agreement_version okr
     \<and> bytes_hex (cc_boundary_hash c) = bytes_hex (rk_boundary_hash okr)"

definition device_matches :: "('r, 't) runner_env \<Rightarrow> authority_binding \<Rightarrow> bool" where
  "device_matches E b \<longleftrightarrow> ab_human_id b = rn_humanId E \<and> ab_device_grant b = rn_grantId E"

definition binding_matches :: "runner_okr \<Rightarrow> runner_managed \<Rightarrow> member_facts \<Rightarrow> runner_capability \<Rightarrow> authority_binding \<Rightarrow> bool" where
  "binding_matches okr managed member cap b \<longleftrightarrow>
     ab_membership_id b = me_id member \<and> ab_membership_version b = me_version member \<and> ab_managed_agent b = Some (mg_id managed)
     \<and> ab_managed_agent_version b = mg_version managed \<and> mg_host_address managed = me_host_address member
     \<and> bytes_hex (mg_workspace_hash managed) = bytes_hex (rk_workspace_hash okr) \<and> rc_budgetAsset cap = ''TOOL_CALLS''"

definition continuation_json :: "handover_policy \<Rightarrow> json" where
  "continuation_json p = JObject [(''approval_id'', JString (py_approval_id p)), (''proposal_hash'', JString (bytes_hex (py_proposal_hash p))),
     (''nonce'', JString (bytes_hex (py_nonce p)))]"

definition policy_json :: "handover_policy \<Rightarrow> json" where
  "policy_json p = JObject [(''agreement_version'', ju64 (py_agreement_version p)), (''managed_version'', ju64 (py_managed_version p)),
     (''max_calls'', ju64 (py_max_calls p)), (''nonce'', jbytes (py_nonce p)), (''proposal_hash'', jbytes (py_proposal_hash p)),
     (''approval_id'', JString (py_approval_id p))]"

text \<open>The facts that a ticket is approved by, all read before anything is signed.\<close>

record approval_facts =
  af_managed :: runner_managed
  af_member :: member_facts
  af_capability :: runner_capability
  af_binding :: authority_binding
  af_contract :: capability_contract
  af_budget :: okr_budget
  af_policy :: handover_policy

definition approvalR :: "('r, 't) runner_env \<Rightarrow> runner_input \<Rightarrow> runner_okr \<Rightarrow> ('r, approval_facts) runner" where
  "approvalR E input okr =
    (if \<not> present (rk_managed_agent okr) \<or> \<not> present (rk_membership_id okr) then throwE No_assignment
     else bindE (awaitR (rn_getManagedAgent E (the (rk_managed_agent okr)))) (\<lambda>managed.
       bindE (awaitR (rn_getMembership E (the (rk_membership_id okr)))) (\<lambda>member.
       bindE (awaitR (rn_getCapability E (sx_capabilityId input))) (\<lambda>cap.
       bindE (awaitR (rn_getAuthorityBinding E (sx_capabilityId input))) (\<lambda>b.
       bindE (awaitR (rn_getContract E (sx_capabilityId input))) (\<lambda>contract.
       bindE (awaitR (rn_getBudget E (rk_id okr))) (\<lambda>budget.
       bindE (awaitR (rn_getPolicy E (rk_id okr))) (\<lambda>policy.
       okE \<lparr>af_managed = managed, af_member = member, af_capability = cap, af_binding = b, af_contract = contract,
            af_budget = budget, af_policy = policy\<rparr>))))))))"

text \<open>The first reason, in the order of the code, for which approval is missing.\<close>

definition approval_missing :: "('r, 't) runner_env \<Rightarrow> runner_okr \<Rightarrow> approval_facts \<Rightarrow> int \<Rightarrow> string option" where
  "approval_missing E okr f calls =
    (let managed = af_managed f; member = af_member f; cap = af_capability f; b = af_binding f; policy = af_policy f in
     if \<not> assignment_matches okr managed member \<or> \<not> capability_matches E okr managed member cap \<or> \<not> contract_matches okr (af_contract f)
        \<or> \<not> device_matches E b
     then Some ''current_device_or_assignment_authority_changed''
     else if py_agreement_version policy \<noteq> rk_agreement_version okr \<or> py_managed_version policy \<noteq> mg_version managed
        \<or> py_max_calls policy < calls \<or> py_max_calls policy < rc_maxBudget cap
     then Some ''current_reviewed_policy_or_tool_ceiling_changed''
     else if rc_maxUses cap \<le> rc_usesClaimed cap + rc_usesDelegated cap then Some ''capability_uses_exhausted''
     else if \<not> binding_matches okr managed member cap b then Some ''current_assignment_binding_changed''
     else if rc_maxBudget cap < rc_budgetClaimed cap + rc_budgetDelegated cap + calls then Some ''capability_budget_exhausted''
     else if rk_budget_limit okr < bu_spent (af_budget f) + bu_reserved (af_budget f) + calls then Some ''budget_exhausted_including_reservations''
     else None)"

definition command_expiry :: "runner_okr \<Rightarrow> approval_facts \<Rightarrow> int \<Rightarrow> int" where
  "command_expiry okr f now =
     min (min (min (now + 300000) (rc_expiresAtMs (af_capability f))) (rk_expires_at_ms okr)) (me_expires_at_ms (af_member f))"

definition assign_input :: "runner_okr \<Rightarrow> okr_plan \<Rightarrow> kr_plan \<Rightarrow> approval_facts \<Rightarrow> int \<Rightarrow> sign_command_input" where
  "assign_input okr plan kr f now =
     \<lparr>ni_target = \<lparr>ct_organizationId = rk_org_id okr, ct_nodeId = me_host_address (af_member f), ct_agentId = Some (rm_instance_id (af_managed f))\<rparr>,
      ni_action = ''assign'', ni_scope = ''control'',
      ni_capability = \<lparr>cr_id = rc_objectId (af_capability f), cr_revocationVersion = UBigInt (rc_revocationVersion (af_capability f))\<rparr>,
      ni_payload = Some (JObject [(''handover_continue'', continuation_json (af_policy f)),
         (''okr'', JObject [(''id'', JString (rk_id okr)), (''agreement_version'', JString (dec_string (rk_agreement_version okr))),
                           (''kr_index'', JString (dec_string (rk_next_kr okr)))]),
         (''measurement'', measurement_json), (''bounds'', bounds_json plan kr), (''task'', JString (task_text (kp_files kr)))]),
      ni_commandId = None, ni_nonce = None, ni_idempotencyKey = None, ni_issuedAtMs = Some now,
      ni_expiresAtMs = Some (command_expiry okr f now),
      ni_budget = Some \<lparr>cb_asset = ''TOOL_CALLS'', cb_amount = UBigInt (dec_value (kp_maxCalls kr))\<rparr>\<rparr>"

definition signR :: "('r, 't) runner_env \<Rightarrow> sign_command_input \<Rightarrow> ('r, signed_command) runner" where
  "signR E input = (\<lambda>w. case signNodeCommand (rn_hash E) (rn_signer E) input (rw_out w) of (x, r) \<Rightarrow>
     ((case x of Inl e \<Rightarrow> Inl (Runner_command e) | Inr c \<Rightarrow> Inr c), w\<lparr>rw_out := r\<rparr>))"

text \<open>Signing for the approved work; the agreement and the policy are read again afterwards.\<close>

definition authorizeR :: "('r, 't) runner_env \<Rightarrow> runner_input \<Rightarrow> runner_okr \<Rightarrow> int \<Rightarrow> okr_plan
    \<Rightarrow> ('r, runner_report + signed_command \<times> approval_facts) runner" where
  "authorizeR E input okr currentKr plan =
     bindE (approvalR E input okr) (\<lambda>f.
     bindE (nowR E) (\<lambda>now.
     case at_index (op_krs plan) (rk_next_kr okr) of None \<Rightarrow> throwE Runner_outside
     | Some kr \<Rightarrow>
         elseE (okE (case approval_missing E okr f (dec_value (kp_maxCalls kr)) of
                  Some reason \<Rightarrow> Inl (report okr Awaiting_approval (Some reason)) | None \<Rightarrow> Inr ())) (\<lambda>_.
         elseE (whenE (command_expiry okr f now \<le> now) (report okr Awaiting_approval (Some ''execution_authority_expired''))) (\<lambda>_.
         bindE (signR E (assign_input okr plan kr f now)) (\<lambda>command.
         bindE (awaitR (rn_getOkr E (rk_id okr))) (\<lambda>latest.
         elseE (whenE (rk_state latest \<noteq> 1 \<or> rk_version latest \<noteq> rk_version okr \<or> rk_agreement_version latest \<noteq> rk_agreement_version okr
                   \<or> rk_agreement_record latest \<noteq> rk_agreement_record okr \<or> rk_next_kr latest \<noteq> currentKr)
                 (report okr Paused (Some ''agreement_changed_during_planning''))) (\<lambda>_.
         bindE (awaitR (rn_getPolicy E (rk_id okr))) (\<lambda>policy.
         elseE (whenE (stringify (policy_json policy) \<noteq> stringify (policy_json (af_policy f)))
                 (report okr Paused (Some ''reviewed_policy_changed_during_signing''))) (\<lambda>_.
         okE (Inr (command, f))))))))))) "

text \<open>The ticket and its Run in one transaction.\<close>

definition composeR :: "('r, 't) runner_env \<Rightarrow> runner_input \<Rightarrow> runner_okr \<Rightarrow> string \<Rightarrow> ticket_directory \<Rightarrow> signed_command \<Rightarrow> approval_facts
    \<Rightarrow> ('r, 't) runner" where
  "composeR E input okr name d command f =
     bindE (awaitR (rn_encrypt E (stringify (ticket_json \<lparr>tk_okrId = rk_id okr, tk_specRecordId = rk_spec_record okr,
              tk_agreementRecordId = the (rk_agreement_record okr), tk_command = command\<rparr>)) name (td_keyVersion d))) (\<lambda>ciphertext.
     bindE (awaitR (rn_saveTicket E name (td_keyVersion d) ciphertext)) (\<lambda>tx.
     bindE (awaitR (rn_prepareCommand E command (me_id (af_member f)) (me_coordinator_binding (af_member f)) (mg_id (af_managed f))
              (td_keyVersion d) (sx_scheduledKrIndex input \<noteq> None) tx)) (\<lambda>prepared.
     bindE (assertE (prepared = tx) Not_atomic) (\<lambda>_. okE tx))))"

definition set_unknown :: "string \<Rightarrow> string option \<times> bool \<Rightarrow> ('r, unit) runner" where
  "set_unknown name u = modifyE (\<lambda>w. w\<lparr>rw_unknown := AList.update name u (rw_unknown w)\<rparr>)"

definition forget_unknown :: "string \<Rightarrow> ('r, unit) runner" where
  "forget_unknown name = modifyE (\<lambda>w. w\<lparr>rw_unknown := AList.delete name (rw_unknown w)\<rparr>)"

definition submitR :: "('r, 't) runner_env \<Rightarrow> string \<Rightarrow> 't \<Rightarrow> ('r, submission) runner" where
  "submitR E name tx =
     bindE (set_unknown name (None, False)) (\<lambda>_.
     bindE (catchE (awaitR (rn_submit E tx name)) (\<lambda>_. okE \<lparr>sb_status = Sub_unknown, sb_digest = None, sb_reason = None\<rparr>)) (\<lambda>s.
     bindE (modifyE (\<lambda>w. w\<lparr>rw_submits := (name, sb_status s) # rw_submits w\<rparr>)) (\<lambda>_.
     bindE (set_unknown name (sb_digest s, sb_status s = Sub_confirmed)) (\<lambda>_.
     bindE (if sb_status s = Sub_rejected then forget_unknown name else okE ()) (\<lambda>_.
     okE s)))))"

definition submission_report :: "runner_okr \<Rightarrow> submission \<Rightarrow> runner_report" where
  "submission_report okr s =
    (if sb_status s = Sub_rejected
     then report okr Blocked (Some (case sb_reason s of Some r \<Rightarrow> r | None \<Rightarrow> ''ticket_transaction_rejected''))
     else report okr Awaiting_confirmation (Some (if sb_status s = Sub_confirmed then ''ticket_index_not_visible''
            else case sb_reason s of Some r \<Rightarrow> r | None \<Rightarrow> ''ticket_transaction_unknown'')))
    \<lparr>rr_transactionDigest := sb_digest s\<rparr>"

text \<open>The submission, then what the directory shows; a rejected one is forgotten.\<close>

definition publishTicket :: "nat \<Rightarrow> ('r, 't) runner_env \<Rightarrow> runner_okr \<Rightarrow> string \<Rightarrow> 't \<Rightarrow> string
    \<Rightarrow> ('r, runner_report + ticket_directory \<times> string \<times> submission) runner" where
  "publishTicket fuel E okr name tx fingerprint =
     bindE (submitR E name tx) (\<lambda>s.
     bindE (if sb_status s = Sub_confirmed then confirmRead fuel E (directoryR fuel E name) (\<lambda>d. present (td_ticketId d))
            else directoryR fuel E name) (\<lambda>d'.
     if present (td_ticketId d') then okE (Inr (d', fingerprint, s))
     else bindE (if sb_status s = Sub_rejected then forget_unknown name else okE ()) (\<lambda>_.
          okE (Inl (submission_report okr s)))))"

definition createTicket :: "nat \<Rightarrow> ('r, 't) runner_env \<Rightarrow> runner_input \<Rightarrow> runner_okr \<Rightarrow> int \<Rightarrow> string \<Rightarrow> ticket_directory \<Rightarrow> okr_plan
    \<Rightarrow> ('r, runner_report + ticket_directory \<times> string \<times> submission) runner" where
  "createTicket fuel E input okr currentKr name d plan =
     elseE (authorizeR E input okr currentKr plan) (\<lambda>(command, f).
     bindE (composeR E input okr name d command f) (\<lambda>tx.
     bindE (intentR E command) (\<lambda>fingerprint.
     publishTicket fuel E okr name tx fingerprint)))"

section \<open>One step: following the Run\<close>

definition run_report :: "runner_okr \<Rightarrow> string \<Rightarrow> submission option \<Rightarrow> string option \<Rightarrow> runner_status \<Rightarrow> string option \<Rightarrow> runner_report" where
  "run_report okr ticketId s executionId status reason = (report okr status reason)
     \<lparr>rr_ticketRecordId := Some ticketId, rr_transactionDigest := (case s of None \<Rightarrow> None | Some s \<Rightarrow> sb_digest s), rr_executionId := executionId\<rparr>"

text \<open>The caller reviewed another Run than the one found.\<close>

definition other_run :: "('r, 't) runner_env \<Rightarrow> runner_input \<Rightarrow> runner_run \<Rightarrow> bool" where
  "other_run E input run \<longleftrightarrow> sx_expectedExecutionId input \<noteq> None
     \<and> map_option (rn_normalize E) (sx_expectedExecutionId input) \<noteq> Some (xr_id run)"

text \<open>What the Run's state or the caller's restrictions say before a delivery, in the order of the code.\<close>

definition run_answer :: "('r, 't) runner_env \<Rightarrow> runner_input \<Rightarrow> runner_run \<Rightarrow> signed_command \<Rightarrow> bool \<Rightarrow> int \<Rightarrow> (runner_status \<times> string option) option" where
  "run_answer E input run c fresh now =
    (if other_run E input run then Some (Paused, Some ''reviewed_execution_run_changed'')
     else if xr_state run = 4 then Some (Awaiting_confirmation, Some ''execution_outcome_unknown'')
     else if xr_state run = 1 then Some (Running, None)
     else if xr_state run = 3 \<or> xr_state run = 5 then Some (Blocked, Some ''execution_failed_or_cancelled'')
     else if xr_state run = 2 then Some (Awaiting_confirmation, Some ''measurement_not_confirmed'')
     else if sc_expires_at_ms c \<le> now then Some (Blocked, Some ''prepared_command_expired'')
     else if sx_prepareOnly input then Some (Queued, Some ''prepared_ticket_requires_delivery_release'')
     else if \<not> fresh \<and> \<not> sx_releaseQueued input then Some (Queued, Some ''restored_ticket_requires_delivery_release'')
     else None)"

definition policy_releases :: "runner_okr \<Rightarrow> handover_policy \<Rightarrow> signed_command \<Rightarrow> bool" where
  "policy_releases latest policy c \<longleftrightarrow>
     py_agreement_version policy = rk_agreement_version latest \<and> py_managed_version policy = rk_managed_version latest
     \<and> (case sc_budget c of None \<Rightarrow> False | Some (_, amount) \<Rightarrow> dec_value amount \<le> py_max_calls policy)
     \<and> json_is (field (sc_payload c) ''handover_continue'') (continuation_json policy)"

definition deliverR :: "('r, 't) runner_env \<Rightarrow> signed_command \<Rightarrow> ('r, bool) runner" where
  "deliverR E c =
     bindE (modifyE (\<lambda>w. w\<lparr>rw_deliveries := c # rw_deliveries w\<rparr>)) (\<lambda>_.
     catchE (bindE (awaitR (rn_deliver E c)) (\<lambda>_. okE True)) (\<lambda>_. okE False))"

definition after_delivery :: "nat \<Rightarrow> ('r, 't) runner_env \<Rightarrow> runner_okr \<Rightarrow> string \<Rightarrow> signed_command \<Rightarrow> (runner_status \<Rightarrow> string option \<Rightarrow> runner_report)
    \<Rightarrow> ('r, runner_report) runner" where
  "after_delivery fuel E okr fingerprint c say =
     bindE (awaitR (rn_getOkr E (rk_id okr))) (\<lambda>observed.
     bindE (lifecycle E observed) (\<lambda>updated.
     case updated of
       Some u \<Rightarrow> okE ((say (rr_status u) (rr_reason u))\<lparr>rr_okrId := rr_okrId u, rr_krIndex := rr_krIndex u,
                  rr_executionId := (if rr_executionId u = None then rr_executionId (say (rr_status u) (rr_reason u)) else rr_executionId u)\<rparr>)
     | None \<Rightarrow>
         bindE (readRun fuel E okr fingerprint c) (\<lambda>run.
         okE (case run of
                Some run \<Rightarrow> if xr_state run = 1 then say Running None else say Awaiting_confirmation (Some ''awaiting_chain_execution_progress'')
              | None \<Rightarrow> say Awaiting_confirmation (Some ''awaiting_chain_execution_progress'')))))"

definition releaseR :: "nat \<Rightarrow> ('r, 't) runner_env \<Rightarrow> runner_okr \<Rightarrow> string \<Rightarrow> signed_command \<Rightarrow> (runner_status \<Rightarrow> string option \<Rightarrow> runner_report)
    \<Rightarrow> ('r, runner_report) runner" where
  "releaseR fuel E okr fingerprint c say =
     bindE (awaitR (rn_getOkr E (rk_id okr))) (\<lambda>latest.
     if rk_version latest \<noteq> rk_version okr \<or> rk_state latest \<noteq> 1 \<or> rk_agreement_version latest \<noteq> rk_agreement_version okr
        \<or> rk_next_kr latest \<noteq> rk_next_kr okr
     then okE (say Paused (Some ''agreement_changed_before_delivery''))
     else bindE (awaitR (rn_getPolicy E (rk_id okr))) (\<lambda>policy.
       if \<not> policy_releases latest policy c then okE (say Paused (Some ''reviewed_policy_changed_before_delivery''))
       else bindE (deliverR E c) (\<lambda>delivered.
         if \<not> delivered then okE (say Awaiting_confirmation (Some ''delivery_outcome_unknown''))
         else after_delivery fuel E okr fingerprint c say)))"

text \<open>The Run of the ticket is visible: the unknown submission is settled, and the Run decides what is done.\<close>

definition settleRun :: "nat \<Rightarrow> ('r, 't) runner_env \<Rightarrow> runner_input \<Rightarrow> runner_okr \<Rightarrow> string \<Rightarrow> string \<Rightarrow> signed_command \<Rightarrow> bool \<Rightarrow> runner_run
    \<Rightarrow> (runner_status \<Rightarrow> string option \<Rightarrow> runner_report) \<Rightarrow> ('r, runner_report) runner" where
  "settleRun fuel E input okr name fingerprint c fresh run say =
     bindE (forget_unknown name) (\<lambda>_.
     bindE (assertE (run_matches_ticket okr c run) Run_differs) (\<lambda>_.
     bindE (if other_run E input run \<or> xr_state run \<in> {1, 2, 3, 4, 5} then okE 0 else nowR E) (\<lambda>now.
     case run_answer E input run c fresh now of
       Some (status, reason) \<Rightarrow> okE (say status reason)
     | None \<Rightarrow> releaseR fuel E okr fingerprint c say)))"

definition followRun :: "nat \<Rightarrow> ('r, 't) runner_env \<Rightarrow> runner_input \<Rightarrow> runner_okr \<Rightarrow> string \<Rightarrow> okr_plan \<Rightarrow> string \<Rightarrow> (string \<times> submission) option
    \<Rightarrow> ('r, runner_report) runner" where
  "followRun fuel E input okr name plan ticketId created =
     bindE (ticketR E ticketId name okr plan) (\<lambda>c.
     bindE (intentR E c) (\<lambda>fingerprint.
     bindE (if created = None then readRun fuel E okr fingerprint c
            else confirmRead fuel E (readRun fuel E okr fingerprint c) (\<lambda>run. run \<noteq> None)) (\<lambda>found.
     let detail = run_report okr ticketId (map_option snd created) in
     case found of None \<Rightarrow> okE (detail None Awaiting_confirmation (Some ''prepared_run_not_visible''))
     | Some run \<Rightarrow> settleRun fuel E input okr name fingerprint c (map_option fst created = Some fingerprint) run (detail (Some (xr_id run))))))"

text \<open>With the directory read: the ticket that is there, or a new one when the caller asked for it.\<close>

definition pursueR :: "nat \<Rightarrow> ('r, 't) runner_env \<Rightarrow> runner_input \<Rightarrow> runner_okr \<Rightarrow> int \<Rightarrow> string \<Rightarrow> submission option \<Rightarrow> ticket_directory
    \<Rightarrow> ('r, runner_report + runner_report) runner" where
  "pursueR fuel E input okr currentKr name prior d =
    (if present (td_ticketId d)
     then bindE (planR E okr) (\<lambda>plan.
          bindE (followRun fuel E input okr name plan (the (td_ticketId d)) None) (\<lambda>r. okE (Inr r)))
     else elseE (absentR input okr name prior) (\<lambda>_.
          bindE (planR E okr) (\<lambda>plan.
          elseE (createTicket fuel E input okr currentKr name d plan) (\<lambda>(d', fingerprint, s).
          bindE (followRun fuel E input okr name plan (the (td_ticketId d')) (Some (fingerprint, s))) (\<lambda>r. okE (Inr r))))))"

definition advance :: "nat \<Rightarrow> ('r, 't) runner_env \<Rightarrow> runner_input \<Rightarrow> ('r, runner_report) runner" where
  "advance fuel E input =
     bindE (elseE (entryR E input) (\<lambda>(okr, currentKr).
       let name = ticket_name (rk_id okr) (rk_agreement_version okr) (rk_next_kr okr) in
       elseE (priorR E okr name) (\<lambda>prior.
       elseE (lookupR fuel E okr name prior) (\<lambda>d.
       pursueR fuel E input okr currentKr name prior d))))
     (\<lambda>x. okE (case x of Inl r \<Rightarrow> r | Inr r \<Rightarrow> r))"

end
