(* ===== verification/Runner_Tickets.thy ===== *)
theory Runner_Tickets
  imports Okr_Runner
begin

text \<open>
  The ticket of \<^verbatim>\<open>sdk/src/okr-runner.ts\<close> as a text: it is read back as it was written, a signed command is well
  formed, and a command that a step signs for the approved work is accepted as a ticket by every later step.
  A sample objective whose first step creates and delivers its command closes the theory.
\<close>

section \<open>Reading a ticket back\<close>

lemma field_simps [simp]:
  "field (JObject ((k, v) # ms)) l = (if k = l then Some v else field (JObject ms) l)" "field (JObject []) l = None"
  by (simp_all add: field_def)

lemma read_command_json: "read_command (command_json c) = Some c"
proof -
  have agent: "sfield (JObject ((''organization_id'', o1) # (''node_id'', o2) # (case a of None \<Rightarrow> [] | Some a \<Rightarrow> [(''agent_id'', JString a)]))) ''agent_id'' = a"
    for a :: "string option" and o1 o2
    by (cases a) (simp_all add: sfield_def)
  show ?thesis
  proof (cases "sc_budget c")
    case None
    then show ?thesis
      by (simp add: read_command_def command_json_def texts_present_def holds_def read_wire_def nfield_def agent) (simp add: sfield_def)
  next
    case (Some b)
    then show ?thesis
      by (cases b) (simp add: read_command_def command_json_def texts_present_def holds_def read_wire_def nfield_def agent, simp add: sfield_def)
  qed
qed

lemma read_ticket_json: "read_ticket (stringify (ticket_json t)) = Some t"
  by (simp add: read_ticket_def json_parse_stringify ticket_json_def sfield_def read_command_json del: stringify.simps)

section \<open>A command for the approved work\<close>

definition ticket_for :: "runner_okr \<Rightarrow> string \<Rightarrow> signed_command \<Rightarrow> ticket" where
  "ticket_for okr agreement c = \<lparr>tk_okrId = rk_id okr, tk_specRecordId = rk_spec_record okr, tk_agreementRecordId = agreement, tk_command = c\<rparr>"

lemma assign_wire:
  assumes "signNodeCommand H S (assign_input okr plan kr f now) r = (Inr c, r')" "is_decimal (kp_maxCalls kr)"
  shows "ticket_matches okr plan kr c"
  using assms(1)
proof (rule signNodeCommand_wire)
  fix issued commandId nonce sig n t i
  let ?input = "assign_input okr plan kr f now"
  assume i: "i = signing_of (cs_address S) ?input issued (bytesToHex (sha256 H (stringify (payload_of ?input)))) commandId nonce"
    and c: "c = wire_of i (dec_string n) t (payload_of ?input) (signature_text (cs_publicBytes S) sig)"
    and budget: "budget_texts (ni_budget ?input) t"
  have amount: "ni_budget ?input = Some \<lparr>cb_asset = ''TOOL_CALLS'', cb_amount = UBigInt (dec_value (kp_maxCalls kr))\<rparr>" by (simp add: assign_input_def)
  with budget have "t = Some (''TOOL_CALLS'', kp_maxCalls kr)"
    using dec_string_decimal [OF assms(2)] by (auto simp: budget_texts_def split: if_split_asm)
  then have fields: "sc_budget c = Some (''TOOL_CALLS'', kp_maxCalls kr)" "sc_payload c = payload_of ?input" "sc_action c = ''assign''"
      "sc_scope c = ''control''" "sc_organization_id c = rk_org_id okr"
    by (simp_all add: c i wire_of_def signing_of_def assign_input_def del: stringify.simps)
  have payload: "payload_of ?input = JObject [(''handover_continue'', continuation_json (af_policy f)),
         (''okr'', JObject [(''id'', JString (rk_id okr)), (''agreement_version'', JString (dec_string (rk_agreement_version okr))),
                           (''kr_index'', JString (dec_string (rk_next_kr okr)))]),
         (''measurement'', measurement_json), (''bounds'', bounds_json plan kr), (''task'', JString (task_text (kp_files kr)))]"
    by (simp add: payload_of_def assign_input_def)
  show "ticket_matches okr plan kr c"
    by (simp add: ticket_matches_def fields payload sfield_def json_is_def del: stringify.simps)
qed

text \<open>
  A ticket is accepted as it was written: the command that a step signs for the approved work of a key result,
  put into a ticket and saved as JSON, is read back from that text unchanged, verifies, and matches the approved
  plan, so that the step that finds the ticket (on this device or another) accepts it for the same objective and agreement.
\<close>

theorem composed_ticket_accepted:
  assumes plan: "at_index (op_krs plan) (rk_next_kr okr) = Some kr" "is_decimal (kp_maxCalls kr)" "rk_agreement_record okr = Some agreement"
    and signed: "signNodeCommand (rn_hash E) (rn_signer E) (assign_input okr plan kr f now) r = (Inr c, r')"
    and keys: "ke_address (rn_keys E) (cs_publicBytes (rn_signer E)) = cs_address (rn_signer E)"
      "\<forall>bytes r1 sig r2. cs_sign (rn_signer E) bytes r1 = (Inr sig, r2) \<longrightarrow> ke_verify (rn_keys E) (cs_publicBytes (rn_signer E)) bytes sig"
    and saved: "decryptR E recordId w = (Inr (record_of_ticket, stringify (ticket_json (ticket_for okr agreement c))), w')"
      "pc_kind record_of_ticket = 5" "pc_logical_id record_of_ticket = name" "pc_revision record_of_ticket = 1"
  shows "ticketR E recordId name okr plan w = (Inr c, w')"
proof -
  have "verifySignedNodeCommand (rn_hash E) (rn_keys E) c = Inr ()" by (rule signed_accepts [OF signed keys])
  moreover have "ticket_matches okr plan kr c" by (rule assign_wire [OF signed plan(2)])
  ultimately show ?thesis
    using plan(1,3) saved(2-) by (simp add: ticketR_def eff_run saved(1) read_ticket_json ticket_for_def del: stringify.simps)
qed

section \<open>A sample objective\<close>

text \<open>
  A small chain: the command that is prepared with a ticket, and whether its transaction was executed. Reads return the same
  facts each time; a ticket and its Run are visible as soon as they are executed.
\<close>

definition desk_plan :: okr_plan where
  "desk_plan = \<lparr>op_paths = [(''file.write'', [''src''])], op_krs = [\<lparr>kp_files = [\<lparr>fg_path = ''src/a'', fg_content = ''hi''\<rparr>], kp_maxCalls = ''5''\<rparr>]\<rparr>"

definition desk_plan_json :: json where
  "desk_plan_json = JObject [(''format'', JNumber 1), (''paths'', JObject [(''file.write'', JArray [JString ''src''])]),
     (''krs'', JArray [JObject [(''files'', JArray [JObject [(''path'', JString ''src/a''), (''content'', JString ''hi'')]]), (''maxCalls'', JString ''5'')]])]"

definition desk_boundary :: "int list" where
  "desk_boundary = map (\<lambda>c. int (of_char c)) (the (plan_hash sample_hash desk_plan))"

definition desk_okr :: runner_okr where
  "desk_okr = \<lparr>rk_id = ''0xokr'', rk_org_id = ''org'', rk_logical_id = ''log'', rk_state = 1, rk_version = 3, rk_agreement_version = 2,
     rk_agreement_record = Some ''agreement'', rk_spec_record = ''spec'', rk_spec_revision = 1, rk_priority = 1, rk_deadline_ms = 900000, rk_next_kr = 0,
     rk_metrics = [\<lparr>mt_baseline = 0, mt_target = 1, mt_weight = 100, mt_current = None, mt_run_id = None, mt_evidence_id = None, mt_sampled_at_ms = 0, mt_max_age_ms = 0\<rparr>],
     rk_managed_agent = Some ''managed'', rk_managed_version = 1, rk_membership_id = Some ''member'', rk_membership_version = 1,
     rk_workspace_hash = [7], rk_boundary_hash = desk_boundary, rk_budget_asset = ''TOOL_CALLS'', rk_budget_limit = 10,
     rk_expires_at_ms = 900000, rk_rest = JNull\<rparr>"

definition desk_facts :: approval_facts where
  "desk_facts = \<lparr>af_managed = \<lparr>mg_id = ''managed'', mg_org_id = ''org'', mg_version = 1, mg_revoked = False, mg_control_confirmed = True,
       mg_runtime = ''native'', mg_membership_id = ''member'', mg_host_address = ''host'', mg_workspace_hash = [7], mg_rest = JNull, rm_instance_id = ''agent''\<rparr>,
     af_member = \<lparr>me_id = ''member'', me_org_id = ''org'', me_version = 1, me_revoked = False, me_expires_at_ms = 800000, me_host_address = ''host'',
       me_coordinator_binding = ''binding'', me_rest = JNull\<rparr>,
     af_capability = \<lparr>rc_objectId = ''cap'', rc_type = ''0x2::remote_authority::RemoteCapability'', rc_delegate = ''device'', rc_revoked = False,
       rc_orgId = ''org'', rc_agentId = ''agent'', rc_nodeId = ''host'', rc_scope = ''control'', rc_actions = [''assign''], rc_maxUses = 4, rc_usesClaimed = 1,
       rc_usesDelegated = 0, rc_budgetAsset = ''TOOL_CALLS'', rc_maxBudget = 6, rc_budgetClaimed = 0, rc_budgetDelegated = 0, rc_expiresAtMs = 700000,
       rc_revocationVersion = 1\<rparr>,
     af_binding = \<lparr>ab_human_id = ''human'', ab_device_grant = ''grant'', ab_membership_id = ''member'', ab_membership_version = 1,
       ab_managed_agent = Some ''managed'', ab_managed_agent_version = 1\<rparr>,
     af_contract = \<lparr>cc_contract_id = ''0xokr'', cc_agreement_version = 2, cc_boundary_hash = desk_boundary\<rparr>,
     af_budget = \<lparr>bu_spent = 0, bu_reserved = 5\<rparr>,
     af_policy = \<lparr>py_agreement_version = 2, py_managed_version = 1, py_max_calls = 6, py_nonce = [1], py_proposal_hash = [2], py_approval_id = ''approval''\<rparr>\<rparr>"

type_synonym desk = "signed_command option \<times> bool"

definition desk_signer :: "desk command_signer" where
  "desk_signer = \<lparr>cs_publicBytes = sample_key, cs_address = ''device'', cs_sign = (\<lambda>b. okE (sample_key @ sample_key)),
     cs_randomUUID = (\<lambda>r. (''uuid'', r)), cs_now = (\<lambda>r. (1000, r))\<rparr>"

definition desk_name :: string where
  "desk_name = ticket_name ''0xokr'' 2 0"

definition desk_run :: "signed_command \<Rightarrow> runner_run" where
  "desk_run c = \<lparr>xr_id = ''run'', xr_org_id = ''org'', xr_capability_id = ''cap'',
     xr_intent_hash = (case nodeCommandIntentHash sample_hash c of Inl _ \<Rightarrow> [] | Inr h \<Rightarrow> map (\<lambda>c. int (of_char c)) h),
     xr_command_id = sc_command_id c, xr_delegate = sc_signer c, xr_node_id = sc_node_id c, xr_agent_id = ''agent'', xr_managed_agent = Some ''managed'', xr_membership_id = Some ''member'', xr_action = sc_action c,
     xr_scope = sc_scope c, xr_nonce = sc_nonce c, xr_idempotency_key = sc_idempotency_key c, xr_budget_asset = ''TOOL_CALLS'', xr_budget_amount = 5,
     xr_issued_at_ms = sc_issued_at_ms c, xr_expires_at_ms = sc_expires_at_ms c, xr_state = 0\<rparr>"

definition desk_record :: "string \<Rightarrow> product_record" where
  "desk_record i = (if i = ''agreement'' then \<lparr>pc_organization_id = ''org'', pc_kind = 2, pc_logical_id = ''okr-log-agreement'', pc_revision = 1, pc_key_version = ''1''\<rparr>
     else \<lparr>pc_organization_id = ''org'', pc_kind = 5, pc_logical_id = desk_name, pc_revision = 1, pc_key_version = ''1''\<rparr>)"

definition desk_tx :: tx_data where
  "desk_tx = \<lparr>td_sender = None, td_gasOwner = None, td_gasBudget = None, td_gasPrice = None, td_gasPayment = None, td_inputs = [], td_commands = ''save''\<rparr>"

definition desk_env :: "(desk, tx_data) runner_env" where
  "desk_env = \<lparr>rn_organizationId = ''org'', rn_humanId = ''human'', rn_grantId = ''grant'', rn_typesPackageId = ''0x2'', rn_normalize = (\<lambda>s. s),
     rn_hash = sample_hash, rn_keys = sample_keys, rn_signer = desk_signer, rn_now = (\<lambda>r. (1000, r)), rn_dateNow = (\<lambda>r. (1000, r)), rn_pause = (\<lambda>r. r),
     rn_querySubmission = Some (\<lambda>name. okE None),
     rn_discoverTicket = Some (\<lambda>name r. (Inr \<lparr>td_keyVersion = ''1'', td_ticketId = (if snd r then Some ''ticket'' else None)\<rparr>, r)),
     rn_submit = (\<lambda>tx name r. (Inr \<lparr>sb_status = Sub_confirmed, sb_digest = Some ''digest'', sb_reason = None\<rparr>, (fst r, True))),
     rn_deliver = (\<lambda>c. okE ()), rn_getOkr = (\<lambda>i. okE desk_okr), rn_listCurrent = (\<lambda>cursor. throwE ()),
     rn_getRecord = (\<lambda>i. okE (desk_record i)),
     rn_decryptRecord = (\<lambda>i m r. (Inr (if i = ''agreement'' then stringify (JObject [(''nativeFilePlan'', desk_plan_json)])
          else case fst r of None \<Rightarrow> [] | Some c \<Rightarrow> stringify (ticket_json (ticket_for desk_okr ''agreement'' c))), r)),
     rn_listExecutions = (\<lambda>i cursor r. (Inr (case r of (Some c, True) \<Rightarrow> [desk_run c] | _ \<Rightarrow> [], None), r)),
     rn_getManagedAgent = (\<lambda>i. okE (af_managed desk_facts)), rn_getMembership = (\<lambda>i. okE (af_member desk_facts)),
     rn_getCapability = (\<lambda>i. okE (af_capability desk_facts)), rn_getAuthorityBinding = (\<lambda>i. okE (af_binding desk_facts)),
     rn_getContract = (\<lambda>i. okE (af_contract desk_facts)), rn_getBudget = (\<lambda>i. okE (af_budget desk_facts)), rn_getPolicy = (\<lambda>i. okE (af_policy desk_facts)),
     rn_encrypt = (\<lambda>text name key. okE text), rn_saveTicket = (\<lambda>name key text. okE desk_tx),
     rn_prepareCommand = (\<lambda>c m b a key scheduled tx r. (Inr tx, (Some c, False)))\<rparr>"

definition desk_input :: runner_input where
  "desk_input = \<lparr>sx_okrId = ''0xokr'', sx_capabilityId = ''cap'', sx_createIfMissing = True, sx_releaseQueued = False, sx_prepareOnly = False,
     sx_expectedExecutionId = None, sx_expectedAgreementVersion = None, sx_expectedKrIndex = None, sx_scheduledKrIndex = None\<rparr>"

definition desk_world :: "desk rworld" where
  "desk_world = \<lparr>rw_out = (None, False), rw_unknown = [], rw_submits = [], rw_deliveries = []\<rparr>"

abbreviation desk_kr :: kr_plan where
  "desk_kr \<equiv> \<lparr>kp_files = [\<lparr>fg_path = ''src/a'', fg_content = ''hi''\<rparr>], kp_maxCalls = ''5''\<rparr>"

lemma desk_task: "length (task_text [\<lparr>fg_path = ''src/a'', fg_content = ''hi''\<rparr>]) \<le> 16384"
  by (simp add: task_text_def file_json_def json_quote_def json_escape_def Let_def)

lemma desk_paths: "portablePath ''src/a'' False" "portablePath ''src'' True"
  by code_simp+

lemma desk_rows: "executionBoundaryHash sample_hash [(''file.write'', JArray [JString ''src''])] \<noteq> None"
  by code_simp

lemma desk_texts: "positive_text ''5''" "dec_value ''5'' = 5" "is_decimal ''5''" "dec_string 5 = ''5''"
  by code_simp+

lemma desk_plan_parsed: "parseNativeFileOkrPlan sample_hash desk_plan_json = Some desk_plan"
  using desk_rows desk_task desk_paths
  by (simp add: parseNativeFileOkrPlan_def desk_plan_json_def desk_plan_def parse_paths_def parse_kr_def parse_file_def map_some_def desk_texts)

lemma desk_plan_hashed: "plan_hash sample_hash desk_plan \<noteq> None"
  using desk_rows by (simp add: plan_hash_def desk_plan_def paths_json_def)

lemma desk_measures: "plan_measures desk_plan (rk_metrics desk_okr)"
  by (simp add: plan_measures_def desk_plan_def desk_okr_def)

lemma desk_approved: "approval_missing desk_env desk_okr desk_facts 5 = None"
  by (simp add: approval_missing_def Let_def assignment_matches_def capability_matches_def contract_matches_def device_matches_def binding_matches_def
      desk_facts_def desk_okr_def desk_env_def desk_signer_def)

lemma desk_signed:
  obtains c where "signNodeCommand sample_hash desk_signer (assign_input desk_okr desk_plan desk_kr desk_facts 1000) r = (Inr c, r)"
    "sc_agent_id c = Some ''agent''" "sc_capability_id c = ''cap''" "sc_expires_at_ms c = 301000"
proof -
  let ?input = "assign_input desk_okr desk_plan desk_kr desk_facts 1000"
  let ?i = "signing_of (cs_address desk_signer) ?input 1000 (bytesToHex (sha256 sample_hash (stringify (payload_of ?input)))) ''uuid'' ''uuid''"
  let ?c = "wire_of ?i (dec_string 1) (Some (''TOOL_CALLS'', ''5'')) (payload_of ?input) (signature_text (cs_publicBytes desk_signer) (sample_key @ sample_key))"
  have expires: "expires_of ?input 1000 = 301000"
    by (simp add: expires_of_def assign_input_def command_expiry_def desk_facts_def desk_okr_def)
  have facts: "ni_issuedAtMs ?input = Some 1000" "ni_commandId ?input = None" "ni_nonce ?input = None"
    "ni_budget ?input = Some \<lparr>cb_asset = ''TOOL_CALLS'', cb_amount = UBigInt 5\<rparr>" "ni_capability ?input = \<lparr>cr_id = ''cap'', cr_revocationVersion = UBigInt 1\<rparr>"
    "ni_target ?input = \<lparr>ct_organizationId = ''org'', ct_nodeId = ''host'', ct_agentId = Some ''agent''\<rparr>" "ni_action ?input = ''assign''"
    "ni_scope ?input = ''control''" "ni_idempotencyKey ?input = None"
    by (simp_all add: assign_input_def desk_facts_def desk_okr_def desk_texts)
  have "signNodeCommand sample_hash desk_signer ?input r = (Inr ?c, r)"
  proof (rule signNodeCommand_runs)
    show "list_all signing_token (signing_tokens ?input ?i)"
      by (simp add: signing_tokens_def signing_of_def facts desk_signer_def signing_token_def is_token_char_def is_alnum_def is_digit_def)
    show "\<exists>ms. payload_of ?input = JObject ms" by (simp add: payload_of_def assign_input_def)
  qed (rule refl | simp add: desk_signer_def sample_key_def facts expires issuedE_def uuidE_def eff_run
        safe_timestamp_def is_safe_integer_def max_safe_integer_def in_u64_def MAX_U64_def budget_texts_def desk_texts)+
  moreover have "sc_agent_id ?c = Some ''agent''" "sc_capability_id ?c = ''cap''" "sc_expires_at_ms ?c = 301000"
    using expires by (simp_all add: wire_of_def signing_of_def facts agent_of_def)
  ultimately show ?thesis by (rule that)
qed

section \<open>The first step of the sample\<close>

lemma desk_fields [simp]:
  "rn_hash desk_env = sample_hash" "rn_keys desk_env = sample_keys" "rn_signer desk_env = desk_signer" "rn_organizationId desk_env = ''org''"
  "rk_id desk_okr = ''0xokr''" "rk_logical_id desk_okr = ''log''" "rk_org_id desk_okr = ''org''" "rk_state desk_okr = 1" "rk_next_kr desk_okr = 0" "rk_agreement_version desk_okr = 2"
  "rk_agreement_record desk_okr = Some ''agreement''" "rk_budget_asset desk_okr = ''TOOL_CALLS''" "rk_expires_at_ms desk_okr = 900000"
  by (simp_all add: desk_env_def desk_okr_def)

lemma desk_reads [simp]:
  "awaitR (rn_getOkr desk_env i) w = (Inr desk_okr, w)" "nowR desk_env w = (Inr 1000, w)" "dateNowR desk_env w = (Inr 1000, w)"
  "awaitR (rn_getPolicy desk_env i) w = (Inr (af_policy desk_facts), w)" "awaitR (rn_getManagedAgent desk_env i) w = (Inr (af_managed desk_facts), w)"
  "awaitR (rn_getMembership desk_env i) w = (Inr (af_member desk_facts), w)" "awaitR (rn_getCapability desk_env i) w = (Inr (af_capability desk_facts), w)"
  "awaitR (rn_getAuthorityBinding desk_env i) w = (Inr (af_binding desk_facts), w)" "awaitR (rn_getContract desk_env i) w = (Inr (af_contract desk_facts), w)"
  "awaitR (rn_getBudget desk_env i) w = (Inr (af_budget desk_facts), w)" "awaitR (rn_getRecord desk_env i) w = (Inr (desk_record i), w)"
  "awaitR (rn_deliver desk_env c) w = (Inr (), w)"
  by (simp_all add: awaitR_def nowR_def dateNowR_def desk_env_def eff_run)

lemma desk_hash_bytes: "map_option bytesToHex (plan_hash sample_hash desk_plan) = Some (bytes_hex (rk_boundary_hash desk_okr))"
  using desk_plan_hashed by (auto simp: bytes_hex_def desk_okr_def desk_boundary_def comp_def)

lemma desk_planned: "planR desk_env desk_okr w = (Inr desk_plan, w)"
proof -
  have "awaitR (rn_decryptRecord desk_env ''agreement'' m) w = (Inr (stringify (JObject [(''nativeFilePlan'', desk_plan_json)])), w)" for m
    by (simp add: awaitR_def desk_env_def del: stringify.simps)
  moreover have "length (op_krs desk_plan) = length (rk_metrics desk_okr)" by (simp add: desk_plan_def desk_okr_def)
  ultimately show ?thesis
    using desk_hash_bytes desk_measures
    by (simp add: planR_def decryptR_def present_def eff_run desk_record_def json_parse_stringify desk_plan_parsed
        del: stringify.simps)
qed

text \<open>What the sample chain holds once its ticket is prepared, and once it is executed.\<close>

definition desk_at :: "signed_command \<Rightarrow> bool \<Rightarrow> (string \<times> string option \<times> bool) list \<Rightarrow> (string \<times> submission_status) list \<Rightarrow> signed_command list \<Rightarrow> desk rworld" where
  "desk_at c done unknown submits deliveries = \<lparr>rw_out = (Some c, done), rw_unknown = unknown, rw_submits = submits, rw_deliveries = deliveries\<rparr>"

lemma desk_facts_read: "approvalR desk_env desk_input desk_okr w = (Inr desk_facts, w)"
proof -
  have "present (rk_managed_agent desk_okr)" "present (rk_membership_id desk_okr)" by (simp_all add: present_def desk_okr_def)
  then show ?thesis by (simp add: approvalR_def eff_run)
qed

lemma desk_authorized:
  assumes "signNodeCommand sample_hash desk_signer (assign_input desk_okr desk_plan desk_kr desk_facts 1000) (rw_out w) = (Inr c, rw_out w)"
  shows "authorizeR desk_env desk_input desk_okr 0 desk_plan w = (Inr (Inr (c, desk_facts)), w)"
proof -
  have expiry: "command_expiry desk_okr desk_facts 1000 = 301000" by (simp add: command_expiry_def desk_facts_def)
  have kr: "at_index (op_krs desk_plan) 0 = Some desk_kr" by (simp add: at_index_def desk_plan_def)
  have "signR desk_env (assign_input desk_okr desk_plan desk_kr desk_facts 1000) w = (Inr c, w)"
    using assms by (simp add: signR_def)
  then show ?thesis
    by (simp add: authorizeR_def elseE_def whenE_def eff_run desk_facts_read kr desk_texts desk_approved expiry del: stringify.simps)
qed

lemma confirm_first:
  assumes "dateNowR E w = (Inr t, w)" "m w = (Inr v, w1)" "ok v"
  shows "confirmRead (Suc n) E m ok w = (Inr v, w1)"
  using assms by (simp add: confirmRead_def eff_run)

lemma desk_published:
  "publishTicket 3 desk_env desk_okr desk_name desk_tx h (desk_at c False [] [] []) =
     (Inr (Inr (\<lparr>td_keyVersion = ''1'', td_ticketId = Some ''ticket''\<rparr>, h, \<lparr>sb_status = Sub_confirmed, sb_digest = Some ''digest'', sb_reason = None\<rparr>)),
      desk_at c True [(desk_name, Some ''digest'', True)] [(desk_name, Sub_confirmed)] [])"
proof -
  let ?d = "\<lparr>td_keyVersion = ''1'', td_ticketId = Some ''ticket''\<rparr>"
  have see: "directoryR 3 desk_env desk_name (desk_at c True u s l) = (Inr ?d, desk_at c True u s l)" for u s l
    by (simp add: directoryR_def awaitR_def desk_env_def desk_at_def)
  have "confirmRead 3 desk_env (directoryR 3 desk_env desk_name) (\<lambda>d. present (td_ticketId d)) (desk_at c True u s l) = (Inr ?d, desk_at c True u s l)" for u s l
    unfolding numeral_3_eq_3 by (rule confirm_first [OF desk_reads(3)]) (simp_all add: see [unfolded numeral_3_eq_3] present_def)
  moreover have "submitR desk_env desk_name desk_tx (desk_at c False [] [] [])
      = (Inr \<lparr>sb_status = Sub_confirmed, sb_digest = Some ''digest'', sb_reason = None\<rparr>,
         desk_at c True [(desk_name, Some ''digest'', True)] [(desk_name, Sub_confirmed)] [])"
    by (simp add: submitR_def set_unknown_def awaitR_def desk_env_def desk_at_def eff_run)
  ultimately show ?thesis by (simp add: publishTicket_def eff_run present_def)
qed

lemma desk_composed:
  "composeR desk_env desk_input desk_okr desk_name d c desk_facts desk_world = (Inr desk_tx, desk_at c False [] [] [])"
  by (simp add: composeR_def desk_env_def desk_world_def desk_at_def awaitR_def eff_run del: stringify.simps)

lemma desk_decrypted:
  "decryptR desk_env ''ticket'' (desk_at c True u s l)
     = (Inr (desk_record ''ticket'', stringify (ticket_json (ticket_for desk_okr ''agreement'' c))), desk_at c True u s l)"
proof -
  have "awaitR (rn_decryptRecord desk_env ''ticket'' m) (desk_at c True u s l)
      = (Inr (stringify (ticket_json (ticket_for desk_okr ''agreement'' c))), desk_at c True u s l)" for m
    by (simp add: awaitR_def desk_env_def desk_at_def del: stringify.simps)
  then show ?thesis by (simp add: decryptR_def eff_run desk_record_def del: stringify.simps)
qed

lemma desk_keys:
  "ke_address (rn_keys desk_env) (cs_publicBytes (rn_signer desk_env)) = cs_address (rn_signer desk_env)"
  "\<forall>bytes r1 sig r2. cs_sign (rn_signer desk_env) bytes r1 = (Inr sig, r2) \<longrightarrow> ke_verify (rn_keys desk_env) (cs_publicBytes (rn_signer desk_env)) bytes sig"
  by (simp_all add: sample_keys_def desk_signer_def eff_run)

lemma desk_ticket:
  assumes signed: "signNodeCommand sample_hash desk_signer (assign_input desk_okr desk_plan desk_kr desk_facts 1000) r = (Inr c, r)"
  shows "ticketR desk_env ''ticket'' desk_name desk_okr desk_plan (desk_at c True u s l) = (Inr c, desk_at c True u s l)"
proof -
  have kr: "at_index (op_krs desk_plan) 0 = Some desk_kr" by (simp add: at_index_def desk_plan_def)
  have "verifySignedNodeCommand sample_hash sample_keys c = Inr ()" by (rule signed_accepts [OF signed desk_keys [unfolded desk_fields]])
  moreover have "ticket_matches desk_okr desk_plan desk_kr c" by (rule assign_wire [OF signed]) (simp add: desk_texts)
  ultimately show ?thesis
    by (simp add: ticketR_def desk_decrypted eff_run desk_record_def read_ticket_json ticket_for_def kr del: stringify.simps)
qed

lemma desk_matches:
  assumes signed: "signNodeCommand sample_hash desk_signer (assign_input desk_okr desk_plan desk_kr desk_facts 1000) r = (Inr c, r)"
    and agent: "sc_agent_id c = Some ''agent''"
  shows "run_matches_ticket desk_okr c (desk_run c)"
proof -
  have "ticket_matches desk_okr desk_plan desk_kr c" by (rule assign_wire [OF signed]) (simp add: desk_texts)
  then show ?thesis using agent by (simp add: run_matches_ticket_def desk_run_def ticket_matches_def desk_texts)
qed

lemma desk_releases:
  assumes signed: "signNodeCommand sample_hash desk_signer (assign_input desk_okr desk_plan desk_kr desk_facts 1000) r = (Inr c, r)"
  shows "policy_releases desk_okr (af_policy desk_facts) c"
proof -
  have m: "ticket_matches desk_okr desk_plan desk_kr c" by (rule assign_wire [OF signed]) (simp add: desk_texts)
  obtain issued commandId nonce sig n t i where "c = wire_of i (dec_string n) t (payload_of (assign_input desk_okr desk_plan desk_kr desk_facts 1000))
      (signature_text (cs_publicBytes desk_signer) sig)"
    using signed by (rule signNodeCommand_wire)
  then have "field (sc_payload c) ''handover_continue'' = Some (continuation_json (af_policy desk_facts))"
    by (simp add: wire_of_def payload_of_def assign_input_def)
  moreover have "py_agreement_version (af_policy desk_facts) = 2" "py_managed_version (af_policy desk_facts) = 1" "py_max_calls (af_policy desk_facts) = 6"
    "rk_managed_version desk_okr = 1"
    by (simp_all add: desk_facts_def desk_okr_def)
  ultimately show ?thesis using m by (simp add: policy_releases_def ticket_matches_def json_is_def desk_texts del: stringify.simps)
qed

lemma desk_intent:
  assumes "verifySignedNodeCommand sample_hash K c = Inr ()"
  obtains h where "nodeCommandIntentHash sample_hash c = Inr h"
  using assms by (auto simp: verifySignedNodeCommand_def nodeCommandIntentHash_def result_simps split: option.split_asm)

lemma desk_run_read:
  assumes "nodeCommandIntentHash sample_hash c = Inr h" "sc_capability_id c = ''cap''"
  shows "readRun 3 desk_env desk_okr (bytesToHex h) c (desk_at c True u s l) = (Inr (Some (desk_run c)), desk_at c True u s l)"
proof -
  have "execution_pages 3 desk_env ''0xokr'' None [] (desk_at c True u s l) = (Inr [desk_run c], desk_at c True u s l)"
    by (simp add: numeral_3_eq_3 eff_run awaitR_def desk_env_def desk_at_def present_def)
  then show ?thesis using assms by (simp add: readRun_def eff_run desk_run_def bytes_hex_def comp_def)
qed

lemma desk_followed:
  assumes signed: "signNodeCommand sample_hash desk_signer (assign_input desk_okr desk_plan desk_kr desk_facts 1000) r = (Inr c, r)"
    and c: "sc_agent_id c = Some ''agent''" "sc_capability_id c = ''cap''" "sc_expires_at_ms c = 301000" and h: "nodeCommandIntentHash sample_hash c = Inr h"
  shows "\<exists>x. followRun 3 desk_env desk_input desk_okr desk_name desk_plan ''ticket'' (Some (bytesToHex h, sub)) (desk_at c True [(desk_name, e)] s [])
    = (Inr x, desk_at c True [] s [c])"
proof -
  note read = desk_run_read [OF h c(2)]
  have seen: "confirmRead 3 desk_env (readRun 3 desk_env desk_okr (bytesToHex h) c) (\<lambda>run. run \<noteq> None) (desk_at c True u s l)
      = (Inr (Some (desk_run c)), desk_at c True u s l)" for u s l
    unfolding numeral_3_eq_3 by (rule confirm_first [OF desk_reads(3)]) (simp_all add: read [unfolded numeral_3_eq_3])
  have answer: "run_answer desk_env desk_input (desk_run c) c True 1000 = None"
    using c(3) by (simp add: run_answer_def other_run_def desk_input_def desk_run_def)
  have quiet: "\<not> (other_run desk_env desk_input (desk_run c) \<or> xr_state (desk_run c) \<in> {1, 2, 3, 4, 5})"
    by (simp add: other_run_def desk_input_def desk_run_def)
  have delivered: "deliverR desk_env c (desk_at c True [] s []) = (Inr True, desk_at c True [] s [c])"
    by (simp add: deliverR_def eff_run desk_at_def)
  have metric: "at_index (rk_metrics desk_okr) 0 = Some \<lparr>mt_baseline = 0, mt_target = 1, mt_weight = 100, mt_current = None, mt_run_id = None, mt_evidence_id = None,
      mt_sampled_at_ms = 0, mt_max_age_ms = 0\<rparr>" "length (rk_metrics desk_okr) = 1"
    by (simp_all add: at_index_def desk_okr_def)
  have life: "lifecycle desk_env desk_okr w = (Inr None, w)" for w
    by (simp add: lifecycle_def eff_run metric)
  have forget: "forget_unknown desk_name (desk_at c True [(desk_name, e)] s []) = (Inr (), desk_at c True [] s [])"
    by (simp add: forget_unknown_def eff_run desk_at_def)
  have release: "\<exists>x. releaseR 3 desk_env desk_okr (bytesToHex h) c say (desk_at c True [] s []) = (Inr x, desk_at c True [] s [c])" for say
    by (simp add: releaseR_def after_delivery_def eff_run desk_releases [OF signed] delivered life read)
  have "\<exists>x. settleRun 3 desk_env desk_input desk_okr desk_name (bytesToHex h) c True (desk_run c) say (desk_at c True [(desk_name, e)] s [])
      = (Inr x, desk_at c True [] s [c])" for say
    unfolding settleRun_def if_not_P [OF quiet] by (simp add: eff_run forget desk_matches [OF signed c(1)] answer release)
  then show ?thesis
    by (simp add: followRun_def intentR_def eff_run desk_ticket [OF signed] h seen Let_def del: not_None_eq)
qed

lemma desk_step:
  obtains c x where "advance 3 desk_env desk_input desk_world = (Inr x, desk_at c True [] [(desk_name, Sub_confirmed)] [c])"
proof -
  obtain c where signed: "signNodeCommand sample_hash desk_signer (assign_input desk_okr desk_plan desk_kr desk_facts 1000) (None, False) = (Inr c, (None, False))"
    and c: "sc_agent_id c = Some ''agent''" "sc_capability_id c = ''cap''" "sc_expires_at_ms c = 301000"
    by (rule desk_signed)
  have "verifySignedNodeCommand sample_hash sample_keys c = Inr ()"
    by (rule signed_accepts [OF signed desk_keys [unfolded desk_fields]])
  then obtain h where h: "nodeCommandIntentHash sample_hash c = Inr h" by (rule desk_intent)
  have metric: "at_index (rk_metrics desk_okr) 0 = Some \<lparr>mt_baseline = 0, mt_target = 1, mt_weight = 100, mt_current = None, mt_run_id = None, mt_evidence_id = None,
      mt_sampled_at_ms = 0, mt_max_age_ms = 0\<rparr>" "length (rk_metrics desk_okr) = 1"
    by (simp_all add: at_index_def desk_okr_def)
  have life: "lifecycle desk_env desk_okr w = (Inr None, w)" for w
    by (simp add: lifecycle_def eff_run metric)
  have entry: "entryR desk_env desk_input desk_world = (Inr (Inr (desk_okr, 0)), desk_world)"
    by (simp add: entryR_def elseE_def whenE_def eff_run invalid_schedule_def context_changed_def scheduled_okr_def desk_input_def Let_def life)
  have prior: "priorR desk_env desk_okr desk_name desk_world = (Inr (Inr None), desk_world)"
    by (simp add: priorR_def desk_env_def eff_run awaitR_def desk_world_def)
  have look: "lookupR 3 desk_env desk_okr desk_name None desk_world = (Inr (Inr \<lparr>td_keyVersion = ''1'', td_ticketId = None\<rparr>), desk_world)"
    by (simp add: lookupR_def directoryR_def desk_env_def eff_run awaitR_def desk_world_def)
  have absent: "absentR desk_input desk_okr desk_name None desk_world = (Inr (Inr ()), desk_world)"
    by (simp add: absentR_def eff_run desk_world_def desk_input_def)
  have "authorizeR desk_env desk_input desk_okr 0 desk_plan desk_world = (Inr (Inr (c, desk_facts)), desk_world)"
    by (rule desk_authorized) (use signed in \<open>simp add: desk_world_def\<close>)
  then have create: "createTicket 3 desk_env desk_input desk_okr 0 desk_name d desk_plan desk_world =
      (Inr (Inr (\<lparr>td_keyVersion = ''1'', td_ticketId = Some ''ticket''\<rparr>, bytesToHex h, \<lparr>sb_status = Sub_confirmed, sb_digest = Some ''digest'', sb_reason = None\<rparr>)),
       desk_at c True [(desk_name, Some ''digest'', True)] [(desk_name, Sub_confirmed)] [])" for d
    by (simp add: createTicket_def elseE_def eff_run desk_composed intentR_def h desk_published)
  obtain x where "followRun 3 desk_env desk_input desk_okr desk_name desk_plan ''ticket''
        (Some (bytesToHex h, \<lparr>sb_status = Sub_confirmed, sb_digest = Some ''digest'', sb_reason = None\<rparr>))
        (desk_at c True [(desk_name, Some ''digest'', True)] [(desk_name, Sub_confirmed)] []) = (Inr x, desk_at c True [] [(desk_name, Sub_confirmed)] [c])"
    using desk_followed [OF signed c h] by blast
  then have "advance 3 desk_env desk_input desk_world = (Inr x, desk_at c True [] [(desk_name, Sub_confirmed)] [c])"
    by (simp add: advance_def pursueR_def elseE_def eff_run entry Let_def desk_name_def [symmetric] prior look absent desk_planned create present_def)
  then show ?thesis by (rule that)
qed

theorem composed_ticket_accepted_witness:
  "\<exists>c. ticketR desk_env ''ticket'' desk_name desk_okr desk_plan (desk_at c True [] [] []) = (Inr c, desk_at c True [] [] [])"
proof -
  obtain c where signed: "signNodeCommand sample_hash desk_signer (assign_input desk_okr desk_plan desk_kr desk_facts 1000) (None, False) = (Inr c, (None, False))"
    by (rule desk_signed)
  have "ticketR desk_env ''ticket'' desk_name desk_okr desk_plan (desk_at c True [] [] []) = (Inr c, desk_at c True [] [] [])"
    by (rule composed_ticket_accepted [OF _ _ _ _ desk_keys desk_decrypted, where kr = desk_kr and f = desk_facts and now = 1000 and r = "(None, False)"
          and r' = "(None, False)"])
      (use signed in \<open>simp_all add: at_index_def desk_plan_def desk_texts desk_record_def\<close>)
  then show ?thesis by blast
qed

end
