(* ===== verification/Runner_Guarantees.thy ===== *)
theory Runner_Guarantees
  imports Runner_Tickets
begin

text \<open>
  What one step of the OKR runner may do to the two logs that matter: a step submits at most one ticket
  transaction and delivers at most one command, each only after the checks of \<^verbatim>\<open>sdk/src/okr-runner.ts\<close>.
\<close>

section \<open>Operations that only read\<close>

definition unlogged :: "'r rworld \<Rightarrow> 'r rworld \<Rightarrow> bool" where
  "unlogged w w' \<longleftrightarrow> rw_submits w' = rw_submits w \<and> rw_deliveries w' = rw_deliveries w \<and> rw_unknown w' = rw_unknown w"

lemma unlogged_preorder [simp]: "preorder_on_worlds unlogged"
  by (auto simp: preorder_on_worlds_def unlogged_def intro!: reflpI transpI)

lemma unlogged_outside [intro!]:
  "keeps unlogged (awaitR m)" "keeps unlogged (nowR E)" "keeps unlogged (dateNowR E)" "keeps unlogged (signR E i)"
  "keeps unlogged (modifyE (\<lambda>w. w\<lparr>rw_out := g w\<rparr>))"
  by (auto simp: keeps_def unlogged_def awaitR_def nowR_def dateNowR_def signR_def modifyE_def split: prod.splits)

lemma unlogged_pure [intro!]:
  "keeps unlogged (okE a)" "keeps unlogged (throwE e)" "keeps unlogged (getE f)" "keeps unlogged (liftR x)"
  "keeps unlogged (assertE c e)" "keeps unlogged (whenE c y)"
  by (auto intro!: keeps_pure simp: whenE_def)

lemma unlogged_bind [intro!]:
  assumes "keeps unlogged m" "\<And>a. keeps unlogged (f a)"
  shows "keeps unlogged (bindE m f)"
  using assms by (intro keeps_bindE unlogged_preorder)

lemma unlogged_catch [intro!]:
  assumes "keeps unlogged m" "\<And>e. keeps unlogged (h e)"
  shows "keeps unlogged (catchE m h)"
  using assms by (intro keeps_catchE unlogged_preorder)

lemma unlogged_else [intro!]:
  assumes "keeps unlogged m" "\<And>a. keeps unlogged (f a)"
  shows "keeps unlogged (elseE m f)"
  using assms by (auto simp: elseE_def split: sum.split)

lemma unlogged_lifecycle [intro!]: "keeps unlogged (lifecycle E okr)"
  by (auto simp: lifecycle_def Let_def split: option.split)

lemma unlogged_pages [intro!]: "keeps unlogged (directory_pages fuel E n cursor seen k t)"
  by (induction fuel arbitrary: cursor seen k t) auto

lemma unlogged_directory [intro!]: "keeps unlogged (directoryR fuel E n)"
  by (auto simp: directoryR_def split: option.split)

lemma unlogged_wait [intro!]: "keeps unlogged m \<Longrightarrow> keeps unlogged (confirm_wait fuel E deadline m ok v)"
  by (induction fuel arbitrary: v) auto

lemma unlogged_confirm [intro!]: "keeps unlogged m \<Longrightarrow> keeps unlogged (confirmRead fuel E m ok)"
  by (auto simp: confirmRead_def)

lemma unlogged_decrypt [intro!]: "keeps unlogged (decryptR E i)"
  by (auto simp: decryptR_def)

lemma unlogged_plan [intro!]: "keeps unlogged (planR E okr)"
  by (auto simp: planR_def split: option.split prod.split)

lemma unlogged_ticket [intro!]: "keeps unlogged (ticketR E i name okr plan)"
  by (auto simp: ticketR_def split: option.split prod.split)

lemma unlogged_executions [intro!]: "keeps unlogged (execution_pages fuel E i cursor seen)"
  by (induction fuel arbitrary: cursor seen) (auto split: prod.split)

lemma unlogged_runs [intro!]: "keeps unlogged (readRun fuel E okr h c)" "keeps unlogged (intentR E c)"
  by (auto simp: readRun_def intentR_def)

lemma unlogged_entry [intro!]:
  "keeps unlogged (entryR E input)" "keeps unlogged (priorR E okr name)" "keeps unlogged (lookupR fuel E okr name prior)"
  "keeps unlogged (absentR input okr name prior)"
  by (auto simp: entryR_def priorR_def lookupR_def absentR_def Let_def split: option.split)

lemma unlogged_approval [intro!]:
  "keeps unlogged (approvalR E input okr)" "keeps unlogged (authorizeR E input okr k plan)"
  "keeps unlogged (composeR E input okr name d c f)"
  by (auto simp: approvalR_def authorizeR_def composeR_def Let_def split: option.split prod.split)

lemma unlogged_after [intro!]: "keeps unlogged (after_delivery fuel E okr h c say)"
  by (auto simp: after_delivery_def split: option.split)

section \<open>Releasing a command\<close>

lemma deliver_logs:
  assumes "deliverR E c w = (x, w')"
  shows "rw_deliveries w' = c # rw_deliveries w" "rw_submits w' = rw_submits w" "rw_unknown w' = rw_unknown w"
proof -
  have m: "keeps unlogged (catchE (bindE (awaitR (rn_deliver E c)) (\<lambda>_. okE True)) (\<lambda>_. okE False))" by blast
  from assms have "catchE (bindE (awaitR (rn_deliver E c)) (\<lambda>_. okE True)) (\<lambda>_. okE False) (w\<lparr>rw_deliveries := c # rw_deliveries w\<rparr>) = (x, w')"
    by (simp add: deliverR_def eff_run(5,7))
  from keepsD [OF m this] show "rw_deliveries w' = c # rw_deliveries w" "rw_submits w' = rw_submits w" "rw_unknown w' = rw_unknown w"
    by (simp_all add: unlogged_def)
qed

lemma await_ok: "awaitR m w = (Inr a, w') \<Longrightarrow> \<exists>r. fst (m r) = Inr a"
  by (auto simp: awaitR_def intro!: exI [of _ "rw_out w"] split: prod.splits sum.splits)

lemma await_Inr: "awaitR m w = (Inr a, w') \<longleftrightarrow> m (rw_out w) = (Inr a, rw_out w') \<and> w' = w\<lparr>rw_out := rw_out w'\<rparr>"
  by (auto simp: awaitR_def split: prod.splits sum.splits)

text \<open>
  The objective and its policy, read in this order right before a delivery: the objective at the version, agreement and key result the step works on
  and still running, the policy for this agreement and assignment, with a call ceiling and a continuation that are those of the command.
\<close>

definition released :: "('r, 't) runner_env \<Rightarrow> runner_okr \<Rightarrow> signed_command \<Rightarrow> 'r \<Rightarrow> bool" where
  "released E okr c r \<longleftrightarrow> (\<exists>latest policy r1 r2 asset amount continue.
     rn_getOkr E (rk_id okr) r = (Inr latest, r1) \<and> rk_version latest = rk_version okr
     \<and> rk_state latest = 1 \<and> rk_agreement_version latest = rk_agreement_version okr \<and> rk_next_kr latest = rk_next_kr okr
     \<and> rn_getPolicy E (rk_id okr) r1 = (Inr policy, r2)
     \<and> py_agreement_version policy = rk_agreement_version latest \<and> py_managed_version policy = rk_managed_version latest
     \<and> sc_budget c = Some (asset, amount) \<and> dec_value amount \<le> py_max_calls policy
     \<and> field (sc_payload c) ''handover_continue'' = Some continue \<and> stringify continue = stringify (continuation_json policy))"

lemma await_logs:
  assumes "awaitR m w = (x, w')"
  shows "rw_deliveries w' = rw_deliveries w" "rw_submits w' = rw_submits w" "rw_unknown w' = rw_unknown w"
  using keepsD [OF unlogged_outside(1) assms] by (simp_all add: unlogged_def)

lemma deliver_then:
  assumes "bindE (deliverR E c) (\<lambda>d. if \<not> d then okE y else after_delivery fuel E okr h c say) w = (x, w')"
  shows "rw_deliveries w' = c # rw_deliveries w" "rw_submits w' = rw_submits w" "rw_unknown w' = rw_unknown w"
proof -
  from assms obtain d w1 where d: "deliverR E c w = (d, w1)" and after: "w' = w1 \<or> after_delivery fuel E okr h c say w1 = (x, w')"
    by (auto elim!: bindE_E simp: eff_pure split: if_split_asm)
  from after have "unlogged w1 w'"
  proof
    assume "after_delivery fuel E okr h c say w1 = (x, w')"
    then show ?thesis by (rule keepsD [OF unlogged_after])
  qed (simp add: unlogged_def)
  with deliver_logs [OF d] show "rw_deliveries w' = c # rw_deliveries w" "rw_submits w' = rw_submits w" "rw_unknown w' = rw_unknown w"
    by (simp_all add: unlogged_def)
qed

lemma release_cases:
  assumes run: "releaseR fuel E okr h c say w = (x, w')"
  shows "rw_submits w' = rw_submits w \<and> rw_unknown w' = rw_unknown w
    \<and> (rw_deliveries w' = rw_deliveries w \<or> rw_deliveries w' = c # rw_deliveries w \<and> released E okr c (rw_out w))"
  using run unfolding releaseR_def
proof (rule bindE_E)
  fix latest w1
  assume latest: "awaitR (rn_getOkr E (rk_id okr)) w = (Inr latest, w1)"
    and rest: "(if rk_version latest \<noteq> rk_version okr \<or> rk_state latest \<noteq> 1 \<or> rk_agreement_version latest \<noteq> rk_agreement_version okr
          \<or> rk_next_kr latest \<noteq> rk_next_kr okr
        then okE (say Paused (Some ''agreement_changed_before_delivery''))
        else bindE (awaitR (rn_getPolicy E (rk_id okr))) (\<lambda>policy.
          if \<not> policy_releases latest policy c then okE (say Paused (Some ''reviewed_policy_changed_before_delivery''))
          else bindE (deliverR E c) (\<lambda>delivered.
            if \<not> delivered then okE (say Awaiting_confirmation (Some ''delivery_outcome_unknown''))
            else after_delivery fuel E okr h c say))) w1 = (x, w')"
  note same1 = await_logs [OF latest]
  show ?thesis
  proof (cases "rk_version latest \<noteq> rk_version okr \<or> rk_state latest \<noteq> 1 \<or> rk_agreement_version latest \<noteq> rk_agreement_version okr
          \<or> rk_next_kr latest \<noteq> rk_next_kr okr")
    case True
    then have "w' = w1" using rest by (simp add: eff_pure)
    with same1 show ?thesis by simp
  next
    case unchanged: False
    show ?thesis
      using rest unfolding if_not_P [OF unchanged]
    proof (rule bindE_E)
      fix policy w2
      assume policy: "awaitR (rn_getPolicy E (rk_id okr)) w1 = (Inr policy, w2)"
        and rest: "(if \<not> policy_releases latest policy c then okE (say Paused (Some ''reviewed_policy_changed_before_delivery''))
          else bindE (deliverR E c) (\<lambda>delivered.
            if \<not> delivered then okE (say Awaiting_confirmation (Some ''delivery_outcome_unknown''))
            else after_delivery fuel E okr h c say)) w2 = (x, w')"
      note same2 = await_logs [OF policy]
      show ?thesis
      proof (cases "policy_releases latest policy c")
        case True
        then have "released E okr c (rw_out w)"
          using unchanged latest policy by (auto simp: released_def policy_releases_def json_is_def await_Inr split: option.split_asm)
        with True deliver_then [of E c _ fuel okr h say w2 x w'] rest same1 same2 show ?thesis by simp
      next
        case False
        then have "w' = w2" using rest by (simp add: eff_pure)
        with same1 same2 show ?thesis by simp
      qed
    qed (auto simp: same1 dest: await_logs)
  qed
qed (auto dest: await_logs)

section \<open>Following the Run\<close>

lemma decrypt_ok:
  assumes "decryptR E i w = (Inr (m, text), w')"
  shows "pc_organization_id m = rn_organizationId E"
  using assms by (auto simp: decryptR_def eff_oks elim!: bindE_okE)

lemma ticket_ok:
  assumes "ticketR E i name okr plan w = (Inr c, w')"
  obtains kr where "verifySignedNodeCommand (rn_hash E) (rn_keys E) c = Inr ()" "at_index (op_krs plan) (rk_next_kr okr) = Some kr"
    "ticket_matches okr plan kr c"
  using assms unfolding ticketR_def
  by (auto simp: eff_oks split: option.splits sum.splits prod.splits elim!: bindE_okE)

lemma run_answer_None:
  "run_answer E input run c fresh now = None \<longleftrightarrow>
     \<not> other_run E input run \<and> xr_state run \<notin> {1, 2, 3, 4, 5} \<and> now < sc_expires_at_ms c \<and> \<not> sx_prepareOnly input
     \<and> (fresh \<or> sx_releaseQueued input)"
  by (auto simp: run_answer_def)

lemma read_run_ok:
  assumes "readRun fuel E okr h c w = (Inr (Some run), w')"
  obtains runs where "execution_pages fuel E (rk_id okr) None [] w = (Inr runs, w')" "run \<in> set runs" "bytes_hex (xr_intent_hash run) = h"
    "xr_capability_id run = sc_capability_id c"
  using assms by (auto simp: readRun_def eff_oks dest!: find_SomeD [OF sym] elim!: bindE_okE)

lemma confirm_wait_ok:
  assumes "confirm_wait fuel E deadline m ok v w = (Inr v', w')" "ok v'"
  shows "v' = v \<and> w' = w \<or> (\<exists>u. m u = (Inr v', w'))"
  using assms
proof (induction fuel arbitrary: v w)
  case (Suc fuel)
  then show ?case by (fastforce simp: eff_oks split: if_split_asm elim!: bindE_okE)
qed (simp add: eff_oks)

text \<open>A confirmed value was read last: nothing was asked of the outside after it.\<close>

lemma confirm_ok:
  assumes "confirmRead fuel E m ok w = (Inr v, w')" "ok v"
  shows "\<exists>u. m u = (Inr v, w')"
  using assms by (auto simp: confirmRead_def elim!: bindE_okE dest!: confirm_wait_ok)

text \<open>The command is the approved work: the agreed plan's current key result, its files as the task, its paths and its budget of tool calls.\<close>

definition approved_work :: "runner_okr \<Rightarrow> okr_plan \<Rightarrow> signed_command \<Rightarrow> bool" where
  "approved_work okr plan c \<longleftrightarrow> (\<exists>kr context bounds measurement.
     at_index (op_krs plan) (rk_next_kr okr) = Some kr
     \<and> sc_action c = ''assign'' \<and> sc_scope c = ''control'' \<and> sc_organization_id c = rk_org_id okr \<and> sc_budget c = Some (''TOOL_CALLS'', kp_maxCalls kr)
     \<and> field (sc_payload c) ''okr'' = Some context \<and> sfield context ''id'' = Some (rk_id okr)
     \<and> sfield context ''agreement_version'' = Some (dec_string (rk_agreement_version okr)) \<and> sfield context ''kr_index'' = Some (dec_string (rk_next_kr okr))
     \<and> sfield (sc_payload c) ''task'' = Some (task_text (kp_files kr))
     \<and> field (sc_payload c) ''bounds'' = Some bounds
     \<and> stringify bounds = stringify (JObject [(''paths'', paths_json (op_paths plan)), (''max_calls'', JString (kp_maxCalls kr))])
     \<and> field (sc_payload c) ''measurement'' = Some measurement
     \<and> stringify measurement = stringify (JObject [(''kind'', JString ''verified_text_file_count'')]))"

lemma ticket_matches_work: "at_index (op_krs plan) (rk_next_kr okr) = Some kr \<Longrightarrow> ticket_matches okr plan kr c \<Longrightarrow> approved_work okr plan c"
  by (auto simp: ticket_matches_def approved_work_def json_is_def bounds_json_def measurement_json_def split: option.split_asm)

text \<open>
  A Run that may be delivered: queued (none of the states running, completed, failed, unknown or cancelled), the one that the caller reviewed, if any,
  unexpired at this time, made from the very fields of the command, and fresh from this step or released by the caller, who does not only prepare.
\<close>

definition due_run :: "('r, 't) runner_env \<Rightarrow> runner_input \<Rightarrow> runner_okr \<Rightarrow> signed_command \<Rightarrow> bool \<Rightarrow> runner_run \<Rightarrow> int \<Rightarrow> bool" where
  "due_run E input okr c fresh run now \<longleftrightarrow>
     xr_command_id run = sc_command_id c \<and> xr_delegate run = sc_signer c \<and> xr_node_id run = sc_node_id c
     \<and> sc_agent_id c = Some (xr_agent_id run) \<and> sc_budget c = Some (xr_budget_asset run, dec_string (xr_budget_amount run))
     \<and> xr_org_id run = rk_org_id okr \<and> xr_action run = sc_action c \<and> xr_scope run = sc_scope c \<and> xr_nonce run = sc_nonce c
     \<and> xr_idempotency_key run = sc_idempotency_key c \<and> xr_issued_at_ms run = sc_issued_at_ms c \<and> xr_expires_at_ms run = sc_expires_at_ms c
     \<and> xr_state run \<notin> {1, 2, 3, 4, 5} \<and> (\<forall>i. sx_expectedExecutionId input = Some i \<longrightarrow> rn_normalize E i = xr_id run)
     \<and> now < sc_expires_at_ms c \<and> \<not> sx_prepareOnly input \<and> (fresh \<or> sx_releaseQueued input)"

text \<open>
  What a delivery has been checked for, in the order in which it was read: the Run is on a page of the objective's executions, the time is read next,
  the objective and the policy right after it.
\<close>

definition licensed :: "nat \<Rightarrow> ('r, 't) runner_env \<Rightarrow> runner_input \<Rightarrow> runner_okr \<Rightarrow> okr_plan \<Rightarrow> string option \<Rightarrow> signed_command \<Rightarrow> bool" where
  "licensed fuel E input okr plan created c \<longleftrightarrow>
     verifySignedNodeCommand (rn_hash E) (rn_keys E) c = Inr () \<and> approved_work okr plan c
     \<and> (\<exists>h runs run now (u :: 'r rworld) u1 r2. nodeCommandIntentHash (rn_hash E) c = Inr h
          \<and> execution_pages fuel E (rk_id okr) None [] u = (Inr runs, u1) \<and> run \<in> set runs
          \<and> bytes_hex (xr_intent_hash run) = bytesToHex h \<and> xr_capability_id run = sc_capability_id c
          \<and> rn_now E (rw_out u1) = (now, r2) \<and> due_run E input okr c (created = Some (bytesToHex h)) run now
          \<and> released E okr c r2)"

lemma forget_run: "forget_unknown name w = (Inr (), w\<lparr>rw_unknown := AList.delete name (rw_unknown w)\<rparr>)"
  by (simp add: forget_unknown_def modifyE_def)

lemma settle_cases:
  assumes run: "settleRun fuel E input okr name (bytesToHex h) c fresh run say w = (x, w')"
  shows "rw_submits w' = rw_submits w \<and> rw_unknown w' = AList.delete name (rw_unknown w)
    \<and> (rw_deliveries w' = rw_deliveries w
       \<or> rw_deliveries w' = c # rw_deliveries w \<and> run_matches_ticket okr c run
         \<and> (\<exists>now r. rn_now E (rw_out w) = (now, r) \<and> run_answer E input run c fresh now = None \<and> released E okr c r))"
proof -
  let ?w = "w\<lparr>rw_unknown := AList.delete name (rw_unknown w)\<rparr>"
  from run have run: "bindE (assertE (run_matches_ticket okr c run) Run_differs) (\<lambda>_.
     bindE (if other_run E input run \<or> xr_state run \<in> {1, 2, 3, 4, 5} then okE 0 else nowR E) (\<lambda>now.
     case run_answer E input run c fresh now of
       Some (status, reason) \<Rightarrow> okE (say status reason)
     | None \<Rightarrow> releaseR fuel E okr (bytesToHex h) c say)) ?w = (x, w')"
    by (simp add: settleRun_def eff_run(7) forget_run)
  show ?thesis
  proof (cases "run_matches_ticket okr c run")
    case matches: True
    with run obtain m where m: "m = (if other_run E input run \<or> xr_state run \<in> {1, 2, 3, 4, 5} then okE 0 else nowR E)"
      and rest: "bindE m (\<lambda>now. case run_answer E input run c fresh now of
         Some (status, reason) \<Rightarrow> okE (say status reason) | None \<Rightarrow> releaseR fuel E okr (bytesToHex h) c say) ?w = (x, w')"
      by (simp add: eff_run(6,7) del: insert_iff)
    have quiet: "keeps unlogged m" by (auto simp: m)
    from rest show ?thesis
    proof (rule bindE_E)
      fix e
      assume "m ?w = (Inl e, w')"
      from keepsD [OF quiet this] show ?thesis by (simp add: unlogged_def)
    next
      fix now w1
      assume time: "m ?w = (Inr now, w1)"
        and rest: "(case run_answer E input run c fresh now of
          Some (status, reason) \<Rightarrow> okE (say status reason) | None \<Rightarrow> releaseR fuel E okr (bytesToHex h) c say) w1 = (x, w')"
      from keepsD [OF quiet time] have same: "unlogged ?w w1" .
      show ?thesis
      proof (cases "run_answer E input run c fresh now")
        case None
        with rest have "releaseR fuel E okr (bytesToHex h) c say w1 = (x, w')" by simp
        note release = release_cases [OF this]
        have "rn_now E (rw_out w) = (now, rw_out w1)"
          using time None by (auto simp: m run_answer_None nowR_def split: prod.split_asm)
        with release same matches None show ?thesis by (auto simp: unlogged_def)
      next
        case (Some a)
        with rest same show ?thesis by (auto simp: eff_pure unlogged_def split: prod.splits)
      qed
    qed
  qed (use run in \<open>auto simp: eff_run(6,7)\<close>)
qed

text \<open>The Run of a ticket was read: the ticket's command came from its record, and a Run with its fingerprint is on a page of the objective's executions.\<close>

definition run_found :: "nat \<Rightarrow> ('r, 't) runner_env \<Rightarrow> runner_okr \<Rightarrow> string \<Rightarrow> (string \<times> submission_status) list \<Rightarrow> bool" where
  "run_found fuel E okr name log \<longleftrightarrow> (\<exists>i plan c h runs run (v :: 'r rworld) v' (u :: 'r rworld) u'. ticketR E i name okr plan v = (Inr c, v')
     \<and> nodeCommandIntentHash (rn_hash E) c = Inr h \<and> execution_pages fuel E (rk_id okr) None [] u = (Inr runs, u') \<and> run \<in> set runs
     \<and> bytes_hex (xr_intent_hash run) = bytesToHex h \<and> xr_capability_id run = sc_capability_id c \<and> rw_submits u' = log)"

lemma follow_cases:
  assumes run: "followRun fuel E input okr name plan i created w = (x, w')"
  shows "rw_submits w' = rw_submits w
    \<and> (rw_unknown w' = rw_unknown w \<or> rw_unknown w' = AList.delete name (rw_unknown w) \<and> run_found fuel E okr name (rw_submits w'))
    \<and> (rw_deliveries w' = rw_deliveries w
       \<or> (\<exists>c. rw_deliveries w' = c # rw_deliveries w \<and> licensed fuel E input okr plan (map_option fst created) c))"
  using run unfolding followRun_def
proof (rule bindE_E)
  fix e
  assume "ticketR E i name okr plan w = (Inl e, w')"
  from keepsD [OF unlogged_ticket this] show ?thesis by (simp add: unlogged_def)
next
  fix c w1
  let ?read = "\<lambda>h. if created = None then readRun fuel E okr h c
            else confirmRead fuel E (readRun fuel E okr h c) (\<lambda>run. run \<noteq> None)"
  let ?say = "run_report okr i (map_option snd created)"
  assume ticket: "ticketR E i name okr plan w = (Inr c, w1)"
    and rest: "bindE (intentR E c) (\<lambda>h. bindE (?read h) (\<lambda>found. let detail = ?say in
       case found of None \<Rightarrow> okE (detail None Awaiting_confirmation (Some ''prepared_run_not_visible''))
       | Some run \<Rightarrow> settleRun fuel E input okr name h c (map_option fst created = Some h) run (detail (Some (xr_id run))))) w1 = (x, w')"
  have same: "unlogged w w1" by (rule keepsD [OF unlogged_ticket ticket])
  show ?thesis
  proof (cases "nodeCommandIntentHash (rn_hash E) c")
    case (Inl e)
    with rest same show ?thesis by (simp add: intentR_def eff_run(4,7) unlogged_def)
  next
    case (Inr h)
    let ?h = "bytesToHex h"
    have quiet: "keeps unlogged (?read ?h)" by auto
    from rest Inr have "bindE (?read ?h) (\<lambda>found. let detail = ?say in
       case found of None \<Rightarrow> okE (detail None Awaiting_confirmation (Some ''prepared_run_not_visible''))
       | Some run \<Rightarrow> settleRun fuel E input okr name ?h c (map_option fst created = Some ?h) run (detail (Some (xr_id run)))) w1 = (x, w')"
      by (simp add: intentR_def eff_run(4,7))
    then show ?thesis
    proof (rule bindE_E)
      fix e
      assume "?read ?h w1 = (Inl e, w')"
      from keepsD [OF quiet this] same show ?thesis by (simp add: unlogged_def)
    next
      fix found w2
      assume found: "?read ?h w1 = (Inr found, w2)"
        and rest: "(let detail = ?say in case found of None \<Rightarrow> okE (detail None Awaiting_confirmation (Some ''prepared_run_not_visible''))
       | Some run \<Rightarrow> settleRun fuel E input okr name ?h c (map_option fst created = Some ?h) run (detail (Some (xr_id run)))) w2 = (x, w')"
      have same: "unlogged w w2" using same keepsD [OF quiet found] by (simp add: unlogged_def)
      show ?thesis
      proof (cases found)
        case None
        with rest same show ?thesis by (simp add: eff_pure unlogged_def)
      next
        case (Some run)
        obtain u where "readRun fuel E okr ?h c u = (Inr (Some run), w2)"
          using found Some by (auto dest: confirm_ok split: if_split_asm)
        then obtain runs where read: "execution_pages fuel E (rk_id okr) None [] u = (Inr runs, w2)" "run \<in> set runs"
          "bytes_hex (xr_intent_hash run) = ?h" "xr_capability_id run = sc_capability_id c" by (rule read_run_ok)
        have seen: "run_found fuel E okr name (rw_submits w)"
          using ticket Inr read same unfolding run_found_def unlogged_def by metis
        obtain kr where work: "verifySignedNodeCommand (rn_hash E) (rn_keys E) c = Inr ()" "approved_work okr plan c"
          using ticket by (elim ticket_ok) (blast dest: ticket_matches_work)
        from rest Some have "settleRun fuel E input okr name ?h c (map_option fst created = Some ?h) run (?say (Some (xr_id run))) w2 = (x, w')"
          by simp
        from settle_cases [OF this] consider "rw_submits w' = rw_submits w2" "rw_unknown w' = AList.delete name (rw_unknown w2)" "rw_deliveries w' = rw_deliveries w2"
          | now r where "rw_submits w' = rw_submits w2" "rw_unknown w' = AList.delete name (rw_unknown w2)" "rw_deliveries w' = c # rw_deliveries w2"
              "run_matches_ticket okr c run" "rn_now E (rw_out w2) = (now, r)"
              "run_answer E input run c (map_option fst created = Some ?h) now = None" "released E okr c r" by blast
        then show ?thesis
        proof cases
          case 2
          have "due_run E input okr c (map_option fst created = Some ?h) run now"
            using 2(4,6) by (auto simp: due_run_def run_matches_ticket_def run_answer_None other_run_def)
          then have "licensed fuel E input okr plan (map_option fst created) c"
            using work Inr read 2(5,7) unfolding licensed_def by blast
          then show ?thesis using 2(1-3) same seen by (auto simp: unlogged_def)
        qed (use same seen in \<open>auto simp: unlogged_def\<close>)
      qed
    qed
  qed
qed

section \<open>Creating a ticket\<close>

text \<open>Every approval fact is what a read of the chain returned.\<close>

definition facts_read :: "('r, 't) runner_env \<Rightarrow> runner_input \<Rightarrow> runner_okr \<Rightarrow> approval_facts \<Rightarrow> bool" where
  "facts_read E input okr f \<longleftrightarrow>
     (\<exists>r. fst (rn_getManagedAgent E (the (rk_managed_agent okr)) r) = Inr (af_managed f))
     \<and> (\<exists>r. fst (rn_getMembership E (the (rk_membership_id okr)) r) = Inr (af_member f))
     \<and> (\<exists>r. fst (rn_getCapability E (sx_capabilityId input) r) = Inr (af_capability f))
     \<and> (\<exists>r. fst (rn_getAuthorityBinding E (sx_capabilityId input) r) = Inr (af_binding f))
     \<and> (\<exists>r. fst (rn_getContract E (sx_capabilityId input) r) = Inr (af_contract f))
     \<and> (\<exists>r. fst (rn_getBudget E (rk_id okr) r) = Inr (af_budget f))
     \<and> (\<exists>r. fst (rn_getPolicy E (rk_id okr) r) = Inr (af_policy f))"

definition approved :: "('r, 't) runner_env \<Rightarrow> runner_input \<Rightarrow> runner_okr \<Rightarrow> okr_plan \<Rightarrow> approval_facts \<Rightarrow> bool" where
  "approved E input okr plan f \<longleftrightarrow> facts_read E input okr f
     \<and> (\<exists>kr. at_index (op_krs plan) (rk_next_kr okr) = Some kr \<and> approval_missing E okr f (dec_value (kp_maxCalls kr)) = None)"

lemma elseE_ok:
  assumes "elseE m f w = (Inr (Inr b), w')"
  obtains a w1 where "m w = (Inr (Inr a), w1)" "f a w1 = (Inr (Inr b), w')"
  using assms by (auto simp: elseE_def eff_oks split: sum.splits elim!: bindE_okE)

lemma elseE_E:
  assumes "elseE m f w = (r, w')"
  obtains e where "m w = (Inl e, w')" "r = Inl e" | d where "m w = (Inr (Inl d), w')" "r = Inr (Inl d)"
    | a w1 where "m w = (Inr (Inr a), w1)" "f a w1 = (r, w')"
  using assms unfolding elseE_def by (elim bindE_E) (auto simp: eff_pure split: sum.splits)

lemma bind_pair: "bindE m (\<lambda>a. bindE (f a) (g a)) = bindE (bindE m (\<lambda>a. bindE (f a) (\<lambda>b. okE (a, b)))) (\<lambda>(a, b). g a b)"
  by (auto simp: fun_eq_iff bindE_def okE_def split: prod.splits sum.splits)

lemma whenE_ok: "whenE c y w = (Inr (Inr u), w') \<longleftrightarrow> \<not> c \<and> w' = w"
  by (auto simp: whenE_def eff_oks)

lemma facts_ok:
  assumes "approvalR E input okr w = (Inr f, w')"
  shows "facts_read E input okr f"
  using assms by (auto simp: approvalR_def facts_read_def eff_oks dest!: await_ok split: if_split_asm elim!: bindE_okE)

lemma authorize_ok:
  assumes "authorizeR E input okr k plan w = (Inr (Inr (c, f)), w')"
  shows "approved E input okr plan f"
  using assms unfolding authorizeR_def
proof (rule bindE_okE)
  fix g w1
  assume "approvalR E input okr w = (Inr g, w1)"
  then have "facts_read E input okr g" by (rule facts_ok)
  moreover assume "bindE (nowR E) (\<lambda>now. case at_index (op_krs plan) (rk_next_kr okr) of None \<Rightarrow> throwE Runner_outside
     | Some kr \<Rightarrow>
         elseE (okE (case approval_missing E okr g (dec_value (kp_maxCalls kr)) of
                  Some reason \<Rightarrow> Inl (report okr Awaiting_approval (Some reason)) | None \<Rightarrow> Inr ())) (\<lambda>_.
         elseE (whenE (command_expiry okr g now \<le> now) (report okr Awaiting_approval (Some ''execution_authority_expired''))) (\<lambda>_.
         bindE (signR E (assign_input okr plan kr g now)) (\<lambda>command.
         bindE (awaitR (rn_getOkr E (rk_id okr))) (\<lambda>latest.
         elseE (whenE (rk_state latest \<noteq> 1 \<or> rk_version latest \<noteq> rk_version okr \<or> rk_agreement_version latest \<noteq> rk_agreement_version okr
                   \<or> rk_agreement_record latest \<noteq> rk_agreement_record okr \<or> rk_next_kr latest \<noteq> k)
                 (report okr Paused (Some ''agreement_changed_during_planning''))) (\<lambda>_.
         bindE (awaitR (rn_getPolicy E (rk_id okr))) (\<lambda>policy.
         elseE (whenE (stringify (policy_json policy) \<noteq> stringify (policy_json (af_policy g)))
                 (report okr Paused (Some ''reviewed_policy_changed_during_signing''))) (\<lambda>_.
         okE (Inr (command, g)))))))))) w1 = (Inr (Inr (c, f)), w')"
  ultimately show ?thesis
    by (auto simp: approved_def eff_oks whenE_ok split: option.splits if_split_asm elim!: bindE_okE elseE_ok)
qed

text \<open>Submitting, whatever comes of it.\<close>

definition remembered :: "string \<Rightarrow> submission \<Rightarrow> (string \<times> string option \<times> bool) list \<Rightarrow> (string \<times> string option \<times> bool) list \<Rightarrow> bool" where
  "remembered name s u u' \<longleftrightarrow>
     map_of u' = (map_of u)(name := if sb_status s = Sub_rejected then None else Some (sb_digest s, sb_status s = Sub_confirmed))"

lemma submit_logs:
  assumes run: "submitR E name tx w = (x, w')"
  obtains s :: submission where "x = Inr s" "rw_submits w' = (name, sb_status s) # rw_submits w" "rw_deliveries w' = rw_deliveries w"
    "remembered name s (rw_unknown w) (rw_unknown w')"
proof -
  let ?attempt = "catchE (awaitR (rn_submit E tx name)) (\<lambda>_. okE \<lparr>sb_status = Sub_unknown, sb_digest = None, sb_reason = None\<rparr>)"
  let ?w = "w\<lparr>rw_unknown := AList.update name (None, False) (rw_unknown w)\<rparr>"
  obtain s :: submission and w1 where attempt: "?attempt ?w = (Inr s, w1)"
    by (cases "?attempt ?w") (auto simp: eff_run catchE_eq okE_eq split: sum.splits prod.splits)
  have quiet: "keeps unlogged ?attempt" by blast
  have same: "unlogged ?w w1" by (rule keepsD [OF quiet attempt])
  from run have "x = Inr s" "rw_submits w' = (name, sb_status s) # rw_submits w1" "rw_deliveries w' = rw_deliveries w1"
    "rw_unknown w' = (if sb_status s = Sub_rejected then AList.delete name else id)
       (AList.update name (sb_digest s, sb_status s = Sub_confirmed) (rw_unknown w1))"
    by (auto simp: submitR_def set_unknown_def forget_unknown_def eff_run(1,5,7) attempt split: if_split_asm)
  with same show ?thesis
    by (intro that) (auto simp: unlogged_def remembered_def delete_conv fun_upd_def)
qed

lemma publish_cases:
  assumes run: "publishTicket fuel E okr name tx h w = (x, w')"
  obtains s :: submission where "rw_submits w' = (name, sb_status s) # rw_submits w" "rw_deliveries w' = rw_deliveries w"
    "remembered name s (rw_unknown w) (rw_unknown w')"
proof -
  from run show ?thesis unfolding publishTicket_def
  proof (rule bindE_E)
    fix e
    assume "submitR E name tx w = (Inl e, w')"
    then show ?thesis by (elim submit_logs) simp
  next
    fix s :: submission and w1
    let ?look = "if sb_status s = Sub_confirmed then confirmRead fuel E (directoryR fuel E name) (\<lambda>d. present (td_ticketId d))
            else directoryR fuel E name"
    assume sent: "submitR E name tx w = (Inr s, w1)"
      and rest: "bindE ?look (\<lambda>d'. if present (td_ticketId d') then okE (Inr (d', h, s))
          else bindE (if sb_status s = Sub_rejected then forget_unknown name else okE ()) (\<lambda>_. okE (Inl (submission_report okr s)))) w1 = (x, w')"
    have quiet: "keeps unlogged ?look" by auto
    from rest have "unlogged w1 w' \<or> (sb_status s = Sub_rejected \<and> unlogged (w1\<lparr>rw_unknown := AList.delete name (rw_unknown w1)\<rparr>) w')"
    proof (rule bindE_E)
      fix d w2
      assume "?look w1 = (Inr d, w2)" and rest: "(if present (td_ticketId d) then okE (Inr (d, h, s))
          else bindE (if sb_status s = Sub_rejected then forget_unknown name else okE ()) (\<lambda>_. okE (Inl (submission_report okr s)))) w2 = (x, w')"
      then have "unlogged w1 w2" by (auto intro: keepsD [OF quiet])
      with rest show ?thesis
        by (auto simp: eff_pure eff_run(1,7) forget_run unlogged_def split: if_split_asm)
    qed (auto intro: keepsD [OF quiet])
    with sent show ?thesis
      by (elim submit_logs, intro that [of s]) (auto simp: unlogged_def remembered_def delete_conv fun_eq_iff)
  qed
qed

lemma create_cases:
  assumes run: "createTicket fuel E input okr k name d plan w = (x, w')"
  shows "rw_deliveries w' = rw_deliveries w
    \<and> (rw_submits w' = rw_submits w \<and> rw_unknown w' = rw_unknown w \<and> (\<forall>t. x \<noteq> Inr (Inr t))
       \<or> (\<exists>(s :: submission) f. rw_submits w' = (name, sb_status s) # rw_submits w \<and> remembered name s (rw_unknown w) (rw_unknown w')
            \<and> approved E input okr plan f))"
proof -
  let ?pre = "\<lambda>c f. bindE (composeR E input okr name d c f) (\<lambda>tx. bindE (intentR E c) (\<lambda>h. okE (tx, h)))"
  have quiet: "keeps unlogged (?pre c f)" for c f by blast
  from run have "elseE (authorizeR E input okr k plan) (\<lambda>(c, f). bindE (?pre c f) (\<lambda>(tx, h). publishTicket fuel E okr name tx h)) w = (x, w')"
    unfolding createTicket_def by (subst (asm) bind_pair)
  then consider e where "authorizeR E input okr k plan w = (Inl e, w')" "x = Inl e"
    | r where "authorizeR E input okr k plan w = (Inr (Inl r), w')" "x = Inr (Inl r)"
    | c f w1 where "authorizeR E input okr k plan w = (Inr (Inr (c, f)), w1)"
        "bindE (?pre c f) (\<lambda>(tx, h). publishTicket fuel E okr name tx h) w1 = (x, w')"
    by (elim elseE_E) auto
  then show ?thesis
  proof cases
    case (3 c f w1)
    have ok: "approved E input okr plan f" by (rule authorize_ok [OF 3(1)])
    have same: "unlogged w w1" by (rule keepsD [OF unlogged_approval(2) 3(1)])
    from 3(2) show ?thesis
    proof (rule bindE_E)
      fix e
      assume "?pre c f w1 = (Inl e, w')" "x = Inl e"
      with keepsD [OF quiet this(1)] same show ?thesis by (simp add: unlogged_def)
    next
      fix a w2
      assume pre: "?pre c f w1 = (Inr a, w2)" and rest: "(case a of (tx, h) \<Rightarrow> publishTicket fuel E okr name tx h) w2 = (x, w')"
      obtain tx h where a: "a = (tx, h)" by (cases a)
      from rest a have "publishTicket fuel E okr name tx h w2 = (x, w')" by simp
      then show ?thesis
        by (rule publish_cases) (use same keepsD [OF quiet pre] ok in \<open>auto simp: unlogged_def\<close>)
    qed
  qed (auto dest!: keepsD [OF unlogged_approval(2)] simp: unlogged_def)
qed

section \<open>One step\<close>

text \<open>The objective and the plan that a step works on.\<close>

definition entered :: "('r, 't) runner_env \<Rightarrow> runner_input \<Rightarrow> 'r rworld \<Rightarrow> runner_okr \<Rightarrow> okr_plan \<Rightarrow> bool" where
  "entered E input w okr plan \<longleftrightarrow>
     (\<exists>base r. rn_getOkr E (sx_okrId input) (rw_out w) = (Inr base, r) \<and> okr = scheduled_okr input base
        \<and> (sx_expectedAgreementVersion input = None \<or> sx_expectedAgreementVersion input = Some (dec_string (rk_agreement_version base)))
        \<and> (sx_expectedKrIndex input = None \<or> sx_expectedKrIndex input = Some (dec_string (rk_next_kr base)))
        \<and> (\<forall>s. sx_scheduledKrIndex input = Some s \<longrightarrow> sx_prepareOnly input \<and> \<not> sx_releaseQueued input
             \<and> rk_next_kr base \<le> dec_value s \<and> dec_value s < int (length (rk_metrics base))))
     \<and> rk_org_id okr = rn_organizationId E \<and> rk_state okr = 1
     \<and> length (op_krs plan) = length (rk_metrics okr)
     \<and> list_all2 (\<lambda>kr m. mt_baseline m = 0 \<and> mt_target m = int (length (kp_files kr))) (op_krs plan) (rk_metrics okr)
     \<and> map_option bytesToHex (plan_hash (rn_hash E) plan) = Some (bytes_hex (rk_boundary_hash okr))"

lemma lifecycle_None: "lifecycle E okr w = (Inr None, w') \<Longrightarrow> rk_state okr = 1"
  by (auto simp: lifecycle_def eff_oks split: if_split_asm)

lemma entry_ok:
  assumes "entryR E input w = (Inr (Inr (okr, k)), w')"
  obtains base r where "rn_getOkr E (sx_okrId input) (rw_out w) = (Inr base, r)" "okr = scheduled_okr input base" "\<not> invalid_schedule input base"
    "\<not> context_changed input base" "rk_org_id okr = rn_organizationId E" "rk_state okr = 1"
proof -
  from assms obtain base w1 w2 where base: "awaitR (rn_getOkr E (sx_okrId input)) w = (Inr base, w1)"
    and more: "\<not> invalid_schedule input base" "\<not> context_changed input base" "rk_org_id base = rn_organizationId E"
      "okr = scheduled_okr input base" "lifecycle E okr w2 = (Inr None, w')"
    unfolding entryR_def by (auto simp: eff_oks whenE_ok Let_def split: option.splits elim!: bindE_okE elseE_ok)
  moreover have "rk_org_id (scheduled_okr input base) = rk_org_id base" by (simp add: scheduled_okr_def split: option.split)
  ultimately show ?thesis using base lifecycle_None [OF more(5)] that unfolding await_Inr by metis
qed

lemma plan_ok:
  assumes "planR E okr w = (Inr plan, w')"
  shows "length (op_krs plan) = length (rk_metrics okr) \<and> plan_measures plan (rk_metrics okr)
    \<and> map_option bytesToHex (plan_hash (rn_hash E) plan) = Some (bytes_hex (rk_boundary_hash okr))"
  using assms unfolding planR_def
  by (auto simp: eff_oks split: if_split_asm option.splits prod.splits elim!: bindE_okE)

text \<open>Nothing is recorded under the name of the ticket.\<close>

definition nothing_recorded :: "('r, 't) runner_env \<Rightarrow> runner_input \<Rightarrow> string \<Rightarrow> (string \<times> string option \<times> bool) list \<Rightarrow> bool" where
  "nothing_recorded E input name unknown \<longleftrightarrow> map_of unknown name = None \<and> sx_expectedExecutionId input = None \<and> sx_createIfMissing input
     \<and> (case rn_querySubmission E of None \<Rightarrow> True | Some ask \<Rightarrow> \<exists>r. fst (ask name r) = Inr None)"

lemma prior_ok:
  assumes "priorR E okr name w = (Inr (Inr prior), w')"
  shows "case rn_querySubmission E of None \<Rightarrow> prior = None | Some ask \<Rightarrow> \<exists>r. fst (ask name r) = Inr prior"
  using assms by (auto simp: priorR_def eff_oks catchE_eq dest!: await_ok split: option.splits elim!: bindE_okE)

lemma absent_ok:
  assumes "absentR input okr name prior w = (Inr (Inr u), w')"
  shows "prior = None \<and> map_of (rw_unknown w) name = None \<and> sx_expectedExecutionId input = None \<and> sx_createIfMissing input"
  using assms by (auto simp: absentR_def eff_oks split: option.splits if_split_asm elim!: bindE_okE)

abbreviation ticket_of :: "runner_okr \<Rightarrow> string" where
  "ticket_of okr \<equiv> ticket_name (rk_id okr) (rk_agreement_version okr) (rk_next_kr okr)"

definition pursued :: "nat \<Rightarrow> ('r, 't) runner_env \<Rightarrow> runner_input \<Rightarrow> runner_okr \<Rightarrow> okr_plan \<Rightarrow> 'r rworld \<Rightarrow> 'r rworld \<Rightarrow> bool" where
  "pursued fuel E input okr plan w w' \<longleftrightarrow>
     (\<exists>i y. followRun fuel E input okr (ticket_of okr) plan i None w = (y, w'))
     \<or> nothing_recorded E input (ticket_of okr) (rw_unknown w)
       \<and> (\<exists>k d y w2. createTicket fuel E input okr k (ticket_of okr) d plan w = (y, w2)
            \<and> (w' = w2 \<and> (\<forall>t. y \<noteq> Inr (Inr t)) \<or> (\<exists>i d' h s z. y = Inr (Inr (d', h, s))
                 \<and> followRun fuel E input okr (ticket_of okr) plan i (Some (h, s)) w2 = (z, w'))))"

lemma bind_last: "bindE m (\<lambda>r. okE (g r)) w = (x, w') \<Longrightarrow> \<exists>y. m w = (y, w')"
  by (auto simp: bindE_eq okE_eq)

lemma pursue_cases:
  assumes run: "pursueR fuel E input okr k (ticket_of okr) prior d w = (x, w')"
    and prior: "case rn_querySubmission E of None \<Rightarrow> prior = None | Some ask \<Rightarrow> \<exists>r. fst (ask (ticket_of okr) r) = Inr prior"
  obtains "unlogged w w'"
  | plan w1 u where "unlogged w w1" "planR E okr u = (Inr plan, w1)" "pursued fuel E input okr plan w1 w'"
proof (cases "present (td_ticketId d)")
  case True
  with run have "bindE (planR E okr) (\<lambda>plan.
          bindE (followRun fuel E input okr (ticket_of okr) plan (the (td_ticketId d)) None) (\<lambda>r. okE (Inr r))) w = (x, w')"
    by (simp add: pursueR_def)
  then show ?thesis
  proof (rule bindE_E)
    fix plan w1
    assume plan: "planR E okr w = (Inr plan, w1)"
      and "bindE (followRun fuel E input okr (ticket_of okr) plan (the (td_ticketId d)) None) (\<lambda>r. okE (Inr r)) w1 = (x, w')"
    then have "pursued fuel E input okr plan w1 w'" unfolding pursued_def by (blast dest: bind_last)
    with keepsD [OF unlogged_plan plan] plan show ?thesis by (rule that(2))
  qed (auto intro: that(1) keepsD [OF unlogged_plan])
next
  case False
  with run have "elseE (absentR input okr (ticket_of okr) prior) (\<lambda>_. bindE (planR E okr) (\<lambda>plan.
          elseE (createTicket fuel E input okr k (ticket_of okr) d plan) (\<lambda>(d', h, s).
          bindE (followRun fuel E input okr (ticket_of okr) plan (the (td_ticketId d')) (Some (h, s))) (\<lambda>r. okE (Inr r))))) w = (x, w')"
    by (simp add: pursueR_def)
  then show ?thesis
  proof (rule elseE_E)
    fix u w1
    assume absent: "absentR input okr (ticket_of okr) prior w = (Inr (Inr u), w1)"
      and rest: "bindE (planR E okr) (\<lambda>plan. elseE (createTicket fuel E input okr k (ticket_of okr) d plan) (\<lambda>(d', h, s).
          bindE (followRun fuel E input okr (ticket_of okr) plan (the (td_ticketId d')) (Some (h, s))) (\<lambda>r. okE (Inr r)))) w1 = (x, w')"
    have same1: "unlogged w w1" by (rule keepsD [OF unlogged_entry(4) absent])
    from rest show ?thesis
    proof (rule bindE_E)
      fix plan w2
      assume plan: "planR E okr w1 = (Inr plan, w2)"
        and rest: "elseE (createTicket fuel E input okr k (ticket_of okr) d plan) (\<lambda>(d', h, s).
          bindE (followRun fuel E input okr (ticket_of okr) plan (the (td_ticketId d')) (Some (h, s))) (\<lambda>r. okE (Inr r))) w2 = (x, w')"
      have same: "unlogged w w2" using same1 keepsD [OF unlogged_plan plan] by (simp add: unlogged_def)
      have "nothing_recorded E input (ticket_of okr) (rw_unknown w2)"
        using absent_ok [OF absent] prior same by (auto simp: nothing_recorded_def unlogged_def split: option.splits)
      moreover from rest have "\<exists>y w3. createTicket fuel E input okr k (ticket_of okr) d plan w2 = (y, w3)
            \<and> (w' = w3 \<and> (\<forall>t. y \<noteq> Inr (Inr t)) \<or> (\<exists>i d' h s z. y = Inr (Inr (d', h, s))
                 \<and> followRun fuel E input okr (ticket_of okr) plan i (Some (h, s)) w3 = (z, w')))"
        by (rule elseE_E) (fastforce dest: bind_last split: prod.splits)+
      ultimately have "pursued fuel E input okr plan w2 w'" unfolding pursued_def by blast
      with same plan show ?thesis by (rule that(2))
    qed (use same1 in \<open>auto intro!: that(1) dest!: keepsD [OF unlogged_plan] simp: unlogged_def\<close>)
  qed (auto intro: that(1) keepsD [OF unlogged_entry(4)])
qed

lemma advance_cases:
  assumes run: "advance fuel E input w = (x, w')"
  obtains "unlogged w w'"
  | okr plan w1 where "entered E input w okr plan" "unlogged w w1" "pursued fuel E input okr plan w1 w'"
proof -
  let ?search = "\<lambda>okr k. elseE (priorR E okr (ticket_of okr)) (\<lambda>prior.
       elseE (lookupR fuel E okr (ticket_of okr) prior) (\<lambda>d. pursueR fuel E input okr k (ticket_of okr) prior d))"
  from run obtain y where "elseE (entryR E input) (\<lambda>(okr, k). ?search okr k) w = (y, w')"
    unfolding advance_def Let_def by (auto dest: bind_last)
  then show ?thesis
  proof (rule elseE_E)
    fix a w1
    assume entry: "entryR E input w = (Inr (Inr a), w1)" and rest: "(case a of (okr, k) \<Rightarrow> ?search okr k) w1 = (y, w')"
    obtain okr k where a: "a = (okr, k)" by (cases a)
    have same1: "unlogged w w1" by (rule keepsD [OF unlogged_entry(1) entry])
    from rest a have "?search okr k w1 = (y, w')" by simp
    then show ?thesis
    proof (rule elseE_E)
      fix prior w2
      assume prior: "priorR E okr (ticket_of okr) w1 = (Inr (Inr prior), w2)"
        and rest: "elseE (lookupR fuel E okr (ticket_of okr) prior) (\<lambda>d. pursueR fuel E input okr k (ticket_of okr) prior d) w2 = (y, w')"
      have same2: "unlogged w w2" using same1 keepsD [OF unlogged_entry(2) prior] by (simp add: unlogged_def)
      from rest show ?thesis
      proof (rule elseE_E)
        fix d w3
        assume look: "lookupR fuel E okr (ticket_of okr) prior w2 = (Inr (Inr d), w3)"
          and rest: "pursueR fuel E input okr k (ticket_of okr) prior d w3 = (y, w')"
        have same3: "unlogged w w3" using same2 keepsD [OF unlogged_entry(3) look] by (simp add: unlogged_def)
        from rest prior_ok [OF prior] show ?thesis
        proof (rule pursue_cases)
          fix plan w4 u
          assume more: "unlogged w3 w4" "planR E okr u = (Inr plan, w4)" "pursued fuel E input okr plan w4 w'"
          have "entered E input w okr plan"
            using entry plan_ok [OF more(2)] unfolding entered_def a
            by (elim entry_ok) (auto simp: context_changed_def invalid_schedule_def plan_measures_def split: option.split_asm)
          moreover have "unlogged w w4" using same3 more(1) by (simp add: unlogged_def)
          ultimately show ?thesis using more(3) by (rule that(2))
        qed (use same3 in \<open>auto intro!: that(1) simp: unlogged_def\<close>)
      qed (use same2 in \<open>auto intro!: that(1) dest!: keepsD [OF unlogged_entry(3)] simp: unlogged_def\<close>)
    qed (use same1 in \<open>auto intro!: that(1) dest!: keepsD [OF unlogged_entry(2)] simp: unlogged_def\<close>)
  qed (auto intro: that(1) keepsD [OF unlogged_entry(1)])
qed

lemma pursued_logs:
  assumes "pursued fuel E input okr plan w w'"
  shows "(rw_submits w' = rw_submits w \<and> (rw_unknown w' = rw_unknown w
            \<or> rw_unknown w' = AList.delete (ticket_of okr) (rw_unknown w) \<and> run_found fuel E okr (ticket_of okr) (rw_submits w'))
          \<or> (\<exists>(s :: submission) f. rw_submits w' = (ticket_of okr, sb_status s) # rw_submits w \<and> approved E input okr plan f
               \<and> nothing_recorded E input (ticket_of okr) (rw_unknown w)
               \<and> (remembered (ticket_of okr) s (rw_unknown w) (rw_unknown w')
                 \<or> map_of (rw_unknown w') (ticket_of okr) = None \<and> (\<forall>n. n \<noteq> ticket_of okr \<longrightarrow> map_of (rw_unknown w') n = map_of (rw_unknown w) n)
                   \<and> run_found fuel E okr (ticket_of okr) (rw_submits w'))))
      \<and> (rw_deliveries w' = rw_deliveries w
         \<or> (\<exists>c created. rw_deliveries w' = c # rw_deliveries w \<and> licensed fuel E input okr plan created c
              \<and> (created \<noteq> None \<longrightarrow> rw_submits w' \<noteq> rw_submits w)))"
proof -
  from assms consider i y where "followRun fuel E input okr (ticket_of okr) plan i None w = (y, w')"
    | k d y where "nothing_recorded E input (ticket_of okr) (rw_unknown w)"
        "createTicket fuel E input okr k (ticket_of okr) d plan w = (y, w')" "\<forall>t. y \<noteq> Inr (Inr t)"
    | k d w2 i d' h s z where "nothing_recorded E input (ticket_of okr) (rw_unknown w)"
        "createTicket fuel E input okr k (ticket_of okr) d plan w = (Inr (Inr (d', h, s)), w2)"
        "followRun fuel E input okr (ticket_of okr) plan i (Some (h, s)) w2 = (z, w')"
    unfolding pursued_def by blast
  then show ?thesis
  proof cases
    case 1
    from follow_cases [OF this] show ?thesis by auto
  next
    case 2
    from create_cases [OF 2(2)] 2(1) show ?thesis by blast
  next
    case 3
    from create_cases [OF 3(2)] obtain sub :: submission and f where
      sub: "rw_submits w2 = (ticket_of okr, sb_status sub) # rw_submits w" "remembered (ticket_of okr) sub (rw_unknown w) (rw_unknown w2)"
        "approved E input okr plan f" "rw_deliveries w2 = rw_deliveries w" by blast
    note follow = follow_cases [OF 3(3)]
    then have sent: "rw_submits w' = (ticket_of okr, sb_status sub) # rw_submits w" using sub(1) by simp
    have "remembered (ticket_of okr) sub (rw_unknown w) (rw_unknown w')
      \<or> map_of (rw_unknown w') (ticket_of okr) = None \<and> (\<forall>n. n \<noteq> ticket_of okr \<longrightarrow> map_of (rw_unknown w') n = map_of (rw_unknown w) n)
        \<and> run_found fuel E okr (ticket_of okr) (rw_submits w')"
      using follow sub(2) by (auto simp: remembered_def delete_conv)
    moreover have "rw_deliveries w' = rw_deliveries w \<or> (\<exists>c created. rw_deliveries w' = c # rw_deliveries w
        \<and> licensed fuel E input okr plan created c \<and> (created \<noteq> None \<longrightarrow> rw_submits w' \<noteq> rw_submits w))"
      using follow sub(4) sent by auto
    ultimately show ?thesis using sent sub(3) 3(1) by blast
  qed
qed

section \<open>Properties\<close>

text \<open>
  C19. A step delivers at most one command, and only an approved one: its signature verifies; it carries exactly the work, bounds and tool-call
  budget of the current key result of the plan whose hash is the boundary hash of the objective that the step read first; its Run was read on a page of the objective's
  executions, with the same fields, queued, and the one that the caller expected, if any; the time read next was before its expiry; and the
  agreement and the policy read right after that still permitted it. A step that only prepares delivers nothing; a ticket that this step did not
  submit is delivered only when the caller releases it.
\<close>

theorem step_delivers_approved_work:
  assumes step: "advance fuel E input w = (x, w')" and delivered: "rw_deliveries w' \<noteq> rw_deliveries w"
  shows "\<exists>c okr plan created. rw_deliveries w' = c # rw_deliveries w \<and> entered E input w okr plan \<and> licensed fuel E input okr plan created c
    \<and> \<not> sx_prepareOnly input \<and> sx_scheduledKrIndex input = None \<and> (sx_releaseQueued input \<or> rw_submits w' \<noteq> rw_submits w)"
  using step
proof (rule advance_cases)
  fix okr plan w1
  assume entered: "entered E input w okr plan" and same: "unlogged w w1" and more: "pursued fuel E input okr plan w1 w'"
  from pursued_logs [OF more] delivered same obtain c created where c: "rw_deliveries w' = c # rw_deliveries w"
    "licensed fuel E input okr plan created c" "created \<noteq> None \<longrightarrow> rw_submits w' \<noteq> rw_submits w"
    by (auto simp: unlogged_def)
  from c(2) obtain run h now where due: "due_run E input okr c (created = Some (bytesToHex h)) run now"
    unfolding licensed_def by blast
  then have "\<not> sx_prepareOnly input" "sx_releaseQueued input \<or> created \<noteq> None" by (auto simp: due_run_def)
  moreover from this(1) have "sx_scheduledKrIndex input = None" using entered by (auto simp: entered_def)
  ultimately show ?thesis using c entered by blast
qed (use delivered in \<open>simp add: unlogged_def\<close>)

theorem step_delivers_approved_work_witness:
  "\<exists>x w' c okr plan created. advance 3 desk_env desk_input desk_world = (Inr x, w') \<and> rw_deliveries w' = [c]
     \<and> licensed 3 desk_env desk_input okr plan created c"
proof -
  obtain c x where run: "advance 3 desk_env desk_input desk_world = (Inr x, desk_at c True [] [(desk_name, Sub_confirmed)] [c])" by (rule desk_step)
  have "rw_deliveries (desk_at c True [] [(desk_name, Sub_confirmed)] [c]) \<noteq> rw_deliveries desk_world" by (simp add: desk_at_def desk_world_def)
  from step_delivers_approved_work [OF run this] run show ?thesis by (auto simp: desk_at_def desk_world_def)
qed

text \<open>
  A step submits at most one transaction, and only as asked: the caller asked for a ticket to be created and
  expected no existing execution; neither the journal nor this object knows of an earlier submission under the
  ticket's name; and every reviewed fact read from the chain (assignment, capability, contract, device, policy,
  uses and both budgets, with the calls of this key result added) permits it. Afterwards the name is remembered unless the transaction was rejected or its Run has been read.
\<close>

theorem step_submits_once:
  assumes step: "advance fuel E input w = (x, w')" and submitted: "rw_submits w' \<noteq> rw_submits w"
  shows "\<exists>okr plan f (s :: submission). rw_submits w' = (ticket_of okr, sb_status s) # rw_submits w \<and> entered E input w okr plan
    \<and> approved E input okr plan f \<and> sx_createIfMissing input \<and> nothing_recorded E input (ticket_of okr) (rw_unknown w)
    \<and> (map_of (rw_unknown w') (ticket_of okr) \<noteq> None \<or> sb_status s = Sub_rejected \<or> run_found fuel E okr (ticket_of okr) (rw_submits w'))"
  using step
proof (rule advance_cases)
  fix okr plan w1
  assume entered: "entered E input w okr plan" and same: "unlogged w w1" and more: "pursued fuel E input okr plan w1 w'"
  from pursued_logs [OF more] submitted same obtain s :: submission and f where
    s: "rw_submits w' = (ticket_of okr, sb_status s) # rw_submits w" "approved E input okr plan f"
      "nothing_recorded E input (ticket_of okr) (rw_unknown w)"
    and after: "remembered (ticket_of okr) s (rw_unknown w) (rw_unknown w') \<or> run_found fuel E okr (ticket_of okr) (rw_submits w')"
    unfolding unlogged_def by (elim conjE disjE exE) auto
  from after have "map_of (rw_unknown w') (ticket_of okr) \<noteq> None \<or> sb_status s = Sub_rejected \<or> run_found fuel E okr (ticket_of okr) (rw_submits w')"
    by (auto simp: remembered_def)
  with s entered show ?thesis unfolding nothing_recorded_def by blast
qed (use submitted in \<open>simp add: unlogged_def\<close>)

theorem step_submits_once_witness:
  "\<exists>x w' okr plan f. advance 3 desk_env desk_input desk_world = (Inr x, w') \<and> rw_submits w' = [(desk_name, Sub_confirmed)]
     \<and> entered desk_env desk_input desk_world okr plan \<and> approved desk_env desk_input okr plan f \<and> desk_name = ticket_of okr"
proof -
  obtain c x where run: "advance 3 desk_env desk_input desk_world = (Inr x, desk_at c True [] [(desk_name, Sub_confirmed)] [c])" by (rule desk_step)
  have "rw_submits (desk_at c True [] [(desk_name, Sub_confirmed)] [c]) \<noteq> rw_submits desk_world" by (simp add: desk_at_def desk_world_def)
  from step_submits_once [OF run this] run show ?thesis by (fastforce simp: desk_at_def desk_world_def)
qed

text \<open>Any number of steps of one object, each with its own input.\<close>

fun steps :: "nat \<Rightarrow> ('r, 't) runner_env \<Rightarrow> runner_input list \<Rightarrow> 'r rworld \<Rightarrow> 'r rworld" where
  "steps fuel E [] w = w"
| "steps fuel E (i # is) w = steps fuel E is (snd (advance fuel E i w))"

definition open_submissions :: "string \<Rightarrow> (string \<times> submission_status) list \<Rightarrow> nat" where
  "open_submissions name log = length (filter (\<lambda>(n, s). n = name \<and> s \<noteq> Sub_rejected) log)"

text \<open>A step after which the name is free again because the Run of its ticket was read, and how many of them a sequence has.\<close>

definition run_settled :: "nat \<Rightarrow> ('r, 't) runner_env \<Rightarrow> string \<Rightarrow> 'r rworld \<Rightarrow> bool" where
  "run_settled fuel E name w \<longleftrightarrow> map_of (rw_unknown w) name = None \<and> (\<exists>okr. name = ticket_of okr \<and> run_found fuel E okr name (rw_submits w))"

fun settled_steps :: "nat \<Rightarrow> ('r, 't) runner_env \<Rightarrow> string \<Rightarrow> runner_input list \<Rightarrow> 'r rworld \<Rightarrow> nat" where
  "settled_steps fuel E name [] w = 0"
| "settled_steps fuel E name (i # is) w = (let w' = snd (advance fuel E i w) in
     (if run_settled fuel E name w' then 1 else 0) + settled_steps fuel E name is w')"

text \<open>Whether the object may submit under a name.\<close>

definition free_name :: "string \<Rightarrow> 'r rworld \<Rightarrow> nat" where
  "free_name name w = (if map_of (rw_unknown w) name = None then 1 else 0)"

lemma step_opens:
  assumes step: "advance fuel E i w = (x, w')"
  shows "open_submissions name (rw_submits w') + free_name name w'
    \<le> open_submissions name (rw_submits w) + free_name name w + (if run_settled fuel E name w' then 1 else 0)"
  using step
proof (rule advance_cases)
  fix okr plan w1
  assume same: "unlogged w w1" and more: "pursued fuel E i okr plan w1 w'"
  let ?t = "ticket_of okr"
  from pursued_logs [OF more] consider "rw_submits w' = rw_submits w1" "rw_unknown w' = rw_unknown w1"
    | "rw_submits w' = rw_submits w1" "rw_unknown w' = AList.delete ?t (rw_unknown w1)" "run_found fuel E okr ?t (rw_submits w')"
    | s :: submission where "rw_submits w' = (?t, sb_status s) # rw_submits w1" "map_of (rw_unknown w1) ?t = None"
        "remembered ?t s (rw_unknown w1) (rw_unknown w')"
    | s :: submission where "rw_submits w' = (?t, sb_status s) # rw_submits w1" "map_of (rw_unknown w1) ?t = None" "map_of (rw_unknown w') ?t = None"
        "\<forall>n. n \<noteq> ?t \<longrightarrow> map_of (rw_unknown w') n = map_of (rw_unknown w1) n" "run_found fuel E okr ?t (rw_submits w')"
    unfolding nothing_recorded_def by blast
  then show ?thesis
  proof cases
    case 1
    then show ?thesis using same by (simp add: unlogged_def free_name_def)
  next
    case 2
    then show ?thesis using same by (auto simp: unlogged_def free_name_def run_settled_def delete_conv)
  next
    case (3 s)
    then show ?thesis using same by (auto simp: unlogged_def free_name_def remembered_def open_submissions_def)
  next
    case (4 s)
    then show ?thesis using same by (auto simp: unlogged_def free_name_def run_settled_def open_submissions_def)
  qed
qed (simp add: unlogged_def free_name_def)


text \<open>The sample chain when it loses every transaction: the submission fails and no Run appears.\<close>

definition lost_env :: "(desk, tx_data) runner_env" where
  "lost_env = desk_env\<lparr>rn_submit := (\<lambda>tx name. throwE ()), rn_listExecutions := (\<lambda>i cursor. okE ([], None))\<rparr>"

lemma lost_unsettled: "\<not> run_settled (Suc fuel) lost_env name w"
proof -
  have "execution_pages (Suc fuel) lost_env i None [] u = (Inr [], u)" for i u
    by (simp add: lost_env_def eff_run awaitR_def present_def)
  then show ?thesis by (simp add: run_settled_def run_found_def)
qed

lemma lost_steps: "settled_steps (Suc fuel) lost_env name is w = 0"
  by (induction "is" arbitrary: w) (simp_all add: Let_def lost_unsettled)


end
