(* ===== verification/Runner_Provider.thy ===== *)
theory Runner_Provider
  imports Runner_Guarantees
begin

text \<open>
  What a runner does to the state of its provider: if every option of \<^verbatim>\<open>OkrRunnerOptions\<close> (chain reads, crypto, submission
  and delivery) keeps a relation of the outside world, then so does every step. The relation may be the growth of a journal, the bookkeeping
  of what was broadcast, or anything else that is reflexive and transitive; the app's native runner is an interpretation.
\<close>

definition on_out :: "('r \<Rightarrow> 'r \<Rightarrow> bool) \<Rightarrow> 'r rworld \<Rightarrow> 'r rworld \<Rightarrow> bool" where
  "on_out R w w' \<longleftrightarrow> R (rw_out w) (rw_out w')"

lemma on_out_preorder [simp]: "preorder_on_worlds R \<Longrightarrow> preorder_on_worlds (on_out R)"
  by (auto simp: preorder_on_worlds_def on_out_def reflp_def intro!: transpI dest: transpD)

lemma on_out_same: "preorder_on_worlds R \<Longrightarrow> (\<And>w. rw_out (g w) = rw_out w) \<Longrightarrow> keeps (on_out R) (modifyE g)"
  by (auto simp: keeps_def on_out_def modifyE_def preorder_on_worlds_def reflp_def)

definition clock_keeps :: "('r \<Rightarrow> 'r \<Rightarrow> bool) \<Rightarrow> ('r \<Rightarrow> 'a \<times> 'r) \<Rightarrow> bool" where
  "clock_keeps R f \<longleftrightarrow> (\<forall>r. R r (snd (f r)))"

locale runner_provider =
  fixes E :: "('r, 't) runner_env" and R :: "'r \<Rightarrow> 'r \<Rightarrow> bool"
  assumes pre: "preorder_on_worlds R"
    and clocks: "clock_keeps R (rn_now E)" "clock_keeps R (rn_dateNow E)" "R r (rn_pause E r)"
    and signing: "keeps R (cs_sign (rn_signer E) bytes)" "clock_keeps R (cs_randomUUID (rn_signer E))" "clock_keeps R (cs_now (rn_signer E))"
    and lookups: "rn_querySubmission E = Some q \<Longrightarrow> keeps R (q name)" "rn_discoverTicket E = Some f \<Longrightarrow> keeps R (f name)"
    and sending: "keeps R (rn_submit E tx name)" "keeps R (rn_deliver E c)"
    and reads: "keeps R (rn_getOkr E i)" "keeps R (rn_listCurrent E cursor)" "keeps R (rn_getRecord E i)" "keeps R (rn_decryptRecord E i meta)"
      "keeps R (rn_listExecutions E i cursor)" "keeps R (rn_getManagedAgent E i)" "keeps R (rn_getMembership E i)" "keeps R (rn_getCapability E i)"
      "keeps R (rn_getAuthorityBinding E i)" "keeps R (rn_getContract E i)" "keeps R (rn_getBudget E i)" "keeps R (rn_getPolicy E i)"
    and crypto: "keeps R (rn_encrypt E plain name key)" "keeps R (rn_saveTicket E name key cipher)"
      "keeps R (rn_prepareCommand E c m b a key scheduled tx)"
begin

lemma out_await [intro!]: "keeps R m \<Longrightarrow> keeps (on_out R) (awaitR m)"
  by (auto simp: keeps_def on_out_def awaitR_def split: prod.splits)

lemma out_clock [intro!]: "keeps (on_out R) (nowR E)" "keeps (on_out R) (dateNowR E)"
  using clocks by (auto simp: keeps_def on_out_def nowR_def dateNowR_def clock_keeps_def split: prod.splits) (metis snd_conv)+

lemma out_pause [intro!]: "keeps (on_out R) (modifyE (\<lambda>w. w\<lparr>rw_out := rn_pause E (rw_out w)\<rparr>))"
  using clocks(3) by (auto simp: keeps_def on_out_def modifyE_def)

lemma out_pure [intro!]:
  "keeps (on_out R) (okE a)" "keeps (on_out R) (throwE e)" "keeps (on_out R) (getE f)" "keeps (on_out R) (liftR x)"
  "keeps (on_out R) (assertE c e)" "keeps (on_out R) (whenE c y)"
  using pre by (auto intro!: keeps_pure simp: whenE_def)

lemma out_bind [intro!]: "keeps (on_out R) m \<Longrightarrow> (\<And>a. keeps (on_out R) (f a)) \<Longrightarrow> keeps (on_out R) (bindE m f)"
  using pre by (intro keeps_bindE) auto

lemma out_catch [intro!]: "keeps (on_out R) m \<Longrightarrow> (\<And>e. keeps (on_out R) (h e)) \<Longrightarrow> keeps (on_out R) (catchE m h)"
  using pre by (intro keeps_catchE) auto

lemma out_else [intro!]: "keeps (on_out R) m \<Longrightarrow> (\<And>a. keeps (on_out R) (f a)) \<Longrightarrow> keeps (on_out R) (elseE m f)"
  by (auto simp: elseE_def split: sum.split)

lemmas provider_reads [intro!] = sending reads crypto

lemma out_sign [intro!]: "keeps (on_out R) (signR E i)"
proof -
  have u: "keeps R (uuidE (rn_signer E) t)" and n: "keeps R (issuedE (rn_signer E) s)" for t s
    using signing(2,3) pre
    by (auto simp: uuidE_def issuedE_def clock_keeps_def keeps_def okE_def preorder_on_worlds_def reflp_def split: option.split prod.splits)
      (metis snd_conv)+
  have s: "keeps R (\<lambda>r. case cs_sign (rn_signer E) b r of (Inl _, r') \<Rightarrow> (Inl Signer_failed, r') | (Inr s, r') \<Rightarrow> (Inr s, r'))" for b
    using signing(1) [of b] by (auto simp: keeps_def split: prod.splits sum.splits)
  have "keeps R (signNodeCommand (rn_hash E) (rn_signer E) i)"
    unfolding signNodeCommand_def Let_def
    by (intro keeps_bindE pre keeps_pure u n s) (auto split: option.split intro!: keeps_pure pre)
  then show ?thesis by (auto simp: keeps_def on_out_def signR_def split: prod.splits)
qed

lemma out_lifecycle [intro!]: "keeps (on_out R) (lifecycle E okr)"
  by (auto simp: lifecycle_def Let_def split: option.split)

lemma out_pages [intro!]: "keeps (on_out R) (directory_pages fuel E n cursor seen k t)"
  by (induction fuel arbitrary: cursor seen k t) auto

lemma out_directory [intro!]: "keeps (on_out R) (directoryR fuel E n)"
  using lookups(2) by (auto simp: directoryR_def split: option.split)

lemma out_wait [intro!]: "keeps (on_out R) m \<Longrightarrow> keeps (on_out R) (confirm_wait fuel E deadline m ok v)"
  by (induction fuel arbitrary: v) auto

lemma out_confirm [intro!]: "keeps (on_out R) m \<Longrightarrow> keeps (on_out R) (confirmRead fuel E m ok)"
  by (auto simp: confirmRead_def)

lemma out_records [intro!]: "keeps (on_out R) (decryptR E i)" "keeps (on_out R) (planR E okr)" "keeps (on_out R) (ticketR E i name okr plan)"
  by (auto simp: decryptR_def planR_def ticketR_def split: option.split prod.split)

lemma out_executions [intro!]: "keeps (on_out R) (execution_pages fuel E i cursor seen)"
  by (induction fuel arbitrary: cursor seen) (auto split: prod.split)

lemma out_runs [intro!]: "keeps (on_out R) (readRun fuel E okr h c)" "keeps (on_out R) (intentR E c)"
  by (auto simp: readRun_def intentR_def)

lemma out_entry [intro!]:
  "keeps (on_out R) (entryR E input)" "keeps (on_out R) (priorR E okr name)" "keeps (on_out R) (lookupR fuel E okr name prior)"
  "keeps (on_out R) (absentR input okr name prior)"
  using lookups(1) by (auto simp: entryR_def priorR_def lookupR_def absentR_def Let_def split: option.split)

lemma out_approval [intro!]:
  "keeps (on_out R) (approvalR E input okr)" "keeps (on_out R) (authorizeR E input okr k plan)"
  "keeps (on_out R) (composeR E input okr name d c f)"
  by (auto simp: approvalR_def authorizeR_def composeR_def Let_def split: option.split prod.split)

lemma out_logs [intro!]:
  "keeps (on_out R) (set_unknown name u)" "keeps (on_out R) (forget_unknown name)" "keeps (on_out R) (submitR E name tx)" "keeps (on_out R) (deliverR E c)"
  using pre by (auto simp: set_unknown_def forget_unknown_def submitR_def deliverR_def intro!: on_out_same)

lemma out_publish [intro!]: "keeps (on_out R) (publishTicket fuel E okr name tx h)" "keeps (on_out R) (createTicket fuel E input okr k name d plan)"
  by (auto simp: publishTicket_def createTicket_def split: prod.split)

lemma out_after [intro!]: "keeps (on_out R) (after_delivery fuel E okr h c say)"
  by (auto simp: after_delivery_def split: option.split)

lemma out_release [intro!]: "keeps (on_out R) (releaseR fuel E okr h c say)"
  by (auto simp: releaseR_def Let_def)

lemma out_settle [intro!]: "keeps (on_out R) (settleRun fuel E input okr name t c fresh run say)"
  by (auto simp: settleRun_def Let_def split: option.split prod.split)

lemma out_follow [intro!]: "keeps (on_out R) (followRun fuel E input okr name plan t made)"
  by (auto simp: followRun_def Let_def split: option.split prod.split)

lemma out_pursue [intro!]: "keeps (on_out R) (pursueR fuel E input okr k name prior d)"
  by (auto simp: pursueR_def Let_def split: option.split prod.split)

text \<open>A step and a review of the plan keep the relation, however they end.\<close>

lemma advance_keeps: "keeps (on_out R) (advance fuel E input)"
  by (auto simp: advance_def Let_def split: option.split prod.split sum.split)

lemma describe_keeps: "keeps (on_out R) (describeR E i)"
  by (auto simp: describeR_def)

end

end
