(* ===== verification/Selfpay_Submit.thy ===== *)
theory Selfpay_Submit
  imports Runner_Guarantees Guarded_Flow
begin

text \<open>
  \<^verbatim>\<open>createSelfPayOkrSubmitter\<close> of \<^verbatim>\<open>sdk/src/selfpay-okr-submit.ts\<close> over the transaction manager: how a runner's ticket
  transaction is sent. A recorded request is queried, never rebuilt; a new one is quoted, its fee approved, and
  broadcast once. The fee approval is a parameter. The submitter never throws; its contract with the runner is the locale \<open>ticket_submitter\<close>.
\<close>

section \<open>The submitter\<close>

fun code_text :: "preflight_code \<Rightarrow> string" where
  "code_text Invalid_request = ''invalid_request''"
| "code_text Needs_funds = ''needs_funds''"
| "code_text Gas_unavailable = ''gas_unavailable''"
| "code_text Rpc_unavailable = ''rpc_unavailable''"
| "code_text Simulation_failed = ''simulation_failed''"
| "code_text Value_limit_exceeded = ''value_limit_exceeded''"
| "code_text Already_recorded = ''already_recorded''"
| "code_text Stale_quote = ''stale_quote''"
| "code_text Signature_not_obtained = ''signature_not_obtained''"
| "code_text Journal_unavailable = ''journal_unavailable''"
| "code_text Gas_reserved = ''gas_reserved''"

definition reason_of :: "tm_error \<Rightarrow> string \<Rightarrow> string option" where
  "reason_of e other = Some (case e of Preflight c \<Rightarrow> code_text c | _ \<Rightarrow> other)"

definition submission_of :: "tx_outcome \<Rightarrow> submission" where
  "submission_of oc = \<lparr>sb_status = (case oc_status oc of OFailed \<Rightarrow> Sub_rejected | OConfirmed \<Rightarrow> Sub_confirmed | OUnknown \<Rightarrow> Sub_unknown),
     sb_digest = Some (oc_digest oc), sb_reason = oc_reason oc\<rparr>"

definition no_submission :: "submission_status \<Rightarrow> string option \<Rightarrow> submission" where
  "no_submission status reason = \<lparr>sb_status = status, sb_digest = None, sb_reason = reason\<rparr>"

text \<open>Each stage ends the submission (\<open>Inl\<close>) or goes on; what a stage throws is caught in it.\<close>

definition sp_recorded :: "'r client_env \<Rightarrow> ('s, 'x) journal_ops \<Rightarrow> string \<Rightarrow> (('s, 'r) mworld, tm_error, submission + unit) eff" where
  "sp_recorded env J requestId =
     catchE (bindE (query env J requestId) (\<lambda>prior. okE (case prior of Some oc \<Rightarrow> Inl (submission_of oc) | None \<Rightarrow> Inr ())))
       (\<lambda>e. okE (Inl (no_submission Sub_unknown (reason_of e ''pending_query_failed''))))"

definition sp_again :: "'r client_env \<Rightarrow> ('s, 'x) journal_ops \<Rightarrow> string \<Rightarrow> (('s, 'r) mworld, tm_error, submission) eff" where
  "sp_again env J requestId =
     catchE (bindE (query env J requestId) (\<lambda>prior. okE (case prior of Some oc \<Rightarrow> submission_of oc
        | None \<Rightarrow> no_submission Sub_unknown (Some ''recorded_request_not_readable''))))
       (\<lambda>_. okE (no_submission Sub_unknown (Some ''pending_query_failed'')))"

definition sp_quote :: "nat \<Rightarrow> 'r client_env \<Rightarrow> ('s, 'x) journal_ops \<Rightarrow> u64_input \<Rightarrow> tx_data \<Rightarrow> string
    \<Rightarrow> (('s, 'r) mworld, tm_error, submission + fee_quote) eff" where
  "sp_quote fuel env J gasBudget tx requestId =
     catchE (bindE (prepare fuel env J \<lparr>pi_requestId = requestId, pi_transaction = tx, pi_gasBudget = gasBudget, pi_maxSuiSpend = None\<rparr>)
               (\<lambda>q. okE (Inr q)))
       (\<lambda>e. if e = Preflight Already_recorded then bindE (sp_again env J requestId) (\<lambda>s. okE (Inl s))
            else okE (Inl (no_submission Sub_rejected (reason_of e ''transaction_preflight_failed''))))"

definition sp_approve :: "(fee_quote \<Rightarrow> ('r, unit, bool) eff) \<Rightarrow> fee_quote \<Rightarrow> (('s, 'r) mworld, tm_error, submission + unit) eff" where
  "sp_approve approve q =
     catchE (bindE (rpcE (approve q)) (\<lambda>yes. okE (if yes then Inr () else Inl (no_submission Sub_rejected (Some ''fee_approval_declined'')))))
       (\<lambda>_. okE (Inl (no_submission Sub_rejected (Some ''fee_approval_unavailable''))))"

definition sp_send :: "'r client_env \<Rightarrow> ('s, 'x) journal_ops \<Rightarrow> fee_quote \<Rightarrow> (('s, 'r) mworld, tm_error, submission) eff" where
  "sp_send env J q =
     catchE (bindE (broadcast env J q) (\<lambda>oc. okE (submission_of oc)))
       (\<lambda>e. okE (no_submission Sub_rejected (reason_of e ''transaction_submission_failed'')))"

definition selfpay_submit :: "nat \<Rightarrow> 'r client_env \<Rightarrow> ('s, 'x) journal_ops \<Rightarrow> u64_input \<Rightarrow> (fee_quote \<Rightarrow> ('r, unit, bool) eff)
    \<Rightarrow> tx_data \<Rightarrow> string \<Rightarrow> (('s, 'r) mworld, tm_error, submission) eff" where
  "selfpay_submit fuel env J gasBudget approve tx requestId =
     bindE (elseE (sp_recorded env J requestId) (\<lambda>_.
            elseE (sp_quote fuel env J gasBudget tx requestId) (\<lambda>q.
            elseE (sp_approve approve q) (\<lambda>_.
            bindE (sp_send env J q) (\<lambda>s. okE (Inr s))))))
       (\<lambda>x. okE (case x of Inl s \<Rightarrow> s | Inr s \<Rightarrow> s))"

section \<open>What a submission does\<close>

lemma catch_total: "(\<And>e w. \<exists>a w'. h e w = (Inr a, w')) \<Longrightarrow> \<exists>a w'. catchE m h w = (Inr a, w')"
  by (auto simp: catchE_def split: prod.split sum.split)

lemma sp_total:
  "\<exists>a w'. sp_recorded env J i w = (Inr a, w')" "\<exists>b w'. sp_again env J i w = (Inr b, w')" "\<exists>c w'. sp_approve ap q w = (Inr c, w')"
  "\<exists>d w'. sp_send env J q w = (Inr d, w')"
  unfolding sp_recorded_def sp_again_def sp_approve_def sp_send_def by (intro catch_total; simp add: eff_run)+

lemma sp_quote_total: "\<exists>a w'. sp_quote fuel env J g tx i w = (Inr a, w')"
  unfolding sp_quote_def
proof (rule catch_total)
  fix e and w :: "('a, 'b) mworld"
  show "\<exists>a w'. (if e = Preflight Already_recorded then bindE (sp_again env J i) (\<lambda>s. okE (Inl s))
      else okE (Inl (no_submission Sub_rejected (reason_of e ''transaction_preflight_failed'')))) w = (Inr a, w')"
    using sp_total(2) [of env J i w] by (auto simp: eff_run)
qed

lemma sp_same_sent [intro!]:
  "keeps same_sent (sp_recorded env J i)" "keeps same_sent (sp_again env J i)" "keeps same_sent (sp_quote fuel env J g tx i)"
  "keeps same_sent (sp_approve ap q)"
  unfolding sp_recorded_def sp_again_def sp_quote_def sp_approve_def
  by (intro keeps_catchE keeps_bindE keeps_pure keeps_if world_preorders keeps_query keeps_prepare keeps_weaken [OF keeps_rpcE same_state_sent])+

lemma broadcast_error_sent:
  assumes "broadcast env J q w = (Inl err, w')"
  shows "w_sent w' = w_sent w"
  using assms
proof (cases rule: broadcast_cases)
qed (auto dest!: sent_broadcast_sign sent_broadcast_claim broadcast_execute_returns)

text \<open>A result that tells of no transaction.\<close>

definition undigested :: "submission \<Rightarrow> bool" where
  "undigested s \<longleftrightarrow> sb_digest s = None \<and> sb_status s \<noteq> Sub_confirmed"

lemma sp_refused: "sp_approve ap q w = (Inr (Inl s), w') \<Longrightarrow> undigested s"
  by (auto simp: sp_approve_def catchE_eq eff_oks undigested_def no_submission_def elim!: bindE_okE split: if_split_asm)

lemma sp_send_sent:
  assumes "sp_send env J q w = (x, w')"
  shows "\<exists>y. broadcast env J q w = (y, w')"
  using assms by (auto simp: sp_send_def catchE_eq bindE_eq okE_eq)

lemma selfpay_cases:
  assumes run: "selfpay_submit fuel env J g approve tx i w = (x, w')"
  obtains (recorded) s where "x = Inr s" "sp_recorded env J i w = (Inr (Inl s), w')" "w_sent w' = w_sent w"
  | (unquoted) s w1 where "x = Inr s" "sp_recorded env J i w = (Inr (Inr ()), w1)" "sp_quote fuel env J g tx i w1 = (Inr (Inl s), w')" "w_sent w' = w_sent w"
  | (refused) s q w1 w2 where "x = Inr s" "sp_recorded env J i w = (Inr (Inr ()), w1)" "sp_quote fuel env J g tx i w1 = (Inr (Inr q), w2)"
      "sp_approve approve q w2 = (Inr (Inl s), w')" "w_sent w' = w_sent w"
  | (sent) s q w1 w2 w3 where "x = Inr s" "sp_recorded env J i w = (Inr (Inr ()), w1)" "sp_quote fuel env J g tx i w1 = (Inr (Inr q), w2)"
      "sp_approve approve q w2 = (Inr (Inr ()), w3)" "sp_send env J q w3 = (Inr s, w')" "w_sent w3 = w_sent w"
proof -
  from run obtain y where y: "elseE (sp_recorded env J i) (\<lambda>_. elseE (sp_quote fuel env J g tx i) (\<lambda>q.
      elseE (sp_approve approve q) (\<lambda>_. bindE (sp_send env J q) (\<lambda>s. okE (Inr s))))) w = (y, w')"
    and x: "x = (case y of Inl e \<Rightarrow> Inl e | Inr (Inl s) \<Rightarrow> Inr s | Inr (Inr s) \<Rightarrow> Inr s)"
    unfolding selfpay_submit_def by (rule bindE_E) (auto simp: okE_eq split: sum.splits intro: that [of "Inl _"] that [of "Inr _"])
  note same = keepsD [OF sp_same_sent(1), unfolded same_sent_def] keepsD [OF sp_same_sent(3), unfolded same_sent_def]
    keepsD [OF sp_same_sent(4), unfolded same_sent_def]
  from y show ?thesis
  proof (rule elseE_E)
    fix u w1
    assume a: "sp_recorded env J i w = (Inr (Inr u), w1)"
      and "elseE (sp_quote fuel env J g tx i) (\<lambda>q. elseE (sp_approve approve q) (\<lambda>_. bindE (sp_send env J q) (\<lambda>s. okE (Inr s)))) w1 = (y, w')"
    from this(2) show ?thesis
    proof (rule elseE_E)
      fix q w2
      assume b: "sp_quote fuel env J g tx i w1 = (Inr (Inr q), w2)"
        and "elseE (sp_approve approve q) (\<lambda>_. bindE (sp_send env J q) (\<lambda>s. okE (Inr s))) w2 = (y, w')"
      from this(2) show ?thesis
      proof (rule elseE_E)
        fix v w3
        assume c: "sp_approve approve q w2 = (Inr (Inr v), w3)" and last: "bindE (sp_send env J q) (\<lambda>s. okE (Inr s)) w3 = (y, w')"
        obtain s where d: "sp_send env J q w3 = (Inr s, w')" "y = Inr (Inr s)"
          using last sp_total(4) [of env J q w3] by (auto simp: bindE_eq okE_eq)
        show ?thesis
          by (rule sent [OF _ _ b _ d(1)]) (use a x d(2) c same(1) [OF a] same(2) [OF b] same(3) [OF c] in simp_all)
      next
        fix s assume c: "sp_approve approve q w2 = (Inr (Inl s), w')" "y = Inr (Inl s)"
        show ?thesis by (rule refused [OF _ _ b c(1)]) (use a x c(2) same(1) [OF a] same(2) [OF b] same(3) [OF c(1)] in simp_all)
      qed (use sp_total(3) [of approve q w2] in auto)
    next
      fix s assume b: "sp_quote fuel env J g tx i w1 = (Inr (Inl s), w')" "y = Inr (Inl s)"
      show ?thesis by (rule unquoted [OF _ _ b(1)]) (use a x b(2) same(1) [OF a] same(2) [OF b(1)] in simp_all)
    qed (use sp_quote_total [of fuel env J g tx i w1] in auto)
  next
    fix s assume a: "sp_recorded env J i w = (Inr (Inl s), w')" "y = Inr (Inl s)"
    show ?thesis by (rule recorded [OF _ a(1)]) (use x a(2) same(1) [OF a(1)] in simp_all)
  qed (use sp_total(1) [of env J i w] in auto)
qed

lemma sp_quote_ok:
  assumes "sp_quote fuel env J g tx i w = (Inr (Inr q), w')"
  shows "prepare fuel env J \<lparr>pi_requestId = i, pi_transaction = tx, pi_gasBudget = g, pi_maxSuiSpend = None\<rparr> w = (Inr q, w')"
  using assms by (auto simp: sp_quote_def catchE_eq eff_oks elim!: bindE_okE split: if_split_asm)

lemma sp_approve_ok:
  assumes "sp_approve approve q w = (Inr (Inr ()), w')"
  shows "approve q (w_rpc w) = (Inr True, w_rpc w')"
  using assms by (auto simp: sp_approve_def catchE_eq eff_oks rpcE_Inr elim!: bindE_okE split: if_split_asm)

section \<open>What each stage read\<close>

text \<open>
  What a result with a digest says of the recorded transaction: it is unknown, or it tells the receipt that was read under this digest or
  that came back when bytes of this digest were executed, whose sender, gas owner and budget are the recorded ones and whose gas cost is within the budget.
\<close>

definition settles :: "'r client_env \<Rightarrow> journal_entry \<Rightarrow> submission \<Rightarrow> bool" where
  "settles env e s \<longleftrightarrow> sb_digest s = Some (je_digest e)
     \<and> (sb_status s = Sub_unknown
        \<or> (\<exists>data ef sd g r r'.
             (cl_getTransaction env (je_digest e) r = (Inr data, r')
              \<or> (\<exists>bytes signature. cl_digestOf env bytes = je_digest e \<and> cl_execute env bytes signature r = (Inr data, r')))
             \<and> tr_digest data = je_digest e \<and> tr_effects data = Some ef \<and> ef_transactionDigest ef = je_digest e \<and> ef_success ef = tr_success data
             \<and> tr_transaction data = Some sd \<and> sd_sender sd = je_sender e \<and> sd_gasOwner sd = je_sender e \<and> sd_gasBudget sd = je_gasBudget e
             \<and> gasCost (ef_gasUsed ef) = Inr g \<and> g \<le> dec_value (je_gasBudget e)
             \<and> sb_status s = (if tr_success data then Sub_confirmed else Sub_rejected)))"

text \<open>The entry that the journal holds for the request on the chain that is read in this state.\<close>

definition recorded_as :: "'r client_env \<Rightarrow> ('s, 'x) journal_ops \<Rightarrow> string \<Rightarrow> string \<Rightarrow> 's \<Rightarrow> journal_entry \<Rightarrow> bool" where
  "recorded_as env J ns requestId j e \<longleftrightarrow> (\<exists>j'. jo_get J ns requestId j = (Inr (Some e), j'))
     \<and> je_namespace e = ns \<and> je_requestId e = requestId \<and> je_sender e = cl_address env"

definition recorded_in :: "'r client_env \<Rightarrow> ('s, 'x) journal_ops \<Rightarrow> string \<Rightarrow> ('s, 'r) mworld \<Rightarrow> journal_entry \<Rightarrow> bool" where
  "recorded_in env J requestId w e \<longleftrightarrow> (\<exists>chain r. cl_getChainIdentifier env (w_rpc w) = (Inr chain, r)
     \<and> recorded_as env J (stringify (JArray [JString (cl_network env), JString chain, JString (cl_address env)])) requestId (w_journal w) e)"

lemma confirm_settles:
  assumes "confirm env J e data w = (Inr oc, w')"
    and "cl_getTransaction env (je_digest e) r = (Inr data, r')
      \<or> (\<exists>bytes signature. cl_digestOf env bytes = je_digest e \<and> cl_execute env bytes signature r = (Inr data, r'))"
  shows "settles env e (submission_of oc)"
proof -
  from assms(1) have oc: "receipt_matches e data" "oc_digest oc = je_digest e" "oc_status oc = (if tr_success data then OConfirmed else OFailed)"
    "\<exists>g. gasCost (ef_gasUsed (the (tr_effects data))) = Inr g \<and> g \<le> dec_value (je_gasBudget e)"
    by (auto simp: confirm_def Let_def bigint_text_def eff_oks elim!: bindE_okE split: if_split_asm)
  from oc(1) obtain ef sd where "tr_effects data = Some ef" "tr_transaction data = Some sd" by (auto simp: receipt_matches_def split: option.split_asm)
  then show ?thesis
    using oc assms(2) unfolding settles_def
    by (intro conjI disjI2 exI [of _ data] exI [of _ ef] exI [of _ sd]) (auto simp: submission_of_def receipt_matches_def)
qed

lemma unknown_settles: "settles env e (submission_of (unknown_outcome e))"
  by (simp add: settles_def submission_of_def unknown_outcome_def)

lemma queryEntry_settles:
  assumes "queryEntry env J e w = (Inr oc, w')"
  shows "settles env e (submission_of oc)"
  using assms unknown_settles
  by (auto simp: queryEntry_def catchE_eq eff_oks rpcE_Inr dest: confirm_settles elim!: bindE_okE)

lemma execute_settles:
  assumes "broadcast_execute env J p sg w = (Inr oc, w')" "cl_digestOf env (p_bytes p) = je_digest (p_entry p)"
  shows "settles env (p_entry p) (submission_of oc)"
  using assms
  by (auto simp: broadcast_execute_def executeE_def catchE_eq eff_oks rpcE_Inr dest: queryEntry_settles elim!: bindE_okE)
    (metis confirm_settles)

lemma journalM_recorded:
  assumes "journalM env J ns rid w = (Inr (Some e), w')"
  shows "recorded_as env J ns rid (w_journal w) e"
  using assms
  by (auto simp: journalM_def journalE_def recorded_as_def valid_entry_def eff_oks elim!: bindE_okE split: option.split_asm prod.split_asm sum.split_asm)

lemma query_settles:
  assumes "query env J rid w = (Inr (Some oc), w')"
  shows "\<exists>e. recorded_in env J rid w e \<and> settles env e (submission_of oc)"
proof -
  from assms obtain ns e w1 w2 where read: "namespaceM env w = (Inr ns, w1)" "journalM env J ns rid w1 = (Inr (Some e), w2)"
    and told: "queryEntry env J e w2 = (Inr oc, w')"
    by (auto simp: query_def eff_oks elim!: bindE_okE split: option.split_asm)
  from namespaceM_read [OF read(1)] journalM_recorded [OF read(2)] have "recorded_in env J rid w e"
    unfolding recorded_in_def by auto
  then show ?thesis using queryEntry_settles [OF told] by blast
qed

text \<open>A quote is an object of its own: the handles number what was prepared.\<close>

definition numbered :: "('s, 'r) mworld \<Rightarrow> bool" where
  "numbered w \<longleftrightarrow> map (\<lambda>p. q_handle (p_quote p)) (w_prepared w) = [0..<length (w_prepared w)]"

lemma numbered_lookup:
  assumes "numbered w" "w_prepared w' = w_prepared w @ [p]" "p_quote p = q" "q_handle q = length (w_prepared w)"
  shows "lookup_prepared q w' = Some p"
proof -
  have "p_quote x \<noteq> q" if "x \<in> set (w_prepared w)" for x
  proof -
    have "q_handle (p_quote x) \<in> set (map (\<lambda>p. q_handle (p_quote p)) (w_prepared w))" using that by simp
    then have "q_handle (p_quote x) < length (w_prepared w)" using assms(1) by (simp only: numbered_def) simp
    then show ?thesis using assms(4) by auto
  qed
  then have "List.find (\<lambda>x. p_quote x = q) (w_prepared w) = None" by (simp add: find_None_iff)
  moreover have "List.find P (xs @ [y]) = (if List.find P xs = None then if P y then Some y else None else List.find P xs)" for P xs and y :: prepared
    by (induction xs) auto
  ultimately show ?thesis using assms(2,3) by (simp add: lookup_prepared_def)
qed

lemma prepare_handle:
  assumes "prepare fuel env J input w = (Inr q, w')"
  shows "q_handle q = length (w_prepared w)"
  using assms
  by (auto simp: prepare_def issue_quote_def Let_def eff_oks prepared_step simp del: toBigInt.simps elim!: bindE_okE)

lemma query_prepared: "query env J rid w = (x, w') \<Longrightarrow> w_prepared w' = w_prepared w"
proof -
  have "keeps same_but_journal (query env J rid)"
    unfolding query_def by (auto intro!: keeps_journalM keeps_weaken [OF keeps_namespaceM same_state_journal] keeps_queryEntry)
  then show "query env J rid w = (x, w') \<Longrightarrow> w_prepared w' = w_prepared w" by (auto simp: same_but_journal_def dest: keepsD)
qed

text \<open>Another submission recorded the request before this one claimed it.\<close>

definition found_recorded :: "'r client_env \<Rightarrow> ('s, 'x) journal_ops \<Rightarrow> prepared \<Rightarrow> 's \<Rightarrow> journal_entry \<Rightarrow> bool" where
  "found_recorded env J p j e \<longleftrightarrow> (let q = p_quote p in recorded_as env J (q_namespace q) (q_requestId q) j e
     \<or> (\<exists>j1 j2. jo_get J (q_namespace q) (q_requestId q) j = (Inr None, j1) \<and> jo_claim J (p_entry p) j1 = (Inr False, j2)
          \<and> recorded_as env J (q_namespace q) (q_requestId q) j2 e))"

lemma broadcast_sign_read:
  assumes "broadcast_sign env J q w = (Inr x, w')" "lookup_prepared q w = Some p"
  shows "case x of
      Inl oc \<Rightarrow> \<exists>e. recorded_as env J (q_namespace q) (q_requestId q) (w_journal w) e \<and> settles env e (submission_of oc)
    | Inr (p', sg) \<Rightarrow> p' = p \<and> cl_verifySignature env (p_bytes p) sg (q_sender q)
        \<and> jo_get J (q_namespace q) (q_requestId q) (w_journal w) = (Inr None, w_journal w')"
proof -
  from assms obtain prior w1 w2 where ns: "namespaceM env w = (Inr (q_namespace q), w1)" and read: "journalM env J (q_namespace q) (q_requestId q) w1 = (Inr prior, w2)"
    and rest: "(case prior of Some e \<Rightarrow> bindE (queryEntry env J e) (\<lambda>outcome. okE (Inl outcome))
       | None \<Rightarrow> bindE (sign_fresh env q p) (\<lambda>signed. okE (Inr signed))) w2 = (Inr x, w')"
    by (auto simp: broadcast_sign_def eff_oks elim!: bindE_okE)
  have same: "w_journal w1 = w_journal w" "w_prepared w2 = w_prepared w"
    using keepsD [OF keeps_namespaceM ns] keepsD [OF keeps_journalM read] by (simp_all add: same_state_def same_but_journal_def)
  show ?thesis
  proof (cases prior)
    case None
    with rest obtain signed where signed: "sign_fresh env q p w2 = (Inr signed, w')" "x = Inr signed" by (auto simp: eff_oks elim!: bindE_okE)
    have "lookup_prepared q w2 = Some p" using assms(2) same(2) by (simp add: lookup_prepared_def)
    moreover have "w_journal w' = w_journal w2" using keepsD [OF keeps_sign_fresh signed(1)] by (simp add: same_state_def)
    ultimately show ?thesis
      using signed journalM_read [OF read [unfolded None]] same(1) sign_fresh_checked [of env q p w2 "fst signed" "snd signed" w']
      by (cases signed) simp
  next
    case (Some e)
    have "recorded_as env J (q_namespace q) (q_requestId q) (w_journal w) e" using journalM_recorded [OF read [unfolded Some]] same(1) by simp
    moreover from Some rest obtain oc where "x = Inl oc" "queryEntry env J e w2 = (Inr oc, w')" by (auto simp: eff_oks elim!: bindE_okE)
    ultimately show ?thesis using queryEntry_settles by fastforce
  qed
qed

lemma broadcast_claim_read:
  assumes "broadcast_claim env J q p w = (Inr (Inl oc), w')"
  shows "\<exists>j e. jo_claim J (p_entry p) (w_journal w) = (Inr False, j) \<and> recorded_as env J (q_namespace q) (q_requestId q) j e \<and> settles env e (submission_of oc)"
  using assms
  by (auto simp: broadcast_claim_def eff_oks journalE_Inr dest!: journalM_recorded queryEntry_settles elim!: bindE_okE split: if_split_asm option.split_asm) blast

lemma broadcast_told:
  assumes run: "broadcast env J q w = (Inr oc, w')" and found: "lookup_prepared q w = Some p"
    and entry: "p_quote p = q" "entry_key (p_entry p) = (q_namespace q, q_requestId q)" "je_digest (p_entry p) = cl_digestOf env (p_bytes p)"
  shows "(\<exists>e. found_recorded env J p (w_journal w) e \<and> settles env e (submission_of oc)) \<and> w_sent w' = w_sent w
    \<or> (\<exists>sg. cl_verifySignature env (p_bytes p) sg (q_sender q)) \<and> settles env (p_entry p) (submission_of oc)
      \<and> (w_sent w' = w_sent w \<or> w_sent w' = ((q_namespace q, q_requestId q), cl_digestOf env (p_bytes p)) # w_sent w)"
  using run
proof (cases rule: broadcast_cases)
  case (recorded oc')
  from broadcast_sign_read [OF recorded(1) found] show ?thesis
    using recorded(2) sent_broadcast_sign [OF recorded(1)] entry(1) by (auto simp: found_recorded_def)
next
  case (lost p' sg w1 oc')
  from broadcast_sign_read [OF lost(1) found] have sign: "p' = p" "jo_get J (q_namespace q) (q_requestId q) (w_journal w) = (Inr None, w_journal w1)" by simp_all
  from broadcast_claim_read [OF lost(2)] obtain j e where "jo_claim J (p_entry p) (w_journal w1) = (Inr False, j)"
    "recorded_as env J (q_namespace q) (q_requestId q) j e" "settles env e (submission_of oc')" using sign(1) by blast
  then have "found_recorded env J p (w_journal w) e \<and> settles env e (submission_of oc)"
    using sign(2) entry(1) lost(3) unfolding found_recorded_def Let_def by auto
  then show ?thesis using sent_broadcast_sign [OF lost(1)] sent_broadcast_claim [OF lost(2)] by auto
next
  case (executed p' sg w1 w2)
  from broadcast_sign_read [OF executed(1) found] have sign: "p' = p" "cl_verifySignature env (p_bytes p) sg (q_sender q)" by simp_all
  show ?thesis
    using sign execute_settles [of env J p sg w2 oc w'] executed(3) entry broadcast_execute_sent [OF executed(3)]
      sent_broadcast_sign [OF executed(1)] sent_broadcast_claim [OF executed(2)] by auto
qed simp_all

lemma sp_recorded_read:
  "sp_recorded env J i w = (Inr (Inl s), w') \<Longrightarrow> undigested s \<or> (\<exists>e. recorded_in env J i w e \<and> settles env e s)"
  "sp_recorded env J i w = (Inr (Inr u), w') \<Longrightarrow> query env J i w = (Inr None, w')"
  by (auto simp: sp_recorded_def catchE_eq eff_oks undigested_def no_submission_def dest!: query_settles elim!: bindE_okE split: option.split_asm)

lemma sp_quote_read:
  assumes "sp_quote fuel env J g tx i w = (Inr (Inl s), w')"
  shows "undigested s \<or> (\<exists>e v. prepare fuel env J \<lparr>pi_requestId = i, pi_transaction = tx, pi_gasBudget = g, pi_maxSuiSpend = None\<rparr> w = (Inl (Preflight Already_recorded), v)
    \<and> recorded_in env J i v e \<and> settles env e s)"
proof -
  let ?prepare = "prepare fuel env J \<lparr>pi_requestId = i, pi_transaction = tx, pi_gasBudget = g, pi_maxSuiSpend = None\<rparr>"
  have again: "undigested s \<or> (\<exists>e. recorded_in env J i v e \<and> settles env e s)" if "sp_again env J i v = (Inr s, v')" for v v'
    using that
    by (auto simp: sp_again_def catchE_eq eff_oks undigested_def no_submission_def dest!: query_settles elim!: bindE_okE split: option.split_asm)
  from assms consider v where "?prepare w = (Inl (Preflight Already_recorded), v)" "sp_again env J i v = (Inr s, w')" | "undigested s"
    by (auto simp: sp_quote_def catchE_eq bindE_eq eff_oks undigested_def no_submission_def okE_eq elim!: bindE_okE split: if_split_asm)
  then show ?thesis using again by cases blast+
qed

lemma sp_send_read:
  assumes "sp_send env J q w = (Inr s, w')"
  shows "undigested s \<and> w_sent w' = w_sent w \<or> (\<exists>oc. broadcast env J q w = (Inr oc, w') \<and> s = submission_of oc)"
  using assms broadcast_error_sent by (fastforce simp: sp_send_def catchE_eq bindE_eq okE_eq undigested_def no_submission_def)

lemma sp_approve_journal: "sp_approve approve q w = (x, w') \<Longrightarrow> w_journal w' = w_journal w \<and> w_prepared w' = w_prepared w"
proof -
  have "keeps same_state (sp_approve approve q)"
    unfolding sp_approve_def by (intro keeps_catchE keeps_bindE keeps_pure keeps_if world_preorders keeps_rpcE)
  then show "sp_approve approve q w = (x, w') \<Longrightarrow> w_journal w' = w_journal w \<and> w_prepared w' = w_prepared w" by (auto simp: same_state_def dest: keepsD)
qed

text \<open>
  What a submission that reached a quote did, in this order: no entry was recorded for the request; the manager prepared the quote within the given gas budget and with
  no other spending; its fee was approved right after; then either another submission's entry turned up before anything was sent, or the device's signature
  over the bytes of this quote verified and exactly these bytes, under this request, are all that may have been sent.
\<close>

definition quoted_submission :: "nat \<Rightarrow> 'r client_env \<Rightarrow> ('s, 'x) journal_ops \<Rightarrow> prepare_input \<Rightarrow> (fee_quote \<Rightarrow> ('r, unit, bool) eff)
    \<Rightarrow> ('s, 'r) mworld \<Rightarrow> submission \<Rightarrow> ('s, 'r) mworld \<Rightarrow> bool" where
  "quoted_submission fuel env J input approve w s w' \<longleftrightarrow>
     (\<exists>q p e w1 (w2 :: ('s, 'r) mworld) r3. query env J (pi_requestId input) w = (Inr None, w1) \<and> prepare fuel env J input w1 = (Inr q, w2)
        \<and> w_prepared w2 = w_prepared w @ [p] \<and> p_quote p = q \<and> quote_sound env input p \<and> quote_read fuel env J input w1 p
        \<and> approve q (w_rpc w2) = (Inr True, r3) \<and> settles env e s
        \<and> (found_recorded env J p (w_journal w2) e \<and> w_sent w' = w_sent w
           \<or> e = p_entry p \<and> (\<exists>signature. cl_verifySignature env (p_bytes p) signature (cl_address env))
             \<and> (w_sent w' = w_sent w \<or> w_sent w' = ((q_namespace q, pi_requestId input), cl_digestOf env (p_bytes p)) # w_sent w)))"

lemma quoted_submissionI:
  assumes "query env J (pi_requestId input) w = (Inr None, w1)" "prepare fuel env J input w1 = (Inr q, w2)" "w_prepared w2 = w_prepared w @ [p]" "p_quote p = q"
    "quote_sound env input p" "quote_read fuel env J input w1 p" "approve q (w_rpc w2) = (Inr True, r3)"
    "(\<exists>e. found_recorded env J p (w_journal w2) e \<and> settles env e s) \<and> w_sent w' = w_sent w
       \<or> (\<exists>sg. cl_verifySignature env (p_bytes p) sg (cl_address env)) \<and> settles env (p_entry p) s
         \<and> (w_sent w' = w_sent w \<or> w_sent w' = ((q_namespace q, pi_requestId input), cl_digestOf env (p_bytes p)) # w_sent w)"
  shows "quoted_submission fuel env J input approve w s w'"
  using assms(8)
proof (rule disjE)
  assume "(\<exists>e. found_recorded env J p (w_journal w2) e \<and> settles env e s) \<and> w_sent w' = w_sent w"
  then obtain e where "found_recorded env J p (w_journal w2) e" "settles env e s" "w_sent w' = w_sent w" by blast
  then show ?thesis unfolding quoted_submission_def using assms(1-7)
    by (intro exI [of _ q] exI [of _ p] exI [of _ e] exI [of _ w1] exI [of _ w2] exI [of _ r3]) simp
next
  assume "(\<exists>sg. cl_verifySignature env (p_bytes p) sg (cl_address env)) \<and> settles env (p_entry p) s
    \<and> (w_sent w' = w_sent w \<or> w_sent w' = ((q_namespace q, pi_requestId input), cl_digestOf env (p_bytes p)) # w_sent w)"
  then show ?thesis unfolding quoted_submission_def using assms(1-7)
    by (intro exI [of _ q] exI [of _ p] exI [of _ "p_entry p"] exI [of _ w1] exI [of _ w2] exI [of _ r3]) simp
qed

lemma selfpay_submits:
  assumes fresh: "numbered w" and run: "selfpay_submit fuel env J gasBudget approve tx requestId w = (x, w')"
  shows "\<exists>s. x = Inr s
    \<and> (undigested s \<and> w_sent w' = w_sent w
       \<or> (\<exists>e v. (v = w \<or> (\<exists>w1. query env J requestId w = (Inr None, w1)
              \<and> prepare fuel env J \<lparr>pi_requestId = requestId, pi_transaction = tx, pi_gasBudget = gasBudget, pi_maxSuiSpend = None\<rparr> w1 = (Inl (Preflight Already_recorded), v)))
            \<and> recorded_in env J requestId v e \<and> settles env e s \<and> w_sent w' = w_sent w)
       \<or> quoted_submission fuel env J \<lparr>pi_requestId = requestId, pi_transaction = tx, pi_gasBudget = gasBudget, pi_maxSuiSpend = None\<rparr> approve w s w')"
  using run
proof (cases rule: selfpay_cases)
  case (recorded s)
  then show ?thesis using sp_recorded_read(1) [OF recorded(2)] by blast
next
  case (unquoted s w1)
  then show ?thesis using sp_recorded_read(2) [OF unquoted(2)] sp_quote_read [OF unquoted(3)] by blast
next
  case (refused s q w1 w2)
  then show ?thesis using sp_refused [OF refused(4)] by blast
next
  case (sent s q w1 w2 w3)
  let ?input = "\<lparr>pi_requestId = requestId, pi_transaction = tx, pi_gasBudget = gasBudget, pi_maxSuiSpend = None\<rparr>"
  note asked = sp_recorded_read(2) [OF sent(2)] and prep = sp_quote_ok [OF sent(3)]
  obtain p where p: "w_prepared w2 = w_prepared w1 @ [p]" "p_quote p = q" "quote_sound env ?input p" "quote_read fuel env J ?input w1 p"
    using prepare_ok [OF prep] by blast
  have same: "w_prepared w1 = w_prepared w" by (rule query_prepared [OF asked])
  have found: "lookup_prepared q w3 = Some p"
    using numbered_lookup [OF fresh, of w3 p q] p(1,2) same prepare_handle [OF prep] sp_approve_journal [OF sent(4)] by simp
  have entry: "entry_key (p_entry p) = (q_namespace q, q_requestId q)" "je_digest (p_entry p) = cl_digestOf env (p_bytes p)" "q_requestId q = requestId"
    "q_sender q = cl_address env"
    using p(2,3) by (simp_all add: quote_sound_def Let_def)
  note approved = sp_approve_ok [OF sent(4)]
  from sp_send_read [OF sent(5)] show ?thesis
  proof (elim disjE exE conjE)
    assume "undigested s" "w_sent w' = w_sent w3"
    then show ?thesis using sent(1,6) by simp
  next
    fix oc assume run: "broadcast env J q w3 = (Inr oc, w')" and s: "s = submission_of oc"
    from broadcast_told [OF run found p(2) entry(1,2)] have
      "(\<exists>e. found_recorded env J p (w_journal w2) e \<and> settles env e s) \<and> w_sent w' = w_sent w
       \<or> (\<exists>sg. cl_verifySignature env (p_bytes p) sg (cl_address env)) \<and> settles env (p_entry p) s
         \<and> (w_sent w' = w_sent w \<or> w_sent w' = ((q_namespace q, requestId), cl_digestOf env (p_bytes p)) # w_sent w)"
      using entry(3,4) sp_approve_journal [OF sent(4)] sent(6) s by simp
    then have "quoted_submission fuel env J ?input approve w s w'"
      using asked prep p same approved by (intro quoted_submissionI) auto
    then show ?thesis using sent(1) by blast
  qed
qed

text \<open>
  C21. A submission never throws. It ends without a digest and unconfirmed, having sent nothing; or it tells what a receipt says of the entry that the journal
  held for this request when it was asked first or when preparing refused it as recorded, having sent nothing; or it reached a quote that the manager prepared
  for this request within the given gas budget and with no other spending, on the readings that the quote rests on, and whose fee was approved next: then
  another submission's entry turned up and nothing was sent, or the signature over the bytes of this very quote verified, at most these bytes were sent, once
  and under this request, and the result tells what their receipt says.
\<close>

theorem selfpay_submission_sound:
  assumes "numbered w" and "selfpay_submit fuel env J gasBudget approve tx requestId w = (x, w')"
  shows "\<exists>s. x = Inr s
    \<and> (sb_digest s = None \<and> sb_status s \<noteq> Sub_confirmed \<and> w_sent w' = w_sent w
       \<or> (\<exists>e v. (v = w \<or> (\<exists>w1. query env J requestId w = (Inr None, w1)
              \<and> prepare fuel env J \<lparr>pi_requestId = requestId, pi_transaction = tx, pi_gasBudget = gasBudget, pi_maxSuiSpend = None\<rparr> w1 = (Inl (Preflight Already_recorded), v)))
            \<and> recorded_in env J requestId v e \<and> settles env e s \<and> w_sent w' = w_sent w)
       \<or> quoted_submission fuel env J \<lparr>pi_requestId = requestId, pi_transaction = tx, pi_gasBudget = gasBudget, pi_maxSuiSpend = None\<rparr> approve w s w')"
  using selfpay_submits [OF assms] unfolding undigested_def by simp

theorem selfpay_submission_sound_witness:
  "\<exists>s w'. selfpay_submit 1 sample_env indexed_db_ops (pi_gasBudget sample_input) (\<lambda>_. okE True) (pi_transaction sample_input) ''job'' sample_world = (Inr s, w')
     \<and> w_sent w' \<noteq> [] \<and> sb_status s = Sub_confirmed
     \<and> quoted_submission 1 sample_env indexed_db_ops \<lparr>pi_requestId = ''job'', pi_transaction = pi_transaction sample_input, pi_gasBudget = pi_gasBudget sample_input, pi_maxSuiSpend = None\<rparr>
         (\<lambda>_. okE True) sample_world s w'"
proof -
  let ?run = "selfpay_submit 1 sample_env indexed_db_ops (pi_gasBudget sample_input) (\<lambda>_. okE True) (pi_transaction sample_input) ''job'' sample_world"
  have "(case ?run of (Inl _, _) \<Rightarrow> False | (Inr s, w') \<Rightarrow> w_sent w' \<noteq> [] \<and> sb_status s = Sub_confirmed)" by code_simp
  then obtain s w' where run: "?run = (Inr s, w')" "w_sent w' \<noteq> []" "sb_status s = Sub_confirmed" by (auto split: prod.splits sum.splits)
  have start: "numbered sample_world" "w_sent sample_world = []" by code_simp+
  from selfpay_submission_sound [OF start(1) run(1)] run start(2) show ?thesis by auto
qed

section \<open>The contract with the runner\<close>

text \<open>
  What a runner may rely on: a submission always returns; it adds at most one broadcast, under a key that was never
  broadcast before as long as the journal is durable, and durability is kept.
\<close>

locale ticket_submitter =
  fixes submitT :: "tx_data \<Rightarrow> string \<Rightarrow> ('w, 'e, submission) eff"
    and sentT :: "'w \<Rightarrow> (journal_key \<times> string) list"
    and durable :: "'w \<Rightarrow> bool"
  assumes returns: "submitT tx name w = (x, w') \<Longrightarrow> \<exists>s. x = Inr s"
    and keeps_durable: "durable w \<Longrightarrow> submitT tx name w = (x, w') \<Longrightarrow> durable w'"
    and sends_once: "durable w \<Longrightarrow> submitT tx name w = (x, w') \<Longrightarrow> sentT w' \<noteq> sentT w \<Longrightarrow>
      \<exists>k d. sentT w' = (k, d) # sentT w \<and> k \<notin> fst ` set (sentT w)"
    and declined: "submitT tx name w = (Inr s, w') \<Longrightarrow> sb_digest s = None \<Longrightarrow> sentT w' = sentT w"
begin

fun submit_all :: "(tx_data \<times> string) list \<Rightarrow> 'w \<Rightarrow> 'w" where
  "submit_all [] w = w"
| "submit_all ((tx, name) # rest) w = submit_all rest (snd (submitT tx name w))"

lemma submit_all_once: "durable w \<Longrightarrow> distinct (map fst (sentT w)) \<Longrightarrow> distinct (map fst (sentT (submit_all ts w)))"
proof (induction ts arbitrary: w)
  case (Cons t ts)
  obtain tx name where t: "t = (tx, name)" by (cases t)
  obtain x w' where run: "submitT tx name w = (x, w')" by (cases "submitT tx name w")
  have "distinct (map fst (sentT w'))"
    using sends_once [OF Cons.prems(1) run] Cons.prems(2) by (cases "sentT w' = sentT w") auto
  with Cons.IH [OF keeps_durable [OF Cons.prems(1) run]] show ?case by (simp add: t run)
qed simp

end

context transaction_journal
begin

text \<open>Every broadcast is recorded in the journal.\<close>

definition journaled :: "('s, 'r) mworld \<Rightarrow> bool" where
  "journaled w \<longleftrightarrow> jinv (w_journal w) \<and> (\<forall>(k, d) \<in> set (w_sent w). recorded (jmap (w_journal w)) k d)"

lemma journaled_quiet:
  assumes "journaled w" "journal_grows w w'" "w_sent w' = w_sent w"
  shows "journaled w'"
  using assms by (auto simp: journaled_def journal_grows_def intro: recorded_extends)

lemma journaled_broadcast:
  assumes inv: "journaled w" and run: "broadcast env ops q w = (x, w')"
  shows "journaled w' \<and> (w_sent w' \<noteq> w_sent w \<longrightarrow> (\<exists>k d. w_sent w' = (k, d) # w_sent w \<and> k \<notin> fst ` set (w_sent w)))"
proof -
  have grown: "journal_grows w w'" by (rule keepsD [OF grows_broadcast run])
  from run show ?thesis
  proof (cases rule: broadcast_cases)
    case (executed p sg w1 w2)
    have sent: "w_sent w1 = w_sent w" "w_sent w2 = w_sent w"
      using sent_broadcast_sign [OF executed(1)] sent_broadcast_claim [OF executed(2)] by simp_all
    have inv1: "journaled w1" by (rule journaled_quiet [OF inv keepsD [OF grows_broadcast_sign executed(1)] sent(1)])
    have j1: "jinv (w_journal w1)" using inv1 by (simp add: journaled_def)
    note won = broadcast_claim_won [OF executed(2) j1]
    let ?k = "entry_key (p_entry p)" and ?d = "je_digest (p_entry p)"
    have "recorded (jmap (w_journal w2)) ?k ?d" by (simp add: won(2) recorded_def)
    have free: "?k \<notin> fst ` set (w_sent w)"
      using inv1 won(1) by (auto simp: journaled_def recorded_def sent(1))
    have inv2: "journaled w2"
      by (rule journaled_quiet [OF inv1 keepsD [OF grows_broadcast_claim executed(2)]]) (simp add: sent)
    have grown2: "journal_grows w2 w'" by (rule keepsD [OF grows_broadcast_execute executed(3)])
    from broadcast_execute_sent [OF executed(3)] consider "w_sent w' = w_sent w2" | "w_sent w' = (?k, ?d) # w_sent w2" by blast
    then show ?thesis
    proof cases
      case 1
      then show ?thesis using journaled_quiet [OF inv2 grown2] sent by simp
    next
      case 2
      have "jinv (w_journal w')" "journal_extends (jmap (w_journal w2)) (jmap (w_journal w'))"
        using grown2 inv2 by (simp_all add: journal_grows_def journaled_def)
      then have "journaled w'"
        using 2 inv2 \<open>recorded (jmap (w_journal w2)) ?k ?d\<close> by (auto simp: journaled_def intro: recorded_extends)
      then show ?thesis using 2 free sent by auto
    qed
  qed (use inv grown journaled_quiet in \<open>auto dest!: sent_broadcast_sign sent_broadcast_claim\<close>)
qed

lemma grows_stages [intro]:
  "keeps journal_grows (sp_recorded env ops i)" "keeps journal_grows (sp_again env ops i)" "keeps journal_grows (sp_quote fuel env ops g tx i)"
  "keeps journal_grows (sp_approve ap q)"
  unfolding sp_recorded_def sp_again_def sp_quote_def sp_approve_def
  by (intro keeps_catchE keeps_bindE keeps_pure keeps_if journal_grows_preorder grows_query grows_prepare grows_rpcE)+

lemma journaled_stage:
  assumes "journaled v" "keeps journal_grows m" "keeps same_sent m" "m v = (r, v')"
  shows "journaled v' \<and> w_sent v' = w_sent v"
  using journaled_quiet [OF assms(1) keepsD [OF assms(2,4)]] keepsD [OF assms(3,4)] by (simp add: same_sent_def)

lemma journaled_selfpay:
  assumes inv: "journaled w" and run: "selfpay_submit fuel env ops g approve tx i w = (x, w')"
  shows "journaled w' \<and> (w_sent w' \<noteq> w_sent w \<longrightarrow> (\<exists>k d. w_sent w' = (k, d) # w_sent w \<and> k \<notin> fst ` set (w_sent w)))"
proof -
  let ?last = "\<lambda>q. elseE (sp_approve approve q) (\<lambda>_. bindE (sp_send env ops q) (\<lambda>s. okE (Inr s)))"
  note quiet = journaled_stage
  from run obtain y where "elseE (sp_recorded env ops i) (\<lambda>_. elseE (sp_quote fuel env ops g tx i) ?last) w = (y, w')"
    unfolding selfpay_submit_def by (auto dest: bind_last)
  then show ?thesis
  proof (rule elseE_E)
    fix u w1
    assume a: "sp_recorded env ops i w = (Inr (Inr u), w1)" and "elseE (sp_quote fuel env ops g tx i) ?last w1 = (y, w')"
    note w1 = quiet [OF inv grows_stages(1) sp_same_sent(1) a]
    from \<open>elseE (sp_quote fuel env ops g tx i) ?last w1 = (y, w')\<close> show ?thesis
    proof (rule elseE_E)
      fix q w2
      assume b: "sp_quote fuel env ops g tx i w1 = (Inr (Inr q), w2)" and "?last q w2 = (y, w')"
      note w2 = quiet [OF conjunct1 [OF w1] grows_stages(3) sp_same_sent(3) b]
      from \<open>?last q w2 = (y, w')\<close> show ?thesis
      proof (rule elseE_E)
        fix v w3
        assume c: "sp_approve approve q w2 = (Inr (Inr v), w3)" and "bindE (sp_send env ops q) (\<lambda>s. okE (Inr s)) w3 = (y, w')"
        note w3 = quiet [OF conjunct1 [OF w2] grows_stages(4) sp_same_sent(4) c]
        obtain z where "broadcast env ops q w3 = (z, w')"
          using \<open>bindE (sp_send env ops q) (\<lambda>s. okE (Inr s)) w3 = (y, w')\<close> by (auto dest!: bind_last sp_send_sent)
        from journaled_broadcast [OF conjunct1 [OF w3] this] show ?thesis using w1 w2 w3 by simp
      qed (use w1 w2 in \<open>auto dest!: quiet [OF conjunct1 [OF w2] grows_stages(4) sp_same_sent(4)]\<close>)
    qed (use w1 in \<open>auto dest!: quiet [OF conjunct1 [OF w1] grows_stages(3) sp_same_sent(3)]\<close>)
  qed (auto dest!: quiet [OF inv grows_stages(1) sp_same_sent(1)])
qed

end

lemma selfpay_returns: "selfpay_submit fuel env J g approve tx i w = (x, w') \<Longrightarrow> \<exists>s. x = Inr s"
  by (erule selfpay_cases) blast+

lemma selfpay_declined:
  assumes "selfpay_submit fuel env J g approve tx i w = (Inr s, w')" "sb_digest s = None"
  shows "w_sent w' = w_sent w"
  using assms(1)
proof (cases rule: selfpay_cases)
  case (sent t q w1 w2 w3)
  then show ?thesis using sp_send_read [OF sent(5)] assms(2) by (auto simp: submission_of_def)
qed simp

interpretation selfpay: ticket_submitter "selfpay_submit fuel env indexed_db_ops gasBudget approve" w_sent indexed_db.journaled
  for fuel env gasBudget approve
proof
  fix tx name w x w'
  assume "selfpay_submit fuel env indexed_db_ops gasBudget approve tx name w = (x, w')"
  then show "\<exists>s. x = Inr s" by (rule selfpay_returns)
next
  fix tx name w x w'
  assume "indexed_db.journaled w" and "selfpay_submit fuel env indexed_db_ops gasBudget approve tx name w = (x, w')"
  from indexed_db.journaled_selfpay [unfolded indexed_db_ops_eq, OF this] show "indexed_db.journaled w'" by simp
next
  fix tx name w x w'
  assume "indexed_db.journaled w" and "selfpay_submit fuel env indexed_db_ops gasBudget approve tx name w = (x, w')"
    and "w_sent w' \<noteq> w_sent w"
  from indexed_db.journaled_selfpay [unfolded indexed_db_ops_eq, OF this(1,2)] this(3)
  show "\<exists>k d. w_sent w' = (k, d) # w_sent w \<and> k \<notin> fst ` set (w_sent w)" by simp
next
  fix tx name w s w'
  assume "selfpay_submit fuel env indexed_db_ops gasBudget approve tx name w = (Inr s, w')" "sb_digest s = None"
  then show "w_sent w' = w_sent w" by (rule selfpay_declined)
qed

end
