(* ===== verification/Command_Results.thy ===== *)
theory Command_Results
  imports Node_Command
begin

text \<open>
  \<^verbatim>\<open>NativeCommandResults\<close> of \<^verbatim>\<open>apps/fractalmind-app/src/command-results.ts\<close>: what is checked before a signed
  command is composed into a transaction (with the wrapped key its result is encrypted under) or published on the
  chain for a Host. Every preparation reads the device's authority, the Host directory, the managed Agent and
  the record index into a pin, and is worth only as much as the pin: it is read again before and after the
  transaction is composed and by the check handed to the caller.

  Chain reads, the device bridge and the SDK's transaction builders are fields of \<open>results_env\<close>. A pin is the
  tuple of the values whose JSON text the code compares.
\<close>

section \<open>Data\<close>

datatype results_error = Cr_invalid_command | Cr_invalid_source | Cr_state_changed | Cr_command_expired | Cr_invalid_envelope | Cr_outside

record command_target_input =
  tg_command :: signed_command
  tg_membershipId :: string
  tg_bindingId :: string
  tg_managedAgentId :: "string option"

record device_authority =
  da_actions :: "string list"
  da_authorityPin :: string
  da_encryptedKeys :: string

record admitted_host =
  ah_id :: string
  ah_revoked :: bool
  ah_host_address :: string
  ah_coordinator_binding :: string
  ah_expires_at_ms :: int
  ah_host_public_key :: "int list"
  ah_encryption_public_key :: "int list"
  ah_rest :: json

record coordinator_binding =
  co_id :: string
  co_revoked :: bool
  co_rest :: json

record hosts_directory =
  ho_clockMs :: int
  ho_chainIdentifier :: string
  ho_activeHostsTableId :: "string option"
  ho_instancesTableId :: "string option"
  ho_memberships :: "admitted_host list"
  ho_bindings :: "coordinator_binding list"

record managed_instance =
  ma_id :: string
  ma_membership_id :: string
  ma_revoked :: bool
  ma_rest :: json

record execution_run =
  ru_state :: int
  ru_stop_requested :: bool
  ru_grant_id :: string
  ru_human_id :: string
  ru_org_id :: string
  ru_capability_id :: string
  ru_intent_hash :: "int list"
  ru_rest :: json

type_synonym source_pin =
  "string \<times> string \<times> string \<times> string option \<times> admitted_host \<times> coordinator_binding \<times> managed_instance option \<times> string"

record command_source =
  cs_authority :: device_authority
  cs_member :: admitted_host
  cs_keyVersion :: string
  cs_pin :: source_pin

text \<open>What the device wraps or encrypts for, and the transaction the SDK is asked to compose.\<close>

record wrap_request =
  wr_capabilityId :: string
  wr_membershipId :: string
  wr_intentHash :: string
  wr_keyVersion :: string
  wr_hostAddress :: string
  wr_hostSigningPublicKey :: "int list"
  wr_hostEncryptionPublicKey :: "int list"
  wr_encryptedKeys :: string

record 't prepared_command =
  pd_transaction :: 't
  pd_input :: command_target_input
  pd_pin :: source_pin
  pd_run :: "(string \<times> execution_run) option"

record ('r, 't) results_env =
  ce_organizationId :: string
  ce_grantId :: string
  ce_humanId :: string
  ce_device :: string
  ce_hash :: hash_env
  ce_keys :: key_env
  ce_dateNow :: "'r \<Rightarrow> int \<times> 'r"
  ce_verifyOrganization :: "string \<Rightarrow> ('r, unit, device_authority) eff"
  ce_hostDirectory :: "('r, unit, hosts_directory) eff"
  ce_activeHost :: "string \<Rightarrow> string \<Rightarrow> ('r, unit, string \<times> string) eff"
  ce_managedInstance :: "string \<Rightarrow> string \<Rightarrow> ('r, unit, managed_instance option) eff"
  ce_keyVersion :: "('r, unit, string) eff"
  ce_getExecution :: "string \<Rightarrow> ('r, unit, execution_run) eff"
  ce_wrapKey :: "wrap_request \<Rightarrow> ('r, unit, string option) eff"
  ce_encryptDelivery :: "wrap_request \<Rightarrow> signed_command \<Rightarrow> ('r, unit, string option) eff"
  ce_fromBase64 :: "string \<Rightarrow> string option"
  ce_toBase64 :: "string \<Rightarrow> string"
  ce_prepareCommand :: "command_target_input \<Rightarrow> wrap_request \<Rightarrow> string \<Rightarrow> bool \<Rightarrow> 't option \<Rightarrow> ('r, unit, 't) eff"
  ce_queueCommand :: "command_target_input \<Rightarrow> string \<Rightarrow> string \<Rightarrow> string \<Rightarrow> ('r, unit, 't) eff"

type_synonym ('r, 'a) results = "('r, results_error, 'a) eff"

definition awaitC :: "('r, unit, 'a) eff \<Rightarrow> ('r, 'a) results" where
  "awaitC m = (\<lambda>r. case m r of (Inl _, r') \<Rightarrow> (Inl Cr_outside, r') | (Inr a, r') \<Rightarrow> (Inr a, r'))"

section \<open>The command\<close>

definition isHostHealthCommand :: "signed_command \<Rightarrow> bool" where
  "isHostHealthCommand c \<longleftrightarrow> sc_action c = ''health'' \<and> sc_scope c = ''observation'' \<and> sc_agent_id c = None"

text \<open>\<^verbatim>\<open>/^(native|tmux)-[0-9a-f]{64}$/\<close>\<close>

definition agent_instance_id :: "string \<Rightarrow> bool" where
  "agent_instance_id s \<longleftrightarrow> (take 7 s = ''native-'' \<and> is_hex64 (drop 7 s)) \<or> (take 5 s = ''tmux-'' \<and> is_hex64 (drop 5 s))"

definition issued_by_app :: "signed_command \<Rightarrow> bool" where
  "issued_by_app c \<longleftrightarrow>
     (sc_scope c = ''observation'' \<and> sc_action c \<in> {''status'', ''inventory'', ''monitor'', ''logs'', ''health'', ''availability''})
     \<or> (sc_scope c = ''control'' \<and> sc_action c \<in> {''assign'', ''start'', ''stop''})
     \<or> (sc_scope c = ''direct'' \<and> sc_action c = ''direct.message'')"

definition snapshot_ok :: "('r, 't) results_env \<Rightarrow> command_target_input \<Rightarrow> bool" where
  "snapshot_ok E t \<longleftrightarrow> (let c = tg_command t in
     list_all is_object_id ([tg_membershipId t, tg_bindingId t] @ (case tg_managedAgentId t of None \<Rightarrow> [] | Some m \<Rightarrow> [m])
        @ [sc_node_id c, sc_capability_id c])
     \<and> sc_signer c = ce_device E \<and> sc_organization_id c = ce_organizationId E
     \<and> (case tg_managedAgentId t of None \<Rightarrow> isHostHealthCommand c
        | Some _ \<Rightarrow> (case sc_agent_id c of None \<Rightarrow> False | Some a \<Rightarrow> agent_instance_id a))
     \<and> is_safe_integer (Some (sc_expires_at_ms c)) \<and> issued_by_app c)"

definition snapshotC :: "('r, 't) results_env \<Rightarrow> command_target_input \<Rightarrow> ('r, command_target_input) results" where
  "snapshotC E t =
     bindE (assertE (snapshot_ok E t) Cr_invalid_command) (\<lambda>_.
     bindE (assertE (verifySignedNodeCommand (ce_hash E) (ce_keys E) (tg_command t) = Inr ()) Cr_invalid_command) (\<lambda>_.
     okE t))"

section \<open>The source of a command\<close>

definition is_review :: "signed_command \<Rightarrow> bool" where
  "is_review c \<longleftrightarrow> sc_action c = ''status'' \<and> field (sc_payload c) ''handover_review'' \<noteq> None"

definition needed_action :: "signed_command \<Rightarrow> string" where
  "needed_action c = (if is_review c then ''approve'' else if sc_scope c = ''control'' \<or> sc_scope c = ''direct'' then ''operate'' else ''read'')"

definition host_of :: "command_target_input \<Rightarrow> hosts_directory \<Rightarrow> admitted_host option" where
  "host_of t d = List.find (\<lambda>m. ah_id m = tg_membershipId t \<and> \<not> ah_revoked m \<and> ah_host_address m = sc_node_id (tg_command t)
     \<and> ah_coordinator_binding m = tg_bindingId t \<and> ho_clockMs d < ah_expires_at_ms m) (ho_memberships d)"

definition binding_of :: "command_target_input \<Rightarrow> hosts_directory \<Rightarrow> coordinator_binding option" where
  "binding_of t d = List.find (\<lambda>b. co_id b = tg_bindingId t \<and> \<not> co_revoked b) (ho_bindings d)"

definition object_id_types :: "string list" where
  "object_id_types = [''0x2::object::ID'', ''0x'' @ replicate 63 (CHR ''0'') @ ''2::object::ID'']"

definition managed_ok :: "command_target_input \<Rightarrow> admitted_host \<Rightarrow> managed_instance option \<Rightarrow> bool" where
  "managed_ok t member managed \<longleftrightarrow> (case tg_managedAgentId t of None \<Rightarrow> True
     | Some i \<Rightarrow> (case managed of None \<Rightarrow> False | Some m \<Rightarrow> ma_id m = i \<and> ma_membership_id m = ah_id member \<and> \<not> ma_revoked m))"

text \<open>\<^verbatim>\<open>/^[1-9][0-9]*$/\<close> and at most \<^verbatim>\<open>2^64 - 1\<close>\<close>

definition key_version_ok :: "string \<Rightarrow> bool" where
  "key_version_ok s \<longleftrightarrow> positive_text s \<and> dec_value s \<le> MAX_U64"

text \<open>The active membership of the Host and the managed instance, read for a member and a binding of the directory.\<close>

definition sourceRest :: "('r, 't) results_env \<Rightarrow> command_target_input \<Rightarrow> device_authority \<Rightarrow> hosts_directory \<Rightarrow> admitted_host \<Rightarrow> coordinator_binding
    \<Rightarrow> ('r, command_source) results" where
  "sourceRest E t authority d member b =
     bindE (assertE (length (ah_encryption_public_key member) = 32) Cr_invalid_source) (\<lambda>_.
     bindE (assertE (ho_activeHostsTableId d \<noteq> None \<and> ho_activeHostsTableId d \<noteq> Some []) Cr_invalid_source) (\<lambda>_.
     bindE (awaitC (ce_activeHost E (the (ho_activeHostsTableId d)) (ah_host_address member))) (\<lambda>(type, active).
     bindE (assertE (type \<in> set object_id_types \<and> active = ah_id member) Cr_invalid_source) (\<lambda>_.
     bindE (case tg_managedAgentId t of None \<Rightarrow> okE None
            | Some _ \<Rightarrow> awaitC (ce_managedInstance E (sc_node_id (tg_command t)) (the (sc_agent_id (tg_command t))))) (\<lambda>managed.
     bindE (assertE (managed_ok t member managed) Cr_invalid_source) (\<lambda>_.
     bindE (awaitC (ce_keyVersion E)) (\<lambda>keyVersion.
     bindE (assertE (key_version_ok keyVersion) Cr_invalid_source) (\<lambda>_.
     okE \<lparr>cs_authority = authority, cs_member = member, cs_keyVersion = keyVersion,
          cs_pin = (da_authorityPin authority, ho_chainIdentifier d, the (ho_activeHostsTableId d), ho_instancesTableId d,
                    member, b, managed, keyVersion)\<rparr>))))))))"

definition sourceC :: "('r, 't) results_env \<Rightarrow> command_target_input \<Rightarrow> ('r, command_source) results" where
  "sourceC E t = (let c = tg_command t in
     bindE (awaitC (ce_verifyOrganization E (needed_action c))) (\<lambda>authority.
     bindE (assertE (is_review c \<longrightarrow> set [''read'', ''operate'', ''approve'', ''manage_hosts''] \<subseteq> set (da_actions authority)) Cr_invalid_source) (\<lambda>_.
     bindE (awaitC (ce_hostDirectory E)) (\<lambda>d.
     bindE (assertE (ho_clockMs d < sc_expires_at_ms c) Cr_command_expired) (\<lambda>_.
     bindE (\<lambda>r. case ce_dateNow E r of (t, r') \<Rightarrow> (Inr t, r')) (\<lambda>now.
     bindE (assertE (now < sc_expires_at_ms c) Cr_command_expired) (\<lambda>_.
     case (host_of t d, binding_of t d) of
       (Some member, Some b) \<Rightarrow> sourceRest E t authority d member b
     | _ \<Rightarrow> throwE Cr_invalid_source)))))))"

text \<open>The check handed to the caller: the same source, and for a delivery the same Run.\<close>

definition recheckC :: "('r, 't) results_env \<Rightarrow> command_target_input \<Rightarrow> source_pin \<Rightarrow> ('r, unit) results" where
  "recheckC E t pin = bindE (sourceC E t) (\<lambda>s. assertE (cs_pin s = pin) Cr_state_changed)"

definition recheckRun :: "('r, 't) results_env \<Rightarrow> command_target_input \<Rightarrow> source_pin \<Rightarrow> string \<Rightarrow> execution_run \<Rightarrow> ('r, unit) results" where
  "recheckRun E t pin executionId run =
     bindE (sourceC E t) (\<lambda>s.
     bindE (assertE (cs_pin s = pin) Cr_state_changed) (\<lambda>_.
     bindE (awaitC (ce_getExecution E executionId)) (\<lambda>again. assertE (again = run) Cr_state_changed)))"

definition assertCurrentC :: "('r, 't) results_env \<Rightarrow> 't prepared_command \<Rightarrow> ('r, unit) results" where
  "assertCurrentC E p = (case pd_run p of None \<Rightarrow> recheckC E (pd_input p) (pd_pin p)
     | Some (executionId, run) \<Rightarrow> recheckRun E (pd_input p) (pd_pin p) executionId run)"

definition preflightC :: "('r, 't) results_env \<Rightarrow> command_target_input \<Rightarrow> ('r, command_target_input \<times> source_pin) results" where
  "preflightC E raw =
     bindE (snapshotC E raw) (\<lambda>t.
     bindE (sourceC E t) (\<lambda>before.
     okE (t, cs_pin before)))"

section \<open>Preparing a transaction\<close>

definition wrap_for :: "command_target_input \<Rightarrow> command_source \<Rightarrow> string \<Rightarrow> wrap_request" where
  "wrap_for t s fingerprint = \<lparr>wr_capabilityId = sc_capability_id (tg_command t), wr_membershipId = ah_id (cs_member s),
     wr_intentHash = fingerprint, wr_keyVersion = cs_keyVersion s, wr_hostAddress = ah_host_address (cs_member s),
     wr_hostSigningPublicKey = ah_host_public_key (cs_member s), wr_hostEncryptionPublicKey = ah_encryption_public_key (cs_member s),
     wr_encryptedKeys = da_encryptedKeys (cs_authority s)\<rparr>"

definition fingerprintC :: "('r, 't) results_env \<Rightarrow> signed_command \<Rightarrow> ('r, string) results" where
  "fingerprintC E c = liftR (case nodeCommandIntentHash (ce_hash E) c of Inl _ \<Rightarrow> Inl Cr_outside | Inr h \<Rightarrow> Inr (bytesToHex h))"

text \<open>The wrapped key: 132 bytes, two envelopes.\<close>

definition wrapped_key :: "('r, 't) results_env \<Rightarrow> string option \<Rightarrow> string option" where
  "wrapped_key E result = (case result of None \<Rightarrow> None
     | Some s \<Rightarrow> if length s \<noteq> 176 then None
        else (case ce_fromBase64 E s of None \<Rightarrow> None
              | Some b \<Rightarrow> if length b = 132 \<and> ce_toBase64 E b = s \<and> take 4 b = ''FMW1'' \<and> take 4 (drop 68 b) = ''FME1'' then Some b else None))"

text \<open>The encrypted command of a delivery.\<close>

definition delivery_body :: "('r, 't) results_env \<Rightarrow> string option \<Rightarrow> string option" where
  "delivery_body E result = (case result of None \<Rightarrow> None
     | Some s \<Rightarrow> if 87384 < length s then None
        else (case ce_fromBase64 E s of None \<Rightarrow> None
              | Some b \<Rightarrow> if 33 \<le> length b \<and> length b \<le> 65536 \<and> ce_toBase64 E b = s \<and> take 4 b = ''FME3'' then Some b else None))"

text \<open>The Run that a delivery is published for: this command's, queued, not asked to stop, of this human and device.\<close>

definition deliverable :: "('r, 't) results_env \<Rightarrow> signed_command \<Rightarrow> string \<Rightarrow> execution_run \<Rightarrow> bool" where
  "deliverable E c fingerprint run \<longleftrightarrow> ru_state run = 0 \<and> \<not> ru_stop_requested run \<and> ru_grant_id run = ce_grantId E \<and> ru_human_id run = ce_humanId E
     \<and> ru_org_id run = ce_organizationId E \<and> ru_capability_id run = sc_capability_id c
     \<and> bytesToHex (map (\<lambda>b. char_of (nat b)) (ru_intent_hash run)) = fingerprint"

definition prepareC :: "('r, 't) results_env \<Rightarrow> command_target_input \<Rightarrow> 't option \<Rightarrow> string option \<Rightarrow> bool \<Rightarrow> ('r, 't prepared_command) results" where
  "prepareC E raw tx expectedKeyVersion scheduled =
     bindE (snapshotC E raw) (\<lambda>t.
     bindE (sourceC E t) (\<lambda>before.
     bindE (fingerprintC E (tg_command t)) (\<lambda>fingerprint.
     bindE (assertE (expectedKeyVersion = None \<or> expectedKeyVersion = Some (cs_keyVersion before)) Cr_state_changed) (\<lambda>_.
     bindE (awaitC (ce_wrapKey E (wrap_for t before fingerprint))) (\<lambda>result.
     case wrapped_key E result of None \<Rightarrow> throwE Cr_invalid_envelope
     | Some wrapped \<Rightarrow>
         bindE (recheckC E t (cs_pin before)) (\<lambda>_.
         bindE (awaitC (ce_prepareCommand E t (wrap_for t before fingerprint) wrapped scheduled tx)) (\<lambda>transaction.
         bindE (assertE (tx = None \<or> tx = Some transaction) Cr_invalid_source) (\<lambda>_.
         bindE (recheckC E t (cs_pin before)) (\<lambda>_.
         okE \<lparr>pd_transaction = transaction, pd_input = t, pd_pin = cs_pin before, pd_run = None\<rparr>)))))))))"

definition prepareDeliveryC :: "('r, 't) results_env \<Rightarrow> command_target_input \<Rightarrow> string \<Rightarrow> ('r, 't prepared_command) results" where
  "prepareDeliveryC E raw executionId =
     bindE (assertE (is_object_id executionId) Cr_invalid_source) (\<lambda>_.
     bindE (assertE (tg_managedAgentId raw \<noteq> None) Cr_invalid_command) (\<lambda>_.
     bindE (snapshotC E raw) (\<lambda>t.
     bindE (sourceC E t) (\<lambda>before.
     bindE (fingerprintC E (tg_command t)) (\<lambda>fingerprint.
     bindE (awaitC (ce_getExecution E executionId)) (\<lambda>run.
     bindE (assertE (deliverable E (tg_command t) fingerprint run) Cr_state_changed) (\<lambda>_.
     bindE (awaitC (ce_encryptDelivery E (wrap_for t before fingerprint) (tg_command t))) (\<lambda>encrypted.
     case delivery_body E encrypted of None \<Rightarrow> throwE Cr_invalid_envelope
     | Some body \<Rightarrow>
         bindE (recheckRun E t (cs_pin before) executionId run) (\<lambda>_.
         bindE (awaitC (ce_queueCommand E t executionId (cs_keyVersion before) body)) (\<lambda>transaction.
         bindE (recheckRun E t (cs_pin before) executionId run) (\<lambda>_.
         okE \<lparr>pd_transaction = transaction, pd_input = t, pd_pin = cs_pin before, pd_run = Some (executionId, run)\<rparr>)))))))))))"

section \<open>What a prepared command rests on\<close>

lemma awaitC_ok: "awaitC m r = (Inr a, r') \<longleftrightarrow> m r = (Inr a, r')"
  by (auto simp: awaitC_def split: prod.splits sum.splits)

lemma snapshot_Inr: "snapshotC E t r = (Inr t', r') \<longleftrightarrow>
    t' = t \<and> r' = r \<and> snapshot_ok E t \<and> verifySignedNodeCommand (ce_hash E) (ce_keys E) (tg_command t) = Inr ()"
  by (auto simp: snapshotC_def eff_oks bindE_eq assertE_eq okE_eq)

lemma recheck_Inr: "recheckC E t pin r = (Inr u, r') \<longleftrightarrow> (\<exists>s. sourceC E t r = (Inr s, r') \<and> cs_pin s = pin)"
  by (auto simp: recheckC_def eff_oks bindE_eq assertE_eq split: if_split_asm)

text \<open>A Host that is in the directory, in force, active, and whose managed instance is the one of the command.\<close>

definition host_in_force :: "('r, 't) results_env \<Rightarrow> command_target_input \<Rightarrow> command_source \<Rightarrow> bool" where
  "host_in_force E t s \<longleftrightarrow> (let m = cs_member s in
     ah_id m = tg_membershipId t \<and> \<not> ah_revoked m \<and> ah_host_address m = sc_node_id (tg_command t) \<and> ah_coordinator_binding m = tg_bindingId t
     \<and> length (ah_encryption_public_key m) = 32 \<and> key_version_ok (cs_keyVersion s)
     \<and> (\<exists>table type r. fst (ce_activeHost E table (sc_node_id (tg_command t)) r) = Inr (type, tg_membershipId t))
     \<and> (\<exists>d r. fst (ce_hostDirectory E r) = Inr d \<and> m \<in> set (ho_memberships d) \<and> ho_clockMs d < ah_expires_at_ms m
          \<and> ho_clockMs d < sc_expires_at_ms (tg_command t)))"

lemma source_in_force:
  assumes "sourceC E t r = (Inr s, r')"
  shows "host_in_force E t s"
proof -
  from assms obtain d r1 r2 m b r3 authority where d: "ce_hostDirectory E r1 = (Inr d, r2)" and clock: "ho_clockMs d < sc_expires_at_ms (tg_command t)"
    and m: "host_of t d = Some m" "binding_of t d = Some b" and rest: "sourceRest E t authority d m b r3 = (Inr s, r')"
    by (auto simp: sourceC_def Let_def eff_oks awaitC_ok elim!: bindE_okE split: option.split_asm)
  from m(1) have host: "m \<in> set (ho_memberships d)" "ah_id m = tg_membershipId t" "\<not> ah_revoked m" "ah_host_address m = sc_node_id (tg_command t)"
    "ah_coordinator_binding m = tg_bindingId t" "ho_clockMs d < ah_expires_at_ms m"
    by (auto simp: host_of_def dest!: find_SomeD)
  from rest obtain type r4 r5 where "ce_activeHost E (the (ho_activeHostsTableId d)) (ah_host_address m) r4 = (Inr (type, ah_id m), r5)"
    "length (ah_encryption_public_key m) = 32" "cs_member s = m" "key_version_ok (cs_keyVersion s)"
    by (auto simp: sourceRest_def eff_oks awaitC_ok elim!: bindE_okE split: prod.split_asm)
  moreover from this(1) have "\<exists>table type r. fst (ce_activeHost E table (sc_node_id (tg_command t)) r) = Inr (type, tg_membershipId t)"
    using host by (metis fst_conv)
  moreover have "\<exists>d r. fst (ce_hostDirectory E r) = Inr d \<and> m \<in> set (ho_memberships d) \<and> ho_clockMs d < ah_expires_at_ms m
          \<and> ho_clockMs d < sc_expires_at_ms (tg_command t)"
    using d host clock by (metis fst_conv)
  ultimately show ?thesis using host by (simp add: host_in_force_def Let_def)
qed


text \<open>
  A command is published on the chain only for its own Run: queued, not asked to stop, of this device, human, organization and capability, with
  the intent hash of the command; the Run and the source of the command read right before and right after the transaction was
  composed are the ones that were checked. A command for the whole Host is never published.
\<close>

theorem delivery_for_queued_run:
  assumes "prepareDeliveryC E raw executionId r = (Inr p, r')"
  shows "tg_managedAgentId raw \<noteq> None \<and> snapshot_ok E raw \<and> verifySignedNodeCommand (ce_hash E) (ce_keys E) (tg_command raw) = Inr ()
    \<and> (\<exists>h run before. nodeCommandIntentHash (ce_hash E) (tg_command raw) = Inr h \<and> pd_run p = Some (executionId, run)
         \<and> deliverable E (tg_command raw) (bytesToHex h) run \<and> pd_pin p = cs_pin before \<and> host_in_force E raw before
         \<and> (\<exists>u1 u2 v1 body. recheckRun E raw (pd_pin p) executionId run u1 = (Inr (), u2)
              \<and> ce_queueCommand E raw executionId (cs_keyVersion before) body u2 = (Inr (pd_transaction p), v1)
              \<and> recheckRun E raw (pd_pin p) executionId run v1 = (Inr (), r')))"
proof -
  from assms obtain before h run body r1 u1 u2 v1 where
    ok: "tg_managedAgentId raw \<noteq> None" "snapshot_ok E raw" "verifySignedNodeCommand (ce_hash E) (ce_keys E) (tg_command raw) = Inr ()"
    and src: "sourceC E raw r = (Inr before, r1)" and h: "nodeCommandIntentHash (ce_hash E) (tg_command raw) = Inr h"
    and run: "deliverable E (tg_command raw) (bytesToHex h) run" "recheckRun E raw (cs_pin before) executionId run u1 = (Inr (), u2)"
      "ce_queueCommand E raw executionId (cs_keyVersion before) body u2 = (Inr (pd_transaction p), v1)"
      "recheckRun E raw (cs_pin before) executionId run v1 = (Inr (), r')"
    and p: "pd_pin p = cs_pin before" "pd_run p = Some (executionId, run)"
    unfolding prepareDeliveryC_def
    by (auto simp: snapshot_Inr awaitC_ok fingerprintC_def eff_oks elim!: bindE_okE split: option.split_asm sum.split_asm)
  note force = source_in_force [OF src]
  have "\<exists>u1 u2 v1 body. recheckRun E raw (pd_pin p) executionId run u1 = (Inr (), u2)
      \<and> ce_queueCommand E raw executionId (cs_keyVersion before) body u2 = (Inr (pd_transaction p), v1)
      \<and> recheckRun E raw (pd_pin p) executionId run v1 = (Inr (), r')"
    by (rule exI [of _ u1], rule exI [of _ u2], rule exI [of _ v1], rule exI [of _ body]) (simp add: run p)
  then show ?thesis using ok h run(1) p force by blast
qed

section \<open>A sample Host\<close>

definition some_id :: "char \<Rightarrow> string" where
  "some_id c = ''0x'' @ replicate 64 c"

definition host_signer :: "unit command_signer" where
  "host_signer = sample_signer\<lparr>cs_address := some_id (CHR ''d'')\<rparr>"

definition host_keys :: key_env where
  "host_keys = sample_keys\<lparr>ke_address := (\<lambda>k. some_id (CHR ''d''))\<rparr>"

definition host_input :: sign_command_input where
  "host_input = \<lparr>ni_target = \<lparr>ct_organizationId = ''org'', ct_nodeId = some_id (CHR ''1''), ct_agentId = Some (''native-'' @ replicate 64 (CHR ''a''))\<rparr>,
     ni_action = ''status'', ni_scope = ''observation'', ni_capability = \<lparr>cr_id = some_id (CHR ''2''), cr_revocationVersion = UBigInt 1\<rparr>,
     ni_payload = Some (JObject []), ni_commandId = None, ni_nonce = None, ni_idempotencyKey = None, ni_issuedAtMs = None, ni_expiresAtMs = None, ni_budget = None\<rparr>"

definition host_signing :: signing_input where
  "host_signing = signing_of (cs_address host_signer) host_input 1000 (bytesToHex (sha256 sample_hash (stringify (payload_of host_input)))) ''uuid'' ''uuid''"

definition host_command :: signed_command where
  "host_command = wire_of host_signing (dec_string 1) None (payload_of host_input) (signature_text sample_key (sample_key @ sample_key))"

lemma host_command_signed: "signNodeCommand sample_hash host_signer host_input () = (Inr host_command, ())"
proof -
  have key: "sample_key = cs_publicBytes host_signer" by (simp add: host_signer_def sample_signer_def)
  show ?thesis
    unfolding host_command_def key
  proof (rule signNodeCommand_runs)
    show "list_all signing_token (signing_tokens host_input host_signing)"
      by (simp add: signing_tokens_def signing_of_def host_signing_def host_input_def host_signer_def sample_signer_def signing_token_def is_token_char_def
          is_alnum_def is_digit_def some_id_def list_all_iff)
    show "host_signing = signing_of (cs_address host_signer) host_input 1000 (bytesToHex (sha256 sample_hash (stringify (payload_of host_input)))) ''uuid'' ''uuid''"
      by (rule host_signing_def)
  qed (simp add: host_signer_def sample_signer_def sample_key_def host_input_def issuedE_def uuidE_def eff_run payload_of_def expires_of_def
        safe_timestamp_def is_safe_integer_def max_safe_integer_def in_u64_def MAX_U64_def budget_texts_def del: stringify.simps)+
qed

lemma host_command_verified: "verifySignedNodeCommand sample_hash host_keys host_command = Inr ()"
  by (rule signed_accepts [OF host_command_signed])
    (simp_all add: host_keys_def host_signer_def sample_keys_def sample_signer_def eff_run)

lemma host_command_fields:
  "sc_action host_command = ''status''" "sc_scope host_command = ''observation''" "sc_payload host_command = JObject []" "sc_signer host_command = some_id (CHR ''d'')"
  "sc_organization_id host_command = ''org''" "sc_node_id host_command = some_id (CHR ''1'')" "sc_capability_id host_command = some_id (CHR ''2'')"
  "sc_agent_id host_command = Some (''native-'' @ replicate 64 (CHR ''a''))" "sc_expires_at_ms host_command = 61000"
  by (simp_all add: host_command_def host_signing_def wire_of_def signing_of_def host_input_def host_signer_def payload_of_def agent_of_def expires_of_def
      del: stringify.simps)

definition host_target :: command_target_input where
  "host_target = \<lparr>tg_command = host_command, tg_membershipId = some_id (CHR ''3''), tg_bindingId = some_id (CHR ''4''), tg_managedAgentId = Some (some_id (CHR ''5''))\<rparr>"

definition host_run :: execution_run where
  "host_run = \<lparr>ru_state = 0, ru_stop_requested = False, ru_grant_id = ''grant'', ru_human_id = ''human'', ru_org_id = ''org'', ru_capability_id = some_id (CHR ''2''),
     ru_intent_hash = (case nodeCommandIntentHash sample_hash host_command of Inl _ \<Rightarrow> [] | Inr h \<Rightarrow> map (\<lambda>c. int (of_char c)) h), ru_rest = JNull\<rparr>"

definition host_member :: admitted_host where
  "host_member = \<lparr>ah_id = some_id (CHR ''3''), ah_revoked = False, ah_host_address = some_id (CHR ''1''), ah_coordinator_binding = some_id (CHR ''4''),
     ah_expires_at_ms = 90000, ah_host_public_key = [1], ah_encryption_public_key = replicate 32 7, ah_rest = JNull\<rparr>"

definition host_binding :: coordinator_binding where
  "host_binding = \<lparr>co_id = some_id (CHR ''4''), co_revoked = False, co_rest = JNull\<rparr>"

definition hosts :: hosts_directory where
  "hosts = \<lparr>ho_clockMs = 1500, ho_chainIdentifier = ''chain'', ho_activeHostsTableId = Some ''table'', ho_instancesTableId = None,
     ho_memberships = [host_member], ho_bindings = [host_binding]\<rparr>"

text \<open>A bridge that wraps into texts that decode to themselves.\<close>

definition host_env :: "(unit, string) results_env" where
  "host_env = \<lparr>ce_organizationId = ''org'', ce_grantId = ''grant'', ce_humanId = ''human'', ce_device = some_id (CHR ''d''), ce_hash = sample_hash, ce_keys = host_keys,
     ce_dateNow = (\<lambda>r. (2000, r)), ce_verifyOrganization = (\<lambda>a. okE \<lparr>da_actions = [a], da_authorityPin = ''pin'', da_encryptedKeys = ''keys''\<rparr>),
     ce_hostDirectory = okE hosts,
     ce_activeHost = (\<lambda>table a. okE (''0x2::object::ID'', some_id (CHR ''3''))),
     ce_managedInstance = (\<lambda>n a. okE (Some \<lparr>ma_id = some_id (CHR ''5''), ma_membership_id = some_id (CHR ''3''), ma_revoked = False, ma_rest = JNull\<rparr>)),
     ce_keyVersion = okE ''7'', ce_getExecution = (\<lambda>i. okE host_run),
     ce_wrapKey = (\<lambda>q. okE (Some (replicate 176 (CHR ''w'')))), ce_encryptDelivery = (\<lambda>q c. okE (Some (''FME3'' @ replicate 40 (CHR ''e'')))),
     ce_fromBase64 = (\<lambda>s. Some (if length s = 176 then ''FMW1'' @ replicate 64 (CHR ''w'') @ ''FME1'' @ replicate 60 (CHR ''w'') else s)),
     ce_toBase64 = (\<lambda>b. if length b = 132 then replicate 176 (CHR ''w'') else b),
     ce_prepareCommand = (\<lambda>t q wrapped scheduled tx. okE (case tx of None \<Rightarrow> ''tx'' | Some x \<Rightarrow> x)), ce_queueCommand = (\<lambda>t i k b. okE ''queue'')\<rparr>"

lemma some_id_object [simp]: "is_lower_hex c \<Longrightarrow> is_object_id (some_id c)"
  by (simp add: is_object_id_def is_hex64_def some_id_def list_all_iff)

lemma host_snapshot: "snapshotC host_env host_target () = (Inr host_target, ())"
proof -
  have "snapshot_ok host_env host_target"
    by (simp add: snapshot_ok_def host_target_def host_command_fields host_env_def is_lower_hex_def is_digit_def agent_instance_id_def is_hex64_def list_all_iff
        is_safe_integer_def max_safe_integer_def issued_by_app_def)
  then show ?thesis using host_command_verified by (simp add: snapshot_Inr host_target_def host_env_def)
qed

definition host_source :: command_source where
  "host_source = the (case fst (sourceC host_env host_target ()) of Inl _ \<Rightarrow> None | Inr s \<Rightarrow> Some s)"

lemma host_source_read: "sourceC host_env host_target () = (Inr host_source, ())" "cs_keyVersion host_source = ''7''"
proof -
  have version: "key_version_ok ''7''" by code_simp
  have find: "host_of host_target hosts = Some host_member" "binding_of host_target hosts = Some host_binding"
    by (simp_all add: hosts_def host_of_def binding_of_def host_target_def host_member_def host_binding_def host_command_fields)
  have dir: "ho_clockMs hosts = 1500" "ho_activeHostsTableId hosts = Some ''table''" by (simp_all add: hosts_def)
  have target: "tg_command host_target = host_command" "tg_managedAgentId host_target = Some (some_id (CHR ''5''))" by (simp_all add: host_target_def)
  have member: "length (ah_encryption_public_key host_member) = 32" "ah_id host_member = some_id (CHR ''3'')" by (simp_all add: host_member_def)
  have plain: "\<not> is_review host_command" by (simp add: is_review_def host_command_fields field_def)
  have "\<exists>s. sourceC host_env host_target () = (Inr s, ()) \<and> cs_keyVersion s = ''7''"
    by (simp add: sourceC_def sourceRest_def Let_def eff_run awaitC_def host_env_def find dir target member plain host_command_fields object_id_types_def
        managed_ok_def version)
  then show "sourceC host_env host_target () = (Inr host_source, ())" "cs_keyVersion host_source = ''7''"
    by (auto simp: host_source_def)
qed

lemma host_recheck: "recheckC host_env host_target (cs_pin host_source) () = (Inr (), ())"
  by (simp add: recheckC_def eff_run host_source_read)

lemma host_fingerprint: obtains h where "nodeCommandIntentHash sample_hash host_command = Inr h"
  using host_command_verified by (auto simp: verifySignedNodeCommand_def nodeCommandIntentHash_def result_simps split: option.split_asm)


theorem delivery_for_queued_run_witness:
  "\<exists>p run. prepareDeliveryC host_env host_target (some_id (CHR ''6'')) () = (Inr p, ()) \<and> pd_run p = Some (some_id (CHR ''6''), run)
     \<and> deliverable host_env host_command (bytesToHex (case nodeCommandIntentHash sample_hash host_command of Inl _ \<Rightarrow> [] | Inr h \<Rightarrow> h)) run"
proof -
  obtain h where h: "nodeCommandIntentHash sample_hash host_command = Inr h" by (rule host_fingerprint)
  define e where "e = ''FME3'' @ replicate 40 (CHR ''e'')"
  have env: "awaitC (ce_encryptDelivery host_env q c) () = (Inr (Some e), ())" "awaitC (ce_getExecution host_env i) () = (Inr host_run, ())"
    "awaitC (ce_queueCommand host_env t i k b) () = (Inr ''queue'', ())" "ce_hash host_env = sample_hash" for q c t i k b
    by (simp_all add: host_env_def awaitC_def eff_run e_def)
  have body: "delivery_body host_env (Some e) = Some e" by (simp add: delivery_body_def host_env_def e_def)
  have target: "tg_command host_target = host_command" "tg_managedAgentId host_target \<noteq> None" by (simp_all add: host_target_def)
  have due: "deliverable host_env host_command (bytesToHex h) host_run"
    by (simp add: deliverable_def host_run_def host_env_def host_command_fields h comp_def)
  have again: "recheckRun host_env host_target (cs_pin host_source) i host_run () = (Inr (), ())" for i
    by (simp add: recheckRun_def eff_run host_source_read env)
  obtain p where run: "prepareDeliveryC host_env host_target (some_id (CHR ''6'')) () = (Inr p, ())"
    using target by (simp add: prepareDeliveryC_def eff_run host_snapshot host_source_read fingerprintC_def env h body again due is_lower_hex_def is_digit_def)
  from delivery_for_queued_run [OF run] obtain k ran where "nodeCommandIntentHash (ce_hash host_env) (tg_command host_target) = Inr k"
    "pd_run p = Some (some_id (CHR ''6''), ran)" "deliverable host_env (tg_command host_target) (bytesToHex k) ran" by blast
  then show ?thesis using run h target(1) env(4) by auto
qed

end
