(* ===== verification/Private_Records.thy ===== *)
theory Private_Records
  imports Execution_Boundary
begin

text \<open>
  Finding and reading the encrypted records of an organization: \<^verbatim>\<open>readRecordPointer\<close> and \<^verbatim>\<open>readStableRecordPointer\<close> of
  \<^verbatim>\<open>apps/fractalmind-app/src/record-pointer.ts\<close>, and \<^verbatim>\<open>PrivateRecords\<close> of \<^verbatim>\<open>private-records.ts\<close>. Dynamic fields, the SDK's
  record reads, the identity verifier and the device bridge are fields of \<open>records_env\<close>; a kind is its number.
\<close>

section \<open>Data\<close>

datatype records_error = Rp_invalid_source | Rp_snapshot_changed | Rp_inactive
  | Pr_invalid_record | Pr_directory_changed | Pr_authority_changed | Pr_invalid_response | Records_outside | Records_fuel

record record_index =
  ix_key_version :: int
  ix_table :: string

text \<open>A child of the record table: its value with the value's type, or exactly that child missing.\<close>

record pointer_value =
  pv_type :: string
  pv_record_id :: string
  pv_revision :: int
  pv_key_version :: int

record found_pointer =
  fp_keyVersion :: int
  fp_pointer :: "(string \<times> int \<times> int) option"

record record_pointer =
  pt_kind :: int
  pt_logicalId :: string
  pt_record_id :: string
  pt_revision :: string
  pt_key_version :: string

record record_head =
  rh_record_id :: string
  rh_revision :: string
  rh_key_version :: string

record stored_record =
  sr_id :: string
  sr_organization_id :: string
  sr_kind :: int
  sr_logical_id :: string
  sr_revision :: int
  sr_previous :: "string option"
  sr_key_version :: int
  sr_encrypted_body :: string

record records_authority =
  ra_authorityPin :: string
  ra_encryptedKeys :: "string option"

record records_page =
  pg_records :: "record_pointer list"
  pg_cursor :: "string option"
  pg_hasNextPage :: bool

record 'r records_env =
  rc_organizationId :: string
  rc_indexType :: string
  rc_pointerType :: string
  rc_active :: "'r \<Rightarrow> bool"
  rc_pause :: "'r \<Rightarrow> 'r"
  rc_index :: "('r, unit, string \<times> record_index) eff"
  rc_child :: "string \<Rightarrow> int \<Rightarrow> string \<Rightarrow> ('r, unit, pointer_value option) eff"
  rc_verify :: "('r, unit, records_authority) eff"
  rc_listCurrent :: "string option \<Rightarrow> ('r, unit, records_page option) eff"
  rc_getCurrent :: "int \<Rightarrow> string \<Rightarrow> ('r, unit, record_head) eff"
  rc_getRecord :: "string \<Rightarrow> ('r, unit, stored_record) eff"
  rc_decrypt :: "string \<Rightarrow> stored_record \<Rightarrow> ('r, unit, string option) eff"
  rc_fromBase64 :: "string \<Rightarrow> string option"
  rc_toBase64 :: "string \<Rightarrow> string"

type_synonym ('r, 'a) records = "('r, records_error, 'a) eff"

definition awaitP :: "('r, unit, 'a) eff \<Rightarrow> ('r, 'a) records" where
  "awaitP m = (\<lambda>r. case m r of (Inl _, r') \<Rightarrow> (Inl Records_outside, r') | (Inr a, r') \<Rightarrow> (Inr a, r'))"

text \<open>\<^verbatim>\<open>PRODUCT_RECORD_KINDS\<close>\<close>

definition record_kinds :: "int list" where
  "record_kinds = [1, 2, 3, 4, 5, 6, 7]"

section \<open>Record pointers\<close>

definition readIndex :: "'r records_env \<Rightarrow> ('r, record_index) records" where
  "readIndex E =
     bindE (awaitP (rc_index E)) (\<lambda>(type, value).
     bindE (assertE (type = rc_indexType E) Rp_invalid_source) (\<lambda>_.
     bindE (assertE (1 \<le> ix_key_version value \<and> is_object_id (ix_table value)) Rp_invalid_source) (\<lambda>_.
     okE value)))"

definition pointer_ok :: "'r records_env \<Rightarrow> record_index \<Rightarrow> pointer_value \<Rightarrow> bool" where
  "pointer_ok E before v \<longleftrightarrow> pv_type v = rc_pointerType E \<and> is_object_id (pv_record_id v) \<and> 1 \<le> pv_revision v \<and> 1 \<le> pv_key_version v
     \<and> pv_key_version v \<le> ix_key_version before"

definition readRecordPointer :: "'r records_env \<Rightarrow> int \<Rightarrow> string \<Rightarrow> ('r, found_pointer) records" where
  "readRecordPointer E kind logicalId =
     bindE (assertE (is_object_id (rc_organizationId E) \<and> kind \<in> set record_kinds \<and> logicalId \<noteq> [] \<and> length logicalId \<le> 128) Rp_invalid_source) (\<lambda>_.
     bindE (readIndex E) (\<lambda>before.
     bindE (awaitP (rc_child E (ix_table before) kind logicalId)) (\<lambda>child.
     bindE (assertE (case child of None \<Rightarrow> True | Some v \<Rightarrow> pointer_ok E before v) Rp_invalid_source) (\<lambda>_.
     bindE (readIndex E) (\<lambda>again.
     bindE (assertE (again = before) Rp_snapshot_changed) (\<lambda>_.
     okE \<lparr>fp_keyVersion = ix_key_version before,
          fp_pointer = map_option (\<lambda>v. (pv_record_id v, pv_revision v, pv_key_version v)) child\<rparr>))))))"

definition assertActiveP :: "'r records_env \<Rightarrow> ('r, unit) records" where
  "assertActiveP E = bindE (getE (rc_active E)) (\<lambda>ok. assertE ok Rp_inactive)"

text \<open>The first argument counts the attempts that are left after this one.\<close>

fun stable_attempt :: "nat \<Rightarrow> 'r records_env \<Rightarrow> int \<Rightarrow> string \<Rightarrow> ('r, found_pointer) records" where
  "stable_attempt left E kind logicalId =
     bindE (assertActiveP E) (\<lambda>_.
     catchE (bindE (readRecordPointer E kind logicalId) (\<lambda>found. bindE (assertActiveP E) (\<lambda>_. okE found)))
       (\<lambda>e. if e \<noteq> Rp_snapshot_changed then throwE e
            else case left of 0 \<Rightarrow> throwE e
            | Suc n \<Rightarrow> bindE (assertActiveP E) (\<lambda>_. bindE (modifyE (rc_pause E)) (\<lambda>_. stable_attempt n E kind logicalId))))"

declare stable_attempt.simps [simp del]

definition readStableRecordPointer :: "'r records_env \<Rightarrow> int \<Rightarrow> string \<Rightarrow> ('r, found_pointer) records" where
  "readStableRecordPointer E kind logicalId = stable_attempt 5 E kind logicalId"

section \<open>Listing\<close>

definition row_ok :: "record_pointer \<Rightarrow> bool" where
  "row_ok row \<longleftrightarrow> pt_kind row \<in> set record_kinds \<and> is_object_id (pt_record_id row) \<and> pt_logicalId row \<noteq> [] \<and> length (pt_logicalId row) \<le> 128
     \<and> 1 \<le> dec_value (pt_revision row) \<and> 1 \<le> dec_value (pt_key_version row)"

text \<open>A missing organization index (\<open>None\<close>) is an empty first page, and an error later.\<close>

fun list_pages :: "nat \<Rightarrow> 'r records_env \<Rightarrow> string option \<Rightarrow> string list \<Rightarrow> record_pointer list \<Rightarrow> ('r, record_pointer list) records" where
  "list_pages 0 E cursor seen rows = throwE Records_fuel"
| "list_pages (Suc fuel) E cursor seen rows =
     bindE (awaitP (rc_listCurrent E cursor)) (\<lambda>page.
     case page of
       None \<Rightarrow> if cursor = None then okE rows else throwE Records_outside
     | Some page \<Rightarrow>
         bindE (assertE (list_all row_ok (pg_records page)) Pr_invalid_record) (\<lambda>_.
         let rows' = rows @ pg_records page in
         if \<not> pg_hasNextPage page then okE rows'
         else case pg_cursor page of
           None \<Rightarrow> throwE Pr_invalid_record
         | Some c \<Rightarrow> if c = [] \<or> c \<in> set seen \<or> 1000 < length rows' then throwE Pr_invalid_record
                     else list_pages fuel E (Some c) (c # seen) rows'))"

definition listRecords :: "nat \<Rightarrow> 'r records_env \<Rightarrow> ('r, record_pointer list) records" where
  "listRecords fuel E =
     bindE (awaitP (rc_verify E)) (\<lambda>before.
     bindE (list_pages fuel E None [] []) (\<lambda>rows.
     bindE (awaitP (rc_verify E)) (\<lambda>after.
     bindE (assertE (ra_authorityPin before = ra_authorityPin after) Pr_authority_changed) (\<lambda>_.
     okE rows))))"

section \<open>Reading one record\<close>

text \<open>\<^verbatim>\<open>/^[1-9][0-9]{0,19}$/\<close>\<close>

definition version_text :: "string \<Rightarrow> bool" where
  "version_text s \<longleftrightarrow> positive_text s \<and> length s \<le> 20"

definition link_ok :: "'r records_env \<Rightarrow> record_pointer \<Rightarrow> string list \<Rightarrow> int \<Rightarrow> stored_record \<Rightarrow> bool" where
  "link_ok E p seen expected rec \<longleftrightarrow> sr_id rec \<notin> set seen \<and> length seen < 1000 \<and> sr_organization_id rec = rc_organizationId E
     \<and> sr_kind rec = pt_kind p \<and> sr_logical_id rec = pt_logicalId p \<and> sr_revision rec = expected \<and> (sr_revision rec = 1 \<longleftrightarrow> sr_previous rec = None)"

text \<open>From the head down the previous revisions until the requested record.\<close>

fun walk :: "nat \<Rightarrow> 'r records_env \<Rightarrow> record_pointer \<Rightarrow> bool \<Rightarrow> string list \<Rightarrow> int \<Rightarrow> stored_record \<Rightarrow> ('r, stored_record) records" where
  "walk 0 E p historical seen expected rec = throwE Records_fuel"
| "walk (Suc fuel) E p historical seen expected rec =
     bindE (assertE (link_ok E p seen expected rec) Pr_invalid_record) (\<lambda>_.
     if sr_id rec = pt_record_id p then okE rec
     else case sr_previous rec of
       None \<Rightarrow> throwE Pr_directory_changed
     | Some previous \<Rightarrow>
         bindE (assertE (historical \<and> previous \<noteq> [] \<and> dec_value (pt_revision p) < sr_revision rec) Pr_directory_changed) (\<lambda>_.
         bindE (awaitP (rc_getRecord E previous)) (\<lambda>earlier.
         walk fuel E p historical (sr_id rec # seen) (expected - 1) earlier)))"

definition requested_record :: "'r records_env \<Rightarrow> record_pointer \<Rightarrow> stored_record \<Rightarrow> bool" where
  "requested_record E p rec \<longleftrightarrow> sr_organization_id rec = rc_organizationId E \<and> sr_kind rec = pt_kind p \<and> sr_logical_id rec = pt_logicalId p
     \<and> dec_string (sr_revision rec) = pt_revision p \<and> dec_string (sr_key_version rec) = pt_key_version p"

definition decode_plaintext :: "'r records_env \<Rightarrow> string option \<Rightarrow> string option" where
  "decode_plaintext E result = (case result of None \<Rightarrow> None
     | Some s \<Rightarrow> if 87340 < length s then None
        else (case rc_fromBase64 E s of None \<Rightarrow> None
              | Some b \<Rightarrow> if length b \<le> 65504 \<and> rc_toBase64 E b = s then Some b else None))"

definition same_head :: "record_head \<Rightarrow> record_pointer \<Rightarrow> bool" where
  "same_head h p \<longleftrightarrow> rh_record_id h = pt_record_id p \<and> rh_revision h = pt_revision p \<and> rh_key_version h = pt_key_version p"

definition readRecord :: "'r records_env \<Rightarrow> record_pointer \<Rightarrow> bool \<Rightarrow> ('r, string) records" where
  "readRecord E p historical =
     bindE (assertE (pt_kind p \<in> set record_kinds) Pr_invalid_record) (\<lambda>_.
     bindE (assertE (is_object_id (pt_record_id p) \<and> version_text (pt_revision p) \<and> version_text (pt_key_version p)) Pr_invalid_record) (\<lambda>_.
     bindE (awaitP (rc_verify E)) (\<lambda>before.
     bindE (awaitP (rc_getCurrent E (pt_kind p) (pt_logicalId p))) (\<lambda>head.
     bindE (assertE (historical \<or> same_head head p) Pr_directory_changed) (\<lambda>_.
     bindE (awaitP (rc_getRecord E (rh_record_id head))) (\<lambda>first.
     bindE (walk 1001 E p historical [] (dec_value (rh_revision head)) first) (\<lambda>rec.
     bindE (assertE (requested_record E p rec \<and> ra_encryptedKeys before \<noteq> None \<and> ra_encryptedKeys before \<noteq> Some []) Pr_invalid_record) (\<lambda>_.
     bindE (awaitP (rc_decrypt E (the (ra_encryptedKeys before)) rec)) (\<lambda>result.
     case decode_plaintext E result of None \<Rightarrow> throwE Pr_invalid_response
     | Some plaintext \<Rightarrow>
         bindE (awaitP (rc_verify E)) (\<lambda>after.
         bindE (awaitP (rc_getCurrent E (pt_kind p) (pt_logicalId p))) (\<lambda>current_head.
         bindE (assertE (ra_authorityPin after = ra_authorityPin before) Pr_authority_changed) (\<lambda>_.
         bindE (assertE (current_head = head) Pr_directory_changed) (\<lambda>_.
         okE plaintext)))))))))))))"

section \<open>The walk ends, and ends at the requested record\<close>

lemma awaitP_E: "awaitP m r = (x, r') \<longleftrightarrow> (\<exists>y. m r = (y, r') \<and> x = (case y of Inl _ \<Rightarrow> Inl Records_outside | Inr a \<Rightarrow> Inr a))"
  by (auto simp: awaitP_def split: prod.splits sum.splits)

lemma awaitP_ok: "awaitP m r = (Inr a, r') \<longleftrightarrow> m r = (Inr a, r')"
  by (auto simp: awaitP_def split: prod.splits sum.splits)

lemma awaitP_fuel: "awaitP m r \<noteq> (Inl Records_fuel, r')"
  by (auto simp: awaitP_E split: sum.splits)

lemma walk_ends:
  assumes "1001 \<le> length seen + fuel" "0 < fuel"
  shows "walk fuel E p historical seen expected rec r \<noteq> (Inl Records_fuel, r')"
  using assms
proof (induction fuel arbitrary: seen expected rec r)
  case (Suc fuel)
  show ?case
  proof (cases "length seen < 1000")
    case True
    with Suc.prems have "1001 \<le> length (sr_id rec # seen) + fuel" "0 < fuel" by simp_all
    note rest = Suc.IH [OF this]
    show ?thesis by (auto simp: bindE_eq assertE_eq okE_eq throwE_eq rest awaitP_fuel split: option.splits if_splits)
  next
    case False
    then show ?thesis by (auto simp: bindE_eq assertE_eq link_ok_def)
  qed
qed simp

lemma walk_found:
  assumes "walk fuel E p historical seen expected rec r = (Inr x, r')"
  shows "sr_id x = pt_record_id p \<and> sr_revision x \<le> expected \<and> sr_organization_id x = rc_organizationId E \<and> sr_kind x = pt_kind p
    \<and> sr_logical_id x = pt_logicalId p \<and> (historical \<or> x = rec \<and> sr_revision x = expected)"
  using assms
proof (induction fuel arbitrary: seen expected rec r)
  case (Suc fuel)
  from Suc.prems have ok: "link_ok E p seen expected rec" by (auto simp: eff_oks elim!: bindE_okE)
  show ?case
  proof (cases "sr_id rec = pt_record_id p")
    case True
    with Suc.prems ok show ?thesis by (auto simp: eff_oks link_ok_def elim!: bindE_okE)
  next
    case False
    with Suc.prems obtain previous earlier r1 where "historical"
      "walk fuel E p historical (sr_id rec # seen) (expected - 1) earlier r1 = (Inr x, r')"
      by (auto simp: eff_oks elim!: bindE_okE split: option.split_asm)
    with Suc.IH [OF this(2)] show ?thesis by auto
  qed
qed (simp add: throwE_eq)

lemma stable_found:
  assumes "stable_attempt n E kind logicalId r = (Inr found, r')"
  shows "\<exists>u u'. readRecordPointer E kind logicalId u = (Inr found, u') \<and> rc_active E u'"
  using assms
proof (induction n arbitrary: r)
  case 0
  then have "readRecordPointer E kind logicalId r = (Inr found, r') \<and> rc_active E r'"
    by (subst (asm) stable_attempt.simps) (auto simp: catchE_eq eff_oks assertActiveP_def elim!: bindE_okE split: if_split_asm)
  then show ?case by blast
next
  case (Suc n)
  have "readRecordPointer E kind logicalId r = (Inr found, r') \<and> rc_active E r' \<or> (\<exists>u. stable_attempt n E kind logicalId u = (Inr found, r'))"
    using Suc.prems unfolding stable_attempt.simps [of "Suc n"]
    by (auto simp: catchE_eq eff_oks assertActiveP_def elim!: bindE_okE split: if_split_asm)
  then show ?case using Suc.IH by blast
qed

text \<open>
  C23. Reading a record always ends: the walk through its earlier revisions stops after at most a thousand links, also
  when the chain of previous revisions is cyclic or does not end.
\<close>

theorem record_walk_ends: "fst (readRecord E p historical r) \<noteq> Inl Records_fuel"
proof -
  have "readRecord E p historical r \<noteq> (Inl Records_fuel, r')" for r'
    unfolding readRecord_def
    by (auto simp: bindE_eq assertE_eq okE_eq throwE_eq awaitP_fuel walk_ends split: option.splits if_splits)
  then show ?thesis by (metis prod.collapse)
qed

text \<open>
  What is read is the requested record: the text was decrypted by the device from a record of this organization with the requested
  identity, kind, logical name, revision and key generation; the device's authority and the head of the logical record are the same
  before and after the decryption; and unless history was asked for, the record is that head.
\<close>

theorem private_record_read:
  assumes "readRecord E p historical r = (Inr plaintext, r')"
  shows "\<exists>rec keys result r1 r2. requested_record E p rec \<and> sr_id rec = pt_record_id p \<and> rc_decrypt E keys rec r1 = (Inr result, r2)
    \<and> decode_plaintext E result = Some plaintext
    \<and> (\<exists>before after ra rb rc rd. rc_verify E ra = (Inr before, rb) \<and> ra_encryptedKeys before = Some keys \<and> rc_verify E rc = (Inr after, rd)
         \<and> ra_authorityPin after = ra_authorityPin before)
    \<and> (\<exists>head ha hb hc. rc_getCurrent E (pt_kind p) (pt_logicalId p) ha = (Inr head, hb) \<and> rc_getCurrent E (pt_kind p) (pt_logicalId p) hc = (Inr head, r')
         \<and> (historical \<or> same_head head p \<and> sr_revision rec = dec_value (rh_revision head)))"
proof -
  from assms obtain before rb head hb first rx rec rw result r2 after rd where
    verify: "rc_verify E r = (Inr before, rb)" and head: "rc_getCurrent E (pt_kind p) (pt_logicalId p) rb = (Inr head, hb)"
    and front: "historical \<or> same_head head p"
    and walk: "walk 1001 E p historical [] (dec_value (rh_revision head)) first rx = (Inr rec, rw)"
    and req: "requested_record E p rec" "ra_encryptedKeys before \<noteq> None"
    and dec: "rc_decrypt E (the (ra_encryptedKeys before)) rec rw = (Inr result, r2)" "decode_plaintext E result = Some plaintext"
    and again: "rc_verify E r2 = (Inr after, rd)" "ra_authorityPin after = ra_authorityPin before"
      "rc_getCurrent E (pt_kind p) (pt_logicalId p) rd = (Inr head, r')"
    unfolding readRecord_def by (auto simp: eff_oks awaitP_ok simp del: walk.simps elim!: bindE_okE split: option.split_asm)
  from req(2) obtain keys where keys: "ra_encryptedKeys before = Some keys" by blast
  note found = walk_found [OF walk]
  have one: "\<exists>before after ra rb rc rd. rc_verify E ra = (Inr before, rb) \<and> ra_encryptedKeys before = Some keys \<and> rc_verify E rc = (Inr after, rd)
         \<and> ra_authorityPin after = ra_authorityPin before"
    using verify keys again by blast
  have two: "\<exists>head ha hb hc. rc_getCurrent E (pt_kind p) (pt_logicalId p) ha = (Inr head, hb) \<and> rc_getCurrent E (pt_kind p) (pt_logicalId p) hc = (Inr head, r')
         \<and> (historical \<or> same_head head p \<and> sr_revision rec = dec_value (rh_revision head))"
    using head again(3) front found by blast
  show ?thesis
    by (rule exI [of _ rec], rule exI [of _ keys], rule exI [of _ result], rule exI [of _ rw], rule exI [of _ r2])
      (use req(1) dec keys found one two in \<open>simp\<close>)
qed

text \<open>Two revisions of one record; the first is read from history.\<close>

definition shelf_record :: "bool \<Rightarrow> stored_record" where
  "shelf_record newest = \<lparr>sr_id = ''0x'' @ replicate 64 (if newest then CHR ''b'' else CHR ''a''), sr_organization_id = ''org'', sr_kind = 2, sr_logical_id = ''plan'',
     sr_revision = (if newest then 2 else 1), sr_previous = (if newest then Some (''0x'' @ replicate 64 (CHR ''a'')) else None), sr_key_version = 1,
     sr_encrypted_body = (if newest then ''new'' else ''old'')\<rparr>"

definition shelf_env :: "unit records_env" where
  "shelf_env = \<lparr>rc_organizationId = ''org'', rc_indexType = ''index'', rc_pointerType = ''pointer'', rc_active = (\<lambda>_. True), rc_pause = (\<lambda>r. r),
     rc_index = throwE (), rc_child = (\<lambda>_ _ _. throwE ()), rc_verify = okE \<lparr>ra_authorityPin = ''pin'', ra_encryptedKeys = Some ''keys''\<rparr>,
     rc_listCurrent = (\<lambda>_. throwE ()), rc_getCurrent = (\<lambda>k l. okE \<lparr>rh_record_id = sr_id (shelf_record True), rh_revision = ''2'', rh_key_version = ''1''\<rparr>),
     rc_getRecord = (\<lambda>i. okE (shelf_record (i = sr_id (shelf_record True)))), rc_decrypt = (\<lambda>k rec. okE (Some (sr_encrypted_body rec))),
     rc_fromBase64 = Some, rc_toBase64 = (\<lambda>b. b)\<rparr>"

definition shelf_pointer :: record_pointer where
  "shelf_pointer = \<lparr>pt_kind = 2, pt_logicalId = ''plan'', pt_record_id = sr_id (shelf_record False), pt_revision = ''1'', pt_key_version = ''1''\<rparr>"

theorem private_record_read_witness:
  "readRecord shelf_env shelf_pointer True () = (Inr ''old'', ()) \<and> (\<exists>rec. requested_record shelf_env shelf_pointer rec \<and> sr_id rec = pt_record_id shelf_pointer)"
proof -
  let ?new = "shelf_record True" and ?old = "shelf_record False"
  have ids: "sr_id ?new \<noteq> sr_id ?old" "is_object_id (sr_id ?old)"
    by (simp_all add: shelf_record_def is_object_id_def is_hex64_def list_all_iff is_lower_hex_def)
  have texts: "dec_value ''1'' = 1" "dec_value ''2'' = 2" "dec_string 1 = ''1''" "version_text ''1''" by code_simp+
  have env: "rc_organizationId shelf_env = ''org''" "awaitP (rc_verify shelf_env) r = (Inr \<lparr>ra_authorityPin = ''pin'', ra_encryptedKeys = Some ''keys''\<rparr>, r)"
    "awaitP (rc_getCurrent shelf_env k l) r = (Inr \<lparr>rh_record_id = sr_id ?new, rh_revision = ''2'', rh_key_version = ''1''\<rparr>, r)"
    "awaitP (rc_getRecord shelf_env i) r = (Inr (shelf_record (i = sr_id ?new)), r)"
    "awaitP (rc_decrypt shelf_env ks rec) r = (Inr (Some (sr_encrypted_body rec)), r)" for r k l i ks rec
    by (simp_all add: shelf_env_def awaitP_def eff_run)
  have rows: "sr_previous ?new = Some (sr_id ?old)" "sr_revision ?new = 2" "sr_previous ?old = None" "sr_revision ?old = 1"
    "sr_organization_id (shelf_record n) = ''org''" "sr_kind (shelf_record n) = 2" "sr_logical_id (shelf_record n) = ''plan''" "sr_id ?old \<noteq> []"
    "sr_key_version (shelf_record n) = 1" "sr_encrypted_body ?old = ''old''" for n
    by (simp_all add: shelf_record_def)
  have p: "pt_kind shelf_pointer = 2" "pt_logicalId shelf_pointer = ''plan''" "pt_record_id shelf_pointer = sr_id ?old" "pt_revision shelf_pointer = ''1''"
    "pt_key_version shelf_pointer = ''1''"
    by (simp_all add: shelf_pointer_def)
  have "walk (Suc (Suc n)) shelf_env shelf_pointer True [] 2 ?new () = (Inr ?old, ())" for n
    using ids by (simp add: eff_run link_ok_def env rows p texts)
  from this [of 999] have walk: "walk 1001 shelf_env shelf_pointer True [] 2 ?new () = (Inr ?old, ())" by (simp del: walk.simps)
  have run: "readRecord shelf_env shelf_pointer True () = (Inr ''old'', ())"
    by (simp add: readRecord_def eff_run env p ids texts walk requested_record_def rows record_kinds_def decode_plaintext_def shelf_env_def [THEN arg_cong, of rc_fromBase64]
        shelf_env_def [THEN arg_cong, of rc_toBase64] del: walk.simps)
  from private_record_read [OF run] run show ?thesis by blast
qed

end
