(* ===== verification/Native_Runner.thy ===== *)
theory Native_Runner
  imports Runner_Provider Selfpay_Submit Command_Results Private_Records Okr_Spec
begin

text \<open>
  \<^verbatim>\<open>NativeOkrRunner\<close> of \<^verbatim>\<open>apps/fractalmind-app/src/native-okr-runner.ts\<close>: the app's provider for the SDK's OKR runner. It gives the
  runner a crypto provider over the device, a submission through the self-paying manager, and a delivery through the Coordinator or the
  chain. Whatever it lets the device sign has a guard that runs before and after fee approval and signature.

  \<open>native_env\<close> holds what lies outside: chain reads (as a \<open>runner_env\<close> of them), the environments of the manager, of the command results and of the
  private records, the fee dialog and the Coordinator client. A transaction is an object of type \<open>'t\<close>; \<open>ne_content\<close> reads what it holds. The state \<open>nworld\<close> is the
  manager's with the object's own fields; \<open>nw_sends\<close> logs what went to the Coordinator. One operation of the object runs at a time (its \<^verbatim>\<open>flight\<close>).
\<close>

section \<open>Data\<close>

datatype native_error = Nr_invalid_source | Nr_state_changed | Nr_invalid_ciphertext | Nr_invalid_transaction | Nr_inactive | Nr_outside
  | Nr_results results_error | Nr_records records_error | Nr_manager tm_error | Nr_runner runner_failure

type_synonym policy_pin = "runner_okr \<times> handover_policy \<times> okr_budget \<times> runner_capability \<times> authority_binding \<times> capability_contract"

text \<open>A guard is a closure over these values; the preflight is present for a chain delivery only.\<close>

record 't run_guard =
  gd_target :: command_target_input
  gd_scheduled :: bool
  gd_prepared :: "'t prepared_command"
  gd_preflight :: "(command_target_input \<times> source_pin) option"
  gd_policy :: policy_pin

datatype delivery_mode = Coordinator | Chain

record ('r, 't) native_env =
  ne_client :: "'r client_env"
  ne_base :: "('r, 't) runner_env"
  ne_results :: "('r, 't) results_env"
  ne_records :: "'r records_env"
  ne_active :: "'r \<Rightarrow> bool"
  ne_content :: "'t \<Rightarrow> 'r \<Rightarrow> tx_data"
  ne_dateNow :: "'r \<Rightarrow> int \<times> 'r"
  ne_approveQuote :: "fee_quote \<Rightarrow> ('r, unit, bool) eff"
  ne_readAgentExecutions :: "string \<Rightarrow> ('r, unit, runner_run list) eff"
  ne_getCommandDelivery :: "string \<Rightarrow> ('r, unit, json option) eff"
  ne_getReservationBudget :: "string \<Rightarrow> string \<Rightarrow> ('r, unit, int \<times> int \<times> string) eff"
  ne_prepareSend :: "string \<Rightarrow> signed_command \<Rightarrow> ('r, unit, string) eff"
  ne_send :: "string \<Rightarrow> ('r, unit, unit) eff"
  ne_encryptRecord :: "string \<Rightarrow> string \<Rightarrow> string \<Rightarrow> string \<Rightarrow> ('r, unit, string option) eff"
  ne_checkNetwork :: "('r, unit, unit) eff"

record ('s, 'r, 't) nworld =
  nw_manager :: "('s, 'r) mworld"
  nw_guards :: "('t \<times> 't run_guard) list"
  nw_signing :: bool
  nw_mode :: delivery_mode
  nw_declined :: bool
  nw_sends :: "signed_command list"

type_synonym ('r, 'a) guarded = "('r, native_error, 'a) eff"
type_synonym ('s, 'r, 't, 'a) native = "(('s, 'r, 't) nworld, native_error, 'a) eff"

definition awaitN :: "('r, unit, 'a) eff \<Rightarrow> ('r, 'a) guarded" where
  "awaitN m = (\<lambda>r. case m r of (Inl _, r') \<Rightarrow> (Inl Nr_outside, r') | (Inr a, r') \<Rightarrow> (Inr a, r'))"

definition resultsN :: "('r, 'a) results \<Rightarrow> ('r, 'a) guarded" where
  "resultsN m = (\<lambda>r. case m r of (Inl e, r') \<Rightarrow> (Inl (Nr_results e), r') | (Inr a, r') \<Rightarrow> (Inr a, r'))"

definition recordsN :: "('r, 'a) records \<Rightarrow> ('r, 'a) guarded" where
  "recordsN m = (\<lambda>r. case m r of (Inl e, r') \<Rightarrow> (Inl (Nr_records e), r') | (Inr a, r') \<Rightarrow> (Inr a, r'))"

text \<open>An action of the outside world and one of the manager, inside the object.\<close>

definition outsideN :: "('r, 'e, 'a) eff \<Rightarrow> (('s, 'r, 't) nworld, 'e, 'a) eff" where
  "outsideN m = (\<lambda>w. case m (w_rpc (nw_manager w)) of (x, r) \<Rightarrow> (x, w\<lparr>nw_manager := (nw_manager w)\<lparr>w_rpc := r\<rparr>\<rparr>))"

definition managerN :: "(('s, 'r) mworld, tm_error, 'a) eff \<Rightarrow> ('s, 'r, 't, 'a) native" where
  "managerN m = (\<lambda>w. case m (nw_manager w) of (x, v) \<Rightarrow>
     ((case x of Inl e \<Rightarrow> Inl (Nr_manager e) | Inr a \<Rightarrow> Inr a), w\<lparr>nw_manager := v\<rparr>))"

section \<open>The policy pin\<close>

definition activeN :: "('r, 't) native_env \<Rightarrow> ('r, unit) guarded" where
  "activeN E = bindE (getE (ne_active E)) (\<lambda>ok. assertE ok Nr_inactive)"

text \<open>The objective a command was signed for; the other two members are compared as they are.\<close>

definition okr_ref :: "signed_command \<Rightarrow> (string \<times> json option \<times> json option) option" where
  "okr_ref c = (case field (sc_payload c) ''okr'' of None \<Rightarrow> None
     | Some v \<Rightarrow> (case sfield v ''id'' of None \<Rightarrow> None | Some i \<Rightarrow> Some (i, field v ''agreement_version'', field v ''kr_index'')))"

definition kr_in_plan :: "bool \<Rightarrow> runner_okr \<Rightarrow> json option \<Rightarrow> bool" where
  "kr_in_plan scheduled okr kr \<longleftrightarrow>
    (if scheduled
     then (case kr of Some (JString s) \<Rightarrow> kr_digit s \<and> rk_next_kr okr \<le> dec_value s \<and> dec_value s < int (length (rk_metrics okr)) | _ \<Rightarrow> False)
     else kr = Some (JString (dec_string (rk_next_kr okr))))"

definition policy_current :: "('r, 't) native_env \<Rightarrow> command_target_input \<Rightarrow> bool \<Rightarrow> json option \<Rightarrow> json option \<Rightarrow> int \<Rightarrow> policy_pin \<Rightarrow> bool" where
  "policy_current E t scheduled agreement kr now = (\<lambda>(okr, policy, budget, cap, b, contract).
     rk_org_id okr = ce_organizationId (ne_results E) \<and> rk_state okr = 1
     \<and> agreement = Some (JString (dec_string (rk_agreement_version okr))) \<and> kr_in_plan scheduled okr kr
     \<and> rk_managed_agent okr = tg_managedAgentId t \<and> rk_membership_id okr = Some (tg_membershipId t) \<and> now < rk_expires_at_ms okr
     \<and> py_agreement_version policy = rk_agreement_version okr \<and> py_managed_version policy = rk_managed_version okr
     \<and> (case field (sc_payload (tg_command t)) ''handover_continue'' of None \<Rightarrow> False | Some v \<Rightarrow> canonical v = canonical (continuation_json policy))
     \<and> \<not> rc_revoked cap \<and> rc_delegate cap = ce_device (ne_results E) \<and> dec_string (rc_revocationVersion cap) = sc_revocation_version (tg_command t)
     \<and> ab_human_id b = ce_humanId (ne_results E) \<and> ab_device_grant b = ce_grantId (ne_results E)
     \<and> ab_membership_version b = rk_membership_version okr \<and> ab_managed_agent_version b = rk_managed_version okr
     \<and> cc_contract_id contract = rk_id okr \<and> cc_agreement_version contract = rk_agreement_version okr
     \<and> cc_boundary_hash contract = rk_boundary_hash okr)"

definition dateNowN :: "('r, 't) native_env \<Rightarrow> ('r, int) guarded" where
  "dateNowN E = (\<lambda>r. case ne_dateNow E r of (t, r') \<Rightarrow> (Inr t, r'))"

definition policyPin :: "('r, 't) native_env \<Rightarrow> command_target_input \<Rightarrow> bool \<Rightarrow> ('r, policy_pin) guarded" where
  "policyPin E t scheduled = (let B = ne_base E; capability = sc_capability_id (tg_command t) in
     case okr_ref (tg_command t) of None \<Rightarrow> throwE Nr_outside
     | Some (i, agreement, kr) \<Rightarrow>
         bindE (awaitN (rn_getOkr B i)) (\<lambda>okr.
         bindE (awaitN (rn_getPolicy B i)) (\<lambda>policy.
         bindE (awaitN (rn_getBudget B i)) (\<lambda>budget.
         bindE (awaitN (rn_getCapability B capability)) (\<lambda>cap.
         bindE (awaitN (rn_getAuthorityBinding B capability)) (\<lambda>b.
         bindE (awaitN (rn_getContract B capability)) (\<lambda>contract.
         bindE (dateNowN E) (\<lambda>now.
         bindE (assertE (policy_current E t scheduled agreement kr now (okr, policy, budget, cap, b, contract)) Nr_state_changed) (\<lambda>_.
         okE (okr, policy, budget, cap, b, contract))))))))))"

section \<open>The guard of a transaction\<close>

definition runGuard :: "('r, 't) native_env \<Rightarrow> 't run_guard \<Rightarrow> ('r, unit) guarded" where
  "runGuard E g =
     bindE (activeN E) (\<lambda>_.
     bindE (case gd_preflight g of None \<Rightarrow> okE () | Some (t, before) \<Rightarrow> resultsN (recheckC (ne_results E) t before)) (\<lambda>_.
     bindE (resultsN (assertCurrentC (ne_results E) (gd_prepared g))) (\<lambda>_.
     bindE (policyPin E (gd_target g) (gd_scheduled g)) (\<lambda>now_pin.
     bindE (assertE (now_pin = gd_policy g) Nr_state_changed) (\<lambda>_.
     activeN E)))))"

text \<open>Fee approval runs between two passes of the guard; a refused fee needs no second one.\<close>

definition approveN :: "('r, 't) native_env \<Rightarrow> 't run_guard \<Rightarrow> fee_quote \<Rightarrow> ('r, unit, bool) eff" where
  "approveN E g q = quietE
     (bindE (runGuard E g) (\<lambda>_.
      bindE (awaitN (ne_approveQuote E q)) (\<lambda>accepted.
      bindE (if accepted then runGuard E g else okE ()) (\<lambda>_.
      okE accepted))))"

definition nativeClient :: "('r, 't) native_env \<Rightarrow> 'r client_env" where
  "nativeClient E = (ne_client E)\<lparr>cl_assertBeforeBroadcast := ne_active E\<rparr>"

text \<open>A submission while \<^verbatim>\<open>signingGuard\<close> is this guard.\<close>

definition submitUnder :: "nat \<Rightarrow> ('r, 't) native_env \<Rightarrow> ('s, 'x) journal_ops \<Rightarrow> 't run_guard \<Rightarrow> 't \<Rightarrow> string
    \<Rightarrow> ('s, 'r, 't, submission) native" where
  "submitUnder fuel E J g tx requestId =
     bindE (modifyE (\<lambda>w. w\<lparr>nw_signing := True\<rparr>)) (\<lambda>_.
     bindE (getE (\<lambda>w. ne_content E tx (w_rpc (nw_manager w)))) (\<lambda>content.
     bindE (managerN (selfpay_submit fuel (guarded_client (nativeClient E) (runGuard E g)) J (UBigInt 200000000) (approveN E g) content requestId)) (\<lambda>s.
     bindE (modifyE (\<lambda>w. w\<lparr>nw_signing := False\<rparr>)) (\<lambda>_.
     okE s))))"

section \<open>Preparing and submitting a ticket\<close>

definition nothingN :: "(('s, 'r, 't) nworld, native_error, 'a) eff \<Rightarrow> (('s, 'r, 't) nworld, unit, 'a) eff" where
  "nothingN = quietE"

text \<open>\<^verbatim>\<open>crypto.prepareCommand\<close>: compose, remember the guard under the transaction, and run it once.\<close>

definition prepareCommandN :: "('r, 't) native_env \<Rightarrow> signed_command \<Rightarrow> string \<Rightarrow> string \<Rightarrow> string \<Rightarrow> string \<Rightarrow> bool \<Rightarrow> 't \<Rightarrow> ('s, 'r, 't, 't) native" where
  "prepareCommandN E command membershipId bindingId managedAgentId keyVersion scheduled tx =
    (let t = \<lparr>tg_command = command, tg_membershipId = membershipId, tg_bindingId = bindingId, tg_managedAgentId = Some managedAgentId\<rparr> in
     bindE (outsideN (activeN E)) (\<lambda>_.
     bindE (outsideN (resultsN (prepareC (ne_results E) t (Some tx) (Some keyVersion) scheduled))) (\<lambda>prepared.
     bindE (outsideN (policyPin E t scheduled)) (\<lambda>before.
     let g = \<lparr>gd_target = t, gd_scheduled = scheduled, gd_prepared = prepared, gd_preflight = None, gd_policy = before\<rparr> in
     bindE (outsideN (runGuard E g)) (\<lambda>_.
     bindE (modifyE (\<lambda>w. w\<lparr>nw_guards := (tx, g) # nw_guards w\<rparr>)) (\<lambda>_.
     okE (pd_transaction prepared)))))))"

text \<open>\<^verbatim>\<open>submit\<close>: only a transaction with a guard, and only while no other is being signed.\<close>

definition submitN :: "nat \<Rightarrow> ('r, 't) native_env \<Rightarrow> ('s, 'x) journal_ops \<Rightarrow> 't \<Rightarrow> string \<Rightarrow> ('s, 'r, 't, submission) native" where
  "submitN fuel E J tx requestId =
     bindE (managerN (query (nativeClient E) J requestId)) (\<lambda>prior.
     case prior of Some oc \<Rightarrow> okE (submission_of oc)
     | None \<Rightarrow>
         bindE (getE (\<lambda>w. (map_of (nw_guards w) tx, nw_signing w))) (\<lambda>(found, signing).
         case found of None \<Rightarrow> throwE Nr_invalid_transaction
         | Some g \<Rightarrow>
             bindE (assertE (\<not> signing) Nr_invalid_transaction) (\<lambda>_.
             bindE (outsideN (runGuard E g)) (\<lambda>_.
             submitUnder fuel E J g tx requestId))))"

definition querySubmissionN :: "('r, 't) native_env \<Rightarrow> ('s, 'x) journal_ops \<Rightarrow> string \<Rightarrow> ('s, 'r, 't, submission option) native" where
  "querySubmissionN E J requestId =
     bindE (managerN (query (nativeClient E) J requestId)) (\<lambda>prior.
     bindE (outsideN (activeN E)) (\<lambda>_.
     okE (map_option submission_of prior)))"

definition discoverTicketN :: "('r, 't) native_env \<Rightarrow> string \<Rightarrow> ('r, ticket_directory) guarded" where
  "discoverTicketN E logicalId =
     bindE (activeN E) (\<lambda>_.
     bindE (recordsN (readStableRecordPointer (ne_records E) 5 logicalId)) (\<lambda>found.
     bindE (activeN E) (\<lambda>_.
     okE \<lparr>td_keyVersion = dec_string (fp_keyVersion found), td_ticketId = map_option fst (fp_pointer found)\<rparr>)))"

section \<open>Crypto\<close>

definition decryptN :: "('r, 't) native_env \<Rightarrow> string \<Rightarrow> product_record \<Rightarrow> ('r, string) guarded" where
  "decryptN E recordId meta =
     bindE (activeN E) (\<lambda>_.
     bindE (assertE (pc_organization_id meta = ce_organizationId (ne_results E) \<and> pc_kind meta \<in> {2, 5}) Nr_invalid_source) (\<lambda>_.
     bindE (recordsN (readRecord (ne_records E) \<lparr>pt_kind = pc_kind meta, pt_logicalId = pc_logical_id meta, pt_record_id = recordId,
              pt_revision = dec_string (pc_revision meta), pt_key_version = pc_key_version meta\<rparr> False)) (\<lambda>plaintext.
     bindE (activeN E) (\<lambda>_.
     okE plaintext))))"

text \<open>The body of an encrypted record: canonical base64 of at most 64 KiB, an envelope.\<close>

definition record_body :: "('r, 't) native_env \<Rightarrow> string option \<Rightarrow> string option" where
  "record_body E encrypted = (case encrypted of None \<Rightarrow> None
     | Some s \<Rightarrow> if 87384 < length s then None
        else (case rc_fromBase64 (ne_records E) s of None \<Rightarrow> None
              | Some b \<Rightarrow> if 32 \<le> length b \<and> length b \<le> 65536 \<and> rc_toBase64 (ne_records E) b = s \<and> take 4 b = ''FME1'' then Some b else None))"

definition absent_at :: "string \<Rightarrow> found_pointer \<Rightarrow> bool" where
  "absent_at keyVersion head \<longleftrightarrow> fp_pointer head = None \<and> dec_string (fp_keyVersion head) = keyVersion"

text \<open>Encrypting the first revision of a record that does not exist, under one authority.\<close>

definition encryptN :: "('r, 't) native_env \<Rightarrow> string \<Rightarrow> string \<Rightarrow> string \<Rightarrow> string \<Rightarrow> ('r, string) guarded" where
  "encryptN E organizationId plaintext logicalId keyVersion =
     bindE (activeN E) (\<lambda>_.
     bindE (assertE (organizationId = ce_organizationId (ne_results E)) Nr_invalid_source) (\<lambda>_.
     bindE (awaitN (ce_verifyOrganization (ne_results E) ''operate'')) (\<lambda>before.
     bindE (recordsN (readRecordPointer (ne_records E) 5 logicalId)) (\<lambda>head.
     bindE (assertE (da_encryptedKeys before \<noteq> [] \<and> absent_at keyVersion head) Nr_state_changed) (\<lambda>_.
     bindE (activeN E) (\<lambda>_.
     bindE (awaitN (ne_encryptRecord E (da_encryptedKeys before) logicalId keyVersion plaintext)) (\<lambda>encrypted.
     bindE (activeN E) (\<lambda>_.
     case record_body E encrypted of None \<Rightarrow> throwE Nr_invalid_ciphertext
     | Some body \<Rightarrow>
         bindE (awaitN (ce_verifyOrganization (ne_results E) ''operate'')) (\<lambda>after.
         bindE (recordsN (readRecordPointer (ne_records E) 5 logicalId)) (\<lambda>again.
         bindE (assertE (da_authorityPin after = da_authorityPin before \<and> absent_at keyVersion again) Nr_state_changed) (\<lambda>_.
         bindE (activeN E) (\<lambda>_.
         okE body))))))))))))"

section \<open>Delivery\<close>

text \<open>The Run of a command among the executions of its agent.\<close>

definition run_of :: "signed_command \<Rightarrow> string \<Rightarrow> runner_run list \<Rightarrow> runner_run option" where
  "run_of c fingerprint runs = find (\<lambda>run. xr_capability_id run = sc_capability_id c \<and> bytes_hex (xr_intent_hash run) = fingerprint) runs"

definition intentN :: "('r, 't) native_env \<Rightarrow> signed_command \<Rightarrow> ('w, native_error, string) eff" where
  "intentN E c = liftR (case nodeCommandIntentHash (ce_hash (ne_results E)) c of Inl _ \<Rightarrow> Inl Nr_outside | Inr h \<Rightarrow> Inr (bytesToHex h))"

text \<open>Publishing the encrypted command of a Run on the chain, as a separate transaction with its own guard.\<close>

definition queueTarget :: "nat \<Rightarrow> ('r, 't) native_env \<Rightarrow> ('s, 'x) journal_ops \<Rightarrow> command_target_input \<Rightarrow> string \<Rightarrow> bool
    \<Rightarrow> ('s, 'r, 't, submission) native" where
  "queueTarget fuel E J t executionId scheduled =
    (let requestId = ''chain-delivery:'' @ executionId in
     bindE (outsideN (policyPin E t scheduled)) (\<lambda>before.
     bindE (managerN (query (nativeClient E) J requestId)) (\<lambda>prior.
     bindE (assertE (prior = None) Nr_state_changed) (\<lambda>_.
     bindE (outsideN (resultsN (preflightC (ne_results E) t))) (\<lambda>preflight.
     bindE (outsideN (resultsN (prepareDeliveryC (ne_results E) t executionId))) (\<lambda>prepared.
     let g = \<lparr>gd_target = t, gd_scheduled = scheduled, gd_prepared = prepared, gd_preflight = Some preflight, gd_policy = before\<rparr> in
     bindE (outsideN (runGuard E g)) (\<lambda>_.
     bindE (getE nw_signing) (\<lambda>signing.
     bindE (assertE (\<not> signing) Nr_invalid_transaction) (\<lambda>_.
     submitUnder fuel E J g (pd_transaction prepared) requestId)))))))))"

text \<open>Through the Coordinator: prepare the request, check everything again, send.\<close>

definition coordinatorSend :: "('r, 't) native_env \<Rightarrow> command_target_input \<Rightarrow> policy_pin \<Rightarrow> source_pin
    \<Rightarrow> ('s, 'r, 't, unit) native" where
  "coordinatorSend E t before source =
     bindE (outsideN (awaitN (ne_prepareSend E (tg_bindingId t) (tg_command t)))) (\<lambda>request.
     bindE (outsideN (resultsN (recheckC (ne_results E) t source))) (\<lambda>_.
     bindE (outsideN (policyPin E t False)) (\<lambda>again.
     bindE (assertE (again = before) Nr_state_changed) (\<lambda>_.
     bindE (outsideN (activeN E)) (\<lambda>_.
     bindE (modifyE (\<lambda>w. w\<lparr>nw_sends := tg_command t # nw_sends w\<rparr>)) (\<lambda>_.
     bindE (outsideN (awaitN (ne_send E request))) (\<lambda>_.
     outsideN (activeN E))))))))"

definition chainSend :: "nat \<Rightarrow> ('r, 't) native_env \<Rightarrow> ('s, 'x) journal_ops \<Rightarrow> command_target_input \<Rightarrow> string \<Rightarrow> ('s, 'r, 't, unit) native" where
  "chainSend fuel E J t executionId =
     bindE (queueTarget fuel E J t executionId False) (\<lambda>receipt.
     bindE (modifyE (\<lambda>w. w\<lparr>nw_declined := sb_status receipt = Sub_rejected \<and> sb_reason receipt = Some ''fee_approval_declined''\<rparr>)) (\<lambda>_.
     assertE (sb_status receipt = Sub_confirmed) Nr_state_changed))"

text \<open>The target that the chain names for a command.\<close>

definition deliveryTarget :: "('r, 't) native_env \<Rightarrow> signed_command \<Rightarrow> ('r, command_target_input) guarded" where
  "deliveryTarget E command = (let B = ne_base E in
     case okr_ref command of None \<Rightarrow> throwE Nr_outside
     | Some (i, _, _) \<Rightarrow>
         bindE (awaitN (rn_getOkr B i)) (\<lambda>okr.
         case (rk_membership_id okr, rk_managed_agent okr) of
           (Some membership, Some agent) \<Rightarrow>
             bindE (awaitN (rn_getMembership B membership)) (\<lambda>member.
             bindE (awaitN (rn_getManagedAgent B agent)) (\<lambda>managed.
             okE \<lparr>tg_command = command, tg_membershipId = me_id member, tg_bindingId = me_coordinator_binding member,
                  tg_managedAgentId = Some (mg_id managed)\<rparr>))
         | _ \<Rightarrow> throwE Nr_outside))"

definition deliverN :: "nat \<Rightarrow> ('r, 't) native_env \<Rightarrow> ('s, 'x) journal_ops \<Rightarrow> signed_command \<Rightarrow> ('s, 'r, 't, unit) native" where
  "deliverN fuel E J command =
     bindE (outsideN (activeN E)) (\<lambda>_.
     bindE (outsideN (deliveryTarget E command)) (\<lambda>t.
     bindE (outsideN (policyPin E t False)) (\<lambda>before.
     bindE (outsideN (resultsN (preflightC (ne_results E) t))) (\<lambda>preflight.
     bindE (outsideN (awaitN (ne_readAgentExecutions E (the (tg_managedAgentId t))))) (\<lambda>runs.
     bindE (intentN E command) (\<lambda>fingerprint.
     case run_of command fingerprint runs of None \<Rightarrow> throwE Nr_invalid_source
     | Some original \<Rightarrow>
         bindE (outsideN (awaitN (ne_getCommandDelivery E (xr_id original)))) (\<lambda>published.
         if published \<noteq> None then okE ()
         else bindE (getE nw_mode) (\<lambda>mode.
           if mode = Chain then chainSend fuel E J t (xr_id original) else coordinatorSend E t before (snd preflight)))))))))"

section \<open>The options given to the SDK's runner\<close>

definition readN :: "('r, unit, 'a) eff \<Rightarrow> (('s, 'r, 't) nworld, unit, 'a) eff" where
  "readN m = outsideN m"

definition tickN :: "('r \<Rightarrow> 'a \<times> 'r) \<Rightarrow> ('s, 'r, 't) nworld \<Rightarrow> 'a \<times> ('s, 'r, 't) nworld" where
  "tickN f w = (case f (w_rpc (nw_manager w)) of (a, r) \<Rightarrow> (a, w\<lparr>nw_manager := (nw_manager w)\<lparr>w_rpc := r\<rparr>\<rparr>))"

definition signerN :: "('r, 't) native_env \<Rightarrow> ('s, 'r, 't) nworld command_signer" where
  "signerN E = (let S = rn_signer (ne_base E) in
     \<lparr>cs_publicBytes = cs_publicBytes S, cs_address = cs_address S,
      cs_sign = (\<lambda>bytes. outsideN (quietE (bindE (activeN E) (\<lambda>_. bindE (awaitN (cs_sign S bytes)) (\<lambda>signature. bindE (activeN E) (\<lambda>_. okE signature)))))),
      cs_randomUUID = tickN (cs_randomUUID S), cs_now = tickN (cs_now S)\<rparr>)"

definition nativeRunner :: "nat \<Rightarrow> ('r, 't) native_env \<Rightarrow> ('s, 'x) journal_ops \<Rightarrow> (('s, 'r, 't) nworld, 't) runner_env" where
  "nativeRunner fuel E J = (let B = ne_base E in
     \<lparr>rn_organizationId = rn_organizationId B, rn_humanId = rn_humanId B, rn_grantId = rn_grantId B, rn_typesPackageId = rn_typesPackageId B,
      rn_normalize = rn_normalize B, rn_hash = rn_hash B, rn_keys = rn_keys B, rn_signer = signerN E,
      rn_now = tickN (rn_now B), rn_dateNow = tickN (rn_dateNow B), rn_pause = (\<lambda>w. snd (tickN (\<lambda>r. ((), rn_pause B r)) w)),
      rn_querySubmission = Some (\<lambda>name. quietE (querySubmissionN E J name)),
      rn_discoverTicket = Some (\<lambda>name. outsideN (quietE (discoverTicketN E name))),
      rn_submit = (\<lambda>tx name. quietE (submitN fuel E J tx name)),
      rn_deliver = (\<lambda>c. quietE (deliverN fuel E J c)),
      rn_getOkr = (\<lambda>i. readN (rn_getOkr B i)), rn_listCurrent = (\<lambda>cursor. readN (rn_listCurrent B cursor)),
      rn_getRecord = (\<lambda>i. readN (rn_getRecord B i)), rn_decryptRecord = (\<lambda>i m. outsideN (quietE (decryptN E i m))),
      rn_listExecutions = (\<lambda>i cursor. readN (rn_listExecutions B i cursor)), rn_getManagedAgent = (\<lambda>i. readN (rn_getManagedAgent B i)),
      rn_getMembership = (\<lambda>i. readN (rn_getMembership B i)), rn_getCapability = (\<lambda>i. readN (rn_getCapability B i)),
      rn_getAuthorityBinding = (\<lambda>i. readN (rn_getAuthorityBinding B i)), rn_getContract = (\<lambda>i. readN (rn_getContract B i)),
      rn_getBudget = (\<lambda>i. readN (rn_getBudget B i)), rn_getPolicy = (\<lambda>i. readN (rn_getPolicy B i)),
      rn_encrypt = (\<lambda>text name key. outsideN (quietE (encryptN E (rn_organizationId B) text name key))),
      rn_saveTicket = (\<lambda>name key body. readN (rn_saveTicket B name key body)),
      rn_prepareCommand = (\<lambda>c m b a key scheduled tx. quietE (prepareCommandN E c m b a key scheduled tx))\<rparr>)"

text \<open>The object with its SDK runner: the world of the runner, whose outside is \<open>nworld\<close>.\<close>

type_synonym ('s, 'r, 't) native_world = "('s, 'r, 't) nworld rworld"

definition innerN :: "('s, 'r, 't, 'a) native \<Rightarrow> (('s, 'r, 't) native_world, native_error, 'a) eff" where
  "innerN m = (\<lambda>w. case m (rw_out w) of (x, v) \<Rightarrow> (x, w\<lparr>rw_out := v\<rparr>))"

definition runnerN :: "(('s, 'r, 't) nworld, 'a) runner \<Rightarrow> (('s, 'r, 't) native_world, native_error, 'a) eff" where
  "runnerN m = (\<lambda>w. case m w of (Inl e, w') \<Rightarrow> (Inl (Nr_runner e), w') | (Inr a, w') \<Rightarrow> (Inr a, w'))"

definition set_mode :: "delivery_mode \<Rightarrow> (('s, 'r, 't) native_world, 'e, unit) eff" where
  "set_mode mode = modifyE (\<lambda>w. w\<lparr>rw_out := (rw_out w)\<lparr>nw_mode := mode\<rparr>\<rparr>)"

text \<open>A fee declined for a chain delivery leaves the Run queued.\<close>

definition declined_report :: "bool \<Rightarrow> runner_report \<Rightarrow> runner_report" where
  "declined_report declined value = (if declined \<and> rr_status value = Awaiting_confirmation
     then value\<lparr>rr_status := Queued, rr_reason := Some ''chain_delivery_fee_declined''\<rparr> else value)"

definition stepN :: "nat \<Rightarrow> ('r, 't) native_env \<Rightarrow> ('s, 'x) journal_ops \<Rightarrow> runner_input \<Rightarrow> delivery_mode
    \<Rightarrow> (('s, 'r, 't) native_world, native_error, runner_report) eff" where
  "stepN fuel E J input mode =
     bindE (innerN (outsideN (activeN E))) (\<lambda>_.
     bindE (modifyE (\<lambda>w. w\<lparr>rw_out := (rw_out w)\<lparr>nw_mode := mode, nw_declined := False\<rparr>\<rparr>)) (\<lambda>_.
     catchE
       (bindE (runnerN (advance fuel (nativeRunner fuel E J) (input\<lparr>sx_okrId := rn_normalize (ne_base E) (sx_okrId input)\<rparr>))) (\<lambda>value.
        bindE (getE (\<lambda>w. nw_declined (rw_out w))) (\<lambda>declined.
        bindE (set_mode Coordinator) (\<lambda>_.
        okE (declined_report declined value)))))
       (\<lambda>e. bindE (set_mode Coordinator) (\<lambda>_. throwE e))))"

section \<open>Reviews and queries\<close>

definition spec_matches :: "runner_okr \<Rightarrow> okr_spec \<Rightarrow> bool" where
  "spec_matches okr spec \<longleftrightarrow> int (sp_priority spec) = rk_priority okr \<and> sp_deadlineMs spec = dec_string (rk_deadline_ms okr)
     \<and> list_all2 (\<lambda>kr m. sk_baseline kr = dec_string (mt_baseline m) \<and> sk_target kr = dec_string (mt_target m)
          \<and> sk_weight kr = dec_string (mt_weight m) \<and> sk_maxAgeMs kr = dec_string (mt_max_age_ms m)) (sp_krs spec) (rk_metrics okr)"

definition spec_record_ok :: "('r, 't) native_env \<Rightarrow> runner_okr \<Rightarrow> product_record \<Rightarrow> bool" where
  "spec_record_ok E okr rec \<longleftrightarrow> pc_organization_id rec = ce_organizationId (ne_results E) \<and> pc_kind rec = 1
     \<and> pc_logical_id rec = ''okr-'' @ rk_logical_id okr @ ''-spec'' \<and> pc_revision rec = rk_spec_revision okr"

definition describeN :: "nat \<Rightarrow> ('r, 't) native_env \<Rightarrow> ('s, 'x) journal_ops \<Rightarrow> string
    \<Rightarrow> (('s, 'r, 't) native_world, native_error, runner_okr \<times> okr_plan \<times> okr_spec \<times> handover_policy) eff" where
  "describeN fuel E J okrId = (let B = ne_base E in
     bindE (innerN (outsideN (activeN E))) (\<lambda>_.
     bindE (runnerN (describeR (nativeRunner fuel E J) okrId)) (\<lambda>(okr, plan).
     bindE (innerN (outsideN (awaitN (rn_getRecord B (rk_spec_record okr))))) (\<lambda>rec.
     bindE (assertE (spec_record_ok E okr rec) Nr_invalid_source) (\<lambda>_.
     bindE (innerN (outsideN (recordsN (readRecord (ne_records E) \<lparr>pt_kind = 1, pt_logicalId = pc_logical_id rec, pt_record_id = rk_spec_record okr,
              pt_revision = dec_string (pc_revision rec), pt_key_version = pc_key_version rec\<rparr> False)))) (\<lambda>plaintext.
     case Option.bind (json_parse plaintext) (parseOkrSpecification (rn_hash B)) of None \<Rightarrow> throwE Nr_outside
     | Some spec \<Rightarrow>
         bindE (assertE (spec_matches okr spec) Nr_invalid_source) (\<lambda>_.
         bindE (innerN (outsideN (awaitN (rn_getPolicy B (rk_id okr))))) (\<lambda>policy.
         bindE (assertE (py_agreement_version policy = rk_agreement_version okr \<and> py_managed_version policy = rk_managed_version okr) Nr_state_changed) (\<lambda>_.
         bindE (innerN (outsideN (awaitN (rn_getOkr B (rk_id okr))))) (\<lambda>again.
         bindE (assertE (again = okr) Nr_state_changed) (\<lambda>_.
         bindE (innerN (outsideN (activeN E))) (\<lambda>_.
         okE (okr, plan, spec, policy))))))))))))) "

definition kr_args_ok :: "string \<Rightarrow> string \<Rightarrow> string \<Rightarrow> bool" where
  "kr_args_ok okrId agreementVersion krIndex \<longleftrightarrow> is_object_id okrId \<and> positive_text agreementVersion \<and> kr_digit krIndex"

record prepared_kr =
  pk_okr :: runner_okr
  pk_target :: command_target_input
  pk_run :: runner_run
  pk_delivered :: bool
  pk_ticketRecordId :: string

text \<open>The ticket of one key result: written for this agreement and plan, with exactly the approved work.\<close>

definition kr_ticket_ok :: "('r, 't) native_env \<Rightarrow> runner_okr \<Rightarrow> okr_plan \<Rightarrow> kr_plan \<Rightarrow> string \<Rightarrow> ticket \<Rightarrow> bool" where
  "kr_ticket_ok E okr plan kr krIndex t \<longleftrightarrow> (let c = tk_command t in
     tk_okrId t = rk_id okr \<and> tk_specRecordId t = rk_spec_record okr \<and> Some (tk_agreementRecordId t) = rk_agreement_record okr
     \<and> sc_action c = ''assign'' \<and> sc_scope c = ''control'' \<and> sc_organization_id c = ce_organizationId (ne_results E)
     \<and> (case field (sc_payload c) ''okr'' of None \<Rightarrow> False | Some v \<Rightarrow> canonical v = canonical (JObject [(''id'', JString (rk_id okr)),
           (''agreement_version'', JString (dec_string (rk_agreement_version okr))), (''kr_index'', JString krIndex)]))
     \<and> sc_budget c = Some (''TOOL_CALLS'', kp_maxCalls kr) \<and> sfield (sc_payload c) ''task'' = Some (task_text (kp_files kr))
     \<and> (case field (sc_payload c) ''bounds'' of None \<Rightarrow> False | Some v \<Rightarrow> canonical v = canonical (bounds_json plan kr))
     \<and> (case field (sc_payload c) ''measurement'' of None \<Rightarrow> False | Some v \<Rightarrow> canonical v = canonical measurement_json))"

definition kr_run_ok :: "runner_okr \<Rightarrow> signed_command \<Rightarrow> runner_run \<Rightarrow> bool" where
  "kr_run_ok okr c run \<longleftrightarrow> run_matches_ticket okr c run \<and> xr_managed_agent run = rk_managed_agent okr \<and> xr_membership_id run = rk_membership_id okr"

definition kr_claim_ok :: "runner_okr \<Rightarrow> string \<Rightarrow> signed_command \<Rightarrow> int \<times> int \<times> string \<Rightarrow> bool" where
  "kr_claim_ok okr krIndex c = (\<lambda>(agreement, kr, capability).
     agreement = rk_agreement_version okr \<and> dec_string kr = krIndex \<and> capability = sc_capability_id c)"

text \<open>The Run, the claim and the delivery of a ticket that was read.\<close>

definition preparedRun :: "('r, 't) native_env \<Rightarrow> runner_okr \<Rightarrow> string \<Rightarrow> string \<Rightarrow> signed_command \<Rightarrow> ('r, prepared_kr) guarded" where
  "preparedRun E okr krIndex ticketRecordId c = (let B = ne_base E in
     case (rk_membership_id okr, rk_managed_agent okr) of
       (Some membership, Some agent) \<Rightarrow>
         bindE (awaitN (rn_getMembership B membership)) (\<lambda>member.
         bindE (awaitN (ne_readAgentExecutions E agent)) (\<lambda>runs.
         bindE (intentN E c) (\<lambda>fingerprint.
         case run_of c fingerprint runs of None \<Rightarrow> throwE Nr_invalid_source
         | Some run \<Rightarrow>
             bindE (assertE (kr_run_ok okr c run) Nr_invalid_source) (\<lambda>_.
             bindE (awaitN (ne_getReservationBudget E (rk_id okr) (xr_id run))) (\<lambda>claim.
             bindE (assertE (kr_claim_ok okr krIndex c claim) Nr_invalid_source) (\<lambda>_.
             bindE (awaitN (ne_getCommandDelivery E (xr_id run))) (\<lambda>delivery.
             bindE (awaitN (rn_getOkr B (rk_id okr))) (\<lambda>again.
             bindE (assertE (again = okr) Nr_state_changed) (\<lambda>_.
             bindE (activeN E) (\<lambda>_.
             okE \<lparr>pk_okr = okr, pk_target = \<lparr>tg_command = c, tg_membershipId = me_id member, tg_bindingId = me_coordinator_binding member,
                    tg_managedAgentId = Some agent\<rparr>, pk_run = run, pk_delivered = delivery \<noteq> None, pk_ticketRecordId = ticketRecordId\<rparr>))))))))))
     | _ \<Rightarrow> throwE Nr_state_changed)"

text \<open>The ticket under the key result's name, if there is one.\<close>

definition preparedTicket :: "('r, 't) native_env \<Rightarrow> runner_okr \<Rightarrow> okr_plan \<Rightarrow> kr_plan \<Rightarrow> string \<Rightarrow> ('r, (string \<times> signed_command) option) guarded" where
  "preparedTicket E okr plan kr krIndex = (let name = ticket_name (rk_id okr) (rk_agreement_version okr) (dec_value krIndex) in
     bindE (recordsN (readRecordPointer (ne_records E) 5 name)) (\<lambda>head.
     case fp_pointer head of None \<Rightarrow> okE None
     | Some (recordId, revision, _) \<Rightarrow>
         bindE (assertE (revision = 1) Nr_invalid_source) (\<lambda>_.
         bindE (awaitN (rn_getRecord (ne_base E) recordId)) (\<lambda>rec.
         bindE (assertE (pc_logical_id rec = name \<and> pc_revision rec = 1 \<and> pc_kind rec = 5) Nr_invalid_source) (\<lambda>_.
         bindE (decryptN E recordId rec) (\<lambda>plaintext.
         case read_ticket plaintext of None \<Rightarrow> throwE Nr_invalid_source
         | Some t \<Rightarrow>
             bindE (assertE (verifySignedNodeCommand (ce_hash (ne_results E)) (ce_keys (ne_results E)) (tk_command t) = Inr ()) Nr_outside) (\<lambda>_.
             bindE (assertE (kr_ticket_ok E okr plan kr krIndex t) Nr_invalid_source) (\<lambda>_.
             okE (Some (recordId, tk_command t)))))))))) "

definition readPreparedKr :: "nat \<Rightarrow> ('r, 't) native_env \<Rightarrow> ('s, 'x) journal_ops \<Rightarrow> string \<Rightarrow> string \<Rightarrow> string
    \<Rightarrow> (('s, 'r, 't) native_world, native_error, prepared_kr option) eff" where
  "readPreparedKr fuel E J okrId agreementVersion krIndex =
     bindE (innerN (outsideN (activeN E))) (\<lambda>_.
     bindE (assertE (kr_args_ok okrId agreementVersion krIndex) Nr_invalid_source) (\<lambda>_.
     bindE (describeN fuel E J okrId) (\<lambda>(okr, plan, spec, policy).
     bindE (assertE (dec_string (rk_agreement_version okr) = agreementVersion \<and> present (rk_membership_id okr) \<and> present (rk_managed_agent okr))
              Nr_state_changed) (\<lambda>_.
     case at_index (op_krs plan) (dec_value krIndex) of None \<Rightarrow> throwE Nr_state_changed
     | Some kr \<Rightarrow>
         bindE (innerN (outsideN (preparedTicket E okr plan kr krIndex))) (\<lambda>found.
         case found of None \<Rightarrow> okE None
         | Some (recordId, c) \<Rightarrow> bindE (innerN (outsideN (preparedRun E okr krIndex recordId c))) (\<lambda>p. okE (Some p)))))))"

text \<open>Publishing a prepared key result: it has to be remaining work of an active objective.\<close>

definition queuePreparedKr :: "nat \<Rightarrow> ('r, 't) native_env \<Rightarrow> ('s, 'x) journal_ops \<Rightarrow> string \<Rightarrow> string \<Rightarrow> string
    \<Rightarrow> (('s, 'r, 't) native_world, native_error, string \<times> submission option) eff" where
  "queuePreparedKr fuel E J okrId agreementVersion krIndex =
     bindE (innerN (outsideN (activeN E))) (\<lambda>_.
     bindE (getE (\<lambda>w. nw_signing (rw_out w))) (\<lambda>signing.
     bindE (assertE (\<not> signing \<and> kr_args_ok okrId agreementVersion krIndex) Nr_invalid_source) (\<lambda>_.
     bindE (readPreparedKr fuel E J okrId agreementVersion krIndex) (\<lambda>original.
     case original of None \<Rightarrow> throwE Nr_invalid_source
     | Some p \<Rightarrow>
         bindE (assertE (rk_state (pk_okr p) = 1 \<and> rk_next_kr (pk_okr p) \<le> dec_value krIndex) Nr_state_changed) (\<lambda>_.
         bindE (innerN (outsideN (policyPin E (pk_target p) True))) (\<lambda>_.
         if pk_delivered p then okE (xr_id (pk_run p), None)
         else bindE (innerN (queueTarget fuel E J (pk_target p) (xr_id (pk_run p)) True)) (\<lambda>receipt.
              okE (xr_id (pk_run p), Some receipt))))))))"

definition queryChainDelivery :: "('r, 't) native_env \<Rightarrow> ('s, 'x) journal_ops \<Rightarrow> string \<Rightarrow> ('s, 'r, 't, tx_outcome option) native" where
  "queryChainDelivery E J executionId =
     bindE (outsideN (activeN E)) (\<lambda>_.
     bindE (assertE (is_object_id executionId) Nr_invalid_source) (\<lambda>_.
     managerN (query (nativeClient E) J (''chain-delivery:'' @ executionId))))"

definition queryN :: "('r, 't) native_env \<Rightarrow> ('s, 'x) journal_ops \<Rightarrow> string \<Rightarrow> ('s, 'r, 't, tx_outcome option) native" where
  "queryN E J okrId =
     bindE (outsideN (awaitN (ne_checkNetwork E))) (\<lambda>_.
     bindE (outsideN (awaitN (rn_getOkr (ne_base E) okrId))) (\<lambda>okr.
     bindE (assertE (rk_org_id okr = ce_organizationId (ne_results E)) Nr_invalid_source) (\<lambda>_.
     managerN (query (nativeClient E) J (ticket_name (rk_id okr) (rk_agreement_version okr) (rk_next_kr okr))))))"

definition queryPreparedKr :: "('r, 't) native_env \<Rightarrow> ('s, 'x) journal_ops \<Rightarrow> string \<Rightarrow> string \<Rightarrow> string \<Rightarrow> ('s, 'r, 't, tx_outcome option) native" where
  "queryPreparedKr E J okrId agreementVersion krIndex =
     bindE (outsideN (activeN E)) (\<lambda>_.
     bindE (assertE (kr_args_ok okrId agreementVersion krIndex) Nr_invalid_source) (\<lambda>_.
     bindE (outsideN (awaitN (ne_checkNetwork E))) (\<lambda>_.
     managerN (query (nativeClient E) J (ticket_name okrId (dec_value agreementVersion) (dec_value krIndex))))))"

end
