(* ===== verification/Native_Guarantees.thy ===== *)
theory Native_Guarantees
  imports Native_Runner
begin

text \<open>
  What the native runner lets happen: every broadcast was signed between two passes of a guard that read the policy, the Host and the Run unchanged;
  every command sent to the Coordinator was checked right before; and over any sequence of operations and restarts no request is sent twice.
  The locale \<open>native_provider\<close> reduces this to the four ways in which the object acts on its world.
\<close>

section \<open>What a guard that passed says\<close>

lemma awaitN_ok: "awaitN m r = (Inr a, r') \<longleftrightarrow> m r = (Inr a, r')"
  by (auto simp: awaitN_def split: prod.splits sum.splits)

lemma resultsN_ok: "resultsN m r = (Inr a, r') \<longleftrightarrow> m r = (Inr a, r')"
  by (auto simp: resultsN_def split: prod.splits sum.splits)

lemma activeN_ok: "activeN E r = (Inr u, r') \<longleftrightarrow> ne_active E r \<and> r' = r"
  by (auto simp: activeN_def bindE_eq eff_pure)

text \<open>
  One reading of the policy of a target's objective, in the order of the code, and what it has to show at the time that is read last: an objective of this
  organization, running, under the agreement and the key result of the command, assigned to its Agent and membership and unexpired; its policy of this
  agreement and assignment, with the continuation of the command; an unrevoked capability delegated to this device at the command's revocation version;
  a binding of it to this human and grant at the versions of the objective; and a contract for this objective, agreement and boundary.
\<close>

definition work_allowed :: "('r, 't) native_env \<Rightarrow> command_target_input \<Rightarrow> bool \<Rightarrow> json option \<Rightarrow> json option \<Rightarrow> runner_okr \<Rightarrow> handover_policy
    \<Rightarrow> runner_capability \<Rightarrow> authority_binding \<Rightarrow> capability_contract \<Rightarrow> int \<Rightarrow> bool" where
  "work_allowed E t scheduled agreement kr okr policy cap b contract now \<longleftrightarrow>
     rk_org_id okr = ce_organizationId (ne_results E) \<and> rk_state okr = 1 \<and> agreement = Some (JString (dec_string (rk_agreement_version okr)))
     \<and> (if scheduled then \<exists>i. kr = Some (JString i) \<and> rk_next_kr okr \<le> dec_value i \<and> dec_value i < int (length (rk_metrics okr))
        else kr = Some (JString (dec_string (rk_next_kr okr))))
     \<and> rk_managed_agent okr = tg_managedAgentId t \<and> rk_membership_id okr = Some (tg_membershipId t) \<and> now < rk_expires_at_ms okr
     \<and> py_agreement_version policy = rk_agreement_version okr \<and> py_managed_version policy = rk_managed_version okr
     \<and> (\<exists>continue. field (sc_payload (tg_command t)) ''handover_continue'' = Some continue \<and> canonical continue = canonical (continuation_json policy))
     \<and> \<not> rc_revoked cap \<and> rc_delegate cap = ce_device (ne_results E) \<and> dec_string (rc_revocationVersion cap) = sc_revocation_version (tg_command t)
     \<and> ab_human_id b = ce_humanId (ne_results E) \<and> ab_device_grant b = ce_grantId (ne_results E)
     \<and> ab_membership_version b = rk_membership_version okr \<and> ab_managed_agent_version b = rk_managed_version okr
     \<and> cc_contract_id contract = rk_id okr \<and> cc_agreement_version contract = rk_agreement_version okr \<and> cc_boundary_hash contract = rk_boundary_hash okr"

definition policy_read :: "('r, 't) native_env \<Rightarrow> command_target_input \<Rightarrow> bool \<Rightarrow> policy_pin \<Rightarrow> 'r \<Rightarrow> 'r \<Rightarrow> bool" where
  "policy_read E t scheduled expected r r' \<longleftrightarrow> (let B = ne_base E; capability = sc_capability_id (tg_command t) in
     \<exists>i agreement kr okr policy budget cap b contract now r1 r2 r3 r4 r5 r6.
       okr_ref (tg_command t) = Some (i, agreement, kr) \<and> expected = (okr, policy, budget, cap, b, contract)
       \<and> rn_getOkr B i r = (Inr okr, r1) \<and> rn_getPolicy B i r1 = (Inr policy, r2) \<and> rn_getBudget B i r2 = (Inr budget, r3)
       \<and> rn_getCapability B capability r3 = (Inr cap, r4) \<and> rn_getAuthorityBinding B capability r4 = (Inr b, r5)
       \<and> rn_getContract B capability r5 = (Inr contract, r6) \<and> ne_dateNow E r6 = (now, r')
       \<and> work_allowed E t scheduled agreement kr okr policy cap b contract now)"

text \<open>One reading of a target's Host and authority that shows the Host admitted, active and as pinned.\<close>

definition host_read :: "('r, 't) native_env \<Rightarrow> command_target_input \<Rightarrow> source_pin \<Rightarrow> 'r \<Rightarrow> 'r \<Rightarrow> bool" where
  "host_read E t expected r r' \<longleftrightarrow> (\<exists>s. sourceC (ne_results E) t r = (Inr s, r') \<and> cs_pin s = expected \<and> host_in_force (ne_results E) t s)"

text \<open>
  One pass of a guard, from state to state: the Host of a ticket that was checked before, the Host of the prepared command and for a delivery its Run unchanged,
  the policy read as it was reviewed, and the caller active before and after.
\<close>

definition guard_passed :: "('r, 't) native_env \<Rightarrow> 't run_guard \<Rightarrow> 'r \<Rightarrow> 'r \<Rightarrow> bool" where
  "guard_passed E g r r' \<longleftrightarrow> (let p = gd_prepared g in
     \<exists>r1 r2 r3. ne_active E r \<and> (case gd_preflight g of None \<Rightarrow> r1 = r | Some (t, expected) \<Rightarrow> host_read E t expected r r1)
       \<and> host_read E (pd_input p) (pd_pin p) r1 r2
       \<and> (case pd_run p of None \<Rightarrow> r3 = r2 | Some (i, run) \<Rightarrow> ce_getExecution (ne_results E) i r2 = (Inr run, r3))
       \<and> policy_read E (gd_target g) (gd_scheduled g) (gd_policy g) r3 r' \<and> ne_active E r')"

lemma policyPin_read: "policyPin E t scheduled r = (Inr p, r') \<Longrightarrow> policy_read E t scheduled p r r'"
  by (auto simp: policyPin_def dateNowN_def policy_read_def work_allowed_def policy_current_def kr_in_plan_def Let_def awaitN_ok eff_oks elim!: bindE_okE
      split: option.split_asm prod.split_asm if_split_asm json.split_asm)

lemma recheck_read: "recheckC (ne_results E) t expected r = (Inr u, r') \<Longrightarrow> host_read E t expected r r'"
  by (auto simp: recheck_Inr host_read_def dest: source_in_force)

lemma current_read:
  assumes "assertCurrentC (ne_results E) p r = (Inr u, r')"
  shows "\<exists>r2. host_read E (pd_input p) (pd_pin p) r r2 \<and> (case pd_run p of None \<Rightarrow> r' = r2 | Some (i, run) \<Rightarrow> ce_getExecution (ne_results E) i r2 = (Inr run, r'))"
proof (cases "pd_run p")
  case None
  with assms show ?thesis by (auto simp: assertCurrentC_def dest: recheck_read)
next
  case (Some x)
  with assms show ?thesis
    by (cases x) (auto simp: assertCurrentC_def recheckRun_def host_read_def awaitC_ok eff_oks elim!: bindE_okE dest: source_in_force)
qed

lemma runGuard_passed:
  assumes "runGuard E g r = (Inr u, r')"
  shows "guard_passed E g r r'"
proof -
  from assms obtain r1 r3 where active: "ne_active E r" "ne_active E r'"
    and preflight: "(case gd_preflight g of None \<Rightarrow> okE () | Some (t, before) \<Rightarrow> resultsN (recheckC (ne_results E) t before)) r = (Inr (), r1)"
    and current: "assertCurrentC (ne_results E) (gd_prepared g) r1 = (Inr (), r3)" and policy: "policyPin E (gd_target g) (gd_scheduled g) r3 = (Inr (gd_policy g), r')"
    by (auto simp: runGuard_def activeN_ok resultsN_ok eff_oks elim!: bindE_okE)
  from preflight have "case gd_preflight g of None \<Rightarrow> r1 = r | Some (t, expected) \<Rightarrow> host_read E t expected r r1"
    by (auto simp: resultsN_ok eff_oks dest: recheck_read split: option.split_asm prod.split_asm)
  then show ?thesis
    using active current_read [OF current] policyPin_read [OF policy] unfolding guard_passed_def Let_def by blast
qed

text \<open>
  Everything a broadcast of the object rests on: it is a quote's request and digest; a user approved this very quote, and the device signed the
  bytes of this digest, each between two passes of one guard.
\<close>

definition approved_between :: "('r, 't) native_env \<Rightarrow> 't run_guard \<Rightarrow> fee_quote \<Rightarrow> bool" where
  "approved_between E g q \<longleftrightarrow> (\<exists>r r1 r2 r3. guard_passed E g r r1 \<and> ne_approveQuote E q r1 = (Inr True, r2) \<and> guard_passed E g r2 r3)"

definition signed_between :: "('r, 't) native_env \<Rightarrow> 't run_guard \<Rightarrow> string \<Rightarrow> bool" where
  "signed_between E g bytes \<longleftrightarrow> (\<exists>r r1 r2 r3 s. guard_passed E g r r1 \<and> cl_sign (ne_client E) bytes r1 = (Inr s, r2) \<and> guard_passed E g r2 r3)"

definition under_guard :: "('r, 't) native_env \<Rightarrow> journal_key \<times> string \<Rightarrow> bool" where
  "under_guard E kd \<longleftrightarrow> (\<exists>g q bytes. kd = ((q_namespace q, q_requestId q), q_digest q) \<and> q_digest q = cl_digestOf (ne_client E) bytes
     \<and> approved_between E g q \<and> signed_between E g bytes)"

text \<open>What the manager keeps under a quote is what the quote says: its request and the bytes of its digest.\<close>

definition prepared_sound :: "(string \<Rightarrow> string) \<Rightarrow> ('s, 'r) mworld \<Rightarrow> bool" where
  "prepared_sound digest w \<longleftrightarrow> (\<forall>p \<in> set (w_prepared w). let q = p_quote p in
     entry_key (p_entry p) = (q_namespace q, q_requestId q) \<and> je_digest (p_entry p) = q_digest q \<and> q_digest q = digest (p_bytes p))"

definition kept_sound :: "(string \<Rightarrow> string) \<Rightarrow> ('s, 'r) mworld \<Rightarrow> ('s, 'r) mworld \<Rightarrow> bool" where
  "kept_sound digest w w' \<longleftrightarrow> (prepared_sound digest w \<longrightarrow> prepared_sound digest w')"

lemma kept_sound_preorder [simp]: "preorder_on_worlds (kept_sound digest)"
  by (auto simp: preorder_on_worlds_def kept_sound_def intro!: reflpI transpI)

lemma same_kept_sound: "same_but_journal w w' \<Longrightarrow> kept_sound digest w w'" "same_state w w' \<Longrightarrow> kept_sound digest w w'"
  by (simp_all add: same_but_journal_def same_state_def kept_sound_def prepared_sound_def)

lemma issue_kept_sound:
  assumes "digest = cl_digestOf env"
  shows "keeps (kept_sound digest) (issue_quote env ns rid b m bal refs a bytes g s)"
  using assms
  by (auto simp: keeps_def issue_quote_def Let_def kept_sound_def prepared_sound_def entry_key_def modifyE_def okE_def getE_def dest!: prepared_step(4) elim!: bindE_E)

lemma prepare_kept_sound: "digest = cl_digestOf env \<Longrightarrow> keeps (kept_sound digest) (prepare fuel env J input)"
  unfolding prepare_def
  by (auto intro!: issue_kept_sound keeps_weaken [OF keeps_journalM same_kept_sound(1)]
      keeps_weaken [OF keeps_namespaceM same_kept_sound(2)] keeps_weaken [OF keeps_fund same_kept_sound(2)]
      keeps_weaken [OF keeps_rpcE same_kept_sound(2)])

lemma mark_kept_sound: "keeps (kept_sound digest) (modifyE (mark_used q))"
  by (auto simp: keeps_def modifyE_def mark_used_def kept_sound_def prepared_sound_def Let_def)

lemma execute_kept_sound: "keeps (kept_sound digest) (executeE env p sg)"
proof -
  have "keeps (kept_sound digest) (modifyE (\<lambda>w. w\<lparr>w_sent := (entry_key (p_entry p), je_digest (p_entry p)) # w_sent w\<rparr>))"
    by (auto simp: keeps_def modifyE_def kept_sound_def prepared_sound_def)
  then show ?thesis unfolding executeE_def by (intro keeps_bindE kept_sound_preorder keeps_weaken [OF keeps_rpcE same_kept_sound(2)])
qed

lemma broadcast_kept_sound: "keeps (kept_sound digest) (broadcast env J q)"
  unfolding broadcast_def broadcast_claim_def broadcast_execute_def assertBeforeBroadcast_def
  by (auto intro!: mark_kept_sound execute_kept_sound keeps_weaken [OF keeps_broadcast_sign same_kept_sound(1)]
      keeps_weaken [OF keeps_journalE same_kept_sound(1)] keeps_weaken [OF keeps_journalM same_kept_sound(1)]
      keeps_weaken [OF keeps_queryEntry same_kept_sound(1)] keeps_weaken [OF keeps_confirm same_kept_sound(1)])

lemma query_kept_sound: "keeps (kept_sound digest) (query env J i)"
  unfolding query_def
  by (auto intro!: keeps_weaken [OF keeps_journalM same_kept_sound(1)] keeps_weaken [OF keeps_namespaceM same_kept_sound(2)]
      keeps_weaken [OF keeps_queryEntry same_kept_sound(1)])

lemma stages_kept_sound:
  assumes "digest = cl_digestOf env"
  shows "keeps (kept_sound digest) (sp_recorded env J i)" "keeps (kept_sound digest) (sp_quote fuel env J g tx i)"
    "keeps (kept_sound digest) (sp_approve ap q)"
  unfolding sp_recorded_def sp_again_def sp_quote_def sp_approve_def
  by (intro keeps_catchE keeps_bindE keeps_pure keeps_if kept_sound_preorder prepare_kept_sound assms query_kept_sound
      keeps_weaken [OF keeps_rpcE same_kept_sound(2)])+

lemma send_kept_sound: "keeps (kept_sound digest) (sp_send env J q)"
  unfolding sp_send_def by (rule keeps_catchE [OF kept_sound_preorder keeps_bindE [OF kept_sound_preorder broadcast_kept_sound]]) auto

lemma else_keeps:
  assumes "preorder_on_worlds R" "keeps R m" "\<And>a. keeps R (f a)"
  shows "keeps R (elseE m f)"
  using assms unfolding elseE_def by (auto split: sum.split)

lemma selfpay_kept_sound:
  assumes "digest = cl_digestOf env"
  shows "keeps (kept_sound digest) (selfpay_submit fuel env J g approve tx i)"
  unfolding selfpay_submit_def
  by (rule keeps_bindE, rule kept_sound_preorder,
      (rule else_keeps [OF kept_sound_preorder stages_kept_sound(1) [OF assms]] else_keeps [OF kept_sound_preorder stages_kept_sound(2) [OF assms]]
         else_keeps [OF kept_sound_preorder stages_kept_sound(3) [OF assms]])+) (auto intro: send_kept_sound)

lemma client_parts_kept [simp]: "cl_digestOf (guarded_client (nativeClient E) guard) = cl_digestOf (ne_client E)" "cl_sign (nativeClient E) = cl_sign (ne_client E)"
  by (simp_all add: guarded_client_def nativeClient_def)

lemma approveN_between:
  assumes "approveN E g q r = (Inr True, r')"
  shows "approved_between E g q"
proof -
  from assms obtain r1 r2 where "runGuard E g r = (Inr (), r1)" "ne_approveQuote E q r1 = (Inr True, r2)" "runGuard E g r2 = (Inr (), r')"
    by (auto simp: approveN_def quietE_Inr awaitN_ok eff_oks elim!: bindE_okE split: if_split_asm)
  then show ?thesis unfolding approved_between_def by (blast dest: runGuard_passed)
qed

lemma submitUnder_sent:
  assumes "submitUnder fuel E J g tx i w = (x, w')" "prepared_sound (cl_digestOf (ne_client E)) (nw_manager w)"
  shows "w_sent (nw_manager w') = w_sent (nw_manager w) \<or> (\<exists>kd. w_sent (nw_manager w') = kd # w_sent (nw_manager w) \<and> under_guard E kd)"
    and "prepared_sound (cl_digestOf (ne_client E)) (nw_manager w')"
proof -
  let ?env = "guarded_client (nativeClient E) (runGuard E g)"
  let ?sound = "prepared_sound (cl_digestOf (ne_client E))"
  obtain y v where run: "selfpay_submit fuel ?env J (UBigInt 200000000) (approveN E g) (ne_content E tx (w_rpc (nw_manager w))) i (nw_manager w) = (y, v)"
    by fastforce
  then have w': "nw_manager w' = v"
    using assms(1) by (auto simp: submitUnder_def eff_run managerN_def split: sum.split_asm)
  have parts: "prepared_sound (cl_digestOf (ne_client E)) b" if "keeps (kept_sound (cl_digestOf (ne_client E))) m" "m a = (z, b)" "?sound a" for m a z and b
    using keepsD [OF that(1,2)] that(3) by (simp add: kept_sound_def)
  show "prepared_sound (cl_digestOf (ne_client E)) (nw_manager w')"
    unfolding w' by (rule parts [OF selfpay_kept_sound run assms(2)]) simp
  from run show "w_sent (nw_manager w') = w_sent (nw_manager w) \<or> (\<exists>kd. w_sent (nw_manager w') = kd # w_sent (nw_manager w) \<and> under_guard E kd)"
  proof (cases rule: selfpay_cases)
    case (sent s q w1 w2 w3)
    obtain z where z: "broadcast ?env J q w3 = (z, v)" using sp_send_sent [OF sent(5)] by blast
    have env: "cl_digestOf (ne_client E) = cl_digestOf ?env" by simp
    have sound: "?sound w3"
      by (rule parts [OF stages_kept_sound(3) [OF env] sent(4) parts [OF stages_kept_sound(2) [OF env] sent(3) parts [OF stages_kept_sound(1) [OF env] sent(2) assms(2)]]])
    show ?thesis
    proof (cases "w_sent v = w_sent w3")
      case False
      from guarded_broadcast_sent [OF z False] obtain p :: prepared where p: "p \<in> set (w_prepared w3)" "p_quote p = q"
        "guarded_run (runGuard E g) (nativeClient E) (p_bytes p)" "w_sent v = (entry_key (p_entry p), je_digest (p_entry p)) # w_sent w3" by blast
      from p(3) have "signed_between E g (p_bytes p)" unfolding guarded_run_def signed_between_def by (auto dest!: runGuard_passed) blast
      moreover have "approved_between E g q" by (rule approveN_between [OF sp_approve_ok [OF sent(4)]])
      moreover have "entry_key (p_entry p) = (q_namespace q, q_requestId q)" "je_digest (p_entry p) = q_digest q" "q_digest q = cl_digestOf (ne_client E) (p_bytes p)"
        using sound p(1,2) by (auto simp: prepared_sound_def Let_def)
      ultimately have "under_guard E (entry_key (p_entry p), je_digest (p_entry p))"
        unfolding under_guard_def by (intro exI [of _ g] exI [of _ q] exI [of _ "p_bytes p"]) simp
      then show ?thesis using p(4) sent(6) w' by auto
    qed (use sent(6) w' in auto)
  qed (use w' in auto)
qed

lemma submitUnder_sends: "submitUnder fuel E J g tx i w = (x, w') \<Longrightarrow> nw_sends w' = nw_sends w"
  by (auto simp: submitUnder_def eff_run managerN_def split: sum.split_asm prod.split_asm)

section \<open>The object as a provider\<close>

lemma outsideN_keeps: "(\<And>w r. R w (w\<lparr>nw_manager := (nw_manager w)\<lparr>w_rpc := r\<rparr>\<rparr>)) \<Longrightarrow> keeps R (outsideN m)"
  by (auto simp: keeps_def outsideN_def split: prod.splits)

lemma quietE_keeps [intro!]: "keeps R m \<Longrightarrow> keeps R (quietE m)"
  by (fastforce simp: keeps_def quietE_def split: prod.splits sum.splits)

text \<open>
  A relation that every broadcast of the object, every send to the Coordinator, every query of the manager and everything outside keeps: then the options
  of the SDK's runner keep it, and so do the operations of the object itself.
\<close>

locale native_provider =
  fixes fuel :: nat and E :: "('r, 't) native_env" and J :: "('s, 'x) journal_ops"
    and R :: "('s, 'r, 't) nworld \<Rightarrow> ('s, 'r, 't) nworld \<Rightarrow> bool"
  assumes order: "preorder_on_worlds R"
    and outside: "R w (w\<lparr>nw_manager := (nw_manager w)\<lparr>w_rpc := r\<rparr>\<rparr>)"
    and fields: "nw_manager w' = nw_manager w \<Longrightarrow> nw_sends w' = nw_sends w \<Longrightarrow> R w w'"
    and queries: "keeps R (managerN (query env J i))"
    and submits: "keeps R (submitUnder fuel E J g tx i)"
    and sends: "keeps R (coordinatorSend E t before source)"
begin

lemma kept_outside [intro!]: "keeps R (outsideN m)"
  by (rule outsideN_keeps) (rule outside)

lemma kept_tick [intro!]: "clock_keeps R (tickN f)"
  using outside by (auto simp: clock_keeps_def tickN_def split: prod.split)

lemma kept_pure [intro!]: "keeps R (okE a)" "keeps R (throwE e)" "keeps R (getE f)" "keeps R (liftR x)" "keeps R (assertE c e)"
  by (rule keeps_pure [OF order])+

lemma kept_bind [intro!]: "keeps R m \<Longrightarrow> (\<And>a. keeps R (f a)) \<Longrightarrow> keeps R (bindE m f)"
  by (rule keeps_bindE [OF order])

lemma kept_fields [intro!]: "(\<And>w. nw_manager (f w) = nw_manager w \<and> nw_sends (f w) = nw_sends w) \<Longrightarrow> keeps R (modifyE f)"
  using fields by (auto simp: keeps_def modifyE_def)

lemmas kept_acts [intro!] = queries submits sends

lemma kept_queue [intro!]: "keeps R (queueTarget fuel E J t i scheduled)"
  by (auto simp: queueTarget_def Let_def)

lemma kept_options [intro!]:
  "keeps R (prepareCommandN E c m b a key scheduled tx)" "keeps R (submitN fuel E J tx i)" "keeps R (querySubmissionN E J i)" "keeps R (deliverN fuel E J c)"
  by (auto simp: prepareCommandN_def submitN_def querySubmissionN_def deliverN_def chainSend_def intentN_def Let_def split: option.split)

lemma kept_reads [intro!]: "keeps R (readN m)"
  by (auto simp: readN_def)

end

sublocale native_provider \<subseteq> runner_provider "nativeRunner fuel E J" R
proof
  show "R r (rn_pause (nativeRunner fuel E J) r)" for r
    using outside by (auto simp: nativeRunner_def Let_def tickN_def)
qed (use order in \<open>auto simp: nativeRunner_def signerN_def Let_def\<close>)

section \<open>The operations of the object\<close>

context native_provider
begin

definition whole :: "('s, 'r, 't) native_world \<Rightarrow> ('s, 'r, 't) native_world \<Rightarrow> bool" where
  "whole = on_out R"

lemma whole_pure [intro!]: "keeps whole (okE a)" "keeps whole (throwE e)" "keeps whole (getE f)" "keeps whole (liftR x)" "keeps whole (assertE c e)"
  unfolding whole_def by (rule out_pure)+

lemma whole_bind [intro!]: "keeps whole m \<Longrightarrow> (\<And>a. keeps whole (f a)) \<Longrightarrow> keeps whole (bindE m f)"
  unfolding whole_def by (rule out_bind)

lemma whole_catch [intro!]: "keeps whole m \<Longrightarrow> (\<And>e. keeps whole (h e)) \<Longrightarrow> keeps whole (catchE m h)"
  unfolding whole_def by (rule out_catch)

lemma whole_inner [intro!]: "keeps R m \<Longrightarrow> keeps whole (innerN m)"
  by (auto simp: keeps_def whole_def on_out_def innerN_def split: prod.splits)

lemma whole_runner [intro!]:
  "keeps whole (runnerN (advance fuel (nativeRunner fuel E J) input))" "keeps whole (runnerN (describeR (nativeRunner fuel E J) i))"
  using advance_keeps [of fuel input] describe_keeps [of i] by (auto simp: keeps_def whole_def runnerN_def split: prod.splits sum.splits)

lemma whole_mode [intro!]: "keeps whole (set_mode mode)" "keeps whole (modifyE (\<lambda>w. w\<lparr>rw_out := (rw_out w)\<lparr>nw_mode := mode, nw_declined := d\<rparr>\<rparr>))"
  using fields by (auto simp: keeps_def whole_def on_out_def set_mode_def modifyE_def)

lemma whole_step [intro!]: "keeps whole (stepN fuel E J input mode)"
  by (auto simp: stepN_def)

lemma whole_describe [intro!]: "keeps whole (describeN fuel E J i)"
  by (auto simp: describeN_def Let_def split: option.split)

lemma whole_read [intro!]: "keeps whole (readPreparedKr fuel E J i a k)"
  by (auto simp: readPreparedKr_def split: option.split)

lemma whole_publish [intro!]: "keeps whole (queuePreparedKr fuel E J i a k)"
  by (auto simp: queuePreparedKr_def split: option.split)

end

text \<open>What callers do with the object over time; a restart makes a new object over the same journal.\<close>

datatype native_op = Step runner_input delivery_mode | Publish string string string | Describe string | Restart

definition restarted :: "('s, 'r, 't) native_world \<Rightarrow> ('s, 'r, 't) native_world" where
  "restarted w = w\<lparr>rw_unknown := [], rw_out := (rw_out w)\<lparr>nw_guards := [], nw_signing := False, nw_mode := Coordinator, nw_declined := False,
     nw_manager := (nw_manager (rw_out w))\<lparr>w_prepared := []\<rparr>\<rparr>\<rparr>"

fun perform :: "nat \<Rightarrow> ('r, 't) native_env \<Rightarrow> ('s, 'x) journal_ops \<Rightarrow> native_op \<Rightarrow> ('s, 'r, 't) native_world \<Rightarrow> ('s, 'r, 't) native_world" where
  "perform fuel E J (Step input mode) w = snd (stepN fuel E J input mode w)"
| "perform fuel E J (Publish i a k) w = snd (queuePreparedKr fuel E J i a k w)"
| "perform fuel E J (Describe i) w = snd (describeN fuel E J i w)"
| "perform fuel E J Restart w = restarted w"

definition performs :: "nat \<Rightarrow> ('r, 't) native_env \<Rightarrow> ('s, 'x) journal_ops \<Rightarrow> native_op list \<Rightarrow> ('s, 'r, 't) native_world \<Rightarrow> ('s, 'r, 't) native_world" where
  "performs fuel E J ops w = fold (perform fuel E J) ops w"

context native_provider
begin

lemma performs_keep:
  assumes restart: "\<And>w. R (rw_out w) (rw_out (restarted w))"
  shows "R (rw_out w) (rw_out (performs fuel E J ops w))"
proof -
  have one: "R (rw_out w) (rw_out (perform fuel E J op w))" for op w
  proof (cases op)
    case (Step input mode)
    then show ?thesis using keepsD [OF whole_step, of input mode w] by (cases "stepN fuel E J input mode w") (simp add: whole_def on_out_def)
  next
    case (Publish i a k)
    then show ?thesis using keepsD [OF whole_publish, of i a k w] by (cases "queuePreparedKr fuel E J i a k w") (simp add: whole_def on_out_def)
  next
    case (Describe i)
    then show ?thesis using keepsD [OF whole_describe, of i w] by (cases "describeN fuel E J i w") (simp add: whole_def on_out_def)
  qed (simp add: restart)
  show ?thesis
    unfolding performs_def
  proof (induction ops arbitrary: w)
    case Nil
    show ?case using order by (simp add: preorder_on_worlds_def reflp_def)
  next
    case (Cons op ops)
    show ?case using one [of w op] Cons.IH [of "perform fuel E J op w"] order by (auto simp: preorder_on_worlds_def dest: transpD)
  qed
qed

end

section \<open>What the object has sent\<close>

text \<open>
  A command that went to the Coordinator: a request was made for it; then its Host was read as it was before and its policy as reviewed, with the caller active in
  the very state in which the request was sent.
\<close>

definition checked_send :: "('r, 't) native_env \<Rightarrow> signed_command \<Rightarrow> bool" where
  "checked_send E c \<longleftrightarrow> (\<exists>t request source policy r r1 r2 r3. tg_command t = c \<and> ne_prepareSend E (tg_bindingId t) c r = (Inr request, r1)
     \<and> host_read E t source r1 r2 \<and> policy_read E t False policy r2 r3 \<and> ne_active E r3)"

text \<open>A log that grew at its front by entries with a property.\<close>

definition grew :: "('a \<Rightarrow> bool) \<Rightarrow> 'a list \<Rightarrow> 'a list \<Rightarrow> bool" where
  "grew P xs ys \<longleftrightarrow> (\<exists>ks. ys = ks @ xs \<and> list_all P ks)"

lemma grew_refl [simp]: "grew P xs xs"
  by (simp add: grew_def)

lemma grew_cons: "P x \<Longrightarrow> grew P xs (x # xs)"
  unfolding grew_def by (rule exI [of _ "[x]"]) simp

lemma grew_trans: "grew P xs ys \<Longrightarrow> grew P ys zs \<Longrightarrow> grew P xs zs"
  unfolding grew_def by (metis append.assoc list_all_append)

definition accountable :: "('r, 't) native_env \<Rightarrow> ('s, 'r, 't) nworld \<Rightarrow> ('s, 'r, 't) nworld \<Rightarrow> bool" where
  "accountable E w w' \<longleftrightarrow> grew (checked_send E) (nw_sends w) (nw_sends w')
     \<and> (prepared_sound (cl_digestOf (ne_client E)) (nw_manager w) \<longrightarrow> prepared_sound (cl_digestOf (ne_client E)) (nw_manager w')
        \<and> grew (under_guard E) (w_sent (nw_manager w)) (w_sent (nw_manager w')))"

lemma accountable_preorder: "preorder_on_worlds (accountable E)"
  unfolding preorder_on_worlds_def accountable_def by (auto intro!: reflpI transpI intro: grew_trans)

lemma query_kept:
  "managerN (query env J i) w = (x, w') \<Longrightarrow> w_sent (nw_manager w') = w_sent (nw_manager w) \<and> nw_sends w' = nw_sends w
     \<and> w_prepared (nw_manager w') = w_prepared (nw_manager w)"
  by (auto simp: managerN_def split: prod.splits dest: query_sent query_prepared)

lemma outsideN_ok: "outsideN m w = (Inr a, w') \<longleftrightarrow>
    (\<exists>r. m (w_rpc (nw_manager w)) = (Inr a, r) \<and> w' = w\<lparr>nw_manager := (nw_manager w)\<lparr>w_rpc := r\<rparr>\<rparr>)"
  by (auto simp: outsideN_def split: prod.splits)

lemma outsideN_same: "outsideN m w = (x, w') \<Longrightarrow> w_sent (nw_manager w') = w_sent (nw_manager w) \<and> nw_sends w' = nw_sends w
    \<and> w_prepared (nw_manager w') = w_prepared (nw_manager w)"
  by (auto simp: outsideN_def split: prod.splits)

text \<open>Nothing was broadcast or sent, and the manager kept what it prepared.\<close>

definition quiet_world :: "('s, 'r, 't) nworld \<Rightarrow> ('s, 'r, 't) nworld \<Rightarrow> bool" where
  "quiet_world w w' \<longleftrightarrow> w_sent (nw_manager w') = w_sent (nw_manager w) \<and> nw_sends w' = nw_sends w \<and> w_prepared (nw_manager w') = w_prepared (nw_manager w)"

lemma outside_then:
  assumes "bindE (outsideN m) f w = (x, w')"
  obtains (failed) "quiet_world w w'"
  | (ok) a w1 where "m (w_rpc (nw_manager w)) = (Inr a, w_rpc (nw_manager w1))" "f a w1 = (x, w')" "quiet_world w w1"
proof (rule bindE_E [OF assms])
  fix e assume "outsideN m w = (Inl e, w')"
  then show thesis using failed outsideN_same unfolding quiet_world_def by blast
next
  fix a w1 assume run: "outsideN m w = (Inr a, w1)" and rest: "f a w1 = (x, w')"
  from run have "m (w_rpc (nw_manager w)) = (Inr a, w_rpc (nw_manager w1))" by (auto simp: outsideN_ok)
  then show thesis using ok rest outsideN_same [OF run] unfolding quiet_world_def by blast
qed

lemma assert_then:
  assumes "bindE (assertE c e) f w = (x, w')"
  obtains "w' = w" | "c" "f () w = (x, w')"
  using assms by (auto simp: bindE_eq eff_pure split: if_split_asm)

lemma send_last:
  assumes "bindE (modifyE (\<lambda>w. w\<lparr>nw_sends := c # nw_sends w\<rparr>)) (\<lambda>_. bindE (outsideN m) (\<lambda>_. outsideN m')) w = (x, w')"
  shows "w_sent (nw_manager w') = w_sent (nw_manager w) \<and> nw_sends w' = c # nw_sends w \<and> w_prepared (nw_manager w') = w_prepared (nw_manager w)"
  using assms by (elim bindE_E outside_then; auto simp: modifyE_eq quiet_world_def dest!: outsideN_same)

lemma coordinatorSend_sends:
  assumes "coordinatorSend E t before source w = (x, w')"
  shows "w_sent (nw_manager w') = w_sent (nw_manager w) \<and> w_prepared (nw_manager w') = w_prepared (nw_manager w)
    \<and> (nw_sends w' = nw_sends w \<or> nw_sends w' = tg_command t # nw_sends w \<and> checked_send E (tg_command t))"
  using assms unfolding coordinatorSend_def
proof (elim outside_then assert_then)
  fix request :: string and again :: policy_pin and u v w1 w2 w3 w4
  assume "awaitN (ne_prepareSend E (tg_bindingId t) (tg_command t)) (w_rpc (nw_manager w)) = (Inr request, w_rpc (nw_manager w1))"
    and "resultsN (recheckC (ne_results E) t source) (w_rpc (nw_manager w1)) = (Inr u, w_rpc (nw_manager w2))"
    and "policyPin E t False (w_rpc (nw_manager w2)) = (Inr again, w_rpc (nw_manager w3))"
    and "activeN E (w_rpc (nw_manager w3)) = (Inr v, w_rpc (nw_manager w4))"
    and last: "bindE (modifyE (\<lambda>w. w\<lparr>nw_sends := tg_command t # nw_sends w\<rparr>)) (\<lambda>_. bindE (outsideN (awaitN (ne_send E request))) (\<lambda>_. outsideN (activeN E))) w4 = (x, w')"
    and quiet: "quiet_world w w1" "quiet_world w1 w2" "quiet_world w2 w3" "quiet_world w3 w4"
  then have "checked_send E (tg_command t)"
    unfolding checked_send_def awaitN_ok resultsN_ok activeN_ok by (blast dest: recheck_read policyPin_read)
  with send_last [OF last] quiet show ?thesis by (simp add: quiet_world_def)
qed (auto simp: quiet_world_def)

lemma accountable_sends: "keeps (accountable E) (coordinatorSend E t before source)"
  unfolding keeps_def
proof (intro allI impI)
  fix w x w' assume "coordinatorSend E t before source w = (x, w')"
  from coordinatorSend_sends [OF this] show "accountable E w w'" by (auto simp: accountable_def prepared_sound_def intro: grew_cons)
qed

lemma accountable_submits: "keeps (accountable E) (submitUnder fuel E J g tx i)"
  unfolding keeps_def
proof (intro allI impI)
  fix w x w' assume run: "submitUnder fuel E J g tx i w = (x, w')"
  have "grew (under_guard E) (w_sent (nw_manager w)) (w_sent (nw_manager w'))" if "prepared_sound (cl_digestOf (ne_client E)) (nw_manager w)"
    using submitUnder_sent(1) [OF run that] by (elim disjE exE conjE) (simp_all add: grew_cons)
  then show "accountable E w w'" using submitUnder_sent(2) [OF run] submitUnder_sends [OF run] by (simp add: accountable_def)
qed

interpretation counted: native_provider fuel E J "accountable E"
  for fuel and E :: "('r, 't) native_env" and J :: "('s, 'x) journal_ops"
proof
  show "preorder_on_worlds (accountable E)" by (rule accountable_preorder)
  show "keeps (accountable E) (managerN (query env J i))" for env i
    by (auto simp: keeps_def accountable_def prepared_sound_def dest!: query_kept)
qed (auto simp: accountable_def prepared_sound_def intro: accountable_submits accountable_sends)

lemma restarted_counted: "accountable E (rw_out w) (rw_out (restarted w))"
  by (simp add: accountable_def restarted_def prepared_sound_def)

text \<open>
  C24. Whatever is done with a native runner that was just made over any journal (steps in either mode, publications of prepared key results, reviews, restarts, in any order, with any
  answers from the chain, the device, the Coordinator and the database): every transaction it broadcasts is the request and the digest of a quote that a user approved,
  and of bytes that the device signed, each between two passes of one guard, which read the approved work in force for this device and the Host of its command admitted
  and active; and every command it sent to the Coordinator had its Host and its work read like that after the request for it was made and right before it was sent.
\<close>

theorem native_accountable:
  "\<exists>ks cs. w_sent (nw_manager (rw_out (performs fuel E J ops (restarted w)))) = ks @ w_sent (nw_manager (rw_out w)) \<and> list_all (under_guard E) ks
     \<and> nw_sends (rw_out (performs fuel E J ops (restarted w))) = cs @ nw_sends (rw_out w) \<and> list_all (checked_send E) cs"
proof -
  have "accountable E (rw_out (restarted w)) (rw_out (performs fuel E J ops (restarted w)))"
    by (rule counted.performs_keep) (rule restarted_counted)
  moreover have "prepared_sound (cl_digestOf (ne_client E)) (nw_manager (rw_out (restarted w)))"
    "w_sent (nw_manager (rw_out (restarted w))) = w_sent (nw_manager (rw_out w))" "nw_sends (rw_out (restarted w)) = nw_sends (rw_out w)"
    by (simp_all add: restarted_def prepared_sound_def)
  ultimately show ?thesis by (auto simp: accountable_def grew_def)
qed

section \<open>Nothing is sent twice\<close>

definition once :: "(idb_state, 'r, 't) nworld \<Rightarrow> (idb_state, 'r, 't) nworld \<Rightarrow> bool" where
  "once w w' \<longleftrightarrow> (indexed_db.journaled (nw_manager w) \<and> distinct (map fst (w_sent (nw_manager w)))
     \<longrightarrow> indexed_db.journaled (nw_manager w') \<and> distinct (map fst (w_sent (nw_manager w'))))"

lemma once_preorder: "preorder_on_worlds once"
  by (auto simp: preorder_on_worlds_def once_def intro!: reflpI transpI)

lemma journaled_parts: "w_journal v' = w_journal v \<Longrightarrow> w_sent v' = w_sent v \<Longrightarrow> indexed_db.journaled v' = indexed_db.journaled v"
  by (simp add: indexed_db.journaled_def)

lemma once_query: "keeps once (managerN (query env indexed_db_ops i))"
proof -
  have "indexed_db.journaled v \<Longrightarrow> indexed_db.journaled v' \<and> w_sent v' = w_sent v" if "query env indexed_db_ops i v = (x, v')" for v x v'
    using indexed_db.journaled_quiet [OF _ keepsD [OF indexed_db.grows_query [unfolded indexed_db_ops_eq] that]] query_sent [OF that] by simp
  then show ?thesis by (auto simp: keeps_def once_def managerN_def split: prod.splits)
qed

lemma once_submit: "keeps once (submitUnder fuel E indexed_db_ops g tx i)"
  unfolding keeps_def
proof (intro allI impI)
  fix w x w' assume run: "submitUnder fuel E indexed_db_ops g tx i w = (x, w')"
  let ?env = "guarded_client (nativeClient E) (runGuard E g)"
  obtain y v where sub: "selfpay_submit fuel ?env indexed_db_ops (UBigInt 200000000) (approveN E g) (ne_content E tx (w_rpc (nw_manager w))) i (nw_manager w) = (y, v)"
    by fastforce
  then have v: "nw_manager w' = v" using run by (auto simp: submitUnder_def eff_run managerN_def split: sum.split_asm)
  show "once w w'"
    unfolding once_def v
  proof (intro impI, elim conjE)
    assume inv: "indexed_db.journaled (nw_manager w)" "distinct (map fst (w_sent (nw_manager w)))"
    from selfpay.keeps_durable [OF inv(1) sub] selfpay.sends_once [OF inv(1) sub] inv(2)
    show "indexed_db.journaled v \<and> distinct (map fst (w_sent v))" by (cases "w_sent v = w_sent (nw_manager w)") auto
  qed
qed

lemma once_outside: "keeps once (outsideN m)"
  by (rule outsideN_keeps) (simp add: once_def indexed_db.journaled_def)

lemma once_sends: "keeps once (coordinatorSend E t before source)"
proof -
  have "keeps once (modifyE (\<lambda>w. w\<lparr>nw_sends := c # nw_sends w\<rparr>))" for c
    by (simp add: keeps_def modifyE_def once_def)
  then show ?thesis unfolding coordinatorSend_def by (intro keeps_bindE once_preorder keeps_pure once_outside)
qed

interpretation single: native_provider fuel E indexed_db_ops once
  for fuel and E :: "('r, 't) native_env"
proof
  fix w w' :: "(idb_state, 'r, 't) nworld"
  show "nw_manager w' = nw_manager w \<Longrightarrow> once w w'" by (simp add: once_def)
qed (auto simp: once_def indexed_db.journaled_def intro: once_preorder once_query once_submit once_sends)

text \<open>A new object over an empty database whose requests fail as the stream of faults says.\<close>

definition fresh_native :: "bool list \<Rightarrow> 'r \<Rightarrow> (idb_state, 'r, 't) native_world" where
  "fresh_native faults r = \<lparr>rw_out = \<lparr>nw_manager = \<lparr>w_journal = \<lparr>idb_rows = [], idb_faults = faults\<rparr>, w_rpc = r, w_prepared = [], w_sent = []\<rparr>,
     nw_guards = [], nw_signing = False, nw_mode = Coordinator, nw_declined = False, nw_sends = []\<rparr>, rw_unknown = [], rw_submits = [], rw_deliveries = []\<rparr>"

lemma fresh_journaled: "indexed_db.journaled (nw_manager (rw_out (fresh_native faults r)))"
  by (simp add: fresh_native_def indexed_db.journaled_def idb_inv_def)

text \<open>
  C25. Starting from an empty database, over any sequence of steps, publications, reviews and restarts of native runners and any
  stream of database faults, no request (a ticket's name, or the delivery of a Run) is broadcast twice.
\<close>

theorem native_sends_once:
  "distinct (map fst (w_sent (nw_manager (rw_out (performs fuel E indexed_db_ops ops (fresh_native faults r))))))"
proof -
  have "once (rw_out (fresh_native faults r)) (rw_out (performs fuel E indexed_db_ops ops (fresh_native faults r)))"
    by (rule single.performs_keep) (simp add: once_def restarted_def indexed_db.journaled_def)
  then show ?thesis using fresh_journaled [of faults r] by (simp add: once_def) (simp add: fresh_native_def)
qed

section \<open>Delivering a command\<close>

lemma queueTarget_sends: "queueTarget fuel E J t i scheduled w = (x, w') \<Longrightarrow> nw_sends w' = nw_sends w"
proof -
  let ?same = "\<lambda>w w' :: ('a, 'b, 'c) nworld. nw_sends w' = nw_sends w"
  have order: "preorder_on_worlds ?same" by (auto simp: preorder_on_worlds_def intro!: reflpI transpI)
  have parts: "keeps ?same (outsideN m)" "keeps ?same (managerN n)" "keeps ?same (submitUnder fuel E J g tx k)" for m n g tx k
    by (auto simp: keeps_def managerN_def dest: outsideN_same submitUnder_sends split: prod.splits)
  have "keeps ?same (queueTarget fuel E J t i scheduled)"
    unfolding queueTarget_def Let_def by (intro keeps_bindE order keeps_pure parts)
  then show "queueTarget fuel E J t i scheduled w = (x, w') \<Longrightarrow> nw_sends w' = nw_sends w" by (rule keepsD)
qed

lemma chainSend_sends: "chainSend fuel E J t i w = (x, w') \<Longrightarrow> nw_sends w' = nw_sends w"
  unfolding chainSend_def by (auto simp: bindE_eq eff_pure dest!: queueTarget_sends)

lemma deliveryTarget_command: "deliveryTarget E c r = (Inr t, r') \<Longrightarrow> tg_command t = c"
  by (auto simp: deliveryTarget_def Let_def eff_oks elim!: bindE_okE split: option.split_asm)

lemma intent_then:
  assumes "bindE (intentN E c) f w = (x, w')"
  obtains "w' = w" | h where "nodeCommandIntentHash (ce_hash (ne_results E)) c = Inr h" "f (bytesToHex h) w = (x, w')"
  using assms by (auto simp: intentN_def bindE_eq eff_pure split: sum.split_asm)

lemma get_then: "bindE (getE g) f w = f (g w) w"
  by (simp add: eff_run)

text \<open>The Run of the command was found, and the chain has no delivery of it.\<close>

definition unpublished :: "('r, 't) native_env \<Rightarrow> signed_command \<Rightarrow> bool" where
  "unpublished E c \<longleftrightarrow> (\<exists>h runs run agent r r'. nodeCommandIntentHash (ce_hash (ne_results E)) c = Inr h
     \<and> fst (ne_readAgentExecutions E agent r) = Inr runs \<and> run_of c (bytesToHex h) runs = Some run
     \<and> fst (ne_getCommandDelivery E (xr_id run) r') = Inr None)"

lemma unpublishedI:
  assumes "nodeCommandIntentHash (ce_hash (ne_results E)) c = Inr h" "awaitN (ne_readAgentExecutions E agent) r = (Inr runs, r1)"
    "run_of c (bytesToHex h) runs = Some run" "awaitN (ne_getCommandDelivery E (xr_id run)) r' = (Inr None, r1')"
  shows "unpublished E c"
  unfolding unpublished_def using assms unfolding awaitN_ok by (metis fst_conv)

lemma deliver_last:
  assumes "(if published \<noteq> None then okE () else bindE (getE nw_mode) (\<lambda>mode.
      if mode = Chain then chainSend fuel E J t i else coordinatorSend E t before source)) w = (x, w')"
  shows "nw_sends w' = nw_sends w \<or> published = None \<and> nw_mode w = Coordinator \<and> nw_sends w' = tg_command t # nw_sends w \<and> checked_send E (tg_command t)"
  using assms
  by (cases "nw_mode w") (auto simp: get_then eff_pure dest: chainSend_sends coordinatorSend_sends split: if_split_asm)

lemma deliver_rest:
  assumes "(case run_of c (bytesToHex h) runs of None \<Rightarrow> throwE e
      | Some original \<Rightarrow> bindE (outsideN (awaitN (ne_getCommandDelivery E (xr_id original)))) (\<lambda>published.
          if published \<noteq> None then okE () else bindE (getE nw_mode) (\<lambda>mode.
            if mode = Chain then chainSend fuel E J t (xr_id original) else coordinatorSend E t before source))) w = (x, w')"
    and "nodeCommandIntentHash (ce_hash (ne_results E)) c = Inr h" "awaitN (ne_readAgentExecutions E agent) r = (Inr runs, r1)" "tg_command t = c"
  shows "nw_sends w' = nw_sends w \<or> nw_sends w' = c # nw_sends w \<and> checked_send E c \<and> unpublished E c"
proof (cases "run_of c (bytesToHex h) runs")
  case None
  then show ?thesis using assms(1) by (simp add: eff_pure)
next
  case (Some run)
  with assms(1) show ?thesis
    by (simp only: option.case)
      (elim outside_then; (drule deliver_last)?; auto simp: assms(4) quiet_world_def intro: unpublishedI [OF assms(2,3) Some])
qed

text \<open>
  A command goes to the Coordinator at most once per delivery, and only after its own Run was found among
  the executions of its agent and no delivery of that Run was published on the chain; its work and its Host were checked again
  right before the send. In every other case (published before, chain mode, any error) nothing goes to the Coordinator.
\<close>

theorem coordinator_delivery_checked:
  "nw_sends (snd (deliverN fuel E J c w)) = nw_sends w
   \<or> nw_sends (snd (deliverN fuel E J c w)) = c # nw_sends w \<and> checked_send E c \<and> unpublished E c"
proof -
  obtain x w' where run: "deliverN fuel E J c w = (x, w')" by fastforce
  have "nw_sends w' = nw_sends w \<or> nw_sends w' = c # nw_sends w \<and> checked_send E c \<and> unpublished E c"
    using run unfolding deliverN_def
    apply (elim outside_then intent_then)
    apply (simp_all add: quiet_world_def)[6]
    apply (drule deliver_rest)
    apply (assumption | erule deliveryTarget_command | simp add: quiet_world_def)+
    done
  then show ?thesis by (simp add: run)
qed

section \<open>Two flows over one signing guard\<close>

text \<open>
  The steps of \<^verbatim>\<open>submit\<close> (the ticket) and \<^verbatim>\<open>queueTarget\<close> (a prepared delivery) between their awaits, when a caller lets them overlap:
  \<^verbatim>\<open>submit\<close> looks at \<^verbatim>\<open>signingGuard\<close>, awaits its guard and then sets the field; \<^verbatim>\<open>queueTarget\<close> looks and sets without an await between.
  The signer runs whatever guard the field holds. \<open>sg_used\<close> logs which flow was signed under whose guard.
\<close>

datatype signing_flow = Ticket | Delivery

datatype flow_point = Entered | Checked | Submitting | Signed | Left

record signing_state =
  sg_guard :: "signing_flow option"
  sg_ticket :: flow_point
  sg_delivery :: flow_point
  sg_used :: "(signing_flow \<times> signing_flow) list"

inductive signing_step :: "signing_state \<Rightarrow> signing_state \<Rightarrow> bool" where
  ticket_check: "sg_ticket s = Entered \<Longrightarrow> sg_guard s = None \<Longrightarrow> signing_step s (s\<lparr>sg_ticket := Checked\<rparr>)"
| ticket_set: "sg_ticket s = Checked \<Longrightarrow> signing_step s (s\<lparr>sg_ticket := Submitting, sg_guard := Some Ticket\<rparr>)"
| ticket_sign: "sg_ticket s = Submitting \<Longrightarrow> sg_guard s = Some g \<Longrightarrow> signing_step s (s\<lparr>sg_ticket := Signed, sg_used := (Ticket, g) # sg_used s\<rparr>)"
| ticket_refused: "sg_ticket s = Submitting \<Longrightarrow> sg_guard s = None \<Longrightarrow> signing_step s (s\<lparr>sg_ticket := Signed\<rparr>)"
| ticket_clear: "sg_ticket s = Signed \<Longrightarrow> signing_step s (s\<lparr>sg_ticket := Left, sg_guard := None\<rparr>)"
| delivery_set: "sg_delivery s = Entered \<Longrightarrow> sg_guard s = None \<Longrightarrow> signing_step s (s\<lparr>sg_delivery := Submitting, sg_guard := Some Delivery\<rparr>)"
| delivery_sign: "sg_delivery s = Submitting \<Longrightarrow> sg_guard s = Some g \<Longrightarrow> signing_step s (s\<lparr>sg_delivery := Signed, sg_used := (Delivery, g) # sg_used s\<rparr>)"
| delivery_refused: "sg_delivery s = Submitting \<Longrightarrow> sg_guard s = None \<Longrightarrow> signing_step s (s\<lparr>sg_delivery := Signed\<rparr>)"
| delivery_clear: "sg_delivery s = Signed \<Longrightarrow> signing_step s (s\<lparr>sg_delivery := Left, sg_guard := None\<rparr>)"

inductive_cases signing_stepE: "signing_step s s'"

definition signing_start :: signing_state where
  "signing_start = \<lparr>sg_guard = None, sg_ticket = Entered, sg_delivery = Entered, sg_used = []\<rparr>"

text \<open>
  C26. The two flows must not overlap: there is an interleaving in which the delivery transaction is signed under the guard of the ticket,
  because \<^verbatim>\<open>submit\<close> sets the field without looking at it again after its await.
\<close>

theorem guard_overwritten:
  "\<exists>s. signing_step\<^sup>*\<^sup>* signing_start s \<and> (Delivery, Ticket) \<in> set (sg_used s)"
proof -
  let ?s1 = "signing_start\<lparr>sg_ticket := Checked\<rparr>"
  let ?s2 = "?s1\<lparr>sg_delivery := Submitting, sg_guard := Some Delivery\<rparr>"
  let ?s3 = "?s2\<lparr>sg_ticket := Submitting, sg_guard := Some Ticket\<rparr>"
  let ?s4 = "?s3\<lparr>sg_delivery := Signed, sg_used := (Delivery, Ticket) # sg_used ?s3\<rparr>"
  have "signing_step signing_start ?s1" by (rule ticket_check) (simp_all add: signing_start_def)
  moreover have "signing_step ?s1 ?s2" by (rule delivery_set) (simp_all add: signing_start_def)
  moreover have "signing_step ?s2 ?s3" by (rule ticket_set) simp
  moreover have "signing_step ?s3 ?s4" by (rule delivery_sign) simp_all
  ultimately have "signing_step\<^sup>*\<^sup>* signing_start ?s4" by (meson rtranclp.rtrancl_into_rtrancl rtranclp.rtrancl_refl)
  then show ?thesis by (rule exI [of _ ?s4, OF conjI]) simp
qed

text \<open>If no ticket is being submitted while a delivery is, each flow is signed under its own guard.\<close>

definition own_guards :: "signing_state \<Rightarrow> bool" where
  "own_guards s \<longleftrightarrow> (\<forall>(f, g) \<in> set (sg_used s). f = g)
     \<and> (sg_guard s = Some Ticket \<longrightarrow> sg_ticket s \<in> {Submitting, Signed}) \<and> (sg_guard s = Some Delivery \<longrightarrow> sg_delivery s \<in> {Submitting, Signed})
     \<and> (sg_delivery s \<in> {Submitting, Signed} \<longrightarrow> sg_guard s = Some Delivery) \<and> (sg_ticket s \<in> {Submitting, Signed} \<longrightarrow> sg_guard s = Some Ticket)"

lemma own_guards_step:
  assumes "signing_step s s'" "own_guards s" "\<not> (sg_ticket s = Checked \<and> sg_delivery s \<in> {Submitting, Signed})"
  shows "own_guards s'"
  using assms by cases (auto simp: own_guards_def)

end
