(* ===== verification/Json_Bounds.thy ===== *)
theory Json_Bounds
  imports Json_Text
begin

text \<open>A bound on the length of a JSON text that evaluates without building the text.\<close>

lemma json_quote_bound: "length (json_quote s) \<le> 6 * length s + 2"
proof -
  have "length (json_escape c) \<le> 6" for c by (simp add: json_escape_def Let_def)
  then have "sum_list (map (length \<circ> json_escape) s) \<le> 6 * length s" by (induction s) (auto intro: add_mono)
  then show ?thesis by (simp add: json_quote_def length_concat)
qed

fun json_bound :: "json \<Rightarrow> nat" and elems_bound :: "json list \<Rightarrow> nat" and members_bound :: "(string \<times> json) list \<Rightarrow> nat" where
  "json_bound JNull = 4"
| "json_bound (JBool b) = 5"
| "json_bound (JNumber i) = length (dec_string i)"
| "json_bound (JString s) = 6 * length s + 2"
| "json_bound (JArray xs) = elems_bound xs + 2"
| "json_bound (JObject ms) = members_bound ms + 2"
| "elems_bound [] = 0"
| "elems_bound (x # xs) = json_bound x + 1 + elems_bound xs"
| "members_bound [] = 0"
| "members_bound ((k, v) # ms) = 6 * length k + 4 + json_bound v + members_bound ms"

lemma stringify_bound:
  "length (stringify v) \<le> json_bound v" "length (stringify_elems xs) \<le> elems_bound xs" "length (stringify_members ms) \<le> members_bound ms"
proof (induction v and xs and ms rule: json_bound_elems_bound_members_bound.induct)
  case (4 s)
  then show ?case using json_quote_bound [of s] by simp
next
  case (10 k v ms)
  then show ?case using json_quote_bound [of k] by simp
qed auto

end
