(* ===== verification/Coordinator_Client.thy ===== *)
theory Coordinator_Client
  imports Command_Results Okr_Runner Json_Bounds
begin

text \<open>
  \<^verbatim>\<open>CoordinatorReadClient\<close> of \<^verbatim>\<open>apps/fractalmind-app/src/coordinator-read.ts\<close>: reads from, and commands to, the Coordinator of a Host.
  The Coordinator signs a challenge for exactly one request, the device proves itself for that challenge, and the answer is accepted only with the
  Coordinator's signature over it. The network, the identity verifier, the Host directory, the device's proof, keys and base64 are fields of \<open>coordinator_env\<close>;
  the world keeps which prepared requests were used and logs every request that was issued with a body.
\<close>

section \<open>Data\<close>

datatype read_error = Cd_invalid_challenge | Cd_binding_changed | Cd_device_read_rejected | Cd_read_unavailable | Cd_read_already_used
  | Cd_invalid_command | Cd_command_outcome_unknown | Cd_invalid_observation | Cd_outside

record bound_host =
  hb_id :: string
  hb_org_id :: string
  hb_version :: int
  hb_revoked :: bool
  hb_endpoint :: string
  hb_coordinator_address :: string
  hb_public_key :: "int list"

record http_answer =
  ha_status :: int
  ha_ok :: bool
  ha_chunks :: "string list option"

record read_request =
  rq_human_id :: string
  rq_grant_id :: string
  rq_device_address :: string
  rq_organization_id :: string
  rq_binding_id :: string
  rq_method :: string
  rq_path :: string
  rq_command :: "(string \<times> string) option"

record challenge =
  ch_request :: read_request
  ch_chain_identifier :: string
  ch_nonce :: string
  ch_expires_at_ms :: int
  ch_coordinator_public_key :: string
  ch_signature :: string

record command_body =
  cm_body :: string
  cm_hash :: string
  cm_scope :: string
  cm_expiresAtMs :: int

text \<open>A request that was prepared: \<open>pr_handle\<close> is the identity of the frozen object.\<close>

record prepared_request =
  pr_handle :: nat
  pr_bindingId :: string
  pr_binding :: bound_host
  pr_request :: read_request
  pr_challenge :: challenge
  pr_command :: "command_body option"
  pr_authorization :: string

record 'r coordinator_env =
  kc_chain :: "('r, unit, bound_host list \<times> string) eff"
  kc_verifyOrganization :: "string \<Rightarrow> ('r, unit, unit) eff"
  kc_fetch :: "string \<Rightarrow> string \<Rightarrow> string option \<Rightarrow> string option \<Rightarrow> ('r, unit, http_answer) eff"
  kc_prove :: "string \<Rightarrow> string \<Rightarrow> int \<Rightarrow> ('r, unit, string) eff"
  kc_dateNow :: "'r \<Rightarrow> int \<times> 'r"
  kc_organizationId :: string
  kc_grantId :: string
  kc_humanId :: string
  kc_device :: string
  kc_hash :: hash_env
  kc_keys :: key_env
  kc_btoa :: "string \<Rightarrow> string"
  kc_fromBase64 :: "string \<Rightarrow> string option"
  kc_toBase64 :: "string \<Rightarrow> string"
  kc_utf8 :: "string \<Rightarrow> bool"
  kc_verifyHosts :: "string \<Rightarrow> json \<Rightarrow> ('r, unit, json) eff"

record 'r cworld =
  cw_out :: 'r
  cw_next :: nat
  cw_used :: "nat list"
  cw_sent :: "(nat \<times> string \<times> string option) list"

type_synonym ('r, 'a) coordinated = "('r cworld, read_error, 'a) eff"

definition awaitK :: "('r, unit, 'a) eff \<Rightarrow> ('r, 'a) coordinated" where
  "awaitK m = (\<lambda>w. case m (cw_out w) of (x, r) \<Rightarrow> ((case x of Inl _ \<Rightarrow> Inl Cd_outside | Inr a \<Rightarrow> Inr a), w\<lparr>cw_out := r\<rparr>))"

definition nowK :: "'r coordinator_env \<Rightarrow> ('r, int) coordinated" where
  "nowK E = (\<lambda>w. case kc_dateNow E (cw_out w) of (t, r) \<Rightarrow> (Inr t, w\<lparr>cw_out := r\<rparr>))"

section \<open>Texts\<close>

definition join_colon :: "string list \<Rightarrow> string" where
  "join_colon parts = (case parts of [] \<Rightarrow> [] | p # ps \<Rightarrow> p @ concat (map (\<lambda>q. CHR '':'' # q) ps))"

definition challengeText :: "challenge \<Rightarrow> string" where
  "challengeText c = (let q = ch_request c in
     join_colon ([if rq_method q = ''POST'' then ''FM-COORDINATOR-COMMAND'' else ''FM-COORDINATOR-READ'', ''1'', ch_chain_identifier c,
       rq_organization_id q, rq_binding_id q, rq_human_id q, rq_grant_id q, rq_device_address q, rq_method q, rq_path q]
      @ (if rq_method q = ''POST'' then (case rq_command q of None \<Rightarrow> [[], []] | Some (h, scope) \<Rightarrow> [scope, h]) else [])
      @ [ch_nonce c, dec_string (ch_expires_at_ms c)]))"

definition responseText :: "challenge \<Rightarrow> int \<Rightarrow> string \<Rightarrow> string" where
  "responseText c status bodyHash = (let q = ch_request c in
     join_colon [''FM-COORDINATOR-RESPONSE'', ''1'', ch_chain_identifier c, rq_organization_id q, rq_binding_id q, ch_nonce c,
       rq_method q, rq_path q, dec_string status, bodyHash])"

text \<open>\<^verbatim>\<open>hex(value, length)\<close>\<close>

definition hex_bytes :: "string \<Rightarrow> nat \<Rightarrow> string option" where
  "hex_bytes value n = (if length value = 2 * n \<and> list_all is_lower_hex value then Some (hexToBytes value) else None)"

definition permitted :: "string \<Rightarrow> bool" where
  "permitted path \<longleftrightarrow> path = ''/api/sentinels'' \<or> path = ''/api/health''
     \<or> take 15 path = ''/api/sentinels/'' \<and> (is_object_id (drop 15 path) \<or> is_object_id (take 66 (drop 15 path)) \<and> drop 81 path = ''/agents'')"

text \<open>The pin of a binding is the tuple of all its fields.\<close>

definition bindingPin :: "bound_host \<Rightarrow> string \<times> string \<times> int \<times> bool \<times> string \<times> string \<times> int list" where
  "bindingPin b = (hb_id b, hb_org_id b, hb_version b, hb_revoked b, hb_endpoint b, hb_coordinator_address b, hb_public_key b)"

text \<open>A body of at most one MiB, read in parts, that is valid UTF-8 and JSON.\<close>

fun read_chunks :: "nat \<Rightarrow> string list \<Rightarrow> string option" where
  "read_chunks n [] = Some []"
| "read_chunks n (p # ps) = (if 1048576 < n + length p then None else map_option ((@) p) (read_chunks (n + length p) ps))"

definition boundedJSON :: "'r coordinator_env \<Rightarrow> http_answer \<Rightarrow> (read_error, json) result" where
  "boundedJSON E a = (case ha_chunks a of None \<Rightarrow> Inl Cd_read_unavailable
     | Some parts \<Rightarrow> (case read_chunks 0 parts of None \<Rightarrow> Inl Cd_invalid_observation
         | Some raw \<Rightarrow> if \<not> kc_utf8 E raw then Inl Cd_invalid_observation
                       else (case json_parse raw of None \<Rightarrow> Inl Cd_invalid_observation | Some v \<Rightarrow> Inr v)))"

section \<open>The binding\<close>

definition bindingK :: "'r coordinator_env \<Rightarrow> string \<Rightarrow> ('r, bound_host \<times> string) coordinated" where
  "bindingK E bindingId =
     bindE (awaitK (kc_chain E)) (\<lambda>(bindings, chainIdentifier).
     case find (\<lambda>b. hb_id b = bindingId \<and> \<not> hb_revoked b) bindings of
       None \<Rightarrow> throwE Cd_binding_changed
     | Some b \<Rightarrow> okE (b, chainIdentifier))"

definition recheckBinding :: "'r coordinator_env \<Rightarrow> string \<Rightarrow> bound_host \<Rightarrow> ('r, unit) coordinated" where
  "recheckBinding E bindingId b =
     bindE (bindingK E bindingId) (\<lambda>(again, _). assertE (bindingPin again = bindingPin b) Cd_binding_changed)"

text \<open>\<^verbatim>\<open>request\<close>: any transport failure is \<^verbatim>\<open>read_unavailable\<close>.\<close>

definition requestK :: "'r coordinator_env \<Rightarrow> string \<Rightarrow> string \<Rightarrow> string option \<Rightarrow> string option \<Rightarrow> ('r, http_answer) coordinated" where
  "requestK E url method authorization body =
     catchE (awaitK (kc_fetch E url method authorization body)) (\<lambda>_. throwE Cd_read_unavailable)"

section \<open>Preparing a request\<close>

definition scope_action :: "command_body option \<Rightarrow> string" where
  "scope_action command = (case command of None \<Rightarrow> ''read'' | Some c \<Rightarrow> if cm_scope c = ''observation'' then ''read'' else ''operate'')"

definition request_for :: "'r coordinator_env \<Rightarrow> string \<Rightarrow> string \<Rightarrow> command_body option \<Rightarrow> read_request" where
  "request_for E bindingId path command = \<lparr>rq_human_id = kc_humanId E, rq_grant_id = kc_grantId E, rq_device_address = kc_device E,
     rq_organization_id = kc_organizationId E, rq_binding_id = bindingId, rq_method = (if command = None then ''GET'' else ''POST''), rq_path = path,
     rq_command = map_option (\<lambda>c. (cm_hash c, cm_scope c)) command\<rparr>"

definition request_json :: "read_request \<Rightarrow> json" where
  "request_json q = JObject ([(''human_id'', JString (rq_human_id q)), (''grant_id'', JString (rq_grant_id q)), (''device_address'', JString (rq_device_address q)),
     (''organization_id'', JString (rq_organization_id q)), (''binding_id'', JString (rq_binding_id q)), (''method'', JString (rq_method q)), (''path'', JString (rq_path q))]
     @ (case rq_command q of None \<Rightarrow> [] | Some (h, scope) \<Rightarrow> [(''command_hash'', JString h), (''command_scope'', JString scope)]))"

definition challenge_ok :: "read_request \<Rightarrow> string \<Rightarrow> string \<Rightarrow> int \<Rightarrow> json \<Rightarrow> challenge option" where
  "challenge_ok q chainIdentifier publicHex now v =
    (case (sfield v ''chain_identifier'', sfield v ''coordinator_public_key'', field v ''expires_at_ms'', sfield v ''nonce'', sfield v ''signature'') of
       (Some chain, Some key, Some (JNumber t), Some nonce, Some signature) \<Rightarrow>
         if (case request_json q of JObject ms \<Rightarrow> list_all (\<lambda>(k, x). field v k = Some x) ms | _ \<Rightarrow> False)
            \<and> (rq_command q = None \<longrightarrow> field v ''command_hash'' = None \<and> field v ''command_scope'' = None)
            \<and> chain = chainIdentifier \<and> key = publicHex \<and> is_safe_integer (Some t) \<and> now < t \<and> t - now \<le> 120000
            \<and> length nonce = 32 \<and> list_all is_lower_hex nonce
         then Some \<lparr>ch_request = q, ch_chain_identifier = chain, ch_nonce = nonce, ch_expires_at_ms = t, ch_coordinator_public_key = key, ch_signature = signature\<rparr>
         else None
     | _ \<Rightarrow> None)"

text \<open>The Coordinator's key: the binding's public key, which has to belong to its address.\<close>

definition public_hex :: "bound_host \<Rightarrow> string" where
  "public_hex b = bytesToHex (map (\<lambda>x. char_of (nat x)) (hb_public_key b))"

definition challenge_signed :: "'r coordinator_env \<Rightarrow> bound_host \<Rightarrow> challenge \<Rightarrow> bool" where
  "challenge_signed E b c \<longleftrightarrow> (case (hex_bytes (public_hex b) 32, hex_bytes (ch_signature c) 64) of
     (Some key, Some sig) \<Rightarrow> ke_address (kc_keys E) key = hb_coordinator_address b \<and> ke_verify (kc_keys E) key (challengeText c) sig
   | _ \<Rightarrow> False)"

text \<open>\<^verbatim>\<open>btoa\<close> without padding, in the URL alphabet.\<close>

definition url_base64 :: "string \<Rightarrow> string" where
  "url_base64 s = rev (dropWhile (\<lambda>c. c = CHR ''='') (rev
     (map (\<lambda>c. if c = CHR ''+'' then CHR ''-'' else if c = CHR ''/'' then CHR ''_'' else c) s)))"

definition authorization_for :: "'r coordinator_env \<Rightarrow> challenge \<Rightarrow> string \<Rightarrow> string" where
  "authorization_for E c signature = ''FractalMind '' @ url_base64 (kc_btoa E
     (stringify (JObject [(''nonce'', JString (ch_nonce c)), (''signature'', JString signature)])))"

definition freeze_request :: "string \<Rightarrow> bound_host \<Rightarrow> read_request \<Rightarrow> challenge \<Rightarrow> command_body option \<Rightarrow> string \<Rightarrow> ('r, prepared_request) coordinated" where
  "freeze_request bindingId b q c command authorization = (\<lambda>w.
     (Inr \<lparr>pr_handle = cw_next w, pr_bindingId = bindingId, pr_binding = b, pr_request = q, pr_challenge = c, pr_command = command,
           pr_authorization = authorization\<rparr>, w\<lparr>cw_next := Suc (cw_next w)\<rparr>))"

definition prepareRequest :: "'r coordinator_env \<Rightarrow> string \<Rightarrow> string \<Rightarrow> command_body option \<Rightarrow> ('r, prepared_request) coordinated" where
  "prepareRequest E bindingId path command =
     bindE (awaitK (kc_verifyOrganization E (scope_action command))) (\<lambda>_.
     bindE (bindingK E bindingId) (\<lambda>(b, chainIdentifier).
     let q = request_for E bindingId path command in
     bindE (requestK E (hb_endpoint b @ ''/api/device-challenge'') ''POST'' None (Some (stringify (request_json q)))) (\<lambda>response.
     bindE (assertE (ha_ok response) Cd_device_read_rejected) (\<lambda>_.
     bindE (liftR (boundedJSON E response)) (\<lambda>v.
     bindE (nowK E) (\<lambda>now.
     case challenge_ok q chainIdentifier (public_hex b) now v of None \<Rightarrow> throwE Cd_invalid_challenge
     | Some c \<Rightarrow>
         bindE (assertE (challenge_signed E b c) Cd_invalid_challenge) (\<lambda>_.
         bindE (recheckBinding E bindingId b) (\<lambda>_.
         bindE (awaitK (kc_prove E (ch_chain_identifier c) (ch_nonce c) (ch_expires_at_ms c))) (\<lambda>signature.
         freeze_request bindingId b q c command (authorization_for E c signature))))))))))"

definition prepareK :: "'r coordinator_env \<Rightarrow> string \<Rightarrow> string \<Rightarrow> ('r, prepared_request) coordinated" where
  "prepareK E bindingId path =
     bindE (assertE (is_object_id bindingId \<and> permitted path) Cd_invalid_challenge) (\<lambda>_.
     prepareRequest E bindingId path None)"

text \<open>What may be sent as a command: its own device, organization and Host, an action of its scope, an Agent for control and direct.\<close>

definition scope_of :: "signed_command \<Rightarrow> string option" where
  "scope_of c = (if sc_action c \<in> {''inventory'', ''status'', ''monitor'', ''logs'', ''health'', ''availability''} \<and> sc_scope c = ''observation'' then Some ''observation''
     else if sc_action c \<in> {''start'', ''stop'', ''assign''} \<and> sc_scope c = ''control'' then Some ''control''
     else if sc_action c = ''direct.message'' \<and> sc_scope c = ''direct'' then Some ''direct'' else None)"

definition command_sendable :: "'r coordinator_env \<Rightarrow> string \<Rightarrow> signed_command \<Rightarrow> bool" where
  "command_sendable E bindingId c \<longleftrightarrow> is_object_id bindingId \<and> sc_signer c = kc_device E \<and> sc_organization_id c = kc_organizationId E
     \<and> is_object_id (sc_node_id c)
     \<and> (case scope_of c of None \<Rightarrow> False | Some s \<Rightarrow> s = ''observation'' \<or> present (sc_agent_id c))"

definition command_text :: "signed_command \<Rightarrow> string" where
  "command_text c = stringify (JObject [(''node_command'', command_json c)])"

definition body_for :: "'r coordinator_env \<Rightarrow> signed_command \<Rightarrow> command_body" where
  "body_for E c = \<lparr>cm_body = command_text c, cm_hash = bytesToHex (sha256 (kc_hash E) (command_text c)), cm_scope = the (scope_of c),
     cm_expiresAtMs = sc_expires_at_ms c\<rparr>"

definition prepareCommandK :: "'r coordinator_env \<Rightarrow> string \<Rightarrow> signed_command \<Rightarrow> ('r, prepared_request) coordinated" where
  "prepareCommandK E bindingId c =
     bindE (assertE (verifySignedNodeCommand (kc_hash E) (kc_keys E) c = Inr ()) Cd_invalid_command) (\<lambda>_.
     bindE (assertE (command_sendable E bindingId c) Cd_invalid_command) (\<lambda>_.
     bindE (nowK E) (\<lambda>now.
     bindE (assertE (now < sc_expires_at_ms c) Cd_invalid_command) (\<lambda>_.
     bindE (assertE (length (command_text c) \<le> 1048576) Cd_invalid_command) (\<lambda>_.
     prepareRequest E bindingId (''/api/sentinels/'' @ sc_node_id c @ ''/command'') (Some (body_for E c)))))))"

section \<open>Sending it\<close>

definition unexpired :: "'r coordinator_env \<Rightarrow> prepared_request \<Rightarrow> read_error \<Rightarrow> ('r, unit) coordinated" where
  "unexpired E p late =
     bindE (nowK E) (\<lambda>now.
     bindE (assertE (now < ch_expires_at_ms (pr_challenge p)) Cd_invalid_challenge) (\<lambda>_.
     case pr_command p of None \<Rightarrow> okE ()
     | Some c \<Rightarrow> bindE (nowK E) (\<lambda>now. assertE (now < cm_expiresAtMs c) late)))"

definition envelope_body :: "'r coordinator_env \<Rightarrow> challenge \<Rightarrow> json \<Rightarrow> (string \<times> string) option" where
  "envelope_body E c v =
    (case (sfield v ''nonce'', sfield v ''body'', sfield v ''signature'') of
       (Some nonce, Some body, Some signature) \<Rightarrow>
         if nonce \<noteq> ch_nonce c \<or> 700000 < length body then None
         else (case kc_fromBase64 E body of None \<Rightarrow> None
               | Some bytes \<Rightarrow> if kc_toBase64 E bytes = body \<and> length bytes \<le> 524288 then Some (bytes, signature) else None)
     | _ \<Rightarrow> None)"

definition answer_signed :: "'r coordinator_env \<Rightarrow> prepared_request \<Rightarrow> int \<Rightarrow> string \<Rightarrow> string \<Rightarrow> bool" where
  "answer_signed E p status bytes sig \<longleftrightarrow> (case hex_bytes (public_hex (pr_binding p)) 32 of None \<Rightarrow> False
     | Some key \<Rightarrow> ke_verify (kc_keys E) key (responseText (pr_challenge p) status (bytesToHex (sha256 (kc_hash E) bytes))) sig)"

definition answerK :: "'r coordinator_env \<Rightarrow> prepared_request \<Rightarrow> ('r, json) coordinated" where
  "answerK E p =
     bindE (requestK E (hb_endpoint (pr_binding p) @ rq_path (pr_request p)) (rq_method (pr_request p)) (Some (pr_authorization p))
              (map_option cm_body (pr_command p))) (\<lambda>response.
     bindE (assertE (ha_ok response) Cd_device_read_rejected) (\<lambda>_.
     bindE (liftR (boundedJSON E response)) (\<lambda>v.
     case envelope_body E (pr_challenge p) v of None \<Rightarrow> throwE Cd_invalid_observation
     | Some (bytes, signature) \<Rightarrow>
         (case hex_bytes signature 64 of None \<Rightarrow> throwE Cd_invalid_challenge
          | Some sig \<Rightarrow>
              bindE (assertE (answer_signed E p (ha_status response) bytes sig) Cd_invalid_observation) (\<lambda>_.
              bindE (assertE (kc_utf8 E bytes) Cd_invalid_observation) (\<lambda>_.
              case json_parse bytes of None \<Rightarrow> throwE Cd_invalid_observation
              | Some result \<Rightarrow>
                  bindE (awaitK (kc_verifyOrganization E (scope_action (pr_command p)))) (\<lambda>_.
                  bindE (recheckBinding E (pr_bindingId p) (pr_binding p)) (\<lambda>_.
                  okE result)))))))) "

text \<open>The request as the log shows it.\<close>

definition request_entry :: "prepared_request \<Rightarrow> nat \<times> string \<times> string option" where
  "request_entry p = (pr_handle p, hb_endpoint (pr_binding p) @ rq_path (pr_request p), map_option cm_body (pr_command p))"

definition exchange :: "'r coordinator_env \<Rightarrow> prepared_request \<Rightarrow> ('r, json) coordinated" where
  "exchange E p = bindE (modifyE (\<lambda>w. w\<lparr>cw_sent := request_entry p # cw_sent w\<rparr>)) (\<lambda>_. answerK E p)"

text \<open>The checks between the preparation and the exchange; a device or binding may have changed meanwhile.\<close>

definition recheckSend :: "'r coordinator_env \<Rightarrow> prepared_request \<Rightarrow> ('r, unit) coordinated" where
  "recheckSend E p =
     bindE (unexpired E p Cd_invalid_command) (\<lambda>_.
     bindE (awaitK (kc_verifyOrganization E (scope_action (pr_command p)))) (\<lambda>_.
     bindE (recheckBinding E (pr_bindingId p) (pr_binding p)) (\<lambda>_.
     unexpired E p Cd_invalid_challenge)))"

definition sendK :: "'r coordinator_env \<Rightarrow> prepared_request \<Rightarrow> ('r, json) coordinated" where
  "sendK E p =
     bindE (getE (\<lambda>w. pr_handle p \<in> set (cw_used w))) (\<lambda>consumed.
     bindE (assertE (\<not> consumed) Cd_read_already_used) (\<lambda>_.
     bindE (modifyE (\<lambda>w. w\<lparr>cw_used := pr_handle p # cw_used w\<rparr>)) (\<lambda>_.
     bindE (recheckSend E p) (\<lambda>_.
     catchE (exchange E p) (\<lambda>e. throwE (if pr_command p = None then e else Cd_command_outcome_unknown))))))"

definition readK :: "'r coordinator_env \<Rightarrow> string \<Rightarrow> string \<Rightarrow> ('r, json) coordinated" where
  "readK E bindingId path = bindE (prepareK E bindingId path) (sendK E)"

definition readHosts :: "'r coordinator_env \<Rightarrow> string \<Rightarrow> ('r, json) coordinated" where
  "readHosts E bindingId =
     bindE (bindingK E bindingId) (\<lambda>(before, _).
     bindE (readK E bindingId ''/api/sentinels'') (\<lambda>response.
     bindE (awaitK (kc_verifyHosts E bindingId response)) (\<lambda>observations.
     bindE (awaitK (kc_verifyOrganization E ''read'')) (\<lambda>_.
     bindE (recheckBinding E bindingId before) (\<lambda>_.
     okE observations)))))"

section \<open>What the parts leave alone\<close>

definition unissued :: "'r cworld \<Rightarrow> 'r cworld \<Rightarrow> bool" where
  "unissued w w' \<longleftrightarrow> cw_sent w' = cw_sent w \<and> cw_used w' = cw_used w"

lemma unissued_preorder [simp]: "preorder_on_worlds unissued"
  by (auto simp: preorder_on_worlds_def unissued_def intro!: reflpI transpI)

lemma unissued_basic [intro!]:
  "keeps unissued (awaitK m)" "keeps unissued (nowK E)" "keeps unissued (freeze_request i b q c k a)"
  "keeps unissued (okE x)" "keeps unissued (throwE e)" "keeps unissued (getE f)" "keeps unissued (liftR y)" "keeps unissued (assertE t e)"
  by (auto intro!: keeps_pure) (auto simp: keeps_def unissued_def awaitK_def nowK_def freeze_request_def split: prod.splits)

lemma unissued_bind [intro!]: "keeps unissued m \<Longrightarrow> (\<And>a. keeps unissued (f a)) \<Longrightarrow> keeps unissued (bindE m f)"
  by (intro keeps_bindE unissued_preorder)

lemma unissued_parts [intro!]:
  "keeps unissued (bindingK E i)" "keeps unissued (recheckBinding E i b)" "keeps unissued (requestK E u m a y)" "keeps unissued (unexpired E p e)"
  by (auto simp: bindingK_def recheckBinding_def requestK_def unexpired_def intro!: keeps_catchE split: option.split prod.split)

lemma unissued_prepare [intro!]:
  "keeps unissued (prepareRequest E i path k)" "keeps unissued (prepareK E i path)" "keeps unissued (prepareCommandK E i c)"
  by (auto simp: prepareRequest_def prepareK_def prepareCommandK_def Let_def split: option.split prod.split)

text \<open>An exchange logs its request once, whatever happens then.\<close>

lemma unissued_answer: "keeps unissued (answerK E p)"
  by (auto simp: answerK_def split: option.split prod.split)

lemma exchange_logs:
  assumes "exchange E p w = (x, w')"
  shows "cw_sent w' = request_entry p # cw_sent w" "cw_used w' = cw_used w"
proof -
  have "answerK E p (w\<lparr>cw_sent := request_entry p # cw_sent w\<rparr>) = (x, w')"
    using assms by (simp add: exchange_def eff_run)
  from keepsD [OF unissued_answer this] show "cw_sent w' = request_entry p # cw_sent w" "cw_used w' = cw_used w" by (simp_all add: unissued_def)
qed

text \<open>Actions that never report a command's outcome as unknown.\<close>

definition definite :: "('r, 'a) coordinated \<Rightarrow> bool" where
  "definite m \<longleftrightarrow> (\<forall>v e v'. m v = (Inl e, v') \<longrightarrow> e \<noteq> Cd_command_outcome_unknown)"

lemma definite_parts [intro!]:
  "definite (okE a)" "e \<noteq> Cd_command_outcome_unknown \<Longrightarrow> definite (throwE e)" "e \<noteq> Cd_command_outcome_unknown \<Longrightarrow> definite (assertE c e)"
  "definite (awaitK m)" "definite (nowK E)"
  by (auto simp: definite_def eff_pure awaitK_def nowK_def split: prod.splits sum.splits)

lemma definite_bind [intro!]: "definite m \<Longrightarrow> (\<And>a. definite (f a)) \<Longrightarrow> definite (bindE m f)"
  by (simp add: definite_def bindE_eq) blast

lemma definite_checks [intro!]:
  "e \<noteq> Cd_command_outcome_unknown \<Longrightarrow> definite (unexpired E p e)" "definite (recheckBinding E i b)"
  by (auto simp: unexpired_def recheckBinding_def bindingK_def split: option.split prod.split)

text \<open>A send either ends before the exchange, or it is the exchange with the errors of a command hidden.\<close>

lemma send_cases:
  assumes "sendK E p w = (x, w')"
  obtains (unsent) e where "x = Inl e" "e \<noteq> Cd_command_outcome_unknown" "cw_sent w' = cw_sent w" "set (cw_used w) \<subseteq> set (cw_used w')"
  | (sent) y w1 where "pr_handle p \<notin> set (cw_used w)" "cw_used w1 = pr_handle p # cw_used w" "cw_sent w1 = cw_sent w" "exchange E p w1 = (y, w')"
      "x = (case y of Inl e \<Rightarrow> Inl (if pr_command p = None then e else Cd_command_outcome_unknown) | Inr v \<Rightarrow> Inr v)"
proof -
  have known: "definite (recheckSend E p)" and quiet: "keeps unissued (recheckSend E p)" unfolding recheckSend_def by auto
  show thesis
  proof (cases "pr_handle p \<in> set (cw_used w)")
    case True
    then show ?thesis using assms unsent [of Cd_read_already_used] by (simp add: sendK_def eff_run)
  next
    case False
    let ?hide = "\<lambda>e. throwE (if pr_command p = None then e else Cd_command_outcome_unknown)"
    have run: "bindE (recheckSend E p) (\<lambda>_. catchE (exchange E p) ?hide) (w\<lparr>cw_used := pr_handle p # cw_used w\<rparr>) = (x, w')"
      using assms False by (simp add: sendK_def eff_run(3,5,6,7) cong: sum.case_cong)
    from run show ?thesis
    proof (rule bindE_E)
      fix e assume pre: "recheckSend E p (w\<lparr>cw_used := pr_handle p # cw_used w\<rparr>) = (Inl e, w')" and "x = Inl e"
      then show ?thesis using unsent known keepsD [OF quiet pre] by (auto simp: unissued_def definite_def)
    next
      fix u w1 assume pre: "recheckSend E p (w\<lparr>cw_used := pr_handle p # cw_used w\<rparr>) = (Inr u, w1)" and last: "catchE (exchange E p) ?hide w1 = (x, w')"
      obtain y w2 where y: "exchange E p w1 = (y, w2)" by fastforce
      have "w2 = w'" "x = (case y of Inl e \<Rightarrow> Inl (if pr_command p = None then e else Cd_command_outcome_unknown) | Inr v \<Rightarrow> Inr v)"
        using last y by (auto simp: catchE_eq throwE_eq split: sum.splits)
      then show ?thesis using sent [OF False, of w1 y] y keepsD [OF quiet pre] by (simp add: unissued_def)
    qed
  qed
qed

section \<open>Sending at most once, and saying so\<close>

text \<open>
  C27. A send is honest about what happened: either nothing was sent, and the error is not \<open>command_outcome_unknown\<close>; or the request, which had not
  been used before, was sent exactly once, and then it returns an answer or, for a command, reports the outcome as unknown, whatever went wrong:
  it never reports a sent command as failed or a refused one as unknown.
\<close>

theorem send_outcome_honest:
  "case sendK E p w of (x, w') \<Rightarrow>
     (cw_sent w' = cw_sent w \<and> (\<exists>e. x = Inl e \<and> e \<noteq> Cd_command_outcome_unknown))
     \<or> (pr_handle p \<notin> set (cw_used w) \<and> cw_used w' = pr_handle p # cw_used w \<and> cw_sent w' = request_entry p # cw_sent w
        \<and> ((\<exists>v. x = Inr v) \<or> (\<exists>e. x = Inl e \<and> (pr_command p = None \<or> e = Cd_command_outcome_unknown))))"
proof (cases "sendK E p w")
  case (Pair x w')
  from Pair show ?thesis
  proof (cases rule: send_cases)
    case (sent y w1)
    then show ?thesis using Pair exchange_logs [OF sent(4)] by (auto split: sum.split if_splits)
  qed (simp add: Pair)
qed

text \<open>What callers do over time: prepare reads and commands, and send whatever request object they hold.\<close>

datatype client_op = PrepareRead string string | PrepareCommand string signed_command | Send prepared_request | ReadHosts string

fun client_step :: "'r coordinator_env \<Rightarrow> client_op \<Rightarrow> 'r cworld \<Rightarrow> 'r cworld" where
  "client_step E (PrepareRead i path) w = snd (prepareK E i path w)"
| "client_step E (PrepareCommand i c) w = snd (prepareCommandK E i c w)"
| "client_step E (Send p) w = snd (sendK E p w)"
| "client_step E (ReadHosts i) w = snd (readHosts E i w)"

definition used_once :: "'r cworld \<Rightarrow> bool" where
  "used_once w \<longleftrightarrow> distinct (map fst (cw_sent w)) \<and> fst ` set (cw_sent w) \<subseteq> set (cw_used w)"

definition keeps_once :: "'r cworld \<Rightarrow> 'r cworld \<Rightarrow> bool" where
  "keeps_once w w' \<longleftrightarrow> (used_once w \<longrightarrow> used_once w')"

lemma keeps_once_preorder: "preorder_on_worlds keeps_once"
  by (auto simp: preorder_on_worlds_def keeps_once_def intro!: reflpI transpI)

lemma unissued_once: "keeps unissued m \<Longrightarrow> keeps keeps_once m"
  by (fastforce simp: keeps_def unissued_def keeps_once_def used_once_def)

lemma send_once: "keeps keeps_once (sendK E p)"
  unfolding keeps_def
proof (intro allI impI)
  fix w x w' assume run: "sendK E p w = (x, w')"
  then show "keeps_once w w'"
  proof (cases rule: send_cases)
    case (sent y w1)
    then show ?thesis using exchange_logs [OF sent(4)] by (auto simp: keeps_once_def used_once_def request_entry_def)
  qed (auto simp: keeps_once_def used_once_def)
qed

lemma keeps_snd: "keeps R m \<Longrightarrow> R w (snd (m w))"
  by (cases "m w") (auto dest: keepsD)

lemma step_once: "keeps_once w (client_step E op w)"
proof -
  note prepares = unissued_once [OF unissued_prepare(1)] unissued_once [OF unissued_prepare(2)] unissued_once [OF unissued_prepare(3)]
  have read: "keeps keeps_once (readHosts E i)" for i
    unfolding readHosts_def readK_def
    by (auto intro!: keeps_bindE keeps_once_preorder prepares send_once intro: unissued_once split: prod.split)
  show ?thesis by (cases op) (auto intro: keeps_snd prepares send_once read)
qed

text \<open>
  C28. Over any sequence of preparations, sends and reads, with whatever request objects, no request is sent twice: a lost answer is never
  answered by sending again.
\<close>

theorem requests_sent_once:
  "distinct (map fst (cw_sent (fold (client_step E) ops \<lparr>cw_out = r, cw_next = 0, cw_used = [], cw_sent = []\<rparr>)))"
proof -
  have "used_once w \<Longrightarrow> used_once (fold (client_step E) ops w)" for w
    using step_once by (induction ops arbitrary: w) (auto simp: keeps_once_def)
  from this [of "\<lparr>cw_out = r, cw_next = 0, cw_used = [], cw_sent = []\<rparr>"] show ?thesis by (simp add: used_once_def)
qed

section \<open>What an answer and a prepared request rest on\<close>

lemma awaitK_ok: "awaitK m w = (Inr a, w') \<longleftrightarrow> m (cw_out w) = (Inr a, cw_out w') \<and> w' = w\<lparr>cw_out := cw_out w'\<rparr>"
  by (auto simp: awaitK_def split: prod.splits sum.splits)

lemma recheckBinding_ok:
  assumes "recheckBinding E i b w = (Inr u, w')"
  shows "\<exists>bs chain again r. fst (kc_chain E r) = Inr (bs, chain) \<and> again \<in> set bs \<and> hb_id again = i \<and> \<not> hb_revoked again \<and> bindingPin again = bindingPin b"
  using assms
  by (auto simp: recheckBinding_def bindingK_def awaitK_ok eff_oks elim!: bindE_okE split: option.split_asm dest!: find_SomeD) (metis fst_conv)

lemma unexpired_ok:
  assumes "unexpired E p e w = (Inr u, w')"
  shows "(\<exists>r. fst (kc_dateNow E r) < ch_expires_at_ms (pr_challenge p)) \<and> (\<forall>c. pr_command p = Some c \<longrightarrow> (\<exists>r. fst (kc_dateNow E r) < cm_expiresAtMs c))"
  using assms
  by (auto simp: unexpired_def nowK_def eff_oks elim!: bindE_okE split: option.split_asm prod.split_asm) (metis fst_conv)+

text \<open>The binding of a request as the chain still shows it.\<close>

definition binding_live :: "'r coordinator_env \<Rightarrow> string \<Rightarrow> bound_host \<Rightarrow> bool" where
  "binding_live E i b \<longleftrightarrow> (\<exists>bs chain again r. fst (kc_chain E r) = Inr (bs, chain) \<and> again \<in> set bs \<and> hb_id again = i \<and> \<not> hb_revoked again
     \<and> bindingPin again = bindingPin b)"

text \<open>
  One reading of the chain that shows a binding, unrevoked, with all its fields; and one reading of the clock for the challenge, with a second one for the command.
\<close>

definition binding_at :: "'r coordinator_env \<Rightarrow> string \<Rightarrow> bound_host \<Rightarrow> 'r \<Rightarrow> 'r \<Rightarrow> bool" where
  "binding_at E i b r r' \<longleftrightarrow> (\<exists>bs chain. kc_chain E r = (Inr (bs, chain), r') \<and> b \<in> set bs \<and> hb_id b = i \<and> \<not> hb_revoked b)"

definition in_time :: "'r coordinator_env \<Rightarrow> prepared_request \<Rightarrow> 'r \<Rightarrow> 'r \<Rightarrow> bool" where
  "in_time E p r r' \<longleftrightarrow> (\<exists>t r1. kc_dateNow E r = (t, r1) \<and> t < ch_expires_at_ms (pr_challenge p)
     \<and> (case pr_command p of None \<Rightarrow> r' = r1 | Some c \<Rightarrow> \<exists>t'. kc_dateNow E r1 = (t', r') \<and> t' < cm_expiresAtMs c))"

text \<open>
  The exchange: what came back for exactly this request is an envelope with the nonce of its challenge, and its signature is the binding's key's over the challenge, the request,
  the status that came with it and the hash of the body in it, whose JSON is the result.
\<close>

definition answered :: "'r coordinator_env \<Rightarrow> prepared_request \<Rightarrow> json \<Rightarrow> 'r \<Rightarrow> 'r \<Rightarrow> bool" where
  "answered E p v r r' \<longleftrightarrow> (let b = pr_binding p; q = pr_request p; c = pr_challenge p in
     \<exists>answer parts envelope body bytes signature key.
       kc_fetch E (hb_endpoint b @ rq_path q) (rq_method q) (Some (pr_authorization p)) (map_option cm_body (pr_command p)) r = (Inr answer, r')
       \<and> ha_ok answer \<and> ha_chunks answer = Some parts \<and> json_parse (concat parts) = Some envelope
       \<and> sfield envelope ''nonce'' = Some (ch_nonce c) \<and> sfield envelope ''body'' = Some body \<and> sfield envelope ''signature'' = Some signature
       \<and> kc_fromBase64 E body = Some bytes \<and> length bytes \<le> 524288 \<and> json_parse bytes = Some v
       \<and> hex_bytes (public_hex b) 32 = Some key \<and> length signature = 128
       \<and> ke_verify (kc_keys E) key
            (join_colon [''FM-COORDINATOR-RESPONSE'', ''1'', ch_chain_identifier c, rq_organization_id (ch_request c), rq_binding_id (ch_request c), ch_nonce c,
               rq_method (ch_request c), rq_path (ch_request c), dec_string (ha_status answer), bytesToHex (sha256 (kc_hash E) bytes)])
            (hexToBytes signature))"

lemma awaitK_out: "awaitK m w = (Inr a, w') \<Longrightarrow> m (cw_out w) = (Inr a, cw_out w')"
  by (simp add: awaitK_ok)

lemma recheckBinding_at:
  assumes "recheckBinding E i b w = (Inr u, w')"
  shows "binding_at E i b (cw_out w) (cw_out w')"
proof -
  from assms obtain bs chain again where "kc_chain E (cw_out w) = (Inr (bs, chain), cw_out w')" "again \<in> set bs" "hb_id again = i" "\<not> hb_revoked again"
    "bindingPin again = bindingPin b"
    by (auto simp: recheckBinding_def bindingK_def awaitK_ok eff_oks elim!: bindE_okE split: option.split_asm dest!: find_SomeD)
  moreover from this(5) have "again = b" by (simp add: bindingPin_def)
  ultimately show ?thesis by (auto simp: binding_at_def)
qed

lemma unexpired_in_time: "unexpired E p e w = (Inr u, w') \<Longrightarrow> in_time E p (cw_out w) (cw_out w')"
  by (auto simp: unexpired_def nowK_def in_time_def eff_oks elim!: bindE_okE split: option.split_asm prod.split_asm)

lemma read_chunks_concat: "read_chunks n parts = Some raw \<Longrightarrow> raw = concat parts"
  by (induction n parts arbitrary: raw rule: read_chunks.induct) (auto split: if_split_asm)

lemma answerK_ok:
  assumes "answerK E p w = (Inr v, w')"
  shows "\<exists>r1 r2. answered E p v (cw_out w) r1 \<and> kc_verifyOrganization E (scope_action (pr_command p)) r1 = (Inr (), r2)
    \<and> binding_at E (pr_bindingId p) (pr_binding p) r2 (cw_out w')"
proof -
  from assms obtain answer :: http_answer and envelope bytes signature sig and w1 w2 :: "'a cworld" where
    fetched: "kc_fetch E (hb_endpoint (pr_binding p) @ rq_path (pr_request p)) (rq_method (pr_request p)) (Some (pr_authorization p))
       (map_option cm_body (pr_command p)) (cw_out w) = (Inr answer, cw_out w1)"
    and json: "ha_ok answer" "boundedJSON E answer = Inr envelope"
    and env: "envelope_body E (pr_challenge p) envelope = Some (bytes, signature)" "hex_bytes signature 64 = Some sig"
    and sig: "answer_signed E p (ha_status answer) bytes sig"
    and v: "json_parse bytes = Some v" and organization: "kc_verifyOrganization E (scope_action (pr_command p)) (cw_out w1) = (Inr (), cw_out w2)"
    and live: "recheckBinding E (pr_bindingId p) (pr_binding p) w2 = (Inr (), w')"
    unfolding answerK_def requestK_def
    by (auto simp: catchE_eq eff_oks elim!: bindE_okE dest!: awaitK_out split: option.split_asm)
  from json(2) obtain parts where parts: "ha_chunks answer = Some parts" "json_parse (concat parts) = Some envelope"
    by (auto simp: boundedJSON_def dest!: read_chunks_concat split: option.split_asm if_split_asm)
  from env obtain body where body: "sfield envelope ''nonce'' = Some (ch_nonce (pr_challenge p))" "sfield envelope ''body'' = Some body"
    "sfield envelope ''signature'' = Some signature" "kc_fromBase64 E body = Some bytes" "length bytes \<le> 524288"
    by (auto simp: envelope_body_def split: option.split_asm if_split_asm)
  from env(2) have hex: "length signature = 128" "sig = hexToBytes signature" by (auto simp: hex_bytes_def split: if_split_asm)
  from sig obtain key where key: "hex_bytes (public_hex (pr_binding p)) 32 = Some key"
    "ke_verify (kc_keys E) key (responseText (pr_challenge p) (ha_status answer) (bytesToHex (sha256 (kc_hash E) bytes))) sig"
    by (auto simp: answer_signed_def split: option.split_asm)
  have "answered E p v (cw_out w) (cw_out w1)"
    unfolding answered_def Let_def
    by (rule exI [of _ answer], rule exI [of _ parts], rule exI [of _ envelope], rule exI [of _ body], rule exI [of _ bytes], rule exI [of _ signature], rule exI [of _ key])
      (use fetched json(1) parts body v key hex in \<open>simp add: responseText_def Let_def\<close>)
  then show ?thesis using organization recheckBinding_at [OF live] by blast
qed

text \<open>
  C29. An answer is accepted only when it is the Coordinator's own. Read in this order: the clock, before the expiry of the challenge and of the command; the organization; the chain,
  which shows the binding unrevoked with all the fields it was prepared with; the clock again; the answer to this very request, signed with the binding's key over the challenge,
  method and path, its status and the hash of its body; the organization again; and the chain again, with the binding unchanged. The request had not been used before and was sent once.
\<close>

theorem answer_accepted_signed:
  assumes "sendK E p w = (Inr v, w')"
  shows "pr_handle p \<notin> set (cw_used w) \<and> cw_sent w' = request_entry p # cw_sent w
    \<and> (let action = (case pr_command p of None \<Rightarrow> ''read'' | Some c \<Rightarrow> if cm_scope c = ''observation'' then ''read'' else ''operate'') in
       \<exists>r1 r2 r3 r4 r5 r6. in_time E p (cw_out w) r1 \<and> kc_verifyOrganization E action r1 = (Inr (), r2)
         \<and> binding_at E (pr_bindingId p) (pr_binding p) r2 r3 \<and> in_time E p r3 r4 \<and> answered E p v r4 r5
         \<and> kc_verifyOrganization E action r5 = (Inr (), r6) \<and> binding_at E (pr_bindingId p) (pr_binding p) r6 (cw_out w'))"
proof -
  have action: "(case pr_command p of None \<Rightarrow> ''read'' | Some c \<Rightarrow> if cm_scope c = ''observation'' then ''read'' else ''operate'') = scope_action (pr_command p)"
    by (simp add: scope_action_def)
  from assms obtain w1 where fresh: "pr_handle p \<notin> set (cw_used w)" and pre: "recheckSend E p (w\<lparr>cw_used := pr_handle p # cw_used w\<rparr>) = (Inr (), w1)"
    and "exchange E p w1 = (Inr v, w')"
    by (auto simp: sendK_def catchE_eq eff_oks elim!: bindE_okE)
  then have exchange: "exchange E p w1 = (Inr v, w')" and answer: "answerK E p (w1\<lparr>cw_sent := request_entry p # cw_sent w1\<rparr>) = (Inr v, w')"
    by (simp_all add: exchange_def eff_run)
  from pre obtain w2 w3 w4 :: "'a cworld" where early: "unexpired E p Cd_invalid_command (w\<lparr>cw_used := pr_handle p # cw_used w\<rparr>) = (Inr (), w2)"
    and organization: "kc_verifyOrganization E (scope_action (pr_command p)) (cw_out w2) = (Inr (), cw_out w3)"
    and live: "recheckBinding E (pr_bindingId p) (pr_binding p) w3 = (Inr (), w4)" and late: "unexpired E p Cd_invalid_challenge w4 = (Inr (), w1)"
    by (auto simp: recheckSend_def awaitK_ok elim!: bindE_okE)
  have sent: "cw_sent w' = request_entry p # cw_sent w" using assms
  proof (cases rule: send_cases)
    case (sent y w5)
    then show ?thesis using exchange_logs [OF sent(4)] by simp
  qed simp
  show ?thesis
    unfolding Let_def action
    using fresh sent organization unexpired_in_time [OF early] recheckBinding_at [OF live] unexpired_in_time [OF late] answerK_ok [OF answer] by simp blast
qed

definition challenge_for :: "'r coordinator_env \<Rightarrow> prepared_request \<Rightarrow> bool" where
  "challenge_for E p \<longleftrightarrow> (let c = pr_challenge p in
     ch_request c = pr_request p \<and> challenge_signed E (pr_binding p) c \<and> ch_coordinator_public_key c = public_hex (pr_binding p)
     \<and> (\<exists>r. fst (kc_dateNow E r) < ch_expires_at_ms c \<and> ch_expires_at_ms c - fst (kc_dateNow E r) \<le> 120000)
     \<and> (\<exists>bs r. fst (kc_chain E r) = Inr (bs, ch_chain_identifier c) \<and> pr_binding p \<in> set bs \<and> hb_id (pr_binding p) = pr_bindingId p \<and> \<not> hb_revoked (pr_binding p)))"

lemma challenge_ok_fields:
  assumes "challenge_ok q chain key now v = Some c"
  shows "ch_request c = q \<and> ch_chain_identifier c = chain \<and> ch_coordinator_public_key c = key \<and> now < ch_expires_at_ms c \<and> ch_expires_at_ms c - now \<le> 120000"
  using assms by (auto simp: challenge_ok_def split: option.split_asm json.split_asm if_split_asm)

lemma bindingK_ok:
  assumes "bindingK E i w = (Inr (b, chain), w')"
  shows "\<exists>bs r. fst (kc_chain E r) = Inr (bs, chain) \<and> b \<in> set bs \<and> hb_id b = i \<and> \<not> hb_revoked b"
  using assms
  by (auto simp: bindingK_def awaitK_ok eff_oks elim!: bindE_okE split: option.split_asm dest!: find_SomeD) (metis fst_conv)

lemma prepareRequest_ok:
  assumes "prepareRequest E i path k w = (Inr p, w')"
  shows "pr_bindingId p = i \<and> pr_request p = request_for E i path k \<and> pr_command p = k \<and> challenge_for E p \<and> binding_live E i (pr_binding p)"
proof -
  from assms obtain b chain now r w1 w2 w3 w4 v c auth where
    b: "bindingK E i w1 = (Inr (b, chain), w2)" and now: "fst (kc_dateNow E r) = now"
    and c: "challenge_ok (request_for E i path k) chain (public_hex b) now v = Some c" "challenge_signed E b c"
    and live: "recheckBinding E i b w3 = (Inr (), w4)"
    and p: "pr_bindingId p = i" "pr_binding p = b" "pr_request p = request_for E i path k" "pr_challenge p = c" "pr_command p = k"
    by (auto simp: prepareRequest_def Let_def freeze_request_def nowK_def eff_oks elim!: bindE_okE split: option.split_asm prod.split_asm) (metis fst_conv)
  show ?thesis
    using p challenge_ok_fields [OF c(1)] c(2) now bindingK_ok [OF b] recheckBinding_ok [OF live]
    unfolding challenge_for_def binding_live_def Let_def by (metis (no_types, lifting))
qed

text \<open>
  A request is prepared only under a challenge that the Coordinator of the binding signed for exactly this request: this human, grant, device,
  organization, binding, method and path, and for a command the hash and scope of the very text that will be sent; on this chain, fresh for at most
  two minutes, and with the binding unchanged after the challenge came. A command is prepared only if it verifies, is this device's and unexpired.
\<close>

theorem command_request_bound:
  assumes "prepareCommandK E i c w = (Inr p, w')"
  shows "verifySignedNodeCommand (kc_hash E) (kc_keys E) c = Inr () \<and> command_sendable E i c
    \<and> pr_command p = Some (body_for E c) \<and> pr_request p = request_for E i (''/api/sentinels/'' @ sc_node_id c @ ''/command'') (Some (body_for E c))
    \<and> rq_command (pr_request p) = Some (bytesToHex (sha256 (kc_hash E) (command_text c)), the (scope_of c))
    \<and> challenge_for E p \<and> binding_live E i (pr_binding p) \<and> (\<exists>r. fst (kc_dateNow E r) < sc_expires_at_ms c)"
proof -
  from assms obtain w1 w2 r where ok: "verifySignedNodeCommand (kc_hash E) (kc_keys E) c = Inr ()" "command_sendable E i c" "fst (kc_dateNow E r) < sc_expires_at_ms c"
    and prep: "prepareRequest E i (''/api/sentinels/'' @ sc_node_id c @ ''/command'') (Some (body_for E c)) w1 = (Inr p, w2)"
    by (auto simp: prepareCommandK_def nowK_def eff_oks elim!: bindE_okE split: prod.split_asm) (metis fst_conv)
  show ?thesis using ok prepareRequest_ok [OF prep] by (auto simp: request_for_def body_for_def)
qed

section \<open>What a signature over a challenge text commits to\<close>

lemma split_colon:
  "CHR '':'' \<notin> set a \<Longrightarrow> CHR '':'' \<notin> set b \<Longrightarrow> a @ CHR '':'' # x = b @ CHR '':'' # y \<longleftrightarrow> a = b \<and> x = y"
  by (induction a arbitrary: b) (auto simp: Cons_eq_append_conv append_eq_Cons_conv, (metis list.set_intros(1) append_self_conv2 in_set_conv_decomp)+)

lemma join_colon_Cons: "ps \<noteq> [] \<Longrightarrow> join_colon (p # ps) = p @ CHR '':'' # join_colon ps"
  by (cases ps) (simp_all add: join_colon_def)

lemma colon_in_join: "ps \<noteq> [] \<Longrightarrow> CHR '':'' \<in> set (join_colon (p # ps))"
  by (simp add: join_colon_Cons)

lemma join_colon_inj:
  "list_all (\<lambda>p. CHR '':'' \<notin> set p) ps \<Longrightarrow> list_all (\<lambda>p. CHR '':'' \<notin> set p) qs \<Longrightarrow> ps \<noteq> [] \<Longrightarrow> qs \<noteq> [] \<Longrightarrow> join_colon ps = join_colon qs \<Longrightarrow> ps = qs"
proof (induction ps qs rule: list_induct2')
  case (4 p ps q qs)
  have single: "join_colon [x] = x" for x by (simp add: join_colon_def)
  consider "ps = []" "qs = []" | "ps = []" "qs \<noteq> []" | "ps \<noteq> []" "qs = []" | "ps \<noteq> []" "qs \<noteq> []" by blast
  then show ?case
  proof cases
    case 1
    then show ?thesis using 4 by (simp add: single)
  next
    case 2
    then show ?thesis using 4 colon_in_join [of qs q] by (auto simp: single)
  next
    case 3
    then show ?thesis using 4 colon_in_join [of ps p] by (auto simp: single)
  next
    case 4
    then show ?thesis using "4.prems" "4.IH" by (simp add: join_colon_Cons split_colon)
  qed
qed auto

definition challenge_parts :: "challenge \<Rightarrow> string list" where
  "challenge_parts c = (let q = ch_request c in [rq_organization_id q, rq_binding_id q, rq_human_id q, rq_grant_id q, rq_device_address q, rq_method q, rq_path q,
     ch_chain_identifier c, ch_nonce c] @ (case rq_command q of None \<Rightarrow> [] | Some (h, scope) \<Rightarrow> [h, scope]))"

definition colon_free :: "challenge \<Rightarrow> bool" where
  "colon_free c \<longleftrightarrow> list_all (\<lambda>p. CHR '':'' \<notin> set p) (challenge_parts c) \<and> (rq_command (ch_request c) = None \<longleftrightarrow> rq_method (ch_request c) \<noteq> ''POST'')"

lemma dec_string_no_colon: "CHR '':'' \<notin> set (dec_string n)"
  using dec_string_num [of n] by (auto simp: list_all_iff num_char_def is_digit_def)

definition challenge_texts :: "challenge \<Rightarrow> string list" where
  "challenge_texts c = (let q = ch_request c in
     [if rq_method q = ''POST'' then ''FM-COORDINATOR-COMMAND'' else ''FM-COORDINATOR-READ'', ''1'', ch_chain_identifier c,
       rq_organization_id q, rq_binding_id q, rq_human_id q, rq_grant_id q, rq_device_address q, rq_method q, rq_path q]
      @ (if rq_method q = ''POST'' then (case rq_command q of None \<Rightarrow> [[], []] | Some (h, scope) \<Rightarrow> [scope, h]) else [])
      @ [ch_nonce c, dec_string (ch_expires_at_ms c)])"

lemma challengeText_texts: "challengeText c = join_colon (challenge_texts c)" "challenge_texts c \<noteq> []"
  by (simp_all add: challengeText_def challenge_texts_def Let_def)

lemma texts_no_colon: "colon_free c \<Longrightarrow> list_all (\<lambda>p. CHR '':'' \<notin> set p) (challenge_texts c)"
  by (auto simp: colon_free_def challenge_parts_def challenge_texts_def Let_def dec_string_no_colon split: option.splits)

text \<open>
  The Coordinator's signature over a challenge commits it to the whole request: for fields without a colon (ids, hex texts and the paths of the API),
  two challenges with the same text are for the same human, grant, device, organization, binding, method, path, command hash and scope,
  on the same chain, with the same nonce and expiry. A read challenge never has the text of a command challenge.
\<close>

theorem challenge_text_binds:
  assumes "challengeText a = challengeText b" "colon_free a" "colon_free b"
  shows "ch_request a = ch_request b \<and> ch_chain_identifier a = ch_chain_identifier b \<and> ch_nonce a = ch_nonce b \<and> ch_expires_at_ms a = ch_expires_at_ms b"
proof -
  have "challenge_texts a = challenge_texts b"
    using assms by (intro join_colon_inj) (auto simp: challengeText_texts texts_no_colon) 
  then show ?thesis using assms(2,3)
    by (cases a; cases b) (auto simp: challenge_texts_def colon_free_def Let_def read_request.equality split: if_splits option.splits intro!: read_request.equality)
qed

section \<open>Samples\<close>

lemma one_part: "json_bound v \<le> 1048576 \<Longrightarrow> read_chunks 0 [stringify v] = Some (stringify v)"
  using stringify_bound(1) [of v] by simp

text \<open>A Coordinator that echoes the request in its challenge and answers with an empty object.\<close>

definition client_host :: bound_host where
  "client_host = \<lparr>hb_id = some_id (CHR ''4''), hb_org_id = ''org'', hb_version = 1, hb_revoked = False, hb_endpoint = ''https://host'',
     hb_coordinator_address = some_id (CHR ''d''), hb_public_key = replicate 32 107\<rparr>"

definition client_challenge :: "read_request \<Rightarrow> challenge" where
  "client_challenge q = \<lparr>ch_request = q, ch_chain_identifier = ''chain'', ch_nonce = replicate 32 (CHR ''0''), ch_expires_at_ms = 3000,
     ch_coordinator_public_key = bytesToHex sample_key, ch_signature = bytesToHex (sample_key @ sample_key)\<rparr>"

definition client_answer :: "string option \<Rightarrow> string option \<Rightarrow> json" where
  "client_answer authorization body = (case (authorization, body) of
     (None, Some b) \<Rightarrow> JObject ((case json_parse b of Some (JObject ms) \<Rightarrow> ms | _ \<Rightarrow> []) @ [(''chain_identifier'', JString ''chain''),
        (''nonce'', JString (replicate 32 (CHR ''0''))), (''expires_at_ms'', JNumber 3000), (''coordinator_public_key'', JString (bytesToHex sample_key)),
        (''signature'', JString (bytesToHex (sample_key @ sample_key)))])
   | _ \<Rightarrow> JObject [(''nonce'', JString (replicate 32 (CHR ''0''))), (''body'', JString (stringify (JObject []))),
        (''signature'', JString (bytesToHex (sample_key @ sample_key)))])"

definition client_sample :: "unit coordinator_env" where
  "client_sample = \<lparr>kc_chain = okE ([client_host], ''chain''), kc_verifyOrganization = (\<lambda>a. okE ()),
     kc_fetch = (\<lambda>u m a b. okE \<lparr>ha_status = 200, ha_ok = True, ha_chunks = Some [stringify (client_answer a b)]\<rparr>),
     kc_prove = (\<lambda>c n t. okE ''proof''), kc_dateNow = (\<lambda>r. (2000, r)), kc_organizationId = ''org'', kc_grantId = ''grant'', kc_humanId = ''human'',
     kc_device = some_id (CHR ''d''), kc_hash = sample_hash, kc_keys = host_keys, kc_btoa = (\<lambda>s. s), kc_fromBase64 = Some, kc_toBase64 = (\<lambda>s. s),
     kc_utf8 = (\<lambda>s. True), kc_verifyHosts = (\<lambda>i v. okE v)\<rparr>"

definition client_world :: "unit cworld" where
  "client_world = \<lparr>cw_out = (), cw_next = 1, cw_used = [], cw_sent = []\<rparr>"

definition client_request :: prepared_request where
  "client_request = (let q = request_for client_sample (some_id (CHR ''4'')) ''/api/health'' None in
     \<lparr>pr_handle = 0, pr_bindingId = some_id (CHR ''4''), pr_binding = client_host, pr_request = q, pr_challenge = client_challenge q, pr_command = None,
      pr_authorization = ''FractalMind token''\<rparr>)"

lemma client_key: "hex_bytes (public_hex client_host) 32 = Some sample_key" "hex_bytes (bytesToHex sample_key) 32 = Some sample_key" "hex_bytes (bytesToHex (sample_key @ sample_key)) 64 = Some (sample_key @ sample_key)"
  "public_hex client_host = bytesToHex sample_key"
proof -
  have k: "char_of (107 :: nat) = CHR ''k''" by code_simp
  show hex: "public_hex client_host = bytesToHex sample_key"
    by (simp add: k public_hex_def client_host_def sample_key_def)
  have "length sample_key = 32" by (simp add: sample_key_def)
  then show "hex_bytes (public_hex client_host) 32 = Some sample_key" "hex_bytes (bytesToHex sample_key) 32 = Some sample_key" "hex_bytes (bytesToHex (sample_key @ sample_key)) 64 = Some (sample_key @ sample_key)"
    unfolding hex hex_bytes_def by (simp_all only: length_bytesToHex lower_hex_bytesToHex hexToBytes_bytesToHex length_append simp_thms if_True) simp_all
qed

lemma client_parts:
  "awaitK (kc_verifyOrganization client_sample a) w = (Inr (), w)" "nowK client_sample w = (Inr 2000, w)"
  "bindingK client_sample (some_id (CHR ''4'')) w = (Inr (client_host, ''chain''), w)"
  "recheckBinding client_sample (some_id (CHR ''4'')) client_host w = (Inr (), w)"
  "requestK client_sample u m auth bd w = (Inr \<lparr>ha_status = 200, ha_ok = True, ha_chunks = Some [stringify (client_answer auth bd)]\<rparr>, w)"
  by (simp_all add: client_sample_def awaitK_def nowK_def bindingK_def recheckBinding_def requestK_def client_host_def eff_run)

lemma client_fields:
  "kc_keys client_sample = host_keys" "kc_hash client_sample = sample_hash" "kc_device client_sample = some_id (CHR ''d'')" "kc_organizationId client_sample = ''org''"
  "kc_utf8 client_sample = (\<lambda>s. True)" "kc_fromBase64 client_sample = Some" "kc_toBase64 client_sample = (\<lambda>s. s)" "ke_verify host_keys k text sig = (sig = k @ k)"
  "ke_address host_keys k = some_id (CHR ''d'')"
  by (simp_all add: client_sample_def host_keys_def sample_keys_def)

lemma client_read: "json_bound (client_answer a b) \<le> 1048576 \<Longrightarrow> ha_chunks r = Some [stringify (client_answer a b)] \<Longrightarrow> boundedJSON client_sample r = Inr (client_answer a b)"
  by (simp add: boundedJSON_def one_part json_parse_stringify client_fields del: read_chunks.simps)

theorem answer_accepted_signed_witness:
  "\<exists>w r r'. sendK client_sample client_request client_world = (Inr (JObject []), w) \<and> answered client_sample client_request (JObject []) r r'
     \<and> cw_sent w = [(0, ''https://host/api/health'', None)]"
proof -
  have small: "json_bound (client_answer (Some a) b) \<le> 1048576" for a b
    by (simp add: client_answer_def sample_key_def)
  have p: "pr_handle client_request = 0" "pr_bindingId client_request = some_id (CHR ''4'')" "pr_binding client_request = client_host"
    "pr_command client_request = None" "pr_authorization client_request = ''FractalMind token''" "ch_expires_at_ms (pr_challenge client_request) = 3000"
    "ch_nonce (pr_challenge client_request) = replicate 32 (CHR ''0'')" "rq_path (pr_request client_request) = ''/api/health''"
    by (simp_all add: client_request_def client_challenge_def request_for_def Let_def)
  have env: "envelope_body client_sample (pr_challenge client_request) (client_answer (Some a) b)
     = Some (stringify (JObject []), bytesToHex (sample_key @ sample_key))" for a b
    by (simp add: envelope_body_def client_answer_def sfield_def field_def p client_fields)
  have signed: "answer_signed client_sample client_request s b (sample_key @ sample_key)" for s b
    by (simp add: answer_signed_def p client_key client_fields)
  have "\<exists>w. sendK client_sample client_request client_world = (Inr (JObject []), w)"
    using json_parse_stringify [of "JObject []"] client_read [OF small]
    by (simp add: sendK_def recheckSend_def unexpired_def exchange_def answerK_def eff_run client_parts p env client_key signed client_world_def client_fields
        del: stringify.simps cong: option.case_cong)
  then obtain w where run: "sendK client_sample client_request client_world = (Inr (JObject []), w)" by blast
  from answer_accepted_signed [OF run] obtain r r' where "answered client_sample client_request (JObject []) r r'"
      "cw_sent w = request_entry client_request # cw_sent client_world" by (auto simp: Let_def)
  then show ?thesis using run by (auto simp: request_entry_def p client_world_def client_host_def)
qed

lemma length_some_id: "length (some_id c) = 66"
  by (simp add: some_id_def)

lemma client_command_text: "length (command_text host_command) \<le> 10000"
proof -
  have digits: "length (dec_string 1) = 1" "length (dec_string 1000) = 4" "length (dec_string 61000) = 5" by code_simp+
  have "json_bound (JObject [(''node_command'', command_json host_command)]) \<le> 10000"
    by (simp add: command_json_def host_command_def host_signing_def wire_of_def signing_of_def host_input_def host_signer_def payload_of_def agent_of_def expires_of_def
        signature_text_def sample_key_def sample_hash_def digits length_some_id)
  then show ?thesis using stringify_bound(1) unfolding command_text_def by (rule order_trans [rotated])
qed

theorem command_request_bound_witness:
  "\<exists>p w. prepareCommandK client_sample (some_id (CHR ''4'')) host_command client_world = (Inr p, w) \<and> challenge_for client_sample p
     \<and> rq_path (pr_request p) = ''/api/sentinels/'' @ some_id (CHR ''1'') @ ''/command''"
proof -
  define path where "path = ''/api/sentinels/'' @ sc_node_id host_command @ ''/command''"
  define q where "q = request_for client_sample (some_id (CHR ''4'')) path (Some (body_for client_sample host_command))"
  have scope: "scope_of host_command = Some ''observation''" by (simp add: scope_of_def host_command_fields)
  have body: "body_for client_sample host_command = \<lparr>cm_body = command_text host_command, cm_hash = bytesToHex (command_text host_command), cm_scope = ''observation'', cm_expiresAtMs = 61000\<rparr>"
    by (simp add: body_for_def client_fields sample_hash_def scope host_command_fields)
  have sendable: "command_sendable client_sample (some_id (CHR ''4'')) host_command"
    by (simp add: command_sendable_def host_command_fields client_fields scope is_lower_hex_def is_digit_def)
  have q: "rq_command q = Some (bytesToHex (command_text host_command), ''observation'')" "rq_method q = ''POST''" "rq_human_id q = ''human''"
    "rq_grant_id q = ''grant''" "rq_device_address q = some_id (CHR ''d'')" "rq_organization_id q = ''org''" "rq_binding_id q = some_id (CHR ''4'')"
    "rq_path q = path"
    by (simp_all add: q_def request_for_def body) (simp_all add: client_sample_def)
  let ?answer = "client_answer None (Some (stringify (request_json q)))"
  have answer: "?answer = JObject ((case request_json q of JObject ms \<Rightarrow> ms | _ \<Rightarrow> []) @ [(''chain_identifier'', JString ''chain''),
        (''nonce'', JString (replicate 32 (CHR ''0''))), (''expires_at_ms'', JNumber 3000), (''coordinator_public_key'', JString (bytesToHex sample_key)),
        (''signature'', JString (bytesToHex (sample_key @ sample_key)))])"
    unfolding client_answer_def option.case prod.case json_parse_stringify by (simp add: request_json_def)
  have key: "length sample_key = 32" "length (dec_string 3000) = 4" by (simp_all add: sample_key_def) code_simp
  have small: "json_bound ?answer \<le> 1048576"
    unfolding answer using client_command_text by (simp add: request_json_def q key length_some_id host_command_fields path_def)
  have ok: "challenge_ok q ''chain'' (bytesToHex sample_key) 2000 ?answer = Some (client_challenge q)"
    unfolding answer
    by (simp add: challenge_ok_def request_json_def q sfield_def field_def client_challenge_def is_safe_integer_def max_safe_integer_def is_lower_hex_def is_digit_def list_all_iff)
  have signed: "challenge_signed client_sample client_host (client_challenge q)"
    using client_key by (simp add: challenge_signed_def client_challenge_def client_fields client_host_def)
  have prove: "awaitK (kc_prove client_sample c n t) w = (Inr ''proof'', w)" for c n t w by (simp add: client_sample_def awaitK_def eff_run)
  have "\<exists>p w. prepareRequest client_sample (some_id (CHR ''4'')) path (Some (body_for client_sample host_command)) client_world = (Inr p, w)"
    using client_read [OF small] ok signed
    by (simp add: prepareRequest_def Let_def eff_run client_parts q_def [symmetric] client_key(4) freeze_request_def prove client_challenge_def)
  then have "\<exists>p w. prepareCommandK client_sample (some_id (CHR ''4'')) host_command client_world = (Inr p, w)"
    unfolding prepareCommandK_def path_def [symmetric] using client_command_text host_command_verified sendable
    by (simp add: eff_run client_parts client_fields host_command_fields(9))
  then obtain p w where run: "prepareCommandK client_sample (some_id (CHR ''4'')) host_command client_world = (Inr p, w)" by blast
  from command_request_bound [OF run] run show ?thesis by (auto simp: request_for_def host_command_fields)
qed

text \<open>Two signatures over the text of one request.\<close>

theorem challenge_text_binds_witness:
  "let a = client_challenge (pr_request client_request); b = a\<lparr>ch_signature := ''other''\<rparr> in
     challengeText a = challengeText b \<and> colon_free a \<and> ch_request a = ch_request b \<and> ch_signature a \<noteq> ch_signature b"
proof -
  let ?a = "client_challenge (pr_request client_request)"
  have same: "challengeText ?a = challengeText (?a\<lparr>ch_signature := ''other''\<rparr>)" by (simp add: challengeText_def)
  have free: "colon_free ?a" "colon_free (?a\<lparr>ch_signature := ''other''\<rparr>)"
    by (simp_all add: colon_free_def challenge_parts_def client_challenge_def client_request_def request_for_def Let_def client_sample_def some_id_def)
  have "length (ch_signature ?a) \<noteq> length ''other''" by (simp add: client_challenge_def sample_key_def)
  then have "ch_signature ?a \<noteq> ''other''" by metis
  with challenge_text_binds [OF same free] same free show ?thesis by (simp add: Let_def)
qed

end
