(* ===== verification/Okr_Control.thy ===== *)
theory Okr_Control
  imports Guarded_Flow Transaction_Visibility Execution_Boundary
begin

text \<open>
  \<^verbatim>\<open>OkrControl\<close> of \<^verbatim>\<open>apps/fractalmind-app/src/okr-control.ts\<close>: the single-use capability for one reviewed agreement, key result and device. The source
  reads everything the capability rests on and pins it; a quote is signed only while that pin holds; a capability is used only when the chain
  binds it to exactly this source. Chain reads, the builder of the transaction and the visibility of objects are fields of \<open>control_env\<close>.
  The listing of executions takes the number of its pages as fuel.
\<close>

section \<open>Data\<close>

datatype control_error = Ct_invalid_source | Ct_state_changed | Ct_invalid_quote | Ct_sync_pending | Ct_unsettled_execution
  | Ct_visibility visibility_error | Ct_outside | Ct_more_pages

record control_authority =
  ca_pin :: string
  ca_actions :: "string list"
  ca_humanId :: string
  ca_clockMs :: int
  ca_grantVersion :: int
  ca_generation :: int

record kr_metric =
  km_current :: "int option"
  km_run_id :: "string option"
  km_evidence_id :: "string option"
  km_rest :: json

record control_okr =
  ck_id :: string
  ck_org_id :: string
  ck_owner_human :: string
  ck_state :: int
  ck_version :: int
  ck_agreement_version :: int
  ck_next_kr :: int
  ck_metrics :: "kr_metric list"
  ck_managed_agent :: "string option"
  ck_managed_version :: "int option"
  ck_membership_id :: "string option"
  ck_membership_version :: "int option"
  ck_workspace_hash :: "int list"
  ck_boundary_hash :: "int list"
  ck_expires_at_ms :: int
  ck_budget_asset :: string
  ck_budget_limit :: int
  ck_rest :: json

record agent_execution =
  ax_control :: bool
  ax_settled :: bool
  ax_run_id :: string

record control_managed =
  cm_id :: string
  cm_instance_id :: string
  cm_host_address :: string
  cm_membership_id :: string
  cm_version :: int
  cm_revoked :: bool
  cm_control_confirmed :: bool
  cm_runtime :: string
  cm_workspace_hash :: "int list"
  cm_rest :: json

record agent_coverage =
  av_unsettledControl :: nat
  av_executions :: "agent_execution list"
  av_managed :: control_managed
  av_revision :: string

record execution_page =
  ep_executions :: "(int \<times> string) list"
  ep_cursor :: "string option"

record control_member =
  cb_id :: string
  cb_version :: int
  cb_revoked :: bool
  cb_host_address :: string
  cb_expires_at_ms :: int
  cb_coordinator_binding :: string
  cb_rest :: json

record control_binding =
  cd_id :: string
  cd_revoked :: bool
  cd_rest :: json

record control_hosts =
  ch_memberships :: "control_member list"
  ch_bindings :: "control_binding list"
  ch_clockMs :: int
  ch_activeHostsTableId :: "string option"
  ch_instancesTableId :: "string option"

record control_policy =
  cp_agreement_version :: int
  cp_managed_version :: int
  cp_max_calls :: int
  cp_json :: json

record control_budget =
  cg_spent :: int
  cg_reserved :: int

text \<open>What the source pins, in the order of the code.\<close>

type_synonym control_pin = "string \<times> control_okr \<times> string \<times> control_managed \<times> control_member \<times> control_binding \<times> control_policy \<times> control_budget
   \<times> string \<times> string option"

record control_source =
  cs_authority :: control_authority
  cs_okr :: control_okr
  cs_managed :: control_managed
  cs_member :: control_member
  cs_binding :: control_binding
  cs_policy :: control_policy
  cs_budget :: control_budget
  cs_pin :: control_pin

record capability_object =
  cx_objectId :: string
  cx_type :: string
  cx_shared :: bool
  cx_previousTransaction :: "string option"

record control_capability =
  cc_revoked :: bool
  cc_parentId :: "string option"
  cc_objectId :: string
  cc_type :: string
  cc_orgId :: string
  cc_delegate :: string
  cc_nodeId :: string
  cc_agentId :: string
  cc_scope :: string
  cc_actions :: "string list"
  cc_maxUses :: int
  cc_usesClaimed :: int
  cc_usesDelegated :: int
  cc_budgetClaimed :: int
  cc_budgetDelegated :: int
  cc_budgetAsset :: string
  cc_maxBudget :: int
  cc_expiresAtMs :: int

record capability_contract =
  cn_contract_id :: string
  cn_agreement_version :: int
  cn_boundary_hash :: "int list"

record authority_binding =
  ab_human_id :: string
  ab_device_grant :: string
  ab_device_grant_version :: int
  ab_human_generation :: int
  ab_membership_id :: string
  ab_membership_version :: int
  ab_managed_agent :: string
  ab_managed_agent_version :: int
  ab_required_action :: int

record issue_request =
  ir_expectedVersion :: int
  ir_membershipId :: string
  ir_bindingId :: string
  ir_managedAgentId :: string
  ir_maxUses :: int

record control_expected =
  ex_okrVersion :: "string option"
  ex_policyPin :: "string option"
  ex_scheduled :: bool

record 'r control_env =
  ce_client :: "'r client_env"
  ce_grantId :: string
  ce_organizationId :: string
  ce_okrId :: string
  ce_agreementVersion :: string
  ce_krIndex :: string
  ce_device :: string
  ce_expected :: control_expected
  ce_assertActive :: "('r, control_error, unit) eff"
  ce_checkNetwork :: "('r, control_error, unit) eff"
  ce_now :: "'r \<Rightarrow> int \<times> 'r"
  ce_verifyOrganization :: "('r, control_error, control_authority) eff"
  ce_getOkr :: "string \<Rightarrow> ('r, control_error, control_okr) eff"
  ce_readAgentExecutions :: "string \<Rightarrow> ('r, control_error, agent_coverage) eff"
  ce_listExecutions :: "string \<Rightarrow> string option \<Rightarrow> ('r, control_error, execution_page) eff"
  ce_hostDirectory :: "('r, control_error, control_hosts) eff"
  ce_activeHost :: "string \<Rightarrow> string \<Rightarrow> ('r, control_error, string \<times> string) eff"
  ce_managedInstance :: "string \<Rightarrow> string \<Rightarrow> ('r, control_error, control_managed option) eff"
  ce_getPolicy :: "string \<Rightarrow> ('r, control_error, control_policy) eff"
  ce_getBudget :: "string \<Rightarrow> ('r, control_error, control_budget) eff"
  ce_issueCapability :: "issue_request \<Rightarrow> tx_data option"
  ce_getObject :: "string \<Rightarrow> ('r, control_error, capability_object) eff"
  ce_coreType :: "string \<Rightarrow> string \<Rightarrow> ('r, control_error, string) eff"
  ce_getCapability :: "string \<Rightarrow> ('r, control_error, control_capability) eff"
  ce_getCapabilityContract :: "string \<Rightarrow> ('r, control_error, capability_contract) eff"
  ce_authorityBinding :: "string \<Rightarrow> ('r, control_error, string \<times> authority_binding) eff"
  ce_visibility :: "'r visibility_env"
  ce_objectType :: "tx_result \<Rightarrow> string \<Rightarrow> string option"

section \<open>The source\<close>

definition new_control_ok :: "string \<Rightarrow> string \<Rightarrow> string \<Rightarrow> string \<Rightarrow> string \<Rightarrow> (control_error, unit) result" where
  "new_control_ok grantId organizationId okrId agreementVersion krIndex =
     assertR (list_all is_object_id [grantId, organizationId, okrId] \<and> positive_text agreementVersion \<and> krIndex \<in> {''0'', ''1'', ''2''}) Ct_invalid_source"

definition control_requestId :: "'r control_env \<Rightarrow> string" where
  "control_requestId E = ''okr-control:'' @ ce_okrId E @ '':'' @ ce_agreementVersion E @ '':'' @ ce_krIndex E"

definition kr_index :: "'r control_env \<Rightarrow> nat" where
  "kr_index E = nat (dec_value (ce_krIndex E))"

text \<open>\<^verbatim>\<open>x && ...\<close> on an optional text: absent and empty are false.\<close>

definition truthy :: "string option \<Rightarrow> bool" where
  "truthy x \<longleftrightarrow> x \<noteq> None \<and> x \<noteq> Some []"

definition okr_due :: "'r control_env \<Rightarrow> control_authority \<Rightarrow> int \<Rightarrow> control_okr \<Rightarrow> bool" where
  "okr_due E a now k \<longleftrightarrow>
     ck_org_id k = ce_organizationId E \<and> ck_owner_human k = ca_humanId a \<and> ck_state k = 1
     \<and> (truthy (ex_okrVersion (ce_expected E)) \<longrightarrow> Some (dec_string (ck_version k)) = ex_okrVersion (ce_expected E))
     \<and> dec_string (ck_agreement_version k) = ce_agreementVersion E
     \<and> (if ex_scheduled (ce_expected E) then ck_next_kr k \<le> int (kr_index E) \<and> kr_index E < length (ck_metrics k)
        else dec_string (ck_next_kr k) = ce_krIndex E)
     \<and> truthy (ck_managed_agent k) \<and> truthy (ck_membership_id k) \<and> ca_clockMs a < ck_expires_at_ms k \<and> now < ck_expires_at_ms k"

definition kr_recorded :: "'r control_env \<Rightarrow> control_okr \<Rightarrow> bool" where
  "kr_recorded E k \<longleftrightarrow> (if kr_index E < length (ck_metrics k)
     then (let m = ck_metrics k ! kr_index E in km_current m \<noteq> None \<and> truthy (km_run_id m) \<and> truthy (km_evidence_id m)) else False)"

text \<open>The runs that this agreement of the objective owns.\<close>

fun owned_runs :: "nat \<Rightarrow> 'r control_env \<Rightarrow> control_okr \<Rightarrow> string option \<Rightarrow> string list \<Rightarrow> ('r, control_error, string list) eff" where
  "owned_runs 0 E k cursor seen = throwE Ct_more_pages"
| "owned_runs (Suc n) E k cursor seen =
     bindE (ce_listExecutions E (ck_id k) cursor) (\<lambda>page.
     let owned = map snd (filter (\<lambda>(v, _). v = ck_agreement_version k) (ep_executions page)) in
     case ep_cursor page of
       None \<Rightarrow> okE owned
     | Some c \<Rightarrow>
         if c = [] then okE owned
         else bindE (assertE (c \<notin> set seen) Ct_invalid_source) (\<lambda>_.
              bindE (owned_runs n E k (Some c) (c # seen)) (\<lambda>rest. okE (owned @ rest))))"

definition unsettled_ok :: "nat \<Rightarrow> 'r control_env \<Rightarrow> control_okr \<Rightarrow> agent_coverage \<Rightarrow> ('r, control_error, unit) eff" where
  "unsettled_ok fuel E k v =
    (if av_unsettledControl v = 0 then okE ()
     else bindE (assertE (ex_scheduled (ce_expected E)) Ct_unsettled_execution) (\<lambda>_.
          bindE (owned_runs fuel E k None []) (\<lambda>owned.
          assertE (\<not> list_ex (\<lambda>x. ax_control x \<and> \<not> ax_settled x \<and> ax_run_id x \<notin> set owned) (av_executions v)) Ct_unsettled_execution)))"

definition managed_fits :: "control_okr \<Rightarrow> control_managed \<Rightarrow> bool" where
  "managed_fits k m \<longleftrightarrow> \<not> cm_revoked m \<and> cm_control_confirmed m \<and> cm_runtime m = ''bounded-process-v1'' \<and> Some (cm_version m) = ck_managed_version k
     \<and> Some (cm_membership_id m) = ck_membership_id k \<and> cm_workspace_hash m = ck_workspace_hash k"

definition member_for :: "control_okr \<Rightarrow> control_managed \<Rightarrow> control_hosts \<Rightarrow> control_member option" where
  "member_for k m h = find (\<lambda>b. Some (cb_id b) = ck_membership_id k \<and> Some (cb_version b) = ck_membership_version k \<and> \<not> cb_revoked b
     \<and> cb_host_address b = cm_host_address m \<and> ch_clockMs h < cb_expires_at_ms b) (ch_memberships h)"

definition binding_for :: "control_member \<Rightarrow> control_hosts \<Rightarrow> control_binding option" where
  "binding_for b h = find (\<lambda>d. cd_id d = cb_coordinator_binding b \<and> \<not> cd_revoked d) (ch_bindings h)"

definition id_types :: "string list" where
  "id_types = [''0x2::object::ID'', ''0x'' @ replicate 63 (CHR ''0'') @ ''2::object::ID'']"

definition policy_fits :: "'r control_env \<Rightarrow> control_okr \<Rightarrow> control_managed \<Rightarrow> control_policy \<Rightarrow> control_budget \<Rightarrow> bool" where
  "policy_fits E k m p g \<longleftrightarrow>
     cp_agreement_version p = ck_agreement_version k
     \<and> (truthy (ex_policyPin (ce_expected E)) \<longrightarrow> Some (canonical (cp_json p)) = ex_policyPin (ce_expected E))
     \<and> cp_managed_version p = cm_version m \<and> 1 \<le> cp_max_calls p \<and> cp_max_calls p \<le> ck_budget_limit k \<and> cg_spent g + cg_reserved g < ck_budget_limit k"

definition nowO :: "'r control_env \<Rightarrow> ('r, control_error, int) eff" where
  "nowO E = (\<lambda>r. case ce_now E r of (t, r') \<Rightarrow> (Inr t, r'))"

definition sourceO :: "nat \<Rightarrow> 'r control_env \<Rightarrow> ('r, control_error, control_source) eff" where
  "sourceO fuel E =
     bindE (ce_assertActive E) (\<lambda>_.
     bindE (ce_verifyOrganization E) (\<lambda>a.
     bindE (assertE (list_all (\<lambda>x. x \<in> set (ca_actions a)) [''read'', ''operate'', ''approve'']) Ct_invalid_source) (\<lambda>_.
     bindE (ce_getOkr E (ce_okrId E)) (\<lambda>k.
     bindE (nowO E) (\<lambda>now.
     bindE (assertE (okr_due E a now k) Ct_state_changed) (\<lambda>_.
     bindE (assertE (\<not> kr_recorded E k) Ct_state_changed) (\<lambda>_.
     bindE (ce_readAgentExecutions E (the (ck_managed_agent k))) (\<lambda>v.
     bindE (unsettled_ok fuel E k v) (\<lambda>_.
     bindE (assertE (managed_fits k (av_managed v)) Ct_invalid_source) (\<lambda>_.
     bindE (ce_hostDirectory E) (\<lambda>h.
     case (member_for k (av_managed v) h, ch_activeHostsTableId h) of
       (Some b, Some table) \<Rightarrow>
         bindE (assertE (table \<noteq> []) Ct_invalid_source) (\<lambda>_.
         case binding_for b h of
           None \<Rightarrow> throwE Ct_invalid_source
         | Some d \<Rightarrow>
             bindE (ce_activeHost E table (cb_host_address b)) (\<lambda>(type, active).
             bindE (assertE (type \<in> set id_types \<and> active = cb_id b) Ct_state_changed) (\<lambda>_.
             bindE (ce_managedInstance E (cm_host_address (av_managed v)) (cm_instance_id (av_managed v))) (\<lambda>again.
             bindE (assertE (again = Some (av_managed v)) Ct_state_changed) (\<lambda>_.
             bindE (ce_getPolicy E (ck_id k)) (\<lambda>p.
             bindE (ce_getBudget E (ck_id k)) (\<lambda>g.
             bindE (assertE (policy_fits E k (av_managed v) p g) Ct_state_changed) (\<lambda>_.
             bindE (ce_assertActive E) (\<lambda>_.
             okE \<lparr>cs_authority = a, cs_okr = k, cs_managed = av_managed v, cs_member = b, cs_binding = d, cs_policy = p, cs_budget = g,
                  cs_pin = (ca_pin a, k, av_revision v, av_managed v, b, d, p, g, table, ch_instancesTableId h)\<rparr>)))))))))
     | _ \<Rightarrow> throwE Ct_invalid_source)))))))))))"

definition recheckO :: "nat \<Rightarrow> 'r control_env \<Rightarrow> control_pin \<Rightarrow> ('r, control_error, unit) eff" where
  "recheckO fuel E pinned = bindE (sourceO fuel E) (\<lambda>s. assertE (cs_pin s = pinned) Ct_state_changed)"

section \<open>Quoting and submitting\<close>

type_synonym ('s, 'r, 'a) control = "('s, 'r, control_pin, control_error, 'a) flow"

definition queryO :: "'r control_env \<Rightarrow> ('s, 'x) journal_ops \<Rightarrow> ('s, 'r, tx_outcome option) control" where
  "queryO E J = bindE (outsideE (ce_checkNetwork E)) (\<lambda>_. managerE (query (ce_client E) J (control_requestId E)))"

definition issue_request_of :: "control_source \<Rightarrow> issue_request" where
  "issue_request_of s = \<lparr>ir_expectedVersion = ck_version (cs_okr s), ir_membershipId = cb_id (cs_member s), ir_bindingId = cd_id (cs_binding s),
     ir_managedAgentId = cm_id (cs_managed s), ir_maxUses = 1\<rparr>"

definition prepareO :: "nat \<Rightarrow> nat \<Rightarrow> 'r control_env \<Rightarrow> ('s, 'x) journal_ops \<Rightarrow> ('s, 'r, tx_outcome + fee_quote) control" where
  "prepareO pages fuel E J =
     bindE (queryO E J) (\<lambda>prior.
     case prior of Some c \<Rightarrow> okE (Inl c)
     | None \<Rightarrow>
         bindE (outsideE (sourceO fuel E)) (\<lambda>before.
         case ce_issueCapability E (issue_request_of before) of None \<Rightarrow> throwE (Flow Ct_outside)
         | Some tx \<Rightarrow>
             bindE (managerE (prepare pages (ce_client E) J \<lparr>pi_requestId = control_requestId E, pi_transaction = tx,
                      pi_gasBudget = UBigInt 200000000, pi_maxSuiSpend = None\<rparr>)) (\<lambda>quote.
             bindE (outsideE (recheckO fuel E (cs_pin before))) (\<lambda>_.
             bindE (remember quote (cs_pin before)) (\<lambda>_.
             okE (Inr quote))))))"

definition submitO :: "nat \<Rightarrow> 'r control_env \<Rightarrow> ('s, 'x) journal_ops \<Rightarrow> fee_quote \<Rightarrow> ('s, 'r, tx_outcome) control" where
  "submitO fuel E J = resumed_submit (ce_client E) J (recheckO fuel E) Ct_invalid_quote (queryO E J)"

section \<open>Using a capability\<close>

definition capability_for :: "'r control_env \<Rightarrow> string \<Rightarrow> string \<Rightarrow> control_source \<Rightarrow> control_capability \<Rightarrow> bool" where
  "capability_for E capabilityId type s c \<longleftrightarrow>
     \<not> cc_revoked c \<and> \<not> truthy (cc_parentId c) \<and> cc_objectId c = capabilityId \<and> cc_type c = type \<and> cc_orgId c = ce_organizationId E
     \<and> cc_delegate c = ce_device E \<and> cc_nodeId c = cb_host_address (cs_member s) \<and> cc_agentId c = cm_instance_id (cs_managed s)
     \<and> cc_scope c = ''control'' \<and> cc_actions c = [''assign''] \<and> cc_maxUses c = 1 \<and> cc_usesClaimed c = 0 \<and> cc_usesDelegated c = 0
     \<and> cc_budgetClaimed c = 0 \<and> cc_budgetDelegated c = 0 \<and> cc_budgetAsset c = ck_budget_asset (cs_okr s) \<and> cc_maxBudget c = cp_max_calls (cs_policy s)
     \<and> ca_clockMs (cs_authority s) < cc_expiresAtMs c \<and> cc_expiresAtMs c = ck_expires_at_ms (cs_okr s)"

definition contract_for :: "'r control_env \<Rightarrow> control_source \<Rightarrow> capability_contract \<Rightarrow> bool" where
  "contract_for E s c \<longleftrightarrow> cn_contract_id c = ce_okrId E \<and> dec_string (cn_agreement_version c) = ce_agreementVersion E
     \<and> cn_boundary_hash c = ck_boundary_hash (cs_okr s)"

definition bound_to :: "'r control_env \<Rightarrow> control_source \<Rightarrow> authority_binding \<Rightarrow> bool" where
  "bound_to E s b \<longleftrightarrow> ab_human_id b = ca_humanId (cs_authority s) \<and> ab_device_grant b = ce_grantId E
     \<and> ab_device_grant_version b = ca_grantVersion (cs_authority s) \<and> ab_human_generation b = ca_generation (cs_authority s)
     \<and> ab_membership_id b = cb_id (cs_member s) \<and> ab_membership_version b = cb_version (cs_member s)
     \<and> ab_managed_agent b = cm_id (cs_managed s) \<and> ab_managed_agent_version b = cm_version (cs_managed s) \<and> ab_required_action b = 2"

definition useO :: "nat \<Rightarrow> 'r control_env \<Rightarrow> string \<Rightarrow> ('r, control_error, string \<times> control_source) eff" where
  "useO fuel E capabilityId =
     bindE (assertE (is_object_id capabilityId) Ct_invalid_source) (\<lambda>_.
     bindE (sourceO fuel E) (\<lambda>s.
     bindE (ce_getObject E capabilityId) (\<lambda>object.
     bindE (ce_coreType E ''remote_authority'' ''RemoteCapability'') (\<lambda>type.
     bindE (assertE (cx_objectId object = capabilityId \<and> cx_type object = type \<and> cx_shared object) Ct_invalid_source) (\<lambda>_.
     bindE (ce_getCapability E capabilityId) (\<lambda>c.
     bindE (ce_getCapabilityContract E capabilityId) (\<lambda>contract.
     bindE (ce_authorityBinding E capabilityId) (\<lambda>(bindingType, b).
     bindE (ce_coreType E ''host'' ''AuthorityBinding'') (\<lambda>expected.
     bindE (assertE (bindingType = expected) Ct_invalid_source) (\<lambda>_.
     bindE (assertE (capability_for E capabilityId (cx_type object) s c \<and> contract_for E s contract \<and> bound_to E s b) Ct_invalid_source) (\<lambda>_.
     bindE (recheckO fuel E (cs_pin s)) (\<lambda>_.
     okE (capabilityId, s)))))))))))))"

definition control_visible :: "'r control_env \<Rightarrow> tx_outcome \<Rightarrow> ('r, control_error, bool) eff" where
  "control_visible E outcome = (\<lambda>r. case awaitTransactionVisible (ce_visibility E) outcome 40 r of
     (Inl e, r') \<Rightarrow> (Inl (Ct_visibility e), r') | (Inr v, r') \<Rightarrow> (Inr v, r'))"

definition confirmedO :: "nat \<Rightarrow> 'r control_env \<Rightarrow> tx_outcome \<Rightarrow> ('r, control_error, string) eff" where
  "confirmedO fuel E result =
    (case oc_transaction result of
       None \<Rightarrow> throwE Ct_invalid_source
     | Some tx \<Rightarrow>
         bindE (assertE (oc_status result = OConfirmed \<and> oc_requestId result = control_requestId E \<and> tr_digest tx = oc_digest result) Ct_invalid_source) (\<lambda>_.
         bindE (ce_coreType E ''remote_authority'' ''RemoteCapability'') (\<lambda>type.
         bindE (assertE (tr_effects tx \<noteq> None) Ct_outside) (\<lambda>_.
         case filter (\<lambda>c. co_idOperation c = ''Created'' \<and> co_outputState c = ''ObjectWrite'' \<and> ce_objectType E tx (co_objectId c) = Some type)
                (ve_changedObjects (ce_visibility E) tx) of
           [c] \<Rightarrow>
             bindE (control_visible E result) (\<lambda>visible.
             bindE (assertE visible Ct_sync_pending) (\<lambda>_.
             bindE (ce_getObject E (co_objectId c)) (\<lambda>object.
             bindE (assertE (cx_previousTransaction object = Some (oc_digest result)) Ct_invalid_source) (\<lambda>_.
             bindE (useO fuel E (co_objectId c)) (\<lambda>_.
             okE (co_objectId c))))))
         | _ \<Rightarrow> throwE Ct_invalid_source))))"

section \<open>What a source rests on\<close>

definition listed_run :: "'r control_env \<Rightarrow> control_okr \<Rightarrow> string \<Rightarrow> bool" where
  "listed_run E k run \<longleftrightarrow> (\<exists>cursor r page. fst (ce_listExecutions E (ck_id k) cursor r) = Inr page \<and> (ck_agreement_version k, run) \<in> set (ep_executions page))"

lemma owned_runs_listed:
  "owned_runs n E k cursor seen r = (Inr runs, r') \<Longrightarrow> x \<in> set runs \<Longrightarrow> listed_run E k x"
proof (induction n arbitrary: cursor seen r r' runs)
  case (Suc n)
  from Suc.prems obtain page :: execution_page and r1 where page: "ce_listExecutions E (ck_id k) cursor r = (Inr page, r1)"
    and which: "(ck_agreement_version k, x) \<in> set (ep_executions page)
      \<or> (\<exists>c rest. owned_runs n E k (Some c) (c # seen) r1 = (Inr rest, r') \<and> x \<in> set rest)"
    by (auto simp: eff_oks Let_def split: option.split_asm if_split_asm elim!: bindE_okE) blast
  from which show ?case
  proof
    assume "(ck_agreement_version k, x) \<in> set (ep_executions page)"
    then show ?thesis using page unfolding listed_run_def by (intro exI [of _ cursor] exI [of _ r] exI [of _ page]) simp
  qed (use Suc.IH in blast)
qed (simp add: eff_oks)

text \<open>No control execution of the Agent is open, except runs of this very agreement when it is prepared in advance.\<close>

definition agent_free :: "'r control_env \<Rightarrow> control_okr \<Rightarrow> agent_coverage \<Rightarrow> bool" where
  "agent_free E k v \<longleftrightarrow> av_unsettledControl v = 0
     \<or> ex_scheduled (ce_expected E) \<and> (\<forall>x\<in>set (av_executions v). ax_control x \<longrightarrow> ax_settled x \<or> listed_run E k (ax_run_id x))"

lemma unsettled_ok_free: "unsettled_ok fuel E k v r = (Inr u, r') \<Longrightarrow> agent_free E k v"
  unfolding unsettled_ok_def agent_free_def
  by (auto simp: eff_oks list_ex_iff elim!: bindE_okE split: if_split_asm) (metis owned_runs_listed)

definition source_sound :: "'r control_env \<Rightarrow> control_source \<Rightarrow> bool" where
  "source_sound E s \<longleftrightarrow>
     set [''read'', ''operate'', ''approve''] \<subseteq> set (ca_actions (cs_authority s))
     \<and> (\<exists>now. okr_due E (cs_authority s) now (cs_okr s)) \<and> \<not> kr_recorded E (cs_okr s) \<and> managed_fits (cs_okr s) (cs_managed s)
     \<and> Some (cb_id (cs_member s)) = ck_membership_id (cs_okr s) \<and> \<not> cb_revoked (cs_member s) \<and> cb_host_address (cs_member s) = cm_host_address (cs_managed s)
     \<and> cd_id (cs_binding s) = cb_coordinator_binding (cs_member s) \<and> \<not> cd_revoked (cs_binding s)
     \<and> policy_fits E (cs_okr s) (cs_managed s) (cs_policy s) (cs_budget s)
     \<and> (\<exists>v r. fst (ce_readAgentExecutions E (the (ck_managed_agent (cs_okr s))) r) = Inr v \<and> av_managed v = cs_managed s \<and> agent_free E (cs_okr s) v)"

lemma sourceO_sound:
  assumes "sourceO fuel E r = (Inr s, r')"
  shows "source_sound E s"
proof -
  from assms obtain a k now v u b d p g h r1 r2 r3 r4 where
    a: "list_all (\<lambda>x. x \<in> set (ca_actions a)) [''read'', ''operate'', ''approve'']" and k: "okr_due E a now k" "\<not> kr_recorded E k"
    and v: "ce_readAgentExecutions E (the (ck_managed_agent k)) r1 = (Inr v, r2)" "unsettled_ok fuel E k v r3 = (Inr u, r4)" "managed_fits k (av_managed v)"
    and b: "member_for k (av_managed v) h = Some b" "binding_for b h = Some d" and p: "policy_fits E k (av_managed v) p g"
    and s: "cs_authority s = a" "cs_okr s = k" "cs_managed s = av_managed v" "cs_member s = b" "cs_binding s = d" "cs_policy s = p" "cs_budget s = g"
    unfolding sourceO_def by (auto simp: eff_oks elim!: bindE_okE split: option.split_asm prod.split_asm)
  have member: "Some (cb_id b) = ck_membership_id k \<and> \<not> cb_revoked b \<and> cb_host_address b = cm_host_address (av_managed v)"
    and binding: "cd_id d = cb_coordinator_binding b \<and> \<not> cd_revoked d"
    using b by (auto simp: member_for_def binding_for_def find_Some_iff)
  show ?thesis
    unfolding source_sound_def s using a k v(1,3) member binding p unsettled_ok_free [OF v(2)]
    by (auto simp: list_all_iff intro!: exI [of _ v] exI [of _ r1])
qed

lemma recheckO_ok: "recheckO fuel E pinned r = (Inr u, r') \<longleftrightarrow> (\<exists>s. sourceO fuel E r = (Inr s, r') \<and> cs_pin s = pinned)"
  by (auto simp: recheckO_def eff_oks bindE_eq)

text \<open>The listing ends: with fewer cursors than fuel, it does not run out.\<close>

lemma owned_runs_fuel:
  assumes "\<And>c r. fst (ce_listExecutions E (ck_id k) c r) \<noteq> Inl Ct_more_pages"
    and "\<And>c r page d. fst (ce_listExecutions E (ck_id k) c r) = Inr page \<Longrightarrow> ep_cursor page = Some d \<Longrightarrow> d \<in> C" and "finite C"
  shows "card (C - set seen) < n \<Longrightarrow> fst (owned_runs n E k cursor seen r) \<noteq> Inl Ct_more_pages"
proof (induction n arbitrary: cursor seen r)
  case (Suc n)
  obtain x r1 where x: "ce_listExecutions E (ck_id k) cursor r = (x, r1)" by fastforce
  show ?case
  proof (cases x)
    case (Inl e)
    then show ?thesis using x assms(1) [of cursor r] by (simp add: eff_run)
  next
    case (Inr page)
    have step: "fst (owned_runs n E k (Some c) (c # seen) r1) \<noteq> Inl Ct_more_pages" if "ep_cursor page = Some c" "c \<notin> set seen" for c
    proof (rule Suc.IH)
      have "c \<in> C" using assms(2) [of cursor r page c] x Inr that by simp
      then have "C - set (c # seen) \<subset> C - set seen" using that by auto
      then show "card (C - set (c # seen)) < n" using psubset_card_mono [of "C - set seen"] assms(3) Suc.prems by fastforce
    qed
    show ?thesis using x Inr step by (auto simp: eff_run Let_def split: option.split prod.split sum.split)
  qed
qed simp

section \<open>What is broadcast\<close>

lemma queryO_unsubmitted: "keeps unsubmitted (queryO E J)"
  unfolding queryO_def by auto

interpretation control: submission_flow "submitO fuel E J" "ce_client E" J "recheckO fuel E" Ct_invalid_quote for fuel E J
  by unfold_locales (unfold submitO_def, erule (1) resumed_submit_law [OF queryO_unsubmitted])

text \<open>The source as it was read right before a moment: sound, and with the reviewed pin.\<close>

definition review_held :: "nat \<Rightarrow> 'r control_env \<Rightarrow> control_pin \<Rightarrow> 'r \<Rightarrow> bool" where
  "review_held fuel E pinned r' \<longleftrightarrow> (\<exists>s r. sourceO fuel E r = (Inr s, r') \<and> cs_pin s = pinned \<and> source_sound E s)"

lemma recheckO_held: "recheckO fuel E pinned r = (Inr u, r') \<Longrightarrow> review_held fuel E pinned r'"
  by (auto simp: recheckO_ok review_held_def intro: sourceO_sound)


section \<open>What a used capability is\<close>

definition usable :: "nat \<Rightarrow> 'r control_env \<Rightarrow> string \<Rightarrow> control_source \<Rightarrow> bool" where
  "usable fuel E i s \<longleftrightarrow> source_sound E s \<and> is_object_id i
     \<and> (\<exists>type c r. fst (ce_getCapability E i r) = Inr c \<and> capability_for E i type s c)
     \<and> (\<exists>n r. fst (ce_getCapabilityContract E i r) = Inr n \<and> contract_for E s n)
     \<and> (\<exists>t b r. fst (ce_authorityBinding E i r) = Inr (t, b) \<and> bound_to E s b)"

lemma useO_ok:
  assumes "useO fuel E i r = (Inr (j, s), r')"
  shows "j = i \<and> usable fuel E i s \<and> review_held fuel E (cs_pin s) r'"
proof -
  from assms obtain r1 r2 r3 r4 r5 r6 r7 r8 r9 t and object :: capability_object and c :: control_capability and n :: capability_contract
      and b :: authority_binding where
    s: "sourceO fuel E r1 = (Inr s, r2)" "is_object_id i" "j = i" and c: "ce_getCapability E i r3 = (Inr c, r4)"
    and n: "ce_getCapabilityContract E i r5 = (Inr n, r6)" and b: "ce_authorityBinding E i r7 = (Inr (t, b), r8)"
    and fits: "capability_for E i (cx_type object) s c \<and> contract_for E s n \<and> bound_to E s b" and again: "recheckO fuel E (cs_pin s) r9 = (Inr (), r')"
    by (auto simp: useO_def eff_oks elim!: bindE_okE split: prod.split_asm)
  have "usable fuel E i s"
    unfolding usable_def using sourceO_sound [OF s(1)] s(2) c n b fits by (metis fst_conv)
  then show ?thesis using s(3) recheckO_held [OF again] by simp
qed

text \<open>
  A capability is handed on for an execution only if the chain shows it as exactly the one that was reviewed: unrevoked, without a parent, for this
  organization, device, Host, Agent and one assignment, unused and undelegated, with the budget and expiry of the agreement, for its boundary, and
  bound to the current versions of grant, Human, membership and Agent; and the sources it rests on are sound and unchanged after these reads.
\<close>

theorem capability_used_as_reviewed:
  assumes "useO fuel E i r = (Inr (j, s), r')"
  shows "j = i \<and> usable fuel E i s \<and> review_held fuel E (cs_pin s) r'"
  using assms by (rule useO_ok)

text \<open>
  A confirmed transaction yields the one capability it created, seen on the chain as written by it and usable.
\<close>

lemma confirmed_capability:
  assumes "confirmedO fuel E result r = (Inr i, r')"
  shows "oc_status result = OConfirmed \<and> oc_requestId result = control_requestId E
    \<and> (\<exists>tx type c. oc_transaction result = Some tx \<and> co_objectId c = i
        \<and> filter (\<lambda>c. co_idOperation c = ''Created'' \<and> co_outputState c = ''ObjectWrite'' \<and> ce_objectType E tx (co_objectId c) = Some type)
            (ve_changedObjects (ce_visibility E) tx) = [c])
    \<and> (\<exists>object r1. fst (ce_getObject E i r1) = Inr object \<and> cx_previousTransaction object = Some (oc_digest result))
    \<and> (\<exists>s. usable fuel E i s)"
proof -
  from assms obtain tx :: tx_result and type and c :: changed_object and object :: capability_object and r1 r2 r3 r4 j and s :: control_source where
    tx: "oc_transaction result = Some tx" "oc_status result = OConfirmed" "oc_requestId result = control_requestId E" "co_objectId c = i"
      "filter (\<lambda>c. co_idOperation c = ''Created'' \<and> co_outputState c = ''ObjectWrite'' \<and> ce_objectType E tx (co_objectId c) = Some type)
            (ve_changedObjects (ce_visibility E) tx) = [c]"
    and object: "ce_getObject E i r1 = (Inr object, r2)" "cx_previousTransaction object = Some (oc_digest result)"
    and used: "useO fuel E i r3 = (Inr (j, s), r4)"
    by (auto simp: confirmedO_def eff_oks elim!: bindE_okE split: option.split_asm list.split_asm)
  from useO_ok [OF used] have "usable fuel E i s" by simp
  moreover have "fst (ce_getObject E i r1) = Inr object" using object by simp
  ultimately show ?thesis using tx object(2) by blast
qed

section \<open>A sample review\<close>

definition some_control_id :: "char \<Rightarrow> string" where
  "some_control_id c = ''0x'' @ replicate 64 c"

definition sample_managed :: control_managed where
  "sample_managed = \<lparr>cm_id = some_control_id (CHR ''5''), cm_instance_id = ''native'', cm_host_address = ''node'', cm_membership_id = ''m'', cm_version = 3, cm_revoked = False,
     cm_control_confirmed = True, cm_runtime = ''bounded-process-v1'', cm_workspace_hash = [1], cm_rest = JNull\<rparr>"

definition sample_okr :: control_okr where
  "sample_okr = \<lparr>ck_id = ''okr'', ck_org_id = ''org'', ck_owner_human = ''h'', ck_state = 1, ck_version = 7, ck_agreement_version = 2, ck_next_kr = 0,
     ck_metrics = [\<lparr>km_current = None, km_run_id = None, km_evidence_id = None, km_rest = JNull\<rparr>], ck_managed_agent = Some ''agent'', ck_managed_version = Some 3,
     ck_membership_id = Some ''m'', ck_membership_version = Some 1, ck_workspace_hash = [1], ck_boundary_hash = [2], ck_expires_at_ms = 90,
     ck_budget_asset = ''TOOL_CALLS'', ck_budget_limit = 10, ck_rest = JNull\<rparr>"

definition sample_control :: "unit control_env" where
  "sample_control = \<lparr>ce_client = flow_client, ce_grantId = ''grant'', ce_organizationId = ''org'', ce_okrId = ''okr'', ce_agreementVersion = ''2'', ce_krIndex = ''0'',
     ce_device = ''device'', ce_expected = \<lparr>ex_okrVersion = None, ex_policyPin = None, ex_scheduled = False\<rparr>, ce_assertActive = okE (), ce_checkNetwork = okE (),
     ce_now = (\<lambda>r. (5, r)),
     ce_verifyOrganization = okE \<lparr>ca_pin = ''pin'', ca_actions = [''read'', ''operate'', ''approve''], ca_humanId = ''h'', ca_clockMs = 5, ca_grantVersion = 1, ca_generation = 1\<rparr>,
     ce_getOkr = (\<lambda>i. okE sample_okr),
     ce_readAgentExecutions = (\<lambda>a. okE \<lparr>av_unsettledControl = 0, av_executions = [], av_managed = sample_managed, av_revision = ''1''\<rparr>),
     ce_listExecutions = (\<lambda>i c. okE \<lparr>ep_executions = [], ep_cursor = None\<rparr>),
     ce_hostDirectory = okE \<lparr>ch_memberships = [\<lparr>cb_id = ''m'', cb_version = 1, cb_revoked = False, cb_host_address = ''node'', cb_expires_at_ms = 90,
        cb_coordinator_binding = ''b'', cb_rest = JNull\<rparr>], ch_bindings = [\<lparr>cd_id = ''b'', cd_revoked = False, cd_rest = JNull\<rparr>], ch_clockMs = 5,
        ch_activeHostsTableId = Some ''table'', ch_instancesTableId = None\<rparr>,
     ce_activeHost = (\<lambda>t a. okE (''0x2::object::ID'', ''m'')), ce_managedInstance = (\<lambda>a i. okE (Some sample_managed)),
     ce_getPolicy = (\<lambda>i. okE \<lparr>cp_agreement_version = 2, cp_managed_version = 3, cp_max_calls = 4, cp_json = JNull\<rparr>),
     ce_getBudget = (\<lambda>i. okE \<lparr>cg_spent = 0, cg_reserved = 0\<rparr>), ce_issueCapability = (\<lambda>q. Some (pi_transaction sample_input)),
     ce_getObject = (\<lambda>i. okE \<lparr>cx_objectId = i, cx_type = ''remote_authority'', cx_shared = True, cx_previousTransaction = None\<rparr>),
     ce_coreType = (\<lambda>m t. okE m),
     ce_getCapability = (\<lambda>i. okE \<lparr>cc_revoked = False, cc_parentId = None, cc_objectId = i, cc_type = ''remote_authority'', cc_orgId = ''org'', cc_delegate = ''device'',
        cc_nodeId = ''node'', cc_agentId = ''native'', cc_scope = ''control'', cc_actions = [''assign''], cc_maxUses = 1, cc_usesClaimed = 0, cc_usesDelegated = 0,
        cc_budgetClaimed = 0, cc_budgetDelegated = 0, cc_budgetAsset = ''TOOL_CALLS'', cc_maxBudget = 4, cc_expiresAtMs = 90\<rparr>),
     ce_getCapabilityContract = (\<lambda>i. okE \<lparr>cn_contract_id = ''okr'', cn_agreement_version = 2, cn_boundary_hash = [2]\<rparr>),
     ce_authorityBinding = (\<lambda>i. okE (''host'', \<lparr>ab_human_id = ''h'', ab_device_grant = ''grant'', ab_device_grant_version = 1, ab_human_generation = 1,
        ab_membership_id = ''m'', ab_membership_version = 1, ab_managed_agent = some_control_id (CHR ''5''), ab_managed_agent_version = 3, ab_required_action = 2\<rparr>)),
     ce_visibility = \<lparr>ve_changedObjects = (\<lambda>t. []), ve_getObject = (\<lambda>i. throwE Object_failed), ve_checkNetwork = okE (), ve_pause = id\<rparr>,
     ce_objectType = (\<lambda>t i. None)\<rparr>"

definition control_ready :: "(idb_state, unit, control_pin) flow_world" where
  "control_ready = snd (prepareO 1 1 sample_control indexed_db_ops \<lparr>fw_manager = sample_world, fw_plans = []\<rparr>)"

definition control_quote :: fee_quote where
  "control_quote = fst (hd (fw_plans control_ready))"


theorem capability_used_as_reviewed_witness:
  "\<exists>s. useO 1 sample_control (some_control_id (CHR ''a'')) () = (Inr (some_control_id (CHR ''a''), s), ()) \<and> usable 1 sample_control (some_control_id (CHR ''a'')) s"
proof -
  let ?i = "some_control_id (CHR ''a'')"
  have "case fst (useO 1 sample_control ?i ()) of Inl _ \<Rightarrow> False | Inr _ \<Rightarrow> True" by code_simp
  then obtain j s where "fst (useO 1 sample_control ?i ()) = Inr (j, s)" by (auto split: sum.split_asm)
  then have run: "useO 1 sample_control ?i () = (Inr (j, s), ())" by (cases "useO 1 sample_control ?i ()") simp
  from capability_used_as_reviewed [OF run] run show ?thesis by auto
qed

end
