(* ===== verification/Okr_Assign.thy ===== *)
theory Okr_Assign
  imports Guarded_Flow Message_Source
begin

text \<open>
  \<^verbatim>\<open>AgentManagerAssignment\<close> of \<^verbatim>\<open>apps/fractalmind-app/src/okr-assign.ts\<close>: one transaction that records the agreement with an agent-manager Agent and makes
  the objective active for it. The source is read in full when the quote is prepared and again right before it is submitted; the agreement is the
  sealed record that \<^verbatim>\<open>validateAgentManagerAgreement\<close> accepts later. Chain reads, the device's encryption and the builder of the transaction are
  fields of \<open>assign_env\<close>.
\<close>

section \<open>Data\<close>

datatype assign_error = As_invalid_input | As_not_assignable | As_agent_not_controllable | As_agent_busy | As_host_not_member | As_active_limit
  | As_state_changed | As_invalid_quote | As_invalid_ciphertext | As_missing_index | As_outside | As_pages

record assign_okr =
  ao_id :: string
  ao_logical_id :: string
  ao_org_id :: string
  ao_state :: int
  ao_version :: int
  ao_spec_record :: string
  ao_deadline_ms :: int
  ao_managed_agent :: "string option"
  ao_managed_version :: "int option"
  ao_membership_id :: "string option"
  ao_workspace_hash :: "int list"
  ao_boundary_hash :: "int list"
  ao_budget_asset :: string
  ao_budget_limit :: int
  ao_expires_at_ms :: int
  ao_rest :: json

record assign_managed =
  am_id :: string
  am_org_id :: string
  am_version :: int
  am_instance_id :: string
  am_host_address :: string
  am_membership_id :: string
  am_revoked :: bool
  am_control_confirmed :: bool
  am_runtime :: string
  am_workspace_hash :: "int list"
  am_rest :: json

record assign_member =
  ah_id :: string
  ah_org_id :: string
  ah_revoked :: bool
  ah_host_address :: string
  ah_expires_at_ms :: int
  ah_coordinator_binding :: string
  ah_rest :: json

record assign_binding =
  ad_id :: string
  ad_org_id :: string
  ad_revoked :: bool
  ad_rest :: json

record assign_authority =
  aa_authorityPin :: string
  aa_encryptedKeys :: string
  aa_clockMs :: int

record assignment_input =
  ai_okrId :: string
  ai_managedAgentId :: string
  ai_budgetLimit :: string
  ai_allowedPaths :: "string list"

record okr_list_page =
  ol_okrs :: "assign_okr list"
  ol_cursor :: "string option"
  ol_hasNextPage :: bool

record current_record =
  ar_kind :: int
  ar_logicalId :: string
  ar_revision :: string

record current_page =
  cu_keyVersion :: string
  cu_records :: "current_record list"
  cu_cursor :: "string option"
  cu_hasNextPage :: bool

type_synonym assign_pin = "string \<times> string \<times> assign_okr \<times> assign_managed \<times> assign_member \<times> assign_binding \<times> (string \<times> string) \<times> string list"

record assign_source =
  as_approve :: assign_authority
  as_okr :: assign_okr
  as_managed :: assign_managed
  as_member :: assign_member
  as_binding :: assign_binding
  as_records :: "string \<times> string"
  as_pin :: assign_pin

record assignment_request =
  aq_okrId :: string
  aq_expectedVersion :: int
  aq_membershipId :: string
  aq_bindingId :: string
  aq_managedAgentId :: string
  aq_workspaceHash :: "int list"
  aq_boundaryHash :: string
  aq_budgetAsset :: string
  aq_budgetLimit :: string
  aq_expiresAtMs :: int
  aq_expectedRecordRevision :: string
  aq_keyVersion :: string
  aq_encryptedBody :: string

record 'r assign_env =
  ae_client :: "'r client_env"
  ae_organizationId :: string
  ae_hash :: hash_env
  ae_verifyOrganization :: "string \<Rightarrow> ('r, assign_error, assign_authority) eff"
  ae_getOkr :: "string \<Rightarrow> ('r, assign_error, assign_okr) eff"
  ae_getManagedAgent :: "string \<Rightarrow> ('r, assign_error, assign_managed) eff"
  ae_getMembership :: "string \<Rightarrow> ('r, assign_error, assign_member) eff"
  ae_getCoordinatorBinding :: "string \<Rightarrow> ('r, assign_error, assign_binding) eff"
  ae_listOkrs :: "string option \<Rightarrow> ('r, assign_error, okr_list_page) eff"
  ae_listCurrent :: "string option \<Rightarrow> ('r, assign_error, current_page) eff"
  ae_encrypt :: "string \<Rightarrow> string \<Rightarrow> string \<Rightarrow> string \<Rightarrow> string \<Rightarrow> ('r, assign_error, string option) eff"
  ae_fromBase64 :: "string \<Rightarrow> string option"
  ae_toBase64 :: "string \<Rightarrow> string"
  ae_assign :: "assignment_request \<Rightarrow> tx_data option"

definition AGENT_MANAGER_RUNTIME :: string where
  "AGENT_MANAGER_RUNTIME = ''agent-manager-v1''"

section \<open>The agreement\<close>

definition agentManagerBoundary :: "hash_env \<Rightarrow> json list \<Rightarrow> string option" where
  "agentManagerBoundary H paths = executionBoundaryHash H [(''file.read'', JArray paths), (''file.write'', JArray paths)]"

definition hash_hex :: "int list \<Rightarrow> string" where
  "hash_hex bs = bytesToHex (map (\<lambda>b. char_of (nat b)) bs)"

definition agreement_matches :: "json \<Rightarrow> assign_okr \<Rightarrow> bool" where
  "agreement_matches a okr \<longleftrightarrow>
     field a ''format'' = Some (JNumber 1) \<and> field a ''kind'' = Some (JString AGENT_MANAGER_RUNTIME)
     \<and> field a ''specRecordId'' = Some (JString (ao_spec_record okr)) \<and> field a ''managedAgentId'' = Some (jopt JString (ao_managed_agent okr))
     \<and> field a ''managedVersion'' = Some (jopt (\<lambda>n. JString (dec_string n)) (ao_managed_version okr))
     \<and> field a ''membershipId'' = Some (jopt JString (ao_membership_id okr))
     \<and> field a ''workspaceHash'' = Some (JString (hash_hex (ao_workspace_hash okr)))
     \<and> (case field a ''budget'' of None \<Rightarrow> False
        | Some b \<Rightarrow> field b ''asset'' = Some (JString (ao_budget_asset okr)) \<and> field b ''limit'' = Some (JString (dec_string (ao_budget_limit okr))))
     \<and> field a ''expiresAtMs'' = Some (JString (dec_string (ao_expires_at_ms okr)))"

definition validateAgentManagerAgreement :: "hash_env \<Rightarrow> json \<Rightarrow> assign_okr \<Rightarrow> (assign_error, json) result" where
  "validateAgentManagerAgreement H a okr =
    (if \<not> agreement_matches a okr then Inl As_state_changed
     else (case field a ''allowedPaths'' of
       Some (JArray paths) \<Rightarrow> (case agentManagerBoundary H paths of None \<Rightarrow> Inl As_outside
         | Some h \<Rightarrow> if bytesToHex h = hash_hex (ao_boundary_hash okr) then Inr a else Inl As_state_changed)
     | _ \<Rightarrow> Inl As_state_changed))"

section \<open>The source\<close>

text \<open>The step to the next page of a listing; at most 41 cursors are followed.\<close>

definition next_page :: "bool \<Rightarrow> string option \<Rightarrow> string list \<Rightarrow> (assign_error, string option) result" where
  "next_page hasNextPage cursor seen =
    (if \<not> hasNextPage then Inr None
     else (case cursor of None \<Rightarrow> Inl As_state_changed
           | Some c \<Rightarrow> if c = [] \<or> c \<in> set seen \<or> 40 < length seen then Inl As_state_changed else Inr (Some c)))"

definition okrs_at :: "'r assign_env \<Rightarrow> string option \<Rightarrow> ('r, assign_error, okr_list_page) eff" where
  "okrs_at E cursor = catchE (ae_listOkrs E cursor)
     (\<lambda>e. if cursor = None \<and> e = As_missing_index then okE \<lparr>ol_okrs = [], ol_cursor = None, ol_hasNextPage = False\<rparr> else throwE e)"

fun activeFrom :: "nat \<Rightarrow> 'r assign_env \<Rightarrow> string option \<Rightarrow> string list \<Rightarrow> ('r, assign_error, assign_okr list) eff" where
  "activeFrom 0 E cursor seen = throwE As_pages"
| "activeFrom (Suc n) E cursor seen =
     bindE (okrs_at E cursor) (\<lambda>page.
     let out = filter (\<lambda>k. ao_state k = 1) (ol_okrs page) in
     bindE (liftR (next_page (ol_hasNextPage page) (ol_cursor page) seen)) (\<lambda>more.
     case more of None \<Rightarrow> okE out
     | Some c \<Rightarrow> bindE (activeFrom n E (Some c) (c # seen)) (\<lambda>rest. okE (out @ rest))))"

definition activeA :: "'r assign_env \<Rightarrow> ('r, assign_error, assign_okr list) eff" where
  "activeA E = activeFrom 42 E None []"

definition current_at :: "'r assign_env \<Rightarrow> string option \<Rightarrow> ('r, assign_error, current_page) eff" where
  "current_at E cursor = catchE (ae_listCurrent E cursor)
     (\<lambda>e. if cursor = None \<and> e = As_missing_index then okE \<lparr>cu_keyVersion = ''1'', cu_records = [], cu_cursor = None, cu_hasNextPage = False\<rparr> else throwE e)"

definition contract_kind :: int where
  "contract_kind = 2"

definition revision_on :: "string \<Rightarrow> string \<Rightarrow> current_page \<Rightarrow> string" where
  "revision_on logicalId revision page = (case find (\<lambda>x. ar_kind x = contract_kind \<and> ar_logicalId x = ''okr-'' @ logicalId @ ''-agreement'') (cu_records page) of
     None \<Rightarrow> revision | Some x \<Rightarrow> ar_revision x)"

fun recordsFrom :: "nat \<Rightarrow> 'r assign_env \<Rightarrow> string \<Rightarrow> string option \<Rightarrow> string list \<Rightarrow> string option \<Rightarrow> string \<Rightarrow> ('r, assign_error, string \<times> string) eff" where
  "recordsFrom 0 E logicalId cursor seen keyVersion revision = throwE As_pages"
| "recordsFrom (Suc n) E logicalId cursor seen keyVersion revision =
     bindE (current_at E cursor) (\<lambda>page.
     bindE (assertE (keyVersion = None \<or> keyVersion = Some [] \<or> keyVersion = Some (cu_keyVersion page)) As_state_changed) (\<lambda>_.
     let found = revision_on logicalId revision page in
     bindE (liftR (next_page (cu_hasNextPage page) (cu_cursor page) seen)) (\<lambda>more.
     case more of None \<Rightarrow> okE (cu_keyVersion page, found)
     | Some c \<Rightarrow> recordsFrom n E logicalId (Some c) (c # seen) (Some (cu_keyVersion page)) found)))"

definition recordsA :: "'r assign_env \<Rightarrow> string \<Rightarrow> ('r, assign_error, string \<times> string) eff" where
  "recordsA E logicalId = recordsFrom 42 E logicalId None [] None ''0''"

definition input_ok :: "assignment_input \<Rightarrow> bool" where
  "input_ok x \<longleftrightarrow> is_object_id (ai_okrId x) \<and> is_object_id (ai_managedAgentId x) \<and> positive_text (ai_budgetLimit x) \<and> length (ai_budgetLimit x) \<le> 20
     \<and> ai_allowedPaths x \<noteq> []"

definition sourceA :: "'r assign_env \<Rightarrow> assignment_input \<Rightarrow> ('r, assign_error, assign_source) eff" where
  "sourceA E x =
     bindE (assertE (input_ok x) As_invalid_input) (\<lambda>_.
     bindE (ae_verifyOrganization E ''approve'') (\<lambda>approve.
     bindE (ae_verifyOrganization E ''operate'') (\<lambda>operate.
     bindE (ae_getOkr E (ai_okrId x)) (\<lambda>okr.
     bindE (ae_getManagedAgent E (ai_managedAgentId x)) (\<lambda>managed.
     bindE (assertE (ao_org_id okr = ae_organizationId E \<and> (ao_state okr = 0 \<or> ao_state okr = 2)) As_not_assignable) (\<lambda>_.
     bindE (assertE (am_org_id managed = ae_organizationId E \<and> \<not> am_revoked managed \<and> am_control_confirmed managed
                      \<and> am_runtime managed = AGENT_MANAGER_RUNTIME) As_agent_not_controllable) (\<lambda>_.
     bindE (ae_getMembership E (am_membership_id managed)) (\<lambda>member.
     bindE (assertE (ah_org_id member = ae_organizationId E \<and> \<not> ah_revoked member \<and> ah_host_address member = am_host_address managed
                      \<and> aa_clockMs approve < ah_expires_at_ms member) As_host_not_member) (\<lambda>_.
     bindE (ae_getCoordinatorBinding E (ah_coordinator_binding member)) (\<lambda>binding.
     bindE (assertE (\<not> ad_revoked binding \<and> ad_org_id binding = ae_organizationId E) As_host_not_member) (\<lambda>_.
     bindE (assertE (aa_clockMs approve < ao_deadline_ms okr) As_not_assignable) (\<lambda>_.
     bindE (activeA E) (\<lambda>active.
     bindE (assertE (\<not> list_ex (\<lambda>k. ao_managed_agent k = Some (am_id managed)) active) As_agent_busy) (\<lambda>_.
     bindE (assertE (length active < 3) As_active_limit) (\<lambda>_.
     bindE (recordsA E (ao_logical_id okr)) (\<lambda>records.
     okE \<lparr>as_approve = approve, as_okr = okr, as_managed = managed, as_member = member, as_binding = binding, as_records = records,
          as_pin = (aa_authorityPin approve, aa_authorityPin operate, okr, managed, member, binding, records, map ao_id active)\<rparr>))))))))))))))))"

section \<open>Preparing and submitting\<close>

record assign_plan =
  ap_pin :: assign_pin
  ap_input :: assignment_input

type_synonym ('s, 'r, 'a) assign = "('s, 'r, assign_plan, assign_error, 'a) flow"

definition assign_requestId :: "string \<Rightarrow> int \<Rightarrow> string" where
  "assign_requestId okrId okrVersion = ''okr-assign:'' @ okrId @ '':'' @ dec_string okrVersion"

definition queryA :: "'r assign_env \<Rightarrow> ('s, 'x) journal_ops \<Rightarrow> string \<Rightarrow> int \<Rightarrow> ('s, 'r, tx_outcome option) assign" where
  "queryA E J okrId okrVersion = managerE (query (ae_client E) J (assign_requestId okrId okrVersion))"

definition agreement_json :: "assign_source \<Rightarrow> assignment_input \<Rightarrow> json" where
  "agreement_json s x = JObject [(''format'', JNumber 1), (''kind'', JString AGENT_MANAGER_RUNTIME), (''specRecordId'', JString (ao_spec_record (as_okr s))),
     (''managedAgentId'', JString (am_id (as_managed s))), (''managedVersion'', JString (dec_string (am_version (as_managed s)))),
     (''membershipId'', JString (ah_id (as_member s))), (''instanceId'', JString (am_instance_id (as_managed s))),
     (''workspaceHash'', JString (hash_hex (am_workspace_hash (as_managed s)))), (''allowedPaths'', JArray (map JString (ai_allowedPaths x))),
     (''budget'', JObject [(''asset'', JString ''TOOL_CALLS''), (''limit'', JString (ai_budgetLimit x))]),
     (''expiresAtMs'', JString (dec_string (ao_deadline_ms (as_okr s)))),
     (''enforced'', JArray (map JString [''deliver'', ''stop'', ''record_claimed''])), (''notEnforced'', JArray (map JString [''tool_use'', ''model_spending'']))]"

definition assignment_of :: "assign_source \<Rightarrow> assignment_input \<Rightarrow> string \<Rightarrow> string \<Rightarrow> assignment_request" where
  "assignment_of s x boundary body = \<lparr>aq_okrId = ao_id (as_okr s), aq_expectedVersion = ao_version (as_okr s), aq_membershipId = ah_id (as_member s),
     aq_bindingId = ad_id (as_binding s), aq_managedAgentId = am_id (as_managed s), aq_workspaceHash = am_workspace_hash (as_managed s),
     aq_boundaryHash = boundary, aq_budgetAsset = ''TOOL_CALLS'', aq_budgetLimit = ai_budgetLimit x, aq_expiresAtMs = ao_deadline_ms (as_okr s),
     aq_expectedRecordRevision = snd (as_records s), aq_keyVersion = fst (as_records s), aq_encryptedBody = body\<rparr>"

definition sealA :: "'r assign_env \<Rightarrow> assign_source \<Rightarrow> assignment_input \<Rightarrow> ('r, assign_error, string \<times> string) eff" where
  "sealA E s x =
    (case agentManagerBoundary (ae_hash E) (map JString (ai_allowedPaths x)) of None \<Rightarrow> throwE As_outside
     | Some boundary \<Rightarrow>
         bindE (ae_encrypt E (aa_encryptedKeys (as_approve s)) (''okr-'' @ ao_logical_id (as_okr s) @ ''-agreement'')
                  (dec_string (dec_value (snd (as_records s)) + 1)) (fst (as_records s)) (stringify (agreement_json s x))) (\<lambda>encrypted.
         case sealed_text (ae_fromBase64 E) (ae_toBase64 E) encrypted of None \<Rightarrow> throwE As_invalid_ciphertext
         | Some body \<Rightarrow> okE (boundary, body)))"

definition prepareA :: "nat \<Rightarrow> 'r assign_env \<Rightarrow> ('s, 'x) journal_ops \<Rightarrow> assignment_input \<Rightarrow> ('s, 'r, fee_quote + tx_outcome) assign" where
  "prepareA pages E J x =
     bindE (outsideE (sourceA E x)) (\<lambda>s.
     bindE (queryA E J (ao_id (as_okr s)) (ao_version (as_okr s))) (\<lambda>prior.
     case prior of Some c \<Rightarrow> okE (Inr c)
     | None \<Rightarrow>
         bindE (outsideE (sealA E s x)) (\<lambda>(boundary, body).
         case ae_assign E (assignment_of s x boundary body) of None \<Rightarrow> throwE (Flow As_outside)
         | Some tx \<Rightarrow>
             bindE (managerE (prepare pages (ae_client E) J \<lparr>pi_requestId = assign_requestId (ao_id (as_okr s)) (ao_version (as_okr s)),
                      pi_transaction = tx, pi_gasBudget = UBigInt 200000000, pi_maxSuiSpend = None\<rparr>)) (\<lambda>quote.
             bindE (remember quote \<lparr>ap_pin = as_pin s, ap_input = x\<rparr>) (\<lambda>_.
             okE (Inl quote))))))"

definition recheckA :: "'r assign_env \<Rightarrow> assign_plan \<Rightarrow> ('r, assign_error, unit) eff" where
  "recheckA E plan = bindE (sourceA E (ap_input plan)) (\<lambda>s. assertE (as_pin s = ap_pin plan) As_state_changed)"

definition no_guard :: "('r, assign_error, unit) eff" where
  "no_guard = okE ()"

text \<open>The guard runs once, before the manager's submit; the signer's own guard does nothing.\<close>

definition submitA :: "'r assign_env \<Rightarrow> ('s, 'x) journal_ops \<Rightarrow> fee_quote \<Rightarrow> ('s, 'r, tx_outcome) assign" where
  "submitA E J q =
     bindE (getE (\<lambda>w. map_of (fw_plans w) q)) (\<lambda>found.
     case found of None \<Rightarrow> throwE (Flow As_invalid_quote)
     | Some plan \<Rightarrow>
         bindE (outsideE (recheckA E plan)) (\<lambda>_.
         managerE (broadcast (guarded_client (ae_client E) no_guard) J q)))"

section \<open>Listings end\<close>

text \<open>The code's own bound on the cursors ends both listings: the fuel of 42 pages is never used up.\<close>

lemma next_page_seen: "next_page h c seen = Inr (Some d) \<Longrightarrow> length seen \<le> 40"
  by (auto simp: next_page_def split: if_split_asm option.split_asm)

lemma next_page_error: "next_page h c seen = Inl e \<Longrightarrow> e = As_state_changed"
  by (auto simp: next_page_def split: if_split_asm option.split_asm)

lemma activeFrom_ends:
  assumes "\<And>c r. fst (ae_listOkrs E c r) \<noteq> Inl As_pages"
  shows "42 \<le> n + length seen \<Longrightarrow> 0 < n \<Longrightarrow> fst (activeFrom n E c seen r) \<noteq> Inl As_pages"
proof (induction n arbitrary: c seen r)
  case (Suc n)
  obtain x r1 where x: "okrs_at E c r = (x, r1)" by fastforce
  have known: "x \<noteq> Inl As_pages"
    using x assms [of c r] by (auto simp: okrs_at_def catchE_def eff_run split: prod.split_asm sum.split_asm if_split_asm) 
  have more: "fst (activeFrom n E (Some d) (d # seen) r1) \<noteq> Inl As_pages" if "next_page h k seen = Inr (Some d)" for h k d
    using Suc.IH [of "d # seen" "Some d" r1] Suc.prems next_page_seen [OF that] by simp
  show ?case
    using x known by (auto simp: eff_run Let_def split: sum.split option.split prod.split dest!: next_page_error more)
qed simp

lemma recordsFrom_ends:
  assumes "\<And>c r. fst (ae_listCurrent E c r) \<noteq> Inl As_pages"
  shows "42 \<le> n + length seen \<Longrightarrow> 0 < n \<Longrightarrow> fst (recordsFrom n E i c seen k v r) \<noteq> Inl As_pages"
proof (induction n arbitrary: c seen k v r)
  case (Suc n)
  obtain x r1 where x: "current_at E c r = (x, r1)" by fastforce
  have known: "x \<noteq> Inl As_pages"
    using x assms [of c r] by (auto simp: current_at_def catchE_def eff_run split: prod.split_asm sum.split_asm if_split_asm)
  have more: "fst (recordsFrom n E i (Some d) (d # seen) a b r1) \<noteq> Inl As_pages" if "next_page h j seen = Inr (Some d)" for h j d a b
    using Suc.IH [of "d # seen" "Some d" a b r1] Suc.prems next_page_seen [OF that] by simp
  show ?case
    using x known more by (auto simp: eff_run Let_def split: sum.split option.split dest!: next_page_error)
qed simp

section \<open>What is submitted\<close>

definition assignable :: "'r assign_env \<Rightarrow> assign_source \<Rightarrow> bool" where
  "assignable E s \<longleftrightarrow>
     ao_org_id (as_okr s) = ae_organizationId E \<and> ao_state (as_okr s) \<in> {0, 2} \<and> aa_clockMs (as_approve s) < ao_deadline_ms (as_okr s)
     \<and> am_org_id (as_managed s) = ae_organizationId E \<and> \<not> am_revoked (as_managed s) \<and> am_control_confirmed (as_managed s)
     \<and> am_runtime (as_managed s) = AGENT_MANAGER_RUNTIME
     \<and> \<not> ah_revoked (as_member s) \<and> ah_host_address (as_member s) = am_host_address (as_managed s) \<and> aa_clockMs (as_approve s) < ah_expires_at_ms (as_member s)
     \<and> \<not> ad_revoked (as_binding s)
     \<and> (\<exists>active r. fst (activeA E r) = Inr active \<and> length active < 3 \<and> (\<forall>k\<in>set active. ao_managed_agent k \<noteq> Some (am_id (as_managed s))))"

lemma sourceA_ok:
  assumes "sourceA E x r = (Inr s, r')"
  shows "assignable E s \<and> input_ok x"
proof -
  from assms obtain active r1 r2 where active: "activeA E r1 = (Inr active, r2)" "\<not> list_ex (\<lambda>k. ao_managed_agent k = Some (am_id (as_managed s))) active"
      "length active < 3"
    and rest: "ao_org_id (as_okr s) = ae_organizationId E \<and> ao_state (as_okr s) \<in> {0, 2} \<and> aa_clockMs (as_approve s) < ao_deadline_ms (as_okr s)
     \<and> am_org_id (as_managed s) = ae_organizationId E \<and> \<not> am_revoked (as_managed s) \<and> am_control_confirmed (as_managed s)
     \<and> am_runtime (as_managed s) = AGENT_MANAGER_RUNTIME
     \<and> \<not> ah_revoked (as_member s) \<and> ah_host_address (as_member s) = am_host_address (as_managed s) \<and> aa_clockMs (as_approve s) < ah_expires_at_ms (as_member s)
     \<and> \<not> ad_revoked (as_binding s)" and input: "input_ok x"
    unfolding sourceA_def by (auto simp: eff_oks elim!: bindE_okE)
  from active have "fst (activeA E r1) = Inr active" "\<forall>k\<in>set active. ao_managed_agent k \<noteq> Some (am_id (as_managed s))"
    by (simp_all add: list_ex_iff)
  then show ?thesis using rest input active(3) unfolding assignable_def by blast
qed

text \<open>
  An assignment is submitted only after one more full read: if anything is broadcast, exactly the unused prepared transaction of this quote is sent,
  once, and the source was read again before with everything as it was when the quote was prepared: the objective unassigned and before its
  deadline, the Agent controllable, its Host a member, no active objective of the Agent and fewer than three active ones in the organization.
\<close>

theorem assignment_read_again:
  assumes "submitA E J q w = (x, w')" "w_sent (fw_manager w') \<noteq> w_sent (fw_manager w)"
  shows "\<exists>plan p s. map_of (fw_plans w) q = Some plan \<and> p \<in> set (w_prepared (fw_manager w)) \<and> p_quote p = q \<and> \<not> p_used p
    \<and> w_sent (fw_manager w') = (entry_key (p_entry p), je_digest (p_entry p)) # w_sent (fw_manager w)
    \<and> fst (sourceA E (ap_input plan) (w_rpc (fw_manager w))) = Inr s \<and> as_pin s = ap_pin plan \<and> assignable E s"
proof -
  obtain plan where plan: "map_of (fw_plans w) q = Some plan"
    using assms by (cases "map_of (fw_plans w) q") (auto simp: submitA_def eff_run)
  obtain y r1 where y: "recheckA E plan (w_rpc (fw_manager w)) = (y, r1)" by fastforce
  have "y = Inr ()" using assms plan y by (cases y) (auto simp: submitA_def eff_run outsideE_def)
  then obtain s where s: "sourceA E (ap_input plan) (w_rpc (fw_manager w)) = (Inr s, r1)" "as_pin s = ap_pin plan"
    using y by (auto simp: recheckA_def eff_oks elim!: bindE_okE)
  let ?m = "(fw_manager w)\<lparr>w_rpc := r1\<rparr>"
  obtain z v where run: "broadcast (guarded_client (ae_client E) no_guard) J q ?m = (z, v)" by fastforce
  have v: "w_sent (fw_manager w') = w_sent v"
    using assms(1) plan y \<open>y = Inr ()\<close> run by (auto simp: submitA_def eff_run outsideE_def managerE_def)
  then have "w_sent v \<noteq> w_sent ?m" using assms(2) by simp
  from guarded_broadcast_sent [OF run this] v plan s sourceA_ok [OF s(1)] show ?thesis
    by auto
qed

section \<open>The agreement that was assigned is accepted\<close>

text \<open>The objective as the transaction leaves it.\<close>

definition assigned :: "assign_source \<Rightarrow> assignment_input \<Rightarrow> string \<Rightarrow> assign_okr \<Rightarrow> bool" where
  "assigned s x boundary k \<longleftrightarrow>
     ao_spec_record k = ao_spec_record (as_okr s) \<and> ao_managed_agent k = Some (am_id (as_managed s)) \<and> ao_managed_version k = Some (am_version (as_managed s))
     \<and> ao_membership_id k = Some (ah_id (as_member s)) \<and> ao_workspace_hash k = am_workspace_hash (as_managed s)
     \<and> map (\<lambda>b. char_of (nat b)) (ao_boundary_hash k) = boundary \<and> ao_budget_asset k = ''TOOL_CALLS'' \<and> dec_string (ao_budget_limit k) = ai_budgetLimit x
     \<and> ao_expires_at_ms k = ao_deadline_ms (as_okr s)"

text \<open>
  C31. The agreement that is sealed with an assignment, read back from its text, is accepted for the objective that the assignment leaves.
\<close>

theorem sealed_agreement_accepted:
  assumes "agentManagerBoundary (ae_hash E) (map JString (ai_allowedPaths x)) = Some boundary" "assigned s x boundary k"
  shows "\<exists>a. json_parse (stringify (agreement_json s x)) = Some a \<and> validateAgentManagerAgreement (ae_hash E) a k = Inr a"
proof -
  have "agreement_matches (agreement_json s x) k" "field (agreement_json s x) ''allowedPaths'' = Some (JArray (map JString (ai_allowedPaths x)))"
    using assms(2) by (simp_all add: agreement_matches_def agreement_json_def field_def assigned_def jopt_def)
  then show ?thesis using assms by (simp add: json_parse_stringify validateAgentManagerAgreement_def hash_hex_def assigned_def)
qed

section \<open>A sample assignment\<close>

definition assign_id :: "char \<Rightarrow> string" where
  "assign_id c = ''0x'' @ replicate 64 c"

definition sample_assign_okr :: assign_okr where
  "sample_assign_okr = \<lparr>ao_id = assign_id (CHR ''1''), ao_logical_id = ''goal'', ao_org_id = ''org'', ao_state = 0, ao_version = 4, ao_spec_record = ''spec'', ao_deadline_ms = 90,
     ao_managed_agent = None, ao_managed_version = None, ao_membership_id = None, ao_workspace_hash = [], ao_boundary_hash = [], ao_budget_asset = [],
     ao_budget_limit = 0, ao_expires_at_ms = 0, ao_rest = JNull\<rparr>"

definition assign_agent :: assign_managed where
  "assign_agent = \<lparr>am_id = assign_id (CHR ''2''), am_org_id = ''org'', am_version = 3, am_instance_id = ''tmux'', am_host_address = ''node'', am_membership_id = ''m'',
        am_revoked = False, am_control_confirmed = True, am_runtime = ''agent-manager-v1'', am_workspace_hash = [1], am_rest = JNull\<rparr>"

definition assign_host :: assign_member where
  "assign_host = \<lparr>ah_id = ''m'', ah_org_id = ''org'', ah_revoked = False, ah_host_address = ''node'', ah_expires_at_ms = 90, ah_coordinator_binding = ''b'', ah_rest = JNull\<rparr>"

definition assign_coordinator :: assign_binding where
  "assign_coordinator = \<lparr>ad_id = ''b'', ad_org_id = ''org'', ad_revoked = False, ad_rest = JNull\<rparr>"

definition sample_assign :: "unit assign_env" where
  "sample_assign = \<lparr>ae_client = flow_client, ae_organizationId = ''org'', ae_hash = sample_hash,
     ae_verifyOrganization = (\<lambda>a. okE \<lparr>aa_authorityPin = a, aa_encryptedKeys = ''keys'', aa_clockMs = 5\<rparr>), ae_getOkr = (\<lambda>i. okE sample_assign_okr),
     ae_getManagedAgent = (\<lambda>i. okE assign_agent), ae_getMembership = (\<lambda>i. okE assign_host),
     ae_getCoordinatorBinding = (\<lambda>i. okE assign_coordinator), ae_listOkrs = (\<lambda>c. throwE As_missing_index),
     ae_listCurrent = (\<lambda>c. okE \<lparr>cu_keyVersion = ''6'', cu_records = [\<lparr>ar_kind = 2, ar_logicalId = ''okr-goal-agreement'', ar_revision = ''8''\<rparr>],
        cu_cursor = None, cu_hasNextPage = False\<rparr>),
     ae_encrypt = (\<lambda>k i r v t. okE (Some (''FME1'' @ replicate 40 (CHR ''e'')))), ae_fromBase64 = Some, ae_toBase64 = (\<lambda>s. s),
     ae_assign = (\<lambda>q. Some (pi_transaction sample_input))\<rparr>"

definition sample_assign_input :: assignment_input where
  "sample_assign_input = \<lparr>ai_okrId = assign_id (CHR ''1''), ai_managedAgentId = assign_id (CHR ''2''), ai_budgetLimit = ''50'', ai_allowedPaths = [''src'', ''doc'']\<rparr>"

definition assign_source_read :: assign_source where
  "assign_source_read = \<lparr>as_approve = \<lparr>aa_authorityPin = ''approve'', aa_encryptedKeys = ''keys'', aa_clockMs = 5\<rparr>, as_okr = sample_assign_okr,
     as_managed = assign_agent,
     as_member = assign_host,
     as_binding = assign_coordinator, as_records = (''6'', ''8''),
     as_pin = (''approve'', ''operate'', sample_assign_okr, assign_agent, assign_host, assign_coordinator, (''6'', ''8''), [])\<rparr>"

definition assign_ready :: "(idb_state, unit, assign_plan) flow_world" where
  "assign_ready = snd (bindE (managerE (prepare 1 flow_client indexed_db_ops \<lparr>pi_requestId = ''r1'', pi_transaction = pi_transaction sample_input,
       pi_gasBudget = UBigInt 200000000, pi_maxSuiSpend = None\<rparr>)) (\<lambda>q. remember q \<lparr>ap_pin = as_pin assign_source_read, ap_input = sample_assign_input\<rparr> :: (idb_state, unit, unit) assign)
     \<lparr>fw_manager = sample_world, fw_plans = []\<rparr>)"

definition assign_quote :: fee_quote where
  "assign_quote = fst (hd (fw_plans assign_ready))"

theorem assignment_read_again_witness:
  "w_sent (fw_manager (snd (submitA sample_assign indexed_db_ops assign_quote assign_ready))) \<noteq> []
   \<and> (\<exists>plan s. map_of (fw_plans assign_ready) assign_quote = Some plan \<and> fst (sourceA sample_assign (ap_input plan) ()) = Inr s \<and> assignable sample_assign s)"
proof -
  let ?run = "submitA sample_assign indexed_db_ops assign_quote assign_ready"
  have sent: "w_sent (fw_manager (snd ?run)) \<noteq> []" and none: "w_sent (fw_manager assign_ready) = []" by code_simp+
  then have grown: "w_sent (fw_manager (snd ?run)) \<noteq> w_sent (fw_manager assign_ready)" by simp
  have run: "?run = (fst ?run, snd ?run)" by simp
  from assignment_read_again [OF run grown] obtain plan s where "map_of (fw_plans assign_ready) assign_quote = Some plan"
      "fst (sourceA sample_assign (ap_input plan) (w_rpc (fw_manager assign_ready))) = Inr s" "assignable sample_assign s" by blast
  then show ?thesis using sent by (metis (full_types) old.unit.exhaust)
qed

theorem sealed_agreement_accepted_witness:
  "\<exists>boundary k a. agentManagerBoundary sample_hash (map JString [''src'', ''doc'']) = Some boundary
     \<and> json_parse (stringify (agreement_json assign_source_read sample_assign_input)) = Some a \<and> validateAgentManagerAgreement sample_hash a k = Inr a
     \<and> ao_id k = assign_id (CHR ''1'')"
proof -
  have "agentManagerBoundary sample_hash (map JString [''src'', ''doc'']) \<noteq> None" by code_simp
  then obtain boundary where b: "agentManagerBoundary sample_hash (map JString [''src'', ''doc'']) = Some boundary" by blast
  define k where "k = sample_assign_okr\<lparr>ao_managed_agent := Some (assign_id (CHR ''2'')), ao_managed_version := Some 3, ao_membership_id := Some ''m'',
     ao_workspace_hash := [1], ao_boundary_hash := map (\<lambda>c. int (of_char c)) boundary, ao_budget_asset := ''TOOL_CALLS'', ao_budget_limit := 50, ao_expires_at_ms := 90\<rparr>"
  have limit: "dec_string 50 = ''50''" by code_simp
  have "assigned assign_source_read sample_assign_input boundary k"
    by (simp add: assigned_def k_def assign_source_read_def assign_agent_def assign_host_def sample_assign_okr_def sample_assign_input_def limit comp_def)
  moreover have "ae_hash sample_assign = sample_hash" "ai_allowedPaths sample_assign_input = [''src'', ''doc'']" by (simp_all add: sample_assign_def sample_assign_input_def)
  ultimately obtain a where "json_parse (stringify (agreement_json assign_source_read sample_assign_input)) = Some a"
      "validateAgentManagerAgreement sample_hash a k = Inr a"
    using sealed_agreement_accepted [of sample_assign sample_assign_input boundary assign_source_read k] b by auto
  moreover have "ao_id k = assign_id (CHR ''1'')" by (simp add: k_def sample_assign_okr_def)
  ultimately show ?thesis using b by blast
qed

end
