(* ===== verification/Handover_Proof.thy ===== *)
theory Handover_Proof
  imports Node_Command
begin

text \<open>
  The Host's proof of a handover review, \<^verbatim>\<open>protocols/fractalmind-protocol/sdk/src/handover.ts\<close>: the hash of a proposed agreement, the bytes a Host signs
  when it accepts one, the verification of its signature and the freshness of the acceptance. The BCS serializers of the two structures are a
  package: the fields of \<open>handover_bcs\<close>, injective where a property needs it.
\<close>

section \<open>Proposals and acceptances\<close>

definition HANDOVER_REVIEW_WINDOW_MS :: int where
  "HANDOVER_REVIEW_WINDOW_MS = 300000"

record handover_proposal =
  hv_version :: string
  hv_managed_agent_id :: string
  hv_managed_version :: string
  hv_okr_id :: string
  hv_okr_version :: string
  hv_spec_revision :: string
  hv_workspace_hash :: string
  hv_paths :: "(string \<times> json) list"
  hv_budget_asset :: string
  hv_budget_limit :: string
  hv_max_calls :: string
  hv_expires_at_ms :: int
  hv_nonce :: string
  hv_review_expires_at_ms :: int

record handover_acceptance =
  hx_version :: string
  hx_execution_id :: string
  hx_organization_id :: string
  hx_human_id :: string
  hx_grant_id :: string
  hx_membership_id :: string
  hx_binding_id :: string
  hx_host_address :: string
  hx_instance_id :: string
  hx_proposal :: handover_proposal
  hx_coverage_revision :: string
  hx_observed_at_ms :: int
  hx_signature :: string

text \<open>The fields that are serialized; the version byte is always 1.\<close>

record proposal_data =
  pd_managed :: string
  pd_okr :: string
  pd_managed_version :: int
  pd_okr_version :: int
  pd_spec_revision :: int
  pd_workspace :: string
  pd_boundary :: string
  pd_asset :: string
  pd_limit :: int
  pd_max_calls :: int
  pd_expires :: int
  pd_review_expires :: int
  pd_nonce :: string

record acceptance_data =
  ad_execution :: string
  ad_organization :: string
  ad_human :: string
  ad_grant :: string
  ad_membership :: string
  ad_binding :: string
  ad_host :: string
  ad_instance :: string
  ad_proposal_hash :: string
  ad_coverage_revision :: int
  ad_observed_at :: int

record handover_bcs =
  hb_proposal :: "proposal_data \<Rightarrow> string"
  hb_acceptance :: "acceptance_data \<Rightarrow> string"

datatype handover_error = Canonical_id | Canonical_hash | Positive_u64 | U64_overflow | Safe_timestamp | Unsupported_proposal | Invalid_budget
  | Invalid_boundary | Invalid_acceptance | Host_mismatch | Invalid_signature | Host_signature_mismatch | Acceptance_expired

section \<open>Checked fields\<close>

definition domainBytes :: "string \<Rightarrow> string \<Rightarrow> string" where
  "domainBytes domain data = domain @ data"

definition handover_id :: "string \<Rightarrow> (handover_error, string) result" where
  "handover_id s = (if is_object_id s then Inr s else Inl Canonical_id)"

definition hex32 :: "string \<Rightarrow> (handover_error, string) result" where
  "hex32 s = (if is_hex64 s then Inr (hexToBytes s) else Inl Canonical_hash)"

definition positiveU64 :: "string \<Rightarrow> (handover_error, int) result" where
  "positiveU64 s = (if \<not> positive_text s then Inl Positive_u64 else if MAX_U64 < dec_value s then Inl U64_overflow else Inr (dec_value s))"

definition timestampH :: "int \<Rightarrow> (handover_error, int) result" where
  "timestampH t = (if is_safe_integer (Some t) \<and> 0 < t then Inr t else Inl Safe_timestamp)"

definition proposal_dataR :: "hash_env \<Rightarrow> handover_proposal \<Rightarrow> (handover_error, proposal_data) result" where
  "proposal_dataR H p =
     bindR (assertR (hv_version p = ''1'' \<and> hv_budget_asset p = ''TOOL_CALLS'') Unsupported_proposal) (\<lambda>_.
     bindR (positiveU64 (hv_budget_limit p)) (\<lambda>limit.
     bindR (positiveU64 (hv_max_calls p)) (\<lambda>mx.
     bindR (assertR (mx \<le> 1000 \<and> mx \<le> limit) Invalid_budget) (\<lambda>_.
     bindR (timestampH (hv_review_expires_at_ms p)) (\<lambda>review.
     bindR (timestampH (hv_expires_at_ms p)) (\<lambda>expires.
     bindR (assertR (review \<le> expires) Invalid_budget) (\<lambda>_.
     bindR (handover_id (hv_managed_agent_id p)) (\<lambda>managed.
     bindR (handover_id (hv_okr_id p)) (\<lambda>okr.
     bindR (positiveU64 (hv_managed_version p)) (\<lambda>mv.
     bindR (positiveU64 (hv_okr_version p)) (\<lambda>ov.
     bindR (positiveU64 (hv_spec_revision p)) (\<lambda>sr.
     bindR (hex32 (hv_workspace_hash p)) (\<lambda>workspace.
     bindR (case executionBoundaryHash H (hv_paths p) of None \<Rightarrow> Inl Invalid_boundary | Some b \<Rightarrow> Inr b) (\<lambda>boundary.
     bindR (hex32 (hv_nonce p)) (\<lambda>nonce.
     Inr \<lparr>pd_managed = managed, pd_okr = okr, pd_managed_version = mv, pd_okr_version = ov, pd_spec_revision = sr, pd_workspace = workspace,
          pd_boundary = boundary, pd_asset = hv_budget_asset p, pd_limit = limit, pd_max_calls = mx, pd_expires = expires, pd_review_expires = review,
          pd_nonce = nonce\<rparr>)))))))))))))))"

definition handoverProposalHash :: "hash_env \<Rightarrow> handover_bcs \<Rightarrow> handover_proposal \<Rightarrow> (handover_error, string) result" where
  "handoverProposalHash H B p = bindR (proposal_dataR H p) (\<lambda>d. Inr (sha256 H (domainBytes ''fractalmind.handover-proposal.v1'' (hb_proposal B d))))"

definition native_instance_name :: "string \<Rightarrow> bool" where
  "native_instance_name s \<longleftrightarrow> take 7 s = ''native-'' \<and> is_hex64 (drop 7 s)"

definition acceptance_dataR :: "hash_env \<Rightarrow> handover_bcs \<Rightarrow> handover_acceptance \<Rightarrow> (handover_error, acceptance_data) result" where
  "acceptance_dataR H B a =
     bindR (assertR (hx_version a = ''1'' \<and> native_instance_name (hx_instance_id a)) Invalid_acceptance) (\<lambda>_.
     bindR (timestampH (hx_observed_at_ms a)) (\<lambda>observed.
     bindR (assertR (observed < hv_review_expires_at_ms (hx_proposal a)
                     \<and> hv_review_expires_at_ms (hx_proposal a) - observed \<le> HANDOVER_REVIEW_WINDOW_MS) Invalid_acceptance) (\<lambda>_.
     bindR (handover_id (hx_execution_id a)) (\<lambda>execution.
     bindR (handover_id (hx_organization_id a)) (\<lambda>organization.
     bindR (handover_id (hx_human_id a)) (\<lambda>human.
     bindR (handover_id (hx_grant_id a)) (\<lambda>grant.
     bindR (handover_id (hx_membership_id a)) (\<lambda>membership.
     bindR (handover_id (hx_binding_id a)) (\<lambda>binding.
     bindR (handover_id (hx_host_address a)) (\<lambda>host.
     bindR (handoverProposalHash H B (hx_proposal a)) (\<lambda>hash.
     bindR (positiveU64 (hx_coverage_revision a)) (\<lambda>revision.
     Inr \<lparr>ad_execution = execution, ad_organization = organization, ad_human = human, ad_grant = grant, ad_membership = membership, ad_binding = binding,
          ad_host = host, ad_instance = hx_instance_id a, ad_proposal_hash = hash, ad_coverage_revision = revision, ad_observed_at = observed\<rparr>))))))))))))"

definition handoverAcceptanceSigningBytes :: "hash_env \<Rightarrow> handover_bcs \<Rightarrow> handover_acceptance \<Rightarrow> (handover_error, string) result" where
  "handoverAcceptanceSigningBytes H B a =
     bindR (acceptance_dataR H B a) (\<lambda>d. Inr (domainBytes ''fractalmind.handover-acceptance.v1'' (hb_acceptance B d)))"

definition verifyHandoverAcceptanceSignature :: "hash_env \<Rightarrow> key_env \<Rightarrow> handover_bcs \<Rightarrow> handover_acceptance \<Rightarrow> string \<Rightarrow> (handover_error, unit) result" where
  "verifyHandoverAcceptanceSignature H K B a expectedHost =
     bindR (handover_id expectedHost) (\<lambda>host.
     bindR (assertR (host = hx_host_address a) Host_mismatch) (\<lambda>_.
     case match_signature (hx_signature a) of None \<Rightarrow> Inl Invalid_signature
     | Some (key, sig) \<Rightarrow>
         bindR (assertR (ke_address K (hexToBytes key) = expectedHost) Host_signature_mismatch) (\<lambda>_.
         bindR (handoverAcceptanceSigningBytes H B a) (\<lambda>bytes.
         assertR (ke_verify K (hexToBytes key) bytes (hexToBytes sig)) Host_signature_mismatch))))"

definition assertFreshHandoverAcceptance :: "hash_env \<Rightarrow> handover_bcs \<Rightarrow> handover_acceptance \<Rightarrow> int \<Rightarrow> handover_proposal \<Rightarrow> (handover_error, unit) result" where
  "assertFreshHandoverAcceptance H B a chainTimeMs expected =
     bindR (timestampH chainTimeMs) (\<lambda>_.
     bindR (handoverAcceptanceSigningBytes H B a) (\<lambda>_.
     bindR (assertR (hx_observed_at_ms a \<le> chainTimeMs \<and> chainTimeMs < hv_review_expires_at_ms (hx_proposal a)) Acceptance_expired) (\<lambda>_.
     bindR (handoverProposalHash H B (hx_proposal a)) (\<lambda>accepted.
     bindR (handoverProposalHash H B expected) (\<lambda>wanted.
     assertR (bytesToHex accepted = bytesToHex wanted) Acceptance_expired)))))"

section \<open>What is hashed and signed\<close>

lemma timestampH_Inr: "timestampH t = Inr s \<longleftrightarrow> s = t \<and> is_safe_integer (Some t) \<and> 0 < t"
  by (auto simp: timestampH_def)

lemma handover_id_Inr: "handover_id s = Inr t \<longleftrightarrow> t = s \<and> is_object_id s"
  by (auto simp: handover_id_def)

lemma hex32_Inr: "hex32 s = Inr b \<Longrightarrow> is_hex64 s \<and> b = hexToBytes s"
  by (auto simp: hex32_def split: if_split_asm)

lemma positiveU64_Inr: "positiveU64 s = Inr n \<longleftrightarrow> positive_text s \<and> n = dec_value s \<and> n \<le> MAX_U64"
  by (auto simp: positiveU64_def)

text \<open>The parts of a proposal that its hash covers.\<close>

definition proposal_terms :: "hash_env \<Rightarrow> handover_proposal \<Rightarrow> string list \<times> int list \<times> string option" where
  "proposal_terms H p = ([hv_managed_agent_id p, hv_okr_id p, hexToBytes (hv_workspace_hash p), hexToBytes (hv_nonce p), hv_budget_asset p],
     [dec_value (hv_managed_version p), dec_value (hv_okr_version p), dec_value (hv_spec_revision p), dec_value (hv_budget_limit p), dec_value (hv_max_calls p),
      hv_expires_at_ms p, hv_review_expires_at_ms p], executionBoundaryHash H (hv_paths p))"

lemma proposal_dataR_terms:
  assumes "proposal_dataR H p = Inr d"
  shows "proposal_terms H p = ([pd_managed d, pd_okr d, pd_workspace d, pd_nonce d, pd_asset d],
    [pd_managed_version d, pd_okr_version d, pd_spec_revision d, pd_limit d, pd_max_calls d, pd_expires d, pd_review_expires d], Some (pd_boundary d))
    \<and> pd_max_calls d \<le> pd_limit d \<and> pd_max_calls d \<le> 1000 \<and> pd_review_expires d \<le> pd_expires d"
  using assms
  by (auto simp: proposal_dataR_def proposal_terms_def result_simps timestampH_Inr handover_id_Inr positiveU64_Inr dest!: hex32_Inr split: option.split_asm)

lemma proposal_hash_terms:
  assumes "handoverProposalHash H B p = Inr h" "handoverProposalHash H B q = Inr h" "inj (hb_proposal B)"
  shows "proposal_terms H p = proposal_terms H q \<or> collision H"
proof -
  from assms(1,2) obtain d e where d: "proposal_dataR H p = Inr d" "proposal_dataR H q = Inr e"
    and hash: "sha256 H (domainBytes ''fractalmind.handover-proposal.v1'' (hb_proposal B d)) = sha256 H (domainBytes ''fractalmind.handover-proposal.v1'' (hb_proposal B e))"
    by (auto simp: handoverProposalHash_def result_simps)
  show ?thesis
  proof (cases "collision H")
    case False
    with sha256_eq [OF hash] have "hb_proposal B d = hb_proposal B e" by (simp add: domainBytes_def)
    then have "d = e" using assms(3) by (simp add: inj_eq)
    then show ?thesis using proposal_dataR_terms [OF d(1)] proposal_dataR_terms [OF d(2)] by metis
  qed simp
qed

text \<open>Everything that a Host's signature over an acceptance says.\<close>

definition acceptance_terms :: "handover_acceptance \<Rightarrow> string list \<times> int \<times> int" where
  "acceptance_terms a = ([hx_execution_id a, hx_organization_id a, hx_human_id a, hx_grant_id a, hx_membership_id a, hx_binding_id a, hx_host_address a, hx_instance_id a],
     dec_value (hx_coverage_revision a), hx_observed_at_ms a)"

lemma acceptance_dataR_terms:
  assumes "acceptance_dataR H B a = Inr d"
  shows "acceptance_terms a = ([ad_execution d, ad_organization d, ad_human d, ad_grant d, ad_membership d, ad_binding d, ad_host d, ad_instance d],
      ad_coverage_revision d, ad_observed_at d)
    \<and> handoverProposalHash H B (hx_proposal a) = Inr (ad_proposal_hash d)
    \<and> hx_observed_at_ms a < hv_review_expires_at_ms (hx_proposal a) \<and> hv_review_expires_at_ms (hx_proposal a) - hx_observed_at_ms a \<le> HANDOVER_REVIEW_WINDOW_MS"
  using assms
  by (auto simp: acceptance_dataR_def acceptance_terms_def result_simps timestampH_Inr handover_id_Inr positiveU64_Inr)

text \<open>
  C32. A Host's signature accepts one agreement: if two acceptances have the same signing bytes, they are about the same execution, organization, Human,
  grant, membership, binding, Host and instance, observed at the same revision and time, and of the same terms (Agent, objective, versions,
  workspace, paths, budget, calls, expiries and nonce), unless SHA-256 has a collision.
\<close>

theorem acceptance_binds:
  assumes "handoverAcceptanceSigningBytes H B a = Inr s" "handoverAcceptanceSigningBytes H B b = Inr s" "inj (hb_acceptance B)" "inj (hb_proposal B)"
  shows "acceptance_terms a = acceptance_terms b \<and> (proposal_terms H (hx_proposal a) = proposal_terms H (hx_proposal b) \<or> collision H)"
proof -
  from assms(1,2) obtain d e where d: "acceptance_dataR H B a = Inr d" "acceptance_dataR H B b = Inr e" and "hb_acceptance B d = hb_acceptance B e"
    by (auto simp: handoverAcceptanceSigningBytes_def result_simps domainBytes_def)
  then have same: "d = e" using assms(3) by (simp add: inj_eq)
  have "handoverProposalHash H B (hx_proposal a) = Inr (ad_proposal_hash d)" "handoverProposalHash H B (hx_proposal b) = Inr (ad_proposal_hash d)"
    using acceptance_dataR_terms [OF d(1)] acceptance_dataR_terms [OF d(2)] same by simp_all
  from proposal_hash_terms [OF this assms(4)] acceptance_dataR_terms [OF d(1)] acceptance_dataR_terms [OF d(2)] same show ?thesis by simp
qed

lemma bytesToHex_eq: "bytesToHex a = bytesToHex b \<longleftrightarrow> a = b"
  by (metis hexToBytes_bytesToHex)

text \<open>
  C33. A fresh acceptance is at most five minutes old by the chain's clock, its review and agreement are not over, its budget is within the bounds, and its
  terms are those expected.
\<close>

theorem fresh_acceptance_bounds:
  assumes "assertFreshHandoverAcceptance H B a t expected = Inr ()" "inj (hb_proposal B)"
  shows "0 \<le> t - hx_observed_at_ms a \<and> t - hx_observed_at_ms a < HANDOVER_REVIEW_WINDOW_MS
    \<and> t < hv_review_expires_at_ms (hx_proposal a) \<and> hv_review_expires_at_ms (hx_proposal a) \<le> hv_expires_at_ms (hx_proposal a)
    \<and> dec_value (hv_max_calls (hx_proposal a)) \<le> min 1000 (dec_value (hv_budget_limit (hx_proposal a)))
    \<and> (proposal_terms H (hx_proposal a) = proposal_terms H expected \<or> collision H)"
proof -
  from assms(1) obtain d h where d: "acceptance_dataR H B a = Inr d" and time: "hx_observed_at_ms a \<le> t" "t < hv_review_expires_at_ms (hx_proposal a)"
    and h: "handoverProposalHash H B (hx_proposal a) = Inr h" "handoverProposalHash H B expected = Inr h"
    unfolding assertFreshHandoverAcceptance_def handoverAcceptanceSigningBytes_def by (auto simp: result_simps bytesToHex_eq)
  from h(1) obtain pd where pd: "proposal_dataR H (hx_proposal a) = Inr pd" by (auto simp: handoverProposalHash_def result_simps)
  from proposal_dataR_terms [OF pd] have "hv_review_expires_at_ms (hx_proposal a) \<le> hv_expires_at_ms (hx_proposal a)"
    "dec_value (hv_max_calls (hx_proposal a)) \<le> min 1000 (dec_value (hv_budget_limit (hx_proposal a)))" by (simp_all add: proposal_terms_def)
  with time acceptance_dataR_terms [OF d] proposal_hash_terms [OF h assms(2)] show ?thesis by simp
qed

section \<open>A sample review\<close>

definition sample_bcs :: handover_bcs where
  "sample_bcs = \<lparr>hb_proposal = (\<lambda>d. stringify (JArray (map JString [pd_managed d, pd_okr d, pd_workspace d, pd_boundary d, pd_asset d, pd_nonce d]
       @ map JNumber [pd_managed_version d, pd_okr_version d, pd_spec_revision d, pd_limit d, pd_max_calls d, pd_expires d, pd_review_expires d]))),
     hb_acceptance = (\<lambda>d. stringify (JArray (map JString [ad_execution d, ad_organization d, ad_human d, ad_grant d, ad_membership d, ad_binding d, ad_host d, ad_instance d,
       ad_proposal_hash d] @ map JNumber [ad_coverage_revision d, ad_observed_at d])))\<rparr>"

lemma sample_bcs_inj: "inj (hb_proposal sample_bcs)" "inj (hb_acceptance sample_bcs)"
proof -
  show "inj (hb_proposal sample_bcs)"
  proof (rule injI)
    fix d e :: proposal_data
    assume "hb_proposal sample_bcs d = hb_proposal sample_bcs e"
    then show "d = e" by (cases d; cases e) (simp add: sample_bcs_def stringify_inj del: stringify.simps)
  qed
  show "inj (hb_acceptance sample_bcs)"
  proof (rule injI)
    fix d e :: acceptance_data
    assume "hb_acceptance sample_bcs d = hb_acceptance sample_bcs e"
    then show "d = e" by (cases d; cases e) (simp add: sample_bcs_def stringify_inj del: stringify.simps)
  qed
qed

definition some_address :: "char \<Rightarrow> string" where
  "some_address c = ''0x'' @ replicate 64 c"

lemma some_address_id: "is_lower_hex c \<Longrightarrow> is_object_id (some_address c)"
  by (simp add: some_address_def is_object_id_def is_hex64_def list_all_iff)

definition review_proposal :: handover_proposal where
  "review_proposal = \<lparr>hv_version = ''1'', hv_managed_agent_id = some_address (CHR ''a''), hv_managed_version = ''3'', hv_okr_id = some_address (CHR ''b''), hv_okr_version = ''4'',
     hv_spec_revision = ''1'', hv_workspace_hash = replicate 64 (CHR ''c''), hv_paths = sample_paths [''out''], hv_budget_asset = ''TOOL_CALLS'', hv_budget_limit = ''50'',
     hv_max_calls = ''10'', hv_expires_at_ms = 900000, hv_nonce = replicate 64 (CHR ''d''), hv_review_expires_at_ms = 300000\<rparr>"

definition review_acceptance :: handover_acceptance where
  "review_acceptance = \<lparr>hx_version = ''1'', hx_execution_id = some_address (CHR ''1''), hx_organization_id = some_address (CHR ''2''), hx_human_id = some_address (CHR ''3''),
     hx_grant_id = some_address (CHR ''4''), hx_membership_id = some_address (CHR ''5''), hx_binding_id = some_address (CHR ''6''), hx_host_address = some_address (CHR ''7''),
     hx_instance_id = ''native-'' @ replicate 64 (CHR ''8''), hx_proposal = review_proposal, hx_coverage_revision = ''2'', hx_observed_at_ms = 1000, hx_signature = []\<rparr>"

lemma review_hash: obtains h where "handoverProposalHash H B review_proposal = Inr h"
proof -
  have numerals: "positiveU64 ''3'' = Inr 3" "positiveU64 ''4'' = Inr 4" "positiveU64 ''1'' = Inr 1" "positiveU64 ''50'' = Inr 50" "positiveU64 ''10'' = Inr 10"
    by code_simp+
  have "boundary_rows (sample_paths [''out'']) \<noteq> None" by code_simp
  then have "executionBoundaryHash H (sample_paths [''out'']) \<noteq> None" by (simp add: executionBoundaryHash_def)
  then have "\<exists>h. handoverProposalHash H B review_proposal = Inr h"
    by (auto simp: handoverProposalHash_def proposal_dataR_def review_proposal_def numerals timestampH_def handover_id_def hex32_def some_address_id is_hex64_def
        is_lower_hex_def is_digit_def list_all_iff is_safe_integer_def max_safe_integer_def some_address_def is_object_id_def)
  then show thesis using that by blast
qed

text \<open>The signing bytes do not depend on the signature.\<close>

lemma review_signed: obtains s where "\<And>sg. handoverAcceptanceSigningBytes H B (review_acceptance\<lparr>hx_signature := sg\<rparr>) = Inr s"
proof -
  have two: "positiveU64 ''2'' = Inr 2" by code_simp
  obtain h where "handoverProposalHash H B review_proposal = Inr h" by (rule review_hash)
  then show thesis using that
    by (auto simp: handoverAcceptanceSigningBytes_def acceptance_dataR_def review_acceptance_def two timestampH_def handover_id_def some_address_id is_safe_integer_def
        max_safe_integer_def is_hex64_def is_lower_hex_def is_digit_def list_all_iff native_instance_name_def HANDOVER_REVIEW_WINDOW_MS_def review_proposal_def
        some_address_def is_object_id_def)
qed

theorem acceptance_binds_witness:
  "\<exists>s. handoverAcceptanceSigningBytes sample_hash sample_bcs review_acceptance = Inr s
     \<and> acceptance_terms review_acceptance = acceptance_terms (review_acceptance\<lparr>hx_signature := ''x''\<rparr>)"
proof -
  obtain s where all: "\<And>sg. handoverAcceptanceSigningBytes sample_hash sample_bcs (review_acceptance\<lparr>hx_signature := sg\<rparr>) = Inr s" by (rule review_signed) blast
  have "review_acceptance\<lparr>hx_signature := []\<rparr> = review_acceptance" by (simp add: review_acceptance_def)
  then have s: "handoverAcceptanceSigningBytes sample_hash sample_bcs review_acceptance = Inr s"
    "handoverAcceptanceSigningBytes sample_hash sample_bcs (review_acceptance\<lparr>hx_signature := ''x''\<rparr>) = Inr s" using all [of "[]"] all by simp_all
  from acceptance_binds [OF s sample_bcs_inj(2) sample_bcs_inj(1)] s(1) show ?thesis by blast
qed

theorem fresh_acceptance_bounds_witness:
  "assertFreshHandoverAcceptance sample_hash sample_bcs review_acceptance 2000 review_proposal = Inr ()
   \<and> (2000 :: int) - hx_observed_at_ms review_acceptance < HANDOVER_REVIEW_WINDOW_MS"
proof -
  obtain s where "\<And>sg. handoverAcceptanceSigningBytes sample_hash sample_bcs (review_acceptance\<lparr>hx_signature := sg\<rparr>) = Inr s" by (rule review_signed) blast
  from this [of "[]"] have s: "handoverAcceptanceSigningBytes sample_hash sample_bcs review_acceptance = Inr s" by (simp add: review_acceptance_def)
  obtain h where h: "handoverProposalHash sample_hash sample_bcs review_proposal = Inr h" by (rule review_hash)
  have a: "hx_proposal review_acceptance = review_proposal" "hx_observed_at_ms review_acceptance = 1000" "hv_review_expires_at_ms review_proposal = 300000"
    by (simp_all add: review_acceptance_def review_proposal_def)
  have run: "assertFreshHandoverAcceptance sample_hash sample_bcs review_acceptance 2000 review_proposal = Inr ()"
    by (simp add: assertFreshHandoverAcceptance_def s h a timestampH_def is_safe_integer_def max_safe_integer_def)
  from fresh_acceptance_bounds [OF run sample_bcs_inj(1)] run show ?thesis by blast
qed

end
