(* ===== verification/Execution_Results.thy ===== *)
theory Execution_Results
  imports Handover_Proof Json_Bounds
begin

text \<open>
  \<^verbatim>\<open>NativeExecutionResults\<close> of \<^verbatim>\<open>apps/fractalmind-app/src/execution-results.ts\<close>: the original, immutable result of one Run, read and decrypted under the device's
  authority, and the Host's acceptance of a handover review in it. Chain objects with their parsed contents, the device's decryption, base64 and
  UTF-8 checking are fields of \<open>results_reader\<close>.
\<close>

section \<open>Data\<close>

datatype result_error = Xr_invalid_source | Xr_invalid_result | Xr_state_changed | Xr_invalid_review | Xr_outside

record execution =
  en_id :: string
  en_org_id :: string
  en_managed_agent :: "string option"
  en_state :: int
  en_intent_hash :: "int list"
  en_host_address :: string
  en_node_id :: string
  en_agent_id :: string
  en_action :: string
  en_scope :: string
  en_result_record :: "string option"
  en_result_hash :: "int list"
  en_stop_requested :: bool
  en_attempt_id :: "int list"
  en_human_id :: string
  en_grant_id :: string
  en_grant_version :: int
  en_updated_at_ms :: int
  en_capability_id :: string
  en_capability_version :: int
  en_membership_id :: string
  en_budget_asset :: string
  en_budget_amount :: int
  en_command_id :: string
  en_delegate :: string
  en_nonce :: string
  en_idempotency_key :: string
  en_issued_at_ms :: int
  en_expires_at_ms :: int
  en_rest :: json

record 'c chain_source =
  cz_objectId :: string
  cz_owner :: string
  cz_type :: string
  cz_content :: "'c option"
  cz_previousTransaction :: "string option"

record result_record =
  rd_id :: string
  rd_organization_id :: string
  rd_kind :: int
  rd_logical_id :: string
  rd_revision :: int
  rd_key_version :: int
  rd_previous :: "string option"
  rd_writer_human :: string
  rd_writer_device :: string
  rd_grant_id :: string
  rd_grant_version :: int
  rd_created_at_ms :: int
  rd_encrypted_body :: string

record result_key =
  ry_org_id :: string
  ry_membership_id :: string
  ry_host_address :: string
  ry_key_version :: int
  ry_wrapped_key :: string

record reservation_budget =
  rb_reservedAmount :: int
  rb_settled :: bool
  rb_spentAmount :: int

record review_member =
  rm_id :: string
  rm_org_id :: string
  rm_host_address :: string
  rm_coordinator_binding :: string
  rm_host_public_key :: "int list"

record reader_authority =
  ry_authorityPin :: string
  ry_encryptedKeys :: string
  ry_clockMs :: int

record execution_result =
  er_run :: execution
  er_recordId :: "string option"
  er_transactionDigest :: "string option"
  er_response :: "json option"

record 'r results_reader =
  xe_organizationId :: string
  xe_hash :: hash_env
  xe_keys :: key_env
  xe_bcs :: handover_bcs
  xe_utf8 :: "string \<Rightarrow> bool"
  xe_fromBase64 :: "string \<Rightarrow> string option"
  xe_toBase64 :: "string \<Rightarrow> string"
  xe_now :: "'r \<Rightarrow> int \<times> 'r"
  xe_verifyOrganization :: "('r, unit, reader_authority) eff"
  xe_coreType :: "string \<Rightarrow> string \<Rightarrow> ('r, unit, string) eff"
  xe_getExecution :: "string \<Rightarrow> ('r, unit, execution chain_source) eff"
  xe_getRecord :: "string \<Rightarrow> ('r, unit, result_record chain_source) eff"
  xe_getMember :: "string \<Rightarrow> ('r, unit, review_member chain_source) eff"
  xe_getResultKey :: "string \<Rightarrow> int list \<Rightarrow> int \<Rightarrow> ('r, unit, result_key) eff"
  xe_getReservationBudget :: "string \<Rightarrow> int list \<Rightarrow> ('r, unit, reservation_budget) eff"
  xe_decrypt :: "string \<Rightarrow> result_record \<Rightarrow> ('r, unit, string option) eff"

type_synonym ('r, 'a) reading = "('r, result_error, 'a) eff"

definition awaitX :: "('r, unit, 'a) eff \<Rightarrow> ('r, 'a) reading" where
  "awaitX m = (\<lambda>r. case m r of (Inl _, r') \<Rightarrow> (Inl Xr_outside, r') | (Inr a, r') \<Rightarrow> (Inr a, r'))"

definition byte_text :: "int list \<Rightarrow> string" where
  "byte_text = map (\<lambda>b. char_of (nat b))"

definition execution_states :: "string list" where
  "execution_states = [''queued'', ''running'', ''succeeded'', ''failed'', ''needs_confirmation'', ''cancelled'']"

text \<open>\<^verbatim>\<open>object(value)\<close> on a value that may be absent.\<close>

definition objectR :: "json option \<Rightarrow> (result_error, json) result" where
  "objectR v = (case v of Some (JObject ms) \<Rightarrow> Inr (JObject ms) | _ \<Rightarrow> Inl Xr_invalid_result)"

definition js_true :: "json option \<Rightarrow> bool" where
  "js_true v = (case v of None \<Rightarrow> False | Some JNull \<Rightarrow> False | Some (JBool b) \<Rightarrow> b | Some (JNumber n) \<Rightarrow> n \<noteq> 0 | Some (JString s) \<Rightarrow> s \<noteq> [] | Some _ \<Rightarrow> True)"

text \<open>\<^verbatim>\<open>{ ...object, [key]: value }\<close>\<close>

fun set_member :: "(string \<times> json) list \<Rightarrow> string \<Rightarrow> json \<Rightarrow> (string \<times> json) list" where
  "set_member [] k v = [(k, v)]"
| "set_member ((a, x) # ms) k v = (if a = k then (k, v) # ms else (a, x) # set_member ms k v)"

definition with_member :: "json \<Rightarrow> string \<Rightarrow> json \<Rightarrow> json" where
  "with_member j k v = (case j of JObject ms \<Rightarrow> JObject (set_member ms k v) | _ \<Rightarrow> j)"

section \<open>The Run\<close>

definition instance_agent :: "string \<Rightarrow> bool" where
  "instance_agent s \<longleftrightarrow> (take 7 s = ''native-'' \<and> is_hex64 (drop 7 s)) \<or> (take 5 s = ''tmux-'' \<and> is_hex64 (drop 5 s))"

definition result_run_sound :: "'r results_reader \<Rightarrow> string \<Rightarrow> string option \<Rightarrow> execution \<Rightarrow> bool" where
  "result_run_sound E executionId managedAgentId n \<longleftrightarrow>
     en_id n = executionId \<and> en_org_id n = xe_organizationId E \<and> en_managed_agent n = managedAgentId \<and> en_state n \<le> 5 \<and> length (en_intent_hash n) = 32
     \<and> en_host_address n = en_node_id n
     \<and> (if managedAgentId = None then en_agent_id n = [] \<and> en_action n = ''health'' else instance_agent (en_agent_id n))"

definition typed_content :: "'r results_reader \<Rightarrow> result_error \<Rightarrow> string \<Rightarrow> string \<Rightarrow> string \<Rightarrow> string \<Rightarrow> 'c chain_source \<Rightarrow> ('r, 'c) reading" where
  "typed_content E e i owner m t source =
     bindE (assertE (cz_objectId source = i \<and> cz_owner source = owner) e) (\<lambda>_.
     bindE (awaitX (xe_coreType E m t)) (\<lambda>type.
     bindE (assertE (cz_type source = type) e) (\<lambda>_.
     case cz_content source of None \<Rightarrow> throwE e | Some c \<Rightarrow> okE c)))"

definition runX :: "'r results_reader \<Rightarrow> string \<Rightarrow> string option \<Rightarrow> ('r, execution) reading" where
  "runX E executionId managedAgentId =
     bindE (awaitX (xe_getExecution E executionId)) (\<lambda>source.
     bindE (typed_content E Xr_invalid_source executionId ''Shared'' ''node_execution'' ''CommandExecution'' source) (\<lambda>n.
     bindE (assertE (result_run_sound E executionId managedAgentId n) Xr_invalid_source) (\<lambda>_.
     okE n)))"

definition assertCurrentX :: "'r results_reader \<Rightarrow> reader_authority \<Rightarrow> execution \<Rightarrow> string option \<Rightarrow> ('r, unit) reading" where
  "assertCurrentX E before n managedAgentId =
     bindE (awaitX (xe_verifyOrganization E)) (\<lambda>after.
     bindE (assertE (ry_authorityPin before = ry_authorityPin after) Xr_state_changed) (\<lambda>_.
     bindE (runX E (en_id n) managedAgentId) (\<lambda>again.
     assertE (again = n) Xr_state_changed)))"

section \<open>The result\<close>

definition no_result_ok :: "execution \<Rightarrow> bool" where
  "no_result_ok n \<longleftrightarrow> en_state n \<notin> {2, 3, 4} \<and> en_result_hash n = [] \<and> (en_state n = 5 \<longrightarrow> en_stop_requested n \<and> en_attempt_id n = [])"

definition record_for :: "'r results_reader \<Rightarrow> execution \<Rightarrow> string \<Rightarrow> result_record \<Rightarrow> bool" where
  "record_for E n i d \<longleftrightarrow>
     rd_id d = i \<and> rd_organization_id d = xe_organizationId E \<and> rd_kind d = 5 \<and> rd_logical_id d = ''command-'' @ bytesToHex (byte_text (en_intent_hash n))
     \<and> rd_revision d = 1 \<and> 1 \<le> rd_key_version d \<and> rd_previous d = None \<and> rd_writer_human d = en_human_id n \<and> rd_writer_device d = en_host_address n
     \<and> rd_grant_id d = en_grant_id n \<and> rd_grant_version d = en_grant_version n \<and> rd_created_at_ms d = en_updated_at_ms n
     \<and> 32 \<le> length (rd_encrypted_body d) \<and> length (rd_encrypted_body d) \<le> 65536 \<and> take 4 (rd_encrypted_body d) \<in> {''FME1'', ''FME2''}
     \<and> bytesToHex (sha256 (xe_hash E) (rd_encrypted_body d)) = bytesToHex (byte_text (en_result_hash n))"

definition key_for :: "execution \<Rightarrow> result_record \<Rightarrow> result_key \<Rightarrow> bool" where
  "key_for n d y \<longleftrightarrow> ry_org_id y = en_org_id n \<and> ry_membership_id y = en_membership_id n \<and> ry_host_address y = en_host_address n
     \<and> ry_key_version y = rd_key_version d \<and> length (ry_wrapped_key y) = 132 \<and> take 4 (ry_wrapped_key y) = ''FMW1'' \<and> take 4 (drop 68 (ry_wrapped_key y)) = ''FME1''"

definition response_for :: "execution \<Rightarrow> json \<Rightarrow> json \<Rightarrow> json \<Rightarrow> json \<Rightarrow> bool" where
  "response_for n v response event target \<longleftrightarrow>
     field v ''version'' = Some (JString ''1'') \<and> field response ''schema_version'' = Some (JString ''1'')
     \<and> field response ''adapter'' = Some (JString ''agent-manager-runtime'') \<and> field response ''command_id'' = Some (JString (en_command_id n))
     \<and> field response ''operation'' = Some (JString (en_action n)) \<and> field response ''execution_id'' = Some (JString (en_id n))
     \<and> 0 \<le> en_state n \<and> field response ''execution_state'' = Some (JString (execution_states ! nat (en_state n)))
     \<and> (field response ''requires_confirmation'' = Some (JBool True) \<longleftrightarrow> en_state n = 4)
     \<and> (case field response ''ok'' of
          Some (JBool ok) \<Rightarrow> (if ok then field response ''error'' = Some JNull else js_true (field response ''error''))
            \<and> (en_state n = 2 \<longrightarrow> ok) \<and> (en_state n \<in> {3, 5} \<longrightarrow> \<not> ok)
        | _ \<Rightarrow> False)
     \<and> field event ''version'' = Some (JString ''1'') \<and> field event ''command_id'' = Some (JString (en_command_id n))
     \<and> field target ''organization_id'' = Some (JString (en_org_id n)) \<and> field target ''node_id'' = Some (JString (en_node_id n))
     \<and> (case field target ''agent_id'' of None \<Rightarrow> en_agent_id n = [] | Some JNull \<Rightarrow> en_agent_id n = [] | Some a \<Rightarrow> a = JString (en_agent_id n))"

definition rejected_event :: "json \<Rightarrow> bool" where
  "rejected_event event \<longleftrightarrow> field event ''type'' = Some (JString ''runtime_rejected'')"

definition spend_for :: "execution \<Rightarrow> reservation_budget \<Rightarrow> json \<Rightarrow> json \<Rightarrow> (result_error, unit) result" where
  "spend_for n b response event =
    (if en_budget_asset n \<noteq> [] \<and> en_state n \<noteq> 4 \<and> \<not> rejected_event event
     then bindR (objectR (field response ''spend'')) (\<lambda>spend.
          assertR (field spend ''known'' = Some (JBool True) \<and> field spend ''asset'' = Some (JString (en_budget_asset n))
                   \<and> field spend ''amount'' = Some (JString (dec_string (rb_spentAmount b)))) Xr_invalid_result)
     else assertR ((en_budget_asset n = [] \<or> rejected_event event) \<longrightarrow> rb_spentAmount b = 0) Xr_invalid_result)"

definition plaintext_of :: "'r results_reader \<Rightarrow> string option \<Rightarrow> (result_error, json) result" where
  "plaintext_of E result =
    (case result of None \<Rightarrow> Inl Xr_invalid_result
     | Some s \<Rightarrow>
        if 87340 < length s then Inl Xr_invalid_result
        else (case xe_fromBase64 E s of None \<Rightarrow> Inl Xr_invalid_result
              | Some bytes \<Rightarrow>
                  if 65504 < length bytes \<or> xe_toBase64 E bytes \<noteq> s \<or> \<not> xe_utf8 E bytes then Inl Xr_invalid_result
                  else objectR (json_parse bytes)))"

text \<open>What the \<^verbatim>\<open>try\<close> around the plaintext does: errors of other classes become \<^verbatim>\<open>invalid_result\<close>.\<close>

definition openedX :: "'r results_reader \<Rightarrow> reader_authority \<Rightarrow> execution \<Rightarrow> string option \<Rightarrow> reservation_budget \<Rightarrow> string option \<Rightarrow> ('r, json) reading" where
  "openedX E before n managedAgentId b result =
     catchE
      (bindE (liftR (plaintext_of E result)) (\<lambda>v.
       bindE (liftR (objectR (field v ''response''))) (\<lambda>response.
       bindE (liftR (objectR (field v ''event''))) (\<lambda>event.
       bindE (liftR (objectR (field event ''target''))) (\<lambda>target.
       bindE (assertE (response_for n v response event target) Xr_invalid_result) (\<lambda>_.
       bindE (liftR (spend_for n b response event)) (\<lambda>_.
       bindE (assertCurrentX E before n managedAgentId) (\<lambda>_.
       okE response))))))))
      (\<lambda>e. throwE (if e = Xr_outside then Xr_invalid_result else e))"

text \<open>A Run that names a result record.\<close>

definition recordedX :: "'r results_reader \<Rightarrow> reader_authority \<Rightarrow> execution \<Rightarrow> string option \<Rightarrow> string \<Rightarrow> ('r, execution_result) reading" where
  "recordedX E before n managedAgentId i =
     bindE (assertE (2 \<le> en_state n \<and> length (en_result_hash n) = 32) Xr_invalid_source) (\<lambda>_.
     bindE (awaitX (xe_getRecord E i)) (\<lambda>source.
     bindE (typed_content E Xr_invalid_source i ''Immutable'' ''product_record'' ''EncryptedRecord'' source) (\<lambda>d.
     bindE (assertE (record_for E n i d) Xr_invalid_source) (\<lambda>_.
     bindE (if rd_encrypted_body d ! 3 = CHR ''2''
            then bindE (awaitX (xe_getResultKey E (en_capability_id n) (en_intent_hash n) (rd_key_version d))) (\<lambda>y. assertE (key_for n d y) Xr_invalid_source)
            else okE ()) (\<lambda>_.
     bindE (awaitX (xe_getReservationBudget E (en_capability_id n) (en_intent_hash n))) (\<lambda>b.
     bindE (assertE (rb_reservedAmount b = en_budget_amount n \<and> rb_settled b = (en_state n \<noteq> 4)) Xr_invalid_source) (\<lambda>_.
     bindE (awaitX (xe_decrypt E (ry_encryptedKeys before) d)) (\<lambda>result.
     bindE (openedX E before n managedAgentId b result) (\<lambda>response.
     okE \<lparr>er_run = n, er_recordId = Some (rd_id d), er_transactionDigest = cz_previousTransaction source,
          er_response = Some (with_member response ''transaction_digest'' (jopt JString (cz_previousTransaction source)))\<rparr>)))))))))"

definition readX :: "'r results_reader \<Rightarrow> string \<Rightarrow> string option \<Rightarrow> ('r, execution_result) reading" where
  "readX E executionId managedAgentId =
     bindE (assertE (is_object_id executionId \<and> (case managedAgentId of None \<Rightarrow> True | Some a \<Rightarrow> is_object_id a)) Xr_invalid_source) (\<lambda>_.
     bindE (awaitX (xe_verifyOrganization E)) (\<lambda>before.
     bindE (runX E executionId managedAgentId) (\<lambda>n.
     case en_result_record n of
       None \<Rightarrow>
         bindE (assertE (no_result_ok n) Xr_invalid_source) (\<lambda>_.
         bindE (assertCurrentX E before n managedAgentId) (\<lambda>_.
         okE \<lparr>er_run = n, er_recordId = None, er_transactionDigest = None, er_response = None\<rparr>))
     | Some i \<Rightarrow> recordedX E before n managedAgentId i)))"

section \<open>Reviews\<close>

text \<open>The typed values of a proposal and an acceptance; a field of another type makes the verification fail.\<close>

definition proposal_of :: "json \<Rightarrow> handover_proposal option" where
  "proposal_of v =
    (case (map_some (sfield v) [''version'', ''managed_agent_id'', ''managed_version'', ''okr_id'', ''okr_version'', ''spec_revision'', ''workspace_hash'',
             ''budget_asset'', ''budget_limit'', ''max_calls'', ''nonce''],
           nfield v ''expires_at_ms'', nfield v ''review_expires_at_ms'', field v ''paths'') of
       (Some [version, managed, mv, okr, ov, sr, workspace, asset, limit, calls, nonce], Some expires, Some review, Some (JObject paths)) \<Rightarrow>
         Some \<lparr>hv_version = version, hv_managed_agent_id = managed, hv_managed_version = mv, hv_okr_id = okr, hv_okr_version = ov, hv_spec_revision = sr,
           hv_workspace_hash = workspace, hv_paths = paths, hv_budget_asset = asset, hv_budget_limit = limit, hv_max_calls = calls, hv_expires_at_ms = expires,
           hv_nonce = nonce, hv_review_expires_at_ms = review\<rparr>
     | _ \<Rightarrow> None)"

definition acceptance_of :: "json \<Rightarrow> handover_acceptance option" where
  "acceptance_of v =
    (case (map_some (sfield v) [''version'', ''execution_id'', ''organization_id'', ''human_id'', ''grant_id'', ''membership_id'', ''binding_id'', ''host_address'',
             ''instance_id'', ''coverage_revision'', ''signature''], nfield v ''observed_at_ms'', Option.bind (field v ''proposal'') proposal_of) of
       (Some [version, execution, organization, human, grant, membership, binding, host, instance, revision, signature], Some observed, Some p) \<Rightarrow>
         Some \<lparr>hx_version = version, hx_execution_id = execution, hx_organization_id = organization, hx_human_id = human, hx_grant_id = grant,
           hx_membership_id = membership, hx_binding_id = binding, hx_host_address = host, hx_instance_id = instance, hx_proposal = p,
           hx_coverage_revision = revision, hx_observed_at_ms = observed, hx_signature = signature\<rparr>
     | _ \<Rightarrow> None)"

text \<open>The command that asked for the review, and the Run that it became.\<close>

definition review_command :: "signed_command \<Rightarrow> json \<Rightarrow> bool" where
  "review_command c proposal \<longleftrightarrow> sc_action c = ''status'' \<and> sc_scope c = ''observation''
     \<and> map_option stringify (field (sc_payload c) ''handover_review'') = Some (stringify proposal)"

definition run_of_command :: "hash_env \<Rightarrow> signed_command \<Rightarrow> execution \<Rightarrow> bool" where
  "run_of_command H c n \<longleftrightarrow>
     en_state n = 2 \<and> en_capability_id n = sc_capability_id c \<and> en_command_id n = sc_command_id c
     \<and> (case nodeCommandIntentHash H c of Inl _ \<Rightarrow> False | Inr h \<Rightarrow> bytesToHex (byte_text (en_intent_hash n)) = bytesToHex h)
     \<and> en_delegate n = sc_signer c \<and> en_node_id n = sc_node_id c \<and> Some (en_agent_id n) = sc_agent_id c \<and> en_org_id n = sc_organization_id c
     \<and> en_nonce n = sc_nonce c \<and> en_idempotency_key n = sc_idempotency_key c \<and> dec_string (en_capability_version n) = sc_revocation_version c
     \<and> en_issued_at_ms n = sc_issued_at_ms c \<and> en_expires_at_ms n = sc_expires_at_ms c \<and> en_budget_asset n = [] \<and> en_budget_amount n = 0"

definition acceptance_of_run :: "json \<Rightarrow> execution \<Rightarrow> bool" where
  "acceptance_of_run a n \<longleftrightarrow> sfield a ''execution_id'' = Some (en_id n) \<and> sfield a ''organization_id'' = Some (en_org_id n)
     \<and> sfield a ''human_id'' = Some (en_human_id n) \<and> sfield a ''grant_id'' = Some (en_grant_id n) \<and> sfield a ''membership_id'' = Some (en_membership_id n)
     \<and> sfield a ''host_address'' = Some (en_host_address n) \<and> sfield a ''instance_id'' = Some (en_agent_id n)"

definition member_of_run :: "json \<Rightarrow> execution \<Rightarrow> review_member \<Rightarrow> bool" where
  "member_of_run a n m \<longleftrightarrow> rm_id m = en_membership_id n \<and> rm_org_id m = en_org_id n \<and> rm_host_address m = en_host_address n
     \<and> sfield a ''binding_id'' = Some (rm_coordinator_binding m) \<and> length (rm_host_public_key m) = 32
     \<and> (case sfield a ''signature'' of None \<Rightarrow> False
        | Some s \<Rightarrow> startsWith s (''ed25519:'' @ bytesToHex (byte_text (rm_host_public_key m)) @ '':''))"

definition outsideR :: "('e, 'a) result \<Rightarrow> ('r, 'a) reading" where
  "outsideR x = (case x of Inl _ \<Rightarrow> throwE Xr_outside | Inr a \<Rightarrow> okE a)"

definition nowX :: "'r results_reader \<Rightarrow> ('r, int) reading" where
  "nowX E = (\<lambda>r. case xe_now E r of (t, r') \<Rightarrow> (Inr t, r'))"

definition readReviewX :: "'r results_reader \<Rightarrow> string \<Rightarrow> signed_command \<Rightarrow> json \<Rightarrow> ('r, execution_result \<times> handover_acceptance) reading" where
  "readReviewX E executionId c proposal =
     bindE (outsideR (verifySignedNodeCommand (xe_hash E) (xe_keys E) c)) (\<lambda>_.
     bindE (assertE (review_command c proposal) Xr_invalid_review) (\<lambda>_.
     case sfield proposal ''managed_agent_id'' of None \<Rightarrow> throwE Xr_invalid_source
     | Some agent \<Rightarrow>
         bindE (readX E executionId (Some agent)) (\<lambda>result.
         let n = er_run result in
         bindE (assertE (run_of_command (xe_hash E) c n) Xr_invalid_review) (\<lambda>_.
         bindE (liftR (objectR (Option.bind (er_response result) (\<lambda>v. field v ''handover_review'')))) (\<lambda>a.
         bindE (assertE (acceptance_of_run a n) Xr_invalid_review) (\<lambda>_.
         bindE (awaitX (xe_getMember E (en_membership_id n))) (\<lambda>source.
         bindE (typed_content E Xr_invalid_review (en_membership_id n) ''Shared'' ''host'' ''HostMembership'' source) (\<lambda>m.
         bindE (assertE (member_of_run a n m) Xr_invalid_review) (\<lambda>_.
         case (acceptance_of a, proposal_of proposal) of
           (Some x, Some p) \<Rightarrow>
             bindE (outsideR (verifyHandoverAcceptanceSignature (xe_hash E) (xe_keys E) (xe_bcs E) x (en_host_address n))) (\<lambda>_.
             bindE (awaitX (xe_verifyOrganization E)) (\<lambda>authority.
             bindE (assertE (ry_clockMs authority \<le> max_safe_integer) Xr_invalid_review) (\<lambda>_.
             bindE (outsideR (assertFreshHandoverAcceptance (xe_hash E) (xe_bcs E) x (ry_clockMs authority) p)) (\<lambda>_.
             bindE (nowX E) (\<lambda>now.
             bindE (outsideR (assertFreshHandoverAcceptance (xe_hash E) (xe_bcs E) x now p)) (\<lambda>_.
             okE (result, x)))))))
         | _ \<Rightarrow> throwE Xr_outside)))))))))"

section \<open>What a result rests on\<close>

lemma awaitX_ok: "awaitX m r = (Inr a, r') \<longleftrightarrow> m r = (Inr a, r')"
  by (auto simp: awaitX_def split: prod.splits sum.splits)

text \<open>One reading of an object of the chain, and of the type that it has to have.\<close>

definition object_read :: "'r results_reader \<Rightarrow> (string \<Rightarrow> ('r, unit, 'c chain_source) eff) \<Rightarrow> string \<Rightarrow> string \<Rightarrow> string \<Rightarrow> string \<Rightarrow> 'c chain_source \<Rightarrow> 'c \<Rightarrow> 'r \<Rightarrow> 'r \<Rightarrow> bool" where
  "object_read E get i owner m t source c r r' \<longleftrightarrow> (\<exists>r1. get i r = (Inr source, r1) \<and> cz_objectId source = i \<and> cz_owner source = owner
     \<and> xe_coreType E m t r1 = (Inr (cz_type source), r') \<and> cz_content source = Some c)"

lemma typed_object_read:
  assumes "get i r = (Inr source, r1)" "typed_content E e i owner m t source r1 = (Inr c, r')"
  shows "object_read E get i owner m t source c r r'"
  using assms by (auto simp: typed_content_def object_read_def awaitX_ok eff_oks elim!: bindE_okE split: option.split_asm)

text \<open>The Run as it is read: shared, of this organization and Agent, in a known state, on its own node, and either an Agent's or a Host's health check.\<close>

definition run_read :: "'r results_reader \<Rightarrow> string \<Rightarrow> string option \<Rightarrow> execution \<Rightarrow> 'r \<Rightarrow> 'r \<Rightarrow> bool" where
  "run_read E i agent n r r' \<longleftrightarrow> (\<exists>source. object_read E (xe_getExecution E) i ''Shared'' ''node_execution'' ''CommandExecution'' source n r r')
     \<and> en_id n = i \<and> en_org_id n = xe_organizationId E \<and> en_managed_agent n = agent \<and> en_state n \<le> 5 \<and> length (en_intent_hash n) = 32
     \<and> en_host_address n = en_node_id n
     \<and> (if agent = None then en_agent_id n = [] \<and> en_action n = ''health'' else instance_agent (en_agent_id n))"

lemma runX_read: "runX E i agent r = (Inr n, r') \<Longrightarrow> run_read E i agent n r r'"
  by (auto simp: runX_def run_read_def result_run_sound_def awaitX_ok eff_oks dest!: typed_object_read [of "xe_getExecution E"] elim!: bindE_okE)

text \<open>The device's authority with the pin that it had before, and then the Run as it was.\<close>

definition unchanged_read :: "'r results_reader \<Rightarrow> reader_authority \<Rightarrow> execution \<Rightarrow> string option \<Rightarrow> 'r \<Rightarrow> 'r \<Rightarrow> bool" where
  "unchanged_read E before n agent r r' \<longleftrightarrow> (\<exists>after r1. xe_verifyOrganization E r = (Inr after, r1) \<and> ry_authorityPin after = ry_authorityPin before
     \<and> run_read E (en_id n) agent n r1 r')"

lemma assertCurrentX_read: "assertCurrentX E before n agent r = (Inr u, r') \<Longrightarrow> unchanged_read E before n agent r r'"
  by (auto simp: assertCurrentX_def unchanged_read_def awaitX_ok eff_oks dest!: runX_read elim!: bindE_okE)

text \<open>The record that a Run names: the first revision of its command's result, by its Host, for its human and grant at its versions, with the hash that the Run has of it.\<close>

definition written_for :: "'r results_reader \<Rightarrow> execution \<Rightarrow> result_record \<Rightarrow> bool" where
  "written_for E n d \<longleftrightarrow> en_result_record n = Some (rd_id d) \<and> 2 \<le> en_state n \<and> length (en_result_hash n) = 32
     \<and> rd_organization_id d = xe_organizationId E \<and> rd_kind d = 5 \<and> rd_logical_id d = ''command-'' @ bytesToHex (byte_text (en_intent_hash n))
     \<and> rd_revision d = 1 \<and> 1 \<le> rd_key_version d \<and> rd_previous d = None \<and> rd_writer_human d = en_human_id n \<and> rd_writer_device d = en_host_address n
     \<and> rd_grant_id d = en_grant_id n \<and> rd_grant_version d = en_grant_version n \<and> rd_created_at_ms d = en_updated_at_ms n
     \<and> 32 \<le> length (rd_encrypted_body d) \<and> length (rd_encrypted_body d) \<le> 65536
     \<and> (take 4 (rd_encrypted_body d) = ''FME1'' \<or> take 4 (rd_encrypted_body d) = ''FME2'')
     \<and> bytesToHex (sha256 (xe_hash E) (rd_encrypted_body d)) = bytesToHex (byte_text (en_result_hash n))"

text \<open>The key of a second-format body is the membership's of the Run at the version of the record.\<close>

definition wrapped_for :: "execution \<Rightarrow> result_record \<Rightarrow> result_key \<Rightarrow> bool" where
  "wrapped_for n d y \<longleftrightarrow> ry_org_id y = en_org_id n \<and> ry_membership_id y = en_membership_id n \<and> ry_host_address y = en_host_address n
     \<and> ry_key_version y = rd_key_version d \<and> length (ry_wrapped_key y) = 132 \<and> take 4 (ry_wrapped_key y) = ''FMW1'' \<and> take 4 (drop 68 (ry_wrapped_key y)) = ''FME1''"

text \<open>
  What the plaintext says: a response of the runtime to this command, operation and Run, in its state, with an error exactly if it is not ok, for this
  target; and the spending that it declares, if it has to, is the settled one.
\<close>

definition tells_of :: "execution \<Rightarrow> reservation_budget \<Rightarrow> json \<Rightarrow> json \<Rightarrow> bool" where
  "tells_of n b plain response \<longleftrightarrow> (\<exists>event target ok.
     field plain ''version'' = Some (JString ''1'') \<and> field plain ''response'' = Some response \<and> field plain ''event'' = Some event \<and> field event ''target'' = Some target
     \<and> field response ''schema_version'' = Some (JString ''1'') \<and> field response ''adapter'' = Some (JString ''agent-manager-runtime'')
     \<and> field response ''command_id'' = Some (JString (en_command_id n)) \<and> field response ''operation'' = Some (JString (en_action n))
     \<and> field response ''execution_id'' = Some (JString (en_id n))
     \<and> field response ''execution_state'' = Some (JString (execution_states ! nat (en_state n)))
     \<and> (field response ''requires_confirmation'' = Some (JBool True) \<longleftrightarrow> en_state n = 4)
     \<and> field response ''ok'' = Some (JBool ok) \<and> (if ok then field response ''error'' = Some JNull else js_true (field response ''error''))
     \<and> (en_state n = 2 \<longrightarrow> ok) \<and> (en_state n \<in> {3, 5} \<longrightarrow> \<not> ok)
     \<and> field event ''version'' = Some (JString ''1'') \<and> field event ''command_id'' = Some (JString (en_command_id n))
     \<and> field target ''organization_id'' = Some (JString (en_org_id n)) \<and> field target ''node_id'' = Some (JString (en_node_id n))
     \<and> (if field target ''agent_id'' \<in> {None, Some JNull} then en_agent_id n = [] else field target ''agent_id'' = Some (JString (en_agent_id n)))
     \<and> (if en_budget_asset n = [] \<or> field event ''type'' = Some (JString ''runtime_rejected'') then rb_spentAmount b = 0
        else en_state n = 4 \<or> (\<exists>spend. field response ''spend'' = Some spend \<and> field spend ''known'' = Some (JBool True)
               \<and> field spend ''asset'' = Some (JString (en_budget_asset n)) \<and> field spend ''amount'' = Some (JString (dec_string (rb_spentAmount b))))))"

text \<open>
  A response that came back with a Run, read in this order: the immutable record that the Run names; for a second-format body the key it is wrapped with; the
  reservation of the Run, settled unless it needs confirmation; and the decryption of this very record with the keys of the authority, whose JSON tells of the Run.
\<close>

definition response_read :: "'r results_reader \<Rightarrow> reader_authority \<Rightarrow> execution \<Rightarrow> result_record \<Rightarrow> string option \<Rightarrow> json \<Rightarrow> 'r \<Rightarrow> 'r \<Rightarrow> bool" where
  "response_read E before n d digest response r r' \<longleftrightarrow>
     (\<exists>source y b sealed bytes plain r1 r2 r3.
        object_read E (xe_getRecord E) (rd_id d) ''Immutable'' ''product_record'' ''EncryptedRecord'' source d r r1 \<and> cz_previousTransaction source = digest
        \<and> written_for E n d
        \<and> (if rd_encrypted_body d ! 3 = CHR ''2'' then xe_getResultKey E (en_capability_id n) (en_intent_hash n) (rd_key_version d) r1 = (Inr y, r2) \<and> wrapped_for n d y
           else r2 = r1)
        \<and> xe_getReservationBudget E (en_capability_id n) (en_intent_hash n) r2 = (Inr b, r3)
        \<and> rb_reservedAmount b = en_budget_amount n \<and> (rb_settled b \<longleftrightarrow> en_state n \<noteq> 4)
        \<and> xe_decrypt E (ry_encryptedKeys before) d r3 = (Inr (Some sealed), r')
        \<and> xe_fromBase64 E sealed = Some bytes \<and> json_parse bytes = Some plain \<and> tells_of n b plain response)"

lemma objectR_some: "objectR x = Inr y \<Longrightarrow> x = Some y"
  by (auto simp: objectR_def split: option.split_asm json.split_asm)

lemma record_for_written:
  "en_result_record n = Some i \<Longrightarrow> 2 \<le> en_state n \<Longrightarrow> length (en_result_hash n) = 32 \<Longrightarrow> record_for E n i d \<Longrightarrow> rd_id d = i \<and> written_for E n d"
  by (auto simp: record_for_def written_for_def)

lemma response_tells:
  assumes fits: "response_for n v response event target" and spend: "spend_for n b response event = Inr ()"
    and parts: "field v ''response'' = Some response" "field v ''event'' = Some event" "field event ''target'' = Some target"
  shows "tells_of n b v response"
proof -
  from fits obtain ok where ok: "field response ''ok'' = Some (JBool ok)" "if ok then field response ''error'' = Some JNull else js_true (field response ''error'')"
    "en_state n = 2 \<longrightarrow> ok" "en_state n \<in> {3, 5} \<longrightarrow> \<not> ok"
    by (auto simp: response_for_def split: option.split_asm json.split_asm)
  have agent: "if field target ''agent_id'' \<in> {None, Some JNull} then en_agent_id n = [] else field target ''agent_id'' = Some (JString (en_agent_id n))"
    using fits by (auto simp: response_for_def split: option.split_asm json.split_asm)
  have spent: "if en_budget_asset n = [] \<or> field event ''type'' = Some (JString ''runtime_rejected'') then rb_spentAmount b = 0
        else en_state n = 4 \<or> (\<exists>spend. field response ''spend'' = Some spend \<and> field spend ''known'' = Some (JBool True)
               \<and> field spend ''asset'' = Some (JString (en_budget_asset n)) \<and> field spend ''amount'' = Some (JString (dec_string (rb_spentAmount b))))"
    using spend by (auto simp: spend_for_def rejected_event_def result_simps dest!: objectR_some split: if_split_asm sum.split_asm)
  show ?thesis
    unfolding tells_of_def
    by (rule exI [of _ event], rule exI [of _ target], rule exI [of _ ok]) (use fits parts ok agent spent in \<open>simp add: response_for_def\<close>)
qed

lemma openedX_read:
  assumes "openedX E before n agent b result r = (Inr response, r')"
  shows "\<exists>sealed bytes plain. result = Some sealed \<and> xe_fromBase64 E sealed = Some bytes \<and> json_parse bytes = Some plain \<and> tells_of n b plain response
    \<and> unchanged_read E before n agent r r'"
proof -
  from assms obtain v event target where v: "plaintext_of E result = Inr v" "field v ''response'' = Some response" "field v ''event'' = Some event"
      "field event ''target'' = Some target" "response_for n v response event target" "spend_for n b response event = Inr ()"
    and current: "assertCurrentX E before n agent r = (Inr (), r')"
    by (auto simp: openedX_def catchE_eq eff_oks dest!: objectR_some elim!: bindE_okE)
  from v(1) obtain sealed bytes where "result = Some sealed" "xe_fromBase64 E sealed = Some bytes" "json_parse bytes = Some v"
    by (auto simp: plaintext_of_def dest!: objectR_some split: option.split_asm if_split_asm)
  then show ?thesis using response_tells [OF v(5,6,2,3,4)] assertCurrentX_read [OF current] by blast
qed

lemma set_member_get [simp]: "map_of (set_member ms k v) k = Some v"
  by (induction ms k v rule: set_member.induct) auto

lemma field_with_member: "the_object j = Some ms \<Longrightarrow> field (with_member j k v) k = Some v"
  by (cases j) (simp_all add: with_member_def field_def)

lemma recordedX_read:
  assumes "recordedX E before n agent j r = (Inr res, r')" "en_result_record n = Some j"
  shows "er_run res = n \<and> (\<exists>d response r1. response_read E before n d (er_transactionDigest res) response r r1 \<and> unchanged_read E before n agent r1 r'
    \<and> er_recordId res = Some (rd_id d) \<and> er_response res = Some (with_member response ''transaction_digest'' (jopt JString (er_transactionDigest res))))"
proof -
  from assms(1) obtain source :: "result_record chain_source" and d b result response r1 r2 r3 r4 r5 where state: "2 \<le> en_state n" "length (en_result_hash n) = 32"
    and source: "xe_getRecord E j r = (Inr source, r1)"
    and d: "typed_content E Xr_invalid_source j ''Immutable'' ''product_record'' ''EncryptedRecord'' source r1 = (Inr d, r2)" "record_for E n j d"
    and wrapped: "(if rd_encrypted_body d ! 3 = CHR ''2''
            then bindE (awaitX (xe_getResultKey E (en_capability_id n) (en_intent_hash n) (rd_key_version d))) (\<lambda>y. assertE (key_for n d y) Xr_invalid_source)
            else okE ()) r2 = (Inr (), r3)"
    and b: "xe_getReservationBudget E (en_capability_id n) (en_intent_hash n) r3 = (Inr b, r4)" "rb_reservedAmount b = en_budget_amount n"
      "rb_settled b = (en_state n \<noteq> 4)"
    and decrypted: "xe_decrypt E (ry_encryptedKeys before) d r4 = (Inr result, r5)" and opened: "openedX E before n agent b result r5 = (Inr response, r')"
    and res: "res = \<lparr>er_run = n, er_recordId = Some (rd_id d), er_transactionDigest = cz_previousTransaction source,
            er_response = Some (with_member response ''transaction_digest'' (jopt JString (cz_previousTransaction source)))\<rparr>"
    unfolding recordedX_def by (clarsimp simp: eff_oks awaitX_ok elim!: bindE_okE)
  have key: "\<exists>y. if rd_encrypted_body d ! 3 = CHR ''2'' then xe_getResultKey E (en_capability_id n) (en_intent_hash n) (rd_key_version d) r2 = (Inr y, r3) \<and> wrapped_for n d y
      else r3 = r2"
    using wrapped by (auto simp: key_for_def wrapped_for_def awaitX_ok eff_oks elim!: bindE_okE split: if_split_asm)
  from record_for_written [OF assms(2) state d(2)] have written: "rd_id d = j" "written_for E n d" by simp_all
  from openedX_read [OF opened] obtain sealed bytes plain where plain: "result = Some sealed" "xe_fromBase64 E sealed = Some bytes" "json_parse bytes = Some plain"
    "tells_of n b plain response" and again: "unchanged_read E before n agent r5 r'" by blast
  have "response_read E before n d (cz_previousTransaction source) response r r5"
    using typed_object_read [of "xe_getRecord E", OF source d(1)] written key b decrypted plain unfolding response_read_def by blast
  then show ?thesis using again res by auto
qed

text \<open>
  C34. A result is the original one of its Run, by what was read in this order: the device's authority; the Run, of the organization and Agent; then, for a
  response, the immutable record that the Run names, written by its Host for its command, grant and result hash, its key, its reserved and settled budget, and the
  decryption of this record, which agrees with the Run's state, command, target and spending; and at the end the authority with the same pin and the Run, the same. A Run
  without a result is in a state that has none. The transaction digest is the provenance of the record, whatever the decrypted response claims.
\<close>

theorem execution_result_original:
  assumes "readX E i agent r = (Inr res, r')"
  shows "\<exists>before r1 r2 r3. xe_verifyOrganization E r = (Inr before, r1) \<and> run_read E i agent (er_run res) r1 r2
    \<and> unchanged_read E before (er_run res) agent r3 r'
    \<and> (case er_response res of
         None \<Rightarrow> r3 = r2 \<and> er_recordId res = None \<and> er_transactionDigest res = None \<and> en_result_record (er_run res) = None \<and> en_result_hash (er_run res) = []
           \<and> en_state (er_run res) \<notin> {2, 3, 4} \<and> (en_state (er_run res) = 5 \<longrightarrow> en_stop_requested (er_run res) \<and> en_attempt_id (er_run res) = [])
       | Some v \<Rightarrow> (\<exists>d response. response_read E before (er_run res) d (er_transactionDigest res) response r2 r3 \<and> er_recordId res = Some (rd_id d)
           \<and> v = with_member response ''transaction_digest'' (jopt JString (er_transactionDigest res))))"
proof -
  from assms obtain before n r1 r2 where before: "xe_verifyOrganization E r = (Inr before, r1)" and n: "runX E i agent r1 = (Inr n, r2)"
    and rest: "(case en_result_record n of
       None \<Rightarrow>
         bindE (assertE (no_result_ok n) Xr_invalid_source) (\<lambda>_.
         bindE (assertCurrentX E before n agent) (\<lambda>_.
         okE \<lparr>er_run = n, er_recordId = None, er_transactionDigest = None, er_response = None\<rparr>))
     | Some i \<Rightarrow> recordedX E before n agent i) r2 = (Inr res, r')"
    unfolding readX_def by (auto simp: eff_oks awaitX_ok elim!: bindE_okE)
  show ?thesis
  proof (cases "en_result_record n")
    case None
    with rest have none: "no_result_ok n" and current: "assertCurrentX E before n agent r2 = (Inr (), r')"
      and res: "res = \<lparr>er_run = n, er_recordId = None, er_transactionDigest = None, er_response = None\<rparr>"
      by (auto simp: eff_oks elim!: bindE_okE)
    then show ?thesis
      using before runX_read [OF n] assertCurrentX_read [OF current] None by (auto simp: no_result_ok_def)
  next
    case (Some j)
    with rest have "recordedX E before n agent j r2 = (Inr res, r')" by simp
    from recordedX_read [OF this Some] obtain d response r3 where "er_run res = n" "response_read E before n d (er_transactionDigest res) response r2 r3"
      "unchanged_read E before n agent r3 r'" "er_recordId res = Some (rd_id d)"
      "er_response res = Some (with_member response ''transaction_digest'' (jopt JString (er_transactionDigest res)))" by blast
    then show ?thesis using before runX_read [OF n] by simp blast
  qed
qed

lemma outsideR_ok: "outsideR y w = (Inr b, w') \<longleftrightarrow> y = Inr b \<and> w' = w"
  by (cases y) (auto simp: outsideR_def eff_pure)


section \<open>A sample review\<close>

text \<open>A hash of 32 bytes, one key, and a Host that is also the device.\<close>

definition review_hash_env :: hash_env where
  "review_hash_env = sample_hash\<lparr>sha256 := (\<lambda>s. take 32 (s @ replicate 32 (CHR ''0'')))\<rparr>"

definition review_keys :: key_env where
  "review_keys = \<lparr>ke_address = (\<lambda>k. some_address (CHR ''7'')), ke_verify = (\<lambda>k b s. s = k @ k)\<rparr>"

definition review_signer :: "unit command_signer" where
  "review_signer = sample_signer\<lparr>cs_address := some_address (CHR ''7'')\<rparr>"

definition proposal_json :: "handover_proposal \<Rightarrow> json" where
  "proposal_json p = JObject [(''version'', JString (hv_version p)), (''managed_agent_id'', JString (hv_managed_agent_id p)), (''managed_version'', JString (hv_managed_version p)),
     (''okr_id'', JString (hv_okr_id p)), (''okr_version'', JString (hv_okr_version p)), (''spec_revision'', JString (hv_spec_revision p)),
     (''workspace_hash'', JString (hv_workspace_hash p)), (''paths'', JObject (hv_paths p)), (''budget_asset'', JString (hv_budget_asset p)),
     (''budget_limit'', JString (hv_budget_limit p)), (''max_calls'', JString (hv_max_calls p)), (''expires_at_ms'', JNumber (hv_expires_at_ms p)),
     (''nonce'', JString (hv_nonce p)), (''review_expires_at_ms'', JNumber (hv_review_expires_at_ms p))]"

definition acceptance_json :: "handover_acceptance \<Rightarrow> json" where
  "acceptance_json a = JObject [(''version'', JString (hx_version a)), (''execution_id'', JString (hx_execution_id a)), (''organization_id'', JString (hx_organization_id a)),
     (''human_id'', JString (hx_human_id a)), (''grant_id'', JString (hx_grant_id a)), (''membership_id'', JString (hx_membership_id a)),
     (''binding_id'', JString (hx_binding_id a)), (''host_address'', JString (hx_host_address a)), (''instance_id'', JString (hx_instance_id a)),
     (''proposal'', proposal_json (hx_proposal a)), (''coverage_revision'', JString (hx_coverage_revision a)), (''observed_at_ms'', JNumber (hx_observed_at_ms a)),
     (''signature'', JString (hx_signature a))]"

lemma proposal_of_json: "proposal_of (proposal_json p) = Some p"
  by (simp add: proposal_of_def proposal_json_def map_some_def sfield_def nfield_def field_def)

lemma acceptance_of_json: "acceptance_of (acceptance_json a) = Some a"
proof -
  have "map_some (sfield (acceptance_json a)) [''version'', ''execution_id'', ''organization_id'', ''human_id'', ''grant_id'', ''membership_id'', ''binding_id'', ''host_address'',
             ''instance_id'', ''coverage_revision'', ''signature'']
      = Some [hx_version a, hx_execution_id a, hx_organization_id a, hx_human_id a, hx_grant_id a, hx_membership_id a, hx_binding_id a, hx_host_address a,
             hx_instance_id a, hx_coverage_revision a, hx_signature a]"
    by (simp add: acceptance_json_def map_some_def sfield_def field_def)
  moreover have "nfield (acceptance_json a) ''observed_at_ms'' = Some (hx_observed_at_ms a)" "field (acceptance_json a) ''proposal'' = Some (proposal_json (hx_proposal a))"
    by (simp_all add: acceptance_json_def nfield_def field_def)
  ultimately show ?thesis by (simp add: acceptance_of_def proposal_of_json)
qed

definition review_agent :: string where
  "review_agent = ''native-'' @ replicate 64 (CHR ''8'')"

definition review_input :: sign_command_input where
  "review_input = \<lparr>ni_target = \<lparr>ct_organizationId = some_address (CHR ''2''), ct_nodeId = some_address (CHR ''7''), ct_agentId = Some review_agent\<rparr>,
     ni_action = ''status'', ni_scope = ''observation'', ni_capability = \<lparr>cr_id = some_address (CHR ''9''), cr_revocationVersion = UBigInt 1\<rparr>,
     ni_payload = Some (JObject [(''handover_review'', proposal_json review_proposal)]), ni_commandId = None, ni_nonce = None, ni_idempotencyKey = None,
     ni_issuedAtMs = None, ni_expiresAtMs = None, ni_budget = None\<rparr>"

definition review_signing :: signing_input where
  "review_signing = signing_of (cs_address review_signer) review_input 1000 (bytesToHex (sha256 review_hash_env (stringify (payload_of review_input)))) ''uuid'' ''uuid''"

definition review_signed_command :: signed_command where
  "review_signed_command = wire_of review_signing (dec_string 1) None (payload_of review_input) (signature_text sample_key (sample_key @ sample_key))"

lemma review_command_signed: "signNodeCommand review_hash_env review_signer review_input () = (Inr review_signed_command, ())"
proof -
  have key: "sample_key = cs_publicBytes review_signer" by (simp add: review_signer_def sample_signer_def)
  show ?thesis
    unfolding review_signed_command_def key
  proof (rule signNodeCommand_runs)
    show "list_all signing_token (signing_tokens review_input review_signing)"
      by (simp add: signing_tokens_def signing_of_def review_signing_def review_input_def review_signer_def sample_signer_def signing_token_def is_token_char_def
          is_alnum_def is_digit_def some_address_def review_agent_def list_all_iff)
    show "review_signing = signing_of (cs_address review_signer) review_input 1000 (bytesToHex (sha256 review_hash_env (stringify (payload_of review_input)))) ''uuid'' ''uuid''"
      by (rule review_signing_def)
  qed (simp add: review_signer_def sample_signer_def sample_key_def review_input_def issuedE_def uuidE_def eff_run payload_of_def expires_of_def
        safe_timestamp_def is_safe_integer_def max_safe_integer_def in_u64_def MAX_U64_def budget_texts_def del: stringify.simps)+
qed

lemma review_command_verified: "verifySignedNodeCommand review_hash_env review_keys review_signed_command = Inr ()"
  by (rule signed_accepts [OF review_command_signed])
    (simp_all add: review_keys_def review_signer_def sample_signer_def eff_run)

lemma review_command_fields:
  "sc_action review_signed_command = ''status''" "sc_scope review_signed_command = ''observation''" "sc_command_id review_signed_command = ''uuid''"
  "sc_payload review_signed_command = JObject [(''handover_review'', proposal_json review_proposal)]" "sc_signer review_signed_command = some_address (CHR ''7'')"
  "sc_organization_id review_signed_command = some_address (CHR ''2'')" "sc_node_id review_signed_command = some_address (CHR ''7'')"
  "sc_agent_id review_signed_command = Some review_agent" "sc_capability_id review_signed_command = some_address (CHR ''9'')"
  "sc_nonce review_signed_command = ''uuid''" "sc_issued_at_ms review_signed_command = 1000" "sc_expires_at_ms review_signed_command = 61000"
  "sc_revocation_version review_signed_command = dec_string 1"
  by (simp_all add: review_signed_command_def review_signing_def wire_of_def signing_of_def review_input_def review_signer_def payload_of_def agent_of_def expires_of_def
      review_agent_def del: stringify.simps)

definition review_intent :: string where
  "review_intent = (case nodeCommandIntentHash review_hash_env review_signed_command of Inl _ \<Rightarrow> [] | Inr h \<Rightarrow> h)"

lemma review_intent: "nodeCommandIntentHash review_hash_env review_signed_command = Inr review_intent" "length review_intent = 32"
proof -
  obtain bytes where "nodeCommandSigningBytes review_signed_command = Inr bytes"
    using review_command_verified by (auto simp: verifySignedNodeCommand_def result_simps split: option.split_asm)
  then show "nodeCommandIntentHash review_hash_env review_signed_command = Inr review_intent" "length review_intent = 32"
    by (simp_all add: review_intent_def nodeCommandIntentHash_def review_hash_env_def)
qed

definition code_points :: "string \<Rightarrow> int list" where
  "code_points = map (\<lambda>c. int (of_char c))"

lemma byte_text_points [simp]: "byte_text (code_points s) = s"
  by (simp add: byte_text_def code_points_def comp_def)

lemma length_code_points [simp]: "length (code_points s) = length s"
  by (simp add: code_points_def)

definition review_body :: string where
  "review_body = ''FME1'' @ replicate 40 (CHR ''e'')"

definition review_run :: execution where
  "review_run = \<lparr>en_id = some_address (CHR ''1''), en_org_id = some_address (CHR ''2''), en_managed_agent = Some (some_address (CHR ''a'')), en_state = 2,
     en_intent_hash = code_points review_intent, en_host_address = some_address (CHR ''7''), en_node_id = some_address (CHR ''7''), en_agent_id = review_agent,
     en_action = ''status'', en_scope = ''observation'', en_result_record = Some ''record'', en_result_hash = code_points (take 32 review_body), en_stop_requested = False, en_attempt_id = [],
     en_human_id = some_address (CHR ''3''), en_grant_id = some_address (CHR ''4''), en_grant_version = 1, en_updated_at_ms = 70, en_capability_id = some_address (CHR ''9''),
     en_capability_version = 1, en_membership_id = some_address (CHR ''5''), en_budget_asset = [], en_budget_amount = 0, en_command_id = ''uuid'',
     en_delegate = some_address (CHR ''7''), en_nonce = ''uuid'', en_idempotency_key = sc_idempotency_key review_signed_command, en_issued_at_ms = 1000,
     en_expires_at_ms = 61000, en_rest = JNull\<rparr>"

definition review_record :: result_record where
  "review_record = \<lparr>rd_id = ''record'', rd_organization_id = some_address (CHR ''2''), rd_kind = 5, rd_logical_id = ''command-'' @ bytesToHex review_intent, rd_revision = 1,
     rd_key_version = 1, rd_previous = None, rd_writer_human = some_address (CHR ''3''), rd_writer_device = some_address (CHR ''7''), rd_grant_id = some_address (CHR ''4''),
     rd_grant_version = 1, rd_created_at_ms = 70, rd_encrypted_body = review_body\<rparr>"

definition signed_review :: handover_acceptance where
  "signed_review = review_acceptance\<lparr>hx_signature := signature_text sample_key (sample_key @ sample_key)\<rparr>"

definition review_response :: json where
  "review_response = JObject [(''schema_version'', JString ''1''), (''adapter'', JString ''agent-manager-runtime''), (''command_id'', JString ''uuid''),
     (''operation'', JString ''status''), (''execution_id'', JString (some_address (CHR ''1''))), (''execution_state'', JString ''succeeded''),
     (''requires_confirmation'', JBool False), (''ok'', JBool True), (''error'', JNull), (''transaction_digest'', JString ''claimed''),
     (''handover_review'', acceptance_json signed_review)]"

definition review_event :: json where
  "review_event = JObject [(''version'', JString ''1''), (''command_id'', JString ''uuid''), (''type'', JString ''runtime_succeeded''),
     (''target'', JObject [(''organization_id'', JString (some_address (CHR ''2''))), (''node_id'', JString (some_address (CHR ''7''))), (''agent_id'', JString review_agent)])]"

definition review_plaintext :: json where
  "review_plaintext = JObject [(''version'', JString ''1''), (''response'', review_response), (''event'', review_event)]"

definition review_reader :: "unit results_reader" where
  "review_reader = \<lparr>xe_organizationId = some_address (CHR ''2''), xe_hash = review_hash_env, xe_keys = review_keys, xe_bcs = sample_bcs, xe_utf8 = (\<lambda>s. True),
     xe_fromBase64 = Some, xe_toBase64 = (\<lambda>s. s), xe_now = (\<lambda>r. (2500, r)),
     xe_verifyOrganization = okE \<lparr>ry_authorityPin = ''pin'', ry_encryptedKeys = ''keys'', ry_clockMs = 2000\<rparr>, xe_coreType = (\<lambda>m t. okE t),
     xe_getExecution = (\<lambda>i. okE \<lparr>cz_objectId = i, cz_owner = ''Shared'', cz_type = ''CommandExecution'', cz_content = Some review_run, cz_previousTransaction = None\<rparr>),
     xe_getRecord = (\<lambda>i. okE \<lparr>cz_objectId = i, cz_owner = ''Immutable'', cz_type = ''EncryptedRecord'', cz_content = Some review_record,
        cz_previousTransaction = Some ''digest''\<rparr>),
     xe_getMember = (\<lambda>i. okE \<lparr>cz_objectId = i, cz_owner = ''Shared'', cz_type = ''HostMembership'', cz_content = Some \<lparr>rm_id = i, rm_org_id = some_address (CHR ''2''),
        rm_host_address = some_address (CHR ''7''), rm_coordinator_binding = some_address (CHR ''6''), rm_host_public_key = code_points sample_key\<rparr>,
        cz_previousTransaction = None\<rparr>),
     xe_getResultKey = (\<lambda>c h v. throwE ()), xe_getReservationBudget = (\<lambda>c h. okE \<lparr>rb_reservedAmount = 0, rb_settled = True, rb_spentAmount = 0\<rparr>),
     xe_decrypt = (\<lambda>k d. okE (Some (stringify review_plaintext)))\<rparr>"

lemma review_reader_fields [simp]:
  "xe_organizationId review_reader = some_address (CHR ''2'')" "xe_hash review_reader = review_hash_env" "xe_keys review_reader = review_keys"
  "xe_bcs review_reader = sample_bcs" "awaitX (xe_verifyOrganization review_reader) r = (Inr \<lparr>ry_authorityPin = ''pin'', ry_encryptedKeys = ''keys'', ry_clockMs = 2000\<rparr>, r)"
  "awaitX (xe_coreType review_reader m t) r = (Inr t, r)" "nowX review_reader r = (Inr 2500, r)"
  "awaitX (xe_decrypt review_reader k d) r = (Inr (Some (stringify review_plaintext)), r)"
  "awaitX (xe_getReservationBudget review_reader c h) r = (Inr \<lparr>rb_reservedAmount = 0, rb_settled = True, rb_spentAmount = 0\<rparr>, r)"
  by (simp_all add: review_reader_def awaitX_def nowX_def eff_run)

lemma review_run_read: "runX review_reader (some_address (CHR ''1'')) (Some (some_address (CHR ''a''))) r = (Inr review_run, r)"
proof -
  have "result_run_sound review_reader (some_address (CHR ''1'')) (Some (some_address (CHR ''a''))) review_run"
    using review_intent(2)
    by (simp add: result_run_sound_def review_run_def code_points_def instance_agent_def review_agent_def is_hex64_def is_lower_hex_def is_digit_def list_all_iff)
  then show ?thesis by (simp add: runX_def typed_content_def eff_run) (simp add: review_reader_def awaitX_def eff_run)
qed

lemma review_current:
  "assertCurrentX review_reader \<lparr>ry_authorityPin = ''pin'', ry_encryptedKeys = ''keys'', ry_clockMs = 2000\<rparr> review_run (Some (some_address (CHR ''a''))) r = (Inr (), r)"
proof -
  have "en_id review_run = some_address (CHR ''1'')" by (simp add: review_run_def)
  then show ?thesis by (simp add: assertCurrentX_def eff_run review_run_read)
qed

lemma review_sizes: "length (some_address c) = 66" "length review_agent = 71" "length sample_key = 32"
  by (simp_all add: some_address_def review_agent_def sample_key_def)

lemma review_opened: "plaintext_of review_reader (Some (stringify review_plaintext)) = Inr review_plaintext"
proof -
  have "length (dec_string 900000) = 6" "length (dec_string 300000) = 6" "length (dec_string 1000) = 4" by code_simp+
  then have "json_bound review_plaintext \<le> 65504"
    by (simp add: review_plaintext_def review_response_def review_event_def acceptance_json_def proposal_json_def signed_review_def review_acceptance_def review_proposal_def
        review_sizes signature_text_def sample_paths_def)
  then have "length (stringify review_plaintext) \<le> 65504" using stringify_bound(1) [of review_plaintext] by simp
  moreover have "objectR (Some review_plaintext) = Inr review_plaintext" by (simp add: objectR_def review_plaintext_def)
  ultimately show ?thesis by (simp add: plaintext_of_def review_reader_def json_parse_stringify)
qed

lemma review_response_fits: "response_for review_run review_plaintext review_response review_event (the (field review_event ''target''))"
  by (simp add: response_for_def review_plaintext_def review_response_def review_event_def field_def review_run_def execution_states_def js_true_def)

lemma review_result_read:
  "\<exists>res. readX review_reader (some_address (CHR ''1'')) (Some (some_address (CHR ''a''))) r = (Inr res, r) \<and> er_run res = review_run \<and> er_transactionDigest res = Some ''digest''
     \<and> er_response res = Some (with_member review_response ''transaction_digest'' (JString ''digest''))"
proof -
  have ids: "is_object_id (some_address (CHR ''1''))" "is_object_id (some_address (CHR ''a''))"
    by (simp_all add: some_address_id is_lower_hex_def is_digit_def)
  have named: "en_result_record review_run = Some ''record''" "en_state review_run = 2" "length (en_result_hash review_run) = 32" "en_budget_amount review_run = 0"
    by (simp_all add: review_run_def review_body_def code_points_def)
  have fits: "record_for review_reader review_run ''record'' review_record"
    by (simp add: record_for_def review_record_def review_run_def review_body_def review_hash_env_def)
  have source: "awaitX (xe_getRecord review_reader i) r = (Inr \<lparr>cz_objectId = i, cz_owner = ''Immutable'', cz_type = ''EncryptedRecord'', cz_content = Some review_record,
      cz_previousTransaction = Some ''digest''\<rparr>, r)" for i r
    by (simp add: review_reader_def awaitX_def eff_run)
  have spend: "spend_for review_run \<lparr>rb_reservedAmount = 0, rb_settled = True, rb_spentAmount = 0\<rparr> review_response review_event = Inr ()"
    by (simp add: spend_for_def review_run_def)
  have parts: "objectR (field review_plaintext ''response'') = Inr review_response" "objectR (field review_plaintext ''event'') = Inr review_event"
    "objectR (field review_event ''target'') = Inr (the (field review_event ''target''))"
    by (simp_all add: objectR_def review_plaintext_def field_def review_response_def review_event_def)
  have opened: "openedX review_reader \<lparr>ry_authorityPin = ''pin'', ry_encryptedKeys = ''keys'', ry_clockMs = 2000\<rparr> review_run (Some (some_address (CHR ''a'')))
      \<lparr>rb_reservedAmount = 0, rb_settled = True, rb_spentAmount = 0\<rparr> (Some (stringify review_plaintext)) r = (Inr review_response, r)" for r
    by (simp add: openedX_def eff_run review_opened parts review_response_fits spend review_current)
  have mark: "rd_encrypted_body review_record ! 3 = CHR ''1''" "rd_id review_record = ''record''" by (simp_all add: review_record_def review_body_def)
  show ?thesis
    using ids named fits
    by (simp add: readX_def recordedX_def eff_run review_run_read source typed_content_def mark opened jopt_def)
qed

theorem execution_result_original_witness:
  "\<exists>res d response before r r'. readX review_reader (some_address (CHR ''1'')) (Some (some_address (CHR ''a''))) () = (Inr res, ()) \<and> er_recordId res = Some (rd_id d)
     \<and> response_read review_reader before review_run d (Some ''digest'') response r r'"
proof -
  obtain res where run: "readX review_reader (some_address (CHR ''1'')) (Some (some_address (CHR ''a''))) () = (Inr res, ())"
    and res: "er_run res = review_run" "er_transactionDigest res = Some ''digest''"
      "er_response res = Some (with_member review_response ''transaction_digest'' (JString ''digest''))"
    using review_result_read by blast
  from execution_result_original [OF run] res run show ?thesis by auto
qed

lemma review_read:
  "\<exists>res. readReviewX review_reader (some_address (CHR ''1'')) review_signed_command (proposal_json review_proposal) () = (Inr (res, signed_review), ())
     \<and> er_run res = review_run \<and> run_of_command review_hash_env review_signed_command review_run"
proof -
  let ?p = "proposal_json review_proposal"
  obtain res where result: "readX review_reader (some_address (CHR ''1'')) (Some (some_address (CHR ''a''))) () = (Inr res, ())"
    and res: "er_run res = review_run" "er_response res = Some (with_member review_response ''transaction_digest'' (JString ''digest''))"
    using review_result_read by blast
  have agent: "sfield ?p ''managed_agent_id'' = Some (some_address (CHR ''a''))" by (simp add: sfield_def proposal_json_def field_def review_proposal_def)
  have command: "review_command review_signed_command ?p" "run_of_command review_hash_env review_signed_command review_run"
    using review_intent(1)
    by (simp_all add: review_command_def review_command_fields field_def run_of_command_def review_run_def del: stringify.simps)
  have member: "en_membership_id review_run = some_address (CHR ''5'')" "en_host_address review_run = some_address (CHR ''7'')" by (simp_all add: review_run_def)
  have acceptance: "objectR (field (with_member review_response ''transaction_digest'' (JString ''digest'')) ''handover_review'') = Inr (acceptance_json signed_review)"
    by (simp add: review_response_def with_member_def field_def objectR_def acceptance_json_def)
  have of_run: "acceptance_of_run (acceptance_json signed_review) review_run"
    by (simp add: acceptance_of_run_def acceptance_json_def sfield_def field_def review_run_def signed_review_def review_acceptance_def review_agent_def)
  have source: "awaitX (xe_getMember review_reader i) r = (Inr \<lparr>cz_objectId = i, cz_owner = ''Shared'', cz_type = ''HostMembership'', cz_content = Some \<lparr>rm_id = i,
        rm_org_id = some_address (CHR ''2''), rm_host_address = some_address (CHR ''7''), rm_coordinator_binding = some_address (CHR ''6''),
        rm_host_public_key = code_points sample_key\<rparr>, cz_previousTransaction = None\<rparr>, r)" for i r
    by (simp add: review_reader_def awaitX_def eff_run)
  have of_member: "member_of_run (acceptance_json signed_review) review_run \<lparr>rm_id = some_address (CHR ''5''), rm_org_id = some_address (CHR ''2''),
      rm_host_address = some_address (CHR ''7''), rm_coordinator_binding = some_address (CHR ''6''), rm_host_public_key = code_points sample_key\<rparr>"
    by (simp add: member_of_run_def review_run_def acceptance_json_def sfield_def field_def signed_review_def review_acceptance_def signature_text_def startsWith_def
        review_sizes)
  obtain bytes where bytes: "\<And>sg. handoverAcceptanceSigningBytes review_hash_env sample_bcs (review_acceptance\<lparr>hx_signature := sg\<rparr>) = Inr bytes" by (rule review_signed) blast
  obtain h where h: "handoverProposalHash review_hash_env sample_bcs review_proposal = Inr h" by (rule review_hash)
  have signed: "handoverAcceptanceSigningBytes review_hash_env sample_bcs signed_review = Inr bytes" using bytes by (simp add: signed_review_def)
  have x: "hx_host_address signed_review = some_address (CHR ''7'')" "hx_signature signed_review = signature_text sample_key (sample_key @ sample_key)"
    "hx_proposal signed_review = review_proposal" "hx_observed_at_ms signed_review = 1000" "hv_review_expires_at_ms review_proposal = 300000"
    by (simp_all add: signed_review_def review_acceptance_def review_proposal_def)
  have match: "match_signature (signature_text sample_key (sample_key @ sample_key)) = Some (bytesToHex sample_key, bytesToHex (sample_key @ sample_key))"
    by (rule match_signature_text) (simp_all add: review_sizes)
  have verified: "verifyHandoverAcceptanceSignature review_hash_env review_keys sample_bcs signed_review (some_address (CHR ''7'')) = Inr ()"
    using match by (simp add: verifyHandoverAcceptanceSignature_def handover_id_def some_address_id is_lower_hex_def is_digit_def x signed review_keys_def assertR_def)
  have fresh: "assertFreshHandoverAcceptance review_hash_env sample_bcs signed_review t review_proposal = Inr ()" if "t = 2000 \<or> t = 2500" for t
    using that by (auto simp: assertFreshHandoverAcceptance_def signed h x timestampH_def is_safe_integer_def max_safe_integer_def)
  have "readReviewX review_reader (some_address (CHR ''1'')) review_signed_command ?p () = (Inr (res, signed_review), ())"
    by (simp add: readReviewX_def eff_run outsideR_def review_command_verified command agent result res acceptance of_run source typed_content_def member of_member
        acceptance_of_json proposal_of_json verified fresh max_safe_integer_def Let_def)
  then show ?thesis using res command(2) by blast
qed


end
