(* ===== verification/Node_Execution.thy ===== *)
theory Node_Execution
  imports Execution_Results Transaction_History
begin

text \<open>
  \<^verbatim>\<open>NodeExecutionApi\<close> of \<^verbatim>\<open>sdk/src/node-execution.ts\<close>: the complete history of an Agent's executions, budgets and result keys of a command, and the
  delivery of a queued Run, with the wire form of long byte payloads of \<^verbatim>\<open>sdk/src/wire-bytes.ts\<close>. Chain reads with their parsed contents and the
  library's address functions are fields of \<open>execution_api\<close>; a transaction is the call that it is asked to make. The walk over the pages of the index
  takes their number as fuel.
\<close>

section \<open>Long payloads\<close>

datatype wire_argument = Pure_bytes string | Append_bytes wire_argument string

text \<open>The loop of \<^verbatim>\<open>bytesArgument\<close>, over what is left after the first chunk of 16000 bytes.\<close>

function append_chunks :: "wire_argument \<Rightarrow> string \<Rightarrow> wire_argument" where
  "append_chunks a rest = (if rest = [] then a else append_chunks (Append_bytes a (take 16000 rest)) (drop 16000 rest))"
  by auto
termination by (relation "measure (\<lambda>(a, rest). length rest)") auto

declare append_chunks.simps [simp del]

definition bytesArgument :: "string \<Rightarrow> wire_argument option" where
  "bytesArgument bytes = (if 65536 < length bytes then None else Some (append_chunks (Pure_bytes (take 16000 bytes)) (drop 16000 bytes)))"

text \<open>What the arguments denote on the chain, where \<^verbatim>\<open>append_bytes\<close> joins two vectors.\<close>

fun wire_value :: "wire_argument \<Rightarrow> string" where
  "wire_value (Pure_bytes b) = b"
| "wire_value (Append_bytes a b) = wire_value a @ b"

fun wire_chunks :: "wire_argument \<Rightarrow> nat list" where
  "wire_chunks (Pure_bytes b) = [length b]"
| "wire_chunks (Append_bytes a b) = wire_chunks a @ [length b]"

section \<open>Data\<close>

datatype node_failure = Nx_coverage_unavailable | Nx_invalid_source | Nx_snapshot_changed
  | Nx_command command_error | Nx_u64 sdk_error | Nx_invalid_delivery | Nx_not_this_run | Nx_recipient_changed | Nx_unexpected_type | Nx_invalid_checkpoint
  | Nx_bad_intent_hash | Nx_invalid_budget | Nx_invalid_key | Nx_invalid_record | Nx_unknown_spent | Nx_invalid_context | Nx_outside | Nx_more_pages

record managed_agent =
  mg_id :: string
  mg_org_id :: string
  mg_membership_id :: string
  mg_host_address :: string
  mg_instance_id :: string
  mg_runtime :: string
  mg_workspace_hash :: "int list"
  mg_control_confirmed :: bool
  mg_confirmed_by_human :: string
  mg_confirmed_by_device :: string
  mg_version :: int
  mg_revoked :: bool
  mg_imported_at_ms :: int

text \<open>A dynamic field: the type of its value, the parsed value and the version of the field object.\<close>

record 'v chain_field =
  cf_type :: string
  cf_value :: 'v
  cf_version :: string

record execution_index =
  ei_table :: string
  ei_size :: int
  ei_unsettled_control :: int
  ei_revision :: int

record execution_pointer =
  xp_capability_id :: string
  xp_control :: bool
  xp_settled :: bool

text \<open>A page of the index; the name of an entry is its type and the identifier it parses to.\<close>

record index_page =
  ig_fields :: "(string \<times> string option) list"
  ig_hasNextPage :: bool
  ig_cursor :: "string option"

record budget_totals =
  bt_spent :: int
  bt_reserved :: int

record budget_claim =
  bc_reserved_amount :: int
  bc_spent_amount :: int
  bc_settled :: bool

record command_delivery =
  dv_key_version :: int
  dv_encrypted_command :: string
  dv_body_hash :: string
  dv_queued_at_ms :: int

text \<open>The standing permission a direct message is sent under, and a Host's membership.\<close>

record direct_context =
  dx_permission_id :: string
  dx_approval_id :: "string option"
  dx_message_id :: string
  dx_approving_grant_id :: "string option"

record key_member =
  km_id :: string
  km_org_id :: string
  km_host_address :: string
  km_revoked :: bool
  km_coordinator_binding :: string
  km_encryption_public_key :: string

record command_authority =
  qa_humanId :: string
  qa_grantId :: string
  qa_membershipId :: string
  qa_bindingId :: string
  qa_managedAgentId :: "string option"

record 'r execution_api =
  ap_packageId :: string
  ap_okrPackageId :: string
  ap_directPackageId :: string
  ap_hash :: hash_env
  ap_keys :: key_env
  ap_normalize :: "string \<Rightarrow> string"
  ap_absentId :: "string \<Rightarrow> string \<Rightarrow> string \<Rightarrow> string option"
  ap_coreType :: "string \<Rightarrow> string \<Rightarrow> ('r, unit, string) eff"
  ap_managed :: "string \<Rightarrow> ('r, unit, managed_agent chain_source) eff"
  ap_index :: "string \<Rightarrow> string \<Rightarrow> string \<Rightarrow> ('r, lookup_failure, execution_index chain_field) eff"
  ap_page :: "string \<Rightarrow> string option \<Rightarrow> ('r, unit, index_page) eff"
  ap_pointer :: "string \<Rightarrow> string \<Rightarrow> ('r, unit, execution_pointer chain_field) eff"
  ap_execution :: "string \<Rightarrow> ('r, unit, execution chain_source) eff"
  ap_totals :: "string \<Rightarrow> ('r, unit, budget_totals chain_field) eff"
  ap_claim :: "string \<Rightarrow> int list \<Rightarrow> ('r, unit, budget_claim chain_field) eff"
  ap_resultKey :: "string \<Rightarrow> int list \<Rightarrow> int \<Rightarrow> ('r, unit, result_key chain_field) eff"
  ap_delivery :: "string \<Rightarrow> string \<Rightarrow> ('r, lookup_failure, command_delivery chain_field) eff"
  ap_commandContext :: "signed_command \<Rightarrow> command_authority \<Rightarrow> ('r, unit, direct_context) eff"
  ap_membership :: "string \<Rightarrow> ('r, unit, key_member) eff"
  ap_wrapKey :: "string \<Rightarrow> string \<Rightarrow> string \<Rightarrow> int \<Rightarrow> key_member \<Rightarrow> signed_command \<Rightarrow> ('r, unit, string) eff"

type_synonym ('r, 'a) node_read = "('r, node_failure, 'a) eff"

definition awaitA :: "('r, unit, 'a) eff \<Rightarrow> ('r, 'a) node_read" where
  "awaitA m = (\<lambda>r. case m r of (Inl _, r') \<Rightarrow> (Inl Nx_outside, r') | (Inr a, r') \<Rightarrow> (Inr a, r'))"

text \<open>A field of the expected type.\<close>

definition typed_field :: "'r execution_api \<Rightarrow> node_failure \<Rightarrow> string \<Rightarrow> string \<Rightarrow> 'v chain_field \<Rightarrow> ('r, 'v) node_read" where
  "typed_field A e m t f =
     bindE (awaitA (ap_coreType A m t)) (\<lambda>type.
     bindE (assertE (cf_type f = type) e) (\<lambda>_.
     okE (cf_value f)))"

text \<open>A shared object with contents, read under its own identifier.\<close>

definition shared_object :: "'r execution_api \<Rightarrow> string \<Rightarrow> string \<Rightarrow> string \<Rightarrow> 'c chain_source \<Rightarrow> ('r, 'c) node_read" where
  "shared_object A i m t source =
     bindE (assertE (cz_objectId source = i) Nx_invalid_source) (\<lambda>_.
     bindE (awaitA (ap_coreType A m t)) (\<lambda>type.
     bindE (assertE (cz_type source = type \<and> cz_owner source = ''Shared'') Nx_invalid_source) (\<lambda>_.
     case cz_content source of None \<Rightarrow> throwE Nx_invalid_source | Some c \<Rightarrow> okE c)))"

section \<open>Budgets, keys and Runs\<close>

definition getBudgetA :: "'r execution_api \<Rightarrow> string \<Rightarrow> ('r, budget_totals) node_read" where
  "getBudgetA A capabilityId =
     bindE (awaitA (ap_totals A capabilityId)) (\<lambda>f. typed_field A Nx_unexpected_type ''remote_authority'' ''BoundBudgetTotals'' f)"

definition getReservationBudgetA :: "'r execution_api \<Rightarrow> string \<Rightarrow> int list \<Rightarrow> ('r, reservation_budget) node_read" where
  "getReservationBudgetA A capabilityId intentHash =
     bindE (assertE (length intentHash = 32) Nx_bad_intent_hash) (\<lambda>_.
     bindE (awaitA (ap_claim A capabilityId intentHash)) (\<lambda>f.
     bindE (typed_field A Nx_unexpected_type ''remote_authority'' ''BoundBudgetClaim'' f) (\<lambda>v.
     bindE (assertE (bc_spent_amount v \<le> bc_reserved_amount v \<and> (bc_settled v \<or> bc_spent_amount v = 0)) Nx_invalid_budget) (\<lambda>_.
     okE \<lparr>rb_reservedAmount = bc_reserved_amount v, rb_settled = bc_settled v, rb_spentAmount = bc_spent_amount v\<rparr>))))"

definition getExecutionA :: "'r execution_api \<Rightarrow> string \<Rightarrow> ('r, execution) node_read" where
  "getExecutionA A i =
     bindE (awaitA (ap_execution A i)) (\<lambda>source.
     bindE (awaitA (ap_coreType A ''node_execution'' ''CommandExecution'')) (\<lambda>type.
     bindE (assertE (cz_type source = type) Nx_unexpected_type) (\<lambda>_.
     case cz_content source of
       None \<Rightarrow> throwE Nx_unexpected_type
     | Some n \<Rightarrow>
         bindE (assertE (en_id n = i \<and> en_state n \<le> 5 \<and> length (en_intent_hash n) = 32) Nx_invalid_checkpoint) (\<lambda>_.
         okE n))))"

definition getResultKeyA :: "'r execution_api \<Rightarrow> string \<Rightarrow> int list \<Rightarrow> u64_input \<Rightarrow> ('r, result_key) node_read" where
  "getResultKeyA A capabilityId intentHash keyVersion =
     bindE (assertE (length intentHash = 32) Nx_bad_intent_hash) (\<lambda>_.
     bindE (liftR (case toBigInt keyVersion of Inl e \<Rightarrow> Inl (Nx_u64 e) | Inr v \<Rightarrow> Inr v)) (\<lambda>version.
     bindE (awaitA (ap_resultKey A capabilityId intentHash version)) (\<lambda>f.
     bindE (typed_field A Nx_unexpected_type ''node_execution'' ''ResultKeyGrant'' f) (\<lambda>y.
     bindE (assertE (ry_key_version y = version \<and> length (ry_wrapped_key y) = 132) Nx_invalid_key) (\<lambda>_.
     okE y)))))"

section \<open>The history of an Agent\<close>

record covered_run =
  vr_run :: execution
  vr_control :: bool
  vr_settled :: bool
  vr_spent :: int
  vr_reserved :: int

record execution_coverage =
  vc_managed :: managed_agent
  vc_revision :: int
  vc_executions :: "covered_run list"
  vc_unsettledControl :: nat

definition control_actions :: "string list" where
  "control_actions = [''start'', ''stop'', ''assign'', ''direct.message'']"

definition observing_actions :: "string list" where
  "observing_actions = [''inventory'', ''status'', ''monitor'', ''logs'', ''health'', ''availability'']"

definition settled_states :: "int list" where
  "settled_states = [2, 3, 5]"

definition index_name_types :: "string \<Rightarrow> string list" where
  "index_name_types two = [''0x2::object::ID'', two @ ''::object::ID'']"

definition readManagedA :: "'r execution_api \<Rightarrow> string \<Rightarrow> string \<Rightarrow> ('r, managed_agent) node_read" where
  "readManagedA A org managedId =
     bindE (awaitA (ap_managed A managedId)) (\<lambda>source.
     bindE (shared_object A managedId ''host'' ''ManagedAgent'' source) (\<lambda>m.
     bindE (assertE (mg_id m = managedId \<and> mg_org_id m = org \<and> length (mg_workspace_hash m) = 32 \<and> 1 \<le> mg_version m) Nx_invalid_source) (\<lambda>_.
     okE m)))"

text \<open>An index whose field is certainly absent is \<^verbatim>\<open>coverage_unavailable\<close>; every other failure is passed on.\<close>

definition absentA :: "'r execution_api \<Rightarrow> string \<Rightarrow> string \<Rightarrow> string \<Rightarrow> ('r, string) node_read" where
  "absentA A parentId type name = (case ap_absentId A parentId type name of None \<Rightarrow> throwE Nx_outside | Some i \<Rightarrow> okE i)"

definition lookupA :: "node_failure \<Rightarrow> string \<Rightarrow> ('r, lookup_failure, 'a) eff \<Rightarrow> ('r, 'a) node_read" where
  "lookupA absent absentId m = (\<lambda>r. case m r of
      (Inl e, r') \<Rightarrow> (Inl (if e = Not_found absentId then absent else Nx_outside), r')
    | (Inr a, r') \<Rightarrow> (Inr a, r'))"

definition readIndexA :: "'r execution_api \<Rightarrow> string \<Rightarrow> string \<Rightarrow> string \<Rightarrow> string \<Rightarrow> ('r, execution_index \<times> string) node_read" where
  "readIndexA A type org managedId absentId =
     bindE (lookupA Nx_coverage_unavailable absentId (ap_index A type org managedId)) (\<lambda>f.
     bindE (typed_field A Nx_invalid_source ''host'' ''AgentExecutionIndex'' f) (\<lambda>v.
     bindE (assertE (1 \<le> ei_revision v \<and> ei_unsettled_control v \<le> ei_size v) Nx_invalid_source) (\<lambda>_.
     okE (v, cf_version f))))"

definition covered_ok :: "string \<Rightarrow> managed_agent \<Rightarrow> string \<Rightarrow> string \<Rightarrow> execution_pointer \<Rightarrow> execution \<Rightarrow> bool" where
  "covered_ok org m managedId executionId p n \<longleftrightarrow>
     en_id n = executionId \<and> en_org_id n = org \<and> en_managed_agent n = Some managedId \<and> en_host_address n = mg_host_address m
     \<and> en_node_id n = mg_host_address m \<and> en_agent_id n = mg_instance_id m \<and> en_capability_id n = xp_capability_id p \<and> en_state n \<le> 5
     \<and> length (en_intent_hash n) = 32 \<and> xp_control p = (en_action n \<in> set control_actions) \<and> xp_settled p = (en_state n \<in> set settled_states)"

text \<open>One entry of the index.\<close>

definition coverA :: "'r execution_api \<Rightarrow> string \<Rightarrow> managed_agent \<Rightarrow> string \<Rightarrow> string \<Rightarrow> string \<Rightarrow> ('r, covered_run) node_read" where
  "coverA A org m managedId table executionId =
     bindE (awaitA (ap_pointer A table executionId)) (\<lambda>f.
     bindE (typed_field A Nx_invalid_source ''host'' ''AgentExecutionPointer'' f) (\<lambda>p.
     bindE (awaitA (ap_execution A executionId)) (\<lambda>source.
     bindE (shared_object A executionId ''node_execution'' ''CommandExecution'' source) (\<lambda>n.
     bindE (assertE (en_action n \<in> set control_actions \<or> en_action n \<in> set observing_actions) Nx_invalid_source) (\<lambda>_.
     bindE (assertE (covered_ok org m managedId executionId p n) Nx_invalid_source) (\<lambda>_.
     bindE (getReservationBudgetA A (en_capability_id n) (en_intent_hash n)) (\<lambda>b.
     bindE (assertE (rb_reservedAmount b = en_budget_amount n \<and> rb_settled b = (en_state n \<in> set settled_states)) Nx_invalid_source) (\<lambda>_.
     okE \<lparr>vr_run = n, vr_control = (en_action n \<in> set control_actions), vr_settled = (en_state n \<in> set settled_states), vr_spent = rb_spentAmount b,
          vr_reserved = (if en_state n \<in> set settled_states then 0 else rb_reservedAmount b)\<rparr>))))))))"

fun coverFields :: "'r execution_api \<Rightarrow> string \<Rightarrow> managed_agent \<Rightarrow> string \<Rightarrow> string \<Rightarrow> string list \<Rightarrow> (string \<times> string option) list
    \<Rightarrow> ('r, covered_run list) node_read" where
  "coverFields A org m managedId table ids [] = okE []"
| "coverFields A org m managedId table ids ((type, name) # entries) =
     bindE (assertE (type \<in> set (index_name_types (ap_normalize A ''0x2''))) Nx_invalid_source) (\<lambda>_.
     case name of
       None \<Rightarrow> throwE Nx_outside
     | Some executionId \<Rightarrow>
         bindE (assertE (executionId \<notin> set ids) Nx_invalid_source) (\<lambda>_.
         bindE (coverA A org m managedId table executionId) (\<lambda>row.
         bindE (coverFields A org m managedId table (executionId # ids) entries) (\<lambda>rows.
         okE (row # rows)))))"

definition page_ids :: "index_page \<Rightarrow> string list" where
  "page_ids page = List.map_filter snd (ig_fields page)"

fun coverPages :: "nat \<Rightarrow> 'r execution_api \<Rightarrow> string \<Rightarrow> managed_agent \<Rightarrow> string \<Rightarrow> string \<Rightarrow> string option \<Rightarrow> string list \<Rightarrow> string list
    \<Rightarrow> ('r, covered_run list) node_read" where
  "coverPages 0 A org m managedId table cursor cursors ids = throwE Nx_more_pages"
| "coverPages (Suc fuel) A org m managedId table cursor cursors ids =
     bindE (awaitA (ap_page A table cursor)) (\<lambda>page.
     bindE (assertE (ig_hasNextPage page \<longrightarrow> ig_cursor page \<noteq> None \<and> ig_cursor page \<noteq> Some [] \<and> the (ig_cursor page) \<notin> set cursors) Nx_invalid_source) (\<lambda>_.
     bindE (coverFields A org m managedId table ids (ig_fields page)) (\<lambda>rows.
     if ig_hasNextPage page
     then bindE (coverPages fuel A org m managedId table (ig_cursor page) (the (ig_cursor page) # cursors) (rev (page_ids page) @ ids)) (\<lambda>rest.
          okE (rows @ rest))
     else okE rows)))"

definition unsettled :: "covered_run list \<Rightarrow> nat" where
  "unsettled rows = length (filter (\<lambda>row. vr_control row \<and> \<not> vr_settled row) rows)"

definition readAgentExecutions :: "nat \<Rightarrow> 'r execution_api \<Rightarrow> string \<Rightarrow> string \<Rightarrow> ('r, execution_coverage) node_read" where
  "readAgentExecutions fuel A organizationId managedAgentId =
    (let org = ap_normalize A organizationId; managedId = ap_normalize A managedAgentId in
     bindE (readManagedA A org managedId) (\<lambda>m.
     bindE (awaitA (ap_coreType A ''host'' ''AgentExecutionIndexKey'')) (\<lambda>type.
     bindE (absentA A org type managedId) (\<lambda>absentId.
     bindE (readIndexA A type org managedId absentId) (\<lambda>before.
     bindE (coverPages fuel A org m managedId (ei_table (fst before)) None [] []) (\<lambda>rows.
     bindE (readIndexA A type org managedId absentId) (\<lambda>after.
     bindE (assertE (before = after) Nx_snapshot_changed) (\<lambda>_.
     bindE (readManagedA A org managedId) (\<lambda>m'.
     bindE (assertE (m = m') Nx_snapshot_changed) (\<lambda>_.
     bindE (assertE (int (length rows) = ei_size (fst before) \<and> int (unsettled rows) = ei_unsettled_control (fst before)) Nx_invalid_source) (\<lambda>_.
     okE \<lparr>vc_managed = m, vc_revision = ei_revision (fst before), vc_executions = rows, vc_unsettledControl = unsettled rows\<rparr>)))))))))))"

section \<open>Delivering a Run\<close>

datatype call_argument = Arg_object string | Arg_string string | Arg_u64 int | Arg_u8 int | Arg_bytes string | Arg_wire wire_argument | Arg_clock

record move_call =
  mc_target :: string
  mc_arguments :: "call_argument list"

definition delivery_text :: "string \<Rightarrow> bool" where
  "delivery_text body \<longleftrightarrow> 33 \<le> length body \<and> length body \<le> 65536 \<and> take 4 body = ''FME3''"

definition budget_of :: "signed_command \<Rightarrow> string \<times> string" where
  "budget_of c = (case sc_budget c of None \<Rightarrow> ('''', ''0'') | Some (asset, amount) \<Rightarrow> (asset, amount))"

definition queued_run :: "'r execution_api \<Rightarrow> command_authority \<Rightarrow> string \<Rightarrow> signed_command \<Rightarrow> string \<Rightarrow> execution \<Rightarrow> bool" where
  "queued_run A q managedAgentId c fingerprint n \<longleftrightarrow>
     en_state n = 0 \<and> \<not> en_stop_requested n \<and> en_org_id n = sc_organization_id c \<and> en_capability_id n = sc_capability_id c
     \<and> dec_string (en_capability_version n) = sc_revocation_version c \<and> en_delegate n = sc_signer c \<and> en_human_id n = ap_normalize A (qa_humanId q)
     \<and> en_grant_id n = ap_normalize A (qa_grantId q) \<and> en_membership_id n = ap_normalize A (qa_membershipId q)
     \<and> en_managed_agent n = Some (ap_normalize A managedAgentId) \<and> en_host_address n = sc_node_id c
     \<and> bytesToHex (byte_text (en_intent_hash n)) = bytesToHex fingerprint \<and> en_command_id n = sc_command_id c \<and> en_nonce n = sc_nonce c
     \<and> en_idempotency_key n = sc_idempotency_key c \<and> en_issued_at_ms n = sc_issued_at_ms c \<and> en_expires_at_ms n = sc_expires_at_ms c
     \<and> en_action n = sc_action c \<and> en_scope n = sc_scope c \<and> Some (en_agent_id n) = sc_agent_id c
     \<and> dec_string (en_budget_amount n) = snd (budget_of c) \<and> en_budget_asset n = fst (budget_of c)"

definition key_recipient :: "execution \<Rightarrow> result_key \<Rightarrow> bool" where
  "key_recipient n y \<longleftrightarrow> ry_org_id y = en_org_id n \<and> ry_membership_id y = en_membership_id n \<and> ry_host_address y = en_host_address n"

definition commandR :: "(command_error, 'a) result \<Rightarrow> ('r, 'a) node_read" where
  "commandR x = liftR (case x of Inl e \<Rightarrow> Inl (Nx_command e) | Inr a \<Rightarrow> Inr a)"

definition u64A :: "u64_input \<Rightarrow> ('r, int) node_read" where
  "u64A x = liftR (case toBigInt x of Inl e \<Rightarrow> Inl (Nx_u64 e) | Inr v \<Rightarrow> Inr v)"

definition queueCommand :: "'r execution_api \<Rightarrow> command_authority \<Rightarrow> string \<Rightarrow> signed_command \<Rightarrow> u64_input \<Rightarrow> string \<Rightarrow> ('r, move_call) node_read" where
  "queueCommand A q executionId c keyVersion body =
     bindE (commandR (verifySignedNodeCommand (ap_hash A) (ap_keys A) c)) (\<lambda>_.
     bindE (u64A keyVersion) (\<lambda>version.
     case qa_managedAgentId q of
       None \<Rightarrow> throwE Nx_invalid_delivery
     | Some managedAgentId \<Rightarrow>
         bindE (assertE (managedAgentId \<noteq> [] \<and> 1 \<le> version \<and> version \<le> 18446744073709551615 \<and> delivery_text body) Nx_invalid_delivery) (\<lambda>_.
         bindE (getExecutionA A executionId) (\<lambda>n.
         bindE (commandR (nodeCommandIntentHash (ap_hash A) c)) (\<lambda>fingerprint.
         bindE (assertE (queued_run A q managedAgentId c fingerprint n) Nx_not_this_run) (\<lambda>_.
         bindE (getResultKeyA A (sc_capability_id c) (code_points fingerprint) (UBigInt version)) (\<lambda>y.
         bindE (assertE (key_recipient n y) Nx_recipient_changed) (\<lambda>_.
         case bytesArgument body of
           None \<Rightarrow> throwE Nx_invalid_delivery
         | Some argument \<Rightarrow>
             okE \<lparr>mc_target = ap_packageId A @ ''::node_execution::queue_command'',
                  mc_arguments = [Arg_object executionId, Arg_object (sc_capability_id c), Arg_object (sc_organization_id c), Arg_object (qa_humanId q),
                    Arg_object (qa_grantId q), Arg_object (qa_membershipId q), Arg_object (qa_bindingId q), Arg_object managedAgentId, Arg_u64 version,
                    Arg_wire argument, Arg_clock]\<rparr>))))))))"

definition getCommandDelivery :: "'r execution_api \<Rightarrow> string \<Rightarrow> ('r, command_delivery option) node_read" where
  "getCommandDelivery A executionId =
    (let parentId = ap_normalize A executionId in
     bindE (awaitA (ap_coreType A ''node_execution'' ''CommandDeliveryKey'')) (\<lambda>type.
     bindE (absentA A parentId type [char_of (0 :: nat)]) (\<lambda>absentId.
     bindE (\<lambda>r. case ap_delivery A type parentId r of
         (Inl e, r') \<Rightarrow> ((if e = Not_found absentId then Inr None else Inl Nx_outside), r')
       | (Inr f, r') \<Rightarrow> (Inr (Some f), r')) (\<lambda>found.
     case found of
       None \<Rightarrow> okE None
     | Some f \<Rightarrow>
         bindE (typed_field A Nx_unexpected_type ''node_execution'' ''CommandDelivery'' f) (\<lambda>v.
         bindE (assertE (1 \<le> dv_key_version v \<and> 1 \<le> dv_queued_at_ms v \<and> delivery_text (dv_encrypted_command v)
                  \<and> bytesToHex (sha256 (ap_hash A) (dv_encrypted_command v)) = bytesToHex (dv_body_hash v)) Nx_invalid_record) (\<lambda>_.
         okE (Some v)))))))"

section \<open>Preparing a command\<close>

text \<open>A result key comes wrapped by the device's key vault, or as the organization's key to wrap it with.\<close>

record wrapped_result_key =
  wk_wrappedKey :: string
  wk_organizationId :: string
  wk_capabilityId :: string
  wk_membershipId :: string
  wk_hostAddress :: string
  wk_hostEncryptionPublicKey :: string
  wk_intentHash :: string

record result_key_input =
  rk_keyVersion :: u64_input
  rk_organizationKey :: "string option"
  rk_wrapped :: "wrapped_result_key option"

definition nonblank :: "string option \<Rightarrow> bool" where
  "nonblank x \<longleftrightarrow> x \<noteq> None \<and> x \<noteq> Some []"

text \<open>The objective, agreement and key result that a command names in its payload.\<close>

definition okr_context :: "'r execution_api \<Rightarrow> signed_command \<Rightarrow> command_authority \<Rightarrow> (node_failure, (string \<times> string \<times> string) option) result" where
  "okr_context A c q =
    (case field (sc_payload c) ''okr'' of
       None \<Rightarrow> Inr None
     | Some contract \<Rightarrow>
         (case (sfield contract ''id'', sfield contract ''agreement_version'', sfield contract ''kr_index'') of
            (Some i, Some v, Some k) \<Rightarrow>
              if nonblank (qa_managedAgentId q) \<and> ap_normalize A i = i \<and> positive_text v \<and> k \<in> {''0'', ''1'', ''2''} then Inr (Some (i, v, k)) else Inl Nx_invalid_context
          | _ \<Rightarrow> Inl Nx_invalid_context))"

definition member_of_command :: "'r execution_api \<Rightarrow> command_authority \<Rightarrow> signed_command \<Rightarrow> key_member \<Rightarrow> bool" where
  "member_of_command A q c m \<longleftrightarrow> km_id m = ap_normalize A (qa_membershipId q) \<and> km_org_id m = ap_normalize A (sc_organization_id c)
     \<and> km_host_address m = ap_normalize A (sc_node_id c) \<and> \<not> km_revoked m \<and> km_coordinator_binding m = ap_normalize A (qa_bindingId q)"

definition wrapped_for :: "command_authority \<Rightarrow> signed_command \<Rightarrow> string \<Rightarrow> key_member \<Rightarrow> wrapped_result_key \<Rightarrow> bool" where
  "wrapped_for q c fingerprint m w \<longleftrightarrow> length (wk_wrappedKey w) = 132 \<and> take 4 (wk_wrappedKey w) = ''FMW1'' \<and> take 4 (drop 68 (wk_wrappedKey w)) = ''FME1''
     \<and> wk_organizationId w = sc_organization_id c \<and> wk_capabilityId w = sc_capability_id c \<and> wk_membershipId w = qa_membershipId q
     \<and> wk_hostAddress w = km_host_address m \<and> wk_intentHash w = bytesToHex fingerprint \<and> length (wk_hostEncryptionPublicKey w) = 32
     \<and> length (km_encryption_public_key m) = 32 \<and> wk_hostEncryptionPublicKey w = km_encryption_public_key m"

definition grantKeyA :: "'r execution_api \<Rightarrow> command_authority \<Rightarrow> signed_command \<Rightarrow> string \<Rightarrow> result_key_input \<Rightarrow> ('r, move_call) node_read" where
  "grantKeyA A q c fingerprint i =
     bindE (awaitA (ap_membership A (qa_membershipId q))) (\<lambda>m.
     bindE (assertE (member_of_command A q c m) Nx_recipient_changed) (\<lambda>_.
     bindE (u64A (rk_keyVersion i)) (\<lambda>version.
     bindE (assertE (0 < version \<and> version \<le> 18446744073709551615) Nx_invalid_key) (\<lambda>_.
     bindE (case rk_wrapped i of
         Some w \<Rightarrow> bindE (assertE (rk_organizationKey i = None \<and> wrapped_for q c fingerprint m w) Nx_invalid_key) (\<lambda>_. okE (wk_wrappedKey w))
       | None \<Rightarrow> (case rk_organizationKey i of None \<Rightarrow> throwE Nx_outside
                  | Some key \<Rightarrow> awaitA (ap_wrapKey A key (qa_membershipId q) fingerprint version m c))) (\<lambda>wrapped.
     okE \<lparr>mc_target = ap_packageId A @ ''::node_execution::grant_result_key'',
          mc_arguments = map Arg_object [sc_capability_id c, sc_organization_id c, qa_humanId q, qa_grantId q, qa_membershipId q, qa_bindingId q]
            @ [Arg_bytes fingerprint, Arg_u64 version, Arg_bytes wrapped, Arg_clock]\<rparr>)))))"

definition optional_object :: "string option \<Rightarrow> call_argument list" where
  "optional_object x = (case x of None \<Rightarrow> [] | Some i \<Rightarrow> if i = [] then [] else [Arg_object i])"

definition directCall :: "'r execution_api \<Rightarrow> command_authority \<Rightarrow> signed_command \<Rightarrow> string \<Rightarrow> direct_context \<Rightarrow> move_call" where
  "directCall A q c fingerprint d = \<lparr>
     mc_target = ap_directPackageId A @ ''::direct_agent::'' @ (if nonblank (dx_approval_id d) then ''prepare_approved_message'' else ''prepare_message''),
     mc_arguments = [Arg_object (dx_permission_id d)] @ optional_object (dx_approval_id d)
       @ map Arg_object [dx_message_id d, sc_capability_id c, sc_organization_id c, qa_humanId q, qa_grantId q] @ optional_object (dx_approving_grant_id d)
       @ map Arg_object [qa_membershipId q, qa_bindingId q, the (qa_managedAgentId q)]
       @ [Arg_string (sc_command_id c), Arg_string (sc_nonce c), Arg_string (sc_idempotency_key c), Arg_bytes fingerprint, Arg_u64 (sc_issued_at_ms c),
          Arg_u64 (sc_expires_at_ms c), Arg_clock]\<rparr>"

definition commandCall :: "'r execution_api \<Rightarrow> command_authority \<Rightarrow> signed_command \<Rightarrow> string \<Rightarrow> bool \<Rightarrow> (string \<times> string \<times> string) option \<Rightarrow> ('r, move_call) node_read" where
  "commandCall A q c fingerprint scheduled okr =
     bindE (case okr of None \<Rightarrow> okE []
        | Some (i, v, k) \<Rightarrow> bindE (u64A (UString v)) (\<lambda>version. bindE (u64A (UString k)) (\<lambda>kr. okE [Arg_u64 version, Arg_u64 kr]))) (\<lambda>agreement.
     bindE (u64A (case sc_budget c of None \<Rightarrow> UNumber (Some 0) | Some (asset, amount) \<Rightarrow> UString amount)) (\<lambda>amount.
     okE \<lparr>mc_target = (if okr \<noteq> None then ap_okrPackageId A @ ''::okr::'' @ (if scheduled then ''prepare_scheduled_command_v2'' else ''prepare_command_v2'')
             else ap_packageId A @ ''::node_execution::prepare_'' @ (if nonblank (qa_managedAgentId q) then ''agent_command_v2'' else ''host_command'')),
          mc_arguments = (case okr of None \<Rightarrow> [] | Some (i, v, k) \<Rightarrow> [Arg_object i])
            @ map Arg_object [sc_capability_id c, sc_organization_id c, qa_humanId q, qa_grantId q, qa_membershipId q, qa_bindingId q]
            @ optional_object (qa_managedAgentId q) @ agreement
            @ [Arg_string (sc_action c), Arg_string (sc_scope c), Arg_string (sc_command_id c), Arg_string (sc_nonce c), Arg_string (sc_idempotency_key c),
               Arg_string (fst (budget_of c)), Arg_u64 amount, Arg_bytes fingerprint, Arg_u64 (sc_issued_at_ms c), Arg_u64 (sc_expires_at_ms c), Arg_clock]\<rparr>))"

definition prepareCommand :: "'r execution_api \<Rightarrow> command_authority \<Rightarrow> signed_command \<Rightarrow> result_key_input option \<Rightarrow> bool \<Rightarrow> ('r, move_call list) node_read" where
  "prepareCommand A q c resultKey scheduled =
     bindE (commandR (verifySignedNodeCommand (ap_hash A) (ap_keys A) c)) (\<lambda>_.
     bindE (assertE (nonblank (sc_agent_id c) = nonblank (qa_managedAgentId q)) Nx_invalid_context) (\<lambda>_.
     bindE (assertE ((field (sc_payload c) ''direct'' \<noteq> None) = (sc_action c = ''direct.message'')) Nx_invalid_context) (\<lambda>_.
     bindE (if sc_action c = ''direct.message'' then bindE (awaitA (ap_commandContext A c q)) (\<lambda>d. okE (Some d)) else okE None) (\<lambda>direct.
     bindE (liftR (okr_context A c q)) (\<lambda>okr.
     bindE (assertE (scheduled \<longrightarrow> okr \<noteq> None \<and> sc_action c = ''assign'' \<and> sc_scope c = ''control'' \<and> direct = None) Nx_invalid_context) (\<lambda>_.
     bindE (commandR (nodeCommandIntentHash (ap_hash A) c)) (\<lambda>fingerprint.
     bindE (case resultKey of None \<Rightarrow> okE [] | Some i \<Rightarrow> bindE (grantKeyA A q c fingerprint i) (\<lambda>call. okE [call])) (\<lambda>grants.
     case direct of
       Some d \<Rightarrow> okE (grants @ [directCall A q c fingerprint d])
     | None \<Rightarrow> bindE (commandCall A q c fingerprint scheduled okr) (\<lambda>call. okE (grants @ [call]))))))))))"

text \<open>The calls that begin a Run, ask it to stop and finish it; a random attempt identifier is a parameter.\<close>

record run_reference =
  rr_executionId :: string
  rr_capabilityId :: string
  rr_organizationId :: string
  rr_okrId :: "string option"

definition beginCommand :: "'r execution_api \<Rightarrow> command_authority \<Rightarrow> run_reference \<Rightarrow> string \<Rightarrow> (node_failure, move_call) result" where
  "beginCommand A q i attemptId =
     bindR (assertR (nonblank (rr_okrId i) \<longrightarrow> nonblank (qa_managedAgentId q)) Nx_invalid_context) (\<lambda>_.
     Inr \<lparr>mc_target = (if nonblank (rr_okrId i) then ap_okrPackageId A @ ''::okr::begin_command''
             else ap_packageId A @ ''::node_execution::begin_'' @ (if nonblank (qa_managedAgentId q) then ''agent'' else ''host'') @ ''_command''),
          mc_arguments = optional_object (rr_okrId i)
            @ map Arg_object [rr_executionId i, rr_capabilityId i, rr_organizationId i, qa_humanId q, qa_grantId q, qa_membershipId q, qa_bindingId q]
            @ optional_object (qa_managedAgentId q) @ [Arg_bytes attemptId, Arg_clock]\<rparr>)"

definition requestStop :: "'r execution_api \<Rightarrow> string \<Rightarrow> string \<Rightarrow> run_reference \<Rightarrow> move_call" where
  "requestStop A humanId grantId i = \<lparr>
     mc_target = (if nonblank (rr_okrId i) then ap_okrPackageId A @ ''::okr::request_stop_v2'' else ap_packageId A @ ''::node_execution::request_stop_with_budget_v2''),
     mc_arguments = optional_object (rr_okrId i) @ map Arg_object [rr_executionId i, rr_capabilityId i, rr_organizationId i, humanId, grantId] @ [Arg_clock]\<rparr>"

text \<open>\<^verbatim>\<open>finishCommand\<close>: the only state that keeps its reservation cannot report a spending.\<close>

record finish_input =
  fi_executionId :: string
  fi_capabilityId :: string
  fi_organizationId :: string
  fi_okrId :: "string option"
  fi_finalState :: int
  fi_expectedCursor :: u64_input
  fi_spentAmount :: u64_input
  fi_keyVersion :: u64_input
  fi_encryptedResult :: string

definition finishCommand :: "'r execution_api \<Rightarrow> finish_input \<Rightarrow> (node_failure, move_call) result" where
  "finishCommand A i =
    (let u64 = (\<lambda>x. case toBigInt x of Inl e \<Rightarrow> Inl (Nx_u64 e) | Inr v \<Rightarrow> Inr v);
         okr = (case fi_okrId i of None \<Rightarrow> None | Some k \<Rightarrow> if k = [] then None else Some k) in
     bindR (if fi_finalState i = 4 then bindR (u64 (fi_spentAmount i)) (\<lambda>spent. assertR (spent = 0) Nx_unknown_spent) else Inr ()) (\<lambda>_.
     bindR (u64 (fi_expectedCursor i)) (\<lambda>cursor.
     bindR (u64 (fi_spentAmount i)) (\<lambda>spent.
     bindR (u64 (fi_keyVersion i)) (\<lambda>version.
     case bytesArgument (fi_encryptedResult i) of
       None \<Rightarrow> Inl Nx_invalid_delivery
     | Some argument \<Rightarrow>
         Inr \<lparr>mc_target = (if okr \<noteq> None then ap_okrPackageId A @ ''::okr::finish_command'' else ap_packageId A @ ''::node_execution::finish_command_with_budget''),
              mc_arguments = (case okr of None \<Rightarrow> [] | Some k \<Rightarrow> [Arg_object k])
                @ [Arg_object (fi_executionId i), Arg_object (fi_capabilityId i), Arg_object (fi_organizationId i), Arg_u8 (fi_finalState i), Arg_u64 cursor,
                   Arg_u64 spent, Arg_u64 version, Arg_wire argument, Arg_clock]\<rparr>)))))"

section \<open>What a payload denotes\<close>

lemma append_chunks_value: "wire_value (append_chunks a rest) = wire_value a @ rest"
proof (induction a rest rule: append_chunks.induct)
  case (1 a rest)
  show ?case
  proof (cases "rest = []")
    case False
    from 1 [OF False] have "wire_value (append_chunks (Append_bytes a (take 16000 rest)) (drop 16000 rest)) = wire_value a @ (take 16000 rest @ drop 16000 rest)" by simp
    then show ?thesis using False by (simp add: append_chunks.simps [of a rest])
  qed (simp add: append_chunks.simps [of a])
qed

lemma append_chunks_sizes:
  "\<forall>n \<in> set (wire_chunks a). n \<le> 16000 \<Longrightarrow> \<forall>n \<in> set (wire_chunks (append_chunks a rest)). n \<le> 16000"
proof (induction a rest rule: append_chunks.induct)
  case (1 a rest)
  show ?case
  proof (cases "rest = []")
    case False
    have "\<forall>n \<in> set (wire_chunks (Append_bytes a (take 16000 rest))). n \<le> 16000" using 1(2) by auto
    with 1(1) [OF False] show ?thesis using False by (simp only: append_chunks.simps [of a rest] if_False)
  qed (use 1 in \<open>simp add: append_chunks.simps [of a]\<close>)
qed

lemma append_chunks_count: "length (wire_chunks (append_chunks a rest)) = length (wire_chunks a) + (length rest + 15999) div 16000"
proof (induction a rest rule: append_chunks.induct)
  case (1 a rest)
  show ?case
  proof (cases "rest = []")
    case False
    have "length (wire_chunks (append_chunks (Append_bytes a (take 16000 rest)) (drop 16000 rest)))
        = Suc (length (wire_chunks a)) + (length rest - 16000 + 15999) div 16000"
      using 1 [OF False] by simp
    moreover have "Suc (length (wire_chunks a)) + (length rest - 16000 + 15999) div 16000 = length (wire_chunks a) + (length rest + 15999) div 16000"
    proof (cases "16000 \<le> length rest")
      case True
      then have "length rest + 15999 = length rest - 16000 + 15999 + 16000" by simp
      then show ?thesis by (metis add_Suc_shift div_add_self2 zero_neq_numeral add.commute Suc_eq_plus1)
    next
      case False
      moreover have "1 \<le> length rest" using \<open>rest \<noteq> []\<close> by (cases rest) simp_all
      ultimately have "(length rest + 15999) div 16000 = 1" by (intro div_nat_eqI) (simp_all add: not_le)
      then show ?thesis using False by simp
    qed
    ultimately show ?thesis using False by (simp only: append_chunks.simps [of a rest] if_False)
  qed (simp add: append_chunks.simps [of a])
qed

lemma bytesArgument_value: "bytesArgument bytes = Some a \<Longrightarrow> wire_value a = bytes"
  by (auto simp: bytesArgument_def append_chunks_value split: if_split_asm)

text \<open>
  A payload is refused exactly if it is longer than 64 KiB; otherwise it is passed in pieces of at most 16000 bytes, at most five of them, that the
  chain joins to exactly the given bytes.
\<close>

theorem payload_in_pieces:
  "case bytesArgument bytes of
     None \<Rightarrow> 65536 < length bytes
   | Some a \<Rightarrow> length bytes \<le> 65536 \<and> wire_value a = bytes \<and> (\<forall>n \<in> set (wire_chunks a). n \<le> 16000) \<and> length (wire_chunks a) \<le> 5"
proof (cases "65536 < length bytes")
  case False
  then obtain a where a: "bytesArgument bytes = Some a" and chunks: "a = append_chunks (Pure_bytes (take 16000 bytes)) (drop 16000 bytes)"
    by (simp add: bytesArgument_def)
  have sizes: "\<forall>n \<in> set (wire_chunks a). n \<le> 16000" unfolding chunks by (rule append_chunks_sizes) simp
  have count: "length (wire_chunks a) = 1 + (length bytes - 16000 + 15999) div 16000"
    unfolding chunks append_chunks_count by simp
  have "(length bytes - 16000 + 15999) div 16000 \<le> 65535 div (16000 :: nat)" using False by (intro div_le_mono) linarith
  also have "\<dots> = 4" by simp
  finally have "length (wire_chunks a) \<le> 5" unfolding count by linarith
  moreover have "length bytes \<le> 65536" using False by linarith
  ultimately show ?thesis unfolding a option.case using sizes bytesArgument_value [OF a] by blast
qed (simp add: bytesArgument_def)

section \<open>What a history shows\<close>

lemma awaitA_ok [eff_oks]: "awaitA m r = (Inr a, r') \<longleftrightarrow> m r = (Inr a, r')"
  by (auto simp: awaitA_def split: prod.splits sum.splits)

text \<open>A row of the history: a Run of this Agent on this Host, its kind and settlement as its state and its budget have them.\<close>

definition covered :: "string \<Rightarrow> string \<Rightarrow> managed_agent \<Rightarrow> covered_run \<Rightarrow> bool" where
  "covered org managedId m row \<longleftrightarrow>
     (let n = vr_run row in
      en_org_id n = org \<and> en_managed_agent n = Some managedId \<and> en_host_address n = mg_host_address m \<and> en_agent_id n = mg_instance_id m
      \<and> en_state n \<le> 5 \<and> en_action n \<in> set (control_actions @ observing_actions)
      \<and> vr_control row = (en_action n \<in> set control_actions) \<and> vr_settled row = (en_state n \<in> {2, 3, 5})
      \<and> vr_spent row \<le> en_budget_amount n \<and> (if vr_settled row then vr_reserved row = 0 else vr_reserved row = en_budget_amount n \<and> vr_spent row = 0))"

lemma getReservationBudgetA_ok:
  assumes "getReservationBudgetA A c h r = (Inr b, r')"
  shows "rb_spentAmount b \<le> rb_reservedAmount b \<and> (rb_settled b \<or> rb_spentAmount b = 0)"
  using assms by (auto simp: getReservationBudgetA_def eff_oks elim!: bindE_okE)

lemma coverA_ok:
  assumes "coverA A org m managedId table i r = (Inr row, r')"
  shows "en_id (vr_run row) = i \<and> covered org managedId m row"
proof -
  from assms obtain p n b r1 r2 where known: "en_action n \<in> set control_actions \<or> en_action n \<in> set observing_actions"
    and ok: "covered_ok org m managedId i p n"
    and b: "getReservationBudgetA A (en_capability_id n) (en_intent_hash n) r1 = (Inr b, r2)"
    and paid: "rb_reservedAmount b = en_budget_amount n" "rb_settled b = (en_state n \<in> set settled_states)"
    and row: "row = \<lparr>vr_run = n, vr_control = (en_action n \<in> set control_actions), vr_settled = (en_state n \<in> set settled_states), vr_spent = rb_spentAmount b,
          vr_reserved = (if en_state n \<in> set settled_states then 0 else rb_reservedAmount b)\<rparr>"
    by (auto simp: coverA_def eff_oks elim!: bindE_okE)
  show ?thesis
    using known ok getReservationBudgetA_ok [OF b] paid
    by (auto simp: row covered_def covered_ok_def Let_def settled_states_def)
qed

lemma coverFields_ok:
  assumes "coverFields A org m managedId table ids entries r = (Inr rows, r')"
  shows "map (\<lambda>row. en_id (vr_run row)) rows = List.map_filter snd entries \<and> distinct (map (\<lambda>row. en_id (vr_run row)) rows)
    \<and> set (List.map_filter snd entries) \<inter> set ids = {} \<and> (\<forall>row \<in> set rows. covered org managedId m row)"
  using assms
proof (induction entries arbitrary: ids r rows r')
  case Nil
  then show ?case by (simp add: eff_oks List.map_filter_def)
next
  case (Cons field entries)
  obtain type name where field: "field = (type, name)" by fastforce
  from Cons.prems obtain i row rest r1 r2 where name: "name = Some i" "i \<notin> set ids" and row: "coverA A org m managedId table i r1 = (Inr row, r2)"
    and rest: "coverFields A org m managedId table (i # ids) entries r2 = (Inr rest, r')" and rows: "rows = row # rest"
    by (auto simp: field eff_oks elim!: bindE_okE split: option.split_asm)
  note ih = Cons.IH [OF rest]
  have head: "List.map_filter snd ((type, Some i) # entries) = i # List.map_filter snd entries" by (simp add: List.map_filter_def)
  have "i \<notin> set (List.map_filter snd entries)" using ih by auto
  then show ?case using ih coverA_ok [OF row] name unfolding field rows name(1) head by auto
qed

lemma coverPages_ok:
  assumes "coverPages fuel A org m managedId table cursor cursors ids r = (Inr rows, r')"
  shows "distinct (map (\<lambda>row. en_id (vr_run row)) rows) \<and> (\<forall>row \<in> set rows. en_id (vr_run row) \<notin> set ids \<and> covered org managedId m row)"
  using assms
proof (induction fuel arbitrary: cursor cursors ids r rows r')
  case (Suc fuel)
  from Suc.prems obtain page r1 r2 first where first: "coverFields A org m managedId table ids (ig_fields page) r1 = (Inr first, r2)"
    and more: "if ig_hasNextPage page
      then \<exists>rest. coverPages fuel A org m managedId table (ig_cursor page) (the (ig_cursor page) # cursors) (rev (page_ids page) @ ids) r2 = (Inr rest, r') \<and> rows = first @ rest
      else rows = first"
    by (auto simp: eff_oks elim!: bindE_okE split: if_split_asm)
  note f = coverFields_ok [OF first]
  have names: "set (page_ids page) = (\<lambda>row. en_id (vr_run row)) ` set first" using f by (metis page_ids_def set_map)
  show ?case
  proof (cases "ig_hasNextPage page")
    case True
    then obtain rest where rest: "coverPages fuel A org m managedId table (ig_cursor page) (the (ig_cursor page) # cursors) (rev (page_ids page) @ ids) r2 = (Inr rest, r')"
      and rows: "rows = first @ rest" using more by auto
    have ih: "distinct (map (\<lambda>row. en_id (vr_run row)) rest)" "\<forall>row \<in> set rest. en_id (vr_run row) \<notin> set (rev (page_ids page) @ ids)"
        "\<forall>row \<in> set rest. covered org managedId m row"
      using Suc.IH [OF rest] by auto
    have f1: "distinct (map (\<lambda>row. en_id (vr_run row)) first)" "\<forall>row \<in> set first. covered org managedId m row" using f by auto
    have fresh: "en_id (vr_run row) \<notin> set (page_ids page)" "en_id (vr_run row) \<notin> set ids" if "row \<in> set rest" for row
      using ih(2) that by auto
    have "set (map (\<lambda>row. en_id (vr_run row)) first) \<inter> set (map (\<lambda>row. en_id (vr_run row)) rest) = {}"
    proof (rule Int_emptyI)
      fix i
      assume "i \<in> set (map (\<lambda>row. en_id (vr_run row)) first)" "i \<in> set (map (\<lambda>row. en_id (vr_run row)) rest)"
      then obtain row where "row \<in> set rest" "i = en_id (vr_run row)" "i \<in> set (page_ids page)" unfolding names list.set_map by blast
      then show False using fresh by blast
    qed
    moreover have old: "\<forall>row \<in> set first. en_id (vr_run row) \<notin> set ids"
    proof
      fix row
      assume "row \<in> set first"
      then have "en_id (vr_run row) \<in> set (page_ids page)" unfolding names by simp
      then show "en_id (vr_run row) \<notin> set ids" using f unfolding page_ids_def by blast
    qed
    ultimately have "distinct (map (\<lambda>row. en_id (vr_run row)) rows)" using ih(1) f1(1) unfolding rows map_append distinct_append by simp
    moreover have "\<forall>row \<in> set rows. en_id (vr_run row) \<notin> set ids \<and> covered org managedId m row"
    proof
      fix row
      assume "row \<in> set rows"
      then have "row \<in> set first \<or> row \<in> set rest" by (simp add: rows)
      then show "en_id (vr_run row) \<notin> set ids \<and> covered org managedId m row"
        using old ih(3) f1(2) fresh by metis
    qed
    ultimately show ?thesis by simp
  next
    case False
    then show ?thesis using more f names by (auto simp: page_ids_def)
  qed
qed (simp add: eff_oks)

text \<open>The rows were read between two equal readings of the index, the second followed by an equal reading of the Agent.\<close>

definition history_between :: "nat \<Rightarrow> 'r execution_api \<Rightarrow> string \<Rightarrow> string \<Rightarrow> execution_index \<times> string \<Rightarrow> managed_agent \<Rightarrow> covered_run list \<Rightarrow> 'r \<Rightarrow> bool" where
  "history_between fuel A org managedId i m rows r' \<longleftrightarrow> (\<exists>type absentId r0 r1 r2 r3 r4.
     readManagedA A org managedId r0 = (Inr m, r1) \<and> readIndexA A type org managedId absentId r2 = (Inr i, r3)
     \<and> (\<exists>r5. coverPages fuel A org m managedId (ei_table (fst i)) None [] [] r3 = (Inr rows, r5)
          \<and> readIndexA A type org managedId absentId r5 = (Inr i, r4) \<and> readManagedA A org managedId r4 = (Inr m, r')))"

text \<open>
  C36. A history is complete: its rows are different Runs of this Agent on its Host, as many as the index of the chain counts, with as many unsettled
  control Runs; they were read between equal readings of index and Agent. If no control is reported unsettled, every control Run of the Agent
  has ended and reserves nothing.
\<close>

theorem agent_history_complete:
  assumes "readAgentExecutions fuel A organizationId managedAgentId r = (Inr v, r')"
  shows "distinct (map (\<lambda>row. en_id (vr_run row)) (vc_executions v))
    \<and> (\<forall>row \<in> set (vc_executions v). covered (ap_normalize A organizationId) (ap_normalize A managedAgentId) (vc_managed v) row)
    \<and> (\<exists>i. history_between fuel A (ap_normalize A organizationId) (ap_normalize A managedAgentId) i (vc_managed v) (vc_executions v) r'
        \<and> int (length (vc_executions v)) = ei_size (fst i)
        \<and> int (vc_unsettledControl v) = ei_unsettled_control (fst i) \<and> vc_revision v = ei_revision (fst i))
    \<and> (vc_unsettledControl v = 0 \<longrightarrow> (\<forall>row \<in> set (vc_executions v). vr_control row \<longrightarrow> en_state (vr_run row) \<in> {2, 3, 5} \<and> vr_reserved row = 0))"
proof -
  let ?org = "ap_normalize A organizationId" and ?agent = "ap_normalize A managedAgentId"
  from assms obtain m type absentId i rows r0 r1 r2 r3 r4 r5 where first: "readManagedA A ?org ?agent r0 = (Inr m, r1)"
    and index: "readIndexA A type ?org ?agent absentId r2 = (Inr i, r3)"
    and rows: "coverPages fuel A ?org m ?agent (ei_table (fst i)) None [] [] r3 = (Inr rows, r4)"
    and again: "readIndexA A type ?org ?agent absentId r4 = (Inr i, r5)" "readManagedA A ?org ?agent r5 = (Inr m, r')"
    and counts: "int (length rows) = ei_size (fst i)" "int (unsettled rows) = ei_unsettled_control (fst i)"
    and v: "v = \<lparr>vc_managed = m, vc_revision = ei_revision (fst i), vc_executions = rows, vc_unsettledControl = unsettled rows\<rparr>"
    by (auto simp: readAgentExecutions_def Let_def eff_oks elim!: bindE_okE)
  have between: "history_between fuel A ?org ?agent i m rows r'" unfolding history_between_def using first index rows again by blast
  have free: "en_state (vr_run row) \<in> {2, 3, 5} \<and> vr_reserved row = 0" if "unsettled rows = 0" "row \<in> set rows" "vr_control row" for row
  proof -
    have "vr_settled row" using that by (auto simp: unsettled_def filter_empty_conv)
    then show ?thesis using coverPages_ok [OF rows] that(2) by (auto simp: covered_def Let_def)
  qed
  show ?thesis
    unfolding v execution_coverage.simps using coverPages_ok [OF rows] between counts free by blast
qed

text \<open>The walk over the pages ends: with fewer cursors than fuel it does not run out.\<close>

definition without :: "'e \<Rightarrow> ('r, 'e, 'a) eff \<Rightarrow> bool" where
  "without e m \<longleftrightarrow> (\<forall>r. fst (m r) \<noteq> Inl e)"

lemma without_parts [intro!]:
  "without e (okE a)" "e' \<noteq> e \<Longrightarrow> without e (throwE e')" "e' \<noteq> e \<Longrightarrow> without e (assertE c e')" "without Nx_more_pages (awaitA m')"
  by (auto simp: without_def eff_run awaitA_def split: prod.split sum.split)

lemma without_bindE [intro!]: "without e m \<Longrightarrow> (\<And>a. without e (f a)) \<Longrightarrow> without e (bindE m f)"
  by (auto simp: without_def eff_run split: prod.split sum.split) (metis fst_conv)+

lemma without_option [intro!]: "without e m \<Longrightarrow> (\<And>a. without e (f a)) \<Longrightarrow> without e (case x of None \<Rightarrow> m | Some a \<Rightarrow> f a)"
  by (cases x) simp_all

lemma coverA_pages: "without Nx_more_pages (coverA A org m managedId table i)"
  unfolding coverA_def typed_field_def shared_object_def getReservationBudgetA_def by (auto intro!: without_parts without_bindE without_option)

lemma coverFields_pages: "without Nx_more_pages (coverFields A org m managedId table ids entries)"
proof (induction entries arbitrary: ids)
  case (Cons entry entries)
  obtain type name where entry: "entry = (type, name)" by fastforce
  show ?case unfolding entry coverFields.simps by (intro without_parts without_bindE without_option coverA_pages Cons.IH) simp_all
qed (simp add: without_def eff_run)

lemma coverPages_fuel:
  assumes "\<And>c r page d. fst (ap_page A table c r) = Inr page \<Longrightarrow> ig_cursor page = Some d \<Longrightarrow> d \<in> C" "finite C"
  shows "card (C - set cursors) < n \<Longrightarrow> fst (coverPages n A org m managedId table cursor cursors ids r) \<noteq> Inl Nx_more_pages"
proof (induction n arbitrary: cursor cursors ids r)
  case (Suc n)
  obtain x r1 where x: "ap_page A table cursor r = (x, r1)" by fastforce
  show ?case
  proof (cases x)
    case (Inl e)
    then show ?thesis using x by (simp add: eff_run awaitA_def)
  next
    case (Inr page)
    obtain y r2 where y: "coverFields A org m managedId table ids (ig_fields page) r1 = (y, r2)" by fastforce
    have y': "y \<noteq> Inl Nx_more_pages" using coverFields_pages [of A org m managedId table ids "ig_fields page"] y by (metis fst_conv without_def)
    have step: "fst (coverPages n A org m managedId table (ig_cursor page) (d # cursors) ids' r2) \<noteq> Inl Nx_more_pages"
      if "ig_cursor page = Some d" "d \<notin> set cursors" for d ids'
    proof (rule Suc.IH)
      have "d \<in> C" using assms(1) [of cursor r page d] x Inr that by simp
      then have "C - set (d # cursors) \<subset> C - set cursors" using that by auto
      then show "card (C - set (d # cursors)) < n" using psubset_card_mono [of "C - set cursors"] assms(2) Suc.prems by fastforce
    qed
    show ?thesis using x Inr y y' step by (auto simp: eff_run awaitA_def split: sum.split prod.split) (metis fst_conv)+
  qed
qed simp

section \<open>What is prepared and delivered\<close>

lemma grantKeyA_ok:
  assumes "grantKeyA A q c fingerprint i r = (Inr g, r')"
  shows "\<exists>m version wrapped r1. fst (ap_membership A (qa_membershipId q) r1) = Inr m \<and> member_of_command A q c m
        \<and> toBigInt (rk_keyVersion i) = Inr version \<and> 0 < version \<and> (\<forall>w. rk_wrapped i = Some w \<longrightarrow> wrapped = wk_wrappedKey w \<and> wrapped_for q c fingerprint m w)
        \<and> mc_arguments g = map Arg_object [sc_capability_id c, sc_organization_id c, qa_humanId q, qa_grantId q, qa_membershipId q, qa_bindingId q]
            @ [Arg_bytes fingerprint, Arg_u64 version, Arg_bytes wrapped, Arg_clock]"
proof -
  from assms obtain m version wrapped r1 r2 r3 where m: "ap_membership A (qa_membershipId q) r = (Inr m, r1)" "member_of_command A q c m"
    and version: "toBigInt (rk_keyVersion i) = Inr version" "0 < version"
    and wrapped: "(case rk_wrapped i of
         Some w \<Rightarrow> bindE (assertE (rk_organizationKey i = None \<and> wrapped_for q c fingerprint m w) Nx_invalid_key) (\<lambda>_. okE (wk_wrappedKey w))
       | None \<Rightarrow> (case rk_organizationKey i of None \<Rightarrow> throwE Nx_outside
                  | Some key \<Rightarrow> awaitA (ap_wrapKey A key (qa_membershipId q) fingerprint version m c))) r2 = (Inr wrapped, r3)"
    and g: "mc_arguments g = map Arg_object [sc_capability_id c, sc_organization_id c, qa_humanId q, qa_grantId q, qa_membershipId q, qa_bindingId q]
            @ [Arg_bytes fingerprint, Arg_u64 version, Arg_bytes wrapped, Arg_clock]"
    by (auto simp: grantKeyA_def u64A_def eff_oks elim!: bindE_okE split: sum.split_asm)
  have "\<forall>w. rk_wrapped i = Some w \<longrightarrow> wrapped = wk_wrappedKey w \<and> wrapped_for q c fingerprint m w"
    using wrapped by (auto simp: eff_oks elim!: bindE_okE)
  moreover have "fst (ap_membership A (qa_membershipId q) r) = Inr m" using m(1) by simp
  ultimately show ?thesis using m(2) version g by blast
qed

lemma commandCall_ok:
  assumes "commandCall A q c fingerprint scheduled okr r = (Inr call, r')"
  shows "set ([Arg_object (sc_capability_id c), Arg_object (sc_organization_id c), Arg_object (qa_humanId q), Arg_object (qa_grantId q),
        Arg_object (qa_membershipId q), Arg_object (qa_bindingId q), Arg_string (sc_command_id c), Arg_string (sc_nonce c), Arg_string (sc_idempotency_key c),
        Arg_bytes fingerprint, Arg_u64 (sc_issued_at_ms c), Arg_u64 (sc_expires_at_ms c)]
        @ [Arg_string (sc_action c), Arg_string (sc_scope c), Arg_string (fst (budget_of c))]) \<subseteq> set (mc_arguments call)"
proof -
  from assms obtain agreement amount where "mc_arguments call = (case okr of None \<Rightarrow> [] | Some (i, v, k) \<Rightarrow> [Arg_object i])
            @ map Arg_object [sc_capability_id c, sc_organization_id c, qa_humanId q, qa_grantId q, qa_membershipId q, qa_bindingId q]
            @ optional_object (qa_managedAgentId q) @ agreement
            @ [Arg_string (sc_action c), Arg_string (sc_scope c), Arg_string (sc_command_id c), Arg_string (sc_nonce c), Arg_string (sc_idempotency_key c),
               Arg_string (fst (budget_of c)), Arg_u64 amount, Arg_bytes fingerprint, Arg_u64 (sc_issued_at_ms c), Arg_u64 (sc_expires_at_ms c), Arg_clock]"
    unfolding commandCall_def by (elim bindE_okE) (simp add: eff_oks)
  then show ?thesis by simp
qed

lemma prepareCommand_cases:
  assumes "prepareCommand A q c resultKey scheduled r = (Inr calls, r')"
  obtains fingerprint grants call okr direct r1 r2 r3 r4 where "verifySignedNodeCommand (ap_hash A) (ap_keys A) c = Inr ()"
    "nodeCommandIntentHash (ap_hash A) c = Inr fingerprint" "okr_context A c q = Inr okr"
    "scheduled \<longrightarrow> okr \<noteq> None \<and> sc_action c = ''assign'' \<and> sc_scope c = ''control''" "direct \<noteq> None \<longrightarrow> sc_action c = ''direct.message''"
    "case resultKey of None \<Rightarrow> grants = [] | Some i \<Rightarrow> \<exists>g. grantKeyA A q c fingerprint i r1 = (Inr g, r2) \<and> grants = [g]"
    "calls = grants @ [call]" "case direct of Some d \<Rightarrow> call = directCall A q c fingerprint d
        | None \<Rightarrow> commandCall A q c fingerprint scheduled okr r3 = (Inr call, r4)"
proof -
  have command: "commandR x r = (Inr a, r') \<longleftrightarrow> x = Inr a \<and> r' = r" for x :: "(command_error, 'c) result" and a and r r' :: 'a
    by (cases x) (auto simp: commandR_def eff_oks)
  show thesis using assms unfolding prepareCommand_def
  proof (elim bindE_okE, goal_cases)
    case (1 u0 w0 u1 w1 u2 w2 direct w3 okr w4 u5 w5 fingerprint w6 grants w7)
    have one: "verifySignedNodeCommand (ap_hash A) (ap_keys A) c = Inr ()" "nodeCommandIntentHash (ap_hash A) c = Inr fingerprint" "okr_context A c q = Inr okr"
      "scheduled \<longrightarrow> okr \<noteq> None \<and> sc_action c = ''assign'' \<and> sc_scope c = ''control''"
      using 1(1,5,6,7) by (simp_all add: command eff_oks)
    have kind: "direct \<noteq> None \<longrightarrow> sc_action c = ''direct.message''" using 1(4) by (auto simp: eff_oks split: if_split_asm)
    have g: "case resultKey of None \<Rightarrow> grants = [] | Some i \<Rightarrow> \<exists>g. grantKeyA A q c fingerprint i w6 = (Inr g, w7) \<and> grants = [g]"
      using 1(8) by (auto simp: eff_oks elim!: bindE_okE split: option.split_asm)
    show thesis
    proof (cases direct)
      case None
      then obtain call' where "commandCall A q c fingerprint scheduled okr w7 = (Inr call', r')" "calls = grants @ [call']"
        using 1(9) by (auto simp: eff_oks elim!: bindE_okE)
      then show thesis using that [OF one kind g] None by simp
    next
      case (Some d)
      then show thesis using that [OF one kind g, of "directCall A q c fingerprint d"] 1(9) by (simp add: eff_oks)
    qed
  qed
qed

text \<open>
  What a device prepares on the chain is the verified command itself: every call is built from a command whose signature and payload hash
  verify; its last call names the identifiers, times and the intent hash of this command, and for a command that is no direct message also its
  action, scope and budget asset; a result key is granted only to an unrevoked member of the command's organization on the command's Host under the
  given binding, at a version that is not zero; and only an exact assignment of an objective is prepared as scheduled.
\<close>

theorem prepared_command_exact:
  assumes "prepareCommand A q c resultKey scheduled r = (Inr calls, r')"
  shows "\<exists>fingerprint grants call. calls = grants @ [call] \<and> verifySignedNodeCommand (ap_hash A) (ap_keys A) c = Inr ()
    \<and> nodeCommandIntentHash (ap_hash A) c = Inr fingerprint
    \<and> set [Arg_object (sc_capability_id c), Arg_object (sc_organization_id c), Arg_object (qa_humanId q), Arg_object (qa_grantId q),
        Arg_object (qa_membershipId q), Arg_object (qa_bindingId q), Arg_string (sc_command_id c), Arg_string (sc_nonce c), Arg_string (sc_idempotency_key c),
        Arg_bytes fingerprint, Arg_u64 (sc_issued_at_ms c), Arg_u64 (sc_expires_at_ms c)] \<subseteq> set (mc_arguments call)
    \<and> (sc_action c = ''direct.message'' \<or> set [Arg_string (sc_action c), Arg_string (sc_scope c), Arg_string (fst (budget_of c))] \<subseteq> set (mc_arguments call))
    \<and> (resultKey = None \<longrightarrow> grants = [])
    \<and> (\<forall>i. resultKey = Some i \<longrightarrow> (\<exists>m version wrapped r1. fst (ap_membership A (qa_membershipId q) r1) = Inr m \<and> member_of_command A q c m
        \<and> toBigInt (rk_keyVersion i) = Inr version \<and> 0 < version \<and> (\<forall>w. rk_wrapped i = Some w \<longrightarrow> wrapped = wk_wrappedKey w \<and> wrapped_for q c fingerprint m w)
        \<and> map mc_arguments grants = [map Arg_object [sc_capability_id c, sc_organization_id c, qa_humanId q, qa_grantId q, qa_membershipId q, qa_bindingId q]
            @ [Arg_bytes fingerprint, Arg_u64 version, Arg_bytes wrapped, Arg_clock]]))
    \<and> (scheduled \<longrightarrow> sc_action c = ''assign'' \<and> sc_scope c = ''control'' \<and> field (sc_payload c) ''okr'' \<noteq> None)"
proof -
  from assms obtain fingerprint grants call okr direct r1 r2 r3 r4 where verified: "verifySignedNodeCommand (ap_hash A) (ap_keys A) c = Inr ()"
    and hash: "nodeCommandIntentHash (ap_hash A) c = Inr fingerprint" and okr: "okr_context A c q = Inr okr"
    and exact: "scheduled \<longrightarrow> okr \<noteq> None \<and> sc_action c = ''assign'' \<and> sc_scope c = ''control''"
    and kind: "direct \<noteq> None \<longrightarrow> sc_action c = ''direct.message''"
    and grants: "case resultKey of None \<Rightarrow> grants = [] | Some i \<Rightarrow> \<exists>g. grantKeyA A q c fingerprint i r1 = (Inr g, r2) \<and> grants = [g]"
    and call: "calls = grants @ [call]" "case direct of Some d \<Rightarrow> call = directCall A q c fingerprint d
        | None \<Rightarrow> commandCall A q c fingerprint scheduled okr r3 = (Inr call, r4)"
    by (rule prepareCommand_cases)
  have granted: "\<exists>m version wrapped r1. fst (ap_membership A (qa_membershipId q) r1) = Inr m \<and> member_of_command A q c m
        \<and> toBigInt (rk_keyVersion i) = Inr version \<and> 0 < version \<and> (\<forall>w. rk_wrapped i = Some w \<longrightarrow> wrapped = wk_wrappedKey w \<and> wrapped_for q c fingerprint m w)
        \<and> map mc_arguments grants = [map Arg_object [sc_capability_id c, sc_organization_id c, qa_humanId q, qa_grantId q, qa_membershipId q, qa_bindingId q]
            @ [Arg_bytes fingerprint, Arg_u64 version, Arg_bytes wrapped, Arg_clock]]" if i: "resultKey = Some i" for i
  proof -
    obtain g where g: "grantKeyA A q c fingerprint i r1 = (Inr g, r2)" "grants = [g]" using grants i by auto
    from grantKeyA_ok [OF g(1)] show ?thesis unfolding g(2) by simp
  qed
  have named: "set [Arg_object (sc_capability_id c), Arg_object (sc_organization_id c), Arg_object (qa_humanId q), Arg_object (qa_grantId q),
        Arg_object (qa_membershipId q), Arg_object (qa_bindingId q), Arg_string (sc_command_id c), Arg_string (sc_nonce c), Arg_string (sc_idempotency_key c),
        Arg_bytes fingerprint, Arg_u64 (sc_issued_at_ms c), Arg_u64 (sc_expires_at_ms c)] \<subseteq> set (mc_arguments call)
    \<and> (sc_action c = ''direct.message'' \<or> set [Arg_string (sc_action c), Arg_string (sc_scope c), Arg_string (fst (budget_of c))] \<subseteq> set (mc_arguments call))"
    using call(2) kind commandCall_ok by (cases direct) (fastforce simp: directCall_def)+
  have "scheduled \<longrightarrow> field (sc_payload c) ''okr'' \<noteq> None" using exact okr by (cases "field (sc_payload c) ''okr''") (auto simp: okr_context_def)
  then show ?thesis using verified hash call(1) named granted grants exact by (auto split: option.split_asm)
qed

lemma getExecutionA_ok:
  assumes "getExecutionA A i r = (Inr n, r')"
  shows "en_id n = i \<and> en_state n \<le> 5 \<and> length (en_intent_hash n) = 32 \<and> (\<exists>source r1 r2. ap_execution A i r1 = (Inr source, r2) \<and> cz_content source = Some n)"
  using assms by (auto simp: getExecutionA_def eff_oks elim!: bindE_okE split: option.split_asm) blast


section \<open>A sample Agent\<close>

definition node_agent :: managed_agent where
  "node_agent = \<lparr>mg_id = some_address (CHR ''a''), mg_org_id = some_address (CHR ''2''), mg_membership_id = some_address (CHR ''5''), mg_host_address = some_address (CHR ''7''),
     mg_instance_id = review_agent, mg_runtime = ''bounded-process-v1'', mg_workspace_hash = replicate 32 204, mg_control_confirmed = True,
     mg_confirmed_by_human = ''human'', mg_confirmed_by_device = ''device'', mg_version = 3, mg_revoked = False, mg_imported_at_ms = 1\<rparr>"

definition queued_review :: execution where
  "queued_review = review_run\<lparr>en_id := some_address (CHR ''b''), en_state := 0\<rparr>"

definition node_execution_of :: "string \<Rightarrow> execution" where
  "node_execution_of i = (if i = some_address (CHR ''b'') then queued_review else review_run)"

definition node_api :: "unit execution_api" where
  "node_api = \<lparr>ap_packageId = ''pkg'', ap_okrPackageId = ''okr'', ap_directPackageId = ''direct'', ap_hash = review_hash_env, ap_keys = review_keys, ap_normalize = id, ap_absentId = (\<lambda>p t n. Some ''absent''), ap_coreType = (\<lambda>m t. okE t),
     ap_managed = (\<lambda>i. okE \<lparr>cz_objectId = i, cz_owner = ''Shared'', cz_type = ''ManagedAgent'', cz_content = Some node_agent, cz_previousTransaction = None\<rparr>),
     ap_index = (\<lambda>t p n. okE \<lparr>cf_type = ''AgentExecutionIndex'', cf_value = \<lparr>ei_table = ''table'', ei_size = 1, ei_unsettled_control = 0, ei_revision = 3\<rparr>, cf_version = ''9''\<rparr>),
     ap_page = (\<lambda>t c. okE \<lparr>ig_fields = [(''0x2::object::ID'', Some (some_address (CHR ''1'')))], ig_hasNextPage = False, ig_cursor = None\<rparr>),
     ap_pointer = (\<lambda>t i. okE \<lparr>cf_type = ''AgentExecutionPointer'', cf_value = \<lparr>xp_capability_id = some_address (CHR ''9''), xp_control = False, xp_settled = True\<rparr>, cf_version = ''1''\<rparr>),
     ap_execution = (\<lambda>i. okE \<lparr>cz_objectId = i, cz_owner = ''Shared'', cz_type = ''CommandExecution'', cz_content = Some (node_execution_of i), cz_previousTransaction = None\<rparr>),
     ap_totals = (\<lambda>c. throwE ()),
     ap_claim = (\<lambda>c h. okE \<lparr>cf_type = ''BoundBudgetClaim'', cf_value = \<lparr>bc_reserved_amount = 0, bc_spent_amount = 0, bc_settled = True\<rparr>, cf_version = ''1''\<rparr>),
     ap_resultKey = (\<lambda>c h v. okE \<lparr>cf_type = ''ResultKeyGrant'', cf_value = \<lparr>ry_org_id = some_address (CHR ''2''), ry_membership_id = some_address (CHR ''5''),
        ry_host_address = some_address (CHR ''7''), ry_key_version = v, ry_wrapped_key = replicate 132 (CHR ''k'')\<rparr>, cf_version = ''1''\<rparr>),
     ap_delivery = (\<lambda>t p. throwE Lookup_failed), ap_commandContext = (\<lambda>c q. throwE ()),
     ap_membership = (\<lambda>i. okE \<lparr>km_id = i, km_org_id = some_address (CHR ''2''), km_host_address = some_address (CHR ''7''), km_revoked = False,
        km_coordinator_binding = some_address (CHR ''6''), km_encryption_public_key = replicate 32 (CHR ''e'')\<rparr>),
     ap_wrapKey = (\<lambda>k g f v m c. okE (replicate 132 (CHR ''w'')))\<rparr>"

definition node_authority :: command_authority where
  "node_authority = \<lparr>qa_humanId = some_address (CHR ''3''), qa_grantId = some_address (CHR ''4''), qa_membershipId = some_address (CHR ''5''), qa_bindingId = some_address (CHR ''6''),
     qa_managedAgentId = Some (some_address (CHR ''a''))\<rparr>"

definition sealed_command :: string where
  "sealed_command = ''FME3'' @ replicate 40 (CHR ''c'')"

lemma review_intent_points: "length (code_points review_intent) = 32"
  using review_intent(2) by (simp add: code_points_def)

lemma node_api_fields [simp]:
  "ap_packageId node_api = ''pkg''" "ap_hash node_api = review_hash_env" "ap_keys node_api = review_keys" "ap_normalize node_api i = i"
  "absentA node_api p t n r = (Inr ''absent'', r)" "awaitA (ap_coreType node_api m t) r = (Inr t, r)"
  "awaitA (ap_managed node_api i) r = (Inr \<lparr>cz_objectId = i, cz_owner = ''Shared'', cz_type = ''ManagedAgent'', cz_content = Some node_agent, cz_previousTransaction = None\<rparr>, r)"
  "lookupA e d (ap_index node_api t p n) r
     = (Inr \<lparr>cf_type = ''AgentExecutionIndex'', cf_value = \<lparr>ei_table = ''table'', ei_size = 1, ei_unsettled_control = 0, ei_revision = 3\<rparr>, cf_version = ''9''\<rparr>, r)"
  "awaitA (ap_page node_api t k) r = (Inr \<lparr>ig_fields = [(''0x2::object::ID'', Some (some_address (CHR ''1'')))], ig_hasNextPage = False, ig_cursor = None\<rparr>, r)"
  "awaitA (ap_pointer node_api t i) r
     = (Inr \<lparr>cf_type = ''AgentExecutionPointer'', cf_value = \<lparr>xp_capability_id = some_address (CHR ''9''), xp_control = False, xp_settled = True\<rparr>, cf_version = ''1''\<rparr>, r)"
  "awaitA (ap_execution node_api i) r
     = (Inr \<lparr>cz_objectId = i, cz_owner = ''Shared'', cz_type = ''CommandExecution'', cz_content = Some (node_execution_of i), cz_previousTransaction = None\<rparr>, r)"
  "awaitA (ap_claim node_api c h) r
     = (Inr \<lparr>cf_type = ''BoundBudgetClaim'', cf_value = \<lparr>bc_reserved_amount = 0, bc_spent_amount = 0, bc_settled = True\<rparr>, cf_version = ''1''\<rparr>, r)"
  "awaitA (ap_resultKey node_api c h v) r = (Inr \<lparr>cf_type = ''ResultKeyGrant'', cf_value = \<lparr>ry_org_id = some_address (CHR ''2''), ry_membership_id = some_address (CHR ''5''),
        ry_host_address = some_address (CHR ''7''), ry_key_version = v, ry_wrapped_key = replicate 132 (CHR ''k'')\<rparr>, cf_version = ''1''\<rparr>, r)"
  by (simp_all add: node_api_def awaitA_def lookupA_def absentA_def eff_run)

lemma node_agent_read [simp]: "readManagedA node_api (some_address (CHR ''2'')) (some_address (CHR ''a'')) r = (Inr node_agent, r)"
  by (simp add: readManagedA_def shared_object_def eff_run) (simp add: node_agent_def)

lemma node_index_read [simp]:
  "readIndexA node_api t p n i r = (Inr (\<lparr>ei_table = ''table'', ei_size = 1, ei_unsettled_control = 0, ei_revision = 3\<rparr>, ''9''), r)"
  by (simp add: readIndexA_def typed_field_def eff_run)

lemma node_history_read:
  "\<exists>v. readAgentExecutions 1 node_api (some_address (CHR ''2'')) (some_address (CHR ''a'')) r = (Inr v, r) \<and> vc_unsettledControl v = 0
     \<and> vc_managed v = node_agent \<and> vc_revision v = 3
     \<and> vc_executions v = [\<lparr>vr_run = review_run, vr_control = False, vr_settled = True, vr_spent = 0, vr_reserved = 0\<rparr>]"
proof -
  have run: "node_execution_of (some_address (CHR ''1'')) = review_run" by (simp add: node_execution_of_def some_address_def)
  have fits: "covered_ok (some_address (CHR ''2'')) node_agent (some_address (CHR ''a'')) (some_address (CHR ''1''))
      \<lparr>xp_capability_id = some_address (CHR ''9''), xp_control = False, xp_settled = True\<rparr> review_run"
    "en_action review_run = ''status''" "en_state review_run = 2" "en_budget_amount review_run = 0" "length (en_intent_hash review_run) = 32"
    using review_intent_points by (simp_all add: review_run_def covered_ok_def node_agent_def control_actions_def settled_states_def)
  have row: "coverA node_api (some_address (CHR ''2'')) node_agent (some_address (CHR ''a'')) ''table'' (some_address (CHR ''1'')) r
      = (Inr \<lparr>vr_run = review_run, vr_control = False, vr_settled = True, vr_spent = 0, vr_reserved = 0\<rparr>, r)" for r
    using fits by (simp add: coverA_def eff_run typed_field_def shared_object_def run getReservationBudgetA_def control_actions_def observing_actions_def settled_states_def)
  have pages: "coverPages (Suc 0) node_api (some_address (CHR ''2'')) node_agent (some_address (CHR ''a'')) ''table'' None [] [] r
      = (Inr [\<lparr>vr_run = review_run, vr_control = False, vr_settled = True, vr_spent = 0, vr_reserved = 0\<rparr>], r)" for r
    by (simp add: eff_run row index_name_types_def)
  show ?thesis
    by (simp add: readAgentExecutions_def eff_run Let_def pages unsettled_def del: coverPages.simps)
qed

theorem agent_history_complete_witness:
  "\<exists>v. readAgentExecutions 1 node_api (some_address (CHR ''2'')) (some_address (CHR ''a'')) () = (Inr v, ()) \<and> vc_executions v \<noteq> []
     \<and> (\<forall>row \<in> set (vc_executions v). vr_control row \<longrightarrow> en_state (vr_run row) \<in> {2, 3, 5} \<and> vr_reserved row = 0)"
proof -
  obtain v where run: "readAgentExecutions 1 node_api (some_address (CHR ''2'')) (some_address (CHR ''a'')) () = (Inr v, ())"
    and v: "vc_unsettledControl v = 0" "vc_executions v \<noteq> []" using node_history_read by force
  from agent_history_complete [OF run] run v show ?thesis by blast
qed


definition node_key :: result_key_input where
  "node_key = \<lparr>rk_keyVersion = UBigInt 1, rk_organizationKey = Some ''key'', rk_wrapped = None\<rparr>"

theorem prepared_command_exact_witness:
  "\<exists>calls. prepareCommand node_api node_authority review_signed_command (Some node_key) False () = (Inr calls, ()) \<and> length calls = 2
     \<and> Arg_string ''status'' \<in> set (mc_arguments (last calls)) \<and> Arg_bytes review_intent \<in> set (mc_arguments (last calls))"
proof -
  have member: "awaitA (ap_membership node_api i) r = (Inr \<lparr>km_id = i, km_org_id = some_address (CHR ''2''), km_host_address = some_address (CHR ''7''), km_revoked = False,
        km_coordinator_binding = some_address (CHR ''6''), km_encryption_public_key = replicate 32 (CHR ''e'')\<rparr>, r)"
    "awaitA (ap_wrapKey node_api k g f v m c) r = (Inr (replicate 132 (CHR ''w'')), r)" for i r k g f v m c
    by (simp_all add: node_api_def awaitA_def eff_run)
  have fields: "field (sc_payload review_signed_command) ''direct'' = None" "field (sc_payload review_signed_command) ''okr'' = None" "sc_budget review_signed_command = None"
    by (simp_all add: review_command_fields field_def del: stringify.simps) (simp add: review_signed_command_def wire_of_def)
  have agent: "nonblank (Some review_agent)" "nonblank (qa_managedAgentId node_authority)"
    by (simp_all add: nonblank_def review_command_fields node_authority_def review_agent_def some_address_def)
  have fits: "member_of_command node_api node_authority review_signed_command \<lparr>km_id = qa_membershipId node_authority, km_org_id = some_address (CHR ''2''),
        km_host_address = some_address (CHR ''7''), km_revoked = False, km_coordinator_binding = some_address (CHR ''6''), km_encryption_public_key = replicate 32 (CHR ''e'')\<rparr>"
    by (simp add: member_of_command_def review_command_fields node_authority_def del: stringify.simps)
  have "\<exists>calls. prepareCommand node_api node_authority review_signed_command (Some node_key) False () = (Inr calls, ()) \<and> length calls = 2"
    by (simp add: prepareCommand_def commandR_def eff_run review_command_verified agent fields okr_context_def review_command_fields review_intent(1) grantKeyA_def
        member fits u64A_def node_key_def in_u64_def MAX_U64_def commandCall_def is_safe_integer_def max_safe_integer_def del: stringify.simps)
  then obtain calls where run: "prepareCommand node_api node_authority review_signed_command (Some node_key) False () = (Inr calls, ())" "length calls = 2" by blast
  from prepared_command_exact [OF run(1)] show ?thesis
    using run review_intent(1) review_command_fields(1) by (auto simp del: stringify.simps)
qed

end
