(* ===== verification/Handover_Approval.thy ===== *)
theory Handover_Approval
  imports Node_Execution Okr_Control Private_Records Okr_Spec
begin

text \<open>
  \<^verbatim>\<open>HandoverApproval\<close> of \<^verbatim>\<open>apps/fractalmind-app/src/handover-approval.ts\<close>: approving one exact, successful Host review. The source puts together the
  signed command, the review read from its Run (\<open>Execution_Results\<close>), the Agent's complete history (\<open>Node_Execution\<close>), the stored specification
  (\<open>Private_Records\<close>) and the plan (\<open>Okr_Spec\<close>), and pins what it rests on; the pin has to hold around the signature. A submission first asks
  for an earlier outcome. Chain reads that other components own and the builder of the transaction are fields of \<open>approval_flow\<close>.
\<close>

section \<open>Data\<close>

datatype handover_approval_error = Ha_invalid_input | Ha_invalid_source | Ha_state_changed | Ha_invalid_quote | Ha_invalid_ciphertext | Ha_outside

record handover_authority =
  hu_authorityPin :: string
  hu_encryptedKeys :: string
  hu_humanId :: string
  hu_actions :: "string list"
  hu_expiresAtMs :: int

record handover_metric =
  hm_baseline :: int
  hm_target :: int
  hm_weight :: int
  hm_max_age_ms :: int

record handover_okr =
  ho_id :: string
  ho_org_id :: string
  ho_owner_human :: string
  ho_logical_id :: string
  ho_state :: int
  ho_version :: int
  ho_spec_revision :: int
  ho_spec_record :: string
  ho_priority :: int
  ho_deadline_ms :: int
  ho_metrics :: "handover_metric list"
  ho_agreement_record :: "string option"
  ho_next_kr :: int
  ho_rest :: json

record handover_budget =
  hb_asset :: string
  hb_spent :: int
  hb_reserved :: int

record handover_input =
  hi_command :: signed_command
  hi_plan :: json

record directory_page =
  hd_keyVersion :: string
  hd_records :: "record_pointer list"
  hd_cursor :: "string option"
  hd_hasNextPage :: bool

type_synonym record_directory = "string \<times> record_pointer option"

type_synonym handover_pin = "string \<times> control_member \<times> control_binding \<times> managed_agent \<times> string \<times> int \<times> execution \<times> handover_okr \<times> record_head
   \<times> record_directory \<times> handover_budget option"

record handover_source =
  hs_authority :: handover_authority
  hs_review :: execution_result
  hs_acceptance :: handover_acceptance
  hs_okr :: handover_okr
  hs_plan :: okr_plan
  hs_keyVersion :: string
  hs_expectedRevision :: string
  hs_pin :: handover_pin

record approval_request =
  hq_acceptance :: handover_acceptance
  hq_capabilityId :: string
  hq_expectedRecordRevision :: string
  hq_keyVersion :: string
  hq_encryptedAgreement :: string

record 'r approval_flow =
  hf_client :: "'r client_env"
  hf_organizationId :: string
  hf_grantId :: string
  hf_executionId :: string
  hf_device :: string
  hf_humanId :: string
  hf_okrType :: string
  hf_results :: "'r results_reader"
  hf_api :: "'r execution_api"
  hf_records :: "'r records_env"
  hf_checkNetwork :: "('r, unit, unit) eff"
  hf_verifyOrganization :: "('r, unit, handover_authority) eff"
  hf_hostDirectory :: "('r, unit, control_hosts) eff"
  hf_activeHost :: "string \<Rightarrow> string \<Rightarrow> ('r, unit, string \<times> string) eff"
  hf_managedInstance :: "string \<Rightarrow> string \<Rightarrow> ('r, unit, managed_agent option) eff"
  hf_getOkr :: "string \<Rightarrow> ('r, unit, handover_okr chain_source) eff"
  hf_now :: "'r \<Rightarrow> int \<times> 'r"
  hf_getBudget :: "string \<Rightarrow> ('r, unit, handover_budget) eff"
  hf_listCurrent :: "string option \<Rightarrow> ('r, unit, directory_page) eff"
  hf_encrypt :: "string \<Rightarrow> string \<Rightarrow> string \<Rightarrow> string \<Rightarrow> string \<Rightarrow> ('r, unit, string option) eff"
  hf_confirmOkr :: "approval_request \<Rightarrow> ('r, unit, tx_data) eff"

type_synonym ('r, 'a) approving = "('r, handover_approval_error, 'a) eff"

text \<open>Errors of other classes pass through; none of them is told apart here.\<close>

definition awaitH :: "('r, 'e, 'a) eff \<Rightarrow> ('r, 'a) approving" where
  "awaitH m = (\<lambda>r. case m r of (Inl _, r') \<Rightarrow> (Inl Ha_outside, r') | (Inr a, r') \<Rightarrow> (Inr a, r'))"

definition new_approval_ok :: "string \<Rightarrow> string \<Rightarrow> string \<Rightarrow> (handover_approval_error, unit) result" where
  "new_approval_ok organizationId grantId executionId = assertR (list_all is_object_id [organizationId, grantId, executionId]) Ha_invalid_input"

definition approval_requestId :: "'r approval_flow \<Rightarrow> string" where
  "approval_requestId F = ''handover-approve:'' @ hf_executionId F"

text \<open>\<^verbatim>\<open>positive\<close>: a decimal text of a positive 64-bit number.\<close>

definition positiveH :: "string \<Rightarrow> bool" where
  "positiveH v \<longleftrightarrow> positive_text v \<and> length v \<le> 20 \<and> dec_value v \<le> 18446744073709551615"

section \<open>The directory of records\<close>

definition directory_row :: "record_pointer list \<Rightarrow> record_pointer \<Rightarrow> bool" where
  "directory_row known row \<longleftrightarrow> is_object_id (pt_record_id row) \<and> positiveH (pt_revision row) \<and> positiveH (pt_key_version row)
     \<and> \<not> list_ex (\<lambda>x. pt_kind x = pt_kind row \<and> pt_logicalId x = pt_logicalId row) known"

fun add_rows :: "record_pointer list \<Rightarrow> record_pointer list \<Rightarrow> record_pointer list option" where
  "add_rows known [] = Some known"
| "add_rows known (row # rows) = (if directory_row known row then add_rows (known @ [row]) rows else None)"

text \<open>At most 1000 records are kept, so at most 1001 pages with records are read; the fuel counts the pages.\<close>

fun directoryFrom :: "nat \<Rightarrow> 'r approval_flow \<Rightarrow> string option \<Rightarrow> string list \<Rightarrow> string option \<Rightarrow> record_pointer list
    \<Rightarrow> ('r, string \<times> record_pointer list) approving" where
  "directoryFrom 0 F cursor seen keyVersion known = throwE Ha_outside"
| "directoryFrom (Suc n) F cursor seen keyVersion known =
     bindE (awaitH (hf_listCurrent F cursor)) (\<lambda>page.
     bindE (assertE (positiveH (hd_keyVersion page) \<and> (keyVersion = None \<or> keyVersion = Some (hd_keyVersion page))) Ha_state_changed) (\<lambda>_.
     case add_rows known (hd_records page) of
       None \<Rightarrow> throwE Ha_invalid_source
     | Some rows \<Rightarrow>
         bindE (assertE (length rows \<le> 1000) Ha_invalid_source) (\<lambda>_.
         if \<not> hd_hasNextPage page then okE (hd_keyVersion page, rows)
         else (case hd_cursor page of
             None \<Rightarrow> throwE Ha_invalid_source
           | Some c \<Rightarrow> bindE (assertE (c \<noteq> [] \<and> c \<notin> set seen) Ha_invalid_source) (\<lambda>_.
                       directoryFrom n F (Some c) (c # seen) (Some (hd_keyVersion page)) rows)))))"

definition agreement_name :: "string \<Rightarrow> string" where
  "agreement_name logicalId = ''okr-'' @ logicalId @ ''-agreement''"

definition spec_name :: "string \<Rightarrow> string" where
  "spec_name logicalId = ''okr-'' @ logicalId @ ''-spec''"

definition directoryH :: "nat \<Rightarrow> 'r approval_flow \<Rightarrow> string \<Rightarrow> ('r, record_directory) approving" where
  "directoryH fuel F logicalId =
     bindE (directoryFrom fuel F None [] None []) (\<lambda>(keyVersion, rows).
     okE (keyVersion, find (\<lambda>x. pt_kind x = 2 \<and> pt_logicalId x = agreement_name logicalId) rows))"

section \<open>The source\<close>

definition review_id :: "json \<Rightarrow> string \<Rightarrow> bool" where
  "review_id proposal k \<longleftrightarrow> (case sfield proposal k of None \<Rightarrow> False | Some s \<Rightarrow> is_object_id s)"

definition reviewed_proposal :: "'r approval_flow \<Rightarrow> signed_command \<Rightarrow> (handover_approval_error, json) result" where
  "reviewed_proposal F c =
    (case field (sc_payload c) ''handover_review'' of
       None \<Rightarrow> Inl Ha_invalid_input
     | Some proposal \<Rightarrow>
         if sc_signer c = hf_device F \<and> sc_organization_id c = hf_organizationId F \<and> review_id proposal ''okr_id'' \<and> review_id proposal ''managed_agent_id''
         then Inr proposal else Inl Ha_invalid_input)"

definition authority_ok :: "'r approval_flow \<Rightarrow> handover_authority \<Rightarrow> bool" where
  "authority_ok F u \<longleftrightarrow> hu_authorityPin u \<noteq> [] \<and> hu_humanId u = hf_humanId F
     \<and> list_all (\<lambda>a. a \<in> set (hu_actions u)) [''read'', ''operate'', ''approve'', ''manage_hosts'']"

text \<open>The command, the device's authority and the review of the Run.\<close>

definition reviewH :: "'r approval_flow \<Rightarrow> signed_command \<Rightarrow> ('r, handover_authority \<times> execution_result \<times> handover_acceptance \<times> handover_proposal) approving" where
  "reviewH F c =
     bindE (liftR (reviewed_proposal F c)) (\<lambda>proposal.
     bindE (awaitH (liftR (verifySignedNodeCommand (xe_hash (hf_results F)) (xe_keys (hf_results F)) c))) (\<lambda>_.
     bindE (awaitH (hf_verifyOrganization F)) (\<lambda>u.
     bindE (assertE (authority_ok F u) Ha_invalid_source) (\<lambda>_.
     bindE (awaitH (readReviewX (hf_results F) (hf_executionId F) c proposal)) (\<lambda>(review, a).
     bindE (assertE (hx_human_id a = hu_humanId u \<and> hx_grant_id a = hf_grantId F) Ha_invalid_source) (\<lambda>_.
     case proposal_of proposal of
       None \<Rightarrow> throwE Ha_outside
     | Some p \<Rightarrow> okE (u, review, a, p)))))))"

definition review_host :: "handover_acceptance \<Rightarrow> control_hosts \<Rightarrow> control_member option" where
  "review_host a h = find (\<lambda>m. cb_id m = hx_membership_id a \<and> \<not> cb_revoked m \<and> cb_host_address m = hx_host_address a
     \<and> cb_coordinator_binding m = hx_binding_id a \<and> ch_clockMs h < cb_expires_at_ms m) (ch_memberships h)"

definition review_binding :: "handover_acceptance \<Rightarrow> control_hosts \<Rightarrow> control_binding option" where
  "review_binding a h = find (\<lambda>b. cd_id b = hx_binding_id a \<and> \<not> cd_revoked b) (ch_bindings h)"

text \<open>The Host of the review, active and long enough a member.\<close>

definition hostH :: "'r approval_flow \<Rightarrow> handover_authority \<Rightarrow> handover_acceptance \<Rightarrow> handover_proposal
    \<Rightarrow> ('r, control_hosts \<times> control_member \<times> control_binding \<times> string) approving" where
  "hostH F u a p =
     bindE (awaitH (hf_hostDirectory F)) (\<lambda>h.
     case (review_host a h, review_binding a h, ch_activeHostsTableId h) of
       (Some m, Some b, Some table) \<Rightarrow>
         bindE (assertE (table \<noteq> [] \<and> hv_expires_at_ms p \<le> cb_expires_at_ms m \<and> hv_expires_at_ms p \<le> hu_expiresAtMs u) Ha_invalid_source) (\<lambda>_.
         bindE (awaitH (hf_activeHost F table (hx_host_address a))) (\<lambda>(type, active).
         bindE (assertE (type \<in> set id_types \<and> active = cb_id m) Ha_invalid_source) (\<lambda>_.
         okE (h, m, b, table))))
     | _ \<Rightarrow> throwE Ha_invalid_source)"

definition managed_for :: "handover_proposal \<Rightarrow> control_member \<Rightarrow> managed_agent \<Rightarrow> bool" where
  "managed_for p m g \<longleftrightarrow> mg_id g = hv_managed_agent_id p \<and> \<not> mg_revoked g \<and> mg_membership_id g = cb_id m \<and> mg_runtime g = ''bounded-process-v1''
     \<and> dec_string (mg_version g) = hv_managed_version p \<and> bytesToHex (byte_text (mg_workspace_hash g)) = hv_workspace_hash p"

text \<open>Nothing is unsettled, and the only execution since the review is the review itself.\<close>

definition coverage_for :: "'r approval_flow \<Rightarrow> handover_acceptance \<Rightarrow> managed_agent \<Rightarrow> execution \<Rightarrow> execution_coverage \<Rightarrow> bool" where
  "coverage_for F a g run v \<longleftrightarrow>
     vc_unsettledControl v = 0 \<and> vc_revision v = dec_value (hx_coverage_revision a) + 1 \<and> vc_managed v = g
     \<and> (case find (\<lambda>row. en_id (vr_run row) = hf_executionId F) (vc_executions v) of
          None \<Rightarrow> False
        | Some row \<Rightarrow> \<not> vr_control row \<and> vr_settled row \<and> vr_run row = run)"

definition agentH :: "nat \<Rightarrow> 'r approval_flow \<Rightarrow> handover_acceptance \<Rightarrow> handover_proposal \<Rightarrow> control_member \<Rightarrow> execution
    \<Rightarrow> ('r, managed_agent \<times> execution_coverage) approving" where
  "agentH fuel F a p m run =
     bindE (awaitH (hf_managedInstance F (hx_host_address a) (hx_instance_id a))) (\<lambda>found.
     case found of
       None \<Rightarrow> throwE Ha_invalid_source
     | Some g \<Rightarrow>
         bindE (assertE (managed_for p m g) Ha_invalid_source) (\<lambda>_.
         bindE (awaitH (readAgentExecutions fuel (hf_api F) (hf_organizationId F) (mg_id g))) (\<lambda>v.
         bindE (assertE (coverage_for F a g run v) Ha_invalid_source) (\<lambda>_.
         okE (g, v)))))"

definition okr_for :: "'r approval_flow \<Rightarrow> handover_acceptance \<Rightarrow> handover_proposal \<Rightarrow> int \<Rightarrow> handover_okr \<Rightarrow> bool" where
  "okr_for F a p clock k \<longleftrightarrow>
     ho_id k = hv_okr_id p \<and> ho_org_id k = hf_organizationId F \<and> ho_owner_human k = hx_human_id a \<and> (ho_state k = 0 \<or> ho_state k = 2)
     \<and> dec_string (ho_version k) = hv_okr_version p \<and> dec_string (ho_spec_revision k) = hv_spec_revision p
     \<and> hv_expires_at_ms p \<le> ho_deadline_ms k \<and> clock < hv_expires_at_ms p"

definition nowH :: "'r approval_flow \<Rightarrow> ('r, int) approving" where
  "nowH F = (\<lambda>r. case hf_now F r of (t, r') \<Rightarrow> (Inr t, r'))"

definition okrH :: "'r approval_flow \<Rightarrow> handover_acceptance \<Rightarrow> handover_proposal \<Rightarrow> int \<Rightarrow> ('r, handover_okr) approving" where
  "okrH F a p clock =
     bindE (awaitH (hf_getOkr F (hv_okr_id p))) (\<lambda>source.
     bindE (assertE (cz_objectId source = hv_okr_id p \<and> cz_owner source = ''Shared'' \<and> cz_type source = hf_okrType F) Ha_invalid_source) (\<lambda>_.
     case cz_content source of
       None \<Rightarrow> throwE Ha_invalid_source
     | Some k \<Rightarrow>
         bindE (assertE (okr_for F a p clock k) Ha_invalid_source) (\<lambda>_.
         bindE (nowH F) (\<lambda>now.
         bindE (assertE (now < hv_expires_at_ms p) Ha_invalid_source) (\<lambda>_.
         okE k)))))"

definition plan_terms :: "handover_proposal \<Rightarrow> proposal" where
  "plan_terms p = \<lparr>pr_paths = hv_paths p, pr_budget_asset = hv_budget_asset p, pr_budget_limit = dec_value (hv_budget_limit p), pr_max_calls = dec_value (hv_max_calls p)\<rparr>"

definition metric_of :: "spec_kr \<Rightarrow> handover_metric \<Rightarrow> bool" where
  "metric_of s m \<longleftrightarrow> dec_string (hm_baseline m) = sk_baseline s \<and> dec_string (hm_target m) = sk_target s \<and> dec_string (hm_weight m) = sk_weight s
     \<and> dec_string (hm_max_age_ms m) = sk_maxAgeMs s"

definition spec_of_okr :: "okr_spec \<Rightarrow> handover_okr \<Rightarrow> bool" where
  "spec_of_okr s k \<longleftrightarrow> ho_priority k = int (sp_priority s) \<and> dec_string (ho_deadline_ms k) = sp_deadlineMs s \<and> length (ho_metrics k) = length (sp_krs s)
     \<and> list_all (\<lambda>(r, m). metric_of r m) (zip (sp_krs s) (ho_metrics k))"

definition head_pointer :: "handover_okr \<Rightarrow> record_head \<Rightarrow> record_pointer" where
  "head_pointer k h = \<lparr>pt_kind = 1, pt_logicalId = spec_name (ho_logical_id k), pt_record_id = rh_record_id h, pt_revision = rh_revision h, pt_key_version = rh_key_version h\<rparr>"

text \<open>The stored specification of the objective and the plan that fits it.\<close>

definition specH :: "'r approval_flow \<Rightarrow> json \<Rightarrow> handover_proposal \<Rightarrow> handover_okr \<Rightarrow> ('r, record_head \<times> okr_plan) approving" where
  "specH F rawPlan p k =
     bindE (awaitH (rc_getCurrent (hf_records F) 1 (spec_name (ho_logical_id k)))) (\<lambda>head.
     bindE (assertE (rh_record_id head = ho_spec_record k \<and> rh_revision head = dec_string (ho_spec_revision k)) Ha_invalid_source) (\<lambda>_.
     bindE (awaitH (readRecord (hf_records F) (head_pointer k head) False)) (\<lambda>plaintext.
     bindE (assertE (xe_utf8 (hf_results F) plaintext) Ha_outside) (\<lambda>_.
     case json_parse plaintext of
       None \<Rightarrow> throwE Ha_outside
     | Some raw \<Rightarrow>
         bindE (awaitH (liftR (validateHandoverPlan (xe_hash (hf_results F)) raw rawPlan (plan_terms p)))) (\<lambda>(spec, plan).
         bindE (assertE (spec_of_okr spec k) Ha_invalid_source) (\<lambda>_.
         okE (head, plan)))))))"

definition remaining_calls :: "okr_plan \<Rightarrow> handover_okr \<Rightarrow> int" where
  "remaining_calls plan k = sum_list (map (\<lambda>r. dec_value (kp_maxCalls r)) (drop (nat (ho_next_kr k)) (op_krs plan)))"

definition budget_for :: "handover_proposal \<Rightarrow> okr_plan \<Rightarrow> handover_okr \<Rightarrow> handover_budget \<Rightarrow> bool" where
  "budget_for p plan k g \<longleftrightarrow> hb_reserved g = 0 \<and> hb_asset g = hv_budget_asset p \<and> hb_spent g + remaining_calls plan k \<le> dec_value (hv_budget_limit p)"

definition budgetH :: "'r approval_flow \<Rightarrow> handover_proposal \<Rightarrow> okr_plan \<Rightarrow> handover_okr \<Rightarrow> ('r, handover_budget option) approving" where
  "budgetH F p plan k =
    (if ho_state k = 2
     then bindE (awaitH (hf_getBudget F (ho_id k))) (\<lambda>g. bindE (assertE (budget_for p plan k g) Ha_invalid_source) (\<lambda>_. okE (Some g)))
     else okE None)"

definition sourceH :: "nat \<Rightarrow> 'r approval_flow \<Rightarrow> handover_input \<Rightarrow> ('r, handover_source) approving" where
  "sourceH fuel F x =
     bindE (reviewH F (hi_command x)) (\<lambda>(u, review, a, p).
     let run = er_run review in
     bindE (hostH F u a p) (\<lambda>(h, m, b, table).
     bindE (agentH fuel F a p m run) (\<lambda>(g, v).
     bindE (okrH F a p (ch_clockMs h)) (\<lambda>k.
     bindE (specH F (hi_plan x) p k) (\<lambda>(head, plan).
     bindE (directoryH fuel F (ho_logical_id k)) (\<lambda>records.
     bindE (assertE (truthy (ho_agreement_record k) = (snd records \<noteq> None)
              \<and> (case snd records of None \<Rightarrow> True | Some row \<Rightarrow> Some (pt_record_id row) = ho_agreement_record k)) Ha_invalid_source) (\<lambda>_.
     bindE (budgetH F p plan k) (\<lambda>budget.
     okE \<lparr>hs_authority = u, hs_review = review, hs_acceptance = a, hs_okr = k, hs_plan = plan, hs_keyVersion = fst records,
          hs_expectedRevision = (case snd records of None \<Rightarrow> ''0'' | Some row \<Rightarrow> pt_revision row),
          hs_pin = (hu_authorityPin u, m, b, g, table, vc_revision v, run, k, head, records, budget)\<rparr>))))))))"

section \<open>Preparing and submitting\<close>

record handover_plan =
  hp_input :: handover_input
  hp_pin :: handover_pin

type_synonym ('s, 'r, 'a) handover = "('s, 'r, handover_plan, handover_approval_error, 'a) flow"

definition queryH :: "'r approval_flow \<Rightarrow> ('s, 'x) journal_ops \<Rightarrow> ('s, 'r, tx_outcome option) handover" where
  "queryH F J = bindE (outsideE (awaitH (hf_checkNetwork F))) (\<lambda>_. managerE (query (hf_client F) J (approval_requestId F)))"

definition recheckH :: "nat \<Rightarrow> 'r approval_flow \<Rightarrow> handover_input \<Rightarrow> handover_pin \<Rightarrow> ('r, unit) approving" where
  "recheckH fuel F x pin = bindE (sourceH fuel F x) (\<lambda>s. assertE (hs_pin s = pin) Ha_state_changed)"

definition plan_json :: "okr_plan \<Rightarrow> json" where
  "plan_json plan = JObject [(''format'', JNumber 1), (''paths'', JObject (paths_json plan)),
     (''krs'', JArray (map (\<lambda>k. JObject [(''files'', JArray (map (\<lambda>f. JObject [(''path'', JString (fg_path f)), (''content'', JString (fg_content f))]) (kp_files k))),
        (''maxCalls'', JString (kp_maxCalls k))]) (op_krs plan)))]"

text \<open>The acceptance as the Host wrote it into the result of the review.\<close>

definition reviewed_acceptance :: "execution_result \<Rightarrow> json" where
  "reviewed_acceptance review = jopt id (Option.bind (er_response review) (\<lambda>v. field v ''handover_review''))"

definition approval_text :: "handover_source \<Rightarrow> string" where
  "approval_text s = stringify (JObject [(''format'', JNumber 1), (''hostAcceptance'', reviewed_acceptance (hs_review s)),
     (''nativeFilePlan'', plan_json (hs_plan s)), (''specRecordId'', JString (ho_spec_record (hs_okr s)))])"

definition sealH :: "'r approval_flow \<Rightarrow> handover_source \<Rightarrow> ('r, string) approving" where
  "sealH F s =
     bindE (awaitH (hf_encrypt F (hu_encryptedKeys (hs_authority s)) (agreement_name (ho_logical_id (hs_okr s)))
        (dec_string (dec_value (hs_expectedRevision s) + 1)) (hs_keyVersion s) (approval_text s))) (\<lambda>encrypted.
     case sealed_text (xe_fromBase64 (hf_results F)) (xe_toBase64 (hf_results F)) encrypted of
       None \<Rightarrow> throwE Ha_invalid_ciphertext
     | Some body \<Rightarrow> okE body)"

definition confirmation :: "handover_input \<Rightarrow> handover_source \<Rightarrow> string \<Rightarrow> approval_request" where
  "confirmation x s body = \<lparr>hq_acceptance = hs_acceptance s, hq_capabilityId = sc_capability_id (hi_command x),
     hq_expectedRecordRevision = hs_expectedRevision s, hq_keyVersion = hs_keyVersion s, hq_encryptedAgreement = body\<rparr>"

definition prepareH :: "nat \<Rightarrow> nat \<Rightarrow> 'r approval_flow \<Rightarrow> ('s, 'x) journal_ops \<Rightarrow> handover_input \<Rightarrow> ('s, 'r, fee_quote + tx_outcome) handover" where
  "prepareH pages fuel F J x =
     bindE (queryH F J) (\<lambda>prior.
     case prior of
       Some c \<Rightarrow> okE (Inr c)
     | None \<Rightarrow>
         bindE (outsideE (sourceH fuel F x)) (\<lambda>s.
         bindE (outsideE (sealH F s)) (\<lambda>body.
         bindE (outsideE (recheckH fuel F x (hs_pin s))) (\<lambda>_.
         bindE (outsideE (awaitH (hf_confirmOkr F (confirmation x s body)))) (\<lambda>tx.
         bindE (outsideE (recheckH fuel F x (hs_pin s))) (\<lambda>_.
         bindE (managerE (prepare pages (hf_client F) J \<lparr>pi_requestId = approval_requestId F, pi_transaction = tx,
                  pi_gasBudget = UBigInt 200000000, pi_maxSuiSpend = None\<rparr>)) (\<lambda>quote.
         bindE (outsideE (recheckH fuel F x (hs_pin s))) (\<lambda>_.
         bindE (remember quote \<lparr>hp_input = x, hp_pin = hs_pin s\<rparr>) (\<lambda>_.
         okE (Inl quote))))))))))"

definition guardH :: "nat \<Rightarrow> 'r approval_flow \<Rightarrow> handover_plan \<Rightarrow> ('r, unit) approving" where
  "guardH fuel F plan = recheckH fuel F (hp_input plan) (hp_pin plan)"

definition submitH :: "nat \<Rightarrow> 'r approval_flow \<Rightarrow> ('s, 'x) journal_ops \<Rightarrow> fee_quote \<Rightarrow> ('s, 'r, tx_outcome) handover" where
  "submitH fuel F J q =
     bindE (queryH F J) (\<lambda>prior.
     case prior of
       Some c \<Rightarrow> okE c
     | None \<Rightarrow>
         bindE (assertE (q_requestId q = approval_requestId F) (Flow Ha_invalid_quote)) (\<lambda>_.
         guarded_submit (hf_client F) J (guardH fuel F) Ha_invalid_quote q))"

section \<open>What a source is\<close>

lemma awaitH_ok [eff_oks]: "awaitH m r = (Inr a, r') \<longleftrightarrow> m r = (Inr a, r')"
  by (auto simp: awaitH_def split: prod.splits sum.splits)

text \<open>
  What an approval rests on, part by part, each as it is read from a state of the outside to the next. First the signed command, which verifies, is this
  device's and asks for the review; the device's authority, with the four actions; and the review itself (\<open>review_authentic\<close> says what that is).
\<close>

definition review_seen :: "'r approval_flow \<Rightarrow> signed_command \<Rightarrow> handover_authority \<Rightarrow> execution_result \<Rightarrow> handover_acceptance \<Rightarrow> handover_proposal \<Rightarrow> 'r \<Rightarrow> 'r \<Rightarrow> bool" where
  "review_seen F c u review a p r r' \<longleftrightarrow> (\<exists>proposal r1. field (sc_payload c) ''handover_review'' = Some proposal \<and> proposal_of proposal = Some p
     \<and> sc_signer c = hf_device F \<and> sc_organization_id c = hf_organizationId F
     \<and> verifySignedNodeCommand (xe_hash (hf_results F)) (xe_keys (hf_results F)) c = Inr ()
     \<and> hf_verifyOrganization F r = (Inr u, r1) \<and> hu_authorityPin u \<noteq> [] \<and> hu_humanId u = hf_humanId F
     \<and> {''read'', ''operate'', ''approve'', ''manage_hosts''} \<subseteq> set (hu_actions u)
     \<and> readReviewX (hf_results F) (hf_executionId F) c proposal r1 = (Inr (review, a), r')
     \<and> hx_human_id a = hf_humanId F \<and> hx_grant_id a = hf_grantId F)"

text \<open>The Host directory, with the reviewing Host's membership and binding in force by its clock until the plan ends, and the Host active under this membership.\<close>

definition host_seen :: "'r approval_flow \<Rightarrow> handover_authority \<Rightarrow> handover_acceptance \<Rightarrow> handover_proposal \<Rightarrow> int \<Rightarrow> control_member \<Rightarrow> control_binding
    \<Rightarrow> string \<Rightarrow> 'r \<Rightarrow> 'r \<Rightarrow> bool" where
  "host_seen F u a p clock m b table r r' \<longleftrightarrow> (\<exists>h type r1. hf_hostDirectory F r = (Inr h, r1) \<and> ch_clockMs h = clock
     \<and> m \<in> set (ch_memberships h) \<and> cb_id m = hx_membership_id a \<and> \<not> cb_revoked m \<and> cb_host_address m = hx_host_address a
     \<and> cb_coordinator_binding m = hx_binding_id a \<and> clock < cb_expires_at_ms m
     \<and> b \<in> set (ch_bindings h) \<and> cd_id b = hx_binding_id a \<and> \<not> cd_revoked b
     \<and> hv_expires_at_ms p \<le> cb_expires_at_ms m \<and> hv_expires_at_ms p \<le> hu_expiresAtMs u
     \<and> ch_activeHostsTableId h = Some table \<and> hf_activeHost F table (hx_host_address a) r1 = (Inr (type, cb_id m), r') \<and> type \<in> set id_types)"

text \<open>The Agent, the proposed one on this Host, and its whole history: nothing unsettled, and since the acceptance only the review, settled and as it was read.\<close>

definition agent_seen :: "nat \<Rightarrow> 'r approval_flow \<Rightarrow> handover_acceptance \<Rightarrow> handover_proposal \<Rightarrow> control_member \<Rightarrow> execution \<Rightarrow> managed_agent \<Rightarrow> int \<Rightarrow> 'r \<Rightarrow> 'r \<Rightarrow> bool" where
  "agent_seen fuel F a p m run g revision r r' \<longleftrightarrow> (\<exists>v row r1. hf_managedInstance F (hx_host_address a) (hx_instance_id a) r = (Inr (Some g), r1)
     \<and> mg_id g = hv_managed_agent_id p \<and> \<not> mg_revoked g \<and> mg_membership_id g = cb_id m \<and> mg_runtime g = ''bounded-process-v1''
     \<and> dec_string (mg_version g) = hv_managed_version p \<and> bytesToHex (byte_text (mg_workspace_hash g)) = hv_workspace_hash p
     \<and> readAgentExecutions fuel (hf_api F) (hf_organizationId F) (mg_id g) r1 = (Inr v, r')
     \<and> vc_unsettledControl v = 0 \<and> vc_revision v = revision \<and> revision = dec_value (hx_coverage_revision a) + 1 \<and> vc_managed v = g
     \<and> row \<in> set (vc_executions v) \<and> en_id run = hf_executionId F \<and> vr_run row = run \<and> \<not> vr_control row \<and> vr_settled row)"

text \<open>The objective, at the proposed versions, in draft or paused, with the plan's end after the directory's clock, after the device's clock read next, and within its deadline.\<close>

definition okr_seen :: "'r approval_flow \<Rightarrow> handover_acceptance \<Rightarrow> handover_proposal \<Rightarrow> int \<Rightarrow> handover_okr \<Rightarrow> 'r \<Rightarrow> 'r \<Rightarrow> bool" where
  "okr_seen F a p clock k r r' \<longleftrightarrow> (\<exists>source now r1. hf_getOkr F (hv_okr_id p) r = (Inr source, r1)
     \<and> cz_objectId source = hv_okr_id p \<and> cz_owner source = ''Shared'' \<and> cz_type source = hf_okrType F \<and> cz_content source = Some k
     \<and> ho_id k = hv_okr_id p \<and> ho_org_id k = hf_organizationId F \<and> ho_owner_human k = hx_human_id a \<and> (ho_state k = 0 \<or> ho_state k = 2)
     \<and> dec_string (ho_version k) = hv_okr_version p \<and> dec_string (ho_spec_revision k) = hv_spec_revision p \<and> hv_expires_at_ms p \<le> ho_deadline_ms k
     \<and> clock < hv_expires_at_ms p \<and> hf_now F r1 = (now, r') \<and> now < hv_expires_at_ms p)"

text \<open>The current record of the specification, the objective's own; the plan was checked against the very text stored in it, and it has the objective's numbers.\<close>

definition spec_seen :: "'r approval_flow \<Rightarrow> json \<Rightarrow> handover_proposal \<Rightarrow> handover_okr \<Rightarrow> record_head \<Rightarrow> okr_plan \<Rightarrow> 'r \<Rightarrow> 'r \<Rightarrow> bool" where
  "spec_seen F rawPlan p k head plan r r' \<longleftrightarrow> (let name = ''okr-'' @ ho_logical_id k @ ''-spec'' in
     \<exists>stored raw spec r1. rc_getCurrent (hf_records F) 1 name r = (Inr head, r1) \<and> rh_record_id head = ho_spec_record k \<and> rh_revision head = dec_string (ho_spec_revision k)
       \<and> readRecord (hf_records F) \<lparr>pt_kind = 1, pt_logicalId = name, pt_record_id = rh_record_id head, pt_revision = rh_revision head,
            pt_key_version = rh_key_version head\<rparr> False r1 = (Inr stored, r')
       \<and> json_parse stored = Some raw
       \<and> validateHandoverPlan (xe_hash (hf_results F)) raw rawPlan \<lparr>pr_paths = hv_paths p, pr_budget_asset = hv_budget_asset p, pr_budget_limit = dec_value (hv_budget_limit p),
            pr_max_calls = dec_value (hv_max_calls p)\<rparr> = Inr (spec, plan)
       \<and> ho_priority k = int (sp_priority spec) \<and> dec_string (ho_deadline_ms k) = sp_deadlineMs spec
       \<and> list_all2 (\<lambda>n m. dec_string (hm_baseline m) = sk_baseline n \<and> dec_string (hm_target m) = sk_target n \<and> dec_string (hm_weight m) = sk_weight n
            \<and> dec_string (hm_max_age_ms m) = sk_maxAgeMs n) (sp_krs spec) (ho_metrics k))"

text \<open>For a continued objective its budget: nothing reserved, and what was spent and the calls of all key results left in the plan fit the limit.\<close>

definition budget_seen :: "'r approval_flow \<Rightarrow> handover_proposal \<Rightarrow> okr_plan \<Rightarrow> handover_okr \<Rightarrow> handover_budget option \<Rightarrow> 'r \<Rightarrow> 'r \<Rightarrow> bool" where
  "budget_seen F p plan k budget r r' \<longleftrightarrow>
     (if ho_state k = 2
      then \<exists>g. hf_getBudget F (ho_id k) r = (Inr g, r') \<and> budget = Some g \<and> hb_reserved g = 0 \<and> hb_asset g = hv_budget_asset p
        \<and> hb_spent g + sum_list (map (\<lambda>kr. dec_value (kp_maxCalls kr)) (drop (nat (ho_next_kr k)) (op_krs plan))) \<le> dec_value (hv_budget_limit p)
      else budget = None \<and> r' = r)"

text \<open>The whole source, in the order of the code, and what its pin consists of.\<close>

definition approval_sound :: "nat \<Rightarrow> 'r approval_flow \<Rightarrow> handover_input \<Rightarrow> handover_pin \<Rightarrow> 'r \<Rightarrow> 'r \<Rightarrow> bool" where
  "approval_sound fuel F x expected r r' \<longleftrightarrow> (\<exists>u review a p clock m b table g revision k head plan records budget r1 r2 r3 r4 r5 r6.
     review_seen F (hi_command x) u review a p r r1
     \<and> host_seen F u a p clock m b table r1 r2
     \<and> agent_seen fuel F a p m (er_run review) g revision r2 r3
     \<and> okr_seen F a p clock k r3 r4
     \<and> spec_seen F (hi_plan x) p k head plan r4 r5
     \<and> directoryH fuel F (ho_logical_id k) r5 = (Inr records, r6)
     \<and> (case snd records of None \<Rightarrow> \<not> truthy (ho_agreement_record k) | Some row \<Rightarrow> truthy (ho_agreement_record k) \<and> ho_agreement_record k = Some (pt_record_id row))
     \<and> budget_seen F p plan k budget r6 r'
     \<and> expected = (hu_authorityPin u, m, b, g, table, revision, er_run review, k, head, records, budget))"

lemma reviewH_seen:
  assumes "reviewH F c r = (Inr (u, review, a, p), r')"
  shows "review_seen F c u review a p r r'"
proof -
  from assms obtain proposal r1 where p: "reviewed_proposal F c = Inr proposal" "proposal_of proposal = Some p"
    and read: "verifySignedNodeCommand (xe_hash (hf_results F)) (xe_keys (hf_results F)) c = Inr ()" "hf_verifyOrganization F r = (Inr u, r1)"
      "authority_ok F u" "readReviewX (hf_results F) (hf_executionId F) c proposal r1 = (Inr (review, a), r')" "hx_human_id a = hu_humanId u" "hx_grant_id a = hf_grantId F"
    by (auto simp: reviewH_def eff_oks elim!: bindE_okE split: option.split_asm)
  from p(1) have "field (sc_payload c) ''handover_review'' = Some proposal" "sc_signer c = hf_device F" "sc_organization_id c = hf_organizationId F"
    by (auto simp: reviewed_proposal_def split: option.split_asm if_split_asm)
  with p(2) read show ?thesis unfolding review_seen_def authority_ok_def by (intro exI [of _ proposal] exI [of _ r1]) simp
qed

lemma hostH_seen:
  assumes "hostH F u a p r = (Inr (h, m, b, table), r')"
  shows "host_seen F u a p (ch_clockMs h) m b table r r'"
  using assms unfolding host_seen_def
  by (auto simp: hostH_def review_host_def review_binding_def eff_oks dest!: find_SomeD elim!: bindE_okE split: option.split_asm)

lemma agentH_seen:
  assumes "agentH fuel F a p m run r = (Inr (g, v), r')"
  shows "agent_seen fuel F a p m run g (vc_revision v) r r'"
proof -
  from assms obtain r1 where read: "hf_managedInstance F (hx_host_address a) (hx_instance_id a) r = (Inr (Some g), r1)" "managed_for p m g"
      "readAgentExecutions fuel (hf_api F) (hf_organizationId F) (mg_id g) r1 = (Inr v, r')" and cover: "coverage_for F a g run v"
    by (auto simp: agentH_def eff_oks elim!: bindE_okE split: option.split_asm)
  from cover obtain row where "row \<in> set (vc_executions v)" "en_id (vr_run row) = hf_executionId F" "\<not> vr_control row" "vr_settled row" "vr_run row = run"
    by (auto simp: coverage_for_def dest!: find_SomeD split: option.split_asm)
  with read cover show ?thesis
    unfolding agent_seen_def by (intro exI [of _ v] exI [of _ row] exI [of _ r1]) (auto simp: managed_for_def coverage_for_def)
qed

lemma okrH_seen:
  assumes "okrH F a p clock r = (Inr k, r')"
  shows "okr_seen F a p clock k r r'"
  using assms unfolding okr_seen_def
  by (auto simp: okrH_def okr_for_def nowH_def eff_oks elim!: bindE_okE split: option.split_asm prod.split_asm)

lemma specH_seen:
  assumes "specH F rawPlan p k r = (Inr (head, plan), r')"
  shows "spec_seen F rawPlan p k head plan r r'"
proof -
  from assms obtain stored raw spec r1 where read: "rc_getCurrent (hf_records F) 1 (spec_name (ho_logical_id k)) r = (Inr head, r1)" "rh_record_id head = ho_spec_record k"
      "rh_revision head = dec_string (ho_spec_revision k)" "readRecord (hf_records F) (head_pointer k head) False r1 = (Inr stored, r')" "json_parse stored = Some raw"
      "validateHandoverPlan (xe_hash (hf_results F)) raw rawPlan (plan_terms p) = Inr (spec, plan)" and numbers: "spec_of_okr spec k"
    by (auto simp: specH_def eff_oks elim!: bindE_okE split: option.split_asm)
  from numbers have "list_all2 metric_of (sp_krs spec) (ho_metrics k)" "ho_priority k = int (sp_priority spec)" "dec_string (ho_deadline_ms k) = sp_deadlineMs spec"
    by (auto simp: spec_of_okr_def list_all2_iff list_all_iff)
  with read show ?thesis
    unfolding spec_seen_def Let_def
    by (intro exI [of _ stored] exI [of _ raw] exI [of _ spec] exI [of _ r1]) (simp add: head_pointer_def spec_name_def plan_terms_def metric_of_def [abs_def])
qed

lemma budgetH_seen: "budgetH F p plan k r = (Inr budget, r') \<Longrightarrow> budget_seen F p plan k budget r r'"
  by (auto simp: budgetH_def budget_seen_def budget_for_def remaining_calls_def eff_oks elim!: bindE_okE split: if_split_asm)

lemma sourceH_sound:
  assumes "sourceH fuel F x r = (Inr s, r')"
  shows "approval_sound fuel F x (hs_pin s) r r'"
proof -
  from assms obtain u review a p h m b table g v k head plan records budget r1 r2 r3 r4 r5 r6 where
    review: "reviewH F (hi_command x) r = (Inr (u, review, a, p), r1)" and host: "hostH F u a p r1 = (Inr (h, m, b, table), r2)"
    and agent: "agentH fuel F a p m (er_run review) r2 = (Inr (g, v), r3)" and okr: "okrH F a p (ch_clockMs h) r3 = (Inr k, r4)"
    and spec: "specH F (hi_plan x) p k r4 = (Inr (head, plan), r5)" and records: "directoryH fuel F (ho_logical_id k) r5 = (Inr records, r6)"
      "truthy (ho_agreement_record k) = (snd records \<noteq> None)" "case snd records of None \<Rightarrow> True | Some row \<Rightarrow> Some (pt_record_id row) = ho_agreement_record k"
    and budget: "budgetH F p plan k r6 = (Inr budget, r')"
    and s: "hs_pin s = (hu_authorityPin u, m, b, g, table, vc_revision v, er_run review, k, head, records, budget)"
    by (auto simp: sourceH_def Let_def eff_oks elim!: bindE_okE)
  have agreement: "case snd records of None \<Rightarrow> \<not> truthy (ho_agreement_record k) | Some row \<Rightarrow> truthy (ho_agreement_record k) \<and> ho_agreement_record k = Some (pt_record_id row)"
    using records(2,3) by (auto split: option.split_asm)
  show ?thesis
    unfolding approval_sound_def
    by (rule exI [of _ u], rule exI [of _ review], rule exI [of _ a], rule exI [of _ p], rule exI [of _ "ch_clockMs h"], rule exI [of _ m], rule exI [of _ b], rule exI [of _ table], rule exI [of _ g], rule exI [of _ "vc_revision v"], rule exI [of _ k], rule exI [of _ head], rule exI [of _ plan], rule exI [of _ records], rule exI [of _ budget], rule exI [of _ r1], rule exI [of _ r2], rule exI [of _ r3], rule exI [of _ r4], rule exI [of _ r5], rule exI [of _ r6])
      (intro conjI reviewH_seen [OF review] hostH_seen [OF host] agentH_seen [OF agent] okrH_seen [OF okr] specH_seen [OF spec] records(1) agreement budgetH_seen [OF budget] s)
qed

section \<open>What is broadcast\<close>

lemma recheckH_ok: "recheckH fuel F x pin r = (Inr u, r') \<longleftrightarrow> (\<exists>s. sourceH fuel F x r = (Inr s, r') \<and> hs_pin s = pin)"
  by (auto simp: recheckH_def eff_oks bindE_eq)

lemma queryH_unsubmitted: "keeps unsubmitted (queryH F J)"
  unfolding queryH_def by auto

lemma submitH_guarded:
  assumes "submitH fuel F J q w = (x, w')" "w_sent (fw_manager w') \<noteq> w_sent (fw_manager w)"
  shows "\<exists>w0. queryH F J w = (Inr None, w0) \<and> unsubmitted w w0 \<and> q_requestId q = approval_requestId F
    \<and> guarded_submit (hf_client F) J (guardH fuel F) Ha_invalid_quote q w0 = (x, w')"
proof -
  obtain y w0 where y: "queryH F J w = (y, w0)" by fastforce
  from keepsD [OF queryH_unsubmitted y] have same: "unsubmitted w w0" .
  have unsent: "w_sent (fw_manager w0) = w_sent (fw_manager w)" using same by (simp add: unsubmitted_def same_but_journal_def)
  from assms(1) y consider "w' = w0" | "y = Inr None" "q_requestId q = approval_requestId F" "guarded_submit (hf_client F) J (guardH fuel F) Ha_invalid_quote q w0 = (x, w')"
    by (auto simp: submitH_def eff_run split: sum.split_asm option.split_asm if_split_asm)
  then show ?thesis using y same unsent assms(2) by cases auto
qed

interpretation approval: submission_flow "submitH fuel F J" "hf_client F" J "guardH fuel F" Ha_invalid_quote for fuel F J
  by unfold_locales (use submitH_guarded in blast)

lemma guardH_sound: "guardH fuel F plan r = (Inr u, r') \<Longrightarrow> approval_sound fuel F (hp_input plan) (hp_pin plan) r r'"
  by (auto simp: guardH_def recheckH_ok dest: sourceH_sound)

text \<open>
  C38. An approval is paid for only while everything it rests on holds: if a submission broadcasts anything, no outcome of this approval was known before,
  its quote was prepared here, is not used and is for this review's Run, exactly its prepared transaction is sent, once, and the device signed it right
  after one chain of readings and right before another, both of what was pinned when the quote was prepared. Each read, in order: an authentic, fresh review by a
  succeeded Run of the signed command, under an authority that may approve; its Host, in force by the directory's clock and active; its Agent, with nothing unsettled and nothing done
  but the review since; the objective as proposed, with the plan's end after that clock and the device's; the stored specification, within which the plan is; the agreement
  on record; and the remaining budget, within which the remaining calls are.
\<close>

theorem approval_sent_as_reviewed:
  assumes "submitH fuel F J q w = (x, w')" "w_sent (fw_manager w') \<noteq> w_sent (fw_manager w)"
  shows "\<exists>plan p. map_of (fw_plans w) q = Some plan \<and> p \<in> set (w_prepared (fw_manager w)) \<and> p_quote p = q \<and> \<not> p_used p
    \<and> q_requestId q = ''handover-approve:'' @ hf_executionId F
    \<and> (\<exists>w0. queryH F J w = (Inr None, w0)) \<and> w_sent (fw_manager w') = (entry_key (p_entry p), je_digest (p_entry p)) # w_sent (fw_manager w)
    \<and> (\<exists>r0 r1 r2 r3 sg. approval_sound fuel F (hp_input plan) (hp_pin plan) r0 r1 \<and> cl_sign (hf_client F) (p_bytes p) r1 = (Inr sg, r2)
        \<and> approval_sound fuel F (hp_input plan) (hp_pin plan) r2 r3)"
proof -
  from approval.sent_under_guard [OF assms] obtain plan p where found: "map_of (fw_plans w) q = Some plan"
      "p \<in> set (w_prepared (fw_manager w))" "p_quote p = q" "\<not> p_used p" "guarded_run (guardH fuel F plan) (hf_client F) (p_bytes p)"
      "w_sent (fw_manager w') = (entry_key (p_entry p), je_digest (p_entry p)) # w_sent (fw_manager w)" by blast
  from submitH_guarded [OF assms] have own: "q_requestId q = ''handover-approve:'' @ hf_executionId F" "\<exists>w0. queryH F J w = (Inr None, w0)"
    by (auto simp: approval_requestId_def)
  from found(5) have "\<exists>r0 r1 r2 r3 sg. approval_sound fuel F (hp_input plan) (hp_pin plan) r0 r1 \<and> cl_sign (hf_client F) (p_bytes p) r1 = (Inr sg, r2)
      \<and> approval_sound fuel F (hp_input plan) (hp_pin plan) r2 r3"
    unfolding guarded_run_def by (blast dest: guardH_sound)
  with found own show ?thesis by blast
qed

section \<open>A sample approval\<close>

definition approval_draft :: draft_input where
  "approval_draft = sample_draft\<lparr>di_deadlineMs := Some (JString ''900000''), di_allowedPaths := Some (JArray [JString ''out'']), di_maxCalls := Some (JString ''50'')\<rparr>"

definition approval_spec :: okr_spec where
  "approval_spec = sample_spec\<lparr>sp_deadlineMs := ''900000'', sp_allowedPaths := [''out''], sp_budgetLimit := ''50''\<rparr>"

lemma approval_values:
  "textR (Some (JString ''out'')) 256 = Inr ''out''" "integer (Some (JString ''900000'')) max_u64 1 = Inr 900000" "integer (Some (JString ''50'')) max_u64 1 = Inr 50"
  "dec_string 900000 = ''900000''" "dec_string 50 = ''50''" "bad_path ''out'' = False" "replaceChar (char_of (92 :: nat)) (CHR ''/'') ''out'' = ''out''"
  by (rule textR_plain, code_simp, code_simp) code_simp+

lemma approval_draft_normal: "normalizeDraft H approval_draft = Inr approval_spec"
  by (simp add: normalizeDraft_def approval_draft_def approval_spec_def sample_draft_def sample_spec_def draft_head_ok_def draft_paths_def draft_actions_def
      normalize_kr_def normalize_source_def sample_texts sample_values approval_values sample_age Let_def)

definition approval_plan_json :: json where
  "approval_plan_json = JObject [(''format'', JNumber 1), (''paths'', JObject [(''file.read'', JArray [JString ''out'']), (''file.write'', JArray [JString ''out''])]),
     (''krs'', JArray [JObject [(''files'', JArray [JObject [(''path'', JString ''out/a.txt''), (''content'', JString ''hello'')]]), (''maxCalls'', JString ''5'')]])]"

definition approval_plan :: okr_plan where
  "approval_plan = \<lparr>op_paths = [(''file.read'', [''out'']), (''file.write'', [''out''])],
     op_krs = [\<lparr>kp_files = [\<lparr>fg_path = ''out/a.txt'', fg_content = ''hello''\<rparr>], kp_maxCalls = ''5''\<rparr>]\<rparr>"

definition approval_terms :: proposal where
  "approval_terms = \<lparr>pr_paths = sample_paths [''out''], pr_budget_asset = ''TOOL_CALLS'', pr_budget_limit = 50, pr_max_calls = 10\<rparr>"

lemma approval_terms: "plan_terms review_proposal = approval_terms"
proof -
  have "dec_value ''50'' = 50" "dec_value ''10'' = 10" by code_simp+
  then show ?thesis by (simp add: plan_terms_def approval_terms_def review_proposal_def)
qed

lemma approval_boundary: "executionBoundaryHash H (paths_json approval_plan) = executionBoundaryHash H (pr_paths approval_terms)"
proof -
  have "boundary_rows (paths_json approval_plan) = boundary_rows (pr_paths approval_terms)" by code_simp
  then show ?thesis by (simp add: executionBoundaryHash_def)
qed

lemma approval_plan_parts:
  "check_actions approval_plan (sp_prohibitedActions approval_spec) = Inr ()"
  "list_all (\<lambda>(_, ds). list_all (\<lambda>p. list_ex (within p) (sp_allowedPaths approval_spec)) ds) (op_paths approval_plan)"
  "check_krs approval_plan approval_terms (op_krs approval_plan) (sp_krs approval_spec) 0 = Inr 5"
  "5 \<le> pr_budget_limit approval_terms"
  by code_simp+

lemma approval_boundary_some: "executionBoundaryHash H (pr_paths approval_terms) \<noteq> None"
proof -
  have "boundary_rows (pr_paths approval_terms) \<noteq> None" by code_simp
  then show ?thesis by (simp add: executionBoundaryHash_def)
qed

lemma approval_plan_fits: "plan_fits H approval_spec approval_plan (paths_json approval_plan) approval_terms"
proof -
  have "pr_budget_asset approval_terms = ''TOOL_CALLS''" "pr_budget_limit approval_terms \<le> dec_value (sp_budgetLimit approval_spec)"
    "length (op_krs approval_plan) = length (sp_krs approval_spec)"
    "list_all (\<lambda>p. p = ''.'' \<or> ''.'' \<notin> set (split_at (CHR ''/'') p)) (sp_allowedPaths approval_spec)" by code_simp+
  then show ?thesis by (simp add: plan_fits_def approval_boundary)
qed

lemma approval_plan_parsed: "parseNativeFileOkrPlan H approval_plan_json = Some approval_plan"
proof -
  let ?paths = "[(''file.read'', JArray [JString ''out'']), (''file.write'', JArray [JString ''out''])]"
  have "boundary_rows ?paths \<noteq> None" "parse_paths ?paths = Some [(''file.read'', [''out'']), (''file.write'', [''out''])]" "portablePath ''out'' True"
    "map_some parse_kr [JObject [(''files'', JArray [JObject [(''path'', JString ''out/a.txt''), (''content'', JString ''hello'')]]), (''maxCalls'', JString ''5'')]]
      = Some [\<lparr>kp_files = [\<lparr>fg_path = ''out/a.txt'', fg_content = ''hello''\<rparr>], kp_maxCalls = ''5''\<rparr>]" by code_simp+
  then show ?thesis by (simp add: parseNativeFileOkrPlan_def approval_plan_json_def approval_plan_def executionBoundaryHash_def)
qed

lemma approval_plan_valid:
  "validateHandoverPlan review_hash_env (spec_json approval_spec) approval_plan_json (plan_terms review_proposal) = Inr (approval_spec, approval_plan)"
  using approval_plan_parts approval_plan_fits [of review_hash_env] approval_boundary_some [of review_hash_env] approval_plan_parsed [of review_hash_env] parse_spec_json [OF approval_draft_normal, of review_hash_env]
  by (auto simp: validateHandoverPlan_def approval_terms)

definition approval_okr :: handover_okr where
  "approval_okr = \<lparr>ho_id = some_address (CHR ''b''), ho_org_id = some_address (CHR ''2''), ho_owner_human = some_address (CHR ''3''), ho_logical_id = ''goal'', ho_state = 0,
     ho_version = 4, ho_spec_revision = 1, ho_spec_record = some_address (CHR ''c''), ho_priority = 1, ho_deadline_ms = 900000,
     ho_metrics = [\<lparr>hm_baseline = 0, hm_target = 1, hm_weight = 1, hm_max_age_ms = 3600000\<rparr>], ho_agreement_record = None, ho_next_kr = 0, ho_rest = JNull\<rparr>"

definition approval_spec_record :: stored_record where
  "approval_spec_record = \<lparr>sr_id = some_address (CHR ''c''), sr_organization_id = some_address (CHR ''2''), sr_kind = 1, sr_logical_id = spec_name ''goal'', sr_revision = 1,
     sr_previous = None, sr_key_version = 1, sr_encrypted_body = ''body''\<rparr>"

definition approval_records :: "unit records_env" where
  "approval_records = \<lparr>rc_organizationId = some_address (CHR ''2''), rc_indexType = ''index'', rc_pointerType = ''pointer'', rc_active = (\<lambda>_. True), rc_pause = (\<lambda>r. r),
     rc_index = throwE (), rc_child = (\<lambda>_ _ _. throwE ()), rc_verify = okE \<lparr>ra_authorityPin = ''pin'', ra_encryptedKeys = Some ''keys''\<rparr>,
     rc_listCurrent = (\<lambda>_. throwE ()), rc_getCurrent = (\<lambda>k l. okE \<lparr>rh_record_id = some_address (CHR ''c''), rh_revision = ''1'', rh_key_version = ''1''\<rparr>),
     rc_getRecord = (\<lambda>i. okE approval_spec_record), rc_decrypt = (\<lambda>k rec. okE (Some (stringify (spec_json approval_spec)))),
     rc_fromBase64 = Some, rc_toBase64 = (\<lambda>b. b)\<rparr>"

definition approval_authority :: handover_authority where
  "approval_authority = \<lparr>hu_authorityPin = ''pin'', hu_encryptedKeys = ''keys'', hu_humanId = some_address (CHR ''3''),
     hu_actions = [''read'', ''operate'', ''approve'', ''manage_hosts''], hu_expiresAtMs = 900000\<rparr>"

definition approval_member :: control_member where
  "approval_member = \<lparr>cb_id = some_address (CHR ''5''), cb_version = 1, cb_revoked = False, cb_host_address = some_address (CHR ''7''), cb_expires_at_ms = 900000,
     cb_coordinator_binding = some_address (CHR ''6''), cb_rest = JNull\<rparr>"

definition approval_hosts :: control_hosts where
  "approval_hosts = \<lparr>ch_memberships = [approval_member], ch_bindings = [\<lparr>cd_id = some_address (CHR ''6''), cd_revoked = False, cd_rest = JNull\<rparr>], ch_clockMs = 2000,
     ch_activeHostsTableId = Some ''table'', ch_instancesTableId = None\<rparr>"

definition approval_sample :: "unit approval_flow" where
  "approval_sample = \<lparr>hf_client = flow_client, hf_organizationId = some_address (CHR ''2''), hf_grantId = some_address (CHR ''4''), hf_executionId = some_address (CHR ''1''),
     hf_device = some_address (CHR ''7''), hf_humanId = some_address (CHR ''3''), hf_okrType = ''okr'', hf_results = review_reader, hf_api = node_api, hf_records = approval_records,
     hf_checkNetwork = okE (), hf_verifyOrganization = okE approval_authority, hf_hostDirectory = okE approval_hosts,
     hf_activeHost = (\<lambda>t a. okE (''0x2::object::ID'', some_address (CHR ''5''))), hf_managedInstance = (\<lambda>a i. okE (Some node_agent)),
     hf_getOkr = (\<lambda>i. okE \<lparr>cz_objectId = i, cz_owner = ''Shared'', cz_type = ''okr'', cz_content = Some approval_okr, cz_previousTransaction = None\<rparr>),
     hf_now = (\<lambda>r. (2500, r)), hf_getBudget = (\<lambda>i. throwE ()),
     hf_listCurrent = (\<lambda>c. okE \<lparr>hd_keyVersion = ''1'', hd_records = [], hd_cursor = None, hd_hasNextPage = False\<rparr>),
     hf_encrypt = (\<lambda>k n v y p. okE (Some p)), hf_confirmOkr = (\<lambda>q. okE (pi_transaction sample_input))\<rparr>"

definition approval_input :: handover_input where
  "approval_input = \<lparr>hi_command = review_signed_command, hi_plan = approval_plan_json\<rparr>"

lemma approval_sample_fields [simp]:
  "hf_organizationId approval_sample = some_address (CHR ''2'')" "hf_grantId approval_sample = some_address (CHR ''4'')" "hf_executionId approval_sample = some_address (CHR ''1'')"
  "hf_device approval_sample = some_address (CHR ''7'')" "hf_humanId approval_sample = some_address (CHR ''3'')" "hf_okrType approval_sample = ''okr''"
  "hf_results approval_sample = review_reader" "hf_api approval_sample = node_api" "hf_records approval_sample = approval_records" "hf_client approval_sample = flow_client"
  "awaitH (hf_checkNetwork approval_sample) r = (Inr (), r)" "awaitH (hf_verifyOrganization approval_sample) r = (Inr approval_authority, r)"
  "awaitH (hf_hostDirectory approval_sample) r = (Inr approval_hosts, r)" "awaitH (hf_activeHost approval_sample t a) r = (Inr (''0x2::object::ID'', some_address (CHR ''5'')), r)"
  "awaitH (hf_managedInstance approval_sample a i) r = (Inr (Some node_agent), r)"
  "awaitH (hf_getOkr approval_sample i) r = (Inr \<lparr>cz_objectId = i, cz_owner = ''Shared'', cz_type = ''okr'', cz_content = Some approval_okr, cz_previousTransaction = None\<rparr>, r)"
  "nowH approval_sample r = (Inr 2500, r)"
  "awaitH (hf_listCurrent approval_sample c) r = (Inr \<lparr>hd_keyVersion = ''1'', hd_records = [], hd_cursor = None, hd_hasNextPage = False\<rparr>, r)"
  by (simp_all add: approval_sample_def awaitH_def nowH_def eff_run)

lemma approval_reviewed:
  "\<exists>review. reviewH approval_sample review_signed_command () = (Inr (approval_authority, review, signed_review, review_proposal), ()) \<and> er_run review = review_run"
proof -
  obtain review where review: "readReviewX review_reader (some_address (CHR ''1'')) review_signed_command (proposal_json review_proposal) () = (Inr (review, signed_review), ())"
    "er_run review = review_run" using review_read by blast
  have proposal: "reviewed_proposal approval_sample review_signed_command = Inr (proposal_json review_proposal)"
    by (simp add: reviewed_proposal_def review_command_fields field_def review_id_def sfield_def proposal_json_def review_proposal_def some_address_id is_lower_hex_def is_digit_def
        del: stringify.simps)
  have own: "authority_ok approval_sample approval_authority" "hx_human_id signed_review = hu_humanId approval_authority" "hx_grant_id signed_review = some_address (CHR ''4'')"
    by (simp_all add: authority_ok_def approval_authority_def signed_review_def review_acceptance_def)
  show ?thesis
    using review by (simp add: reviewH_def eff_run proposal awaitH_def review_command_verified own [simplified] proposal_of_json) (simp add: approval_sample_def eff_run own [unfolded approval_sample_def, simplified])
qed

lemma approval_spec_read: "readRecord approval_records (head_pointer approval_okr \<lparr>rh_record_id = some_address (CHR ''c''), rh_revision = ''1'', rh_key_version = ''1''\<rparr>) False r
    = (Inr (stringify (spec_json approval_spec)), r)"
proof -
  have texts: "dec_value ''1'' = 1" "dec_string 1 = ''1''" "version_text ''1''" by code_simp+
  have id: "is_object_id (some_address (CHR ''c''))" by (simp add: some_address_id is_lower_hex_def is_digit_def)
  have env: "rc_organizationId approval_records = some_address (CHR ''2'')" "awaitP (rc_verify approval_records) r = (Inr \<lparr>ra_authorityPin = ''pin'', ra_encryptedKeys = Some ''keys''\<rparr>, r)"
    "awaitP (rc_getCurrent approval_records k l) r = (Inr \<lparr>rh_record_id = some_address (CHR ''c''), rh_revision = ''1'', rh_key_version = ''1''\<rparr>, r)"
    "awaitP (rc_getRecord approval_records i) r = (Inr approval_spec_record, r)"
    "awaitP (rc_decrypt approval_records ks rec) r = (Inr (Some (stringify (spec_json approval_spec))), r)"
    "rc_fromBase64 approval_records = Some" "rc_toBase64 approval_records = (\<lambda>b. b)" for r k l i ks rec
    by (simp_all add: approval_records_def awaitP_def eff_run)
  have "json_bound (spec_json approval_spec) \<le> 65504"
    by (simp add: spec_json_def approval_spec_def sample_spec_def spec_kr_json_def dec_string_def dec_digits.simps)
  then have short: "length (stringify (spec_json approval_spec)) \<le> 65504" using stringify_bound(1) [of "spec_json approval_spec"] by simp
  let ?p = "head_pointer approval_okr \<lparr>rh_record_id = some_address (CHR ''c''), rh_revision = ''1'', rh_key_version = ''1''\<rparr>"
  have p: "pt_kind ?p = 1" "pt_logicalId ?p = spec_name ''goal''" "pt_record_id ?p = some_address (CHR ''c'')" "pt_revision ?p = ''1''" "pt_key_version ?p = ''1''"
    by (simp_all add: head_pointer_def approval_okr_def)
  have rec: "sr_id approval_spec_record = some_address (CHR ''c'')" "sr_organization_id approval_spec_record = some_address (CHR ''2'')" "sr_kind approval_spec_record = 1"
    "sr_logical_id approval_spec_record = spec_name ''goal''" "sr_revision approval_spec_record = 1" "sr_previous approval_spec_record = None"
    "sr_key_version approval_spec_record = 1" by (simp_all add: approval_spec_record_def)
  have "walk (Suc n) approval_records ?p False [] 1 approval_spec_record r = (Inr approval_spec_record, r)" for n r
    by (simp add: eff_run link_ok_def env rec p)
  from this [of 1000] have walk: "walk 1001 approval_records ?p False [] 1 approval_spec_record r = (Inr approval_spec_record, r)" for r by (simp del: walk.simps)
  show ?thesis
    using short by (simp add: readRecord_def eff_run env p id texts walk requested_record_def rec record_kinds_def decode_plaintext_def same_head_def
        del: walk.simps stringify.simps)
qed

lemma awaitH_lift: "awaitH (liftR (Inr a)) r = (Inr a, r)"
  by (simp add: awaitH_def eff_run)

lemma approval_spec_found:
  "specH approval_sample approval_plan_json review_proposal approval_okr r
   = (Inr (\<lparr>rh_record_id = some_address (CHR ''c''), rh_revision = ''1'', rh_key_version = ''1''\<rparr>, approval_plan), r)"
proof -
  have head: "awaitH (rc_getCurrent approval_records k l) r = (Inr \<lparr>rh_record_id = some_address (CHR ''c''), rh_revision = ''1'', rh_key_version = ''1''\<rparr>, r)" for k l r
    by (simp add: approval_records_def awaitH_def eff_run)
  have one: "dec_string 1 = ''1''" "dec_string 0 = ''0''" by code_simp+
  have okr: "ho_spec_record approval_okr = some_address (CHR ''c'')" "ho_spec_revision approval_okr = 1" by (simp_all add: approval_okr_def)
  have spec: "spec_of_okr approval_spec approval_okr"
    by (simp add: spec_of_okr_def approval_spec_def sample_spec_def approval_okr_def approval_values metric_of_def one sample_age)
  have read: "awaitH (readRecord approval_records (head_pointer approval_okr \<lparr>rh_record_id = some_address (CHR ''c''), rh_revision = ''1'', rh_key_version = ''1''\<rparr>) False) r
    = (Inr (stringify (spec_json approval_spec)), r)" for r
    by (simp add: awaitH_def approval_spec_read del: stringify.simps)
  have utf8: "xe_utf8 review_reader s" for s by (simp add: review_reader_def)
  show ?thesis
    by (simp add: specH_def eff_run head okr one read utf8 json_parse_stringify awaitH_lift approval_plan_valid spec del: stringify.simps)
qed

lemma approval_host_found:
  "hostH approval_sample approval_authority signed_review review_proposal r
   = (Inr (approval_hosts, approval_member, \<lparr>cd_id = some_address (CHR ''6''), cd_revoked = False, cd_rest = JNull\<rparr>, ''table''), r)"
proof -
  have found: "review_host signed_review approval_hosts = Some approval_member"
    "review_binding signed_review approval_hosts = Some \<lparr>cd_id = some_address (CHR ''6''), cd_revoked = False, cd_rest = JNull\<rparr>"
    by (simp_all add: review_host_def review_binding_def approval_hosts_def approval_member_def signed_review_def review_acceptance_def)
  have table: "ch_activeHostsTableId approval_hosts = Some ''table''" by (simp add: approval_hosts_def)
  have times: "hv_expires_at_ms review_proposal = 900000" "cb_expires_at_ms approval_member = 900000" "hu_expiresAtMs approval_authority = 900000"
    "cb_id approval_member = some_address (CHR ''5'')"
    by (simp_all add: review_proposal_def approval_member_def approval_authority_def)
  show ?thesis by (simp add: hostH_def eff_run found table times id_types_def)
qed

lemma approval_agent_found:
  "\<exists>v. agentH 1 approval_sample signed_review review_proposal approval_member review_run () = (Inr (node_agent, v), ())"
proof -
  obtain v where read: "readAgentExecutions 1 node_api (some_address (CHR ''2'')) (some_address (CHR ''a'')) () = (Inr v, ())" and v: "vc_unsettledControl v = 0"
    "vc_managed v = node_agent" "vc_revision v = 3" "vc_executions v = [\<lparr>vr_run = review_run, vr_control = False, vr_settled = True, vr_spent = 0, vr_reserved = 0\<rparr>]"
    using node_history_read by blast
  have id: "mg_id node_agent = some_address (CHR ''a'')" by (simp add: node_agent_def)
  have three: "dec_string 3 = ''3''" "dec_value ''2'' = 2" by code_simp+
  have hash: "bytesToHex (byte_text (replicate 32 204)) = replicate 64 (CHR ''c'')" by code_simp
  have fits: "managed_for review_proposal approval_member node_agent"
    using hash by (simp add: managed_for_def node_agent_def review_proposal_def approval_member_def three)
  have run: "en_id review_run = some_address (CHR ''1'')" "hx_coverage_revision signed_review = ''2''"
    by (simp_all add: review_run_def signed_review_def review_acceptance_def)
  have cover: "coverage_for approval_sample signed_review node_agent review_run v" by (simp add: coverage_for_def v run three)
  have await: "awaitH (readAgentExecutions (Suc 0) node_api (some_address (CHR ''2'')) (some_address (CHR ''a''))) () = (Inr v, ())"
    using read by (simp add: awaitH_def)
  show ?thesis by (simp add: agentH_def eff_run fits id await cover)
qed

lemma approval_okr_found: "okrH approval_sample signed_review review_proposal (ch_clockMs approval_hosts) r = (Inr approval_okr, r)"
proof -
  have texts: "dec_string 4 = ''4''" "dec_string 1 = ''1''" by code_simp+
  have "okr_for approval_sample signed_review review_proposal 2000 approval_okr"
    by (simp add: okr_for_def approval_okr_def review_proposal_def signed_review_def review_acceptance_def texts)
  moreover have "ch_clockMs approval_hosts = 2000" "hv_expires_at_ms review_proposal = 900000" by (simp_all add: approval_hosts_def review_proposal_def)
  ultimately show ?thesis by (simp add: okrH_def eff_run)
qed

lemma approval_source: "\<exists>s. sourceH 1 approval_sample approval_input () = (Inr s, ())"
proof -
  obtain review where review: "reviewH approval_sample review_signed_command () = (Inr (approval_authority, review, signed_review, review_proposal), ())" "er_run review = review_run"
    using approval_reviewed by blast
  obtain v where agent: "agentH 1 approval_sample signed_review review_proposal approval_member review_run () = (Inr (node_agent, v), ())" using approval_agent_found by blast
  have one: "positiveH ''1''" by code_simp
  have directory: "directoryH 1 approval_sample l r = (Inr (''1'', None), r)" for l r
    by (simp add: directoryH_def eff_run one)
  have parts: "hi_command approval_input = review_signed_command" "hi_plan approval_input = approval_plan_json" "ho_agreement_record approval_okr = None" "ho_state approval_okr = 0"
    by (simp_all add: approval_input_def approval_okr_def)
  show ?thesis
    by (simp add: sourceH_def eff_run Let_def parts review approval_host_found agent approval_okr_found approval_spec_found directory truthy_def budgetH_def del: One_nat_def)
qed

definition approval_pin :: handover_pin where
  "approval_pin = (case fst (sourceH 1 approval_sample approval_input ()) of Inr s \<Rightarrow> hs_pin s | Inl e \<Rightarrow> undefined)"

definition approval_memory :: handover_plan where
  "approval_memory = \<lparr>hp_input = approval_input, hp_pin = approval_pin\<rparr>"

text \<open>The guard holds in the sample, so that signing is signing; the rest of the submission evaluates.\<close>

lemma approval_guard: "guardH 1 approval_sample approval_memory = okE ()"
proof
  fix r :: unit
  obtain s where "sourceH 1 approval_sample approval_input () = (Inr s, ())" using approval_source by blast
  then show "guardH 1 approval_sample approval_memory r = okE () r"
    by (simp add: guardH_def recheckH_def approval_memory_def approval_pin_def eff_run)
qed

definition approval_prepared :: "(idb_state, unit) mworld" where
  "approval_prepared = snd (prepare 1 flow_client indexed_db_ops \<lparr>pi_requestId = ''handover-approve:'' @ some_address (CHR ''1''),
     pi_transaction = pi_transaction sample_input, pi_gasBudget = UBigInt 200000000, pi_maxSuiSpend = None\<rparr> sample_world)"

definition approval_quote :: fee_quote where
  "approval_quote = p_quote (hd (w_prepared approval_prepared))"

definition approval_ready :: "(idb_state, unit, handover_plan) flow_world" where
  "approval_ready = \<lparr>fw_manager = approval_prepared, fw_plans = [(approval_quote, approval_memory)]\<rparr>"

theorem approval_sent_as_reviewed_witness:
  "w_sent (fw_manager (snd (submitH 1 approval_sample indexed_db_ops approval_quote approval_ready))) \<noteq> []
   \<and> approval_sound 1 approval_sample (hp_input approval_memory) (hp_pin approval_memory) () ()"
proof -
  let ?run = "submitH 1 approval_sample indexed_db_ops approval_quote approval_ready"
  have asked: "query flow_client indexed_db_ops (''handover-approve:'' @ some_address (CHR ''1'')) approval_prepared = (Inr None, approval_prepared)" by code_simp
  have own: "q_requestId approval_quote = ''handover-approve:'' @ some_address (CHR ''1'')" by code_simp
  have sent: "w_sent (snd (broadcast (guarded_client flow_client (okE () :: (unit, handover_approval_error, unit) eff)) indexed_db_ops approval_quote approval_prepared)) \<noteq> []" by code_simp
  have none: "w_sent approval_prepared = []" by code_simp
  have query: "queryH approval_sample indexed_db_ops approval_ready = (Inr None, approval_ready)"
    using asked by (simp add: queryH_def eff_run outsideE_def managerE_def approval_ready_def approval_requestId_def)
  have "w_sent (fw_manager (snd ?run)) = w_sent (snd (broadcast (guarded_client flow_client (okE () :: (unit, handover_approval_error, unit) eff)) indexed_db_ops approval_quote approval_prepared))"
    using own by (simp add: submitH_def eff_run query approval_requestId_def guarded_submit_def)
      (simp add: approval_ready_def eff_run approval_guard [unfolded One_nat_def] outsideE_def managerE_def split: prod.split)
  then have sent': "w_sent (fw_manager (snd ?run)) \<noteq> []" using sent by simp
  then have grown: "w_sent (fw_manager (snd ?run)) \<noteq> w_sent (fw_manager approval_ready)" using none by (simp add: approval_ready_def)
  have run: "?run = (fst ?run, snd ?run)" by simp
  from approval_sent_as_reviewed [OF run grown] obtain plan where "map_of (fw_plans approval_ready) approval_quote = Some plan"
    "approval_sound 1 approval_sample (hp_input plan) (hp_pin plan) () ()" by (elim exE conjE) simp
  then show ?thesis using sent' by (auto simp: approval_ready_def)
qed

end
