(* ===== verification/Okr_Human_Review.thy ===== *)
theory Okr_Human_Review
  imports Handover_Approval
begin

text \<open>
  \<^verbatim>\<open>OkrHumanReview\<close> of \<^verbatim>\<open>apps/fractalmind-app/src/okr-human-review.ts\<close>: a Human verifies one key result, or accepts an objective whose key results are all
  verified, on evidence that is read back in full: the stored specification, the agreement with the Host's signed acceptance, the plan, the result
  records of the executions and, for an acceptance, the records of the earlier verifications. What the app shows is remembered with the pin of its
  sources; a decision is sealed, quoted and signed only while that pin holds. Objects that the library compares by identity (a shown view) carry a handle.
\<close>

section \<open>Data\<close>

datatype human_review_error = Hr_invalid_input | Hr_confirmation_required | Hr_invalid_source | Hr_state_changed | Hr_measurement_stale
  | Hr_unsettled_execution | Hr_invalid_quote | Hr_invalid_ciphertext | Hr_sync_pending | Hr_outside

datatype review_kind = Verify | Accept

record review_intent_of =
  ri_kind :: review_kind
  ri_okrVersion :: string
  ri_agreementVersion :: string
  ri_krIndex :: string

record human_metric =
  hk_baseline :: int
  hk_current :: "int option"
  hk_target :: int
  hk_weight :: int
  hk_max_age_ms :: int
  hk_sampled_at_ms :: int
  hk_run_id :: "string option"
  hk_evidence_id :: "string option"
  hk_verified :: bool
  hk_verification_id :: "string option"

record human_okr =
  hr_id :: string
  hr_org_id :: string
  hr_owner_human :: string
  hr_logical_id :: string
  hr_state :: int
  hr_version :: int
  hr_agreement_version :: int
  hr_next_kr :: int
  hr_metrics :: "human_metric list"
  hr_managed_agent :: "string option"
  hr_managed_version :: "int option"
  hr_membership_id :: "string option"
  hr_agreement_record :: "string option"
  hr_spec_record :: string
  hr_spec_revision :: int
  hr_boundary_hash :: "int list"
  hr_workspace_hash :: "int list"
  hr_budget_asset :: string
  hr_budget_limit :: int
  hr_expires_at_ms :: int
  hr_priority :: int
  hr_deadline_ms :: int
  hr_acceptance_record :: "string option"
  hr_accepted_by_human :: "string option"
  hr_rest :: json

record human_authority =
  hz_authorityPin :: string
  hz_encryptedKeys :: string
  hz_humanId :: string
  hz_actions :: "string list"
  hz_clockMs :: int

record human_policy =
  py_agreement_version :: int
  py_managed_version :: int
  py_max_calls :: int
  py_proposal_hash :: "int list"
  py_policy_rest :: json

text \<open>An execution of the objective with the contract it ran under and the claim on the objective's budget.\<close>

record okr_execution =
  oe_run :: execution
  oe_contract_version :: int
  oe_contract_kr :: int
  oe_contract_boundary :: "int list"
  oe_claim_version :: int
  oe_claim_kr :: int
  oe_claim_settled :: bool
  oe_claim_reserved :: int

record okr_execution_page =
  oh_executions :: "okr_execution list"
  oh_cursor :: "string option"
  oh_hasNextPage :: bool

type_synonym human_pin = "string \<times> human_okr \<times> (nat \<times> okr_execution) list \<times> found_pointer \<times> found_pointer \<times> found_pointer \<times> handover_budget \<times> human_policy"

record human_source =
  us_authority :: human_authority
  us_okr :: human_okr
  us_selected :: "(nat \<times> okr_execution) list"
  us_specHead :: found_pointer
  us_verificationHead :: found_pointer
  us_policy :: human_policy
  us_pin :: human_pin

record reviewed_file =
  uf_goal :: file_goal
  uf_expectedHash :: string
  uf_observedHash :: string

record prior_verification =
  pz_recordId :: string
  pz_executionAgreementVersion :: int
  pz_reviewedAgreementVersion :: string
  pz_reason :: string
  pz_writerHuman :: string
  pz_writerDevice :: string

record review_evidence =
  ue_krIndex :: nat
  ue_metric :: human_metric
  ue_result :: execution_result
  ue_files :: "reviewed_file list"
  ue_prior :: "prior_verification option"

record human_view =
  uv_handle :: nat
  uv_okr :: human_okr
  uv_spec :: okr_spec
  uv_evidence :: "review_evidence list"

record verify_request =
  vq_expectedVersion :: string
  vq_keyVersion :: int
  vq_encryptedBody :: string
  vq_krIndex :: string
  vq_expectedRecordRevision :: string

record 'r human_env =
  hn_client :: "'r client_env"
  hn_organizationId :: string
  hn_grantId :: string
  hn_okrId :: string
  hn_device :: string
  hn_humanId :: string
  hn_intent :: review_intent_of
  hn_results :: "'r results_reader"
  hn_records :: "'r records_env"
  hn_visibility :: "'r visibility_env"
  hn_objectType :: "tx_result \<Rightarrow> string \<Rightarrow> string option"
  hn_assertActive :: "('r, unit, unit) eff"
  hn_checkNetwork :: "('r, unit, unit) eff"
  hn_verifyOrganization :: "('r, unit, human_authority) eff"
  hn_getOkr :: "string \<Rightarrow> ('r, unit, human_okr) eff"
  hn_getBudget :: "string \<Rightarrow> ('r, unit, handover_budget) eff"
  hn_getPolicy :: "string \<Rightarrow> ('r, unit, human_policy) eff"
  hn_listExecutions :: "string \<Rightarrow> string option \<Rightarrow> ('r, unit, okr_execution_page) eff"
  hn_getRecord :: "string \<Rightarrow> ('r, unit, result_record) eff"
  hn_provenance :: "string \<Rightarrow> ('r, unit, string option) eff"
  hn_coreType :: "string \<Rightarrow> string \<Rightarrow> ('r, unit, string) eff"
  hn_encrypt :: "string \<Rightarrow> string \<Rightarrow> string \<Rightarrow> int \<Rightarrow> string \<Rightarrow> ('r, unit, string option) eff"
  hn_verifyKr :: "verify_request \<Rightarrow> tx_data option"
  hn_achieve :: "verify_request \<Rightarrow> tx_data option"

type_synonym ('r, 'a) reviewing = "('r, human_review_error, 'a) eff"

definition awaitU :: "('r, 'e, 'a) eff \<Rightarrow> ('r, 'a) reviewing" where
  "awaitU m = (\<lambda>r. case m r of (Inl _, r') \<Rightarrow> (Inl Hr_outside, r') | (Inr a, r') \<Rightarrow> (Inr a, r'))"

section \<open>The decision\<close>

definition new_review_ok :: "string \<Rightarrow> string \<Rightarrow> string \<Rightarrow> review_intent_of \<Rightarrow> (human_review_error, unit) result" where
  "new_review_ok grantId organizationId okrId i =
     assertR (list_all is_object_id [grantId, organizationId, okrId] \<and> positiveH (ri_okrVersion i) \<and> positiveH (ri_agreementVersion i)
              \<and> ri_krIndex i \<in> {''0'', ''1'', ''2'', ''3''}) Hr_invalid_input"

definition kind_text :: "review_kind \<Rightarrow> string" where
  "kind_text k = (case k of Verify \<Rightarrow> ''verify'' | Accept \<Rightarrow> ''accept'')"

definition review_requestId :: "'r human_env \<Rightarrow> string" where
  "review_requestId E = ''okr-human:'' @ hn_okrId E @ '':'' @ ri_agreementVersion (hn_intent E) @ '':'' @ ri_okrVersion (hn_intent E) @ '':''
     @ kind_text (ri_kind (hn_intent E)) @ '':'' @ ri_krIndex (hn_intent E)"

definition humanReviewIntent :: "human_okr \<Rightarrow> review_intent_of" where
  "humanReviewIntent k = \<lparr>ri_kind = (if hr_next_kr k < int (length (hr_metrics k)) then Verify else Accept), ri_okrVersion = dec_string (hr_version k),
     ri_agreementVersion = dec_string (hr_agreement_version k), ri_krIndex = dec_string (hr_next_kr k)\<rparr>"

definition reviewableEvidenceAgreement :: "int \<Rightarrow> int \<Rightarrow> int list \<Rightarrow> int list \<Rightarrow> bool" where
  "reviewableEvidenceAgreement executionVersion currentVersion originalBoundary currentBoundary \<longleftrightarrow>
     positiveH (dec_string executionVersion) \<and> positiveH (dec_string currentVersion) \<and> executionVersion \<le> currentVersion
     \<and> length originalBoundary = 32 \<and> length currentBoundary = 32 \<and> (executionVersion \<noteq> currentVersion \<or> originalBoundary = currentBoundary)"

section \<open>The source\<close>

definition okr_under_review :: "'r human_env \<Rightarrow> human_authority \<Rightarrow> human_okr \<Rightarrow> bool" where
  "okr_under_review E u k \<longleftrightarrow> hr_org_id k = hn_organizationId E \<and> hr_owner_human k = hz_humanId u \<and> hr_state k = 1
     \<and> dec_string (hr_version k) = ri_okrVersion (hn_intent E) \<and> dec_string (hr_agreement_version k) = ri_agreementVersion (hn_intent E)
     \<and> dec_string (hr_next_kr k) = ri_krIndex (hn_intent E) \<and> truthy (hr_managed_agent k) \<and> truthy (hr_agreement_record k)"

definition indices_of :: "'r human_env \<Rightarrow> human_okr \<Rightarrow> (human_review_error, nat list) result" where
  "indices_of E k =
    (let index = nat (hr_next_kr k) in
     case ri_kind (hn_intent E) of
       Accept \<Rightarrow> if index \<noteq> length (hr_metrics k) then Inl Hr_invalid_source else Inr [0..<length (hr_metrics k)]
     | Verify \<Rightarrow> if length (hr_metrics k) \<le> index then Inl Hr_invalid_source else Inr [index])"

definition metric_measured :: "review_kind \<Rightarrow> human_metric \<Rightarrow> bool" where
  "metric_measured kind m \<longleftrightarrow> hk_current m \<noteq> None \<and> truthy (hk_run_id m) \<and> truthy (hk_evidence_id m)
     \<and> (case kind of Accept \<Rightarrow> hk_verified m \<and> truthy (hk_verification_id m) | Verify \<Rightarrow> \<not> hk_verified m \<and> \<not> truthy (hk_verification_id m))"

definition metric_fresh :: "int \<Rightarrow> human_metric \<Rightarrow> bool" where
  "metric_fresh clock m \<longleftrightarrow> hk_sampled_at_ms m \<le> clock \<and> clock - hk_sampled_at_ms m \<le> hk_max_age_ms m"

definition metric_reached :: "human_metric \<Rightarrow> bool" where
  "metric_reached m \<longleftrightarrow> (case hk_current m of None \<Rightarrow> False
     | Some x \<Rightarrow> if hk_baseline m < hk_target m then hk_target m \<le> x else x \<le> hk_target m)"

fun check_metrics :: "review_kind \<Rightarrow> int \<Rightarrow> human_metric list \<Rightarrow> (human_review_error, unit) result" where
  "check_metrics kind clock [] = Inr ()"
| "check_metrics kind clock (m # ms) =
     bindR (assertR (metric_measured kind m) Hr_invalid_source) (\<lambda>_.
     bindR (assertR (metric_fresh clock m) Hr_measurement_stale) (\<lambda>_.
     bindR (assertR (metric_reached m) Hr_invalid_source) (\<lambda>_.
     check_metrics kind clock ms)))"

definition verification_name :: "string \<Rightarrow> string" where
  "verification_name logicalId = ''okr-'' @ logicalId @ ''-verification''"

definition acceptance_name :: "string \<Rightarrow> string" where
  "acceptance_name logicalId = ''okr-'' @ logicalId @ ''-acceptance''"

definition heads_fit :: "human_okr \<Rightarrow> found_pointer \<Rightarrow> found_pointer \<Rightarrow> found_pointer \<Rightarrow> bool" where
  "heads_fit k spec verification acceptance \<longleftrightarrow>
     (case fp_pointer spec of None \<Rightarrow> False | Some (i, revision, version) \<Rightarrow> i = hr_spec_record k \<and> revision = hr_spec_revision k)
     \<and> fp_keyVersion verification = fp_keyVersion spec \<and> fp_keyVersion acceptance = fp_keyVersion spec \<and> fp_pointer acceptance = None"

text \<open>At most 1000 executions of the objective; the fuel counts the pages.\<close>

fun executionsU :: "nat \<Rightarrow> 'r human_env \<Rightarrow> string \<Rightarrow> string option \<Rightarrow> string list \<Rightarrow> okr_execution list \<Rightarrow> ('r, okr_execution list) reviewing" where
  "executionsU 0 E okrId cursor seen known = throwE Hr_outside"
| "executionsU (Suc n) E okrId cursor seen known =
     bindE (awaitU (hn_listExecutions E okrId cursor)) (\<lambda>page.
     let rows = known @ oh_executions page in
     bindE (assertE (length rows \<le> 1000 \<and> (oh_hasNextPage page \<longrightarrow> truthy (oh_cursor page) \<and> the (oh_cursor page) \<notin> set seen)) Hr_invalid_source) (\<lambda>_.
     if oh_hasNextPage page then executionsU n E okrId (oh_cursor page) (the (oh_cursor page) # seen) rows else okE rows))"

text \<open>An unsettled control execution is tolerated only as a queued assignment of a later key result, and only while verifying.\<close>

definition deferred :: "review_kind \<Rightarrow> human_okr \<Rightarrow> okr_execution \<Rightarrow> bool" where
  "deferred kind k e \<longleftrightarrow> kind = Verify \<and> en_state (oe_run e) = 0 \<and> \<not> en_stop_requested (oe_run e) \<and> en_action (oe_run e) = ''assign''
     \<and> en_managed_agent (oe_run e) = hr_managed_agent k \<and> Some (en_membership_id (oe_run e)) = hr_membership_id k
     \<and> oe_contract_version e = hr_agreement_version k \<and> oe_claim_version e = hr_agreement_version k \<and> oe_contract_kr e = oe_claim_kr e
     \<and> hr_next_kr k < oe_contract_kr e \<and> oe_contract_kr e < int (length (hr_metrics k)) \<and> oe_contract_boundary e = hr_boundary_hash k"

definition open_control :: "okr_execution \<Rightarrow> bool" where
  "open_control e \<longleftrightarrow> en_scope (oe_run e) = ''control'' \<and> \<not> oe_claim_settled e"

definition settled_for :: "review_kind \<Rightarrow> human_okr \<Rightarrow> handover_budget \<Rightarrow> okr_execution list \<Rightarrow> bool" where
  "settled_for kind k budget rows \<longleftrightarrow> list_all (deferred kind k) (filter open_control rows)
     \<and> sum_list (map oe_claim_reserved (filter open_control rows)) = hb_reserved budget"

definition evidence_run :: "human_okr \<Rightarrow> nat \<Rightarrow> human_metric \<Rightarrow> okr_execution \<Rightarrow> bool" where
  "evidence_run k i m e \<longleftrightarrow> en_state (oe_run e) = 2 \<and> en_result_record (oe_run e) = hk_evidence_id m \<and> en_managed_agent (oe_run e) = hr_managed_agent k
     \<and> Some (en_membership_id (oe_run e)) = hr_membership_id k \<and> en_scope (oe_run e) = ''control'' \<and> en_action (oe_run e) = ''assign'' \<and> oe_claim_settled e
     \<and> reviewableEvidenceAgreement (oe_contract_version e) (hr_agreement_version k) (oe_contract_boundary e) (hr_boundary_hash k)
     \<and> oe_contract_kr e = int i \<and> oe_claim_version e = oe_contract_version e"

definition selectU :: "human_okr \<Rightarrow> okr_execution list \<Rightarrow> nat \<Rightarrow> (human_review_error, nat \<times> okr_execution) result" where
  "selectU k rows i =
    (let m = hr_metrics k ! i in
     case filter (\<lambda>e. Some (en_id (oe_run e)) = hk_run_id m) rows of
       [e] \<Rightarrow> if evidence_run k i m e then Inr (i, e) else Inl Hr_invalid_source
     | _ \<Rightarrow> Inl Hr_invalid_source)"

definition sourceU :: "nat \<Rightarrow> 'r human_env \<Rightarrow> ('r, human_source) reviewing" where
  "sourceU fuel E =
     bindE (awaitU (hn_assertActive E)) (\<lambda>_.
     bindE (awaitU (hn_verifyOrganization E)) (\<lambda>u.
     bindE (assertE (''read'' \<in> set (hz_actions u) \<and> hz_encryptedKeys u \<noteq> []) Hr_invalid_source) (\<lambda>_.
     bindE (awaitU (hn_getOkr E (hn_okrId E))) (\<lambda>k.
     bindE (assertE (okr_under_review E u k) Hr_state_changed) (\<lambda>_.
     bindE (liftR (indices_of E k)) (\<lambda>indices.
     bindE (liftR (check_metrics (ri_kind (hn_intent E)) (hz_clockMs u) (map (\<lambda>i. hr_metrics k ! i) indices))) (\<lambda>_.
     bindE (awaitU (readRecordPointer (hn_records E) 1 (spec_name (hr_logical_id k)))) (\<lambda>specHead.
     bindE (awaitU (readRecordPointer (hn_records E) 4 (verification_name (hr_logical_id k)))) (\<lambda>verificationHead.
     bindE (awaitU (readRecordPointer (hn_records E) 4 (acceptance_name (hr_logical_id k)))) (\<lambda>acceptanceHead.
     bindE (awaitU (hn_getBudget E (hr_id k))) (\<lambda>budget.
     bindE (awaitU (hn_getPolicy E (hr_id k))) (\<lambda>policy.
     bindE (assertE (heads_fit k specHead verificationHead acceptanceHead) Hr_state_changed) (\<lambda>_.
     bindE (assertE (ri_kind (hn_intent E) = Accept \<longrightarrow> hb_reserved budget = 0) Hr_unsettled_execution) (\<lambda>_.
     bindE (assertE (py_agreement_version policy = hr_agreement_version k \<and> Some (py_managed_version policy) = hr_managed_version k) Hr_state_changed) (\<lambda>_.
     bindE (executionsU fuel E (hr_id k) None [] []) (\<lambda>rows.
     bindE (assertE (settled_for (ri_kind (hn_intent E)) k budget rows) Hr_unsettled_execution) (\<lambda>_.
     bindE (liftR (mapR (selectU k rows) indices)) (\<lambda>selected.
     bindE (awaitU (hn_getOkr E (hr_id k))) (\<lambda>again.
     bindE (assertE (again = k) Hr_state_changed) (\<lambda>_.
     bindE (awaitU (hn_assertActive E)) (\<lambda>_.
     okE \<lparr>us_authority = u, us_okr = k, us_selected = selected, us_specHead = specHead, us_verificationHead = verificationHead, us_policy = policy,
          us_pin = (hz_authorityPin u, k, selected, specHead, verificationHead, acceptanceHead, budget, policy)\<rparr>)))))))))))))))))))))"

definition recheckU :: "nat \<Rightarrow> 'r human_env \<Rightarrow> human_pin \<Rightarrow> ('r, unit) reviewing" where
  "recheckU fuel E pin = bindE (sourceU fuel E) (\<lambda>s. assertE (us_pin s = pin) Hr_state_changed)"

section \<open>Reading the evidence\<close>

definition pointer_to :: "int \<Rightarrow> string \<Rightarrow> result_record \<Rightarrow> record_pointer" where
  "pointer_to kind logicalId d = \<lparr>pt_kind = kind, pt_logicalId = logicalId, pt_record_id = rd_id d, pt_revision = dec_string (rd_revision d), pt_key_version = dec_string (rd_key_version d)\<rparr>"

definition jsonRecord :: "'r human_env \<Rightarrow> string \<Rightarrow> int \<Rightarrow> string \<Rightarrow> bool \<Rightarrow> ('r, result_record \<times> json) reviewing" where
  "jsonRecord E recordId kind logicalId historical =
     bindE (awaitU (hn_getRecord E recordId)) (\<lambda>d.
     bindE (assertE (rd_organization_id d = hn_organizationId E \<and> rd_kind d = kind \<and> rd_logical_id d = logicalId) Hr_invalid_source) (\<lambda>_.
     bindE (awaitU (readRecord (hn_records E) (pointer_to kind logicalId d) historical)) (\<lambda>plaintext.
     bindE (assertE (xe_utf8 (hn_results E) plaintext) Hr_outside) (\<lambda>_.
     case json_parse plaintext of
       None \<Rightarrow> throwE Hr_outside
     | Some v \<Rightarrow> bindE (assertE (the_object v \<noteq> None) Hr_invalid_source) (\<lambda>_. okE (d, v))))))"

definition hex_hash :: "int list \<Rightarrow> string" where
  "hex_hash bs = bytesToHex (byte_text bs)"

definition agreement_of_okr :: "human_okr \<Rightarrow> result_record \<Rightarrow> json \<Rightarrow> bool" where
  "agreement_of_okr k d v \<longleftrightarrow> field v ''format'' = Some (JNumber 1) \<and> sfield v ''specRecordId'' = Some (hr_spec_record k) \<and> rd_writer_human d = hr_owner_human k"

text \<open>The Host's acceptance in the agreement is for this objective, Agent, specification, workspace, budget and policy.\<close>

definition acceptance_of_okr :: "'r human_env \<Rightarrow> human_okr \<Rightarrow> human_policy \<Rightarrow> handover_acceptance \<Rightarrow> bool" where
  "acceptance_of_okr E k y x \<longleftrightarrow>
     (let p = hx_proposal x in
      hx_organization_id x = hn_organizationId E \<and> hx_human_id x = hr_owner_human k \<and> Some (hx_membership_id x) = hr_membership_id k
      \<and> hv_okr_id p = hr_id k \<and> Some (hv_managed_agent_id p) = hr_managed_agent k \<and> hv_spec_revision p = dec_string (hr_spec_revision k)
      \<and> hv_workspace_hash p = hex_hash (hr_workspace_hash k) \<and> hv_budget_asset p = hr_budget_asset k \<and> hv_budget_limit p = dec_string (hr_budget_limit k)
      \<and> hv_expires_at_ms p = hr_expires_at_ms k \<and> hv_max_calls p = dec_string (py_max_calls y))"

definition spec_metric :: "spec_kr \<Rightarrow> human_metric \<Rightarrow> bool" where
  "spec_metric s m \<longleftrightarrow> sk_baseline s = dec_string (hk_baseline m) \<and> sk_target s = dec_string (hk_target m) \<and> sk_weight s = dec_string (hk_weight m)
     \<and> sk_maxAgeMs s = dec_string (hk_max_age_ms m)"

definition spec_under_review :: "okr_spec \<Rightarrow> human_okr \<Rightarrow> bool" where
  "spec_under_review s k \<longleftrightarrow> int (sp_priority s) = hr_priority k \<and> sp_deadlineMs s = dec_string (hr_deadline_ms k) \<and> length (sp_krs s) = length (hr_metrics k)
     \<and> list_all (\<lambda>(r, m). spec_metric r m) (zip (sp_krs s) (hr_metrics k))"

text \<open>The specification and the plan of the current agreement.\<close>

definition agreementU :: "'r human_env \<Rightarrow> human_source \<Rightarrow> ('r, okr_spec \<times> okr_plan) reviewing" where
  "agreementU E s =
    (let k = us_okr s; H = xe_hash (hn_results E) in
     bindE (jsonRecord E (hr_spec_record k) 1 (spec_name (hr_logical_id k)) False) (\<lambda>(_, raw).
     bindE (case parseOkrSpecification H raw of None \<Rightarrow> throwE Hr_outside | Some spec \<Rightarrow> okE spec) (\<lambda>spec.
     bindE (jsonRecord E (the (hr_agreement_record k)) 2 (agreement_name (hr_logical_id k)) False) (\<lambda>(d, v).
     bindE (assertE (agreement_of_okr k d v) Hr_invalid_source) (\<lambda>_.
     case Option.bind (field v ''hostAcceptance'') acceptance_of of
       None \<Rightarrow> throwE Hr_invalid_source
     | Some x \<Rightarrow>
         bindE (assertE (acceptance_of_okr E k (us_policy s) x) Hr_invalid_source) (\<lambda>_.
         bindE (awaitU (liftR (handoverProposalHash H (xe_bcs (hn_results E)) (hx_proposal x)))) (\<lambda>h.
         bindE (assertE (bytesToHex h = hex_hash (py_proposal_hash (us_policy s))) Hr_invalid_source) (\<lambda>_.
         bindE (awaitU (liftR (verifyHandoverAcceptanceSignature H (xe_keys (hn_results E)) (xe_bcs (hn_results E)) x (hx_host_address x)))) (\<lambda>_.
         case field v ''nativeFilePlan'' of
           None \<Rightarrow> throwE Hr_outside
         | Some rawPlan \<Rightarrow>
             bindE (awaitU (liftR (validateHandoverPlan H raw rawPlan (plan_terms (hx_proposal x))))) (\<lambda>(_, plan).
             bindE (assertE (map_option bytesToHex (executionBoundaryHash H (paths_json plan)) = Some (hex_hash (hr_boundary_hash k)) \<and> spec_under_review spec k) Hr_invalid_source) (\<lambda>_.
             okE (spec, plan))))))))))))"

definition text_hash :: "hash_env \<Rightarrow> string \<Rightarrow> string" where
  "text_hash H content = bytesToHex (sha256 H content)"

text \<open>A file of the plan against the evidence that the result lists for it.\<close>

definition file_evidence :: "hash_env \<Rightarrow> json list \<Rightarrow> file_goal \<Rightarrow> (human_review_error, reviewed_file) result" where
  "file_evidence H rows f =
    (let expected = text_hash H (fg_content f) in
     bindR (assertR (JNull \<notin> set rows) Hr_outside) (\<lambda>_.
     case filter (\<lambda>v. field v ''path'' = Some (JString (fg_path f))) rows of
       [v] \<Rightarrow> if field v ''verified'' = Some (JBool True) \<and> field v ''expected_hash'' = Some (JString expected) \<and> field v ''observed_hash'' = Some (JString expected)
              then Inr \<lparr>uf_goal = f, uf_expectedHash = expected, uf_observedHash = expected\<rparr> else Inl Hr_invalid_source
     | _ \<Rightarrow> Inl Hr_invalid_source))"

definition object_or :: "json option \<Rightarrow> (human_review_error, json) result" where
  "object_or v = (case v of Some (JObject ms) \<Rightarrow> Inr (JObject ms) | _ \<Rightarrow> Inl Hr_invalid_source)"

definition result_files :: "hash_env \<Rightarrow> kr_plan \<Rightarrow> human_metric \<Rightarrow> execution_result \<Rightarrow> (human_review_error, reviewed_file list) result" where
  "result_files H kr m res =
     bindR (object_or (er_response res)) (\<lambda>response.
     bindR (object_or (field response ''result'')) (\<lambda>body.
     case field body ''evidence'' of
       Some (JArray rows) \<Rightarrow>
         bindR (assertR (js_true (field response ''ok'') \<and> field body ''status'' = Some (JString ''submitted'') \<and> length rows = length (kp_files kr)
                  \<and> er_recordId res = hk_evidence_id m) Hr_invalid_source) (\<lambda>_.
         mapR (file_evidence H rows) (kp_files kr))
     | _ \<Rightarrow> Inl Hr_invalid_source))"

definition evidence_row_ok :: "json \<Rightarrow> nat \<times> okr_execution \<Rightarrow> human_metric \<Rightarrow> execution_result \<Rightarrow> json \<Rightarrow> bool" where
  "evidence_row_ok v sel m res row \<longleftrightarrow>
     field row ''krIndex'' = Some (JString (dec_string (int (fst sel))))
     \<and> (case field row ''executionAgreementVersion'' of None \<Rightarrow> field v ''agreementVersion'' | Some JNull \<Rightarrow> field v ''agreementVersion'' | Some x \<Rightarrow> Some x)
         = Some (JString (dec_string (oe_contract_version (snd sel))))
     \<and> field row ''runId'' = Some (JString (en_id (er_run res))) \<and> field row ''resultRecordId'' = Some (jopt JString (er_recordId res))
     \<and> field row ''resultCreationDigest'' = Some (jopt JString (er_transactionDigest res))
     \<and> field row ''current'' = Some (jopt (\<lambda>x. JString (dec_string x)) (hk_current m)) \<and> field row ''sampledAtMs'' = Some (JString (dec_string (hk_sampled_at_ms m)))"

text \<open>The record of an earlier verification of the key result.\<close>

definition verification_ok :: "'r human_env \<Rightarrow> human_okr \<Rightarrow> nat \<times> okr_execution \<Rightarrow> human_metric \<Rightarrow> execution_result \<Rightarrow> result_record \<Rightarrow> json \<Rightarrow> bool" where
  "verification_ok E k sel m res d v \<longleftrightarrow>
     field v ''schema'' = Some (JString ''fractalmind.okr-human-review.v1'') \<and> field v ''kind'' = Some (JString ''verify'')
     \<and> field v ''organizationId'' = Some (JString (hn_organizationId E)) \<and> field v ''okrId'' = Some (JString (hr_id k))
     \<and> (case sfield v ''agreementVersion'' of None \<Rightarrow> False
        | Some a \<Rightarrow> positiveH a \<and> dec_value a \<le> hr_agreement_version k \<and> oe_contract_version (snd sel) \<le> dec_value a)
     \<and> field v ''specRecordId'' = Some (JString (hr_spec_record k)) \<and> field v ''krIndex'' = Some (JString (dec_string (int (fst sel))))
     \<and> field v ''reviewerHuman'' = Some (JString (rd_writer_human d)) \<and> rd_writer_human d = hr_owner_human k
     \<and> field v ''reviewerGrant'' = Some (JString (rd_grant_id d)) \<and> field v ''reviewed'' = Some (JBool True)
     \<and> (case sfield v ''reason'' of None \<Rightarrow> False | Some reason \<Rightarrow> trim reason \<noteq> [] \<and> length reason \<le> 4096)
     \<and> (case field v ''evidence'' of Some (JArray [row]) \<Rightarrow> evidence_row_ok v sel m res row | _ \<Rightarrow> False)"

definition priorU :: "'r human_env \<Rightarrow> human_okr \<Rightarrow> nat \<times> okr_execution \<Rightarrow> human_metric \<Rightarrow> execution_result \<Rightarrow> ('r, prior_verification option) reviewing" where
  "priorU E k sel m res =
    (case ri_kind (hn_intent E) of
       Verify \<Rightarrow> okE None
     | Accept \<Rightarrow>
         bindE (jsonRecord E (the (hk_verification_id m)) 4 (verification_name (hr_logical_id k)) True) (\<lambda>(d, v).
         bindE (assertE (verification_ok E k sel m res d v) Hr_invalid_source) (\<lambda>_.
         okE (Some \<lparr>pz_recordId = rd_id d, pz_executionAgreementVersion = oe_contract_version (snd sel), pz_reviewedAgreementVersion = the (sfield v ''agreementVersion''),
                pz_reason = the (sfield v ''reason''), pz_writerHuman = rd_writer_human d, pz_writerDevice = rd_writer_device d\<rparr>))))"

definition evidenceU :: "'r human_env \<Rightarrow> human_okr \<Rightarrow> okr_plan \<Rightarrow> nat \<times> okr_execution \<Rightarrow> ('r, review_evidence) reviewing" where
  "evidenceU E k plan sel =
     bindE (awaitU (readX (hn_results E) (en_id (oe_run (snd sel))) (hr_managed_agent k))) (\<lambda>res.
     bindE (assertE (fst sel < length (op_krs plan)) Hr_outside) (\<lambda>_.
     let m = hr_metrics k ! fst sel in
     bindE (liftR (result_files (xe_hash (hn_results E)) (op_krs plan ! fst sel) m res)) (\<lambda>files.
     bindE (priorU E k sel m res) (\<lambda>prior.
     okE \<lparr>ue_krIndex = fst sel, ue_metric = m, ue_result = res, ue_files = files, ue_prior = prior\<rparr>))))"

fun evidencesU :: "'r human_env \<Rightarrow> human_okr \<Rightarrow> okr_plan \<Rightarrow> (nat \<times> okr_execution) list \<Rightarrow> ('r, review_evidence list) reviewing" where
  "evidencesU E k plan [] = okE []"
| "evidencesU E k plan (sel # sels) =
     bindE (evidenceU E k plan sel) (\<lambda>e. bindE (evidencesU E k plan sels) (\<lambda>es. okE (e # es)))"

text \<open>The handle is the identity of the view that is made; the pin is remembered for it.\<close>

definition readView :: "nat \<Rightarrow> 'r human_env \<Rightarrow> nat \<Rightarrow> ('r, human_view \<times> human_pin) reviewing" where
  "readView fuel E handle =
     bindE (sourceU fuel E) (\<lambda>before.
     bindE (agreementU E before) (\<lambda>(spec, plan).
     bindE (evidencesU E (us_okr before) plan (us_selected before)) (\<lambda>evidence.
     bindE (recheckU fuel E (us_pin before)) (\<lambda>_.
     okE (\<lparr>uv_handle = handle, uv_okr = us_okr before, uv_spec = spec, uv_evidence = evidence\<rparr>, us_pin before)))))"

section \<open>Deciding\<close>

type_synonym ('s, 'r, 'a) human_flow = "('s, 'r, human_pin, human_review_error, 'a) flow"

definition queryU :: "'r human_env \<Rightarrow> ('s, 'x) journal_ops \<Rightarrow> ('s, 'r, tx_outcome option) human_flow" where
  "queryU E J = bindE (outsideE (awaitU (hn_checkNetwork E))) (\<lambda>_. managerE (query (hn_client E) J (review_requestId E)))"

definition evidence_json :: "human_source \<Rightarrow> review_evidence \<Rightarrow> json" where
  "evidence_json s e = JObject ([(''krIndex'', JString (dec_string (int (ue_krIndex e)))), (''runId'', JString (en_id (er_run (ue_result e)))),
     (''resultRecordId'', jopt JString (er_recordId (ue_result e))), (''resultCreationDigest'', jopt JString (er_transactionDigest (ue_result e))),
     (''current'', jopt (\<lambda>x. JString (dec_string x)) (hk_current (ue_metric e))), (''sampledAtMs'', JString (dec_string (hk_sampled_at_ms (ue_metric e)))),
     (''executionAgreementVersion'', jopt (\<lambda>x. JString (dec_string (oe_contract_version x))) (map_of (us_selected s) (ue_krIndex e)))]
     @ (case ue_prior e of None \<Rightarrow> [] | Some z \<Rightarrow> [(''verificationId'', JString (pz_recordId z))]))"

definition decision_text :: "'r human_env \<Rightarrow> human_source \<Rightarrow> human_view \<Rightarrow> string \<Rightarrow> string" where
  "decision_text E s vw reason = stringify (JObject [(''schema'', JString ''fractalmind.okr-human-review.v1''), (''kind'', JString (kind_text (ri_kind (hn_intent E)))),
     (''organizationId'', JString (hn_organizationId E)), (''okrId'', JString (hn_okrId E)), (''okrVersion'', JString (ri_okrVersion (hn_intent E))),
     (''agreementVersion'', JString (ri_agreementVersion (hn_intent E))), (''specRecordId'', JString (hr_spec_record (us_okr s))),
     (''krIndex'', JString (ri_krIndex (hn_intent E))), (''reviewerHuman'', JString (hz_humanId (us_authority s))), (''reviewerGrant'', JString (hn_grantId E)),
     (''reviewed'', JBool True), (''reason'', JString reason), (''evidence'', JArray (map (evidence_json s) (uv_evidence vw)))])"

definition decision_name :: "'r human_env \<Rightarrow> human_okr \<Rightarrow> string" where
  "decision_name E k = (case ri_kind (hn_intent E) of Verify \<Rightarrow> verification_name (hr_logical_id k) | Accept \<Rightarrow> acceptance_name (hr_logical_id k))"

definition decision_revision :: "'r human_env \<Rightarrow> human_source \<Rightarrow> string" where
  "decision_revision E s = (case (ri_kind (hn_intent E), fp_pointer (us_verificationHead s)) of
     (Verify, Some (_, revision, _)) \<Rightarrow> dec_string revision | _ \<Rightarrow> ''0'')"

definition sealU :: "'r human_env \<Rightarrow> human_source \<Rightarrow> human_view \<Rightarrow> string \<Rightarrow> ('r, string) reviewing" where
  "sealU E s vw reason =
     bindE (awaitU (hn_encrypt E (hz_encryptedKeys (us_authority s)) (decision_name E (us_okr s)) (dec_string (dec_value (decision_revision E s) + 1))
        (fp_keyVersion (us_specHead s)) (decision_text E s vw reason))) (\<lambda>encrypted.
     case sealed_text (xe_fromBase64 (hn_results E)) (xe_toBase64 (hn_results E)) encrypted of
       None \<Rightarrow> throwE Hr_invalid_ciphertext
     | Some body \<Rightarrow> okE body)"

definition decision_request :: "'r human_env \<Rightarrow> human_source \<Rightarrow> string \<Rightarrow> verify_request" where
  "decision_request E s body = \<lparr>vq_expectedVersion = ri_okrVersion (hn_intent E), vq_keyVersion = fp_keyVersion (us_specHead s), vq_encryptedBody = body,
     vq_krIndex = ri_krIndex (hn_intent E), vq_expectedRecordRevision = decision_revision E s\<rparr>"

definition decision_call :: "'r human_env \<Rightarrow> verify_request \<Rightarrow> tx_data option" where
  "decision_call E i = (case ri_kind (hn_intent E) of Verify \<Rightarrow> hn_verifyKr E i | Accept \<Rightarrow> hn_achieve E i)"

definition prepareU :: "nat \<Rightarrow> nat \<Rightarrow> 'r human_env \<Rightarrow> ('s, 'x) journal_ops \<Rightarrow> (human_view \<times> human_pin) list \<Rightarrow> human_view \<Rightarrow> bool \<Rightarrow> string
    \<Rightarrow> ('s, 'r, fee_quote + tx_outcome) human_flow" where
  "prepareU pages fuel E J views vw reviewed rawReason =
     bindE (queryU E J) (\<lambda>prior.
     case prior of
       Some c \<Rightarrow> okE (Inr c)
     | None \<Rightarrow>
         bindE (assertE reviewed (Flow Hr_confirmation_required)) (\<lambda>_.
         let reason = trim rawReason in
         bindE (assertE (reason \<noteq> [] \<and> length reason \<le> 4096 \<and> map_of views vw \<noteq> None) (Flow Hr_invalid_input)) (\<lambda>_.
         bindE (outsideE (sourceU fuel E)) (\<lambda>before.
         bindE (assertE (map_of views vw = Some (us_pin before)) (Flow Hr_state_changed)) (\<lambda>_.
         bindE (outsideE (sealU E before vw reason)) (\<lambda>body.
         bindE (outsideE (recheckU fuel E (us_pin before))) (\<lambda>_.
         case decision_call E (decision_request E before body) of
           None \<Rightarrow> throwE (Flow Hr_outside)
         | Some tx \<Rightarrow>
             bindE (managerE (prepare pages (hn_client E) J \<lparr>pi_requestId = review_requestId E, pi_transaction = tx,
                      pi_gasBudget = UBigInt 200000000, pi_maxSuiSpend = None\<rparr>)) (\<lambda>quote.
             bindE (outsideE (recheckU fuel E (us_pin before))) (\<lambda>_.
             bindE (remember quote (us_pin before)) (\<lambda>_.
             okE (Inl quote)))))))))))"

definition submitU :: "nat \<Rightarrow> 'r human_env \<Rightarrow> ('s, 'x) journal_ops \<Rightarrow> fee_quote \<Rightarrow> ('s, 'r, tx_outcome) human_flow" where
  "submitU fuel E J = resumed_submit (hn_client E) J (recheckU fuel E) Hr_invalid_quote (queryU E J)"

section \<open>Confirming\<close>

definition decision_recorded :: "'r human_env \<Rightarrow> human_okr \<Rightarrow> result_record \<Rightarrow> bool" where
  "decision_recorded E k d \<longleftrightarrow> rd_organization_id d = hn_organizationId E \<and> rd_kind d = 4 \<and> rd_writer_human d = hn_humanId E \<and> rd_writer_device d = hn_device E
     \<and> rd_grant_id d = hn_grantId E \<and> rd_logical_id d = decision_name E k
     \<and> (case ri_kind (hn_intent E) of
          Verify \<Rightarrow> (let i = nat (dec_value (ri_krIndex (hn_intent E))) in
            i < length (hr_metrics k) \<and> hk_verification_id (hr_metrics k ! i) = Some (rd_id d) \<and> hk_verified (hr_metrics k ! i))
        | Accept \<Rightarrow> hr_state k = 3 \<and> hr_acceptance_record k = Some (rd_id d) \<and> hr_accepted_by_human k = Some (hn_humanId E))"

definition confirmedU :: "'r human_env \<Rightarrow> tx_outcome \<Rightarrow> ('r, result_record \<times> human_okr) reviewing" where
  "confirmedU E result =
    (case oc_transaction result of
       None \<Rightarrow> throwE Hr_invalid_source
     | Some tx \<Rightarrow>
         bindE (assertE (oc_requestId result = review_requestId E \<and> oc_status result = OConfirmed \<and> tr_digest tx = oc_digest result) Hr_invalid_source) (\<lambda>_.
         bindE (awaitU (awaitTransactionVisible (hn_visibility E) result 40)) (\<lambda>visible.
         bindE (assertE visible Hr_sync_pending) (\<lambda>_.
         bindE (awaitU (hn_coreType E ''product_record'' ''EncryptedRecord'')) (\<lambda>type.
         case filter (\<lambda>c. co_idOperation c = ''Created'' \<and> hn_objectType E tx (co_objectId c) = Some type) (ve_changedObjects (hn_visibility E) tx) of
           [c] \<Rightarrow>
             bindE (awaitU (hn_getRecord E (co_objectId c))) (\<lambda>d.
             bindE (awaitU (hn_provenance E (rd_id d))) (\<lambda>origin.
             bindE (awaitU (hn_getOkr E (hn_okrId E))) (\<lambda>k.
             bindE (assertE (origin = Some (oc_digest result) \<and> decision_recorded E k d) Hr_state_changed) (\<lambda>_.
             bindE (awaitU (hn_assertActive E)) (\<lambda>_.
             okE (d, k))))))
         | _ \<Rightarrow> throwE Hr_invalid_source)))))"

section \<open>What a source is\<close>

lemma awaitU_ok [eff_oks]: "awaitU m r = (Inr a, r') \<longleftrightarrow> m r = (Inr a, r')"
  by (auto simp: awaitU_def split: prod.splits sum.splits)

lemma check_metrics_ok: "check_metrics kind clock ms = Inr u \<longleftrightarrow> (\<forall>m \<in> set ms. metric_measured kind m \<and> metric_fresh clock m \<and> metric_reached m)"
  by (induction ms) (auto simp: bindR_eq_Inr assertR_eq_Inr)

lemma indices_of_Verify: "ri_kind (hn_intent E) = Verify \<Longrightarrow> indices_of E k = Inr l \<Longrightarrow> l = [nat (hr_next_kr k)] \<and> nat (hr_next_kr k) < length (hr_metrics k)"
  by (auto simp: indices_of_def Let_def split: if_split_asm)

text \<open>
  What a decision rests on, reading by reading. The reviewer: active, with an authority that may read. The objective: active, at the reviewed version and
  agreement and at the reviewed key result, the deciding Human's own, with a measurement of each reviewed key result that is not older than allowed by the
  authority's clock and has reached the target.
\<close>

definition metric_proven :: "review_kind \<Rightarrow> int \<Rightarrow> human_metric \<Rightarrow> bool" where
  "metric_proven kind clock m \<longleftrightarrow> truthy (hk_run_id m) \<and> truthy (hk_evidence_id m)
     \<and> (\<exists>x. hk_current m = Some x \<and> (if hk_baseline m < hk_target m then hk_target m \<le> x else x \<le> hk_target m))
     \<and> hk_sampled_at_ms m \<le> clock \<and> clock \<le> hk_sampled_at_ms m + hk_max_age_ms m
     \<and> (kind = Accept \<longrightarrow> hk_verified m \<and> truthy (hk_verification_id m)) \<and> (kind = Verify \<longrightarrow> \<not> hk_verified m \<and> \<not> truthy (hk_verification_id m))"

definition reviewer_seen :: "'r human_env \<Rightarrow> human_authority \<Rightarrow> 'r \<Rightarrow> 'r \<Rightarrow> bool" where
  "reviewer_seen E u r r' \<longleftrightarrow> (\<exists>r1. hn_assertActive E r = (Inr (), r1) \<and> hn_verifyOrganization E r1 = (Inr u, r') \<and> ''read'' \<in> set (hz_actions u) \<and> hz_encryptedKeys u \<noteq> [])"

definition objective_seen :: "'r human_env \<Rightarrow> human_authority \<Rightarrow> human_okr \<Rightarrow> nat list \<Rightarrow> 'r \<Rightarrow> 'r \<Rightarrow> bool" where
  "objective_seen E u k l r r' \<longleftrightarrow> hn_getOkr E (hn_okrId E) r = (Inr k, r') \<and> hr_org_id k = hn_organizationId E \<and> hr_owner_human k = hz_humanId u \<and> hr_state k = 1
     \<and> dec_string (hr_version k) = ri_okrVersion (hn_intent E) \<and> dec_string (hr_agreement_version k) = ri_agreementVersion (hn_intent E)
     \<and> dec_string (hr_next_kr k) = ri_krIndex (hn_intent E) \<and> truthy (hr_managed_agent k) \<and> truthy (hr_agreement_record k)
     \<and> (ri_kind (hn_intent E) = Verify \<longrightarrow> nat (hr_next_kr k) < length (hr_metrics k) \<and> l = [nat (hr_next_kr k)])
     \<and> (ri_kind (hn_intent E) = Accept \<longrightarrow> nat (hr_next_kr k) = length (hr_metrics k) \<and> l = [0..<length (hr_metrics k)])
     \<and> (\<forall>i \<in> set l. metric_proven (ri_kind (hn_intent E)) (hz_clockMs u) (hr_metrics k ! i))"

text \<open>The current pointers of its records: the specification is its own, and no acceptance was recorded. Its budget, untouched for an acceptance, and its policy.\<close>

definition pointers_seen :: "'r human_env \<Rightarrow> human_okr \<Rightarrow> found_pointer \<Rightarrow> found_pointer \<Rightarrow> found_pointer \<Rightarrow> 'r \<Rightarrow> 'r \<Rightarrow> bool" where
  "pointers_seen E k spec verification acceptance r r' \<longleftrightarrow> (let name = ''okr-'' @ hr_logical_id k in
     \<exists>version r1 r2. readRecordPointer (hn_records E) 1 (name @ ''-spec'') r = (Inr spec, r1)
       \<and> readRecordPointer (hn_records E) 4 (name @ ''-verification'') r1 = (Inr verification, r2)
       \<and> readRecordPointer (hn_records E) 4 (name @ ''-acceptance'') r2 = (Inr acceptance, r')
       \<and> fp_pointer spec = Some (hr_spec_record k, hr_spec_revision k, version) \<and> fp_keyVersion verification = fp_keyVersion spec
       \<and> fp_keyVersion acceptance = fp_keyVersion spec \<and> fp_pointer acceptance = None)"

definition terms_seen :: "'r human_env \<Rightarrow> human_okr \<Rightarrow> handover_budget \<Rightarrow> human_policy \<Rightarrow> 'r \<Rightarrow> 'r \<Rightarrow> bool" where
  "terms_seen E k budget policy r r' \<longleftrightarrow> (\<exists>r1. hn_getBudget E (hr_id k) r = (Inr budget, r1) \<and> hn_getPolicy E (hr_id k) r1 = (Inr policy, r')
     \<and> (ri_kind (hn_intent E) = Accept \<longrightarrow> hb_reserved budget = 0)
     \<and> py_agreement_version policy = hr_agreement_version k \<and> hr_managed_version k = Some (py_managed_version policy))"

text \<open>All executions of the objective, page after page.\<close>

inductive pages_read :: "'r human_env \<Rightarrow> string \<Rightarrow> string option \<Rightarrow> 'r \<Rightarrow> okr_execution list \<Rightarrow> 'r \<Rightarrow> bool" for E okrId where
  last_page: "hn_listExecutions E okrId cursor r = (Inr page, r') \<Longrightarrow> \<not> oh_hasNextPage page \<Longrightarrow> pages_read E okrId cursor r (oh_executions page) r'"
| next_page: "hn_listExecutions E okrId cursor r = (Inr page, r1) \<Longrightarrow> oh_hasNextPage page \<Longrightarrow> truthy (oh_cursor page)
    \<Longrightarrow> pages_read E okrId (oh_cursor page) r1 rows r' \<Longrightarrow> pages_read E okrId cursor r (oh_executions page @ rows) r'"

text \<open>
  None of them is an unsettled control Run but, for a verification, queued assignments of later key results to the objective's own Agent; what these hold is
  all that is reserved. Each reviewed measurement is the result of the one succeeded, settled Run it names, under an agreement that may be reviewed.
\<close>

definition queued_later :: "human_okr \<Rightarrow> okr_execution \<Rightarrow> bool" where
  "queued_later k e \<longleftrightarrow> en_state (oe_run e) = 0 \<and> \<not> en_stop_requested (oe_run e) \<and> en_action (oe_run e) = ''assign''
     \<and> en_managed_agent (oe_run e) = hr_managed_agent k \<and> Some (en_membership_id (oe_run e)) = hr_membership_id k
     \<and> oe_contract_version e = hr_agreement_version k \<and> oe_claim_version e = hr_agreement_version k \<and> oe_contract_kr e = oe_claim_kr e
     \<and> hr_next_kr k < oe_contract_kr e \<and> oe_contract_kr e < int (length (hr_metrics k)) \<and> oe_contract_boundary e = hr_boundary_hash k"

definition measured_by :: "human_okr \<Rightarrow> nat \<Rightarrow> okr_execution \<Rightarrow> bool" where
  "measured_by k i e \<longleftrightarrow> en_state (oe_run e) = 2 \<and> en_result_record (oe_run e) = hk_evidence_id (hr_metrics k ! i)
     \<and> en_managed_agent (oe_run e) = hr_managed_agent k \<and> Some (en_membership_id (oe_run e)) = hr_membership_id k
     \<and> en_scope (oe_run e) = ''control'' \<and> en_action (oe_run e) = ''assign'' \<and> oe_claim_settled e \<and> oe_contract_kr e = int i \<and> oe_claim_version e = oe_contract_version e
     \<and> 0 < oe_contract_version e \<and> oe_contract_version e \<le> hr_agreement_version k \<and> length (oe_contract_boundary e) = 32 \<and> length (hr_boundary_hash k) = 32
     \<and> (oe_contract_version e = hr_agreement_version k \<longrightarrow> oe_contract_boundary e = hr_boundary_hash k)"

definition runs_seen :: "'r human_env \<Rightarrow> human_okr \<Rightarrow> handover_budget \<Rightarrow> nat list \<Rightarrow> (nat \<times> okr_execution) list \<Rightarrow> 'r \<Rightarrow> 'r \<Rightarrow> bool" where
  "runs_seen E k budget l selected r r' \<longleftrightarrow> (\<exists>rows. pages_read E (hr_id k) None r rows r' \<and> length rows \<le> 1000
     \<and> (\<forall>e \<in> set rows. en_scope (oe_run e) = ''control'' \<and> \<not> oe_claim_settled e \<longrightarrow> ri_kind (hn_intent E) = Verify \<and> queued_later k e)
     \<and> (\<Sum>e\<leftarrow>rows. if en_scope (oe_run e) = ''control'' \<and> \<not> oe_claim_settled e then oe_claim_reserved e else 0) = hb_reserved budget
     \<and> map fst selected = l
     \<and> (\<forall>(i, e) \<in> set selected. filter (\<lambda>e. Some (en_id (oe_run e)) = hk_run_id (hr_metrics k ! i)) rows = [e] \<and> measured_by k i e))"

text \<open>The whole source, in the order of the code, the objective read again unchanged at the end, and what its pin consists of.\<close>

definition decision_sound :: "'r human_env \<Rightarrow> human_pin \<Rightarrow> 'r \<Rightarrow> 'r \<Rightarrow> bool" where
  "decision_sound E expected r r' \<longleftrightarrow> (\<exists>u k l spec verification acceptance budget policy selected r1 r2 r3 r4 r5 r6.
     reviewer_seen E u r r1 \<and> objective_seen E u k l r1 r2 \<and> pointers_seen E k spec verification acceptance r2 r3 \<and> terms_seen E k budget policy r3 r4
     \<and> runs_seen E k budget l selected r4 r5 \<and> hn_getOkr E (hr_id k) r5 = (Inr k, r6) \<and> hn_assertActive E r6 = (Inr (), r')
     \<and> expected = (hz_authorityPin u, k, selected, spec, verification, acceptance, budget, policy))"

lemma indices_of_cases:
  "indices_of E k = Inr l \<Longrightarrow> (ri_kind (hn_intent E) = Verify \<longrightarrow> nat (hr_next_kr k) < length (hr_metrics k) \<and> l = [nat (hr_next_kr k)])
     \<and> (ri_kind (hn_intent E) = Accept \<longrightarrow> nat (hr_next_kr k) = length (hr_metrics k) \<and> l = [0..<length (hr_metrics k)])"
  by (cases "ri_kind (hn_intent E)") (auto simp: indices_of_def Let_def split: if_split_asm)

lemma metric_provenI: "metric_measured kind m \<Longrightarrow> metric_fresh clock m \<Longrightarrow> metric_reached m \<Longrightarrow> metric_proven kind clock m"
  by (cases kind) (auto simp: metric_proven_def metric_measured_def metric_fresh_def metric_reached_def split: option.split_asm)

lemma metrics_proven:
  "check_metrics kind clock (map (\<lambda>i. hr_metrics k ! i) l) = Inr u \<Longrightarrow> i \<in> set l \<Longrightarrow> metric_proven kind clock (hr_metrics k ! i)"
  by (auto simp: check_metrics_ok intro: metric_provenI)

lemma executionsU_pages:
  "executionsU n E okrId cursor seen known r = (Inr rows, r') \<Longrightarrow> length rows \<le> 1000 \<and> (\<exists>rest. rows = known @ rest \<and> pages_read E okrId cursor r rest r')"
proof (induction n arbitrary: cursor seen known r)
  case (Suc n)
  from Suc.prems obtain page r1 where page: "hn_listExecutions E okrId cursor r = (Inr page, r1)"
      and short: "length (known @ oh_executions page) \<le> 1000" and more: "oh_hasNextPage page \<longrightarrow> truthy (oh_cursor page)"
      and rest: "(if oh_hasNextPage page then executionsU n E okrId (oh_cursor page) (the (oh_cursor page) # seen) (known @ oh_executions page) else okE (known @ oh_executions page)) r1
        = (Inr rows, r')"
    by (auto simp: Let_def eff_oks elim!: bindE_okE)
  show ?case
  proof (cases "oh_hasNextPage page")
    case True
    with rest obtain rest' where "length rows \<le> 1000" "rows = (known @ oh_executions page) @ rest'" "pages_read E okrId (oh_cursor page) r1 rest' r'"
      using Suc.IH by fastforce
    then show ?thesis using next_page [OF page True] more True by auto
  next
    case False
    then have "rows = known @ oh_executions page" "r1 = r'" using rest by (auto simp: eff_oks)
    then show ?thesis using last_page [OF page False] short by auto
  qed
qed (simp add: eff_oks)

lemma positive_decimal: "positiveH (dec_string n) \<Longrightarrow> 0 < n"
  by (cases "n = 0"; cases "n < 0") (auto simp: positiveH_def dec_string_def positive_text_def is_digit_def dec_digits.simps)

lemma evidence_run_measured: "evidence_run k i (hr_metrics k ! i) e \<Longrightarrow> measured_by k i e"
  by (auto simp: evidence_run_def measured_by_def reviewableEvidenceAgreement_def dest: positive_decimal)

lemma deferred_later: "deferred kind k e \<Longrightarrow> kind = Verify \<and> queued_later k e"
  by (simp add: deferred_def queued_later_def)

lemma sum_open: "(\<Sum>e\<leftarrow>rows. if en_scope (oe_run e) = ''control'' \<and> \<not> oe_claim_settled e then oe_claim_reserved e else 0)
    = sum_list (map oe_claim_reserved (filter open_control rows))"
  by (induction rows) (auto simp: open_control_def)

lemma settled_rows:
  assumes "settled_for kind k budget rows"
  shows "(\<forall>e \<in> set rows. en_scope (oe_run e) = ''control'' \<and> \<not> oe_claim_settled e \<longrightarrow> kind = Verify \<and> queued_later k e)
    \<and> (\<Sum>e\<leftarrow>rows. if en_scope (oe_run e) = ''control'' \<and> \<not> oe_claim_settled e then oe_claim_reserved e else 0) = hb_reserved budget"
  using assms unfolding sum_open by (auto simp: settled_for_def list_all_iff open_control_def dest: deferred_later)

lemma selectU_only:
  "selectU k rows i = Inr (j, e) \<Longrightarrow> j = i \<and> filter (\<lambda>e. Some (en_id (oe_run e)) = hk_run_id (hr_metrics k ! i)) rows = [e] \<and> evidence_run k i (hr_metrics k ! i) e"
  by (auto simp: selectU_def Let_def split: list.split_asm if_split_asm)

lemma selectU_each:
  "mapR (selectU k rows) l = Inr selected \<Longrightarrow> map fst selected = l
    \<and> (\<forall>(i, e) \<in> set selected. filter (\<lambda>e. Some (en_id (oe_run e)) = hk_run_id (hr_metrics k ! i)) rows = [e] \<and> evidence_run k i (hr_metrics k ! i) e)"
  by (induction l arbitrary: selected) (fastforce simp: bindR_eq_Inr dest: selectU_only)+

text \<open>What the source remembers of itself, for the proofs about a source that was read.\<close>

lemma sourceU_facts:
  assumes "sourceU fuel E r = (Inr s, r')"
  shows "okr_under_review E (us_authority s) (us_okr s)" "indices_of E (us_okr s) = Inr (map fst (us_selected s))"
    "\<forall>(i, e) \<in> set (us_selected s). evidence_run (us_okr s) i (hr_metrics (us_okr s) ! i) e"
proof -
  from assms obtain k l rows where "okr_under_review E (us_authority s) k" "indices_of E k = Inr l" "mapR (selectU k rows) l = Inr (us_selected s)" "us_okr s = k"
    by (auto simp: sourceU_def eff_oks elim!: bindE_okE)
  with selectU_each [of k rows l "us_selected s"]
  show "okr_under_review E (us_authority s) (us_okr s)" "indices_of E (us_okr s) = Inr (map fst (us_selected s))"
    "\<forall>(i, e) \<in> set (us_selected s). evidence_run (us_okr s) i (hr_metrics (us_okr s) ! i) e" by auto
qed

lemma heads_fit_seen:
  assumes "readRecordPointer (hn_records E) 1 (spec_name (hr_logical_id k)) r = (Inr spec, r1)" "readRecordPointer (hn_records E) 4 (verification_name (hr_logical_id k)) r1 = (Inr verification, r2)"
    "readRecordPointer (hn_records E) 4 (acceptance_name (hr_logical_id k)) r2 = (Inr acceptance, r')" "heads_fit k spec verification acceptance"
  shows "pointers_seen E k spec verification acceptance r r'"
  using assms unfolding pointers_seen_def Let_def
  by (auto simp: heads_fit_def spec_name_def verification_name_def acceptance_name_def split: option.split_asm)

lemma sourceU_sound:
  assumes "sourceU fuel E r = (Inr s, r')"
  shows "decision_sound E (us_pin s) r r'"
proof -
  from assms obtain u k l specHead verificationHead acceptanceHead budget policy rows selected ra r1 r2 rb rc r3 rd r4 r5 r6 where
    reviewer: "hn_assertActive E r = (Inr (), ra)" "hn_verifyOrganization E ra = (Inr u, r1)" "''read'' \<in> set (hz_actions u)" "hz_encryptedKeys u \<noteq> []"
    and okr: "hn_getOkr E (hn_okrId E) r1 = (Inr k, r2)" "okr_under_review E u k"
    and indices: "indices_of E k = Inr l" and metrics: "check_metrics (ri_kind (hn_intent E)) (hz_clockMs u) (map (\<lambda>i. hr_metrics k ! i) l) = Inr ()"
    and heads: "readRecordPointer (hn_records E) 1 (spec_name (hr_logical_id k)) r2 = (Inr specHead, rb)"
      "readRecordPointer (hn_records E) 4 (verification_name (hr_logical_id k)) rb = (Inr verificationHead, rc)"
      "readRecordPointer (hn_records E) 4 (acceptance_name (hr_logical_id k)) rc = (Inr acceptanceHead, r3)" "heads_fit k specHead verificationHead acceptanceHead"
    and terms: "hn_getBudget E (hr_id k) r3 = (Inr budget, rd)" "hn_getPolicy E (hr_id k) rd = (Inr policy, r4)" "ri_kind (hn_intent E) = Accept \<longrightarrow> hb_reserved budget = 0"
      "py_agreement_version policy = hr_agreement_version k" "Some (py_managed_version policy) = hr_managed_version k"
    and runs: "executionsU fuel E (hr_id k) None [] [] r4 = (Inr rows, r5)" "settled_for (ri_kind (hn_intent E)) k budget rows" "mapR (selectU k rows) l = Inr selected"
    and again: "hn_getOkr E (hr_id k) r5 = (Inr k, r6)" "hn_assertActive E r6 = (Inr (), r')"
    and pin: "us_pin s = (hz_authorityPin u, k, selected, specHead, verificationHead, acceptanceHead, budget, policy)"
    by (auto simp: sourceU_def eff_oks elim!: bindE_okE)
  have a: "reviewer_seen E u r r1" using reviewer unfolding reviewer_seen_def by blast
  have b: "objective_seen E u k l r1 r2"
    using okr indices_of_cases [OF indices] metrics_proven [OF metrics] by (simp add: objective_seen_def okr_under_review_def)
  have d: "terms_seen E k budget policy r3 r4" using terms by (auto simp: terms_seen_def)
  have e: "runs_seen E k budget l selected r4 r5"
    using executionsU_pages [OF runs(1)] settled_rows [OF runs(2)] selectU_each [OF runs(3)] unfolding runs_seen_def
    by (intro exI [of _ rows]) (auto dest: evidence_run_measured)
  show ?thesis
    unfolding decision_sound_def
    by (rule exI [of _ u], rule exI [of _ k], rule exI [of _ l], rule exI [of _ specHead], rule exI [of _ verificationHead], rule exI [of _ acceptanceHead],
        rule exI [of _ budget], rule exI [of _ policy], rule exI [of _ selected], rule exI [of _ r1], rule exI [of _ r2], rule exI [of _ r3], rule exI [of _ r4],
        rule exI [of _ r5], rule exI [of _ r6])
      (intro conjI a b heads_fit_seen [OF heads] d e again pin)
qed

lemma executions_fuel:
  assumes "\<And>cursor r page r'. hn_listExecutions E i cursor r = (Inr page, r') \<Longrightarrow> oh_hasNextPage page \<Longrightarrow> oh_executions page \<noteq> []"
  shows "1000 - length known < n \<Longrightarrow> executionsU (n + m) E i cursor seen known r = executionsU n E i cursor seen known r"
proof (induction n arbitrary: cursor seen known r)
  case (Suc n)
  obtain x r1 where x: "awaitU (hn_listExecutions E i cursor) r = (x, r1)" by fastforce
  show ?case
  proof (cases x)
    case (Inl e)
    then show ?thesis using x by (simp add: eff_run)
  next
    case (Inr page)
    then have page: "hn_listExecutions E i cursor r = (Inr page, r1)" using x by (simp add: awaitU_ok)
    let ?rows = "known @ oh_executions page"
    have "1000 - length ?rows < n" if "oh_hasNextPage page" "length ?rows \<le> 1000"
      using assms [OF page that(1)] that(2) Suc.prems by (cases "oh_executions page") auto
    then show ?thesis using x Inr Suc.IH [of ?rows] by (auto simp: eff_run Let_def)
  qed
qed simp

section \<open>What is broadcast\<close>

lemma recheckU_ok: "recheckU fuel E pin r = (Inr u, r') \<longleftrightarrow> (\<exists>s. sourceU fuel E r = (Inr s, r') \<and> us_pin s = pin)"
  by (auto simp: recheckU_def eff_oks bindE_eq)

lemma queryU_unsubmitted: "keeps unsubmitted (queryU E J)"
  unfolding queryU_def by auto

interpretation decision: submission_flow "submitU fuel E J" "hn_client E" J "recheckU fuel E" Hr_invalid_quote for fuel E J
  by unfold_locales (unfold submitU_def, rule resumed_submit_law [OF queryU_unsubmitted])

lemma recheckU_held: "recheckU fuel E pin r = (Inr u, r') \<Longrightarrow> decision_sound E pin r r'"
  by (auto simp: recheckU_ok dest: sourceU_sound)

text \<open>
  A quote is only given for a view that was shown, after the Human confirmed and gave a reason; it is remembered with the pin the view was shown under,
  which a sound source still had, and the record to be written is sealed from that source. Nothing is broadcast.
\<close>

lemma prepareU_quoted:
  fixes E :: "'r human_env" and w :: "('s, 'r, human_pin) flow_world"
  assumes "prepareU pages fuel E J views vw reviewed rawReason w = (Inr (Inl q), w')"
  shows "\<exists>s u r1 r2 r3 r4 body. map_of views vw = Some (us_pin s) \<and> fw_plans w' = (q, us_pin s) # fw_plans w \<and> w_sent (fw_manager w') = w_sent (fw_manager w)
    \<and> reviewed \<and> trim rawReason \<noteq> [] \<and> length (trim rawReason) \<le> 4096 \<and> q_requestId q = review_requestId E
    \<and> sourceU fuel E u = (Inr s, r1) \<and> decision_sound E (us_pin s) u r1 \<and> sealU E s vw (trim rawReason) r1 = (Inr body, r2)
    \<and> decision_sound E (us_pin s) r3 r4"
proof -
  from assms obtain s body tx w0 w1 w2 w3 w4 w5 where
    parts: "queryU E J w = (Inr None, w0)" "reviewed" "trim rawReason \<noteq> []" "length (trim rawReason) \<le> 4096"
      "outsideE (sourceU fuel E) w0 = (Inr s, w1)" "map_of views vw = Some (us_pin s)" "outsideE (sealU E s vw (trim rawReason)) w1 = (Inr body, w2)"
      "outsideE (recheckU fuel E (us_pin s)) w2 = (Inr (), w3)"
      "(managerE (prepare pages (hn_client E) J \<lparr>pi_requestId = review_requestId E, pi_transaction = tx, pi_gasBudget = UBigInt 200000000, pi_maxSuiSpend = None\<rparr>)
          :: ('s, 'r, fee_quote) human_flow) w3 = (Inr q, w4)"
      "outsideE (recheckU fuel E (us_pin s)) w4 = (Inr (), w5)" "(remember q (us_pin s) :: ('s, 'r, unit) human_flow) w5 = (Inr (), w')"
    by (auto simp: prepareU_def Let_def eff_oks simp del: not_None_eq elim!: bindE_okE split: option.split_asm)
  have "unsent w w0" using keepsD [OF queryU_unsubmitted parts(1)] by (simp add: unsent_def unsubmitted_def same_but_journal_def)
  moreover have "unsent w0 w1" "unsent w1 w2" "unsent w2 w3" "unsent w3 w4" "unsent w4 w5"
    using parts keepsD [OF unsent_parts(1)] keepsD [OF unsent_parts(2)] by metis+
  ultimately have kept: "w_sent (fw_manager w5) = w_sent (fw_manager w)" "fw_plans w5 = fw_plans w" by (simp_all add: unsent_def)
  have "q_requestId q = review_requestId E" using parts(9) by (auto simp: managerE_Inr dest: prepared_requestId)
  moreover have "fw_plans w' = (q, us_pin s) # fw_plans w5" "fw_manager w' = fw_manager w5" using parts(11) by (auto simp: remember_def eff_oks)
  moreover have "\<exists>r3 r4. decision_sound E (us_pin s) r3 r4" using parts(10) by (auto simp: outsideE_Inr dest: recheckU_held)
  moreover have "\<exists>u r1 r2. sourceU fuel E u = (Inr s, r1) \<and> sealU E s vw (trim rawReason) r1 = (Inr body, r2)" using parts(5,7) by (auto simp: outsideE_Inr) blast
  ultimately show ?thesis using parts(2-4,6) kept sourceU_sound by (metis (no_types, lifting))
qed

text \<open>
  C39. A Human's decision is paid for only while everything it rests on holds: if a submission broadcasts anything, no outcome of this decision was known
  before, its quote was prepared here and is not used, exactly its prepared transaction is sent, once, and the device signed it right after one chain of
  readings and right before another, both of what was shown. Each reads, in order: the reviewer's authority; the objective, the reviewed one, every reviewed
  key result measured, fresh and at its target; the pointers of its records, with no acceptance; its budget and policy; all pages of its executions, none of
  them an open control Run (for a verification: but queued work on later key results), with one succeeded, settled Run for each reviewed measurement; and
  the objective once more, unchanged.
\<close>

theorem decision_sent_as_reviewed:
  assumes "submitU fuel E J q w = (x, w')" "w_sent (fw_manager w') \<noteq> w_sent (fw_manager w)"
  shows "\<exists>pin p. map_of (fw_plans w) q = Some pin \<and> p \<in> set (w_prepared (fw_manager w)) \<and> p_quote p = q \<and> \<not> p_used p
    \<and> (\<exists>w0. queryU E J w = (Inr None, w0)) \<and> w_sent (fw_manager w') = (entry_key (p_entry p), je_digest (p_entry p)) # w_sent (fw_manager w)
    \<and> (\<exists>r0 r1 r2 r3 sg. decision_sound E pin r0 r1 \<and> cl_sign (hn_client E) (p_bytes p) r1 = (Inr sg, r2) \<and> decision_sound E pin r2 r3)"
proof -
  from decision.sent_under_guard [OF assms] obtain pin p where found: "map_of (fw_plans w) q = Some pin"
      "p \<in> set (w_prepared (fw_manager w))" "p_quote p = q" "\<not> p_used p" "guarded_run (recheckU fuel E pin) (hn_client E) (p_bytes p)"
      "w_sent (fw_manager w') = (entry_key (p_entry p), je_digest (p_entry p)) # w_sent (fw_manager w)" by blast
  from resumed_submit_guarded [OF queryU_unsubmitted assms(1) [unfolded submitU_def] assms(2)] have own: "\<exists>w0. queryU E J w = (Inr None, w0)" by blast
  from found(5) have "\<exists>r0 r1 r2 r3 sg. decision_sound E pin r0 r1 \<and> cl_sign (hn_client E) (p_bytes p) r1 = (Inr sg, r2) \<and> decision_sound E pin r2 r3"
    unfolding guarded_run_def by (blast dest: recheckU_held)
  with found own show ?thesis by blast
qed

section \<open>What a view shows\<close>

text \<open>
  An evidence shown for a key result: the objective's own measurement, a result of the named record, each file of the plan for this key result with the
  hash of the planned content, which the result reports as observed, and, for an acceptance, an earlier verification.
\<close>

definition evidence_sound :: "'r human_env \<Rightarrow> human_okr \<Rightarrow> okr_plan \<Rightarrow> review_evidence \<Rightarrow> bool" where
  "evidence_sound E k plan x \<longleftrightarrow> ue_krIndex x < length (op_krs plan) \<and> ue_metric x = hr_metrics k ! ue_krIndex x \<and> er_recordId (ue_result x) = hk_evidence_id (ue_metric x)
     \<and> map uf_goal (ue_files x) = kp_files (op_krs plan ! ue_krIndex x)
     \<and> (\<forall>f \<in> set (ue_files x). uf_expectedHash f = text_hash (xe_hash (hn_results E)) (fg_content (uf_goal f)) \<and> uf_observedHash f = uf_expectedHash f)
     \<and> (ue_prior x = None \<longleftrightarrow> ri_kind (hn_intent E) = Verify)"

lemma file_evidence_ok: "file_evidence H rows g = Inr f \<Longrightarrow> uf_goal f = g \<and> uf_expectedHash f = text_hash H (fg_content g) \<and> uf_observedHash f = uf_expectedHash f"
  by (auto simp: file_evidence_def Let_def bindR_eq_Inr split: list.split_asm if_split_asm)

lemma file_evidences_ok:
  "mapR (file_evidence H rows) gs = Inr fs \<Longrightarrow> map uf_goal fs = gs \<and> (\<forall>f \<in> set fs. uf_expectedHash f = text_hash H (fg_content (uf_goal f)) \<and> uf_observedHash f = uf_expectedHash f)"
  by (induction gs arbitrary: fs) (auto simp: bindR_eq_Inr dest: file_evidence_ok)

lemma result_files_ok:
  "result_files H kr m res = Inr fs \<Longrightarrow> er_recordId res = hk_evidence_id m \<and> map uf_goal fs = kp_files kr
    \<and> (\<forall>f \<in> set fs. uf_expectedHash f = text_hash H (fg_content (uf_goal f)) \<and> uf_observedHash f = uf_expectedHash f)"
proof -
  assume "result_files H kr m res = Inr fs"
  then obtain response body where body: "(case field body ''evidence'' of
       Some (JArray rows) \<Rightarrow>
         bindR (assertR (js_true (field response ''ok'') \<and> field body ''status'' = Some (JString ''submitted'') \<and> length rows = length (kp_files kr)
                  \<and> er_recordId res = hk_evidence_id m) Hr_invalid_source) (\<lambda>_.
         mapR (file_evidence H rows) (kp_files kr))
     | _ \<Rightarrow> Inl Hr_invalid_source) = Inr fs"
    unfolding result_files_def bindR_eq_Inr by blast
  obtain rows where "field body ''evidence'' = Some (JArray rows)"
  proof (cases "field body ''evidence''")
    case (Some v)
    then show ?thesis using body that by (cases v) simp_all
  qed (use body in simp)
  then have "mapR (file_evidence H rows) (kp_files kr) = Inr fs" "er_recordId res = hk_evidence_id m" using body by (simp_all add: bindR_eq_Inr assertR_eq_Inr)
  then show ?thesis using file_evidences_ok by blast
qed

lemma evidenceU_ok:
  assumes "evidenceU E k plan sel r = (Inr x, r')"
  shows "ue_krIndex x = fst sel \<and> evidence_sound E k plan x"
proof -
  let ?m = "hr_metrics k ! fst sel"
  from assms obtain res fs prior r1 r2 where "fst sel < length (op_krs plan)"
      "result_files (xe_hash (hn_results E)) (op_krs plan ! fst sel) ?m res = Inr fs" "priorU E k sel ?m res r1 = (Inr prior, r2)"
      and x: "x = \<lparr>ue_krIndex = fst sel, ue_metric = ?m, ue_result = res, ue_files = fs, ue_prior = prior\<rparr>"
    by (auto simp: evidenceU_def Let_def eff_oks elim!: bindE_okE)
  moreover from this have "prior = None \<longleftrightarrow> ri_kind (hn_intent E) = Verify"
    by (auto simp: priorU_def eff_oks elim!: bindE_okE split: review_kind.split_asm)
  ultimately show ?thesis using result_files_ok by (fastforce simp: evidence_sound_def x)
qed

lemma evidencesU_ok: "evidencesU E k plan sels r = (Inr xs, r') \<Longrightarrow> map ue_krIndex xs = map fst sels \<and> (\<forall>x \<in> set xs. evidence_sound E k plan x)"
proof (induction sels arbitrary: xs r)
  case (Cons sel sels)
  then show ?case by (auto simp: eff_oks elim!: bindE_okE dest!: evidenceU_ok Cons.IH)
qed (simp add: eff_oks)

lemma readView_shows:
  assumes "readView fuel E handle r = (Inr (vw, pin), r')"
  shows "\<exists>(s :: human_source) plan r1 r2. us_pin s = pin \<and> decision_sound E pin r r1 \<and> uv_okr vw = us_okr s \<and> map ue_krIndex (uv_evidence vw) = map fst (us_selected s)
    \<and> (\<forall>x \<in> set (uv_evidence vw). evidence_sound E (us_okr s) plan x) \<and> decision_sound E pin r2 r'"
proof -
  from assms obtain s spec plan r0 r1 r2 xs where parts: "sourceU fuel E r = (Inr s, r0)" "agreementU E s r0 = (Inr (spec, plan), r1)"
      "evidencesU E (us_okr s) plan (us_selected s) r1 = (Inr xs, r2)" "recheckU fuel E (us_pin s) r2 = (Inr (), r')"
    and shown: "vw = \<lparr>uv_handle = handle, uv_okr = us_okr s, uv_spec = spec, uv_evidence = xs\<rparr>" "pin = us_pin s"
    by (auto simp: readView_def eff_oks elim!: bindE_okE)
  note facts = sourceU_sound [OF parts(1)] evidencesU_ok [OF parts(3)] recheckU_held [OF parts(4)]
  show ?thesis
    by (rule exI [of _ s], rule exI [of _ plan], rule exI [of _ r0], rule exI [of _ r2]) (simp add: shown facts)
qed

section \<open>From a verification to the acceptance\<close>

lemma decimal_value: "positive_text (dec_string n) \<Longrightarrow> dec_value (dec_string n) = n"
  by (cases "n < 0") (auto simp: dec_string_def positive_text_def is_digit_def dec_value_dec_digits)

lemma digit_nonneg: "dec_string n \<in> {''0'', ''1'', ''2'', ''3''} \<Longrightarrow> 0 \<le> n"
  by (cases "n < 0") (auto simp: dec_string_def)

lemma decision_row:
  assumes "us_selected s = [(i, e)]" "ue_krIndex x = i" "ue_prior x = None" "oe_contract_version e' = oe_contract_version e"
    "hk_current m = hk_current (ue_metric x)" "hk_sampled_at_ms m = hk_sampled_at_ms (ue_metric x)"
    "en_id (er_run res) = en_id (er_run (ue_result x))" "er_recordId res = er_recordId (ue_result x)" "er_transactionDigest res = er_transactionDigest (ue_result x)"
  shows "evidence_row_ok v (i, e') m res (evidence_json s x)"
  using assms by (simp add: evidence_row_ok_def evidence_json_def field_def jopt_def)

text \<open>
  C40. What a verification records is what the acceptance asks for: the text that is sealed for a verified key result, read back in the record that the
  deciding Human wrote under the same grant, passes every check that the final acceptance makes of an earlier verification, whenever the objective is
  still the same specification under the same or a renewed agreement and the Run, its result and the measurement are the ones that were verified.
\<close>

theorem verification_counts_at_acceptance:
  assumes "ri_kind (hn_intent E) = Verify" "sourceU fuel E r = (Inr s, r')" "new_review_ok (hn_grantId E) (hn_organizationId E) (hn_okrId E) (hn_intent E) = Inr ()"
    and "us_selected s = [(i, e)]" "ue_krIndex x = i" "uv_evidence shown = [x]" "ue_prior x = None"
    and "trim reason \<noteq> []" "length (trim reason) \<le> 4096"
    and "rd_writer_human d = hz_humanId (us_authority s)" "rd_grant_id d = hn_grantId E"
    and "hn_organizationId E' = hn_organizationId E" "hr_id k = hn_okrId E" "hr_owner_human k = hr_owner_human (us_okr s)"
      "hr_spec_record k = hr_spec_record (us_okr s)" "hr_agreement_version (us_okr s) \<le> hr_agreement_version k"
    and "oe_contract_version e' = oe_contract_version e" "hk_current m = hk_current (ue_metric x)" "hk_sampled_at_ms m = hk_sampled_at_ms (ue_metric x)"
    and "en_id (er_run res) = en_id (er_run (ue_result x))" "er_recordId res = er_recordId (ue_result x)" "er_transactionDigest res = er_transactionDigest (ue_result x)"
  shows "\<exists>v. json_parse (decision_text E s shown (trim reason)) = Some v \<and> verification_ok E' k (i, e') m res d v"
proof -
  let ?k = "us_okr s" and ?a = "ri_agreementVersion (hn_intent E)"
  have known: "dec_string (hr_agreement_version ?k) = ?a" "dec_string (hr_next_kr ?k) = ri_krIndex (hn_intent E)"
      "hr_owner_human ?k = hz_humanId (us_authority s)" and indices: "indices_of E ?k = Inr [i]"
      and run: "evidence_run ?k i (hr_metrics ?k ! i) e"
    using sourceU_facts [OF assms(2)] assms(4) by (auto simp: okr_under_review_def)
  have "ri_krIndex (hn_intent E) \<in> {''0'', ''1'', ''2'', ''3''}" and agreement: "positiveH ?a" using assms(3) by (simp_all add: new_review_ok_def assertR_eq_Inr)
  with known have next_kr: "0 \<le> hr_next_kr ?k" by (metis digit_nonneg)
  have i: "ri_krIndex (hn_intent E) = dec_string (int i)" using indices_of_Verify [OF assms(1) indices] next_kr known by simp
  have "dec_value ?a = hr_agreement_version ?k" using agreement known decimal_value by (metis positiveH_def)
  moreover have "oe_contract_version e \<le> hr_agreement_version ?k" using run by (simp add: evidence_run_def reviewableEvidenceAgreement_def)
  ultimately have versions: "oe_contract_version e' \<le> dec_value ?a" "dec_value ?a \<le> hr_agreement_version k" using assms by simp_all
  have row: "evidence_row_ok v (i, e') m res (evidence_json s x)" for v by (rule decision_row) (use assms in simp_all)
  have name: "kind_text (ri_kind (hn_intent E)) = ''verify''" using assms(1) by (simp add: kind_text_def)
  show ?thesis
    using assms agreement versions row known i name
    by (simp add: decision_text_def json_parse_stringify verification_ok_def sfield_def field_def trim_trim del: stringify.simps)
qed


section \<open>A sample verification\<close>

definition decision_metric :: human_metric where
  "decision_metric = \<lparr>hk_baseline = 0, hk_current = Some 1, hk_target = 1, hk_weight = 1, hk_max_age_ms = 3600000, hk_sampled_at_ms = 1500,
     hk_run_id = Some (some_address (CHR ''1'')), hk_evidence_id = Some ''record'', hk_verified = False, hk_verification_id = None\<rparr>"

definition decision_okr :: human_okr where
  "decision_okr = \<lparr>hr_id = some_address (CHR ''b''), hr_org_id = some_address (CHR ''2''), hr_owner_human = some_address (CHR ''3''), hr_logical_id = ''goal'', hr_state = 1,
     hr_version = 6, hr_agreement_version = 2, hr_next_kr = 0, hr_metrics = [decision_metric], hr_managed_agent = Some (some_address (CHR ''a'')), hr_managed_version = Some 3,
     hr_membership_id = Some (some_address (CHR ''5'')), hr_agreement_record = Some (some_address (CHR ''d'')), hr_spec_record = some_address (CHR ''c''), hr_spec_revision = 1,
     hr_boundary_hash = replicate 32 7, hr_workspace_hash = replicate 32 204, hr_budget_asset = [], hr_budget_limit = 0, hr_expires_at_ms = 900000, hr_priority = 1,
     hr_deadline_ms = 900000, hr_acceptance_record = None, hr_accepted_by_human = None, hr_rest = JNull\<rparr>"

definition decision_run :: okr_execution where
  "decision_run = \<lparr>oe_run = review_run\<lparr>en_action := ''assign'', en_scope := ''control''\<rparr>, oe_contract_version = 1, oe_contract_kr = 0, oe_contract_boundary = replicate 32 9,
     oe_claim_version = 1, oe_claim_kr = 0, oe_claim_settled = True, oe_claim_reserved = 0\<rparr>"

definition decision_records :: "unit records_env" where
  "decision_records = approval_records\<lparr>rc_index := okE (''index'', \<lparr>ix_key_version = 1, ix_table = some_address (CHR ''e'')\<rparr>),
     rc_child := (\<lambda>t k l. okE (if k = 1 then Some \<lparr>pv_type = ''pointer'', pv_record_id = some_address (CHR ''c''), pv_revision = 1, pv_key_version = 1\<rparr> else None))\<rparr>"

definition decision_authority :: human_authority where
  "decision_authority = \<lparr>hz_authorityPin = ''pin'', hz_encryptedKeys = ''keys'', hz_humanId = some_address (CHR ''3''), hz_actions = [''read'', ''approve''], hz_clockMs = 2000\<rparr>"

definition decision_policy :: human_policy where
  "decision_policy = \<lparr>py_agreement_version = 2, py_managed_version = 3, py_max_calls = 1, py_proposal_hash = [], py_policy_rest = JNull\<rparr>"

definition decision_sample :: "unit human_env" where
  "decision_sample = \<lparr>hn_client = flow_client, hn_organizationId = some_address (CHR ''2''), hn_grantId = some_address (CHR ''4''), hn_okrId = some_address (CHR ''b''),
     hn_device = some_address (CHR ''7''), hn_humanId = some_address (CHR ''3''), hn_intent = humanReviewIntent decision_okr, hn_results = review_reader, hn_records = decision_records,
     hn_visibility = \<lparr>ve_changedObjects = (\<lambda>t. []), ve_getObject = (\<lambda>i. throwE Object_failed), ve_checkNetwork = okE (), ve_pause = (\<lambda>r. r)\<rparr>,
     hn_objectType = (\<lambda>t i. None), hn_assertActive = okE (), hn_checkNetwork = okE (), hn_verifyOrganization = okE decision_authority, hn_getOkr = (\<lambda>i. okE decision_okr),
     hn_getBudget = (\<lambda>i. okE \<lparr>hb_asset = [], hb_spent = 0, hb_reserved = 0\<rparr>), hn_getPolicy = (\<lambda>i. okE decision_policy),
     hn_listExecutions = (\<lambda>i c. okE \<lparr>oh_executions = [decision_run], oh_cursor = None, oh_hasNextPage = False\<rparr>), hn_getRecord = (\<lambda>i. throwE ()), hn_provenance = (\<lambda>i. throwE ()),
     hn_coreType = (\<lambda>a b. throwE ()), hn_encrypt = (\<lambda>k n v y p. okE (Some p)), hn_verifyKr = (\<lambda>q. None), hn_achieve = (\<lambda>q. None)\<rparr>"

definition decision_source :: human_source where
  "decision_source = (let spec = \<lparr>fp_keyVersion = 1, fp_pointer = Some (some_address (CHR ''c''), 1, 1)\<rparr>; none = \<lparr>fp_keyVersion = 1, fp_pointer = None\<rparr> in
     \<lparr>us_authority = decision_authority, us_okr = decision_okr, us_selected = [(0, decision_run)], us_specHead = spec, us_verificationHead = none, us_policy = decision_policy,
       us_pin = (''pin'', decision_okr, [(0, decision_run)], spec, none, none, \<lparr>hb_asset = [], hb_spent = 0, hb_reserved = 0\<rparr>, decision_policy)\<rparr>)"

lemma decision_texts: "dec_string 6 = ''6''" "dec_string 2 = ''2''" "dec_string 1 = ''1''" "dec_string 0 = ''0''" "positiveH ''1''" "positiveH ''2''" "positiveH ''6''"
  by code_simp+

lemma decision_intent: "hn_intent decision_sample = \<lparr>ri_kind = Verify, ri_okrVersion = ''6'', ri_agreementVersion = ''2'', ri_krIndex = ''0''\<rparr>"
  by (simp add: decision_sample_def humanReviewIntent_def decision_okr_def decision_texts)

lemma decision_pointers:
  "awaitU (readRecordPointer decision_records 1 (spec_name ''goal'')) r = (Inr \<lparr>fp_keyVersion = 1, fp_pointer = Some (some_address (CHR ''c''), 1, 1)\<rparr>, r)"
  "awaitU (readRecordPointer decision_records 4 (verification_name ''goal'')) r = (Inr \<lparr>fp_keyVersion = 1, fp_pointer = None\<rparr>, r)"
  "awaitU (readRecordPointer decision_records 4 (acceptance_name ''goal'')) r = (Inr \<lparr>fp_keyVersion = 1, fp_pointer = None\<rparr>, r)"
proof -
  have env: "rc_organizationId decision_records = some_address (CHR ''2'')" "rc_indexType decision_records = ''index''" "rc_pointerType decision_records = ''pointer''"
    "awaitP (rc_index decision_records) r = (Inr (''index'', \<lparr>ix_key_version = 1, ix_table = some_address (CHR ''e'')\<rparr>), r)"
    "awaitP (rc_child decision_records t k l) r
     = (Inr (if k = 1 then Some \<lparr>pv_type = ''pointer'', pv_record_id = some_address (CHR ''c''), pv_revision = 1, pv_key_version = 1\<rparr> else None), r)" for r t k l
    by (simp_all add: decision_records_def approval_records_def awaitP_def eff_run)
  have ids: "is_object_id (some_address c)" if "c \<in> {CHR ''2'', CHR ''c'', CHR ''e''}" for c
    using that by (auto simp: some_address_id is_lower_hex_def is_digit_def)
  have index: "readIndex decision_records r = (Inr \<lparr>ix_key_version = 1, ix_table = some_address (CHR ''e'')\<rparr>, r)" for r
    by (simp add: readIndex_def eff_run env ids)
  show "awaitU (readRecordPointer decision_records 1 (spec_name ''goal'')) r = (Inr \<lparr>fp_keyVersion = 1, fp_pointer = Some (some_address (CHR ''c''), 1, 1)\<rparr>, r)"
    "awaitU (readRecordPointer decision_records 4 (verification_name ''goal'')) r = (Inr \<lparr>fp_keyVersion = 1, fp_pointer = None\<rparr>, r)"
    "awaitU (readRecordPointer decision_records 4 (acceptance_name ''goal'')) r = (Inr \<lparr>fp_keyVersion = 1, fp_pointer = None\<rparr>, r)"
    by (simp_all add: readRecordPointer_def awaitU_def eff_run env ids index pointer_ok_def record_kinds_def spec_name_def verification_name_def acceptance_name_def)
qed

lemma decision_checks:
  "okr_under_review decision_sample decision_authority decision_okr" "check_metrics Verify 2000 [decision_metric] = Inr ()"
  "settled_for Verify decision_okr \<lparr>hb_asset = [], hb_spent = 0, hb_reserved = 0\<rparr> [decision_run]" "selectU decision_okr [decision_run] 0 = Inr (0, decision_run)"
proof -
  show "okr_under_review decision_sample decision_authority decision_okr"
    by (simp add: okr_under_review_def decision_intent decision_texts) (simp add: decision_sample_def decision_okr_def decision_authority_def decision_texts truthy_def some_address_def)
  show "check_metrics Verify 2000 [decision_metric] = Inr ()"
    by (simp add: check_metrics_ok metric_measured_def metric_fresh_def metric_reached_def decision_metric_def truthy_def some_address_def del: check_metrics.simps)
  show "settled_for Verify decision_okr \<lparr>hb_asset = [], hb_spent = 0, hb_reserved = 0\<rparr> [decision_run]"
    by (simp add: settled_for_def open_control_def decision_run_def)
  have "evidence_run decision_okr 0 decision_metric decision_run"
    by (simp add: evidence_run_def decision_okr_def decision_metric_def decision_run_def review_run_def reviewableEvidenceAgreement_def decision_texts)
  moreover have "Some (en_id (oe_run decision_run)) = hk_run_id decision_metric" "hr_metrics decision_okr ! 0 = decision_metric"
    by (simp_all add: decision_run_def review_run_def decision_metric_def decision_okr_def)
  ultimately show "selectU decision_okr [decision_run] 0 = Inr (0, decision_run)" by (simp add: selectU_def)
qed

lemma decision_source_read: "sourceU 1 decision_sample r = (Inr decision_source, r)"
proof -
  have env: "awaitU (hn_assertActive decision_sample) r = (Inr (), r)" "awaitU (hn_verifyOrganization decision_sample) r = (Inr decision_authority, r)"
    "awaitU (hn_getOkr decision_sample i) r = (Inr decision_okr, r)" "awaitU (hn_getBudget decision_sample i) r = (Inr \<lparr>hb_asset = [], hb_spent = 0, hb_reserved = 0\<rparr>, r)"
    "awaitU (hn_getPolicy decision_sample i) r = (Inr decision_policy, r)" "hn_records decision_sample = decision_records"
    "awaitU (hn_listExecutions decision_sample i c) r = (Inr \<lparr>oh_executions = [decision_run], oh_cursor = None, oh_hasNextPage = False\<rparr>, r)" for r i c
    by (simp_all add: decision_sample_def awaitU_def eff_run)
  have okr: "hr_logical_id decision_okr = ''goal''" "hr_metrics decision_okr = [decision_metric]" "hr_next_kr decision_okr = 0" "hr_spec_record decision_okr = some_address (CHR ''c'')"
    "hr_spec_revision decision_okr = 1" "hr_agreement_version decision_okr = 2" "hr_managed_version decision_okr = Some 3" by (simp_all add: decision_okr_def)
  have indices: "indices_of decision_sample decision_okr = Inr [0]" by (simp add: indices_of_def decision_intent okr)
  have authority: "''read'' \<in> set (hz_actions decision_authority)" "hz_encryptedKeys decision_authority \<noteq> []" "hz_clockMs decision_authority = 2000" "hz_authorityPin decision_authority = ''pin''"
    by (simp_all add: decision_authority_def)
  have policy: "py_agreement_version decision_policy = 2" "py_managed_version decision_policy = 3" by (simp_all add: decision_policy_def)
  show ?thesis
    by (simp add: sourceU_def eff_run env authority decision_checks decision_intent indices okr decision_pointers heads_fit_def policy decision_source_def Let_def
        del: check_metrics.simps)
qed

lemma decision_guard: "recheckU 1 decision_sample (us_pin decision_source) = okE ()"
  by (rule ext) (simp add: recheckU_def eff_run decision_source_read [unfolded One_nat_def])

definition decision_requestId :: string where
  "decision_requestId = ''okr-human:'' @ some_address (CHR ''b'') @ '':2:6:verify:0''"

lemma decision_request: "review_requestId decision_sample = decision_requestId"
  by (simp add: review_requestId_def decision_intent kind_text_def decision_requestId_def) (simp add: decision_sample_def)

definition decision_prepared :: "(idb_state, unit) mworld" where
  "decision_prepared = snd (prepare 1 flow_client indexed_db_ops \<lparr>pi_requestId = decision_requestId,
     pi_transaction = pi_transaction sample_input, pi_gasBudget = UBigInt 200000000, pi_maxSuiSpend = None\<rparr> sample_world)"

definition decision_quote :: fee_quote where
  "decision_quote = p_quote (hd (w_prepared decision_prepared))"

definition decision_ready :: "(idb_state, unit, human_pin) flow_world" where
  "decision_ready = \<lparr>fw_manager = decision_prepared, fw_plans = [(decision_quote, us_pin decision_source)]\<rparr>"

theorem decision_sent_as_reviewed_witness:
  "w_sent (fw_manager (snd (submitU 1 decision_sample indexed_db_ops decision_quote decision_ready))) \<noteq> []
   \<and> decision_sound decision_sample (us_pin decision_source) () ()"
proof -
  let ?run = "submitU 1 decision_sample indexed_db_ops decision_quote decision_ready"
  have asked: "query flow_client indexed_db_ops decision_requestId decision_prepared = (Inr None, decision_prepared)" by code_simp
  have sent: "w_sent (snd (broadcast (guarded_client flow_client (okE () :: (unit, human_review_error, unit) eff)) indexed_db_ops decision_quote decision_prepared)) \<noteq> []" by code_simp
  have none: "w_sent decision_prepared = []" by code_simp
  have env: "awaitU (hn_checkNetwork decision_sample) r = (Inr (), r)" "hn_client decision_sample = flow_client" for r by (simp_all add: decision_sample_def awaitU_def eff_run)
  have query: "queryU decision_sample indexed_db_ops decision_ready = (Inr None, decision_ready)"
    using asked by (simp add: queryU_def eff_run outsideE_def managerE_def env decision_request) (simp add: decision_ready_def)
  have "w_sent (fw_manager (snd ?run)) = w_sent (snd (broadcast (guarded_client flow_client (okE () :: (unit, human_review_error, unit) eff)) indexed_db_ops decision_quote decision_prepared))"
    by (simp add: submitU_def resumed_submit_def eff_run query guarded_submit_def env del: not_None_eq)
      (simp add: decision_ready_def eff_run decision_guard [unfolded One_nat_def] outsideE_def managerE_def del: not_None_eq split: prod.split)
  then have sent': "w_sent (fw_manager (snd ?run)) \<noteq> []" using sent by simp
  then have grown: "w_sent (fw_manager (snd ?run)) \<noteq> w_sent (fw_manager decision_ready)" using none by (simp add: decision_ready_def)
  have run: "?run = (fst ?run, snd ?run)" by simp
  from decision_sent_as_reviewed [OF run grown] obtain pin where "map_of (fw_plans decision_ready) decision_quote = Some pin"
    "decision_sound decision_sample pin () ()" by (elim exE conjE) simp
  then show ?thesis using sent' by (auto simp: decision_ready_def)
qed

definition decision_result :: execution_result where
  "decision_result = \<lparr>er_run = oe_run decision_run, er_recordId = Some ''record'', er_transactionDigest = Some ''digest'', er_response = None\<rparr>"

definition decision_view :: human_view where
  "decision_view = \<lparr>uv_handle = 0, uv_okr = decision_okr, uv_spec = sample_spec,
     uv_evidence = [\<lparr>ue_krIndex = 0, ue_metric = decision_metric, ue_result = decision_result, ue_files = [], ue_prior = None\<rparr>]\<rparr>"

text \<open>The objective after the verification, one key result further, and its acceptance.\<close>

definition decision_later :: human_okr where
  "decision_later = decision_okr\<lparr>hr_version := 7, hr_next_kr := 1, hr_metrics := [decision_metric\<lparr>hk_verified := True, hk_verification_id := Some ''seal''\<rparr>]\<rparr>"

definition decision_acceptance :: "unit human_env" where
  "decision_acceptance = decision_sample\<lparr>hn_intent := humanReviewIntent decision_later\<rparr>"

theorem verification_counts_at_acceptance_witness:
  "\<exists>v. json_parse (decision_text decision_sample decision_source decision_view ''seen'') = Some v
    \<and> verification_ok decision_acceptance decision_later (0, decision_run) (hr_metrics decision_later ! 0) decision_result
        (review_record\<lparr>rd_writer_human := some_address (CHR ''3''), rd_grant_id := some_address (CHR ''4'')\<rparr>) v"
proof -
  have reason: "trim ''seen'' = ''seen''" by code_simp
  have ids: "is_object_id (some_address c)" if "c \<in> {CHR ''2'', CHR ''4'', CHR ''b''}" for c
    using that by (auto simp: some_address_id is_lower_hex_def is_digit_def)
  have made: "new_review_ok (hn_grantId decision_sample) (hn_organizationId decision_sample) (hn_okrId decision_sample) (hn_intent decision_sample) = Inr ()"
    by (simp add: new_review_ok_def decision_intent decision_texts) (simp add: decision_sample_def ids)
  have "\<exists>v. json_parse (decision_text decision_sample decision_source decision_view (trim ''seen'')) = Some v
    \<and> verification_ok decision_acceptance decision_later (0, decision_run) (hr_metrics decision_later ! 0) decision_result
        (review_record\<lparr>rd_writer_human := some_address (CHR ''3''), rd_grant_id := some_address (CHR ''4'')\<rparr>) v"
    by (rule verification_counts_at_acceptance [OF _ decision_source_read made,
          where x = "\<lparr>ue_krIndex = 0, ue_metric = decision_metric, ue_result = decision_result, ue_files = [], ue_prior = None\<rparr>" and e = decision_run])
      (simp_all only: reason, simp_all add: decision_intent, simp_all add: decision_source_def decision_view_def decision_sample_def decision_acceptance_def decision_later_def
        decision_okr_def decision_authority_def decision_metric_def Let_def)
  then show ?thesis by (simp only: reason)
qed

end
