(* ===== verification/Spec2Isabelle.thy ===== *)
theory Spec2Isabelle
  imports Gateway Direct_Conversation Autonomy_Guarantees Host_Fleet Okr_Draft_Flow Host_Health Direct_Approval Native_Guarantees Coordinator_Client Okr_Control Okr_Assign Okr_Human_Review
begin

text \<open>
  A verification library for FractalMind OS: the TypeScript core of the FractalMind app
  (\<^verbatim>\<open>apps/fractalmind-app/src\<close>), of the protocol SDK (\<^verbatim>\<open>protocols/fractalmind-protocol/sdk/src\<close>) and of the
  sentinel gateway (\<^verbatim>\<open>runtime/fractalmind-envd/gateway/src\<close>).

  \<^bold>\<open>The program.\<close> A device pays and signs its own Sui transactions. Every flow of the app asks the
  \<^emph>\<open>transaction manager\<close> for a fee quote and submits it later; the manager keeps a \<^emph>\<open>journal\<close> in IndexedDB,
  shared by all windows, so that no request is broadcast twice and no two pending requests use the same
  gas. Above it are flows that prepare a step, remember what it rests on and sign only while that still
  holds (\<^emph>\<open>OKR drafts\<close>, \<^emph>\<open>assignments\<close>, \<^emph>\<open>handover approvals\<close>, the Human's \<^emph>\<open>verification and acceptance\<close>, \<^emph>\<open>control\<close> of a Run, \<^emph>\<open>host health checks\<close>, the \<^emph>\<open>autonomy session\<close>), the \<^emph>\<open>OKR runner\<close>, which advances an approved
  objective by signed commands prepared and delivered under guards, readers that turn chain facts into
  what is shown (\<^emph>\<open>navigation\<close>, \<^emph>\<open>host fleet\<close>, \<^emph>\<open>transaction history\<close>, \<^emph>\<open>direct conversation\<close>, \<^emph>\<open>approval
  queue\<close>, \<^emph>\<open>execution results\<close>), and \<^emph>\<open>signed node commands\<close>, which reach a host through the \<^emph>\<open>gateway\<close> or
  the \<^emph>\<open>Coordinator\<close> it was admitted with.

  \<^bold>\<open>Theories and sources.\<close>
  \<^item> \<open>Prelude\<close>: results, effectful actions \<open>('world, 'error, 'value) eff\<close>, what actions keep, decimal texts.
    \<open>Js_Text\<close>: the string functions of JavaScript that the sources use. \<open>Json_Text\<close>, \<open>Json_Parse\<close>,
    \<open>Canonical_Json\<close>: JSON values, \<^verbatim>\<open>JSON.stringify\<close> (injective), \<^verbatim>\<open>JSON.parse\<close> (its left inverse), sorted keys;
    \<open>Json_Bounds\<close>: how long a written text can be.
  \<^item> \<open>Transaction_Journal\<close>, \<open>Transaction_Manager\<close>, \<open>Submission_System\<close>, \<open>Manager_Guarantees\<close>:
    \<^verbatim>\<open>sdk/src/transaction-manager.ts\<close>, \<^verbatim>\<open>browser-transaction-journal.ts\<close> and \<^verbatim>\<open>toBigInt\<close> of \<^verbatim>\<open>client.ts\<close>. The locale
    \<open>transaction_journal\<close> states what a journal promises; IndexedDB with faulty requests and the in-memory
    journal are its interpretations. \<open>Submission_System\<close> interleaves several windows over one journal.
  \<^item> \<open>Transaction_History\<close>: \<^verbatim>\<open>transaction-history.ts\<close>, and its agreement with the manager.
  \<^item> \<open>Gateway\<close>: \<^verbatim>\<open>sentinel-manager.ts\<close>, \<^verbatim>\<open>routes.ts\<close> and \<^verbatim>\<open>types.ts\<close> of the gateway as a state machine.
  \<^item> \<open>Direct_Unresolved\<close>, \<open>Direct_Conversation\<close>: \<^verbatim>\<open>direct-unresolved.ts\<close>, \<^verbatim>\<open>direct-conversation-state.ts\<close>.
    \<open>Direct_Approval\<close>: \<^verbatim>\<open>direct-approval-queue.ts\<close>.
  \<^item> \<open>Okr_Autonomy\<close>, \<open>Autonomy_Guarantees\<close>: \<^verbatim>\<open>okr-autonomy.ts\<close>, \<^verbatim>\<open>okr-delivery-journal.ts\<close>.
  \<^item> \<open>Navigation\<close>: \<^verbatim>\<open>domain.ts\<close> and the progress arithmetic of \<^verbatim>\<open>sdk/src/okr.ts\<close>. \<open>Host_Fleet\<close>: \<^verbatim>\<open>host-fleet.ts\<close>.
  \<^item> \<open>Execution_Boundary\<close>: \<^verbatim>\<open>execution-boundary.ts\<close>, the plan parser of \<^verbatim>\<open>okr-runner.ts\<close>, \<^verbatim>\<open>directRequestHash\<close>.
    \<open>Message_Source\<close>: \<^verbatim>\<open>message-okr-source.ts\<close>. \<open>Okr_Spec\<close>: the validation in \<^verbatim>\<open>okr-draft.ts\<close> and
    \<^verbatim>\<open>handover-plan.ts\<close>.
  \<^item> \<open>Guarded_Flow\<close>: what the transaction flows share, with the locale \<open>submission_flow\<close>; \<open>Okr_Draft_Flow\<close>
    (\<^verbatim>\<open>OkrDraftCreation\<close> of \<^verbatim>\<open>okr-draft.ts\<close>), \<open>Host_Health\<close> (\<^verbatim>\<open>host-health.ts\<close>),
    \<open>Okr_Control\<close> (\<^verbatim>\<open>okr-control.ts\<close>), \<open>Handover_Approval\<close> (\<^verbatim>\<open>handover-approval.ts\<close>, which puts the
    review, the history of the agent, the private records and the plan together) and \<open>Okr_Human_Review\<close>
    (\<^verbatim>\<open>okr-human-review.ts\<close>, the verification and acceptance of an objective) interpret it. \<open>Okr_Assign\<close>: \<^verbatim>\<open>okr-assign.ts\<close>.
  \<^item> \<open>Node_Command\<close>: \<^verbatim>\<open>node-command.ts\<close>, \<^verbatim>\<open>node-command-wire.ts\<close> and the verification in \<^verbatim>\<open>node-execution.ts\<close>.
    \<open>Transaction_Visibility\<close>: \<^verbatim>\<open>transaction-visibility.ts\<close>.
  \<^item> \<open>Okr_Runner\<close>, \<open>Runner_Tickets\<close>, \<open>Runner_Guarantees\<close>: the runner in \<^verbatim>\<open>sdk/src/okr-runner.ts\<close>, its tickets, what a step may do.
    \<open>Runner_Provider\<close>: the locale \<open>runner_provider\<close>, what a step does to the world of its options. \<open>Selfpay_Submit\<close>:
    \<^verbatim>\<open>selfpay-okr-submit.ts\<close>, with the locale \<open>ticket_submitter\<close>.
  \<^item> \<open>Command_Results\<close>: \<^verbatim>\<open>command-results.ts\<close>. \<open>Private_Records\<close>: \<^verbatim>\<open>record-pointer.ts\<close>, \<^verbatim>\<open>private-records.ts\<close>.
    \<open>Native_Runner\<close>, \<open>Native_Guarantees\<close>: \<^verbatim>\<open>native-okr-runner.ts\<close>, which puts all of them together; its guarantees rest on the locale
    \<open>native_provider\<close>, a \<open>runner_provider\<close>, interpreted once for what was signed and once for the journal.
  \<^item> \<open>Handover_Proof\<close>: the Host's proof of a review in \<^verbatim>\<open>sdk/src/handover.ts\<close>. \<open>Execution_Results\<close>: \<^verbatim>\<open>execution-results.ts\<close>.
    \<open>Node_Execution\<close>: the readers and preparations of \<^verbatim>\<open>sdk/src/node-execution.ts\<close>, with the byte texts of \<^verbatim>\<open>wire-bytes.ts\<close>.
  \<^item> \<open>Coordinator_Client\<close>: \<^verbatim>\<open>coordinator-read.ts\<close>, signed reads from and commands to the Coordinator of a Host.

  \<^bold>\<open>How code is rendered.\<close> An object's state is a record, passed explicitly; an \<^verbatim>\<open>async\<close> method is an action on
  that record which returns a value or an error of the class the code throws. Code outside the
  repository, chain and device I/O, the clock, hashing and signatures are fields of environment
  records: an environment function takes the outside state and may answer anything, including failures,
  so theorems hold whatever it answers unless a hypothesis says otherwise. Texts are \<open>string\<close>s and stand
  for their UTF-8 bytes; \<^verbatim>\<open>bigint\<close> and integral numbers are \<open>int\<close>, with the range checks of the code
  written out; u64 fields of chain objects are integers; progress is kept in exact millionths.

  \<^bold>\<open>What is shown.\<close> Of the manager: over every interleaving and every database fault a request is broadcast at
  most once and gas is never shared; a submission that throws has sent nothing; what is sent is a verified,
  unused quote; an outcome claims only what a matching receipt proves; quotes and selected coins are sound.
  Of the runner: a step submits at most one ticket and delivers at most one command, both only as approved, on what it read of the objective and its Runs; after an unknown outcome a
  ticket is submitted again only once its Run was read; the native runner broadcasts only what was approved and signed between two passes of its guard, over all operations and restarts. Of the flows: a broadcast happens only while the reviewed authority, deadline, host or session limit
  holds, by readings made in a stated order right before and right after the signature. Of the readers: what is shown as current rests on facts that were read and are fresh. Of the data:
  specifications, records, commands and boundaries survive their text form, and hashes and namespaces
  stand for one value. Of the gateway: each command is answered once. Of the Coordinator: no request is sent
  twice, and an answer counts only with the Coordinator's signature over this request. Of results and proofs:
  a result is the original record of its Run, a review is signed by its own Host and bound to its terms.

  \<^bold>\<open>Bounds and fuel.\<close> Loops over pages take the number of pages as fuel and the theorems \<open>gasCoins_ends\<close> and
  \<open>draft_search_ends\<close> show how much is enough (1002 pages for a directory whose pages are not empty), as does
  \<open>owned_runs_fuel\<close> for the listing of capabilities; the listings of an assignment end by \<open>activeFrom_ends\<close> and \<open>recordsFrom_ends\<close>,
  the history of an agent by \<open>coverPages_fuel\<close>, the executions of an objective by \<open>executions_fuel\<close> (1001 pages);
  \<open>awaitTransactionVisible\<close> has its own bound of 40 attempts, and a record is read over at most 1001 revisions (\<open>record_walk_ends\<close>). Every other recursion is structural.

  \<^bold>\<open>Assumptions.\<close> A flow object runs one submission at a time, as its callers do; \<open>overlapping_delivery\<close> of
  \<open>Host_Health\<close> and \<open>guard_overwritten\<close> of \<open>Native_Guarantees\<close> show what overlapping calls could do. JavaScript's numbers beyond the safe integers
  are treated as the exact integers they are rounded from, where the code does not reject them.

  \<^bold>\<open>Not modelled.\<close> The React interface and hooks; scripts that drive test networks; the other flows of the app
  (direct agent controller, interventions, the setup and review of a handover, admission, import, pairing, onboarding,
  recovery), which have the shape of \<open>Guarded_Flow\<close> and are next; the coalescing of concurrent steps of a runner; builders of Move calls and BCS parsers,
  which only rename fields around an external client; Go, Rust, Move and Python parts of the repository; the
  console and the explorer, which display data.
\<close>

end
